(* ===== verification/Prelude.thy ===== *)
theory Prelude
  imports Main "HOL-Library.Char_ord" "HOL-Library.Finite_Map" "HOL-Library.List_Lexorder" "HOL-Library.Sublist" "HOL-Library.Word"
begin

text \<open>
  What every component of the development shares: the fact collections, the text
  operations of the Rust standard library that the source uses, unsigned 64-bit
  arithmetic on naturals, and lemmas on finite maps and finite sets.

  A Rust \<^verbatim>\<open>String\<close> is a \<^typ>\<open>string\<close>, the list of its bytes; a \<^verbatim>\<open>char\<close> of the source is
  one such byte, so the operations that look at single characters (lower-casing,
  white space, the wildcards of a glob) are exact on ASCII text.  A \<^verbatim>\<open>HashMap\<close> or
  \<^verbatim>\<open>BTreeMap\<close> is a finite map, a \<^verbatim>\<open>HashSet\<close> or \<^verbatim>\<open>BTreeSet\<close> a finite set; the iteration
  order of the ordered ones is \<^const>\<open>sorted_list_of_fset\<close>.
\<close>

section \<open>Collections of facts\<close>

named_theorems inv_intros \<open>introduction rules for the component invariants\<close>
named_theorems frame_simps \<open>fields an operation leaves unchanged\<close>

section \<open>Unsigned 64-bit arithmetic\<close>

text \<open>
  \<^verbatim>\<open>u64\<close> and \<^verbatim>\<open>usize\<close> values are naturals.  The subtraction of \<^typ>\<open>nat\<close> stops at zero, which is
  \<^verbatim>\<open>saturating_sub\<close>; \<^verbatim>\<open>saturating_add\<close> and the plain \<^verbatim>\<open>+\<close> of a release build (which wraps)
  are written out where the source relies on them.
\<close>

definition u64_max :: nat where
  "u64_max = 2 ^ 64 - 1"

definition saturating_add :: "nat \<Rightarrow> nat \<Rightarrow> nat" where
  "saturating_add a b = min (a + b) u64_max"

definition wrapping_add :: "nat \<Rightarrow> nat \<Rightarrow> nat" where
  "wrapping_add a b = (a + b) mod 2 ^ 64"

lemma saturating_add_exact: "a + b \<le> u64_max \<Longrightarrow> saturating_add a b = a + b"
  by (simp add: saturating_add_def)

lemma saturating_add_le_max: "saturating_add a b \<le> u64_max"
  by (simp add: saturating_add_def)

lemma saturating_add_less_iff:
  "c \<le> u64_max \<Longrightarrow> saturating_add a b < c \<longleftrightarrow> a + b < c"
  by (auto simp: saturating_add_def)

lemma wrapping_add_exact: "a + b \<le> u64_max \<Longrightarrow> wrapping_add a b = a + b"
  by (simp add: wrapping_add_def u64_max_def)

section \<open>Text\<close>

definition ascii_lower :: "char \<Rightarrow> char" where
  "ascii_lower c =
     (let n = (of_char c :: nat) in if 65 \<le> n \<and> n \<le> 90 then char_of (n + 32) else c)"

definition to_lowercase :: "string \<Rightarrow> string" where
  "to_lowercase s = map ascii_lower s"

definition is_whitespace :: "char \<Rightarrow> bool" where
  "is_whitespace c = (let n = (of_char c :: nat) in n = 32 \<or> (9 \<le> n \<and> n \<le> 13))"

definition trim_start :: "string \<Rightarrow> string" where
  "trim_start s = dropWhile is_whitespace s"

definition trim_end :: "string \<Rightarrow> string" where
  "trim_end s = rev (dropWhile is_whitespace (rev s))"

definition trim :: "string \<Rightarrow> string" where
  "trim s = trim_end (trim_start s)"

definition starts_with :: "string \<Rightarrow> string \<Rightarrow> bool" where
  "starts_with s p = prefix p s"

definition strip_prefix :: "string \<Rightarrow> string \<Rightarrow> string option" where
  "strip_prefix s p = (if prefix p s then Some (drop (length p) s) else None)"

fun str_contains :: "string \<Rightarrow> string \<Rightarrow> bool" where
  "str_contains [] needle = (needle = [])"
| "str_contains (c # s) needle = (prefix needle (c # s) \<or> str_contains s needle)"

text \<open>\<^verbatim>\<open>str::split(c)\<close>: always at least one piece.\<close>

fun split_on :: "char \<Rightarrow> string \<Rightarrow> string list" where
  "split_on d [] = [[]]"
| "split_on d (c # s) =
     (if c = d then [] # split_on d s
      else case split_on d s of [] \<Rightarrow> [[c]] | w # ws \<Rightarrow> (c # w) # ws)"

fun join_with :: "string \<Rightarrow> string list \<Rightarrow> string" where
  "join_with sep [] = []"
| "join_with sep [w] = w"
| "join_with sep (w # v # ws) = w @ sep @ join_with sep (v # ws)"

text \<open>\<^verbatim>\<open>str::rfind(c)\<close>, the index of the last occurrence.\<close>

fun rfind :: "char \<Rightarrow> string \<Rightarrow> nat option" where
  "rfind d [] = None"
| "rfind d (c # s) =
     (case rfind d s of Some i \<Rightarrow> Some (Suc i) | None \<Rightarrow> if c = d then Some 0 else None)"

text \<open>The decimal digits that \<^verbatim>\<open>format!\<close> prints for an unsigned number.\<close>

fun show_nat :: "nat \<Rightarrow> string" where
  "show_nat n =
     (if n < 10 then [char_of (48 + n)] else show_nat (n div 10) @ [char_of (48 + n mod 10)])"

declare show_nat.simps [simp del]

lemma strip_prefix_append [simp]: "strip_prefix (p @ s) p = Some s"
  by (simp add: strip_prefix_def)

lemma strip_prefix_SomeD: "strip_prefix s p = Some r \<Longrightarrow> s = p @ r"
  by (auto simp: strip_prefix_def prefix_def split: if_splits)

lemma split_on_not_Nil [simp]: "split_on d s \<noteq> []"
  by (induction s) (auto split: list.splits)

lemma split_on_none: "d \<notin> set w \<Longrightarrow> split_on d w = [w]"
  by (induction w) auto

lemma split_on_append: "d \<notin> set w \<Longrightarrow> split_on d (w @ d # s) = w # split_on d s"
  by (induction w) (auto split: list.splits)

lemma split_on_join:
  assumes "\<forall>w \<in> set ws. d \<notin> set w" and "ws \<noteq> []"
  shows "split_on d (join_with [d] ws) = ws"
  using assms
proof (induction "[d]" ws rule: join_with.induct)
  case (3 w v ws)
  then show ?case by (simp add: split_on_append)
qed (auto simp: split_on_none)

lemma join_split_on: "join_with [d] (split_on d s) = s"
proof (induction s)
  case (Cons c s)
  then show ?case
    by (cases "split_on d s" rule: list.exhaust)
       (auto, (metis join_with.simps(2,3) list.exhaust append_Cons)+)
qed simp

lemma split_on_pieces: "w \<in> set (split_on d s) \<Longrightarrow> d \<notin> set w"
proof (induction s arbitrary: w)
  case (Cons c s)
  obtain v vs where v: "split_on d s = v # vs"
    using split_on_not_Nil by (meson list.exhaust)
  then show ?case using Cons by (auto split: if_splits)
qed simp

lemma rfind_SomeD:
  "rfind d s = Some i \<Longrightarrow> i < length s \<and> s ! i = d \<and> d \<notin> set (drop (Suc i) s)"
proof (induction s arbitrary: i)
  case (Cons c s)
  have none: "rfind d s = None \<Longrightarrow> d \<notin> set s" for s
    by (induction s) (auto split: option.splits if_splits)
  from Cons show ?case by (auto split: option.splits if_splits simp: none)
qed simp

lemma rfind_None_iff: "rfind d s = None \<longleftrightarrow> d \<notin> set s"
  by (induction s) (auto split: option.splits)

text \<open>Printing a number loses nothing: the printed text can be read back.\<close>

definition digit_value :: "char \<Rightarrow> nat" where
  "digit_value c = of_char c - 48"

definition read_nat :: "string \<Rightarrow> nat" where
  "read_nat s = foldl (\<lambda>n c. 10 * n + digit_value c) 0 s"

lemma read_show_nat [simp]: "read_nat (show_nat n) = n"
proof (induction n rule: show_nat.induct)
  case (1 n)
  have digit: "digit_value (char_of (48 + d)) = d" if "d < 10" for d
    using that by (simp add: digit_value_def)
  show ?case
  proof (cases "n < 10")
    case True
    then show ?thesis by (simp add: show_nat.simps [of n] read_nat_def digit)
  next
    case False
    then have "read_nat (show_nat n) = 10 * read_nat (show_nat (n div 10)) + n mod 10"
      by (simp add: show_nat.simps [of n] read_nat_def digit)
    with 1 False show ?thesis by simp
  qed
qed

lemma show_nat_inject [simp]: "show_nat m = show_nat n \<longleftrightarrow> m = n"
  by (metis read_show_nat)

section \<open>Finite maps and finite sets\<close>

text \<open>\<^verbatim>\<open>map.get(k).copied().unwrap_or(d)\<close>.\<close>

definition fmget_or :: "'v \<Rightarrow> ('k, 'v) fmap \<Rightarrow> 'k \<Rightarrow> 'v" where
  "fmget_or d m k = (case fmlookup m k of Some v \<Rightarrow> v | None \<Rightarrow> d)"

lemma fmget_or_upd [simp]:
  "fmget_or d (fmupd k v m) k' = (if k = k' then v else fmget_or d m k')"
  by (simp add: fmget_or_def)

lemma fmget_or_empty [simp]: "fmget_or d fmempty k = d"
  by (simp add: fmget_or_def)

lemma fmlookup_drop_if [simp]:
  "fmlookup (fmdrop a m) b = (if a = b then None else fmlookup m b)"
  by (cases "a = b") auto

lemma fmget_or_drop [simp]:
  "fmget_or d (fmdrop k m) k' = (if k = k' then d else fmget_or d m k')"
  by (simp add: fmget_or_def)

text \<open>The values of an ordered map, in the order of their keys.\<close>

definition fmvalues :: "('k :: linorder, 'v) fmap \<Rightarrow> 'v list" where
  "fmvalues m = map (\<lambda>k. the (fmlookup m k)) (sorted_list_of_fset (fmdom m))"

lemma sorted_list_of_fset_single: "sorted_list_of_fset {|x|} = [x]"
  by (simp add: sorted_list_of_fset.rep_eq)

lemma set_fmvalues: "v \<in> set (fmvalues m) \<longleftrightarrow> (\<exists>k. fmlookup m k = Some v)"
  by (auto simp: fmvalues_def fmlookup_dom_iff image_iff) (metis fmdomI option.sel)+

lemma distinct_sorted_list_of_fset [simp]: "distinct (sorted_list_of_fset S)"
  by (simp add: sorted_list_of_fset.rep_eq)

lemma sorted_sorted_list_of_fset [simp]: "sorted (sorted_list_of_fset S)"
  by (simp add: sorted_list_of_fset.rep_eq)

lemma sorted_list_of_fset_empty [simp]: "sorted_list_of_fset {||} = []"
  by (simp add: sorted_list_of_fset.rep_eq)

lemma sorted_list_of_fset_eq_Nil [simp]: "sorted_list_of_fset S = [] \<longleftrightarrow> S = {||}"
  by (metis fset_of_list_simps(1) sorted_list_of_fset_empty sorted_list_of_fset_simps(2))

lemma length_sorted_list_of_fset [simp]: "length (sorted_list_of_fset S) = fcard S"
  by (simp add: fcard.rep_eq flip: distinct_card [OF distinct_sorted_list_of_fset])

lemma in_map_filter: "y \<in> set (List.map_filter f xs) \<longleftrightarrow> (\<exists>x \<in> set xs. f x = Some y)"
  by (induction xs) (auto simp: List.map_filter_simps split: option.splits)

text \<open>A sum over the members of a list splits when one member's value changes.\<close>

lemma sum_list_map_update:
  fixes f g :: "'a \<Rightarrow> nat"
  assumes "distinct xs" and "x \<in> set xs" and "\<And>y. y \<in> set xs \<Longrightarrow> y \<noteq> x \<Longrightarrow> g y = f y"
  shows "sum_list (map g xs) + f x = sum_list (map f xs) + g x"
proof -
  have "sum g (set xs - {x}) = sum f (set xs - {x})"
    by (rule sum.cong) (use assms in auto)
  then show ?thesis
    using assms by (simp add: sum_list_distinct_conv_sum_set sum.remove [of _ x])
qed

lemma sum_list_map_remove:
  fixes f :: "'a \<Rightarrow> nat"
  assumes "distinct xs" and "x \<in> set xs"
  shows "sum_list (map f (filter (\<lambda>y. y \<noteq> x) xs)) + f x = sum_list (map f xs)"
proof -
  have "sum f {y \<in> set xs. y \<noteq> x} = sum f (set xs - {x})"
    by (rule arg_cong [of _ _ "sum f"]) auto
  with assms show ?thesis
    by (simp add: sum_list_distinct_conv_sum_set sum.remove [of _ x])
qed

text \<open>
  Programs as transition systems.  The interface between a component that is driven by
  events and the proofs about it: where it starts, what a step does, and an invariant that
  the start has and every step keeps.
\<close>

inductive reach :: "('s \<Rightarrow> bool) \<Rightarrow> ('s \<Rightarrow> 's \<Rightarrow> bool) \<Rightarrow> 's \<Rightarrow> bool"
  for start :: "'s \<Rightarrow> bool" and step :: "'s \<Rightarrow> 's \<Rightarrow> bool"
where
  reach_start: "start s \<Longrightarrow> reach start step s"
| reach_step: "reach start step s \<Longrightarrow> step s t \<Longrightarrow> reach start step t"

inductive_cases reachE: "reach start step s"

locale safe_machine =
  fixes start :: "'s \<Rightarrow> bool" and step :: "'s \<Rightarrow> 's \<Rightarrow> bool" and inv :: "'s \<Rightarrow> bool"
  assumes start_inv: "start s \<Longrightarrow> inv s"
    and step_inv: "inv s \<Longrightarrow> step s t \<Longrightarrow> inv t"
begin

lemma reach_inv: "reach start step s \<Longrightarrow> inv s"
  by (induction rule: reach.induct) (auto intro: start_inv step_inv)

lemma steps_inv: "step\<^sup>*\<^sup>* s t \<Longrightarrow> inv s \<Longrightarrow> inv t"
  by (induction rule: rtranclp_induct) (auto intro: step_inv)

end

text \<open>A machine that hands out identifiers and never takes one back.\<close>

locale issuing_machine = safe_machine start step inv
  for start :: "'s \<Rightarrow> bool" and step :: "'s \<Rightarrow> 's \<Rightarrow> bool" and inv :: "'s \<Rightarrow> bool" +
  fixes issued :: "'s \<Rightarrow> nat" and holds :: "'s \<Rightarrow> nat \<Rightarrow> bool"
  assumes issued_mono: "inv s \<Longrightarrow> step s t \<Longrightarrow> issued s \<le> issued t"
    and holds_issued: "inv s \<Longrightarrow> holds s i \<Longrightarrow> i < issued s"
    and step_holds: "inv s \<Longrightarrow> step s t \<Longrightarrow> holds t i \<Longrightarrow> holds s i \<or> issued s \<le> i"
begin

lemma steps_issued: "step\<^sup>*\<^sup>* s t \<Longrightarrow> inv s \<Longrightarrow> issued s \<le> issued t"
proof (induction rule: rtranclp_induct)
  case (step t u)
  then show ?case using issued_mono [of t u] steps_inv [of s t] by simp
qed simp

text \<open>An identifier that is gone never comes back.\<close>

lemma gone_for_good:
  assumes "step\<^sup>*\<^sup>* s t" and "inv s" and "i < issued s" and "\<not> holds s i"
  shows "\<not> holds t i"
  using assms
proof (induction rule: rtranclp_induct)
  case (step t u)
  then have "inv t" and "issued s \<le> issued t"
    using steps_inv steps_issued by blast+
  with step show ?case using step_holds [of t u i] by auto
qed

end

end
