(* ===== verification/Rust_Path.thy ===== *)
theory Rust_Path
  imports Prelude
begin

text \<open>
  The path operations of the Rust standard library on Unix, as far as the source uses
  them.  A \<^verbatim>\<open>Path\<close> or \<^verbatim>\<open>PathBuf\<close> is the list of its components, which is what the standard
  library compares, hashes and orders paths by: repeated and trailing slashes and inner
  \<^verbatim>\<open>.\<close> components are not part of it, so a path is taken in its canonical spelling.
\<close>

section \<open>Components and paths\<close>

datatype component = RootDir | CurDir | ParentDir | Normal string

type_synonym path = "component list"

text \<open>The derived order of \<^verbatim>\<open>Component\<close>: by constructor, then by the bytes of the name.\<close>

definition component_key :: "component \<Rightarrow> nat \<times> string" where
  "component_key c =
     (case c of RootDir \<Rightarrow> (0, []) | CurDir \<Rightarrow> (1, []) | ParentDir \<Rightarrow> (2, []) | Normal n \<Rightarrow> (3, n))"

lemma component_key_inject [simp]: "component_key a = component_key b \<longleftrightarrow> a = b"
  by (cases a; cases b) (auto simp: component_key_def)

instantiation component :: linorder
begin

definition less_eq_component :: "component \<Rightarrow> component \<Rightarrow> bool" where
  "less_eq_component a b \<longleftrightarrow>
     fst (component_key a) < fst (component_key b) \<or>
     fst (component_key a) = fst (component_key b) \<and> snd (component_key a) \<le> snd (component_key b)"

definition less_component :: "component \<Rightarrow> component \<Rightarrow> bool" where
  "less_component a b \<longleftrightarrow> a \<le> b \<and> \<not> b \<le> (a :: component)"

instance
proof
  fix a b c :: component
  show "a < b \<longleftrightarrow> a \<le> b \<and> \<not> b \<le> a" by (simp add: less_component_def)
  show "a \<le> a" by (simp add: less_eq_component_def)
  show "a \<le> b \<Longrightarrow> b \<le> c \<Longrightarrow> a \<le> c" by (auto simp: less_eq_component_def)
  show "a \<le> b \<Longrightarrow> b \<le> a \<Longrightarrow> a = b"
    by (metis component_key_inject less_eq_component_def order_antisym_conv order_less_asym prod_eqI)
  show "a \<le> b \<or> b \<le> a" by (auto simp: less_eq_component_def)
qed

end

definition file_sep :: char where
  "file_sep = CHR ''/''"

definition dot :: string where
  "dot = ''.''"

definition dot_dot :: string where
  "dot_dot = ''..''"

section \<open>Reading and writing a path\<close>

fun component_of_segment :: "string \<Rightarrow> path" where
  "component_of_segment s =
     (if s = [] \<or> s = dot then [] else if s = dot_dot then [ParentDir] else [Normal s])"

definition path_of_string :: "string \<Rightarrow> path" where
  "path_of_string s =
     (let segments = split_on file_sep s;
          rest = concat (map component_of_segment segments)
      in if starts_with s [file_sep] then RootDir # rest
         else if hd segments = dot then CurDir # rest
         else rest)"

fun segment_of_component :: "component \<Rightarrow> string" where
  "segment_of_component RootDir = []"
| "segment_of_component CurDir = dot"
| "segment_of_component ParentDir = dot_dot"
| "segment_of_component (Normal n) = n"

text \<open>\<^verbatim>\<open>to_string_lossy\<close>, \<^verbatim>\<open>as_os_str\<close> and \<^verbatim>\<open>display\<close> of a path in its canonical spelling.\<close>

fun string_of_path :: "path \<Rightarrow> string" where
  "string_of_path [RootDir] = [file_sep]"
| "string_of_path p = join_with [file_sep] (map segment_of_component p)"

definition is_absolute :: "path \<Rightarrow> bool" where
  "is_absolute p \<longleftrightarrow> (case p of RootDir # _ \<Rightarrow> True | _ \<Rightarrow> False)"

text \<open>\<^verbatim>\<open>Path::join\<close>: an absolute argument replaces the base; a leading \<^verbatim>\<open>.\<close> disappears.\<close>

definition path_join :: "path \<Rightarrow> path \<Rightarrow> path" where
  "path_join p q =
     (if is_absolute q then q
      else if p = [] then q
      else p @ (case q of CurDir # r \<Rightarrow> r | _ \<Rightarrow> q))"

definition join_name :: "path \<Rightarrow> string \<Rightarrow> path" where
  "join_name p n = path_join p (path_of_string n)"

definition path_parent :: "path \<Rightarrow> path option" where
  "path_parent p = (if p = [] \<or> last p = RootDir then None else Some (butlast p))"

definition file_name :: "path \<Rightarrow> string option" where
  "file_name p =
     (if p = [] then None else case last p of Normal n \<Rightarrow> Some n | _ \<Rightarrow> None)"

text \<open>\<^verbatim>\<open>Path::ancestors\<close>: the path itself, then its parents.\<close>

function path_ancestors :: "path \<Rightarrow> path list" where
  "path_ancestors p =
     (case path_parent p of None \<Rightarrow> [p] | Some q \<Rightarrow> p # path_ancestors q)"
  by pat_completeness auto
termination
  by (relation "measure length") (auto simp: path_parent_def split: if_splits)

declare path_ancestors.simps [simp del]

definition path_starts_with :: "path \<Rightarrow> path \<Rightarrow> bool" where
  "path_starts_with p base \<longleftrightarrow> prefix base p"

definition with_file_name :: "path \<Rightarrow> string \<Rightarrow> path" where
  "with_file_name p n = join_name (if file_name p = None then p else butlast p) n"

text \<open>\<^verbatim>\<open>OsString::push\<close> of a suffix without a separator: it extends the last component.\<close>

definition push_suffix :: "path \<Rightarrow> string \<Rightarrow> path" where
  "push_suffix p s =
     (if p = [] \<or> last p = RootDir then p @ [Normal s]
      else butlast p @ [Normal (segment_of_component (last p) @ s)])"

section \<open>Well-formed names and paths\<close>

text \<open>A name a component can have; a path whose root or leading dot only comes first.\<close>

definition wf_name :: "string \<Rightarrow> bool" where
  "wf_name n \<longleftrightarrow> n \<noteq> [] \<and> n \<noteq> dot \<and> n \<noteq> dot_dot \<and> file_sep \<notin> set n"

fun plain_component :: "component \<Rightarrow> bool" where
  "plain_component (Normal n) = wf_name n"
| "plain_component ParentDir = True"
| "plain_component RootDir = False"
| "plain_component CurDir = False"

definition wf_path :: "path \<Rightarrow> bool" where
  "wf_path p \<longleftrightarrow>
     (case p of
        [] \<Rightarrow> True
      | c # cs \<Rightarrow> (c = RootDir \<or> c = CurDir \<or> plain_component c) \<and> list_all plain_component cs)"

lemma plain_segment:
  "plain_component c \<Longrightarrow>
     file_sep \<notin> set (segment_of_component c) \<and> segment_of_component c \<noteq> [] \<and>
     segment_of_component c \<noteq> dot \<and> component_of_segment (segment_of_component c) = [c]"
  by (cases c) (auto simp: wf_name_def dot_def dot_dot_def file_sep_def)

lemma map_plain_segments:
  "list_all plain_component cs \<Longrightarrow>
     concat (map (component_of_segment \<circ> segment_of_component) cs) = cs"
  by (induction cs) (simp_all add: plain_segment del: component_of_segment.simps)

lemma split_segments:
  "list_all (\<lambda>c. file_sep \<notin> set (segment_of_component c)) cs \<Longrightarrow> cs \<noteq> [] \<Longrightarrow>
     split_on file_sep (join_with [file_sep] (map segment_of_component cs)) =
       map segment_of_component cs"
  by (rule split_on_join) (auto simp: list_all_iff)

lemma plain_list_segments:
  "list_all plain_component cs \<Longrightarrow> list_all (\<lambda>c. file_sep \<notin> set (segment_of_component c)) cs"
  by (auto simp: list_all_iff dest: plain_segment)

lemma starts_join_plain:
  assumes "segment_of_component c \<noteq> []" and "file_sep \<notin> set (segment_of_component c)"
  shows "\<not> starts_with (join_with [file_sep] (map segment_of_component (c # cs))) [file_sep]"
  using assms
  by (cases cs; cases "segment_of_component c") (auto simp: starts_with_def)

text \<open>Printing a well-formed path and reading it back gives the same path.\<close>

lemma path_of_string_of_path:
  assumes "wf_path p"
  shows "path_of_string (string_of_path p) = p"
proof (cases p)
  case Nil
  then show ?thesis
    by (simp add: path_of_string_def starts_with_def dot_def)
next
  case (Cons c cs)
  with assms have plain: "list_all plain_component cs"
    and c: "c = RootDir \<or> c = CurDir \<or> plain_component c"
    by (auto simp: wf_path_def)
  have segs: "concat (map component_of_segment (map segment_of_component cs)) = cs"
    using map_plain_segments [OF plain] by (simp add: comp_def)
  have no_sep: "list_all (\<lambda>c. file_sep \<notin> set (segment_of_component c)) (c # cs)"
    using plain_list_segments [OF plain] c plain_segment [of c]
    by (auto simp: dot_def file_sep_def)
  have split: "split_on file_sep (join_with [file_sep] (map segment_of_component (c # cs))) =
      segment_of_component c # map segment_of_component cs"
    using split_segments [OF no_sep] by simp
  consider (root) "c = RootDir" | (cur) "c = CurDir" | (plain) "plain_component c"
    using c by blast
  then show ?thesis
  proof cases
    case root
    show ?thesis
    proof (cases cs)
      case Nil
      then show ?thesis
        using Cons root by (simp add: path_of_string_def starts_with_def)
    next
      case (Cons d ds)
      have "starts_with (join_with [file_sep] (map segment_of_component (c # cs))) [file_sep]"
        using root Cons by (simp add: starts_with_def)
      moreover have "string_of_path p = join_with [file_sep] (map segment_of_component (c # cs))"
        using \<open>p = c # cs\<close> Cons root by simp
      ultimately show ?thesis
        using \<open>p = c # cs\<close> split segs root by (simp add: path_of_string_def Let_def)
    qed
  next
    case cur
    then have "\<not> starts_with (join_with [file_sep] (map segment_of_component (c # cs))) [file_sep]"
      by (intro starts_join_plain) (auto simp: dot_def file_sep_def)
    then show ?thesis
      using Cons cur split segs by (simp add: path_of_string_def Let_def)
  next
    case plain
    note ps = plain_segment [OF plain]
    then have "\<not> starts_with (join_with [file_sep] (map segment_of_component (c # cs))) [file_sep]"
      by (intro starts_join_plain) auto
    moreover have "string_of_path p = join_with [file_sep] (map segment_of_component (c # cs))"
      using Cons plain by (cases c; cases cs) auto
    ultimately show ?thesis
      using Cons ps split segs by (simp add: path_of_string_def Let_def del: component_of_segment.simps)
  qed
qed

lemma path_of_wf_name: "wf_name n \<Longrightarrow> path_of_string n = [Normal n]"
  using path_of_string_of_path [of "[Normal n]"] by (simp add: wf_path_def)

lemma join_wf_name: "wf_name n \<Longrightarrow> join_name p n = p @ [Normal n]"
  by (simp add: join_name_def path_of_wf_name path_join_def is_absolute_def)

lemma parent_snoc [simp]: "c \<noteq> RootDir \<Longrightarrow> path_parent (p @ [c]) = Some p"
  by (simp add: path_parent_def)

lemma file_name_snoc [simp]: "file_name (p @ [Normal n]) = Some n"
  by (simp add: file_name_def)

lemma push_suffix_snoc: "push_suffix (p @ [Normal n]) s = p @ [Normal (n @ s)]"
  by (simp add: push_suffix_def)

lemma file_name_SomeD: "file_name p = Some n \<Longrightarrow> p = butlast p @ [Normal n]"
  by (cases p rule: rev_cases) (auto simp: file_name_def split: component.splits if_splits)

lemma push_suffix_inject:
  assumes "wf_path p" and "wf_path q" and "push_suffix p s = push_suffix q s" and "file_name p \<noteq> None"
    and "file_name q \<noteq> None"
  shows "p = q"
  using assms by (auto simp: push_suffix_snoc dest!: file_name_SomeD)
    (metis butlast_snoc component.inject last_snoc append_same_eq push_suffix_snoc)

lemma push_suffix_neq: "s \<noteq> [] \<Longrightarrow> file_name p \<noteq> None \<Longrightarrow> push_suffix p s \<noteq> p"
  by (metis append.right_neutral append_same_eq component.inject file_name_SomeD last_snoc
      not_Some_eq push_suffix_snoc same_append_eq)

end
