(* ===== verification/Vfs.thy ===== *)
theory Vfs
  imports Rust_Path
begin

text \<open>
  \<^verbatim>\<open>porthmos-vfs\<close>: the file types every protocol shares, the error a protocol returns, and
  the \<^verbatim>\<open>FileSystem\<close> contract.

  The contract is a record of operations over a world of any type \<^verbatim>\<open>'w\<close>.  An operation takes
  the world and returns its result, an error or a value, with the world it leaves, so what a
  server does between two calls, a file it changes or a connection it loses, is part of the
  world.  A \<^verbatim>\<open>Reader\<close> and a \<^verbatim>\<open>Writer\<close> are handles into the world.  The flag of an
  \<^verbatim>\<open>AtomicBool\<close> that another task sets is read from the world as well.
\<close>

section \<open>Entries and metadata (entry)\<close>

definition PART_SUFFIX :: string where
  "PART_SUFFIX = ''.part''"

record entry =
  e_name :: string
  e_path :: path
  e_is_dir :: bool
  e_size :: nat
  e_permissions :: "nat option"

datatype file_kind = File | Dir | Symlink

record metadata =
  m_size :: nat
  m_modified :: "nat option"
  m_kind :: file_kind
  m_permissions :: "nat option"

definition metadata_is_dir :: "metadata \<Rightarrow> bool" where
  "metadata_is_dir m \<longleftrightarrow> m_kind m = Dir"

record dir_item =
  d_name :: string
  d_path :: path
  d_metadata :: metadata

definition path_to_remote_string :: "path \<Rightarrow> string" where
  "path_to_remote_string p = string_of_path p"

definition join_remote :: "string \<Rightarrow> string \<Rightarrow> string" where
  "join_remote parent name =
     (if parent \<noteq> [] \<and> last parent = file_sep then parent @ name else parent @ [file_sep] @ name)"

section \<open>Errors (error)\<close>

datatype error_kind =
    Connect | Auth | AuthRejected | SessionStart | KCancelled | NotFound | PermissionDenied
  | Unsupported | Other

record protocol_error =
  pe_kind :: error_kind
  pe_source :: string

definition protocol_error_new :: "error_kind \<Rightarrow> string \<Rightarrow> protocol_error" where
  "protocol_error_new k source = \<lparr>pe_kind = k, pe_source = source\<rparr>"

text \<open>
  The kinds of \<^verbatim>\<open>std::io::Error\<close> the conversion tells apart; every other kind is
  \<open>IoOther\<close>.
\<close>

datatype io_error_kind = IoNotFound | IoPermissionDenied | IoOther

fun error_kind_of_io :: "io_error_kind \<Rightarrow> error_kind" where
  "error_kind_of_io IoNotFound = NotFound"
| "error_kind_of_io IoPermissionDenied = PermissionDenied"
| "error_kind_of_io IoOther = Other"

definition protocol_error_of_io :: "io_error_kind \<Rightarrow> string \<Rightarrow> protocol_error" where
  "protocol_error_of_io k message = protocol_error_new (error_kind_of_io k) message"

section \<open>The file system contract (fs)\<close>

type_synonym ('w, 'a) effect = "'w \<Rightarrow> (protocol_error + 'a) \<times> 'w"

type_synonym handle = nat

text \<open>A \<^verbatim>\<open>Writer\<close>: its stream, and the offset at which the stream continues.\<close>

record writer =
  w_stream :: handle
  w_offset :: nat

record 'w file_system =
  fs_read_dir :: "path \<Rightarrow> ('w, dir_item list) effect"
  fs_stat :: "path \<Rightarrow> ('w, metadata) effect"
  fs_create_dir :: "path \<Rightarrow> ('w, unit) effect"
  fs_rename :: "path \<Rightarrow> path \<Rightarrow> ('w, unit) effect"
  fs_remove_file :: "path \<Rightarrow> ('w, unit) effect"
  fs_open_read :: "path \<Rightarrow> nat \<Rightarrow> ('w, handle) effect"
  fs_open_write_sized :: "path \<Rightarrow> nat \<Rightarrow> nat \<Rightarrow> ('w, writer) effect"
  fs_set_modified :: "path \<Rightarrow> nat \<Rightarrow> ('w, unit) effect"
  fs_read :: "handle \<Rightarrow> nat \<Rightarrow> ('w, 8 word list) effect"
  fs_write_all :: "handle \<Rightarrow> 8 word list \<Rightarrow> ('w, unit) effect"
  fs_flush :: "handle \<Rightarrow> ('w, unit) effect"
  fs_shutdown :: "handle \<Rightarrow> ('w, unit) effect"
  fs_transfer_limit :: "nat option"
  fs_resume_backoff :: nat
  fs_can_set_modified :: bool
  fs_time_resolution :: nat

text \<open>
  \<^verbatim>\<open>cancel.load(Ordering::Relaxed)\<close>: reading the flag of the task, which another task may
  have set at any moment.
\<close>

type_synonym 'w flag = "'w \<Rightarrow> bool \<times> 'w"

text \<open>The provided methods of the trait, for a file system that does not override them.\<close>

definition default_transfer_limit :: "nat option" where
  "default_transfer_limit = None"

definition default_resume_backoff :: nat where
  "default_resume_backoff = 0"

definition default_set_modified :: "path \<Rightarrow> nat \<Rightarrow> ('w, unit) effect" where
  "default_set_modified p seconds w =
     (Inl (protocol_error_new Unsupported ''this connection can't set modification times''), w)"

definition default_can_set_modified :: bool where
  "default_can_set_modified = False"

definition default_time_resolution :: nat where
  "default_time_resolution = 2"

definition default_open_write_sized ::
  "(path \<Rightarrow> nat \<Rightarrow> ('w, writer) effect) \<Rightarrow> path \<Rightarrow> nat \<Rightarrow> nat \<Rightarrow> ('w, writer) effect" where
  "default_open_write_sized open_write p offset expected = open_write p offset"

section \<open>Sequencing effects\<close>

text \<open>\<^verbatim>\<open>?\<close> on a result, and \<^verbatim>\<open>.await\<close> in sequence: an error ends the function with it.\<close>

definition eff_return :: "'a \<Rightarrow> ('w, 'a) effect" where
  "eff_return a w = (Inr a, w)"

definition eff_fail :: "protocol_error \<Rightarrow> ('w, 'a) effect" where
  "eff_fail e w = (Inl e, w)"

definition eff_bind :: "('w, 'a) effect \<Rightarrow> ('a \<Rightarrow> ('w, 'b) effect) \<Rightarrow> ('w, 'b) effect" where
  "eff_bind m f w = (case m w of (Inl e, w') \<Rightarrow> (Inl e, w') | (Inr a, w') \<Rightarrow> f a w')"

text \<open>\<^verbatim>\<open>.await.ok()\<close>: the error is dropped, the world it leaves is kept.\<close>

definition eff_ok :: "('w, 'a) effect \<Rightarrow> ('w, 'a option) effect" where
  "eff_ok m w = (case m w of (Inl e, w') \<Rightarrow> (Inr None, w') | (Inr a, w') \<Rightarrow> (Inr (Some a), w'))"

text \<open>Reading a flag never fails.\<close>

definition eff_flag :: "'w flag \<Rightarrow> ('w, bool) effect" where
  "eff_flag c w = (case c w of (b, w') \<Rightarrow> (Inr b, w'))"

text \<open>
  A computation that may not return, since what it walks over may never end: with a bound on
  its depth, \<^const>\<open>None\<close> when the bound is too small.
\<close>

type_synonym ('w, 'a) bounded = "'w \<Rightarrow> ((protocol_error + 'a) \<times> 'w) option"

definition bounded_of :: "('w, 'a) effect \<Rightarrow> ('w, 'a) bounded" where
  "bounded_of m w = Some (m w)"

definition bnd_bind :: "('w, 'a) bounded \<Rightarrow> ('a \<Rightarrow> ('w, 'b) bounded) \<Rightarrow> ('w, 'b) bounded" where
  "bnd_bind m f w =
     (case m w of
        None \<Rightarrow> None
      | Some (Inl e, w') \<Rightarrow> Some (Inl e, w')
      | Some (Inr a, w') \<Rightarrow> f a w')"

text \<open>
  What the standard library does with files and streams: an error is its kind and its text.  \<^verbatim>\<open>?\<close> in a
  function of the contract turns it into an error of the contract.
\<close>

type_synonym io_error = "io_error_kind \<times> string"

type_synonym ('w, 'a) io = "'w \<Rightarrow> (io_error + 'a) \<times> 'w"

definition io_return :: "'a \<Rightarrow> ('w, 'a) io" where
  "io_return a w = (Inr a, w)"

definition io_fail :: "io_error \<Rightarrow> ('w, 'a) io" where
  "io_fail e w = (Inl e, w)"

definition io_bind :: "('w, 'a) io \<Rightarrow> ('a \<Rightarrow> ('w, 'b) io) \<Rightarrow> ('w, 'b) io" where
  "io_bind m f w = (case m w of (Inl e, w') \<Rightarrow> (Inl e, w') | (Inr a, w') \<Rightarrow> f a w')"

definition io_effect :: "('w, 'a) io \<Rightarrow> ('w, 'a) effect" where
  "io_effect m w =
     (case m w of (Inl (k, message), w) \<Rightarrow> (Inl (protocol_error_of_io k message), w) | (Inr a, w) \<Rightarrow> (Inr a, w))"

lemma eff_bind_simps [simp]:
  "eff_bind (eff_return a) f = f a" "eff_bind (eff_fail e) f = eff_fail e"
  by (simp_all add: fun_eq_iff eff_bind_def eff_return_def eff_fail_def)

lemma bnd_bind_SomeE:
  assumes "bnd_bind m f w = Some (r, w')"
  obtains e where "m w = Some (Inl e, w')" "r = Inl e"
  | a w1 where "m w = Some (Inr a, w1)" "f a w1 = Some (r, w')"
  using assms by (auto simp: bnd_bind_def split: option.splits sum.splits prod.splits)

lemma eff_bind_cases:
  obtains e w' where "m w = (Inl e, w')" "eff_bind m f w = (Inl e, w')"
  | a w' where "m w = (Inr a, w')" "eff_bind m f w = f a w'"
  by (cases "m w"; cases "fst (m w)") (auto simp: eff_bind_def)

end
