(* ===== verification/Transfer_Job.thy ===== *)
theory Transfer_Job
  imports Vfs
begin

text \<open>
  \<^verbatim>\<open>transfer/job.rs\<close> and \<^verbatim>\<open>transfer/rows\<close>: a transfer job with its destination, and the rows
  the queue shows to the user.
\<close>

section \<open>Jobs (transfer/job.rs)\<close>

datatype direction = Upload | Download

datatype job_status = Queued | InProgress | Completed | Failed string | Cancelled

datatype destination = Local path | Remote nat string

record transfer_job =
  j_id :: nat
  j_session_id :: nat
  j_direction :: direction
  j_local_path :: path
  j_remote_path :: string
  j_display_name :: string
  j_total_bytes :: nat
  j_transferred_bytes :: nat
  j_status :: job_status
  j_attempts :: nat
  j_batch_id :: "nat option"
  j_resume :: bool
  j_modified :: "nat option"

definition part_destination :: "transfer_job \<Rightarrow> destination" where
  "part_destination j =
     (case j_direction j of
        Upload \<Rightarrow> Remote (j_session_id j) (j_remote_path j @ PART_SUFFIX)
      | Download \<Rightarrow> Local (push_suffix (j_local_path j) PART_SUFFIX))"

definition job_destination :: "transfer_job \<Rightarrow> destination" where
  "job_destination j =
     (case j_direction j of
        Upload \<Rightarrow> Remote (j_session_id j) (j_remote_path j)
      | Download \<Rightarrow> Local (j_local_path j))"

text \<open>
  The percentage is computed in floating point; the quotient is a parameter, since the
  model has no \<^verbatim>\<open>f64\<close>.
\<close>

definition progress_percent :: "(nat \<Rightarrow> nat \<Rightarrow> nat) \<Rightarrow> transfer_job \<Rightarrow> nat" where
  "progress_percent f64_percent j =
     (if j_total_bytes j = 0 then 100 else f64_percent (j_transferred_bytes j) (j_total_bytes j))"

definition is_failed :: "job_status \<Rightarrow> bool" where
  "is_failed s \<longleftrightarrow> (case s of Failed _ \<Rightarrow> True | _ \<Rightarrow> False)"

text \<open>The statuses \<^verbatim>\<open>retry_jobs\<close>, \<^verbatim>\<open>retry_row\<close> and \<^verbatim>\<open>clear_finished_rows\<close> match on.\<close>

definition failed_or_cancelled :: "job_status \<Rightarrow> bool" where
  "failed_or_cancelled s \<longleftrightarrow> (case s of Failed _ \<Rightarrow> True | Cancelled \<Rightarrow> True | _ \<Rightarrow> False)"

definition queued_or_running :: "job_status \<Rightarrow> bool" where
  "queued_or_running s \<longleftrightarrow> (case s of Queued \<Rightarrow> True | InProgress \<Rightarrow> True | _ \<Rightarrow> False)"

lemma queued_or_running_simps [simp]:
  "queued_or_running Queued" "queued_or_running InProgress" "\<not> queued_or_running Completed"
  "\<not> queued_or_running (Failed m)" "\<not> queued_or_running Cancelled"
  by (simp_all add: queued_or_running_def)

lemma failed_or_cancelled_simps [simp]:
  "\<not> failed_or_cancelled Queued" "\<not> failed_or_cancelled InProgress"
  "\<not> failed_or_cancelled Completed" "failed_or_cancelled (Failed m)" "failed_or_cancelled Cancelled"
  by (simp_all add: failed_or_cancelled_def)

section \<open>Rows (transfer/rows)\<close>

datatype row_kind = Single nat | Batch nat | Scan nat

datatype row_state =
    RowScanning | RowAwaitingAnswer | RowRunning | RowQueued | RowDone | RowPartlyFailed nat
  | RowFailed | RowCancelled

record queue_row =
  qr_kind :: row_kind
  qr_label :: string
  qr_direction :: direction
  qr_files_done :: nat
  qr_files_total :: nat
  qr_bytes_done :: nat
  qr_bytes_total :: nat
  qr_state :: row_state

fun finished_state :: "row_state \<Rightarrow> bool" where
  "finished_state RowDone = True"
| "finished_state (RowPartlyFailed _) = True"
| "finished_state RowFailed = True"
| "finished_state RowCancelled = True"
| "finished_state _ = False"

definition row_is_finished :: "queue_row \<Rightarrow> bool" where
  "row_is_finished r = finished_state (qr_state r)"

record scan_info =
  si_batch_id :: nat
  si_label :: string
  si_direction :: direction
  si_state :: row_state

definition scan_row :: "scan_info \<Rightarrow> queue_row" where
  "scan_row s =
     \<lparr>qr_kind = Scan (si_batch_id s), qr_label = si_label s, qr_direction = si_direction s,
      qr_files_done = 0, qr_files_total = 0, qr_bytes_done = 0, qr_bytes_total = 0,
      qr_state = si_state s\<rparr>"

end
