(* ===== verification/Queue.thy ===== *)
theory Queue
  imports Transfer_Job "HOL-Library.Product_Lexorder"
begin

text \<open>
  \<^verbatim>\<open>transfer/queue\<close>: the transfer queue.  It keeps the jobs and, for speed, a set of
  derived tables: one row of counters per batch or single job, the sets of running and
  queued jobs, the queued jobs of each session, and the number of unfinished jobs per
  session and direction.  This theory holds the operations; \<^verbatim>\<open>Queue_Inv\<close> proves that the
  derived tables always describe the jobs.
\<close>

section \<open>Row counters\<close>

definition MAX_ATTEMPTS :: nat where
  "MAX_ATTEMPTS = 3"

record batch_progress =
  bp_total_files :: nat
  bp_completed_files :: nat
  bp_total_bytes :: nat
  bp_transferred_bytes :: nat

datatype row_change = Finished row_kind | Reopened row_kind | Removed row_kind

record row_counters =
  rc_kind :: row_kind
  rc_label :: string
  rc_direction :: direction
  rc_order :: "nat list"
  rc_queued :: nat
  rc_running :: nat
  rc_completed :: nat
  rc_failed :: nat
  rc_cancelled :: nat
  rc_bytes_done :: nat
  rc_bytes_total :: nat

definition row_counters_new :: "row_kind \<Rightarrow> string \<Rightarrow> direction \<Rightarrow> row_counters" where
  "row_counters_new kind label direction =
     \<lparr>rc_kind = kind, rc_label = label, rc_direction = direction, rc_order = [], rc_queued = 0,
      rc_running = 0, rc_completed = 0, rc_failed = 0, rc_cancelled = 0, rc_bytes_done = 0,
      rc_bytes_total = 0\<rparr>"

definition rc_total :: "row_counters \<Rightarrow> nat" where
  "rc_total c = rc_queued c + rc_running c + rc_completed c + rc_failed c + rc_cancelled c"

definition rc_finished :: "row_counters \<Rightarrow> bool" where
  "rc_finished c \<longleftrightarrow> 0 < rc_total c \<and> rc_queued c = 0 \<and> rc_running c = 0"

definition rc_state :: "row_counters \<Rightarrow> row_state" where
  "rc_state c =
     (if 0 < rc_running c then RowRunning
      else if 0 < rc_queued c then RowQueued
      else if rc_completed c = rc_total c then RowDone
      else if rc_failed c = 0 then RowCancelled
      else if 0 < rc_completed c then RowPartlyFailed (rc_failed c)
      else RowFailed)"

definition to_row :: "row_counters \<Rightarrow> queue_row" where
  "to_row c =
     \<lparr>qr_kind = rc_kind c, qr_label = rc_label c, qr_direction = rc_direction c,
      qr_files_done = rc_completed c, qr_files_total = rc_total c,
      qr_bytes_done = rc_bytes_done c, qr_bytes_total = rc_bytes_total c, qr_state = rc_state c\<rparr>"

text \<open>\<^verbatim>\<open>slot\<close> returns a reference to one of five counters: reading and changing it.\<close>

fun get_slot :: "job_status \<Rightarrow> row_counters \<Rightarrow> nat" where
  "get_slot Queued c = rc_queued c"
| "get_slot InProgress c = rc_running c"
| "get_slot Completed c = rc_completed c"
| "get_slot (Failed _) c = rc_failed c"
| "get_slot Cancelled c = rc_cancelled c"

fun map_slot :: "job_status \<Rightarrow> (nat \<Rightarrow> nat) \<Rightarrow> row_counters \<Rightarrow> row_counters" where
  "map_slot Queued f c = c\<lparr>rc_queued := f (rc_queued c)\<rparr>"
| "map_slot InProgress f c = c\<lparr>rc_running := f (rc_running c)\<rparr>"
| "map_slot Completed f c = c\<lparr>rc_completed := f (rc_completed c)\<rparr>"
| "map_slot (Failed _) f c = c\<lparr>rc_failed := f (rc_failed c)\<rparr>"
| "map_slot Cancelled f c = c\<lparr>rc_cancelled := f (rc_cancelled c)\<rparr>"

section \<open>The queue\<close>

record shape =
  sh_status :: job_status
  sh_transferred :: nat
  sh_session_id :: nat
  sh_direction :: direction

definition shape_of :: "transfer_job \<Rightarrow> shape" where
  "shape_of j =
     \<lparr>sh_status = j_status j, sh_transferred = j_transferred_bytes j,
      sh_session_id = j_session_id j, sh_direction = j_direction j\<rparr>"

text \<open>
  \<^verbatim>\<open>*count -= 1\<close> at zero would panic; no entry of \<^verbatim>\<open>pending\<close> is ever zero.
\<close>

definition decrement :: "('k, nat) fmap \<Rightarrow> 'k \<Rightarrow> ('k, nat) fmap" where
  "decrement m k =
     (case fmlookup m k of
        None \<Rightarrow> m
      | Some count \<Rightarrow> if count - 1 = 0 then fmdrop k m else fmupd k (count - 1) m)"

record transfer_queue =
  tq_jobs :: "(nat, transfer_job) fmap"
  tq_batch_labels :: "(nat, string) fmap"
  tq_unkept_times_flagged :: "nat fset"
  tq_next_id :: nat
  tq_next_batch_id :: nat
  tq_rows :: "(nat, row_counters) fmap"
  tq_row_of :: "(nat, nat) fmap"
  tq_batch_row :: "(nat, nat) fmap"
  tq_running :: "nat fset"
  tq_queued :: "nat fset"
  tq_queued_by_session :: "(nat, nat fset) fmap"
  tq_pending :: "(nat \<times> direction, nat) fmap"
  tq_changes :: "row_change list"

definition queue_new :: transfer_queue where
  "queue_new =
     \<lparr>tq_jobs = fmempty, tq_batch_labels = fmempty, tq_unkept_times_flagged = {||},
      tq_next_id = 0, tq_next_batch_id = 0, tq_rows = fmempty, tq_row_of = fmempty,
      tq_batch_row = fmempty, tq_running = {||}, tq_queued = {||},
      tq_queued_by_session = fmempty, tq_pending = fmempty, tq_changes = []\<rparr>"

subsection \<open>Accounting for one job\<close>

text \<open>
  \<^verbatim>\<open>account\<close> books a job of the given shape in, or out of, every derived table: its row, the
  index of its status, the count of its session and direction.
\<close>

definition account_row :: "shape \<Rightarrow> bool \<Rightarrow> row_counters \<Rightarrow> row_counters" where
  "account_row sh add c =
     (let c' = map_slot (sh_status sh) (\<lambda>n. if add then n + 1 else n - 1) c
      in c'\<lparr>rc_bytes_done := (if add then rc_bytes_done c' + sh_transferred sh
                                else rc_bytes_done c' - sh_transferred sh)\<rparr>)"

definition account_rows :: "nat \<Rightarrow> shape \<Rightarrow> bool \<Rightarrow> transfer_queue \<Rightarrow> transfer_queue" where
  "account_rows key sh add q =
     (case fmlookup (tq_rows q) key of
        None \<Rightarrow> q
      | Some c \<Rightarrow> q\<lparr>tq_rows := fmupd key (account_row sh add c) (tq_rows q)\<rparr>)"

definition index_insert :: "nat \<Rightarrow> nat \<Rightarrow> (nat, nat fset) fmap \<Rightarrow> (nat, nat fset) fmap" where
  "index_insert s i m = fmupd s (finsert i (fmget_or {||} m s)) m"

definition index_remove :: "nat \<Rightarrow> nat \<Rightarrow> (nat, nat fset) fmap \<Rightarrow> (nat, nat fset) fmap" where
  "index_remove s i m =
     (case fmlookup m s of
        None \<Rightarrow> m
      | Some ids \<Rightarrow>
          let rest = ids |-| {|i|} in if rest = {||} then fmdrop s m else fmupd s rest m)"

definition account_indexes :: "nat \<Rightarrow> shape \<Rightarrow> bool \<Rightarrow> transfer_queue \<Rightarrow> transfer_queue" where
  "account_indexes i sh add q =
     (case sh_status sh of
        InProgress \<Rightarrow>
          q\<lparr>tq_running := (if add then finsert i (tq_running q) else tq_running q |-| {|i|})\<rparr>
      | Queued \<Rightarrow>
          (if add
           then q\<lparr>tq_queued := finsert i (tq_queued q),
                  tq_queued_by_session :=
                    index_insert (sh_session_id sh) i (tq_queued_by_session q)\<rparr>
           else q\<lparr>tq_queued := tq_queued q |-| {|i|},
                  tq_queued_by_session :=
                    index_remove (sh_session_id sh) i (tq_queued_by_session q)\<rparr>)
      | _ \<Rightarrow> q)"

definition account_pending :: "shape \<Rightarrow> bool \<Rightarrow> transfer_queue \<Rightarrow> transfer_queue" where
  "account_pending sh add q =
     (if queued_or_running (sh_status sh)
      then let key = (sh_session_id sh, sh_direction sh)
           in q\<lparr>tq_pending := (if add then fmupd key (fmget_or 0 (tq_pending q) key + 1) (tq_pending q)
                                 else decrement (tq_pending q) key)\<rparr>
      else q)"

definition account :: "nat \<Rightarrow> shape \<Rightarrow> bool \<Rightarrow> transfer_queue \<Rightarrow> transfer_queue" where
  "account i sh add q =
     (case fmlookup (tq_row_of q) i of
        None \<Rightarrow> q
      | Some key \<Rightarrow> account_pending sh add (account_indexes i sh add (account_rows key sh add q)))"

text \<open>\<^verbatim>\<open>self.rows.get(&key).is_some_and(RowCounters::finished)\<close>.\<close>

definition row_finished :: "transfer_queue \<Rightarrow> nat \<Rightarrow> bool" where
  "row_finished q key =
     (case fmlookup (tq_rows q) key of None \<Rightarrow> False | Some c \<Rightarrow> rc_finished c)"

text \<open>
  \<^verbatim>\<open>reconcile\<close> runs when the guard of a job is dropped, or after \<^verbatim>\<open>update\<close> has changed it:
  the job is already new, \<^verbatim>\<open>before\<close> is what the tables still show.
\<close>

definition reconcile :: "nat \<Rightarrow> shape \<Rightarrow> transfer_queue \<Rightarrow> transfer_queue" where
  "reconcile i before q =
     (case fmlookup (tq_jobs q) i of
        None \<Rightarrow> q
      | Some job \<Rightarrow>
          let after = shape_of job
          in if after = before then q
             else case fmlookup (tq_row_of q) i of
                    None \<Rightarrow> q
                  | Some key \<Rightarrow>
                      let was_finished = row_finished q key;
                          q' = account i after True (account i before False q)
                      in case fmlookup (tq_rows q') key of
                           None \<Rightarrow> q'
                         | Some c \<Rightarrow>
                             if \<not> was_finished \<and> rc_finished c
                             then q'\<lparr>tq_changes := tq_changes q' @ [Finished (rc_kind c)]\<rparr>
                             else if was_finished \<and> \<not> rc_finished c
                             then q'\<lparr>tq_changes := tq_changes q' @ [Reopened (rc_kind c)]\<rparr>
                             else q')"

definition update_job ::
  "nat \<Rightarrow> (transfer_job \<Rightarrow> transfer_job) \<Rightarrow> transfer_queue \<Rightarrow> transfer_queue" where
  "update_job i change q =
     (case fmlookup (tq_jobs q) i of
        None \<Rightarrow> q
      | Some job \<Rightarrow>
          reconcile i (shape_of job) (q\<lparr>tq_jobs := fmupd i (change job) (tq_jobs q)\<rparr>))"

text \<open>
  \<^verbatim>\<open>get_mut\<close> hands out a guard; what the holder does to the job through it is a function of
  the job, and dropping the guard reconciles.
\<close>

definition with_guard ::
  "nat \<Rightarrow> (transfer_job \<Rightarrow> transfer_job) \<Rightarrow> transfer_queue \<Rightarrow> transfer_queue" where
  "with_guard i body q =
     (case fmlookup (tq_jobs q) i of
        None \<Rightarrow> q
      | Some job \<Rightarrow>
          let before = shape_of job;
              q' = q\<lparr>tq_jobs := fmupd i (body job) (tq_jobs q)\<rparr>
          in reconcile i before q')"

subsection \<open>Adding jobs and batches\<close>

definition enqueue ::
  "nat \<Rightarrow> direction \<Rightarrow> path \<Rightarrow> string \<Rightarrow> string \<Rightarrow> nat \<Rightarrow> nat option \<Rightarrow> transfer_queue \<Rightarrow>
     nat \<times> transfer_queue" where
  "enqueue session_id direction local_path remote_path display_name total_bytes batch_id q =
     (let i = tq_next_id q;
          label = (case batch_id of
                     Some batch \<Rightarrow> fmget_or display_name (tq_batch_labels q) batch
                   | None \<Rightarrow> display_name);
          job = \<lparr>j_id = i, j_session_id = session_id, j_direction = direction,
                 j_local_path = local_path, j_remote_path = remote_path,
                 j_display_name = display_name, j_total_bytes = total_bytes,
                 j_transferred_bytes = 0, j_status = Queued, j_attempts = 0,
                 j_batch_id = batch_id, j_resume = False, j_modified = None\<rparr>;
          key = (case batch_id of Some batch \<Rightarrow> fmget_or i (tq_batch_row q) batch | None \<Rightarrow> i);
          batch_row = (case batch_id of
                         Some batch \<Rightarrow> fmupd batch key (tq_batch_row q)
                       | None \<Rightarrow> tq_batch_row q);
          kind = (case batch_id of Some batch \<Rightarrow> Batch batch | None \<Rightarrow> Single i);
          was_finished = row_finished q key;
          counters = fmget_or (row_counters_new kind label direction) (tq_rows q) key;
          counters' = counters\<lparr>rc_order := rc_order counters @ [i],
                               rc_bytes_total := rc_bytes_total counters + total_bytes\<rparr>;
          q1 = q\<lparr>tq_next_id := i + 1, tq_batch_row := batch_row,
                 tq_rows := fmupd key counters' (tq_rows q),
                 tq_row_of := fmupd i key (tq_row_of q), tq_jobs := fmupd i job (tq_jobs q)\<rparr>;
          q2 = account i (shape_of job) True q1
      in (i, if was_finished \<and> \<not> row_finished q2 key
             then q2\<lparr>tq_changes := tq_changes q2 @ [Reopened kind]\<rparr> else q2))"

definition start_batch :: "string \<Rightarrow> transfer_queue \<Rightarrow> nat \<times> transfer_queue" where
  "start_batch label q =
     (let i = tq_next_batch_id q
      in (i, q\<lparr>tq_next_batch_id := i + 1, tq_batch_labels := fmupd i label (tq_batch_labels q)\<rparr>))"

definition batch_label :: "transfer_queue \<Rightarrow> nat \<Rightarrow> string option" where
  "batch_label q batch_id = fmlookup (tq_batch_labels q) batch_id"

definition forget_batch_if_empty :: "nat \<Rightarrow> transfer_queue \<Rightarrow> transfer_queue" where
  "forget_batch_if_empty batch_id q =
     (if fmlookup (tq_batch_row q) batch_id = None
      then q\<lparr>tq_batch_labels := fmdrop batch_id (tq_batch_labels q),
             tq_unkept_times_flagged := tq_unkept_times_flagged q |-| {|batch_id|}\<rparr>
      else q)"

text \<open>\<^verbatim>\<open>HashSet::insert\<close> tells whether the batch was not yet flagged.\<close>

definition flag_unkept_times :: "nat \<Rightarrow> transfer_queue \<Rightarrow> bool \<times> transfer_queue" where
  "flag_unkept_times batch_id q =
     (batch_id |\<notin>| tq_unkept_times_flagged q,
      q\<lparr>tq_unkept_times_flagged := finsert batch_id (tq_unkept_times_flagged q)\<rparr>)"

definition has_unkept_times_flag :: "transfer_queue \<Rightarrow> nat \<Rightarrow> bool" where
  "has_unkept_times_flag q batch_id = (batch_id |\<in>| tq_unkept_times_flagged q)"

subsection \<open>Reading the queue\<close>

definition queue_jobs :: "transfer_queue \<Rightarrow> transfer_job list" where
  "queue_jobs q = fmvalues (tq_jobs q)"

definition queue_rows_of :: "transfer_queue \<Rightarrow> queue_row list" where
  "queue_rows_of q = map to_row (fmvalues (tq_rows q))"

definition row_key :: "transfer_queue \<Rightarrow> row_kind \<Rightarrow> nat option" where
  "row_key q kind =
     (case (case kind of
              Single i \<Rightarrow> if fmlookup (tq_rows q) i \<noteq> None then Some i else None
            | Batch batch \<Rightarrow> fmlookup (tq_batch_row q) batch
            | Scan _ \<Rightarrow> None) of
        None \<Rightarrow> None
      | Some key \<Rightarrow>
          (case fmlookup (tq_rows q) key of
             None \<Rightarrow> None
           | Some c \<Rightarrow> if rc_kind c = kind then Some key else None))"

definition row :: "transfer_queue \<Rightarrow> row_kind \<Rightarrow> queue_row option" where
  "row q kind =
     (case row_key q kind of None \<Rightarrow> None | Some key \<Rightarrow> map_option to_row (fmlookup (tq_rows q) key))"

text \<open>\<^verbatim>\<open>ids.iter().filter_map(|id| self.jobs.get(id))\<close>.\<close>

definition jobs_at :: "transfer_queue \<Rightarrow> nat list \<Rightarrow> transfer_job list" where
  "jobs_at q ids = List.map_filter (fmlookup (tq_jobs q)) ids"

definition jobs_of :: "transfer_queue \<Rightarrow> row_kind \<Rightarrow> transfer_job list" where
  "jobs_of q kind =
     (case Option.bind (row_key q kind) (fmlookup (tq_rows q)) of
        None \<Rightarrow> []
      | Some c \<Rightarrow> jobs_at q (rc_order c))"

definition take_changes :: "transfer_queue \<Rightarrow> row_change list \<times> transfer_queue" where
  "take_changes q = (tq_changes q, q\<lparr>tq_changes := []\<rparr>)"

definition get_job :: "transfer_queue \<Rightarrow> nat \<Rightarrow> transfer_job option" where
  "get_job q i = fmlookup (tq_jobs q) i"

definition active_jobs :: "transfer_queue \<Rightarrow> transfer_job list" where
  "active_jobs q = jobs_at q (sorted_list_of_fset (tq_running q))"

definition queued_jobs :: "transfer_queue \<Rightarrow> transfer_job list" where
  "queued_jobs q = jobs_at q (sorted_list_of_fset (tq_queued q))"

definition active_count :: "transfer_queue \<Rightarrow> nat" where
  "active_count q = fcard (tq_running q)"

definition queued_count :: "transfer_queue \<Rightarrow> nat" where
  "queued_count q = fcard (tq_queued q)"

definition active_ids_for_session :: "transfer_queue \<Rightarrow> nat \<Rightarrow> nat list" where
  "active_ids_for_session q session_id =
     map j_id (filter (\<lambda>j. j_session_id j = session_id) (active_jobs q))"

definition has_pending :: "transfer_queue \<Rightarrow> nat \<Rightarrow> direction \<Rightarrow> bool" where
  "has_pending q session_id direction = (0 < fmget_or 0 (tq_pending q) (session_id, direction))"

definition batch_progress :: "transfer_queue \<Rightarrow> nat \<Rightarrow> batch_progress" where
  "batch_progress q batch_id =
     (case Option.bind (fmlookup (tq_batch_row q) batch_id) (fmlookup (tq_rows q)) of
        Some c \<Rightarrow>
          \<lparr>bp_total_files = rc_total c, bp_completed_files = rc_completed c,
           bp_total_bytes = rc_bytes_total c, bp_transferred_bytes = rc_bytes_done c\<rparr>
      | None \<Rightarrow>
          \<lparr>bp_total_files = 0, bp_completed_files = 0, bp_total_bytes = 0,
           bp_transferred_bytes = 0\<rparr>)"

subsection \<open>Retrying, cancelling and failing jobs\<close>

text \<open>The body of the loop of \<^verbatim>\<open>retry_jobs\<close>, and the loop.\<close>

definition retry_one :: "nat \<times> transfer_queue \<Rightarrow> nat \<Rightarrow> nat \<times> transfer_queue" where
  "retry_one cq i =
     (case cq of (count, q) \<Rightarrow>
        (case fmlookup (tq_jobs q) i of
           None \<Rightarrow> (count, q)
         | Some job \<Rightarrow>
             if failed_or_cancelled (j_status job)
             then (count + 1,
                   update_job i (\<lambda>job. job\<lparr>j_resume := 0 < j_attempts job, j_status := Queued,
                                         j_attempts := 0\<rparr>) q)
             else (count, q)))"

definition retry_jobs :: "nat list \<Rightarrow> transfer_queue \<Rightarrow> nat \<times> transfer_queue" where
  "retry_jobs ids q = foldl retry_one (0, q) ids"

definition cancel_all_queued :: "transfer_queue \<Rightarrow> nat \<times> transfer_queue" where
  "cancel_all_queued q =
     (let ids = sorted_list_of_fset (tq_queued q)
      in (length ids, fold (\<lambda>i. update_job i (\<lambda>job. job\<lparr>j_status := Cancelled\<rparr>)) ids q))"

definition fail_queued_for_session :: "nat \<Rightarrow> string \<Rightarrow> transfer_queue \<Rightarrow> nat \<times> transfer_queue" where
  "fail_queued_for_session session_id reason q =
     (let ids = sorted_list_of_fset (fmget_or {||} (tq_queued_by_session q) session_id)
      in (length ids,
          fold (\<lambda>i. update_job i (\<lambda>job. job\<lparr>j_status := Failed reason\<rparr>)) ids q))"

definition retry_or_give_up :: "nat \<Rightarrow> transfer_queue \<Rightarrow> bool \<times> transfer_queue" where
  "retry_or_give_up i q =
     (case fmlookup (tq_jobs q) i of
        None \<Rightarrow> (False, q)
      | Some job \<Rightarrow>
          if j_attempts job < MAX_ATTEMPTS
          then (True, update_job i (\<lambda>job. job\<lparr>j_status := Queued, j_resume := True\<rparr>) q)
          else (False, q))"

subsection \<open>Removing jobs\<close>

definition rekey_row :: "nat \<Rightarrow> transfer_queue \<Rightarrow> transfer_queue" where
  "rekey_row old_key q =
     (case fmlookup (tq_rows q) old_key of
        None \<Rightarrow> q
      | Some counters \<Rightarrow>
          let q = q\<lparr>tq_rows := fmdrop old_key (tq_rows q)\<rparr>
          in case rc_order counters of
               [] \<Rightarrow> q
             | new_key # _ \<Rightarrow>
                 let counters =
                       (case fmlookup (tq_jobs q) new_key of
                          None \<Rightarrow> counters
                        | Some first \<Rightarrow>
                            let c = counters\<lparr>rc_direction := j_direction first\<rparr>
                            in case rc_kind c of
                                 Batch batch \<Rightarrow>
                                   if fmlookup (tq_batch_labels q) batch = None
                                   then c\<lparr>rc_label := j_display_name first\<rparr> else c
                               | _ \<Rightarrow> c);
                     q = q\<lparr>tq_row_of := fold (\<lambda>i. fmupd i new_key) (rc_order counters) (tq_row_of q)\<rparr>;
                     q = (case rc_kind counters of
                            Batch batch \<Rightarrow> q\<lparr>tq_batch_row := fmupd batch new_key (tq_batch_row q)\<rparr>
                          | _ \<Rightarrow> q)
                 in q\<lparr>tq_rows := fmupd new_key counters (tq_rows q)\<rparr>)"

text \<open>The local variables of \<^verbatim>\<open>remove_jobs\<close>.\<close>

record removal =
  rm_queue :: transfer_queue
  rm_touched_batches :: "nat fset"
  rm_removed_by_row :: "(nat, nat fset) fmap"
  rm_was_finished :: "(row_kind, bool) fmap"

definition remove_one :: "nat \<Rightarrow> removal \<Rightarrow> removal" where
  "remove_one i r =
     (let q = rm_queue r
      in case fmlookup (tq_jobs q) i of
           None \<Rightarrow> r
         | Some job \<Rightarrow>
             (case fmlookup (tq_row_of q) i of
                None \<Rightarrow> r
              | Some key \<Rightarrow>
                  let was = (case fmlookup (tq_rows q) key of
                               None \<Rightarrow> rm_was_finished r
                             | Some c \<Rightarrow>
                                 if fmlookup (rm_was_finished r) (rc_kind c) = None
                                 then fmupd (rc_kind c) (rc_finished c) (rm_was_finished r)
                                 else rm_was_finished r);
                      q1 = account i (shape_of job) False q;
                      q2 = (case fmlookup (tq_rows q1) key of
                              None \<Rightarrow> q1
                            | Some c \<Rightarrow>
                                q1\<lparr>tq_rows := fmupd key (c\<lparr>rc_bytes_total :=
                                      rc_bytes_total c - j_total_bytes job\<rparr>) (tq_rows q1)\<rparr>);
                      q3 = q2\<lparr>tq_row_of := fmdrop i (tq_row_of q2), tq_jobs := fmdrop i (tq_jobs q2)\<rparr>
                  in \<lparr>rm_queue = q3,
                      rm_touched_batches =
                        (case j_batch_id job of
                           Some batch \<Rightarrow> finsert batch (rm_touched_batches r)
                         | None \<Rightarrow> rm_touched_batches r),
                      rm_removed_by_row = index_insert key i (rm_removed_by_row r),
                      rm_was_finished = was\<rparr>))"

text \<open>The second loop: drop the removed ids from their row, and the row when it is empty.\<close>

definition shrink_row :: "nat \<Rightarrow> nat fset \<Rightarrow> removal \<Rightarrow> removal" where
  "shrink_row key removed r =
     (let q = rm_queue r
      in case fmlookup (tq_rows q) key of
           None \<Rightarrow> r
         | Some c \<Rightarrow>
             let c = c\<lparr>rc_order := filter (\<lambda>i. i |\<notin>| removed) (rc_order c)\<rparr>
             in if rc_order c = []
                then let kind = rc_kind c;
                         q = q\<lparr>tq_rows := fmdrop key (tq_rows q)\<rparr>;
                         q = (case kind of
                                Batch batch \<Rightarrow> q\<lparr>tq_batch_row := fmdrop batch (tq_batch_row q)\<rparr>
                              | _ \<Rightarrow> q)
                     in r\<lparr>rm_queue := q\<lparr>tq_changes := tq_changes q @ [Removed kind]\<rparr>,
                          rm_was_finished := fmdrop kind (rm_was_finished r)\<rparr>
                else let q = q\<lparr>tq_rows := fmupd key c (tq_rows q)\<rparr>
                     in r\<lparr>rm_queue := (if key |\<in>| removed then rekey_row key q else q)\<rparr>)"

text \<open>The third loop: a row that became finished, or is no longer, is a change.\<close>

definition note_finished :: "row_kind \<Rightarrow> bool \<Rightarrow> transfer_queue \<Rightarrow> transfer_queue" where
  "note_finished kind before q =
     (case map_option rc_finished (Option.bind (row_key q kind) (fmlookup (tq_rows q))) of
        Some now \<Rightarrow>
          if now \<and> \<not> before then q\<lparr>tq_changes := tq_changes q @ [Finished kind]\<rparr>
          else if \<not> now \<and> before then q\<lparr>tq_changes := tq_changes q @ [Reopened kind]\<rparr>
          else q
      | None \<Rightarrow> q)"

text \<open>
  \<^verbatim>\<open>for (kind, before) in was_finished\<close> visits a \<^verbatim>\<open>HashMap\<close>, whose order is not specified: the
  parameter lists the keys in the order of the run.  The batches of the last loop are
  independent of each other, so their order does not matter.
\<close>

definition remove_jobs ::
  "(row_kind fset \<Rightarrow> row_kind list) \<Rightarrow> nat list \<Rightarrow> transfer_queue \<Rightarrow> transfer_queue" where
  "remove_jobs hash_order ids q =
     (let r = fold remove_one ids
                \<lparr>rm_queue = q, rm_touched_batches = {||}, rm_removed_by_row = fmempty,
                 rm_was_finished = fmempty\<rparr>;
          r = fold (\<lambda>key. shrink_row key (fmget_or {||} (rm_removed_by_row r) key))
                (sorted_list_of_fset (fmdom (rm_removed_by_row r))) r;
          q = fold (\<lambda>kind. note_finished kind (fmget_or False (rm_was_finished r) kind))
                (hash_order (fmdom (rm_was_finished r))) (rm_queue r)
      in fold forget_batch_if_empty (sorted_list_of_fset (rm_touched_batches r)) q)"

subsection \<open>Choosing the jobs to start\<close>

definition capped :: "(nat \<Rightarrow> nat option) \<Rightarrow> nat \<Rightarrow> nat \<Rightarrow> bool" where
  "capped session_limit session running =
     (case session_limit session of None \<Rightarrow> False | Some cap \<Rightarrow> cap \<le> running)"

definition count_session :: "nat \<Rightarrow> (nat, nat) fmap \<Rightarrow> (nat, nat) fmap" where
  "count_session s per_session = fmupd s (fmget_or 0 per_session s + 1) per_session"

text \<open>
  The heap holds, for each session, the first of its queued jobs not yet looked at; the
  iterators hold the rest.  \<^verbatim>\<open>BinaryHeap<Reverse<(u64, u64)>>\<close> is the sorted list of its
  entries, its \<^verbatim>\<open>pop\<close> the head of that list.
\<close>

definition initial_heads ::
  "(nat \<Rightarrow> nat option) \<Rightarrow> (nat, nat) fmap \<Rightarrow> (nat, nat fset) fmap \<Rightarrow>
     (nat \<times> nat) list \<times> (nat, nat list) fmap" where
  "initial_heads session_limit per_session by_session =
     fold (\<lambda>session (heads, iterators).
             if capped session_limit session (fmget_or 0 per_session session)
             then (heads, iterators)
             else case sorted_list_of_fset (fmget_or {||} by_session session) of
                    [] \<Rightarrow> (heads, iterators)
                  | first # rest \<Rightarrow>
                      (insort (first, session) heads, fmupd session rest iterators))
          (sorted_list_of_fset (fmdom by_session)) ([], fmempty)"

definition pull_next ::
  "nat \<Rightarrow> (nat \<times> nat) list \<Rightarrow> (nat, nat list) fmap \<Rightarrow>
     (nat \<times> nat) list \<times> (nat, nat list) fmap" where
  "pull_next session heads iterators =
     (case fmlookup iterators session of
        Some (next # rest) \<Rightarrow> (insort (next, session) heads, fmupd session rest iterators)
      | _ \<Rightarrow> (heads, iterators))"

definition iterators_left :: "(nat, nat list) fmap \<Rightarrow> nat" where
  "iterators_left iterators = (\<Sum>s \<in> fmdom' iterators. length (fmget_or [] iterators s))"

lemma pull_next_measure:
  "length (fst (pull_next s heads its)) + iterators_left (snd (pull_next s heads its)) \<le>
     length heads + iterators_left its"
proof (cases "fmlookup its s")
  case (Some xs)
  then have s: "s \<in> fmdom' its" by (rule fmdom'I)
  show ?thesis
  proof (cases xs)
    case (Cons n ns)
    have "iterators_left (fmupd s ns its) + 1 = iterators_left its"
      unfolding iterators_left_def using s Some Cons
      by (simp add: sum.remove [of _ s] insert_absorb fmget_or_def [of "[]" its s])
    then show ?thesis
      using Some Cons by (simp add: pull_next_def)
  qed (simp add: pull_next_def Some)
qed (simp add: pull_next_def)

function merge_startable ::
  "transfer_queue \<Rightarrow> (nat \<Rightarrow> nat option) \<Rightarrow> nat \<Rightarrow> (nat \<times> nat) list \<Rightarrow> (nat, nat list) fmap \<Rightarrow>
     (nat, nat) fmap \<Rightarrow> destination fset \<Rightarrow> nat list \<Rightarrow> nat list" where
  "merge_startable q session_limit free_slots heads iterators per_session busy startable =
     (if length startable < free_slots
      then case heads of
             [] \<Rightarrow> startable
           | (i, session) # heads' \<Rightarrow>
               if capped session_limit session (fmget_or 0 per_session session)
               then merge_startable q session_limit free_slots heads' iterators per_session busy
                      startable
               else (case pull_next session heads' iterators of (heads'', iterators'') \<Rightarrow>
                     (case fmlookup (tq_jobs q) i of
                        None \<Rightarrow>
                          merge_startable q session_limit free_slots heads'' iterators'' per_session
                            busy startable
                      | Some job \<Rightarrow>
                          if job_destination job |\<notin>| busy
                          then merge_startable q session_limit free_slots heads'' iterators''
                                 (count_session session per_session)
                                 (finsert (job_destination job) busy) (startable @ [j_id job])
                          else merge_startable q session_limit free_slots heads'' iterators''
                                 per_session busy startable))
      else startable)"
  by pat_completeness auto
termination
  by (relation "measure (\<lambda>(q, lim, free, heads, its, per, busy, out). length heads + iterators_left its)")
     (auto, (metis fst_conv snd_conv le_imp_less_Suc pull_next_measure)+)

declare merge_startable.simps [simp del]

definition startable_limited ::
  "transfer_queue \<Rightarrow> nat \<Rightarrow> (nat \<Rightarrow> nat option) \<Rightarrow> nat list" where
  "startable_limited q limit session_limit =
     (let free_slots = limit - fcard (tq_running q)
      in if free_slots = 0 \<or> tq_queued q = {||} then []
         else let per_session = fold (\<lambda>j. count_session (j_session_id j)) (active_jobs q) fmempty;
                  (heads, iterators) =
                    initial_heads session_limit per_session (tq_queued_by_session q);
                  busy = fset_of_list (map job_destination (active_jobs q))
              in merge_startable q session_limit free_slots heads iterators per_session busy [])"

definition startable :: "transfer_queue \<Rightarrow> nat \<Rightarrow> nat list" where
  "startable q limit = startable_limited q limit (\<lambda>_. None)"

end
