(* ===== verification/Queue_Inv.thy ===== *)
theory Queue_Inv
  imports Queue
begin

text \<open>
  The invariant of the transfer queue, the one the source states in \<^verbatim>\<open>assert_consistent\<close>:
  every derived table is what one recomputes from the jobs.  The tables are related to a
  job map \<open>J\<close> that need not be the queue's own, so that the two halves of a change, booking
  the old job out and the new one in, are lemmas of their own.
\<close>

section \<open>What the tables should hold\<close>

definition holds_job :: "(transfer_job \<Rightarrow> bool) \<Rightarrow> (nat, transfer_job) fmap \<Rightarrow> nat \<Rightarrow> bool" where
  "holds_job P J i = (case fmlookup J i of None \<Rightarrow> False | Some j \<Rightarrow> P j)"

definition jobs_where :: "(transfer_job \<Rightarrow> bool) \<Rightarrow> (nat, transfer_job) fmap \<Rightarrow> nat fset" where
  "jobs_where P J = ffilter (holds_job P J) (fmdom J)"

definition job_sum :: "(transfer_job \<Rightarrow> nat) \<Rightarrow> (nat, transfer_job) fmap \<Rightarrow> nat list \<Rightarrow> nat" where
  "job_sum f J ids = sum_list (map (\<lambda>i. case fmlookup J i of None \<Rightarrow> 0 | Some j \<Rightarrow> f j) ids)"

definition same_slot :: "job_status \<Rightarrow> job_status \<Rightarrow> bool" where
  "same_slot a b \<longleftrightarrow> a = b \<or> is_failed a \<and> is_failed b"

definition active_key :: "nat \<times> direction \<Rightarrow> transfer_job \<Rightarrow> bool" where
  "active_key k j \<longleftrightarrow> queued_or_running (j_status j) \<and> (j_session_id j, j_direction j) = k"

definition indexes_ok :: "(nat, transfer_job) fmap \<Rightarrow> transfer_queue \<Rightarrow> bool" where
  "indexes_ok J q \<longleftrightarrow>
     tq_running q = jobs_where (\<lambda>j. j_status j = InProgress) J \<and>
     tq_queued q = jobs_where (\<lambda>j. j_status j = Queued) J \<and>
     (\<forall>s. fmget_or {||} (tq_queued_by_session q) s =
            jobs_where (\<lambda>j. j_status j = Queued \<and> j_session_id j = s) J) \<and>
     (\<forall>s. fmlookup (tq_queued_by_session q) s \<noteq> Some {||})"

definition pending_ok :: "(nat, transfer_job) fmap \<Rightarrow> transfer_queue \<Rightarrow> bool" where
  "pending_ok J q \<longleftrightarrow>
     (\<forall>k. fmget_or 0 (tq_pending q) k = fcard (jobs_where (active_key k) J)) \<and>
     (\<forall>k. fmlookup (tq_pending q) k \<noteq> Some 0)"

definition counters_ok :: "(nat, transfer_job) fmap \<Rightarrow> row_counters \<Rightarrow> bool" where
  "counters_ok J c \<longleftrightarrow>
     (\<forall>st. get_slot st c = job_sum (\<lambda>j. if same_slot st (j_status j) then 1 else 0) J (rc_order c)) \<and>
     rc_bytes_done c = job_sum j_transferred_bytes J (rc_order c)"

definition totals_ok :: "(nat, transfer_job) fmap \<Rightarrow> row_counters \<Rightarrow> bool" where
  "totals_ok J c \<longleftrightarrow> rc_bytes_total c = job_sum j_total_bytes J (rc_order c)"

definition rows_counters_ok :: "(nat, transfer_job) fmap \<Rightarrow> transfer_queue \<Rightarrow> bool" where
  "rows_counters_ok J q \<longleftrightarrow> (\<forall>key c. fmlookup (tq_rows q) key = Some c \<longrightarrow> counters_ok J c)"

definition rows_totals_ok :: "(nat, transfer_job) fmap \<Rightarrow> transfer_queue \<Rightarrow> bool" where
  "rows_totals_ok J q \<longleftrightarrow> (\<forall>key c. fmlookup (tq_rows q) key = Some c \<longrightarrow> totals_ok J c)"

text \<open>The tables \<^verbatim>\<open>account\<close> keeps: everything but the byte totals.\<close>

definition ledger :: "(nat, transfer_job) fmap \<Rightarrow> transfer_queue \<Rightarrow> bool" where
  "ledger J q \<longleftrightarrow> indexes_ok J q \<and> pending_ok J q \<and> rows_counters_ok J q"

text \<open>How rows, jobs and batches refer to each other.\<close>

definition row_shape_ok :: "transfer_queue \<Rightarrow> nat \<Rightarrow> row_counters \<Rightarrow> bool" where
  "row_shape_ok q key c \<longleftrightarrow>
     rc_order c \<noteq> [] \<and> hd (rc_order c) = key \<and> distinct (rc_order c) \<and>
     (\<forall>i \<in> set (rc_order c). fmlookup (tq_row_of q) i = Some key) \<and>
     (case rc_kind c of
        Batch batch \<Rightarrow>
          fmlookup (tq_batch_row q) batch = Some key \<and>
          (\<forall>i \<in> set (rc_order c). holds_job (\<lambda>j. j_batch_id j = Some batch) (tq_jobs q) i)
      | Single i \<Rightarrow> i = key \<and> rc_order c = [key] \<and> holds_job (\<lambda>j. j_batch_id j = None) (tq_jobs q) i
      | Scan _ \<Rightarrow> False)"

definition structure_ok :: "transfer_queue \<Rightarrow> bool" where
  "structure_ok q \<longleftrightarrow>
     (\<forall>key c. fmlookup (tq_rows q) key = Some c \<longrightarrow> row_shape_ok q key c) \<and>
     (\<forall>i key. fmlookup (tq_row_of q) i = Some key \<longrightarrow>
        (\<exists>c. fmlookup (tq_rows q) key = Some c \<and> i \<in> set (rc_order c))) \<and>
     fmdom (tq_row_of q) = fmdom (tq_jobs q) \<and>
     (\<forall>batch key. fmlookup (tq_batch_row q) batch = Some key \<longrightarrow>
        (\<exists>c. fmlookup (tq_rows q) key = Some c \<and> rc_kind c = Batch batch)) \<and>
     (\<forall>i j. fmlookup (tq_jobs q) i = Some j \<longrightarrow> j_id j = i \<and> i < tq_next_id q)"

definition consistent :: "transfer_queue \<Rightarrow> bool" where
  "consistent q \<longleftrightarrow>
     ledger (tq_jobs q) q \<and> rows_totals_ok (tq_jobs q) q \<and> structure_ok q"

section \<open>Changing one job in a job map\<close>

lemma holds_job_upd [simp]:
  "holds_job P (fmupd i j J) k = (if k = i then P j else holds_job P J k)"
  by (simp add: holds_job_def)

lemma holds_job_drop [simp]:
  "holds_job P (fmdrop i J) k = (k \<noteq> i \<and> holds_job P J k)"
  by (simp add: holds_job_def)

lemma in_jobs_where [simp]: "i |\<in>| jobs_where P J \<longleftrightarrow> holds_job P J i"
  by (auto simp: jobs_where_def holds_job_def fmlookup_dom_iff split: option.splits)

lemma jobs_where_upd:
  "jobs_where P (fmupd i j J) =
     (if P j then finsert i (jobs_where P J) else jobs_where P J |-| {|i|})"
  by (rule fset_eqI) auto

lemma jobs_where_drop: "jobs_where P (fmdrop i J) = jobs_where P J |-| {|i|}"
  by (rule fset_eqI) auto

lemma jobs_where_absent [simp]: "fmlookup J i = None \<Longrightarrow> jobs_where P J |-| {|i|} = jobs_where P J"
  by (rule fset_eqI) (auto simp: holds_job_def)

lemma jobs_where_cong:
  "(\<And>i j. fmlookup J i = Some j \<Longrightarrow> P j = Q j) \<Longrightarrow> jobs_where P J = jobs_where Q J"
  by (rule fset_eqI) (auto simp: holds_job_def split: option.splits)

lemma fmdrop_upd_absent: "fmupd i j (fmdrop i J) = fmupd i j J"
  by (rule fmap_ext) auto

lemma job_sum_drop:
  assumes "distinct ids" and "i \<in> set ids" and "fmlookup J i = Some j"
  shows "job_sum f (fmdrop i J) ids + f j = job_sum f J ids"
  using sum_list_map_update [OF assms(1,2),
      of "\<lambda>k. case fmlookup (fmdrop i J) k of None \<Rightarrow> 0 | Some j \<Rightarrow> f j"
         "\<lambda>k. case fmlookup J k of None \<Rightarrow> 0 | Some j \<Rightarrow> f j"] assms(3)
  by (simp add: job_sum_def)

lemma job_sum_upd:
  assumes "distinct ids" and "i \<in> set ids" and "fmlookup J i = None"
  shows "job_sum f (fmupd i j J) ids = job_sum f J ids + f j"
  using sum_list_map_update [OF assms(1,2),
      of "\<lambda>k. case fmlookup (fmupd i j J) k of None \<Rightarrow> 0 | Some j \<Rightarrow> f j"
         "\<lambda>k. case fmlookup J k of None \<Rightarrow> 0 | Some j \<Rightarrow> f j"] assms(3)
  by (simp add: job_sum_def)

lemma job_sum_other:
  assumes "\<And>k. k \<in> set ids \<Longrightarrow> fmlookup J k = fmlookup J' k"
  shows "job_sum f J ids = job_sum f J' ids"
  unfolding job_sum_def by (rule arg_cong [of _ _ sum_list], rule map_cong) (use assms in auto)

lemma job_sum_filter_absent:
  assumes "\<And>k. k \<in> set ids \<Longrightarrow> \<not> P k \<Longrightarrow> fmlookup J k = None"
  shows "job_sum f J (filter P ids) = job_sum f J ids"
  using assms by (induction ids) (auto simp: job_sum_def)

section \<open>Slots\<close>

lemma same_slot_refl [simp]: "same_slot s s"
  by (simp add: same_slot_def)

lemma get_map_slot:
  "get_slot a (map_slot b f c) = (if same_slot a b then f (get_slot a c) else get_slot a c)"
  by (cases a; cases b) (auto simp: same_slot_def is_failed_def)

lemma map_slot_frame [simp]:
  "rc_kind (map_slot s f c) = rc_kind c" "rc_label (map_slot s f c) = rc_label c"
  "rc_direction (map_slot s f c) = rc_direction c" "rc_order (map_slot s f c) = rc_order c"
  "rc_bytes_total (map_slot s f c) = rc_bytes_total c"
  "rc_bytes_done (map_slot s f c) = rc_bytes_done c"
  by (cases s; simp)+

lemma get_slot_bytes [simp]:
  "get_slot a (c\<lparr>rc_bytes_done := n\<rparr>) = get_slot a c" "get_slot a (c\<lparr>rc_bytes_total := n\<rparr>) = get_slot a c"
  "get_slot a (c\<lparr>rc_order := l\<rparr>) = get_slot a c" "get_slot a (c\<lparr>rc_label := x\<rparr>) = get_slot a c"
  "get_slot a (c\<lparr>rc_direction := d\<rparr>) = get_slot a c"
  by (cases a; simp)+

lemma account_row_frame [simp]:
  "rc_kind (account_row sh add c) = rc_kind c" "rc_label (account_row sh add c) = rc_label c"
  "rc_direction (account_row sh add c) = rc_direction c"
  "rc_order (account_row sh add c) = rc_order c"
  "rc_bytes_total (account_row sh add c) = rc_bytes_total c"
  by (simp_all add: account_row_def Let_def)

text \<open>Booking a job out of, or into, the counters of its row.\<close>

lemma account_row_out:
  assumes "counters_ok J c" and "distinct (rc_order c)" and "i \<in> set (rc_order c)"
    and "fmlookup J i = Some j"
  shows "counters_ok (fmdrop i J) (account_row (shape_of j) False c)"
proof -
  note drop = job_sum_drop [OF assms(2-4)]
  have "get_slot st (account_row (shape_of j) False c) =
      job_sum (\<lambda>j. if same_slot st (j_status j) then 1 else 0) (fmdrop i J) (rc_order c)" for st
    using assms(1) drop [of "\<lambda>j. if same_slot st (j_status j) then 1 else 0"]
    by (auto simp: counters_ok_def account_row_def Let_def get_map_slot shape_of_def split: if_splits)
  moreover have "rc_bytes_done (account_row (shape_of j) False c) =
      job_sum j_transferred_bytes (fmdrop i J) (rc_order c)"
    using assms(1) drop [of j_transferred_bytes]
    by (auto simp: counters_ok_def account_row_def Let_def shape_of_def)
  ultimately show ?thesis by (simp add: counters_ok_def)
qed

lemma account_row_in:
  assumes "counters_ok J c" and "distinct (rc_order c)" and "i \<in> set (rc_order c)"
    and "fmlookup J i = None"
  shows "counters_ok (fmupd i j J) (account_row (shape_of j) True c)"
proof -
  note upd = job_sum_upd [OF assms(2-4)]
  have "get_slot st (account_row (shape_of j) True c) =
      job_sum (\<lambda>j. if same_slot st (j_status j) then 1 else 0) (fmupd i j J) (rc_order c)" for st
    using assms(1) upd [of "\<lambda>j. if same_slot st (j_status j) then 1 else 0" j]
    by (auto simp: counters_ok_def account_row_def Let_def get_map_slot shape_of_def split: if_splits)
  moreover have "rc_bytes_done (account_row (shape_of j) True c) =
      job_sum j_transferred_bytes (fmupd i j J) (rc_order c)"
    using assms(1) upd [of j_transferred_bytes j]
    by (auto simp: counters_ok_def account_row_def Let_def shape_of_def)
  ultimately show ?thesis by (simp add: counters_ok_def)
qed

lemma counters_ok_other:
  assumes "counters_ok J c" and "\<And>k. k \<in> set (rc_order c) \<Longrightarrow> fmlookup J k = fmlookup J' k"
  shows "counters_ok J' c"
  using assms job_sum_other [of "rc_order c" J J'] by (auto simp: counters_ok_def)

lemma totals_ok_other:
  assumes "totals_ok J c" and "\<And>k. k \<in> set (rc_order c) \<Longrightarrow> fmlookup J k = fmlookup J' k"
  shows "totals_ok J' c"
  using assms job_sum_other [of "rc_order c" J J'] by (auto simp: totals_ok_def)

section \<open>Accounting keeps the tables\<close>

lemma account_rows_frame [simp]:
  "tq_jobs (account_rows key sh add q) = tq_jobs q"
  "tq_batch_labels (account_rows key sh add q) = tq_batch_labels q"
  "tq_unkept_times_flagged (account_rows key sh add q) = tq_unkept_times_flagged q"
  "tq_next_id (account_rows key sh add q) = tq_next_id q"
  "tq_next_batch_id (account_rows key sh add q) = tq_next_batch_id q"
  "tq_row_of (account_rows key sh add q) = tq_row_of q"
  "tq_batch_row (account_rows key sh add q) = tq_batch_row q"
  "tq_running (account_rows key sh add q) = tq_running q"
  "tq_queued (account_rows key sh add q) = tq_queued q"
  "tq_queued_by_session (account_rows key sh add q) = tq_queued_by_session q"
  "tq_pending (account_rows key sh add q) = tq_pending q"
  "tq_changes (account_rows key sh add q) = tq_changes q"
  by (simp_all add: account_rows_def split: option.split)

lemma account_indexes_frame [simp]:
  "tq_jobs (account_indexes i sh add q) = tq_jobs q"
  "tq_batch_labels (account_indexes i sh add q) = tq_batch_labels q"
  "tq_unkept_times_flagged (account_indexes i sh add q) = tq_unkept_times_flagged q"
  "tq_next_id (account_indexes i sh add q) = tq_next_id q"
  "tq_next_batch_id (account_indexes i sh add q) = tq_next_batch_id q"
  "tq_row_of (account_indexes i sh add q) = tq_row_of q"
  "tq_batch_row (account_indexes i sh add q) = tq_batch_row q"
  "tq_rows (account_indexes i sh add q) = tq_rows q"
  "tq_pending (account_indexes i sh add q) = tq_pending q"
  "tq_changes (account_indexes i sh add q) = tq_changes q"
  by (simp_all add: account_indexes_def split: job_status.split)

lemma account_pending_frame [simp]:
  "tq_jobs (account_pending sh add q) = tq_jobs q"
  "tq_batch_labels (account_pending sh add q) = tq_batch_labels q"
  "tq_unkept_times_flagged (account_pending sh add q) = tq_unkept_times_flagged q"
  "tq_next_id (account_pending sh add q) = tq_next_id q"
  "tq_next_batch_id (account_pending sh add q) = tq_next_batch_id q"
  "tq_row_of (account_pending sh add q) = tq_row_of q"
  "tq_batch_row (account_pending sh add q) = tq_batch_row q"
  "tq_rows (account_pending sh add q) = tq_rows q"
  "tq_running (account_pending sh add q) = tq_running q"
  "tq_queued (account_pending sh add q) = tq_queued q"
  "tq_queued_by_session (account_pending sh add q) = tq_queued_by_session q"
  "tq_changes (account_pending sh add q) = tq_changes q"
  by (simp_all add: account_pending_def Let_def)

lemma account_frame [simp]:
  "tq_jobs (account i sh add q) = tq_jobs q"
  "tq_batch_labels (account i sh add q) = tq_batch_labels q"
  "tq_unkept_times_flagged (account i sh add q) = tq_unkept_times_flagged q"
  "tq_next_id (account i sh add q) = tq_next_id q"
  "tq_next_batch_id (account i sh add q) = tq_next_batch_id q"
  "tq_row_of (account i sh add q) = tq_row_of q"
  "tq_batch_row (account i sh add q) = tq_batch_row q"
  "tq_changes (account i sh add q) = tq_changes q"
  by (simp_all add: account_def split: option.split)

lemma account_rows_lookup:
  "fmlookup (tq_row_of q) i = Some key \<Longrightarrow>
     fmlookup (tq_rows (account i sh add q)) k =
       (if k = key then map_option (account_row sh add) (fmlookup (tq_rows q) key)
        else fmlookup (tq_rows q) k)"
  by (auto simp: account_def account_rows_def split: option.split)

text \<open>Job \<open>i\<close> is listed in the row \<open>key\<close> and in no other.\<close>

definition listed_at :: "transfer_queue \<Rightarrow> nat \<Rightarrow> nat \<Rightarrow> bool" where
  "listed_at q i key \<longleftrightarrow>
     fmlookup (tq_row_of q) i = Some key \<and> fmlookup (tq_rows q) key \<noteq> None \<and>
     (\<forall>k c. fmlookup (tq_rows q) k = Some c \<longrightarrow>
        distinct (rc_order c) \<and> (i \<in> set (rc_order c) \<longleftrightarrow> k = key))"

lemma structure_row:
  "structure_ok q \<Longrightarrow> fmlookup (tq_rows q) key = Some c \<Longrightarrow> row_shape_ok q key c"
  by (simp add: structure_ok_def)

lemma row_shape_listed:
  "row_shape_ok q key c \<Longrightarrow> i \<in> set (rc_order c) \<Longrightarrow> fmlookup (tq_row_of q) i = Some key"
  by (simp add: row_shape_ok_def)

lemma structure_row_of:
  "structure_ok q \<Longrightarrow> fmlookup (tq_row_of q) i = Some key \<Longrightarrow>
     \<exists>c. fmlookup (tq_rows q) key = Some c \<and> i \<in> set (rc_order c)"
  by (simp add: structure_ok_def)

lemma structure_batch:
  "structure_ok q \<Longrightarrow> fmlookup (tq_batch_row q) b = Some key \<Longrightarrow>
     \<exists>c. fmlookup (tq_rows q) key = Some c \<and> rc_kind c = Batch b"
  by (simp add: structure_ok_def)

lemma structure_listed:
  assumes "structure_ok q" and row_of: "fmlookup (tq_row_of q) i = Some key"
  shows "listed_at q i key"
proof -
  obtain c where c: "fmlookup (tq_rows q) key = Some c" and i: "i \<in> set (rc_order c)"
    using structure_row_of [OF assms] by blast
  have "distinct (rc_order d) \<and> (i \<in> set (rc_order d) \<longleftrightarrow> k = key)"
    if d: "fmlookup (tq_rows q) k = Some d" for k d
  proof -
    have shape: "row_shape_ok q k d" by (rule structure_row [OF assms(1) d])
    then have "i \<in> set (rc_order d) \<Longrightarrow> k = key"
      using row_shape_listed row_of by fastforce
    moreover have "k = key \<Longrightarrow> i \<in> set (rc_order d)" using c i d by simp
    ultimately show ?thesis using shape by (auto simp: row_shape_ok_def)
  qed
  then show ?thesis
    using row_of c by (simp add: listed_at_def)
qed

lemma listed_at_account [simp]:
  "listed_at q i key \<Longrightarrow> listed_at (account i sh add q) i key"
  unfolding listed_at_def
  by (auto simp: account_rows_lookup split: if_splits)

lemma index_insert_get:
  "fmget_or {||} (index_insert s i m) t = (if s = t then finsert i (fmget_or {||} m s) else fmget_or {||} m t)"
  by (simp add: index_insert_def)

lemma index_remove_get:
  "fmget_or {||} (index_remove s i m) t =
     (if s = t then fmget_or {||} m s |-| {|i|} else fmget_or {||} m t)"
  by (auto simp: index_remove_def fmget_or_def Let_def split: option.split)

lemma index_insert_nonempty:
  "\<forall>s. fmlookup m s \<noteq> Some {||} \<Longrightarrow> fmlookup (index_insert t i m) s \<noteq> Some {||}"
  by (auto simp: index_insert_def)

lemma index_remove_nonempty:
  "\<forall>s. fmlookup m s \<noteq> Some {||} \<Longrightarrow> fmlookup (index_remove t i m) s \<noteq> Some {||}"
  by (auto simp: index_remove_def Let_def split: option.split)

lemma decrement_get:
  "fmget_or 0 (decrement m k) l = (if k = l then fmget_or 0 m k - 1 else fmget_or 0 m l)"
  by (auto simp: decrement_def fmget_or_def split: option.split)

lemma decrement_nonzero:
  "\<forall>k. fmlookup m k \<noteq> Some 0 \<Longrightarrow> fmlookup (decrement m l) k \<noteq> Some 0"
  by (auto simp: decrement_def split: option.split)

lemma indexes_out:
  assumes "indexes_ok J q" and "fmlookup J i = Some j"
  shows "indexes_ok (fmdrop i J) (account_indexes i (shape_of j) False q)"
  using assms index_remove_nonempty [of "tq_queued_by_session q"]
  unfolding indexes_ok_def
  by (cases "j_status j")
     (auto simp: account_indexes_def shape_of_def jobs_where_drop index_remove_get holds_job_def
        intro!: fset_eqI)

lemma indexes_in:
  assumes "indexes_ok J q" and "fmlookup J i = None"
  shows "indexes_ok (fmupd i j J) (account_indexes i (shape_of j) True q)"
  using assms index_insert_nonempty [of "tq_queued_by_session q"]
  unfolding indexes_ok_def
  by (cases "j_status j")
     (auto simp: account_indexes_def shape_of_def jobs_where_upd index_insert_get)

lemma pending_out:
  assumes "pending_ok J q" and "fmlookup J i = Some j"
  shows "pending_ok (fmdrop i J) (account_pending (shape_of j) False q)"
proof -
  have card: "fcard (jobs_where (active_key k) (fmdrop i J)) =
      fcard (jobs_where (active_key k) J) - (if active_key k j then 1 else 0)" for k
    using assms(2) by (auto simp: jobs_where_drop fcard_fminus_fsingleton_if holds_job_def)
  show ?thesis
    using assms(1) decrement_nonzero [of "tq_pending q"]
    by (auto simp: pending_ok_def account_pending_def shape_of_def card decrement_get active_key_def Let_def)
qed

lemma pending_in:
  assumes "pending_ok J q" and "fmlookup J i = None"
  shows "pending_ok (fmupd i j J) (account_pending (shape_of j) True q)"
proof -
  have card: "fcard (jobs_where (active_key k) (fmupd i j J)) =
      fcard (jobs_where (active_key k) J) + (if active_key k j then 1 else 0)" for k
    using assms(2) by (auto simp: jobs_where_upd fcard_finsert_if holds_job_def)
  show ?thesis
    using assms(1)
    by (auto simp: pending_ok_def account_pending_def shape_of_def card active_key_def Let_def)
qed

lemma ledger_out:
  assumes "ledger J q" and "fmlookup J i = Some j" and at: "listed_at q i key"
  shows "ledger (fmdrop i J) (account i (shape_of j) False q)"
proof -
  have row_of: "fmlookup (tq_row_of q) i = Some key"
    using at by (simp add: listed_at_def)
  have "counters_ok (fmdrop i J) c'"
    if "fmlookup (tq_rows (account i (shape_of j) False q)) k = Some c'" for k c'
  proof (cases "k = key")
    case True
    with that row_of obtain c where c: "fmlookup (tq_rows q) key = Some c"
      and c': "c' = account_row (shape_of j) False c"
      by (auto simp: account_rows_lookup)
    show ?thesis
      unfolding c' by (rule account_row_out)
        (use assms c in \<open>auto simp: ledger_def rows_counters_ok_def listed_at_def\<close>)
  next
    case False
    with that row_of have c: "fmlookup (tq_rows q) k = Some c'" by (simp add: account_rows_lookup)
    show ?thesis
      by (rule counters_ok_other [of J])
         (use assms c False in \<open>auto simp: ledger_def rows_counters_ok_def listed_at_def\<close>)
  qed
  moreover have "account i (shape_of j) False q =
      account_pending (shape_of j) False (account_indexes i (shape_of j) False
        (account_rows key (shape_of j) False q))"
    using row_of by (simp add: account_def)
  moreover have "indexes_ok J (account_rows key (shape_of j) False q)"
    using assms(1) by (simp add: ledger_def indexes_ok_def)
  moreover have "pending_ok J (account_rows key (shape_of j) False q)"
    using assms(1) by (simp add: ledger_def pending_ok_def)
  ultimately show ?thesis
    using indexes_out [OF _ assms(2)] pending_out [OF _ assms(2)]
    by (simp add: ledger_def rows_counters_ok_def indexes_ok_def pending_ok_def)
qed

lemma ledger_in:
  assumes "ledger J q" and "fmlookup J i = None" and at: "listed_at q i key"
  shows "ledger (fmupd i j J) (account i (shape_of j) True q)"
proof -
  have row_of: "fmlookup (tq_row_of q) i = Some key"
    using at by (simp add: listed_at_def)
  have "counters_ok (fmupd i j J) c'"
    if "fmlookup (tq_rows (account i (shape_of j) True q)) k = Some c'" for k c'
  proof (cases "k = key")
    case True
    with that row_of obtain c where c: "fmlookup (tq_rows q) key = Some c"
      and c': "c' = account_row (shape_of j) True c"
      by (auto simp: account_rows_lookup)
    show ?thesis
      unfolding c' by (rule account_row_in)
        (use assms c in \<open>auto simp: ledger_def rows_counters_ok_def listed_at_def\<close>)
  next
    case False
    with that row_of have c: "fmlookup (tq_rows q) k = Some c'" by (simp add: account_rows_lookup)
    show ?thesis
      by (rule counters_ok_other [of J])
         (use assms c False in \<open>auto simp: ledger_def rows_counters_ok_def listed_at_def\<close>)
  qed
  moreover have "account i (shape_of j) True q =
      account_pending (shape_of j) True (account_indexes i (shape_of j) True
        (account_rows key (shape_of j) True q))"
    using row_of by (simp add: account_def)
  moreover have "indexes_ok J (account_rows key (shape_of j) True q)"
    using assms(1) by (simp add: ledger_def indexes_ok_def)
  moreover have "pending_ok J (account_rows key (shape_of j) True q)"
    using assms(1) by (simp add: ledger_def pending_ok_def)
  ultimately show ?thesis
    using indexes_in [OF _ assms(2)] pending_in [OF _ assms(2)]
    by (simp add: ledger_def rows_counters_ok_def indexes_ok_def pending_ok_def)
qed

end
