(* ===== verification/Queue_Safety.thy ===== *)
theory Queue_Safety
  imports Queue_Inv
begin

text \<open>
  Every operation of the queue keeps \<^const>\<open>consistent\<close>.  The jobs of a queue change in three
  ways, and each has one lemma: a job is rewritten and reconciled (\<open>reconcile_consistent\<close>), a
  job is added (\<open>enqueue_consistent\<close>), jobs are removed and their rows shrunk.
\<close>

section \<open>The references between the tables\<close>

text \<open>The part of the state \<^const>\<open>structure_ok\<close> looks at.\<close>

definition skeleton ::
  "transfer_queue \<Rightarrow>
     (nat \<Rightarrow> (row_kind \<times> nat list) option) \<times> (nat, nat) fmap \<times> (nat, nat) fmap \<times> nat \<times>
     (nat \<Rightarrow> (nat \<times> nat option) option)" where
  "skeleton q =
     (\<lambda>k. map_option (\<lambda>c. (rc_kind c, rc_order c)) (fmlookup (tq_rows q) k),
      tq_row_of q, tq_batch_row q, tq_next_id q,
      \<lambda>i. map_option (\<lambda>j. (j_id j, j_batch_id j)) (fmlookup (tq_jobs q) i))"

lemma skeleton_rows:
  assumes "skeleton q = skeleton q'" and "fmlookup (tq_rows q) k = Some c"
  shows "\<exists>c'. fmlookup (tq_rows q') k = Some c' \<and> rc_kind c' = rc_kind c \<and> rc_order c' = rc_order c"
proof -
  have "map_option (\<lambda>c. (rc_kind c, rc_order c)) (fmlookup (tq_rows q) k) =
      map_option (\<lambda>c. (rc_kind c, rc_order c)) (fmlookup (tq_rows q') k)"
    using assms(1) by (auto simp: skeleton_def dest: fun_cong)
  with assms(2) show ?thesis by (cases "fmlookup (tq_rows q') k") auto
qed

lemma skeleton_jobs:
  assumes "skeleton q = skeleton q'" and "fmlookup (tq_jobs q) i = Some j"
  shows "\<exists>j'. fmlookup (tq_jobs q') i = Some j' \<and> j_id j' = j_id j \<and> j_batch_id j' = j_batch_id j"
proof -
  have "map_option (\<lambda>j. (j_id j, j_batch_id j)) (fmlookup (tq_jobs q) i) =
      map_option (\<lambda>j. (j_id j, j_batch_id j)) (fmlookup (tq_jobs q') i)"
    using assms(1) by (auto simp: skeleton_def dest: fun_cong)
  with assms(2) show ?thesis by (cases "fmlookup (tq_jobs q') i") auto
qed

lemma skeleton_fields:
  "skeleton q = skeleton q' \<Longrightarrow>
     tq_row_of q = tq_row_of q' \<and> tq_batch_row q = tq_batch_row q' \<and> tq_next_id q = tq_next_id q'"
  by (simp add: skeleton_def)

lemma skeleton_batch:
  assumes "skeleton q = skeleton q'" and "holds_job (\<lambda>j. j_batch_id j = b) (tq_jobs q) i"
  shows "holds_job (\<lambda>j. j_batch_id j = b) (tq_jobs q') i"
  using assms(2) skeleton_jobs [OF assms(1), of i]
  by (cases "fmlookup (tq_jobs q) i") (auto simp: holds_job_def)

lemma skeleton_dom:
  assumes "skeleton q = skeleton q'"
  shows "fmdom (tq_jobs q) = fmdom (tq_jobs q')"
  using skeleton_jobs [OF assms] skeleton_jobs [OF assms [symmetric]]
  by (intro fset_eqI) (metis fmlookup_dom_iff)

lemma skeleton_structure:
  assumes eq: "skeleton q = skeleton q'" and ok: "structure_ok q"
  shows "structure_ok q'"
proof -
  note fields = skeleton_fields [OF eq]
  have "row_shape_ok q' key c" if row: "fmlookup (tq_rows q') key = Some c" for key c
  proof -
    obtain c' where c': "fmlookup (tq_rows q) key = Some c'" "rc_kind c' = rc_kind c"
      "rc_order c' = rc_order c"
      using skeleton_rows [OF eq [symmetric] row] by blast
    have "row_shape_ok q key c'" by (rule structure_row [OF ok c'(1)])
    then show ?thesis
      using fields c'(2,3) skeleton_batch [OF eq]
      by (auto simp: row_shape_ok_def split: row_kind.splits)
  qed
  moreover have "\<exists>c. fmlookup (tq_rows q') key = Some c \<and> i \<in> set (rc_order c)"
    if "fmlookup (tq_row_of q') i = Some key" for i key
    using that fields structure_row_of [OF ok] skeleton_rows [OF eq] by metis
  moreover have "\<exists>c. fmlookup (tq_rows q') key = Some c \<and> rc_kind c = Batch batch"
    if "fmlookup (tq_batch_row q') batch = Some key" for batch key
    using that fields ok skeleton_rows [OF eq] by (metis structure_ok_def)
  moreover have "j_id j = i \<and> i < tq_next_id q'" if "fmlookup (tq_jobs q') i = Some j" for i j
    using skeleton_jobs [OF eq [symmetric] that] fields ok by (auto simp: structure_ok_def)
  moreover have "fmdom (tq_row_of q') = fmdom (tq_jobs q')"
    using ok fields skeleton_dom [OF eq] by (simp add: structure_ok_def)
  ultimately show ?thesis by (simp add: structure_ok_def)
qed

lemma skeleton_account [simp]: "skeleton (account i sh add q) = skeleton q"
proof -
  have "map_option (\<lambda>c. (rc_kind c, rc_order c)) (fmlookup (tq_rows (account i sh add q)) k) =
      map_option (\<lambda>c. (rc_kind c, rc_order c)) (fmlookup (tq_rows q) k)" for k
  proof (cases "fmlookup (tq_row_of q) i")
    case None
    then show ?thesis by (simp add: account_def)
  next
    case (Some key)
    show ?thesis
      by (simp add: account_rows_lookup [OF Some] option.map_comp comp_def)
  qed
  then show ?thesis by (simp add: skeleton_def)
qed

lemma skeleton_changes [simp]:
  "skeleton (q\<lparr>tq_changes := cs\<rparr>) = skeleton q"
  "skeleton (q\<lparr>tq_batch_labels := ls\<rparr>) = skeleton q"
  "skeleton (q\<lparr>tq_unkept_times_flagged := fs\<rparr>) = skeleton q"
  "skeleton (q\<lparr>tq_next_batch_id := n\<rparr>) = skeleton q"
  by (simp_all add: skeleton_def)

lemma skeleton_update_job:
  assumes "fmlookup (tq_jobs q) i = Some j" and "j_id j' = j_id j" and "j_batch_id j' = j_batch_id j"
  shows "skeleton (q\<lparr>tq_jobs := fmupd i j' (tq_jobs q)\<rparr>) = skeleton q"
  using assms by (auto simp: skeleton_def fun_eq_iff)

text \<open>The labels, the flags and the changes are not looked at by the invariant.\<close>

lemma consistent_frame [simp]:
  "consistent (q\<lparr>tq_changes := cs\<rparr>) = consistent q"
  "consistent (q\<lparr>tq_batch_labels := ls\<rparr>) = consistent q"
  "consistent (q\<lparr>tq_unkept_times_flagged := fs\<rparr>) = consistent q"
  "consistent (q\<lparr>tq_next_batch_id := n\<rparr>) = consistent q"
  by (simp_all add: consistent_def ledger_def indexes_ok_def pending_ok_def rows_counters_ok_def
      rows_totals_ok_def structure_ok_def row_shape_ok_def cong: row_kind.case_cong)

lemma queue_new_consistent [inv_intros]: "consistent queue_new"
proof -
  have none: "jobs_where P fmempty = {||}" for P
    by (rule fset_eqI) (simp add: holds_job_def)
  show ?thesis
    by (simp add: consistent_def queue_new_def ledger_def indexes_ok_def pending_ok_def
        rows_counters_ok_def rows_totals_ok_def structure_ok_def none)
qed

section \<open>Rewriting a job\<close>

text \<open>A holder of a job may change anything but its identity, its size and its batch.\<close>

definition keeps_identity :: "(transfer_job \<Rightarrow> transfer_job) \<Rightarrow> bool" where
  "keeps_identity f \<longleftrightarrow>
     (\<forall>j. j_id (f j) = j_id j \<and> j_total_bytes (f j) = j_total_bytes j \<and> j_batch_id (f j) = j_batch_id j)"

lemma jobs_where_same:
  assumes "fmlookup J i = Some j" and "P j' = P j"
  shows "jobs_where P (fmupd i j' J) = jobs_where P J"
  using assms by (intro fset_eqI) (auto simp: holds_job_def)

lemma job_sum_same:
  assumes "fmlookup J i = Some j" and "f j' = f j"
  shows "job_sum f (fmupd i j' J) ids = job_sum f J ids"
  unfolding job_sum_def
  by (rule arg_cong [of _ _ sum_list], rule map_cong) (use assms in auto)

lemma ledger_same_shape:
  assumes "ledger J q" and "fmlookup J i = Some j" and "shape_of j' = shape_of j"
  shows "ledger (fmupd i j' J) q"
proof -
  have eqs: "j_status j' = j_status j" "j_session_id j' = j_session_id j"
    "j_direction j' = j_direction j" "j_transferred_bytes j' = j_transferred_bytes j"
    using assms(3) by (simp_all add: shape_of_def)
  note same = jobs_where_same [OF assms(2), of _ j'] and sums = job_sum_same [OF assms(2), of _ j']
  have "indexes_ok (fmupd i j' J) q"
    using assms(1) by (simp add: ledger_def indexes_ok_def same eqs)
  moreover have "pending_ok (fmupd i j' J) q"
    using assms(1) by (simp add: ledger_def pending_ok_def same eqs active_key_def)
  moreover have "rows_counters_ok (fmupd i j' J) q"
    using assms(1) by (simp add: ledger_def rows_counters_ok_def counters_ok_def sums eqs)
  ultimately show ?thesis by (simp add: ledger_def)
qed

lemma ledger_frame [simp]:
  "ledger J (q\<lparr>tq_jobs := J'\<rparr>) = ledger J q"
  "ledger J (q\<lparr>tq_changes := cs\<rparr>) = ledger J q"
  by (simp_all add: ledger_def indexes_ok_def pending_ok_def rows_counters_ok_def)

lemma rows_totals_account:
  assumes "rows_totals_ok J q"
  shows "rows_totals_ok J (account i sh add q)"
proof (cases "fmlookup (tq_row_of q) i")
  case (Some key)
  then show ?thesis
    using assms by (auto simp: rows_totals_ok_def account_rows_lookup totals_ok_def split: if_splits)
qed (use assms in \<open>simp add: account_def\<close>)

lemma account_commutes_jobs: "account i sh add (q\<lparr>tq_jobs := J\<rparr>) = (account i sh add q)\<lparr>tq_jobs := J\<rparr>"
proof -
  have "account_rows key sh add (q\<lparr>tq_jobs := J\<rparr>) = (account_rows key sh add q)\<lparr>tq_jobs := J\<rparr>" for key
    by (cases "fmlookup (tq_rows q) key") (simp_all add: account_rows_def)
  moreover have "account_indexes i sh add (q\<lparr>tq_jobs := J\<rparr>) = (account_indexes i sh add q)\<lparr>tq_jobs := J\<rparr>" for q
    by (cases "sh_status sh"; cases add) (simp_all add: account_indexes_def)
  moreover have "account_pending sh add (q\<lparr>tq_jobs := J\<rparr>) = (account_pending sh add q)\<lparr>tq_jobs := J\<rparr>" for q
    by (cases "queued_or_running (sh_status sh)"; cases add) (simp_all add: account_pending_def Let_def)
  ultimately show ?thesis
    by (cases "fmlookup (tq_row_of q) i") (simp_all add: account_def)
qed

lemma same_changes: "tq_changes q = cs \<Longrightarrow> q\<lparr>tq_changes := cs @ []\<rparr> = q"
  by (cases q) simp

lemma reconcile_cases:
  assumes "fmlookup (tq_jobs q) i = Some job" and "fmlookup (tq_row_of q) i = Some key"
    and "shape_of job \<noteq> before"
  shows "\<exists>cs. reconcile i before q =
           (account i (shape_of job) True (account i before False q))\<lparr>tq_changes := tq_changes q @ cs\<rparr>"
proof -
  let ?q = "account i (shape_of job) True (account i before False q)"
  have same: "?q\<lparr>tq_changes := tq_changes q @ []\<rparr> = ?q"
    by (rule same_changes) simp
  consider (none) "fmlookup (tq_rows ?q) key = None"
    | (finished) c where "fmlookup (tq_rows ?q) key = Some c" "\<not> row_finished q key" "rc_finished c"
    | (reopened) c where "fmlookup (tq_rows ?q) key = Some c" "row_finished q key" "\<not> rc_finished c"
    | (neither) c where "fmlookup (tq_rows ?q) key = Some c" "row_finished q key = rc_finished c"
    by (cases "fmlookup (tq_rows ?q) key") auto
  then show ?thesis
  proof cases
    case none
    then have "reconcile i before q = ?q" using assms by (simp add: reconcile_def)
    with same show ?thesis by metis
  next
    case finished
    then show ?thesis using assms by (auto simp: reconcile_def)
  next
    case reopened
    then show ?thesis using assms by (auto simp: reconcile_def)
  next
    case neither
    then have "reconcile i before q = ?q" using assms by (simp add: reconcile_def)
    with same show ?thesis by metis
  qed
qed

lemma consistent_row_of:
  assumes "consistent q" and "fmlookup (tq_jobs q) i = Some j"
  shows "\<exists>key. fmlookup (tq_row_of q) i = Some key"
  using assms by (metis consistent_def fmdomI fmlookup_dom_iff structure_ok_def)

lemma reconcile_consistent:
  assumes ok: "consistent q" and job: "fmlookup (tq_jobs q) i = Some j"
    and same: "j_id j' = j_id j" "j_total_bytes j' = j_total_bytes j" "j_batch_id j' = j_batch_id j"
  shows "consistent (reconcile i (shape_of j) (q\<lparr>tq_jobs := fmupd i j' (tq_jobs q)\<rparr>))"
proof -
  let ?J = "fmupd i j' (tq_jobs q)"
  let ?q = "q\<lparr>tq_jobs := ?J\<rparr>"
  obtain key where key: "fmlookup (tq_row_of q) i = Some key"
    using consistent_row_of [OF ok job] by blast
  from ok have l: "ledger (tq_jobs q) q" and t: "rows_totals_ok (tq_jobs q) q"
    and s: "structure_ok q"
    by (simp_all add: consistent_def)
  have skel: "skeleton ?q = skeleton q"
    by (rule skeleton_update_job [OF job same(1,3)])
  have t': "rows_totals_ok ?J ?q"
    using t by (simp add: rows_totals_ok_def totals_ok_def job_sum_same [OF job same(2)])
  show ?thesis
  proof (cases "shape_of j' = shape_of j")
    case True
    then have "reconcile i (shape_of j) ?q = ?q" by (simp add: reconcile_def)
    moreover have "ledger ?J ?q" using ledger_same_shape [OF l job True] by simp
    ultimately show ?thesis
      using t' skeleton_structure [OF skel [symmetric] s] by (simp add: consistent_def)
  next
    case False
    let ?q1 = "account i (shape_of j) False q"
    have at: "listed_at q i key" by (rule structure_listed [OF s key])
    have "ledger (fmdrop i (tq_jobs q)) ?q1" by (rule ledger_out [OF l job at])
    then have "ledger (fmupd i j' (fmdrop i (tq_jobs q))) (account i (shape_of j') True ?q1)"
      by (rule ledger_in [where key = key]) (simp_all add: at)
    then have "ledger ?J (account i (shape_of j') True (account i (shape_of j) False ?q))"
      by (simp add: fmdrop_upd_absent account_commutes_jobs)
    moreover have "structure_ok (account i (shape_of j') True (account i (shape_of j) False ?q))"
      by (rule skeleton_structure [OF _ s]) (simp add: skel)
    ultimately have "consistent (account i (shape_of j') True (account i (shape_of j) False ?q))"
      using rows_totals_account [OF rows_totals_account [OF t']] by (simp add: consistent_def)
    moreover obtain cs where "reconcile i (shape_of j) ?q =
        (account i (shape_of j') True (account i (shape_of j) False ?q))\<lparr>tq_changes := tq_changes q @ cs\<rparr>"
      using reconcile_cases [of ?q i j' key "shape_of j"] key False by auto
    ultimately show ?thesis by simp
  qed
qed

lemma update_job_consistent [inv_intros]:
  "consistent q \<Longrightarrow> keeps_identity change \<Longrightarrow> consistent (update_job i change q)"
  by (auto simp: update_job_def keeps_identity_def reconcile_consistent split: option.split)

lemma with_guard_consistent [inv_intros]:
  "consistent q \<Longrightarrow> keeps_identity body \<Longrightarrow> consistent (with_guard i body q)"
  by (auto simp: with_guard_def keeps_identity_def Let_def reconcile_consistent split: option.split)

lemma fold_consistent:
  "consistent q \<Longrightarrow> (\<And>x q. consistent q \<Longrightarrow> consistent (f x q)) \<Longrightarrow> consistent (fold f xs q)"
  by (induction xs arbitrary: q) auto

lemma cancel_all_queued_consistent [inv_intros]:
  "consistent q \<Longrightarrow> consistent (snd (cancel_all_queued q))"
  by (auto simp: cancel_all_queued_def Let_def keeps_identity_def
      intro!: fold_consistent update_job_consistent)

lemma fail_queued_for_session_consistent [inv_intros]:
  "consistent q \<Longrightarrow> consistent (snd (fail_queued_for_session s reason q))"
  by (auto simp: fail_queued_for_session_def Let_def keeps_identity_def
      intro!: fold_consistent update_job_consistent)

lemma retry_or_give_up_consistent [inv_intros]:
  "consistent q \<Longrightarrow> consistent (snd (retry_or_give_up i q))"
  by (auto simp: retry_or_give_up_def keeps_identity_def intro!: update_job_consistent
      split: option.split)

lemma retry_one_consistent:
  "consistent (snd cq) \<Longrightarrow> consistent (snd (retry_one cq i))"
  by (cases cq) (auto simp: retry_one_def keeps_identity_def intro!: update_job_consistent split: option.split)

lemma retry_jobs_consistent [inv_intros]:
  assumes "consistent q"
  shows "consistent (snd (retry_jobs ids q))"
proof -
  have "consistent (snd cq) \<Longrightarrow> consistent (snd (foldl retry_one cq ids))" for cq
    by (induction ids arbitrary: cq) (simp_all add: retry_one_consistent)
  with assms show ?thesis by (simp add: retry_jobs_def)
qed

lemma start_batch_consistent [inv_intros]:
  "consistent q \<Longrightarrow> consistent (snd (start_batch label q))"
  by (simp add: start_batch_def Let_def)

lemma forget_batch_consistent [inv_intros]:
  "consistent q \<Longrightarrow> consistent (forget_batch_if_empty b q)"
  by (simp add: forget_batch_if_empty_def)

lemma flag_unkept_times_consistent [inv_intros]:
  "consistent q \<Longrightarrow> consistent (snd (flag_unkept_times b q))"
  by (simp add: flag_unkept_times_def)

section \<open>Adding a job\<close>

lemma fresh_id:
  assumes "structure_ok q"
  shows "fmlookup (tq_jobs q) (tq_next_id q) = None"
    and "fmlookup (tq_row_of q) (tq_next_id q) = None"
    and "fmlookup (tq_rows q) (tq_next_id q) = None"
    and "fmlookup (tq_rows q) k = Some c \<Longrightarrow> tq_next_id q \<notin> set (rc_order c)"
proof -
  show jobs: "fmlookup (tq_jobs q) (tq_next_id q) = None"
    using assms by (cases "fmlookup (tq_jobs q) (tq_next_id q)") (auto simp: structure_ok_def)
  show row_of: "fmlookup (tq_row_of q) (tq_next_id q) = None"
    using assms jobs by (metis fmdom_notD fmdom_notI structure_ok_def)
  show order: "fmlookup (tq_rows q) k = Some c \<Longrightarrow> tq_next_id q \<notin> set (rc_order c)" for k c
    using structure_row [OF assms] row_shape_listed row_of by fastforce
  show "fmlookup (tq_rows q) (tq_next_id q) = None"
    using structure_row [OF assms] order
    by (cases "fmlookup (tq_rows q) (tq_next_id q)")
       (auto simp: row_shape_ok_def, metis list.set_sel(1))
qed

text \<open>The job and its row as \<^const>\<open>enqueue\<close> puts them in, before they are accounted.\<close>

definition place_job ::
  "transfer_job \<Rightarrow> nat \<Rightarrow> row_counters \<Rightarrow> (nat, nat) fmap \<Rightarrow> transfer_queue \<Rightarrow> transfer_queue" where
  "place_job job key c batch_row q =
     q\<lparr>tq_next_id := tq_next_id q + 1, tq_batch_row := batch_row, tq_rows := fmupd key c (tq_rows q),
       tq_row_of := fmupd (tq_next_id q) key (tq_row_of q),
       tq_jobs := fmupd (tq_next_id q) job (tq_jobs q)\<rparr>"

lemma place_in_new_row:
  assumes ok: "structure_ok q" and "j_id job = tq_next_id q" and "rc_order c = [tq_next_id q]"
    and kind: "case j_batch_id job of
           None \<Rightarrow> rc_kind c = Single (tq_next_id q) \<and> batch_row = tq_batch_row q
         | Some b \<Rightarrow> rc_kind c = Batch b \<and> fmlookup (tq_batch_row q) b = None \<and>
             batch_row = fmupd b (tq_next_id q) (tq_batch_row q)"
  shows "structure_ok (place_job job (tq_next_id q) c batch_row q)"
    (is "structure_ok ?q")
proof -
  let ?i = "tq_next_id q"
  note fresh = fresh_id [OF ok]
  have "row_shape_ok ?q k d" if row: "fmlookup (tq_rows ?q) k = Some d" for k d
  proof (cases "k = ?i")
    case True
    then show ?thesis
      using row assms by (auto simp: place_job_def row_shape_ok_def split: option.splits)
  next
    case False
    then have d: "fmlookup (tq_rows q) k = Some d" using row by (simp add: place_job_def)
    note shape = structure_row [OF ok d] and out = fresh(4) [OF d]
    have batch: "fmlookup batch_row b = Some k" if "fmlookup (tq_batch_row q) b = Some k" for b
      using kind that by (auto split: option.splits)
    have "tq_next_id q \<noteq> k" using False by simp
    then show ?thesis
      using shape out batch
      by (auto simp: place_job_def row_shape_ok_def split: row_kind.splits)
  qed
  moreover have "\<exists>d. fmlookup (tq_rows ?q) k = Some d \<and> i \<in> set (rc_order d)"
    if "fmlookup (tq_row_of ?q) i = Some k" for i k
    using that assms(3) structure_row_of [OF ok, of i k] fresh(3)
    by (auto simp: place_job_def split: if_splits)
  moreover have "\<exists>d. fmlookup (tq_rows ?q) k = Some d \<and> rc_kind d = Batch b"
    if "fmlookup (tq_batch_row ?q) b = Some k" for b k
  proof (cases "j_batch_id job = Some b")
    case True
    then show ?thesis using that kind by (auto simp: place_job_def)
  next
    case False
    then have "fmlookup (tq_batch_row q) b = Some k"
      using that kind by (auto simp: place_job_def split: option.splits if_splits)
    then obtain d where d: "fmlookup (tq_rows q) k = Some d" "rc_kind d = Batch b"
      using structure_batch [OF ok] by blast
    moreover have "tq_next_id q \<noteq> k" using d fresh(3) by auto
    ultimately show ?thesis by (simp add: place_job_def)
  qed
  moreover have "fmdom (tq_row_of ?q) = fmdom (tq_jobs ?q)"
    using ok by (simp add: place_job_def structure_ok_def)
  moreover have "j_id j = i \<and> i < tq_next_id ?q" if "fmlookup (tq_jobs ?q) i = Some j" for i j
    using that ok assms(2) by (auto simp: place_job_def structure_ok_def split: if_splits intro: less_SucI)
  ultimately show ?thesis by (simp add: structure_ok_def)
qed

lemma place_in_batch_row:
  assumes ok: "structure_ok q" and "j_id job = tq_next_id q" and "j_batch_id job = Some b"
    and key: "fmlookup (tq_batch_row q) b = Some key" and c0: "fmlookup (tq_rows q) key = Some c0"
    and c: "rc_kind c = rc_kind c0" "rc_order c = rc_order c0 @ [tq_next_id q]"
  shows "structure_ok (place_job job key c (fmupd b key (tq_batch_row q)) q)"
    (is "structure_ok ?q")
proof -
  let ?i = "tq_next_id q"
  note fresh = fresh_id [OF ok]
  have kind0: "rc_kind c0 = Batch b"
    using structure_batch [OF ok key] c0 by simp
  have same: "fmupd b key (tq_batch_row q) = tq_batch_row q"
    using key by (intro fmap_ext) auto
  have "row_shape_ok ?q k d" if row: "fmlookup (tq_rows ?q) k = Some d" for k d
  proof (cases "k = key")
    case True
    then have "d = c" using row by (simp add: place_job_def)
    then show ?thesis
      using structure_row [OF ok c0] fresh(4) [OF c0] c kind0 True assms(3)
      by (auto simp: place_job_def row_shape_ok_def same)
  next
    case False
    then have d: "fmlookup (tq_rows q) k = Some d" using row by (simp add: place_job_def)
    have "tq_next_id q \<noteq> k" using d fresh(3) by auto
    then show ?thesis
      using structure_row [OF ok d] fresh(4) [OF d]
      by (auto simp: place_job_def row_shape_ok_def same split: row_kind.splits)
  qed
  moreover have "\<exists>d. fmlookup (tq_rows ?q) k = Some d \<and> i \<in> set (rc_order d)"
    if "fmlookup (tq_row_of ?q) i = Some k" for i k
    using that c structure_row_of [OF ok, of i k] c0
    by (auto simp: place_job_def split: if_splits)
  moreover have "\<exists>d. fmlookup (tq_rows ?q) k = Some d \<and> rc_kind d = Batch b'"
    if "fmlookup (tq_batch_row ?q) b' = Some k" for b' k
    using structure_batch [OF ok, of b' k] that c c0 by (auto simp: place_job_def same)
  moreover have "fmdom (tq_row_of ?q) = fmdom (tq_jobs ?q)"
    using ok by (simp add: place_job_def structure_ok_def)
  moreover have "j_id j = i \<and> i < tq_next_id ?q" if "fmlookup (tq_jobs ?q) i = Some j" for i j
    using that ok assms(2) by (auto simp: place_job_def structure_ok_def split: if_splits intro: less_SucI)
  ultimately show ?thesis by (simp add: structure_ok_def)
qed

lemma ledger_place:
  assumes "ledger (tq_jobs q) q" and "structure_ok q" and "counters_ok (tq_jobs q) c"
  shows "ledger (tq_jobs q) (place_job job key c batch_row q)"
  using assms
  by (auto simp: ledger_def place_job_def indexes_ok_def pending_ok_def rows_counters_ok_def)

lemma counters_ok_grow:
  assumes "counters_ok J c" and "fmlookup J i = None"
  shows "counters_ok J (c\<lparr>rc_order := rc_order c @ [i], rc_bytes_total := n\<rparr>)"
  using assms by (simp add: counters_ok_def job_sum_def)

lemma counters_ok_new [simp]: "counters_ok J (row_counters_new kind label direction)"
proof -
  have "get_slot st (row_counters_new kind label direction) = 0" for st
    by (cases st) (simp_all add: row_counters_new_def)
  then show ?thesis by (simp add: counters_ok_def job_sum_def row_counters_new_def)
qed

text \<open>\<^const>\<open>enqueue\<close>, with the choices of its row spelled out.\<close>

definition enqueued_job ::
  "nat \<Rightarrow> direction \<Rightarrow> path \<Rightarrow> string \<Rightarrow> string \<Rightarrow> nat \<Rightarrow> nat option \<Rightarrow> transfer_queue \<Rightarrow> transfer_job" where
  "enqueued_job s d l r name bytes batch q =
     \<lparr>j_id = tq_next_id q, j_session_id = s, j_direction = d, j_local_path = l, j_remote_path = r,
      j_display_name = name, j_total_bytes = bytes, j_transferred_bytes = 0, j_status = Queued,
      j_attempts = 0, j_batch_id = batch, j_resume = False, j_modified = None\<rparr>"

lemma enqueue_form:
  assumes ok: "structure_ok q"
  shows "\<exists>key c0 batch_row cs.
           snd (enqueue s d l r name bytes batch q) =
             (let job = enqueued_job s d l r name bytes batch q;
                  c = c0\<lparr>rc_order := rc_order c0 @ [tq_next_id q],
                         rc_bytes_total := rc_bytes_total c0 + bytes\<rparr>
              in (account (tq_next_id q) (shape_of job) True (place_job job key c batch_row q))
                   \<lparr>tq_changes := cs\<rparr>) \<and>
           structure_ok
             (place_job (enqueued_job s d l r name bytes batch q) key
                (c0\<lparr>rc_order := rc_order c0 @ [tq_next_id q],
                   rc_bytes_total := rc_bytes_total c0 + bytes\<rparr>) batch_row q) \<and>
           ((\<exists>kind label. c0 = row_counters_new kind label d) \<or> fmlookup (tq_rows q) key = Some c0)"
proof -
  let ?i = "tq_next_id q"
  let ?job = "enqueued_job s d l r name bytes batch q"
  define label where "label = (case batch of Some b \<Rightarrow> fmget_or name (tq_batch_labels q) b | None \<Rightarrow> name)"
  define kind where "kind = (case batch of Some b \<Rightarrow> Batch b | None \<Rightarrow> Single ?i)"
  define key where "key = (case batch of Some b \<Rightarrow> fmget_or ?i (tq_batch_row q) b | None \<Rightarrow> ?i)"
  define br where "br = (case batch of Some b \<Rightarrow> fmupd b key (tq_batch_row q) | None \<Rightarrow> tq_batch_row q)"
  define c0 where "c0 = fmget_or (row_counters_new kind label d) (tq_rows q) key"
  define c where "c = c0\<lparr>rc_order := rc_order c0 @ [?i], rc_bytes_total := rc_bytes_total c0 + bytes\<rparr>"
  define q2 where "q2 = account ?i (shape_of ?job) True (place_job ?job key c br q)"
  have same: "q2\<lparr>tq_changes := tq_changes q2\<rparr> = q2" by simp
  have "snd (enqueue s d l r name bytes batch q) =
      (if row_finished q key \<and> \<not> row_finished q2 key
       then q2\<lparr>tq_changes := tq_changes q2 @ [Reopened kind]\<rparr> else q2)"
    by (cases batch) (simp_all add: enqueue_def Let_def q2_def c_def c0_def br_def key_def kind_def
        label_def place_job_def enqueued_job_def)
  then have "\<exists>cs. snd (enqueue s d l r name bytes batch q) = q2\<lparr>tq_changes := cs\<rparr>"
    using same by metis
  moreover have "structure_ok (place_job ?job key c br q)"
  proof (cases "\<exists>b k. batch = Some b \<and> fmlookup (tq_batch_row q) b = Some k")
    case True
    then obtain b where b: "batch = Some b" "fmlookup (tq_batch_row q) b = Some key"
      by (auto simp: key_def fmget_or_def)
    then obtain d where "fmlookup (tq_rows q) key = Some d" using structure_batch [OF ok] by blast
    then have "fmlookup (tq_rows q) key = Some c0" by (simp add: c0_def fmget_or_def)
    then show ?thesis
      unfolding br_def using b
      by (auto simp: c_def enqueued_job_def intro!: place_in_batch_row [OF ok])
  next
    case False
    then have key: "key = ?i" by (auto simp: key_def fmget_or_def split: option.splits)
    then have "c0 = row_counters_new kind label d" using fresh_id(3) [OF ok] by (simp add: c0_def fmget_or_def)
    then show ?thesis
      unfolding key using False key
      by (intro place_in_new_row [OF ok])
         (auto simp: c_def enqueued_job_def row_counters_new_def kind_def br_def split: option.split)
  qed
  moreover have "(\<exists>kind label. c0 = row_counters_new kind label d) \<or> fmlookup (tq_rows q) key = Some c0"
    by (auto simp: c0_def fmget_or_def split: option.split)
  ultimately show ?thesis unfolding q2_def c_def Let_def by blast
qed

lemma enqueue_consistent [inv_intros]:
  assumes ok: "consistent q"
  shows "consistent (snd (enqueue s d l r name bytes batch q))"
proof -
  let ?i = "tq_next_id q"
  let ?job = "enqueued_job s d l r name bytes batch q"
  from ok have lg: "ledger (tq_jobs q) q" and t: "rows_totals_ok (tq_jobs q) q" and st: "structure_ok q"
    by (simp_all add: consistent_def)
  obtain key c0 br cs where
    eq: "snd (enqueue s d l r name bytes batch q) =
      (account ?i (shape_of ?job) True
        (place_job ?job key (c0\<lparr>rc_order := rc_order c0 @ [?i],
            rc_bytes_total := rc_bytes_total c0 + bytes\<rparr>) br q))\<lparr>tq_changes := cs\<rparr>"
    and st': "structure_ok (place_job ?job key (c0\<lparr>rc_order := rc_order c0 @ [?i],
            rc_bytes_total := rc_bytes_total c0 + bytes\<rparr>) br q)"
    and old: "(\<exists>kind label. c0 = row_counters_new kind label d) \<or> fmlookup (tq_rows q) key = Some c0"
    using enqueue_form [OF st, of s d l r name bytes batch] unfolding Let_def by blast
  define c where "c = c0\<lparr>rc_order := rc_order c0 @ [?i], rc_bytes_total := rc_bytes_total c0 + bytes\<rparr>"
  define q1 where "q1 = place_job ?job key c br q"
  note fresh = fresh_id [OF st]
  have jobs: "tq_jobs q1 = fmupd ?i ?job (tq_jobs q)" by (simp add: q1_def place_job_def)
  have "counters_ok (tq_jobs q) c0"
    using old lg by (auto simp: ledger_def rows_counters_ok_def)
  then have "counters_ok (tq_jobs q) c"
    unfolding c_def by (rule counters_ok_grow) (rule fresh(1))
  then have "ledger (tq_jobs q) q1"
    unfolding q1_def by (rule ledger_place [OF lg st])
  moreover have "listed_at q1 ?i key"
    by (rule structure_listed) (use st' in \<open>simp_all add: q1_def c_def place_job_def\<close>)
  ultimately have "ledger (tq_jobs q1) (account ?i (shape_of ?job) True q1)"
    unfolding jobs by (intro ledger_in) (simp_all add: fresh)
  moreover have "totals_ok (tq_jobs q1) e" if e: "fmlookup (tq_rows q1) k = Some e" for k e
  proof (cases "k = key")
    case True
    then have "e = c" using e by (simp add: q1_def place_job_def)
    moreover have "?i \<notin> set (rc_order c0)" "totals_ok (tq_jobs q) c0"
      using old fresh(4) t by (auto simp: row_counters_new_def totals_ok_def job_sum_def rows_totals_ok_def)
    moreover have "job_sum j_total_bytes (tq_jobs q1) (rc_order c0) =
        job_sum j_total_bytes (tq_jobs q) (rc_order c0)"
      by (rule job_sum_other) (use calculation jobs in auto)
    then have "job_sum j_total_bytes (tq_jobs q1) (rc_order c0) = rc_bytes_total c0"
      using calculation by (simp add: totals_ok_def)
    ultimately show ?thesis by (simp add: totals_ok_def c_def job_sum_def jobs enqueued_job_def)
  next
    case False
    then have e': "fmlookup (tq_rows q) k = Some e" using e by (simp add: q1_def place_job_def)
    show ?thesis
      by (rule totals_ok_other [of "tq_jobs q"])
         (use t e' fresh(4) [OF e'] jobs in \<open>auto simp: rows_totals_ok_def\<close>)
  qed
  then have "rows_totals_ok (tq_jobs q1) (account ?i (shape_of ?job) True q1)"
    by (intro rows_totals_account) (simp add: rows_totals_ok_def)
  moreover have "structure_ok (account ?i (shape_of ?job) True q1)"
    by (rule skeleton_structure [of q1]) (use st' in \<open>simp_all add: q1_def c_def\<close>)
  ultimately have "consistent (account ?i (shape_of ?job) True q1)" by (simp add: consistent_def)
  then show ?thesis unfolding eq by (simp add: q1_def c_def)
qed

end
