(* ===== verification/Queue_Remove.thy ===== *)
theory Queue_Remove
  imports Queue_Safety
begin

text \<open>
  Removing jobs keeps the queue consistent.  Between its first and its last loop
  \<^const>\<open>remove_jobs\<close> works on a queue whose rows still list ids that are gone; \<open>loose\<close> is the
  invariant of that phase, relative to the ids that each row still has to drop.
\<close>

section \<open>The references while ids are being dropped\<close>

definition loose_row :: "transfer_queue \<Rightarrow> (nat \<Rightarrow> nat fset) \<Rightarrow> nat \<Rightarrow> row_counters \<Rightarrow> bool" where
  "loose_row q R key c \<longleftrightarrow>
     rc_order c \<noteq> [] \<and> hd (rc_order c) = key \<and> distinct (rc_order c) \<and>
     (\<forall>i \<in> set (rc_order c).
        fmlookup (tq_row_of q) i = (if i |\<in>| R key then None else Some key)) \<and>
     (case rc_kind c of
        Batch batch \<Rightarrow>
          fmlookup (tq_batch_row q) batch = Some key \<and>
          (\<forall>i \<in> set (rc_order c). i |\<notin>| R key \<longrightarrow>
             holds_job (\<lambda>j. j_batch_id j = Some batch) (tq_jobs q) i)
      | Single i \<Rightarrow>
          i = key \<and> rc_order c = [key] \<and>
          (i |\<notin>| R key \<longrightarrow> holds_job (\<lambda>j. j_batch_id j = None) (tq_jobs q) i)
      | Scan _ \<Rightarrow> False)"

definition loose :: "(nat \<Rightarrow> nat fset) \<Rightarrow> transfer_queue \<Rightarrow> bool" where
  "loose R q \<longleftrightarrow>
     (\<forall>key c. fmlookup (tq_rows q) key = Some c \<longrightarrow> loose_row q R key c) \<and>
     (\<forall>key. R key \<noteq> {||} \<longrightarrow> fmlookup (tq_rows q) key \<noteq> None) \<and>
     (\<forall>i key. fmlookup (tq_row_of q) i = Some key \<longrightarrow>
        (\<exists>c. fmlookup (tq_rows q) key = Some c \<and> i \<in> set (rc_order c))) \<and>
     fmdom (tq_row_of q) = fmdom (tq_jobs q) \<and>
     (\<forall>batch key. fmlookup (tq_batch_row q) batch = Some key \<longrightarrow>
        (\<exists>c. fmlookup (tq_rows q) key = Some c \<and> rc_kind c = Batch batch)) \<and>
     (\<forall>i j. fmlookup (tq_jobs q) i = Some j \<longrightarrow> j_id j = i \<and> i < tq_next_id q)"

definition settling :: "(nat \<Rightarrow> nat fset) \<Rightarrow> transfer_queue \<Rightarrow> bool" where
  "settling R q \<longleftrightarrow> ledger (tq_jobs q) q \<and> rows_totals_ok (tq_jobs q) q \<and> loose R q"

lemma loose_row_none: "loose_row q (\<lambda>_. {||}) key c = row_shape_ok q key c"
  by (cases "rc_kind c") (simp_all add: loose_row_def row_shape_ok_def)

lemma loose_none: "loose (\<lambda>_. {||}) q = structure_ok q"
  by (simp add: loose_def structure_ok_def loose_row_none)

lemma settling_none: "settling (\<lambda>_. {||}) q = consistent q"
  by (simp add: settling_def consistent_def loose_none)

lemma loose_rowD: "loose R q \<Longrightarrow> fmlookup (tq_rows q) key = Some c \<Longrightarrow> loose_row q R key c"
  by (simp add: loose_def)

lemma loose_row_of:
  "loose R q \<Longrightarrow> fmlookup (tq_row_of q) i = Some key \<Longrightarrow>
     \<exists>c. fmlookup (tq_rows q) key = Some c \<and> i \<in> set (rc_order c)"
  by (simp add: loose_def)

lemma loose_batch:
  "loose R q \<Longrightarrow> fmlookup (tq_batch_row q) b = Some key \<Longrightarrow>
     \<exists>c. fmlookup (tq_rows q) key = Some c \<and> rc_kind c = Batch b"
  by (simp add: loose_def)

lemma loose_dom: "loose R q \<Longrightarrow> fmdom (tq_row_of q) = fmdom (tq_jobs q)"
  by (simp add: loose_def)

lemma loose_pending_row: "loose R q \<Longrightarrow> R key \<noteq> {||} \<Longrightarrow> fmlookup (tq_rows q) key \<noteq> None"
  by (simp add: loose_def)

lemma loose_jobs:
  "loose R q \<Longrightarrow> fmlookup (tq_jobs q) i = Some j \<Longrightarrow> j_id j = i \<and> i < tq_next_id q"
  by (simp add: loose_def)

lemma loose_dropped:
  assumes "loose R q" and "fmlookup (tq_rows q) key = Some c" and "i \<in> set (rc_order c)"
  shows "fmlookup (tq_jobs q) i = None \<longleftrightarrow> i |\<in>| R key"
proof -
  have "fmlookup (tq_row_of q) i = None \<longleftrightarrow> i |\<in>| R key"
    using loose_rowD [OF assms(1,2)] assms(3) by (simp add: loose_row_def)
  then show ?thesis
    using loose_dom [OF assms(1)] by (metis fmdom_notD fmdom_notI)
qed

lemma loose_listed:
  assumes ok: "loose R q" and row_of: "fmlookup (tq_row_of q) i = Some key"
  shows "listed_at q i key"
proof -
  obtain c where c: "fmlookup (tq_rows q) key = Some c" and i: "i \<in> set (rc_order c)"
    using loose_row_of [OF ok row_of] by blast
  have "distinct (rc_order d) \<and> (i \<in> set (rc_order d) \<longleftrightarrow> k = key)"
    if d: "fmlookup (tq_rows q) k = Some d" for k d
    using loose_rowD [OF ok d] row_of c d i
    by (auto simp: loose_row_def split: if_splits)
  then show ?thesis using row_of c by (simp add: listed_at_def)
qed

section \<open>The first loop\<close>

text \<open>The queue after job \<open>i\<close> of the row \<open>key\<close> is dropped, and the bytes of its row.\<close>

definition drop_job :: "nat \<Rightarrow> nat \<Rightarrow> transfer_job \<Rightarrow> transfer_queue \<Rightarrow> transfer_queue" where
  "drop_job i key job q =
     (let q1 = account i (shape_of job) False q;
          q2 = (case fmlookup (tq_rows q1) key of
                  None \<Rightarrow> q1
                | Some c \<Rightarrow>
                    q1\<lparr>tq_rows := fmupd key (c\<lparr>rc_bytes_total :=
                          rc_bytes_total c - j_total_bytes job\<rparr>) (tq_rows q1)\<rparr>)
      in q2\<lparr>tq_row_of := fmdrop i (tq_row_of q2), tq_jobs := fmdrop i (tq_jobs q2)\<rparr>)"

lemma remove_one_queue:
  assumes "fmlookup (tq_jobs (rm_queue r)) i = Some job"
    and "fmlookup (tq_row_of (rm_queue r)) i = Some key"
  shows "rm_queue (remove_one i r) = drop_job i key job (rm_queue r)"
    and "rm_removed_by_row (remove_one i r) = index_insert key i (rm_removed_by_row r)"
  using assms by (simp_all add: remove_one_def drop_job_def Let_def)

lemma drop_job_frame:
  "tq_jobs (drop_job i key job q) = fmdrop i (tq_jobs q)"
  "tq_row_of (drop_job i key job q) = fmdrop i (tq_row_of q)"
  "tq_batch_row (drop_job i key job q) = tq_batch_row q"
  "tq_next_id (drop_job i key job q) = tq_next_id q"
  by (simp_all add: drop_job_def Let_def split: option.split)

lemma drop_job_tables:
  assumes "fmlookup (tq_row_of q) i = Some key"
  shows "tq_running (drop_job i key job q) = tq_running (account i (shape_of job) False q)"
    and "tq_queued (drop_job i key job q) = tq_queued (account i (shape_of job) False q)"
    and "tq_queued_by_session (drop_job i key job q) =
           tq_queued_by_session (account i (shape_of job) False q)"
    and "tq_pending (drop_job i key job q) = tq_pending (account i (shape_of job) False q)"
    and "fmlookup (tq_rows (drop_job i key job q)) k =
           (if k = key
            then map_option (\<lambda>c. account_row (shape_of job) False c
                     \<lparr>rc_bytes_total := rc_bytes_total c - j_total_bytes job\<rparr>) (fmlookup (tq_rows q) key)
            else fmlookup (tq_rows q) k)"
  using assms by (auto simp: drop_job_def Let_def account_rows_lookup split: option.split)

lemma drop_job_ledger:
  assumes "ledger (tq_jobs q) q" and "fmlookup (tq_jobs q) i = Some job" and "listed_at q i key"
  shows "ledger (fmdrop i (tq_jobs q)) (drop_job i key job q)"
proof -
  have row_of: "fmlookup (tq_row_of q) i = Some key" using assms(3) by (simp add: listed_at_def)
  note out = ledger_out [OF assms]
  have "counters_ok (fmdrop i (tq_jobs q)) c'"
    if c': "fmlookup (tq_rows (drop_job i key job q)) k = Some c'" for k c'
  proof (cases "k = key")
    case True
    with c' obtain c where c: "fmlookup (tq_rows q) key = Some c"
      and eq: "c' = account_row (shape_of job) False c
          \<lparr>rc_bytes_total := rc_bytes_total c - j_total_bytes job\<rparr>"
      by (auto simp: drop_job_tables [OF row_of])
    have "fmlookup (tq_rows (account i (shape_of job) False q)) key =
        Some (account_row (shape_of job) False c)"
      by (simp add: account_rows_lookup [OF row_of] c)
    with out have "counters_ok (fmdrop i (tq_jobs q)) (account_row (shape_of job) False c)"
      by (auto simp: ledger_def rows_counters_ok_def)
    then show ?thesis by (simp add: eq counters_ok_def)
  next
    case False
    then have "fmlookup (tq_rows (account i (shape_of job) False q)) k = Some c'"
      using c' row_of by (simp add: drop_job_tables account_rows_lookup)
    with out show ?thesis by (auto simp: ledger_def rows_counters_ok_def)
  qed
  with out show ?thesis
    by (simp add: ledger_def indexes_ok_def pending_ok_def rows_counters_ok_def
        drop_job_tables [OF row_of])
qed

lemma drop_job_totals:
  assumes "rows_totals_ok (tq_jobs q) q" and job: "fmlookup (tq_jobs q) i = Some job"
    and at: "listed_at q i key"
  shows "rows_totals_ok (fmdrop i (tq_jobs q)) (drop_job i key job q)"
  unfolding rows_totals_ok_def
proof (intro allI impI)
  fix k c'
  assume c': "fmlookup (tq_rows (drop_job i key job q)) k = Some c'"
  have row_of: "fmlookup (tq_row_of q) i = Some key" using at by (simp add: listed_at_def)
  show "totals_ok (fmdrop i (tq_jobs q)) c'"
  proof (cases "k = key")
    case True
    with c' obtain c where c: "fmlookup (tq_rows q) key = Some c"
      and eq: "c' = account_row (shape_of job) False c
          \<lparr>rc_bytes_total := rc_bytes_total c - j_total_bytes job\<rparr>"
      by (auto simp: drop_job_tables [OF row_of])
    have "rc_bytes_total c = job_sum j_total_bytes (tq_jobs q) (rc_order c)"
      using assms(1) c by (simp add: rows_totals_ok_def totals_ok_def)
    moreover have "job_sum j_total_bytes (fmdrop i (tq_jobs q)) (rc_order c) + j_total_bytes job =
        job_sum j_total_bytes (tq_jobs q) (rc_order c)"
      using at c job by (intro job_sum_drop) (auto simp: listed_at_def)
    ultimately have "rc_bytes_total c - j_total_bytes job =
        job_sum j_total_bytes (fmdrop i (tq_jobs q)) (rc_order c)"
      by linarith
    then show ?thesis by (simp add: eq totals_ok_def)
  next
    case False
    then have c: "fmlookup (tq_rows q) k = Some c'" using c' row_of by (simp add: drop_job_tables)
    have out: "i \<notin> set (rc_order c')" using at c False by (auto simp: listed_at_def)
    show ?thesis
      by (rule totals_ok_other [of "tq_jobs q"]) (use assms(1) c out in \<open>auto simp: rows_totals_ok_def\<close>)
  qed
qed

lemma drop_job_loose:
  assumes ok: "loose R q" and job: "fmlookup (tq_jobs q) i = Some job"
    and row_of: "fmlookup (tq_row_of q) i = Some key"
  shows "loose (R(key := finsert i (R key))) (drop_job i key job q)" (is "loose ?R ?q")
proof -
  note at = loose_listed [OF ok row_of]
  have old: "\<exists>c. fmlookup (tq_rows q) k = Some c \<and> rc_kind c' = rc_kind c \<and> rc_order c' = rc_order c"
    if "fmlookup (tq_rows ?q) k = Some c'" for k c'
    using that by (auto simp: drop_job_tables [OF row_of] split: if_splits)
  have new: "\<exists>c'. fmlookup (tq_rows ?q) k = Some c' \<and> rc_kind c' = rc_kind c \<and> rc_order c' = rc_order c"
    if "fmlookup (tq_rows q) k = Some c" for k c
    using that by (auto simp: drop_job_tables [OF row_of])
  have "loose_row ?q ?R k c'" if c': "fmlookup (tq_rows ?q) k = Some c'" for k c'
  proof -
    obtain c where c: "fmlookup (tq_rows q) k = Some c" "rc_kind c' = rc_kind c" "rc_order c' = rc_order c"
      using old [OF c'] by blast
    have i: "i \<in> set (rc_order c) \<longleftrightarrow> k = key" using at c by (auto simp: listed_at_def)
    have "i |\<notin>| R key" if "k = key"
      using loose_dropped [OF ok c(1), of i] i job that by simp
    then show ?thesis
      using loose_rowD [OF ok c(1)] i c(2,3)
      by (auto simp: loose_row_def drop_job_frame split: row_kind.splits)
  qed
  moreover have "fmlookup (tq_rows ?q) k \<noteq> None" if "?R k \<noteq> {||}" for k
  proof (cases "k = key")
    case True
    then show ?thesis using loose_row_of [OF ok row_of] new by fastforce
  next
    case False
    then have "fmlookup (tq_rows q) k \<noteq> None" using that loose_pending_row [OF ok] by auto
    then show ?thesis using new by fastforce
  qed
  moreover have "\<exists>c. fmlookup (tq_rows ?q) k = Some c \<and> n \<in> set (rc_order c)"
    if "fmlookup (tq_row_of ?q) n = Some k" for n k
  proof -
    from that have "fmlookup (tq_row_of q) n = Some k" by (simp add: drop_job_frame split: if_splits)
    then show ?thesis using loose_row_of [OF ok] new by metis
  qed
  moreover have "\<exists>c. fmlookup (tq_rows ?q) k = Some c \<and> rc_kind c = Batch b"
    if "fmlookup (tq_batch_row ?q) b = Some k" for b k
    using that loose_batch [OF ok] new by (metis drop_job_frame(3))
  moreover have "fmdom (tq_row_of ?q) = fmdom (tq_jobs ?q)"
    using loose_dom [OF ok] by (simp add: drop_job_frame)
  moreover have "j_id j = n \<and> n < tq_next_id ?q" if "fmlookup (tq_jobs ?q) n = Some j" for n j
    using that loose_jobs [OF ok] by (auto simp: drop_job_frame split: if_splits)
  ultimately show ?thesis unfolding loose_def by blast
qed

lemma remove_one_settling:
  assumes "settling (fmget_or {||} (rm_removed_by_row r)) (rm_queue r)"
  shows "settling (fmget_or {||} (rm_removed_by_row (remove_one i r))) (rm_queue (remove_one i r))"
proof (cases "fmlookup (tq_jobs (rm_queue r)) i")
  case None
  then show ?thesis using assms by (simp add: remove_one_def)
next
  case (Some job)
  let ?q = "rm_queue r"
  let ?R = "fmget_or {||} (rm_removed_by_row r)"
  from assms have ok: "loose ?R ?q" by (simp add: settling_def)
  obtain key where key: "fmlookup (tq_row_of ?q) i = Some key"
    using loose_dom [OF ok] Some by (metis fmdomI fmlookup_dom_iff)
  have R: "fmget_or {||} (index_insert key i (rm_removed_by_row r)) = ?R(key := finsert i (?R key))"
    by (rule ext) (auto simp: index_insert_get)
  show ?thesis
    unfolding remove_one_queue [OF Some key] R
    using assms drop_job_ledger [OF _ Some loose_listed [OF ok key]]
      drop_job_totals [OF _ Some loose_listed [OF ok key]] drop_job_loose [OF ok Some key]
    by (simp add: settling_def drop_job_frame)
qed

section \<open>The second loop\<close>

text \<open>A queue whose row \<open>old\<close> is replaced by the row \<open>c\<close> under the key \<open>new\<close>.\<close>

definition move_row :: "nat \<Rightarrow> nat \<Rightarrow> row_counters \<Rightarrow> transfer_queue \<Rightarrow> transfer_queue" where
  "move_row old new c q =
     q\<lparr>tq_rows := fmupd new c (fmdrop old (tq_rows q)),
       tq_row_of := fold (\<lambda>i. fmupd i new) (rc_order c) (tq_row_of q),
       tq_batch_row := (case rc_kind c of Batch b \<Rightarrow> fmupd b new (tq_batch_row q) | _ \<Rightarrow> tq_batch_row q)\<rparr>"

definition drop_row :: "nat \<Rightarrow> row_kind \<Rightarrow> transfer_queue \<Rightarrow> transfer_queue" where
  "drop_row key kind q =
     q\<lparr>tq_rows := fmdrop key (tq_rows q),
       tq_batch_row := (case kind of Batch b \<Rightarrow> fmdrop b (tq_batch_row q) | _ \<Rightarrow> tq_batch_row q)\<rparr>"

lemma fold_fmupd_lookup:
  "fmlookup (fold (\<lambda>i. fmupd i v) xs m) k = (if k \<in> set xs then Some v else fmlookup m k)"
  by (induction xs arbitrary: m) auto

lemma rows_replaced_ledger:
  assumes "ledger J q" and "\<And>k d. fmlookup (tq_rows q') k = Some d \<Longrightarrow>
      fmlookup (tq_rows q) k = Some d \<or> counters_ok J d"
    and "tq_running q' = tq_running q" "tq_queued q' = tq_queued q"
    "tq_queued_by_session q' = tq_queued_by_session q" "tq_pending q' = tq_pending q"
  shows "ledger J q'"
proof -
  have "rows_counters_ok J q'"
    using assms(1,2) unfolding ledger_def rows_counters_ok_def by blast
  then show ?thesis
    using assms(1,3-) by (simp add: ledger_def indexes_ok_def pending_ok_def)
qed

text \<open>The counters of a row do not change when it stops listing ids that are gone.\<close>

lemma counters_ok_filter:
  assumes "counters_ok J c" and "\<And>i. i \<in> set (rc_order c) \<Longrightarrow> \<not> P i \<Longrightarrow> fmlookup J i = None"
    and "c' = c\<lparr>rc_order := filter P (rc_order c), rc_label := l, rc_direction := d\<rparr>"
  shows "counters_ok J c'"
  using assms(1,3) job_sum_filter_absent [OF assms(2)] by (simp add: counters_ok_def)

lemma totals_ok_filter:
  assumes "totals_ok J c" and "\<And>i. i \<in> set (rc_order c) \<Longrightarrow> \<not> P i \<Longrightarrow> fmlookup J i = None"
    and "c' = c\<lparr>rc_order := filter P (rc_order c), rc_label := l, rc_direction := d\<rparr>"
  shows "totals_ok J c'"
  using assms(1,3) job_sum_filter_absent [OF assms(2)] by (simp add: totals_ok_def)

lemma drop_row_loose:
  assumes ok: "loose R q" and c: "fmlookup (tq_rows q) key = Some c"
    and gone: "\<forall>i \<in> set (rc_order c). i |\<in>| R key"
  shows "loose (R(key := {||})) (drop_row key (rc_kind c) q)" (is "loose ?R ?q")
proof -
  have no_ref: "fmlookup (tq_row_of q) i \<noteq> Some key" for i
    using loose_row_of [OF ok, of i key] loose_rowD [OF ok c] c gone
    by (auto simp: loose_row_def)
  have kind: "rc_kind d \<noteq> rc_kind c \<or> (\<forall>b. rc_kind c \<noteq> Batch b)"
    if "fmlookup (tq_rows q) k = Some d" "k \<noteq> key" for k d
    using loose_rowD [OF ok that(1)] loose_rowD [OF ok c] that(2)
    by (auto simp: loose_row_def)
  have "loose_row ?q ?R k d" if d: "fmlookup (tq_rows ?q) k = Some d" for k d
  proof -
    have k: "k \<noteq> key" "fmlookup (tq_rows q) k = Some d"
      using d by (auto simp: drop_row_def split: if_splits)
    show ?thesis
      using loose_rowD [OF ok k(2)] kind [OF k(2,1)] k(1)
      by (auto simp: loose_row_def drop_row_def split: row_kind.splits)
  qed
  moreover have "fmlookup (tq_rows ?q) k \<noteq> None" if "?R k \<noteq> {||}" for k
    using that loose_pending_row [OF ok, of k] by (auto simp: drop_row_def split: if_splits)
  moreover have "\<exists>d. fmlookup (tq_rows ?q) k = Some d \<and> i \<in> set (rc_order d)"
    if "fmlookup (tq_row_of ?q) i = Some k" for i k
    using that loose_row_of [OF ok, of i k] no_ref by (auto simp: drop_row_def)
  moreover have "\<exists>d. fmlookup (tq_rows ?q) k = Some d \<and> rc_kind d = Batch b"
    if b: "fmlookup (tq_batch_row ?q) b = Some k" for b k
  proof -
    have "fmlookup (tq_batch_row q) b = Some k" "rc_kind c \<noteq> Batch b"
      using b by (auto simp: drop_row_def split: row_kind.splits if_splits)
    then show ?thesis
      using loose_batch [OF ok, of b k] c by (auto simp: drop_row_def)
  qed
  moreover have "fmdom (tq_row_of ?q) = fmdom (tq_jobs ?q)"
    using loose_dom [OF ok] by (simp add: drop_row_def)
  moreover have "j_id j = i \<and> i < tq_next_id ?q" if "fmlookup (tq_jobs ?q) i = Some j" for i j
    using that loose_jobs [OF ok] by (simp add: drop_row_def)
  ultimately show ?thesis unfolding loose_def by blast
qed

text \<open>The new key of a row is one of its own jobs, so no other row has it.\<close>

lemma move_row_loose:
  assumes ok: "loose R q" and c: "fmlookup (tq_rows q) key = Some c"
    and order: "rc_order c' = filter (\<lambda>i. i |\<notin>| R key) (rc_order c)" "rc_order c' = new # rest"
    and kind: "rc_kind c' = rc_kind c"
  shows "loose (R(key := {||})) (move_row key new c' q)" (is "loose ?R ?q")
proof -
  note row = loose_rowD [OF ok c]
  have live: "i \<in> set (rc_order c') \<longleftrightarrow> fmlookup (tq_row_of q) i = Some key" for i
    using row loose_row_of [OF ok, of i key] c order(1) by (auto simp: loose_row_def split: if_splits)
  have new: "new \<in> set (rc_order c')" by (simp add: order(2))
  have other: "k \<noteq> new" if "fmlookup (tq_rows q) k = Some d" "k \<noteq> key" for k d
  proof
    assume "k = new"
    have "k \<in> set (rc_order d)"
      using loose_rowD [OF ok that(1)] hd_in_set unfolding loose_row_def by metis
    then have "fmlookup (tq_row_of q) k \<noteq> Some key"
      using loose_rowD [OF ok that(1)] that(2) by (auto simp: loose_row_def)
    then show False using \<open>k = new\<close> new live by simp
  qed
  have no_R: "new \<noteq> key \<Longrightarrow> R new = {||}"
    using loose_pending_row [OF ok, of new] other by (cases "fmlookup (tq_rows q) new") auto
  have apart: "i \<notin> set (rc_order c')" if "fmlookup (tq_rows q) k = Some d" "k \<noteq> key" "i \<in> set (rc_order d)" for k d i
    using loose_rowD [OF ok that(1)] that(2,3) live by (auto simp: loose_row_def split: if_splits)
  have batch: "rc_kind d \<noteq> rc_kind c \<or> (\<forall>b. rc_kind c \<noteq> Batch b)"
    if "fmlookup (tq_rows q) k = Some d" "k \<noteq> key" for k d
    using loose_rowD [OF ok that(1)] row that(2) by (auto simp: loose_row_def)
  have "loose_row ?q ?R k d" if d: "fmlookup (tq_rows ?q) k = Some d" for k d
  proof (cases "k = new")
    case True
    then have eq: "d = c'" using d by (simp add: move_row_def)
    have none: "?R new = {||}" using no_R by auto
    have "distinct (rc_order c')" using row order(1) by (simp add: loose_row_def)
    moreover have "case rc_kind c of
        Batch b \<Rightarrow> \<forall>i \<in> set (rc_order c'). holds_job (\<lambda>j. j_batch_id j = Some b) (tq_jobs q) i
      | Single i \<Rightarrow> i = new \<and> rc_order c' = [new] \<and> holds_job (\<lambda>j. j_batch_id j = None) (tq_jobs q) i
      | Scan _ \<Rightarrow> False"
      using row order by (auto simp: loose_row_def split: row_kind.splits if_splits)
    ultimately show ?thesis
      unfolding eq True using order(2) kind none
      by (auto simp: loose_row_def move_row_def fold_fmupd_lookup split: row_kind.splits)
  next
    case False
    then have k: "k \<noteq> key" "fmlookup (tq_rows q) k = Some d"
      using d by (auto simp: move_row_def split: if_splits)
    show ?thesis
      using loose_rowD [OF ok k(2)] batch [OF k(2,1)] apart [OF k(2,1)] k(1) False kind
      by (auto simp: loose_row_def move_row_def fold_fmupd_lookup split: row_kind.splits)
  qed
  moreover have "fmlookup (tq_rows ?q) k \<noteq> None" if "?R k \<noteq> {||}" for k
    using that loose_pending_row [OF ok, of k] by (auto simp: move_row_def split: if_splits)
  moreover have "\<exists>d. fmlookup (tq_rows ?q) k = Some d \<and> i \<in> set (rc_order d)"
    if i: "fmlookup (tq_row_of ?q) i = Some k" for i k
  proof (cases "i \<in> set (rc_order c')")
    case True
    then have "k = new" using i by (simp add: move_row_def fold_fmupd_lookup)
    then show ?thesis using True by (simp add: move_row_def)
  next
    case False
    then have "fmlookup (tq_row_of q) i = Some k" using i by (simp add: move_row_def fold_fmupd_lookup)
    moreover then obtain d where d: "fmlookup (tq_rows q) k = Some d" "i \<in> set (rc_order d)"
      using loose_row_of [OF ok] by blast
    moreover have "k \<noteq> key" using calculation(1) False live by auto
    ultimately show ?thesis using other by (auto simp: move_row_def)
  qed
  moreover have "\<exists>d. fmlookup (tq_rows ?q) k = Some d \<and> rc_kind d = Batch b"
    if b: "fmlookup (tq_batch_row ?q) b = Some k" for b k
  proof (cases "rc_kind c = Batch b")
    case True
    then have "k = new" using b kind by (simp add: move_row_def)
    then show ?thesis using True kind by (simp add: move_row_def)
  next
    case False
    then have "fmlookup (tq_batch_row q) b = Some k"
      using b kind by (auto simp: move_row_def split: row_kind.splits if_splits)
    then obtain d where d: "fmlookup (tq_rows q) k = Some d" "rc_kind d = Batch b"
      using loose_batch [OF ok] by blast
    moreover have "k \<noteq> key" using d c False by auto
    ultimately show ?thesis using other by (auto simp: move_row_def)
  qed
  moreover have "fmdom (tq_row_of ?q) = fmdom (tq_jobs ?q)"
  proof -
    have "fmlookup (tq_row_of ?q) i = None \<longleftrightarrow> fmlookup (tq_row_of q) i = None" for i
      using live by (auto simp: move_row_def fold_fmupd_lookup)
    then have "fmdom (tq_row_of ?q) = fmdom (tq_row_of q)"
      by (intro fset_eqI) (metis fmdom_notD fmdom_notI)
    then show ?thesis using loose_dom [OF ok] by (simp add: move_row_def)
  qed
  moreover have "j_id j = i \<and> i < tq_next_id ?q" if "fmlookup (tq_jobs ?q) i = Some j" for i j
    using that loose_jobs [OF ok] by (simp add: move_row_def)
  ultimately show ?thesis unfolding loose_def by blast
qed

lemma fmdrop_upd_same: "fmdrop k (fmupd k v m) = fmdrop k m"
  by (rule fmap_ext) auto

lemma shrink_row_form:
  assumes ok: "loose R (rm_queue r)" and c: "fmlookup (tq_rows (rm_queue r)) key = Some c"
    and f: "f = filter (\<lambda>i. i |\<notin>| R key) (rc_order c)"
  shows "f = [] \<and> (\<exists>cs. rm_queue (shrink_row key (R key) r) =
             (drop_row key (rc_kind c) (rm_queue r))\<lparr>tq_changes := cs\<rparr>) \<or>
         (\<exists>new rest l d. f = new # rest \<and>
            rm_queue (shrink_row key (R key) r) =
              move_row key new (c\<lparr>rc_order := f, rc_label := l, rc_direction := d\<rparr>) (rm_queue r))"
proof (cases f)
  case Nil
  have "rm_queue (shrink_row key (R key) r) =
      (drop_row key (rc_kind c) (rm_queue r))
        \<lparr>tq_changes := tq_changes (rm_queue r) @ [Removed (rc_kind c)]\<rparr>"
    using Nil c f by (simp add: shrink_row_def drop_row_def Let_def split: row_kind.split)
  then show ?thesis using Nil by blast
next
  case (Cons new rest)
  let ?q = "rm_queue r"
  let ?c = "c\<lparr>rc_order := f\<rparr>"
  let ?q' = "?q\<lparr>tq_rows := fmupd key ?c (tq_rows ?q)\<rparr>"
  have row: "loose_row ?q R key c" by (rule loose_rowD [OF ok c])
  have queue: "rm_queue (shrink_row key (R key) r) = (if key |\<in>| R key then rekey_row key ?q' else ?q')"
    using Cons c f by (simp add: shrink_row_def Let_def)
  show ?thesis
  proof (cases "key |\<in>| R key")
    case True
    have "\<exists>l d. rekey_row key ?q' = move_row key new (c\<lparr>rc_order := f, rc_label := l, rc_direction := d\<rparr>) ?q"
    proof -
      define d where "d = (case fmlookup (tq_jobs ?q) new of None \<Rightarrow> rc_direction c | Some j \<Rightarrow> j_direction j)"
      define l where "l = (case fmlookup (tq_jobs ?q) new of None \<Rightarrow> rc_label c | Some j \<Rightarrow>
          (case rc_kind c of Batch b \<Rightarrow> if fmlookup (tq_batch_labels ?q) b = None then j_display_name j else rc_label c
           | _ \<Rightarrow> rc_label c))"
      have "rekey_row key ?q' = move_row key new (c\<lparr>rc_order := f, rc_label := l, rc_direction := d\<rparr>) ?q"
        by (cases "fmlookup (tq_jobs ?q) new"; cases "rc_kind c")
           (auto intro!: transfer_queue.equality arg_cong2 [of _ _ _ _ "fmupd new"] row_counters.equality
              simp: rekey_row_def move_row_def Let_def Cons l_def d_def fmdrop_upd_same)
      then show ?thesis by blast
    qed
    then show ?thesis using queue True Cons by auto
  next
    case False
    have "hd f = key" using row False f Cons
      by (cases "rc_order c") (auto simp: loose_row_def)
    then have new: "new = key" using Cons by simp
    have "fold (\<lambda>i. fmupd i key) f (tq_row_of ?q) = tq_row_of ?q"
      by (rule fmap_ext) (use row f in \<open>auto simp: fold_fmupd_lookup loose_row_def\<close>)
    moreover have "fmupd b key (tq_batch_row ?q) = tq_batch_row ?q" if "rc_kind c = Batch b" for b
      by (rule fmap_ext) (use row that in \<open>auto simp: loose_row_def\<close>)
    moreover have "fmupd key ?c (fmdrop key (tq_rows ?q)) = fmupd key ?c (tq_rows ?q)"
      by (rule fmap_ext) auto
    ultimately have "?q' = move_row key new (c\<lparr>rc_order := f, rc_label := rc_label c,
        rc_direction := rc_direction c\<rparr>) ?q"
      by (simp add: move_row_def new split: row_kind.split)
    with queue False have "rm_queue (shrink_row key (R key) r) =
        move_row key new (c\<lparr>rc_order := f, rc_label := rc_label c, rc_direction := rc_direction c\<rparr>) ?q"
      by presburger
    then show ?thesis using Cons by blast
  qed
qed

lemma shrink_row_settling:
  assumes "settling R (rm_queue r)"
  shows "settling (R(key := {||})) (rm_queue (shrink_row key (R key) r))"
proof (cases "fmlookup (tq_rows (rm_queue r)) key")
  case None
  then have "R key = {||}" using assms loose_pending_row unfolding settling_def by blast
  then have "R(key := {||}) = R" by (simp add: fun_upd_idem)
  then show ?thesis using None assms by (simp add: shrink_row_def)
next
  case (Some c)
  let ?q = "rm_queue r"
  let ?f = "filter (\<lambda>i. i |\<notin>| R key) (rc_order c)"
  from assms have lg: "ledger (tq_jobs ?q) ?q" and tot: "rows_totals_ok (tq_jobs ?q) ?q"
    and ok: "loose R ?q"
    by (simp_all add: settling_def)
  have dropped: "fmlookup (tq_jobs ?q) i = None" if "i \<in> set (rc_order c)" "\<not> i |\<notin>| R key" for i
    using loose_dropped [OF ok Some that(1)] that(2) by simp
  from shrink_row_form [OF ok Some refl] show ?thesis
  proof (elim disjE exE conjE)
    fix cs
    assume f: "?f = []" and eq: "rm_queue (shrink_row key (R key) r) =
        drop_row key (rc_kind c) ?q\<lparr>tq_changes := cs\<rparr>"
    let ?d = "drop_row key (rc_kind c) ?q"
    have "ledger (tq_jobs ?q) ?d"
      by (rule rows_replaced_ledger [OF lg]) (auto simp: drop_row_def split: if_splits)
    moreover have "rows_totals_ok (tq_jobs ?q) ?d"
      using tot by (simp add: rows_totals_ok_def drop_row_def)
    moreover have "loose (R(key := {||})) ?d"
      by (rule drop_row_loose [OF ok Some]) (use f in \<open>auto simp: filter_empty_conv\<close>)
    moreover have "tq_jobs ?d = tq_jobs ?q" by (simp add: drop_row_def)
    ultimately show ?thesis
      by (simp add: eq settling_def rows_totals_ok_def loose_def loose_row_def cong: row_kind.case_cong)
  next
    fix new rest l d
    assume f: "?f = new # rest" and eq: "rm_queue (shrink_row key (R key) r) =
        move_row key new (c\<lparr>rc_order := ?f, rc_label := l, rc_direction := d\<rparr>) ?q"
    let ?c = "c\<lparr>rc_order := ?f, rc_label := l, rc_direction := d\<rparr>"
    let ?m = "move_row key new ?c ?q"
    have "counters_ok (tq_jobs ?q) ?c"
      by (rule counters_ok_filter [OF _ dropped refl])
         (use lg Some in \<open>auto simp: ledger_def rows_counters_ok_def\<close>)
    then have "ledger (tq_jobs ?q) ?m"
      by (intro rows_replaced_ledger [OF lg]) (auto simp: move_row_def split: if_splits)
    moreover have "totals_ok (tq_jobs ?q) ?c"
      by (rule totals_ok_filter [OF _ dropped refl]) (use tot Some in \<open>auto simp: rows_totals_ok_def\<close>)
    then have "rows_totals_ok (tq_jobs ?q) ?m"
      using tot by (simp add: rows_totals_ok_def move_row_def)
    moreover have "loose (R(key := {||})) ?m"
      by (rule move_row_loose [OF ok Some]) (use f in auto)
    moreover have "tq_jobs ?m = tq_jobs ?q" by (simp add: move_row_def)
    ultimately show ?thesis by (simp add: eq settling_def)
  qed
qed

lemma shrink_rows_settling:
  "settling R (rm_queue r) \<Longrightarrow>
     settling (\<lambda>k. if k \<in> set keys then {||} else R k)
       (rm_queue (fold (\<lambda>key. shrink_row key (R0 key)) keys r))"
  if "\<And>k. k \<in> set keys \<Longrightarrow> R k = R0 k" and "distinct keys"
  using that
proof (induction keys arbitrary: R r)
  case (Cons key keys)
  have "settling (R(key := {||})) (rm_queue (shrink_row key (R0 key) r))"
    using shrink_row_settling [OF Cons.prems(1), of key] Cons.prems(2) by simp
  then have "settling (\<lambda>k. if k \<in> set keys then {||} else (R(key := {||})) k)
      (rm_queue (fold (\<lambda>key. shrink_row key (R0 key)) keys (shrink_row key (R0 key) r)))"
    by (rule Cons.IH) (use Cons.prems in auto)
  moreover have "(\<lambda>k. if k \<in> set keys then {||} else (R(key := {||})) k) =
      (\<lambda>k. if k \<in> set (key # keys) then {||} else R k)"
    by (rule ext) auto
  ultimately show ?case by simp
qed simp

section \<open>The whole operation\<close>

lemma note_finished_consistent: "consistent q \<Longrightarrow> consistent (note_finished kind before q)"
  by (simp add: note_finished_def split: option.split)

lemma remove_loop_settling:
  "settling (fmget_or {||} (rm_removed_by_row r)) (rm_queue r) \<Longrightarrow>
     settling (fmget_or {||} (rm_removed_by_row (fold remove_one ids r))) (rm_queue (fold remove_one ids r))"
  by (induction ids arbitrary: r) (simp_all add: remove_one_settling)

lemma remove_jobs_consistent [inv_intros]:
  assumes "consistent q"
  shows "consistent (remove_jobs hash_order ids q)"
proof -
  let ?r = "fold remove_one ids \<lparr>rm_queue = q, rm_touched_batches = {||}, rm_removed_by_row = fmempty,
                 rm_was_finished = fmempty\<rparr>"
  let ?R = "fmget_or {||} (rm_removed_by_row ?r)"
  let ?keys = "sorted_list_of_fset (fmdom (rm_removed_by_row ?r))"
  have none: "fmget_or {||} (fmempty :: (nat, nat fset) fmap) = (\<lambda>_. {||})" by auto
  have "settling ?R (rm_queue ?r)"
    by (rule remove_loop_settling) (simp add: none settling_none assms)
  then have "settling (\<lambda>k. if k \<in> set ?keys then {||} else ?R k)
      (rm_queue (fold (\<lambda>key. shrink_row key (?R key)) ?keys ?r))"
    by (rule shrink_rows_settling [rotated 2]) simp_all
  moreover have "(\<lambda>k. if k \<in> set ?keys then {||} else ?R k) = (\<lambda>_. {||})"
    by (rule ext) (auto simp: fmget_or_def fmlookup_dom_iff split: option.split)
  ultimately have "consistent (rm_queue (fold (\<lambda>key. shrink_row key (?R key)) ?keys ?r))"
    by (simp only: settling_none)
  then show ?thesis
    unfolding remove_jobs_def Let_def
    by (intro fold_consistent) (auto intro: note_finished_consistent forget_batch_consistent)
qed

end
