(* ===== verification/Queue_Start.thy ===== *)
theory Queue_Start
  imports Queue_Remove
begin

text \<open>
  Choosing the jobs to start.  \<^const>\<open>startable_limited\<close> merges one sorted stream of queued ids per
  session through a heap, so that a session at its limit costs nothing.  The reference is one
  pass over all queued jobs in the order of their ids; both give the same list.
\<close>

section \<open>The reference: one pass in the order of the ids\<close>

fun greedy ::
  "transfer_queue \<Rightarrow> (nat \<Rightarrow> nat option) \<Rightarrow> nat \<Rightarrow> nat list \<Rightarrow> (nat, nat) fmap \<Rightarrow> destination fset \<Rightarrow>
     nat list \<Rightarrow> nat list" where
  "greedy q lim free [] per busy out = out"
| "greedy q lim free (i # ids) per busy out =
     (if length out < free
      then case fmlookup (tq_jobs q) i of
             None \<Rightarrow> greedy q lim free ids per busy out
           | Some job \<Rightarrow>
               if capped lim (j_session_id job) (fmget_or 0 per (j_session_id job)) \<or>
                  job_destination job |\<in>| busy
               then greedy q lim free ids per busy out
               else greedy q lim free ids (count_session (j_session_id job) per)
                      (finsert (job_destination job) busy) (out @ [j_id job])
      else out)"

definition startable_spec :: "transfer_queue \<Rightarrow> nat \<Rightarrow> (nat \<Rightarrow> nat option) \<Rightarrow> nat list" where
  "startable_spec q limit lim =
     greedy q lim (limit - fcard (tq_running q)) (sorted_list_of_fset (tq_queued q))
       (fold (\<lambda>j. count_session (j_session_id j)) (active_jobs q) fmempty)
       (fset_of_list (map job_destination (active_jobs q))) []"

section \<open>The merge visits the same jobs\<close>

definition session_at :: "transfer_queue \<Rightarrow> nat \<Rightarrow> nat \<Rightarrow> bool" where
  "session_at q i s \<longleftrightarrow> holds_job (\<lambda>j. j_session_id j = s) (tq_jobs q) i"

text \<open>The ids that the heads and the iterators still hold.\<close>

definition remaining :: "(nat \<times> nat) list \<Rightarrow> (nat, nat list) fmap \<Rightarrow> nat set" where
  "remaining heads its = (\<Union>(i, s) \<in> set heads. insert i (set (fmget_or [] its s)))"

definition heads_ok :: "transfer_queue \<Rightarrow> (nat \<times> nat) list \<Rightarrow> (nat, nat list) fmap \<Rightarrow> bool" where
  "heads_ok q heads its \<longleftrightarrow>
     sorted heads \<and> distinct (map snd heads) \<and>
     (\<forall>(i, s) \<in> set heads.
        sorted_wrt (<) (i # fmget_or [] its s) \<and>
        (\<forall>k \<in> insert i (set (fmget_or [] its s)). session_at q k s))"

lemma finite_remaining [simp]: "finite (remaining heads its)"
  by (auto simp: remaining_def)

lemma session_at_unique: "session_at q i s \<Longrightarrow> session_at q i t \<Longrightarrow> s = t"
  by (auto simp: session_at_def holds_job_def split: option.splits)

lemma capped_mono: "capped lim s m \<Longrightarrow> m \<le> n \<Longrightarrow> capped lim s n"
  by (auto simp: capped_def split: option.splits)

lemma count_session_mono: "fmget_or 0 per s \<le> fmget_or 0 (count_session t per) s"
  by (simp add: count_session_def)

text \<open>Jobs of a session at its limit can be left out of the pass.\<close>

lemma greedy_skip_capped:
  assumes "\<forall>i \<in> set ids. \<not> P i \<longrightarrow> holds_job (\<lambda>j. capped lim (j_session_id j) (fmget_or 0 per (j_session_id j))) (tq_jobs q) i"
  shows "greedy q lim free (filter P ids) per busy out = greedy q lim free ids per busy out"
  using assms
proof (induction ids arbitrary: per busy out)
  case (Cons i ids)
  have later: "\<forall>i \<in> set ids. \<not> P i \<longrightarrow>
      holds_job (\<lambda>j. capped lim (j_session_id j) (fmget_or 0 (count_session s per) (j_session_id j))) (tq_jobs q) i" for s
    using Cons.prems capped_mono [OF _ count_session_mono]
    by (auto simp: holds_job_def split: option.splits)
  have full: "greedy q lim free xs per busy out = out" if "\<not> length out < free" for xs
    using that by (cases xs) auto
  show ?case
    using Cons later
    by (cases "length out < free") (auto simp: full holds_job_def split: option.splits)
qed simp

lemma sorted_list_head:
  assumes "finite S" and "i \<in> S" and "\<And>k. k \<in> S \<Longrightarrow> i \<le> k"
  shows "sorted_list_of_set S = i # sorted_list_of_set (S - {i})"
  using assms by (metis Min_eqI empty_iff sorted_list_of_set_nonempty)

lemma filter_sorted_list:
  assumes "finite S"
  shows "filter P (sorted_list_of_set S) = sorted_list_of_set {x \<in> S. P x}"
  by (rule sorted_distinct_set_unique) (use assms in \<open>auto simp: sorted_wrt_filter\<close>)

lemma heads_min:
  assumes ok: "heads_ok q ((i, s) # heads) its" and k: "k \<in> remaining ((i, s) # heads) its"
  shows "i \<le> k"
proof -
  from k obtain i' s' where in_heads: "(i', s') \<in> set ((i, s) # heads)"
    and "k \<in> insert i' (set (fmget_or [] its s'))"
    by (auto simp: remaining_def)
  moreover have "sorted_wrt (<) (i' # fmget_or [] its s')" using ok in_heads by (auto simp: heads_ok_def)
  ultimately have "i' \<le> k" by auto
  moreover have "(i, s) \<le> (i', s')" using ok in_heads by (auto simp: heads_ok_def)
  ultimately show ?thesis by auto
qed

lemma remaining_tail:
  assumes ok: "heads_ok q ((i, s) # heads) its"
  shows "remaining heads its = {k \<in> remaining ((i, s) # heads) its. \<not> session_at q k s}"
proof -
  have "session_at q k s" if "k \<in> insert i (set (fmget_or [] its s))" for k
    using ok that by (auto simp: heads_ok_def)
  moreover have "\<not> session_at q k s" if k: "k \<in> remaining heads its" for k
  proof -
    from k obtain i' s' where other: "(i', s') \<in> set heads" "k \<in> insert i' (set (fmget_or [] its s'))"
      by (auto simp: remaining_def)
    then have "session_at q k s'" using ok by (auto simp: heads_ok_def)
    moreover have "s' \<noteq> s" using ok other(1) by (auto simp: heads_ok_def image_iff)
    ultimately show ?thesis using session_at_unique by blast
  qed
  ultimately show ?thesis by (auto simp: remaining_def)
qed

lemma heads_ok_insort:
  assumes ok: "heads_ok q heads its" and s: "s \<notin> snd ` set heads"
    and mine: "sorted_wrt (<) (n # ns)" "\<forall>k \<in> set (n # ns). session_at q k s"
  shows "heads_ok q (insort (n, s) heads) (fmupd s ns its)"
proof -
  have "(n, s) \<notin> set heads" using s by force
  then have "distinct (map snd (insort (n, s) heads))"
    using ok s by (auto simp: heads_ok_def distinct_map inj_on_def distinct_insort set_insort_key)
  moreover have "sorted (insort (n, s) heads)" using ok by (simp add: heads_ok_def sorted_insort)
  moreover have "sorted_wrt (<) (i # fmget_or [] (fmupd s ns its) t) \<and>
      (\<forall>k \<in> insert i (set (fmget_or [] (fmupd s ns its) t)). session_at q k t)"
    if h: "(i, t) \<in> set (insort (n, s) heads)" for i t
  proof (cases "t = s")
    case True
    then have "i = n" using h s by (force simp: set_insort_key)
    then show ?thesis using True mine by simp
  next
    case False
    then have "(i, t) \<in> set heads" using h by (simp add: set_insort_key)
    then show ?thesis using ok False by (auto simp: heads_ok_def)
  qed
  ultimately show ?thesis unfolding heads_ok_def by fast
qed

lemma remaining_insort:
  assumes "s \<notin> snd ` set heads"
  shows "remaining (insort (n, s) heads) (fmupd s ns its) = insert n (set ns) \<union> remaining heads its"
proof -
  have "remaining heads (fmupd s ns its) = remaining heads its"
    unfolding remaining_def
  proof (rule SUP_cong [OF refl])
    fix h
    assume "h \<in> set heads"
    then have "fmget_or [] (fmupd s ns its) (snd h) = fmget_or [] its (snd h)" using assms by auto
    then show "(case h of (i, t) \<Rightarrow> insert i (set (fmget_or [] (fmupd s ns its) t))) =
        (case h of (i, t) \<Rightarrow> insert i (set (fmget_or [] its t)))"
      by (simp add: case_prod_beta del: fmget_or_upd)
  qed
  then show ?thesis by (auto simp: remaining_def set_insort_key)
qed

lemma pull_next_ok:
  assumes ok: "heads_ok q ((i, s) # heads) its"
  shows "heads_ok q (fst (pull_next s heads its)) (snd (pull_next s heads its))"
    and "remaining (fst (pull_next s heads its)) (snd (pull_next s heads its)) =
           remaining ((i, s) # heads) its - {i}"
proof -
  have s: "s \<notin> snd ` set heads" and i: "i \<notin> remaining heads its"
    using ok remaining_tail [OF ok] by (auto simp: heads_ok_def)
  have tail: "heads_ok q heads its" using ok by (auto simp: heads_ok_def)
  have mine: "sorted_wrt (<) (i # fmget_or [] its s)" "\<forall>k \<in> set (fmget_or [] its s). session_at q k s"
    using ok by (auto simp: heads_ok_def)
  show "heads_ok q (fst (pull_next s heads its)) (snd (pull_next s heads its))"
  proof (cases "fmget_or [] its s")
    case Nil
    then show ?thesis using tail by (auto simp: pull_next_def fmget_or_def split: option.splits)
  next
    case (Cons n ns)
    then have "fmlookup its s = Some (n # ns)" by (auto simp: fmget_or_def split: option.splits)
    then show ?thesis
      using heads_ok_insort [OF tail s, of n ns] mine Cons by (simp add: pull_next_def)
  qed
  show "remaining (fst (pull_next s heads its)) (snd (pull_next s heads its)) =
      remaining ((i, s) # heads) its - {i}"
  proof (cases "fmget_or [] its s")
    case Nil
    then have "pull_next s heads its = (heads, its)"
      by (auto simp: pull_next_def fmget_or_def split: option.splits)
    then show ?thesis using Nil i by (auto simp: remaining_def)
  next
    case (Cons n ns)
    then have "fmlookup its s = Some (n # ns)" by (auto simp: fmget_or_def split: option.splits)
    then have pulled: "pull_next s heads its = (insort (n, s) heads, fmupd s ns its)"
      by (simp add: pull_next_def)
    have "remaining (insort (n, s) heads) (fmupd s ns its) = insert n (set ns) \<union> remaining heads its"
      by (rule remaining_insort [OF s])
    moreover have "remaining ((i, s) # heads) its = insert i (insert n (set ns) \<union> remaining heads its)"
      by (simp add: remaining_def Cons)
    moreover have "i \<notin> insert n (set ns) \<union> remaining heads its" using i mine(1) Cons by auto
    ultimately show ?thesis by (simp add: pulled)
  qed
qed

lemma merge_is_greedy:
  "heads_ok q heads its \<Longrightarrow>
     merge_startable q lim free heads its per busy out =
       greedy q lim free (sorted_list_of_set (remaining heads its)) per busy out"
proof (induction q lim free heads its per busy out rule: merge_startable.induct)
  case (1 q lim free heads its per busy out)
  have full: "greedy q lim free xs per busy out = out" if "\<not> length out < free" for xs
    using that by (cases xs) auto
  show ?case
  proof (cases "length out < free")
    case False
    then show ?thesis by (simp add: merge_startable.simps [of q] full)
  next
    case room: True
    show ?thesis
    proof (cases heads)
      case Nil
      then show ?thesis by (simp add: merge_startable.simps [of q] remaining_def)
    next
      case (Cons h hs)
      obtain i s where h: "h = (i, s)" by (cases h)
      have ok: "heads_ok q ((i, s) # hs) its" using "1.prems" Cons h by simp
      let ?S = "remaining ((i, s) # hs) its"
      have at: "session_at q i s" using ok by (auto simp: heads_ok_def)
      then obtain job where job: "fmlookup (tq_jobs q) i = Some job" "j_session_id job = s"
        by (auto simp: session_at_def holds_job_def split: option.splits)
      have sorted: "sorted_list_of_set ?S = i # sorted_list_of_set (?S - {i})"
        by (rule sorted_list_head) (use heads_min [OF ok] in \<open>auto simp: remaining_def\<close>)
      show ?thesis
      proof (cases "capped lim s (fmget_or 0 per s)")
        case True
        have "greedy q lim free (sorted_list_of_set ?S) per busy out =
            greedy q lim free (filter (\<lambda>k. \<not> session_at q k s) (sorted_list_of_set ?S)) per busy out"
          by (rule greedy_skip_capped [symmetric])
             (use True in \<open>auto simp: session_at_def holds_job_def split: option.splits\<close>)
        also have "filter (\<lambda>k. \<not> session_at q k s) (sorted_list_of_set ?S) =
            sorted_list_of_set (remaining hs its)"
          by (simp add: filter_sorted_list remaining_tail [OF ok])
        also have "greedy q lim free \<dots> per busy out = merge_startable q lim free hs its per busy out"
          using "1.IH"(1) [OF room Cons h [symmetric] True] ok by (auto simp: heads_ok_def)
        finally show ?thesis
          using room Cons h True by (simp add: merge_startable.simps [of q lim free "(i, s) # hs"])
      next
        case False
        obtain hs' its' where pull: "pull_next s hs its = (hs', its')" by (cases "pull_next s hs its")
        have ok': "heads_ok q hs' its'" and rest: "remaining hs' its' = ?S - {i}"
          using pull_next_ok [OF ok] pull by auto
        show ?thesis
        proof (cases "job_destination job |\<in>| busy")
          case True
          then show ?thesis
            using room Cons h False job pull sorted rest
              "1.IH"(4) [OF room Cons h [symmetric] False pull [symmetric] job(1) _ ok']
            by (simp add: merge_startable.simps [of q lim free "(i, s) # hs"])
        next
          case free: False
          then show ?thesis
            using room Cons h False job pull sorted rest
              "1.IH"(3) [OF room Cons h [symmetric] False pull [symmetric] job(1) _ ok']
            by (simp add: merge_startable.simps [of q lim free "(i, s) # hs"])
        qed
      qed
    qed
  qed
qed

section \<open>The first heads\<close>

definition add_head ::
  "(nat \<Rightarrow> nat option) \<Rightarrow> (nat, nat) fmap \<Rightarrow> (nat, nat fset) fmap \<Rightarrow> nat \<Rightarrow>
     (nat \<times> nat) list \<times> (nat, nat list) fmap \<Rightarrow> (nat \<times> nat) list \<times> (nat, nat list) fmap" where
  "add_head lim per by_session s st =
     (case st of (heads, its) \<Rightarrow>
        if capped lim s (fmget_or 0 per s) then (heads, its)
        else (case sorted_list_of_fset (fmget_or {||} by_session s) of
                [] \<Rightarrow> (heads, its)
              | first # rest \<Rightarrow> (insort (first, s) heads, fmupd s rest its)))"

lemma initial_heads_fold:
  "initial_heads lim per by_session =
     fold (add_head lim per by_session) (sorted_list_of_fset (fmdom by_session)) ([], fmempty)"
  unfolding initial_heads_def add_head_def
  by (rule arg_cong [of _ _ "\<lambda>f. fold f _ _"]) (auto simp: fun_eq_iff)

lemma add_head_ok:
  assumes ok: "heads_ok q heads its" and s: "s \<notin> snd ` set heads"
    and mine: "\<forall>k. k |\<in>| fmget_or {||} by_session s \<longrightarrow> session_at q k s"
    and st: "add_head lim per by_session s (heads, its) = (heads', its')"
  shows "heads_ok q heads' its'" and "snd ` set heads' \<subseteq> insert s (snd ` set heads)"
    and "remaining heads' its' = remaining heads its \<union>
           (if capped lim s (fmget_or 0 per s) then {} else fset (fmget_or {||} by_session s))"
proof -
  let ?ids = "sorted_list_of_fset (fmget_or {||} by_session s)"
  have sorted: "sorted_wrt (<) ?ids" by (simp add: strict_sorted_iff)
  have set_ids: "set ?ids = fset (fmget_or {||} by_session s)" by simp
  have "heads_ok q heads' its' \<and> snd ` set heads' \<subseteq> insert s (snd ` set heads) \<and>
      remaining heads' its' = remaining heads its \<union>
        (if capped lim s (fmget_or 0 per s) then {} else set ?ids)"
  proof (cases "capped lim s (fmget_or 0 per s)")
    case True
    then show ?thesis using ok st by (auto simp: add_head_def)
  next
    case False
    show ?thesis
    proof (cases ?ids)
      case Nil
      then show ?thesis using ok st False by (auto simp: add_head_def)
    next
      case (Cons n ns)
      then have "heads' = insort (n, s) heads" "its' = fmupd s ns its"
        using st False by (simp_all add: add_head_def)
      moreover have "\<forall>k \<in> set (n # ns). session_at q k s" using mine set_ids Cons by auto
      ultimately show ?thesis
        using heads_ok_insort [OF ok s, of n ns] remaining_insort [OF s] sorted False Cons
        by (auto simp: set_insort_key)
    qed
  qed
  then show "heads_ok q heads' its'" "snd ` set heads' \<subseteq> insert s (snd ` set heads)"
    "remaining heads' its' = remaining heads its \<union>
       (if capped lim s (fmget_or 0 per s) then {} else fset (fmget_or {||} by_session s))"
    by (simp_all add: set_ids)
qed

lemma add_heads_ok:
  assumes "heads_ok q heads its" and "distinct ss" and "set ss \<inter> snd ` set heads = {}"
    and "\<forall>s \<in> set ss. \<forall>k. k |\<in>| fmget_or {||} by_session s \<longrightarrow> session_at q k s"
    and "fold (add_head lim per by_session) ss (heads, its) = (heads', its')"
  shows "heads_ok q heads' its' \<and>
         remaining heads' its' = remaining heads its \<union>
           (\<Union>s \<in> {s \<in> set ss. \<not> capped lim s (fmget_or 0 per s)}. fset (fmget_or {||} by_session s))"
  using assms
proof (induction ss arbitrary: heads its)
  case (Cons s ss)
  obtain h i where st: "add_head lim per by_session s (heads, its) = (h, i)"
    by (cases "add_head lim per by_session s (heads, its)")
  have "s \<notin> snd ` set heads" "\<forall>k. k |\<in>| fmget_or {||} by_session s \<longrightarrow> session_at q k s"
    using Cons.prems by auto
  note one = add_head_ok [OF Cons.prems(1) this st]
  have "set ss \<inter> snd ` set h = {}" using one(2) Cons.prems by auto
  moreover have "fold (add_head lim per by_session) ss (h, i) = (heads', its')"
    using Cons.prems(5) st by simp
  ultimately have "heads_ok q heads' its' \<and> remaining heads' its' = remaining h i \<union>
      (\<Union>s \<in> {s \<in> set ss. \<not> capped lim s (fmget_or 0 per s)}. fset (fmget_or {||} by_session s))"
    using Cons.prems one(1) by (intro Cons.IH) auto
  then show ?case unfolding one(3) by auto
qed simp

lemma startable_limited_greedy:
  assumes ok: "consistent q"
  shows "startable_limited q limit lim = startable_spec q limit lim"
proof -
  let ?free = "limit - fcard (tq_running q)"
  let ?per = "fold (\<lambda>j. count_session (j_session_id j)) (active_jobs q) fmempty"
  let ?busy = "fset_of_list (map job_destination (active_jobs q))"
  let ?by = "tq_queued_by_session q"
  have ix: "indexes_ok (tq_jobs q) q" using ok by (simp add: consistent_def ledger_def)
  then have queued: "tq_queued q = jobs_where (\<lambda>j. j_status j = Queued) (tq_jobs q)"
    and by_session: "fmget_or {||} ?by s = jobs_where (\<lambda>j. j_status j = Queued \<and> j_session_id j = s) (tq_jobs q)" for s
    by (simp_all add: indexes_ok_def)
  obtain heads its where init: "initial_heads lim ?per ?by = (heads, its)"
    by (cases "initial_heads lim ?per ?by")
  have "heads_ok q heads its \<and> remaining heads its = remaining [] (fmempty :: (nat, nat list) fmap) \<union>
      (\<Union>s \<in> {s \<in> set (sorted_list_of_fset (fmdom ?by)). \<not> capped lim s (fmget_or 0 ?per s)}.
         fset (fmget_or {||} ?by s))"
    by (rule add_heads_ok [of q "[]" fmempty])
       (use init in \<open>auto simp: initial_heads_fold heads_ok_def by_session session_at_def holds_job_def
          split: option.splits\<close>)
  then have heads: "heads_ok q heads its" and
    rem: "remaining heads its = (\<Union>s \<in> {s. s |\<in>| fmdom ?by \<and> \<not> capped lim s (fmget_or 0 ?per s)}.
         fset (fmget_or {||} ?by s))"
    by (simp_all add: remaining_def)
  let ?live = "\<lambda>i. holds_job (\<lambda>j. \<not> capped lim (j_session_id j) (fmget_or 0 ?per (j_session_id j))) (tq_jobs q) i"
  have dom: "j_session_id j |\<in>| fmdom ?by" if "fmlookup (tq_jobs q) k = Some j" "j_status j = Queued" for j k
  proof -
    have "k |\<in>| fmget_or {||} ?by (j_session_id j)" using that by (simp add: by_session holds_job_def)
    then show ?thesis by (auto simp: fmget_or_def fmlookup_dom_iff split: option.splits)
  qed
  have "remaining heads its = {i \<in> fset (tq_queued q). ?live i}"
    unfolding rem by (auto simp: by_session queued holds_job_def intro: dom split: option.splits)
  then have "sorted_list_of_set (remaining heads its) = filter ?live (sorted_list_of_fset (tq_queued q))"
    by (simp add: filter_sorted_list sorted_list_of_fset.rep_eq)
  then have "merge_startable q lim ?free heads its ?per ?busy [] =
      greedy q lim ?free (filter ?live (sorted_list_of_fset (tq_queued q))) ?per ?busy []"
    by (simp add: merge_is_greedy [OF heads])
  also have "\<dots> = greedy q lim ?free (sorted_list_of_fset (tq_queued q)) ?per ?busy []"
    by (rule greedy_skip_capped) (auto simp: queued holds_job_def split: option.splits)
  finally have merged: "merge_startable q lim ?free heads its ?per ?busy [] =
      greedy q lim ?free (sorted_list_of_fset (tq_queued q)) ?per ?busy []" .
  have none: "greedy q lim 0 xs ?per ?busy [] = []" for xs
    by (cases xs) auto
  show ?thesis
    unfolding startable_limited_def startable_spec_def
    using init merged none by (auto simp: Let_def)
qed

section \<open>What the pass chooses\<close>

definition session_of :: "transfer_queue \<Rightarrow> nat \<Rightarrow> nat option" where
  "session_of q i = map_option j_session_id (fmlookup (tq_jobs q) i)"

definition destination_of :: "transfer_queue \<Rightarrow> nat \<Rightarrow> destination option" where
  "destination_of q i = map_option job_destination (fmlookup (tq_jobs q) i)"

definition in_session :: "transfer_queue \<Rightarrow> nat \<Rightarrow> nat list \<Rightarrow> nat" where
  "in_session q s ids = length (filter (\<lambda>i. session_of q i = Some s) ids)"

definition within_cap :: "(nat \<Rightarrow> nat option) \<Rightarrow> nat \<Rightarrow> nat \<Rightarrow> nat \<Rightarrow> bool" where
  "within_cap lim s before now \<longleftrightarrow>
     (case lim s of None \<Rightarrow> True | Some cap \<Rightarrow> now \<le> max before cap)"

text \<open>
  The choice \<open>new\<close> among \<open>ids\<close> for \<open>room\<close> free slots: pairwise different destinations, none of
  them busy, within the limit of each session, and with nothing left out that could start.
\<close>

definition could_not_start ::
  "transfer_queue \<Rightarrow> (nat \<Rightarrow> nat option) \<Rightarrow> (nat, nat) fmap \<Rightarrow> destination fset \<Rightarrow> nat list \<Rightarrow> nat \<Rightarrow> bool" where
  "could_not_start q lim per busy new i \<longleftrightarrow>
     (case fmlookup (tq_jobs q) i of
        None \<Rightarrow> True
      | Some j \<Rightarrow>
          capped lim (j_session_id j)
            (fmget_or 0 per (j_session_id j) + in_session q (j_session_id j) new) \<or>
          job_destination j |\<in>| busy \<or> Some (job_destination j) \<in> destination_of q ` set new)"

definition choice_ok ::
  "transfer_queue \<Rightarrow> (nat \<Rightarrow> nat option) \<Rightarrow> nat \<Rightarrow> nat list \<Rightarrow> (nat, nat) fmap \<Rightarrow> destination fset \<Rightarrow>
     nat list \<Rightarrow> bool" where
  "choice_ok q lim room ids per busy new \<longleftrightarrow>
     subseq new ids \<and> length new \<le> room \<and> distinct (map (destination_of q) new) \<and>
     (\<forall>i \<in> set new. \<exists>d. destination_of q i = Some d \<and> d |\<notin>| busy) \<and>
     (\<forall>s. within_cap lim s (fmget_or 0 per s) (fmget_or 0 per s + in_session q s new)) \<and>
     (length new < room \<longrightarrow> (\<forall>i \<in> set ids - set new. could_not_start q lim per busy new i))"

lemma choice_ok_none: "room = 0 \<or> ids = [] \<Longrightarrow> choice_ok q lim room ids per busy []"
  by (auto simp: choice_ok_def in_session_def within_cap_def split: option.split)

lemma choice_ok_skip:
  assumes "choice_ok q lim room ids per busy new" and "could_not_start q lim per busy [] i"
  shows "choice_ok q lim room (i # ids) per busy new"
proof -
  have "could_not_start q lim per busy new i"
    using assms(2) capped_mono [OF _ le_add1]
    by (auto simp: could_not_start_def in_session_def split: option.splits)
  then show ?thesis using assms(1) by (auto simp: choice_ok_def)
qed

lemma choice_ok_take:
  assumes ok: "choice_ok q lim room ids (count_session (j_session_id j) per) (finsert (job_destination j) busy) new"
    and j: "fmlookup (tq_jobs q) i = Some j"
    and free: "\<not> capped lim (j_session_id j) (fmget_or 0 per (j_session_id j))" "job_destination j |\<notin>| busy"
  shows "choice_ok q lim (Suc room) (i # ids) per busy (i # new)"
proof -
  have here: "destination_of q i = Some (job_destination j)" "session_of q i = Some (j_session_id j)"
    using j by (simp_all add: destination_of_def session_of_def)
  have count: "fmget_or 0 (count_session (j_session_id j) per) s + in_session q s new =
      fmget_or 0 per s + in_session q s (i # new)" for s
    using here by (simp add: count_session_def in_session_def)
  have "distinct (map (destination_of q) (i # new))"
    using ok here by (fastforce simp: choice_ok_def)
  moreover have "within_cap lim s (fmget_or 0 per s) (fmget_or 0 per s + in_session q s (i # new))" for s
  proof -
    have "within_cap lim s (fmget_or 0 (count_session (j_session_id j) per) s)
        (fmget_or 0 per s + in_session q s (i # new))"
      using ok unfolding choice_ok_def count [symmetric] by blast
    then show ?thesis
      using free(1) by (auto simp: within_cap_def capped_def count_session_def split: option.splits if_splits)
  qed
  moreover have "could_not_start q lim per busy (i # new) k"
    if "length new < room" "k \<in> set ids - set new" for k
  proof -
    have "could_not_start q lim (count_session (j_session_id j) per) (finsert (job_destination j) busy) new k"
      using ok that unfolding choice_ok_def by blast
    then show ?thesis using here unfolding could_not_start_def count by (auto split: option.splits)
  qed
  ultimately show ?thesis
    using ok here free(2) by (auto simp: choice_ok_def)
qed

lemma greedy_result:
  assumes ids: "\<And>i j. fmlookup (tq_jobs q) i = Some j \<Longrightarrow> j_id j = i"
  shows "\<exists>new. greedy q lim free ids per busy out = out @ new \<and>
           choice_ok q lim (free - length out) ids per busy new"
proof (induction ids arbitrary: per busy out)
  case Nil
  show ?case by (rule exI [of _ "[]"]) (simp add: choice_ok_none)
next
  case (Cons i ids)
  consider (full) "\<not> length out < free"
    | (skip) "length out < free" "could_not_start q lim per busy [] i"
    | (take) j where "length out < free" "fmlookup (tq_jobs q) i = Some j"
        "\<not> capped lim (j_session_id j) (fmget_or 0 per (j_session_id j))" "job_destination j |\<notin>| busy"
    by (cases "fmlookup (tq_jobs q) i") (auto simp: could_not_start_def in_session_def)
  then show ?case
  proof cases
    case full
    then show ?thesis by (intro exI [of _ "[]"]) (simp add: choice_ok_none)
  next
    case skip
    then have "greedy q lim free (i # ids) per busy out = greedy q lim free ids per busy out"
      by (auto simp: could_not_start_def in_session_def split: option.splits)
    then show ?thesis using Cons.IH [of per busy out] choice_ok_skip [OF _ skip(2)] by auto
  next
    case (take j)
    let ?per = "count_session (j_session_id j) per"
    let ?busy = "finsert (job_destination j) busy"
    obtain new where "greedy q lim free ids ?per ?busy (out @ [i]) = (out @ [i]) @ new"
      and "choice_ok q lim (free - length (out @ [i])) ids ?per ?busy new"
      using Cons.IH [of ?per ?busy "out @ [i]"] by blast
    moreover have "free - length out = Suc (free - length (out @ [i]))" using take(1) by simp
    ultimately show ?thesis
      using take ids [OF take(2)] choice_ok_take [of q lim _ ids j per busy new i]
      by (intro exI [of _ "i # new"]) simp
  qed
qed

text \<open>The jobs that run already hold the slots, the sessions and the destinations.\<close>

lemma consistent_ids: "consistent q \<Longrightarrow> fmlookup (tq_jobs q) i = Some j \<Longrightarrow> j_id j = i"
  by (simp add: consistent_def structure_ok_def)

lemma fold_count_session:
  "fmget_or 0 (fold (\<lambda>j. count_session (j_session_id j)) js per) s =
     fmget_or 0 per s + length (filter (\<lambda>j. j_session_id j = s) js)"
  by (induction js arbitrary: per) (auto simp: count_session_def)

lemma startable_choice:
  assumes "consistent q"
  shows "choice_ok q lim (limit - fcard (tq_running q)) (sorted_list_of_fset (tq_queued q))
           (fold (\<lambda>j. count_session (j_session_id j)) (active_jobs q) fmempty)
           (fset_of_list (map job_destination (active_jobs q))) (startable_limited q limit lim)"
proof -
  obtain new where "startable_spec q limit lim = [] @ new \<and>
      choice_ok q lim (limit - fcard (tq_running q) - length ([] :: nat list))
        (sorted_list_of_fset (tq_queued q))
        (fold (\<lambda>j. count_session (j_session_id j)) (active_jobs q) fmempty)
        (fset_of_list (map job_destination (active_jobs q))) new"
    unfolding startable_spec_def
    using greedy_result [OF consistent_ids [OF assms]] by blast
  then show ?thesis by (simp add: startable_limited_greedy [OF assms])
qed

end
