(* ===== verification/Queue_Behaviour.thy ===== *)
theory Queue_Behaviour
  imports Queue_Start Prelude
begin

text \<open>
  What the transfer queue promises its users.  The queue as a machine whose steps are its
  public operations, and the meaning of its answers in terms of the jobs alone.
\<close>

section \<open>The queue as a machine\<close>

inductive queue_step :: "transfer_queue \<Rightarrow> transfer_queue \<Rightarrow> bool" where
  Enqueue: "queue_step q (snd (enqueue s d l r name bytes batch q))"
| Start_Batch: "queue_step q (snd (start_batch label q))"
| Forget_Batch: "queue_step q (forget_batch_if_empty b q)"
| Flag: "queue_step q (snd (flag_unkept_times b q))"
| Change: "keeps_identity body \<Longrightarrow> queue_step q (with_guard i body q)"
| Retry: "queue_step q (snd (retry_jobs ids q))"
| Remove: "queue_step q (remove_jobs hash_order ids q)"
| Cancel_Queued: "queue_step q (snd (cancel_all_queued q))"
| Fail_Queued: "queue_step q (snd (fail_queued_for_session s reason q))"
| Give_Up: "queue_step q (snd (retry_or_give_up i q))"
| Take_Changes: "queue_step q (snd (take_changes q))"

inductive_cases queue_stepE: "queue_step q q'"

lemma take_changes_consistent [inv_intros]: "consistent q \<Longrightarrow> consistent (snd (take_changes q))"
  by (simp add: take_changes_def)

lemma queue_step_consistent: "consistent q \<Longrightarrow> queue_step q q' \<Longrightarrow> consistent q'"
  by (erule queue_stepE) (simp_all add: inv_intros)

subsection \<open>Identifiers\<close>

definition has_job :: "transfer_queue \<Rightarrow> nat \<Rightarrow> bool" where
  "has_job q i \<longleftrightarrow> fmlookup (tq_jobs q) i \<noteq> None"

lemma reconcile_frame [frame_simps]:
  "tq_jobs (reconcile i before q) = tq_jobs q" "tq_next_id (reconcile i before q) = tq_next_id q"
  "tq_batch_labels (reconcile i before q) = tq_batch_labels q"
  by (simp_all add: reconcile_def Let_def split: option.split)

lemma update_job_jobs [frame_simps]:
  "fmlookup (tq_jobs (update_job i f q)) k =
     (if k = i then map_option f (fmlookup (tq_jobs q) k) else fmlookup (tq_jobs q) k)"
  "tq_next_id (update_job i f q) = tq_next_id q"
  by (auto simp: update_job_def reconcile_frame split: option.split)

lemma with_guard_update: "with_guard i body q = update_job i body q"
  by (simp add: with_guard_def update_job_def Let_def split: option.split)

lemma fold_update_jobs:
  "distinct ids \<Longrightarrow> fmlookup (tq_jobs (fold (\<lambda>i. update_job i f) ids q)) k =
     (if k \<in> set ids then map_option f (fmlookup (tq_jobs q) k) else fmlookup (tq_jobs q) k)"
  by (induction ids arbitrary: q) (auto simp: frame_simps)

lemma fold_update_next_id: "tq_next_id (fold (\<lambda>i. update_job i f) ids q) = tq_next_id q"
  by (induction ids arbitrary: q) (simp_all add: frame_simps)

lemma retry_one_jobs:
  "has_job (snd (retry_one cq i)) k = has_job (snd cq) k"
  "tq_next_id (snd (retry_one cq i)) = tq_next_id (snd cq)"
  by (cases cq; auto simp: retry_one_def has_job_def frame_simps split: option.split)+

lemma retry_jobs_ids:
  "has_job (snd (retry_jobs ids q)) k = has_job q k" "tq_next_id (snd (retry_jobs ids q)) = tq_next_id q"
proof -
  have "has_job (snd (foldl retry_one cq ids)) k = has_job (snd cq) k \<and>
      tq_next_id (snd (foldl retry_one cq ids)) = tq_next_id (snd cq)" for cq
    by (induction ids arbitrary: cq) (simp_all add: retry_one_jobs)
  then show "has_job (snd (retry_jobs ids q)) k = has_job q k"
    "tq_next_id (snd (retry_jobs ids q)) = tq_next_id q"
    by (simp_all add: retry_jobs_def)
qed

subsection \<open>Removing exactly the named jobs\<close>

lemma shrink_row_jobs:
  "tq_jobs (rm_queue (shrink_row key R r)) = tq_jobs (rm_queue r)"
  "tq_next_id (rm_queue (shrink_row key R r)) = tq_next_id (rm_queue r)"
proof -
  have rekey: "tq_jobs (rekey_row k q) = tq_jobs q \<and> tq_next_id (rekey_row k q) = tq_next_id q" for k q
    by (auto simp: rekey_row_def Let_def split: option.split list.split row_kind.split)
  show "tq_jobs (rm_queue (shrink_row key R r)) = tq_jobs (rm_queue r)"
    "tq_next_id (rm_queue (shrink_row key R r)) = tq_next_id (rm_queue r)"
    by (auto simp: shrink_row_def Let_def rekey split: option.split row_kind.split)
qed

lemma tail_jobs:
  "tq_jobs (note_finished kind b q) = tq_jobs q" "tq_next_id (note_finished kind b q) = tq_next_id q"
  "tq_jobs (forget_batch_if_empty n q) = tq_jobs q"
  "tq_next_id (forget_batch_if_empty n q) = tq_next_id q"
  by (simp_all add: note_finished_def forget_batch_if_empty_def split: option.split)

lemma fold_same: "(\<And>x s. f (g x s) = f s) \<Longrightarrow> f (fold g xs s) = f s"
  by (induction xs arbitrary: s) auto

lemma remove_one_jobs:
  assumes "settling (fmget_or {||} (rm_removed_by_row r)) (rm_queue r)"
  shows "tq_jobs (rm_queue (remove_one i r)) = fmdrop i (tq_jobs (rm_queue r))"
    and "tq_next_id (rm_queue (remove_one i r)) = tq_next_id (rm_queue r)"
proof -
  let ?q = "rm_queue r"
  have "tq_jobs (rm_queue (remove_one i r)) = fmdrop i (tq_jobs ?q) \<and>
      tq_next_id (rm_queue (remove_one i r)) = tq_next_id ?q"
  proof (cases "fmlookup (tq_jobs ?q) i")
    case None
    then have "fmdrop i (tq_jobs ?q) = tq_jobs ?q" by (intro fmap_ext) auto
    then show ?thesis using None by (simp add: remove_one_def)
  next
    case (Some job)
    obtain key where "fmlookup (tq_row_of ?q) i = Some key"
      using assms Some by (metis fmdomI fmlookup_dom_iff loose_dom settling_def)
    then show ?thesis using Some by (simp add: remove_one_queue drop_job_frame)
  qed
  then show "tq_jobs (rm_queue (remove_one i r)) = fmdrop i (tq_jobs ?q)"
    "tq_next_id (rm_queue (remove_one i r)) = tq_next_id ?q"
    by simp_all
qed

lemma remove_loop_jobs:
  "settling (fmget_or {||} (rm_removed_by_row r)) (rm_queue r) \<Longrightarrow>
     fmlookup (tq_jobs (rm_queue (fold remove_one ids r))) k =
       (if k \<in> set ids then None else fmlookup (tq_jobs (rm_queue r)) k) \<and>
     tq_next_id (rm_queue (fold remove_one ids r)) = tq_next_id (rm_queue r)"
  by (induction ids arbitrary: r) (auto simp: remove_one_jobs remove_one_settling)

lemma remove_jobs_lookup:
  assumes "consistent q"
  shows "fmlookup (tq_jobs (remove_jobs hash_order ids q)) k =
           (if k \<in> set ids then None else fmlookup (tq_jobs q) k)"
    and "tq_next_id (remove_jobs hash_order ids q) = tq_next_id q"
proof -
  let ?r0 = "\<lparr>rm_queue = q, rm_touched_batches = {||}, rm_removed_by_row = fmempty,
                 rm_was_finished = fmempty\<rparr>"
  have none: "fmget_or {||} (fmempty :: (nat, nat fset) fmap) = (\<lambda>_. {||})" by auto
  have start: "settling (fmget_or {||} (rm_removed_by_row ?r0)) (rm_queue ?r0)"
    by (simp add: none settling_none assms)
  note loop = remove_loop_jobs [OF start, of ids k]
  have jobs: "tq_jobs (remove_jobs hash_order ids q) = tq_jobs (rm_queue (fold remove_one ids ?r0))"
    and ids: "tq_next_id (remove_jobs hash_order ids q) = tq_next_id (rm_queue (fold remove_one ids ?r0))"
    unfolding remove_jobs_def Let_def
    by (simp_all add: fold_same [of tq_jobs] fold_same [of tq_next_id] tail_jobs
        fold_same [of "\<lambda>r. tq_jobs (rm_queue r)"] fold_same [of "\<lambda>r. tq_next_id (rm_queue r)"]
        shrink_row_jobs)
  show "fmlookup (tq_jobs (remove_jobs hash_order ids q)) k =
           (if k \<in> set ids then None else fmlookup (tq_jobs q) k)"
    "tq_next_id (remove_jobs hash_order ids q) = tq_next_id q"
    unfolding jobs ids using loop by simp_all
qed

lemma remove_jobs_ids:
  assumes "consistent q"
  shows "has_job (remove_jobs hash_order ids q) k \<longleftrightarrow> has_job q k \<and> k \<notin> set ids"
  by (auto simp: has_job_def remove_jobs_lookup [OF assms])

subsection \<open>The machine\<close>

lemma cancel_all_queued_jobs:
  "fmlookup (tq_jobs (snd (cancel_all_queued q))) k =
     (if k |\<in>| tq_queued q then map_option (\<lambda>j. j\<lparr>j_status := Cancelled\<rparr>) (fmlookup (tq_jobs q) k)
      else fmlookup (tq_jobs q) k)"
  "tq_next_id (snd (cancel_all_queued q)) = tq_next_id q"
  by (auto simp: cancel_all_queued_def Let_def fold_update_jobs fold_update_next_id)

lemma fail_queued_for_session_jobs:
  "fmlookup (tq_jobs (snd (fail_queued_for_session s reason q))) k =
     (if k |\<in>| fmget_or {||} (tq_queued_by_session q) s
      then map_option (\<lambda>j. j\<lparr>j_status := Failed reason\<rparr>) (fmlookup (tq_jobs q) k)
      else fmlookup (tq_jobs q) k)"
  "tq_next_id (snd (fail_queued_for_session s reason q)) = tq_next_id q"
  by (auto simp: fail_queued_for_session_def Let_def fold_update_jobs fold_update_next_id)

lemma enqueue_jobs:
  "fst (enqueue s d l r name bytes batch q) = tq_next_id q"
  "fmlookup (tq_jobs (snd (enqueue s d l r name bytes batch q))) k =
     (if k = tq_next_id q then Some (enqueued_job s d l r name bytes batch q) else fmlookup (tq_jobs q) k)"
  "tq_next_id (snd (enqueue s d l r name bytes batch q)) = tq_next_id q + 1"
  by (simp_all add: enqueue_def Let_def enqueued_job_def)

lemma retry_or_give_up_ids:
  "has_job (snd (retry_or_give_up i q)) k = has_job q k"
  "tq_next_id (snd (retry_or_give_up i q)) = tq_next_id q"
  by (auto simp: retry_or_give_up_def has_job_def frame_simps split: option.split)

lemma queue_step_ids:
  assumes "consistent q" and "queue_step q q'"
  shows "tq_next_id q \<le> tq_next_id q' \<and> (has_job q' i \<longrightarrow> has_job q i \<or> tq_next_id q \<le> i)"
  using assms(2)
proof cases
  case (Enqueue s d l r name bytes batch)
  then show ?thesis by (auto simp: enqueue_jobs has_job_def)
next
  case (Remove hash_order ids)
  then show ?thesis using assms(1) by (simp add: remove_jobs_lookup remove_jobs_ids)
next
  case (Start_Batch label)
  then show ?thesis by (simp add: start_batch_def Let_def has_job_def)
next
  case (Change body i)
  then show ?thesis by (auto simp: with_guard_update has_job_def frame_simps)
next
  case (Retry ids)
  then show ?thesis by (simp add: retry_jobs_ids)
next
  case (Give_Up i)
  then show ?thesis by (simp add: retry_or_give_up_ids)
next
  case (Take_Changes)
  then show ?thesis by (simp add: take_changes_def has_job_def)
qed (auto simp: forget_batch_if_empty_def flag_unkept_times_def
    cancel_all_queued_jobs fail_queued_for_session_jobs has_job_def)

interpretation queue: issuing_machine "\<lambda>q. q = queue_new" queue_step consistent tq_next_id has_job
proof
  show "consistent q" if "q = queue_new" for q using that queue_new_consistent by simp
  show "consistent q'" if "consistent q" "queue_step q q'" for q q'
    using that by (rule queue_step_consistent)
  show "tq_next_id q \<le> tq_next_id q'" if "consistent q" "queue_step q q'" for q q'
    using queue_step_ids that by blast
  show "i < tq_next_id q" if "consistent q" "has_job q i" for q i
    using that by (auto simp: consistent_def structure_ok_def has_job_def)
  show "has_job q i \<or> tq_next_id q \<le> i" if "consistent q" "queue_step q q'" "has_job q' i" for q q' i
    using queue_step_ids that by blast
qed

definition queue_reachable :: "transfer_queue \<Rightarrow> bool" where
  "queue_reachable q \<longleftrightarrow> reach (\<lambda>q. q = queue_new) queue_step q"

lemma queue_reachable_new: "queue_reachable queue_new"
  by (simp add: queue_reachable_def reach_start)

lemma queue_reachable_step: "queue_reachable q \<Longrightarrow> queue_step q q' \<Longrightarrow> queue_reachable q'"
  unfolding queue_reachable_def by (rule reach_step)

lemma reachable_consistent: "queue_reachable q \<Longrightarrow> consistent q"
  unfolding queue_reachable_def by (rule queue.reach_inv)

section \<open>Rows and batches\<close>

lemma row_members:
  assumes "consistent q" and "fmlookup (tq_rows q) key = Some c"
  shows "i \<in> set (rc_order c) \<longleftrightarrow> fmlookup (tq_row_of q) i = Some key"
  using assms structure_row row_shape_listed structure_row_of unfolding consistent_def
  by (metis option.inject)

lemma row_has_job:
  assumes "consistent q" and "fmlookup (tq_row_of q) i = Some key"
  shows "\<exists>j. fmlookup (tq_jobs q) i = Some j"
  using assms by (metis consistent_def fmdomI fmlookup_dom_iff structure_ok_def)

text \<open>No job of the row still has work to do.\<close>

definition row_idle :: "transfer_queue \<Rightarrow> nat \<Rightarrow> bool" where
  "row_idle q key \<longleftrightarrow>
     (\<forall>i j. fmlookup (tq_row_of q) i = Some key \<longrightarrow> fmlookup (tq_jobs q) i = Some j \<longrightarrow>
        \<not> queued_or_running (j_status j))"

lemma job_sum_zero:
  "job_sum f J ids = 0 \<longleftrightarrow> (\<forall>i \<in> set ids. \<forall>j. fmlookup J i = Some j \<longrightarrow> f j = 0)"
  by (induction ids) (auto simp: job_sum_def split: option.splits)

lemma job_sum_add: "job_sum f J ids + job_sum g J ids = job_sum (\<lambda>j. f j + g j) J ids"
  by (induction ids) (auto simp: job_sum_def split: option.splits)

lemma job_sum_one:
  "(\<And>i. i \<in> set ids \<Longrightarrow> fmlookup J i \<noteq> None) \<Longrightarrow> job_sum (\<lambda>_. 1) J ids = length ids"
  by (induction ids) (auto simp: job_sum_def split: option.split)

lemma row_slot:
  "consistent q \<Longrightarrow> fmlookup (tq_rows q) key = Some c \<Longrightarrow>
     get_slot st c = job_sum (\<lambda>j. if same_slot st (j_status j) then 1 else 0) (tq_jobs q) (rc_order c)"
  unfolding consistent_def ledger_def rows_counters_ok_def counters_ok_def by blast

lemma rc_total_order:
  assumes ok: "consistent q" and c: "fmlookup (tq_rows q) key = Some c"
  shows "rc_total c = length (rc_order c)"
proof -
  note counters = row_slot [OF ok c]
  have "rc_total c = get_slot Queued c + get_slot InProgress c + get_slot Completed c +
      get_slot (Failed []) c + get_slot Cancelled c"
    by (simp add: rc_total_def)
  also have "\<dots> = job_sum (\<lambda>_. 1) (tq_jobs q) (rc_order c)"
    unfolding counters job_sum_add
    by (rule arg_cong [of _ _ "\<lambda>f. job_sum f _ _"], rule ext, rename_tac j, case_tac "j_status j")
       (auto simp: same_slot_def is_failed_def)
  also have "\<dots> = length (rc_order c)"
    by (rule job_sum_one) (use row_has_job [OF ok] row_members [OF ok c] in auto)
  finally show ?thesis .
qed

lemma rc_finished_idle:
  assumes ok: "consistent q" and c: "fmlookup (tq_rows q) key = Some c"
  shows "rc_finished c \<longleftrightarrow> row_idle q key"
proof -
  note slot = row_slot [OF ok c]
  have "rc_order c \<noteq> []"
    using ok c structure_row by (auto simp: consistent_def row_shape_ok_def)
  then have "rc_finished c \<longleftrightarrow> get_slot Queued c = 0 \<and> get_slot InProgress c = 0"
    using rc_total_order [OF ok c] by (simp add: rc_finished_def)
  also have "\<dots> \<longleftrightarrow> (\<forall>i \<in> set (rc_order c). \<forall>j. fmlookup (tq_jobs q) i = Some j \<longrightarrow>
      \<not> queued_or_running (j_status j))"
    unfolding slot job_sum_zero
    by (auto simp: same_slot_def is_failed_def queued_or_running_def split: job_status.splits)
  finally show ?thesis unfolding row_idle_def row_members [OF ok c, symmetric] by blast
qed

subsection \<open>Sums over a row are sums over its jobs\<close>

definition bytes_of :: "(transfer_job \<Rightarrow> nat) \<Rightarrow> (nat, transfer_job) fmap \<Rightarrow> nat fset \<Rightarrow> nat" where
  "bytes_of f J ids = (\<Sum>i \<in> fset ids. case fmlookup J i of None \<Rightarrow> 0 | Some j \<Rightarrow> f j)"

lemma job_sum_bytes:
  "distinct ids \<Longrightarrow> set ids = fset S \<Longrightarrow> job_sum f J ids = bytes_of f J S"
  by (simp add: job_sum_def bytes_of_def sum_list_distinct_conv_sum_set)

lemma job_sum_count:
  assumes "distinct ids" and "set ids = fset (jobs_where P J)"
  shows "job_sum (\<lambda>j. if Q j then 1 else 0) J ids = fcard (jobs_where (\<lambda>j. P j \<and> Q j) J)"
proof -
  have "job_sum (\<lambda>j. if Q j then 1 else 0) J ids =
      (\<Sum>i \<in> fset (jobs_where P J). if holds_job Q J i then 1 else 0)"
    unfolding job_sum_def sum_list_distinct_conv_sum_set [OF assms(1)] assms(2)
    by (rule sum.cong) (auto simp: holds_job_def split: option.split)
  also have "\<dots> = card {i \<in> fset (jobs_where P J). holds_job Q J i}"
    by (simp add: sum.If_cases Int_def)
  also have "{i \<in> fset (jobs_where P J). holds_job Q J i} = fset (jobs_where (\<lambda>j. P j \<and> Q j) J)"
    by (auto simp: holds_job_def split: option.splits)
  finally show ?thesis by (simp add: fcard.rep_eq)
qed

lemma batch_members:
  assumes ok: "consistent q" and key: "fmlookup (tq_batch_row q) b = Some key"
    and c: "fmlookup (tq_rows q) key = Some c"
  shows "set (rc_order c) = fset (jobs_where (\<lambda>j. j_batch_id j = Some b) (tq_jobs q))"
proof (intro set_eqI)
  fix i
  from ok have st: "structure_ok q" by (simp add: consistent_def)
  have kind: "rc_kind c = Batch b" using structure_batch [OF st key] c by simp
  have "i \<in> set (rc_order c)" if j: "fmlookup (tq_jobs q) i = Some j" "j_batch_id j = Some b" for j
  proof -
    obtain k where k: "fmlookup (tq_row_of q) i = Some k"
      using consistent_row_of [OF ok j(1)] by blast
    obtain d where d: "fmlookup (tq_rows q) k = Some d" "i \<in> set (rc_order d)"
      using structure_row_of [OF st k] by blast
    have "rc_kind d = Batch b" "fmlookup (tq_batch_row q) b = Some k"
      using structure_row [OF st d(1)] d(2) j
      by (auto simp: row_shape_ok_def holds_job_def split: row_kind.splits)
    then show ?thesis using key c d by simp
  qed
  moreover have "holds_job (\<lambda>j. j_batch_id j = Some b) (tq_jobs q) i" if "i \<in> set (rc_order c)"
    using structure_row [OF st c] kind that by (auto simp: row_shape_ok_def)
  ultimately show "i \<in> set (rc_order c) \<longleftrightarrow> i \<in> fset (jobs_where (\<lambda>j. j_batch_id j = Some b) (tq_jobs q))"
    by (auto simp: holds_job_def split: option.splits)
qed

section \<open>What the queue promises\<close>


definition sample_queue :: transfer_queue where
  "sample_queue =
     snd (enqueue 7 Upload [RootDir, Normal ''b''] ''/b'' ''b'' 20 None
       (snd (enqueue 7 Upload [RootDir, Normal ''a''] ''/a'' ''a'' 10 None queue_new)))"

lemma sample_queue_reachable: "queue_reachable sample_queue"
  unfolding sample_queue_def
  by (intro queue_reachable_step [OF _ queue_step.Enqueue] queue_reachable_new)

lemma sample_queue_consistent: "consistent sample_queue"
  by (rule reachable_consistent [OF sample_queue_reachable])


text \<open>(C16) The heap merge over the sessions picks the same jobs, in the same order, as one pass
  over all queued jobs in the order of their ids that skips the sessions at their limit and
  the destinations that are taken.\<close>

theorem startable_merge_is_one_pass:
  "consistent q \<Longrightarrow> startable_limited q limit lim = startable_spec q limit lim"
  by (rule startable_limited_greedy)

lemma startable_merge_is_one_pass_witness:
  "startable_limited sample_queue 5 (\<lambda>_. Some 1) = startable_spec sample_queue 5 (\<lambda>_. Some 1)"
  by (rule startable_merge_is_one_pass) (rule sample_queue_consistent)

lemma active_jobs_members:
  assumes ok: "consistent q"
  shows "j \<in> set (active_jobs q) \<longleftrightarrow> (\<exists>i. i |\<in>| tq_running q \<and> fmlookup (tq_jobs q) i = Some j)"
  by (force simp: active_jobs_def jobs_at_def List.map_filter_def)

text \<open>(C14) The jobs chosen to start are queued jobs in the order of their ids, they fit the free
  slots, no two of them, and none of them and a running job, write to the same destination,
  and no session gets more jobs than its limit allows.\<close>

theorem startable_safe:
  assumes "consistent q" and "ids = startable_limited q limit lim"
  shows "subseq ids (sorted_list_of_fset (tq_queued q)) \<and>
         length ids \<le> limit - active_count q \<and>
         (\<forall>i \<in> set ids. \<forall>k \<in> set ids \<union> fset (tq_running q). i \<noteq> k \<longrightarrow> destination_of q i \<noteq> destination_of q k) \<and>
         (\<forall>s cap. lim s = Some cap \<longrightarrow>
            length (active_ids_for_session q s) + in_session q s ids \<le>
              max cap (length (active_ids_for_session q s)))"
proof -
  note choice = startable_choice [OF assms(1), of lim limit, folded assms(2), unfolded choice_ok_def]
  have "destination_of q i \<noteq> destination_of q k" if "i \<in> set ids" "k \<in> set ids" "i \<noteq> k" for i k
    using choice that by (auto simp: distinct_map inj_on_def)
  moreover have "destination_of q i \<noteq> destination_of q k" if i: "i \<in> set ids" and k: "k |\<in>| tq_running q" for i k
  proof -
    obtain j where j: "fmlookup (tq_jobs q) k = Some j"
      using assms(1) k
      by (auto simp: consistent_def ledger_def indexes_ok_def holds_job_def split: option.splits)
    then have "j \<in> set (active_jobs q)" using k active_jobs_members [OF assms(1)] by blast
    then show ?thesis
      using choice i j by (auto simp: fset_of_list_elem destination_of_def)
  qed
  moreover have "length (active_ids_for_session q s) + in_session q s ids \<le>
      max cap (length (active_ids_for_session q s))" if "lim s = Some cap" for s cap
    using choice that
    by (auto simp: within_cap_def fold_count_session active_ids_for_session_def max.commute
        split: option.splits)
  ultimately show ?thesis using choice by (auto simp: active_count_def)
qed

lemma startable_safe_witness:
  "length (startable_limited sample_queue 5 (\<lambda>_. Some 1)) \<le> 5 - active_count sample_queue"
  using startable_safe [OF sample_queue_consistent refl, where limit = 5 and lim = "\<lambda>_. Some 1"] by blast

text \<open>(C15) No slot stays empty without a reason: when fewer jobs are chosen than there are free
  slots, every queued job that was left out belongs to a session at its limit, or writes to a
  destination that a running or a chosen job already writes to.\<close>

theorem startable_complete:
  assumes "consistent q" and "ids = startable_limited q limit lim"
    and "length ids < limit - active_count q"
    and "fmlookup (tq_jobs q) i = Some j" and "j_status j = Queued" and "i \<notin> set ids"
  shows "capped lim (j_session_id j)
           (length (active_ids_for_session q (j_session_id j)) + in_session q (j_session_id j) ids) \<or>
         (\<exists>k \<in> set ids \<union> fset (tq_running q). destination_of q k = Some (job_destination j))"
proof -
  note choice = startable_choice [OF assms(1), of lim limit, folded assms(2), unfolded choice_ok_def]
  have "i |\<in>| tq_queued q"
    using assms(1,4,5) by (simp add: consistent_def ledger_def indexes_ok_def holds_job_def)
  then have "could_not_start q lim (fold (\<lambda>j. count_session (j_session_id j)) (active_jobs q) fmempty)
      (fset_of_list (map job_destination (active_jobs q))) ids i"
    using choice assms(3,6) by (auto simp: active_count_def)
  moreover have "\<exists>k \<in> fset (tq_running q). destination_of q k = Some (job_destination j)"
    if "job_destination j \<in> job_destination ` set (active_jobs q)"
  proof -
    from that obtain k j' where "k |\<in>| tq_running q" "fmlookup (tq_jobs q) k = Some j'"
      "job_destination j = job_destination j'"
      using active_jobs_members [OF assms(1)] by blast
    then show ?thesis by (intro bexI [of _ k]) (simp_all add: destination_of_def)
  qed
  ultimately show ?thesis
    using assms(4)
    by (auto simp: could_not_start_def fold_count_session active_ids_for_session_def fset_of_list_elem)
qed

text \<open>Both jobs of the sample queue belong to one session, which may run one of them.\<close>

lemma sample_queue_eval:
  "startable_limited sample_queue 5 (\<lambda>_. Some 1) = [0]"
  "active_count sample_queue = 0"
  "fmlookup (tq_jobs sample_queue) 1 =
     Some \<lparr>j_id = 1, j_session_id = 7, j_direction = Upload, j_local_path = [RootDir, Normal ''b''],
       j_remote_path = ''/b'', j_display_name = ''b'', j_total_bytes = 20, j_transferred_bytes = 0,
       j_status = Queued, j_attempts = 0, j_batch_id = None, j_resume = False, j_modified = None\<rparr>"
  by code_simp+

lemma startable_complete_witness:
  "capped (\<lambda>_. Some 1) 7
     (length (active_ids_for_session sample_queue 7) + in_session sample_queue 7 [0]) \<or>
   (\<exists>k \<in> set [0] \<union> fset (tq_running sample_queue). destination_of sample_queue k = Some (Remote 7 ''/b''))"
  using startable_complete [OF sample_queue_consistent sample_queue_eval(1) [symmetric] _ sample_queue_eval(3)]
  by (simp add: sample_queue_eval(2) job_destination_def)

text \<open>A session counts as having pending transfers in a direction exactly when some job of
  that session and direction is queued or running, whatever was enqueued, finished, retried
  or removed before.\<close>

theorem has_pending_iff:
  "consistent q \<Longrightarrow>
     has_pending q s d \<longleftrightarrow>
       (\<exists>i j. fmlookup (tq_jobs q) i = Some j \<and> queued_or_running (j_status j) \<and>
          j_session_id j = s \<and> j_direction j = d)"
proof -
  assume "consistent q"
  then have "fmget_or 0 (tq_pending q) (s, d) = fcard (jobs_where (active_key (s, d)) (tq_jobs q))"
    by (simp add: consistent_def ledger_def pending_ok_def)
  then have "has_pending q s d \<longleftrightarrow> jobs_where (active_key (s, d)) (tq_jobs q) \<noteq> {||}"
    by (metis has_pending_def fcard_0_eq gr0I less_numeral_extra(3))
  also have "\<dots> \<longleftrightarrow> (\<exists>i. holds_job (active_key (s, d)) (tq_jobs q) i)"
    by (metis fempty_iff fset_eqI in_jobs_where)
  finally show ?thesis
    by (auto simp: holds_job_def active_key_def split: option.splits)
qed

lemma has_pending_iff_witness: "has_pending sample_queue 7 Upload"
  unfolding has_pending_iff [OF sample_queue_consistent]
  by (intro exI [of _ 1] exI conjI, rule sample_queue_eval(3)) simp_all

text \<open>The progress of a batch counts its jobs: all of them, the completed ones, and the
  bytes of both, read off the row of the batch but equal to the sums over the jobs that carry
  the batch's id.\<close>

theorem batch_progress_counts:
  fixes q :: transfer_queue and b :: nat
  assumes "consistent q"
  defines "members \<equiv> jobs_where (\<lambda>j. j_batch_id j = Some b) (tq_jobs q)"
  shows "batch_progress q b =
           \<lparr>bp_total_files = fcard members,
            bp_completed_files =
              fcard (jobs_where (\<lambda>j. j_batch_id j = Some b \<and> j_status j = Completed) (tq_jobs q)),
            bp_total_bytes = bytes_of j_total_bytes (tq_jobs q) members,
            bp_transferred_bytes = bytes_of j_transferred_bytes (tq_jobs q) members\<rparr>"
proof (cases "fmlookup (tq_batch_row q) b")
  case None
  have no: "\<not> holds_job (\<lambda>j. j_batch_id j = Some b) (tq_jobs q) i" for i
  proof
    assume h: "holds_job (\<lambda>j. j_batch_id j = Some b) (tq_jobs q) i"
    then obtain j where j: "fmlookup (tq_jobs q) i = Some j" by (auto simp: holds_job_def split: option.splits)
    obtain k where k: "fmlookup (tq_row_of q) i = Some k"
      using consistent_row_of [OF assms(1) j] by blast
    have st: "structure_ok q" using assms(1) by (simp add: consistent_def)
    obtain c where "fmlookup (tq_rows q) k = Some c" "i \<in> set (rc_order c)"
      using structure_row_of [OF st k] by blast
    then show False
      using structure_row [OF st] h j None
      by (fastforce simp: row_shape_ok_def holds_job_def split: row_kind.splits)
  qed
  have none: "jobs_where (\<lambda>j. j_batch_id j = Some b \<and> P j) (tq_jobs q) = {||}" for P
  proof (rule fset_eqI)
    fix i
    show "i |\<in>| jobs_where (\<lambda>j. j_batch_id j = Some b \<and> P j) (tq_jobs q) \<longleftrightarrow> i |\<in>| {||}"
      using no [of i] by (auto simp: holds_job_def split: option.splits)
  qed
  show ?thesis
    using None none [of "\<lambda>_. True"] none [of "\<lambda>j. j_status j = Completed"]
    by (simp add: batch_progress_def members_def bytes_of_def)
next
  case (Some key)
  have st: "structure_ok q" using assms(1) by (simp add: consistent_def)
  obtain c where c: "fmlookup (tq_rows q) key = Some c" using structure_batch [OF st Some] by blast
  have order: "distinct (rc_order c)" using structure_row [OF st c] by (simp add: row_shape_ok_def)
  note members = batch_members [OF assms(1) Some c]
  have "rc_completed c = job_sum (\<lambda>j. if same_slot Completed (j_status j) then 1 else 0) (tq_jobs q) (rc_order c)"
    using row_slot [OF assms(1) c, of Completed] by simp
  also have "\<dots> = fcard (jobs_where (\<lambda>j. j_batch_id j = Some b \<and> j_status j = Completed) (tq_jobs q))"
    unfolding job_sum_count [OF order members]
    by (rule arg_cong [of _ _ fcard], rule jobs_where_cong) (auto simp: same_slot_def is_failed_def)
  finally have completed: "rc_completed c = \<dots>" .
  have "rc_total c = fcard members"
    using rc_total_order [OF assms(1) c] members order
    by (simp add: members_def fcard.rep_eq distinct_card [symmetric])
  moreover have "rc_bytes_total c = bytes_of j_total_bytes (tq_jobs q) members"
    using assms(1) c job_sum_bytes [OF order members]
    by (auto simp: consistent_def rows_totals_ok_def totals_ok_def members_def)
  moreover have "rc_bytes_done c = bytes_of j_transferred_bytes (tq_jobs q) members"
    using assms(1) c job_sum_bytes [OF order members]
    by (auto simp: consistent_def ledger_def rows_counters_ok_def counters_ok_def members_def)
  ultimately show ?thesis
    using Some c completed by (simp add: batch_progress_def)
qed

lemma batch_progress_counts_witness:
  "bp_total_files (batch_progress sample_queue 3) =
     fcard (jobs_where (\<lambda>j. j_batch_id j = Some 3) (tq_jobs sample_queue))"
  by (simp add: batch_progress_counts [OF sample_queue_consistent])

text \<open>Removing jobs removes exactly the named ones, changes no other job, and no later
  operation brings a removed id back: ids are never reused.\<close>

theorem removed_for_good:
  assumes "consistent q"
  shows "(\<forall>k. fmlookup (tq_jobs (remove_jobs hash_order ids q)) k =
            (if k \<in> set ids then None else fmlookup (tq_jobs q) k)) \<and>
         (\<forall>i q'. has_job q i \<longrightarrow> i \<in> set ids \<longrightarrow>
            queue_step\<^sup>*\<^sup>* (remove_jobs hash_order ids q) q' \<longrightarrow> \<not> has_job q' i)"
proof (intro conjI allI impI)
  show "fmlookup (tq_jobs (remove_jobs hash_order ids q)) k =
      (if k \<in> set ids then None else fmlookup (tq_jobs q) k)" for k
    by (rule remove_jobs_lookup [OF assms])
  show "\<not> has_job q' i" if "has_job q i" "i \<in> set ids" "queue_step\<^sup>*\<^sup>* (remove_jobs hash_order ids q) q'" for i q'
  proof (rule queue.gone_for_good [OF that(3)])
    show "consistent (remove_jobs hash_order ids q)" by (rule remove_jobs_consistent [OF assms])
    show "i < tq_next_id (remove_jobs hash_order ids q)"
      using assms that(1) by (auto simp: remove_jobs_lookup consistent_def structure_ok_def has_job_def)
    show "\<not> has_job (remove_jobs hash_order ids q) i" using that(2) by (simp add: remove_jobs_ids [OF assms])
  qed
qed

lemma removed_for_good_witness:
  "\<not> has_job (snd (retry_jobs [1] (remove_jobs (\<lambda>_. []) [1] sample_queue))) 1"
proof -
  have "has_job sample_queue 1" using sample_queue_eval(3) by (simp add: has_job_def)
  moreover have "queue_step\<^sup>*\<^sup>* (remove_jobs (\<lambda>_. []) [1] sample_queue)
      (snd (retry_jobs [1] (remove_jobs (\<lambda>_. []) [1] sample_queue)))"
    by (rule r_into_rtranclp) (rule queue_step.Retry)
  ultimately show ?thesis
    using removed_for_good [OF sample_queue_consistent, of "\<lambda>_. []" "[1]"] by simp
qed

text \<open>A change made to a job is reported exactly when it matters to its row: a row whose
  last unfinished job ends is reported as finished, a finished row one of whose jobs is queued
  again as reopened, and nothing else is reported.\<close>

theorem row_changes_reported:
  assumes "consistent q" and "keeps_identity f"
    and "fmlookup (tq_row_of q) i = Some key" and "fmlookup (tq_rows q) key = Some c"
  shows "tq_changes (with_guard i f q) = tq_changes q @
           (if \<not> row_idle q key \<and> row_idle (with_guard i f q) key then [Finished (rc_kind c)]
            else if row_idle q key \<and> \<not> row_idle (with_guard i f q) key then [Reopened (rc_kind c)]
            else [])"
proof -
  obtain j where j: "fmlookup (tq_jobs q) i = Some j" using row_has_job [OF assms(1,3)] by blast
  let ?q = "q\<lparr>tq_jobs := fmupd i (f j) (tq_jobs q)\<rparr>"
  let ?r = "with_guard i f q"
  have r: "?r = reconcile i (shape_of j) ?q" using j by (simp add: with_guard_def)
  have ok: "consistent ?r" by (rule with_guard_consistent [OF assms(1,2)])
  have row_of: "tq_row_of ?r = tq_row_of q"
    by (simp add: r reconcile_def Let_def split: option.split)
  have before: "row_finished q key = row_idle q key"
    using rc_finished_idle [OF assms(1,4)] assms(4) by (simp add: row_finished_def)
  show ?thesis
  proof (cases "shape_of (f j) = shape_of j")
    case True
    then have "?r = ?q" by (simp add: r reconcile_def)
    moreover have "row_idle ?q key = row_idle q key"
      using True j by (auto simp: row_idle_def shape_of_def)
    ultimately show ?thesis by simp
  next
    case False
    let ?q2 = "account i (shape_of (f j)) True (account i (shape_of j) False ?q)"
    obtain c2 where c2: "fmlookup (tq_rows ?q2) key = Some c2" "rc_kind c2 = rc_kind c"
      using assms(3,4) by (simp add: account_rows_lookup)
    have same: "row_finished ?q key = row_finished q key" by (simp add: row_finished_def)
    have changes: "tq_changes ?r = tq_changes q @
        (if \<not> row_finished q key \<and> rc_finished c2 then [Finished (rc_kind c)]
         else if row_finished q key \<and> \<not> rc_finished c2 then [Reopened (rc_kind c)] else [])"
      using c2 False assms(3) same by (simp add: r reconcile_def Let_def)
    have "fmlookup (tq_rows ?r) key = Some c2"
      using c2 False assms(3) by (simp add: r reconcile_def Let_def)
    then have "rc_finished c2 = row_idle ?r key" by (rule rc_finished_idle [OF ok])
    then show ?thesis using changes before by simp
  qed
qed

lemma sample_queue_rows:
  "fmlookup (tq_row_of sample_queue) 1 = Some 1"
  "map_option rc_kind (fmlookup (tq_rows sample_queue) 1) = Some (Single 1)"
  by code_simp+

lemma row_changes_reported_witness:
  "\<exists>cs. tq_changes (with_guard 1 (\<lambda>j. j\<lparr>j_status := Completed\<rparr>) sample_queue) = tq_changes sample_queue @ cs"
proof -
  obtain c where "fmlookup (tq_rows sample_queue) 1 = Some c" using sample_queue_rows(2) by auto
  moreover have "keeps_identity (\<lambda>j. j\<lparr>j_status := Completed\<rparr>)" by (simp add: keeps_identity_def)
  ultimately show ?thesis
    using row_changes_reported [OF sample_queue_consistent _ sample_queue_rows(1)] by blast
qed

text \<open>Cancelling all queued jobs leaves none queued, turns exactly the queued ones to
  cancelled, keeps the running and finished ones as they are, and returns how many there were.\<close>

theorem cancel_all_queued_effect:
  assumes "consistent q"
  shows "fst (cancel_all_queued q) = fcard (jobs_where (\<lambda>j. j_status j = Queued) (tq_jobs q)) \<and>
         fmlookup (tq_jobs (snd (cancel_all_queued q))) i =
           map_option (\<lambda>j. if j_status j = Queued then j\<lparr>j_status := Cancelled\<rparr> else j)
             (fmlookup (tq_jobs q) i) \<and>
         tq_queued (snd (cancel_all_queued q)) = {||} \<and>
         tq_running (snd (cancel_all_queued q)) = tq_running q"
proof -
  let ?J = "tq_jobs (snd (cancel_all_queued q))"
  from assms have ix: "indexes_ok (tq_jobs q) q" by (simp add: consistent_def ledger_def)
  have jobs: "fmlookup ?J i = map_option (\<lambda>j. if j_status j = Queued then j\<lparr>j_status := Cancelled\<rparr> else j)
      (fmlookup (tq_jobs q) i)" for i
    using ix by (auto simp: cancel_all_queued_jobs indexes_ok_def holds_job_def split: option.splits
        intro: option.expand)
  have "indexes_ok ?J (snd (cancel_all_queued q))"
    using cancel_all_queued_consistent [OF assms] by (simp add: consistent_def ledger_def)
  then have "tq_queued (snd (cancel_all_queued q)) = jobs_where (\<lambda>j. j_status j = Queued) ?J"
    and "tq_running (snd (cancel_all_queued q)) = jobs_where (\<lambda>j. j_status j = InProgress) ?J"
    by (simp_all add: indexes_ok_def)
  moreover have "jobs_where (\<lambda>j. j_status j = Queued) ?J = {||}"
    by (rule fset_eqI) (auto simp: holds_job_def jobs split: option.splits if_splits)
  moreover have "jobs_where (\<lambda>j. j_status j = InProgress) ?J = jobs_where (\<lambda>j. j_status j = InProgress) (tq_jobs q)"
    by (rule fset_eqI) (auto simp: holds_job_def jobs split: option.splits if_splits)
  moreover have "fst (cancel_all_queued q) = fcard (tq_queued q)"
    by (simp add: cancel_all_queued_def)
  ultimately show ?thesis using ix jobs by (simp add: indexes_ok_def)
qed

lemma cancel_all_queued_effect_witness: "tq_queued (snd (cancel_all_queued sample_queue)) = {||}"
  using cancel_all_queued_effect [OF sample_queue_consistent] by blast

end
