(* ===== verification/Plan.thy ===== *)
theory Plan
  imports Vfs
begin

text \<open>
  \<^verbatim>\<open>transfer/plan\<close>: what a copy of files and folders will do.  The source is walked, the
  folders are created at the destination, the destination folders that already existed are
  listed, and every planned file is marked with the file that stands in its way.

  The walk follows a tree the server reports, which may never end; it is bounded by a depth.
\<close>

section \<open>Data\<close>

record existing_file =
  ef_size :: nat
  ef_modified :: "nat option"
  ef_is_dir :: bool

definition existing_of_metadata :: "metadata \<Rightarrow> existing_file" where
  "existing_of_metadata m =
     \<lparr>ef_size = m_size m, ef_modified = m_modified m, ef_is_dir = metadata_is_dir m\<rparr>"

type_synonym destination_listing = "(string, existing_file) fmap"

record planned_file =
  pf_source :: path
  pf_destination :: path
  pf_display_name :: string
  pf_size :: nat
  pf_existing :: "existing_file option"
  pf_source_modified :: "nat option"
  pf_partial :: "existing_file option"
  pf_resume :: bool

definition is_conflict :: "planned_file \<Rightarrow> bool" where
  "is_conflict f \<longleftrightarrow> pf_existing f \<noteq> None \<or> pf_partial f \<noteq> None"

record directory_plan =
  dp_files :: "planned_file list"
  dp_skipped_symlinks :: nat
  dp_taken_names :: "(path, string fset) fmap"

datatype plan_outcome = PlanReady directory_plan | PlanCancelled

datatype walk = WalkCompleted | WalkCancelled

record discovered_tree =
  dt_directories :: "path list"
  dt_files :: "(path \<times> nat \<times> nat option) list"
  dt_skipped_symlinks :: nat
  dt_symlinks :: "path list"

section \<open>Walking the source\<close>

definition add_symlink :: "path \<Rightarrow> discovered_tree \<Rightarrow> discovered_tree" where
  "add_symlink p t =
     t\<lparr>dt_skipped_symlinks := dt_skipped_symlinks t + 1, dt_symlinks := dt_symlinks t @ [p]\<rparr>"

definition add_directory :: "path \<Rightarrow> discovered_tree \<Rightarrow> discovered_tree" where
  "add_directory p t = t\<lparr>dt_directories := dt_directories t @ [p]\<rparr>"

definition add_file :: "path \<Rightarrow> metadata \<Rightarrow> discovered_tree \<Rightarrow> discovered_tree" where
  "add_file p m t = t\<lparr>dt_files := dt_files t @ [(p, m_size m, m_modified m)]\<rparr>"

text \<open>
  \<^verbatim>\<open>discover_tree_into\<close> and its loop over the items of one folder.  The tree is passed by
  mutable reference in the source; here it is returned.
\<close>

function (sequential) discover_tree_into ::
  "nat \<Rightarrow> 'w file_system \<Rightarrow> path \<Rightarrow> bool \<Rightarrow> 'w flag \<Rightarrow> path \<Rightarrow> discovered_tree \<Rightarrow>
     ('w, walk \<times> discovered_tree) bounded"
  and discover_items ::
  "nat \<Rightarrow> 'w file_system \<Rightarrow> path \<Rightarrow> bool \<Rightarrow> 'w flag \<Rightarrow> path \<Rightarrow> dir_item list \<Rightarrow> discovered_tree \<Rightarrow>
     ('w, walk \<times> discovered_tree) bounded"
where
  "discover_tree_into 0 fs root recursive cancel relative tree w = None"
| "discover_tree_into (Suc depth) fs root recursive cancel relative tree w =
     (case fs_read_dir fs (path_join root relative) w of
        (Inl e, w) \<Rightarrow> Some (Inl e, w)
      | (Inr items, w) \<Rightarrow> discover_items depth fs root recursive cancel relative items tree w)"
| "discover_items depth fs root recursive cancel relative [] tree w = Some (Inr (WalkCompleted, tree), w)"
| "discover_items depth fs root recursive cancel relative (item # items) tree w =
     (case cancel w of
        (True, w) \<Rightarrow> Some (Inr (WalkCancelled, tree), w)
      | (False, w) \<Rightarrow>
          let entry_relative = join_name relative (d_name item)
          in (case m_kind (d_metadata item) of
                Symlink \<Rightarrow>
                  discover_items depth fs root recursive cancel relative items
                    (add_symlink entry_relative tree) w
              | Dir \<Rightarrow>
                  if recursive
                  then (case discover_tree_into depth fs root recursive cancel entry_relative
                               (add_directory entry_relative tree) w of
                          None \<Rightarrow> None
                        | Some (Inl e, w) \<Rightarrow> Some (Inl e, w)
                        | Some (Inr (WalkCancelled, tree), w) \<Rightarrow> Some (Inr (WalkCancelled, tree), w)
                        | Some (Inr (WalkCompleted, tree), w) \<Rightarrow>
                            discover_items depth fs root recursive cancel relative items tree w)
                  else discover_items depth fs root recursive cancel relative items
                         (add_directory entry_relative tree) w
              | File \<Rightarrow>
                  discover_items depth fs root recursive cancel relative items
                    (add_file entry_relative (d_metadata item) tree) w))"
  by pat_completeness auto
termination
  by (relation "measures
        [\<lambda>x. case x of Inl (n, _) \<Rightarrow> n | Inr (n, _) \<Rightarrow> n,
         \<lambda>x. case x of Inl _ \<Rightarrow> 0 | Inr (_, _, _, _, _, _, items, _) \<Rightarrow> Suc (length items)]")
     (auto split: prod.splits sum.splits)

definition empty_tree :: discovered_tree where
  "empty_tree = \<lparr>dt_directories = [], dt_files = [], dt_skipped_symlinks = 0, dt_symlinks = []\<rparr>"

definition discover ::
  "nat \<Rightarrow> 'w file_system \<Rightarrow> path \<Rightarrow> bool \<Rightarrow> 'w flag \<Rightarrow> ('w, discovered_tree option) bounded" where
  "discover depth fs root recursive cancel =
     bnd_bind (discover_tree_into depth fs root recursive cancel [] empty_tree)
       (\<lambda>(outcome, tree). bounded_of (eff_return
          (case outcome of WalkCompleted \<Rightarrow> Some tree | WalkCancelled \<Rightarrow> None)))"

definition discover_tree ::
  "nat \<Rightarrow> 'w file_system \<Rightarrow> path \<Rightarrow> 'w flag \<Rightarrow> ('w, discovered_tree option) bounded" where
  "discover_tree depth fs root cancel = discover depth fs root True cancel"

section \<open>Preparing the destination\<close>

definition ensure_directory :: "'w file_system \<Rightarrow> path \<Rightarrow> ('w, bool) effect" where
  "ensure_directory fs p =
     eff_bind (eff_ok (fs_stat fs p)) (\<lambda>found.
       if (case found of Some m \<Rightarrow> metadata_is_dir m | None \<Rightarrow> False) then eff_return False
       else eff_bind (fs_create_dir fs p) (\<lambda>_. eff_return True))"

text \<open>The loop over the folders to create: \<^const>\<open>None\<close> when it was cancelled.\<close>

fun ensure_directories ::
  "'w file_system \<Rightarrow> 'w flag \<Rightarrow> path list \<Rightarrow> path fset \<Rightarrow> ('w, path fset option) effect" where
  "ensure_directories fs cancel [] created = eff_return (Some created)"
| "ensure_directories fs cancel (directory # directories) created =
     eff_bind (eff_flag cancel) (\<lambda>stop.
       if stop then eff_return None
       else eff_bind (ensure_directory fs directory) (\<lambda>new.
         ensure_directories fs cancel directories
           (if new then finsert directory created else created)))"

definition planned_file_for_loose_entry :: "entry \<Rightarrow> path \<Rightarrow> planned_file" where
  "planned_file_for_loose_entry e dest_dir =
     \<lparr>pf_source = e_path e, pf_destination = join_name dest_dir (e_name e),
      pf_display_name = e_name e, pf_size = e_size e, pf_existing = None,
      pf_source_modified = None, pf_partial = None, pf_resume = False\<rparr>"

definition planned_files_for_tree :: "entry \<Rightarrow> path \<Rightarrow> discovered_tree \<Rightarrow> planned_file list" where
  "planned_files_for_tree e dest_root tree =
     map (\<lambda>(relative_file, size, modified).
            \<lparr>pf_source = path_join (e_path e) relative_file,
             pf_destination = path_join dest_root relative_file,
             pf_display_name = string_of_path relative_file, pf_size = size, pf_existing = None,
             pf_source_modified = modified, pf_partial = None, pf_resume = False\<rparr>)
         (dt_files tree)"

section \<open>What is already there\<close>

definition destination_parent_and_name :: "planned_file \<Rightarrow> (path \<times> string) option" where
  "destination_parent_and_name f =
     (case path_parent (pf_destination f) of
        None \<Rightarrow> None
      | Some parent \<Rightarrow> map_option (Pair parent) (file_name (pf_destination f)))"

text \<open>\<^verbatim>\<open>sort\<close> and \<^verbatim>\<open>dedup\<close> of a list of paths.\<close>

definition parents_needing_listing :: "planned_file list \<Rightarrow> path fset \<Rightarrow> path list" where
  "parents_needing_listing files created =
     remdups_adj (sort (filter (\<lambda>p. p |\<notin>| created)
       (map fst (List.map_filter destination_parent_and_name files))))"

definition names_by_parent :: "planned_file list \<Rightarrow> (path, string list) fmap" where
  "names_by_parent files =
     fold (\<lambda>(parent, name) names. fmupd parent (fmget_or [] names parent @ [name]) names)
       (List.map_filter destination_parent_and_name files) fmempty"

definition mark_conflict :: "(path, destination_listing) fmap \<Rightarrow> planned_file \<Rightarrow> planned_file" where
  "mark_conflict listings f =
     (case destination_parent_and_name f of
        None \<Rightarrow> f
      | Some (parent, name) \<Rightarrow>
          f\<lparr>pf_existing := Option.bind (fmlookup listings parent) (\<lambda>l. fmlookup l name),
            pf_partial :=
              (case Option.bind (fmlookup listings parent) (\<lambda>l. fmlookup l (name @ PART_SUFFIX)) of
                 Some partial \<Rightarrow> if ef_is_dir partial then None else Some partial
               | None \<Rightarrow> None)\<rparr>)"

definition mark_conflicts :: "(path, destination_listing) fmap \<Rightarrow> planned_file list \<Rightarrow> planned_file list" where
  "mark_conflicts listings files = map (mark_conflict listings) files"

definition take_name :: "path \<Rightarrow> string fset \<Rightarrow> (path, string fset) fmap \<Rightarrow> (path, string fset) fmap" where
  "take_name parent names taken = fmupd parent (fmget_or {||} taken parent |\<union>| names) taken"

definition taken_names ::
  "planned_file list \<Rightarrow> (path, destination_listing) fmap \<Rightarrow> (path, string fset) fmap" where
  "taken_names files listings =
     fold (\<lambda>(parent, name). take_name parent {|name|})
       (List.map_filter destination_parent_and_name files)
       (fold (\<lambda>parent. take_name parent (fmdom (fmget_or fmempty listings parent)))
          (sorted_list_of_fset (fmdom listings)) fmempty)"

text \<open>The items of a listing; a link is shown as what it points to, when that can be read.\<close>

fun list_items :: "'w file_system \<Rightarrow> dir_item list \<Rightarrow> destination_listing \<Rightarrow> ('w, destination_listing) effect" where
  "list_items fs [] listing = eff_return listing"
| "list_items fs (item # items) listing =
     eff_bind
       (if m_kind (d_metadata item) = Symlink
        then eff_bind (eff_ok (fs_stat fs (d_path item)))
               (\<lambda>found. eff_return (case found of Some m \<Rightarrow> m | None \<Rightarrow> d_metadata item))
        else eff_return (d_metadata item))
       (\<lambda>existing. list_items fs items (fmupd (d_name item) (existing_of_metadata existing) listing))"

fun stat_names :: "'w file_system \<Rightarrow> path \<Rightarrow> string list \<Rightarrow> destination_listing \<Rightarrow> ('w, destination_listing) effect" where
  "stat_names fs dir [] listing = eff_return listing"
| "stat_names fs dir (name # names) listing =
     eff_bind (eff_ok (fs_stat fs (join_name dir name))) (\<lambda>found.
       stat_names fs dir names
         (case found of Some m \<Rightarrow> fmupd name (existing_of_metadata m) listing | None \<Rightarrow> listing))"

definition list_destination ::
  "'w file_system \<Rightarrow> path \<Rightarrow> string list \<Rightarrow> ('w, destination_listing) effect" where
  "list_destination fs dir planned_names =
     eff_bind (eff_ok (fs_read_dir fs dir)) (\<lambda>listed.
       case listed of
         Some items \<Rightarrow> list_items fs items fmempty
       | None \<Rightarrow>
           eff_bind (eff_ok (fs_stat fs dir)) (\<lambda>found.
             if found = None then eff_return fmempty else stat_names fs dir planned_names fmempty))"

section \<open>Planning a copy\<close>

text \<open>The loop over the chosen entries; the state is the files, the links, the new folders.\<close>

fun plan_entries ::
  "nat \<Rightarrow> 'w file_system \<Rightarrow> 'w file_system \<Rightarrow> path \<Rightarrow> 'w flag \<Rightarrow> entry list \<Rightarrow>
     planned_file list \<times> nat \<times> path fset \<Rightarrow> ('w, (planned_file list \<times> nat \<times> path fset) option) bounded" where
  "plan_entries depth source destination dest_dir cancel [] st = bounded_of (eff_return (Some st))"
| "plan_entries depth source destination dest_dir cancel (e # es) (files, skipped, created) =
     bnd_bind (bounded_of (eff_flag cancel)) (\<lambda>stop.
       if stop then bounded_of (eff_return None)
       else if \<not> e_is_dir e
       then plan_entries depth source destination dest_dir cancel es
              (files @ [planned_file_for_loose_entry e dest_dir], skipped, created)
       else bnd_bind (discover_tree depth source (e_path e) cancel) (\<lambda>found.
         case found of
           None \<Rightarrow> bounded_of (eff_return None)
         | Some tree \<Rightarrow>
             let dest_root = join_name dest_dir (e_name e);
                 directories = dest_root # map (path_join dest_root) (dt_directories tree)
             in bnd_bind (bounded_of (ensure_directories destination cancel directories created)) (\<lambda>made.
                  case made of
                    None \<Rightarrow> bounded_of (eff_return None)
                  | Some created \<Rightarrow>
                      plan_entries depth source destination dest_dir cancel es
                        (files @ planned_files_for_tree e dest_root tree,
                         skipped + dt_skipped_symlinks tree, created))))"

fun list_parents ::
  "'w file_system \<Rightarrow> 'w flag \<Rightarrow> (path, string list) fmap \<Rightarrow> path list \<Rightarrow>
     (path, destination_listing) fmap \<Rightarrow> ('w, (path, destination_listing) fmap option) effect" where
  "list_parents fs cancel names [] listings = eff_return (Some listings)"
| "list_parents fs cancel names (parent # parents) listings =
     eff_bind (eff_flag cancel) (\<lambda>stop.
       if stop then eff_return None
       else eff_bind (list_destination fs parent (fmget_or [] names parent)) (\<lambda>listing.
         list_parents fs cancel names parents (fmupd parent listing listings)))"

fun stat_sources :: "'w file_system \<Rightarrow> planned_file list \<Rightarrow> ('w, planned_file list) effect" where
  "stat_sources fs [] = eff_return []"
| "stat_sources fs (f # files) =
     eff_bind
       (if is_conflict f \<and> pf_source_modified f = None
        then eff_bind (eff_ok (fs_stat fs (pf_source f)))
               (\<lambda>found. eff_return (f\<lparr>pf_source_modified := Option.bind found m_modified\<rparr>))
        else eff_return f)
       (\<lambda>f. eff_bind (stat_sources fs files) (\<lambda>files. eff_return (f # files)))"

definition plan_copy ::
  "nat \<Rightarrow> 'w file_system \<Rightarrow> 'w file_system \<Rightarrow> entry list \<Rightarrow> path \<Rightarrow> 'w flag \<Rightarrow> ('w, plan_outcome) bounded" where
  "plan_copy depth source destination source_entries dest_dir cancel =
     bnd_bind (plan_entries depth source destination dest_dir cancel source_entries ([], 0, {||})) (\<lambda>st.
       case st of
         None \<Rightarrow> bounded_of (eff_return PlanCancelled)
       | Some (files, skipped_symlinks, created) \<Rightarrow>
           bounded_of
             (eff_bind (list_parents destination cancel (names_by_parent files)
                          (parents_needing_listing files created) fmempty) (\<lambda>listed.
                case listed of
                  None \<Rightarrow> eff_return PlanCancelled
                | Some listings \<Rightarrow>
                    eff_bind (stat_sources source (mark_conflicts listings files)) (\<lambda>files.
                      eff_return (PlanReady
                        \<lparr>dp_files = files, dp_skipped_symlinks = skipped_symlinks,
                         dp_taken_names = taken_names files listings\<rparr>)))))"

end
