(* ===== verification/Conflicts.thy ===== *)
theory Conflicts
  imports Plan
begin

text \<open>
  \<^verbatim>\<open>transfer/conflicts\<close>: what happens to a planned file whose destination is taken, by a
  file, by a folder, or by the partial file of an earlier attempt; and the name a file gets
  when both are kept.
\<close>

section \<open>Answers\<close>

datatype conflict_policy = PAsk | POverwrite | PSkip | PRename

datatype resolution = Overwrite | Skip | Rename | Resume

fun resolution_for :: "conflict_policy \<Rightarrow> planned_file \<Rightarrow> resolution option" where
  "resolution_for policy f =
     (case (policy, pf_existing f) of
        (PAsk, _) \<Rightarrow> None
      | (_, None) \<Rightarrow>
          if (case pf_partial f of None \<Rightarrow> False | Some partial \<Rightarrow> pf_size f \<le> ef_size partial)
          then Some Overwrite else Some Resume
      | (POverwrite, Some _) \<Rightarrow> if pf_partial f \<noteq> None then Some Resume else Some Overwrite
      | (PSkip, Some _) \<Rightarrow> Some Skip
      | (PRename, Some _) \<Rightarrow> Some Rename)"

record conflict_info =
  ci_display_name :: string
  ci_existing :: "existing_file option"
  ci_partial :: "existing_file option"
  ci_new_size :: nat
  ci_new_modified :: "nat option"

definition conflict_info_of :: "planned_file \<Rightarrow> conflict_info" where
  "conflict_info_of f =
     \<lparr>ci_display_name = pf_display_name f, ci_existing = pf_existing f, ci_partial = pf_partial f,
      ci_new_size = pf_size f, ci_new_modified = pf_source_modified f\<rparr>"

text \<open>
  \<^verbatim>\<open>ConflictSides\<close> is read through two functions: the file and the partial file at the
  destination.
\<close>

definition fits_the_rest ::
  "('t \<Rightarrow> existing_file option) \<Rightarrow> ('t \<Rightarrow> existing_file option) \<Rightarrow> resolution \<Rightarrow> 't \<Rightarrow> 't \<Rightarrow> bool" where
  "fits_the_rest existing partial r answered later =
     (let later_blocked_by_folder = (case existing later of None \<Rightarrow> False | Some e \<Rightarrow> ef_is_dir e)
      in case r of
           Resume \<Rightarrow> partial later \<noteq> None \<and> \<not> later_blocked_by_folder
         | Overwrite \<Rightarrow> (existing later \<noteq> None) = (existing answered \<noteq> None)
         | Rename \<Rightarrow> existing later \<noteq> None
         | Skip \<Rightarrow> True)"

definition conflict_indices :: "directory_plan \<Rightarrow> nat list" where
  "conflict_indices plan =
     map fst (filter (\<lambda>(index, f). is_conflict f) (enumerate 0 (dp_files plan)))"

section \<open>A free name\<close>

definition split_extension :: "string \<Rightarrow> string \<times> string" where
  "split_extension name =
     (case rfind (CHR ''.'') name of
        None \<Rightarrow> (name, [])
      | Some 0 \<Rightarrow> (name, [])
      | Some index \<Rightarrow> (take index name, drop index name))"

definition candidate :: "string \<Rightarrow> string \<Rightarrow> nat \<Rightarrow> string" where
  "candidate stem extension counter = stem @ '' ('' @ show_nat counter @ '')'' @ extension"

lemma candidate_inject [simp]: "candidate s e m = candidate s e n \<longleftrightarrow> m = n"
  by (simp add: candidate_def)

text \<open>
  The search through \<^verbatim>\<open>(1..)\<close>.  It ends: the names that are taken are finitely many, and
  different counters give different names.
\<close>

function first_free :: "string fset \<Rightarrow> string \<Rightarrow> string \<Rightarrow> nat \<Rightarrow> string" where
  "first_free taken stem extension counter =
     (if candidate stem extension counter |\<in>| taken
      then first_free taken stem extension (counter + 1)
      else candidate stem extension counter)"
  by pat_completeness auto
termination
proof (relation "measure (\<lambda>(taken, stem, extension, counter).
    card {n. counter \<le> n \<and> candidate stem extension n |\<in>| taken})")
  fix taken stem extension and counter :: nat
  assume here: "candidate stem extension counter |\<in>| taken"
  let ?later = "\<lambda>c. {n. c \<le> n \<and> candidate stem extension n |\<in>| taken}"
  have "finite (candidate stem extension -` fset taken)"
    by (rule finite_vimageI) (auto intro: injI)
  then have "finite (?later counter)"
    by (rule rev_finite_subset) auto
  moreover have "counter \<in> ?later counter" "counter \<notin> ?later (counter + 1)"
    "?later (counter + 1) \<subseteq> ?later counter"
    using here by auto
  then have "?later (counter + 1) \<subset> ?later counter" by blast
  ultimately show "((taken, stem, extension, counter + 1), taken, stem, extension, counter) \<in>
      measure (\<lambda>(taken, stem, extension, counter).
        card {n. counter \<le> n \<and> candidate stem extension n |\<in>| taken})"
    by (simp add: psubset_card_mono)
qed simp

declare first_free.simps [simp del]

definition unique_name :: "string \<Rightarrow> string fset \<Rightarrow> string" where
  "unique_name name taken =
     (case split_extension name of (stem, extension) \<Rightarrow> first_free taken stem extension 1)"

section \<open>Resolving a plan\<close>

definition rename_destination ::
  "planned_file \<Rightarrow> (path, string fset) fmap \<Rightarrow> planned_file \<times> (path, string fset) fmap" where
  "rename_destination f names =
     (case (path_parent (pf_destination f), file_name (pf_destination f)) of
        (Some parent, Some name) \<Rightarrow>
          let taken = fmget_or {||} names parent;
              new_name = unique_name name taken
          in (f\<lparr>pf_destination := join_name parent new_name,
                pf_display_name :=
                  string_of_path (with_file_name (path_of_string (pf_display_name f)) new_name)\<rparr>,
              fmupd parent (finsert new_name taken) names)
      | _ \<Rightarrow> (f, names))"

record resolved_plan =
  rp_files :: "planned_file list"
  rp_skipped :: nat
  rp_skipped_partials :: nat
  rp_blocked_by_folder :: nat

definition blocked_by_folder :: "planned_file \<Rightarrow> bool" where
  "blocked_by_folder f \<longleftrightarrow> (case pf_existing f of None \<Rightarrow> False | Some e \<Rightarrow> ef_is_dir e)"

text \<open>The loop of \<^verbatim>\<open>resolve\<close>, with the answers still to be taken and the names already taken.\<close>

fun resolve_files ::
  "planned_file list \<Rightarrow> resolution list \<Rightarrow> (path, string fset) fmap \<Rightarrow> resolved_plan \<Rightarrow> resolved_plan" where
  "resolve_files [] answers taken acc = acc"
| "resolve_files (f # files) answers taken acc =
     (if \<not> is_conflict f
      then resolve_files files answers taken (acc\<lparr>rp_files := rp_files acc @ [f]\<rparr>)
      else
        let answer = (case answers of [] \<Rightarrow> Skip | a # _ \<Rightarrow> a);
            answers = tl answers
        in (case answer of
              Resume \<Rightarrow>
                if blocked_by_folder f
                then resolve_files files answers taken
                       (acc\<lparr>rp_blocked_by_folder := rp_blocked_by_folder acc + 1\<rparr>)
                else resolve_files files answers taken
                       (acc\<lparr>rp_files := rp_files acc @ [f\<lparr>pf_resume := True\<rparr>]\<rparr>)
            | Overwrite \<Rightarrow>
                if blocked_by_folder f
                then resolve_files files answers taken
                       (acc\<lparr>rp_blocked_by_folder := rp_blocked_by_folder acc + 1\<rparr>)
                else resolve_files files answers taken
                       (acc\<lparr>rp_files := rp_files acc @ [f\<lparr>pf_resume := False\<rparr>]\<rparr>)
            | Skip \<Rightarrow>
                if pf_existing f \<noteq> None
                then resolve_files files answers taken (acc\<lparr>rp_skipped := rp_skipped acc + 1\<rparr>)
                else resolve_files files answers taken
                       (acc\<lparr>rp_skipped_partials := rp_skipped_partials acc + 1\<rparr>)
            | Rename \<Rightarrow>
                if pf_existing f = None
                then resolve_files files answers taken
                       (acc\<lparr>rp_files := rp_files acc @ [f\<lparr>pf_resume := True\<rparr>]\<rparr>)
                else (case rename_destination f taken of
                        (f, taken) \<Rightarrow>
                          resolve_files files answers taken
                            (acc\<lparr>rp_files := rp_files acc @ [f\<lparr>pf_resume := False\<rparr>]\<rparr>))))"

definition resolve :: "directory_plan \<Rightarrow> resolution list \<Rightarrow> resolved_plan" where
  "resolve plan answers =
     resolve_files (dp_files plan) answers (dp_taken_names plan)
       \<lparr>rp_files = [], rp_skipped = 0, rp_skipped_partials = 0, rp_blocked_by_folder = 0\<rparr>"

section \<open>Free names are free\<close>

lemma first_free_free: "first_free taken stem extension counter |\<notin>| taken"
  by (induction taken stem extension counter rule: first_free.induct)
     (subst first_free.simps, auto)

lemma unique_name_free: "unique_name name taken |\<notin>| taken"
  by (simp add: unique_name_def split_beta first_free_free)

lemma first_free_candidate:
  "\<exists>n \<ge> counter. first_free taken stem extension counter = candidate stem extension n \<and>
     (\<forall>m. counter \<le> m \<longrightarrow> m < n \<longrightarrow> candidate stem extension m |\<in>| taken)"
proof (induction taken stem extension counter rule: first_free.induct)
  case (1 taken stem extension counter)
  show ?case
  proof (cases "candidate stem extension counter |\<in>| taken")
    case True
    then obtain n where n: "n \<ge> counter + 1"
      "first_free taken stem extension (counter + 1) = candidate stem extension n"
      "\<forall>m. counter + 1 \<le> m \<longrightarrow> m < n \<longrightarrow> candidate stem extension m |\<in>| taken"
      using 1 by blast
    have "candidate stem extension m |\<in>| taken" if "counter \<le> m" "m < n" for m
      using n(3) True that by (cases "m = counter") auto
    then show ?thesis
      using n(1,2) True by (subst first_free.simps) (auto intro: exI [of _ n])
  qed (subst first_free.simps, auto)
qed

lemma split_extension_join: "fst (split_extension name) @ snd (split_extension name) = name"
  by (auto simp: split_extension_def split: option.split nat.split)

lemma split_extension_stem: "name \<noteq> [] \<Longrightarrow> fst (split_extension name) \<noteq> []"
  by (auto simp: split_extension_def split: option.split nat.split dest: rfind_SomeD)

text \<open>The new name is a plain file name again.\<close>

lemma show_nat_no_sep: "c \<in> set (show_nat n) \<Longrightarrow> c \<noteq> file_sep"
proof (induction n rule: show_nat.induct)
  case (1 n)
  have digit: "char_of (48 + d) \<noteq> file_sep" if "d < 10" for d :: nat
  proof
    assume "char_of (48 + d) = file_sep"
    then have "of_char (char_of (48 + d)) = (of_char file_sep :: nat)" by simp
    then show False using that by (simp add: file_sep_def)
  qed
  show ?case
    using 1 digit [of n] digit [of "n mod 10"]
    by (subst (asm) (2) show_nat.simps) (auto split: if_splits)
qed

lemma wf_candidate:
  assumes "wf_name name"
  shows "wf_name (candidate (fst (split_extension name)) (snd (split_extension name)) n)"
proof -
  let ?s = "fst (split_extension name)" and ?e = "snd (split_extension name)"
  have "set ?s \<union> set ?e = set name" by (metis set_append split_extension_join)
  then have "file_sep \<notin> set ?s \<union> set ?e" using assms by (simp add: wf_name_def)
  then have "file_sep \<notin> set (candidate ?s ?e n)"
    by (auto simp: candidate_def file_sep_def dest: show_nat_no_sep)
  moreover have "length (candidate ?s ?e n) > 2"
    by (simp add: candidate_def)
  ultimately show ?thesis by (auto simp: wf_name_def dot_def dot_dot_def)
qed

lemma wf_unique_name: "wf_name name \<Longrightarrow> wf_name (unique_name name taken)"
  using first_free_candidate [of 1 taken "fst (split_extension name)" "snd (split_extension name)"]
  by (auto simp: unique_name_def split_beta wf_candidate)

section \<open>What resolving a plan guarantees\<close>

text \<open>The name chosen to keep both files is not taken by any file of the folder or of the
  plan, keeps the extension of the original, uses the smallest counter that is free, and is
  found after at most as many tries as there are taken names, plus one.\<close>

theorem unique_name_fresh:
  "unique_name name taken |\<notin>| taken \<and>
   (\<exists>n. 1 \<le> n \<and> n \<le> fcard taken + 1 \<and>
      unique_name name taken =
        candidate (fst (split_extension name)) (snd (split_extension name)) n)"
proof -
  let ?c = "candidate (fst (split_extension name)) (snd (split_extension name))"
  obtain n where n: "1 \<le> n" "unique_name name taken = ?c n" "\<forall>m. 1 \<le> m \<longrightarrow> m < n \<longrightarrow> ?c m |\<in>| taken"
    using first_free_candidate [of 1 taken "fst (split_extension name)" "snd (split_extension name)"]
    by (auto simp: unique_name_def split_beta)
  have "?c ` {1..<n} \<subseteq> fset taken" using n(3) by auto
  then have "card (?c ` {1..<n}) \<le> fcard taken"
    by (simp add: fcard.rep_eq card_mono)
  moreover have "card (?c ` {1..<n}) = n - 1"
    by (simp add: card_image inj_on_def)
  ultimately have "n \<le> fcard taken + 1" by simp
  moreover have "unique_name name taken |\<notin>| taken" by (rule unique_name_free)
  ultimately show ?thesis using n(1,2) by blast
qed

lemma resolve_files_count:
  "length (rp_files (resolve_files files answers taken acc)) +
     rp_skipped (resolve_files files answers taken acc) +
     rp_skipped_partials (resolve_files files answers taken acc) +
     rp_blocked_by_folder (resolve_files files answers taken acc) =
   length files + length (rp_files acc) + rp_skipped acc + rp_skipped_partials acc + rp_blocked_by_folder acc"
  by (induction files answers taken acc rule: resolve_files.induct)
     (auto simp: Let_def split: resolution.splits prod.splits)

text \<open>The path names a file in a folder, and the name is among the taken ones of that folder.\<close>

definition covered :: "(path, string fset) fmap \<Rightarrow> path \<Rightarrow> bool" where
  "covered taken p \<longleftrightarrow>
     (\<exists>parent n. p = parent @ [Normal n] \<and> wf_name n \<and> n |\<in>| fmget_or {||} taken parent)"

definition existing_at :: "(path, destination_listing) fmap \<Rightarrow> path \<Rightarrow> existing_file option" where
  "existing_at listings p =
     (case (path_parent p, file_name p) of
        (Some parent, Some name) \<Rightarrow> Option.bind (fmlookup listings parent) (\<lambda>l. fmlookup l name)
      | _ \<Rightarrow> None)"

lemma covered_mono: "covered taken p \<Longrightarrow> covered (fmupd parent (finsert n (fmget_or {||} taken parent)) taken) p"
  by (auto simp: covered_def)

lemma rename_destination_fresh:
  assumes "covered taken (pf_destination f)" and "rename_destination f taken = (g, taken')"
  shows "\<not> covered taken (pf_destination g) \<and> covered taken' (pf_destination g) \<and>
         (\<forall>p. covered taken p \<longrightarrow> covered taken' p) \<and>
         (\<exists>parent n. pf_destination g = parent @ [Normal n] \<and> wf_name n \<and> n |\<notin>| fmget_or {||} taken parent) \<and>
         pf_source g = pf_source f"
proof -
  obtain parent n where p: "pf_destination f = parent @ [Normal n]" "wf_name n"
    using assms(1) by (auto simp: covered_def)
  let ?new = "unique_name n (fmget_or {||} taken parent)"
  have new: "?new |\<notin>| fmget_or {||} taken parent" "wf_name ?new"
    by (rule unique_name_free, rule wf_unique_name [OF p(2)])
  have g: "pf_destination g = parent @ [Normal ?new]" "pf_source g = pf_source f"
    and taken': "taken' = fmupd parent (finsert ?new (fmget_or {||} taken parent)) taken"
    using assms(2) p new(2) by (auto simp: rename_destination_def Let_def join_wf_name)
  have "\<not> covered taken (pf_destination g)" using new(1) by (auto simp: covered_def g)
  moreover have "covered taken' (pf_destination g)" using new(2) by (auto simp: covered_def g taken')
  ultimately show ?thesis
    using covered_mono g new unfolding taken' by blast
qed

text \<open>The files still to be resolved and the ones resolved write to different places.\<close>

definition apart :: "planned_file list \<Rightarrow> (path, string fset) fmap \<Rightarrow> resolved_plan \<Rightarrow> bool" where
  "apart files taken acc \<longleftrightarrow>
     distinct (map pf_destination (rp_files acc @ files)) \<and>
     (\<forall>f \<in> set (rp_files acc @ files). covered taken (pf_destination f))"

lemma apart_drop: "apart (f # files) taken acc \<Longrightarrow> apart files taken acc"
  by (auto simp: apart_def)

lemma apart_keep:
  "apart (f # files) taken acc \<Longrightarrow> pf_destination g = pf_destination f \<Longrightarrow>
     apart files taken (acc\<lparr>rp_files := rp_files acc @ [g]\<rparr>)"
  by (auto simp: apart_def)

lemma apart_count [simp]:
  "apart files taken (acc\<lparr>rp_skipped := n\<rparr>) = apart files taken acc"
  "apart files taken (acc\<lparr>rp_skipped_partials := n\<rparr>) = apart files taken acc"
  "apart files taken (acc\<lparr>rp_blocked_by_folder := n\<rparr>) = apart files taken acc"
  by (simp_all add: apart_def)

lemma apart_rename:
  assumes ok: "apart (f # files) taken acc" and r: "rename_destination f taken = (g, taken')"
    and h: "pf_destination h = pf_destination g"
  shows "apart files taken' (acc\<lparr>rp_files := rp_files acc @ [h]\<rparr>)"
proof -
  have "covered taken (pf_destination f)" using ok by (simp add: apart_def)
  note fresh = rename_destination_fresh [OF this r]
  then have "pf_destination h \<notin> pf_destination ` set (rp_files acc @ files)"
    using ok h unfolding apart_def by force
  then show ?thesis using ok fresh h by (auto simp: apart_def)
qed

lemma resolve_files_apart:
  "apart files taken acc \<Longrightarrow> distinct (map pf_destination (rp_files (resolve_files files answers taken acc)))"
proof (induction files answers taken acc rule: resolve_files.induct)
  case (2 f files answers taken acc)
  obtain g taken' where r: "rename_destination f taken = (g, taken')"
    by (cases "rename_destination f taken")
  note keep = apart_keep [OF "2.prems"] and drop = apart_drop [OF "2.prems"]
    and rename = apart_rename [OF "2.prems" r]
  show ?case
  proof (cases "is_conflict f")
    case False
    then show ?thesis using "2.IH"(1) keep by simp
  next
    case True
    show ?thesis
      using True "2.IH"(2-) keep drop rename r
      by (auto simp: Let_def split: resolution.splits list.splits)
  qed
qed (simp add: apart_def)

text \<open>
  Where a resolved file goes: where it was planned, when nothing is there or the answers ask to
  overwrite or resume and it is not a folder; otherwise to a name nobody uses.
\<close>

definition goes_well :: "resolution list \<Rightarrow> (path, string fset) fmap \<Rightarrow> planned_file list \<Rightarrow> planned_file \<Rightarrow> bool" where
  "goes_well answers taken files g \<longleftrightarrow>
     (\<exists>f \<in> set files. pf_source g = pf_source f \<and>
        (pf_destination g = pf_destination f \<and>
           (pf_existing f = None \<or>
            (Overwrite \<in> set answers \<or> Resume \<in> set answers) \<and> \<not> blocked_by_folder f) \<or>
         (\<exists>parent n. pf_destination g = parent @ [Normal n] \<and> wf_name n \<and> n |\<notin>| fmget_or {||} taken parent)))"

text \<open>What the induction over the files keeps, for the answers, names and files of the whole plan.\<close>

definition going_well ::
  "resolution list \<Rightarrow> (path, string fset) fmap \<Rightarrow> planned_file list \<Rightarrow>
     planned_file list \<Rightarrow> resolution list \<Rightarrow> (path, string fset) fmap \<Rightarrow> resolved_plan \<Rightarrow> bool" where
  "going_well A T F files answers taken acc \<longleftrightarrow>
     (\<forall>g \<in> set (rp_files acc). goes_well A T F g) \<and> set files \<subseteq> set F \<and> set answers \<subseteq> set A \<and>
     (\<forall>p. fmget_or {||} T p |\<subseteq>| fmget_or {||} taken p) \<and>
     (\<forall>f \<in> set files. covered taken (pf_destination f))"

lemma set_tl: "set xs \<subseteq> S \<Longrightarrow> set (tl xs) \<subseteq> S"
  by (cases xs) auto

lemma going_well_drop:
  "going_well A T F (f # files) answers taken acc \<Longrightarrow> going_well A T F files (tl answers) taken acc"
  by (auto simp: going_well_def dest: set_tl)

lemma going_well_add:
  "going_well A T F (f # files) answers taken acc \<Longrightarrow> set answers' \<subseteq> set answers \<Longrightarrow>
     goes_well A T F g \<Longrightarrow> going_well A T F files answers' taken (acc\<lparr>rp_files := rp_files acc @ [g]\<rparr>)"
  by (auto simp: going_well_def)

lemma going_well_rename:
  assumes ok: "going_well A T F (f # files) answers taken acc"
    and r: "rename_destination f taken = (g, taken')"
  shows "going_well A T F files (tl answers) taken' (acc\<lparr>rp_files := rp_files acc @ [g\<lparr>pf_resume := b\<rparr>]\<rparr>)"
proof -
  have "covered taken (pf_destination f)" using ok by (simp add: going_well_def)
  note fresh = rename_destination_fresh [OF this r]
  then obtain parent n where n: "pf_destination g = parent @ [Normal n]" "wf_name n"
    "n |\<notin>| fmget_or {||} taken parent" and source: "pf_source g = pf_source f"
    by blast
  have "n |\<notin>| fmget_or {||} T parent" using ok n(3) unfolding going_well_def by blast
  moreover have "f \<in> set F" using ok by (simp add: going_well_def)
  ultimately have "goes_well A T F (g\<lparr>pf_resume := b\<rparr>)"
    using n(1,2) source unfolding goes_well_def by auto
  moreover have "fmget_or {||} taken p |\<subseteq>| fmget_or {||} taken' p" for p
    using r by (auto simp: rename_destination_def Let_def split: option.splits prod.splits)
  ultimately show ?thesis
    using ok fresh unfolding going_well_def by (auto dest: set_tl) blast
qed

lemma going_well_count [simp]:
  "going_well A T F files answers taken (acc\<lparr>rp_skipped := n\<rparr>) = going_well A T F files answers taken acc"
  "going_well A T F files answers taken (acc\<lparr>rp_skipped_partials := n\<rparr>) = going_well A T F files answers taken acc"
  "going_well A T F files answers taken (acc\<lparr>rp_blocked_by_folder := n\<rparr>) = going_well A T F files answers taken acc"
  by (simp_all add: going_well_def)

lemma goes_well_here:
  assumes "going_well A T F (f # files) answers taken acc"
    and "pf_existing f = None \<or> (a = Overwrite \<or> a = Resume) \<and> a \<in> set answers \<and> \<not> blocked_by_folder f"
    and "pf_source g = pf_source f" and "pf_destination g = pf_destination f"
  shows "goes_well A T F g"
  using assms unfolding going_well_def goes_well_def by (intro bexI [of _ f]) auto

lemma resolve_files_well:
  "going_well A T F files answers taken acc \<Longrightarrow>
     g \<in> set (rp_files (resolve_files files answers taken acc)) \<Longrightarrow> goes_well A T F g"
proof (induction files answers taken acc rule: resolve_files.induct)
  case (2 f files answers taken acc)
  obtain h taken' where r: "rename_destination f taken = (h, taken')"
    by (cases "rename_destination f taken")
  note here = goes_well_here [OF "2.prems"(1)]
  note drop = going_well_drop [OF "2.prems"(1)]
  note rename = going_well_rename [OF "2.prems"(1) r]
  have tl_sub: "set (tl answers) \<subseteq> set answers" by (rule set_tl) simp
  note add = going_well_add [OF "2.prems"(1) tl_sub here]
  show ?case
  proof (cases "is_conflict f")
    case False
    then have "goes_well A T F f" by (intro here) (simp_all add: is_conflict_def)
    then show ?thesis
      using False "2.IH"(1) "2.prems" going_well_add [OF "2.prems"(1) order_refl] by simp
  next
    case True
    show ?thesis
    proof (cases answers)
      case Nil
      then show ?thesis using True "2.IH" "2.prems" drop by (auto simp: Let_def split: if_splits)
    next
      case (Cons a as)
      show ?thesis
      proof (cases a)
        case Overwrite
        then show ?thesis
          using True "2.IH" "2.prems"(2) drop Cons add [of Overwrite "f\<lparr>pf_resume := False\<rparr>"]
          by (auto simp: Let_def split: if_splits)
      next
        case Skip
        then show ?thesis
          using True "2.IH" "2.prems"(2) drop Cons by (auto simp: Let_def split: if_splits)
      next
        case Rename
        then show ?thesis
          using True "2.IH" "2.prems"(2) rename Cons r add [of Overwrite "f\<lparr>pf_resume := True\<rparr>"]
          by (auto simp: Let_def split: if_splits)
      next
        case Resume
        then show ?thesis
          using True "2.IH" "2.prems"(2) drop Cons add [of Resume "f\<lparr>pf_resume := True\<rparr>"]
          by (auto simp: Let_def split: if_splits)
      qed
    qed
  qed
qed (simp add: going_well_def)

subsection \<open>Plans as the planning makes them\<close>

text \<open>
  What \<^const>\<open>plan_copy\<close> establishes: every file carries what the listings show at its destination,
  the taken names are those of the listings and of the files, every destination is a file name
  in a folder, and no two are the same.
\<close>

definition plan_ok :: "(path, destination_listing) fmap \<Rightarrow> directory_plan \<Rightarrow> bool" where
  "plan_ok listings plan \<longleftrightarrow>
     dp_taken_names plan = taken_names (dp_files plan) listings \<and>
     (\<forall>f \<in> set (dp_files plan).
        pf_existing f = existing_at listings (pf_destination f) \<and>
        (\<exists>parent n. pf_destination f = parent @ [Normal n] \<and> wf_name n)) \<and>
     distinct (map pf_destination (dp_files plan))"

lemma take_name_get:
  "fmget_or {||} (take_name parent ns taken) p =
     (if p = parent then fmget_or {||} taken p |\<union>| ns else fmget_or {||} taken p)"
  by (simp add: take_name_def)

lemma fold_take_listing:
  "fmget_or {||} (fold (\<lambda>parent. take_name parent (ns parent)) ps taken) p =
     (if p \<in> set ps then fmget_or {||} taken p |\<union>| ns p else fmget_or {||} taken p)"
  by (induction ps arbitrary: taken) (auto simp: take_name_get)

lemma fold_take_names:
  "n |\<in>| fmget_or {||} (fold (\<lambda>(parent, name). take_name parent {|name|}) pns taken) p \<longleftrightarrow>
     n |\<in>| fmget_or {||} taken p \<or> (p, n) \<in> set pns"
proof (induction pns arbitrary: taken)
  case (Cons pn pns)
  obtain p' n' where pn: "pn = (p', n')" by (cases pn)
  have "n |\<in>| fmget_or {||} (take_name p' {|n'|} taken) p \<longleftrightarrow>
      n |\<in>| fmget_or {||} taken p \<or> (p, n) = (p', n')"
    by (cases "p = p'") (simp_all add: take_name_get disj_commute)
  then show ?case using Cons.IH [of "take_name p' {|n'|} taken"] by (simp add: pn disj_assoc)
qed simp

lemma in_taken_names:
  "n |\<in>| fmget_or {||} (taken_names files listings) parent \<longleftrightarrow>
     n |\<in>| fmdom (fmget_or fmempty listings parent) \<or>
     (\<exists>f \<in> set files. destination_parent_and_name f = Some (parent, n))"
proof -
  have "(parent, n) \<in> set (List.map_filter destination_parent_and_name files) \<longleftrightarrow>
      (\<exists>f \<in> set files. destination_parent_and_name f = Some (parent, n))"
    by (rule in_map_filter)
  moreover have "parent |\<notin>| fmdom listings \<Longrightarrow> fmget_or fmempty listings parent = fmempty"
    by (simp add: fmget_or_def fmdom_notD)
  ultimately show ?thesis
    by (auto simp: taken_names_def fold_take_names fold_take_listing)
qed

lemma plan_ok_apart:
  assumes "plan_ok listings plan"
  shows "apart (dp_files plan) (dp_taken_names plan) (acc\<lparr>rp_files := []\<rparr>)"
proof -
  have "covered (dp_taken_names plan) (pf_destination f)" if f: "f \<in> set (dp_files plan)" for f
  proof -
    obtain parent n where p: "pf_destination f = parent @ [Normal n]" "wf_name n"
      using assms f by (auto simp: plan_ok_def)
    then have "destination_parent_and_name f = Some (parent, n)"
      by (simp add: destination_parent_and_name_def)
    then show ?thesis
      using assms f p by (auto simp: covered_def plan_ok_def in_taken_names)
  qed
  then show ?thesis using assms by (auto simp: apart_def plan_ok_def)
qed


text \<open>A plan with one file that is already there.\<close>

definition sample_existing :: existing_file where
  "sample_existing = \<lparr>ef_size = 3, ef_modified = None, ef_is_dir = False\<rparr>"

definition sample_listings :: "(path, destination_listing) fmap" where
  "sample_listings = fmupd [RootDir] (fmupd ''a.txt'' sample_existing fmempty) fmempty"

definition sample_file :: planned_file where
  "sample_file =
     \<lparr>pf_source = [RootDir, Normal ''s'', Normal ''a.txt''], pf_destination = [RootDir, Normal ''a.txt''],
      pf_display_name = ''a.txt'', pf_size = 5, pf_existing = Some sample_existing,
      pf_source_modified = None, pf_partial = None, pf_resume = False\<rparr>"

definition sample_plan :: directory_plan where
  "sample_plan =
     \<lparr>dp_files = [sample_file], dp_skipped_symlinks = 0,
      dp_taken_names = taken_names [sample_file] sample_listings\<rparr>"

lemma sample_plan_ok: "plan_ok sample_listings sample_plan"
proof -
  have "existing_at sample_listings [RootDir, Normal ''a.txt''] = Some sample_existing"
    by code_simp
  moreover have "wf_name ''a.txt''" by code_simp
  ultimately show ?thesis
    by (simp add: plan_ok_def sample_plan_def sample_file_def exI [of _ "[RootDir]"])
qed


end
