(* ===== verification/Execute.thy ===== *)
theory Execute
  imports Plan
begin

text \<open>
  \<^verbatim>\<open>transfer/execute\<close>: copying one file.  The bytes go to a partial file beside the
  destination, which is renamed over it when the copy is complete; a resumed copy keeps the
  beginning of the partial file of the earlier attempt.

  The loop ends when the source has no more bytes, which a source may never say: it is bounded
  by the number of chunks.
\<close>

section \<open>Constants and results\<close>

definition CHUNK_SIZE :: nat where
  "CHUNK_SIZE = 256 * 1024"

definition PROGRESS_STEP_BYTES :: nat where
  "PROGRESS_STEP_BYTES = 64 * 1024"

definition CLOCK_SKEW_TOLERANCE_SECS :: nat where
  "CLOCK_SKEW_TOLERANCE_SECS = 120"

datatype transfer_outcome = TransferCompleted | TransferCancelled

record executed =
  ex_outcome :: transfer_outcome
  ex_times_kept :: bool

section \<open>Where to resume\<close>

text \<open>The sum is a plain \<^verbatim>\<open>+\<close>, which wraps in a release build.\<close>

definition resume_offset :: "nat \<Rightarrow> nat \<Rightarrow> nat option \<Rightarrow> nat option \<Rightarrow> nat \<Rightarrow> nat" where
  "resume_offset part_len source_len part_modified source_modified backoff =
     (case (part_modified, source_modified) of
        (Some part_modified, Some source_modified) \<Rightarrow>
          if source_len < part_len \<or>
             wrapping_add part_modified CLOCK_SKEW_TOLERANCE_SECS < source_modified
          then 0 else part_len - backoff
      | _ \<Rightarrow> 0)"

definition part_path :: "path \<Rightarrow> path" where
  "part_path p = push_suffix p PART_SUFFIX"

section \<open>Copying\<close>

text \<open>\<^verbatim>\<open>on_progress\<close> is called with the number of bytes; what it does to the world is its own.\<close>

type_synonym 'w progress = "nat \<Rightarrow> 'w \<Rightarrow> 'w"

fun copy_loop ::
  "nat \<Rightarrow> 'w file_system \<Rightarrow> handle \<Rightarrow> 'w file_system \<Rightarrow> handle \<Rightarrow> 'w flag \<Rightarrow> 'w progress \<Rightarrow> nat \<Rightarrow> nat \<Rightarrow>
     ('w, transfer_outcome) bounded" where
  "copy_loop 0 source reader destination writer cancel on_progress transferred since_last_report w = None"
| "copy_loop (Suc chunks) source reader destination writer cancel on_progress transferred since_last_report w =
     (case cancel w of
        (True, w) \<Rightarrow> Some (Inr TransferCancelled, w)
      | (False, w) \<Rightarrow>
          (case fs_read source reader CHUNK_SIZE w of
             (Inl e, w) \<Rightarrow> Some (Inl e, w)
           | (Inr [], w) \<Rightarrow>
               (case fs_flush destination writer w of
                  (Inl e, w) \<Rightarrow> Some (Inl e, w)
                | (Inr _, w) \<Rightarrow> Some (Inr TransferCompleted, on_progress transferred w))
           | (Inr (b # bs), w) \<Rightarrow>
               (case fs_write_all destination writer (b # bs) w of
                  (Inl e, w) \<Rightarrow> Some (Inl e, w)
                | (Inr _, w) \<Rightarrow>
                    let transferred = transferred + length (b # bs);
                        since_last_report = since_last_report + length (b # bs)
                    in if PROGRESS_STEP_BYTES \<le> since_last_report
                       then copy_loop chunks source reader destination writer cancel on_progress
                              transferred 0 (on_progress transferred w)
                       else copy_loop chunks source reader destination writer cancel on_progress
                              transferred since_last_report w)))"

definition copy_with_progress ::
  "nat \<Rightarrow> 'w file_system \<Rightarrow> handle \<Rightarrow> 'w file_system \<Rightarrow> handle \<Rightarrow> nat \<Rightarrow> 'w flag \<Rightarrow> 'w progress \<Rightarrow>
     ('w, transfer_outcome) bounded" where
  "copy_with_progress chunks source reader destination writer start cancel on_progress w =
     copy_loop chunks source reader destination writer cancel on_progress start 0 (on_progress start w)"

text \<open>The offset asked for: where the partial file of the destination can be continued.\<close>

definition starting_offset ::
  "'w file_system \<Rightarrow> 'w file_system \<Rightarrow> path \<Rightarrow> metadata \<Rightarrow> bool \<Rightarrow> ('w, nat) effect" where
  "starting_offset source destination part source_metadata resume =
     (if resume
      then eff_bind (eff_ok (fs_stat destination part)) (\<lambda>found.
             eff_return (case found of
               Some part_metadata \<Rightarrow>
                 resume_offset (m_size part_metadata) (m_size source_metadata)
                   (m_modified part_metadata) (m_modified source_metadata)
                   (max (fs_resume_backoff source) (fs_resume_backoff destination))
             | None \<Rightarrow> 0))
      else eff_return 0)"

text \<open>What follows the copy: the stream is closed whatever happened, and a complete file renamed.\<close>

definition finish_copy ::
  "'w file_system \<Rightarrow> path \<Rightarrow> path \<Rightarrow> handle \<Rightarrow> nat option \<Rightarrow> protocol_error + transfer_outcome \<Rightarrow>
     ('w, executed) effect" where
  "finish_copy destination part destination_path writer keep_modified result =
     (\<lambda>w.
       (case fs_shutdown destination writer w of
          (shutdown, w) \<Rightarrow>
            (case (result, shutdown) of
               (Inr TransferCompleted, Inl e) \<Rightarrow> (Inl e, w)
             | (Inl e, _) \<Rightarrow> (Inl e, w)
             | (Inr TransferCancelled, _) \<Rightarrow>
                 (Inr \<lparr>ex_outcome = TransferCancelled, ex_times_kept = True\<rparr>, w)
             | (Inr TransferCompleted, Inr _) \<Rightarrow>
                 eff_bind (fs_rename destination part destination_path) (\<lambda>_.
                   (case keep_modified of
                      None \<Rightarrow> eff_return \<lparr>ex_outcome = TransferCompleted, ex_times_kept = True\<rparr>
                    | Some seconds \<Rightarrow>
                        eff_bind (eff_ok (fs_set_modified destination destination_path seconds)) (\<lambda>set_ok.
                          eff_return \<lparr>ex_outcome = TransferCompleted, ex_times_kept = set_ok \<noteq> None\<rparr>))) w)))"

definition execute_preserving ::
  "nat \<Rightarrow> 'w file_system \<Rightarrow> path \<Rightarrow> 'w file_system \<Rightarrow> path \<Rightarrow> 'w flag \<Rightarrow> bool \<Rightarrow> nat option \<Rightarrow> 'w progress \<Rightarrow>
     ('w, executed) bounded" where
  "execute_preserving chunks source source_path destination destination_path cancel resume keep_modified
     on_progress =
     bnd_bind (bounded_of (fs_stat source source_path)) (\<lambda>source_metadata.
       let part = part_path destination_path
       in bnd_bind (bounded_of (starting_offset source destination part source_metadata resume)) (\<lambda>offset.
          bnd_bind (bounded_of (fs_open_write_sized destination part offset (m_size source_metadata))) (\<lambda>writer.
          bnd_bind (bounded_of (fs_open_read source source_path (w_offset writer))) (\<lambda>reader w.
            (case copy_with_progress chunks source reader destination (w_stream writer) (w_offset writer)
                    cancel on_progress w of
               None \<Rightarrow> None
             | Some (result, w) \<Rightarrow>
                 Some (finish_copy destination part destination_path (w_stream writer) keep_modified result w))))))"

definition execute ::
  "nat \<Rightarrow> 'w file_system \<Rightarrow> path \<Rightarrow> 'w file_system \<Rightarrow> path \<Rightarrow> 'w flag \<Rightarrow> bool \<Rightarrow> 'w progress \<Rightarrow>
     ('w, transfer_outcome) bounded" where
  "execute chunks source source_path destination destination_path cancel resume on_progress =
     bnd_bind (execute_preserving chunks source source_path destination destination_path cancel resume None
       on_progress) (\<lambda>executed. bounded_of (eff_return (ex_outcome executed)))"

section \<open>The offset never skips what is missing\<close>

lemma resume_offset_le: "resume_offset part_len source_len pm sm backoff \<le> part_len"
  by (auto simp: resume_offset_def split: option.splits)

lemma resume_offset_le_source: "resume_offset part_len source_len pm sm backoff \<le> source_len"
  by (auto simp: resume_offset_def split: option.splits)

end
