(* ===== verification/Sync.thy ===== *)
theory Sync
  imports Plan
begin

text \<open>
  \<^verbatim>\<open>sync\<close> and \<^verbatim>\<open>sync/scan\<close>: comparing a local and a remote folder, and scanning one into a
  tree.  The comparison decides for every path what to copy and which way, or to ask.
\<close>

section \<open>Options, actions, items\<close>

datatype sync_direction = LocalToRemote | RemoteToLocal | Both

datatype sync_by = ByTime | BySize

record sync_options =
  so_direction :: sync_direction
  so_by :: sync_by
  so_subfolders :: bool

definition validate_options :: "sync_options \<Rightarrow> string option" where
  "validate_options options =
     (if so_direction options = Both \<and> so_by options = BySize
      then Some ''Comparing by size can't decide a direction, so it can't be used with Both''
      else None)"

datatype sync_action = SUpload | SDownload | SSkip

datatype sync_reason =
    OnlyLocal | OnlyRemote | LocalNewer | RemoteNewer | TargetNewer | SameTimeDifferentSize
  | SizeDiffers | SizeDiffersTimeUnknown | KindMismatch

record sync_facts =
  sf_size :: nat
  sf_modified :: "nat option"

record sync_item =
  sy_id :: nat
  sy_path :: path
  sy_local :: "sync_facts option"
  sy_remote :: "sync_facts option"
  sy_action :: sync_action
  sy_reason :: sync_reason
  sy_ticked :: bool
  sy_flippable :: bool

definition allowed_actions :: "sync_item \<Rightarrow> sync_direction \<Rightarrow> sync_action list" where
  "allowed_actions item direction =
     (if sy_reason item = KindMismatch then [SSkip]
      else
        let upload = sy_local item \<noteq> None \<and> direction \<noteq> RemoteToLocal;
            download = sy_remote item \<noteq> None \<and> direction \<noteq> LocalToRemote;
            allowed = [SSkip];
            allowed = (if upload then allowed @ [SUpload] else allowed)
        in if download then allowed @ [SDownload] else allowed)"

definition allows :: "sync_item \<Rightarrow> sync_action \<Rightarrow> sync_direction \<Rightarrow> bool" where
  "allows item action direction \<longleftrightarrow> action \<in> set (allowed_actions item direction)"

fun position_of :: "'a \<Rightarrow> 'a list \<Rightarrow> nat option" where
  "position_of x [] = None"
| "position_of x (y # ys) = (if y = x then Some 0 else map_option Suc (position_of x ys))"

definition action_after :: "sync_item \<Rightarrow> sync_action \<Rightarrow> sync_direction \<Rightarrow> sync_action" where
  "action_after item current direction =
     (let allowed = allowed_actions item direction
      in case position_of current allowed of
           Some position \<Rightarrow> allowed ! ((position + 1) mod length allowed)
         | None \<Rightarrow> SSkip)"

definition next_action :: "sync_item \<Rightarrow> sync_direction \<Rightarrow> sync_action" where
  "next_action item direction = action_after item (sy_action item) direction"

record sync_plan =
  sp_sync_id :: nat
  sp_session :: nat
  sp_local_root :: path
  sp_remote_root :: path
  sp_options :: sync_options
  sp_items :: "sync_item list"
  sp_skipped_symlinks :: nat

datatype tree_kind = TFile | TDir | TSymlink

record tree_entry =
  te_kind :: tree_kind
  te_size :: nat
  te_modified :: "nat option"

definition facts_of :: "tree_entry \<Rightarrow> sync_facts" where
  "facts_of e = \<lparr>sf_size = te_size e, sf_modified = te_modified e\<rparr>"

type_synonym sync_tree = "(path, tree_entry) fmap"

section \<open>Verdicts\<close>

record verdict =
  vd_action :: sync_action
  vd_reason :: sync_reason
  vd_ticked :: bool

definition copy_verdict :: "sync_action \<Rightarrow> sync_reason \<Rightarrow> verdict option" where
  "copy_verdict action reason = Some \<lparr>vd_action = action, vd_reason = reason, vd_ticked = True\<rparr>"

definition ask_verdict :: "sync_reason \<Rightarrow> verdict option" where
  "ask_verdict reason = Some \<lparr>vd_action = SSkip, vd_reason = reason, vd_ticked = False\<rparr>"

definition only_one_side :: "bool \<Rightarrow> sync_direction \<Rightarrow> verdict option" where
  "only_one_side on_local direction =
     (if on_local
      then (if direction = RemoteToLocal then None else copy_verdict SUpload OnlyLocal)
      else (if direction = LocalToRemote then None else copy_verdict SDownload OnlyRemote))"

definition newer_side :: "bool \<Rightarrow> sync_direction \<Rightarrow> verdict option" where
  "newer_side local_is_newer direction =
     (if local_is_newer
      then (if direction = RemoteToLocal then ask_verdict TargetNewer
            else copy_verdict SUpload LocalNewer)
      else (if direction = LocalToRemote then ask_verdict TargetNewer
            else copy_verdict SDownload RemoteNewer))"

definition by_size :: "tree_entry \<Rightarrow> tree_entry \<Rightarrow> sync_direction \<Rightarrow> verdict option" where
  "by_size l r direction =
     (if te_size l = te_size r then None
      else case direction of
             LocalToRemote \<Rightarrow> copy_verdict SUpload SizeDiffers
           | RemoteToLocal \<Rightarrow> copy_verdict SDownload SizeDiffers
           | Both \<Rightarrow> ask_verdict SizeDiffers)"

definition by_time ::
  "tree_entry \<Rightarrow> tree_entry \<Rightarrow> sync_direction \<Rightarrow> nat \<Rightarrow> bool \<Rightarrow> verdict option" where
  "by_time l r direction tolerance target_keeps_times =
     (let sizes_equal = (te_size l = te_size r)
      in (case (te_modified l, te_modified r) of
           (Some local_time, Some remote_time) \<Rightarrow>
             (let decide = (\<lambda>found.
                     (case found of
                        None \<Rightarrow> None
                      | Some v \<Rightarrow>
                          if vd_reason v = TargetNewer \<and> sizes_equal \<and> \<not> target_keeps_times
                          then None else Some v))
              in if saturating_add remote_time tolerance < local_time
                 then decide (newer_side True direction)
                 else if saturating_add local_time tolerance < remote_time
                 then decide (newer_side False direction)
                 else if sizes_equal then None else ask_verdict SameTimeDifferentSize)
         | _ \<Rightarrow>
             if sizes_equal then None
             else (case direction of
                     LocalToRemote \<Rightarrow> copy_verdict SUpload SizeDiffersTimeUnknown
                   | RemoteToLocal \<Rightarrow> copy_verdict SDownload SizeDiffersTimeUnknown
                   | Both \<Rightarrow> ask_verdict SizeDiffersTimeUnknown)))"

definition flippable :: "verdict \<Rightarrow> bool" where
  "flippable v \<longleftrightarrow>
     vd_action v = SSkip \<and>
     (vd_reason v = TargetNewer \<or> vd_reason v = SameTimeDifferentSize \<or>
      vd_reason v = SizeDiffersTimeUnknown)"

section \<open>Comparing two trees\<close>

text \<open>The \<^verbatim>\<open>match\<close> of the loop: whether the path is a mismatch of kinds, and the verdict.\<close>

definition verdict_at ::
  "sync_options \<Rightarrow> nat \<Rightarrow> bool \<Rightarrow> tree_entry option \<Rightarrow> tree_entry option \<Rightarrow> bool \<times> verdict option" where
  "verdict_at options tolerance target_keeps_times l r =
     (case (l, r) of
        (Some le, Some re) \<Rightarrow>
          if te_kind le \<noteq> te_kind re then (True, ask_verdict KindMismatch)
          else if te_kind le = TFile
          then (False, case so_by options of
                         BySize \<Rightarrow> by_size le re (so_direction options)
                       | ByTime \<Rightarrow> by_time le re (so_direction options) tolerance target_keeps_times)
          else (False, None)
      | (Some e, None) \<Rightarrow>
          (False, if te_kind e = TFile then only_one_side True (so_direction options) else None)
      | (None, Some e) \<Rightarrow>
          (False, if te_kind e = TFile then only_one_side False (so_direction options) else None)
      | (None, None) \<Rightarrow> (False, None))"

definition sync_item_of :: "nat \<Rightarrow> path \<Rightarrow> sync_tree \<Rightarrow> sync_tree \<Rightarrow> verdict \<Rightarrow> sync_item" where
  "sync_item_of count p l r v =
     \<lparr>sy_id = count mod 2 ^ 32, sy_path = p, sy_local = map_option facts_of (fmlookup l p),
      sy_remote = map_option facts_of (fmlookup r p), sy_action = vd_action v,
      sy_reason = vd_reason v, sy_ticked = vd_ticked v, sy_flippable = flippable v\<rparr>"

text \<open>The loop over the paths, with the mismatched paths and the items found so far.\<close>

fun compare_paths ::
  "sync_tree \<Rightarrow> sync_tree \<Rightarrow> sync_options \<Rightarrow> nat \<Rightarrow> bool \<Rightarrow> path list \<Rightarrow> path fset \<Rightarrow> sync_item list \<Rightarrow>
     sync_item list" where
  "compare_paths l r options tolerance keeps [] mismatched items = items"
| "compare_paths l r options tolerance keeps (p # ps) mismatched items =
     (if list_ex (\<lambda>a. a |\<in>| mismatched) (tl (path_ancestors p))
      then compare_paths l r options tolerance keeps ps mismatched items
      else
        let (mismatch, found) = verdict_at options tolerance keeps (fmlookup l p) (fmlookup r p);
            mismatched = (if mismatch then finsert p mismatched else mismatched)
        in (case found of
             None \<Rightarrow> compare_paths l r options tolerance keeps ps mismatched items
           | Some v \<Rightarrow>
               compare_paths l r options tolerance keeps ps mismatched
                 (items @ [sync_item_of (length items) p l r v])))"

definition compare_trees ::
  "sync_tree \<Rightarrow> sync_tree \<Rightarrow> sync_options \<Rightarrow> nat \<Rightarrow> bool \<Rightarrow> sync_item list" where
  "compare_trees l r options tolerance target_keeps_times =
     (if validate_options options \<noteq> None then []
      else compare_paths l r options tolerance target_keeps_times
             (sorted_list_of_fset (fmdom l |\<union>| fmdom r)) {||} [])"

section \<open>Scanning a folder\<close>

record scanned =
  sc_tree :: sync_tree
  sc_skipped_symlinks :: nat

text \<open>The texts of the errors quote the path; a result is the first error or the value.\<close>

type_synonym 'a checked = "protocol_error + 'a"

definition chk_bind :: "'a checked \<Rightarrow> ('a \<Rightarrow> 'b checked) \<Rightarrow> 'b checked" where
  "chk_bind m f = (case m of Inl e \<Rightarrow> Inl e | Inr a \<Rightarrow> f a)"

definition listing_error :: "path \<Rightarrow> string \<Rightarrow> protocol_error" where
  "listing_error p what =
     protocol_error_new Other (''The listing contains the path '' @ string_of_path p @ what)"

definition is_normal :: "component \<Rightarrow> bool" where
  "is_normal c \<longleftrightarrow> (case c of Normal _ \<Rightarrow> True | _ \<Rightarrow> False)"

definition check_relative :: "path \<Rightarrow> unit checked" where
  "check_relative p =
     (if p \<noteq> [] \<and> list_all is_normal p then Inr ()
      else Inl (listing_error p '', which would lead outside the chosen folder''))"

definition check_parent_is_a_folder :: "sync_tree \<Rightarrow> path \<Rightarrow> unit checked" where
  "check_parent_is_a_folder tree p =
     (case path_parent p of
        None \<Rightarrow> Inr ()
      | Some parent \<Rightarrow>
          if parent = [] then Inr ()
          else if (case fmlookup tree parent of None \<Rightarrow> False | Some e \<Rightarrow> te_kind e = TDir) then Inr ()
          else Inl (listing_error p '', but not the folder it should be in''))"

definition check_depth :: "path \<Rightarrow> bool \<Rightarrow> unit checked" where
  "check_depth p subfolders =
     (if subfolders \<or> length p \<le> 1 then Inr ()
      else Inl (listing_error p '' although subfolders are off''))"

definition insert_once :: "sync_tree \<Rightarrow> path \<Rightarrow> tree_entry \<Rightarrow> sync_tree checked" where
  "insert_once tree p e =
     (if fmlookup tree p \<noteq> None then Inl (listing_error p '' more than once'')
      else Inr (fmupd p e tree))"

text \<open>The three loops of \<^verbatim>\<open>build_tree\<close> that insert entries, as one over the entries of each kind.\<close>

fun insert_entries :: "(path \<times> tree_entry) list \<Rightarrow> sync_tree \<Rightarrow> sync_tree checked" where
  "insert_entries [] tree = Inr tree"
| "insert_entries ((p, e) # entries) tree =
     chk_bind (check_relative p) (\<lambda>_.
       chk_bind (insert_once tree p e) (\<lambda>tree. insert_entries entries tree))"

fun check_paths :: "path list \<Rightarrow> sync_tree \<Rightarrow> bool \<Rightarrow> unit checked" where
  "check_paths [] tree subfolders = Inr ()"
| "check_paths (p # ps) tree subfolders =
     chk_bind (check_depth p subfolders) (\<lambda>_.
       chk_bind (check_parent_is_a_folder tree p) (\<lambda>_. check_paths ps tree subfolders))"

definition build_tree :: "discovered_tree \<Rightarrow> bool \<Rightarrow> scanned checked" where
  "build_tree found subfolders =
     chk_bind (insert_entries
         (map (\<lambda>p. (p, \<lparr>te_kind = TDir, te_size = 0, te_modified = None\<rparr>)) (dt_directories found)) fmempty)
       (\<lambda>tree.
     chk_bind (insert_entries
         (map (\<lambda>(p, size, modified). (p, \<lparr>te_kind = TFile, te_size = size, te_modified = modified\<rparr>))
            (dt_files found)) tree)
       (\<lambda>tree.
     chk_bind (insert_entries
         (map (\<lambda>p. (p, \<lparr>te_kind = TSymlink, te_size = 0, te_modified = None\<rparr>)) (dt_symlinks found)) tree)
       (\<lambda>tree.
     chk_bind (check_paths (sorted_list_of_fset (fmdom tree)) tree subfolders)
       (\<lambda>_. Inr \<lparr>sc_tree = tree, sc_skipped_symlinks = dt_skipped_symlinks found\<rparr>))))"

definition scan_tree ::
  "nat \<Rightarrow> 'w file_system \<Rightarrow> path \<Rightarrow> bool \<Rightarrow> 'w flag \<Rightarrow> ('w, scanned option) bounded" where
  "scan_tree depth fs root subfolders cancel =
     bnd_bind (discover depth fs root subfolders cancel) (\<lambda>found.
       bounded_of (case found of
         None \<Rightarrow> eff_return None
       | Some tree \<Rightarrow>
           (case build_tree tree subfolders of Inl e \<Rightarrow> eff_fail e | Inr s \<Rightarrow> eff_return (Some s))))"

text \<open>
  \<^verbatim>\<open>scan_both\<close> joins the two scans: an error of either ends it.  The scans run interleaved; what
  is modelled is what their results become, with the error of the one that failed first.
\<close>

definition join_scans ::
  "bool \<Rightarrow> scanned option checked \<Rightarrow> scanned option checked \<Rightarrow> (scanned \<times> scanned) option checked" where
  "join_scans local_first local_scan remote_scan =
     (case (local_scan, remote_scan) of
        (Inl e, Inl e') \<Rightarrow> Inl (if local_first then e else e')
      | (Inl e, Inr _) \<Rightarrow> Inl e
      | (Inr _, Inl e) \<Rightarrow> Inl e
      | (Inr l, Inr r) \<Rightarrow>
          Inr (case (l, r) of (Some left, Some right) \<Rightarrow> Some (left, right) | _ \<Rightarrow> None))"

section \<open>The comparison path by path\<close>

text \<open>
  What the loop computes, without its state: a path is left out when one of its ancestors is
  a file on one side and a folder on the other.
\<close>

definition mismatch_at :: "sync_tree \<Rightarrow> sync_tree \<Rightarrow> path \<Rightarrow> bool" where
  "mismatch_at l r p \<longleftrightarrow>
     (case (fmlookup l p, fmlookup r p) of (Some a, Some b) \<Rightarrow> te_kind a \<noteq> te_kind b | _ \<Rightarrow> False)"

definition hidden :: "sync_tree \<Rightarrow> sync_tree \<Rightarrow> path \<Rightarrow> bool" where
  "hidden l r p \<longleftrightarrow> (\<exists>a \<in> set (tl (path_ancestors p)). mismatch_at l r a)"

definition found_at :: "sync_tree \<Rightarrow> sync_tree \<Rightarrow> sync_options \<Rightarrow> nat \<Rightarrow> bool \<Rightarrow> path \<Rightarrow> verdict option" where
  "found_at l r options tolerance keeps p =
     (if hidden l r p then None
      else snd (verdict_at options tolerance keeps (fmlookup l p) (fmlookup r p)))"

fun number_items :: "sync_tree \<Rightarrow> sync_tree \<Rightarrow> nat \<Rightarrow> (path \<times> verdict) list \<Rightarrow> sync_item list" where
  "number_items l r n [] = []"
| "number_items l r n ((p, v) # pvs) = sync_item_of n p l r v # number_items l r (n + 1) pvs"

lemma verdict_at_mismatch: "fst (verdict_at options tolerance keeps (fmlookup l p) (fmlookup r p)) = mismatch_at l r p"
  by (auto simp: verdict_at_def mismatch_at_def split: option.split)

lemma path_ancestors_simps:
  "path_ancestors p = p # (case path_parent p of None \<Rightarrow> [] | Some q \<Rightarrow> path_ancestors q)"
  by (subst path_ancestors.simps) (simp split: option.split)

lemma ancestors_tl: "tl (path_ancestors p) = (case path_parent p of None \<Rightarrow> [] | Some q \<Rightarrow> path_ancestors q)"
  by (subst path_ancestors_simps) simp

lemma path_parent_prefix: "path_parent p = Some q \<Longrightarrow> strict_prefix q p"
  by (cases p rule: rev_cases) (auto simp: path_parent_def strict_prefix_def split: if_splits)

lemma ancestor_prefix: "a \<in> set (path_ancestors p) \<Longrightarrow> prefix a p"
proof (induction p rule: path_ancestors.induct)
  case (1 p)
  show ?case
  proof (cases "path_parent p")
    case None
    then show ?thesis using 1 by (simp add: path_ancestors_simps [of p])
  next
    case (Some q)
    then show ?thesis
      using 1 path_parent_prefix [OF Some]
      by (auto simp: path_ancestors_simps [of p] dest: prefix_order.less_imp_le prefix_order.trans)
  qed
qed

lemma proper_ancestor: "a \<in> set (tl (path_ancestors p)) \<Longrightarrow> strict_prefix a p"
  unfolding ancestors_tl
  using ancestor_prefix path_parent_prefix prefix_order.le_less_trans
  by (cases "path_parent p") (simp, fastforce)

lemma ancestors_trans:
  "b \<in> set (tl (path_ancestors a)) \<Longrightarrow> a \<in> set (path_ancestors p) \<Longrightarrow> b \<in> set (tl (path_ancestors p))"
proof (induction p rule: path_ancestors.induct)
  case (1 p)
  show ?case
  proof (cases "a = p")
    case False
    then obtain q where q: "path_parent p = Some q" "a \<in> set (path_ancestors q)"
      using "1.prems"(2) False by (cases "path_parent p") (simp_all add: path_ancestors_simps [of p])
    then have "b \<in> set (tl (path_ancestors q))" using 1 by simp
    then show ?thesis using q by (auto simp: ancestors_tl [of p] path_ancestors_simps [of q])
  qed (use 1 in simp)
qed

lemma strict_prefix_less: "strict_prefix a b \<Longrightarrow> a < (b :: path)"
proof -
  assume "strict_prefix a b"
  then obtain c cs where "b = a @ c # cs" by (auto elim: strict_prefixE')
  then show ?thesis by (induction a arbitrary: b) auto
qed

lemma hidden_by_visible:
  "hidden l r p \<Longrightarrow> \<exists>a \<in> set (tl (path_ancestors p)). mismatch_at l r a \<and> \<not> hidden l r a"
proof (induction "length p" arbitrary: p rule: less_induct)
  case less
  then obtain a where a: "a \<in> set (tl (path_ancestors p))" "mismatch_at l r a"
    by (auto simp: hidden_def)
  show ?case
  proof (cases "hidden l r a")
    case True
    have "length a < length p" using proper_ancestor [OF a(1)] by (rule prefix_length_less)
    then obtain b where "b \<in> set (tl (path_ancestors a))" "mismatch_at l r b" "\<not> hidden l r b"
      using less.hyps True by blast
    moreover have "a \<in> set (path_ancestors p)" using a(1) by (simp add: path_ancestors_simps [of p] ancestors_tl)
    ultimately show ?thesis using ancestors_trans by blast
  qed (use a in blast)
qed

text \<open>The paths seen so far, all smaller, decide which ancestors are known to be mismatched.\<close>

definition seen_ok :: "sync_tree \<Rightarrow> sync_tree \<Rightarrow> path list \<Rightarrow> path list \<Rightarrow> path fset \<Rightarrow> bool" where
  "seen_ok l r seen ps mismatched \<longleftrightarrow>
     sorted (seen @ ps) \<and> distinct (seen @ ps) \<and>
     (\<forall>a. mismatch_at l r a \<longrightarrow> a \<in> set (seen @ ps)) \<and>
     (\<forall>a. a |\<in>| mismatched \<longleftrightarrow> a \<in> set seen \<and> mismatch_at l r a \<and> \<not> hidden l r a)"

lemma seen_ok_hidden:
  assumes ok: "seen_ok l r seen (p # ps) mismatched"
  shows "list_ex (\<lambda>a. a |\<in>| mismatched) (tl (path_ancestors p)) \<longleftrightarrow> hidden l r p"
proof
  show "hidden l r p" if "list_ex (\<lambda>a. a |\<in>| mismatched) (tl (path_ancestors p))"
    using that ok by (auto simp: list_ex_iff hidden_def seen_ok_def)
next
  assume "hidden l r p"
  then obtain a where a: "a \<in> set (tl (path_ancestors p))" "mismatch_at l r a" "\<not> hidden l r a"
    using hidden_by_visible by blast
  have "a < p" using proper_ancestor [OF a(1)] by (rule strict_prefix_less)
  moreover have "a \<in> set seen \<union> set (p # ps)" using ok a(2) by (auto simp: seen_ok_def)
  moreover have "p \<le> k" if "k \<in> set (p # ps)" for k using ok that by (auto simp: seen_ok_def sorted_append)
  ultimately have "a \<in> set seen" using leD by blast
  then show "list_ex (\<lambda>a. a |\<in>| mismatched) (tl (path_ancestors p))"
    using ok a by (auto simp: list_ex_iff seen_ok_def)
qed

lemma seen_ok_step:
  assumes "seen_ok l r seen (p # ps) mismatched"
  shows "seen_ok l r (seen @ [p]) ps
           (if \<not> hidden l r p \<and> mismatch_at l r p then finsert p mismatched else mismatched)"
  using assms by (auto simp: seen_ok_def)

lemma compare_paths_spec:
  "seen_ok l r seen ps mismatched \<Longrightarrow>
     compare_paths l r options tolerance keeps ps mismatched items =
       items @ number_items l r (length items)
         (List.map_filter (\<lambda>p. map_option (Pair p) (found_at l r options tolerance keeps p)) ps)"
proof (induction ps arbitrary: seen mismatched items)
  case (Cons p ps)
  note step = seen_ok_step [OF Cons.prems]
  obtain m found where v: "verdict_at options tolerance keeps (fmlookup l p) (fmlookup r p) = (m, found)"
    by (cases "verdict_at options tolerance keeps (fmlookup l p) (fmlookup r p)")
  then have m: "m = mismatch_at l r p" using verdict_at_mismatch by (metis fst_conv)
  show ?case
  proof (cases "hidden l r p")
    case True
    then show ?thesis
      using Cons.IH [OF step] seen_ok_hidden [OF Cons.prems]
      by (simp add: found_at_def List.map_filter_simps)
  next
    case False
    then have "found_at l r options tolerance keeps p = found" by (simp add: found_at_def v)
    then show ?thesis
      using Cons.IH [OF step] seen_ok_hidden [OF Cons.prems] False v m
      by (cases found) (simp_all add: List.map_filter_simps)
  qed
qed (simp add: List.map_filter_simps)

text \<open>The comparison, path by path.\<close>

definition compare_spec ::
  "sync_tree \<Rightarrow> sync_tree \<Rightarrow> sync_options \<Rightarrow> nat \<Rightarrow> bool \<Rightarrow> sync_item list" where
  "compare_spec l r options tolerance keeps =
     number_items l r 0
       (List.map_filter (\<lambda>p. map_option (Pair p) (found_at l r options tolerance keeps p))
          (sorted_list_of_fset (fmdom l |\<union>| fmdom r)))"

lemma compare_trees_spec:
  assumes "validate_options options = None"
  shows "compare_trees l r options tolerance keeps = compare_spec l r options tolerance keeps"
proof -
  have "a |\<in>| fmdom l |\<union>| fmdom r" if "mismatch_at l r a" for a
    using that by (auto simp: mismatch_at_def fmlookup_dom_iff split: option.splits)
  then have "seen_ok l r [] (sorted_list_of_fset (fmdom l |\<union>| fmdom r)) {||}"
    by (auto simp: seen_ok_def)
  then show ?thesis
    using compare_paths_spec [of l r "[]"] assms
    by (simp add: compare_trees_def compare_spec_def)
qed

section \<open>What the comparison guarantees\<close>

lemma number_items_members:
  "item \<in> set (number_items l r n pvs) \<Longrightarrow> \<exists>k p v. (p, v) \<in> set pvs \<and> item = sync_item_of k p l r v"
  by (induction l r n pvs rule: number_items.induct) auto

lemma number_items_paths: "map sy_path (number_items l r n pvs) = map fst pvs"
  by (induction l r n pvs rule: number_items.induct) (auto simp: sync_item_of_def)

lemma compare_items:
  assumes "item \<in> set (compare_trees l r options tolerance keeps)"
  shows "validate_options options = None \<and>
         (\<exists>k v. found_at l r options tolerance keeps (sy_path item) = Some v \<and>
            item = sync_item_of k (sy_path item) l r v)"
proof -
  have valid: "validate_options options = None"
    using assms by (auto simp: compare_trees_def split: if_splits)
  then obtain k p v where "(p, v) \<in> set (List.map_filter (\<lambda>p. map_option (Pair p) (found_at l r options tolerance keeps p))
      (sorted_list_of_fset (fmdom l |\<union>| fmdom r)))" "item = sync_item_of k p l r v"
    using assms number_items_members unfolding compare_trees_spec [OF valid] compare_spec_def by blast
  then show ?thesis using valid by (auto simp: in_map_filter sync_item_of_def)
qed

text \<open>The tables of verdicts, once and for all.\<close>

lemmas verdict_tables =
  verdict_at_def by_size_def by_time_def only_one_side_def newer_side_def copy_verdict_def
  ask_verdict_def Let_def

lemma verdict_allowed:
  assumes "snd (verdict_at options tolerance keeps (fmlookup l p) (fmlookup r p)) = Some v"
  shows "sy_action (sync_item_of k p l r v) \<in> set (allowed_actions (sync_item_of k p l r v) (so_direction options)) \<and>
         (vd_ticked v \<longleftrightarrow> vd_action v \<noteq> SSkip)"
  using assms
  by (cases "so_direction options"; cases "so_by options"; cases "fmlookup l p"; cases "fmlookup r p")
     (auto simp: verdict_tables allowed_actions_def sync_item_of_def split: if_splits option.splits)

lemma verdict_newer:
  assumes "snd (verdict_at options tolerance keeps (Some a) (Some b)) = Some v"
    and "so_by options = ByTime" and "te_modified a = Some ta" and "te_modified b = Some tb"
  shows "(vd_action v = SUpload \<longrightarrow> saturating_add tb tolerance < ta) \<and>
         (vd_action v = SDownload \<longrightarrow> saturating_add ta tolerance < tb)"
  using assms
  by (cases "so_direction options") (auto simp: verdict_tables split: if_splits option.splits)


definition sample_file_entry :: "nat \<Rightarrow> nat \<Rightarrow> tree_entry" where
  "sample_file_entry n t = \<lparr>te_kind = TFile, te_size = n, te_modified = Some t\<rparr>"

definition sample_options :: sync_options where
  "sample_options = \<lparr>so_direction = Both, so_by = ByTime, so_subfolders = True\<rparr>"

definition sample_left :: sync_tree where
  "sample_left = fmupd [Normal ''a''] (sample_file_entry 1 100) fmempty"

definition sample_right :: sync_tree where
  "sample_right = fmupd [Normal ''a''] (sample_file_entry 1 50) fmempty"

lemma sample_compare:
  "map (\<lambda>i. (sy_path i, sy_action i)) (compare_trees sample_left sample_right sample_options 2 True) =
     [([Normal ''a''], SUpload)]"
  by (simp add: compare_trees_def validate_options_def sample_left_def sample_right_def
      sample_options_def sample_file_entry_def verdict_at_def by_time_def newer_side_def
      copy_verdict_def saturating_add_def u64_max_def ancestors_tl path_parent_def sync_item_of_def
      path_ancestors_simps Let_def sorted_list_of_fset_single)


text \<open>(C18) The loop with its memory of mismatched folders computes what one reads off path by path:
  the differing paths in their order, numbered, each decided on its own, leaving out exactly
  the paths below a path that is a file on one side and a folder on the other.\<close>

theorem compare_is_pathwise:
  "validate_options options = None \<Longrightarrow>
     compare_trees l r options tolerance keeps = compare_spec l r options tolerance keeps"
  by (rule compare_trees_spec)

lemma compare_is_pathwise_witness:
  "compare_trees sample_left sample_right sample_options 2 True =
     compare_spec sample_left sample_right sample_options 2 True"
  by (rule compare_is_pathwise) (simp add: validate_options_def sample_options_def)

subsection \<open>Both sides are treated alike\<close>

fun mirror_direction :: "sync_direction \<Rightarrow> sync_direction" where
  "mirror_direction LocalToRemote = RemoteToLocal"
| "mirror_direction RemoteToLocal = LocalToRemote"
| "mirror_direction Both = Both"

fun mirror_action :: "sync_action \<Rightarrow> sync_action" where
  "mirror_action SUpload = SDownload"
| "mirror_action SDownload = SUpload"
| "mirror_action SSkip = SSkip"

fun mirror_reason :: "sync_reason \<Rightarrow> sync_reason" where
  "mirror_reason OnlyLocal = OnlyRemote"
| "mirror_reason OnlyRemote = OnlyLocal"
| "mirror_reason LocalNewer = RemoteNewer"
| "mirror_reason RemoteNewer = LocalNewer"
| "mirror_reason x = x"

definition mirror_options :: "sync_options \<Rightarrow> sync_options" where
  "mirror_options options = options\<lparr>so_direction := mirror_direction (so_direction options)\<rparr>"

definition mirror_verdict :: "verdict \<Rightarrow> verdict" where
  "mirror_verdict v =
     v\<lparr>vd_action := mirror_action (vd_action v), vd_reason := mirror_reason (vd_reason v)\<rparr>"

definition mirror_item :: "sync_item \<Rightarrow> sync_item" where
  "mirror_item i =
     i\<lparr>sy_local := sy_remote i, sy_remote := sy_local i, sy_action := mirror_action (sy_action i),
       sy_reason := mirror_reason (sy_reason i)\<rparr>"

text \<open>
  The source keeps times as \<^verbatim>\<open>u64\<close>; beyond that range, where adding saturates, a time could be
  before itself.
\<close>

definition times_u64 :: "tree_entry option \<Rightarrow> bool" where
  "times_u64 e \<longleftrightarrow> (case e of None \<Rightarrow> True | Some x \<Rightarrow> (case te_modified x of None \<Rightarrow> True | Some t \<Rightarrow> t \<le> u64_max))"

lemma saturating_later:
  "saturating_add a n < b \<Longrightarrow> b \<le> u64_max \<Longrightarrow> a < b"
  by (auto simp: saturating_add_def min_def split: if_splits)

lemma mirror_by_time:
  assumes "times_u64 (Some a)" "times_u64 (Some b)"
  shows "by_time b a (mirror_direction d) tolerance keeps = map_option mirror_verdict (by_time a b d tolerance keeps)"
proof (cases "te_modified a")
  case None
  then show ?thesis
    by (cases d) (auto simp: by_time_def copy_verdict_def ask_verdict_def mirror_verdict_def split: option.split)
next
  case (Some x)
  note x = this
  show ?thesis
  proof (cases "te_modified b")
    case None
    then show ?thesis using x
      by (cases d) (auto simp: by_time_def copy_verdict_def ask_verdict_def mirror_verdict_def)
  next
    case (Some y)
    have "\<not> (saturating_add x tolerance < y \<and> saturating_add y tolerance < x)"
      using assms x Some saturating_later [of x tolerance y] saturating_later [of y tolerance x]
      by (auto simp: times_u64_def)
    then show ?thesis using x Some
      by (cases d) (auto simp: by_time_def newer_side_def copy_verdict_def ask_verdict_def mirror_verdict_def Let_def)
  qed
qed

lemma mirror_verdict_at:
  assumes "times_u64 l" "times_u64 r"
  shows "verdict_at (mirror_options options) tolerance keeps r l =
     map_prod id (map_option mirror_verdict) (verdict_at options tolerance keeps l r)"
proof (cases l)
  case None
  then show ?thesis
    by (cases r; cases "so_direction options")
       (auto simp: verdict_at_def only_one_side_def copy_verdict_def mirror_options_def mirror_verdict_def)
next
  case (Some a)
  note a = this
  show ?thesis
  proof (cases r)
    case None
    then show ?thesis using a
      by (cases "so_direction options")
         (auto simp: verdict_at_def only_one_side_def copy_verdict_def mirror_options_def mirror_verdict_def)
  next
    case (Some b)
    show ?thesis
    proof (cases "so_by options")
      case ByTime
      then show ?thesis using assms mirror_by_time [of a b "so_direction options" tolerance keeps] a Some
        by (auto simp: verdict_at_def mirror_options_def ask_verdict_def mirror_verdict_def)
    next
      case BySize
      then show ?thesis using a Some
        by (cases "so_direction options")
           (auto simp: verdict_at_def by_size_def mirror_options_def ask_verdict_def copy_verdict_def mirror_verdict_def)
    qed
  qed
qed

lemma mirror_mismatch: "mismatch_at r l p = mismatch_at l r p"
  by (auto simp: mismatch_at_def split: option.split)

lemma mirror_item_of:
  "sync_item_of k p r l (mirror_verdict v) = mirror_item (sync_item_of k p l r v)"
  by (cases "vd_action v"; cases "vd_reason v")
     (simp_all add: sync_item_of_def mirror_item_def mirror_verdict_def flippable_def)

lemma mirror_number_items:
  "number_items r l n (map (\<lambda>(p, v). (p, mirror_verdict v)) pvs) = map mirror_item (number_items l r n pvs)"
  by (induction pvs arbitrary: n) (auto simp: mirror_item_of)

lemma mirror_found:
  assumes "times_u64 (fmlookup l p)" "times_u64 (fmlookup r p)"
  shows "found_at r l (mirror_options options) tolerance keeps p =
     map_option mirror_verdict (found_at l r options tolerance keeps p)"
  by (simp add: found_at_def hidden_def mirror_mismatch mirror_verdict_at [OF assms])

lemma mirror_valid: "validate_options (mirror_options options) = None \<longleftrightarrow> validate_options options = None"
  by (cases "so_direction options") (simp_all add: validate_options_def mirror_options_def)

lemma map_filter_mirror:
  assumes "\<And>p. g p = map_option h (f p)"
  shows "List.map_filter (\<lambda>p. map_option (Pair p) (g p)) ps =
      map (\<lambda>(p, v). (p, h v)) (List.map_filter (\<lambda>p. map_option (Pair p) (f p)) ps)"
proof (induction ps)
  case (Cons p ps)
  then show ?case using assms [of p] by (cases "f p") (simp_all add: List.map_filter_simps)
qed (simp add: List.map_filter_simps)

text \<open>Neither side is favoured: comparing with the sides and the direction exchanged finds the
  same differences with uploads and downloads, and newer here and newer there, exchanged.\<close>

theorem compare_mirrored:
  assumes "\<And>p. times_u64 (fmlookup l p)" "\<And>p. times_u64 (fmlookup r p)"
  shows "compare_trees r l (mirror_options options) tolerance keeps =
     map mirror_item (compare_trees l r options tolerance keeps)"
proof (cases "validate_options options")
  case None
  then have valid: "validate_options (mirror_options options) = None" by (simp add: mirror_valid)
  have "List.map_filter (\<lambda>p. map_option (Pair p) (found_at r l (mirror_options options) tolerance keeps p)) ps =
      map (\<lambda>(p, v). (p, mirror_verdict v))
        (List.map_filter (\<lambda>p. map_option (Pair p) (found_at l r options tolerance keeps p)) ps)" for ps
    by (rule map_filter_mirror) (rule mirror_found [OF assms])
  then show ?thesis
    unfolding compare_trees_spec [OF None] compare_trees_spec [OF valid] compare_spec_def
    by (simp add: mirror_number_items sup.commute)
next
  case (Some message)
  then have "validate_options (mirror_options options) \<noteq> None" by (simp add: mirror_valid)
  then show ?thesis using Some by (simp add: compare_trees_def)
qed

lemma sample_times: "times_u64 (fmlookup sample_left p)" "times_u64 (fmlookup sample_right p)"
  by (simp_all add: times_u64_def sample_left_def sample_right_def sample_file_entry_def u64_max_def)

lemma compare_mirrored_witness:
  "compare_trees sample_right sample_left (mirror_options sample_options) 2 True =
     map mirror_item (compare_trees sample_left sample_right sample_options 2 True)"
  by (rule compare_mirrored) (rule sample_times)+

text \<open>A folder compared with an equal one has nothing to do, however it is compared: a
  synchronisation that has succeeded settles.\<close>

theorem compare_same_nothing:
  assumes "\<And>p. times_u64 (fmlookup t p)"
  shows "compare_trees t t options tolerance keeps = []"
proof (cases "validate_options options")
  case None
  have "snd (verdict_at options tolerance keeps (fmlookup t p) (fmlookup t p)) = None" for p
  proof (cases "fmlookup t p")
    case (Some e)
    then have "\<not> saturating_add x tolerance < x" if "te_modified e = Some x" for x
      using assms [of p] that saturating_later [of x tolerance x] by (auto simp: times_u64_def)
    then show ?thesis
      using Some by (cases "so_by options") (auto simp: verdict_at_def by_size_def by_time_def Let_def split: option.split)
  qed (simp add: verdict_at_def)
  then have "List.map_filter (\<lambda>p. map_option (Pair p) (found_at t t options tolerance keeps p)) ps = []" for ps
    by (induction ps) (simp_all add: found_at_def List.map_filter_simps)
  then show ?thesis unfolding compare_trees_spec [OF None] compare_spec_def by simp
qed (simp add: compare_trees_def)

lemma compare_same_nothing_witness:
  "compare_trees sample_left sample_left sample_options 2 True = []"
  by (rule compare_same_nothing) (rule sample_times)

end
