(* ===== verification/Tasks.thy ===== *)
theory Tasks
  imports Prelude
begin

text \<open>
  \<^verbatim>\<open>tasks\<close>: the table of background tasks.  A task is a future running beside the engine;
  the table keeps its name, its scope and the flag it polls to learn that it was cancelled.
  A future is a value of a type \<^verbatim>\<open>'work\<close> that says what it will do.
\<close>

section \<open>The table\<close>

datatype scope =
    SessionScope nat | TransferScope nat | PlanningScope nat | EditScope nat | SearchScope
  | BackgroundScope

record 'work live =
  lv_name :: string
  lv_scope :: scope
  lv_cancel :: bool
  lv_work :: 'work

record 'work tasks =
  tk_live :: "(nat, 'work live) fmap"
  tk_cancelled :: "scope fset"
  tk_next :: nat

definition tasks_new :: "'work tasks" where
  "tasks_new = \<lparr>tk_live = fmempty, tk_cancelled = {||}, tk_next = 0\<rparr>"

definition spawn :: "string \<Rightarrow> scope \<Rightarrow> 'work \<Rightarrow> 'work tasks \<Rightarrow> 'work tasks" where
  "spawn name scope work t =
     (let i = tk_next t;
          live = \<lparr>lv_name = name, lv_scope = scope, lv_cancel = False, lv_work = work\<rparr>
      in t\<lparr>tk_next := i + 1, tk_live := fmupd i live (tk_live t)\<rparr>)"

text \<open>\<^verbatim>\<open>Shared::finish\<close>, when the future has returned or panicked.\<close>

definition finish_task :: "nat \<Rightarrow> 'work tasks \<Rightarrow> 'work tasks" where
  "finish_task i t = t\<lparr>tk_live := fmdrop i (tk_live t)\<rparr>"

definition cancel_scope :: "scope \<Rightarrow> 'work tasks \<Rightarrow> 'work tasks" where
  "cancel_scope scope t =
     t\<lparr>tk_live := fmmap (\<lambda>l. if lv_scope l = scope then l\<lparr>lv_cancel := True\<rparr> else l) (tk_live t),
       tk_cancelled := finsert scope (tk_cancelled t)\<rparr>"

definition take_cancelled :: "scope \<Rightarrow> 'work tasks \<Rightarrow> bool \<times> 'work tasks" where
  "take_cancelled scope t =
     (scope |\<in>| tk_cancelled t, t\<lparr>tk_cancelled := tk_cancelled t |-| {|scope|}\<rparr>)"

definition forget_scope :: "scope \<Rightarrow> 'work tasks \<Rightarrow> 'work tasks" where
  "forget_scope scope t = t\<lparr>tk_cancelled := tk_cancelled t |-| {|scope|}\<rparr>"

definition cancel_all_tasks :: "'work tasks \<Rightarrow> 'work tasks" where
  "cancel_all_tasks t = t\<lparr>tk_live := fmmap (\<lambda>l. l\<lparr>lv_cancel := True\<rparr>) (tk_live t)\<rparr>"

definition live_names :: "'work tasks \<Rightarrow> string list" where
  "live_names t = sort (map lv_name (fmvalues (tk_live t)))"

definition abort_all :: "'work tasks \<Rightarrow> 'work tasks" where
  "abort_all t = t\<lparr>tk_live := fmempty\<rparr>"

text \<open>
  The two loops that wait look at the table once, and again at every change until the
  deadline: they are functions of the tables they see.
\<close>

fun wait_for_name :: "string \<Rightarrow> 'work tasks list \<Rightarrow> bool" where
  "wait_for_name name [] = False"
| "wait_for_name name (t # ts) =
     (if \<not> list_ex (\<lambda>l. lv_name l = name) (fmvalues (tk_live t)) then True else wait_for_name name ts)"

fun shutdown_tasks :: "'work tasks \<Rightarrow> 'work tasks list \<Rightarrow> 'work tasks" where
  "shutdown_tasks t ts =
     (if tk_live t = fmempty then t
      else case ts of [] \<Rightarrow> abort_all t | t' # ts \<Rightarrow> shutdown_tasks t' ts)"

declare shutdown_tasks.simps [simp del]

section \<open>Flags\<close>

text \<open>A scope is flagged when every live task of the scope has been told to stop.\<close>

definition scope_flagged :: "scope \<Rightarrow> 'work tasks \<Rightarrow> bool" where
  "scope_flagged scope t \<longleftrightarrow>
     (\<forall>i l. fmlookup (tk_live t) i = Some l \<longrightarrow> lv_scope l = scope \<longrightarrow> lv_cancel l) \<and>
     scope |\<in>| tk_cancelled t"

lemma scope_flagged_iff:
  "scope_flagged scope t \<longleftrightarrow>
     pred_fmap (\<lambda>l. lv_scope l = scope \<longrightarrow> lv_cancel l) (tk_live t) \<and> scope |\<in>| tk_cancelled t"
  by (auto simp: scope_flagged_def fmap.pred_set fmran'I elim: fmran'E)

lemma cancel_scope_flagged [simp]: "scope_flagged scope (cancel_scope scope t)"
  by (simp add: scope_flagged_iff cancel_scope_def fmap.pred_map comp_def) (rule fmpredI, simp)

lemma cancel_scope_keeps [simp]: "scope_flagged s t \<Longrightarrow> scope_flagged s (cancel_scope scope t)"
  by (auto simp: scope_flagged_iff cancel_scope_def fmap.pred_map comp_def elim: fmap.pred_mono_strong)

lemma fold_cancel_keeps: "scope_flagged s t \<Longrightarrow> scope_flagged s (fold (\<lambda>x. cancel_scope (f x)) xs t)"
  by (induction xs arbitrary: t) auto

lemma fold_cancel_flagged:
  "x \<in> set xs \<Longrightarrow> scope_flagged (f x) (fold (\<lambda>x. cancel_scope (f x)) xs t)"
proof (induction xs arbitrary: t)
  case (Cons y ys)
  then show ?case by (cases "x = y") (simp_all add: fold_cancel_keeps)
qed simp

lemma shutdown_empty: "tk_live (shutdown_tasks t ts) = fmempty"
proof (induction ts arbitrary: t)
  case (Cons u us)
  then show ?case by (subst shutdown_tasks.simps) simp
qed (subst shutdown_tasks.simps, simp add: abort_all_def)

end
