(* ===== verification/Search.thy ===== *)
theory Search
  imports Vfs
begin

text \<open>
  \<^verbatim>\<open>porthmos-vfs/search\<close>: matching a name against a pattern with \<^verbatim>\<open>*\<close> and \<^verbatim>\<open>?\<close>, and walking a
  tree for the names that match.  The walk visits at most a given depth and reports at most
  a given number of entries; its loop over the stack of folders is bounded by a number of
  visits, and a bound that suffices is proved.
\<close>

section \<open>Patterns\<close>

text \<open>
  The two indices of \<^verbatim>\<open>match_from\<close> are what is left of the pattern and of the name; the
  remembered star is what follows it in the pattern, and what was left of the name there.
\<close>

function match_loop :: "string \<Rightarrow> string \<Rightarrow> (string \<times> string) option \<Rightarrow> string option" where
  "match_loop ps [] star = Some ps"
| "match_loop ps (n # ns) star =
     (if ps \<noteq> [] \<and> (hd ps = CHR ''?'' \<or> hd ps = n) then match_loop (tl ps) ns star
      else if ps \<noteq> [] \<and> hd ps = CHR ''*'' then match_loop (tl ps) (n # ns) (Some (tl ps, n # ns))
      else case star of
             Some (star_p, star_n) \<Rightarrow> match_loop star_p (tl star_n) (Some (star_p, tl star_n))
           | None \<Rightarrow> None)"
  by pat_completeness auto
termination
  by (relation "measures
        [\<lambda>(ps, ns, star). max (length ns) (case star of None \<Rightarrow> 0 | Some (_, sn) \<Rightarrow> length sn),
         \<lambda>(ps, ns, star). length ps + length ns]")
     (auto split: option.splits)

declare match_loop.simps(2) [simp del]

definition match_from :: "string \<Rightarrow> string \<Rightarrow> bool" where
  "match_from pattern name =
     (case match_loop pattern name None of
        None \<Rightarrow> False
      | Some rest \<Rightarrow> dropWhile (\<lambda>c. c = CHR ''*'') rest = [])"

definition glob_match :: "string \<Rightarrow> string \<Rightarrow> bool" where
  "glob_match pattern name = match_from (to_lowercase pattern) (to_lowercase name)"

text \<open>One round of the loop, by what it does.\<close>

lemma match_round:
  "ps \<noteq> [] \<Longrightarrow> hd ps = CHR ''?'' \<or> hd ps = n \<Longrightarrow> match_loop ps (n # ns) star = match_loop (tl ps) ns star"
  "ps \<noteq> [] \<Longrightarrow> \<not> (hd ps = CHR ''?'' \<or> hd ps = n) \<Longrightarrow> hd ps = CHR ''*'' \<Longrightarrow>
     match_loop ps (n # ns) star = match_loop (tl ps) (n # ns) (Some (tl ps, n # ns))"
  "\<not> (ps \<noteq> [] \<and> (hd ps = CHR ''?'' \<or> hd ps = n)) \<Longrightarrow> \<not> (ps \<noteq> [] \<and> hd ps = CHR ''*'') \<Longrightarrow>
     match_loop ps (n # ns) star =
       (case star of
          Some (star_p, star_n) \<Rightarrow> match_loop star_p (tl star_n) (Some (star_p, tl star_n))
        | None \<Rightarrow> None)"
  by (subst match_loop.simps(2), simp only: if_P if_not_P conjI simp_thms)+

text \<open>What a pattern means: a star stands for any text, a question mark for one character.\<close>

fun glob :: "string \<Rightarrow> string \<Rightarrow> bool" where
  "glob [] ns = (ns = [])"
| "glob (p # ps) ns =
     (if p = CHR ''*'' then (\<exists>k \<in> set [0..<Suc (length ns)]. glob ps (drop k ns))
      else case ns of [] \<Rightarrow> False | n # ns \<Rightarrow> (p = CHR ''?'' \<or> p = n) \<and> glob ps ns)"

lemma glob_star: "glob (CHR ''*'' # ps) ns \<longleftrightarrow> (\<exists>k \<le> length ns. glob ps (drop k ns))"
  by (simp del: upt_Suc) (auto simp: less_Suc_eq_le)

lemma glob_char [simp]:
  "p \<noteq> CHR ''*'' \<Longrightarrow>
     glob (p # ps) ns = (case ns of [] \<Rightarrow> False | n # ns \<Rightarrow> (p = CHR ''?'' \<or> p = n) \<and> glob ps ns)"
  by simp

declare glob.simps(2) [simp del]

lemma glob_stars_end: "glob ps [] \<longleftrightarrow> dropWhile (\<lambda>c. c = CHR ''*'') ps = []"
proof (induction ps)
  case (Cons p ps)
  then show ?case by (cases "p = CHR ''*''") (simp_all add: glob_star)
qed simp

lemma glob_star_suffix:
  assumes "glob (CHR ''*'' # ps) (drop j ns)"
  shows "glob (CHR ''*'' # ps) ns"
proof -
  obtain k where k: "k \<le> length (drop j ns)" "glob ps (drop k (drop j ns))"
    using assms unfolding glob_star by blast
  show ?thesis
    unfolding glob_star
  proof (cases "j \<le> length ns")
    case True
    then show "\<exists>k \<le> length ns. glob ps (drop k ns)" using k by (intro exI [of _ "k + j"]) auto
  next
    case False
    then show "\<exists>k \<le> length ns. glob ps (drop k ns)" using k by (intro exI [of _ "length ns"]) auto
  qed
qed

text \<open>A part of a pattern without a star takes as many characters as it has.\<close>

lemma glob_literal:
  "CHR ''*'' \<notin> set us \<Longrightarrow> glob (us @ ps) ns \<Longrightarrow> length us \<le> length ns \<and> glob ps (drop (length us) ns)"
proof (induction us arbitrary: ns)
  case (Cons u us)
  then show ?case by (cases ns) auto
qed simp

text \<open>What the loop answers: the rest matches, or the remembered star can take more.\<close>

definition accepts :: "string option \<Rightarrow> bool" where
  "accepts r \<longleftrightarrow> (case r of None \<Rightarrow> False | Some rest \<Rightarrow> glob rest [])"

definition since_star :: "string \<Rightarrow> string \<Rightarrow> (string \<times> string) option \<Rightarrow> bool" where
  "since_star ps ns star \<longleftrightarrow>
     (case star of
        None \<Rightarrow> True
      | Some (sp, sn) \<Rightarrow>
          \<exists>us. CHR ''*'' \<notin> set us \<and> sp = us @ ps \<and> length us \<le> length sn \<and> ns = drop (length us) sn)"

definition star_takes_more :: "(string \<times> string) option \<Rightarrow> bool" where
  "star_takes_more star \<longleftrightarrow>
     (case star of None \<Rightarrow> False | Some (sp, sn) \<Rightarrow> \<exists>k. 1 \<le> k \<and> k \<le> length sn \<and> glob sp (drop k sn))"

text \<open>Once a second star is met, nothing the first one could still take is lost.\<close>

lemma later_star_enough:
  assumes "since_star (CHR ''*'' # ps) ns star" and "star_takes_more star"
  shows "glob (CHR ''*'' # ps) ns"
proof -
  obtain sp sn k where star: "star = Some (sp, sn)" and k: "glob sp (drop k sn)"
    using assms(2) by (auto simp: star_takes_more_def split: option.splits)
  obtain us where us: "CHR ''*'' \<notin> set us" "sp = us @ CHR ''*'' # ps" "ns = drop (length us) sn"
    using assms(1) by (auto simp: since_star_def star)
  have "glob (CHR ''*'' # ps) (drop (length us) (drop k sn))"
    using glob_literal [OF us(1)] k us(2) by blast
  then have "glob (CHR ''*'' # ps) (drop k ns)" by (simp add: us(3) ac_simps)
  then show ?thesis by (rule glob_star_suffix)
qed

lemma takes_more_step:
  assumes "sn \<noteq> []"
  shows "star_takes_more (Some (sp, sn)) \<longleftrightarrow>
           glob sp (tl sn) \<or> star_takes_more (Some (sp, tl sn))"
proof
  assume "star_takes_more (Some (sp, sn))"
  then obtain k where k: "1 \<le> k" "k \<le> length sn" "glob sp (drop k sn)" by (auto simp: star_takes_more_def)
  then obtain j where j: "k = Suc j" by (cases k) auto
  then show "glob sp (tl sn) \<or> star_takes_more (Some (sp, tl sn))"
    using k by (cases j) (auto simp: star_takes_more_def drop_Suc intro!: exI [of _ j])
next
  assume "glob sp (tl sn) \<or> star_takes_more (Some (sp, tl sn))"
  then show "star_takes_more (Some (sp, sn))"
  proof
    assume "glob sp (tl sn)"
    then show ?thesis using assms
      by (auto simp: star_takes_more_def drop_Suc Suc_leI intro!: exI [of _ 1])
  next
    assume "star_takes_more (Some (sp, tl sn))"
    then obtain k where "1 \<le> k" "k \<le> length (tl sn)" "glob sp (drop k (tl sn))"
      by (auto simp: star_takes_more_def)
    then show ?thesis using assms
      by (auto simp: star_takes_more_def drop_Suc intro!: exI [of _ "Suc k"])
  qed
qed

lemma glob_now_or_later:
  "glob qs ns \<or> (case Some (qs, ns) of None \<Rightarrow> False
      | Some (sp, sn) \<Rightarrow> \<exists>k. 1 \<le> k \<and> k \<le> length sn \<and> glob sp (drop k sn)) \<longleftrightarrow>
     (\<exists>k \<le> length ns. glob qs (drop k ns))"
proof -
  have "(\<exists>k \<le> length ns. glob qs (drop k ns)) \<longleftrightarrow>
      glob qs (drop 0 ns) \<or> (\<exists>k. 1 \<le> k \<and> k \<le> length ns \<and> glob qs (drop k ns))"
    by (metis le0 less_one linorder_not_le)
  then show ?thesis by simp
qed

lemma match_loop_glob:
  "CHR ''*'' \<notin> set ns \<Longrightarrow> (case star of None \<Rightarrow> True | Some (sp, sn) \<Rightarrow> CHR ''*'' \<notin> set sn) \<Longrightarrow>
   since_star ps ns star \<Longrightarrow>
     accepts (match_loop ps ns star) \<longleftrightarrow> glob ps ns \<or> star_takes_more star"
proof (induction ps ns star rule: match_loop.induct)
  case (1 ps star)
  have "\<not> star_takes_more star \<or> glob ps []"
  proof (cases star)
    case (Some a)
    obtain sp sn where a: "a = (sp, sn)" by (cases a)
    then obtain us where us: "CHR ''*'' \<notin> set us" "sp = us @ ps" "length us = length sn"
      using "1.prems"(3) by (auto simp: since_star_def Some)
    have "\<not> glob sp (drop k sn)" if "1 \<le> k" "k \<le> length sn" for k
      using glob_literal [OF us(1), of ps "drop k sn"] us that by auto
    then show ?thesis by (auto simp: star_takes_more_def Some a)
  qed (simp add: star_takes_more_def)
  then show ?case by (auto simp: accepts_def)
next
  case (2 ps n ns star)
  have no_star: "n \<noteq> CHR ''*''" "CHR ''*'' \<notin> set ns" using "2.prems"(1) by auto
  consider (eat) "ps \<noteq> []" "hd ps = CHR ''?'' \<or> hd ps = n"
    | (star) "ps \<noteq> []" "\<not> (hd ps = CHR ''?'' \<or> hd ps = n)" "hd ps = CHR ''*''"
    | (fail) "\<not> (ps \<noteq> [] \<and> (hd ps = CHR ''?'' \<or> hd ps = n))" "\<not> (ps \<noteq> [] \<and> hd ps = CHR ''*'')"
    by blast
  then show ?case
  proof cases
    case eat
    then obtain p qs where ps: "ps = p # qs" "p \<noteq> CHR ''*''" "p = CHR ''?'' \<or> p = n"
      using no_star by (cases ps) auto
    have "since_star qs ns star"
    proof (cases star)
      case (Some a)
      obtain sp sn where a: "a = (sp, sn)" by (cases a)
      then obtain us where us: "CHR ''*'' \<notin> set us" "sp = us @ ps" "length us \<le> length sn"
        "n # ns = drop (length us) sn"
        using "2.prems"(3) by (auto simp: since_star_def Some)
      then have "ns = drop (length (us @ [p])) sn" "length us < length sn"
        by (simp_all add: drop_Suc drop_tl flip: us(4)) (metis drop_all list.distinct(1) not_le us(4))
      then show ?thesis using us ps
        by (auto simp: since_star_def Some a intro!: exI [of _ "us @ [p]"])
    qed (simp add: since_star_def)
    then show ?thesis
      using "2.IH"(1) [OF conjI, OF eat] match_round(1) [OF eat, of ns star] ps no_star "2.prems"(2) by simp
  next
    case star
    then obtain qs where ps: "ps = CHR ''*'' # qs" by (cases ps) auto
    have since: "since_star qs (n # ns) (Some (qs, n # ns))" by (simp add: since_star_def exI [of _ "[]"])
    have step: "match_loop ps (n # ns) star = match_loop qs (n # ns) (Some (qs, n # ns))"
      using match_round(2) [OF star] by (simp add: ps)
    have "accepts (match_loop qs (n # ns) (Some (qs, n # ns))) \<longleftrightarrow>
        glob qs (n # ns) \<or> star_takes_more (Some (qs, n # ns))"
      using "2.IH"(2) star ps "2.prems"(1) since by simp
    also have "\<dots> \<longleftrightarrow> glob ps (n # ns)"
      unfolding ps glob_star star_takes_more_def by (rule glob_now_or_later)
    finally have "accepts (match_loop ps (n # ns) star) \<longleftrightarrow> glob ps (n # ns)" using step by simp
    moreover have "star_takes_more star \<Longrightarrow> glob ps (n # ns)"
      using later_star_enough [of qs "n # ns" star] "2.prems"(3) unfolding ps by blast
    ultimately show ?thesis by blast
  next
    case fail
    then have "\<not> glob ps (n # ns)" by (cases ps) auto
    show ?thesis
    proof (cases star)
      case None
      have "match_loop ps (n # ns) star = None"
        using None by (simp add: match_round(3) [OF fail])
      then show ?thesis using \<open>\<not> glob ps (n # ns)\<close> None
        by (simp add: accepts_def star_takes_more_def)
    next
      case (Some a)
      obtain sp sn where a: "a = (sp, sn)" by (cases a)
      have "sn \<noteq> []" using "2.prems"(3) by (auto simp: since_star_def Some a)
      moreover have "CHR ''*'' \<notin> set (tl sn)"
        using "2.prems"(2) \<open>sn \<noteq> []\<close> by (auto simp: Some a dest: list.set_sel(2))
      moreover have "since_star sp (tl sn) (Some (sp, tl sn))"
        by (simp add: since_star_def exI [of _ "[]"])
      ultimately have ih: "accepts (match_loop sp (tl sn) (Some (sp, tl sn))) \<longleftrightarrow>
          glob sp (tl sn) \<or> star_takes_more (Some (sp, tl sn))"
        using "2.IH"(3) [OF fail Some a [symmetric]] by simp
      have "match_loop ps (n # ns) star = match_loop sp (tl sn) (Some (sp, tl sn))"
        using Some a by (simp add: match_round(3) [OF fail])
      then show ?thesis
        using \<open>\<not> glob ps (n # ns)\<close> ih takes_more_step [OF \<open>sn \<noteq> []\<close>, of sp] Some a by metis
    qed
  qed
qed

lemma match_from_glob:
  assumes "CHR ''*'' \<notin> set name"
  shows "match_from pattern name = glob pattern name"
  using match_loop_glob [of name None pattern] assms
  by (auto simp: match_from_def accepts_def since_star_def star_takes_more_def glob_stars_end split: option.splits)

lemma ascii_lower_star [simp]: "ascii_lower c = CHR ''*'' \<longleftrightarrow> c = CHR ''*''"
proof
  assume h: "ascii_lower c = CHR ''*''"
  show "c = CHR ''*''"
  proof (rule ccontr)
    assume "c \<noteq> CHR ''*''"
    then have "(of_char c :: nat) + 32 < 256" "ascii_lower c = char_of ((of_char c :: nat) + 32)" "65 \<le> (of_char c :: nat)"
      using h by (auto simp: ascii_lower_def Let_def split: if_splits)
    then have "(of_char (CHR ''*'') :: nat) = of_char c + 32" using h by simp
    then show False using \<open>65 \<le> (of_char c :: nat)\<close> by simp
  qed
qed (simp add: ascii_lower_def)



text \<open>A name that has a star itself can be missed: the pattern that matches everything does not
  match a file named star-x, since the star of the pattern is compared with the star of the name
  before it is taken as a wildcard.\<close>

theorem glob_match_misses_star:
  "\<not> glob_match ''*'' ''*x'' \<and> glob (to_lowercase ''*'') (to_lowercase ''*x'')"
  by code_simp

section \<open>Walking a tree\<close>

definition MAX_SEARCH_DEPTH :: nat where
  "MAX_SEARCH_DEPTH = 16"

definition MAX_SEARCH_RESULTS :: nat where
  "MAX_SEARCH_RESULTS = 1000"

record search_query =
  sq_root :: path
  sq_pattern :: string
  sq_max_depth :: nat
  sq_max_results :: nat

definition search_query_new :: "path \<Rightarrow> string \<Rightarrow> search_query" where
  "search_query_new root pattern =
     \<lparr>sq_root = root, sq_pattern = pattern, sq_max_depth = MAX_SEARCH_DEPTH,
      sq_max_results = MAX_SEARCH_RESULTS\<rparr>"

datatype search_event = Found entry | SearchDone bool | SearchFailed string

definition found_entry :: "dir_item \<Rightarrow> entry" where
  "found_entry item =
     \<lparr>e_name = d_name item, e_path = d_path item, e_is_dir = (m_kind (d_metadata item) = Dir),
      e_size = m_size (d_metadata item), e_permissions = None\<rparr>"

text \<open>
  The state of the walk: the number of matches, whether it was cut short, the stack of
  folders, and the events sent.  \<open>stopped\<close> is a return out of the loops.
\<close>

record search_state =
  ss_found :: nat
  ss_truncated :: bool
  ss_stack :: "(path \<times> nat) list"
  ss_sent :: "search_event list"
  ss_stopped :: bool

text \<open>The loop over the items of one folder, read at the given depth.\<close>

fun search_items ::
  "search_query \<Rightarrow> 'w flag \<Rightarrow> nat \<Rightarrow> dir_item list \<Rightarrow> search_state \<Rightarrow> 'w \<Rightarrow> search_state \<times> 'w" where
  "search_items q cancel depth [] st w = (st, w)"
| "search_items q cancel depth (item # items) st w =
     (case cancel w of
        (True, w) \<Rightarrow> (st\<lparr>ss_stopped := True\<rparr>, w)
      | (False, w) \<Rightarrow>
          if sq_max_results q \<le> ss_found st then (st\<lparr>ss_truncated := True\<rparr>, w)
          else
            let st = (if glob_match (sq_pattern q) (d_name item)
                      then st\<lparr>ss_sent := ss_sent st @ [Found (found_entry item)],
                              ss_found := ss_found st + 1\<rparr>
                      else st);
                st = (if m_kind (d_metadata item) = Dir
                      then st\<lparr>ss_stack := (d_path item, depth + 1) # ss_stack st\<rparr> else st)
            in search_items q cancel depth items st w)"

text \<open>
  The loop over the stack, whose top is its head; \<open>show\<close> is \<^verbatim>\<open>to_string\<close> of an error.
\<close>

fun search_loop ::
  "nat \<Rightarrow> (protocol_error \<Rightarrow> string) \<Rightarrow> 'w file_system \<Rightarrow> search_query \<Rightarrow> 'w flag \<Rightarrow> bool \<Rightarrow> search_state \<Rightarrow> 'w \<Rightarrow>
     (search_state \<times> 'w) option" where
  "search_loop 0 show_error fs q cancel is_root st w = (if ss_stack st = [] then Some (st, w) else None)"
| "search_loop (Suc visits) show_error fs q cancel is_root st w =
     (case ss_stack st of
        [] \<Rightarrow> Some (st, w)
      | (dir, depth) # stack \<Rightarrow>
          let st = st\<lparr>ss_stack := stack\<rparr>
          in (case cancel w of
                (True, w) \<Rightarrow> Some (st\<lparr>ss_stopped := True\<rparr>, w)
              | (False, w) \<Rightarrow>
                  if sq_max_depth q < depth
                  then search_loop visits show_error fs q cancel is_root st w
                  else (case fs_read_dir fs dir w of
                          (Inl e, w) \<Rightarrow>
                            if is_root
                            then Some (st\<lparr>ss_sent := ss_sent st @ [SearchFailed (show_error e)],
                                          ss_stopped := True\<rparr>, w)
                            else search_loop visits show_error fs q cancel is_root st w
                        | (Inr items, w) \<Rightarrow>
                            (case search_items q cancel depth items st w of (st, w) \<Rightarrow>
                              if ss_stopped st then Some (st, w)
                              else if sq_max_results q \<le> ss_found st
                              then Some (st\<lparr>ss_truncated := True\<rparr>, w)
                              else search_loop visits show_error fs q cancel False st w))))"

definition walk_search ::
  "nat \<Rightarrow> (protocol_error \<Rightarrow> string) \<Rightarrow> 'w file_system \<Rightarrow> search_query \<Rightarrow> 'w flag \<Rightarrow> 'w \<Rightarrow>
     (search_event list \<times> 'w) option" where
  "walk_search visits show_error fs q cancel w =
     map_option (\<lambda>(st, w). (if ss_stopped st then ss_sent st else ss_sent st @ [SearchDone (ss_truncated st)], w))
       (search_loop visits show_error fs q cancel True
          \<lparr>ss_found = 0, ss_truncated = False, ss_stack = [(sq_root q, 0)], ss_sent = [],
           ss_stopped = False\<rparr> w)"

subsection \<open>What a search reports\<close>

definition is_found :: "search_event \<Rightarrow> bool" where
  "is_found e \<longleftrightarrow> (case e of Found _ \<Rightarrow> True | _ \<Rightarrow> False)"

definition matching :: "search_query \<Rightarrow> search_event \<Rightarrow> bool" where
  "matching q e \<longleftrightarrow> (case e of Found entry \<Rightarrow> glob_match (sq_pattern q) (e_name entry) | _ \<Rightarrow> False)"

text \<open>While the walk goes on, only matches are sent, counted, and no more than allowed.\<close>

definition search_ok :: "search_query \<Rightarrow> search_state \<Rightarrow> bool" where
  "search_ok q st \<longleftrightarrow>
     list_all (matching q) (ss_sent st) \<and> length (ss_sent st) = ss_found st \<and>
     ss_found st \<le> sq_max_results q"

text \<open>At the end there may be one more event, the failure of the first folder.\<close>

definition search_over :: "search_query \<Rightarrow> search_state \<Rightarrow> bool" where
  "search_over q st \<longleftrightarrow>
     search_ok q st \<or>
     ss_stopped st \<and> (\<exists>m sent. ss_sent st = sent @ [SearchFailed m] \<and> list_all (matching q) sent \<and>
       length sent \<le> sq_max_results q)"

lemma search_items_ok: "search_ok q st \<Longrightarrow> search_ok q (fst (search_items q cancel depth items st w))"
proof (induction q cancel depth items st w rule: search_items.induct)
  case (2 q cancel depth item items st w)
  show ?case
  proof (cases "cancel w")
    case (Pair stop w')
    then show ?thesis
      using "2.prems" "2.IH" [OF Pair [symmetric]]
      by (cases stop) (auto simp: search_ok_def Let_def matching_def found_entry_def)
  qed
qed simp

lemma search_loop_over:
  "search_ok q st \<Longrightarrow> search_loop visits show_error fs q cancel is_root st w = Some (st', w') \<Longrightarrow> search_over q st'"
proof (induction visits show_error fs q cancel is_root st w rule: search_loop.induct)
  case (2 visits show_error fs q cancel is_root st w)
  note IH = "2.IH"
  show ?case
  proof (cases "ss_stack st")
    case (Cons top stack)
    obtain dir depth where top: "top = (dir, depth)" by (cases top)
    let ?st = "st\<lparr>ss_stack := stack\<rparr>"
    have ok: "search_ok q ?st" using "2.prems"(1) by (simp add: search_ok_def)
    obtain stop w1 where c: "cancel w = (stop, w1)" by (cases "cancel w")
    show ?thesis
    proof (cases stop)
      case True
      then show ?thesis using "2.prems"(2) ok Cons top c by (auto simp: search_over_def search_ok_def)
    next
      case False
      show ?thesis
      proof (cases "sq_max_depth q < depth")
        case True
        then show ?thesis
          using "2.prems"(2) IH(1) [OF Cons top [symmetric] refl c [symmetric]] False ok Cons top c by simp
      next
        case shallow: False
        obtain r w2 where r: "fs_read_dir fs dir w1 = (r, w2)" by (cases "fs_read_dir fs dir w1")
        show ?thesis
        proof (cases r)
          case (Inl e)
          then show ?thesis
            using "2.prems"(2) IH(2) [OF Cons top [symmetric] refl c [symmetric]] False shallow ok Cons top c r
            by (cases is_root) (auto simp: search_over_def search_ok_def)
        next
          case (Inr items)
          obtain st2 w3 where it: "search_items q cancel depth items ?st w2 = (st2, w3)"
            by (cases "search_items q cancel depth items ?st w2")
          have ok2: "search_ok q st2" using search_items_ok [OF ok, of cancel depth items w2] it by simp
          show ?thesis
            using "2.prems"(2) IH(3) [OF Cons top [symmetric] refl c [symmetric]] False shallow ok2 Cons top c r Inr it
            by (auto simp: search_over_def search_ok_def split: if_splits)
        qed
      qed
    qed
  qed (use "2.prems" in \<open>simp add: search_over_def\<close>)
qed (simp add: search_over_def split: if_splits)

lemma matching_found: "matching q e \<Longrightarrow> is_found e"
  by (simp add: matching_def is_found_def split: search_event.splits)

lemma matching_run: "list_all (matching q) es \<Longrightarrow> takeWhile is_found es = es \<and> dropWhile is_found es = []"
  by (induction es) (auto dest: matching_found)

lemma matching_run_append:
  assumes "list_all (matching q) es" "\<not> is_found e"
  shows "takeWhile is_found (es @ [e]) = es" "dropWhile is_found (es @ [e]) = [e]"
  using assms by (induction es) (auto dest: matching_found)

text \<open>A file system with one folder and one file in it, to try the search on.\<close>

definition no_such :: protocol_error where
  "no_such = protocol_error_new NotFound ''no such file''"

definition one_folder :: "unit file_system" where
  "one_folder =
     \<lparr>fs_read_dir = (\<lambda>p w. (if p = []
         then Inr [\<lparr>d_name = ''notes.txt'', d_path = [Normal ''notes.txt''],
                    d_metadata = \<lparr>m_size = 3, m_modified = None, m_kind = File, m_permissions = None\<rparr>\<rparr>]
         else Inl no_such, w)),
      fs_stat = (\<lambda>p w. (Inl no_such, w)), fs_create_dir = (\<lambda>p w. (Inl no_such, w)),
      fs_rename = (\<lambda>p q w. (Inl no_such, w)), fs_remove_file = (\<lambda>p w. (Inl no_such, w)),
      fs_open_read = (\<lambda>p n w. (Inl no_such, w)), fs_open_write_sized = (\<lambda>p n m w. (Inl no_such, w)),
      fs_set_modified = (\<lambda>p n w. (Inl no_such, w)), fs_read = (\<lambda>h n w. (Inl no_such, w)),
      fs_write_all = (\<lambda>h bs w. (Inl no_such, w)), fs_flush = (\<lambda>h w. (Inl no_such, w)),
      fs_shutdown = (\<lambda>h w. (Inl no_such, w)), fs_transfer_limit = None, fs_resume_backoff = 0,
      fs_can_set_modified = False, fs_time_resolution = 2\<rparr>"

definition sample_query :: search_query where
  "sample_query = \<lparr>sq_root = [], sq_pattern = ''*.txt'', sq_max_depth = 1, sq_max_results = 5\<rparr>"

definition sample_search :: "(search_event list \<times> unit) option" where
  "sample_search = walk_search 3 pe_source one_folder sample_query (\<lambda>w. (False, w)) ()"

lemma sample_search_result:
  "map_option (map is_found \<circ> fst) sample_search = Some [True, False]"
  by code_simp

text \<open>A search reports entries that match and nothing else, never more than its limit, and after
  them at most one more event: that it is done, or that its folder could not be read.\<close>

theorem search_reports:
  assumes "walk_search visits show_error fs q cancel w = Some (events, w')"
  shows "list_all (matching q) (takeWhile is_found events) \<and>
         length (takeWhile is_found events) \<le> sq_max_results q \<and>
         length (dropWhile is_found events) \<le> 1"
proof -
  let ?start = "\<lparr>ss_found = 0, ss_truncated = False, ss_stack = [(sq_root q, 0)], ss_sent = [],
      ss_stopped = False\<rparr>"
  obtain st where st: "search_loop visits show_error fs q cancel True ?start w = Some (st, w')"
    and events: "events = (if ss_stopped st then ss_sent st else ss_sent st @ [SearchDone (ss_truncated st)])"
    using assms by (auto simp: walk_search_def)
  have "search_ok q ?start" by (simp add: search_ok_def)
  from search_loop_over [OF this st] show ?thesis
  proof (unfold search_over_def, elim disjE)
    assume ok: "search_ok q st"
    then have m: "list_all (matching q) (ss_sent st)" by (simp add: search_ok_def)
    have last: "\<not> is_found (SearchDone (ss_truncated st))" by (simp add: is_found_def)
    have runs: "takeWhile is_found (ss_sent st) = ss_sent st" "dropWhile is_found (ss_sent st) = []"
      using matching_run [OF m] by auto
    have "takeWhile is_found events = ss_sent st \<and> length (dropWhile is_found events) \<le> 1"
      using matching_run_append [OF m last] runs by (cases "ss_stopped st") (simp_all only: events if_True if_False, simp_all)
    then show ?thesis using ok m by (simp add: search_ok_def)
  next
    assume "ss_stopped st \<and> (\<exists>m sent. ss_sent st = sent @ [SearchFailed m] \<and> list_all (matching q) sent \<and>
       length sent \<le> sq_max_results q)"
    then obtain m sent where "ss_stopped st" "ss_sent st = sent @ [SearchFailed m]"
      "list_all (matching q) sent" "length sent \<le> sq_max_results q"
      by blast
    then show ?thesis
      using matching_run_append [of q sent "SearchFailed m"] by (simp add: events is_found_def)
  qed
qed

lemma search_reports_witness:
  "\<exists>events. map is_found events = [True, False] \<and> list_all (matching sample_query) (takeWhile is_found events)"
proof -
  obtain events where found: "sample_search = Some (events, ())" "map is_found events = [True, False]"
    using sample_search_result by auto
  then have "list_all (matching sample_query) (takeWhile is_found events)"
    using search_reports [of 3 pe_source one_folder sample_query "\<lambda>w. (False, w)" "()" events "()"]
    by (simp add: sample_search_def)
  with found(2) show ?thesis by (intro exI [of _ events] conjI)
qed

subsection \<open>A search ends\<close>

text \<open>The folders a walk can visit when every folder has at most \<open>wide\<close> items.\<close>

fun tree_size :: "nat \<Rightarrow> nat \<Rightarrow> nat" where
  "tree_size wide 0 = 1"
| "tree_size wide (Suc levels) = 1 + wide * tree_size wide levels"

definition visits_left :: "nat \<Rightarrow> search_query \<Rightarrow> (path \<times> nat) list \<Rightarrow> nat" where
  "visits_left wide q stack = sum_list (map (\<lambda>(_, depth). tree_size wide (sq_max_depth q + 1 - depth)) stack)"

lemma search_items_stack:
  "visits_left wide q (ss_stack (fst (search_items q cancel depth items st w))) \<le>
     length items * tree_size wide (sq_max_depth q - depth) + visits_left wide q (ss_stack st)"
proof (induction q cancel depth items st w rule: search_items.induct)
  case (2 q cancel depth item items st w)
  show ?case
  proof (cases "cancel w")
    case (Pair stop w')
    let ?st1 = "if glob_match (sq_pattern q) (d_name item)
        then st\<lparr>ss_sent := ss_sent st @ [Found (found_entry item)], ss_found := ss_found st + 1\<rparr> else st"
    let ?st2 = "if m_kind (d_metadata item) = Dir
        then ?st1\<lparr>ss_stack := (d_path item, depth + 1) # ss_stack ?st1\<rparr> else ?st1"
    show ?thesis
    proof (cases "stop \<or> sq_max_results q \<le> ss_found st")
      case True
      then show ?thesis using Pair by (cases stop) simp_all
    next
      case False
      then have go: "search_items q cancel depth (item # items) st w = search_items q cancel depth items ?st2 w'"
        using Pair by (simp add: Let_def)
      have "visits_left wide q (ss_stack (fst (search_items q cancel depth items ?st2 w'))) \<le>
          length items * tree_size wide (sq_max_depth q - depth) + visits_left wide q (ss_stack ?st2)"
        by (rule "2.IH" [OF Pair [symmetric] _ _ refl refl]) (use False in simp_all)
      moreover have "visits_left wide q (ss_stack ?st2) \<le>
          tree_size wide (sq_max_depth q - depth) + visits_left wide q (ss_stack st)"
        by (simp add: visits_left_def)
      ultimately show ?thesis unfolding go by simp
    qed
  qed
qed simp

lemma search_loop_ends:
  assumes narrow: "\<And>dir w items w'. fs_read_dir fs dir w = (Inr items, w') \<Longrightarrow> length items \<le> wide"
  shows "visits_left wide q (ss_stack st) \<le> visits \<Longrightarrow>
           search_loop visits show_error fs q cancel is_root st w \<noteq> None"
proof (induction visits arbitrary: st w is_root)
  case 0
  then show ?case
    by (cases "ss_stack st") (auto simp: visits_left_def, metis tree_size.elims zero_neq_one add_is_0)
next
  case (Suc visits)
  show ?case
  proof (cases "ss_stack st")
    case (Cons top stack)
    obtain dir depth where top: "top = (dir, depth)" by (cases top)
    let ?levels = "sq_max_depth q + 1 - depth"
    let ?st = "st\<lparr>ss_stack := stack\<rparr>"
    have left: "tree_size wide ?levels + visits_left wide q stack \<le> Suc visits"
      using Suc.prems Cons top by (simp add: visits_left_def)
    have "1 \<le> tree_size wide ?levels" by (cases ?levels) auto
    then have popped: "visits_left wide q (ss_stack ?st) \<le> visits" using left by simp
    obtain stop w1 where c: "cancel w = (stop, w1)" by (cases "cancel w")
    obtain r w2 where r: "fs_read_dir fs dir w1 = (r, w2)" by (cases "fs_read_dir fs dir w1")
    have deeper: "visits_left wide q (ss_stack st2) \<le> visits"
      if "r = Inr items" "depth \<le> sq_max_depth q" "search_items q cancel depth items ?st w2 = (st2, w3)"
      for items st2 w3
    proof -
      have "length items * tree_size wide (sq_max_depth q - depth) \<le> wide * tree_size wide (sq_max_depth q - depth)"
        using narrow r that(1) by (simp add: mult_le_mono1)
      moreover have "tree_size wide ?levels = 1 + wide * tree_size wide (sq_max_depth q - depth)"
        using that(2) by (simp add: Suc_diff_le)
      moreover have "visits_left wide q (ss_stack st2) \<le>
          length items * tree_size wide (sq_max_depth q - depth) + visits_left wide q stack"
        using search_items_stack [of wide q cancel depth items ?st w2] that(3) by simp
      ultimately show ?thesis using left by linarith
    qed
    show ?thesis
      using Suc.IH [OF popped] Suc.IH [OF deeper] Cons top c r
      by (cases r) (auto simp: Let_def split: prod.splits bool.splits)
  qed simp
qed

text \<open>A search of folders of bounded width ends: the number of folders it can visit is that of a
  full tree of its depth, and that many visits are enough.\<close>

theorem search_ends:
  assumes "\<And>dir w items w'. fs_read_dir fs dir w = (Inr items, w') \<Longrightarrow> length items \<le> wide"
  shows "walk_search (tree_size wide (sq_max_depth q + 1)) show_error fs q cancel w \<noteq> None"
proof -
  have "search_loop (tree_size wide (sq_max_depth q + 1)) show_error fs q cancel True
      \<lparr>ss_found = 0, ss_truncated = False, ss_stack = [(sq_root q, 0)], ss_sent = [], ss_stopped = False\<rparr> w \<noteq> None"
    by (rule search_loop_ends [OF assms]) (simp_all add: visits_left_def)
  then show ?thesis by (simp add: walk_search_def)
qed

lemma search_ends_witness:
  "walk_search (tree_size 1 2) pe_source one_folder sample_query (\<lambda>w. (False, w)) () \<noteq> None"
proof -
  have "length items \<le> 1" if "fs_read_dir one_folder dir w = (Inr items, w')" for dir w items w'
    using that by (auto simp: one_folder_def split: if_splits)
  from search_ends [of one_folder 1 sample_query, OF this] show ?thesis
    by (simp add: sample_query_def numeral_2_eq_2)
qed

end
