(* ===== verification/Persist.thy ===== *)
theory Persist
  imports Rust_Path
begin

text \<open>
  \<^verbatim>\<open>persist\<close> and \<^verbatim>\<open>persist/writer\<close>: how the files of the program itself are written.  A file is
  replaced by renaming a complete temporary file over it, writes of one path carry versions so
  that an old one never follows a newer one, and the writer collects the writes of a path and
  performs the newest.

  The disk is the files of \<^verbatim>\<open>std::fs\<close>: every operation may fail, as an oracle counted by
  operations decides; a failing \<^verbatim>\<open>write_all\<close> leaves a beginning of what it should write.
\<close>

section \<open>The disk (std::fs)\<close>

record disk =
  dk_files :: "(path, string) fmap"
  dk_ops :: nat
  dk_fails :: "nat \<Rightarrow> bool"
  dk_short :: nat
  dk_error :: string

definition disk_try :: "disk \<Rightarrow> bool \<times> disk" where
  "disk_try d = (\<not> dk_fails d (dk_ops d), d\<lparr>dk_ops := dk_ops d + 1\<rparr>)"

text \<open>\<^verbatim>\<open>with_context\<close>, shown with \<^verbatim>\<open>{err:#}\<close>.\<close>

definition with_context :: "string \<Rightarrow> path \<Rightarrow> disk \<Rightarrow> string" where
  "with_context what p d = what @ string_of_path p @ '': '' @ dk_error d"

definition disk_remove :: "path \<Rightarrow> disk \<Rightarrow> bool \<times> disk" where
  "disk_remove p d =
     (case disk_try d of (good, d) \<Rightarrow>
        if good \<and> fmlookup (dk_files d) p \<noteq> None
        then (True, d\<lparr>dk_files := fmdrop p (dk_files d)\<rparr>) else (False, d))"

definition disk_rename :: "path \<Rightarrow> path \<Rightarrow> disk \<Rightarrow> bool \<times> disk" where
  "disk_rename p q d =
     (case disk_try d of (good, d) \<Rightarrow>
        (case fmlookup (dk_files d) p of
           None \<Rightarrow> (False, d)
         | Some contents \<Rightarrow>
             if good then (True, d\<lparr>dk_files := fmupd q contents (fmdrop p (dk_files d))\<rparr>)
             else (False, d)))"

section \<open>Replacing a file (persist)\<close>

definition with_suffix :: "path \<Rightarrow> string \<Rightarrow> path" where
  "with_suffix p ending = push_suffix p ending"

text \<open>\<^verbatim>\<open>write_temp_and_replace\<close>, step by step; the permission bits are not modelled.\<close>

definition write_temp_and_replace :: "path \<Rightarrow> path \<Rightarrow> string \<Rightarrow> disk \<Rightarrow> (string + unit) \<times> disk" where
  "write_temp_and_replace p temp_path contents d =
     (case disk_try d of (opened, d) \<Rightarrow>
      if \<not> opened then (Inl (with_context ''couldn't write '' temp_path d), d)
      else let d = d\<lparr>dk_files := fmupd temp_path [] (dk_files d)\<rparr>
      in (case disk_try d of (protected, d) \<Rightarrow>
      if \<not> protected then (Inl (with_context ''couldn't protect '' temp_path d), d)
      else (case disk_try d of (written, d) \<Rightarrow>
      if \<not> written
      then (Inl (with_context ''couldn't write '' temp_path d),
            d\<lparr>dk_files := fmupd temp_path (take (dk_short d) contents) (dk_files d)\<rparr>)
      else let d = d\<lparr>dk_files := fmupd temp_path contents (dk_files d)\<rparr>
      in (case disk_rename temp_path p d of (renamed, d) \<Rightarrow>
      if \<not> renamed then (Inl (with_context ''couldn't replace '' p d), d) else (Inr (), d)))))"

definition write_file :: "path \<Rightarrow> string \<Rightarrow> disk \<Rightarrow> (string + unit) \<times> disk" where
  "write_file p contents d =
     (case (case path_parent p of
              None \<Rightarrow> (Inr (), d)
            | Some parent \<Rightarrow>
                (case disk_try d of (created, d) \<Rightarrow>
                   if created then (Inr (), d)
                   else (Inl (with_context ''couldn't create '' parent d), d))) of
        (Inl e, d) \<Rightarrow> (Inl e, d)
      | (Inr _, d) \<Rightarrow>
          let temp_path = with_suffix p ''.tmp''
          in (case write_temp_and_replace p temp_path contents d of
                (Inl e, d) \<Rightarrow> (Inl e, snd (disk_remove temp_path d))
              | (Inr u, d) \<Rightarrow> (Inr u, d)))"

text \<open>
  \<^verbatim>\<open>WRITE_LOCKS\<close> and \<^verbatim>\<open>NEXT_VERSION\<close> are process-wide: for each path the version last written.
  A path whose version is 0 is dropped from the table again.
\<close>

record persist =
  ps_disk :: disk
  ps_applied :: "(path, nat) fmap"
  ps_next_version :: nat

definition next_version :: "persist \<Rightarrow> nat \<times> persist" where
  "next_version st = (ps_next_version st, st\<lparr>ps_next_version := ps_next_version st + 1\<rparr>)"

definition release_unused_locks :: "(path, nat) fmap \<Rightarrow> (path, nat) fmap" where
  "release_unused_locks locks = fmfilter (\<lambda>p. fmget_or 0 locks p \<noteq> 0) locks"

definition write_locked :: "path \<Rightarrow> string \<Rightarrow> nat option \<Rightarrow> persist \<Rightarrow> (string + unit) \<times> persist" where
  "write_locked p contents version st =
     (let applied = fmget_or 0 (ps_applied st) p;
          locks = fmupd p applied (ps_applied st)
      in (case (case version of Some v \<Rightarrow> v \<le> applied | None \<Rightarrow> False) of
            True \<Rightarrow> (Inr (), st\<lparr>ps_applied := release_unused_locks locks\<rparr>)
          | False \<Rightarrow>
              (case write_file p contents (ps_disk st) of
                 (outcome, d) \<Rightarrow>
                   let locks = (case (outcome, version) of
                                  (Inr _, Some v) \<Rightarrow> fmupd p v locks
                                | _ \<Rightarrow> locks)
                   in (outcome, st\<lparr>ps_disk := d, ps_applied := release_unused_locks locks\<rparr>))))"

definition write_atomic :: "path \<Rightarrow> string \<Rightarrow> persist \<Rightarrow> (string + unit) \<times> persist" where
  "write_atomic p contents = write_locked p contents None"

definition write_versioned :: "path \<Rightarrow> string \<Rightarrow> nat \<Rightarrow> persist \<Rightarrow> (string + unit) \<times> persist" where
  "write_versioned p contents version = write_locked p contents (Some version)"

section \<open>Reading a file, or setting it aside\<close>

fun redact :: "string \<Rightarrow> bool \<Rightarrow> string" where
  "redact [] inside = []"
| "redact (c # cs) inside =
     (if c = CHR 0x22 \<and> \<not> inside
      then [CHR 0x22, CHR 0xE2, CHR 0x80, CHR 0xA6, CHR 0x22] @ redact cs True
      else if c = CHR 0x22 then redact cs False
      else if inside then redact cs True
      else c # redact cs False)"

definition without_quoted_values :: "string \<Rightarrow> string" where
  "without_quoted_values message = redact message False"

definition position_in :: "string \<Rightarrow> nat \<Rightarrow> (nat \<times> nat) option" where
  "position_in text offset =
     (if length text < offset then None
      else let before = take offset text
           in Some (length (filter (\<lambda>c. c = CHR 0x0A) before) + 1,
                    length (last (split_on (CHR 0x0A) before)) + 1))"

datatype 'a loaded = Missing | Ready 'a | SetAside string bool

definition broken_candidates :: "path \<Rightarrow> path list" where
  "broken_candidates p =
     with_suffix p ''.broken'' #
       map (\<lambda>index. with_suffix p (''.broken.'' @ show_nat index)) [1..<1000]"

text \<open>\<^verbatim>\<open>create_new\<close> reserves a name that no file has; any other failure ends the search.\<close>

fun reserve_broken_name :: "path list \<Rightarrow> disk \<Rightarrow> (string + path) \<times> disk" where
  "reserve_broken_name [] d = (Inl ''too many .broken files already exist'', d)"
| "reserve_broken_name (candidate # candidates) d =
     (case disk_try d of (good, d) \<Rightarrow>
        if \<not> good then (Inl (dk_error d), d)
        else if fmlookup (dk_files d) candidate \<noteq> None then reserve_broken_name candidates d
        else (Inr candidate, d\<lparr>dk_files := fmupd candidate [] (dk_files d)\<rparr>))"

definition set_aside :: "path \<Rightarrow> string \<Rightarrow> disk \<Rightarrow> 'a loaded \<times> disk" where
  "set_aside p problem d =
     (case (case reserve_broken_name (broken_candidates p) d of
              (Inl e, d) \<Rightarrow> (Inl e, d)
            | (Inr broken, d) \<Rightarrow>
                (case disk_rename p broken d of
                   (True, d) \<Rightarrow> (Inr broken, d)
                 | (False, d) \<Rightarrow> (Inl (dk_error d), snd (disk_remove broken d)))) of
        (Inr broken, d) \<Rightarrow>
          (SetAside (problem @ ''; it was kept as '' @
             (case file_name broken of Some name \<Rightarrow> name | None \<Rightarrow> ''the .broken file'') @
             '' and a new one was started'') False, d)
      | (Inl err, d) \<Rightarrow>
          (SetAside (problem @ '' and couldn't be set aside ('' @ err @ ''); changes won't be saved'')
             True, d))"

text \<open>Bytes that are no text are refused before they are parsed; \<^verbatim>\<open>is_utf8\<close> is the standard library's.\<close>

definition read_or_set_aside ::
  "(string \<Rightarrow> bool) \<Rightarrow> path \<Rightarrow> string \<Rightarrow> (string \<Rightarrow> string + 'a) \<Rightarrow> disk \<Rightarrow> 'a loaded \<times> disk" where
  "read_or_set_aside is_utf8 p noun parse d =
     (case disk_try d of (good, d) \<Rightarrow>
        (case fmlookup (dk_files d) p of
           None \<Rightarrow> (Missing, d)
         | Some bytes \<Rightarrow>
             if \<not> good then set_aside p (''Couldn't read '' @ noun @ '' ('' @ dk_error d @ '')'') d
             else if \<not> is_utf8 bytes
             then set_aside p
                    (''The '' @ noun @ '' file was unreadable (it is not valid UTF-8)'') d
             else (case parse bytes of
                     Inr v \<Rightarrow> (Ready v, d)
                   | Inl err \<Rightarrow>
                       set_aside p (''The '' @ noun @ '' file was unreadable ('' @ err @ '')'') d)))"

section \<open>The writer (persist/writer)\<close>

text \<open>
  \<^verbatim>\<open>render\<close> is called when the job is executed; it captures its data, so its result is known
  when it is queued.
\<close>

record write_job =
  wj_render :: "string + string"
  wj_tag :: nat
  wj_version :: nat

record write_failure =
  wf_path :: path
  wf_message :: string
  wf_tag :: nat

text \<open>
  The jobs \<^verbatim>\<open>write_one\<close> hands to a blocking thread are in flight until they have run;
  \<^verbatim>\<open>on_failure\<close> collects what it is called with.
\<close>

record persist_writer =
  pw_pending :: "(path, write_job) fmap"
  pw_in_flight :: "(path \<times> write_job) list"
  pw_running :: bool
  pw_closed :: bool
  pw_writes :: nat
  pw_interval :: nat
  pw_last_written :: "(path, nat) fmap"
  pw_failures :: "write_failure list"
  pw_store :: persist

definition writer_new :: "nat \<Rightarrow> persist \<Rightarrow> persist_writer" where
  "writer_new interval store =
     \<lparr>pw_pending = fmempty, pw_in_flight = [], pw_running = False, pw_closed = False, pw_writes = 0,
      pw_interval = interval, pw_last_written = fmempty, pw_failures = [], pw_store = store\<rparr>"

definition execute_job :: "path \<Rightarrow> write_job \<Rightarrow> persist \<Rightarrow> (string + unit) \<times> persist" where
  "execute_job p job st =
     (case wj_render job of
        Inl e \<Rightarrow> (Inl e, st)
      | Inr contents \<Rightarrow> write_versioned p contents (wj_version job) st)"

text \<open>Running one job: counted, and a failure reported.\<close>

definition run_job :: "path \<times> write_job \<Rightarrow> persist_writer \<Rightarrow> persist_writer" where
  "run_job pj w =
     (case pj of (p, job) \<Rightarrow>
        (case execute_job p job (pw_store w) of
           (outcome, st) \<Rightarrow>
             let w = w\<lparr>pw_writes := pw_writes w + 1, pw_store := st\<rparr>
             in (case outcome of
                   Inr _ \<Rightarrow> w
                 | Inl message \<Rightarrow>
                     w\<lparr>pw_failures := pw_failures w @
                        [\<lparr>wf_path = p, wf_message = message, wf_tag = wj_tag job\<rparr>]\<rparr>)))"

text \<open>
  \<^verbatim>\<open>in_runtime\<close> says whether a tokio runtime is there to run the task.
\<close>

definition write_lazy ::
  "bool \<Rightarrow> path \<Rightarrow> nat \<Rightarrow> string + string \<Rightarrow> persist_writer \<Rightarrow> (string + unit) \<times> persist_writer" where
  "write_lazy in_runtime p tag render w =
     (case next_version (pw_store w) of (version, st) \<Rightarrow>
        let w = w\<lparr>pw_store := st\<rparr>;
            job = \<lparr>wj_render = render, wj_tag = tag, wj_version = version\<rparr>;
            queued = \<not> pw_closed w \<and> (pw_running w \<or> in_runtime)
        in if \<not> queued
           then (case execute_job p job (pw_store w) of
                   (outcome, st) \<Rightarrow>
                     (outcome, w\<lparr>pw_pending := fmdrop p (pw_pending w), pw_writes := pw_writes w + 1,
                                 pw_store := st\<rparr>))
           else (Inr (), w\<lparr>pw_running := True, pw_pending := fmupd p job (pw_pending w)\<rparr>))"

text \<open>The pending jobs, in the order the map happens to give.\<close>

definition pending_jobs :: "(path fset \<Rightarrow> path list) \<Rightarrow> (path, write_job) fmap \<Rightarrow> (path \<times> write_job) list" where
  "pending_jobs hash_order pending =
     List.map_filter (\<lambda>p. map_option (Pair p) (fmlookup pending p)) (hash_order (fmdom pending))"

definition write_pending_now :: "(path fset \<Rightarrow> path list) \<Rightarrow> persist_writer \<Rightarrow> persist_writer" where
  "write_pending_now hash_order w =
     fold run_job (pending_jobs hash_order (pw_pending w)) (w\<lparr>pw_pending := fmempty\<rparr>)"

definition close_writer :: "(path fset \<Rightarrow> path list) \<Rightarrow> persist_writer \<Rightarrow> persist_writer" where
  "close_writer hash_order w = write_pending_now hash_order (w\<lparr>pw_closed := True\<rparr>)"

text \<open>Dropping the mark of the task that runs the writer.\<close>

definition writer_task_ended :: "(path fset \<Rightarrow> path list) \<Rightarrow> persist_writer \<Rightarrow> persist_writer" where
  "writer_task_ended hash_order w = write_pending_now hash_order (w\<lparr>pw_running := False\<rparr>)"

definition next_due :: "(path, write_job) fmap \<Rightarrow> (path, nat) fmap \<Rightarrow> nat \<Rightarrow> nat \<Rightarrow> nat option" where
  "next_due pending last_written interval now =
     (let due = map (\<lambda>p. case fmlookup last_written p of None \<Rightarrow> now | Some at \<Rightarrow> at + interval)
                  (sorted_list_of_fset (fmdom pending))
      in if due = [] then None else Some (Min (set due)))"

text \<open>
  \<^verbatim>\<open>write_due\<close> and \<^verbatim>\<open>write_all\<close> take jobs out of the map under the lock, and then hand them one by
  one to a thread, without it: from then on they are in flight.
\<close>

definition take_jobs :: "nat \<Rightarrow> (path \<times> write_job) list \<Rightarrow> persist_writer \<Rightarrow> persist_writer" where
  "take_jobs now jobs w =
     w\<lparr>pw_pending := fmfilter (\<lambda>p. p \<notin> set (map fst jobs)) (pw_pending w),
       pw_in_flight := pw_in_flight w @ jobs,
       pw_last_written := fold (\<lambda>(p, _). fmupd p now) jobs (pw_last_written w)\<rparr>"

definition write_due :: "(path fset \<Rightarrow> path list) \<Rightarrow> nat \<Rightarrow> persist_writer \<Rightarrow> persist_writer" where
  "write_due hash_order now w =
     take_jobs now
       (filter (\<lambda>(p, _). case fmlookup (pw_last_written w) p of
                           None \<Rightarrow> True | Some at \<Rightarrow> at + pw_interval w \<le> now)
          (pending_jobs hash_order (pw_pending w))) w"

definition write_all :: "(path fset \<Rightarrow> path list) \<Rightarrow> nat \<Rightarrow> persist_writer \<Rightarrow> persist_writer" where
  "write_all hash_order now w = take_jobs now (pending_jobs hash_order (pw_pending w)) w"

definition job_ran :: "persist_writer \<Rightarrow> persist_writer" where
  "job_ran w =
     (case pw_in_flight w of [] \<Rightarrow> w | pj # rest \<Rightarrow> run_job pj (w\<lparr>pw_in_flight := rest\<rparr>))"

end
