(* ===== verification/History.thy ===== *)
theory History
  imports Search Transfer_Job Persist
begin

text \<open>
  \<^verbatim>\<open>history\<close>: the log of finished transfers, bounded to its newest entries, and the filter of
  the history view.
\<close>

section \<open>Entries\<close>

definition MAX_ENTRIES :: nat where
  "MAX_ENTRIES = 1000"

definition MAX_FAILED_FILES :: nat where
  "MAX_FAILED_FILES = 100"

datatype history_result = HDone | HPartlyFailed nat | HFailed | HCancelled | HInterrupted

fun result_text :: "history_result \<Rightarrow> string" where
  "result_text HDone = ''done''"
| "result_text (HPartlyFailed _) = ''partly failed''"
| "result_text HFailed = ''failed''"
| "result_text HCancelled = ''cancelled''"
| "result_text HInterrupted = ''interrupted''"

text \<open>A time is what \<^verbatim>\<open>chrono\<close> gives, kept as a number.\<close>

record history_entry =
  he_finished_at :: nat
  he_connection :: string
  he_direction :: direction
  he_label :: string
  he_local_path :: string
  he_remote_path :: string
  he_files_done :: nat
  he_files_total :: nat
  he_bytes :: nat
  he_result :: history_result
  he_failed_count :: nat
  he_failed_files :: "string list"

section \<open>The log\<close>

record history =
  hi_path :: path
  hi_entries :: "history_entry list"
  hi_writable :: bool

definition trim_history :: "history \<Rightarrow> history" where
  "trim_history h =
     (let excess = length (hi_entries h) - MAX_ENTRIES
      in if 0 < excess then h\<lparr>hi_entries := drop excess (hi_entries h)\<rparr> else h)"

text \<open>The parser of the file is the \<^verbatim>\<open>toml\<close> crate's.\<close>

definition load_history ::
  "(string \<Rightarrow> bool) \<Rightarrow> (string \<Rightarrow> string + history_entry list) \<Rightarrow> path \<Rightarrow> disk \<Rightarrow>
     (history \<times> string option) \<times> disk" where
  "load_history is_utf8 parse_toml history_file d =
     (let h = \<lparr>hi_path = history_file, hi_entries = [], hi_writable = True\<rparr>
      in (case read_or_set_aside is_utf8 history_file ''transfer history'' parse_toml d of
            (Missing, d) \<Rightarrow> ((h, None), d)
          | (Ready entries, d) \<Rightarrow> ((trim_history (h\<lparr>hi_entries := entries\<rparr>), None), d)
          | (SetAside warning protected, d) \<Rightarrow>
              ((h\<lparr>hi_writable := \<not> protected\<rparr>, Some warning), d)))"

definition newest_first :: "history \<Rightarrow> history_entry list" where
  "newest_first h = rev (hi_entries h)"

definition push_history :: "history_entry \<Rightarrow> history \<Rightarrow> history" where
  "push_history e h = trim_history (h\<lparr>hi_entries := hi_entries h @ [e]\<rparr>)"

definition clear_memory :: "history \<Rightarrow> history" where
  "clear_memory h = h\<lparr>hi_entries := []\<rparr>"

section \<open>The filter\<close>

definition history_matches :: "history_entry \<Rightarrow> string \<Rightarrow> bool" where
  "history_matches e filter_text =
     (let f = trim filter_text
      in if f = [] then True
         else
           let fields = [he_connection e, he_label e, he_local_path e, he_remote_path e,
                         result_text (he_result e)]
           in if list_ex (\<lambda>c. c = CHR ''*'' \<or> c = CHR ''?'') f
              then list_ex (glob_match f) fields
              else let needle = to_lowercase f
                   in list_ex (\<lambda>field. str_contains (to_lowercase field) needle) fields)"

section \<open>What a row becomes\<close>

fun history_result_of :: "row_state \<Rightarrow> history_result" where
  "history_result_of RowDone = HDone"
| "history_result_of (RowPartlyFailed failed) = HPartlyFailed failed"
| "history_result_of RowFailed = HFailed"
| "history_result_of RowCancelled = HCancelled"
| "history_result_of _ = HInterrupted"

definition new_entry :: "nat \<Rightarrow> string \<Rightarrow> direction \<Rightarrow> string \<Rightarrow> history_result \<Rightarrow> history_entry" where
  "new_entry finished_at connection direction label result =
     \<lparr>he_finished_at = finished_at, he_connection = connection, he_direction = direction,
      he_label = label, he_local_path = [], he_remote_path = [], he_files_done = 0,
      he_files_total = 0, he_bytes = 0, he_result = result, he_failed_count = 0,
      he_failed_files = []\<rparr>"

fun common_prefix :: "path \<Rightarrow> path \<Rightarrow> path" where
  "common_prefix (a # as) (b # bs) = (if a = b then a # common_prefix as bs else [])"
| "common_prefix _ _ = []"

definition parent_or_self :: "path \<Rightarrow> path" where
  "parent_or_self p = (case path_parent p of Some parent \<Rightarrow> parent | None \<Rightarrow> p)"

fun common_parents :: "path list \<Rightarrow> path option \<Rightarrow> path option" where
  "common_parents [] common = common"
| "common_parents (p # ps) common =
     common_parents ps
       (Some (case common of
                None \<Rightarrow> parent_or_self p
              | Some current \<Rightarrow> common_prefix current (parent_or_self p)))"

definition common_directory :: "path list \<Rightarrow> path" where
  "common_directory ps = (case common_parents ps None of Some p \<Rightarrow> p | None \<Rightarrow> [])"

section \<open>What the log keeps\<close>

lemma trim_entries:
  "hi_entries (trim_history h) = drop (length (hi_entries h) - MAX_ENTRIES) (hi_entries h)"
  by (simp add: trim_history_def Let_def)

lemma push_entries:
  "hi_entries (push_history e h) =
     drop (length (hi_entries h @ [e]) - MAX_ENTRIES) (hi_entries h @ [e])"
  by (simp add: push_history_def trim_entries)

lemma push_all_entries:
  "length (hi_entries h) \<le> MAX_ENTRIES \<Longrightarrow>
     hi_entries (fold push_history es h) =
       drop (length (hi_entries h) + length es - MAX_ENTRIES) (hi_entries h @ es)"
proof (induction es rule: rev_induct)
  case (snoc e es)
  let ?all = "hi_entries h @ es"
  let ?n = "length ?all - MAX_ENTRIES"
  let ?k = "length (drop ?n ?all @ [e]) - MAX_ENTRIES"
  have "hi_entries (fold push_history (es @ [e]) h) = drop ?k (drop ?n ?all @ [e])"
    using snoc by (simp only: fold_append fold.simps comp_apply id_apply push_entries length_append)
  also have "\<dots> = drop (?k + ?n) (?all @ [e])"
    by (simp only: drop_drop [symmetric]) simp
  also have "?k + ?n = length (hi_entries h) + length (es @ [e]) - MAX_ENTRIES"
    by (auto simp: MAX_ENTRIES_def)
  finally show ?case by simp
qed simp

text \<open>The common folder is above every path, and the longest one that is.\<close>

lemma common_prefix_prefix: "prefix q (common_prefix a b) \<longleftrightarrow> prefix q a \<and> prefix q b"
proof (induction a b arbitrary: q rule: common_prefix.induct)
  case (1 a as b bs)
  then show ?case by (cases q) auto
qed auto

lemma common_parents_some:
  "\<exists>r. common_parents ps (Some c) = Some r \<and>
     (\<forall>q. prefix q r \<longleftrightarrow> prefix q c \<and> (\<forall>p \<in> set ps. prefix q (parent_or_self p)))"
proof (induction ps arbitrary: c)
  case (Cons p ps)
  obtain r where "common_parents ps (Some (common_prefix c (parent_or_self p))) = Some r"
    "\<forall>q. prefix q r \<longleftrightarrow> prefix q (common_prefix c (parent_or_self p)) \<and> (\<forall>p \<in> set ps. prefix q (parent_or_self p))"
    using Cons by blast
  then show ?case by (simp add: common_prefix_prefix)
qed simp

text \<open>The folder an entry of several files names is the deepest one that holds them all: a path
  is a beginning of it exactly when it is a beginning of the folder of every file.\<close>

theorem common_directory_deepest:
  assumes "ps \<noteq> []"
  shows "prefix q (common_directory ps) \<longleftrightarrow> (\<forall>p \<in> set ps. prefix q (parent_or_self p))"
proof -
  obtain p ps' where ps: "ps = p # ps'" using assms by (cases ps) auto
  obtain r where "common_parents ps' (Some (parent_or_self p)) = Some r"
    "\<forall>q. prefix q r \<longleftrightarrow> prefix q (parent_or_self p) \<and> (\<forall>p \<in> set ps'. prefix q (parent_or_self p))"
    using common_parents_some by blast
  then show ?thesis by (simp add: common_directory_def ps)
qed

lemma common_directory_deepest_witness:
  "prefix [RootDir] (common_directory [[RootDir, Normal ''a'', Normal ''x''], [RootDir, Normal ''b'']])"
  using common_directory_deepest
    [of "[[RootDir, Normal ''a'', Normal ''x''], [RootDir, Normal ''b'']]" "[RootDir]"]
  by (simp add: parent_or_self_def path_parent_def)

text \<open>The log keeps the newest entries: after any number of entries it holds the last thousand
  of everything it was given, in order.\<close>

theorem history_keeps_newest:
  assumes "length (hi_entries h) \<le> MAX_ENTRIES"
  shows "hi_entries (fold push_history es h) =
           drop (length (hi_entries h) + length es - MAX_ENTRIES) (hi_entries h @ es) \<and>
         newest_first (fold push_history es h) = take MAX_ENTRIES (rev es @ rev (hi_entries h))"
proof
  show all: "hi_entries (fold push_history es h) =
      drop (length (hi_entries h) + length es - MAX_ENTRIES) (hi_entries h @ es)"
    by (rule push_all_entries [OF assms])
  show "newest_first (fold push_history es h) = take MAX_ENTRIES (rev es @ rev (hi_entries h))"
    by (simp only: newest_first_def all rev_drop rev_append length_append) (cases "length (hi_entries h) + length es \<le> MAX_ENTRIES", auto)
qed

lemma history_keeps_newest_witness:
  "newest_first (fold push_history [new_entry 1 ''a'' Upload ''x'' HDone]
     \<lparr>hi_path = [], hi_entries = [], hi_writable = True\<rparr>) =
     take MAX_ENTRIES ([new_entry 1 ''a'' Upload ''x'' HDone] @ [])"
  using history_keeps_newest
    [of "\<lparr>hi_path = [], hi_entries = [], hi_writable = True\<rparr>" "[new_entry 1 ''a'' Upload ''x'' HDone]"]
  by simp

end
