(* ===== verification/Edit.thy ===== *)
theory Edit
  imports Conflicts
begin

text \<open>
  \<^verbatim>\<open>edit\<close>: the command line of the editor, split into words the way a shell would, and the
  names of the copies that keep both sides of an edit conflict.
\<close>

definition MAX_EDIT_BYTES :: nat where
  "MAX_EDIT_BYTES = 64 * 1024 * 1024"

definition FALLBACK_EDITOR :: string where
  "FALLBACK_EDITOR = ''vi''"

record editor_command =
  ed_program :: string
  ed_args :: "string list"

datatype editor_exit = ExitSuccess | ExitStatus int | LaunchFailed string

datatype edit_choice = ChooseUpload | ChooseKeepCopy | ChooseCancel

datatype edit_question_kind = AskUpload | AskConflict

section \<open>Splitting a command\<close>

abbreviation dquote :: char where "dquote \<equiv> CHR 0x22"
abbreviation squote :: char where "squote \<equiv> CHR 0x27"
abbreviation backslash :: char where "backslash \<equiv> CHR 0x5C"

record split_state =
  sw_words :: "string list"
  sw_current :: string
  sw_in_word :: bool
  sw_quote :: "char option"

definition push_char :: "char \<Rightarrow> split_state \<Rightarrow> split_state" where
  "push_char c st = st\<lparr>sw_current := sw_current st @ [c]\<rparr>"

definition ends_with_backslash :: string where
  "ends_with_backslash = ''the command ends with a backslash''"

function split_loop :: "string \<Rightarrow> split_state \<Rightarrow> string + split_state" where
  "split_loop [] st = Inr st"
| "split_loop (c # cs) st =
     (case sw_quote st of
        Some open \<Rightarrow>
          if c = open then split_loop cs (st\<lparr>sw_quote := None\<rparr>)
          else if open = dquote \<and> c = backslash
          then (case cs of
                  [] \<Rightarrow> Inl ends_with_backslash
                | next # cs \<Rightarrow>
                    if next = dquote \<or> next = backslash then split_loop cs (push_char next st)
                    else split_loop cs (push_char next (push_char backslash st)))
          else split_loop cs (push_char c st)
      | None \<Rightarrow>
          if c = squote \<or> c = dquote
          then split_loop cs (st\<lparr>sw_quote := Some c, sw_in_word := True\<rparr>)
          else if c = backslash
          then (case cs of
                  [] \<Rightarrow> Inl ends_with_backslash
                | next # cs \<Rightarrow> split_loop cs ((push_char next st)\<lparr>sw_in_word := True\<rparr>))
          else if is_whitespace c
          then split_loop cs
                 (if sw_in_word st
                  then st\<lparr>sw_words := sw_words st @ [sw_current st], sw_current := [],
                          sw_in_word := False\<rparr>
                  else st)
          else split_loop cs ((push_char c st)\<lparr>sw_in_word := True\<rparr>))"
  by pat_completeness auto
termination
  by (relation "measure (\<lambda>(cs, st). length cs)") auto

declare split_loop.simps(2) [simp del]

definition split_start :: split_state where
  "split_start = \<lparr>sw_words = [], sw_current = [], sw_in_word = False, sw_quote = None\<rparr>"

definition split_command :: "string \<Rightarrow> string + string list" where
  "split_command text =
     (case split_loop text split_start of
        Inl e \<Rightarrow> Inl e
      | Inr st \<Rightarrow>
          if sw_quote st \<noteq> None then Inl ''the command has an unterminated quote''
          else Inr (if sw_in_word st then sw_words st @ [sw_current st] else sw_words st))"

definition usable :: "string option \<Rightarrow> string option" where
  "usable text = (case text of None \<Rightarrow> None | Some t \<Rightarrow> if trim t = [] then None else Some t)"

definition resolve_editor :: "string option \<Rightarrow> string option \<Rightarrow> string + editor_command" where
  "resolve_editor setting env_editor =
     (let text = (case usable setting of
                    Some t \<Rightarrow> t
                  | None \<Rightarrow> (case usable env_editor of Some t \<Rightarrow> t | None \<Rightarrow> FALLBACK_EDITOR))
      in (case split_command text of
            Inl e \<Rightarrow> Inl e
          | Inr [] \<Rightarrow> Inl ''the editor command is empty''
          | Inr (program # words) \<Rightarrow>
              if program = [] then Inl ''the editor command is empty''
              else Inr \<lparr>ed_program = program, ed_args = words\<rparr>))"

section \<open>Names and messages\<close>

definition is_control :: "char \<Rightarrow> bool" where
  "is_control c = (let n = (of_char c :: nat) in n < 32 \<or> n = 127)"

definition printable :: "string \<Rightarrow> string" where
  "printable text = map (\<lambda>c. if is_control c then CHR ''?'' else c) text"

text \<open>The stamp is the time as \<^verbatim>\<open>chrono\<close> formats it.\<close>

definition conflict_copy_name :: "string \<Rightarrow> string \<Rightarrow> string" where
  "conflict_copy_name name stamp =
     (case rfind (CHR ''.'') name of
        Some (Suc index) \<Rightarrow>
          take (Suc index) name @ ''.conflict-'' @ stamp @ drop (Suc index) name
      | _ \<Rightarrow> name @ ''.conflict-'' @ stamp)"

section \<open>Every list of words is a command\<close>

definition escape_char :: "char \<Rightarrow> string" where
  "escape_char c = (if c = dquote \<or> c = backslash then [backslash, c] else [c])"

definition quote_word :: "string \<Rightarrow> string" where
  "quote_word w = [dquote] @ concat (map escape_char w) @ [dquote]"

lemma split_open:
  "sw_quote st = None \<Longrightarrow>
     split_loop (dquote # cs) st = split_loop cs (st\<lparr>sw_quote := Some dquote, sw_in_word := True\<rparr>)"
  by (simp add: split_loop.simps(2))

lemma split_close:
  "sw_quote st = Some dquote \<Longrightarrow> split_loop (dquote # cs) st = split_loop cs (st\<lparr>sw_quote := None\<rparr>)"
  by (simp add: split_loop.simps(2))

lemma split_escaped:
  "sw_quote st = Some dquote \<Longrightarrow>
     split_loop (escape_char c @ cs) st = split_loop cs (push_char c st)"
  by (auto simp: split_loop.simps(2) escape_char_def)

lemma split_inside:
  "sw_quote st = Some dquote \<Longrightarrow>
     split_loop (concat (map escape_char w) @ cs) st = split_loop cs (st\<lparr>sw_current := sw_current st @ w\<rparr>)"
proof (induction w arbitrary: st)
  case (Cons c w)
  then show ?case
    using Cons.IH [of "push_char c st"] split_escaped [of st c "concat (map escape_char w) @ cs"]
    by (simp add: push_char_def)
qed simp

lemma split_quoted:
  "sw_quote st = None \<Longrightarrow>
     split_loop (quote_word w @ cs) st =
       split_loop cs (st\<lparr>sw_current := sw_current st @ w, sw_in_word := True\<rparr>)"
  by (cases st) (simp add: quote_word_def split_open split_inside split_close)

lemma split_space:
  "sw_quote st = None \<Longrightarrow> sw_in_word st \<Longrightarrow>
     split_loop (CHR '' '' # cs) st =
       split_loop cs (st\<lparr>sw_words := sw_words st @ [sw_current st], sw_current := [], sw_in_word := False\<rparr>)"
  by (simp add: split_loop.simps(2) is_whitespace_def)

lemma split_words:
  "ws \<noteq> [] \<Longrightarrow> sw_quote st = None \<Longrightarrow> sw_current st = [] \<Longrightarrow>
     split_loop (join_with '' '' (map quote_word ws)) st =
       Inr (st\<lparr>sw_words := sw_words st @ butlast ws, sw_current := last ws, sw_in_word := True\<rparr>)"
proof (induction ws arbitrary: st rule: induct_list012)
  case (2 w)
  then show ?case using split_quoted [of st w "[]"] by simp
next
  case (3 w v ws)
  then show ?case by (simp add: split_quoted split_space)
qed simp

text \<open>(C19) Every list of words can be written as an editor command that is split into just those
  words: quoting with double quotes and backslashes is undone exactly, whatever the words
  hold, spaces and quotes and nothing at all included.\<close>

theorem split_command_roundtrip:
  "split_command (join_with '' '' (map quote_word ws)) = Inr ws"
proof (cases "ws = []")
  case False
  then show ?thesis
    using split_words [of ws split_start] by (simp add: split_command_def split_start_def)
qed (simp add: split_command_def split_start_def)

text \<open>An editor is always found or an error told: blank settings are passed over, and what is
  started has a program.\<close>

theorem resolve_editor_program:
  "case resolve_editor setting env_editor of
     Inl message \<Rightarrow> message \<noteq> [] \<and> (usable setting \<noteq> None \<or> usable env_editor \<noteq> None)
   | Inr editor \<Rightarrow> ed_program editor \<noteq> []"
proof -
  have loop: "split_loop cs st = Inl e \<Longrightarrow> e = ends_with_backslash" for cs st e
  proof (induction cs st rule: split_loop.induct)
    case (2 c cs st)
    from "2.prems" show ?case
      by (subst (asm) split_loop.simps(2)) (use "2.IH" in \<open>auto split: option.splits if_splits list.splits\<close>)
  qed simp
  have "split_command t = Inl e \<Longrightarrow> e \<noteq> []" for t e
  proof (cases "split_loop t split_start")
    case (Inl m)
    then show "split_command t = Inl e \<Longrightarrow> e \<noteq> []"
      using loop [OF Inl] by (auto simp: split_command_def ends_with_backslash_def)
  next
    case (Inr st)
    then show "split_command t = Inl e \<Longrightarrow> e \<noteq> []"
      by (auto simp: split_command_def split: if_splits)
  qed
  moreover have "split_command FALLBACK_EDITOR = Inr [''vi'']"
    by code_simp
  ultimately show ?thesis
    by (auto simp: resolve_editor_def Let_def split: sum.splits list.splits option.splits)
qed

text \<open>The copy that keeps both sides never has the name of the file, and ends in its extension.\<close>

theorem conflict_copy_distinct:
  "conflict_copy_name name stamp \<noteq> name \<and>
   (\<exists>stem ext. name = stem @ ext \<and> conflict_copy_name name stamp = stem @ ''.conflict-'' @ stamp @ ext)"
proof
  show "conflict_copy_name name stamp \<noteq> name"
  proof
    assume "conflict_copy_name name stamp = name"
    then have "length (conflict_copy_name name stamp) = length name" by simp
    moreover have "length name < length (conflict_copy_name name stamp)"
      by (auto simp: conflict_copy_name_def split: option.split nat.split dest: rfind_SomeD)
    ultimately show False by simp
  qed
  show "\<exists>stem ext. name = stem @ ext \<and> conflict_copy_name name stamp = stem @ ''.conflict-'' @ stamp @ ext"
  proof (cases "rfind (CHR ''.'') name")
    case None
    then show ?thesis
      by (intro exI [of _ name] exI [of _ "[]"]) (simp add: conflict_copy_name_def)
  next
    case (Some i)
    then show ?thesis
    proof (cases i)
      case 0
      then show ?thesis using Some
        by (intro exI [of _ name] exI [of _ "[]"]) (simp add: conflict_copy_name_def)
    next
      case (Suc k)
      then show ?thesis using Some
        by (intro exI [of _ "take i name"] exI [of _ "drop i name"]) (simp add: conflict_copy_name_def)
    qed
  qed
qed

end
