(* ===== verification/Engine_State.thy ===== *)
theory Engine_State
  imports Queue_Behaviour Conflicts Execute Sync Tasks History Edit
begin

text \<open>
  \<^verbatim>\<open>engine\<close>: the state of the engine, what it tells the user interface, and the parts every
  handler uses: reporting, publishing the transfers, and the history of finished transfers
  (\<^verbatim>\<open>engine/handlers/history\<close>, \<^verbatim>\<open>transfer/snapshot\<close>).

  The engine is one task that owns its state: a handler is a function of the state.  What it
  sends to the user interface is a list of events; the tasks it starts are in the table of
  tasks, with what they will do.  A handler reads the clock and the local disk: those answers
  are in a record of the outside world, which changes between handlers.
\<close>

section \<open>Snapshots (transfer/snapshot)\<close>

record active_job =
  aj_id :: nat
  aj_display_name :: string
  aj_direction :: direction
  aj_batch_id :: "nat option"
  aj_transferred_bytes :: nat
  aj_total_bytes :: nat
  aj_percent :: nat

record transfer_snapshot =
  ts_rows :: "queue_row list"
  ts_active :: "active_job list"
  ts_batches :: "(nat, batch_progress) fmap"
  ts_queued :: nat
  ts_scanning :: "string list"
  ts_awaiting_answers :: nat

definition active_job_of :: "(nat \<Rightarrow> nat \<Rightarrow> nat) \<Rightarrow> transfer_job \<Rightarrow> active_job" where
  "active_job_of f64_percent j =
     \<lparr>aj_id = j_id j, aj_display_name = j_display_name j, aj_direction = j_direction j,
      aj_batch_id = j_batch_id j, aj_transferred_bytes = j_transferred_bytes j,
      aj_total_bytes = j_total_bytes j, aj_percent = progress_percent f64_percent j\<rparr>"

definition snapshot_rows :: "transfer_queue \<Rightarrow> scan_info list \<Rightarrow> queue_row list" where
  "snapshot_rows q scans = queue_rows_of q @ map scan_row scans"

definition snapshot_of :: "(nat \<Rightarrow> nat \<Rightarrow> nat) \<Rightarrow> transfer_queue \<Rightarrow> scan_info list \<Rightarrow> transfer_snapshot" where
  "snapshot_of f64_percent q scans =
     (let active = map (active_job_of f64_percent) (active_jobs q)
      in \<lparr>ts_rows = snapshot_rows q scans, ts_active = active,
          ts_batches = fold (\<lambda>b. fmupd b (batch_progress q b)) (List.map_filter aj_batch_id active) fmempty,
          ts_queued = queued_count q,
          ts_scanning = map si_label (filter (\<lambda>s. si_state s = RowScanning) scans),
          ts_awaiting_answers = length (filter (\<lambda>s. si_state s = RowAwaitingAnswer) scans)\<rparr>)"

definition snapshot_default :: transfer_snapshot where
  "snapshot_default =
     \<lparr>ts_rows = [], ts_active = [], ts_batches = fmempty, ts_queued = 0, ts_scanning = [],
      ts_awaiting_answers = 0\<rparr>"

section \<open>Locations, events and tasks\<close>

datatype severity = SevInfo | SevWarning | SevError

datatype location = LocalSide | SessionSide nat

text \<open>The events of the modelled handlers.\<close>

datatype event =
    Notice severity string
  | Connected nat string bool
  | SessionCapabilities nat bool
  | Disconnected nat string
  | LocationChanged location
  | TransfersChanged transfer_snapshot
  | ConflictsFound nat "conflict_info list"
  | ConflictsWithdrawn "nat list"
  | HistoryShown "history_entry list"
  | EditReady nat path editor_command
  | EditQuestion nat string edit_question_kind
  | EditsBusy bool
  | SyncPlanReady sync_plan
  | SyncWithdrawn "nat list"

record temp_copy =
  tc_dir :: path
  tc_file :: path

record baseline =
  bl_size :: nat
  bl_modified :: "nat option"
  bl_hash :: nat

datatype upload_mode = Checked | Forced | KeepBoth

record upload_job =
  uj_edit_id :: nat
  uj_remote :: path
  uj_file :: path
  uj_baseline :: baseline
  uj_name :: string
  uj_mode :: upload_mode
  uj_at :: nat

text \<open>
  What a spawned task has still to do, with what its closure captured; after its last message
  is sent there is nothing left.
\<close>

datatype 'w work =
    PlanCopy nat nat direction "'w file_system" "'w file_system" "entry list" path
  | RunTransfer nat string "'w file_system" path "'w file_system" path bool "nat option"
  | RemovePartials nat "'w file_system" "string list"
  | SyncScan nat nat "'w file_system" path "'w file_system" path sync_options nat bool
  | SyncFolders nat nat direction "'w file_system" "path list" "planned_file list"
  | EditDownload nat "'w file_system" "'w file_system" path path string
  | EditInspect nat temp_copy baseline "int option"
  | EditUpload upload_job "'w file_system" "'w file_system"
  | WorkSent

section \<open>The state\<close>

record planning_scan =
  pn_batch_id :: nat
  pn_session_id :: nat
  pn_direction :: direction
  pn_display_name :: string

record conflict_review =
  cr_batch_id :: nat
  cr_session_id :: nat
  cr_direction :: direction
  cr_plan :: directory_plan

text \<open>The entry and the protocol of a session are used when connecting, which is not modelled.\<close>

record 'w live_session =
  ls_name :: string
  ls_fs :: "'w file_system"

record history_log =
  hl_store :: history
  hl_recorded :: "row_kind fset"
  hl_counted :: "(row_kind, nat fset) fmap"
  hl_write_warned :: bool
  hl_write_seq :: nat
  hl_clear_tag :: "nat option"
  hl_session_names :: "(nat, string) fmap"

definition history_log_new :: "history \<Rightarrow> history_log" where
  "history_log_new store =
     \<lparr>hl_store = store, hl_recorded = {||}, hl_counted = fmempty, hl_write_warned = False,
      hl_write_seq = 0, hl_clear_tag = None, hl_session_names = fmempty\<rparr>"

record edit_session =
  es_location :: location
  es_remote_path :: path
  es_name :: string
  es_editor :: editor_command
  es_temp :: "temp_copy option"
  es_baseline :: "baseline option"
  es_pending :: "edit_question_kind option"
  es_awaiting_editor :: bool
  es_saving :: bool

record edit_state =
  et_sessions :: "(nat, edit_session) fmap"
  et_next_id :: nat
  et_editor_setting :: "string option"
  et_auto_upload :: bool
  et_busy :: bool

record sync_state =
  sn_plans :: "(nat, sync_plan) fmap"
  sn_scanning :: "nat fset"

text \<open>
  The world outside: the clocks, the text of a time, the quotient of a percentage, the local
  disk, the environment, and the order in which hash tables happen to be visited.
\<close>

record outside =
  ot_now :: nat
  ot_clock :: nat
  ot_stamp :: "nat \<Rightarrow> string"
  ot_percent :: "nat \<Rightarrow> nat \<Rightarrow> nat"
  ot_is_dir :: "path \<Rightarrow> bool"
  ot_file_removed :: "path \<Rightarrow> bool"
  ot_editor :: "string option"
  ot_render :: "history_entry list \<Rightarrow> string + string"
  ot_edit_dir :: path
  ot_kinds :: "row_kind fset \<Rightarrow> row_kind list"
  ot_ids :: "nat fset \<Rightarrow> nat list"
  ot_paths :: "path fset \<Rightarrow> path list"

text \<open>\<^verbatim>\<open>en_removed\<close> lists what the engine removed from the local disk.\<close>

record 'w engine =
  en_outside :: outside
  en_local_fs :: "'w file_system"
  en_events :: "event list"
  en_removed :: "path list"
  en_tasks :: "'w work tasks"
  en_writer :: persist_writer
  en_sessions :: "(nat, 'w live_session) fmap"
  en_next_session_id :: nat
  en_transfers :: transfer_queue
  en_max_parallel :: nat
  en_on_conflict :: conflict_policy
  en_planning :: "planning_scan list"
  en_reviews :: "conflict_review list"
  en_published :: transfer_snapshot
  en_last_progress_publish :: "nat option"
  en_publish_interval :: nat
  en_transfers_dirty :: bool
  en_history :: history_log
  en_edit :: edit_state
  en_sync :: sync_state

text \<open>\<^verbatim>\<open>Engine::new\<close>, for the modelled parts.\<close>

definition engine_new ::
  "outside \<Rightarrow> 'w file_system \<Rightarrow> nat \<Rightarrow> conflict_policy \<Rightarrow> nat \<Rightarrow> nat \<Rightarrow> history \<Rightarrow> string option \<Rightarrow> bool \<Rightarrow>
     persist \<Rightarrow> 'w engine" where
  "engine_new world local_fs max_parallel on_conflict publish_interval persist_interval history
     editor auto_upload store =
     \<lparr>en_outside = world, en_local_fs = local_fs, en_events = [], en_removed = [],
      en_tasks = tasks_new, en_writer = writer_new persist_interval store, en_sessions = fmempty,
      en_next_session_id = 0, en_transfers = queue_new, en_max_parallel = max_parallel,
      en_on_conflict = on_conflict, en_planning = [], en_reviews = [],
      en_published = snapshot_default, en_last_progress_publish = None,
      en_publish_interval = publish_interval, en_transfers_dirty = False,
      en_history = history_log_new history,
      en_edit = \<lparr>et_sessions = fmempty, et_next_id = 0, et_editor_setting = editor,
                  et_auto_upload = auto_upload, et_busy = False\<rparr>,
      en_sync = \<lparr>sn_plans = fmempty, sn_scanning = {||}\<rparr>\<rparr>"

section \<open>Telling the user interface\<close>

definition emit :: "event \<Rightarrow> 'w engine \<Rightarrow> 'w engine" where
  "emit ev e = e\<lparr>en_events := en_events e @ [ev]\<rparr>"

text \<open>\<^verbatim>\<open>report\<close> logs and shows, \<^verbatim>\<open>announce\<close> shows: the log of the program is not modelled.\<close>

definition report :: "severity \<Rightarrow> string \<Rightarrow> 'w engine \<Rightarrow> 'w engine" where
  "report severity message = emit (Notice severity message)"

definition announce :: "severity \<Rightarrow> string \<Rightarrow> 'w engine \<Rightarrow> 'w engine" where
  "announce severity message = emit (Notice severity message)"

definition info :: "string \<Rightarrow> 'w engine \<Rightarrow> 'w engine" where
  "info message = emit (Notice SevInfo message)"

definition fs_for :: "location \<Rightarrow> 'w engine \<Rightarrow> 'w file_system option" where
  "fs_for location e =
     (case location of
        LocalSide \<Rightarrow> Some (en_local_fs e)
      | SessionSide i \<Rightarrow> map_option ls_fs (fmlookup (en_sessions e) i))"

definition has_session :: "'w engine \<Rightarrow> nat \<Rightarrow> bool" where
  "has_session e i \<longleftrightarrow> fmlookup (en_sessions e) i \<noteq> None"

text \<open>Changing one part of the state.\<close>

definition on_transfers :: "(transfer_queue \<Rightarrow> transfer_queue) \<Rightarrow> 'w engine \<Rightarrow> 'w engine" where
  "on_transfers f e = e\<lparr>en_transfers := f (en_transfers e)\<rparr>"

definition on_tasks :: "('w work tasks \<Rightarrow> 'w work tasks) \<Rightarrow> 'w engine \<Rightarrow> 'w engine" where
  "on_tasks f e = e\<lparr>en_tasks := f (en_tasks e)\<rparr>"

definition on_history :: "(history_log \<Rightarrow> history_log) \<Rightarrow> 'w engine \<Rightarrow> 'w engine" where
  "on_history f e = e\<lparr>en_history := f (en_history e)\<rparr>"

end
