(* ===== verification/Engine_History.thy ===== *)
theory Engine_History
  imports Engine_State
begin

text \<open>
  \<^verbatim>\<open>engine/handlers/history\<close> and the publishing of \<^verbatim>\<open>engine\<close>: every row that finishes becomes one
  entry of the history, and the user interface is sent a snapshot of the transfers when it has
  changed, not more often than an interval.
\<close>

section \<open>The history of finished rows\<close>

definition publish_history :: "'w engine \<Rightarrow> 'w engine" where
  "publish_history e = emit (HistoryShown (newest_first (hl_store (en_history e)))) e"

definition remember_session :: "nat \<Rightarrow> string \<Rightarrow> history_log \<Rightarrow> history_log" where
  "remember_session session_id name log =
     log\<lparr>hl_session_names := fmupd session_id name (hl_session_names log)\<rparr>"

definition session_name :: "nat \<Rightarrow> 'w engine \<Rightarrow> string" where
  "session_name session_id e =
     (case map_option ls_name (fmlookup (en_sessions e) session_id) of
        Some name \<Rightarrow> name
      | None \<Rightarrow> fmget_or ''unknown'' (hl_session_names (en_history e)) session_id)"

definition scan_session :: "nat \<Rightarrow> 'w engine \<Rightarrow> nat option" where
  "scan_session batch_id e =
     (case find (\<lambda>s. pn_batch_id s = batch_id) (en_planning e) of
        Some scan \<Rightarrow> Some (pn_session_id scan)
      | None \<Rightarrow> map_option cr_session_id (find (\<lambda>r. cr_batch_id r = batch_id) (en_reviews e)))"

definition report_history_failure :: "string \<Rightarrow> bool \<Rightarrow> 'w engine \<Rightarrow> 'w engine" where
  "report_history_failure message clearing e =
     (if clearing then report SevWarning (''Couldn't clear transfer history: '' @ message) e
      else if \<not> hl_write_warned (en_history e)
      then report SevWarning (''Couldn't save transfer history: '' @ message)
             (on_history (\<lambda>h. h\<lparr>hl_write_warned := True\<rparr>) e)
      else e)"

definition persist_history :: "bool \<Rightarrow> 'w engine \<Rightarrow> 'w engine" where
  "persist_history clearing e =
     (let tag = hl_write_seq (en_history e) + 1;
          e = on_history (\<lambda>h. h\<lparr>hl_write_seq := tag\<rparr>) e;
          e = (if clearing then on_history (\<lambda>h. h\<lparr>hl_clear_tag := Some tag\<rparr>) e else e);
          store = hl_store (en_history e)
      in if \<not> hi_writable store
         then report_history_failure
                ''the existing history file could not be read or set aside, so it was left alone''
                clearing e
         else (case write_lazy True (hi_path store) tag (ot_render (en_outside e) (hi_entries store))
                      (en_writer e) of
                 (outcome, writer) \<Rightarrow>
                   let e = e\<lparr>en_writer := writer\<rparr>
                   in (case outcome of
                         Inl message \<Rightarrow> report_history_failure message clearing e
                       | Inr _ \<Rightarrow> e)))"

definition persist_failed :: "string \<Rightarrow> nat \<Rightarrow> 'w engine \<Rightarrow> 'w engine" where
  "persist_failed message tag e =
     report_history_failure message (hl_clear_tag (en_history e) = Some tag) e"

definition store_entry :: "history_entry \<Rightarrow> 'w engine \<Rightarrow> 'w engine" where
  "store_entry entry e =
     persist_history False (on_history (\<lambda>h. h\<lparr>hl_store := push_history entry (hl_store h)\<rparr>) e)"

definition clear_history :: "'w engine \<Rightarrow> 'w engine" where
  "clear_history e =
     publish_history (persist_history True (on_history (\<lambda>h. h\<lparr>hl_store := clear_memory (hl_store h)\<rparr>) e))"

definition completed_ids :: "queue_row \<Rightarrow> 'w engine \<Rightarrow> nat fset" where
  "completed_ids r e =
     fset_of_list (map j_id (filter (\<lambda>j. j_status j = Completed) (jobs_of (en_transfers e) (qr_kind r))))"

definition entry_for_row :: "queue_row \<Rightarrow> 'w engine \<Rightarrow> history_entry" where
  "entry_for_row r e =
     (let counted = fmlookup (hl_counted (en_history e)) (qr_kind r);
          jobs = filter (\<lambda>j. case counted of None \<Rightarrow> True | Some ids \<Rightarrow> j_id j |\<notin>| ids)
                   (jobs_of (en_transfers e) (qr_kind r));
          session_id = (case jobs of
                          j # _ \<Rightarrow> Some (j_session_id j)
                        | [] \<Rightarrow> (case qr_kind r of Scan batch_id \<Rightarrow> scan_session batch_id e | _ \<Rightarrow> None));
          connection = (case session_id of Some i \<Rightarrow> session_name i e | None \<Rightarrow> ''unknown'');
          folders = (common_directory (map j_local_path jobs),
                     string_of_path (common_directory (map (\<lambda>j. path_of_string (j_remote_path j)) jobs)));
          (local_path, remote_path) =
            (case jobs of
               [j] \<Rightarrow> if j_display_name j = qr_label r then (j_local_path j, j_remote_path j) else folders
             | _ \<Rightarrow> folders);
          failed = filter (\<lambda>j. is_failed (j_status j)) jobs
      in (new_entry (ot_clock (en_outside e)) connection (qr_direction r) (qr_label r)
            (history_result_of (qr_state r)))
         \<lparr>he_local_path := string_of_path local_path, he_remote_path := remote_path,
          he_files_done := length (filter (\<lambda>j. j_status j = Completed) jobs),
          he_files_total := length jobs,
          he_bytes := sum_list (map (\<lambda>j. if j_status j = Completed then j_total_bytes j
                                          else j_transferred_bytes j) jobs),
          he_failed_count := length failed,
          he_failed_files := map j_display_name (take MAX_FAILED_FILES failed)\<rparr>)"

fun changed_kind :: "row_change \<Rightarrow> row_kind" where
  "changed_kind (Finished k) = k"
| "changed_kind (Reopened k) = k"
| "changed_kind (Removed k) = k"

text \<open>The kinds in the order of their first change.\<close>

definition changed_kinds :: "row_change list \<Rightarrow> row_kind list" where
  "changed_kinds changes =
     fold (\<lambda>c kinds. if changed_kind c \<in> set kinds then kinds else kinds @ [changed_kind c]) changes []"

definition process_kind :: "row_kind \<Rightarrow> bool \<times> 'w engine \<Rightarrow> bool \<times> 'w engine" where
  "process_kind kind st =
     (case st of (recorded_any, e) \<Rightarrow>
        (case row (en_transfers e) kind of
           None \<Rightarrow>
             (recorded_any,
              on_history (\<lambda>h. h\<lparr>hl_recorded := hl_recorded h |-| {|kind|},
                               hl_counted := fmdrop kind (hl_counted h)\<rparr>) e)
         | Some r \<Rightarrow>
             if row_is_finished r
             then if kind |\<in>| hl_recorded (en_history e) then (recorded_any, e)
                  else let e = on_history (\<lambda>h. h\<lparr>hl_recorded := finsert kind (hl_recorded h)\<rparr>) e;
                           entry = entry_for_row r e;
                           completed = completed_ids r e;
                           e = on_history (\<lambda>h. h\<lparr>hl_counted := fmupd kind completed (hl_counted h)\<rparr>) e
                       in (True, store_entry entry e)
             else (recorded_any,
                   on_history (\<lambda>h. h\<lparr>hl_recorded := hl_recorded h |-| {|kind|}\<rparr>) e)))"

definition process_row_changes :: "'w engine \<Rightarrow> 'w engine" where
  "process_row_changes e =
     (case take_changes (en_transfers e) of (changes, q) \<Rightarrow>
        let e = e\<lparr>en_transfers := q\<rparr>
        in if changes = [] then e
           else case fold process_kind (changed_kinds changes) (False, e) of
                  (recorded_any, e) \<Rightarrow> if recorded_any then publish_history e else e)"

definition record_failed_scan :: "nat \<Rightarrow> direction \<Rightarrow> string \<Rightarrow> 'w engine \<Rightarrow> 'w engine" where
  "record_failed_scan session_id direction label e =
     publish_history
       (store_entry (new_entry (ot_clock (en_outside e)) (session_name session_id e) direction label HFailed) e)"

section \<open>Publishing the transfers\<close>

definition scan_infos :: "'w engine \<Rightarrow> scan_info list" where
  "scan_infos e =
     map (\<lambda>s. \<lparr>si_batch_id = pn_batch_id s, si_label = pn_display_name s,
               si_direction = pn_direction s, si_state = RowScanning\<rparr>) (en_planning e) @
     map (\<lambda>r. \<lparr>si_batch_id = cr_batch_id r,
               si_label = (case batch_label (en_transfers e) (cr_batch_id r) of
                             Some label \<Rightarrow> label | None \<Rightarrow> ''copy''),
               si_direction = cr_direction r, si_state = RowAwaitingAnswer\<rparr>) (en_reviews e)"

definition engine_snapshot :: "'w engine \<Rightarrow> transfer_snapshot" where
  "engine_snapshot e = snapshot_of (ot_percent (en_outside e)) (en_transfers e) (scan_infos e)"

definition publish_transfers :: "'w engine \<Rightarrow> 'w engine" where
  "publish_transfers e =
     (let e = process_row_changes e;
          e = e\<lparr>en_transfers_dirty := False,
                en_last_progress_publish := Some (ot_now (en_outside e))\<rparr>;
          snapshot = engine_snapshot e
      in if snapshot \<noteq> en_published e
         then emit (TransfersChanged snapshot) (e\<lparr>en_published := snapshot\<rparr>)
         else e)"

definition request_publish :: "'w engine \<Rightarrow> 'w engine" where
  "request_publish e =
     (let due = en_publish_interval e = 0 \<or>
                (case en_last_progress_publish e of
                   None \<Rightarrow> True
                 | Some published_at \<Rightarrow>
                     en_publish_interval e \<le> ot_now (en_outside e) - published_at)
      in if due then publish_transfers e else e\<lparr>en_transfers_dirty := True\<rparr>)"

definition flush_deadline :: "'w engine \<Rightarrow> nat option" where
  "flush_deadline e =
     (if \<not> en_transfers_dirty e then None
      else map_option (\<lambda>published_at. published_at + en_publish_interval e) (en_last_progress_publish e))"

definition is_sync_scan :: "'w engine \<Rightarrow> row_kind \<Rightarrow> bool" where
  "is_sync_scan e kind \<longleftrightarrow>
     (case kind of Scan batch_id \<Rightarrow> batch_id |\<in>| sn_scanning (en_sync e) | _ \<Rightarrow> False)"

definition record_interrupted_row :: "queue_row \<Rightarrow> 'w engine \<Rightarrow> 'w engine" where
  "record_interrupted_row r e =
     (if qr_kind r |\<in>| hl_recorded (en_history e) then e
      else let e = on_history (\<lambda>h. h\<lparr>hl_recorded := finsert (qr_kind r) (hl_recorded h)\<rparr>) e
           in store_entry (entry_for_row r e) e)"

definition record_interrupted :: "'w engine \<Rightarrow> 'w engine" where
  "record_interrupted e =
     (let e = process_row_changes e;
          rows = filter (\<lambda>r. \<not> row_is_finished r \<and> \<not> is_sync_scan e (qr_kind r)) (ts_rows (engine_snapshot e))
      in fold record_interrupted_row rows e)"

section \<open>What these leave alone\<close>

lemma on_frames [frame_simps]:
  "en_transfers (on_history f e) = en_transfers e" "en_transfers (on_tasks g e) = en_transfers e"
  "en_transfers (on_transfers h e) = h (en_transfers e)"
  "en_history (on_transfers h e) = en_history e" "en_history (on_tasks g e) = en_history e"
  "en_history (on_history f e) = f (en_history e)"
  "en_tasks (on_history f e) = en_tasks e" "en_tasks (on_tasks g e) = g (en_tasks e)"
  "en_tasks (on_transfers h e) = en_tasks e"
  "en_sessions (on_history f e) = en_sessions e" "en_sessions (on_tasks g e) = en_sessions e"
  "en_sessions (on_transfers h e) = en_sessions e"
  by (simp_all add: on_history_def on_tasks_def on_transfers_def)

text \<open>
  Reporting and the history change the history, its writer, and the events sent; all the rest
  is kept.
\<close>

definition kept where
  "kept e =
     (en_transfers e, en_tasks e, en_sessions e, en_planning e, en_reviews e, en_edit e, en_sync e,
      en_max_parallel e, en_outside e, en_removed e, en_local_fs e, en_on_conflict e)"

lemma kept_fields:
  assumes "kept e = kept e'"
  shows "en_transfers e = en_transfers e'" "en_tasks e = en_tasks e'" "en_sessions e = en_sessions e'"
    "en_planning e = en_planning e'" "en_reviews e = en_reviews e'" "en_edit e = en_edit e'"
    "en_sync e = en_sync e'" "en_max_parallel e = en_max_parallel e'" "en_outside e = en_outside e'"
    "en_removed e = en_removed e'" "en_local_fs e = en_local_fs e'" "en_on_conflict e = en_on_conflict e'"
  using assms by (simp_all add: kept_def)

lemma kept_on_history: "kept (on_history f e) = kept e"
  by (simp add: kept_def on_history_def)

lemma kept_emit: "kept (emit ev e) = kept e"
  by (simp add: kept_def emit_def)

lemma kept_tell: "kept (report s m e) = kept e" "kept (announce s m e) = kept e" "kept (info m e) = kept e"
  by (simp_all add: report_def announce_def info_def kept_emit)

lemma kept_publish_history: "kept (publish_history e) = kept e"
  by (simp add: publish_history_def kept_emit)

lemma kept_history_failure: "kept (report_history_failure m c e) = kept e"
  by (simp add: report_history_failure_def kept_tell kept_on_history)

lemma kept_writer: "kept (e\<lparr>en_writer := w\<rparr>) = kept e"
  by (simp add: kept_def)

lemma kept_persist_history: "kept (persist_history c e) = kept e"
  by (simp add: persist_history_def Let_def kept_history_failure kept_on_history kept_writer
      split: prod.split sum.split)

lemma kept_store_entry: "kept (store_entry entry e) = kept e"
  by (simp add: store_entry_def kept_persist_history kept_on_history)

lemma kept_clear_history: "kept (clear_history e) = kept e"
  by (simp add: clear_history_def kept_publish_history kept_persist_history kept_on_history)

lemma kept_persist_failed: "kept (persist_failed m tag e) = kept e"
  by (simp add: persist_failed_def kept_history_failure)

lemma kept_record_failed_scan: "kept (record_failed_scan s d l e) = kept e"
  by (simp add: record_failed_scan_def kept_publish_history kept_store_entry)

lemma kept_process_kind: "kept (snd (process_kind kind st)) = kept (snd st)"
  by (cases st) (simp add: process_kind_def Let_def kept_store_entry kept_on_history split: option.split)

lemma kept_process_kinds: "kept (snd (fold process_kind kinds st)) = kept (snd st)"
  by (induction kinds arbitrary: st) (simp_all add: kept_process_kind)

lemma kept_process_row_changes:
  "kept (process_row_changes e) = kept (on_transfers (\<lambda>q. q\<lparr>tq_changes := []\<rparr>) e)"
proof -
  obtain any e' where "fold process_kind (changed_kinds (tq_changes (en_transfers e)))
      (False, e\<lparr>en_transfers := (en_transfers e)\<lparr>tq_changes := []\<rparr>\<rparr>) = (any, e')"
    by fastforce
  moreover have "kept e' = kept (e\<lparr>en_transfers := (en_transfers e)\<lparr>tq_changes := []\<rparr>\<rparr>)"
    using calculation kept_process_kinds by (metis snd_conv)
  ultimately show ?thesis
    by (simp add: process_row_changes_def take_changes_def on_transfers_def Let_def kept_publish_history)
qed

lemma kept_record_interrupted_row: "kept (record_interrupted_row r e) = kept e"
  by (simp add: record_interrupted_row_def Let_def kept_store_entry kept_on_history)

lemma kept_record_interrupted: "kept (record_interrupted e) = kept (process_row_changes e)"
proof -
  have "kept (fold record_interrupted_row rows x) = kept x" for rows and x :: "'a engine"
    by (induction rows arbitrary: x) (simp_all add: kept_record_interrupted_row)
  then show ?thesis by (simp add: record_interrupted_def Let_def)
qed

lemma kept_publish_transfers: "kept (publish_transfers e) = kept (process_row_changes e)"
  by (simp add: publish_transfers_def Let_def kept_emit) (simp add: kept_def)

lemmas tell_frames [frame_simps] =
  kept_fields [OF kept_emit] kept_fields [OF kept_tell(1)] kept_fields [OF kept_tell(2)]
  kept_fields [OF kept_tell(3)] kept_fields [OF kept_publish_history]
  kept_fields [OF kept_clear_history] kept_fields [OF kept_persist_failed]
  kept_fields [OF kept_record_failed_scan] kept_fields [OF kept_store_entry]

end
