(* ===== verification/Engine_Edit.thy ===== *)
theory Engine_Edit
  imports Engine_History
begin

text \<open>
  \<^verbatim>\<open>engine/handlers/edit\<close>: editing a remote file.  The file is downloaded to a private folder,
  the user edits it, and it is uploaded again if it has changed, with a question when the file
  on the server has changed too.  The private folder is removed when nothing in it is worth
  keeping.
\<close>

section \<open>The tasks\<close>

definition user_message :: "string \<Rightarrow> string \<Rightarrow> string" where
  "user_message context_text err = context_text @ '':'' @ [CHR 0x0A] @ err"

definition em_dash :: string where
  "em_dash = [CHR 0xE2, CHR 0x80, CHR 0x94]"

text \<open>The calls of \<^verbatim>\<open>std::fs\<close> on the private folder, and \<^verbatim>\<open>hash_file\<close>.\<close>

record 'w local_disk =
  ld_create_private_dir :: "path \<Rightarrow> ('w, unit) effect"
  ld_remove_dir :: "path \<Rightarrow> 'w \<Rightarrow> 'w"
  ld_set_private :: "path \<Rightarrow> ('w, unit) effect"
  ld_hash_file :: "path \<Rightarrow> ('w, nat) effect"

datatype prepared = PreparedReady temp_copy baseline | PreparedCancelled | PreparedFailed string

definition prepare ::
  "nat \<Rightarrow> 'w local_disk \<Rightarrow> 'w file_system \<Rightarrow> 'w file_system \<Rightarrow> path \<Rightarrow> path \<Rightarrow> string \<Rightarrow> 'w flag \<Rightarrow> 'w \<Rightarrow>
     (prepared \<times> 'w) option" where
  "prepare chunks disk fs local_fs remote dir name cancel w =
     (let shown = printable name;
          failed = (\<lambda>err. PreparedFailed (user_message (''Edit failed: '' @ shown) (pe_source err)))
      in (case fs_stat fs remote w of
            (Inl err, w) \<Rightarrow> Some (failed err, w)
          | (Inr before, w) \<Rightarrow>
              if metadata_is_dir before then Some (PreparedFailed ''Can't edit a folder'', w)
              else if MAX_EDIT_BYTES < m_size before
              then Some (PreparedFailed (shown @ '' is too large to edit (limit 64 MiB)''), w)
              else (case ld_create_private_dir disk dir w of
                      (Inl err, w) \<Rightarrow>
                        Some (PreparedFailed
                          (''Couldn't create a temporary folder for editing: '' @ pe_source err), w)
                    | (Inr _, w) \<Rightarrow>
                        let file = join_name dir name
                        in (case execute chunks fs remote local_fs file cancel False (\<lambda>_ w. w) w of
                              None \<Rightarrow> None
                            | Some (Inl err, w) \<Rightarrow> Some (failed err, ld_remove_dir disk dir w)
                            | Some (Inr TransferCancelled, w) \<Rightarrow>
                                Some (PreparedCancelled, ld_remove_dir disk dir w)
                            | Some (Inr TransferCompleted, w) \<Rightarrow>
                                (case ld_set_private disk file w of
                                   (Inl err, w) \<Rightarrow> Some (failed err, ld_remove_dir disk dir w)
                                 | (Inr _, w) \<Rightarrow>
                                     (case ld_hash_file disk file w of
                                        (Inl err, w) \<Rightarrow> Some (failed err, ld_remove_dir disk dir w)
                                      | (Inr hash, w) \<Rightarrow>
                                          Some (PreparedReady \<lparr>tc_dir = dir, tc_file = file\<rparr>
                                            \<lparr>bl_size = m_size before, bl_modified = m_modified before,
                                             bl_hash = hash\<rparr>, w)))))))"

datatype edit_event =
    EditPrepared nat prepared
  | EditInspected nat "string + bool" "int option"
  | EditConflict nat
  | EditUploaded nat "string + string"

text \<open>\<^verbatim>\<open>tokio::io::copy\<close>: reading up to a buffer and writing it, until there is no more.\<close>

definition COPY_BUFFER :: nat where
  "COPY_BUFFER = 8 * 1024"

fun io_copy ::
  "nat \<Rightarrow> 'w file_system \<Rightarrow> handle \<Rightarrow> 'w file_system \<Rightarrow> handle \<Rightarrow> ('w, unit) bounded" where
  "io_copy 0 source reader destination stream w = None"
| "io_copy (Suc chunks) source reader destination stream w =
     (case fs_read source reader COPY_BUFFER w of
        (Inl err, w) \<Rightarrow> Some (Inl err, w)
      | (Inr [], w) \<Rightarrow> Some (fs_flush destination stream w)
      | (Inr (b # bs), w) \<Rightarrow>
          (case fs_write_all destination stream (b # bs) w of
             (Inl err, w) \<Rightarrow> Some (Inl err, w)
           | (Inr _, w) \<Rightarrow> io_copy chunks source reader destination stream w))"

definition write_in_place ::
  "nat \<Rightarrow> 'w file_system \<Rightarrow> 'w file_system \<Rightarrow> path \<Rightarrow> path \<Rightarrow> ('w, unit) bounded" where
  "write_in_place chunks remote local_fs file target =
     bnd_bind (bounded_of (fs_stat local_fs file)) (\<lambda>m.
     bnd_bind (bounded_of (fs_open_read local_fs file 0)) (\<lambda>reader.
     bnd_bind (bounded_of (fs_open_write_sized remote target 0 (m_size m))) (\<lambda>writer.
     bnd_bind (io_copy chunks local_fs reader remote (w_stream writer)) (\<lambda>_.
       bounded_of (fs_shutdown remote (w_stream writer))))))"

definition upload_edit ::
  "nat \<Rightarrow> (nat \<Rightarrow> string) \<Rightarrow> upload_job \<Rightarrow> 'w file_system \<Rightarrow> 'w file_system \<Rightarrow> 'w \<Rightarrow> (edit_event \<times> 'w) option" where
  "upload_edit chunks stamp job fs local_fs w =
     (let failed = (\<lambda>err. EditUploaded (uj_edit_id job)
                       (Inl (user_message (''Upload failed: '' @ printable (uj_name job)) err)));
          send = (\<lambda>target w.
             (case write_in_place chunks fs local_fs (uj_file job) target w of
                None \<Rightarrow> None
              | Some (Inl err, w) \<Rightarrow> Some (failed (pe_source err), w)
              | Some (Inr _, w) \<Rightarrow>
                  Some (EditUploaded (uj_edit_id job)
                    (Inr (case file_name target of Some name \<Rightarrow> name | None \<Rightarrow> [])), w)))
      in case uj_mode job of
           Checked \<Rightarrow>
             (case fs_stat fs (uj_remote job) w of
                (Inr m, w) \<Rightarrow>
                  if m_size m \<noteq> bl_size (uj_baseline job) \<or> m_modified m \<noteq> bl_modified (uj_baseline job)
                  then Some (EditConflict (uj_edit_id job), w)
                  else send (uj_remote job) w
              | (Inl err, w) \<Rightarrow>
                  if pe_kind err = NotFound then Some (EditConflict (uj_edit_id job), w)
                  else Some (failed (pe_source err), w))
         | Forced \<Rightarrow> send (uj_remote job) w
         | KeepBoth \<Rightarrow>
             let target = with_file_name (uj_remote job) (conflict_copy_name (uj_name job) (stamp (uj_at job)))
             in (case fs_stat fs target w of
                   (Inr _, w) \<Rightarrow> Some (failed (string_of_path target @ '' already exists''), w)
                 | (Inl _, w) \<Rightarrow> send target w))"

section \<open>The state of an edit\<close>

definition on_edit :: "(edit_state \<Rightarrow> edit_state) \<Rightarrow> 'w engine \<Rightarrow> 'w engine" where
  "on_edit f e = e\<lparr>en_edit := f (en_edit e)\<rparr>"

definition edit_session_of :: "nat \<Rightarrow> 'w engine \<Rightarrow> edit_session option" where
  "edit_session_of edit_id e = fmlookup (et_sessions (en_edit e)) edit_id"

text \<open>\<^verbatim>\<open>sessions.get_mut(&edit_id)\<close> and a change to what it gives.\<close>

definition set_edit_session :: "nat \<Rightarrow> edit_session \<Rightarrow> 'w engine \<Rightarrow> 'w engine" where
  "set_edit_session edit_id s = on_edit (\<lambda>t. t\<lparr>et_sessions := fmupd edit_id s (et_sessions t)\<rparr>)"

definition remove_edit_session :: "nat \<Rightarrow> 'w engine \<Rightarrow> 'w engine" where
  "remove_edit_session edit_id = on_edit (\<lambda>t. t\<lparr>et_sessions := fmdrop edit_id (et_sessions t)\<rparr>)"

definition remove_dir :: "path \<Rightarrow> 'w engine \<Rightarrow> 'w engine" where
  "remove_dir dir e = e\<lparr>en_removed := en_removed e @ [dir]\<rparr>"

definition editor_failure :: "string \<Rightarrow> string" where
  "editor_failure message = ''Couldn't start the editor ('' @ message @ ''). Set $EDITOR or [edit] editor''"

definition new_edit_session :: "location \<Rightarrow> path \<Rightarrow> editor_command \<Rightarrow> 'w engine \<Rightarrow> nat \<times> 'w engine" where
  "new_edit_session location p editor e =
     (let edit_id = et_next_id (en_edit e);
          e = on_edit (\<lambda>t. t\<lparr>et_next_id := edit_id + 1\<rparr>) e;
          session = \<lparr>es_location = location, es_remote_path = p,
                     es_name = (case file_name p of Some name \<Rightarrow> name | None \<Rightarrow> []), es_editor = editor,
                     es_temp = None, es_baseline = None, es_pending = None,
                     es_awaiting_editor = False, es_saving = False\<rparr>
      in (edit_id, set_edit_session edit_id session e))"

definition edit_local_file :: "path \<Rightarrow> editor_command \<Rightarrow> 'w engine \<Rightarrow> 'w engine" where
  "edit_local_file p editor e =
     (if ot_is_dir (en_outside e) p then report SevWarning ''Can't edit a folder'' e
      else (case new_edit_session LocalSide p editor e of (edit_id, e) \<Rightarrow>
        let e = (case edit_session_of edit_id e of
                   None \<Rightarrow> e
                 | Some s \<Rightarrow> set_edit_session edit_id (s\<lparr>es_awaiting_editor := True\<rparr>) e)
        in emit (EditReady edit_id p editor) e))"

definition show_millis :: "nat \<Rightarrow> string" where
  "show_millis t = show_nat t"

definition edit_remote_file :: "nat \<Rightarrow> path \<Rightarrow> editor_command \<Rightarrow> 'w engine \<Rightarrow> 'w engine" where
  "edit_remote_file session_id p editor e =
     (case fs_for (SessionSide session_id) e of
        None \<Rightarrow> report SevError ''Edit failed: session disconnected'' e
      | Some fs \<Rightarrow>
          (case new_edit_session (SessionSide session_id) p editor e of (edit_id, e) \<Rightarrow>
            let name = (case edit_session_of edit_id e of Some s \<Rightarrow> es_name s | None \<Rightarrow> []);
                dir = join_name (ot_edit_dir (en_outside e))
                        (show_millis (ot_clock (en_outside e)) @ ''-'' @ show_nat edit_id);
                e = info (''Downloading '' @ printable name @ '' to edit'' @ [CHR 0xE2, CHR 0x80, CHR 0xA6]) e
            in on_tasks (spawn ''edit-download'' (EditScope edit_id)
                 (EditDownload edit_id fs (en_local_fs e) p dir name)) e))"

definition edit_file :: "location \<Rightarrow> path \<Rightarrow> 'w engine \<Rightarrow> 'w engine" where
  "edit_file location p e =
     (case resolve_editor (et_editor_setting (en_edit e)) (ot_editor (en_outside e)) of
        Inl message \<Rightarrow> report SevError (editor_failure message) e
      | Inr editor \<Rightarrow>
          (case location of
             LocalSide \<Rightarrow> edit_local_file p editor e
           | SessionSide session_id \<Rightarrow> edit_remote_file session_id p editor e))"

definition cancel_edit_downloads :: "'w engine \<Rightarrow> 'w engine" where
  "cancel_edit_downloads e =
     on_tasks (fold (\<lambda>i. cancel_scope (EditScope i))
       (sorted_list_of_fset (fmdom (et_sessions (en_edit e))))) e"

definition drop_edit :: "nat \<Rightarrow> 'w engine \<Rightarrow> 'w engine" where
  "drop_edit edit_id e =
     (let e = on_tasks (forget_scope (EditScope edit_id)) e
      in case edit_session_of edit_id e of
           None \<Rightarrow> e
         | Some s \<Rightarrow>
             let e = remove_edit_session edit_id e
             in (case es_temp s of None \<Rightarrow> e | Some temp \<Rightarrow> remove_dir (tc_dir temp) e))"

definition keep_edit :: "nat \<Rightarrow> severity \<Rightarrow> string \<Rightarrow> 'w engine \<Rightarrow> 'w engine" where
  "keep_edit edit_id severity reason e =
     (let e = on_tasks (forget_scope (EditScope edit_id)) e
      in case edit_session_of edit_id e of
           None \<Rightarrow> e
         | Some s \<Rightarrow>
             let e = remove_edit_session edit_id e;
                 reason = printable (map (\<lambda>c. if c = CHR 0x0A then CHR '' '' else c) reason)
             in (case es_temp s of
                   Some temp \<Rightarrow>
                     report severity (reason @ ''; your changes are kept in '' @
                       printable (string_of_path (tc_file temp))) e
                 | None \<Rightarrow> report severity reason e))"

definition ask_edit :: "nat \<Rightarrow> edit_question_kind \<Rightarrow> 'w engine \<Rightarrow> 'w engine" where
  "ask_edit edit_id kind e =
     (case edit_session_of edit_id e of
        None \<Rightarrow> e
      | Some s \<Rightarrow>
          emit (EditQuestion edit_id (es_name s) kind)
            (set_edit_session edit_id (s\<lparr>es_pending := Some kind, es_saving := False\<rparr>) e))"

definition finish_prepare :: "nat \<Rightarrow> prepared \<Rightarrow> 'w engine \<Rightarrow> 'w engine" where
  "finish_prepare edit_id result e =
     (case result of
        PreparedReady temp base \<Rightarrow>
          (case edit_session_of edit_id e of
             None \<Rightarrow> remove_dir (tc_dir temp) e
           | Some s \<Rightarrow>
               (case take_cancelled (EditScope edit_id) (en_tasks e) of (cancelled, tasks) \<Rightarrow>
                 let e = e\<lparr>en_tasks := tasks\<rparr>
                 in if cancelled
                    then info ''Edit cancelled'' (remove_dir (tc_dir temp) (remove_edit_session edit_id e))
                    else emit (EditReady edit_id (tc_file temp) (es_editor s))
                           (set_edit_session edit_id
                             (s\<lparr>es_baseline := Some base, es_awaiting_editor := True,
                                es_temp := Some temp\<rparr>) e)))
      | PreparedCancelled \<Rightarrow>
          info ''Edit cancelled''
            (remove_edit_session edit_id (on_tasks (forget_scope (EditScope edit_id)) e))
      | PreparedFailed message \<Rightarrow>
          report SevError message
            (remove_edit_session edit_id (on_tasks (forget_scope (EditScope edit_id)) e)))"

definition inspect_edit :: "nat \<Rightarrow> int option \<Rightarrow> 'w engine \<Rightarrow> 'w engine" where
  "inspect_edit edit_id aborted e =
     (case edit_session_of edit_id e of
        None \<Rightarrow> e
      | Some s \<Rightarrow>
          let e = set_edit_session edit_id (s\<lparr>es_saving := True\<rparr>) e
          in (case (es_temp s, es_baseline s) of
                (Some temp, Some base) \<Rightarrow>
                  on_tasks (spawn ''edit-inspect'' (EditScope edit_id)
                    (EditInspect edit_id temp base aborted)) e
              | _ \<Rightarrow>
                  report SevError ''Edit failed: the temporary copy is missing'' (drop_edit edit_id e)))"

text \<open>\<^verbatim>\<open>i32\<close> in a message.\<close>

definition show_int :: "int \<Rightarrow> string" where
  "show_int i = (if i < 0 then ''-'' @ show_nat (nat (- i)) else show_nat (nat i))"

definition finish_edit :: "nat \<Rightarrow> editor_exit \<Rightarrow> 'w engine \<Rightarrow> 'w engine" where
  "finish_edit edit_id exit_state e =
     (case edit_session_of edit_id e of
        None \<Rightarrow> e
      | Some s \<Rightarrow>
          if \<not> es_awaiting_editor s then e
          else
            let e = set_edit_session edit_id (s\<lparr>es_awaiting_editor := False\<rparr>) e
            in (case exit_state of
                  LaunchFailed message \<Rightarrow>
                    report SevError (editor_failure message) (drop_edit edit_id e)
                | ExitStatus code \<Rightarrow>
                    (case es_location s of
                       LocalSide \<Rightarrow>
                         emit (LocationChanged LocalSide)
                           (report SevWarning (''Editor exited with status '' @ show_int code)
                             (drop_edit edit_id e))
                     | SessionSide _ \<Rightarrow> inspect_edit edit_id (Some code) e)
                | ExitSuccess \<Rightarrow>
                    (case es_location s of
                       LocalSide \<Rightarrow> emit (LocationChanged LocalSide) (drop_edit edit_id e)
                     | SessionSide _ \<Rightarrow> inspect_edit edit_id None e)))"

definition start_upload :: "nat \<Rightarrow> upload_mode \<Rightarrow> 'w engine \<Rightarrow> 'w engine" where
  "start_upload edit_id mode e =
     (case edit_session_of edit_id e of
        None \<Rightarrow> e
      | Some s \<Rightarrow>
          (case (es_temp s, es_baseline s) of
             (Some temp, Some base) \<Rightarrow>
               let e = set_edit_session edit_id (s\<lparr>es_saving := True\<rparr>) e
               in (case fs_for (es_location s) e of
                     None \<Rightarrow>
                       keep_edit edit_id SevError
                         (''Upload failed: session disconnected ('' @ printable (es_name s) @ '')'') e
                   | Some fs \<Rightarrow>
                       on_tasks (spawn ''edit-upload'' (EditScope edit_id)
                         (EditUpload \<lparr>uj_edit_id = edit_id, uj_remote = es_remote_path s,
                            uj_file = tc_file temp, uj_baseline = base, uj_name = es_name s,
                            uj_mode = mode, uj_at = ot_clock (en_outside e)\<rparr> fs (en_local_fs e))) e)
           | _ \<Rightarrow> e))"

definition nothing_uploaded :: "int \<Rightarrow> string" where
  "nothing_uploaded code = ''Editor exited with status '' @ show_int code @ ''; nothing was uploaded''"

definition finish_inspect :: "nat \<Rightarrow> string + bool \<Rightarrow> int option \<Rightarrow> 'w engine \<Rightarrow> 'w engine" where
  "finish_inspect edit_id result aborted e =
     (case edit_session_of edit_id e of
        None \<Rightarrow> e
      | Some s \<Rightarrow>
          let name = printable (es_name s)
          in (case (result, aborted) of
                (Inl message, _) \<Rightarrow>
                  keep_edit edit_id SevError
                    (''Couldn't read the edited copy of '' @ name @ '': '' @ message) e
              | (Inr False, None) \<Rightarrow> info (''No changes to '' @ name) (drop_edit edit_id e)
              | (Inr False, Some code) \<Rightarrow>
                  report SevWarning (nothing_uploaded code) (drop_edit edit_id e)
              | (Inr True, Some code) \<Rightarrow> keep_edit edit_id SevWarning (nothing_uploaded code) e
              | (Inr True, None) \<Rightarrow>
                  if et_auto_upload (en_edit e) then start_upload edit_id Checked e
                  else ask_edit edit_id AskUpload e))"

definition finish_upload :: "nat \<Rightarrow> string + string \<Rightarrow> 'w engine \<Rightarrow> 'w engine" where
  "finish_upload edit_id result e =
     (case edit_session_of edit_id e of
        None \<Rightarrow> e
      | Some s \<Rightarrow>
          (case result of
             Inr name \<Rightarrow>
               info (''Uploaded '' @ printable name)
                 (emit (LocationChanged (es_location s)) (drop_edit edit_id e))
           | Inl message \<Rightarrow> keep_edit edit_id SevError message e))"

definition handle_edit_event :: "edit_event \<Rightarrow> 'w engine \<Rightarrow> 'w engine" where
  "handle_edit_event ev e =
     (case ev of
        EditPrepared edit_id result \<Rightarrow> finish_prepare edit_id result e
      | EditInspected edit_id result aborted \<Rightarrow> finish_inspect edit_id result aborted e
      | EditConflict edit_id \<Rightarrow> ask_edit edit_id AskConflict e
      | EditUploaded edit_id result \<Rightarrow> finish_upload edit_id result e)"

definition resolve_edit :: "nat \<Rightarrow> edit_choice \<Rightarrow> 'w engine \<Rightarrow> 'w engine" where
  "resolve_edit edit_id choice e =
     (case edit_session_of edit_id e of
        None \<Rightarrow> e
      | Some s \<Rightarrow>
          (case es_pending s of
             None \<Rightarrow> e
           | Some kind \<Rightarrow>
               let e = set_edit_session edit_id (s\<lparr>es_pending := None\<rparr>) e
               in (case (kind, choice) of
                     (AskUpload, ChooseUpload) \<Rightarrow> start_upload edit_id Checked e
                   | (AskConflict, ChooseUpload) \<Rightarrow> start_upload edit_id Forced e
                   | (AskConflict, ChooseKeepCopy) \<Rightarrow> start_upload edit_id KeepBoth e
                   | _ \<Rightarrow> keep_edit edit_id SevWarning ''Edit cancelled'' e)))"

definition edit_in_progress :: "nat \<Rightarrow> 'w engine \<Rightarrow> bool" where
  "edit_in_progress edit_id e \<longleftrightarrow> edit_session_of edit_id e \<noteq> None"

definition fail_edit :: "nat \<Rightarrow> string \<Rightarrow> 'w engine \<Rightarrow> 'w engine" where
  "fail_edit edit_id reason e = keep_edit edit_id SevError reason e"

definition publish_edit_busy :: "'w engine \<Rightarrow> 'w engine" where
  "publish_edit_busy e =
     (let busy = list_ex es_saving (fmvalues (et_sessions (en_edit e)))
      in if busy \<noteq> et_busy (en_edit e)
         then emit (EditsBusy busy) (on_edit (\<lambda>t. t\<lparr>et_busy := busy\<rparr>) e)
         else e)"

end
