(* ===== verification/Engine_Copy.thy ===== *)
theory Engine_Copy
  imports Engine_Edit "HOL-Library.While_Combinator"
begin

text \<open>
  \<^verbatim>\<open>engine/handlers/transfer\<close>: planning a copy, asking about conflicts, queueing the files of
  a plan, starting as many transfers as there are slots, and cancelling, retrying and clearing
  them.
\<close>

section \<open>Where files go\<close>

definition session_limit :: "'w engine \<Rightarrow> nat \<Rightarrow> nat option" where
  "session_limit e session_id =
     (case fmlookup (en_sessions e) session_id of
        None \<Rightarrow> None
      | Some session \<Rightarrow> fs_transfer_limit (ls_fs session))"

definition filesystems_for ::
  "'w engine \<Rightarrow> nat \<Rightarrow> direction \<Rightarrow> ('w file_system \<times> 'w file_system) option" where
  "filesystems_for e session_id direction =
     (case fmlookup (en_sessions e) session_id of
        None \<Rightarrow> None
      | Some session \<Rightarrow>
          Some (case direction of
                  Upload \<Rightarrow> (en_local_fs e, ls_fs session)
                | Download \<Rightarrow> (ls_fs session, en_local_fs e)))"

definition refresh_destination :: "nat \<Rightarrow> direction \<Rightarrow> 'w engine \<Rightarrow> 'w engine" where
  "refresh_destination session_id direction e =
     (case direction of
        Upload \<Rightarrow>
          if has_session e session_id then emit (LocationChanged (SessionSide session_id)) e else e
      | Download \<Rightarrow> emit (LocationChanged LocalSide) e)"

definition refresh_transfer_destination :: "nat \<Rightarrow> 'w engine \<Rightarrow> 'w engine" where
  "refresh_transfer_destination i e =
     (case get_job (en_transfers e) i of
        None \<Rightarrow> e
      | Some job \<Rightarrow>
          if has_pending (en_transfers e) (j_session_id job) (j_direction job) then e
          else refresh_destination (j_session_id job) (j_direction job) e)"

definition refresh_destinations_without_pending :: "(nat \<times> direction) list \<Rightarrow> 'w engine \<Rightarrow> 'w engine" where
  "refresh_destinations_without_pending destinations e =
     fold (\<lambda>(session_id, direction) e.
             if has_pending (en_transfers e) session_id direction then e
             else refresh_destination session_id direction e) destinations e"

text \<open>\<^verbatim>\<open>if !list.contains(&x) { list.push(x) }\<close>.\<close>

definition push_new :: "'a \<Rightarrow> 'a list \<Rightarrow> 'a list" where
  "push_new x xs = (if x \<in> set xs then xs else xs @ [x])"

section \<open>Starting transfers\<close>

definition start_transfer :: "nat \<Rightarrow> 'w engine \<Rightarrow> 'w engine" where
  "start_transfer i e =
     (case get_job (en_transfers e) i of
        None \<Rightarrow> e
      | Some job \<Rightarrow>
          (case filesystems_for e (j_session_id job) (j_direction job) of
             None \<Rightarrow>
               refresh_transfer_destination i
                 (report SevError
                   (''Transfer failed: '' @ j_display_name job @ '' '' @ em_dash @ '' session disconnected'')
                   (on_transfers
                     (with_guard i (\<lambda>job. job\<lparr>j_status := Failed ''session disconnected''\<rparr>)) e))
           | Some (source, destination) \<Rightarrow>
               let e = on_transfers
                         (with_guard i (\<lambda>job. job\<lparr>j_status := InProgress, j_attempts := j_attempts job + 1\<rparr>)) e;
                   remote_path = path_of_string (j_remote_path job);
                   (source_path, destination_path) =
                     (case j_direction job of
                        Upload \<Rightarrow> (j_local_path job, remote_path)
                      | Download \<Rightarrow> (remote_path, j_local_path job))
               in on_tasks (spawn ''transfer'' (TransferScope i)
                    (RunTransfer i (j_display_name job) source source_path destination destination_path
                       (j_resume job) (j_modified job))) e))"

definition startable_now :: "'w engine \<Rightarrow> nat list" where
  "startable_now e = startable_limited (en_transfers e) (en_max_parallel e) (session_limit e)"

text \<open>The loop ends when nothing can be started: proved below.\<close>

definition fill_transfer_slots :: "'w engine \<Rightarrow> 'w engine" where
  "fill_transfer_slots e =
     while (\<lambda>e. startable_now e \<noteq> []) (\<lambda>e. fold start_transfer (startable_now e) e) e"

section \<open>Planning a copy\<close>

definition start_copy_plan :: "nat \<Rightarrow> direction \<Rightarrow> entry list \<Rightarrow> path \<Rightarrow> 'w engine \<Rightarrow> 'w engine" where
  "start_copy_plan session_id direction entries dest_dir e =
     (case filesystems_for e session_id direction of
        None \<Rightarrow> report SevError ''Copy failed: session disconnected'' e
      | Some (source, destination) \<Rightarrow>
          let display_name = (case entries of
                                [en] \<Rightarrow> e_name en
                              | _ \<Rightarrow> show_nat (length entries) @ '' items'')
          in (case start_batch display_name (en_transfers e) of
                (batch_id, q) \<Rightarrow>
                  let e = e\<lparr>en_transfers := q,
                            en_planning := en_planning e @
                              [\<lparr>pn_batch_id = batch_id, pn_session_id = session_id,
                                pn_direction = direction, pn_display_name = display_name\<rparr>]\<rparr>
                  in on_tasks (spawn ''plan-copy'' (PlanningScope batch_id)
                       (PlanCopy batch_id session_id direction source destination entries dest_dir)) e))"

definition copy_entries :: "location \<Rightarrow> entry list \<Rightarrow> location \<Rightarrow> path \<Rightarrow> 'w engine \<Rightarrow> 'w engine" where
  "copy_entries source_side entries target_side dest_dir e =
     (case (case (source_side, target_side) of
              (LocalSide, SessionSide s) \<Rightarrow> Some (s, Upload)
            | (SessionSide s, LocalSide) \<Rightarrow> Some (s, Download)
            | _ \<Rightarrow> None) of
        None \<Rightarrow> report SevWarning ''Copying between two remote sessions isn't supported yet'' e
      | Some (session_id, direction) \<Rightarrow>
          if entries = [] then e
          else fill_transfer_slots (start_copy_plan session_id direction entries dest_dir e))"

definition clear_planning :: "nat \<Rightarrow> 'w engine \<Rightarrow> 'w engine" where
  "clear_planning batch_id e =
     on_tasks (forget_scope (PlanningScope batch_id))
       (e\<lparr>en_planning := filter (\<lambda>s. pn_batch_id s \<noteq> batch_id) (en_planning e)\<rparr>)"

section \<open>Queueing the files of a plan\<close>

definition enqueue_planned ::
  "nat \<Rightarrow> nat \<Rightarrow> direction \<Rightarrow> bool \<Rightarrow> planned_file \<Rightarrow> transfer_queue \<Rightarrow> transfer_queue" where
  "enqueue_planned batch_id session_id direction preserve_times f q =
     (let keep_modified = (if preserve_times then pf_source_modified f else None);
          (local_path, remote_path) =
            (case direction of
               Upload \<Rightarrow> (pf_source f, pf_destination f)
             | Download \<Rightarrow> (pf_destination f, pf_source f))
      in (case enqueue session_id direction local_path (path_to_remote_string remote_path)
                 (pf_display_name f) (pf_size f) (Some batch_id) q of
            (i, q) \<Rightarrow>
              let q = (if pf_resume f then with_guard i (\<lambda>j. j\<lparr>j_resume := True\<rparr>) q else q)
              in if keep_modified \<noteq> None then with_guard i (\<lambda>j. j\<lparr>j_modified := keep_modified\<rparr>) q else q))"

definition plural_s :: "nat \<Rightarrow> string" where
  "plural_s n = (if n = 1 then [] else ''s'')"

definition report_skipped :: "nat \<Rightarrow> resolved_plan \<Rightarrow> 'w engine \<Rightarrow> 'w engine" where
  "report_skipped skipped_symlinks resolved e =
     (let e = (if 0 < skipped_symlinks
               then report SevWarning (''Skipped '' @ show_nat skipped_symlinks @ '' symlink'' @
                      plural_s skipped_symlinks) e
               else e);
          e = (if 0 < rp_skipped resolved
               then info (''Skipped '' @ show_nat (rp_skipped resolved) @ '' existing file'' @
                      plural_s (rp_skipped resolved)) e
               else e);
          e = (if 0 < rp_skipped_partials resolved
               then info (''Skipped '' @ show_nat (rp_skipped_partials resolved) @ '' partly copied file'' @
                      plural_s (rp_skipped_partials resolved)) e
               else e)
      in if 0 < rp_blocked_by_folder resolved
         then report SevWarning (''Skipped '' @ show_nat (rp_blocked_by_folder resolved) @ '' '' @
                (if rp_blocked_by_folder resolved = 1
                 then ''file because a folder with the same name exists''
                 else ''files because folders with the same names exist'')) e
         else e)"

definition apply_plan_ready ::
  "nat \<Rightarrow> nat \<Rightarrow> direction \<Rightarrow> directory_plan \<Rightarrow> resolution list \<Rightarrow> bool \<Rightarrow> 'w engine \<Rightarrow> 'w engine" where
  "apply_plan_ready batch_id session_id direction plan answers preserve_times e =
     (let resolved = resolve plan answers;
          files = rp_files resolved;
          e = (if files = [] then refresh_destination session_id direction e else e);
          e = on_transfers (fold (enqueue_planned batch_id session_id direction preserve_times) files) e;
          e = report_skipped (dp_skipped_symlinks plan) resolved e;
          e = on_transfers (forget_batch_if_empty batch_id) e
      in fill_transfer_slots e)"

text \<open>\<^verbatim>\<open>collect::<Option<Vec<_>>>\<close>: all answers, or none.\<close>

fun all_some :: "'a option list \<Rightarrow> 'a list option" where
  "all_some [] = Some []"
| "all_some (x # xs) =
     (case x of None \<Rightarrow> None | Some a \<Rightarrow> map_option ((#) a) (all_some xs))"

definition review_or_apply_plan ::
  "nat \<Rightarrow> nat \<Rightarrow> direction \<Rightarrow> directory_plan \<Rightarrow> 'w engine \<Rightarrow> 'w engine" where
  "review_or_apply_plan batch_id session_id direction plan e =
     (let conflicts = conflict_indices plan
      in if conflicts = [] then apply_plan_ready batch_id session_id direction plan [] False e
         else (case all_some (map (\<lambda>i. resolution_for (en_on_conflict e) (dp_files plan ! i)) conflicts) of
                 Some answers \<Rightarrow> apply_plan_ready batch_id session_id direction plan answers False e
               | None \<Rightarrow>
                   let files = map (\<lambda>i. conflict_info_of (dp_files plan ! i)) conflicts;
                       e = e\<lparr>en_reviews := en_reviews e @
                               [\<lparr>cr_batch_id = batch_id, cr_session_id = session_id,
                                 cr_direction = direction, cr_plan = plan\<rparr>]\<rparr>
                   in emit (ConflictsFound batch_id files) e))"

fun remove_first :: "('a \<Rightarrow> bool) \<Rightarrow> 'a list \<Rightarrow> 'a list" where
  "remove_first P [] = []"
| "remove_first P (x # xs) = (if P x then xs else x # remove_first P xs)"

definition resolve_conflicts :: "nat \<Rightarrow> resolution list option \<Rightarrow> 'w engine \<Rightarrow> 'w engine" where
  "resolve_conflicts batch_id answers e =
     (case find (\<lambda>r. cr_batch_id r = batch_id) (en_reviews e) of
        None \<Rightarrow> e
      | Some review \<Rightarrow>
          let e = e\<lparr>en_reviews := remove_first (\<lambda>r. cr_batch_id r = batch_id) (en_reviews e)\<rparr>
          in (case answers of
                Some answers \<Rightarrow>
                  apply_plan_ready (cr_batch_id review) (cr_session_id review) (cr_direction review)
                    (cr_plan review) answers False e
              | None \<Rightarrow>
                  refresh_destination (cr_session_id review) (cr_direction review)
                    (info ''Copy cancelled''
                      (on_transfers (forget_batch_if_empty (cr_batch_id review)) e))))"

definition drop_conflict_reviews :: "(conflict_review \<Rightarrow> bool) \<Rightarrow> 'w engine \<Rightarrow> nat \<times> 'w engine" where
  "drop_conflict_reviews should_drop e =
     (let dropped = map cr_batch_id (filter should_drop (en_reviews e));
          e = e\<lparr>en_reviews := filter (\<lambda>r. \<not> should_drop r) (en_reviews e)\<rparr>;
          e = on_transfers (fold forget_batch_if_empty dropped) e;
          e = (if dropped \<noteq> [] then emit (ConflictsWithdrawn dropped) e else e)
      in (length dropped, e))"

section \<open>Cancelling, retrying, clearing\<close>

definition cancel_all_work :: "'w engine \<Rightarrow> 'w engine" where
  "cancel_all_work e =
     (let e = on_tasks (fold (\<lambda>s. cancel_scope (PlanningScope (pn_batch_id s))) (en_planning e)) e;
          e = on_tasks (fold (\<lambda>j. cancel_scope (TransferScope (j_id j))) (active_jobs (en_transfers e))) e
      in cancel_edit_downloads e)"

definition cancel_session_transfers :: "nat \<Rightarrow> 'w engine \<Rightarrow> nat \<times> 'w engine" where
  "cancel_session_transfers session_id e =
     (let scans = map pn_batch_id (filter (\<lambda>s. pn_session_id s = session_id) (en_planning e));
          e = on_tasks (fold (\<lambda>b. cancel_scope (PlanningScope b)) scans) e;
          active_ids = active_ids_for_session (en_transfers e) session_id;
          e = on_tasks (fold (\<lambda>i. cancel_scope (TransferScope i)) active_ids) e
      in (length scans + length active_ids, e))"

text \<open>The loop over the jobs of a row, with the destinations of the jobs it cancelled.\<close>

definition cancel_row_job ::
  "nat \<Rightarrow> (nat \<times> direction) list \<times> 'w engine \<Rightarrow> (nat \<times> direction) list \<times> 'w engine" where
  "cancel_row_job i st =
     (case st of (destinations, e) \<Rightarrow>
        (case get_job (en_transfers e) i of
           None \<Rightarrow> (destinations, e)
         | Some job \<Rightarrow>
             (case j_status job of
                Queued \<Rightarrow>
                  (push_new (j_session_id job, j_direction job) destinations,
                   on_transfers (with_guard i (\<lambda>j. j\<lparr>j_status := Cancelled\<rparr>)) e)
              | InProgress \<Rightarrow> (destinations, on_tasks (cancel_scope (TransferScope i)) e)
              | _ \<Rightarrow> (destinations, e))))"

definition cancel_row :: "row_kind \<Rightarrow> 'w engine \<Rightarrow> 'w engine" where
  "cancel_row kind e =
     (case kind of
        Scan batch_id \<Rightarrow>
          let e = (if list_ex (\<lambda>s. pn_batch_id s = batch_id) (en_planning e)
                   then on_tasks (cancel_scope (PlanningScope batch_id)) e else e)
          in snd (drop_conflict_reviews (\<lambda>r. cr_batch_id r = batch_id) e)
      | _ \<Rightarrow>
          (case fold cancel_row_job (map j_id (jobs_of (en_transfers e) kind)) ([], e) of
             (destinations, e) \<Rightarrow> refresh_destinations_without_pending destinations e))"

definition retry_row :: "row_kind \<Rightarrow> 'w engine \<Rightarrow> 'w engine" where
  "retry_row kind e =
     (let retryable = map j_id (filter (\<lambda>j. failed_or_cancelled (j_status j)) (jobs_of (en_transfers e) kind))
      in (case (case retryable of [] \<Rightarrow> None | i # _ \<Rightarrow> map_option j_session_id (get_job (en_transfers e) i)) of
            None \<Rightarrow> e
          | Some session_id \<Rightarrow>
              if \<not> has_session e session_id
              then report SevWarning ''Can't retry: session disconnected'' e
              else (case retry_jobs retryable (en_transfers e) of
                      (count, q) \<Rightarrow>
                        let e = e\<lparr>en_transfers := q\<rparr>
                        in if 0 < count then fill_transfer_slots e else e)))"

definition destinations_still_in_use :: "'w engine \<Rightarrow> destination fset" where
  "destinations_still_in_use e =
     fset_of_list (map job_destination (queue_jobs (en_transfers e))) |\<union>|
     fset_of_list (map part_destination
       (filter (\<lambda>j. queued_or_running (j_status j)) (queue_jobs (en_transfers e))))"

text \<open>The local partial files are removed at once, the remote ones by a task for each session.\<close>

fun remove_local_partials :: "transfer_job list \<Rightarrow> bool \<times> 'w engine \<Rightarrow> bool \<times> 'w engine" where
  "remove_local_partials [] st = st"
| "remove_local_partials (job # jobs) (removed, e) =
     (case j_direction job of
        Download \<Rightarrow>
          let part = push_suffix (j_local_path job) PART_SUFFIX
          in remove_local_partials jobs
               (removed \<or> ot_file_removed (en_outside e) part, e\<lparr>en_removed := en_removed e @ [part]\<rparr>)
      | Upload \<Rightarrow> remove_local_partials jobs (removed, e))"

definition remote_partials :: "transfer_job list \<Rightarrow> (nat, string list) fmap" where
  "remote_partials jobs =
     fold (\<lambda>job parts. fmupd (j_session_id job)
             (fmget_or [] parts (j_session_id job) @ [j_remote_path job @ PART_SUFFIX]) parts)
       (filter (\<lambda>j. j_direction j = Upload) jobs) fmempty"

definition remove_partials :: "transfer_job list \<Rightarrow> 'w engine \<Rightarrow> 'w engine" where
  "remove_partials interrupted e =
     (case remove_local_partials interrupted (False, e) of (removed_local, e) \<Rightarrow>
        let e = (if removed_local then emit (LocationChanged LocalSide) e else e);
            parts = remote_partials interrupted
        in fold (\<lambda>session_id e.
             (case fmlookup (en_sessions e) session_id of
                None \<Rightarrow> e
              | Some session \<Rightarrow>
                  on_tasks (spawn ''remove-partials'' BackgroundScope
                    (RemovePartials session_id (ls_fs session) (fmget_or [] parts session_id))) e))
             (ot_ids (en_outside e) (fmdom parts)) e)"

definition clear_finished_rows :: "'w engine \<Rightarrow> 'w engine" where
  "clear_finished_rows e =
     (let finished_ids = concat (map (\<lambda>r. map j_id (jobs_of (en_transfers e) (qr_kind r)))
            (filter row_is_finished (queue_rows_of (en_transfers e))));
          interrupted = filter (\<lambda>j. failed_or_cancelled (j_status j)) (jobs_at (en_transfers e) finished_ids);
          protected = destinations_still_in_use e;
          e = on_transfers (remove_jobs (ot_kinds (en_outside e)) finished_ids) e
      in remove_partials (filter (\<lambda>j. part_destination j |\<notin>| protected) interrupted) e)"

end
