(* ===== verification/Engine_Sync.thy ===== *)
theory Engine_Sync
  imports Engine_Copy
begin

text \<open>
  \<^verbatim>\<open>engine/handlers/sync\<close>: comparing two folders in the background, keeping the plan until the
  user has chosen, checking the choices against the plan, and queueing the copies.
\<close>

section \<open>From choices to files\<close>

definition existing_of_facts :: "sync_facts \<Rightarrow> existing_file" where
  "existing_of_facts f = \<lparr>ef_size = sf_size f, ef_modified = sf_modified f, ef_is_dir = False\<rparr>"

definition planned_sync_file :: "sync_plan \<Rightarrow> sync_item \<Rightarrow> sync_action \<Rightarrow> planned_file option" where
  "planned_sync_file plan item action =
     (let local_path = path_join (sp_local_root plan) (sy_path item);
          remote_path = path_join (sp_remote_root plan) (sy_path item);
          sides = (case action of
                     SUpload \<Rightarrow> Some (local_path, remote_path, sy_local item, sy_remote item)
                   | SDownload \<Rightarrow> Some (remote_path, local_path, sy_remote item, sy_local item)
                   | SSkip \<Rightarrow> None)
      in (case sides of
            Some (source, destination, Some source_facts, onto) \<Rightarrow>
              Some \<lparr>pf_source = source, pf_destination = destination,
                    pf_display_name = string_of_path (sy_path item), pf_size = sf_size source_facts,
                    pf_existing = map_option existing_of_facts onto,
                    pf_source_modified = sf_modified source_facts, pf_partial = None,
                    pf_resume = False\<rparr>
          | _ \<Rightarrow> None))"

text \<open>The ancestors of one destination that lie strictly below the root, up to the first that does not.\<close>

definition folders_below :: "path \<Rightarrow> path \<Rightarrow> path list" where
  "folders_below root destination =
     takeWhile (\<lambda>a. a \<noteq> root \<and> path_starts_with a root) (tl (path_ancestors destination))"

definition missing_folders :: "planned_file list \<Rightarrow> path \<Rightarrow> path fset" where
  "missing_folders files root =
     fset_of_list (concat (map (\<lambda>f. folders_below root (pf_destination f)) files))"

fun create_folders :: "'w file_system \<Rightarrow> path list \<Rightarrow> 'w flag \<Rightarrow> ('w, bool) effect" where
  "create_folders fs [] cancel = eff_return True"
| "create_folders fs (folder # folders) cancel =
     eff_bind (eff_flag cancel) (\<lambda>stop.
       if stop then eff_return False
       else eff_bind (ensure_directory fs folder) (\<lambda>_. create_folders fs folders cancel))"

section \<open>Scanning\<close>

definition on_sync :: "(sync_state \<Rightarrow> sync_state) \<Rightarrow> 'w engine \<Rightarrow> 'w engine" where
  "on_sync f e = e\<lparr>en_sync := f (en_sync e)\<rparr>"

definition is_scanning :: "'w engine \<Rightarrow> nat \<Rightarrow> bool" where
  "is_scanning e batch_id \<longleftrightarrow> batch_id |\<in>| sn_scanning (en_sync e)"

definition stop_scanning :: "nat \<Rightarrow> 'w engine \<Rightarrow> 'w engine" where
  "stop_scanning batch_id = on_sync (\<lambda>s. s\<lparr>sn_scanning := sn_scanning s |-| {|batch_id|}\<rparr>)"

text \<open>Announcing a background scan: its batch, its row, its mark.\<close>

definition begin_scan :: "nat \<Rightarrow> direction \<Rightarrow> string \<Rightarrow> 'w engine \<Rightarrow> nat \<times> 'w engine" where
  "begin_scan session_id direction display_name e =
     (case start_batch display_name (en_transfers e) of
        (batch_id, q) \<Rightarrow>
          (batch_id,
           on_sync (\<lambda>s. s\<lparr>sn_scanning := finsert batch_id (sn_scanning s)\<rparr>)
             (e\<lparr>en_transfers := q,
                en_planning := en_planning e @
                  [\<lparr>pn_batch_id = batch_id, pn_session_id = session_id, pn_direction = direction,
                    pn_display_name = display_name\<rparr>]\<rparr>)))"

definition start_sync :: "nat \<Rightarrow> path \<Rightarrow> path \<Rightarrow> sync_options \<Rightarrow> 'w engine \<Rightarrow> 'w engine" where
  "start_sync session_id local_dir remote_dir options e =
     (case validate_options options of
        Some message \<Rightarrow> report SevWarning message e
      | None \<Rightarrow>
          (case fmlookup (en_sessions e) session_id of
             None \<Rightarrow> report SevWarning ''Sync failed: session disconnected'' e
           | Some live \<Rightarrow>
               let remote = ls_fs live; local_fs = en_local_fs e
               in if so_direction options = Both \<and> \<not> (fs_can_set_modified local_fs \<and> fs_can_set_modified remote)
                  then report SevWarning (''Both can't be used with '' @ ls_name live @
                         '': it can't keep modification times'') e
                  else
                    let tolerance = max (fs_time_resolution local_fs) (fs_time_resolution remote);
                        target_keeps_times =
                          (case so_direction options of
                             LocalToRemote \<Rightarrow> fs_can_set_modified remote
                           | RemoteToLocal \<Rightarrow> fs_can_set_modified local_fs
                           | Both \<Rightarrow> True)
                    in (case begin_scan session_id Upload (''sync '' @ string_of_path local_dir) e of
                          (batch_id, e) \<Rightarrow>
                            on_tasks (spawn ''sync-scan'' (PlanningScope batch_id)
                              (SyncScan batch_id session_id local_fs local_dir remote remote_dir options
                                 tolerance target_keeps_times)) e)))"

text \<open>What the scanning task makes of the two scans.\<close>

definition scanned_plan ::
  "nat \<Rightarrow> nat \<Rightarrow> path \<Rightarrow> path \<Rightarrow> sync_options \<Rightarrow> nat \<Rightarrow> bool \<Rightarrow> scanned \<times> scanned \<Rightarrow> sync_plan" where
  "scanned_plan batch_id session_id local_dir remote_dir options tolerance target_keeps_times scans =
     (case scans of (local_scan, remote_scan) \<Rightarrow>
        \<lparr>sp_sync_id = batch_id, sp_session = session_id, sp_local_root = local_dir,
         sp_remote_root = remote_dir, sp_options = options,
         sp_items = compare_trees (sc_tree local_scan) (sc_tree remote_scan) options tolerance
                      target_keeps_times,
         sp_skipped_symlinks = sc_skipped_symlinks local_scan + sc_skipped_symlinks remote_scan\<rparr>)"

definition sync_cancelled :: "nat \<Rightarrow> 'w engine \<Rightarrow> 'w engine" where
  "sync_cancelled batch_id e =
     (let e = stop_scanning batch_id e;
          session = map_option pn_session_id (find (\<lambda>s. pn_batch_id s = batch_id) (en_planning e));
          e = clear_planning batch_id e;
          e = on_transfers (forget_batch_if_empty batch_id) e
      in if (case session of None \<Rightarrow> False | Some s \<Rightarrow> has_session e s)
         then info ''Sync cancelled'' e else e)"

definition sync_failed :: "nat \<Rightarrow> string \<Rightarrow> 'w engine \<Rightarrow> 'w engine" where
  "sync_failed batch_id message e =
     report SevError message
       (on_transfers (forget_batch_if_empty batch_id) (clear_planning batch_id (stop_scanning batch_id e)))"

definition take_cancelled_scope :: "scope \<Rightarrow> 'w engine \<Rightarrow> bool \<times> 'w engine" where
  "take_cancelled_scope s e =
     (case take_cancelled s (en_tasks e) of (cancelled, tasks) \<Rightarrow> (cancelled, e\<lparr>en_tasks := tasks\<rparr>))"

definition sync_plan_ready :: "nat \<Rightarrow> sync_plan \<Rightarrow> 'w engine \<Rightarrow> 'w engine" where
  "sync_plan_ready batch_id plan e =
     (case take_cancelled_scope (PlanningScope batch_id) e of
        (True, e) \<Rightarrow> sync_cancelled batch_id e
      | (False, e) \<Rightarrow>
          let e = on_transfers (forget_batch_if_empty batch_id) (clear_planning batch_id (stop_scanning batch_id e))
          in if \<not> has_session e (sp_session plan)
             then report SevError ''Sync failed: session disconnected'' e
             else
               let e = (if 0 < sp_skipped_symlinks plan
                        then report SevWarning (''Skipped '' @ show_nat (sp_skipped_symlinks plan) @
                               '' symlink'' @ plural_s (sp_skipped_symlinks plan)) e
                        else e)
               in if sp_items plan = [] then info ''Folders are in sync'' e
                  else emit (SyncPlanReady plan)
                         (on_sync (\<lambda>s. s\<lparr>sn_plans := fmupd batch_id plan (sn_plans s)\<rparr>) e))"

section \<open>Running a plan\<close>

record chosen =
  ch_uploads :: "planned_file list"
  ch_downloads :: "planned_file list"
  ch_seen :: "nat fset"
  ch_refused :: nat

definition refuse :: "chosen \<Rightarrow> chosen" where
  "refuse ch = ch\<lparr>ch_refused := ch_refused ch + 1\<rparr>"

definition take_choice :: "sync_plan \<Rightarrow> nat \<times> sync_action \<Rightarrow> chosen \<Rightarrow> chosen" where
  "take_choice plan choice ch =
     (case choice of (i, action) \<Rightarrow>
        (case (if i < length (sp_items plan) \<and> sy_id (sp_items plan ! i) = i
               then Some (sp_items plan ! i) else None) of
           None \<Rightarrow> refuse ch
         | Some item \<Rightarrow>
             if i |\<in>| ch_seen ch then refuse ch
             else
               let ch = ch\<lparr>ch_seen := finsert i (ch_seen ch)\<rparr>
               in if action = SSkip then ch
                  else if \<not> allows item action (so_direction (sp_options plan)) \<or>
                          \<not> (action = sy_action item \<or> sy_flippable item)
                  then refuse ch
                  else (case planned_sync_file plan item action of
                          Some f \<Rightarrow>
                            if action = SUpload then ch\<lparr>ch_uploads := ch_uploads ch @ [f]\<rparr>
                            else ch\<lparr>ch_downloads := ch_downloads ch @ [f]\<rparr>
                        | None \<Rightarrow> refuse ch)))"

definition take_choices :: "sync_plan \<Rightarrow> (nat \<times> sync_action) list \<Rightarrow> chosen" where
  "take_choices plan choices =
     fold (take_choice plan) choices
       \<lparr>ch_uploads = [], ch_downloads = [], ch_seen = {||}, ch_refused = 0\<rparr>"

definition arrow :: "direction \<Rightarrow> string" where
  "arrow direction =
     (case direction of Upload \<Rightarrow> [CHR 0xE2, CHR 0x86, CHR 0x91] | Download \<Rightarrow> [CHR 0xE2, CHR 0x86, CHR 0x93])"

definition start_sync_batch :: "sync_plan \<Rightarrow> direction \<Rightarrow> planned_file list \<Rightarrow> 'w engine \<Rightarrow> 'w engine" where
  "start_sync_batch plan direction files e =
     (case fmlookup (en_sessions e) (sp_session plan) of
        None \<Rightarrow> e
      | Some live \<Rightarrow>
          let (target_fs, target_root) =
                (case direction of
                   Upload \<Rightarrow> (ls_fs live, sp_remote_root plan)
                 | Download \<Rightarrow> (en_local_fs e, sp_local_root plan))
          in (case begin_scan (sp_session plan) direction
                     (''sync '' @ arrow direction @ '' '' @ string_of_path target_root) e of
                (batch_id, e) \<Rightarrow>
                  on_tasks (spawn ''sync-folders'' (PlanningScope batch_id)
                    (SyncFolders batch_id (sp_session plan) direction target_fs
                       (sorted_list_of_fset (missing_folders files target_root)) files)) e))"

definition run_sync :: "nat \<Rightarrow> (nat \<times> sync_action) list \<Rightarrow> 'w engine \<Rightarrow> 'w engine" where
  "run_sync sync_id choices e =
     (case fmlookup (sn_plans (en_sync e)) sync_id of
        None \<Rightarrow> report SevWarning ''That sync plan is no longer available'' e
      | Some plan \<Rightarrow>
          let e = on_sync (\<lambda>s. s\<lparr>sn_plans := fmdrop sync_id (sn_plans s)\<rparr>) e
          in if \<not> has_session e (sp_session plan)
             then report SevError ''Sync failed: session disconnected'' e
             else
               let ch = take_choices plan choices;
                   e = (if 0 < ch_refused ch
                        then report SevWarning (''Ignored '' @ show_nat (ch_refused ch) @ '' sync choice'' @
                               plural_s (ch_refused ch) @ '' that '' @
                               (if ch_refused ch = 1 then ''doesn't'' else ''don't'') @ '' apply'') e
                        else e)
               in if ch_uploads ch = [] \<and> ch_downloads ch = [] then info ''Nothing to sync'' e
                  else fold (\<lambda>(direction, files) e.
                         if files = [] then e else start_sync_batch plan direction files e)
                         [(Upload, ch_uploads ch), (Download, ch_downloads ch)] e)"

definition sync_folders_ready :: "nat \<Rightarrow> nat \<Rightarrow> direction \<Rightarrow> directory_plan \<Rightarrow> 'w engine \<Rightarrow> 'w engine" where
  "sync_folders_ready batch_id session_id direction plan e =
     (if \<not> is_scanning e batch_id then e
      else (case take_cancelled_scope (PlanningScope batch_id) e of
              (True, e) \<Rightarrow> sync_cancelled batch_id e
            | (False, e) \<Rightarrow>
                let e = clear_planning batch_id (stop_scanning batch_id e)
                in if \<not> has_session e session_id
                   then report SevError ''Sync failed: session disconnected''
                          (on_transfers (forget_batch_if_empty batch_id) e)
                   else apply_plan_ready batch_id session_id direction plan
                          (replicate (length (conflict_indices plan)) Overwrite) True e))"

definition cancel_sync :: "nat \<Rightarrow> 'w engine \<Rightarrow> 'w engine" where
  "cancel_sync sync_id e =
     (if is_scanning e sync_id then on_tasks (cancel_scope (PlanningScope sync_id)) e
      else on_sync (\<lambda>s. s\<lparr>sn_plans := fmdrop sync_id (sn_plans s)\<rparr>) e)"

definition drop_sync_plans :: "(sync_plan \<Rightarrow> bool) \<Rightarrow> 'w engine \<Rightarrow> 'w engine" where
  "drop_sync_plans should_drop e =
     (let plans = sn_plans (en_sync e);
          dropped = map sp_sync_id (filter should_drop
            (List.map_filter (fmlookup plans) (ot_ids (en_outside e) (fmdom plans))));
          e = on_sync (\<lambda>s. s\<lparr>sn_plans := fold fmdrop dropped (sn_plans s)\<rparr>) e
      in if dropped \<noteq> [] then emit (SyncWithdrawn dropped) e else e)"

end
