(* ===== verification/Engine.thy ===== *)
theory Engine
  imports Engine_Sync
begin

text \<open>
  \<^verbatim>\<open>engine\<close>: the loop.  The engine takes a command of the user interface or a result of a task,
  runs its handler to the end, records the rows that changed, and publishes.
\<close>

section \<open>Results of tasks (handlers/transfer)\<close>

datatype transfer_event =
    Progress nat nat
  | TransferFinished nat transfer_outcome
  | TransferFailed nat string
  | CopyPlanReady nat nat direction directory_plan
  | CopyPlanFailed nat string
  | CopyPlanCancelled nat nat direction
  | PartialsRemoved nat
  | TimesNotKept nat
  | SyncPlanned nat sync_plan
  | SyncWasCancelled nat
  | SyncHasFailed nat string
  | SyncFoldersReady nat nat direction directory_plan

definition transfer_finished :: "nat \<Rightarrow> transfer_outcome \<Rightarrow> 'w engine \<Rightarrow> 'w engine" where
  "transfer_finished i outcome e =
     (let e = on_tasks (forget_scope (TransferScope i)) e;
          e = on_transfers (with_guard i (\<lambda>j. j\<lparr>j_status :=
                (case outcome of TransferCompleted \<Rightarrow> Completed | TransferCancelled \<Rightarrow> Cancelled)\<rparr>)) e
      in fill_transfer_slots (refresh_transfer_destination i e))"

definition transfer_failed :: "nat \<Rightarrow> string \<Rightarrow> 'w engine \<Rightarrow> 'w engine" where
  "transfer_failed i message e =
     (case take_cancelled_scope (TransferScope i) e of (cancelled, e) \<Rightarrow>
        let known = get_job (en_transfers e) i \<noteq> None;
            e = on_transfers (with_guard i (\<lambda>j. j\<lparr>j_status := if cancelled then Cancelled else Failed message\<rparr>)) e;
            (retried, e) =
              (if cancelled then (False, e)
               else (case retry_or_give_up i (en_transfers e) of (b, q) \<Rightarrow> (b, e\<lparr>en_transfers := q\<rparr>)));
            e = (if retried then e
                 else
                   let e = (if \<not> cancelled \<and> known then announce SevError message e
                            else if \<not> cancelled then report SevError message e else e)
                   in refresh_transfer_destination i e)
        in fill_transfer_slots e)"

definition times_not_kept :: "nat \<Rightarrow> 'w engine \<Rightarrow> 'w engine" where
  "times_not_kept i e =
     (case get_job (en_transfers e) i of
        None \<Rightarrow> e
      | Some job \<Rightarrow>
          (case j_batch_id job of
             None \<Rightarrow> e
           | Some batch_id \<Rightarrow>
               (case flag_unkept_times batch_id (en_transfers e) of (first, q) \<Rightarrow>
                 let e = e\<lparr>en_transfers := q\<rparr>;
                     connection = (case j_direction job of
                                     Upload \<Rightarrow> session_name (j_session_id job) e
                                   | Download \<Rightarrow> ''this computer'')
                 in if first
                    then report SevWarning (''Couldn't keep the modification times on '' @ connection @
                           ''; the next sync will list these files again'') e
                    else e)))"

definition copy_plan_failed :: "nat \<Rightarrow> string \<Rightarrow> 'w engine \<Rightarrow> 'w engine" where
  "copy_plan_failed batch_id message e =
     (let scan = find (\<lambda>s. pn_batch_id s = batch_id) (en_planning e);
          e = on_transfers (forget_batch_if_empty batch_id) (clear_planning batch_id e)
      in (case scan of
            Some s \<Rightarrow>
              announce SevError message
                (record_failed_scan (pn_session_id s) (pn_direction s) (pn_display_name s) e)
          | None \<Rightarrow> report SevError message e))"

definition handle_transfer_event :: "transfer_event \<Rightarrow> 'w engine \<Rightarrow> 'w engine" where
  "handle_transfer_event ev e =
     (case ev of
        Progress i transferred \<Rightarrow>
          on_transfers (with_guard i (\<lambda>j. j\<lparr>j_transferred_bytes := transferred\<rparr>)) e
      | TransferFinished i outcome \<Rightarrow> transfer_finished i outcome e
      | TransferFailed i message \<Rightarrow> transfer_failed i message e
      | CopyPlanReady batch_id session_id direction plan \<Rightarrow>
          (let e = clear_planning batch_id e
           in if \<not> has_session e session_id
              then on_transfers (forget_batch_if_empty batch_id)
                     (report SevError ''Copy failed: session disconnected'' e)
              else review_or_apply_plan batch_id session_id direction plan e)
      | CopyPlanFailed batch_id message \<Rightarrow> copy_plan_failed batch_id message e
      | SyncPlanned batch_id plan \<Rightarrow> sync_plan_ready batch_id plan e
      | SyncWasCancelled batch_id \<Rightarrow> sync_cancelled batch_id e
      | SyncHasFailed batch_id message \<Rightarrow> sync_failed batch_id message e
      | SyncFoldersReady batch_id session_id direction plan \<Rightarrow>
          sync_folders_ready batch_id session_id direction plan e
      | TimesNotKept i \<Rightarrow> times_not_kept i e
      | PartialsRemoved session_id \<Rightarrow> refresh_destination session_id Upload e
      | CopyPlanCancelled batch_id session_id direction \<Rightarrow>
          (let e = on_transfers (forget_batch_if_empty batch_id) (clear_planning batch_id e);
               e = (if has_session e session_id then info ''Copy cancelled'' e else e)
           in refresh_destination session_id direction e))"

section \<open>Ending work\<close>

definition cancel_all_copies :: "'w engine \<Rightarrow> 'w engine" where
  "cancel_all_copies e =
     (let e = snd (drop_conflict_reviews (\<lambda>_. True) e);
          e = drop_sync_plans (\<lambda>_. True) e;
          e = cancel_all_work e;
          destinations = fold (\<lambda>j. push_new (j_session_id j, j_direction j)) (queued_jobs (en_transfers e)) [];
          e = on_transfers (\<lambda>q. snd (cancel_all_queued q)) e
      in refresh_destinations_without_pending destinations e)"

text \<open>\<^verbatim>\<open>finish_connect\<close>, for the session it creates; what the session can do is announced.\<close>

definition finish_connect :: "string \<Rightarrow> bool \<Rightarrow> 'w file_system \<Rightarrow> 'w engine \<Rightarrow> 'w engine" where
  "finish_connect name shell_available fs e =
     (let session = en_next_session_id e;
          e = e\<lparr>en_next_session_id := session + 1,
                en_sessions := fmupd session \<lparr>ls_name = name, ls_fs = fs\<rparr> (en_sessions e)\<rparr>
      in emit (SessionCapabilities session (fs_can_set_modified fs))
           (emit (Connected session name shell_available) e))"

definition disconnect :: "nat \<Rightarrow> 'w engine \<Rightarrow> 'w engine" where
  "disconnect session e =
     (case fmlookup (en_sessions e) session of
        None \<Rightarrow> e
      | Some live \<Rightarrow>
          let e = e\<lparr>en_sessions := fmdrop session (en_sessions e)\<rparr>;
              e = on_history (remember_session session (ls_name live)) e;
              (failed, q) = fail_queued_for_session session ''session disconnected'' (en_transfers e);
              e = e\<lparr>en_transfers := q\<rparr>;
              (cancelled, e) = cancel_session_transfers session e;
              (dropped, e) = drop_conflict_reviews (\<lambda>r. cr_session_id r = session) e;
              e = drop_sync_plans (\<lambda>p. sp_session p = session) e;
              affected = failed + cancelled + dropped;
              e = (if 0 < affected
                   then info (show_nat affected @ '' transfer'' @ plural_s affected @ '' cancelled '' @
                          em_dash @ '' session disconnected'') e
                   else e)
          in emit (Disconnected session (ls_name live)) (info (''Disconnected from '' @ ls_name live) e))"

section \<open>Commands and internal events\<close>

text \<open>
  The commands whose handlers are modelled; those for listings, searches, profiles, passwords
  and bookmarks act on other parts of the engine.
\<close>

datatype command =
    Disconnect nat
  | Copy location "entry list" location path
  | ResolveConflicts nat "resolution list option"
  | CancelAllTransfers
  | CancelRow row_kind
  | RetryRow row_kind
  | ClearFinished
  | ListHistory
  | ClearHistory
  | EditFile location path
  | FinishEdit nat editor_exit
  | ResolveEdit nat edit_choice
  | StartSync nat path path sync_options
  | RunSync nat "(nat \<times> sync_action) list"
  | CancelSync nat

definition run_command :: "command \<Rightarrow> 'w engine \<Rightarrow> 'w engine" where
  "run_command c e =
     (case c of
        Disconnect session \<Rightarrow> disconnect session e
      | Copy source_side entries target_side dest_dir \<Rightarrow>
          copy_entries source_side entries target_side dest_dir e
      | ResolveConflicts batch_id answers \<Rightarrow> resolve_conflicts batch_id answers e
      | CancelAllTransfers \<Rightarrow> cancel_all_copies e
      | CancelRow kind \<Rightarrow> cancel_row kind e
      | RetryRow kind \<Rightarrow> retry_row kind e
      | ClearFinished \<Rightarrow> clear_finished_rows e
      | ListHistory \<Rightarrow> publish_history e
      | ClearHistory \<Rightarrow> clear_history e
      | EditFile location p \<Rightarrow> edit_file location p e
      | FinishEdit edit_id exit_state \<Rightarrow> finish_edit edit_id exit_state e
      | ResolveEdit edit_id choice \<Rightarrow> resolve_edit edit_id choice e
      | StartSync session local_dir remote_dir options \<Rightarrow> start_sync session local_dir remote_dir options e
      | RunSync sync_id choices \<Rightarrow> run_sync sync_id choices e
      | CancelSync sync_id \<Rightarrow> cancel_sync sync_id e)"

text \<open>What follows every handler.\<close>

definition settle :: "'w engine \<Rightarrow> 'w engine" where
  "settle e = request_publish (publish_edit_busy (process_row_changes e))"

definition handle_command :: "command \<Rightarrow> 'w engine \<Rightarrow> 'w engine" where
  "handle_command c e = settle (run_command c e)"

definition recover_from_panic :: "string \<Rightarrow> scope \<Rightarrow> 'w engine \<Rightarrow> 'w engine" where
  "recover_from_panic name scope e =
     (let failed = ''A background task failed: '' @ name
      in case scope of
           TransferScope i \<Rightarrow>
             if (case get_job (en_transfers e) i of None \<Rightarrow> False | Some j \<Rightarrow> j_status j = InProgress)
             then handle_transfer_event (TransferFailed i failed) e else announce SevError failed e
         | PlanningScope batch_id \<Rightarrow>
             if is_scanning e batch_id then sync_failed batch_id failed e
             else if list_ex (\<lambda>s. pn_batch_id s = batch_id) (en_planning e)
             then handle_transfer_event (CopyPlanFailed batch_id failed) e
             else announce SevError failed e
         | EditScope edit_id \<Rightarrow>
             if edit_in_progress edit_id e then fail_edit edit_id failed e else announce SevError failed e
         | _ \<Rightarrow> announce SevError failed e)"

text \<open>The results of the key store and of connecting that fails act on other parts of the engine.\<close>

datatype 'w internal =
    SessionReady string bool "'w file_system"
  | TransferInternal transfer_event
  | EditInternal edit_event
  | PersistFailed string nat
  | TaskPanicked string scope

definition handle_internal :: "'w internal \<Rightarrow> 'w engine \<Rightarrow> 'w engine" where
  "handle_internal done_now e =
     (case done_now of
        SessionReady name shell_available fs \<Rightarrow> settle (finish_connect name shell_available fs e)
      | EditInternal ev \<Rightarrow> settle (handle_edit_event ev e)
      | PersistFailed message tag \<Rightarrow> settle (persist_failed message tag e)
      | TaskPanicked name scope \<Rightarrow> settle (recover_from_panic name scope e)
      | TransferInternal ev \<Rightarrow>
          (case ev of
             Progress i transferred \<Rightarrow>
               request_publish (on_transfers (with_guard i (\<lambda>j. j\<lparr>j_transferred_bytes := transferred\<rparr>)) e)
           | _ \<Rightarrow> settle (handle_transfer_event ev e)))"

section \<open>Shutting down\<close>

definition apply_late_result :: "'w internal \<Rightarrow> 'w engine \<Rightarrow> 'w engine" where
  "apply_late_result done_now e =
     (case done_now of
        EditInternal (EditUploaded edit_id result) \<Rightarrow> handle_edit_event (EditUploaded edit_id result) e
      | PersistFailed message tag \<Rightarrow> persist_failed message tag e
      | _ \<Rightarrow> e)"

definition close_en_writer :: "'w engine \<Rightarrow> 'w engine" where
  "close_en_writer e = e\<lparr>en_writer := close_writer (ot_paths (en_outside e)) (en_writer e)\<rparr>"

text \<open>
  \<^verbatim>\<open>shutdown_work\<close>, with the results that still arrive while it waits for the tasks, and the
  tables the wait sees.
\<close>

definition shutdown_work :: "'w internal list \<Rightarrow> 'w work tasks list \<Rightarrow> 'w engine \<Rightarrow> 'w engine" where
  "shutdown_work late tables e =
     (let e = on_tasks cancel_all_tasks (cancel_all_work e);
          e = close_en_writer (record_interrupted e);
          e = fold apply_late_result late e
      in on_tasks (\<lambda>t. shutdown_tasks t tables) e)"

definition run_end :: "'w internal list \<Rightarrow> 'w work tasks list \<Rightarrow> 'w engine \<Rightarrow> 'w engine" where
  "run_end late tables e =
     shutdown_work late tables (if en_transfers_dirty e then publish_transfers e else e)"

end
