(* ===== verification/Queue_Slots.thy ===== *)
theory Queue_Slots
  imports Queue_Behaviour
begin

text \<open>
  How the engine uses the queue: it starts jobs only in the rounds \<^const>\<open>startable_limited\<close>
  chooses, and its other changes never put a job in progress.  What follows for the running
  jobs: there are never more than the limit, no two write the same destination, and a job is
  attempted only so often.
\<close>

section \<open>Calm changes and rounds of starts\<close>

definition start_body :: "transfer_job \<Rightarrow> transfer_job" where
  "start_body j = j\<lparr>j_status := InProgress, j_attempts := j_attempts j + 1\<rparr>"

definition fail_body :: "string \<Rightarrow> transfer_job \<Rightarrow> transfer_job" where
  "fail_body reason j = j\<lparr>j_status := Failed reason\<rparr>"

text \<open>A change of a job that leaves it in its place.\<close>

definition calm :: "(transfer_job \<Rightarrow> transfer_job) \<Rightarrow> bool" where
  "calm f \<longleftrightarrow> keeps_identity f \<and>
     (\<forall>j. job_destination (f j) = job_destination j \<and> j_attempts (f j) = j_attempts j \<and>
        j_status (f j) = j_status j)"

definition end_body :: "job_status \<Rightarrow> transfer_job \<Rightarrow> transfer_job" where
  "end_body s j = j\<lparr>j_status := s\<rparr>"

text \<open>One round: every chosen job is started, or failed when its session is gone.\<close>

definition start_round ::
  "nat \<Rightarrow> (nat \<Rightarrow> nat option) \<Rightarrow> (nat \<Rightarrow> bool) \<Rightarrow> string \<Rightarrow> transfer_queue \<Rightarrow> transfer_queue" where
  "start_round limit lim alive reason q =
     fold (\<lambda>i. with_guard i (if alive i then start_body else fail_body reason))
       (startable_limited q limit lim) q"

text \<open>The changes that neither start nor end a job in progress.\<close>

inductive quiet_step :: "transfer_queue \<Rightarrow> transfer_queue \<Rightarrow> bool" where
  Enqueue: "quiet_step q (snd (enqueue s d l r name bytes batch q))"
| Start_Batch: "quiet_step q (snd (start_batch label q))"
| Forget_Batch: "quiet_step q (forget_batch_if_empty b q)"
| Flag: "quiet_step q (snd (flag_unkept_times b q))"
| Change: "calm body \<Longrightarrow> quiet_step q (with_guard i body q)"
| Cancel_One: "get_job q i = Some j \<Longrightarrow> j_status j = Queued \<Longrightarrow>
    quiet_step q (with_guard i (\<lambda>j. j\<lparr>j_status := Cancelled\<rparr>) q)"
| Retry: "quiet_step q (snd (retry_jobs ids q))"
| Remove: "list_all (\<lambda>i. i |\<notin>| tq_running q) ids \<Longrightarrow> quiet_step q (remove_jobs hash_order ids q)"
| Cancel_Queued: "quiet_step q (snd (cancel_all_queued q))"
| Fail_Queued: "quiet_step q (snd (fail_queued_for_session s reason q))"
| Give_Up: "i |\<notin>| tq_running q \<Longrightarrow> quiet_step q (snd (retry_or_give_up i q))"
| Take_Changes: "quiet_step q (snd (take_changes q))"

inductive_cases quiet_stepE: "quiet_step q q'"

inductive slot_step :: "nat \<Rightarrow> transfer_queue \<Rightarrow> transfer_queue \<Rightarrow> bool" for limit where
  Quiet: "quiet_step q q' \<Longrightarrow> slot_step limit q q'"
| Finish: "\<not> queued_or_running s \<Longrightarrow> slot_step limit q (with_guard i (end_body s) q)"
| Start: "slot_step limit q (start_round limit lim alive reason q)"

inductive_cases slot_stepE: "slot_step limit q q'"

text \<open>Every such step is a sequence of steps of the queue.\<close>

lemma keeps_identity_bodies:
  "keeps_identity start_body" "keeps_identity (fail_body reason)" "keeps_identity (end_body s)"
  by (simp_all add: keeps_identity_def start_body_def fail_body_def end_body_def)

lemma fold_guards_steps:
  "(\<And>i. keeps_identity (b i)) \<Longrightarrow> queue_step\<^sup>*\<^sup>* q (fold (\<lambda>i. with_guard i (b i)) ids q)"
proof (induction ids arbitrary: q)
  case (Cons i ids)
  then show ?case
    using queue_step.Change [of "b i" q i] by (auto intro: converse_rtranclp_into_rtranclp)
qed simp

lemma quiet_step_queue_step: "quiet_step q q' \<Longrightarrow> queue_step q q'"
  by (erule quiet_stepE)
     (auto simp: calm_def keeps_identity_def intro!: queue_step.intros queue_step.Change)

lemma quiet_step_consistent: "consistent q \<Longrightarrow> quiet_step q q' \<Longrightarrow> consistent q'"
  using queue.step_inv quiet_step_queue_step by blast

lemma slot_step_queue_steps: "slot_step limit q q' \<Longrightarrow> queue_step\<^sup>*\<^sup>* q q'"
proof (erule slot_stepE)
  fix lim alive reason
  assume "q' = start_round limit lim alive reason q"
  then show "queue_step\<^sup>*\<^sup>* q q'"
    by (simp add: start_round_def fold_guards_steps keeps_identity_bodies)
qed (auto intro: queue_step.Change [OF keeps_identity_bodies(3)] quiet_step_queue_step)

lemma slot_steps_queue_steps: "(slot_step limit)\<^sup>*\<^sup>* q q' \<Longrightarrow> queue_step\<^sup>*\<^sup>* q q'"
  by (induction rule: rtranclp_induct) (auto dest: slot_step_queue_steps)

lemma slot_step_consistent: "consistent q \<Longrightarrow> slot_step limit q q' \<Longrightarrow> consistent q'"
  using queue.steps_inv slot_step_queue_steps by blast

lemma slot_steps_consistent: "(slot_step limit)\<^sup>*\<^sup>* q q' \<Longrightarrow> consistent q \<Longrightarrow> consistent q'"
  using queue.steps_inv slot_steps_queue_steps by blast

section \<open>What holds of the running jobs\<close>

definition attempts_ok :: "transfer_job \<Rightarrow> bool" where
  "attempts_ok j \<longleftrightarrow> j_attempts j \<le> MAX_ATTEMPTS \<and> (j_status j = Queued \<longrightarrow> j_attempts j < MAX_ATTEMPTS) \<and>
     (j_status j = InProgress \<longrightarrow> 1 \<le> j_attempts j)"

definition apart_running :: "transfer_queue \<Rightarrow> bool" where
  "apart_running q \<longleftrightarrow>
     (\<forall>i k. i |\<in>| tq_running q \<longrightarrow> k |\<in>| tq_running q \<longrightarrow> i \<noteq> k \<longrightarrow> destination_of q i \<noteq> destination_of q k)"

definition slots_ok :: "nat \<Rightarrow> transfer_queue \<Rightarrow> bool" where
  "slots_ok limit q \<longleftrightarrow> consistent q \<and> fcard (tq_running q) \<le> limit \<and> apart_running q \<and>
     (\<forall>i j. fmlookup (tq_jobs q) i = Some j \<longrightarrow> attempts_ok j)"

lemma running_iff:
  "consistent q \<Longrightarrow> i |\<in>| tq_running q \<longleftrightarrow> (\<exists>j. fmlookup (tq_jobs q) i = Some j \<and> j_status j = InProgress)"
  by (auto simp: consistent_def ledger_def indexes_ok_def holds_job_def split: option.splits)

lemma queued_iff:
  "consistent q \<Longrightarrow> i |\<in>| tq_queued q \<longleftrightarrow> (\<exists>j. fmlookup (tq_jobs q) i = Some j \<and> j_status j = Queued)"
  by (auto simp: consistent_def ledger_def indexes_ok_def holds_job_def split: option.splits)

text \<open>A job after a calm step: one there was, not newly in progress, or a new one.\<close>

definition tame :: "transfer_job \<Rightarrow> transfer_job \<Rightarrow> bool" where
  "tame j j' \<longleftrightarrow> job_destination j' = job_destination j \<and>
     (j_status j' = InProgress \<longrightarrow> j_status j = InProgress) \<and> (attempts_ok j \<longrightarrow> attempts_ok j')"

lemma tame_refl [simp]: "tame j j"
  by (simp add: tame_def)

lemma calm_tame: "calm f \<Longrightarrow> tame j (f j)"
  by (simp add: calm_def tame_def attempts_ok_def)

definition fresh_job :: "transfer_job \<Rightarrow> bool" where
  "fresh_job j \<longleftrightarrow> j_status j = Queued \<and> j_attempts j = 0"

lemma tame_slots:
  assumes ok: "slots_ok limit q" and con: "consistent q'"
    and jobs: "\<And>i j'. fmlookup (tq_jobs q') i = Some j' \<Longrightarrow>
                 (\<exists>j. fmlookup (tq_jobs q) i = Some j \<and> tame j j') \<or> fresh_job j'"
  shows "slots_ok limit q'"
proof -
  have q: "consistent q" using ok by (simp add: slots_ok_def)
  have run: "i |\<in>| tq_running q \<and> destination_of q' i = destination_of q i" if "i |\<in>| tq_running q'" for i
    using that jobs [of i] running_iff [OF q, of i] running_iff [OF con, of i]
    by (auto simp: tame_def fresh_job_def destination_of_def)
  then have "tq_running q' |\<subseteq>| tq_running q" by blast
  then have "fcard (tq_running q') \<le> limit"
    using ok fcard_mono [of "tq_running q'" "tq_running q"] by (simp add: slots_ok_def)
  moreover have "apart_running q'" using run ok by (auto simp: slots_ok_def apart_running_def)
  moreover have "attempts_ok j'" if "fmlookup (tq_jobs q') i = Some j'" for i j'
    using jobs [OF that] ok by (auto simp: slots_ok_def tame_def fresh_job_def attempts_ok_def MAX_ATTEMPTS_def)
  ultimately show ?thesis using con by (simp add: slots_ok_def)
qed

text \<open>A round of starts.\<close>

lemma fold_guards_jobs:
  "distinct ids \<Longrightarrow> fmlookup (tq_jobs (fold (\<lambda>i. with_guard i (b i)) ids q)) k =
     (if k \<in> set ids then map_option (b k) (fmlookup (tq_jobs q) k) else fmlookup (tq_jobs q) k)"
  by (induction ids arbitrary: q) (auto simp: with_guard_update frame_simps)

lemma chosen_facts:
  assumes "consistent q" and "ids = startable_limited q limit lim"
  shows "distinct ids" "i \<in> set ids \<Longrightarrow> i |\<in>| tq_queued q" "length ids \<le> limit - fcard (tq_running q)"
    "i \<in> set ids \<Longrightarrow> k \<in> set ids \<Longrightarrow> i \<noteq> k \<Longrightarrow> destination_of q i \<noteq> destination_of q k"
    "i \<in> set ids \<Longrightarrow> k |\<in>| tq_running q \<Longrightarrow> destination_of q i \<noteq> destination_of q k"
proof -
  note choice = startable_choice [OF assms(1), of lim limit, folded assms(2), unfolded choice_ok_def]
  then have sub: "subseq ids (sorted_list_of_fset (tq_queued q))" by blast
  then obtain N where N: "ids = nths (sorted_list_of_fset (tq_queued q)) N" by (auto simp: subseq_conv_nths)
  show "distinct ids" unfolding N by (rule distinct_nthsI) simp
  show "i \<in> set ids \<Longrightarrow> i |\<in>| tq_queued q"
    unfolding N using set_nths_subset [of "sorted_list_of_fset (tq_queued q)" N] by (auto dest: in_set_nthsD)
  show "length ids \<le> limit - fcard (tq_running q)" using choice by blast
  show "i \<in> set ids \<Longrightarrow> k \<in> set ids \<Longrightarrow> i \<noteq> k \<Longrightarrow> destination_of q i \<noteq> destination_of q k"
    using choice by (auto simp: distinct_map inj_on_def)
  assume i: "i \<in> set ids" and k: "k |\<in>| tq_running q"
  obtain j where j: "fmlookup (tq_jobs q) k = Some j" using running_iff [OF assms(1)] k by blast
  then have "j \<in> set (active_jobs q)" using k active_jobs_members [OF assms(1)] by blast
  then show "destination_of q i \<noteq> destination_of q k"
    using choice i j by (auto simp: fset_of_list_elem destination_of_def)
qed

lemma start_round_slots:
  assumes ok: "slots_ok limit q"
  shows "slots_ok limit (start_round limit lim alive reason q)"
proof -
  define ids where "ids = startable_limited q limit lim"
  let ?b = "\<lambda>i. if alive i then start_body else fail_body reason"
  let ?q = "start_round limit lim alive reason q"
  have q: "consistent q" using ok by (simp add: slots_ok_def)
  note chosen = chosen_facts [OF q ids_def]
  have con: "consistent ?q" by (rule slot_step_consistent [OF q slot_step.Start])
  have jobs: "fmlookup (tq_jobs ?q) k =
      (if k \<in> set ids then map_option (?b k) (fmlookup (tq_jobs q) k) else fmlookup (tq_jobs q) k)" for k
    unfolding start_round_def ids_def [symmetric] by (rule fold_guards_jobs [OF chosen(1)])
  have dest: "destination_of ?q k = destination_of q k" for k
    by (auto simp: destination_of_def jobs start_body_def fail_body_def job_destination_def
        option.map_comp comp_def intro!: map_option_cong split: direction.split)
  have run: "i |\<in>| tq_running q \<or> i \<in> set ids" if "i |\<in>| tq_running ?q" for i
    using that by (auto simp: running_iff [OF con] running_iff [OF q] jobs split: if_splits)
  have "tq_running ?q |\<subseteq>| tq_running q |\<union>| fset_of_list ids"
    by (rule fsubsetI, drule run) (auto simp: fset_of_list_elem)
  then have "fcard (tq_running ?q) \<le> fcard (tq_running q |\<union>| fset_of_list ids)" by (rule fcard_mono)
  also have "\<dots> \<le> fcard (tq_running q) + length ids"
    using card_Un_le [of "fset (tq_running q)" "set ids"] card_length [of ids]
    by (simp add: fcard.rep_eq fset_of_list.rep_eq)
  also have "\<dots> \<le> limit" using chosen(3) ok unfolding slots_ok_def by linarith
  finally have "fcard (tq_running ?q) \<le> limit" .
  moreover have "apart_running ?q"
    unfolding apart_running_def dest
    using run chosen(4,5) ok by (metis apart_running_def slots_ok_def)
  moreover have "attempts_ok j'" if "fmlookup (tq_jobs ?q) i = Some j'" for i j'
  proof (cases "i \<in> set ids")
    case True
    obtain j where j: "fmlookup (tq_jobs q) i = Some j" "j_status j = Queued"
      using chosen(2) [OF True] queued_iff [OF q, of i] by blast
    moreover have "attempts_ok j" using ok j(1) by (auto simp: slots_ok_def)
    moreover have "j' = ?b i j" using that jobs [of i] True j by simp
    ultimately show ?thesis
      by (simp add: attempts_ok_def start_body_def fail_body_def)
  qed (use that jobs ok in \<open>auto simp: slots_ok_def\<close>)
  ultimately show ?thesis using con by (simp add: slots_ok_def)
qed

text \<open>A round that chooses something leaves fewer queued jobs.\<close>

lemma start_round_progress:
  assumes q: "consistent q" and some: "startable_limited q limit lim \<noteq> []"
  shows "fcard (tq_queued (start_round limit lim alive reason q)) < fcard (tq_queued q)"
proof -
  define ids where "ids = startable_limited q limit lim"
  let ?b = "\<lambda>i. if alive i then start_body else fail_body reason"
  let ?q = "start_round limit lim alive reason q"
  note chosen = chosen_facts [OF q ids_def]
  have con: "consistent ?q" by (rule slot_step_consistent [OF q slot_step.Start])
  have jobs: "fmlookup (tq_jobs ?q) k =
      (if k \<in> set ids then map_option (?b k) (fmlookup (tq_jobs q) k) else fmlookup (tq_jobs q) k)" for k
    unfolding start_round_def ids_def [symmetric] by (rule fold_guards_jobs [OF chosen(1)])
  have left: "i |\<in>| tq_queued q \<and> i \<notin> set ids" if "i |\<in>| tq_queued ?q" for i
    using that by (auto simp: queued_iff [OF con] queued_iff [OF q] jobs start_body_def fail_body_def split: if_splits)
  obtain i where "i \<in> set ids" using some by (cases ids) (auto simp: ids_def)
  then have "i |\<in>| tq_queued q" "i |\<notin>| tq_queued ?q" using chosen(2) left by blast+
  then have "tq_queued ?q |\<subset>| tq_queued q" using left by blast
  then show ?thesis by (rule pfsubset_fcard_mono)
qed

section \<open>The steps keep it\<close>

lemma tame_bodies:
  "tame j (j\<lparr>j_status := Cancelled\<rparr>)" "tame j (j\<lparr>j_status := Failed r\<rparr>)"
  "j_attempts j < MAX_ATTEMPTS \<Longrightarrow> tame j (j\<lparr>j_status := Queued, j_resume := True\<rparr>)"
  by (auto simp: tame_def attempts_ok_def job_destination_def split: direction.split)

lemma retry_one_tame:
  "fmlookup (tq_jobs (snd (retry_one cq i))) k = Some j' \<Longrightarrow>
     \<exists>j. fmlookup (tq_jobs (snd cq)) k = Some j \<and> tame j j'"
  by (cases cq)
     (auto simp: retry_one_def frame_simps tame_def attempts_ok_def job_destination_def MAX_ATTEMPTS_def
        split: option.splits if_splits direction.splits)

lemma tame_trans: "tame j j' \<Longrightarrow> tame j' j'' \<Longrightarrow> tame j j''"
  by (auto simp: tame_def)

lemma retry_jobs_tame:
  "fmlookup (tq_jobs (snd (retry_jobs ids q))) k = Some j' \<Longrightarrow>
     \<exists>j. fmlookup (tq_jobs q) k = Some j \<and> tame j j'"
proof -
  have "fmlookup (tq_jobs (snd (foldl retry_one cq ids))) k = Some j' \<Longrightarrow>
      \<exists>j. fmlookup (tq_jobs (snd cq)) k = Some j \<and> tame j j'" for cq
  proof (induction ids arbitrary: cq)
    case (Cons i ids)
    then show ?case using retry_one_tame [of cq i k] tame_trans by fastforce
  qed auto
  then show "fmlookup (tq_jobs (snd (retry_jobs ids q))) k = Some j' \<Longrightarrow> ?thesis"
    by (simp add: retry_jobs_def) (metis snd_conv)
qed

lemma retry_jobs_running:
  "fmlookup (tq_jobs q) k = Some j \<Longrightarrow> j_status j = InProgress \<Longrightarrow>
     fmlookup (tq_jobs (snd (retry_jobs ids q))) k = Some j"
proof -
  have one: "fmlookup (tq_jobs (snd cq)) k = Some j \<Longrightarrow> j_status j = InProgress \<Longrightarrow>
      fmlookup (tq_jobs (snd (retry_one cq i))) k = Some j" for cq i
    by (cases cq) (auto simp: retry_one_def frame_simps failed_or_cancelled_def
        split: option.splits if_splits job_status.splits)
  have "fmlookup (tq_jobs (snd cq)) k = Some j \<Longrightarrow> j_status j = InProgress \<Longrightarrow>
      fmlookup (tq_jobs (snd (foldl retry_one cq ids))) k = Some j" for cq
    by (induction ids arbitrary: cq) (simp_all add: one)
  then show "fmlookup (tq_jobs q) k = Some j \<Longrightarrow> j_status j = InProgress \<Longrightarrow> ?thesis"
    by (simp add: retry_jobs_def)
qed

lemma quiet_step_jobs:
  assumes q: "consistent q" and step: "quiet_step q q'" and j': "fmlookup (tq_jobs q') i = Some j'"
  shows "(\<exists>j. fmlookup (tq_jobs q) i = Some j \<and> tame j j') \<or> fresh_job j'"
  using step
proof cases
  case (Enqueue s d l r name bytes batch)
  then show ?thesis using j' by (auto simp: enqueue_jobs enqueued_job_def fresh_job_def split: if_splits)
next
  case (Change body k)
  then show ?thesis using j' calm_tame by (auto simp: with_guard_update frame_simps split: if_splits)
next
  case (Cancel_One k)
  then show ?thesis using j' tame_bodies(1) by (auto simp: with_guard_update frame_simps split: if_splits)
next
  case (Retry ids)
  then show ?thesis using j' retry_jobs_tame by blast
next
  case (Remove ids hash_order)
  then show ?thesis using j' q by (auto simp: remove_jobs_lookup split: if_splits)
next
  case Cancel_Queued
  then show ?thesis using j' by (auto simp: cancel_all_queued_jobs tame_bodies split: if_splits)
next
  case (Fail_Queued s reason)
  then show ?thesis using j' by (auto simp: fail_queued_for_session_jobs tame_bodies split: if_splits)
next
  case (Give_Up k)
  then show ?thesis using j'
    by (auto simp: retry_or_give_up_def frame_simps tame_bodies split: option.splits if_splits)
qed (use j' in \<open>auto simp: start_batch_def Let_def forget_batch_if_empty_def flag_unkept_times_def
    take_changes_def split: if_splits\<close>)

lemma queued_in_session: "consistent q \<Longrightarrow> i |\<in>| fmget_or {||} (tq_queued_by_session q) s \<Longrightarrow> i |\<in>| tq_queued q"
  by (auto simp: consistent_def ledger_def indexes_ok_def holds_job_def split: option.splits)

lemma quiet_step_running:
  assumes q: "consistent q" and step: "quiet_step q q'"
  shows "tq_running q' = tq_running q"
proof -
  have q': "consistent q'" by (rule quiet_step_consistent [OF q step])
  have no_queued: "i |\<notin>| tq_queued q" if "i |\<in>| tq_running q" for i
    using that by (auto simp: running_iff [OF q] queued_iff [OF q])
  have keeps: "\<exists>j'. fmlookup (tq_jobs q') i = Some j' \<and> j_status j' = InProgress"
    if i: "i |\<in>| tq_running q" for i
  proof -
    obtain j where j: "fmlookup (tq_jobs q) i = Some j" "j_status j = InProgress"
      using i by (auto simp: running_iff [OF q])
    from step show ?thesis
    proof cases
      case (Enqueue s d l r name bytes batch)
      have "i < tq_next_id q" using j queue.holds_issued [OF q, of i] by (simp add: has_job_def)
      then show ?thesis using j by (simp add: Enqueue enqueue_jobs)
    next
      case (Change body k)
      then show ?thesis using j by (auto simp: with_guard_update frame_simps calm_def)
    next
      case (Cancel_One k)
      then show ?thesis using j by (auto simp: with_guard_update frame_simps get_job_def)
    next
      case (Retry ids)
      then show ?thesis using j retry_jobs_running by blast
    next
      case (Remove ids hash_order)
      then show ?thesis using j i q by (auto simp: remove_jobs_lookup list_all_iff)
    next
      case Cancel_Queued
      then show ?thesis using j no_queued [OF i] by (simp add: cancel_all_queued_jobs)
    next
      case (Fail_Queued s reason)
      then show ?thesis using j no_queued [OF i] queued_in_session [OF q]
        by (auto simp: fail_queued_for_session_jobs)
    next
      case (Give_Up k)
      then show ?thesis using j i
        by (auto simp: retry_or_give_up_def frame_simps split: option.splits)
    qed (use j in \<open>auto simp: start_batch_def Let_def forget_batch_if_empty_def flag_unkept_times_def
        take_changes_def\<close>)
  qed
  have "i |\<in>| tq_running q" if "i |\<in>| tq_running q'" for i
    using that quiet_step_jobs [OF q step, of i]
    by (auto simp: running_iff [OF q] running_iff [OF q'] tame_def fresh_job_def)
  then show ?thesis using keeps by (auto simp: running_iff [OF q'])
qed

lemma finish_running:
  assumes "consistent q" and "\<not> queued_or_running s"
  shows "tq_running (with_guard i (end_body s) q) = tq_running q |-| {|i|}"
proof -
  have "consistent (with_guard i (end_body s) q)"
    by (rule slot_step_consistent [OF assms(1) slot_step.Finish [OF assms(2)]])
  then show ?thesis
    using assms by (auto simp: running_iff with_guard_update frame_simps end_body_def split: if_splits)
qed

lemma slot_step_slots:
  assumes ok: "slots_ok limit q" and step: "slot_step limit q q'"
  shows "slots_ok limit q'"
proof -
  have q: "consistent q" using ok by (simp add: slots_ok_def)
  have con: "consistent q'" by (rule slot_step_consistent [OF q step])
  from step show ?thesis
  proof cases
    case Quiet
    show ?thesis by (rule tame_slots [OF ok con]) (rule quiet_step_jobs [OF q Quiet])
  next
    case (Finish s i)
    have "tame j (end_body s j)" for j
      using Finish by (cases s) (auto simp: tame_def attempts_ok_def end_body_def job_destination_def
          split: direction.split)
    then show ?thesis
      by (intro tame_slots [OF ok con]) (auto simp: Finish with_guard_update frame_simps split: if_splits)
  next
    case (Start lim alive reason)
    then show ?thesis using start_round_slots [OF ok] by simp
  qed
qed

lemma slots_start: "slots_ok limit queue_new"
  using queue.start_inv
  by (auto simp: slots_ok_def queue_new_def apart_running_def fcard.rep_eq)

interpretation slots: safe_machine "\<lambda>q. q = queue_new" "slot_step limit" "slots_ok limit" for limit
  by unfold_locales (auto simp: slots_start slot_step_slots)

end
