(* ===== verification/Engine_Fill.thy ===== *)
theory Engine_Fill
  imports Engine Queue_Slots
begin

text \<open>
  Filling the slots: the loop that starts transfers ends, it is a sequence of the rounds of
  \<^verbatim>\<open>Queue_Slots\<close>, and it leaves nothing that could be started.
\<close>

section \<open>Filling the slots\<close>

text \<open>All that starting transfers leaves alone.\<close>

definition frame where
  "frame e =
     (en_sessions e, en_planning e, en_reviews e, en_edit e, en_sync e, en_max_parallel e,
      en_outside e, en_removed e, en_local_fs e, en_on_conflict e)"

lemma frame_fields:
  assumes "frame e = frame e'"
  shows "en_sessions e = en_sessions e'" "en_planning e = en_planning e'" "en_reviews e = en_reviews e'"
    "en_edit e = en_edit e'" "en_sync e = en_sync e'" "en_max_parallel e = en_max_parallel e'"
    "en_outside e = en_outside e'" "en_removed e = en_removed e'" "en_local_fs e = en_local_fs e'"
    "en_on_conflict e = en_on_conflict e'"
  using assms by (simp_all add: frame_def)

lemma frame_kept: "kept e = kept e' \<Longrightarrow> frame e = frame e'"
  by (simp add: kept_def frame_def)

lemmas frame_tell [simp] =
  frame_kept [OF kept_emit] frame_kept [OF kept_tell(1)] frame_kept [OF kept_tell(2)] frame_kept [OF kept_tell(3)]

lemma frame_on [simp]: "frame (on_transfers f e) = frame e" "frame (on_tasks g e) = frame e"
  by (simp_all add: frame_def on_transfers_def on_tasks_def)

lemma refresh_kept: "kept (refresh_destination s d e) = kept e" "kept (refresh_transfer_destination i e) = kept e"
  by (simp_all add: refresh_destination_def refresh_transfer_destination_def kept_emit
      split: direction.split option.split)

text \<open>Starting one job is one guarded change of it.\<close>

definition alive_job :: "'w engine \<Rightarrow> nat \<Rightarrow> bool" where
  "alive_job e i \<longleftrightarrow> (case get_job (en_transfers e) i of None \<Rightarrow> False | Some j \<Rightarrow> has_session e (j_session_id j))"

abbreviation start_change :: "'w engine \<Rightarrow> nat \<Rightarrow> transfer_job \<Rightarrow> transfer_job" where
  "start_change e i \<equiv> if alive_job e i then start_body else fail_body ''session disconnected''"

lemma has_session_iff: "has_session e s \<longleftrightarrow> s |\<in>| fmdom (en_sessions e)"
  by (simp add: has_session_def fmdom_notI fmlookup_dom_iff)

lemma filesystems_none: "filesystems_for e s d = None \<longleftrightarrow> \<not> has_session e s"
  by (simp add: filesystems_for_def has_session_def split: option.split)

lemma with_guard_missing: "get_job q i = None \<Longrightarrow> with_guard i f q = q"
  by (simp add: with_guard_def get_job_def split: option.split)

lemma start_transfer_queue: "en_transfers (start_transfer i e) = with_guard i (start_change e i) (en_transfers e)"
proof (cases "get_job (en_transfers e) i")
  case None
  then show ?thesis by (simp add: start_transfer_def with_guard_missing)
next
  case (Some j)
  show ?thesis
  proof (cases "filesystems_for e (j_session_id j) (j_direction j)")
    case None
    then have "\<not> alive_job e i" using Some by (simp add: alive_job_def filesystems_none)
    then show ?thesis using Some None
      by (simp add: start_transfer_def kept_fields(1) [OF refresh_kept(2)]
          tell_frames on_frames fail_body_def [abs_def])
  next
    case (Some p)
    then have "alive_job e i"
      using \<open>get_job (en_transfers e) i = Some j\<close> filesystems_none [of e "j_session_id j" "j_direction j"]
      by (simp add: alive_job_def)
    then show ?thesis using Some \<open>get_job (en_transfers e) i = Some j\<close>
      by (simp add: start_transfer_def Let_def on_frames start_body_def [abs_def] split: prod.split direction.split)
  qed
qed

lemma start_transfer_frame [simp]: "frame (start_transfer i e) = frame e"
  by (simp add: start_transfer_def Let_def frame_kept [OF refresh_kept(2)]
      split: option.split prod.split direction.split)

lemma alive_job_after [simp]: "alive_job (start_transfer i e) k = alive_job e k"
  by (auto simp: alive_job_def start_transfer_queue get_job_def with_guard_update frame_simps
      start_body_def fail_body_def has_session_def frame_fields(1) [OF start_transfer_frame]
      split: option.splits if_splits)

lemma start_transfers:
  "frame (fold start_transfer ids e) = frame e \<and>
   en_transfers (fold start_transfer ids e) = fold (\<lambda>i. with_guard i (start_change e i)) ids (en_transfers e)"
  by (induction ids arbitrary: e) (simp_all add: start_transfer_queue)

lemma session_limit_frame: "frame e' = frame e \<Longrightarrow> session_limit e' = session_limit e"
  by (rule ext) (simp add: session_limit_def frame_fields(1) [of e' e])

lemma start_round_of_fill:
  "en_transfers (fold start_transfer (startable_now e) e) =
     start_round (en_max_parallel e) (session_limit e) (alive_job e) ''session disconnected'' (en_transfers e)"
  by (simp add: start_transfers start_round_def startable_now_def)

text \<open>The loop of \<^verbatim>\<open>fill_transfer_slots\<close>: each round leaves fewer jobs queued.\<close>

definition filling :: "'w engine \<Rightarrow> 'w engine \<Rightarrow> bool" where
  "filling e x \<longleftrightarrow> frame x = frame e \<and> consistent (en_transfers x) \<and>
     (slot_step (en_max_parallel e))\<^sup>*\<^sup>* (en_transfers e) (en_transfers x)"

lemma filling_round:
  assumes "filling e x" and "startable_now x \<noteq> []"
  shows "filling e (fold start_transfer (startable_now x) x)"
    and "fcard (tq_queued (en_transfers (fold start_transfer (startable_now x) x))) < fcard (tq_queued (en_transfers x))"
proof -
  have x: "frame x = frame e" "consistent (en_transfers x)" using assms(1) by (simp_all add: filling_def)
  have step: "slot_step (en_max_parallel e) (en_transfers x) (en_transfers (fold start_transfer (startable_now x) x))"
    unfolding start_round_of_fill frame_fields(6) [OF x(1)] by (rule slot_step.Start)
  show "filling e (fold start_transfer (startable_now x) x)"
    using assms(1) step slot_step_consistent [OF x(2) step] start_transfers [of "startable_now x" x]
    by (auto simp: filling_def intro: rtranclp.rtrancl_into_rtrancl)
  show "fcard (tq_queued (en_transfers (fold start_transfer (startable_now x) x))) < fcard (tq_queued (en_transfers x))"
    unfolding start_round_of_fill using assms(2) by (intro start_round_progress x(2)) (simp add: startable_now_def)
qed

lemma fill_result:
  assumes "consistent (en_transfers e)"
  shows "filling e (fill_transfer_slots e) \<and> startable_now (fill_transfer_slots e) = []"
  unfolding fill_transfer_slots_def
proof (rule while_rule [where P = "filling e" and r = "measure (\<lambda>x. fcard (tq_queued (en_transfers x)))"])
  show "filling e e" using assms by (simp add: filling_def)
qed (use filling_round in auto)

end
