(* ===== verification/Engine_Tasks.thy ===== *)
theory Engine_Tasks
  imports Engine
begin

text \<open>
  What the spawned tasks do: the bodies of the closures the handlers pass to \<^verbatim>\<open>Tasks::spawn\<close>, as
  functions from the captured values to the messages they send to the engine.
\<close>

section \<open>From results to messages\<close>

definition plan_copy_message ::
  "nat \<Rightarrow> nat \<Rightarrow> direction \<Rightarrow> protocol_error + plan_outcome \<Rightarrow> transfer_event" where
  "plan_copy_message batch_id session_id direction result =
     (case result of
        Inr (PlanReady plan) \<Rightarrow> CopyPlanReady batch_id session_id direction plan
      | Inr PlanCancelled \<Rightarrow> CopyPlanCancelled batch_id session_id direction
      | Inl err \<Rightarrow> CopyPlanFailed batch_id (user_message ''Copy failed'' (pe_source err)))"

definition transfer_messages :: "nat \<Rightarrow> string \<Rightarrow> protocol_error + executed \<Rightarrow> transfer_event list" where
  "transfer_messages i display_name result =
     (case result of
        Inr executed \<Rightarrow>
          (if ex_times_kept executed then [] else [TimesNotKept i]) @
          [TransferFinished i (ex_outcome executed)]
      | Inl err \<Rightarrow> [TransferFailed i (user_message (''Transfer failed: '' @ display_name) (pe_source err))])"

definition sync_scan_message ::
  "nat \<Rightarrow> (scanned \<times> scanned \<Rightarrow> sync_plan) \<Rightarrow> protocol_error + (scanned \<times> scanned) option \<Rightarrow> transfer_event" where
  "sync_scan_message batch_id plan_of result =
     (case result of
        Inr (Some scans) \<Rightarrow> SyncPlanned batch_id (plan_of scans)
      | Inr None \<Rightarrow> SyncWasCancelled batch_id
      | Inl err \<Rightarrow> SyncHasFailed batch_id (user_message ''Sync failed'' (pe_source err)))"

definition sync_folders_message ::
  "nat \<Rightarrow> nat \<Rightarrow> direction \<Rightarrow> planned_file list \<Rightarrow> protocol_error + bool \<Rightarrow> transfer_event" where
  "sync_folders_message batch_id session_id direction files result =
     (case result of
        Inr True \<Rightarrow>
          SyncFoldersReady batch_id session_id direction
            \<lparr>dp_files = files, dp_skipped_symlinks = 0, dp_taken_names = fmempty\<rparr>
      | Inr False \<Rightarrow> SyncWasCancelled batch_id
      | Inl err \<Rightarrow> SyncHasFailed batch_id (user_message ''Sync failed'' (pe_source err)))"

definition inspect_message :: "nat \<Rightarrow> baseline \<Rightarrow> int option \<Rightarrow> protocol_error + nat \<Rightarrow> edit_event" where
  "inspect_message edit_id base aborted result =
     EditInspected edit_id
       (case result of Inr hash \<Rightarrow> Inr (hash \<noteq> bl_hash base) | Inl err \<Rightarrow> Inl (pe_source err)) aborted"

text \<open>The results of removing partial files are ignored.\<close>

definition remove_parts :: "'w file_system \<Rightarrow> string list \<Rightarrow> 'w \<Rightarrow> 'w" where
  "remove_parts fs parts w = fold (\<lambda>part w. snd (fs_remove_file fs (path_of_string part) w)) parts w"

section \<open>Running a task\<close>

text \<open>
  What the runtime gives a task: bounds on the loops, the local disk, how a scan of two trees
  interleaves, and the channel to the engine for the progress of a transfer.
\<close>

record 'w runtime =
  rt_depth :: nat
  rt_chunks :: nat
  rt_disk :: "'w local_disk"
  rt_stamp :: "nat \<Rightarrow> string"
  rt_scan_both :: "'w file_system \<Rightarrow> path \<Rightarrow> 'w file_system \<Rightarrow> path \<Rightarrow> bool \<Rightarrow> 'w flag \<Rightarrow>
                     ('w, (scanned \<times> scanned) option) bounded"
  rt_progress :: "nat \<Rightarrow> nat \<Rightarrow> 'w \<Rightarrow> 'w"

definition sending :: "('a \<Rightarrow> 'w internal list) \<Rightarrow> ('a \<times> 'w) option \<Rightarrow> ('w internal list \<times> 'w) option" where
  "sending messages outcome = map_option (\<lambda>(result, w). (messages result, w)) outcome"

fun perform :: "'w runtime \<Rightarrow> 'w flag \<Rightarrow> 'w work \<Rightarrow> 'w \<Rightarrow> ('w internal list \<times> 'w) option" where
  "perform rt cancel (PlanCopy batch_id session_id direction source destination entries dest_dir) w =
     sending (\<lambda>r. [TransferInternal (plan_copy_message batch_id session_id direction r)])
       (plan_copy (rt_depth rt) source destination entries dest_dir cancel w)"
| "perform rt cancel (RunTransfer i display_name source source_path destination destination_path resume
       keep_modified) w =
     sending (\<lambda>r. map TransferInternal (transfer_messages i display_name r))
       (execute_preserving (rt_chunks rt) source source_path destination destination_path cancel resume
          keep_modified (rt_progress rt i) w)"
| "perform rt cancel (RemovePartials session_id fs parts) w =
     Some ([TransferInternal (PartialsRemoved session_id)], remove_parts fs parts w)"
| "perform rt cancel (SyncScan batch_id session_id local_fs local_dir remote remote_dir options tolerance
       target_keeps_times) w =
     sending (\<lambda>r. [TransferInternal (sync_scan_message batch_id
                     (scanned_plan batch_id session_id local_dir remote_dir options tolerance
                        target_keeps_times) r)])
       (rt_scan_both rt local_fs local_dir remote remote_dir (so_subfolders options) cancel w)"
| "perform rt cancel (SyncFolders batch_id session_id direction fs folders files) w =
     (case create_folders fs folders cancel w of
        (r, w) \<Rightarrow> Some ([TransferInternal (sync_folders_message batch_id session_id direction files r)], w))"
| "perform rt cancel (EditDownload edit_id fs local_fs remote dir name) w =
     sending (\<lambda>r. [EditInternal (EditPrepared edit_id r)])
       (prepare (rt_chunks rt) (rt_disk rt) fs local_fs remote dir name cancel w)"
| "perform rt cancel (EditInspect edit_id temp base aborted) w =
     (case ld_hash_file (rt_disk rt) (tc_file temp) w of
        (r, w) \<Rightarrow> Some ([EditInternal (inspect_message edit_id base aborted r)], w))"
| "perform rt cancel (EditUpload job fs local_fs) w =
     sending (\<lambda>ev. [EditInternal ev]) (upload_edit (rt_chunks rt) (rt_stamp rt) job fs local_fs w)"
| "perform rt cancel WorkSent w = None"

section \<open>Which transfer a message ends\<close>

fun transfer_work :: "'w work \<Rightarrow> nat option" where
  "transfer_work (RunTransfer i _ _ _ _ _ _ _) = Some i"
| "transfer_work _ = None"

fun transfer_scope :: "scope \<Rightarrow> nat option" where
  "transfer_scope (TransferScope i) = Some i"
| "transfer_scope _ = None"

fun ended_transfer :: "'w internal \<Rightarrow> nat option" where
  "ended_transfer (TransferInternal (TransferFinished i _)) = Some i"
| "ended_transfer (TransferInternal (TransferFailed i _)) = Some i"
| "ended_transfer (TaskPanicked _ scope) = transfer_scope scope"
| "ended_transfer _ = None"

lemma transfer_messages_end:
  "length (filter (\<lambda>m. ended_transfer m = Some i) (map TransferInternal (transfer_messages k name r))) =
     (if k = i then 1 else 0)"
  by (cases r) (simp_all add: transfer_messages_def)

lemma other_messages_end:
  "ended_transfer (TransferInternal (plan_copy_message b s d r1)) = None"
  "ended_transfer (TransferInternal (sync_scan_message b f r2)) = None"
  "ended_transfer (TransferInternal (sync_folders_message b s d fs r3)) = None"
  by (simp_all add: plan_copy_message_def sync_scan_message_def sync_folders_message_def
      split: sum.split plan_outcome.split option.split bool.split)

lemma perform_ends:
  assumes "perform rt cancel work w = Some (ms, w')"
  shows "length (filter (\<lambda>m. ended_transfer m = Some i) ms) = (if transfer_work work = Some i then 1 else 0)"
proof (cases work)
  case (RunTransfer k name source sp destination dp resume keep)
  then obtain r where "ms = map TransferInternal (transfer_messages k name r)"
    using assms by (auto simp: sending_def)
  then show ?thesis by (simp only: transfer_messages_end RunTransfer transfer_work.simps option.inject)
qed (use assms in \<open>auto simp: sending_def other_messages_end split: prod.splits\<close>)

end
