(* ===== verification/Engine_Parts.thy ===== *)
theory Engine_Parts
  imports Engine_Fill Engine_Tasks
begin

text \<open>
  What all handlers of the engine are made of.  The locale \<^verbatim>\<open>engine_parts\<close> states the interface
  between the handlers and a property of the engine: a property that every single part keeps
  (a quiet change of the queue, a task spawned or told to stop, the slots filled) is kept by
  every handler.  The properties are in \<^verbatim>\<open>Engine_Safe\<close>.
\<close>

section \<open>The parts\<close>

text \<open>A change of the table of tasks that spawns no transfer and ends nothing.\<close>

inductive quiet_task :: "'w work tasks \<Rightarrow> 'w work tasks \<Rightarrow> bool" where
  Spawn: "transfer_work work = None \<Longrightarrow> transfer_scope scope = None \<Longrightarrow> quiet_task t (spawn name scope work t)"
| Cancel: "quiet_task t (cancel_scope scope t)"
| Cancel_All: "quiet_task t (cancel_all_tasks t)"
| Take: "quiet_task t (snd (take_cancelled scope t))"
| Forget: "quiet_task t (forget_scope scope t)"

inductive_cases quiet_taskE: "quiet_task t t'"

definition tasks_safe :: "('w work tasks \<Rightarrow> 'w work tasks) \<Rightarrow> bool" where
  "tasks_safe g \<longleftrightarrow> (\<forall>t. quiet_task\<^sup>*\<^sup>* t (g t))"

definition queue_safe :: "(transfer_queue \<Rightarrow> transfer_queue) \<Rightarrow> bool" where
  "queue_safe f \<longleftrightarrow> (\<forall>q. quiet_step\<^sup>*\<^sup>* q (f q))"

lemma fold_steps: "(\<And>x s. r\<^sup>*\<^sup>* s (f x s)) \<Longrightarrow> r\<^sup>*\<^sup>* s (fold f xs s)"
proof (induction xs arbitrary: s)
  case (Cons x xs)
  then show ?case by (auto intro: rtranclp_trans)
qed simp

lemma tasks_safe_step: "(\<And>t. quiet_task t (g t)) \<Longrightarrow> tasks_safe g"
  by (auto simp: tasks_safe_def)

lemma tasks_safe_fold: "(\<And>x. tasks_safe (g x)) \<Longrightarrow> tasks_safe (fold g xs)"
  by (simp add: tasks_safe_def fold_steps)

lemmas tasks_safes =
  tasks_safe_step [OF quiet_task.Cancel] tasks_safe_step [OF quiet_task.Cancel_All]
  tasks_safe_step [OF quiet_task.Forget] tasks_safe_fold [OF tasks_safe_step [OF quiet_task.Cancel]]

lemma tasks_safe_spawn:
  "transfer_work work = None \<Longrightarrow> transfer_scope scope = None \<Longrightarrow> tasks_safe (spawn name scope work)"
  by (rule tasks_safe_step) (rule quiet_task.Spawn)

lemma queue_safe_step: "(\<And>q. quiet_step q (f q)) \<Longrightarrow> queue_safe f"
  by (auto simp: queue_safe_def)

lemma queue_safe_fold: "(\<And>x. queue_safe (f x)) \<Longrightarrow> queue_safe (fold f xs)"
  by (simp add: queue_safe_def fold_steps)

lemma calm_bodies:
  "calm (\<lambda>j. j\<lparr>j_transferred_bytes := n\<rparr>)" "calm (\<lambda>j. j\<lparr>j_resume := b\<rparr>)" "calm (\<lambda>j. j\<lparr>j_modified := m\<rparr>)"
  by (simp_all add: calm_def keeps_identity_def job_destination_def split: direction.split)

lemma queue_safe_guard: "calm f \<Longrightarrow> queue_safe (with_guard i f)"
  by (rule queue_safe_step) (rule quiet_step.Change)

lemma queue_safe_enqueue_planned: "queue_safe (enqueue_planned b s d preserve f)"
proof -
  have "quiet_step\<^sup>*\<^sup>* q (enqueue_planned b s d preserve f q)" for q
  proof -
    define p where "p = (case d of Upload \<Rightarrow> (pf_source f, pf_destination f) | Download \<Rightarrow> (pf_destination f, pf_source f))"
    define keep where "keep = (if preserve then pf_source_modified f else None)"
    obtain i q1 where en: "enqueue s d (fst p) (path_to_remote_string (snd p)) (pf_display_name f) (pf_size f) (Some b) q = (i, q1)"
      by (metis surj_pair)
    then have step: "quiet_step q q1" by (metis quiet_step.Enqueue snd_conv)
    define q2 where "q2 = (if pf_resume f then with_guard i (\<lambda>j. j\<lparr>j_resume := True\<rparr>) q1 else q1)"
    have "quiet_step\<^sup>*\<^sup>* q1 q2"
      using quiet_step.Change [OF calm_bodies(2)] by (auto simp: q2_def)
    moreover have "enqueue_planned b s d preserve f q =
        (if keep \<noteq> None then with_guard i (\<lambda>j. j\<lparr>j_modified := keep\<rparr>) q2 else q2)"
      using en [unfolded p_def] by (cases d) (simp_all add: enqueue_planned_def Let_def q2_def keep_def)
    then have "quiet_step\<^sup>*\<^sup>* q2 (enqueue_planned b s d preserve f q)"
      using quiet_step.Change [OF calm_bodies(3)] by auto
    ultimately show ?thesis using step by (meson converse_rtranclp_into_rtranclp rtranclp_trans)
  qed
  then show ?thesis by (simp add: queue_safe_def)
qed

lemmas queue_safes =
  queue_safe_fold [OF queue_safe_enqueue_planned] queue_safe_step [OF quiet_step.Forget_Batch]
  queue_safe_fold [OF queue_safe_step [OF quiet_step.Forget_Batch]] queue_safe_step [OF quiet_step.Cancel_Queued]
  queue_safe_guard [OF calm_bodies(1)]

lemma queue_stepping:
  "start_batch label q = (b, q') \<Longrightarrow> quiet_step q q'"
  "flag_unkept_times batch q = (first, q') \<Longrightarrow> quiet_step q q'"
  "retry_jobs ids q = (count, q') \<Longrightarrow> quiet_step q q'"
  "fail_queued_for_session s reason q = (count, q') \<Longrightarrow> quiet_step q q'"
  "take_changes q = (changes, q') \<Longrightarrow> quiet_step q q'"
  by (metis quiet_step.intros snd_conv)+

lemma task_stepping: "take_cancelled scope t = (b, t') \<Longrightarrow> quiet_task t t'"
  by (metis quiet_task.Take snd_conv)

text \<open>The jobs of a finished row are not in progress.\<close>

lemma finished_row_idle:
  assumes q: "consistent q" and r: "r \<in> set (queue_rows_of q)" "row_is_finished r"
    and j: "j \<in> set (jobs_of q (qr_kind r))"
  shows "j_id j |\<notin>| tq_running q"
proof -
  obtain key c where c: "fmlookup (tq_rows q) key = Some c" "r = to_row c"
    using r(1) by (auto simp: queue_rows_of_def set_fmvalues)
  have st: "structure_ok q" using q by (simp add: consistent_def)
  have "qr_kind r = rc_kind c" by (simp add: c(2) to_row_def)
  then obtain k d where d: "row_key q (rc_kind c) = Some k" "fmlookup (tq_rows q) k = Some d"
      "j \<in> set (jobs_at q (rc_order d))"
    using j by (cases "row_key q (rc_kind c)") (auto simp: jobs_of_def dest: sym split: option.splits)
  have "k = key"
    using d(1) structure_row [OF st c(1)]
    by (auto simp: row_key_def row_shape_ok_def split: row_kind.splits option.splits if_splits)
  then have "d = c" using c d by simp
  have "\<not> queued_or_running (j_status j)"
  proof -
    have slots: "get_slot Queued c = 0" "get_slot InProgress c = 0"
      using r(2) c(2) by (auto simp: row_is_finished_def to_row_def rc_state_def split: if_splits)
    obtain i where "i \<in> set (rc_order c)" "fmlookup (tq_jobs q) i = Some j"
      using d(3) \<open>d = c\<close> by (auto simp: jobs_at_def List.map_filter_def)
    then show ?thesis using slots unfolding row_slot [OF q c(1)] job_sum_zero
      by (auto simp: same_slot_def queued_or_running_def split: job_status.splits)
  qed
  moreover have "fmlookup (tq_jobs q) (j_id j) = Some j"
    using d(3) st by (auto simp: jobs_at_def List.map_filter_def structure_ok_def)
  ultimately show ?thesis by (auto simp: running_iff [OF q])
qed

text \<open>The end of a transfer, as one change of its job.\<close>

definition ended_status :: "transfer_outcome \<Rightarrow> job_status" where
  "ended_status outcome = (case outcome of TransferCompleted \<Rightarrow> Completed | TransferCancelled \<Rightarrow> Cancelled)"

lemma ended_status [simp]: "\<not> queued_or_running (ended_status outcome)"
  by (simp add: ended_status_def split: transfer_outcome.split)

lemma transfer_finished_ended:
  "transfer_finished i outcome e =
     fill_transfer_slots (refresh_transfer_destination i
       (on_transfers (with_guard i (end_body (ended_status outcome))) (on_tasks (forget_scope (TransferScope i)) e)))"
  by (simp add: transfer_finished_def Let_def end_body_def [abs_def] ended_status_def)

text \<open>The edit a command or a result is about.\<close>

fun command_edit :: "command \<Rightarrow> nat option" where
  "command_edit (FinishEdit i _) = Some i"
| "command_edit (ResolveEdit i _) = Some i"
| "command_edit (EditFile _ _) = Some 0"
| "command_edit _ = None"

fun internal_edit :: "'w internal \<Rightarrow> nat option" where
  "internal_edit (EditInternal (EditPrepared i _)) = Some i"
| "internal_edit (EditInternal (EditInspected i _ _)) = Some i"
| "internal_edit (EditInternal (EditConflict i)) = Some i"
| "internal_edit (EditInternal (EditUploaded i _)) = Some i"
| "internal_edit (TaskPanicked _ (EditScope i)) = Some i"
| "internal_edit _ = None"

section \<open>The interface\<close>

text \<open>The fields a property of the queue, the tasks and the edits may look at.\<close>

definition books where
  "books e = (en_transfers e, en_tasks e, en_max_parallel e, et_sessions (en_edit e))"

lemma books_kept: "kept e' = kept e \<Longrightarrow> books e' = books e"
  by (simp add: kept_def books_def)

locale engine_parts =
  fixes J :: "'w engine \<Rightarrow> bool"
  assumes J_consistent: "J e \<Longrightarrow> consistent (en_transfers e)"
    and J_books: "J e \<Longrightarrow> books e' = books e \<Longrightarrow> J e'"
    and J_quiet: "J e \<Longrightarrow> quiet_step (en_transfers e) q \<Longrightarrow> J (e\<lparr>en_transfers := q\<rparr>)"
    and J_task: "J e \<Longrightarrow> quiet_task (en_tasks e) t \<Longrightarrow> J (e\<lparr>en_tasks := t\<rparr>)"
    and J_fill: "J e \<Longrightarrow> J (fill_transfer_slots e)"
begin

lemma J_kept: "J e \<Longrightarrow> kept e' = kept e \<Longrightarrow> J e'"
  using J_books books_kept by blast

lemma J_queue: "J e \<Longrightarrow> queue_safe f \<Longrightarrow> J (on_transfers f e)"
proof -
  assume e: "J e" and f: "queue_safe f"
  have "quiet_step\<^sup>*\<^sup>* (en_transfers e) q \<Longrightarrow> J (e\<lparr>en_transfers := q\<rparr>)" for q
  proof (induction rule: rtranclp_induct)
    case (step q q')
    then show ?case using J_quiet [of "e\<lparr>en_transfers := q\<rparr>" q'] by simp
  qed (use J_books [OF e] in \<open>simp add: books_def\<close>)
  then show ?thesis using f by (simp add: on_transfers_def queue_safe_def)
qed

lemma J_tasks: "J e \<Longrightarrow> tasks_safe g \<Longrightarrow> J (on_tasks g e)"
proof -
  assume e: "J e" and g: "tasks_safe g"
  have "quiet_task\<^sup>*\<^sup>* (en_tasks e) t \<Longrightarrow> J (e\<lparr>en_tasks := t\<rparr>)" for t
  proof (induction rule: rtranclp_induct)
    case (step t t')
    then show ?case using J_task [of "e\<lparr>en_tasks := t\<rparr>" t'] by simp
  qed (use J_books [OF e] in \<open>simp add: books_def\<close>)
  then show ?thesis using g by (simp add: on_tasks_def tasks_safe_def)
qed

lemma J_spawn:
  "J e \<Longrightarrow> transfer_work work = None \<Longrightarrow> transfer_scope scope = None \<Longrightarrow> J (on_tasks (spawn name scope work) e)"
  using J_tasks tasks_safe_spawn by blast

text \<open>The rules by which a handler is followed through its branches.\<close>

lemma J_branch:
  "(b \<Longrightarrow> J x) \<Longrightarrow> (\<not> b \<Longrightarrow> J y) \<Longrightarrow> J (if b then x else y)"
  "(p = None \<Longrightarrow> J x) \<Longrightarrow> (\<And>v. p = Some v \<Longrightarrow> J (g v)) \<Longrightarrow>
     J (case p of None \<Rightarrow> x | Some v \<Rightarrow> g v)"
  "(\<And>l. s = Inl l \<Longrightarrow> J (f1 l)) \<Longrightarrow> (\<And>r. s = Inr r \<Longrightarrow> J (f2 r)) \<Longrightarrow>
     J (case s of Inl l \<Rightarrow> f1 l | Inr r \<Rightarrow> f2 r)"
  by (auto split: option.split sum.split)

lemma J_let: "J e \<Longrightarrow> (\<And>x. J x \<Longrightarrow> J (g x)) \<Longrightarrow> J (let x = e in g x)"
  by (simp add: Let_def)

lemma J_let_pair:
  "J (snd w) \<Longrightarrow> (\<And>x e. J e \<Longrightarrow> J (h x e)) \<Longrightarrow> J (let (x, e) = w in h x e)"
  "(\<And>x y. p = (x, y) \<Longrightarrow> J (g x y)) \<Longrightarrow> J (let (x, y) = p in g x y)"
  by (auto simp: Let_def split: prod.split)

lemma J_let_value: "(\<And>x. J (g x)) \<Longrightarrow> J (let x = v in g x)"
  by (simp add: Let_def)

lemma J_pair:
  "J (snd p) \<Longrightarrow> (\<And>x e. J e \<Longrightarrow> J (g x e)) \<Longrightarrow> J (case p of (x, e) \<Rightarrow> g x e)"
  by (simp add: case_prod_unfold)

lemma J_pair_value: "(\<And>x y. p = (x, y) \<Longrightarrow> J (g x y)) \<Longrightarrow> J (case p of (x, y) \<Rightarrow> g x y)"
  by (auto split: prod.split)

lemma J_folds:
  "J e \<Longrightarrow> (\<And>x e. J e \<Longrightarrow> J (f x e)) \<Longrightarrow> J (fold f xs e)"
  "J (snd st) \<Longrightarrow> (\<And>x st. J (snd st) \<Longrightarrow> J (snd (h x st))) \<Longrightarrow> J (snd (fold h xs st))"
  by (induction xs arbitrary: e st) auto

lemma J_snd:
  "J e \<Longrightarrow> J (snd (x, e))"
  "(b \<Longrightarrow> J (snd p)) \<Longrightarrow> (\<not> b \<Longrightarrow> J (snd p')) \<Longrightarrow> J (snd (if b then p else p'))"
  "(\<And>x y. p2 = (x, y) \<Longrightarrow> J (snd (k x y))) \<Longrightarrow> J (snd (case p2 of (x, y) \<Rightarrow> k x y))"
  "(o' = None \<Longrightarrow> J (snd p)) \<Longrightarrow> (\<And>v. o' = Some v \<Longrightarrow> J (snd (m v))) \<Longrightarrow>
     J (snd (case o' of None \<Rightarrow> p | Some v \<Rightarrow> m v))"
  by (auto split: prod.split option.split)

lemma J_snd_let:
  "J e \<Longrightarrow> (\<And>x. J x \<Longrightarrow> J (snd (g x))) \<Longrightarrow> J (snd (let x = e in g x))"
  "(\<And>x. J (snd (h x))) \<Longrightarrow> J (snd (let x = v in h x))"
  by (simp_all add: Let_def)

lemma J_parts:
  assumes "J e"
  shows "J (emit ev e)" "J (report s m e)" "J (announce s m e)" "J (info m e)" "J (on_history h e)"
    "J (on_sync l e)" "J (e\<lparr>en_planning := p\<rparr>)" "J (e\<lparr>en_reviews := r\<rparr>)"
    "J (e\<lparr>en_removed := v\<rparr>)" "J (e\<lparr>en_sessions := x\<rparr>)" "J (e\<lparr>en_writer := y\<rparr>)"
    "J (e\<lparr>en_next_session_id := n\<rparr>)" "J (e\<lparr>en_outside := o'\<rparr>)"
    "J (refresh_destination i d e)" "J (refresh_transfer_destination i e)"
  using assms
  by (auto intro: J_kept [OF assms] J_books [OF assms] kept_emit kept_tell kept_on_history refresh_kept
      simp: on_sync_def books_def)

lemmas J_rules =
  J_branch J_parts J_fill J_folds J_snd J_spawn J_tasks J_queue
  J_quiet J_task J_let J_snd_let J_pair J_let_pair J_let_value J_pair_value transfer_work.simps transfer_scope.simps queue_safes tasks_safes

subsection \<open>The handlers one by one\<close>

text \<open>The parts that leave the queue alone.\<close>

lemma J_small_parts:
  assumes "J e"
  shows "J (remove_dir d e)" "J (cancel_edit_downloads e)" "J (clear_planning b e)" "J (stop_scanning b e)"
    "J (snd (take_cancelled_scope sc e))" "J (publish_history e)" "J (clear_history e)"
    "J (persist_failed m t e)" "J (record_failed_scan x dr l e)" "J (close_en_writer e)"
    "J (publish_edit_busy e)"
proof -
  have "books (publish_edit_busy e) = books e"
    by (simp add: publish_edit_busy_def on_edit_def emit_def books_def Let_def)
  then show "J (publish_edit_busy e)" by (rule J_books [OF assms])
qed (use assms in \<open>auto simp: remove_dir_def cancel_edit_downloads_def clear_planning_def stop_scanning_def
      take_cancelled_scope_def close_en_writer_def split: prod.split
      intro: J_parts J_tasks J_task tasks_safes task_stepping J_kept [OF assms] kept_publish_history
        kept_clear_history kept_persist_failed kept_record_failed_scan\<close>)

lemma J_cases:
  "(\<And>t b. r = PreparedReady t b \<Longrightarrow> J (f1 t b)) \<Longrightarrow> (r = PreparedCancelled \<Longrightarrow> J f2) \<Longrightarrow>
     (\<And>m. r = PreparedFailed m \<Longrightarrow> J (f3 m)) \<Longrightarrow> J (case_prepared f1 f2 f3 r)"
  "J g1 \<Longrightarrow> (\<And>n. J (g2 n)) \<Longrightarrow> (\<And>m. J (g3 m)) \<Longrightarrow> J (case_editor_exit g1 g2 g3 x)"
  "J h1 \<Longrightarrow> (\<And>i. J (h2 i)) \<Longrightarrow> J (case_location h1 h2 l)"
  "J b1 \<Longrightarrow> J b2 \<Longrightarrow> J (case_bool b1 b2 b)"
  "J q1 \<Longrightarrow> J q2 \<Longrightarrow> J (case_edit_question_kind q1 q2 k)"
  "J c1 \<Longrightarrow> J c2 \<Longrightarrow> J c3 \<Longrightarrow> J (case_edit_choice c1 c2 c3 c)"
  "J d1 \<Longrightarrow> J d2 \<Longrightarrow> J (case_direction d1 d2 d)"
  by (auto split: prepared.split editor_exit.split location.split bool.split edit_question_kind.split
      edit_choice.split direction.split)

text \<open>The handlers of transfers.\<close>

lemma J_refreshes: "J e \<Longrightarrow> J (refresh_destinations_without_pending ds e)"
  unfolding refresh_destinations_without_pending_def case_prod_unfold by (assumption | rule J_rules | erule queue_stepping task_stepping)+

lemma J_copies:
  assumes "J e"
  shows "J (start_copy_plan s d es p e)"
    "J (report_skipped n rp e)" "J (snd (drop_conflict_reviews P e))" "J (cancel_all_work e)"
    "J (snd (cancel_session_transfers s e))"
  unfolding start_copy_plan_def report_skipped_def
    drop_conflict_reviews_def cancel_all_work_def cancel_session_transfers_def
  by - (assumption | rule assms J_rules J_small_parts | erule queue_stepping task_stepping)+

lemma J_apply_plan: "J e \<Longrightarrow> J (apply_plan_ready b s d plan answers keep e)"
  unfolding apply_plan_ready_def
  by (assumption | rule J_rules J_copies | erule queue_stepping task_stepping)+

lemma J_reviews:
  assumes "J e"
  shows "J (review_or_apply_plan b s d plan e)" "J (resolve_conflicts b answers e)"
  unfolding review_or_apply_plan_def resolve_conflicts_def
  by - (assumption | rule assms J_rules J_copies J_apply_plan | erule queue_stepping task_stepping)+

lemma J_copy_entries: "J e \<Longrightarrow> J (copy_entries a es b p e)"
  unfolding copy_entries_def by (assumption | rule J_rules J_copies)+

lemma J_cancel_row_job: "J (snd st) \<Longrightarrow> J (snd (cancel_row_job i st))"
  using J_quiet [OF _ quiet_step.Cancel_One, of "snd st" i]
  by (cases st) (auto simp: cancel_row_job_def on_transfers_def split: option.split job_status.split
      intro: J_tasks tasks_safes)

lemma J_cancel_row: "J e \<Longrightarrow> J (cancel_row kind e)"
proof -
  assume e: "J e"
  have "J (case fold cancel_row_job ids ([], e) of
      (destinations, e) \<Rightarrow> refresh_destinations_without_pending destinations e)" for ids
    by (assumption | rule e J_rules J_refreshes J_cancel_row_job | erule queue_stepping task_stepping)+
  moreover have "J (let e = (if c then on_tasks (cancel_scope sc) e else e) in snd (drop_conflict_reviews P e))" for c sc P
    by (assumption | rule e J_rules J_copies | erule queue_stepping task_stepping)+
  ultimately show ?thesis by (cases kind) (simp_all only: cancel_row_def row_kind.case)
qed

lemma J_retry_row: "J e \<Longrightarrow> J (retry_row kind e)"
  unfolding retry_row_def by (assumption | rule J_rules | erule queue_stepping task_stepping)+

lemma J_remove_local: "J (snd st) \<Longrightarrow> J (snd (remove_local_partials jobs st))"
  by (induction jobs st rule: remove_local_partials.induct)
     (auto simp: Let_def split: direction.split intro: J_parts)

lemma J_remove_partials: "J e \<Longrightarrow> J (remove_partials jobs e)"
  unfolding remove_partials_def
  by (assumption | rule J_remove_local J_rules | erule queue_stepping task_stepping)+

lemma J_clear_finished: "J e \<Longrightarrow> J (clear_finished_rows e)"
proof -
  assume e: "J e"
  let ?ids = "concat (map (\<lambda>r. map j_id (jobs_of (en_transfers e) (qr_kind r)))
    (filter row_is_finished (queue_rows_of (en_transfers e))))"
  have "list_all (\<lambda>i. i |\<notin>| tq_running (en_transfers e)) ?ids"
    using finished_row_idle [OF J_consistent [OF e]] by (auto simp: list_all_iff)
  then have "J (on_transfers (remove_jobs (ot_kinds (en_outside e)) ?ids) e)"
    unfolding on_transfers_def by (intro J_quiet e quiet_step.Remove)
  then show ?thesis by (simp add: clear_finished_rows_def Let_def J_remove_partials)
qed

text \<open>The handlers of syncs.\<close>

lemma J_begin_scan: "J e \<Longrightarrow> J (snd (begin_scan s d n e))"
  unfolding begin_scan_def by (assumption | rule J_rules | erule queue_stepping task_stepping)+

lemma J_syncs:
  assumes "J e"
  shows "J (start_sync s l r opt e)" "J (sync_cancelled b e)" "J (sync_failed b m e)"
    "J (start_sync_batch plan d fs e)" "J (cancel_sync i e)" "J (drop_sync_plans P e)"
  unfolding start_sync_def sync_cancelled_def sync_failed_def start_sync_batch_def cancel_sync_def drop_sync_plans_def
  by - (assumption | rule assms J_rules J_small_parts J_begin_scan | erule queue_stepping task_stepping)+

lemma J_sync_results:
  assumes "J e"
  shows "J (sync_plan_ready b plan e)" "J (sync_folders_ready b s d dp e)"
  unfolding sync_plan_ready_def sync_folders_ready_def
  by - (assumption | rule assms J_rules J_small_parts J_syncs J_apply_plan J_cases | erule queue_stepping task_stepping)+

lemma J_run_sync: "J e \<Longrightarrow> J (run_sync i choices e)"
  unfolding run_sync_def case_prod_unfold
  by (assumption | rule J_rules J_syncs | erule queue_stepping task_stepping)+

text \<open>Publishing, and the commands.\<close>

lemma J_changes: "J e \<Longrightarrow> J (process_row_changes e)"
proof -
  assume e: "J e"
  have "J (on_transfers (\<lambda>q. q\<lparr>tq_changes := []\<rparr>) e)"
    using J_quiet [OF e quiet_step.Take_Changes] by (simp add: on_transfers_def take_changes_def)
  then show ?thesis by (rule J_kept) (rule kept_process_row_changes)
qed

lemma J_publish:
  assumes "J e"
  shows "J (publish_transfers e)" "J (request_publish e)" "J (record_interrupted e)"
proof -
  show publish: "J (publish_transfers e)"
    by (rule J_kept [OF J_changes [OF assms]]) (rule kept_publish_transfers)
  show "J (request_publish e)"
    using publish J_books [OF assms] by (simp add: request_publish_def Let_def books_def)
  show "J (record_interrupted e)"
    by (rule J_kept [OF J_changes [OF assms]]) (rule kept_record_interrupted)
qed

lemma J_settle: "J e \<Longrightarrow> J (settle e)"
  by (simp add: settle_def J_changes J_small_parts J_publish)

lemma J_endings:
  assumes "J e"
  shows "J (cancel_all_copies e)" "J (finish_connect n sh fs e)" "J (disconnect s e)"
  unfolding cancel_all_copies_def finish_connect_def disconnect_def
  by - (assumption | rule assms J_rules J_copies J_syncs J_refreshes | erule queue_stepping task_stepping)+

lemma J_other_command: "J e \<Longrightarrow> command_edit c = None \<Longrightarrow> J (run_command c e)"
  by (cases c)
     (simp_all add: run_command_def J_endings J_reviews J_cancel_row J_retry_row J_clear_finished
        J_small_parts J_syncs J_run_sync J_copy_entries)

text \<open>The results of tasks: those that do not end a transfer, and what is left to do after the end of one.\<close>

lemma J_finished_rest:
  assumes "J (on_transfers (with_guard i (end_body (ended_status outcome))) (on_tasks (forget_scope (TransferScope i)) e))"
  shows "J (transfer_finished i outcome e)"
  using assms by (simp add: transfer_finished_ended J_fill J_parts)

lemma J_failed_rest:
  assumes "take_cancelled_scope (TransferScope i) e = (cancelled, e1)"
    and "J (on_transfers (with_guard i (end_body (if cancelled then Cancelled else Failed m))) e1)"
    and "i |\<notin>| tq_running (en_transfers (on_transfers (with_guard i (end_body (if cancelled then Cancelled else Failed m))) e1))"
  shows "J (transfer_failed i m e)"
proof -
  define e2 where "e2 = on_transfers (with_guard i (end_body (if cancelled then Cancelled else Failed m))) e1"
  have e2: "J e2" "i |\<notin>| tq_running (en_transfers e2)" using assms unfolding e2_def by blast+
  have "J (e2\<lparr>en_transfers := q\<rparr>)" if "retry_or_give_up i (en_transfers e2) = (b, q)" for b q
    using J_quiet [OF e2(1) quiet_step.Give_Up, of i] e2(2) that by simp
  then show ?thesis
    using e2(1) assms(1)
    unfolding e2_def end_body_def [abs_def]
    by (cases cancelled)
       (auto simp: transfer_failed_def Let_def J_fill J_parts split: prod.split)
qed

lemma J_case_event:
  "(\<And>i n. J (f1 i n)) \<Longrightarrow> (\<And>i out. ev = TransferFinished i out \<Longrightarrow> J (f2 i out)) \<Longrightarrow>
   (\<And>i m. ev = TransferFailed i m \<Longrightarrow> J (f3 i m)) \<Longrightarrow> (\<And>b s d p. J (f4 b s d p)) \<Longrightarrow>
   (\<And>b m. J (f5 b m)) \<Longrightarrow> (\<And>b s d. J (f6 b s d)) \<Longrightarrow> (\<And>s. J (f7 s)) \<Longrightarrow> (\<And>i. J (f8 i)) \<Longrightarrow>
   (\<And>b sp. J (f9 b sp)) \<Longrightarrow> (\<And>b. J (f10 b)) \<Longrightarrow> (\<And>b m. J (f11 b m)) \<Longrightarrow> (\<And>b s d p. J (f12 b s d p)) \<Longrightarrow>
     J (case_transfer_event f1 f2 f3 f4 f5 f6 f7 f8 f9 f10 f11 f12 ev)"
  by (cases ev) simp_all

text \<open>An event is handled when the ends of transfers are.\<close>

lemma J_transfer_event:
  assumes "J e" and "\<And>i out. ev = TransferFinished i out \<Longrightarrow> J (transfer_finished i out e)"
    and "\<And>i m. ev = TransferFailed i m \<Longrightarrow> J (transfer_failed i m e)"
  shows "J (handle_transfer_event ev e)"
  unfolding handle_transfer_event_def copy_plan_failed_def times_not_kept_def
  by (assumption | rule J_case_event assms J_rules J_small_parts J_syncs J_sync_results J_reviews
      | erule queue_stepping task_stepping assms)+

lemma J_case_scope:
  "(\<And>i. J (g1 i)) \<Longrightarrow> (\<And>i. sc = TransferScope i \<Longrightarrow> J (g2 i)) \<Longrightarrow> (\<And>i. J (g3 i)) \<Longrightarrow> (\<And>i. J (g4 i)) \<Longrightarrow>
     J g5 \<Longrightarrow> J g6 \<Longrightarrow> J (case_scope g1 g2 g3 g4 g5 g6 sc)"
  by (cases sc) simp_all

lemma J_plan_failed: "J e \<Longrightarrow> J (handle_transfer_event (CopyPlanFailed b m) e)"
  by (rule J_transfer_event) simp_all

lemma J_recover_other:
  assumes "J e" and "\<And>i. sc \<noteq> EditScope i"
    and "\<And>i j m. sc = TransferScope i \<Longrightarrow> get_job (en_transfers e) i = Some j \<Longrightarrow> j_status j = InProgress \<Longrightarrow>
      J (transfer_failed i m e)"
  shows "J (recover_from_panic name sc e)"
proof -
  have failed: "J (handle_transfer_event (TransferFailed i m) e)"
    if "sc = TransferScope i" "case get_job (en_transfers e) i of None \<Rightarrow> False | Some j \<Rightarrow> j_status j = InProgress" for i m
    using assms(3) [OF that(1)] that(2) by (simp add: handle_transfer_event_def split: option.splits)
  show ?thesis
  proof (cases sc)
    case (EditScope i)
    then show ?thesis using assms(2) by blast
  qed (use failed assms(1) in \<open>simp_all add: recover_from_panic_def Let_def J_parts J_syncs J_plan_failed\<close>)
qed

lemma J_other_internal:
  assumes "J e" and "internal_edit r = None"
    and "\<And>i out. r = TransferInternal (TransferFinished i out) \<Longrightarrow> J (transfer_finished i out e)"
    and "\<And>i m. r = TransferInternal (TransferFailed i m) \<Longrightarrow> J (transfer_failed i m e)"
    and "\<And>i j m name. r = TaskPanicked name (TransferScope i) \<Longrightarrow> get_job (en_transfers e) i = Some j \<Longrightarrow>
      j_status j = InProgress \<Longrightarrow> J (transfer_failed i m e)"
  shows "J (handle_internal r e)"
proof (cases r)
  case (TransferInternal ev)
  have "J (handle_transfer_event ev e)"
    by (rule J_transfer_event [OF assms(1)]) (use assms TransferInternal in auto)
  then show ?thesis
    using J_queue [OF assms(1)]
    by (cases ev) (simp_all add: TransferInternal handle_internal_def J_settle J_publish queue_safes)
next
  case (EditInternal ev)
  then show ?thesis using assms(2) by (cases ev) simp_all
next
  case (TaskPanicked name sc)
  have "J (recover_from_panic name sc e)"
    by (rule J_recover_other [OF assms(1)]) (use assms(2,5) TaskPanicked in auto)
  then show ?thesis by (simp add: TaskPanicked handle_internal_def J_settle)
qed (use assms(1) in \<open>simp_all add: handle_internal_def J_settle J_endings J_small_parts\<close>)

end

text \<open>The handlers of edits change the table of edits as well.\<close>

locale engine_edits = engine_parts +
  assumes J_edit: "J e \<Longrightarrow> J (on_edit f e)"
begin

lemma J_edit_parts:
  "J e \<Longrightarrow> J (set_edit_session i s e)" "J e \<Longrightarrow> J (remove_edit_session i e)"
  by (simp_all add: set_edit_session_def remove_edit_session_def J_edit)

lemmas J_edit_rules = J_rules J_edit J_edit_parts J_small_parts

lemma J_edits:
  assumes "J e"
  shows "J (snd (new_edit_session l p ed e))" "J (drop_edit i e)" "J (keep_edit i sv r e)"
    "J (ask_edit i k e)" "J (start_upload i m e)"
  unfolding new_edit_session_def drop_edit_def keep_edit_def ask_edit_def start_upload_def
  by - (assumption | rule assms J_edit_rules | erule queue_stepping task_stepping)+

lemma J_edit_handlers:
  assumes "J e"
  shows "J (edit_file l p e)" "J (finish_prepare i r e)" "J (inspect_edit i x e)"
    "J (finish_inspect i v x e)" "J (finish_upload i w e)" "J (resolve_edit i c e)"
    "J (fail_edit i m e)"
  unfolding edit_file_def edit_local_file_def edit_remote_file_def finish_prepare_def inspect_edit_def
    finish_inspect_def finish_upload_def resolve_edit_def fail_edit_def
  by - (assumption | rule assms J_edit_rules J_edits J_cases | erule queue_stepping task_stepping)+

lemma J_finish_edit: "J e \<Longrightarrow> J (finish_edit i x e)"
  unfolding finish_edit_def
  by (assumption | rule J_edit_rules J_edits J_cases J_edit_handlers | erule queue_stepping task_stepping)+

lemma J_edit_event: "J e \<Longrightarrow> J (handle_edit_event ev e)"
  by (cases ev) (simp_all add: handle_edit_event_def J_edits J_edit_handlers)

lemma J_run_command: "J e \<Longrightarrow> J (run_command c e)"
proof (cases "command_edit c")
  case (Some i)
  assume "J e"
  then show ?thesis using Some by (cases c) (simp_all add: run_command_def J_edit_handlers J_finish_edit)
qed (rule J_other_command)

lemma J_handle_command: "J e \<Longrightarrow> J (handle_command c e)"
  by (simp add: handle_command_def J_run_command J_settle)

lemma J_handle_internal:
  assumes "J e"
    and "\<And>i out. r = TransferInternal (TransferFinished i out) \<Longrightarrow> J (transfer_finished i out e)"
    and "\<And>i m. r = TransferInternal (TransferFailed i m) \<Longrightarrow> J (transfer_failed i m e)"
    and "\<And>i j m name. r = TaskPanicked name (TransferScope i) \<Longrightarrow> get_job (en_transfers e) i = Some j \<Longrightarrow>
      j_status j = InProgress \<Longrightarrow> J (transfer_failed i m e)"
  shows "J (handle_internal r e)"
proof (cases "internal_edit r")
  case None
  then show ?thesis using J_other_internal assms by blast
next
  case (Some i)
  then show ?thesis
    by (cases r rule: internal_edit.cases)
       (simp_all add: handle_internal_def recover_from_panic_def Let_def assms(1) J_settle J_edit_event
          J_edit_handlers J_parts)
qed

end

text \<open>A property that also survives the end of any transfer is kept by every result of a task.\<close>

locale engine_endings = engine_parts +
  assumes J_finish: "J e \<Longrightarrow> \<not> queued_or_running s \<Longrightarrow> J (on_transfers (with_guard i (end_body s)) e)"
begin

lemma J_transfer_finished: "J e \<Longrightarrow> J (transfer_finished i outcome e)"
  by (intro J_finished_rest J_finish J_tasks tasks_safes) simp_all

lemma J_transfer_failed: "J e \<Longrightarrow> J (transfer_failed i m e)"
proof -
  assume e: "J e"
  obtain cancelled e1 where e1: "take_cancelled_scope (TransferScope i) e = (cancelled, e1)" by fastforce
  then have "J e1" using J_small_parts(5) [OF e, of "TransferScope i"] by simp
  have ended: "\<not> queued_or_running (if cancelled then Cancelled else Failed m)" by simp
  show ?thesis
    by (rule J_failed_rest [OF e1 J_finish [OF \<open>J e1\<close> ended]])
       (simp add: on_transfers_def finish_running [OF J_consistent [OF \<open>J e1\<close>] ended])
qed

lemma J_any_other_internal: "J e \<Longrightarrow> internal_edit r = None \<Longrightarrow> J (handle_internal r e)"
  by (rule J_other_internal) (simp_all add: J_transfer_finished J_transfer_failed)

end

locale engine_results = engine_edits + engine_endings
begin

lemma J_any_internal: "J e \<Longrightarrow> J (handle_internal r e)"
  by (rule J_handle_internal) (simp_all add: J_transfer_finished J_transfer_failed)

end

end
