(* ===== verification/Engine_Safe.thy ===== *)
theory Engine_Safe
  imports Engine_Parts Engine_Tasks
begin

text \<open>
  What holds of the engine whenever it waits for its next event: the queue is consistent and
  within its limits, and every job in progress has exactly one transfer working on it, or the
  result of that transfer on its way.  The engine and its tasks are one system: tasks send
  messages, which are delivered in order.
\<close>

section \<open>The limits\<close>

definition within :: "nat \<Rightarrow> 'w engine \<Rightarrow> bool" where
  "within limit e \<longleftrightarrow> en_max_parallel e = limit \<and> slots_ok limit (en_transfers e)"

lemma within_consistent: "within limit e \<Longrightarrow> consistent (en_transfers e)"
  by (simp add: within_def slots_ok_def)

lemma within_step:
  "within limit e \<Longrightarrow> slot_step limit (en_transfers e) q \<Longrightarrow> en_max_parallel e' = limit \<Longrightarrow>
     en_transfers e' = q \<Longrightarrow> within limit e'"
  by (auto simp: within_def slot_step_slots)

lemma within_fill: "within limit e \<Longrightarrow> within limit (fill_transfer_slots e)"
proof -
  assume e: "within limit e"
  then have "filling e (fill_transfer_slots e)" using fill_result within_consistent by blast
  then show ?thesis
    using e slots.steps_inv frame_fields(6) [of "fill_transfer_slots e" e]
    by (auto simp: filling_def within_def)
qed

interpretation limits: engine_results "within limit" for limit
proof
  show "consistent (en_transfers e)" if "within limit e" for limit and e :: "'a engine"
    using that by (rule within_consistent)
  show "within limit e'" if "within limit e" "books e' = books e" for limit and e e' :: "'a engine"
    using that by (simp add: within_def books_def)
  show "within limit (e\<lparr>en_transfers := q\<rparr>)" if "within limit e" "quiet_step (en_transfers e) q"
    for limit and e :: "'a engine" and q
    using that by (auto simp: within_def intro: slot_step_slots [OF _ slot_step.Quiet])
  show "within limit (e\<lparr>en_tasks := t\<rparr>)" if "within limit e" for limit and e :: "'a engine" and t
    using that by (simp add: within_def)
  show "within limit (fill_transfer_slots e)" if "within limit e" for limit and e :: "'a engine"
    using that by (rule within_fill)
  show "within limit (on_edit f e)" if "within limit e" for limit and e :: "'a engine" and f
    using that by (simp add: within_def on_edit_def)
  show "within limit (on_transfers (with_guard i (end_body s)) e)"
    if "within limit e" "\<not> queued_or_running s" for limit and e :: "'a engine" and i s
    using that slot_step_slots [OF _ slot_step.Finish [OF that(2)]] by (simp add: on_transfers_def within_def)
qed

section \<open>Every transfer is accounted for\<close>

definition tasks_for :: "nat \<Rightarrow> 'w work tasks \<Rightarrow> nat fset" where
  "tasks_for i t =
     ffilter (\<lambda>k. case fmlookup (tk_live t) k of
                    None \<Rightarrow> False | Some l \<Rightarrow> transfer_work (lv_work l) = Some i) (fmdom (tk_live t))"

text \<open>
  Task numbers are given out once, and a task that has still to send something is a transfer
  just when its scope says so.
\<close>

definition tasks_ok :: "'w work tasks \<Rightarrow> bool" where
  "tasks_ok t \<longleftrightarrow>
     (\<forall>k l. fmlookup (tk_live t) k = Some l \<longrightarrow>
        k < tk_next t \<and> (lv_work l = WorkSent \<or> transfer_work (lv_work l) = transfer_scope (lv_scope l)))"

text \<open>\<^verbatim>\<open>due i\<close>: how many results of transfer \<^verbatim>\<open>i\<close> are on their way.\<close>

definition balanced :: "(nat \<Rightarrow> nat) \<Rightarrow> 'w engine \<Rightarrow> bool" where
  "balanced due e \<longleftrightarrow> consistent (en_transfers e) \<and> tasks_ok (en_tasks e) \<and>
     (\<forall>i. fcard (tasks_for i (en_tasks e)) + due i = (if i |\<in>| tq_running (en_transfers e) then 1 else 0))"

lemma in_tasks_for [simp]:
  "k |\<in>| tasks_for i t \<longleftrightarrow> (\<exists>l. fmlookup (tk_live t) k = Some l \<and> transfer_work (lv_work l) = Some i)"
  by (auto simp: tasks_for_def fmlookup_dom_iff split: option.splits)

lemma tasks_for_spawn:
  "tasks_ok t \<Longrightarrow> tasks_for i (spawn name scope work t) =
     (if transfer_work work = Some i then finsert (tk_next t) (tasks_for i t) else tasks_for i t)"
  by (rule fset_eqI) (auto simp: spawn_def Let_def tasks_ok_def split: if_splits)

lemma fcard_spawn:
  assumes "tasks_ok t"
  shows "fcard (tasks_for i (spawn name scope work t)) =
    (if transfer_work work = Some i then 1 else 0) + fcard (tasks_for i t)"
proof -
  have "tk_next t |\<notin>| tasks_for i t" using assms by (auto simp: tasks_ok_def)
  then show ?thesis by (simp add: tasks_for_spawn [OF assms] fcard_finsert_disjoint)
qed

lemma spawn_ok: "tasks_ok t \<Longrightarrow> transfer_work work = transfer_scope scope \<Longrightarrow> tasks_ok (spawn name scope work t)"
  by (auto simp: spawn_def Let_def tasks_ok_def less_Suc_eq)

lemma tasks_for_map:
  assumes "\<And>l. lv_work (f l) = lv_work l" and "tk_live t' = fmmap f (tk_live t)"
  shows "tasks_for i t' = tasks_for i t"
proof (rule fset_eqI)
  fix k
  show "k |\<in>| tasks_for i t' \<longleftrightarrow> k |\<in>| tasks_for i t"
    by (cases "fmlookup (tk_live t) k") (simp_all add: assms)
qed

lemma tasks_ok_map:
  assumes "\<And>l. lv_work (f l) = lv_work l" and "\<And>l. lv_scope (f l) = lv_scope l"
    and "tk_live t' = fmmap f (tk_live t)" and "tk_next t' = tk_next t" and "tasks_ok t"
  shows "tasks_ok t'"
  unfolding tasks_ok_def
proof (intro allI impI)
  fix k l assume "fmlookup (tk_live t') k = Some l"
  then obtain l0 where "fmlookup (tk_live t) k = Some l0" "l = f l0" by (auto simp: assms(3))
  then show "k < tk_next t' \<and> (lv_work l = WorkSent \<or> transfer_work (lv_work l) = transfer_scope (lv_scope l))"
    using assms(5) by (simp add: assms(1,2,4) tasks_ok_def)
qed

lemma quiet_task_ok:
  assumes "tasks_ok t" and "quiet_task t t'"
  shows "tasks_ok t' \<and> tasks_for i t' = tasks_for i t"
  using assms(2)
proof cases
  case (Spawn work scope name)
  then show ?thesis using spawn_ok [OF assms(1), of work scope name] by (simp add: tasks_for_spawn [OF assms(1)])
next
  case (Cancel scope)
  then show ?thesis
    by (intro conjI tasks_for_map tasks_ok_map [OF _ _ _ _ assms(1)]) (auto simp: cancel_scope_def)
next
  case Cancel_All
  then show ?thesis
    by (intro conjI tasks_for_map tasks_ok_map [OF _ _ _ _ assms(1)]) (auto simp: cancel_all_tasks_def)
qed (use assms(1) in \<open>simp_all add: take_cancelled_def forget_scope_def tasks_ok_def tasks_for_def\<close>)

lemma balanced_transfers:
  "balanced due e \<Longrightarrow> consistent q \<Longrightarrow> tq_running q = tq_running (en_transfers e) \<Longrightarrow>
     balanced due (e\<lparr>en_transfers := q\<rparr>)"
  by (simp add: balanced_def)

text \<open>Starting queued jobs keeps the balance: each becomes a job in progress, with a task.\<close>

lemma start_transfer_tasks:
  "\<exists>work. transfer_work work = Some i \<and>
     en_tasks (start_transfer i e) =
       (if alive_job e i then spawn ''transfer'' (TransferScope i) work (en_tasks e) else en_tasks e)"
proof (cases "get_job (en_transfers e) i")
  case None
  then show ?thesis by (simp add: start_transfer_def alive_job_def) (meson transfer_work.simps(1))
next
  case (Some j)
  show ?thesis
  proof (cases "filesystems_for e (j_session_id j) (j_direction j)")
    case None
    then have "\<not> alive_job e i" using Some by (simp add: alive_job_def filesystems_none)
    then show ?thesis using Some None
      by (simp add: start_transfer_def kept_fields(2) [OF refresh_kept(2)] tell_frames on_frames)
        (meson transfer_work.simps(1))
  next
    fix p assume p: "filesystems_for e (j_session_id j) (j_direction j) = Some p"
    then have "alive_job e i" using Some filesystems_none [of e "j_session_id j" "j_direction j"]
      by (simp add: alive_job_def)
    then show ?thesis using Some p
      by (auto simp: start_transfer_def Let_def on_frames intro!: exI split: prod.split)
  qed
qed

lemma start_transfer_balanced:
  assumes bal: "balanced due e" and i: "i |\<in>| tq_queued (en_transfers e)"
  shows "balanced due (start_transfer i e)"
    and "tq_queued (en_transfers (start_transfer i e)) = tq_queued (en_transfers e) |-| {|i|}"
proof -
  let ?q = "en_transfers e" and ?q' = "en_transfers (start_transfer i e)"
  have q: "consistent ?q" using bal by (simp add: balanced_def)
  obtain j where j: "get_job ?q i = Some j" "j_status j = Queued"
    using i by (auto simp: queued_iff [OF q] get_job_def)
  have step: "queue_step ?q ?q'"
    unfolding start_transfer_queue by (rule queue_step.Change) (simp add: keeps_identity_bodies)
  have q': "consistent ?q'" using q step queue.step_inv by blast
  have jobs: "fmlookup (tq_jobs ?q') k = (if k = i then Some (start_change e i j) else fmlookup (tq_jobs ?q) k)" for k
    using j(1) by (simp add: start_transfer_queue with_guard_update frame_simps get_job_def)
  show "tq_queued ?q' = tq_queued ?q |-| {|i|}"
    by (auto simp: queued_iff [OF q] queued_iff [OF q'] jobs start_body_def fail_body_def split: if_splits)
  have running: "tq_running ?q' = (if alive_job e i then finsert i (tq_running ?q) else tq_running ?q)"
    using j by (auto simp: running_iff [OF q] running_iff [OF q'] jobs start_body_def fail_body_def get_job_def
        split: if_splits)
  have "i |\<notin>| tq_running ?q" using j by (auto simp: running_iff [OF q] get_job_def)
  moreover have "fcard (tasks_for k (en_tasks (start_transfer i e))) =
      (if alive_job e i \<and> k = i then 1 else 0) + fcard (tasks_for k (en_tasks e)) \<and>
      tasks_ok (en_tasks (start_transfer i e))" for k
  proof -
    have t: "tasks_ok (en_tasks e)" using bal by (simp add: balanced_def)
    obtain work where "transfer_work work = Some i" "en_tasks (start_transfer i e) =
        (if alive_job e i then spawn ''transfer'' (TransferScope i) work (en_tasks e) else en_tasks e)"
      using start_transfer_tasks by blast
    then show ?thesis using t spawn_ok [OF t, of work "TransferScope i"] by (simp add: fcard_spawn [OF t])
  qed
  ultimately show "balanced due (start_transfer i e)"
    using bal q' by (auto simp: balanced_def running split: if_splits)
qed

lemma start_transfers_balanced:
  "balanced due e \<Longrightarrow> distinct ids \<Longrightarrow> list_all (\<lambda>i. i |\<in>| tq_queued (en_transfers e)) ids \<Longrightarrow>
     balanced due (fold start_transfer ids e)"
proof (induction ids arbitrary: e)
  case (Cons i ids)
  have "balanced due (start_transfer i e)" "list_all (\<lambda>k. k |\<in>| tq_queued (en_transfers (start_transfer i e))) ids"
    using start_transfer_balanced [OF Cons.prems(1), of i] Cons.prems(2,3) by (auto simp: list_all_iff)
  then show ?case using Cons by simp
qed simp

lemma fill_balanced:
  assumes "balanced due e"
  shows "balanced due (fill_transfer_slots e)"
  unfolding fill_transfer_slots_def
proof (rule while_rule [where P = "balanced due" and r = "measure (\<lambda>x. fcard (tq_queued (en_transfers x)))"])
  fix x :: "'a engine"
  assume x: "balanced due x" and some: "startable_now x \<noteq> []"
  then have q: "consistent (en_transfers x)" by (simp add: balanced_def)
  then have "filling x x" by (simp add: filling_def)
  then show "(fold start_transfer (startable_now x) x, x) \<in> measure (\<lambda>x. fcard (tq_queued (en_transfers x)))"
    using filling_round(2) some by auto
  show "balanced due (fold start_transfer (startable_now x) x)"
    using x chosen_facts(1,2) [OF q, of "startable_now x"]
    by (auto simp: startable_now_def list_all_iff intro!: start_transfers_balanced)
qed (use assms in auto)

interpretation accounts: engine_edits "balanced due" for due
proof
  show "consistent (en_transfers e)" if "balanced due e" for due and e :: "'a engine"
    using that by (simp add: balanced_def)
  show "balanced due e'" if "balanced due e" "books e' = books e" for due and e e' :: "'a engine"
    using that by (simp add: balanced_def books_def)
  show "balanced due (e\<lparr>en_transfers := q\<rparr>)" if e: "balanced due e" and step: "quiet_step (en_transfers e) q"
    for due and e :: "'a engine" and q
  proof -
    have "consistent (en_transfers e)" using e by (simp add: balanced_def)
    then show ?thesis
      using balanced_transfers [OF e] quiet_step_consistent quiet_step_running step by blast
  qed
  show "balanced due (e\<lparr>en_tasks := t\<rparr>)" if "balanced due e" "quiet_task (en_tasks e) t"
    for due and e :: "'a engine" and t
    using that quiet_task_ok [of "en_tasks e" t] by (simp add: balanced_def)
  show "balanced due (fill_transfer_slots e)" if "balanced due e" for due and e :: "'a engine"
    using that by (rule fill_balanced)
  show "balanced due (on_edit f e)" if "balanced due e" for due and e :: "'a engine" and f
    using that by (simp add: balanced_def on_edit_def)
qed

text \<open>The end of a transfer uses up the result that was due.\<close>

lemma end_balanced:
  assumes bal: "balanced due e" and i: "0 < due i" and s: "\<not> queued_or_running s"
  shows "balanced (due(i := due i - 1)) (on_transfers (with_guard i (end_body s)) e)"
    and "i |\<notin>| tq_running (en_transfers (on_transfers (with_guard i (end_body s)) e))"
proof -
  have q: "consistent (en_transfers e)" using bal by (simp add: balanced_def)
  note running = finish_running [OF q s, of i]
  show "i |\<notin>| tq_running (en_transfers (on_transfers (with_guard i (end_body s)) e))"
    by (simp add: on_transfers_def running)
  have account: "fcard (tasks_for k (en_tasks e)) + due k = (if k |\<in>| tq_running (en_transfers e) then 1 else 0)" for k
    using bal by (simp add: balanced_def)
  have "i |\<in>| tq_running (en_transfers e)" using account [of i] i by (simp split: if_splits)
  moreover have "fcard (tasks_for i (en_tasks e)) + due i \<le> 1" using account [of i] by simp
  then have "fcard (tasks_for i (en_tasks e)) = 0" "due i = 1" using i by linarith+
  ultimately have "fcard (tasks_for k (en_tasks e)) + (due(i := due i - 1)) k =
      (if k |\<in>| tq_running (en_transfers e) |-| {|i|} then 1 else 0)" for k
    using account [of k] by (cases "k = i") simp_all
  then show "balanced (due(i := due i - 1)) (on_transfers (with_guard i (end_body s)) e)"
    using bal slot_step_consistent [OF q slot_step.Finish [OF s]]
    by (simp add: balanced_def on_transfers_def running)
qed

lemma transfer_finished_balanced:
  assumes "balanced due e" and "0 < due i"
  shows "balanced (due(i := due i - 1)) (transfer_finished i outcome e)"
proof -
  have "balanced due (on_tasks (forget_scope (TransferScope i)) e)"
    by (rule accounts.J_tasks [OF assms(1)]) (rule tasks_safes)
  then show ?thesis
    by (intro accounts.J_finished_rest end_balanced assms(2)) simp_all
qed

lemma transfer_failed_balanced:
  assumes "balanced due e" and "0 < due i"
  shows "balanced (due(i := due i - 1)) (transfer_failed i m e)"
proof -
  obtain cancelled e1 where e1: "take_cancelled_scope (TransferScope i) e = (cancelled, e1)" by fastforce
  then have "balanced due e1" using accounts.J_small_parts(5) [OF assms(1), of "TransferScope i"] by simp
  from end_balanced [OF this assms(2), of "if cancelled then Cancelled else Failed m"]
  show ?thesis by (intro accounts.J_failed_rest [OF e1]) simp_all
qed

lemma settle_balanced: "balanced due e \<Longrightarrow> balanced due (settle e)"
  by (rule accounts.J_settle)

lemma message_balanced:
  assumes bal: "balanced due e" and due: "\<And>i. ended_transfer m = Some i \<Longrightarrow> 0 < due i"
  shows "balanced (case ended_transfer m of None \<Rightarrow> due | Some i \<Rightarrow> due(i := due i - 1)) (handle_internal m e)"
proof (cases "ended_transfer m")
  case None
  have "balanced due (handle_internal m e)"
    by (rule accounts.J_handle_internal [OF bal]) (use None in auto)
  then show ?thesis by (simp add: None)
next
  case (Some i)
  then have i: "0 < due i" by (rule due)
  have "fcard (tasks_for i (en_tasks e)) + due i = (if i |\<in>| tq_running (en_transfers e) then 1 else 0)"
    and q: "consistent (en_transfers e)"
    using bal by (simp_all add: balanced_def)
  then have "i |\<in>| tq_running (en_transfers e)" using i by (simp split: if_splits)
  then obtain j where j: "get_job (en_transfers e) i = Some j" "j_status j = InProgress"
    by (auto simp: running_iff [OF q] get_job_def)
  note ends = transfer_finished_balanced [OF bal i] transfer_failed_balanced [OF bal i]
  have "balanced (due(i := due i - 1)) (handle_internal m e)"
    using Some
  proof (cases m rule: ended_transfer.cases)
    case (3 name scope)
    then have "scope = TransferScope i" using Some by (cases scope) auto
    then show ?thesis
      using ends(2) j by (simp add: 3 handle_internal_def recover_from_panic_def handle_transfer_event_def settle_balanced)
  qed (use ends in \<open>simp_all add: handle_internal_def handle_transfer_event_def settle_balanced\<close>)
  then show ?thesis by (simp add: Some)
qed

end
