(* ===== verification/Fake_Fs.thy ===== *)
theory Fake_Fs
  imports Vfs
begin

text \<open>
  \<^verbatim>\<open>porthmos-vfs/src/testing/fake_fs.rs\<close>: the in-memory file system the repository tests its
  engine with, an ordered map from paths to nodes.  It implements the whole contract, so it
  shows that the laws the other components rely on can hold.  A boxed reader or writer is an
  entry of a table in the state; two file systems form one world as a pair.
\<close>

section \<open>The tree\<close>

datatype node = NFile "8 word list" "nat option" | NDir | NSymlink path

record fake_reader =
  fr_data :: "8 word list"
  fr_failing :: bool

record fake_tree =
  ft_nodes :: "(path, node) fmap"
  ft_failing_read_dirs :: "path fset"
  ft_failing_reads :: "path fset"
  ft_failing_shutdowns :: "path fset"
  ft_written_sizes :: "(path \<times> nat) list"
  ft_readers :: "(handle, fake_reader) fmap"
  ft_writers :: "(handle, path) fmap"
  ft_next_handle :: handle

definition MAX_SYMLINK_HOPS :: nat where
  "MAX_SYMLINK_HOPS = 8"

definition fake_insert_ancestors :: "path \<Rightarrow> fake_tree \<Rightarrow> fake_tree" where
  "fake_insert_ancestors p t =
     fold (\<lambda>a t. if fmlookup (ft_nodes t) a = None then t\<lparr>ft_nodes := fmupd a NDir (ft_nodes t)\<rparr> else t)
       (tl (path_ancestors p)) t"

fun fake_resolve_hops :: "nat \<Rightarrow> (path, node) fmap \<Rightarrow> path \<Rightarrow> node option" where
  "fake_resolve_hops 0 nodes p = None"
| "fake_resolve_hops (Suc hops) nodes p =
     (case fmlookup nodes p of
        None \<Rightarrow> None
      | Some (NSymlink target) \<Rightarrow> fake_resolve_hops hops nodes target
      | Some n \<Rightarrow> Some n)"

definition fake_resolve :: "fake_tree \<Rightarrow> path \<Rightarrow> node option" where
  "fake_resolve t p = fake_resolve_hops MAX_SYMLINK_HOPS (ft_nodes t) p"

definition fake_children :: "fake_tree \<Rightarrow> path \<Rightarrow> (path \<times> node) list" where
  "fake_children t dir =
     List.map_filter (\<lambda>p. map_option (Pair p) (fmlookup (ft_nodes t) p))
       (filter (\<lambda>p. path_parent p = Some dir) (sorted_list_of_fset (fmdom (ft_nodes t))))"

definition fake_is_dir :: "fake_tree \<Rightarrow> path \<Rightarrow> bool" where
  "fake_is_dir t p \<longleftrightarrow> fmlookup (ft_nodes t) p = Some NDir"

fun metadata_of :: "node \<Rightarrow> metadata" where
  "metadata_of (NFile data modified) =
     \<lparr>m_size = length data, m_modified = modified, m_kind = File, m_permissions = None\<rparr>"
| "metadata_of NDir = \<lparr>m_size = 0, m_modified = None, m_kind = Dir, m_permissions = None\<rparr>"
| "metadata_of (NSymlink _) = \<lparr>m_size = 0, m_modified = None, m_kind = Symlink, m_permissions = None\<rparr>"

definition fake_not_found :: "path \<Rightarrow> protocol_error" where
  "fake_not_found p = protocol_error_new NotFound (''No such file: '' @ string_of_path p)"

definition name_of :: "path \<Rightarrow> string" where
  "name_of p = (case file_name p of None \<Rightarrow> [] | Some n \<Rightarrow> n)"

definition fake_empty :: fake_tree where
  "fake_empty =
     \<lparr>ft_nodes = fmempty, ft_failing_read_dirs = {||}, ft_failing_reads = {||},
      ft_failing_shutdowns = {||}, ft_written_sizes = [], ft_readers = fmempty,
      ft_writers = fmempty, ft_next_handle = 0\<rparr>"

definition fake_dir :: "path \<Rightarrow> fake_tree \<Rightarrow> fake_tree" where
  "fake_dir p t = (let t = fake_insert_ancestors p t in t\<lparr>ft_nodes := fmupd p NDir (ft_nodes t)\<rparr>)"

definition fake_file :: "path \<Rightarrow> 8 word list \<Rightarrow> nat option \<Rightarrow> fake_tree \<Rightarrow> fake_tree" where
  "fake_file p data modified t =
     (let t = fake_insert_ancestors p t in t\<lparr>ft_nodes := fmupd p (NFile data modified) (ft_nodes t)\<rparr>)"

definition fake_contents :: "fake_tree \<Rightarrow> path \<Rightarrow> 8 word list option" where
  "fake_contents t p =
     (case fmlookup (ft_nodes t) p of Some (NFile data _) \<Rightarrow> Some data | _ \<Rightarrow> None)"

section \<open>The operations\<close>

definition fake_set_modified :: "bool \<Rightarrow> path \<Rightarrow> nat \<Rightarrow> (fake_tree, unit) effect" where
  "fake_set_modified time_support p seconds t =
     (if \<not> time_support
      then (Inl (protocol_error_new Unsupported ''this connection can't set modification times''), t)
      else case fmlookup (ft_nodes t) p of
             Some (NFile data _) \<Rightarrow>
               (Inr (), t\<lparr>ft_nodes := fmupd p (NFile data (Some seconds)) (ft_nodes t)\<rparr>)
           | _ \<Rightarrow> (Inl (fake_not_found p), t))"

definition fake_read_dir :: "path \<Rightarrow> (fake_tree, dir_item list) effect" where
  "fake_read_dir dir t =
     (if dir |\<in>| ft_failing_read_dirs t
      then (Inl (protocol_error_new PermissionDenied ''Permission denied''), t)
      else if \<not> fake_is_dir t dir then (Inl (fake_not_found dir), t)
      else (Inr (map (\<lambda>(p, n). \<lparr>d_name = name_of p, d_path = p, d_metadata = metadata_of n\<rparr>)
                   (fake_children t dir)), t))"

definition fake_stat :: "path \<Rightarrow> (fake_tree, metadata) effect" where
  "fake_stat p t =
     (case fake_resolve t p of
        Some n \<Rightarrow> (Inr (metadata_of n), t)
      | None \<Rightarrow> (Inl (fake_not_found p), t))"

definition fake_parent_is_dir :: "fake_tree \<Rightarrow> path \<Rightarrow> bool" where
  "fake_parent_is_dir t p \<longleftrightarrow> (case path_parent p of None \<Rightarrow> False | Some d \<Rightarrow> fake_is_dir t d)"

definition fake_create_dir :: "path \<Rightarrow> (fake_tree, unit) effect" where
  "fake_create_dir p t =
     (if \<not> fake_parent_is_dir t p then (Inl (fake_not_found p), t)
      else if fmlookup (ft_nodes t) p \<noteq> None
      then (Inl (protocol_error_new Other ''File exists''), t)
      else (Inr (), t\<lparr>ft_nodes := fmupd p NDir (ft_nodes t)\<rparr>))"

text \<open>
  The nodes under \<open>from\<close> move to \<open>to\<close>; what was under \<open>to\<close> is gone.  What is left of a path
  without its prefix is relative, so joining it is appending it.
\<close>

definition fake_rename :: "path \<Rightarrow> path \<Rightarrow> (fake_tree, unit) effect" where
  "fake_rename from to t =
     (if fmlookup (ft_nodes t) from = None then (Inl (fake_not_found from), t)
      else
        let nodes = ft_nodes t;
            moved = filter (\<lambda>p. path_starts_with p from) (sorted_list_of_fset (fmdom nodes));
            kept = fmfilter (\<lambda>p. \<not> path_starts_with p from \<and> \<not> path_starts_with p to) nodes
        in (Inr (), t\<lparr>ft_nodes :=
              fold (\<lambda>p. fmupd (to @ drop (length from) p) (the (fmlookup nodes p))) moved kept\<rparr>))"

definition fake_remove_file :: "path \<Rightarrow> (fake_tree, unit) effect" where
  "fake_remove_file p t =
     (case fmlookup (ft_nodes t) p of
        Some NDir \<Rightarrow> (Inl (protocol_error_new Other ''Is a directory''), t)
      | Some _ \<Rightarrow> (Inr (), t\<lparr>ft_nodes := fmdrop p (ft_nodes t)\<rparr>)
      | None \<Rightarrow> (Inl (fake_not_found p), t))"

definition fake_add_reader :: "fake_reader \<Rightarrow> (fake_tree, handle) effect" where
  "fake_add_reader r t =
     (Inr (ft_next_handle t),
      t\<lparr>ft_readers := fmupd (ft_next_handle t) r (ft_readers t), ft_next_handle := ft_next_handle t + 1\<rparr>)"

definition fake_open_read :: "path \<Rightarrow> nat \<Rightarrow> (fake_tree, handle) effect" where
  "fake_open_read p offset t =
     (if p |\<in>| ft_failing_reads t
      then fake_add_reader \<lparr>fr_data = [], fr_failing = True\<rparr> t
      else case fake_resolve t p of
             Some (NFile data _) \<Rightarrow>
               fake_add_reader \<lparr>fr_data = drop (min offset (length data)) data, fr_failing = False\<rparr> t
           | _ \<Rightarrow> (Inl (fake_not_found p), t))"

definition resize :: "8 word list \<Rightarrow> nat \<Rightarrow> 8 word list" where
  "resize data n = take n data @ replicate (n - length data) 0"

definition fake_open_write :: "path \<Rightarrow> nat \<Rightarrow> (fake_tree, writer) effect" where
  "fake_open_write p offset t =
     (if \<not> fake_parent_is_dir t p then (Inl (fake_not_found p), t)
      else
        let (node, start) =
              (case fmlookup (ft_nodes t) p of
                 Some (NFile data modified) \<Rightarrow>
                   if 0 < offset then (NFile (resize data offset) modified, offset) else (NFile [] None, 0)
               | _ \<Rightarrow> (NFile [] None, 0))
        in (Inr \<lparr>w_stream = ft_next_handle t, w_offset = start\<rparr>,
            t\<lparr>ft_nodes := fmupd p node (ft_nodes t),
              ft_writers := fmupd (ft_next_handle t) p (ft_writers t),
              ft_next_handle := ft_next_handle t + 1\<rparr>))"

definition fake_open_write_sized :: "path \<Rightarrow> nat \<Rightarrow> nat \<Rightarrow> (fake_tree, writer) effect" where
  "fake_open_write_sized p offset expected t =
     fake_open_write p offset (t\<lparr>ft_written_sizes := ft_written_sizes t @ [(p, expected)]\<rparr>)"

definition fake_io_error :: "string \<Rightarrow> protocol_error" where
  "fake_io_error message = protocol_error_of_io IoOther message"

definition fake_read :: "handle \<Rightarrow> nat \<Rightarrow> (fake_tree, 8 word list) effect" where
  "fake_read h n t =
     (case fmlookup (ft_readers t) h of
        None \<Rightarrow> (Inl (fake_io_error ''closed''), t)
      | Some r \<Rightarrow>
          if fr_failing r then (Inl (fake_io_error ''injected read failure''), t)
          else (Inr (take n (fr_data r)),
                t\<lparr>ft_readers := fmupd h (r\<lparr>fr_data := drop n (fr_data r)\<rparr>) (ft_readers t)\<rparr>))"

definition fake_write_all :: "handle \<Rightarrow> 8 word list \<Rightarrow> (fake_tree, unit) effect" where
  "fake_write_all h bs t =
     (case fmlookup (ft_writers t) h of
        None \<Rightarrow> (Inl (fake_io_error ''closed''), t)
      | Some p \<Rightarrow>
          (case fmlookup (ft_nodes t) p of
             Some (NFile data modified) \<Rightarrow>
               (Inr (), t\<lparr>ft_nodes := fmupd p (NFile (data @ bs) modified) (ft_nodes t)\<rparr>)
           | _ \<Rightarrow> (Inl (protocol_error_of_io IoNotFound ''entity not found''), t)))"

definition fake_flush :: "handle \<Rightarrow> (fake_tree, unit) effect" where
  "fake_flush h t = (Inr (), t)"

definition fake_shutdown :: "handle \<Rightarrow> (fake_tree, unit) effect" where
  "fake_shutdown h t =
     (if (case fmlookup (ft_writers t) h of None \<Rightarrow> False | Some p \<Rightarrow> p |\<in>| ft_failing_shutdowns t)
      then (Inl (fake_io_error ''shutdown refused''), t)
      else (Inr (), t))"

text \<open>The file system with its settings: resume back-off, time support, time resolution.\<close>

definition fake_fs :: "nat \<Rightarrow> bool \<Rightarrow> nat \<Rightarrow> fake_tree file_system" where
  "fake_fs backoff time_support resolution =
     \<lparr>fs_read_dir = fake_read_dir, fs_stat = fake_stat, fs_create_dir = fake_create_dir,
      fs_rename = fake_rename, fs_remove_file = fake_remove_file, fs_open_read = fake_open_read,
      fs_open_write_sized = fake_open_write_sized, fs_set_modified = fake_set_modified time_support,
      fs_read = fake_read, fs_write_all = fake_write_all, fs_flush = fake_flush,
      fs_shutdown = fake_shutdown, fs_transfer_limit = default_transfer_limit,
      fs_resume_backoff = backoff, fs_can_set_modified = time_support,
      fs_time_resolution = resolution\<rparr>"

section \<open>Two file systems in one world\<close>

definition on_left :: "('a, 'r) effect \<Rightarrow> ('a \<times> 'b, 'r) effect" where
  "on_left m w = (case m (fst w) of (r, a) \<Rightarrow> (r, (a, snd w)))"

definition on_right :: "('b, 'r) effect \<Rightarrow> ('a \<times> 'b, 'r) effect" where
  "on_right m w = (case m (snd w) of (r, b) \<Rightarrow> (r, (fst w, b)))"

definition left_fs :: "'a file_system \<Rightarrow> ('a \<times> 'b) file_system" where
  "left_fs fs =
     \<lparr>fs_read_dir = \<lambda>p. on_left (fs_read_dir fs p), fs_stat = \<lambda>p. on_left (fs_stat fs p),
      fs_create_dir = \<lambda>p. on_left (fs_create_dir fs p), fs_rename = \<lambda>p q. on_left (fs_rename fs p q),
      fs_remove_file = \<lambda>p. on_left (fs_remove_file fs p),
      fs_open_read = \<lambda>p n. on_left (fs_open_read fs p n),
      fs_open_write_sized = \<lambda>p n s. on_left (fs_open_write_sized fs p n s),
      fs_set_modified = \<lambda>p n. on_left (fs_set_modified fs p n),
      fs_read = \<lambda>h n. on_left (fs_read fs h n), fs_write_all = \<lambda>h bs. on_left (fs_write_all fs h bs),
      fs_flush = \<lambda>h. on_left (fs_flush fs h), fs_shutdown = \<lambda>h. on_left (fs_shutdown fs h),
      fs_transfer_limit = fs_transfer_limit fs, fs_resume_backoff = fs_resume_backoff fs,
      fs_can_set_modified = fs_can_set_modified fs, fs_time_resolution = fs_time_resolution fs\<rparr>"

definition right_fs :: "'b file_system \<Rightarrow> ('a \<times> 'b) file_system" where
  "right_fs fs =
     \<lparr>fs_read_dir = \<lambda>p. on_right (fs_read_dir fs p), fs_stat = \<lambda>p. on_right (fs_stat fs p),
      fs_create_dir = \<lambda>p. on_right (fs_create_dir fs p), fs_rename = \<lambda>p q. on_right (fs_rename fs p q),
      fs_remove_file = \<lambda>p. on_right (fs_remove_file fs p),
      fs_open_read = \<lambda>p n. on_right (fs_open_read fs p n),
      fs_open_write_sized = \<lambda>p n s. on_right (fs_open_write_sized fs p n s),
      fs_set_modified = \<lambda>p n. on_right (fs_set_modified fs p n),
      fs_read = \<lambda>h n. on_right (fs_read fs h n), fs_write_all = \<lambda>h bs. on_right (fs_write_all fs h bs),
      fs_flush = \<lambda>h. on_right (fs_flush fs h), fs_shutdown = \<lambda>h. on_right (fs_shutdown fs h),
      fs_transfer_limit = fs_transfer_limit fs, fs_resume_backoff = fs_resume_backoff fs,
      fs_can_set_modified = fs_can_set_modified fs, fs_time_resolution = fs_time_resolution fs\<rparr>"

lemmas fake_fs_ops =
  fake_fs_def left_fs_def right_fs_def on_left_def on_right_def fake_read_dir_def fake_stat_def
  fake_create_dir_def fake_rename_def fake_open_read_def fake_open_write_sized_def
  fake_open_write_def fake_set_modified_def fake_read_def fake_write_all_def fake_flush_def
  fake_shutdown_def fake_add_reader_def

end
