(* ===== verification/Whole_System.thy ===== *)
theory Whole_System
  imports Engine_Safe Fake_Fs
begin

text \<open>
  The engine with its tasks and the channel of their messages.  The user sends commands at any
  time; a task sends its messages and is then removed from the table, or panics and is
  reported; messages are delivered one by one, in order; the world outside changes as it likes.
\<close>

section \<open>Steps\<close>

record 'w system =
  sm_engine :: "'w engine"
  sm_mail :: "'w internal list"

definition on_engine :: "('w engine \<Rightarrow> 'w engine) \<Rightarrow> 'w system \<Rightarrow> 'w system" where
  "on_engine f s = s\<lparr>sm_engine := f (sm_engine s)\<rparr>"

definition live_task :: "'w system \<Rightarrow> nat \<Rightarrow> 'w work live option" where
  "live_task s k = fmlookup (tk_live (en_tasks (sm_engine s))) k"

text \<open>After its last message a task has nothing left to do.\<close>

definition sent :: "nat \<Rightarrow> 'w work tasks \<Rightarrow> 'w work tasks" where
  "sent k t = t\<lparr>tk_live := (case fmlookup (tk_live t) k of
                              None \<Rightarrow> tk_live t
                            | Some l \<Rightarrow> fmupd k (l\<lparr>lv_work := WorkSent\<rparr>) (tk_live t))\<rparr>"

inductive system_step :: "'w system \<Rightarrow> 'w system \<Rightarrow> bool" where
  Command: "system_step s (on_engine (handle_command c) s)"
| Deliver: "sm_mail s = m # ms \<Longrightarrow> system_step s ((on_engine (handle_internal m) s)\<lparr>sm_mail := ms\<rparr>)"
| Flush: "system_step s (on_engine publish_transfers s)"
| World: "ot_percent world = ot_percent (en_outside (sm_engine s)) \<Longrightarrow>
    system_step s (on_engine (\<lambda>e. e\<lparr>en_outside := world\<rparr>) s)"
| Writer: "system_step s (on_engine (\<lambda>e. e\<lparr>en_writer := writer\<rparr>) s)"
| Message: "ended_transfer m = None \<Longrightarrow> system_step s (s\<lparr>sm_mail := sm_mail s @ [m]\<rparr>)"
| Result: "live_task s k = Some l \<Longrightarrow> perform rt cancel (lv_work l) w = Some (ms, w') \<Longrightarrow>
    system_step s ((on_engine (on_tasks (sent k)) s)\<lparr>sm_mail := sm_mail s @ ms\<rparr>)"
| Gone: "live_task s k = Some l \<Longrightarrow> lv_work l = WorkSent \<Longrightarrow>
    system_step s (on_engine (on_tasks (finish_task k)) s)"
| Panic: "live_task s k = Some l \<Longrightarrow> lv_work l \<noteq> WorkSent \<Longrightarrow>
    system_step s ((on_engine (on_tasks (finish_task k)) s)
      \<lparr>sm_mail := sm_mail s @ [TaskPanicked (lv_name l) (lv_scope l)]\<rparr>)"

inductive_cases system_stepE: "system_step s s'"

text \<open>The system starts with a new engine, whatever its settings, and no messages.\<close>

definition starts_with :: "nat \<Rightarrow> 'w system \<Rightarrow> bool" where
  "starts_with limit s \<longleftrightarrow> sm_mail s = [] \<and>
     (\<exists>world local_fs on_conflict publish_interval persist_interval history editor auto_upload store.
        sm_engine s = engine_new world local_fs limit on_conflict publish_interval persist_interval history
                        editor auto_upload store)"

section \<open>The invariant\<close>

definition due_in :: "'w internal list \<Rightarrow> nat \<Rightarrow> nat" where
  "due_in mail i = length (filter (\<lambda>m. ended_transfer m = Some i) mail)"

definition accounted :: "nat \<Rightarrow> 'w system \<Rightarrow> bool" where
  "accounted limit s \<longleftrightarrow> within limit (sm_engine s) \<and> balanced (due_in (sm_mail s)) (sm_engine s)"

lemma due_in_append: "due_in (ms @ ms') i = due_in ms i + due_in ms' i"
  by (simp add: due_in_def)

lemma due_in_cons:
  "(case ended_transfer m of None \<Rightarrow> due_in (m # ms) | Some i \<Rightarrow> (due_in (m # ms))(i := due_in (m # ms) i - 1)) =
     due_in ms"
  by (rule ext) (simp add: due_in_def split: option.split)

lemma within_same:
  "within limit e \<Longrightarrow> en_transfers e' = en_transfers e \<Longrightarrow> en_max_parallel e' = en_max_parallel e \<Longrightarrow> within limit e'"
  by (simp add: within_def)

lemma live_task_ok:
  assumes "accounted limit s" and "live_task s k = Some l" and "lv_work l \<noteq> WorkSent"
  shows "transfer_work (lv_work l) = transfer_scope (lv_scope l)"
  using assms by (auto simp: accounted_def balanced_def tasks_ok_def live_task_def)

text \<open>A task that leaves, or has sent its last message, is one fewer.\<close>

lemma tasks_for_less:
  assumes live: "fmlookup (tk_live t) k = Some l" and ok: "tasks_ok t" and t': "t' = sent k t \<or> t' = finish_task k t"
  shows "tasks_ok t'" and "fcard (tasks_for i t) = fcard (tasks_for i t') + (if transfer_work (lv_work l) = Some i then 1 else 0)"
proof -
  have next_id: "tk_next t' = tk_next t" using t' by (auto simp: sent_def finish_task_def)
  show "tasks_ok t'"
    unfolding tasks_ok_def next_id
  proof (intro allI impI)
    fix ka la assume "fmlookup (tk_live t') ka = Some la"
    then consider "fmlookup (tk_live t) ka = Some la" | "ka = k" "la = l\<lparr>lv_work := WorkSent\<rparr>"
      using t' live by (auto simp: sent_def finish_task_def split: if_splits)
    then show "ka < tk_next t \<and> (lv_work la = WorkSent \<or> transfer_work (lv_work la) = transfer_scope (lv_scope la))"
      using ok live unfolding tasks_ok_def by cases (blast, simp)
  qed
  have less: "tasks_for i t' = tasks_for i t |-| {|k|}"
    using t' live by (intro fset_eqI) (auto simp: sent_def finish_task_def split: if_splits)
  show "fcard (tasks_for i t) = fcard (tasks_for i t') + (if transfer_work (lv_work l) = Some i then 1 else 0)"
  proof (cases "transfer_work (lv_work l) = Some i")
    case True
    then have "tasks_for i t = finsert k (tasks_for i t')" using live by (intro fset_eqI) (auto simp: less)
    moreover have "k |\<notin>| tasks_for i t'" by (simp add: less)
    ultimately show ?thesis using True by (simp add: fcard_finsert_disjoint)
  next
    case False
    then have "tasks_for i t |-| {|k|} = tasks_for i t" using live by (intro fset_eqI) auto
    then show ?thesis using False by (simp add: less)
  qed
qed

lemma message_sent:
  assumes acc: "accounted limit s" and live: "live_task s k = Some l"
    and t': "t' = sent k (en_tasks (sm_engine s)) \<or> t' = finish_task k (en_tasks (sm_engine s))"
    and ms: "\<And>i. due_in ms i = (if transfer_work (lv_work l) = Some i then 1 else 0)"
  shows "accounted limit ((on_engine (on_tasks (\<lambda>_. t')) s)\<lparr>sm_mail := sm_mail s @ ms\<rparr>)"
proof -
  let ?e = "sm_engine s"
  have bal: "balanced (due_in (sm_mail s)) ?e" using acc by (simp add: accounted_def)
  have live': "fmlookup (tk_live (en_tasks ?e)) k = Some l" using live by (simp add: live_task_def)
  have ok: "tasks_ok (en_tasks ?e)" using bal by (simp add: balanced_def)
  note less = tasks_for_less [OF live' ok t']
  have "fcard (tasks_for i t') + due_in (sm_mail s @ ms) i = fcard (tasks_for i (en_tasks ?e)) + due_in (sm_mail s) i" for i
    using less(2) [of i] ms [of i] by (simp add: due_in_append)
  then have "balanced (due_in (sm_mail s @ ms)) (on_tasks (\<lambda>_. t') ?e)"
    using bal less(1) by (simp add: balanced_def on_tasks_def)
  moreover have "within limit (on_tasks (\<lambda>_. t') ?e)"
    using acc by (simp add: accounted_def within_def on_tasks_def)
  ultimately show ?thesis by (simp add: accounted_def on_engine_def)
qed

lemma accounted_engine:
  assumes "accounted limit s" and "\<And>e. within limit e \<Longrightarrow> within limit (f e)"
    and "\<And>due e. balanced due e \<Longrightarrow> balanced due (f e)"
  shows "accounted limit (on_engine f s)"
  using assms by (simp add: accounted_def on_engine_def)

lemma accounted_step:
  assumes acc: "accounted limit s" and step: "system_step s s'"
  shows "accounted limit s'"
  using step
proof cases
  case (Command c)
  then show ?thesis
    using accounted_engine [OF acc limits.J_handle_command accounts.J_handle_command] by simp
next
  case (Deliver m ms)
  have bal: "balanced (due_in (m # ms)) (sm_engine s)" using acc Deliver by (simp add: accounted_def)
  have "0 < due_in (m # ms) i" if "ended_transfer m = Some i" for i using that by (simp add: due_in_def)
  from message_balanced [OF bal this, of m] have "balanced (due_in ms) (handle_internal m (sm_engine s))"
    by (simp only: due_in_cons)
  moreover have "within limit (handle_internal m (sm_engine s))"
    using acc by (intro limits.J_any_internal) (simp add: accounted_def)
  ultimately show ?thesis by (simp add: Deliver accounted_def on_engine_def)
next
  case Flush
  then show ?thesis using accounted_engine [OF acc limits.J_publish(1) accounts.J_publish(1)] by simp
next
  case (World world)
  then show ?thesis using accounted_engine [OF acc limits.J_parts(13) accounts.J_parts(13)] by simp
next
  case (Writer writer)
  then show ?thesis using accounted_engine [OF acc limits.J_parts(11) accounts.J_parts(11)] by simp
next
  case (Message m)
  then have "due_in (sm_mail s @ [m]) = due_in (sm_mail s)" by (intro ext) (simp add: due_in_def)
  then show ?thesis using acc Message by (simp add: accounted_def)
next
  case (Result k l rt cancel w ms w')
  have "due_in ms i = (if transfer_work (lv_work l) = Some i then 1 else 0)" for i
    unfolding due_in_def by (rule perform_ends [OF Result(3)])
  from message_sent [OF acc Result(2) _ this] show ?thesis by (simp add: Result(1) on_engine_def on_tasks_def)
next
  case (Gone k l)
  have "due_in [] i = (if transfer_work (lv_work l) = Some i then 1 else 0)" for i
    using Gone by (simp add: due_in_def)
  from message_sent [OF acc Gone(2) _ this] show ?thesis by (simp add: Gone(1) on_engine_def on_tasks_def)
next
  case (Panic k l)
  have "due_in [TaskPanicked (lv_name l) (lv_scope l)] i = (if transfer_work (lv_work l) = Some i then 1 else 0)" for i
    using live_task_ok [OF acc Panic(2,3)] by (simp add: due_in_def)
  from message_sent [OF acc Panic(2) _ this] show ?thesis by (simp add: Panic(1) on_engine_def on_tasks_def)
qed

lemma accounted_start: "starts_with limit s \<Longrightarrow> accounted limit s"
  using slots_start [of limit]
  by (auto simp: starts_with_def accounted_def within_def balanced_def engine_new_def tasks_new_def tasks_ok_def
      due_in_def queue_new_def slots_ok_def tasks_for_def fcard.rep_eq)

interpretation system: safe_machine "starts_with limit" system_step "accounted limit" for limit
  by unfold_locales (auto simp: accounted_start intro: accounted_step)

section \<open>A run\<close>

text \<open>A copy of one file to a session of the in-memory file system.\<close>

definition sample_outside :: outside where
  "sample_outside =
     \<lparr>ot_now = 0, ot_clock = 0, ot_stamp = (\<lambda>_. ''19700101-000000''), ot_percent = (\<lambda>_ _. 0),
      ot_is_dir = (\<lambda>_. False), ot_file_removed = (\<lambda>_. False), ot_editor = None,
      ot_render = (\<lambda>_. Inr []), ot_edit_dir = [RootDir, Normal ''tmp''],
      ot_kinds = (\<lambda>_. []), ot_ids = sorted_list_of_fset, ot_paths = sorted_list_of_fset\<rparr>"

definition sample_store :: persist where
  "sample_store =
     \<lparr>ps_disk = \<lparr>dk_files = fmempty, dk_ops = 0, dk_fails = (\<lambda>_. False), dk_short = 0, dk_error = []\<rparr>,
      ps_applied = fmempty, ps_next_version = 1\<rparr>"

definition sample_engine :: "fake_tree engine" where
  "sample_engine =
     engine_new sample_outside (fake_fs 0 True 1) 2 PAsk 0 0
       \<lparr>hi_path = [RootDir, Normal ''history''], hi_entries = [], hi_writable = True\<rparr> None False sample_store"

definition sample_entry :: entry where
  "sample_entry = \<lparr>e_name = ''a'', e_path = [RootDir, Normal ''a''], e_is_dir = False, e_size = 1, e_permissions = None\<rparr>"

definition sample_start :: "fake_tree system" where
  "sample_start = \<lparr>sm_engine = sample_engine, sm_mail = []\<rparr>"

definition sample_system :: "fake_tree system" where
  "sample_system =
     on_engine (handle_command (Copy LocalSide [sample_entry] (SessionSide 0) [RootDir]))
       ((on_engine (handle_internal (SessionReady ''server'' False (fake_fs 0 True 1))) sample_start)\<lparr>sm_mail := []\<rparr>)"

lemma sample_system_reached: "reach (starts_with 2) system_step sample_system"
proof -
  have "starts_with 2 sample_start"
    unfolding starts_with_def sample_start_def sample_engine_def by (intro conjI exI) (rule system.select_convs)+
  then have "reach (starts_with 2) system_step sample_start" by (rule reach_start)
  moreover have "system_step sample_start
      (sample_start\<lparr>sm_mail := [SessionReady ''server'' False (fake_fs 0 True 1)]\<rparr>)" (is "system_step _ ?mailed")
    using system_step.Message [of "SessionReady ''server'' False (fake_fs 0 True 1)" sample_start]
    by (simp add: sample_start_def)
  ultimately have "reach (starts_with 2) system_step ?mailed" by (rule reach_step)
  moreover have "system_step ?mailed
      ((on_engine (handle_internal (SessionReady ''server'' False (fake_fs 0 True 1))) sample_start)\<lparr>sm_mail := []\<rparr>)"
    using system_step.Deliver [of ?mailed] by (simp add: on_engine_def)
  ultimately have "reach (starts_with 2) system_step
      ((on_engine (handle_internal (SessionReady ''server'' False (fake_fs 0 True 1))) sample_start)\<lparr>sm_mail := []\<rparr>)"
    by (rule reach_step)
  then show ?thesis unfolding sample_system_def by (rule reach_step) (rule system_step.Command)
qed

section \<open>What the system promises\<close>



lemma at_most_one: "(x :: nat) + y = (if b then 1 else 0) \<Longrightarrow> x \<le> 1"
  by (simp split: if_splits)

text \<open>(C1) No transfer is lost and none is done twice: for a job in progress there is exactly one task
  still working on it or exactly one result of it waiting to be delivered, and for any other job
  there is neither.  A task that panics counts as one that ended with a result.\<close>

theorem every_transfer_accounted:
  assumes "reach (starts_with limit) system_step s"
  shows "fcard (tasks_for i (en_tasks (sm_engine s))) + due_in (sm_mail s) i =
           (if i |\<in>| tq_running (en_transfers (sm_engine s)) then 1 else 0)"
  using system.reach_inv [OF assms] by (simp add: accounted_def balanced_def)

lemma every_transfer_accounted_witness:
  "fcard (tasks_for 0 (en_tasks (sm_engine sample_system))) \<le> 1"
  by (rule at_most_one) (rule every_transfer_accounted [OF sample_system_reached, of 0])

lemma accounted_single:
  assumes acc: "accounted limit s" and k: "live_task s k = Some l" "transfer_work (lv_work l) = Some i"
  shows "i |\<in>| tq_running (en_transfers (sm_engine s))"
    and "live_task s k' = Some l' \<Longrightarrow> transfer_work (lv_work l') = Some i \<Longrightarrow> k' = k"
proof -
  let ?T = "tasks_for i (en_tasks (sm_engine s))"
  have count: "fcard ?T + due_in (sm_mail s) i = (if i |\<in>| tq_running (en_transfers (sm_engine s)) then 1 else 0)"
    using acc by (simp add: accounted_def balanced_def)
  have k_in: "k |\<in>| ?T" using k by (simp add: live_task_def)
  then have "fcard ?T \<noteq> 0" by (metis fcard_0_eq fempty_iff)
  then show "i |\<in>| tq_running (en_transfers (sm_engine s))" using count by (simp split: if_splits)
  have "fcard ?T \<le> 1" using count by (rule at_most_one)
  moreover assume "live_task s k' = Some l'" "transfer_work (lv_work l') = Some i"
  then have "k' |\<in>| ?T" by (simp add: live_task_def)
  ultimately show "k' = k" using k_in
    by (metis One_nat_def card_le_Suc0_iff_eq fcard.rep_eq finite_fset)
qed

text \<open>The tasks that have still to write a file, and where.\<close>

definition writes :: "'w system \<Rightarrow> nat \<Rightarrow> bool" where
  "writes s k \<longleftrightarrow> (case live_task s k of None \<Rightarrow> False | Some l \<Rightarrow> transfer_work (lv_work l) \<noteq> None)"

definition writes_to :: "'w system \<Rightarrow> nat \<Rightarrow> destination option" where
  "writes_to s k =
     (case live_task s k of
        None \<Rightarrow> None
      | Some l \<Rightarrow> (case transfer_work (lv_work l) of None \<Rightarrow> None | Some i \<Rightarrow> destination_of (en_transfers (sm_engine s)) i))"



text \<open>(C11) Filling the slots ends, with a state in which nothing more can be started.\<close>

theorem filling_ends:
  assumes "consistent (en_transfers e)"
  shows "while_option (\<lambda>e. startable_now e \<noteq> []) (\<lambda>e. fold start_transfer (startable_now e) e) e =
           Some (fill_transfer_slots e) \<and>
         startable_now (fill_transfer_slots e) = []"
proof -
  have "\<exists>x. while_option (\<lambda>e. startable_now e \<noteq> []) (\<lambda>e. fold start_transfer (startable_now e) e) e = Some x"
    by (rule measure_while_option_Some [where P = "filling e" and f = "\<lambda>x. fcard (tq_queued (en_transfers x))"])
       (use filling_round assms in \<open>auto simp: filling_def\<close>)
  then show ?thesis
    using fill_result [OF assms] by (auto simp: fill_transfer_slots_def while_def)
qed

lemma filling_ends_witness: "startable_now (fill_transfer_slots (sm_engine sample_system)) = []"
  using filling_ends [of "sm_engine sample_system"] system.reach_inv [OF sample_system_reached]
  by (auto simp: accounted_def balanced_def)

end
