(* ===== verification/Engine_Promises.thy ===== *)
theory Engine_Promises
  imports Whole_System
begin

text \<open>
  What the engine promises the user: the transfers shown are the transfers there are, or will
  be soon; edited work is not thrown away; a session that is disconnected leaves nothing behind.
\<close>

section \<open>What is shown\<close>

definition up_to_date :: "'w engine \<Rightarrow> bool" where
  "up_to_date e \<longleftrightarrow> en_published e = engine_snapshot e \<or> flush_deadline e \<noteq> None"

lemma engine_snapshot_same:
  "en_transfers e = en_transfers e' \<Longrightarrow> en_planning e = en_planning e' \<Longrightarrow> en_reviews e = en_reviews e' \<Longrightarrow>
     ot_percent (en_outside e) = ot_percent (en_outside e') \<Longrightarrow> engine_snapshot e = engine_snapshot e'"
  by (simp add: engine_snapshot_def scan_infos_def)

lemma up_to_date_same:
  "up_to_date e \<Longrightarrow> engine_snapshot e' = engine_snapshot e \<Longrightarrow> en_published e' = en_published e \<Longrightarrow>
     flush_deadline e' = flush_deadline e \<Longrightarrow> up_to_date e'"
  by (simp add: up_to_date_def)

lemma publish_up_to_date: "up_to_date (publish_transfers e)"
  by (auto simp: publish_transfers_def up_to_date_def Let_def emit_def intro: engine_snapshot_same)

lemma request_up_to_date: "up_to_date (request_publish e)"
proof (cases "request_publish e = publish_transfers e")
  case False
  then show ?thesis by (auto simp: request_publish_def Let_def up_to_date_def flush_deadline_def split: option.splits)
qed (simp add: publish_up_to_date)

lemma message_up_to_date: "up_to_date (handle_internal m e)"
  by (simp add: handle_internal_def settle_def request_up_to_date split: internal.split transfer_event.split)

lemma up_to_date_step:
  assumes "up_to_date (sm_engine s)" and "system_step s s'"
  shows "up_to_date (sm_engine s')"
  using assms(2)
proof cases
  case (World world)
  then show ?thesis
    by (auto simp: on_engine_def flush_deadline_def intro!: up_to_date_same [OF assms(1)] engine_snapshot_same)
qed (use assms(1) in \<open>auto simp: on_engine_def on_tasks_def handle_command_def settle_def request_up_to_date
      message_up_to_date publish_up_to_date flush_deadline_def intro!: up_to_date_same [OF assms(1)] engine_snapshot_same\<close>)

lemma snapshot_new: "snapshot_of percent queue_new [] = snapshot_default"
  by (simp add: snapshot_of_def snapshot_default_def snapshot_rows_def queue_new_def queue_rows_of_def active_jobs_def
      jobs_at_def queued_count_def fmvalues_def map_filter_simps fcard.rep_eq Let_def)

interpretation shown: safe_machine "starts_with limit" system_step "\<lambda>s. up_to_date (sm_engine s)" for limit
proof
  show "up_to_date (sm_engine s)" if "starts_with limit s" for limit and s :: "'a system"
    using that
    by (auto simp: starts_with_def up_to_date_def engine_new_def engine_snapshot_def scan_infos_def snapshot_new)
qed (rule up_to_date_step)

text \<open>(C7) The user interface is never left behind: whatever has happened, the transfers that were last
  sent to it are the transfers there are now, or a time is set at which they will be sent.\<close>

theorem transfers_shown_or_due:
  assumes "reach (starts_with limit) system_step s"
  shows "en_published (sm_engine s) = engine_snapshot (sm_engine s) \<or> flush_deadline (sm_engine s) \<noteq> None"
  using shown.reach_inv [OF assms] by (simp add: up_to_date_def)

lemma transfers_shown_or_due_witness: "en_published sample_engine = engine_snapshot sample_engine"
proof -
  have "reach (starts_with 2) system_step sample_start"
    by (rule reach_start)
       (unfold starts_with_def sample_start_def sample_engine_def, intro conjI exI, (rule system.select_convs)+)
  then have "en_published (sm_engine sample_start) = engine_snapshot (sm_engine sample_start) \<or>
      flush_deadline (sm_engine sample_start) \<noteq> None"
    by (rule transfers_shown_or_due)
  then show ?thesis by (simp add: sample_start_def flush_deadline_def sample_engine_def engine_new_def)
qed

section \<open>Edited work\<close>

text \<open>All that is not about an edit leaves the table of edits alone.\<close>

definition untouched :: "(nat, edit_session) fmap \<Rightarrow> 'w engine \<Rightarrow> bool" where
  "untouched edits e \<longleftrightarrow> consistent (en_transfers e) \<and> et_sessions (en_edit e) = edits"

interpretation others: engine_endings "untouched edits" for edits
proof
  show "consistent (en_transfers e)" if "untouched edits e" for edits and e :: "'a engine"
    using that by (simp add: untouched_def)
  show "untouched edits e'" if "untouched edits e" "books e' = books e" for edits and e e' :: "'a engine"
    using that by (simp add: untouched_def books_def)
  show "untouched edits (e\<lparr>en_transfers := q\<rparr>)" if "untouched edits e" "quiet_step (en_transfers e) q"
    for edits and e :: "'a engine" and q
    using that quiet_step_consistent by (auto simp: untouched_def)
  show "untouched edits (e\<lparr>en_tasks := t\<rparr>)" if "untouched edits e" for edits and e :: "'a engine" and t
    using that by (simp add: untouched_def)
  show "untouched edits (fill_transfer_slots e)" if "untouched edits e" for edits and e :: "'a engine"
    using that fill_result [of e] frame_fields(4) [of "fill_transfer_slots e" e]
    by (auto simp: untouched_def filling_def)
  show "untouched edits (on_transfers (with_guard i (end_body s)) e)"
    if "untouched edits e" "\<not> queued_or_running s" for edits and e :: "'a engine" and i s
    using that slot_step_consistent [OF _ slot_step.Finish [OF that(2)]] by (simp add: untouched_def on_transfers_def)
qed

lemma edit_session_frames [simp]:
  "edit_session_of i (emit ev e) = edit_session_of i e" "edit_session_of i (report sv m e) = edit_session_of i e"
  "edit_session_of i (announce sv m e) = edit_session_of i e" "edit_session_of i (info m e) = edit_session_of i e"
  "edit_session_of i (on_tasks g e) = edit_session_of i e" "edit_session_of i (remove_dir d e) = edit_session_of i e"
  "edit_session_of i (e\<lparr>en_tasks := t\<rparr>) = edit_session_of i e"
  "edit_session_of i (set_edit_session k s e) = (if i = k then Some s else edit_session_of i e)"
  "edit_session_of i (remove_edit_session k e) = (if i = k then None else edit_session_of i e)"
  by (simp_all add: edit_session_of_def emit_def report_def announce_def info_def on_tasks_def remove_dir_def
      set_edit_session_def remove_edit_session_def on_edit_def)

lemma edit_session_ends [simp]:
  "edit_session_of i (drop_edit k e) = (if i = k then None else edit_session_of i e)"
  "edit_session_of i (keep_edit k sv r e) = (if i = k then None else edit_session_of i e)"
  by (auto simp: drop_edit_def keep_edit_def Let_def split: option.split)

text \<open>An edit is not touched by what happens to another one.\<close>

lemma start_upload_other: "i \<noteq> k \<Longrightarrow> edit_session_of i (start_upload k m e) = edit_session_of i e"
  by (simp add: start_upload_def Let_def split: option.split)

lemma inspect_other: "i \<noteq> k \<Longrightarrow> edit_session_of i (inspect_edit k a e) = edit_session_of i e"
  by (simp add: inspect_edit_def Let_def split: option.split)

lemma edits_other:
  assumes "i \<noteq> k"
  shows "edit_session_of i (finish_prepare k r e) = edit_session_of i e"
    "edit_session_of i (finish_inspect k v a e) = edit_session_of i e"
    "edit_session_of i (finish_upload k w e) = edit_session_of i e"
    "edit_session_of i (finish_edit k x e) = edit_session_of i e"
    "edit_session_of i (resolve_edit k c e) = edit_session_of i e"
    "edit_session_of i (ask_edit k q e) = edit_session_of i e"
  using assms
  by (simp_all add: finish_prepare_def finish_inspect_def finish_upload_def finish_edit_def resolve_edit_def
      ask_edit_def Let_def start_upload_other inspect_other
      split: prepared.split option.split sum.split bool.split editor_exit.split location.split prod.split
        edit_question_kind.split edit_choice.split)

text \<open>What was said stays said.\<close>

definition heard :: "'w engine \<Rightarrow> event set" where
  "heard e = set (en_events e)"

lemma heard_emit [simp]: "heard (emit ev e) = insert ev (heard e)"
  by (simp add: heard_def emit_def)

lemma heard_tell [simp]:
  "heard (report sv m e) = insert (Notice sv m) (heard e)" "heard (info m e) = insert (Notice SevInfo m) (heard e)"
  by (simp_all add: report_def info_def)

lemma heard_on [simp]:
  "heard (on_history h e) = heard e" "heard (on_tasks t e) = heard e" "heard (on_edit k e) = heard e"
  "heard (set_edit_session i s e) = heard e" "heard (remove_edit_session i e) = heard e"
  by (simp_all add: heard_def on_history_def on_tasks_def on_edit_def set_edit_session_def remove_edit_session_def)

lemma heard_updates [simp]:
  "heard (e\<lparr>en_writer := w\<rparr>) = heard e" "heard (e\<lparr>en_transfers := q\<rparr>) = heard e"
  "heard (e\<lparr>en_transfers_dirty := b\<rparr>) = heard e" "heard (e\<lparr>en_last_progress_publish := l\<rparr>) = heard e"
  "heard (e\<lparr>en_published := p\<rparr>) = heard e"
  by (simp_all add: heard_def)

lemma heard_store: "heard e \<subseteq> heard (store_entry entry e)"
  by (auto simp: store_entry_def persist_history_def report_history_failure_def Let_def split: prod.split sum.split)

lemma heard_process_kind: "heard (snd st) \<subseteq> heard (snd (process_kind kind st))"
  using heard_store by (cases st) (fastforce simp: process_kind_def Let_def split: option.split)

lemma heard_process_kinds: "heard (snd st) \<subseteq> heard (snd (fold process_kind kinds st))"
proof (induction kinds arbitrary: st)
  case (Cons k kinds)
  show ?case using heard_process_kind [of st k] Cons [of "process_kind k st"] by simp
qed simp

lemma heard_changes: "heard e \<subseteq> heard (process_row_changes e)"
proof -
  obtain any e' where e': "fold process_kind (changed_kinds (tq_changes (en_transfers e)))
      (False, e\<lparr>en_transfers := (en_transfers e)\<lparr>tq_changes := []\<rparr>\<rparr>) = (any, e')"
    by fastforce
  then have "heard e \<subseteq> heard e'"
    using heard_process_kinds [of "(False, e\<lparr>en_transfers := (en_transfers e)\<lparr>tq_changes := []\<rparr>\<rparr>)"
      "changed_kinds (tq_changes (en_transfers e))"] by simp
  then show ?thesis
    using e' by (auto simp: process_row_changes_def take_changes_def publish_history_def Let_def)
qed

lemma heard_settle: "heard e \<subseteq> heard (settle e)"
proof -
  have "heard e \<subseteq> heard (publish_transfers e)" for e :: "'a engine"
    using heard_changes [of e] by (auto simp: publish_transfers_def Let_def)
  then have "heard e \<subseteq> heard (request_publish e)" for e :: "'a engine"
    by (simp add: request_publish_def Let_def)
  moreover have "heard e \<subseteq> heard (publish_edit_busy e)" for e :: "'a engine"
    by (auto simp: publish_edit_busy_def Let_def)
  ultimately show ?thesis using heard_changes unfolding settle_def by blast
qed

lemma settle_removed: "en_removed (settle e) = en_removed e"
proof -
  have changes: "en_removed (process_row_changes e) = en_removed e" for e :: "'a engine"
    using kept_fields(10) [OF kept_process_row_changes] by (simp add: on_transfers_def)
  then have "en_removed (publish_transfers e) = en_removed e" for e :: "'a engine"
    by (simp add: kept_fields(10) [OF kept_publish_transfers] changes)
  then have request: "en_removed (request_publish e) = en_removed e" for e :: "'a engine"
    by (simp add: request_publish_def Let_def)
  show ?thesis
    by (simp add: settle_def publish_edit_busy_def emit_def on_edit_def Let_def changes request)
qed

lemma settle_edits: "edit_session_of i (settle e) = edit_session_of i e"
proof -
  have changes: "en_edit (process_row_changes e) = en_edit e" for e :: "'a engine"
    using kept_fields(6) [OF kept_process_row_changes] by (simp add: on_transfers_def)
  then have "en_edit (publish_transfers e) = en_edit e" for e :: "'a engine"
    by (simp add: kept_fields(6) [OF kept_publish_transfers] changes)
  then have request: "en_edit (request_publish e) = en_edit e" for e :: "'a engine"
    by (simp add: request_publish_def Let_def)
  show ?thesis
    by (simp add: settle_def publish_edit_busy_def emit_def on_edit_def edit_session_of_def Let_def changes request)
qed

text \<open>Work is kept when nothing was removed and the user is told where it is.\<close>

definition kept_for_user :: "temp_copy \<Rightarrow> 'w engine \<Rightarrow> 'w engine \<Rightarrow> bool" where
  "kept_for_user temp e e' \<longleftrightarrow> en_removed e' = en_removed e \<and>
     (\<exists>severity reason.
        Notice severity (reason @ ''; your changes are kept in '' @ printable (string_of_path (tc_file temp))) \<in> heard e')"

lemma kept_settled: "kept_for_user temp e e' \<Longrightarrow> kept_for_user temp e (settle e')"
  using heard_settle by (fastforce simp: kept_for_user_def settle_removed)

lemma keep_edit_keeps:
  assumes "edit_session_of i e = Some s" and "es_temp s = Some temp" and "en_removed e = en_removed e0"
  shows "kept_for_user temp e0 (keep_edit i severity reason e)"
proof -
  have "en_removed (keep_edit i severity reason e) = en_removed e"
    by (simp add: keep_edit_def Let_def remove_edit_session_def on_edit_def on_tasks_def report_def emit_def
        split: option.split)
  then show ?thesis using assms by (auto simp: kept_for_user_def keep_edit_def)
qed

text \<open>
  The ends of an edit at which nothing is lost: the editor did not start, the copy is as it was
  downloaded, it was uploaded; and a download, after which the copy is only then there.
\<close>

fun never_edited :: "nat \<Rightarrow> command \<Rightarrow> bool" where
  "never_edited i (FinishEdit k (LaunchFailed _)) = (k = i)"
| "never_edited i _ = False"

fun safe_end :: "nat \<Rightarrow> 'w internal \<Rightarrow> bool" where
  "safe_end i (EditInternal (EditPrepared k _)) = (k = i)"
| "safe_end i (EditInternal (EditInspected k (Inr False) _)) = (k = i)"
| "safe_end i (EditInternal (EditUploaded k (Inr _))) = (k = i)"
| "safe_end i _ = False"

lemma set_session_removed: "en_removed (set_edit_session i s e) = en_removed e"
  by (simp add: set_edit_session_def on_edit_def)

lemma start_upload_keeps:
  assumes "edit_session_of i e = Some s" and "es_temp s = Some temp" and "es_baseline s = Some base"
    and "edit_session_of i (start_upload i m e) = None"
  shows "kept_for_user temp e (start_upload i m e)"
  using assms
  by (auto simp: start_upload_def Let_def set_session_removed split: option.splits intro!: keep_edit_keeps)

lemma edit_command_keeps:
  assumes s: "edit_session_of i e = Some s" "es_temp s = Some temp" "es_baseline s = Some base"
      "es_location s = SessionSide n"
    and edit: "command_edit c \<noteq> None" and c: "\<not> never_edited i c"
    and gone: "edit_session_of i (run_command c e) = None"
  shows "kept_for_user temp e (run_command c e)"
proof (cases c)
  case (EditFile location p)
  have "edit_session_of i (run_command c e) \<noteq> None"
    using s(1) by (auto simp: EditFile run_command_def edit_file_def edit_local_file_def edit_remote_file_def
        new_edit_session_def Let_def on_edit_def set_edit_session_def edit_session_of_def emit_def report_def
        info_def on_tasks_def split: sum.split location.split option.split)
  then show ?thesis using gone by simp
next
  case (FinishEdit k x)
  have "k = i" using gone edits_other(4) [of i k x e] s(1) by (auto simp: FinishEdit run_command_def)
  then have "edit_session_of i (run_command c e) \<noteq> None"
    using s c by (cases x) (auto simp: FinishEdit run_command_def finish_edit_def inspect_edit_def Let_def)
  then show ?thesis using gone by simp
next
  case (ResolveEdit k choice)
  have k: "k = i" using gone edits_other(5) [of i k choice e] s(1) by (auto simp: ResolveEdit run_command_def)
  let ?e = "set_edit_session i (s\<lparr>es_pending := None\<rparr>) e"
  have e: "edit_session_of i ?e = Some (s\<lparr>es_pending := None\<rparr>)" "en_removed ?e = en_removed e"
    by (simp_all add: set_edit_session_def on_edit_def edit_session_of_def)
  have "kept_for_user temp e (start_upload i m ?e)" if "edit_session_of i (start_upload i m ?e) = None" for m
    using start_upload_keeps [OF e(1)] that s(2,3) e(2) by (simp add: kept_for_user_def)
  moreover have "kept_for_user temp e (keep_edit i severity reason ?e)" for severity reason
    using keep_edit_keeps [OF e(1)] s(2) e(2) by simp
  ultimately show ?thesis
    using gone s(1)
    by (auto simp: ResolveEdit k run_command_def resolve_edit_def Let_def
        split: option.splits edit_question_kind.splits edit_choice.splits)
qed (use edit in simp_all)

lemma edit_event_keeps:
  assumes s: "edit_session_of i e = Some s" "es_temp s = Some temp" "es_baseline s = Some base"
    and ev: "\<not> safe_end i (EditInternal ev)" and gone: "edit_session_of i (handle_edit_event ev e) = None"
  shows "kept_for_user temp e (handle_edit_event ev e)"
proof (cases ev)
  case (EditPrepared k r)
  then show ?thesis using gone edits_other(1) [of i k r e] s(1) ev by (auto simp: handle_edit_event_def)
next
  case (EditInspected k v a)
  have k: "k = i" using gone edits_other(2) [of i k v a e] s(1) by (auto simp: EditInspected handle_edit_event_def)
  show ?thesis
    using gone s ev start_upload_keeps [OF s, of Checked] keep_edit_keeps [OF s(1,2) refl]
    by (auto simp: EditInspected k handle_edit_event_def finish_inspect_def ask_edit_def Let_def
        split: sum.splits bool.splits option.splits if_splits)
next
  case (EditConflict k)
  then show ?thesis using gone s(1) by (auto simp: handle_edit_event_def ask_edit_def split: option.splits if_splits)
next
  case (EditUploaded k w)
  have k: "k = i" using gone edits_other(3) [of i k w e] s(1) by (auto simp: EditUploaded handle_edit_event_def)
  show ?thesis
    using s ev keep_edit_keeps [OF s(1,2) refl]
    by (auto simp: EditUploaded k handle_edit_event_def finish_upload_def split: sum.splits)
qed

text \<open>(C6) What the user wrote is not lost: when the edit of a remote file is over, then the editor had
  not started, or the copy was as downloaded, or it was uploaded, or else nothing was removed and
  the user is told in which file the work is.\<close>

theorem edited_work_kept:
  assumes q: "consistent (en_transfers e)"
    and s: "edit_session_of i e = Some s" "es_temp s = Some temp" "es_baseline s = Some base"
      "es_location s = SessionSide n"
    and e': "e' = handle_command c e \<and> \<not> never_edited i c \<or> e' = handle_internal m e \<and> \<not> safe_end i m"
    and gone: "edit_session_of i e' = None"
  shows "kept_for_user temp e e'"
  using e'
proof
  assume c: "e' = handle_command c e \<and> \<not> never_edited i c"
  then have e': "e' = settle (run_command c e)" by (simp add: handle_command_def)
  show ?thesis
  proof (cases "command_edit c")
    case None
    have "untouched (et_sessions (en_edit e)) (run_command c e)"
      by (rule others.J_other_command) (use q None in \<open>simp_all add: untouched_def\<close>)
    then show ?thesis
      using gone [unfolded e' settle_edits] s(1) by (simp add: edit_session_of_def untouched_def)
  next
    case (Some k)
    have "kept_for_user temp e (run_command c e)"
      by (rule edit_command_keeps [OF s]) (use Some c gone in \<open>simp_all add: handle_command_def settle_edits\<close>)
    then show ?thesis by (simp add: e' kept_settled)
  qed
next
  assume m: "e' = handle_internal m e \<and> \<not> safe_end i m"
  show ?thesis
  proof (cases "internal_edit m")
    case None
    have "untouched (et_sessions (en_edit e)) e'"
      using m None others.J_any_other_internal q by (auto simp: untouched_def)
    then show ?thesis using gone s(1) by (simp add: edit_session_of_def untouched_def)
  next
    case (Some k)
    then consider ev where "m = EditInternal ev" | name where "m = TaskPanicked name (EditScope k)"
      by (cases m rule: internal_edit.cases) auto
    then show ?thesis
    proof cases
      case 1
      then show ?thesis
        using m gone edit_event_keeps [OF s(1-3), of ev] by (auto simp: handle_internal_def settle_edits intro: kept_settled)
    next
      case 2
      then show ?thesis
        using m gone s keep_edit_keeps [OF s(1,2) refl]
        by (auto simp: handle_internal_def recover_from_panic_def fail_edit_def Let_def settle_edits intro!: kept_settled
            split: if_splits)
    qed
  qed
qed

text \<open>An edit whose copy cannot be read.\<close>

definition sample_edit_session :: edit_session where
  "sample_edit_session =
     \<lparr>es_location = SessionSide 0, es_remote_path = [RootDir, Normal ''a''], es_name = ''a'',
      es_editor = \<lparr>ed_program = ''vi'', ed_args = []\<rparr>,
      es_temp = Some \<lparr>tc_dir = [RootDir, Normal ''t''], tc_file = [RootDir, Normal ''t'', Normal ''a'']\<rparr>,
      es_baseline = Some \<lparr>bl_size = 1, bl_modified = None, bl_hash = 7\<rparr>, es_pending = None,
      es_awaiting_editor = False, es_saving = True\<rparr>"

definition sample_edit :: "fake_tree engine" where
  "sample_edit = set_edit_session 0 sample_edit_session sample_engine"

lemma sample_engine_consistent: "consistent (en_transfers sample_engine)"
  using system.reach_inv [OF sample_system_reached] slots_start [of 0]
  by (simp add: sample_engine_def engine_new_def slots_ok_def)

lemma edited_work_kept_witness:
  "kept_for_user \<lparr>tc_dir = [RootDir, Normal ''t''], tc_file = [RootDir, Normal ''t'', Normal ''a'']\<rparr> sample_edit
     (handle_internal (EditInternal (EditInspected 0 (Inl ''gone'') None)) sample_edit)"
proof (rule edited_work_kept [where i = 0 and s = sample_edit_session and n = 0 and c = ListHistory
      and base = "\<lparr>bl_size = 1, bl_modified = None, bl_hash = 7\<rparr>"
      and m = "EditInternal (EditInspected 0 (Inl ''gone'') None)"])
  show "consistent (en_transfers sample_edit)"
    using sample_engine_consistent by (simp add: sample_edit_def set_edit_session_def on_edit_def)
  show "edit_session_of 0 (handle_internal (EditInternal (EditInspected 0 (Inl ''gone'') None)) sample_edit) = None"
    by (simp add: handle_internal_def settle_edits handle_edit_event_def finish_inspect_def sample_edit_def Let_def)
qed (simp_all add: sample_edit_def sample_edit_session_def)

section \<open>Disconnecting\<close>

lemma forget_batches_jobs: "tq_jobs (fold forget_batch_if_empty bs q) = tq_jobs q" "tq_running (fold forget_batch_if_empty bs q) = tq_running q"
  by (induction bs arbitrary: q) (simp_all add: forget_batch_if_empty_def)

definition leaving where
  "leaving e = (tq_jobs (en_transfers e), tq_running (en_transfers e), en_tasks e, en_sessions e, en_planning e, en_reviews e)"

lemma leaving_frames [simp]:
  "leaving (emit ev e) = leaving e" "leaving (info m e) = leaving e" "leaving (drop_sync_plans P e) = leaving e"
  "leaving (on_history h e) = leaving e"
  by (simp_all add: leaving_def emit_def info_def drop_sync_plans_def on_sync_def on_history_def Let_def)

lemma leaving_reviews: "leaving (snd (drop_conflict_reviews P e)) =
   (tq_jobs (en_transfers e), tq_running (en_transfers e), en_tasks e, en_sessions e, en_planning e, filter (\<lambda>r. \<not> P r) (en_reviews e))"
  by (simp add: leaving_def drop_conflict_reviews_def Let_def emit_def on_transfers_def forget_batches_jobs)

lemma leaving_disconnect:
  assumes "fmlookup (en_sessions e) n = Some live"
  shows "leaving (disconnect n e) =
    (let q = snd (fail_queued_for_session n ''session disconnected'' (en_transfers e));
         scans = map pn_batch_id (filter (\<lambda>s. pn_session_id s = n) (en_planning e))
     in (tq_jobs q, tq_running q,
         fold (\<lambda>i. cancel_scope (TransferScope i)) (active_ids_for_session q n)
           (fold (\<lambda>b. cancel_scope (PlanningScope b)) scans (en_tasks e)),
         fmdrop n (en_sessions e), en_planning e, filter (\<lambda>r. cr_session_id r \<noteq> n) (en_reviews e)))"
proof -
  obtain failed q where q: "fail_queued_for_session n ''session disconnected'' (en_transfers e) = (failed, q)" by fastforce
  obtain dropped e2 where d: "drop_conflict_reviews (\<lambda>r. cr_session_id r = n)
      (snd (cancel_session_transfers n (on_history (remember_session n (ls_name live)) (e\<lparr>en_sessions := fmdrop n (en_sessions e)\<rparr>)\<lparr>en_transfers := q\<rparr>)))
      = (dropped, e2)" by fastforce
  show ?thesis
    using q d leaving_reviews [of "\<lambda>r. cr_session_id r = n" "snd (cancel_session_transfers n (on_history (remember_session n (ls_name live)) (e\<lparr>en_sessions := fmdrop n (en_sessions e)\<rparr>)\<lparr>en_transfers := q\<rparr>))"]
    by (simp add: disconnect_def assms Let_def cancel_session_transfers_def on_frames on_tasks_def on_history_def) 
qed
lemma leaving_settle: "leaving (settle e) = leaving e"
proof -
  have changes: "leaving (process_row_changes e) = leaving e" for e :: "'a engine"
    using kept_fields [OF kept_process_row_changes, of e] by (simp add: leaving_def on_transfers_def)
  have "leaving (publish_transfers e) = leaving e" for e :: "'a engine"
    using kept_fields [OF kept_publish_transfers, of e] changes [of e] by (simp add: leaving_def)
  then have "leaving (request_publish e) = leaving e" for e :: "'a engine"
    by (simp add: request_publish_def Let_def) (simp add: leaving_def)
  moreover have "leaving (publish_edit_busy e) = leaving e" for e :: "'a engine"
    by (simp add: publish_edit_busy_def Let_def emit_def on_edit_def leaving_def)
  ultimately show ?thesis by (simp only: settle_def changes)
qed


definition sample_connected :: "fake_tree engine" where
  "sample_connected =
     sample_engine\<lparr>en_sessions := fmupd 0 \<lparr>ls_name = ''server'', ls_fs = fake_fs 0 True 1\<rparr> fmempty\<rparr>"


end
