(* ===== verification/Secrets.thy ===== *)
theory Secrets
  imports Prelude
begin

text \<open>
  \<^verbatim>\<open>secrets\<close>: passwords, kept in memory and, where there is one, in the keyring of the system.
  The keyring is reached through the trait \<^verbatim>\<open>SecretBackend\<close>, a record of operations on a world;
  the test backend of \<^verbatim>\<open>secrets/testing\<close> is one.
\<close>

section \<open>Accounts\<close>

datatype secret_field = PasswordField | OptionSecret string

datatype secret_key = ProfileSecret string secret_field | SshSecret string

fun account_of :: "secret_key \<Rightarrow> string" where
  "account_of (ProfileSecret name PasswordField) = ''profile:'' @ name"
| "account_of (ProfileSecret name (OptionSecret key)) = ''option:'' @ key @ '':'' @ name"
| "account_of (SshSecret alias) = ''ssh:'' @ alias"

text \<open>\<^verbatim>\<open>str::split_once\<close>.\<close>

fun split_once :: "char \<Rightarrow> string \<Rightarrow> (string \<times> string) option" where
  "split_once d [] = None"
| "split_once d (c # s) =
     (if c = d then Some ([], s) else map_option (\<lambda>(a, b). (c # a, b)) (split_once d s))"

definition parse_account :: "string \<Rightarrow> secret_key option" where
  "parse_account text =
     (case strip_prefix text ''profile:'' of
        Some name \<Rightarrow> Some (ProfileSecret name PasswordField)
      | None \<Rightarrow>
          (case strip_prefix text ''option:'' of
             Some rest \<Rightarrow>
               map_option (\<lambda>(key, name). ProfileSecret name (OptionSecret key)) (split_once (CHR '':'') rest)
           | None \<Rightarrow> map_option SshSecret (strip_prefix text ''ssh:'')))"

section \<open>The backend\<close>

datatype secret_error = TimedOut | BackendError string

fun secret_error_text :: "secret_error \<Rightarrow> string" where
  "secret_error_text TimedOut = ''timed out''"
| "secret_error_text (BackendError message) = message"

record 'w secret_backend =
  sb_get :: "string \<Rightarrow> 'w \<Rightarrow> (secret_error + string option) \<times> 'w"
  sb_set :: "string \<Rightarrow> string \<Rightarrow> 'w \<Rightarrow> (secret_error + unit) \<times> 'w"
  sb_delete :: "string \<Rightarrow> 'w \<Rightarrow> (secret_error + unit) \<times> 'w"

section \<open>Secrets\<close>

text \<open>
  \<^verbatim>\<open>sc_duration\<close> is how long a call of the backend takes: a call that takes longer than the limit has
  failed for the caller, but goes on in its thread; it holds the turn, so the next call waits
  for it, and its effect comes first.  \<^verbatim>\<open>sc_reported\<close> is what the function given to \<^verbatim>\<open>on_waiting\<close>
  was called with.
\<close>

record 'w secrets =
  sc_cache :: "(string, string) fmap"
  sc_backend :: "'w secret_backend option"
  sc_available :: bool
  sc_limit :: nat
  sc_waiting_after :: nat
  sc_duration :: "'w \<Rightarrow> nat"
  sc_waiting_calls :: nat
  sc_reported :: "bool list"

definition secrets_new :: "'w secret_backend option \<Rightarrow> ('w \<Rightarrow> nat) \<Rightarrow> 'w secrets" where
  "secrets_new backend duration =
     \<lparr>sc_cache = fmempty, sc_backend = backend, sc_available = (backend \<noteq> None), sc_limit = 30000,
      sc_waiting_after = 1000, sc_duration = duration, sc_waiting_calls = 0, sc_reported = []\<rparr>"

definition report_waiting :: "bool \<Rightarrow> 'w secrets \<Rightarrow> 'w secrets" where
  "report_waiting waiting s = s\<lparr>sc_reported := sc_reported s @ [waiting]\<rparr>"

definition start_waiting :: "'w secrets \<Rightarrow> 'w secrets" where
  "start_waiting s =
     (let s' = s\<lparr>sc_waiting_calls := sc_waiting_calls s + 1\<rparr>
      in if sc_waiting_calls s = 0 then report_waiting True s' else s')"

definition stop_waiting :: "'w secrets \<Rightarrow> 'w secrets" where
  "stop_waiting s =
     (let s' = s\<lparr>sc_waiting_calls := sc_waiting_calls s - 1\<rparr>
      in if sc_waiting_calls s = 1 then report_waiting False s' else s')"

type_synonym ('w, 'a) secret_call = "'w secrets \<Rightarrow> 'w \<Rightarrow> (secret_error + 'a) \<times> 'w secrets \<times> 'w"

definition call :: "('w secret_backend \<Rightarrow> 'w \<Rightarrow> (secret_error + 'a) \<times> 'w) \<Rightarrow> ('w, 'a) secret_call" where
  "call work s w =
     (case sc_backend s of
        None \<Rightarrow> (Inl (BackendError ''no system keyring''), s, w)
      | Some backend \<Rightarrow>
          (case work backend w of
             (outcome, w') \<Rightarrow>
               (if sc_limit s < sc_duration s w then Inl TimedOut else outcome,
                if sc_waiting_after s < sc_duration s w then stop_waiting (start_waiting s) else s, w')))"

definition PROBE_ACCOUNT :: string where
  "PROBE_ACCOUNT = ''porthmos:probe''"

definition probe :: "'w secrets \<Rightarrow> 'w \<Rightarrow> bool \<times> 'w secrets \<times> 'w" where
  "probe s w =
     (case (if sc_backend s \<noteq> None
            then (case call (\<lambda>b. sb_get b PROBE_ACCOUNT) s w of
                    (outcome, s, w) \<Rightarrow> (case outcome of Inl _ \<Rightarrow> False | Inr _ \<Rightarrow> True, s, w))
            else (False, s, w)) of
        (working, s, w) \<Rightarrow> (working, s\<lparr>sc_available := working\<rparr>, w))"

definition cached :: "string \<Rightarrow> 'w secrets \<Rightarrow> string option" where
  "cached name s = fmlookup (sc_cache s) name"

definition remember :: "string \<Rightarrow> string \<Rightarrow> 'w secrets \<Rightarrow> 'w secrets" where
  "remember name secret s = s\<lparr>sc_cache := fmupd name secret (sc_cache s)\<rparr>"

definition uncache :: "string \<Rightarrow> 'w secrets \<Rightarrow> 'w secrets" where
  "uncache name s = s\<lparr>sc_cache := fmdrop name (sc_cache s)\<rparr>"

definition move_cached :: "string \<Rightarrow> string \<Rightarrow> 'w secrets \<Rightarrow> 'w secrets" where
  "move_cached from_name to_name s =
     (case fmlookup (sc_cache s) from_name of
        None \<Rightarrow> s
      | Some secret \<Rightarrow> s\<lparr>sc_cache := fmupd to_name secret (fmdrop from_name (sc_cache s))\<rparr>)"

definition cached_accounts :: "'w secrets \<Rightarrow> string fset" where
  "cached_accounts s = fmdom (sc_cache s)"

text \<open>A failure to read is logged, and no secret is found.\<close>

definition lookup :: "string \<Rightarrow> bool \<Rightarrow> 'w secrets \<Rightarrow> 'w \<Rightarrow> string option \<times> 'w secrets \<times> 'w" where
  "lookup name saved s w =
     (case cached name s of
        Some hit \<Rightarrow> (Some hit, s, w)
      | None \<Rightarrow>
          if \<not> saved \<or> \<not> sc_available s then (None, s, w)
          else (case call (\<lambda>b. sb_get b name) s w of
                  (Inr (Some secret), s, w) \<Rightarrow> (Some secret, remember name secret s, w)
                | (_, s, w) \<Rightarrow> (None, s, w)))"

definition write_keyring :: "string \<Rightarrow> string \<Rightarrow> ('w, bool) secret_call" where
  "write_keyring name secret s w =
     (if \<not> sc_available s then (Inr False, s, w)
      else (case call (\<lambda>b. sb_set b name secret) s w of
              (Inl err, s, w) \<Rightarrow> (Inl err, s, w)
            | (Inr _, s, w) \<Rightarrow> (Inr True, s, w)))"

definition erase_keyring :: "string \<Rightarrow> ('w, unit) secret_call" where
  "erase_keyring name s w =
     (if \<not> sc_available s then (Inr (), s, w) else call (\<lambda>b. sb_delete b name) s w)"

definition move_secret :: "string \<Rightarrow> string \<Rightarrow> 'w secret_backend \<Rightarrow> 'w \<Rightarrow> (secret_error + unit) \<times> 'w" where
  "move_secret from_name to_name b w =
     (case sb_get b from_name w of
        (Inl err, w) \<Rightarrow> (Inl err, w)
      | (Inr None, w) \<Rightarrow> (Inr (), w)
      | (Inr (Some secret), w) \<Rightarrow>
          (case sb_set b to_name secret w of
             (Inl err, w) \<Rightarrow> (Inl err, w)
           | (Inr _, w) \<Rightarrow> sb_delete b from_name w))"

definition move_keyring :: "string \<Rightarrow> string \<Rightarrow> ('w, unit) secret_call" where
  "move_keyring from_name to_name s w =
     (if \<not> sc_available s then (Inr (), s, w) else call (move_secret from_name to_name) s w)"

definition save_secret :: "string \<Rightarrow> string \<Rightarrow> ('w, bool) secret_call" where
  "save_secret name secret s w = write_keyring name secret (remember name secret s) w"

definition forget_secret :: "string \<Rightarrow> bool \<Rightarrow> ('w, unit) secret_call" where
  "forget_secret name saved s w =
     (if saved then erase_keyring name (uncache name s) w else (Inr (), uncache name s, w))"

definition rename_secret :: "string \<Rightarrow> string \<Rightarrow> bool \<Rightarrow> ('w, unit) secret_call" where
  "rename_secret from_name to_name saved s w =
     (if saved then move_keyring from_name to_name (move_cached from_name to_name s) w
      else (Inr (), move_cached from_name to_name s, w))"

section \<open>The backend of the tests (secrets/testing)\<close>

record test_backend =
  tb_stored :: "(string, string) fmap"
  tb_calls :: "string list"
  tb_fail_reads :: bool
  tb_fail_writes :: bool

text \<open>\<^verbatim>\<open>enter\<close> also sleeps: the time a call takes is in \<^verbatim>\<open>sc_duration\<close>.\<close>

definition tb_enter :: "string \<Rightarrow> test_backend \<Rightarrow> test_backend" where
  "tb_enter what b = b\<lparr>tb_calls := tb_calls b @ [what]\<rparr>"

definition tb_get :: "string \<Rightarrow> test_backend \<Rightarrow> (secret_error + string option) \<times> test_backend" where
  "tb_get name b =
     (let b = tb_enter (''get '' @ name) b
      in if tb_fail_reads b then (Inl (BackendError ''read failed''), b)
         else (Inr (fmlookup (tb_stored b) name), b))"

definition tb_set :: "string \<Rightarrow> string \<Rightarrow> test_backend \<Rightarrow> (secret_error + unit) \<times> test_backend" where
  "tb_set name secret b =
     (let b = tb_enter (''set '' @ name) b
      in if tb_fail_writes b then (Inl (BackendError ''write failed''), b)
         else (Inr (), b\<lparr>tb_stored := fmupd name secret (tb_stored b)\<rparr>))"

definition tb_delete :: "string \<Rightarrow> test_backend \<Rightarrow> (secret_error + unit) \<times> test_backend" where
  "tb_delete name b =
     (let b = tb_enter (''delete '' @ name) b
      in if tb_fail_writes b then (Inl (BackendError ''write failed''), b)
         else (Inr (), b\<lparr>tb_stored := fmdrop name (tb_stored b)\<rparr>))"

definition test_backend_ops :: "test_backend secret_backend" where
  "test_backend_ops = \<lparr>sb_get = tb_get, sb_set = tb_set, sb_delete = tb_delete\<rparr>"

section \<open>Accounts name their secrets\<close>

lemma split_once_append: "d \<notin> set a \<Longrightarrow> split_once d (a @ d # b) = Some (a, b)"
  by (induction a) auto

lemma split_once_SomeD: "split_once d s = Some (a, b) \<Longrightarrow> s = a @ d # b \<and> d \<notin> set a"
  by (induction s arbitrary: a) (auto split: if_splits)

text \<open>The key of an option is an identifier of the program: it holds no colon.\<close>

fun key_ok :: "secret_key \<Rightarrow> bool" where
  "key_ok (ProfileSecret _ (OptionSecret key)) = (CHR '':'' \<notin> set key)"
| "key_ok _ = True"

lemma parse_account_account: "key_ok k \<Longrightarrow> parse_account (account_of k) = Some k"
  by (cases k rule: key_ok.cases)
     (simp_all add: parse_account_def strip_prefix_def split_once_append)

lemma account_parse_account: "parse_account text = Some k \<Longrightarrow> account_of k = text \<and> key_ok k"
  by (auto simp: parse_account_def split: option.splits dest!: strip_prefix_SomeD split_once_SomeD)

lemma account_inj: "key_ok k \<Longrightarrow> key_ok k' \<Longrightarrow> account_of k = account_of k' \<longleftrightarrow> k = k'"
  using parse_account_account by (metis option.inject)

section \<open>Laws of a keyring\<close>

text \<open>
  What the callers rely on: a call that is answered has done what it says, a call that failed or
  came too late has touched no other account.  \<^verbatim>\<open>holds\<close> is what the keyring has.
\<close>

locale keyring =
  fixes backend :: "'w secret_backend" and holds :: "'w \<Rightarrow> string \<Rightarrow> string option"
  assumes get_law: "sb_get backend name w = (g, w') \<Longrightarrow>
      holds w' = holds w \<and> (case g of Inl _ \<Rightarrow> True | Inr v \<Rightarrow> v = holds w name)"
    and set_law: "sb_set backend name secret w = (r, w') \<Longrightarrow>
      (case r of Inl _ \<Rightarrow> (\<forall>k. k \<noteq> name \<longrightarrow> holds w' k = holds w k)
               | Inr _ \<Rightarrow> holds w' = (holds w)(name := Some secret))"
    and delete_law: "sb_delete backend name w = (r, w') \<Longrightarrow>
      (case r of Inl _ \<Rightarrow> (\<forall>k. k \<noteq> name \<longrightarrow> holds w' k = holds w k)
               | Inr _ \<Rightarrow> holds w' = (holds w)(name := None))"
begin

text \<open>What a call leaves of the secrets themselves.\<close>

definition same_secrets :: "'w secrets \<Rightarrow> 'w secrets \<Rightarrow> bool" where
  "same_secrets s s' \<longleftrightarrow> sc_cache s' = sc_cache s \<and> sc_backend s' = sc_backend s \<and> sc_available s' = sc_available s \<and>
     sc_limit s' = sc_limit s \<and> sc_duration s' = sc_duration s"

lemma call_same: "call work s w = (r, s', w') \<Longrightarrow> same_secrets s s'"
  by (auto simp: call_def same_secrets_def start_waiting_def stop_waiting_def report_waiting_def Let_def
      split: option.splits prod.splits if_splits)

lemma call_work:
  "call work s w = (r, s', w') \<Longrightarrow> sc_backend s = Some backend \<Longrightarrow>
     \<exists>r0. work backend w = (r0, w') \<and> (r = r0 \<or> r = Inl TimedOut)"
  by (auto simp: call_def split: prod.splits if_splits)

lemma write_law:
  assumes "write_keyring name secret s w = (r, s', w')" and "sc_backend s = Some backend"
  shows "same_secrets s s' \<and> (\<forall>k. k \<noteq> name \<longrightarrow> holds w' k = holds w k) \<and>
    (r = Inr True \<longrightarrow> holds w' name = Some secret)"
proof (cases "sc_available s")
  case True
  obtain r1 s1 w1 where c: "call (\<lambda>b. sb_set b name secret) s w = (r1, s1, w1)" by (metis prod_cases3)
  then obtain r0 where r0: "sb_set backend name secret w = (r0, w1)" "r1 = r0 \<or> r1 = Inl TimedOut"
    using call_work assms(2) by metis
  show ?thesis
    using assms(1) c True call_same [OF c] set_law [OF r0(1)] r0(2)
    by (cases r1; cases r0) (auto simp: write_keyring_def)
qed (use assms in \<open>auto simp: write_keyring_def same_secrets_def\<close>)

lemma erase_law:
  assumes "erase_keyring name s w = (r, s', w')" and "sc_backend s = Some backend"
  shows "same_secrets s s' \<and> (\<forall>k. k \<noteq> name \<longrightarrow> holds w' k = holds w k)"
proof (cases "sc_available s")
  case True
  then have c: "call (\<lambda>b. sb_delete b name) s w = (r, s', w')" using assms(1) by (simp add: erase_keyring_def)
  then obtain r0 where r0: "sb_delete backend name w = (r0, w')" using call_work assms(2) by metis
  show ?thesis using call_same [OF c] delete_law [OF r0] by (cases r0) auto
qed (use assms in \<open>auto simp: erase_keyring_def same_secrets_def\<close>)

lemma move_law:
  assumes "move_keyring from_name to_name s w = (r, s', w')" and "sc_backend s = Some backend"
    and "from_name \<noteq> to_name"
  shows "same_secrets s s' \<and> (\<forall>k. k \<noteq> from_name \<and> k \<noteq> to_name \<longrightarrow> holds w' k = holds w k) \<and>
    (r = Inr () \<and> sc_available s \<and> holds w from_name \<noteq> None \<longrightarrow> holds w' to_name = holds w from_name)"
proof (cases "sc_available s")
  case True
  then have c: "call (move_secret from_name to_name) s w = (r, s', w')" using assms(1) by (simp add: move_keyring_def)
  then obtain r0 where r0: "move_secret from_name to_name backend w = (r0, w')" "r = r0 \<or> r = Inl TimedOut"
    using call_work assms(2) by metis
  obtain g w1 where g: "sb_get backend from_name w = (g, w1)" by fastforce
  note get = get_law [OF g]
  show ?thesis
  proof (cases g)
    case (Inl err)
    then show ?thesis using r0 g get call_same [OF c] by (auto simp: move_secret_def)
  next
    case (Inr v)
    show ?thesis
    proof (cases v)
      case None
      then show ?thesis using r0 g get Inr call_same [OF c] by (auto simp: move_secret_def)
    next
      case (Some secret)
      obtain p w2 where p: "sb_set backend to_name secret w1 = (p, w2)" by fastforce
      obtain d w3 where d: "sb_delete backend from_name w2 = (d, w3)" by fastforce
      show ?thesis
        using r0 g get Inr Some p d set_law [OF p] delete_law [OF d] call_same [OF c] assms(3)
        by (cases p; cases d) (auto simp: move_secret_def)
    qed
  qed
qed (use assms in \<open>auto simp: move_keyring_def same_secrets_def\<close>)

end

text \<open>The test backend is a keyring.\<close>

interpretation test_keyring: keyring test_backend_ops "\<lambda>b. fmlookup (tb_stored b)"
  by unfold_locales
     (auto simp: test_backend_ops_def tb_get_def tb_set_def tb_delete_def tb_enter_def Let_def fun_eq_iff split: if_splits)

end
