(* ===== verification/Profiles.thy ===== *)
theory Profiles
  imports Persist Vfs
begin

text \<open>
  \<^verbatim>\<open>profiles\<close> and the forms of \<^verbatim>\<open>porthmos-vfs\<close>: saved connections, what the user may type into the
  form of a protocol and how it is checked, the labels of hosts of the ssh configuration, the file
  that holds them, and the list of all connections.

  The text of the file is TOML, written and read by a library: the codec is a parameter.
\<close>

section \<open>Forms and targets (porthmos-vfs)\<close>

definition RESERVED_KEYS :: "string list" where
  "RESERVED_KEYS =
     [''protocol'', ''name'', ''group'', ''tags'', ''host'', ''port'', ''username'', ''password'',
      ''in_keyring'', ''remote_path'']"

record common_field =
  cm_label :: string
  cm_required :: bool

record port_field =
  po_label :: string
  po_default :: nat

record choice =
  co_value :: string
  co_label :: string

datatype option_kind =
    TextOption string
  | SecretOption
  | ChoiceOption "choice list" string
  | ToggleOption bool

record option_field =
  of_key :: string
  of_label :: string
  of_required :: bool
  of_kind :: option_kind

record connection_form =
  fm_host :: common_field
  fm_port :: port_field
  fm_username :: common_field
  fm_password :: common_field
  fm_options :: "option_field list"

definition standard_form :: "nat \<Rightarrow> connection_form" where
  "standard_form default_port =
     \<lparr>fm_host = \<lparr>cm_label = ''Host'', cm_required = True\<rparr>,
      fm_port = \<lparr>po_label = ''Port'', po_default = default_port\<rparr>,
      fm_username = \<lparr>cm_label = ''Username'', cm_required = True\<rparr>,
      fm_password = \<lparr>cm_label = ''Password'', cm_required = False\<rparr>, fm_options = []\<rparr>"

definition form_option :: "connection_form \<Rightarrow> string \<Rightarrow> option_field option" where
  "form_option form key = find (\<lambda>f. of_key f = key) (fm_options form)"

definition reserved_key_collisions :: "connection_form \<Rightarrow> string list" where
  "reserved_key_collisions form = filter (\<lambda>key. key \<in> set RESERVED_KEYS) (map of_key (fm_options form))"

record target =
  tg_name :: string
  tg_host :: string
  tg_port :: nat
  tg_username :: string
  tg_password :: "string option"
  tg_options :: "(string, string) fmap"

definition target_option :: "target \<Rightarrow> string \<Rightarrow> string option" where
  "target_option t key = fmlookup (tg_options t) key"

record environment =
  ev_home :: "path option"
  ev_user :: "string option"
  ev_path :: "string option"
  ev_editor :: "string option"

text \<open>\<^verbatim>\<open>editor_from\<close>: the first that is not blank.\<close>

definition editor_from :: "string option \<Rightarrow> string option \<Rightarrow> string option" where
  "editor_from visual editor = find (\<lambda>v. trim v \<noteq> []) (List.map_filter id [visual, editor])"

record shell_invocation =
  sh_program :: string
  sh_args :: "string list"
  sh_env :: "(string \<times> string) list"

section \<open>Labels\<close>

record labels =
  lb_group :: "string option"
  lb_tags :: "string list"
  lb_in_keyring :: "string list"

definition labels_default :: labels where
  "labels_default = \<lparr>lb_group = None, lb_tags = [], lb_in_keyring = []\<rparr>"

definition labels_empty :: "labels \<Rightarrow> bool" where
  "labels_empty l \<longleftrightarrow> lb_group l = None \<and> lb_tags l = [] \<and> lb_in_keyring l = []"

definition normalize_group :: "string \<Rightarrow> string option" where
  "normalize_group raw =
     (let segments = filter (\<lambda>s. s \<noteq> []) (map trim (split_on (CHR ''/'') raw))
      in if segments = [] then None else Some (join_with ''/'' segments))"

definition clean_tag :: "string \<Rightarrow> string" where
  "clean_tag raw =
     (let tag = trim raw
      in trim (case strip_prefix tag ''#'' of Some t \<Rightarrow> t | None \<Rightarrow> tag))"

definition push_tag :: "string \<Rightarrow> string list \<Rightarrow> string list" where
  "push_tag raw tags =
     (let tag = clean_tag raw
      in if tag \<noteq> [] \<and> \<not> list_ex (\<lambda>kept. to_lowercase kept = to_lowercase tag) tags then tags @ [tag] else tags)"

definition normalize_tags :: "string list \<Rightarrow> string list" where
  "normalize_tags raw = fold push_tag raw []"

definition parse_tags :: "string \<Rightarrow> string list" where
  "parse_tags raw = normalize_tags (split_on (CHR '','') raw)"

section \<open>Profiles and entries\<close>

definition DEFAULT_PROTOCOL :: string where
  "DEFAULT_PROTOCOL = ''sftp''"

definition PASSWORD_MARKER :: string where
  "PASSWORD_MARKER = ''password''"

definition REMOTE_PATH :: string where
  "REMOTE_PATH = ''remote_path''"

record connection_profile =
  cp_name :: string
  cp_protocol :: string
  cp_host :: string
  cp_port :: "nat option"
  cp_username :: string
  cp_group :: "string option"
  cp_tags :: "string list"
  cp_in_keyring :: "string list"
  cp_options :: "(string, string) fmap"

text \<open>What the file holds of a profile: everything but its name; a password in it is dropped.\<close>

definition profile_of_stored :: "connection_profile \<Rightarrow> connection_profile" where
  "profile_of_stored stored =
     stored\<lparr>cp_name := [], cp_options := fmdrop PASSWORD_MARKER (cp_options stored)\<rparr>"

datatype connection_source = FromProfile | FromSshConfig | MissingSshHost | ShadowedSshHost

definition is_orphan_labels :: "connection_source \<Rightarrow> bool" where
  "is_orphan_labels source \<longleftrightarrow> source = MissingSshHost \<or> source = ShadowedSshHost"

record connection_entry =
  ce_name :: string
  ce_protocol :: string
  ce_host :: string
  ce_port :: nat
  ce_username :: string
  ce_password :: "string option"
  ce_options :: "(string, string) fmap"
  ce_group :: "string option"
  ce_tags :: "string list"
  ce_saved_password :: bool
  ce_in_keyring :: "string list"
  ce_source :: connection_source

definition entry_of_profile :: "connection_profile \<Rightarrow> nat \<Rightarrow> connection_entry" where
  "entry_of_profile p default_port =
     \<lparr>ce_name = cp_name p, ce_protocol = cp_protocol p, ce_host = cp_host p,
      ce_port = (case cp_port p of Some port \<Rightarrow> port | None \<Rightarrow> default_port), ce_username = cp_username p,
      ce_password = None, ce_options = cp_options p, ce_group = cp_group p, ce_tags = cp_tags p,
      ce_saved_password = (PASSWORD_MARKER \<in> set (cp_in_keyring p)), ce_in_keyring = cp_in_keyring p,
      ce_source = FromProfile\<rparr>"

definition discovered_entry :: "string \<Rightarrow> target \<Rightarrow> connection_entry" where
  "discovered_entry protocol t =
     \<lparr>ce_name = tg_name t, ce_protocol = protocol, ce_host = tg_host t, ce_port = tg_port t,
      ce_username = tg_username t, ce_password = tg_password t, ce_options = tg_options t, ce_group = None,
      ce_tags = [], ce_saved_password = False, ce_in_keyring = [], ce_source = FromSshConfig\<rparr>"

definition orphan_entry :: "string \<Rightarrow> labels \<Rightarrow> connection_source \<Rightarrow> connection_entry" where
  "orphan_entry name l source =
     \<lparr>ce_name = name, ce_protocol = DEFAULT_PROTOCOL, ce_host = [], ce_port = 0, ce_username = [],
      ce_password = None, ce_options = fmempty, ce_group = lb_group l, ce_tags = lb_tags l,
      ce_saved_password = False, ce_in_keyring = [], ce_source = source\<rparr>"

definition start_path :: "connection_entry \<Rightarrow> string option" where
  "start_path e =
     (case map_option trim (fmlookup (ce_options e) REMOTE_PATH) of
        None \<Rightarrow> None
      | Some p \<Rightarrow> if p = [] then None else Some p)"

definition target_of_entry :: "connection_entry \<Rightarrow> target" where
  "target_of_entry e =
     \<lparr>tg_name = ce_name e, tg_host = ce_host e, tg_port = ce_port e, tg_username = ce_username e,
      tg_password = ce_password e, tg_options = ce_options e\<rparr>"

section \<open>Drafts (profiles/draft)\<close>

datatype secret_edit = Keep | Replace string | Clear

record profile_draft =
  pd_protocol :: string
  pd_name :: string
  pd_host :: string
  pd_port :: string
  pd_username :: string
  pd_password :: secret_edit
  pd_remote_path :: string
  pd_group :: string
  pd_tags :: string
  pd_options :: "(string, string) fmap"
  pd_secret_options :: "(string, secret_edit) fmap"

text \<open>\<^verbatim>\<open>?\<close> on a \<^verbatim>\<open>Result\<close>.\<close>

definition and_then :: "'e + 'a \<Rightarrow> ('a \<Rightarrow> 'e + 'b) \<Rightarrow> 'e + 'b" where
  "and_then r f = (case r of Inl err \<Rightarrow> Inl err | Inr v \<Rightarrow> f v)"

definition required :: "string \<Rightarrow> string \<Rightarrow> bool \<Rightarrow> string + unit" where
  "required value label is_required =
     (if is_required \<and> value = [] then Inl (label @ '' can't be empty'') else Inr ())"

definition has_marker :: "connection_entry option \<Rightarrow> string \<Rightarrow> bool" where
  "has_marker original marker =
     (case original of None \<Rightarrow> False | Some e \<Rightarrow> marker \<in> set (ce_in_keyring e))"

definition required_secret :: "secret_edit \<Rightarrow> string \<Rightarrow> bool \<Rightarrow> bool \<Rightarrow> bool \<Rightarrow> string + unit" where
  "required_secret edit label is_required saved should_trim =
     (case edit of
        Replace value \<Rightarrow> required (if should_trim then trim value else value) label is_required
      | Keep \<Rightarrow> if saved then Inr () else required [] label is_required
      | Clear \<Rightarrow> required [] label is_required)"

text \<open>\<^verbatim>\<open>str::parse::<u16>\<close>: digits, after one sign that may be there, up to 65535.\<close>

definition is_digit :: "char \<Rightarrow> bool" where
  "is_digit c = (let n = (of_char c :: nat) in 48 \<le> n \<and> n \<le> 57)"

definition digits_value :: "string \<Rightarrow> nat" where
  "digits_value ds = foldl (\<lambda>n c. 10 * n + (of_char c - 48)) 0 ds"

definition parse_u16 :: "string \<Rightarrow> nat option" where
  "parse_u16 text =
     (let ds = (case strip_prefix text ''+'' of Some rest \<Rightarrow> rest | None \<Rightarrow> text)
      in if ds \<noteq> [] \<and> list_all is_digit ds \<and> digits_value ds < 2 ^ 16 then Some (digits_value ds) else None)"

definition draft_port :: "profile_draft \<Rightarrow> connection_form \<Rightarrow> string + nat" where
  "draft_port d form =
     (let port = trim (pd_port d)
      in if port = [] then Inr (po_default (fm_port form))
         else (case parse_u16 port of
                 Some n \<Rightarrow>
                   if n \<noteq> 0 then Inr n else Inl (po_label (fm_port form) @ '' must be a number from 1-65535'')
               | None \<Rightarrow> Inl (po_label (fm_port form) @ '' must be a number from 1-65535'')))"

text \<open>The body of the loop over the options of the form.\<close>

definition take_option ::
  "profile_draft \<Rightarrow> connection_entry option \<Rightarrow> option_field \<Rightarrow> string list \<times> (string, string) fmap \<Rightarrow>
     string + string list \<times> (string, string) fmap" where
  "take_option d original f st =
     (case st of (in_keyring, options) \<Rightarrow>
        if of_kind f = SecretOption
        then
          let edit = (case fmlookup (pd_secret_options d) (of_key f) of Some e \<Rightarrow> e | None \<Rightarrow> Keep);
              saved = has_marker original (of_key f)
          in and_then (required_secret edit (of_label f) (of_required f) saved True) (\<lambda>_.
               Inr (if saved \<and> edit = Keep then in_keyring @ [of_key f] else in_keyring, options))
        else
          let value = trim (case fmlookup (pd_options d) (of_key f) of Some v \<Rightarrow> v | None \<Rightarrow> [])
          in and_then (required value (of_label f) (of_required f)) (\<lambda>_.
               if value = [] then Inr (in_keyring, options)
               else (case of_kind f of
                       ChoiceOption choices _ \<Rightarrow>
                         if value \<notin> set (map co_value choices)
                         then Inl (of_label f @ '' must be one of: '' @ join_with '', '' (map co_label choices))
                         else Inr (in_keyring, fmupd (of_key f) value options)
                     | ToggleOption _ \<Rightarrow>
                         if value \<noteq> ''true'' \<and> value \<noteq> ''false''
                         then Inl (of_label f @ '' must be on or off'')
                         else Inr (in_keyring, fmupd (of_key f) value options)
                     | _ \<Rightarrow> Inr (in_keyring, fmupd (of_key f) value options))))"

fun take_options ::
  "profile_draft \<Rightarrow> connection_entry option \<Rightarrow> option_field list \<Rightarrow> string list \<times> (string, string) fmap \<Rightarrow>
     string + string list \<times> (string, string) fmap" where
  "take_options d original [] st = Inr st"
| "take_options d original (f # fs) st =
     and_then (take_option d original f st) (\<lambda>st. take_options d original fs st)"

definition validate_draft ::
  "profile_draft \<Rightarrow> connection_form \<Rightarrow> connection_entry option \<Rightarrow> string + connection_profile" where
  "validate_draft d form preserve_from =
     (let name = trim (pd_name d); host = trim (pd_host d); username = trim (pd_username d);
          original = (case preserve_from of
                        None \<Rightarrow> None
                      | Some e \<Rightarrow> if ce_protocol e = pd_protocol d then Some e else None);
          password_saved = has_marker original PASSWORD_MARKER
      in and_then (required name ''Name'' True) (\<lambda>_.
         and_then (required host (cm_label (fm_host form)) (cm_required (fm_host form))) (\<lambda>_.
         and_then (required username (cm_label (fm_username form)) (cm_required (fm_username form))) (\<lambda>_.
         and_then (required_secret (pd_password d) (cm_label (fm_password form)) (cm_required (fm_password form))
                     password_saved False) (\<lambda>_.
         and_then (draft_port d form) (\<lambda>port.
         let in_keyring = (if password_saved \<and> pd_password d = Keep then [PASSWORD_MARKER] else []);
             options = (case original of
                          None \<Rightarrow> fmempty
                        | Some e \<Rightarrow> fmfilter (\<lambda>key. key \<noteq> REMOTE_PATH \<and> form_option form key = None) (ce_options e))
         in and_then (take_options d original (fm_options form) (in_keyring, options)) (\<lambda>(in_keyring, options).
         let remote_path = trim (pd_remote_path d);
             options = (if remote_path \<noteq> [] then fmupd REMOTE_PATH remote_path options else options)
         in Inr \<lparr>cp_name = name, cp_protocol = pd_protocol d, cp_host = host, cp_port = Some port,
                 cp_username = username, cp_group = normalize_group (pd_group d), cp_tags = parse_tags (pd_tags d),
                 cp_in_keyring = in_keyring, cp_options = options\<rparr>)))))))"

section \<open>The file (profiles/store)\<close>

record config_file =
  cf_connections :: "(string, connection_profile) fmap"
  cf_ssh_hosts :: "(string, labels) fmap"

definition config_default :: config_file where
  "config_default = \<lparr>cf_connections = fmempty, cf_ssh_hosts = fmempty\<rparr>"

record config_codec =
  cc_is_utf8 :: "string \<Rightarrow> bool"
  cc_parse :: "string \<Rightarrow> string + config_file"
  cc_render :: "config_file \<Rightarrow> string + string"

type_synonym 'a stored = "persist \<Rightarrow> (string + 'a) \<times> persist"

text \<open>\<^verbatim>\<open>std::fs::read_to_string\<close>.\<close>

datatype text_read = NoFile | TextRead string | ReadError string

definition read_text :: "(string \<Rightarrow> bool) \<Rightarrow> path \<Rightarrow> persist \<Rightarrow> text_read \<times> persist" where
  "read_text is_utf8 p st =
     (case disk_try (ps_disk st) of (good, d) \<Rightarrow>
        ((case fmlookup (dk_files d) p of
            None \<Rightarrow> NoFile
          | Some bytes \<Rightarrow>
              if \<not> good then ReadError (dk_error d)
              else if \<not> is_utf8 bytes then ReadError ''stream did not contain valid UTF-8''
              else TextRead bytes), st\<lparr>ps_disk := d\<rparr>))"

definition read_config_file :: "config_codec \<Rightarrow> path \<Rightarrow> config_file stored" where
  "read_config_file codec p st =
     (case read_text (cc_is_utf8 codec) p st of
        (NoFile, st) \<Rightarrow> (Inr config_default, st)
      | (ReadError err, st) \<Rightarrow> (Inl err, st)
      | (TextRead text, st) \<Rightarrow>
          (and_then (cc_parse codec text)
             (\<lambda>f. Inr (f\<lparr>cf_connections := fmmap profile_of_stored (cf_connections f)\<rparr>)), st))"

definition write_config_file :: "config_codec \<Rightarrow> path \<Rightarrow> config_file \<Rightarrow> unit stored" where
  "write_config_file codec p f st =
     (case cc_render codec f of
        Inl err \<Rightarrow> (Inl err, st)
      | Inr text \<Rightarrow> write_atomic p text st)"

text \<open>Reading the file, changing what it holds, and writing it.\<close>

definition change_config_file ::
  "config_codec \<Rightarrow> path \<Rightarrow> (config_file \<Rightarrow> config_file) \<Rightarrow> unit stored" where
  "change_config_file codec p change st =
     (case read_config_file codec p st of
        (Inl err, st) \<Rightarrow> (Inl err, st)
      | (Inr f, st) \<Rightarrow> write_config_file codec p (change f) st)"

definition profiles_of :: "config_file \<Rightarrow> connection_profile list" where
  "profiles_of f =
     List.map_filter (\<lambda>name. map_option (\<lambda>p. p\<lparr>cp_name := name\<rparr>) (fmlookup (cf_connections f) name))
       (sorted_list_of_fset (fmdom (cf_connections f)))"

definition load_profiles :: "config_codec \<Rightarrow> path \<Rightarrow> connection_profile list stored" where
  "load_profiles codec p st =
     (case read_config_file codec p st of
        (Inl err, st) \<Rightarrow> (Inl err, st)
      | (Inr f, st) \<Rightarrow> (Inr (profiles_of f), st))"

definition save_profile_to :: "config_codec \<Rightarrow> path \<Rightarrow> connection_profile \<Rightarrow> unit stored" where
  "save_profile_to codec p profile =
     change_config_file codec p (\<lambda>f. f\<lparr>cf_connections := fmupd (cp_name profile) profile (cf_connections f)\<rparr>)"

definition delete_profile_from :: "config_codec \<Rightarrow> path \<Rightarrow> string \<Rightarrow> unit stored" where
  "delete_profile_from codec p name =
     change_config_file codec p (\<lambda>f. f\<lparr>cf_connections := fmdrop name (cf_connections f)\<rparr>)"

definition load_ssh_labels :: "config_codec \<Rightarrow> path \<Rightarrow> (string, labels) fmap stored" where
  "load_ssh_labels codec p st =
     (case read_config_file codec p st of
        (Inl err, st) \<Rightarrow> (Inl err, st)
      | (Inr f, st) \<Rightarrow> (Inr (cf_ssh_hosts f), st))"

definition put_labels :: "string \<Rightarrow> labels \<Rightarrow> config_file \<Rightarrow> config_file" where
  "put_labels name l f =
     f\<lparr>cf_ssh_hosts := (if labels_empty l then fmdrop name (cf_ssh_hosts f) else fmupd name l (cf_ssh_hosts f))\<rparr>"

definition save_ssh_labels_to :: "config_codec \<Rightarrow> path \<Rightarrow> string \<Rightarrow> labels \<Rightarrow> unit stored" where
  "save_ssh_labels_to codec p name l =
     change_config_file codec p (\<lambda>f.
       let in_keyring = (case fmlookup (cf_ssh_hosts f) name of Some r \<Rightarrow> lb_in_keyring r | None \<Rightarrow> [])
       in put_labels name \<lparr>lb_group = lb_group l, lb_tags = lb_tags l, lb_in_keyring = in_keyring\<rparr> f)"

definition set_profile_markers :: "config_codec \<Rightarrow> path \<Rightarrow> string \<Rightarrow> string list \<Rightarrow> bool stored" where
  "set_profile_markers codec p name markers st =
     (case read_config_file codec p st of
        (Inl err, st) \<Rightarrow> (Inl err, st)
      | (Inr f, st) \<Rightarrow>
          (case fmlookup (cf_connections f) name of
             None \<Rightarrow> (Inr False, st)
           | Some profile \<Rightarrow>
               (case write_config_file codec p
                       (f\<lparr>cf_connections := fmupd name (profile\<lparr>cp_in_keyring := markers\<rparr>) (cf_connections f)\<rparr>) st of
                  (Inl err, st) \<Rightarrow> (Inl err, st)
                | (Inr _, st) \<Rightarrow> (Inr True, st))))"

definition set_ssh_markers :: "config_codec \<Rightarrow> path \<Rightarrow> string \<Rightarrow> string list \<Rightarrow> unit stored" where
  "set_ssh_markers codec p alias markers =
     change_config_file codec p (\<lambda>f.
       let record = (case fmlookup (cf_ssh_hosts f) alias of Some r \<Rightarrow> r | None \<Rightarrow> labels_default)
       in put_labels alias (record\<lparr>lb_in_keyring := markers\<rparr>) f)"

definition move_ssh_labels_in :: "config_codec \<Rightarrow> path \<Rightarrow> string \<Rightarrow> string \<Rightarrow> unit stored" where
  "move_ssh_labels_in codec p from_name to_name =
     change_config_file codec p (\<lambda>f.
       case fmlookup (cf_ssh_hosts f) from_name of
         None \<Rightarrow> f
       | Some l \<Rightarrow> f\<lparr>cf_ssh_hosts := fmupd to_name l (fmdrop from_name (cf_ssh_hosts f))\<rparr>)"

definition forget_ssh_labels_in :: "config_codec \<Rightarrow> path \<Rightarrow> string \<Rightarrow> unit stored" where
  "forget_ssh_labels_in codec p name =
     change_config_file codec p (\<lambda>f. f\<lparr>cf_ssh_hosts := fmdrop name (cf_ssh_hosts f)\<rparr>)"

section \<open>All connections\<close>

definition FALLBACK_PORT :: nat where
  "FALLBACK_PORT = 22"

text \<open>What the list needs of a protocol: its name, its port, and the hosts it finds by itself.\<close>

record source_protocol =
  sp_id :: string
  sp_default_port :: nat
  sp_discover :: "protocol_error + target list"

definition default_port_for :: "source_protocol list \<Rightarrow> string \<Rightarrow> nat" where
  "default_port_for protocols protocol_id =
     (case find (\<lambda>p. sp_id p = protocol_id) protocols of Some p \<Rightarrow> sp_default_port p | None \<Rightarrow> FALLBACK_PORT)"

record discovery =
  ds_known :: "string fset"
  ds_shadowed :: "string fset"
  ds_entries :: "connection_entry list"

definition add_target :: "string \<Rightarrow> target \<Rightarrow> discovery \<Rightarrow> discovery" where
  "add_target protocol t ds =
     (if tg_name t |\<in>| ds_known ds then ds\<lparr>ds_shadowed := finsert (tg_name t) (ds_shadowed ds)\<rparr>
      else ds\<lparr>ds_known := finsert (tg_name t) (ds_known ds),
             ds_entries := ds_entries ds @ [discovered_entry protocol t]\<rparr>)"

fun discover_all :: "source_protocol list \<Rightarrow> discovery \<Rightarrow> string + discovery" where
  "discover_all [] ds = Inr ds"
| "discover_all (p # ps) ds =
     (case sp_discover p of
        Inl err \<Rightarrow> Inl (pe_source err)
      | Inr targets \<Rightarrow> discover_all ps (fold (add_target (sp_id p)) targets ds))"

text \<open>The loop that gives the hosts of the ssh configuration their labels, and takes those away.\<close>

definition label_entry ::
  "connection_entry \<Rightarrow> connection_entry list \<times> (string, labels) fmap \<Rightarrow> connection_entry list \<times> (string, labels) fmap" where
  "label_entry e st =
     (case st of (es, ls) \<Rightarrow>
        if ce_source e \<noteq> FromSshConfig then (es @ [e], ls)
        else (case fmlookup ls (ce_name e) of
                None \<Rightarrow> (es @ [e], ls)
              | Some found \<Rightarrow>
                  (es @ [e\<lparr>ce_group := lb_group found, ce_tags := lb_tags found,
                           ce_saved_password := PASSWORD_MARKER \<in> set (lb_in_keyring found),
                           ce_in_keyring := lb_in_keyring found\<rparr>], fmdrop (ce_name e) ls)))"

definition orphan_of :: "string fset \<Rightarrow> (string, labels) fmap \<Rightarrow> string \<Rightarrow> connection_entry option" where
  "orphan_of shadowed ls name =
     (case fmlookup ls name of
        None \<Rightarrow> None
      | Some found \<Rightarrow>
          Some ((orphan_entry name found (if name |\<in>| shadowed then ShadowedSshHost else MissingSshHost))
                \<lparr>ce_saved_password := PASSWORD_MARKER \<in> set (lb_in_keyring found),
                 ce_in_keyring := lb_in_keyring found\<rparr>))"

definition normal_entry :: "connection_entry \<Rightarrow> connection_entry" where
  "normal_entry e = e\<lparr>ce_group := Option.bind (ce_group e) normalize_group, ce_tags := normalize_tags (ce_tags e)\<rparr>"

definition list_entries ::
  "discovery \<Rightarrow> (string, labels) fmap \<Rightarrow> connection_entry list" where
  "list_entries ds ls =
     (case fold label_entry (ds_entries ds) ([], ls) of (es, left) \<Rightarrow>
        sort_key (\<lambda>e. to_lowercase (ce_name e))
          (map normal_entry
            (es @ List.map_filter (orphan_of (ds_shadowed ds) left) (sorted_list_of_fset (fmdom left)))))"

definition list_all_connections ::
  "config_codec \<Rightarrow> path \<Rightarrow> source_protocol list \<Rightarrow> connection_entry list stored" where
  "list_all_connections codec p protocols st =
     (case load_profiles codec p st of
        (Inl err, st) \<Rightarrow> (Inl err, st)
      | (Inr profiles, st) \<Rightarrow>
          (case discover_all protocols
                  \<lparr>ds_known = fset_of_list (map cp_name profiles), ds_shadowed = {||},
                   ds_entries = map (\<lambda>profile. entry_of_profile profile
                                       (default_port_for protocols (cp_protocol profile))) profiles\<rparr> of
             Inl err \<Rightarrow> (Inl err, st)
           | Inr ds \<Rightarrow>
               (case load_ssh_labels codec p st of
                  (Inl err, st) \<Rightarrow> (Inl err, st)
                | (Inr ls, st) \<Rightarrow> (Inr (list_entries ds ls), st))))"

end
