(* ===== verification/Keyring.thy ===== *)
theory Keyring
  imports Secrets Profiles
begin

text \<open>
  \<^verbatim>\<open>engine/handlers/profiles/keyring\<close>: the jobs that bring the keyring of the system in line with
  the saved connections.  Jobs are run one after the other by a task of their own; what a job
  will do is a value, and running it a function of the secrets and the world.
\<close>

section \<open>Whose secrets\<close>

datatype secret_owner = OwnerProfile string | OwnerSshHost string

fun owner_key :: "secret_owner \<Rightarrow> string" where
  "owner_key (OwnerProfile name) = ''profile:'' @ name"
| "owner_key (OwnerSshHost alias) = ''ssh:'' @ alias"

fun owner_name :: "secret_owner \<Rightarrow> string" where
  "owner_name (OwnerProfile name) = name"
| "owner_name (OwnerSshHost name) = name"

definition profile_account :: "string \<Rightarrow> string \<Rightarrow> string" where
  "profile_account name marker =
     account_of (ProfileSecret name (if marker = PASSWORD_MARKER then PasswordField else OptionSecret marker))"

definition ssh_account :: "string \<Rightarrow> string" where
  "ssh_account alias = account_of (SshSecret alias)"

definition save_failed :: "string \<Rightarrow> secret_error \<Rightarrow> string" where
  "save_failed name err =
     ''Couldn't save the password for '' @ name @ '' in the system keyring: '' @ secret_error_text err"

definition remove_failed :: "string \<Rightarrow> secret_error \<Rightarrow> string" where
  "remove_failed name err =
     ''Couldn't remove the password for '' @ name @ '' from the system keyring: '' @ secret_error_text err"

section \<open>Changes of a profile\<close>

record secret_changes =
  ch_name :: string
  ch_renamed_from :: "string option"
  ch_saved_before :: "string list"
  ch_kept :: "string list"
  ch_replaced :: "(string, string) fmap"

fun replaced_secret :: "secret_edit \<Rightarrow> string option" where
  "replaced_secret (Replace secret) = Some secret"
| "replaced_secret Keep = None"
| "replaced_secret Clear = None"

definition changes_from_edits ::
  "string \<Rightarrow> string option \<Rightarrow> string list \<Rightarrow> string list \<Rightarrow> (string \<times> secret_edit) list \<Rightarrow> secret_changes" where
  "changes_from_edits name renamed_from saved_before kept edits =
     \<lparr>ch_name = name, ch_renamed_from = renamed_from, ch_saved_before = saved_before, ch_kept = kept,
      ch_replaced = fold (\<lambda>(marker, edit) m.
        (case replaced_secret edit of None \<Rightarrow> m | Some secret \<Rightarrow> fmupd marker secret m)) edits fmempty\<rparr>"

definition dropped_markers :: "secret_changes \<Rightarrow> string list" where
  "dropped_markers c =
     filter (\<lambda>m. m \<notin> set (ch_kept c) \<and> fmlookup (ch_replaced c) m = None) (ch_saved_before c)"

section \<open>Jobs\<close>

record keyring_done =
  kd_job :: nat
  kd_owner :: secret_owner
  kd_rollback :: "string list"
  kd_restore :: "string list"
  kd_errors :: "string list"

datatype keyring_job =
    ApplyChanges nat secret_changes "string list"
  | EraseProfile nat string "string list"
  | WriteTyped nat secret_owner string string
  | MoveSsh nat secret_owner string string "string list"
  | EraseSsh nat secret_owner string "string list" bool

text \<open>The three loops of a job of changes; \<^verbatim>\<open>rollback\<close> and \<^verbatim>\<open>errors\<close> grow.\<close>

fun move_markers ::
  "string \<Rightarrow> string \<Rightarrow> string list \<Rightarrow> string list \<times> string list \<Rightarrow> 'w secrets \<Rightarrow> 'w \<Rightarrow>
     (string list \<times> string list) \<times> 'w secrets \<times> 'w" where
  "move_markers old name [] out s w = (out, s, w)"
| "move_markers old name (marker # markers) (rollback, errors) s w =
     (case move_keyring (profile_account old marker) (profile_account name marker) s w of
        (Inr _, s, w) \<Rightarrow> move_markers old name markers (rollback, errors) s w
      | (Inl err, s, w) \<Rightarrow>
          move_markers old name markers (rollback @ [marker], errors @ [save_failed name err]) s w)"

fun write_markers_to ::
  "string \<Rightarrow> (string \<times> string) list \<Rightarrow> string list \<times> string list \<Rightarrow> 'w secrets \<Rightarrow> 'w \<Rightarrow>
     (string list \<times> string list) \<times> 'w secrets \<times> 'w" where
  "write_markers_to name [] out s w = (out, s, w)"
| "write_markers_to name ((marker, secret) # replaced) (rollback, errors) s w =
     (case write_keyring (profile_account name marker) secret s w of
        (Inr True, s, w) \<Rightarrow> write_markers_to name replaced (rollback, errors) s w
      | (Inr False, s, w) \<Rightarrow> write_markers_to name replaced (rollback @ [marker], errors) s w
      | (Inl err, s, w) \<Rightarrow>
          write_markers_to name replaced (rollback @ [marker], errors @ [save_failed name err]) s w)"

fun erase_markers ::
  "string \<Rightarrow> string list \<Rightarrow> string list \<Rightarrow> 'w secrets \<Rightarrow> 'w \<Rightarrow> string list \<times> 'w secrets \<times> 'w" where
  "erase_markers name [] errors s w = (errors, s, w)"
| "erase_markers name (marker # markers) errors s w =
     (case erase_keyring (profile_account name marker) s w of
        (Inr _, s, w) \<Rightarrow> erase_markers name markers errors s w
      | (Inl err, s, w) \<Rightarrow> erase_markers name markers (errors @ [remove_failed name err]) s w)"

text \<open>A \<^verbatim>\<open>BTreeMap\<close> in its order.\<close>

definition fmap_entries :: "('k :: linorder, 'v) fmap \<Rightarrow> ('k \<times> 'v) list" where
  "fmap_entries m = List.map_filter (\<lambda>k. map_option (Pair k) (fmlookup m k)) (sorted_list_of_fset (fmdom m))"

definition apply_changes_job ::
  "nat \<Rightarrow> secret_changes \<Rightarrow> string list \<Rightarrow> 'w secrets \<Rightarrow> 'w \<Rightarrow> keyring_done \<times> 'w secrets \<times> 'w" where
  "apply_changes_job job c dropped s w =
     (case (case ch_renamed_from c of
              None \<Rightarrow> (([], []), s, w)
            | Some old \<Rightarrow> move_markers old (ch_name c) (ch_saved_before c) ([], []) s w) of
        (out, s, w) \<Rightarrow>
     (case write_markers_to (ch_name c) (fmap_entries (ch_replaced c)) out s w of
        ((rollback, errors), s, w) \<Rightarrow>
     (case erase_markers (ch_name c) dropped errors s w of
        (errors, s, w) \<Rightarrow>
          (\<lparr>kd_job = job, kd_owner = OwnerProfile (ch_name c), kd_rollback = rollback, kd_restore = [],
            kd_errors = errors\<rparr>, s, w))))"

fun run_keyring_job :: "keyring_job \<Rightarrow> 'w secrets \<Rightarrow> 'w \<Rightarrow> keyring_done \<times> 'w secrets \<times> 'w" where
  "run_keyring_job (ApplyChanges job c dropped) s w = apply_changes_job job c dropped s w"
| "run_keyring_job (EraseProfile job name saved) s w =
     (case erase_markers name saved [] s w of
        (errors, s, w) \<Rightarrow>
          (\<lparr>kd_job = job, kd_owner = OwnerProfile name, kd_rollback = [], kd_restore = [], kd_errors = errors\<rparr>, s, w))"
| "run_keyring_job (WriteTyped job owner name secret) s w =
     (case write_keyring name secret s w of
        (outcome, s, w) \<Rightarrow>
          (\<lparr>kd_job = job, kd_owner = owner,
            kd_rollback = (case outcome of Inr True \<Rightarrow> [] | _ \<Rightarrow> [PASSWORD_MARKER]), kd_restore = [],
            kd_errors = (case outcome of Inl err \<Rightarrow> [save_failed (owner_name owner) err] | _ \<Rightarrow> [])\<rparr>, s, w))"
| "run_keyring_job (MoveSsh job owner from_account to_account saved) s w =
     (case move_keyring from_account to_account s w of
        (outcome, s, w) \<Rightarrow>
          (\<lparr>kd_job = job, kd_owner = owner,
            kd_rollback = (case outcome of Inr _ \<Rightarrow> [] | Inl _ \<Rightarrow> saved), kd_restore = [],
            kd_errors = (case outcome of Inr _ \<Rightarrow> [] | Inl err \<Rightarrow> [save_failed (owner_name owner) err])\<rparr>, s, w))"
| "run_keyring_job (EraseSsh job owner name saved keep_record) s w =
     (case erase_keyring name s w of
        (outcome, s, w) \<Rightarrow>
          (\<lparr>kd_job = job, kd_owner = owner, kd_rollback = [],
            kd_restore = (case outcome of Inl _ \<Rightarrow> if keep_record then saved else [] | Inr _ \<Rightarrow> []),
            kd_errors = (case outcome of Inl err \<Rightarrow> [remove_failed (owner_name owner) err] | Inr _ \<Rightarrow> [])\<rparr>, s, w))"

end
