(* ===== verification/Config.thy ===== *)
theory Config
  imports Profiles Conflicts
begin

text \<open>
  \<^verbatim>\<open>paths\<close>, \<^verbatim>\<open>config\<close>, \<^verbatim>\<open>config/settings\<close>, \<^verbatim>\<open>config/bookmarks\<close> and \<^verbatim>\<open>state\<close>: where the files of the
  program are, what the settings mean, the bookmarks, and what the interface remembers.  The
  text of the files is TOML: parsing and printing it are parameters.
\<close>

section \<open>Paths\<close>

record paths =
  pa_config_dir :: path
  pa_state_dir :: path

definition APP_DIR :: string where
  "APP_DIR = ''porthmos''"

definition LEGACY_APP_DIR :: string where
  "LEGACY_APP_DIR = ''termconnect''"

definition MISSING_HOME :: string where
  "MISSING_HOME = ''HOME environment variable is not set''"

definition resolve_dir :: "string option \<Rightarrow> path option \<Rightarrow> string list \<Rightarrow> string + path" where
  "resolve_dir xdg home fallback =
     (case xdg of
        Some dir \<Rightarrow> Inr (join_name (path_of_string dir) APP_DIR)
      | None \<Rightarrow>
          (case home of
             None \<Rightarrow> Inl MISSING_HOME
           | Some h \<Rightarrow> Inr (join_name (foldl join_name h fallback) APP_DIR)))"

definition resolve_paths :: "string option \<Rightarrow> string option \<Rightarrow> path option \<Rightarrow> string + paths" where
  "resolve_paths xdg_config xdg_state home =
     and_then (resolve_dir xdg_config home [''.config'']) (\<lambda>config_dir.
     and_then (resolve_dir xdg_state home [''.local'', ''state'']) (\<lambda>state_dir.
       Inr \<lparr>pa_config_dir = config_dir, pa_state_dir = state_dir\<rparr>))"

definition paths_in_dir :: "path \<Rightarrow> paths" where
  "paths_in_dir root = \<lparr>pa_config_dir = join_name root ''config'', pa_state_dir = join_name root ''state''\<rparr>"

definition config_file_path :: "paths \<Rightarrow> path" where
  "config_file_path p = join_name (pa_config_dir p) ''config.toml''"

definition connections_file :: "paths \<Rightarrow> path" where
  "connections_file p = join_name (pa_config_dir p) ''connections.toml''"

definition known_certificates_file :: "paths \<Rightarrow> path" where
  "known_certificates_file p = join_name (pa_config_dir p) ''known_certificates.toml''"

definition bookmarks_file :: "paths \<Rightarrow> path" where
  "bookmarks_file p = join_name (pa_config_dir p) ''bookmarks.toml''"

definition state_file :: "paths \<Rightarrow> path" where
  "state_file p = join_name (pa_state_dir p) ''state.toml''"

definition history_file :: "paths \<Rightarrow> path" where
  "history_file p = join_name (pa_state_dir p) ''history.toml''"

definition edit_dir :: "paths \<Rightarrow> path" where
  "edit_dir p = join_name (pa_state_dir p) ''edit''"

definition log_file :: "paths \<Rightarrow> path" where
  "log_file p = join_name (pa_state_dir p) ''porthmos.log''"

datatype config_migration =
    NothingToMigrate | MovedConfig path path | KeptBothConfigs path | FailedMigration path string

text \<open>The folders of the local disk are asked for; \<^verbatim>\<open>rename_dir\<close> is \<^verbatim>\<open>std::fs::rename\<close>.\<close>

definition migrate_legacy_config ::
  "(path \<Rightarrow> bool) \<Rightarrow> (path \<Rightarrow> bool) \<Rightarrow> (path \<Rightarrow> path \<Rightarrow> string + unit) \<Rightarrow> paths \<Rightarrow> config_migration" where
  "migrate_legacy_config is_dir exists rename_dir p =
     (case map_option (\<lambda>parent. join_name parent LEGACY_APP_DIR) (path_parent (pa_config_dir p)) of
        None \<Rightarrow> NothingToMigrate
      | Some legacy \<Rightarrow>
          if \<not> is_dir legacy then NothingToMigrate
          else if exists (pa_config_dir p) then KeptBothConfigs legacy
          else (case rename_dir legacy (pa_config_dir p) of
                  Inr _ \<Rightarrow> MovedConfig legacy (pa_config_dir p)
                | Inl err \<Rightarrow> FailedMigration legacy err))"

section \<open>Settings\<close>

datatype sort_key = SortName | SortSize

datatype sort_order = Ascending | Descending

record sort_spec =
  ss_key :: sort_key
  ss_order :: sort_order

definition sort_spec_default :: sort_spec where
  "sort_spec_default = \<lparr>ss_key = SortName, ss_order = Ascending\<rparr>"

record panel_settings =
  ps_show_hidden :: bool
  ps_sort :: sort_spec

record edit_settings =
  ed_auto_upload :: bool
  ed_editor :: "string option"

definition MAX_PARALLEL_CAP :: nat where
  "MAX_PARALLEL_CAP = 16"

record transfer_settings =
  ts_max_parallel :: nat
  ts_on_conflict :: conflict_policy

text \<open>The table of a front end is passed on as it is.\<close>

record 't settings =
  se_panel :: panel_settings
  se_transfers :: transfer_settings
  se_edit :: edit_settings
  se_frontend :: 't

definition settings_default :: "'t \<Rightarrow> 't settings" where
  "settings_default empty_table =
     \<lparr>se_panel = \<lparr>ps_show_hidden = False, ps_sort = sort_spec_default\<rparr>,
      se_transfers = \<lparr>ts_max_parallel = 4, ts_on_conflict = PAsk\<rparr>,
      se_edit = \<lparr>ed_auto_upload = True, ed_editor = None\<rparr>, se_frontend = empty_table\<rparr>"

record 't settings_file =
  sf_show_hidden :: "bool option"
  sf_sort_key :: "string option"
  sf_sort_order :: "string option"
  sf_max_parallel :: "int option"
  sf_on_conflict :: "string option"
  sf_auto_upload :: "bool option"
  sf_editor :: "string option"
  sf_frontend :: 't

definition quoted :: "string \<Rightarrow> string" where
  "quoted s = CHR 0x22 # s @ [CHR 0x22]"

text \<open>Each setting, with the warnings about it.\<close>

definition read_sort_key :: "string option \<Rightarrow> sort_key \<times> string list" where
  "read_sort_key v =
     (case v of
        None \<Rightarrow> (SortName, [])
      | Some other \<Rightarrow>
          if other = ''name'' then (SortName, [])
          else if other = ''size'' then (SortSize, [])
          else (SortName, [''unknown panel.sort_key '' @ quoted other @ '', using '' @ quoted ''name'']))"

definition read_sort_order :: "string option \<Rightarrow> sort_order \<times> string list" where
  "read_sort_order v =
     (case v of
        None \<Rightarrow> (Ascending, [])
      | Some other \<Rightarrow>
          if other = ''ascending'' then (Ascending, [])
          else if other = ''descending'' then (Descending, [])
          else (Ascending, [''unknown panel.sort_order '' @ quoted other @ '', using '' @ quoted ''ascending'']))"

definition read_max_parallel :: "int option \<Rightarrow> nat \<times> string list" where
  "read_max_parallel v =
     (case v of
        None \<Rightarrow> (4, [])
      | Some n \<Rightarrow>
          if int MAX_PARALLEL_CAP < n
          then (MAX_PARALLEL_CAP, [''transfers.max_parallel is capped at '' @ show_nat MAX_PARALLEL_CAP @ '', using '' @
                                    show_nat MAX_PARALLEL_CAP])
          else if 1 \<le> n then (nat n, [])
          else (1, [''transfers.max_parallel must be at least 1, using 1'']))"

definition read_on_conflict :: "string option \<Rightarrow> conflict_policy \<times> string list" where
  "read_on_conflict v =
     (case v of
        None \<Rightarrow> (PAsk, [])
      | Some other \<Rightarrow>
          if other = ''ask'' then (PAsk, [])
          else if other = ''overwrite'' then (POverwrite, [])
          else if other = ''skip'' then (PSkip, [])
          else if other = ''rename'' then (PRename, [])
          else (PAsk, [''unknown transfers.on_conflict '' @ quoted other @ '', using '' @ quoted ''ask'']))"

definition settings_from_file :: "'t settings_file \<Rightarrow> 't settings \<times> string list" where
  "settings_from_file f =
     (let (key, w1) = read_sort_key (sf_sort_key f);
          (order, w2) = read_sort_order (sf_sort_order f);
          (max_parallel, w3) = read_max_parallel (sf_max_parallel f);
          (on_conflict, w4) = read_on_conflict (sf_on_conflict f)
      in (\<lparr>se_panel = \<lparr>ps_show_hidden = (case sf_show_hidden f of Some b \<Rightarrow> b | None \<Rightarrow> False),
                       ps_sort = \<lparr>ss_key = key, ss_order = order\<rparr>\<rparr>,
           se_transfers = \<lparr>ts_max_parallel = max_parallel, ts_on_conflict = on_conflict\<rparr>,
           se_edit = \<lparr>ed_auto_upload = (case sf_auto_upload f of Some b \<Rightarrow> b | None \<Rightarrow> True),
                      ed_editor = (case map_option trim (sf_editor f) of
                                     None \<Rightarrow> None
                                   | Some e \<Rightarrow> if e = [] then None else Some e)\<rparr>,
           se_frontend = sf_frontend f\<rparr>, w1 @ w2 @ w3 @ w4))"

definition load_settings ::
  "(string \<Rightarrow> bool) \<Rightarrow> (string \<Rightarrow> string + 't settings_file) \<Rightarrow> 't \<Rightarrow> path \<Rightarrow> ('t settings \<times> string list) stored" where
  "load_settings is_utf8 parse empty_table p st =
     (case read_text is_utf8 p st of
        (NoFile, st) \<Rightarrow> (Inr (settings_default empty_table, []), st)
      | (ReadError err, st) \<Rightarrow> (Inl err, st)
      | (TextRead text, st) \<Rightarrow>
          (case parse text of
             Inl problem \<Rightarrow> (Inr (settings_default empty_table, [''failed to parse config.toml: '' @ problem]), st)
           | Inr f \<Rightarrow> (Inr (settings_from_file f), st)))"

section \<open>Bookmarks\<close>

record bookmark =
  bm_label :: string
  bm_path :: path
  bm_host :: "string option"

record bookmarks =
  bs_items :: "bookmark list"
  bs_protected :: bool

definition bookmarks_default :: bookmarks where
  "bookmarks_default = \<lparr>bs_items = [], bs_protected = False\<rparr>"

definition bookmark_at :: "bookmarks \<Rightarrow> nat \<Rightarrow> bookmark option" where
  "bookmark_at b i = (if i < length (bs_items b) then Some (bs_items b ! i) else None)"

definition add_bookmark_item :: "bookmark \<Rightarrow> bookmarks \<Rightarrow> bookmarks" where
  "add_bookmark_item item b = b\<lparr>bs_items := bs_items b @ [item]\<rparr>"

definition remove_bookmark_item :: "nat \<Rightarrow> bookmarks \<Rightarrow> bookmark option \<times> bookmarks" where
  "remove_bookmark_item i b =
     (if i < length (bs_items b)
      then (Some (bs_items b ! i), b\<lparr>bs_items := take i (bs_items b) @ drop (Suc i) (bs_items b)\<rparr>)
      else (None, b))"

definition on_disk :: "(disk \<Rightarrow> 'a \<times> disk) \<Rightarrow> persist \<Rightarrow> 'a \<times> persist" where
  "on_disk f st = (case f (ps_disk st) of (v, d) \<Rightarrow> (v, st\<lparr>ps_disk := d\<rparr>))"

definition load_bookmarks ::
  "(string \<Rightarrow> bool) \<Rightarrow> (string \<Rightarrow> string + bookmark list) \<Rightarrow> path \<Rightarrow> persist \<Rightarrow> (bookmarks \<times> string list) \<times> persist" where
  "load_bookmarks is_utf8 parse p st =
     (case on_disk (read_or_set_aside is_utf8 p ''bookmarks'' parse) st of
        (Missing, st) \<Rightarrow> ((bookmarks_default, []), st)
      | (Ready items, st) \<Rightarrow> ((\<lparr>bs_items = items, bs_protected = False\<rparr>, []), st)
      | (SetAside warning protected, st) \<Rightarrow> ((\<lparr>bs_items = [], bs_protected = protected\<rparr>, [warning]), st))"

definition save_bookmarks_to :: "(bookmark list \<Rightarrow> string + string) \<Rightarrow> path \<Rightarrow> bookmarks \<Rightarrow> unit stored" where
  "save_bookmarks_to render p b st =
     (if bs_protected b
      then (Inl ''bookmarks.toml could not be read or set aside, so it was left alone'', st)
      else (case render (bs_items b) of
              Inl err \<Rightarrow> (Inl err, st)
            | Inr text \<Rightarrow> write_atomic p text st))"

section \<open>What the interface remembers (state)\<close>

record ui_state =
  us_save_passwords :: bool

record state_load =
  sl_state :: ui_state
  sl_warning :: "string option"
  sl_protected :: bool

definition ui_state_default :: ui_state where
  "ui_state_default = \<lparr>us_save_passwords = False\<rparr>"

definition load_ui_state ::
  "(string \<Rightarrow> bool) \<Rightarrow> (string \<Rightarrow> string + ui_state) \<Rightarrow> path \<Rightarrow> persist \<Rightarrow> state_load \<times> persist" where
  "load_ui_state is_utf8 parse p st =
     (case on_disk (read_or_set_aside is_utf8 p ''interface state'' parse) st of
        (Missing, st) \<Rightarrow> (\<lparr>sl_state = ui_state_default, sl_warning = None, sl_protected = False\<rparr>, st)
      | (Ready state, st) \<Rightarrow> (\<lparr>sl_state = state, sl_warning = None, sl_protected = False\<rparr>, st)
      | (SetAside warning protected, st) \<Rightarrow>
          (\<lparr>sl_state = ui_state_default, sl_warning = Some warning, sl_protected = protected\<rparr>, st))"

definition save_ui_state :: "(ui_state \<Rightarrow> string + string) \<Rightarrow> path \<Rightarrow> ui_state \<Rightarrow> unit stored" where
  "save_ui_state render p state st =
     (case render state of Inl err \<Rightarrow> (Inl err, st) | Inr text \<Rightarrow> write_atomic p text st)"

section \<open>Lemmas\<close>

text \<open>Whatever the file says, the number of parallel transfers is within its bounds.\<close>

lemma max_parallel_bounds:
  "1 \<le> ts_max_parallel (se_transfers (fst (settings_from_file f))) \<and>
   ts_max_parallel (se_transfers (fst (settings_from_file f))) \<le> MAX_PARALLEL_CAP"
  by (auto simp: settings_from_file_def read_max_parallel_def MAX_PARALLEL_CAP_def Let_def
      split: prod.split option.split)

lemma removed_bookmark:
  assumes "remove_bookmark_item i b = (Some item, b')"
  shows "bookmark_at b i = Some item \<and> length (bs_items b') + 1 = length (bs_items b)"
  using assms by (auto simp: remove_bookmark_item_def bookmark_at_def split: if_splits)

end
