(* ===== verification/Desk_State.thy ===== *)
theory Desk_State
  imports Keyring Config Search Engine_Edit
begin

text \<open>
  The other half of \<^verbatim>\<open>engine\<close>: the state behind connections, saved profiles, their secrets and the
  bookmarks, and what a protocol is to the engine (\<^verbatim>\<open>porthmos-vfs\<close>: \<^verbatim>\<open>protocol\<close>, \<^verbatim>\<open>prompt\<close>).
  It has fields of the struct \<^verbatim>\<open>Engine\<close> that the handlers of transfers, edits and comparisons
  do not use; what both halves need, a live session and its file system, each keeps.
\<close>

section \<open>Questions (prompt)\<close>

datatype question =
    PasswordQuestion string string
  | TrustHostKey string string nat string string
  | TrustCertificate string string nat string string string

datatype answer = PasswordAnswer string | Confirmed

section \<open>Protocols\<close>

text \<open>What the panels call of a file system, beside what transfers call.\<close>

record 'w browsing_fs = "'w file_system" +
  bf_list :: "path \<Rightarrow> ('w, entry list) effect"
  bf_delete :: "path \<Rightarrow> ('w, unit) effect"
  bf_home :: "('w, path) effect"

text \<open>
  An attempt to connect: it asks its questions one after the other, each with what follows an
  answer, and settles.
\<close>

datatype 'w dialogue =
    Ask question "answer option \<Rightarrow> 'w dialogue"
  | Settled "protocol_error + 'w browsing_fs"

text \<open>
  A protocol, which is another crate: what the list of connections needs, and then its form, how
  it connects, and the terminal it can open.
\<close>

record 'w protocol = source_protocol +
  pr_display_name :: string
  pr_form :: connection_form
  pr_connect :: "target \<Rightarrow> 'w \<Rightarrow> 'w dialogue \<times> 'w"
  pr_shell_command :: "target \<Rightarrow> environment \<Rightarrow> shell_invocation option"

section \<open>Questions under way (engine/prompter)\<close>

text \<open>
  \<^verbatim>\<open>pq_waiting\<close> are the questions shown and not answered, \<^verbatim>\<open>pq_replies\<close> the answers sent to a task
  that has not taken them yet.
\<close>

record pending_questions =
  pq_waiting :: "nat fset"
  pq_replies :: "(nat, (answer \<times> bool) option) fmap"
  pq_next_id :: nat

definition questions_default :: pending_questions where
  "questions_default = \<lparr>pq_waiting = {||}, pq_replies = fmempty, pq_next_id = 0\<rparr>"

definition answer_question :: "nat \<Rightarrow> answer option \<Rightarrow> bool \<Rightarrow> pending_questions \<Rightarrow> pending_questions" where
  "answer_question request_id answer save q =
     (if request_id |\<in>| pq_waiting q
      then q\<lparr>pq_waiting := pq_waiting q |-| {|request_id|},
             pq_replies := fmupd request_id (map_option (\<lambda>a. (a, save)) answer) (pq_replies q)\<rparr>
      else q)"

definition register_question :: "pending_questions \<Rightarrow> nat \<times> pending_questions" where
  "register_question q =
     (let request_id = pq_next_id q
      in (request_id, q\<lparr>pq_next_id := request_id + 1, pq_waiting := finsert request_id (pq_waiting q)\<rparr>))"

record typed_password =
  ty_secret :: string
  ty_save :: bool

section \<open>What tasks have still to do\<close>

datatype 'w desk_work =
    StartConnect connection_entry "'w protocol" "string list"
  | AwaitAnswer connection_entry "'w protocol" nat question "answer option \<Rightarrow> 'w dialogue" "typed_password option"
  | FinishDialogue connection_entry "'w protocol" "'w dialogue" "typed_password option"
  | ListInto "'w browsing_fs" location "path option"
  | ListStartInto "'w browsing_fs" nat string string
  | CreateDirAt "'w browsing_fs" location path
  | RenameAt "'w browsing_fs" location path path
  | DeleteAt "'w browsing_fs" location "path list"
  | SearchFor "'w browsing_fs" nat search_query
  | KeyringProbe

datatype 'w desk_message =
    ConnectedTo connection_entry "'w protocol" "'w browsing_fs" "typed_password option"
  | ConnectingFailed string string
  | KeyringProbed bool
  | KeyringDone keyring_done

section \<open>Events\<close>

text \<open>The events of these handlers; \<^verbatim>\<open>Said\<close> are those other handlers send too.\<close>

datatype desk_event =
    Said event
  | Connecting string
  | ConnectFailed string string
  | QuestionAsked nat question
  | ShellReady nat shell_invocation
  | Listed location path "entry list"
  | ProfilesListed "connection_entry list"
  | ProfileSaved
  | ProfileRejected string
  | BookmarksShown "bookmark list"
  | SearchShown search_event
  | KeyringStatus bool
  | KeyringWaiting bool
  | SaveChoice bool

section \<open>The state\<close>

text \<open>
  What does not change: the files, the environment, the protocols, and how the text of the files
  is read and written.  The files of labels and profiles are one file, \<^verbatim>\<open>connections.toml\<close>.
  \<^verbatim>\<open>dv_order\<close> is the order in which the cache of secrets happens to be visited.
\<close>

record 'w desk_env =
  dv_paths :: paths
  dv_environment :: environment
  dv_protocols :: "'w protocol list"
  dv_codec :: config_codec
  dv_bookmarks_text :: "bookmark list \<Rightarrow> string + string"
  dv_state_read :: "string \<Rightarrow> string + ui_state"
  dv_state_text :: "ui_state \<Rightarrow> string + string"
  dv_order :: "string fset \<Rightarrow> string list"

record 'w desk_session =
  dn_name :: string
  dn_entry :: connection_entry
  dn_protocol :: "'w protocol"
  dn_fs :: "'w browsing_fs"

record 'w desk =
  de_env :: "'w desk_env"
  de_local_fs :: "'w browsing_fs"
  de_events :: "desk_event list"
  de_tasks :: "'w desk_work tasks"
  de_state_protected :: bool
  de_sessions :: "(nat, 'w desk_session) fmap"
  de_next_session_id :: nat
  de_questions :: pending_questions
  de_search_generation :: nat
  de_bookmarks :: bookmarks
  de_secrets :: "'w secrets"
  de_store :: persist
  de_queue_open :: bool
  de_keyring_jobs :: "keyring_job list"
  de_next_keyring_job :: nat
  de_latest_keyring_job :: "(string, nat) fmap"
  de_connecting :: "string fset"

definition desk_new :: "'w desk_env \<Rightarrow> 'w browsing_fs \<Rightarrow> bookmarks \<Rightarrow> 'w secrets \<Rightarrow> persist \<Rightarrow> 'w desk" where
  "desk_new env local_fs bookmarks secrets store =
     \<lparr>de_env = env, de_local_fs = local_fs, de_events = [], de_tasks = tasks_new, de_state_protected = False,
      de_sessions = fmempty, de_next_session_id = 0, de_questions = questions_default, de_search_generation = 0,
      de_bookmarks = bookmarks, de_secrets = secrets, de_store = store, de_queue_open = False,
      de_keyring_jobs = [], de_next_keyring_job = 0, de_latest_keyring_job = fmempty, de_connecting = {||}\<rparr>"

section \<open>Parts of every handler\<close>

definition say :: "desk_event \<Rightarrow> 'w desk \<Rightarrow> 'w desk" where
  "say ev d = d\<lparr>de_events := de_events d @ [ev]\<rparr>"

definition complain :: "severity \<Rightarrow> string \<Rightarrow> 'w desk \<Rightarrow> 'w desk" where
  "complain severity message = say (Said (Notice severity message))"

text \<open>The level of the log entry is not modelled.\<close>

definition connect_failed :: "string \<Rightarrow> string \<Rightarrow> 'w desk \<Rightarrow> 'w desk" where
  "connect_failed name message = say (ConnectFailed name message)"

definition profile_rejected :: "string \<Rightarrow> 'w desk \<Rightarrow> 'w desk" where
  "profile_rejected message = say (ProfileRejected message)"

definition desk_fs_for :: "location \<Rightarrow> 'w desk \<Rightarrow> 'w browsing_fs option" where
  "desk_fs_for location d =
     (case location of
        LocalSide \<Rightarrow> Some (de_local_fs d)
      | SessionSide i \<Rightarrow> map_option dn_fs (fmlookup (de_sessions d) i))"

text \<open>Reading and writing files of the program.\<close>

definition with_store :: "(persist \<Rightarrow> 'a \<times> persist) \<Rightarrow> 'w desk \<Rightarrow> 'a \<times> 'w desk" where
  "with_store f d = (case f (de_store d) of (r, st) \<Rightarrow> (r, d\<lparr>de_store := st\<rparr>))"

definition on_secrets :: "('w secrets \<Rightarrow> 'w secrets) \<Rightarrow> 'w desk \<Rightarrow> 'w desk" where
  "on_secrets f d = d\<lparr>de_secrets := f (de_secrets d)\<rparr>"

definition desk_spawn :: "string \<Rightarrow> scope \<Rightarrow> 'w desk_work \<Rightarrow> 'w desk \<Rightarrow> 'w desk" where
  "desk_spawn name scope work d = d\<lparr>de_tasks := spawn name scope work (de_tasks d)\<rparr>"

definition desk_codec :: "'w desk \<Rightarrow> config_codec" where
  "desk_codec d = dv_codec (de_env d)"

definition desk_file :: "'w desk \<Rightarrow> path" where
  "desk_file d = connections_file (dv_paths (de_env d))"

definition find_protocol :: "string \<Rightarrow> 'w desk \<Rightarrow> 'w protocol option" where
  "find_protocol protocol_id d = find (\<lambda>p. sp_id p = protocol_id) (dv_protocols (de_env d))"

section \<open>Error messages (error, engine/handlers)\<close>

definition CONNECTION_CANCELLED :: string where
  "CONNECTION_CANCELLED = ''Connection cancelled''"

definition connect_failure_message :: "protocol_error \<Rightarrow> string \<Rightarrow> string \<Rightarrow> string" where
  "connect_failure_message err name protocol_display =
     (case pe_kind err of
        Auth \<Rightarrow> user_message (''Authentication error for '' @ name) (pe_source err)
      | AuthRejected \<Rightarrow> ''Authentication failed for '' @ name
      | SessionStart \<Rightarrow>
          user_message (''Connected to '' @ name @ '' but failed to start '' @ protocol_display) (pe_source err)
      | KCancelled \<Rightarrow> CONNECTION_CANCELLED
      | _ \<Rightarrow> user_message (''Unable to connect to '' @ name) (pe_source err))"

definition failure_message :: "location \<Rightarrow> string \<Rightarrow> protocol_error \<Rightarrow> string" where
  "failure_message location context_text err =
     (case location of
        LocalSide \<Rightarrow> pe_source err
      | SessionSide _ \<Rightarrow> user_message context_text (pe_source err))"

end
