(* ===== verification/Desk_Profiles.thy ===== *)
theory Desk_Profiles
  imports Desk_State
begin

text \<open>
  \<^verbatim>\<open>engine/handlers/profiles\<close>, \<^verbatim>\<open>handlers/secrets\<close> and \<^verbatim>\<open>handlers/bookmarks\<close>: saving, renaming and
  forgetting connections, the jobs that keep the keyring in line with them, and the choice and the
  bookmarks the program remembers.
\<close>

section \<open>Lists of connections\<close>

definition all_profiles :: "'w desk \<Rightarrow> (string + connection_entry list) \<times> 'w desk" where
  "all_profiles d =
     with_store (list_all_connections (desk_codec d) (desk_file d)
                   (map source_protocol.truncate (dv_protocols (de_env d)))) d"

definition list_profiles :: "'w desk \<Rightarrow> 'w desk" where
  "list_profiles d =
     (case all_profiles d of
        (Inr entries, d) \<Rightarrow> say (ProfilesListed entries) d
      | (Inl err, d) \<Rightarrow> complain SevError err d)"

section \<open>Jobs of the keyring (handlers/profiles/keyring)\<close>

text \<open>
  The jobs of the queue are run one after the other by a task started with the first of them.
\<close>

definition enqueue_keyring_job :: "secret_owner \<Rightarrow> (nat \<Rightarrow> keyring_job) \<Rightarrow> 'w desk \<Rightarrow> 'w desk" where
  "enqueue_keyring_job owner job d =
     (let i = de_next_keyring_job d + 1
      in d\<lparr>de_next_keyring_job := i,
           de_latest_keyring_job := fmupd (owner_key owner) i (de_latest_keyring_job d),
           de_queue_open := True, de_keyring_jobs := de_keyring_jobs d @ [job i]\<rparr>)"

definition move_profile_cache :: "string \<Rightarrow> string \<Rightarrow> 'w desk \<Rightarrow> 'w desk" where
  "move_profile_cache old new d =
     fold (\<lambda>kept. on_secrets (\<lambda>s.
         (case parse_account kept of
            Some (ProfileSecret name field) \<Rightarrow>
              if name = old then move_cached kept (account_of (ProfileSecret new field)) s else s
          | _ \<Rightarrow> s)))
       (dv_order (de_env d) (cached_accounts (de_secrets d))) d"

definition uncache_profile :: "string \<Rightarrow> 'w desk \<Rightarrow> 'w desk" where
  "uncache_profile profile d =
     fold (\<lambda>kept. on_secrets (\<lambda>s.
         (case parse_account kept of
            Some (ProfileSecret name field) \<Rightarrow> if name = profile then uncache kept s else s
          | _ \<Rightarrow> s)))
       (dv_order (de_env d) (cached_accounts (de_secrets d))) d"

definition find_profile :: "string \<Rightarrow> connection_profile list \<Rightarrow> connection_profile option" where
  "find_profile name = find (\<lambda>p. cp_name p = name)"

definition profile_markers :: "string \<Rightarrow> 'w desk \<Rightarrow> string list \<times> 'w desk" where
  "profile_markers name d =
     (case with_store (load_profiles (desk_codec d) (desk_file d)) d of
        (Inr profiles, d) \<Rightarrow>
          ((case find_profile name profiles of Some p \<Rightarrow> cp_in_keyring p | None \<Rightarrow> []), d)
      | (Inl _, d) \<Rightarrow> ([], d))"

definition ssh_markers :: "string \<Rightarrow> 'w desk \<Rightarrow> string list \<times> 'w desk" where
  "ssh_markers alias d =
     (case with_store (load_ssh_labels (desk_codec d) (desk_file d)) d of
        (Inr records, d) \<Rightarrow>
          ((case fmlookup records alias of Some r \<Rightarrow> lb_in_keyring r | None \<Rightarrow> []), d)
      | (Inl _, d) \<Rightarrow> ([], d))"

definition owner_markers :: "secret_owner \<Rightarrow> 'w desk \<Rightarrow> string list \<times> 'w desk" where
  "owner_markers owner d =
     (case owner of OwnerProfile name \<Rightarrow> profile_markers name d | OwnerSshHost alias \<Rightarrow> ssh_markers alias d)"

definition set_markers :: "secret_owner \<Rightarrow> string list \<Rightarrow> 'w desk \<Rightarrow> 'w desk" where
  "set_markers owner markers d =
     (case (case owner of
              OwnerProfile name \<Rightarrow>
                (case with_store (set_profile_markers (desk_codec d) (desk_file d) name markers) d of
                   (r, d) \<Rightarrow> (map_sum id (\<lambda>_. ()) r, d))
            | OwnerSshHost alias \<Rightarrow> with_store (set_ssh_markers (desk_codec d) (desk_file d) alias markers) d) of
        (Inl err, d) \<Rightarrow> complain SevError err d
      | (Inr _, d) \<Rightarrow> d)"

definition add_marker :: "secret_owner \<Rightarrow> string \<Rightarrow> 'w desk \<Rightarrow> 'w desk" where
  "add_marker owner marker d =
     (case owner_markers owner d of (markers, d) \<Rightarrow>
        if marker \<notin> set markers then set_markers owner (markers @ [marker]) d else d)"

text \<open>The markers the file will have when all goes well.\<close>

definition new_markers :: "secret_changes \<Rightarrow> string list" where
  "new_markers c = ch_kept c @ filter (\<lambda>m. m \<notin> set (ch_kept c)) (sorted_list_of_fset (fmdom (ch_replaced c)))"

definition apply_secret_changes :: "secret_changes \<Rightarrow> 'w desk \<Rightarrow> 'w desk" where
  "apply_secret_changes c d =
     (let d = (case ch_renamed_from c of Some old \<Rightarrow> move_profile_cache old (ch_name c) d | None \<Rightarrow> d);
          dropped = dropped_markers c;
          d = fold (\<lambda>m. on_secrets (uncache (profile_account (ch_name c) m))) dropped d;
          d = fold (\<lambda>(m, secret). on_secrets (remember (profile_account (ch_name c) m) secret))
                (fmap_entries (ch_replaced c)) d;
          moves = ch_renamed_from c \<noteq> None \<and> ch_saved_before c \<noteq> []
      in if \<not> (sc_available (de_secrets d) \<and> (moves \<or> ch_replaced c \<noteq> fmempty \<or> dropped \<noteq> [])) then d
         else enqueue_keyring_job (OwnerProfile (ch_name c)) (\<lambda>job. ApplyChanges job c dropped)
                (set_markers (OwnerProfile (ch_name c)) (new_markers c) d))"

definition forget_profile_secrets :: "string \<Rightarrow> string list \<Rightarrow> 'w desk \<Rightarrow> 'w desk" where
  "forget_profile_secrets name saved d =
     (let d = uncache_profile name d
      in if saved = [] \<or> \<not> sc_available (de_secrets d) then d
         else enqueue_keyring_job (OwnerProfile name) (\<lambda>job. EraseProfile job name saved) d)"

definition save_typed_password :: "secret_owner \<Rightarrow> string \<Rightarrow> string \<Rightarrow> 'w desk \<Rightarrow> 'w desk" where
  "save_typed_password owner for_account secret d =
     (if \<not> sc_available (de_secrets d) then d
      else enqueue_keyring_job owner (\<lambda>job. WriteTyped job owner for_account secret)
             (add_marker owner PASSWORD_MARKER d))"

definition move_ssh_password :: "string \<Rightarrow> string \<Rightarrow> string list \<Rightarrow> 'w desk \<Rightarrow> 'w desk" where
  "move_ssh_password from_name to_name saved d =
     (let from_account = ssh_account from_name; to_account = ssh_account to_name;
          d = on_secrets (move_cached from_account to_account) d;
          owner = OwnerSshHost to_name
      in if saved = [] \<or> \<not> sc_available (de_secrets d) then d
         else enqueue_keyring_job owner (\<lambda>job. MoveSsh job owner from_account to_account saved) d)"

definition drop_ssh_password :: "string \<Rightarrow> string list \<Rightarrow> bool \<Rightarrow> 'w desk \<Rightarrow> 'w desk" where
  "drop_ssh_password alias saved keep_record d =
     (let alias_account = ssh_account alias;
          d = on_secrets (uncache alias_account) d;
          owner = OwnerSshHost alias
      in if saved = [] \<or> \<not> sc_available (de_secrets d) then d
         else enqueue_keyring_job owner (\<lambda>job. EraseSsh job owner alias_account saved keep_record)
                (if keep_record then set_markers owner [] d else d))"

definition profile_exists :: "string \<Rightarrow> 'w desk \<Rightarrow> bool \<times> 'w desk" where
  "profile_exists name d =
     (case with_store (load_profiles (desk_codec d) (desk_file d)) d of
        (Inr profiles, d) \<Rightarrow> (find_profile name profiles \<noteq> None, d)
      | (Inl _, d) \<Rightarrow> (False, d))"

definition finish_keyring_job :: "keyring_done \<Rightarrow> 'w desk \<Rightarrow> 'w desk" where
  "finish_keyring_job done_now d =
     (let owner = kd_owner done_now; rollback = kd_rollback done_now; restore = kd_restore done_now;
          latest = (fmlookup (de_latest_keyring_job d) (owner_key owner) = Some (kd_job done_now));
          d = (if latest then d\<lparr>de_latest_keyring_job := fmdrop (owner_key owner) (de_latest_keyring_job d)\<rparr>
               else d);
          d = fold (complain SevError) (kd_errors done_now) d;
          d = (if latest \<and> (rollback \<noteq> [] \<or> restore \<noteq> [])
               then (case owner_markers owner d of (current, d) \<Rightarrow>
                      let markers = filter (\<lambda>m. m \<notin> set rollback) current;
                          markers = markers @ filter (\<lambda>m. m \<notin> set markers) restore
                      in (case (case owner of OwnerProfile name \<Rightarrow> profile_exists name d
                                            | OwnerSshHost _ \<Rightarrow> (True, d)) of (exists, d) \<Rightarrow>
                           if exists then set_markers owner markers d else d))
               else d)
      in list_profiles d)"

section \<open>Profiles (handlers/profiles)\<close>

text \<open>The form of the protocol, or of a connection whose protocol is not there.\<close>

definition draft_form :: "profile_draft \<Rightarrow> connection_entry option \<Rightarrow> 'w desk \<Rightarrow> connection_form option" where
  "draft_form draft preserve_from d =
     (case find_protocol (pd_protocol draft) d of
        Some protocol \<Rightarrow> Some (pr_form protocol)
      | None \<Rightarrow>
          (case preserve_from of
             Some e \<Rightarrow> if ce_protocol e = pd_protocol draft then Some (standard_form (ce_port e)) else None
           | None \<Rightarrow> None))"

definition secret_keys_of :: "connection_form \<Rightarrow> string list" where
  "secret_keys_of form = map of_key (filter (\<lambda>f. of_kind f = SecretOption) (fm_options form))"

definition secret_changes_of ::
  "string option \<Rightarrow> connection_entry option \<Rightarrow> connection_form \<Rightarrow> profile_draft \<Rightarrow> connection_profile \<Rightarrow> secret_changes" where
  "secret_changes_of original preserve_from form draft profile =
     changes_from_edits (cp_name profile)
       (case original of Some old \<Rightarrow> if old \<noteq> cp_name profile then Some old else None | None \<Rightarrow> None)
       (case preserve_from of Some e \<Rightarrow> ce_in_keyring e | None \<Rightarrow> [])
       (cp_in_keyring profile)
       ((PASSWORD_MARKER, pd_password draft) #
        filter (\<lambda>(key, _). key \<in> set (secret_keys_of form)) (fmap_entries (pd_secret_options draft)))"

definition preserved_entry ::
  "string option \<Rightarrow> 'w desk \<Rightarrow> connection_entry option \<times> 'w desk" where
  "preserved_entry original d =
     (case original of
        None \<Rightarrow> (None, d)
      | Some name \<Rightarrow>
          (case all_profiles d of
             (Inr entries, d) \<Rightarrow> (find (\<lambda>e. ce_name e = name) entries, d)
           | (Inl _, d) \<Rightarrow> (None, d)))"

text \<open>The file: no other connection has the name, an old name goes, the new one is written.\<close>

datatype stored_profile = StoredNow | NameTaken | StoreFailed string

definition store_profile ::
  "string option \<Rightarrow> connection_profile \<Rightarrow> 'w desk \<Rightarrow> stored_profile \<times> 'w desk" where
  "store_profile original profile d =
     (case with_store (load_profiles (desk_codec d) (desk_file d)) d of
        (Inl err, d) \<Rightarrow> (StoreFailed err, d)
      | (Inr existing, d) \<Rightarrow>
          if list_ex (\<lambda>saved. cp_name saved = cp_name profile \<and> Some (cp_name saved) \<noteq> original) existing
          then (NameTaken, d)
          else (case (case original of
                        None \<Rightarrow> (Inr (), d)
                      | Some old \<Rightarrow>
                          if cp_name profile \<noteq> old
                          then with_store (delete_profile_from (desk_codec d) (desk_file d) old) d
                          else (Inr (), d)) of
                  (Inl err, d) \<Rightarrow> (StoreFailed err, d)
                | (Inr _, d) \<Rightarrow>
                    (case with_store (save_profile_to (desk_codec d) (desk_file d) profile) d of
                       (Inl err, d) \<Rightarrow> (StoreFailed err, d)
                     | (Inr _, d) \<Rightarrow> (StoredNow, d))))"

definition save_profile :: "string option \<Rightarrow> profile_draft \<Rightarrow> 'w desk \<Rightarrow> 'w desk" where
  "save_profile original draft d =
     (case preserved_entry original d of (preserve_from, d) \<Rightarrow>
     (case draft_form draft preserve_from d of
        None \<Rightarrow> profile_rejected (''No '' @ quoted (pd_protocol draft) @ '' protocol is available'') d
      | Some form \<Rightarrow>
     (case validate_draft draft form preserve_from of
        Inl message \<Rightarrow> profile_rejected message d
      | Inr profile \<Rightarrow>
     (case store_profile original profile d of
        (NameTaken, d) \<Rightarrow>
          profile_rejected (''A connection named '' @ quoted (cp_name profile) @ '' already exists'') d
      | (StoreFailed err, d) \<Rightarrow> complain SevError err d
      | (StoredNow, d) \<Rightarrow>
          apply_secret_changes (secret_changes_of original preserve_from form draft profile)
            (list_profiles (say ProfileSaved d))))))"

definition is_ssh_host :: "string \<Rightarrow> 'w desk \<Rightarrow> (string + bool) \<times> 'w desk" where
  "is_ssh_host name d =
     (case all_profiles d of
        (Inl err, d) \<Rightarrow> (Inl err, d)
      | (Inr entries, d) \<Rightarrow> (Inr (list_ex (\<lambda>e. ce_name e = name \<and> ce_source e = FromSshConfig) entries), d))"

definition not_in_ssh_config :: "string \<Rightarrow> string" where
  "not_in_ssh_config name = name @ '' is not in ~/.ssh/config''"

definition save_ssh_labels :: "string \<Rightarrow> string \<Rightarrow> string \<Rightarrow> 'w desk \<Rightarrow> 'w desk" where
  "save_ssh_labels name group_text tags d =
     (case is_ssh_host name d of
        (Inl err, d) \<Rightarrow> complain SevError err d
      | (Inr False, d) \<Rightarrow> profile_rejected (not_in_ssh_config name) d
      | (Inr True, d) \<Rightarrow>
          (case with_store (save_ssh_labels_to (desk_codec d) (desk_file d) name
                  \<lparr>lb_group = normalize_group group_text, lb_tags = parse_tags tags, lb_in_keyring = []\<rparr>) d of
             (Inl err, d) \<Rightarrow> complain SevError err d
           | (Inr _, d) \<Rightarrow> list_profiles (say ProfileSaved d)))"

definition move_ssh_labels :: "string \<Rightarrow> string \<Rightarrow> 'w desk \<Rightarrow> 'w desk" where
  "move_ssh_labels from_name to_name d =
     list_profiles
       (case is_ssh_host to_name d of
          (Inl err, d) \<Rightarrow> complain SevError err d
        | (Inr False, d) \<Rightarrow> complain SevError (not_in_ssh_config to_name) d
        | (Inr True, d) \<Rightarrow>
            (case ssh_markers from_name d of (saved, d) \<Rightarrow>
            (case with_store (move_ssh_labels_in (desk_codec d) (desk_file d) from_name to_name) d of
               (Inl err, d) \<Rightarrow> complain SevError err d
             | (Inr _, d) \<Rightarrow> if saved \<noteq> [] then move_ssh_password from_name to_name saved d else d)))"

definition forget_ssh_labels :: "string \<Rightarrow> 'w desk \<Rightarrow> 'w desk" where
  "forget_ssh_labels name d =
     (case ssh_markers name d of (saved, d) \<Rightarrow>
     (case with_store (forget_ssh_labels_in (desk_codec d) (desk_file d) name) d of
        (Inl err, d) \<Rightarrow> list_profiles (complain SevError err d)
      | (Inr _, d) \<Rightarrow> drop_ssh_password name saved False (list_profiles d)))"

definition forget_ssh_password :: "string \<Rightarrow> 'w desk \<Rightarrow> 'w desk" where
  "forget_ssh_password alias d =
     (case ssh_markers alias d of (saved, d) \<Rightarrow>
        if saved = [] then list_profiles (on_secrets (uncache (account_of (SshSecret alias))) d)
        else drop_ssh_password alias saved True d)"

definition delete_profile :: "string \<Rightarrow> 'w desk \<Rightarrow> 'w desk" where
  "delete_profile name d =
     (case profile_markers name d of (saved, d) \<Rightarrow>
     (case with_store (delete_profile_from (desk_codec d) (desk_file d) name) d of
        (Inl err, d) \<Rightarrow> list_profiles (complain SevError err d)
      | (Inr _, d) \<Rightarrow> forget_profile_secrets name saved (list_profiles d)))"

section \<open>The choice to save passwords (handlers/secrets)\<close>

definition start_keyring_probe :: "'w desk \<Rightarrow> 'w desk" where
  "start_keyring_probe = desk_spawn ''keyring-probe'' BackgroundScope KeyringProbe"

definition publish_save_choice :: "'w desk \<Rightarrow> 'w desk" where
  "publish_save_choice d =
     (case with_store (load_ui_state (cc_is_utf8 (desk_codec d)) (dv_state_read (de_env d))
                         (state_file (dv_paths (de_env d)))) d of
        (loaded, d) \<Rightarrow>
          let d = (case sl_warning loaded of Some warning \<Rightarrow> complain SevWarning warning d | None \<Rightarrow> d)
          in say (SaveChoice (us_save_passwords (sl_state loaded))) (d\<lparr>de_state_protected := sl_protected loaded\<rparr>))"

definition remember_save_choice :: "bool \<Rightarrow> 'w desk \<Rightarrow> 'w desk" where
  "remember_save_choice save d =
     (if de_state_protected d
      then complain SevWarning ''Couldn't remember the keyring choice: the saved settings file is protected'' d
      else (case with_store (save_ui_state (dv_state_text (de_env d)) (state_file (dv_paths (de_env d)))
                               \<lparr>us_save_passwords = save\<rparr>) d of
              (Inl err, d) \<Rightarrow> complain SevWarning (''Couldn't remember the keyring choice: '' @ err) d
            | (Inr _, d) \<Rightarrow> d))"

section \<open>Bookmarks (handlers/bookmarks)\<close>

definition save_bookmarks :: "'w desk \<Rightarrow> 'w desk" where
  "save_bookmarks d =
     (case with_store (save_bookmarks_to (dv_bookmarks_text (de_env d)) (bookmarks_file (dv_paths (de_env d)))
                         (de_bookmarks d)) d of
        (Inl err, d) \<Rightarrow> complain SevError err d
      | (Inr _, d) \<Rightarrow> d)"

definition bookmarks_refused :: string where
  "bookmarks_refused =
     ''Bookmarks can't be changed: bookmarks.toml could not be read or set aside, so it was left alone''"

definition publish_bookmarks :: "'w desk \<Rightarrow> 'w desk" where
  "publish_bookmarks d = say (BookmarksShown (bs_items (de_bookmarks d))) d"

definition add_bookmark :: "string \<Rightarrow> location \<Rightarrow> path \<Rightarrow> 'w desk \<Rightarrow> 'w desk" where
  "add_bookmark label location p d =
     (case (case location of
              LocalSide \<Rightarrow> Some None
            | SessionSide i \<Rightarrow> map_option (\<lambda>live. Some (dn_name live)) (fmlookup (de_sessions d) i)) of
        None \<Rightarrow> complain SevWarning ''Connect to a remote server first'' d
      | Some host \<Rightarrow>
          if bs_protected (de_bookmarks d) then complain SevError bookmarks_refused d
          else publish_bookmarks (save_bookmarks
                 (d\<lparr>de_bookmarks := add_bookmark_item \<lparr>bm_label = label, bm_path = p, bm_host = host\<rparr>
                                      (de_bookmarks d)\<rparr>)))"

definition remove_bookmark :: "nat \<Rightarrow> 'w desk \<Rightarrow> 'w desk" where
  "remove_bookmark index d =
     (if bs_protected (de_bookmarks d) then complain SevError bookmarks_refused d
      else (case remove_bookmark_item index (de_bookmarks d) of
              (None, _) \<Rightarrow> d
            | (Some removed, b) \<Rightarrow>
                publish_bookmarks
                  (say (Said (Notice SevInfo (''Removed bookmark '' @ quoted (bm_label removed))))
                    (save_bookmarks (d\<lparr>de_bookmarks := b\<rparr>)))))"

end
