(* ===== verification/Desk_Connect.thy ===== *)
theory Desk_Connect
  imports Desk_Profiles
begin

text \<open>
  \<^verbatim>\<open>engine/handlers/connect\<close>, \<^verbatim>\<open>handlers/fs\<close>, \<^verbatim>\<open>handlers/search\<close> and \<^verbatim>\<open>engine/prompter\<close>: opening and
  closing sessions with the questions of an attempt, and what a panel asks of a file system.
\<close>

section \<open>Panels (handlers/fs)\<close>

text \<open>What these tasks do is the events they send and the world they leave.\<close>

definition failed_notice :: "string \<Rightarrow> desk_event" where
  "failed_notice message = Said (Notice SevError message)"

definition list_path_into :: "'w browsing_fs \<Rightarrow> location \<Rightarrow> path \<Rightarrow> 'w \<Rightarrow> desk_event list \<times> 'w" where
  "list_path_into fs location p w =
     (case bf_list fs p w of
        (Inr entries, w) \<Rightarrow> ([Listed location p entries], w)
      | (Inl err, w) \<Rightarrow> ([failed_notice (failure_message location (''Unable to list '' @ string_of_path p) err)], w))"

definition list_into :: "'w browsing_fs \<Rightarrow> location \<Rightarrow> path option \<Rightarrow> 'w \<Rightarrow> desk_event list \<times> 'w" where
  "list_into fs location p w =
     (case p of
        Some p \<Rightarrow> list_path_into fs location p w
      | None \<Rightarrow>
          (case bf_home fs w of
             (Inr home, w) \<Rightarrow> list_path_into fs location home w
           | (Inl err, w) \<Rightarrow> ([failed_notice (failure_message location ''Unable to list home directory'' err)], w)))"

definition start_directory :: "path \<Rightarrow> string \<Rightarrow> path" where
  "start_directory home requested =
     (case strip_prefix requested ''~'' of
        Some under_home \<Rightarrow>
          if under_home = [] then home
          else if starts_with under_home ''/''
          then path_join home (path_of_string (dropWhile (\<lambda>c. c = CHR ''/'') under_home))
          else path_join home (path_of_string requested)
      | None \<Rightarrow> path_join home (path_of_string requested))"

definition resolve_start_directory :: "'w browsing_fs \<Rightarrow> string \<Rightarrow> ('w, path) effect" where
  "resolve_start_directory fs requested w =
     (if is_absolute (path_of_string requested) then (Inr (path_of_string requested), w)
      else (case bf_home fs w of
              (Inl err, w) \<Rightarrow> (Inl err, w)
            | (Inr home, w) \<Rightarrow> (Inr (start_directory home requested), w)))"

definition list_start_into ::
  "'w browsing_fs \<Rightarrow> nat \<Rightarrow> string \<Rightarrow> string \<Rightarrow> 'w \<Rightarrow> desk_event list \<times> 'w" where
  "list_start_into fs session name requested w =
     (let location = SessionSide session
      in (case resolve_start_directory fs requested w of
            (Inl err, w) \<Rightarrow> ([failed_notice (failure_message location ''Unable to list home directory'' err)], w)
          | (Inr p, w) \<Rightarrow>
              (case bf_list fs p w of
                 (Inr entries, w) \<Rightarrow> ([Listed location p entries], w)
               | (Inl err, w) \<Rightarrow>
                   (case list_into fs location None w of (events, w) \<Rightarrow>
                      (Said (Notice SevWarning (user_message
                         (''Unable to open '' @ string_of_path p @ '' on '' @ name @
                          '', showing the home directory instead'') (pe_source err))) # events, w)))))"

definition scope_for :: "location \<Rightarrow> scope" where
  "scope_for location = (case location of SessionSide i \<Rightarrow> SessionScope i | LocalSide \<Rightarrow> BackgroundScope)"

definition list_dir :: "location \<Rightarrow> path option \<Rightarrow> 'w desk \<Rightarrow> 'w desk" where
  "list_dir location p d =
     (case desk_fs_for location d of
        None \<Rightarrow> d
      | Some fs \<Rightarrow> desk_spawn ''list'' (scope_for location) (ListInto fs location p) d)"

definition open_start_directory :: "nat \<Rightarrow> 'w desk \<Rightarrow> 'w desk" where
  "open_start_directory session d =
     (case fmlookup (de_sessions d) session of
        None \<Rightarrow> d
      | Some live \<Rightarrow>
          (case start_path (dn_entry live) of
             Some requested \<Rightarrow>
               desk_spawn ''list-start'' (SessionScope session)
                 (ListStartInto (dn_fs live) session (dn_name live) requested) d
           | None \<Rightarrow> list_dir (SessionSide session) None d))"

definition create_dir_at :: "location \<Rightarrow> path \<Rightarrow> 'w desk \<Rightarrow> 'w desk" where
  "create_dir_at location p d =
     (case desk_fs_for location d of
        None \<Rightarrow> d
      | Some fs \<Rightarrow> desk_spawn ''create-dir'' (scope_for location) (CreateDirAt fs location p) d)"

definition rename_at :: "location \<Rightarrow> path \<Rightarrow> path \<Rightarrow> 'w desk \<Rightarrow> 'w desk" where
  "rename_at location p q d =
     (case desk_fs_for location d of
        None \<Rightarrow> d
      | Some fs \<Rightarrow> desk_spawn ''rename'' (scope_for location) (RenameAt fs location p q) d)"

definition delete_at :: "location \<Rightarrow> path list \<Rightarrow> 'w desk \<Rightarrow> 'w desk" where
  "delete_at location ps d =
     (case desk_fs_for location d of
        None \<Rightarrow> d
      | Some fs \<Rightarrow> desk_spawn ''delete'' (scope_for location) (DeleteAt fs location ps) d)"

text \<open>The bodies of these tasks; the loop of a deletion stops at the first failure.\<close>

definition changed_or_failed ::
  "location \<Rightarrow> string \<Rightarrow> (protocol_error + unit) \<times> 'w \<Rightarrow> desk_event list \<times> 'w" where
  "changed_or_failed location context_text outcome =
     (case outcome of
        (Inr _, w) \<Rightarrow> ([Said (LocationChanged location)], w)
      | (Inl err, w) \<Rightarrow> ([failed_notice (failure_message location context_text err)], w))"

fun delete_each :: "'w browsing_fs \<Rightarrow> path list \<Rightarrow> ('w, unit) effect" where
  "delete_each fs [] w = (Inr (), w)"
| "delete_each fs (p # ps) w =
     (case bf_delete fs p w of
        (Inl err, w) \<Rightarrow> (Inl err, w)
      | (Inr _, w) \<Rightarrow> delete_each fs ps w)"

section \<open>Searching (handlers/search)\<close>

definition search_at :: "location \<Rightarrow> path \<Rightarrow> string \<Rightarrow> 'w desk \<Rightarrow> 'w desk" where
  "search_at location root pattern d =
     (let d = d\<lparr>de_tasks := cancel_scope SearchScope (de_tasks d)\<rparr>;
          generation = de_search_generation d + 1;
          d = d\<lparr>de_search_generation := generation\<rparr>
      in (case desk_fs_for location d of
            None \<Rightarrow> d
          | Some fs \<Rightarrow>
              desk_spawn ''search'' SearchScope (SearchFor fs generation (search_query_new root pattern)) d))"

definition cancel_search :: "'w desk \<Rightarrow> 'w desk" where
  "cancel_search d = d\<lparr>de_tasks := cancel_scope SearchScope (de_tasks d)\<rparr>"

section \<open>Connecting (handlers/connect)\<close>

definition secret_account :: "connection_entry \<Rightarrow> string" where
  "secret_account e =
     (if ce_source e = FromSshConfig then ssh_account (ce_name e) else profile_account (ce_name e) PASSWORD_MARKER)"

definition secret_option_keys :: "'w protocol \<Rightarrow> connection_entry \<Rightarrow> string list" where
  "secret_option_keys protocol e =
     (if ce_source e = FromSshConfig then [] else secret_keys_of (pr_form protocol))"

definition bare_target :: "connection_entry \<Rightarrow> string list \<Rightarrow> target" where
  "bare_target e secret_keys =
     (let t = target_of_entry e
      in t\<lparr>tg_password := None, tg_options := fmfilter (\<lambda>key. key \<notin> set secret_keys) (tg_options t)\<rparr>)"

fun fill_options ::
  "connection_entry \<Rightarrow> string list \<Rightarrow> target \<Rightarrow> 'w secrets \<Rightarrow> 'w \<Rightarrow> target \<times> 'w secrets \<times> 'w" where
  "fill_options e [] t s w = (t, s, w)"
| "fill_options e (key # keys) t s w =
     (case lookup (profile_account (ce_name e) key) (key \<in> set (ce_in_keyring e)) s w of
        (Some secret, s, w) \<Rightarrow> fill_options e keys (t\<lparr>tg_options := fmupd key secret (tg_options t)\<rparr>) s w
      | (None, s, w) \<Rightarrow> fill_options e keys t s w)"

definition secured_target ::
  "connection_entry \<Rightarrow> string list \<Rightarrow> 'w secrets \<Rightarrow> 'w \<Rightarrow> target \<times> 'w secrets \<times> 'w" where
  "secured_target e secret_keys s w =
     (case lookup (secret_account e) (ce_saved_password e) s w of
        (password, s, w) \<Rightarrow>
          fill_options e secret_keys ((bare_target e secret_keys)\<lparr>tg_password := password\<rparr>) s w)"

text \<open>The target of a terminal: only what is in the cache.\<close>

definition cached_target :: "'w desk_session \<Rightarrow> 'w desk \<Rightarrow> target" where
  "cached_target live d =
     (let e = dn_entry live; keys = secret_option_keys (dn_protocol live) e;
          t = (bare_target e keys)\<lparr>tg_password := cached (secret_account e) (de_secrets d)\<rparr>
      in fold (\<lambda>key t.
           (case cached (profile_account (ce_name e) key) (de_secrets d) of
              Some secret \<Rightarrow> t\<lparr>tg_options := fmupd key secret (tg_options t)\<rparr>
            | None \<Rightarrow> t)) keys t)"

definition shell_target :: "nat \<Rightarrow> 'w desk \<Rightarrow> target option" where
  "shell_target session d = map_option (\<lambda>live. cached_target live d) (fmlookup (de_sessions d) session)"

definition shell_of :: "nat \<Rightarrow> 'w desk \<Rightarrow> shell_invocation option" where
  "shell_of session d =
     (case fmlookup (de_sessions d) session of
        None \<Rightarrow> None
      | Some live \<Rightarrow> pr_shell_command (dn_protocol live) (cached_target live d) (dv_environment (de_env d)))"

definition emit_connected :: "nat \<Rightarrow> string \<Rightarrow> bool \<Rightarrow> 'w desk \<Rightarrow> 'w desk" where
  "emit_connected session name shell_available d =
     (let preserves_times = (case fmlookup (de_sessions d) session of
                               Some live \<Rightarrow> fs_can_set_modified (dn_fs live) | None \<Rightarrow> False)
      in say (Said (SessionCapabilities session preserves_times))
           (say (Said (Connected session name shell_available)) d))"

text \<open>The first session of that name, in the order of the sessions.\<close>

definition session_named :: "string \<Rightarrow> 'w desk \<Rightarrow> nat option" where
  "session_named name d =
     find (\<lambda>i. map_option dn_name (fmlookup (de_sessions d) i) = Some name)
       (sorted_list_of_fset (fmdom (de_sessions d)))"

definition start_connecting :: "connection_entry \<Rightarrow> 'w protocol \<Rightarrow> 'w desk \<Rightarrow> 'w desk" where
  "start_connecting e protocol d =
     (let d = say (Connecting (ce_name e)) d;
          d = d\<lparr>de_connecting := finsert (ce_name e) (de_connecting d)\<rparr>
      in desk_spawn ''connect'' BackgroundScope (StartConnect e protocol (secret_option_keys protocol e)) d)"

definition connect_to :: "string \<Rightarrow> 'w desk \<Rightarrow> 'w desk" where
  "connect_to profile d =
     (case session_named profile d of
        Some session \<Rightarrow> emit_connected session profile (shell_of session d \<noteq> None) d
      | None \<Rightarrow>
          if profile |\<in>| de_connecting d then d
          else (case all_profiles d of
                  (Inl err, d) \<Rightarrow> complain SevError err d
                | (Inr entries, d) \<Rightarrow>
                    let named = filter (\<lambda>e. ce_name e = profile) entries
                    in (case find (\<lambda>e. \<not> is_orphan_labels (ce_source e)) named of
                          None \<Rightarrow>
                            if list_ex (\<lambda>e. ce_source e = MissingSshHost) named
                            then connect_failed profile (profile @ '' is no longer in ~/.ssh/config'') d
                            else connect_failed profile (''No saved connection named '' @ quoted profile) d
                        | Some e \<Rightarrow>
                            (case find_protocol (ce_protocol e) d of
                               None \<Rightarrow> connect_failed (ce_name e)
                                 (''No '' @ quoted (ce_protocol e) @ '' protocol is available for '' @ ce_name e) d
                             | Some protocol \<Rightarrow> start_connecting e protocol d))))"

definition keep_typed_password :: "connection_entry \<Rightarrow> typed_password \<Rightarrow> 'w desk \<Rightarrow> 'w desk" where
  "keep_typed_password e typed d =
     (let d = on_secrets (remember (secret_account e) (ty_secret typed)) d
      in if \<not> ty_save typed then d
         else save_typed_password
                (if ce_source e = FromSshConfig then OwnerSshHost (ce_name e) else OwnerProfile (ce_name e))
                (secret_account e) (ty_secret typed) d)"

definition finish_connecting ::
  "connection_entry \<Rightarrow> 'w protocol \<Rightarrow> 'w browsing_fs \<Rightarrow> typed_password option \<Rightarrow> 'w desk \<Rightarrow> 'w desk" where
  "finish_connecting e protocol fs typed d =
     (let d = d\<lparr>de_connecting := de_connecting d |-| {|ce_name e|}\<rparr>;
          d = (case typed of Some t \<Rightarrow> keep_typed_password e t d | None \<Rightarrow> d);
          session = de_next_session_id d;
          d = d\<lparr>de_next_session_id := session + 1,
                de_sessions := fmupd session
                  \<lparr>dn_name = ce_name e, dn_entry = e, dn_protocol = protocol, dn_fs = fs\<rparr> (de_sessions d)\<rparr>
      in open_start_directory session (emit_connected session (ce_name e) (shell_of session d \<noteq> None) d))"

text \<open>Of a disconnected session, what is here: the session itself; the rest is in the engine of the transfers.\<close>

definition drop_session :: "nat \<Rightarrow> 'w desk \<Rightarrow> 'w desk" where
  "drop_session session d = d\<lparr>de_sessions := fmdrop session (de_sessions d)\<rparr>"

definition prepare_shell :: "nat \<Rightarrow> 'w desk \<Rightarrow> 'w desk" where
  "prepare_shell session d =
     (case fmlookup (de_sessions d) session of
        None \<Rightarrow> complain SevWarning ''Connect to a server first'' d
      | Some _ \<Rightarrow>
          (case shell_of session d of
             Some invocation \<Rightarrow> say (ShellReady session invocation) d
           | None \<Rightarrow> complain SevWarning ''This connection doesn't support a terminal session'' d))"

section \<open>The connect task and its prompter\<close>

definition typed_of :: "question \<Rightarrow> answer \<Rightarrow> bool \<Rightarrow> typed_password option \<Rightarrow> typed_password option" where
  "typed_of q a save typed =
     (case (q, a) of
        (PasswordQuestion _ _, PasswordAnswer secret) \<Rightarrow> Some \<lparr>ty_secret = secret, ty_save = save\<rparr>
      | _ \<Rightarrow> typed)"

definition settled_message ::
  "connection_entry \<Rightarrow> 'w protocol \<Rightarrow> typed_password option \<Rightarrow> protocol_error + 'w browsing_fs \<Rightarrow> 'w desk_message" where
  "settled_message e protocol typed result =
     (case result of
        Inr fs \<Rightarrow> ConnectedTo e protocol fs typed
      | Inl err \<Rightarrow> ConnectingFailed (ce_name e) (connect_failure_message err (ce_name e) (pr_display_name protocol)))"

end
