(* ===== verification/Desk.thy ===== *)
theory Desk
  imports Desk_Connect
begin

text \<open>
  The commands and results of the desk, what its tasks do step by step, and the whole: the desk
  with its tasks, the messages under way and the world of the keyring and of the servers.
\<close>

section \<open>Commands and results (engine)\<close>

datatype desk_command =
    CmdConnect string
  | CmdDisconnect nat
  | CmdAnswer nat "answer option" bool
  | CmdPrepareShell nat
  | CmdList location "path option"
  | CmdCreateDir location path
  | CmdRename location path path
  | CmdDelete location "path list"
  | CmdSearch location path string
  | CmdCancelSearch
  | CmdListProfiles
  | CmdSaveProfile "string option" profile_draft
  | CmdDeleteProfile string
  | CmdSaveSshLabels string string string
  | CmdMoveSshLabels string string
  | CmdForgetSshLabels string
  | CmdRememberSaveChoice bool
  | CmdForgetSshPassword string
  | CmdAddBookmark string location path
  | CmdRemoveBookmark nat

fun desk_command_effect :: "desk_command \<Rightarrow> 'w desk \<Rightarrow> 'w desk" where
  "desk_command_effect (CmdConnect profile) d = connect_to profile d"
| "desk_command_effect (CmdDisconnect session) d = drop_session session d"
| "desk_command_effect (CmdAnswer request_id answer save) d =
     d\<lparr>de_questions := answer_question request_id answer save (de_questions d)\<rparr>"
| "desk_command_effect (CmdPrepareShell session) d = prepare_shell session d"
| "desk_command_effect (CmdList location p) d = list_dir location p d"
| "desk_command_effect (CmdCreateDir location p) d = create_dir_at location p d"
| "desk_command_effect (CmdRename location p q) d = rename_at location p q d"
| "desk_command_effect (CmdDelete location ps) d = delete_at location ps d"
| "desk_command_effect (CmdSearch location root pattern) d = search_at location root pattern d"
| "desk_command_effect CmdCancelSearch d = cancel_search d"
| "desk_command_effect CmdListProfiles d = list_profiles d"
| "desk_command_effect (CmdSaveProfile original draft) d = save_profile original draft d"
| "desk_command_effect (CmdDeleteProfile name) d = delete_profile name d"
| "desk_command_effect (CmdSaveSshLabels name group_text tags) d = save_ssh_labels name group_text tags d"
| "desk_command_effect (CmdMoveSshLabels from_name to_name) d = move_ssh_labels from_name to_name d"
| "desk_command_effect (CmdForgetSshLabels name) d = forget_ssh_labels name d"
| "desk_command_effect (CmdRememberSaveChoice save) d = remember_save_choice save d"
| "desk_command_effect (CmdForgetSshPassword alias) d = forget_ssh_password alias d"
| "desk_command_effect (CmdAddBookmark label location p) d = add_bookmark label location p d"
| "desk_command_effect (CmdRemoveBookmark index) d = remove_bookmark index d"

fun desk_message_effect :: "'w desk_message \<Rightarrow> 'w desk \<Rightarrow> 'w desk" where
  "desk_message_effect (ConnectedTo e protocol fs typed) d = finish_connecting e protocol fs typed d"
| "desk_message_effect (ConnectingFailed name message) d =
     connect_failed name message (d\<lparr>de_connecting := de_connecting d |-| {|name|}\<rparr>)"
| "desk_message_effect (KeyringProbed available) d = say (KeyringStatus available) d"
| "desk_message_effect (KeyringDone done_now) d = finish_keyring_job done_now d"

text \<open>\<^verbatim>\<open>recover_from_panic\<close>, for the tasks of the desk: none has a scope that is treated apart.\<close>

definition desk_panic :: "string \<Rightarrow> 'w desk \<Rightarrow> 'w desk" where
  "desk_panic name = complain SevError (''A background task failed: '' @ name)"

section \<open>One stage of a task\<close>

text \<open>
  A stage ends where the task waits for an answer, or with its last message.  What the keyring
  reports while it is slow is sent as it happens.
\<close>

definition tell_waiting :: "'w secrets \<Rightarrow> 'w desk \<Rightarrow> 'w desk" where
  "tell_waiting s d =
     fold (\<lambda>waiting. say (KeyringWaiting waiting)) (drop (length (sc_reported (de_secrets d))) (sc_reported s))
       (d\<lparr>de_secrets := s\<rparr>)"

definition set_work :: "nat \<Rightarrow> 'w desk_work \<Rightarrow> 'w desk \<Rightarrow> 'w desk" where
  "set_work i work d =
     (let t = de_tasks d
      in d\<lparr>de_tasks := t\<lparr>tk_live := (case fmlookup (tk_live t) i of
                                        Some live \<Rightarrow> fmupd i (live\<lparr>lv_work := work\<rparr>) (tk_live t)
                                      | None \<Rightarrow> tk_live t)\<rparr>\<rparr>)"

definition task_over :: "nat \<Rightarrow> 'w desk \<Rightarrow> 'w desk" where
  "task_over i d = d\<lparr>de_tasks := finish_task i (de_tasks d)\<rparr>"

definition say_all :: "desk_event list \<Rightarrow> 'w desk \<Rightarrow> 'w desk" where
  "say_all events d = fold say events d"

definition say_and_finish ::
  "nat \<Rightarrow> 'w desk \<Rightarrow> desk_event list \<times> 'w \<Rightarrow> ('w desk \<times> 'w desk_message list \<times> 'w) option" where
  "say_and_finish i d outcome = (case outcome of (events, w) \<Rightarrow> Some (task_over i (say_all events d), [], w))"

text \<open>
  \<^verbatim>\<open>visits\<close> bounds the folders a search walks; \<^verbatim>\<open>cancel\<close> is its flag, read again before each item.
\<close>

fun task_stage ::
  "nat \<Rightarrow> 'w flag \<Rightarrow> nat \<Rightarrow> 'w desk_work \<Rightarrow> 'w desk \<Rightarrow> 'w \<Rightarrow> ('w desk \<times> 'w desk_message list \<times> 'w) option" where
  "task_stage visits cancel i (StartConnect e protocol secret_keys) d w =
     (case secured_target e secret_keys (de_secrets d) w of (target, s, w) \<Rightarrow>
     (case pr_connect protocol target w of (dialogue, w) \<Rightarrow>
        Some (set_work i (FinishDialogue e protocol dialogue None) (tell_waiting s d), [], w)))"
| "task_stage visits cancel i (FinishDialogue e protocol (Ask q follow) typed) d w =
     (case register_question (de_questions d) of (request_id, questions) \<Rightarrow>
        Some (set_work i (AwaitAnswer e protocol request_id q follow typed)
                (say (QuestionAsked request_id q) (d\<lparr>de_questions := questions\<rparr>)), [], w))"
| "task_stage visits cancel i (FinishDialogue e protocol (Settled result) typed) d w =
     Some (task_over i d, [settled_message e protocol typed result], w)"
| "task_stage visits cancel i (AwaitAnswer e protocol request_id q follow typed) d w =
     (case fmlookup (pq_replies (de_questions d)) request_id of
        None \<Rightarrow> None
      | Some reply \<Rightarrow>
          let questions = de_questions d;
              d = d\<lparr>de_questions := questions\<lparr>pq_replies := fmdrop request_id (pq_replies questions)\<rparr>\<rparr>
          in (case reply of
                None \<Rightarrow> Some (set_work i (FinishDialogue e protocol (follow None) typed) d, [], w)
              | Some (a, save) \<Rightarrow>
                  Some (set_work i (FinishDialogue e protocol (follow (Some a)) (typed_of q a save typed)) d, [], w)))"
| "task_stage visits cancel i (ListInto fs location p) d w = say_and_finish i d (list_into fs location p w)"
| "task_stage visits cancel i (ListStartInto fs session name requested) d w =
     say_and_finish i d (list_start_into fs session name requested w)"
| "task_stage visits cancel i (CreateDirAt fs location p) d w =
     say_and_finish i d (changed_or_failed location ''Unable to create directory'' (fs_create_dir fs p w))"
| "task_stage visits cancel i (RenameAt fs location p q) d w =
     say_and_finish i d (changed_or_failed location ''Unable to rename'' (fs_rename fs p q w))"
| "task_stage visits cancel i (DeleteAt fs location ps) d w =
     say_and_finish i d (changed_or_failed location ''Unable to delete'' (delete_each fs ps w))"
| "task_stage visits cancel i (SearchFor fs generation query) d w =
     (case cancel w of (cancelled, w) \<Rightarrow>
        if cancelled \<or> de_search_generation d \<noteq> generation then Some (task_over i d, [], w)
        else (case walk_search visits pe_source (file_system.truncate fs) query cancel w of
                None \<Rightarrow> None
              | Some (found, w) \<Rightarrow> say_and_finish i d (map SearchShown found, w)))"
| "task_stage visits cancel i KeyringProbe d w =
     (case probe (de_secrets d) w of (working, s, w) \<Rightarrow>
        Some (task_over i (tell_waiting s d), [KeyringProbed working], w))"

text \<open>The task of the keyring queue takes the next job, and sends its result.\<close>

definition keyring_stage :: "'w desk \<Rightarrow> 'w \<Rightarrow> ('w desk \<times> 'w desk_message list \<times> 'w) option" where
  "keyring_stage d w =
     (case de_keyring_jobs d of
        [] \<Rightarrow> None
      | job # jobs \<Rightarrow>
          (case run_keyring_job job (de_secrets d) w of (done_now, s, w) \<Rightarrow>
             Some (tell_waiting s (d\<lparr>de_keyring_jobs := jobs\<rparr>), [KeyringDone done_now], w)))"

section \<open>The whole\<close>

record 'w desk_system =
  ks_desk :: "'w desk"
  ks_messages :: "'w desk_message list"
  ks_world :: 'w

inductive desk_step :: "'w desk_system \<Rightarrow> 'w desk_system \<Rightarrow> bool" where
  Command: "desk_step s (s\<lparr>ks_desk := desk_command_effect c (ks_desk s)\<rparr>)"
| Deliver: "ks_messages s = m # ms \<Longrightarrow>
    desk_step s (s\<lparr>ks_desk := desk_message_effect m (ks_desk s), ks_messages := ms\<rparr>)"
| Stage: "fmlookup (tk_live (de_tasks (ks_desk s))) i = Some live \<Longrightarrow>
    task_stage visits cancel i (lv_work live) (ks_desk s) (ks_world s) = Some (d, ms, w) \<Longrightarrow>
    desk_step s (s\<lparr>ks_desk := d, ks_messages := ks_messages s @ ms, ks_world := w\<rparr>)"
| Job: "keyring_stage (ks_desk s) (ks_world s) = Some (d, ms, w) \<Longrightarrow>
    desk_step s (s\<lparr>ks_desk := d, ks_messages := ks_messages s @ ms, ks_world := w\<rparr>)"
| World: "desk_step s (s\<lparr>ks_world := w\<rparr>)"

text \<open>A task that panics is gone, and the user is told.\<close>

inductive desk_panics :: "'w desk_system \<Rightarrow> 'w desk_system \<Rightarrow> bool" where
  Panics: "fmlookup (tk_live (de_tasks (ks_desk s))) i = Some live \<Longrightarrow>
    desk_panics s (s\<lparr>ks_desk := desk_panic (lv_name live) (task_over i (ks_desk s))\<rparr>)"

inductive_cases desk_stepE: "desk_step s s'"

inductive_cases desk_panicsE: "desk_panics s s'"

text \<open>\<^verbatim>\<open>CoreBuilder::start\<close>: warnings, the bookmarks, the choice and the probe come first.\<close>

definition desk_start ::
  "'w desk_env \<Rightarrow> 'w browsing_fs \<Rightarrow> bookmarks \<times> string list \<Rightarrow> 'w secrets \<Rightarrow> persist \<Rightarrow> 'w desk" where
  "desk_start env local_fs loaded secrets store =
     (case loaded of (bookmarks, warnings) \<Rightarrow>
        start_keyring_probe (publish_save_choice (publish_bookmarks
          (fold (complain SevWarning) warnings (desk_new env local_fs bookmarks secrets store)))))"

inductive desk_reachable :: "'w desk_system \<Rightarrow> bool" where
  Start: "desk_reachable \<lparr>ks_desk = desk_start env local_fs loaded secrets store,
    ks_messages = [], ks_world = w\<rparr>"
| Step: "desk_reachable s \<Longrightarrow> desk_step s s' \<Longrightarrow> desk_reachable s'"

end
