(* ===== verification/Desk_Safe.thy ===== *)
theory Desk_Safe
  imports Desk
begin

text \<open>
  What holds of the desk whatever the user asks, however its tasks interleave, and whatever the
  keyring and the servers do: one attempt for each name, and answers reach who asked.
\<close>

section \<open>What most handlers leave alone\<close>

definition calm :: "'w desk \<Rightarrow> 'w desk_work tasks \<times> string fset \<times> pending_questions" where
  "calm d = (de_tasks d, de_connecting d, de_questions d)"

lemma calm_iff:
  "calm d = calm d' \<longleftrightarrow> de_tasks d = de_tasks d' \<and> de_connecting d = de_connecting d' \<and> de_questions d = de_questions d'"
  by (simp add: calm_def)

lemma calm_updates [simp]:
  "calm (de_events_update f d) = calm d" "calm (de_secrets_update g d) = calm d" "calm (de_store_update h d) = calm d"
  "calm (de_bookmarks_update b d) = calm d" "calm (de_state_protected_update p d) = calm d"
  "calm (de_latest_keyring_job_update l d) = calm d" "calm (de_sessions_update ss d) = calm d"
  "calm (de_next_session_id_update n d) = calm d" "calm (de_search_generation_update gg d) = calm d"
  "calm (de_keyring_jobs_update j d) = calm d"
  by (simp_all add: calm_def)

lemma calm_say [simp]:
  "calm (say ev d) = calm d" "calm (complain sev m d) = calm d" "calm (connect_failed n m d) = calm d"
  "calm (profile_rejected m d) = calm d" "calm (on_secrets f d) = calm d"
  by (simp_all add: say_def complain_def connect_failed_def profile_rejected_def on_secrets_def)

lemma calm_fold:
  assumes "\<And>x d. calm (f x d) = calm d"
  shows "calm (fold f xs d) = calm d"
  by (induction xs arbitrary: d) (simp_all add: assms)

lemma calm_store: "with_store f d = (r, d') \<Longrightarrow> calm d' = calm d"
  by (auto simp: with_store_def split: prod.splits)

lemma calm_reads:
  "all_profiles d = (r1, d') \<Longrightarrow> calm d' = calm d"
  "profile_markers name d = (r2, d') \<Longrightarrow> calm d' = calm d"
  "ssh_markers name d = (r2, d') \<Longrightarrow> calm d' = calm d"
  "owner_markers owner d = (r2, d') \<Longrightarrow> calm d' = calm d"
  "profile_exists name d = (r3, d') \<Longrightarrow> calm d' = calm d"
  "preserved_entry original d = (r4, d') \<Longrightarrow> calm d' = calm d"
  "is_ssh_host name d = (r5, d') \<Longrightarrow> calm d' = calm d"
  by (auto simp: all_profiles_def profile_markers_def ssh_markers_def owner_markers_def profile_exists_def
      preserved_entry_def is_ssh_host_def dest: calm_store
      split: prod.splits sum.splits option.splits secret_owner.splits)

lemma calm_store_profile: "store_profile original profile d = (r, d') \<Longrightarrow> calm d' = calm d"
  by (auto simp: store_profile_def dest!: calm_store split: prod.splits sum.splits option.splits if_splits)

lemma calm_list_profiles [simp]: "calm (list_profiles d) = calm d"
  by (auto simp: list_profiles_def dest: calm_reads split: prod.splits sum.splits)

lemma calm_set_markers [simp]: "calm (set_markers owner ms d) = calm d"
  by (auto simp: set_markers_def dest!: calm_store split: prod.splits sum.splits secret_owner.splits)

lemma calm_add_marker [simp]: "calm (add_marker owner m d) = calm d"
  by (auto simp: add_marker_def dest: calm_reads split: prod.splits)

lemma calm_enqueue [simp]: "calm (enqueue_keyring_job owner job d) = calm d"
  by (simp add: enqueue_keyring_job_def Let_def calm_def)

lemma calm_caches [simp]:
  "calm (move_profile_cache old new d) = calm d" "calm (uncache_profile p d) = calm d"
  by (simp_all add: move_profile_cache_def uncache_profile_def calm_fold)

lemma calm_secret_jobs [simp]:
  "calm (forget_profile_secrets name saved d) = calm d" "calm (save_typed_password owner acc secret d) = calm d"
  "calm (move_ssh_password f t saved d) = calm d" "calm (drop_ssh_password alias saved keep d) = calm d"
  by (simp_all add: forget_profile_secrets_def save_typed_password_def move_ssh_password_def drop_ssh_password_def Let_def)

lemma calm_apply_secret_changes [simp]: "calm (apply_secret_changes c d) = calm d"
  by (simp add: apply_secret_changes_def Let_def calm_fold case_prod_unfold split: option.split)

lemma calm_finish_keyring_job [simp]: "calm (finish_keyring_job k d) = calm d"
proof -
  have "calm (fold (complain SevError) es d) = calm d" for es d
    by (rule calm_fold) simp
  then show ?thesis
    by (auto simp: finish_keyring_job_def Let_def dest!: calm_reads split: prod.splits secret_owner.splits)
qed

lemma calm_handlers [simp]:
  "calm (save_profile original draft d) = calm d" "calm (save_ssh_labels name g t d) = calm d"
  "calm (forget_ssh_labels name d) = calm d" "calm (forget_ssh_password name d) = calm d"
  "calm (delete_profile name d) = calm d" "calm (remember_save_choice b d) = calm d"
  "calm (save_bookmarks d) = calm d" "calm (publish_bookmarks d) = calm d" "calm (publish_save_choice d) = calm d"
  by (auto simp: save_profile_def save_ssh_labels_def forget_ssh_labels_def forget_ssh_password_def
      delete_profile_def remember_save_choice_def save_bookmarks_def publish_bookmarks_def publish_save_choice_def Let_def
      dest!: calm_reads calm_store calm_store_profile
      split: prod.splits sum.splits option.splits stored_profile.splits bool.splits)

lemma calm_move_ssh_labels [simp]: "calm (move_ssh_labels f t d) = calm d"
  by (auto simp: move_ssh_labels_def dest!: calm_reads calm_store split: prod.splits sum.splits bool.splits)

lemma calm_bookmarks [simp]:
  "calm (add_bookmark label location p d) = calm d" "calm (remove_bookmark i d) = calm d"
  by (auto simp: add_bookmark_def remove_bookmark_def split: prod.splits option.splits location.splits)

lemma calm_prepare_shell [simp]: "calm (prepare_shell session d) = calm d"
  by (simp add: prepare_shell_def split: option.split)

section \<open>Tasks that bear a label\<close>

definition labelled :: "('work \<Rightarrow> 'l option) \<Rightarrow> 'l \<Rightarrow> 'work tasks \<Rightarrow> nat fset" where
  "labelled lab x t =
     ffilter (\<lambda>i. case fmlookup (tk_live t) i of None \<Rightarrow> False | Some l \<Rightarrow> lab (lv_work l) = Some x) (fmdom (tk_live t))"

definition fresh_ids :: "'work tasks \<Rightarrow> bool" where
  "fresh_ids t \<longleftrightarrow> (\<forall>i. fmlookup (tk_live t) i \<noteq> None \<longrightarrow> i < tk_next t)"

lemma in_labelled [simp]:
  "i |\<in>| labelled lab x t \<longleftrightarrow> (\<exists>l. fmlookup (tk_live t) i = Some l \<and> lab (lv_work l) = Some x)"
  by (auto simp: labelled_def fmlookup_dom_iff split: option.splits)

lemma fresh_spawn: "fresh_ids t \<Longrightarrow> fresh_ids (spawn name scope work t)"
  by (auto simp: fresh_ids_def spawn_def Let_def less_Suc_eq)

lemma labelled_spawn:
  assumes "fresh_ids t"
  shows "fcard (labelled lab x (spawn name scope work t)) =
      (if lab work = Some x then 1 else 0) + fcard (labelled lab x t)"
proof -
  have new: "fmlookup (tk_live t) (tk_next t) = None" using assms by (auto simp: fresh_ids_def)
  have "labelled lab x (spawn name scope work t) =
      (if lab work = Some x then finsert (tk_next t) (labelled lab x t) else labelled lab x t)"
    using new by (intro fset_eqI) (auto simp: spawn_def Let_def)
  moreover have "tk_next t |\<notin>| labelled lab x t" using new by simp
  ultimately show ?thesis by (simp add: fcard_finsert_disjoint)
qed

lemma fresh_cancel: "fresh_ids t \<Longrightarrow> fresh_ids (cancel_scope scope t)"
  by (auto simp: fresh_ids_def cancel_scope_def)

lemma labelled_cancel: "labelled lab x (cancel_scope scope t) = labelled lab x t"
proof (intro fset_eqI)
  fix i
  show "i |\<in>| labelled lab x (cancel_scope scope t) \<longleftrightarrow> i |\<in>| labelled lab x t"
    by (cases "fmlookup (tk_live t) i") (simp_all add: cancel_scope_def)
qed

lemma labelled_finish:
  assumes "fmlookup (tk_live t) i = Some l"
  shows "fcard (labelled lab x t) = (if lab (lv_work l) = Some x then 1 else 0) + fcard (labelled lab x (finish_task i t))"
proof -
  have "labelled lab x t =
      (if lab (lv_work l) = Some x then finsert i (labelled lab x (finish_task i t)) else labelled lab x (finish_task i t))"
    using assms by (intro fset_eqI) (auto simp: finish_task_def)
  moreover have "i |\<notin>| labelled lab x (finish_task i t)" by (simp add: finish_task_def)
  ultimately show ?thesis by (simp add: fcard_finsert_disjoint)
qed

lemma fresh_finish: "fresh_ids t \<Longrightarrow> fresh_ids (finish_task i t)"
  by (auto simp: fresh_ids_def finish_task_def)

lemma labelled_set_work:
  assumes "fmlookup (tk_live (de_tasks d)) i = Some l"
  shows "fresh_ids (de_tasks d) \<Longrightarrow> fresh_ids (de_tasks (set_work i work d))"
    and "fcard (labelled lab x (de_tasks (set_work i work d))) + (if lab (lv_work l) = Some x then 1 else 0) =
      fcard (labelled lab x (de_tasks d)) + (if lab work = Some x then 1 else 0)"
proof -
  show "fresh_ids (de_tasks d) \<Longrightarrow> fresh_ids (de_tasks (set_work i work d))"
    using assms by (auto simp: fresh_ids_def set_work_def Let_def split: option.split)
  let ?rest = "labelled lab x (finish_task i (de_tasks d))"
  have before: "fcard (labelled lab x (de_tasks d)) = (if lab (lv_work l) = Some x then 1 else 0) + fcard ?rest"
    by (rule labelled_finish [OF assms])
  have "fmlookup (tk_live (de_tasks (set_work i work d))) i = Some (l\<lparr>lv_work := work\<rparr>)"
    using assms by (simp add: set_work_def Let_def)
  from labelled_finish [OF this, of lab x]
  have "fcard (labelled lab x (de_tasks (set_work i work d))) =
      (if lab work = Some x then 1 else 0) + fcard (labelled lab x (finish_task i (de_tasks (set_work i work d))))"
    by simp
  moreover have "labelled lab x (finish_task i (de_tasks (set_work i work d))) = ?rest"
    using assms by (intro fset_eqI) (auto simp: set_work_def Let_def finish_task_def)
  ultimately show "fcard (labelled lab x (de_tasks (set_work i work d))) + (if lab (lv_work l) = Some x then 1 else 0) =
      fcard (labelled lab x (de_tasks d)) + (if lab work = Some x then 1 else 0)"
    using before by simp
qed

section \<open>One attempt for each name\<close>

fun connect_work :: "'w desk_work \<Rightarrow> string option" where
  "connect_work (StartConnect e protocol secret_keys) = Some (ce_name e)"
| "connect_work (AwaitAnswer e protocol request_id q follow typed) = Some (ce_name e)"
| "connect_work (FinishDialogue e protocol dialogue typed) = Some (ce_name e)"
| "connect_work _ = None"

fun connect_result :: "'w desk_message \<Rightarrow> string option" where
  "connect_result (ConnectedTo e protocol fs typed) = Some (ce_name e)"
| "connect_result (ConnectingFailed name message) = Some name"
| "connect_result _ = None"

definition attempting :: "string \<Rightarrow> 'w desk \<Rightarrow> nat" where
  "attempting name d = fcard (labelled connect_work name (de_tasks d))"

definition results :: "string \<Rightarrow> 'w desk_message list \<Rightarrow> nat" where
  "results name ms = length (filter (\<lambda>m. connect_result m = Some name) ms)"

text \<open>How many attempts to connect to a name are under way: tasks, and results on the way.\<close>

definition attempts :: "string \<Rightarrow> 'w desk_system \<Rightarrow> nat" where
  "attempts name s = attempting name (ks_desk s) + results name (ks_messages s)"

text \<open>What a handler may do to a name: nothing, or start one attempt and mark the name.\<close>

definition proper :: "string \<Rightarrow> 'w desk \<Rightarrow> 'w desk \<Rightarrow> bool" where
  "proper name d d' \<longleftrightarrow> fresh_ids (de_tasks d') \<and>
     (attempting name d' = attempting name d \<and> (name |\<in>| de_connecting d' \<longleftrightarrow> name |\<in>| de_connecting d) \<or>
      attempting name d' = attempting name d + 1 \<and> name |\<notin>| de_connecting d \<and> name |\<in>| de_connecting d')"

lemma proper_calm: "fresh_ids (de_tasks d) \<Longrightarrow> calm d' = calm d \<Longrightarrow> proper name d d'"
  by (simp add: proper_def calm_iff attempting_def)

lemma proper_spawn:
  assumes "fresh_ids (de_tasks d)" and "connect_work work = None"
  shows "proper name d (desk_spawn n scope work d)"
  using assms by (simp add: proper_def attempting_def desk_spawn_def fresh_spawn labelled_spawn)

lemma proper_after: "calm d1 = calm d \<Longrightarrow> proper name d1 d' \<Longrightarrow> proper name d d'"
  by (simp add: proper_def calm_iff attempting_def)

lemma proper_panels:
  assumes "fresh_ids (de_tasks d)"
  shows "proper name d (list_dir location asked d)" "proper name d (create_dir_at location p d)"
    "proper name d (rename_at location p q d)" "proper name d (delete_at location ps d)"
    "proper name d (open_start_directory session d)"
  by (simp_all add: list_dir_def create_dir_at_def rename_at_def delete_at_def open_start_directory_def
      proper_spawn proper_calm assms split: option.split)

lemma proper_cancel:
  "fresh_ids (de_tasks d) \<Longrightarrow> proper name d (d\<lparr>de_tasks := cancel_scope scope (de_tasks d)\<rparr>)"
  by (simp add: proper_def attempting_def labelled_cancel fresh_cancel)

lemma proper_search:
  assumes "fresh_ids (de_tasks d)"
  shows "proper name d (search_at location root pattern d)" "proper name d (cancel_search d)"
proof -
  show "proper name d (cancel_search d)" using proper_cancel [OF assms] by (simp add: cancel_search_def)
  let ?d = "d\<lparr>de_tasks := cancel_scope SearchScope (de_tasks d), de_search_generation := de_search_generation d + 1\<rparr>"
  have cancelled: "attempting name ?d = attempting name d" "fresh_ids (de_tasks ?d)"
    using assms by (simp_all add: attempting_def labelled_cancel fresh_cancel)
  have "proper name ?d (desk_spawn n scope (SearchFor fs g q) ?d)" for n scope fs g q
    by (rule proper_spawn) (rule cancelled, simp)
  then have "proper name d (desk_spawn n scope (SearchFor fs g q) ?d)" for n scope fs g q
    using cancelled(1) by (simp add: proper_def)
  moreover have "proper name d ?d" using cancelled by (simp add: proper_def)
  ultimately show "proper name d (search_at location root pattern d)"
    by (simp add: search_at_def Let_def split: option.split)
qed

lemma proper_start_connecting:
  assumes "fresh_ids (de_tasks d)" and "ce_name e |\<notin>| de_connecting d"
  shows "proper name d (start_connecting e protocol d)"
  using assms
  by (auto simp: proper_def start_connecting_def Let_def attempting_def desk_spawn_def say_def fresh_spawn labelled_spawn)

lemma calm_emit_connected [simp]: "calm (emit_connected session name shell d) = calm d"
  by (simp add: emit_connected_def Let_def)

lemma proper_connect:
  assumes "fresh_ids (de_tasks d)"
  shows "proper name d (connect_to profile d)"
proof (cases "session_named profile d")
  case None
  show ?thesis
  proof (cases "profile |\<in>| de_connecting d")
    case False
    obtain r d1 where r: "all_profiles d = (r, d1)" by (cases "all_profiles d")
    then have c: "calm d1 = calm d" by (rule calm_reads)
    then have fresh: "fresh_ids (de_tasks d1)" and free: "profile |\<notin>| de_connecting d1"
      using assms False by (simp_all add: calm_iff)
    have "proper name d1 (start_connecting e protocol d1)"
      if "find (\<lambda>e. \<not> is_orphan_labels (ce_source e)) (filter (\<lambda>e. ce_name e = profile) es) = Some e" for e es protocol
    proof (rule proper_start_connecting [OF fresh])
      have "e \<in> set (filter (\<lambda>e. ce_name e = profile) es)"
        using that by (auto simp: find_Some_iff simp del: set_filter dest!: sym [of e] intro!: nth_mem)
      then show "ce_name e |\<notin>| de_connecting d1" using free by simp
    qed
    then show ?thesis
      using None False r c
      by (auto simp: connect_to_def Let_def split: sum.split option.split intro: proper_calm assms proper_after [OF c])
  qed (simp add: connect_to_def None proper_calm assms)
qed (simp add: connect_to_def proper_calm assms)

lemma proper_command:
  assumes "fresh_ids (de_tasks d)"
  shows "proper name d (desk_command_effect c d)"
proof (cases c)
  case (CmdConnect profile) then show ?thesis by (simp add: proper_connect assms)
next
  case (CmdDisconnect session) then show ?thesis by (simp add: drop_session_def proper_calm assms)
next
  case (CmdAnswer request_id answer save)
  then show ?thesis using assms by (simp add: proper_def attempting_def)
qed (simp_all add: proper_calm proper_panels proper_search assms)

text \<open>A result of an attempt takes the mark away, and leaves other names alone.\<close>

definition released :: "string option \<Rightarrow> string \<Rightarrow> 'w desk \<Rightarrow> 'w desk \<Rightarrow> bool" where
  "released ended name d d' \<longleftrightarrow> fresh_ids (de_tasks d') \<and> attempting name d' = attempting name d \<and>
     (name |\<in>| de_connecting d' \<longleftrightarrow> name |\<in>| de_connecting d \<and> ended \<noteq> Some name)"

lemma released_message:
  assumes "fresh_ids (de_tasks d)"
  shows "released (connect_result m) name d (desk_message_effect m d)"
proof (cases m)
  case (ConnectedTo e protocol fs typed)
  define d1 where "d1 = d\<lparr>de_connecting := de_connecting d |-| {|ce_name e|}\<rparr>"
  define d2 where "d2 = (case typed of Some t \<Rightarrow> keep_typed_password e t d1 | None \<Rightarrow> d1)"
  have "calm (keep_typed_password e t d1) = calm d1" for t by (simp add: keep_typed_password_def Let_def)
  then have c: "calm d2 = calm d1" by (simp add: d2_def split: option.split)
  define d3 where "d3 = d2\<lparr>de_next_session_id := de_next_session_id d2 + 1,
      de_sessions := fmupd (de_next_session_id d2)
        \<lparr>dn_name = ce_name e, dn_entry = e, dn_protocol = protocol, dn_fs = fs\<rparr> (de_sessions d2)\<rparr>"
  define d4 where "d4 = emit_connected (de_next_session_id d2) (ce_name e) (shell_of (de_next_session_id d2) d3 \<noteq> None) d3"
  have c4: "calm d4 = calm d1" using c by (simp add: d4_def d3_def)
  have fresh: "fresh_ids (de_tasks d4)" using c4 assms by (simp add: calm_iff d1_def)
  have whole: "desk_message_effect m d = open_start_directory (de_next_session_id d2) d4"
    unfolding ConnectedTo desk_message_effect.simps finish_connecting_def Let_def d4_def d3_def d2_def d1_def by (rule refl)
  have quiet: "de_connecting (open_start_directory i d4) = de_connecting d4" for i
    by (simp add: open_start_directory_def list_dir_def desk_spawn_def split: option.split)
  have "proper name d4 (open_start_directory (de_next_session_id d2) d4)"
    by (rule proper_panels [OF fresh])
  then show ?thesis
    using c4 whole quiet [of "de_next_session_id d2"]
    by (auto simp: released_def proper_def ConnectedTo calm_iff d1_def attempting_def)
next
  case (ConnectingFailed n message)
  then show ?thesis using assms by (auto simp: released_def connect_failed_def say_def attempting_def)
next
  case (KeyringProbed available)
  then show ?thesis using assms by (auto simp: released_def say_def attempting_def)
next
  case (KeyringDone k)
  then show ?thesis
    using assms by (simp add: released_def calm_finish_keyring_job [unfolded calm_iff] attempting_def)
qed

text \<open>What a stage of a task may do: its label stays, or moves into the message it sends.\<close>

definition carried :: "string \<Rightarrow> 'w desk \<Rightarrow> 'w desk \<Rightarrow> 'w desk_message list \<Rightarrow> bool" where
  "carried name d d' ms \<longleftrightarrow> fresh_ids (de_tasks d') \<and> de_connecting d' = de_connecting d \<and>
     attempting name d' + results name ms = attempting name d"

lemma calm_tell_waiting: "calm (tell_waiting s d) = calm d"
  by (simp add: tell_waiting_def calm_fold)

lemma carried_stay:
  assumes "fmlookup (tk_live (de_tasks d)) i = Some l" and "fresh_ids (de_tasks d)"
    and "de_tasks d1 = de_tasks d" and "de_connecting d1 = de_connecting d"
    and "connect_work work = connect_work (lv_work l)"
  shows "carried name d (set_work i work d1) []"
proof -
  have live: "fmlookup (tk_live (de_tasks d1)) i = Some l" using assms(1,3) by simp
  have "fresh_ids (de_tasks (set_work i work d1))" by (rule labelled_set_work [OF live]) (simp add: assms)
  moreover have "attempting name (set_work i work d1) = attempting name d"
    using labelled_set_work(2) [OF live, of connect_work name work] assms by (simp add: attempting_def)
  moreover have "de_connecting (set_work i work d1) = de_connecting d" using assms(4) by (simp add: set_work_def Let_def)
  ultimately show ?thesis by (simp add: carried_def results_def)
qed

lemma carried_over:
  assumes "fmlookup (tk_live (de_tasks d)) i = Some l" and "fresh_ids (de_tasks d)"
    and "de_tasks d1 = de_tasks d" and "de_connecting d1 = de_connecting d"
    and "results name ms = (if connect_work (lv_work l) = Some name then 1 else 0)"
  shows "carried name d (task_over i d1) ms"
  using labelled_finish [OF assms(1), of connect_work name] assms
  by (simp add: carried_def task_over_def attempting_def fresh_finish)

lemma calm_say_all: "calm (say_all events d) = calm d"
  by (simp add: say_all_def calm_fold)

lemma carried_panels:
  assumes "fmlookup (tk_live (de_tasks d)) i = Some l" and "fresh_ids (de_tasks d)"
    and "connect_work (lv_work l) = None"
    and "say_and_finish i d outcome = Some (d', ms, w')"
  shows "carried name d d' ms"
proof -
  obtain events w where o: "outcome = (events, w)" by (cases outcome)
  have "carried name d (task_over i (say_all events d)) []"
    by (intro carried_over [OF assms(1,2)]) (simp_all add: calm_say_all [unfolded calm_iff] assms(3) results_def)
  then show ?thesis using assms(4) by (auto simp: o say_and_finish_def)
qed

lemma carried_stage:
  assumes stage: "task_stage visits cancel i (lv_work l) d w = Some (d', ms, w')"
    and live: "fmlookup (tk_live (de_tasks d)) i = Some l" and fresh: "fresh_ids (de_tasks d)"
  shows "carried name d d' ms"
proof (cases "lv_work l")
  case (StartConnect e protocol keys)
  obtain target s w1 dialogue w2 where t: "secured_target e keys (de_secrets d) w = (target, s, w1)"
      "pr_connect protocol target w1 = (dialogue, w2)"
    by (metis prod_cases3 surj_pair)
  have "carried name d (set_work i (FinishDialogue e protocol dialogue None) (tell_waiting s d)) []"
    by (intro carried_stay [OF live fresh]) (simp_all add: calm_tell_waiting [unfolded calm_iff] StartConnect)
  then show ?thesis using stage t by (auto simp: StartConnect)
next
  case (AwaitAnswer e protocol request_id q follow typed)
  then obtain reply where reply: "fmlookup (pq_replies (de_questions d)) request_id = Some reply"
    using stage by (auto split: option.splits)
  let ?d = "d\<lparr>de_questions := (de_questions d)\<lparr>pq_replies := fmdrop request_id (pq_replies (de_questions d))\<rparr>\<rparr>"
  have "carried name d (set_work i (FinishDialogue e protocol dialogue t) ?d) []" for dialogue t
    by (rule carried_stay [OF live fresh]) (simp_all add: AwaitAnswer)
  then show ?thesis using stage reply by (auto simp: AwaitAnswer Let_def split: option.splits)
next
  case (FinishDialogue e protocol dialogue typed)
  show ?thesis
  proof (cases dialogue)
    case (Ask q follow)
    obtain request_id questions where r: "register_question (de_questions d) = (request_id, questions)" by fastforce
    have "carried name d (set_work i (AwaitAnswer e protocol request_id q follow typed)
        (say (QuestionAsked request_id q) (d\<lparr>de_questions := questions\<rparr>))) []"
      by (rule carried_stay [OF live fresh]) (simp_all add: FinishDialogue say_def)
    then show ?thesis using stage r by (auto simp: FinishDialogue Ask)
  next
    case (Settled result)
    have "carried name d (task_over i d) [settled_message e protocol typed result]"
      by (rule carried_over [OF live fresh])
         (simp_all add: FinishDialogue results_def settled_message_def split: sum.split)
    then show ?thesis using stage by (auto simp: FinishDialogue Settled)
  qed
next
  case (SearchFor fs generation query)
  have over: "carried name d (task_over i d) []"
    by (rule carried_over [OF live fresh]) (simp_all add: SearchFor results_def)
  show ?thesis
    using stage over by (auto simp: SearchFor split: prod.splits if_splits option.splits
        intro: carried_panels [OF live fresh])
next
  case KeyringProbe
  obtain working s w1 where p: "probe (de_secrets d) w = (working, s, w1)" by (metis prod_cases3)
  have "carried name d (task_over i (tell_waiting s d)) [KeyringProbed working]"
    by (intro carried_over [OF live fresh]) (simp_all add: calm_tell_waiting [unfolded calm_iff] KeyringProbe results_def)
  then show ?thesis using stage p by (auto simp: KeyringProbe)
qed (use stage in \<open>auto intro: carried_panels [OF live fresh]\<close>)

lemma results_nil [simp]: "results name [] = 0"
  by (simp add: results_def)

lemma results_append: "results name (ms @ ms') = results name ms + results name ms'"
  by (simp add: results_def)

lemma results_cons: "results name (m # ms) = (if connect_result m = Some name then 1 else 0) + results name ms"
  by (simp add: results_def)

text \<open>A step starts an attempt of an unmarked name and marks it, ends one and takes the mark, or does neither.\<close>

lemma step_attempts:
  assumes "desk_step s s'" and fresh: "fresh_ids (de_tasks (ks_desk s))"
  shows "fresh_ids (de_tasks (ks_desk s')) \<and>
    (attempts name s' = attempts name s \<and> (name |\<in>| de_connecting (ks_desk s') \<longleftrightarrow> name |\<in>| de_connecting (ks_desk s)) \<or>
     attempts name s' = attempts name s + 1 \<and> name |\<notin>| de_connecting (ks_desk s) \<and> name |\<in>| de_connecting (ks_desk s') \<or>
     attempts name s = attempts name s' + 1 \<and> name |\<notin>| de_connecting (ks_desk s'))"
  using assms(1)
proof (cases rule: desk_step.cases)
  case (Command c)
  then show ?thesis using proper_command [OF fresh, of name c] by (auto simp: proper_def attempts_def)
next
  case (Deliver m ms)
  then show ?thesis
    using released_message [OF fresh, of m name] by (auto simp: released_def attempts_def results_cons split: if_splits)
next
  case (Stage i live visits cancel d ms w)
  then show ?thesis
    using carried_stage [OF Stage(3,2) fresh, of name] by (auto simp: carried_def attempts_def results_append)
next
  case (Job d ms w)
  obtain job jobs k sec w1 where j: "de_keyring_jobs (ks_desk s) = job # jobs"
      "run_keyring_job job (de_secrets (ks_desk s)) (ks_world s) = (k, sec, w1)"
      "d = tell_waiting sec ((ks_desk s)\<lparr>de_keyring_jobs := jobs\<rparr>)" "ms = [KeyringDone k]"
    using Job by (auto simp: keyring_stage_def split: list.splits prod.splits)
  then show ?thesis
    using Job fresh
    by (simp add: calm_tell_waiting [unfolded calm_iff] attempts_def attempting_def results_append results_cons)
next
  case (World w)
  then show ?thesis using fresh by (simp add: attempts_def)
qed

definition one_attempt :: "'w desk_system \<Rightarrow> bool" where
  "one_attempt s \<longleftrightarrow> fresh_ids (de_tasks (ks_desk s)) \<and>
     (\<forall>name. attempts name s = (if name |\<in>| de_connecting (ks_desk s) then 1 else 0))"

lemma one_attempt_step: "one_attempt s \<Longrightarrow> desk_step s s' \<Longrightarrow> one_attempt s'"
  using step_attempts [of s s'] by (fastforce simp: one_attempt_def split: if_splits)

lemma one_attempt_start:
  "one_attempt \<lparr>ks_desk = desk_start env local_fs loaded secrets store, ks_messages = [], ks_world = w\<rparr>"
proof -
  obtain bookmarks warnings where l: "loaded = (bookmarks, warnings)" by (cases loaded)
  define d where "d = publish_save_choice (publish_bookmarks
      (fold (complain SevWarning) warnings (desk_new env local_fs bookmarks secrets store)))"
  have "calm d = calm (desk_new env local_fs bookmarks secrets store)" by (simp add: d_def calm_fold)
  then have d: "de_tasks d = tasks_new" "de_connecting d = {||}" by (simp_all add: calm_def desk_new_def)
  have none: "attempting name d = 0" for name by (simp add: attempting_def d tasks_new_def labelled_def)
  have "fresh_ids (de_tasks d)" by (simp add: d tasks_new_def fresh_ids_def)
  from proper_spawn [OF this, of KeyringProbe] have "proper name d (start_keyring_probe d)" for name
    by (simp add: start_keyring_probe_def)
  moreover have "de_connecting (start_keyring_probe d) = {||}" by (simp add: start_keyring_probe_def desk_spawn_def d)
  ultimately show ?thesis
    by (simp add: one_attempt_def attempts_def results_def desk_start_def l d_def [symmetric] proper_def none d)
qed

lemma reachable_one_attempt: "desk_reachable s \<Longrightarrow> one_attempt s"
  by (induction rule: desk_reachable.induct) (auto intro: one_attempt_start one_attempt_step)

text \<open>A name with a mark but without an attempt stays so.\<close>

definition forgotten :: "string \<Rightarrow> 'w desk_system \<Rightarrow> bool" where
  "forgotten name s \<longleftrightarrow> fresh_ids (de_tasks (ks_desk s)) \<and> name |\<in>| de_connecting (ks_desk s) \<and> attempts name s = 0"

lemma forgotten_steps:
  assumes "desk_step\<^sup>*\<^sup>* s s'" and "forgotten name s"
  shows "forgotten name s'"
  using assms
proof (induction rule: rtranclp_induct)
  case (step s1 s2)
  then show ?case using step_attempts [of s1 s2 name] by (auto simp: forgotten_def)
qed

section \<open>A small desk\<close>

text \<open>A file with one connection, a protocol that asks for a password, and no keyring.\<close>

definition sample_connection :: connection_profile where
  "sample_connection =
     \<lparr>cp_name = [], cp_protocol = ''sftp'', cp_host = ''web.example'', cp_port = None, cp_username = ''me'',
      cp_group = None, cp_tags = [], cp_in_keyring = [], cp_options = fmempty\<rparr>"

definition sample_codec :: config_codec where
  "sample_codec =
     \<lparr>cc_is_utf8 = (\<lambda>_. True),
      cc_parse = (\<lambda>_. Inr \<lparr>cf_connections = fmupd ''web'' sample_connection fmempty, cf_ssh_hosts = fmempty\<rparr>),
      cc_render = (\<lambda>_. Inr ''connections'')\<rparr>"

definition sample_protocol :: "unit protocol" where
  "sample_protocol =
     \<lparr>sp_id = ''sftp'', sp_default_port = 22, sp_discover = Inr [], pr_display_name = ''SFTP'',
      pr_form = standard_form 22,
      pr_connect = (\<lambda>target w. (Ask (PasswordQuestion (tg_username target) (tg_name target))
        (\<lambda>a. Settled (Inl (protocol_error_new (if a = None then KCancelled else AuthRejected) ''refused''))), w)),
      pr_shell_command = (\<lambda>_ _. None)\<rparr>"

definition sample_env :: "unit desk_env" where
  "sample_env =
     \<lparr>dv_paths = paths_in_dir [RootDir, Normal ''home''],
      dv_environment = \<lparr>ev_home = None, ev_user = None, ev_path = None, ev_editor = None\<rparr>,
      dv_protocols = [sample_protocol], dv_codec = sample_codec, dv_bookmarks_text = (\<lambda>_. Inr []),
      dv_state_read = (\<lambda>_. Inr ui_state_default), dv_state_text = (\<lambda>_. Inr []), dv_order = sorted_list_of_fset\<rparr>"

definition sample_store :: persist where
  "sample_store =
     \<lparr>ps_disk = \<lparr>dk_files = fmupd (connections_file (dv_paths sample_env)) ''connections'' fmempty, dk_ops = 0,
                 dk_fails = (\<lambda>_. False), dk_short = 0, dk_error = []\<rparr>,
      ps_applied = fmempty, ps_next_version = 1\<rparr>"

definition sample_local :: "unit browsing_fs" where
  "sample_local = file_system.extend one_folder
     \<lparr>bf_list = (\<lambda>p w. (Inr [], w)), bf_delete = (\<lambda>p w. (Inr (), w)), bf_home = (\<lambda>w. (Inr [RootDir], w))\<rparr>"

definition sample_system :: "unit desk_system" where
  "sample_system =
     \<lparr>ks_desk = desk_start sample_env sample_local (bookmarks_default, []) (secrets_new None (\<lambda>_. 0)) sample_store,
      ks_messages = [], ks_world = ()\<rparr>"

definition sample_connecting :: "unit desk_system" where
  "sample_connecting = sample_system\<lparr>ks_desk := desk_command_effect (CmdConnect ''web'') (ks_desk sample_system)\<rparr>"

lemma sample_connecting_reachable: "desk_reachable sample_connecting"
  unfolding sample_connecting_def
  by (rule desk_reachable.Step [OF _ desk_step.Command]) (simp add: sample_system_def desk_reachable.Start)

text \<open>The disk works and holds the file.\<close>

definition sample_path :: path where
  "sample_path = connections_file (dv_paths sample_env)"

definition works_with_file :: "persist \<Rightarrow> bool" where
  "works_with_file st \<longleftrightarrow> dk_fails (ps_disk st) = (\<lambda>_. False) \<and> fmlookup (dk_files (ps_disk st)) sample_path = Some ''connections''"

definition tick :: "persist \<Rightarrow> persist" where
  "tick st = st\<lparr>ps_disk := (ps_disk st)\<lparr>dk_ops := dk_ops (ps_disk st) + 1\<rparr>\<rparr>"

lemma works_tick [simp]: "works_with_file (tick st) = works_with_file st"
  by (simp add: works_with_file_def tick_def)

lemma sample_read:
  "works_with_file st \<Longrightarrow> read_config_file sample_codec sample_path st =
     (Inr \<lparr>cf_connections = fmupd ''web'' sample_connection fmempty, cf_ssh_hosts = fmempty\<rparr>, tick st)"
  by (simp add: works_with_file_def read_config_file_def read_text_def disk_try_def sample_codec_def and_then_def tick_def
      profile_of_stored_def sample_connection_def fmap_ext)

definition sample_entry_web :: connection_entry where
  "sample_entry_web = normal_entry (entry_of_profile (sample_connection\<lparr>cp_name := ''web''\<rparr>) 22)"

lemma sample_profiles:
  "profiles_of \<lparr>cf_connections = fmupd ''web'' sample_connection fmempty, cf_ssh_hosts = fmempty\<rparr> =
     [sample_connection\<lparr>cp_name := ''web''\<rparr>]"
  by (simp add: profiles_of_def map_filter_simps sorted_list_of_fset_single)

lemma sample_fields:
  "cp_protocol sample_connection = ''sftp''" "cp_port sample_connection = None" "cp_name sample_connection = []"
  by (simp_all add: sample_connection_def)

lemma sample_list_all:
  "works_with_file st \<Longrightarrow> list_all_connections sample_codec sample_path [source_protocol.truncate sample_protocol] st =
     (Inr [sample_entry_web], tick (tick st))"
  by (simp add: list_all_connections_def load_profiles_def load_ssh_labels_def sample_read sample_profiles list_entries_def
      label_entry_def map_filter_simps sample_protocol_def source_protocol.defs default_port_for_def
      sample_fields sample_entry_web_def entry_of_profile_def)

definition sample_ready :: "unit desk \<Rightarrow> bool" where
  "sample_ready d \<longleftrightarrow> de_env d = sample_env \<and> works_with_file (de_store d) \<and> de_sessions d = fmempty \<and> de_connecting d = {||} \<and>
     de_tasks d = spawn ''keyring-probe'' BackgroundScope KeyringProbe tasks_new"

lemma sample_all_profiles:
  "sample_ready d \<Longrightarrow> all_profiles d = (Inr [sample_entry_web], d\<lparr>de_store := tick (tick (de_store d))\<rparr>)"
  by (simp add: sample_ready_def all_profiles_def with_store_def desk_codec_def desk_file_def sample_path_def [symmetric])
     (simp add: sample_env_def sample_list_all)

lemma sample_state_read:
  assumes "works_with_file (de_store d)" and "de_env d = sample_env"
    and "with_store (load_ui_state (cc_is_utf8 (desk_codec d)) (dv_state_read (de_env d)) p) d = (loaded, d')"
  shows "\<exists>st. works_with_file st \<and> d' = d\<lparr>de_store := st\<rparr>"
proof -
  have "dv_state_read sample_env = (\<lambda>_. Inr ui_state_default)" "cc_is_utf8 (dv_codec sample_env) = (\<lambda>_. True)"
    by (simp_all add: sample_env_def sample_codec_def)
  then show ?thesis
    using assms
    by (auto simp: with_store_def load_ui_state_def on_disk_def read_or_set_aside_def disk_try_def desk_codec_def works_with_file_def
        tick_def split: option.splits intro!: exI [of _ "tick (de_store d)"])
qed

lemma sample_start_ready: "sample_ready (ks_desk sample_system)"
proof -
  define d where "d = publish_bookmarks (desk_new sample_env sample_local bookmarks_default (secrets_new None (\<lambda>_. 0)) sample_store)"
  have d: "works_with_file (de_store d)" "de_env d = sample_env" "de_sessions d = fmempty" "de_connecting d = {||}"
    "de_tasks d = tasks_new"
    by (simp_all add: d_def publish_bookmarks_def say_def desk_new_def sample_store_def works_with_file_def sample_path_def)
  obtain loaded d1 where r: "with_store (load_ui_state (cc_is_utf8 (desk_codec d)) (dv_state_read (de_env d))
      (state_file (dv_paths (de_env d)))) d = (loaded, d1)" by fastforce
  from sample_state_read [OF d(1,2) r]
  have d1: "works_with_file (de_store d1)" "de_env d1 = sample_env" "de_sessions d1 = fmempty" "de_connecting d1 = {||}"
    "de_tasks d1 = tasks_new"
    using d by auto
  have "ks_desk sample_system = start_keyring_probe (publish_save_choice d)"
    by (simp add: sample_system_def desk_start_def d_def)
  then show ?thesis
    using d1 by (simp add: sample_ready_def publish_save_choice_def r Let_def start_keyring_probe_def desk_spawn_def say_def complain_def
        split: option.split)
qed

lemma sample_command:
  "sample_ready d \<Longrightarrow> connect_to ''web'' d =
     start_connecting sample_entry_web sample_protocol (d\<lparr>de_store := tick (tick (de_store d))\<rparr>)"
  by (simp add: connect_to_def sample_all_profiles session_named_def sample_ready_def find_protocol_def sample_entry_web_def
      normal_entry_def entry_of_profile_def is_orphan_labels_def sample_env_def sample_fields sample_protocol_def)

lemma sample_connecting_marked: "de_connecting (ks_desk sample_connecting) = {|''web''|}"
  using sample_command [OF sample_start_ready] sample_start_ready
  by (simp add: sample_connecting_def start_connecting_def Let_def desk_spawn_def say_def sample_ready_def sample_entry_web_def
      normal_entry_def entry_of_profile_def)

section \<open>Properties\<close>



text \<open>(C26) The mark of an attempt whose task panics is never taken away: whatever happens afterwards,
  the name stays marked, and asking for the connection does nothing at all.\<close>

theorem panicked_attempt_locks_name:
  assumes "desk_reachable s" and "fmlookup (tk_live (de_tasks (ks_desk s))) i = Some live"
    and "connect_work (lv_work live) = Some name"
    and "desk_step\<^sup>*\<^sup>* (s\<lparr>ks_desk := desk_panic (lv_name live) (task_over i (ks_desk s))\<rparr>) s'"
    and "session_named name (ks_desk s') = None"
  shows "attempts name s' = 0 \<and> connect_to name (ks_desk s') = ks_desk s'"
proof -
  let ?s = "s\<lparr>ks_desk := desk_panic (lv_name live) (task_over i (ks_desk s))\<rparr>"
  have ok: "one_attempt s" using assms(1) by (rule reachable_one_attempt)
  have card: "attempting name (ks_desk s) = 1 + attempting name (task_over i (ks_desk s))"
    using labelled_finish [OF assms(2), of connect_work name] assms(3) by (simp add: attempting_def task_over_def)
  have "attempting name (ks_desk ?s) = attempting name (task_over i (ks_desk s))"
    by (simp add: attempting_def desk_panic_def complain_def say_def)
  then have "attempts name s = 1 + attempts name ?s" using card by (simp add: attempts_def)
  moreover have "de_connecting (ks_desk ?s) = de_connecting (ks_desk s)" "fresh_ids (de_tasks (ks_desk ?s))"
    using ok by (simp_all add: desk_panic_def complain_def say_def task_over_def one_attempt_def fresh_finish)
  ultimately have "forgotten name ?s"
    using ok by (auto simp: forgotten_def one_attempt_def split: if_splits)
  from forgotten_steps [OF assms(4) this] show ?thesis
    using assms(5) by (simp add: forgotten_def connect_to_def)
qed

definition sample_panicked :: "unit desk_system" where
  "sample_panicked = sample_connecting\<lparr>ks_desk := desk_panic ''connect'' (task_over 1 (ks_desk sample_connecting))\<rparr>"

lemma panicked_attempt_locks_name_witness:
  "connect_to ''web'' (ks_desk sample_panicked) = ks_desk sample_panicked"
proof -
  let ?live = "\<lparr>lv_name = ''connect'', lv_scope = BackgroundScope, lv_cancel = False,
      lv_work = StartConnect sample_entry_web sample_protocol (secret_option_keys sample_protocol sample_entry_web)\<rparr>"
  have d: "ks_desk sample_connecting = start_connecting sample_entry_web sample_protocol
      ((ks_desk sample_system)\<lparr>de_store := tick (tick (de_store (ks_desk sample_system)))\<rparr>)"
    using sample_command [OF sample_start_ready] by (simp add: sample_connecting_def)
  have live: "fmlookup (tk_live (de_tasks (ks_desk sample_connecting))) 1 = Some ?live"
    using sample_start_ready
    by (simp add: d start_connecting_def Let_def desk_spawn_def say_def sample_ready_def spawn_def tasks_new_def)
  have none: "session_named ''web'' (ks_desk sample_panicked) = None"
    using sample_start_ready
    by (simp add: sample_panicked_def d start_connecting_def Let_def desk_spawn_def say_def sample_ready_def
        session_named_def desk_panic_def complain_def task_over_def)
  have "connect_work (lv_work ?live) = Some ''web''"
    by (simp add: sample_entry_web_def normal_entry_def entry_of_profile_def)
  from panicked_attempt_locks_name [OF sample_connecting_reachable live this rtranclp.rtrancl_refl] none
  show ?thesis by (simp add: sample_panicked_def)
qed

end
