(* ===== verification/Persist_Safe.thy ===== *)
theory Persist_Safe
  imports Persist
begin

text \<open>
  What the writing of files promises: a file is never left half written, the newest write wins,
  a file that cannot be read is kept, and what is quoted in an error message is not shown.
\<close>

section \<open>One write\<close>

lemma disk_try_files: "disk_try d = (b, d') \<Longrightarrow> dk_files d' = dk_files d"
  by (auto simp: disk_try_def)

lemma disk_remove_files: "fmlookup (dk_files (snd (disk_remove p d))) q =
    (if q = p \<and> fst (disk_remove p d) then None else fmlookup (dk_files d) q)"
  by (simp add: disk_remove_def disk_try_def)

lemma disk_rename_files:
  "disk_rename p q d = (b, d') \<Longrightarrow>
     if b then \<exists>c. fmlookup (dk_files d) p = Some c \<and> dk_files d' = fmupd q c (fmdrop p (dk_files d))
     else dk_files d' = dk_files d"
  by (auto simp: disk_rename_def disk_try_def split: option.splits if_splits)

text \<open>Writing the temporary file and renaming it: only the temporary file changes, unless it succeeds.\<close>

lemma write_temp_effect:
  assumes "write_temp_and_replace p temp contents d = (r, d')" and "temp \<noteq> p"
  shows "case r of
           Inl _ \<Rightarrow> \<forall>q. q \<noteq> temp \<longrightarrow> fmlookup (dk_files d') q = fmlookup (dk_files d) q
         | Inr _ \<Rightarrow> \<forall>q. fmlookup (dk_files d') q =
             (if q = p then Some contents else if q = temp then None else fmlookup (dk_files d) q)"
  using assms
  by (auto simp: write_temp_and_replace_def Let_def split: prod.splits if_splits sum.splits
      dest!: disk_rename_files disk_try_files)

lemma write_file_effect:
  assumes "write_file p contents d = (r, d')" and "with_suffix p ''.tmp'' \<noteq> p"
  shows "case r of
           Inl _ \<Rightarrow> \<forall>q. q \<noteq> with_suffix p ''.tmp'' \<longrightarrow> fmlookup (dk_files d') q = fmlookup (dk_files d) q
         | Inr _ \<Rightarrow> \<forall>q. fmlookup (dk_files d') q =
             (if q = p then Some contents else if q = with_suffix p ''.tmp'' then None else fmlookup (dk_files d) q)"
proof -
  have replaced: "case r1 of
        Inl _ \<Rightarrow> \<forall>q. q \<noteq> with_suffix p ''.tmp'' \<longrightarrow> fmlookup (dk_files d1) q = fmlookup (dk_files d0) q
      | Inr _ \<Rightarrow> \<forall>q. fmlookup (dk_files d1) q =
          (if q = p then Some contents else if q = with_suffix p ''.tmp'' then None else fmlookup (dk_files d0) q)"
    if "(case write_temp_and_replace p (with_suffix p ''.tmp'') contents d0 of
          (Inl e, d) \<Rightarrow> (Inl e, snd (disk_remove (with_suffix p ''.tmp'') d))
        | (Inr u, d) \<Rightarrow> (Inr u, d)) = (r1, d1)" for r1 d0 d1
  proof -
    obtain r2 d2 where r2: "write_temp_and_replace p (with_suffix p ''.tmp'') contents d0 = (r2, d2)" by fastforce
    show ?thesis
      using write_temp_effect [OF r2 assms(2)] that r2
      by (cases r2) (auto simp: disk_remove_files)
  qed
  show ?thesis
  proof (cases "path_parent p")
    case None
    then show ?thesis using replaced [of d r d'] assms(1) by (simp add: write_file_def Let_def)
  next
    case (Some parent)
    obtain b d0 where b: "disk_try d = (b, d0)" by fastforce
    have same: "dk_files d0 = dk_files d" by (rule disk_try_files [OF b])
    show ?thesis
    proof (cases b)
      case True
      then show ?thesis using replaced [of d0 r d'] assms(1) b Some same
        by (cases r) (simp_all add: write_file_def Let_def)
    qed (use assms(1) b Some same in \<open>auto simp: write_file_def\<close>)
  qed
qed

text \<open>(C10) A file of the program is replaced as a whole or not at all: whichever step fails, it holds
  what it held before, and when the write reports success it holds the new contents and the
  temporary file is gone.  No other file is touched.\<close>

theorem write_file_whole_or_not:
  assumes "write_file p contents d = (r, d')" and "file_name p \<noteq> None"
  shows "fmlookup (dk_files d') p = (case r of Inl _ \<Rightarrow> fmlookup (dk_files d) p | Inr _ \<Rightarrow> Some contents) \<and>
         (r = Inr () \<longrightarrow> fmlookup (dk_files d') (with_suffix p ''.tmp'') = None) \<and>
         (\<forall>q. q \<noteq> p \<and> q \<noteq> with_suffix p ''.tmp'' \<longrightarrow> fmlookup (dk_files d') q = fmlookup (dk_files d) q)"
proof -
  have neq: "with_suffix p ''.tmp'' \<noteq> p"
    using assms(2) unfolding with_suffix_def by (intro push_suffix_neq) simp_all
  show ?thesis using write_file_effect [OF assms(1) neq] neq neq [symmetric] by (cases r) simp_all
qed

definition sample_disk :: disk where
  "sample_disk =
     \<lparr>dk_files = fmap_of_list [([RootDir, Normal ''h''], ''old'')], dk_ops = 0, dk_fails = (\<lambda>n. n = 3),
      dk_short = 1, dk_error = ''disk full''\<rparr>"

text \<open>The fourth operation, writing the contents, fails after one character.\<close>

lemma write_file_whole_or_not_witness:
  "fmlookup (dk_files (snd (write_file [RootDir, Normal ''h''] ''new'' sample_disk))) [RootDir, Normal ''h''] = Some ''old''"
proof -
  obtain m where r: "fst (write_file [RootDir, Normal ''h''] ''new'' sample_disk) = Inl m"
    by (simp add: write_file_def sample_disk_def path_parent_def disk_try_def with_suffix_def push_suffix_def
        write_temp_and_replace_def Let_def)
  have "fmlookup (dk_files sample_disk) [RootDir, Normal ''h''] = Some ''old''" by (simp add: sample_disk_def)
  then show ?thesis
    using write_file_whole_or_not [of "[RootDir, Normal ''h'']" "''new''" sample_disk,
        OF prod.collapse [symmetric]] r
    by (simp add: file_name_def)
qed

section \<open>Setting a file aside\<close>

lemma reserve_effect:
  "reserve_broken_name cs d = (r, d') \<Longrightarrow>
     (case r of
        Inl _ \<Rightarrow> dk_files d' = dk_files d
      | Inr q \<Rightarrow> q \<in> set cs \<and> fmlookup (dk_files d) q = None \<and> dk_files d' = fmupd q [] (dk_files d))"
  by (induction cs arbitrary: d)
     (auto split: prod.splits if_splits sum.splits dest!: disk_try_files, fastforce+)

text \<open>(C12) Setting an unreadable file aside loses nothing: every file there was keeps its contents, the
  unreadable one under its own name or, when the message says so, under a name no file had.\<close>

theorem set_aside_keeps_files:
  assumes "set_aside p problem d = (loaded, d')" and "fmlookup (dk_files d) q = Some contents"
  shows "if q = p
         then fmlookup (dk_files d') p = Some contents \<or>
              (\<exists>b \<in> set (broken_candidates p). fmlookup (dk_files d) b = None \<and> fmlookup (dk_files d') b = Some contents)
         else fmlookup (dk_files d') q = Some contents"
proof -
  obtain r d1 where r: "reserve_broken_name (broken_candidates p) d = (r, d1)" by (metis surj_pair)
  note d' = arg_cong [OF assms(1), of snd, unfolded snd_conv, symmetric]
  show ?thesis
  proof (cases r)
    case (Inl e)
    then have "d' = d1" by (simp add: d' set_aside_def r)
    then show ?thesis using Inl assms(2) reserve_effect [OF r] by (cases "q = p") simp_all
  next
    case (Inr b)
    then have b: "b \<in> set (broken_candidates p)" "fmlookup (dk_files d) b = None"
        "dk_files d1 = fmupd b [] (dk_files d)"
      using reserve_effect [OF r] by simp_all
    have "b \<noteq> q" using b(2) assms(2) by auto
    obtain moved d2 where m: "disk_rename p b d1 = (moved, d2)" by (metis surj_pair)
    show ?thesis
    proof (cases moved)
      case True
      then have "d' = d2" using m Inr by (simp add: d' set_aside_def r)
      moreover obtain c where c: "fmlookup (dk_files d1) p = Some c" "dk_files d2 = fmupd b c (fmdrop p (dk_files d1))"
        using disk_rename_files [OF m] True by auto
      ultimately have kept: "fmlookup (dk_files d') b = Some c" "q \<noteq> p \<Longrightarrow> fmlookup (dk_files d') q = Some contents"
        using b(3) assms(2) \<open>b \<noteq> q\<close> by simp_all
      have "q = p \<Longrightarrow> c = contents" using c(1) b(3) assms(2) \<open>b \<noteq> q\<close> by simp
      then show ?thesis using kept b(1,2) by (cases "q = p"; simp only: if_True if_False simp_thms; blast)
    next
      case False
      then have "d' = snd (disk_remove b d2)" using m Inr by (simp add: d' set_aside_def r)
      moreover have "dk_files d2 = dk_files d1" using disk_rename_files [OF m] False by simp
      ultimately have "fmlookup (dk_files d') q = Some contents"
        using b(3) assms(2) \<open>b \<noteq> q\<close> by (simp add: disk_remove_files)
      then show ?thesis by (cases "q = p"; simp only: if_True if_False simp_thms)
    qed
  qed
qed

lemma set_aside_keeps_files_witness:
  "fmlookup (dk_files (snd (set_aside [RootDir, Normal ''x''] ''bad'' sample_disk :: nat loaded \<times> disk)))
     [RootDir, Normal ''h''] = Some ''old''"
proof -
  have "fmlookup (dk_files sample_disk) [RootDir, Normal ''h''] = Some ''old''" by (simp add: sample_disk_def)
  from set_aside_keeps_files [OF prod.collapse [symmetric] this, of "[RootDir, Normal ''x'']" "''bad''"]
  show ?thesis by simp
qed

section \<open>Messages\<close>

lemma redact_append:
  "redact (xs @ ys) b = redact xs b @ redact ys (if even (count_list xs (CHR 0x22)) then b else \<not> b)"
  by (induction xs arbitrary: b) auto

lemma redact_inside: "CHR 0x22 \<notin> set xs \<Longrightarrow> redact xs True = []"
  by (induction xs) auto

text \<open>What a message quotes does not show: two messages that differ only in a quoted value are
  shown as the same text.\<close>

theorem quoted_values_hidden:
  assumes "even (count_list before (CHR 0x22))" and "CHR 0x22 \<notin> set secret" and "CHR 0x22 \<notin> set secret'"
  shows "without_quoted_values (before @ CHR 0x22 # secret @ CHR 0x22 # after) =
         without_quoted_values (before @ CHR 0x22 # secret' @ CHR 0x22 # after)"
  using assms by (simp add: without_quoted_values_def redact_append redact_inside count_notin)

lemma quoted_values_hidden_witness:
  "without_quoted_values (''key '' @ CHR 0x22 # ''hunter2'' @ CHR 0x22 # '' at 3'') =
   without_quoted_values (''key '' @ CHR 0x22 # ''x'' @ CHR 0x22 # '' at 3'')"
  using quoted_values_hidden [of "''key ''" "''hunter2''" "''x''" "'' at 3''"] by simp

end
