(* ===== verification/Writer_Safe.thy ===== *)
theory Writer_Safe
  imports Persist_Safe Prelude
begin

text \<open>
  The writer collects writes, hands them to threads, and may be closed or dropped at any time.
  However these steps interleave, the newest write of a path is the one that stays.
\<close>

section \<open>One job\<close>

definition works :: "persist_writer \<Rightarrow> bool" where
  "works w \<longleftrightarrow> dk_fails (ps_disk (pw_store w)) = (\<lambda>_. False)"

definition applied :: "persist_writer \<Rightarrow> path \<Rightarrow> nat" where
  "applied w p = fmget_or 0 (ps_applied (pw_store w)) p"

definition content :: "persist_writer \<Rightarrow> path \<Rightarrow> string option" where
  "content w p = fmlookup (dk_files (ps_disk (pw_store w))) p"

lemma write_file_works:
  assumes "dk_fails d = (\<lambda>_. False)"
  shows "\<exists>d'. write_file p c d = (Inr (), d') \<and> dk_fails d' = (\<lambda>_. False)"
  using assms
  by (cases "path_parent p")
     (simp_all add: write_file_def write_temp_and_replace_def disk_rename_def disk_try_def Let_def)

lemma release_unused [simp]: "fmget_or 0 (release_unused_locks locks) p = fmget_or 0 locks p"
  by (simp add: release_unused_locks_def fmget_or_def split: option.split)

lemma write_versioned_effect:
  assumes "dk_fails (ps_disk st) = (\<lambda>_. False)" and "file_name p \<noteq> None"
  shows "\<exists>st'. write_versioned p c v st = (Inr (), st') \<and> dk_fails (ps_disk st') = (\<lambda>_. False) \<and>
    ps_next_version st' = ps_next_version st \<and>
    (if v \<le> fmget_or 0 (ps_applied st) p
     then ps_disk st' = ps_disk st \<and> fmget_or 0 (ps_applied st') = fmget_or 0 (ps_applied st)
     else fmget_or 0 (ps_applied st') = (fmget_or 0 (ps_applied st))(p := v) \<and>
       (\<forall>q. q \<noteq> with_suffix p ''.tmp'' \<longrightarrow>
          fmlookup (dk_files (ps_disk st')) q = (if q = p then Some c else fmlookup (dk_files (ps_disk st)) q)))"
proof (cases "v \<le> fmget_or 0 (ps_applied st) p")
  case True
  then show ?thesis
    using assms(1) by (auto simp: write_versioned_def write_locked_def Let_def fun_eq_iff)
next
  case False
  obtain d' where d': "write_file p c (ps_disk st) = (Inr (), d')" "dk_fails d' = (\<lambda>_. False)"
    using write_file_works [OF assms(1)] by blast
  have neq: "with_suffix p ''.tmp'' \<noteq> p"
    using assms(2) unfolding with_suffix_def by (intro push_suffix_neq) simp_all
  show ?thesis
    using False d' write_file_effect [OF d'(1) neq]
    by (auto simp: write_versioned_def write_locked_def Let_def fun_eq_iff)
qed

text \<open>The jobs a writer still has: pending, in flight, or taken out just now to be run.\<close>

definition has_job_of :: "(path \<times> write_job) list \<Rightarrow> persist_writer \<Rightarrow> path \<Rightarrow> write_job \<Rightarrow> bool" where
  "has_job_of taken w p job \<longleftrightarrow>
     fmlookup (pw_pending w) p = Some job \<or> (p, job) \<in> set (pw_in_flight w) \<or> (p, job) \<in> set taken"

text \<open>The paths a writer writes do not clash with each other's temporary files.\<close>

definition clash_free :: "path set \<Rightarrow> bool" where
  "clash_free S \<longleftrightarrow> (\<forall>p \<in> S. file_name p \<noteq> None \<and> (\<forall>q \<in> S. with_suffix q ''.tmp'' \<noteq> p))"

definition writer_ok :: "path set \<Rightarrow> (path \<times> write_job) list \<Rightarrow> persist_writer \<Rightarrow> bool" where
  "writer_ok S taken w \<longleftrightarrow> works w \<and> 1 \<le> ps_next_version (pw_store w) \<and>
     (\<forall>p. applied w p < ps_next_version (pw_store w)) \<and>
     (\<forall>p job. has_job_of taken w p job \<longrightarrow>
        p \<in> S \<and> wj_version job < ps_next_version (pw_store w) \<and> (\<exists>c. wj_render job = Inr c))"

text \<open>
  No job of \<^verbatim>\<open>p\<close> is newer than version \<^verbatim>\<open>v\<close>, which writes \<^verbatim>\<open>c\<close>, and that version is written or
  still to be.
\<close>

definition tracks :: "path \<Rightarrow> nat \<Rightarrow> string \<Rightarrow> (path \<times> write_job) list \<Rightarrow> persist_writer \<Rightarrow> bool" where
  "tracks p v c taken w \<longleftrightarrow> v < ps_next_version (pw_store w) \<and> applied w p \<le> v \<and>
     (applied w p = v \<longrightarrow> content w p = Some c) \<and>
     (\<forall>job. has_job_of taken w p job \<longrightarrow> wj_version job \<le> v \<and> (wj_version job = v \<longrightarrow> wj_render job = Inr c)) \<and>
     (applied w p = v \<or> (\<exists>job. has_job_of taken w p job \<and> wj_version job = v))"

text \<open>Running a job that the writer holds.\<close>

lemma run_job_effect:
  assumes "works w" and "file_name q \<noteq> None" and "wj_render job = Inr c"
  shows "works (run_job (q, job) w) \<and>
    ps_next_version (pw_store (run_job (q, job) w)) = ps_next_version (pw_store w) \<and>
    pw_pending (run_job (q, job) w) = pw_pending w \<and> pw_in_flight (run_job (q, job) w) = pw_in_flight w \<and>
    (if wj_version job \<le> applied w q
     then applied (run_job (q, job) w) = applied w \<and> content (run_job (q, job) w) = content w
     else applied (run_job (q, job) w) = (applied w)(q := wj_version job) \<and>
       (\<forall>p. p \<noteq> with_suffix q ''.tmp'' \<longrightarrow>
          content (run_job (q, job) w) p = (if p = q then Some c else content w p)))"
proof -
  obtain st' where st: "write_versioned q c (wj_version job) (pw_store w) = (Inr (), st')"
    "dk_fails (ps_disk st') = (\<lambda>_. False)" "ps_next_version st' = ps_next_version (pw_store w)"
    "if wj_version job \<le> fmget_or 0 (ps_applied (pw_store w)) q
     then ps_disk st' = ps_disk (pw_store w) \<and> fmget_or 0 (ps_applied st') = fmget_or 0 (ps_applied (pw_store w))
     else fmget_or 0 (ps_applied st') = (fmget_or 0 (ps_applied (pw_store w)))(q := wj_version job) \<and>
       (\<forall>p. p \<noteq> with_suffix q ''.tmp'' \<longrightarrow>
          fmlookup (dk_files (ps_disk st')) p = (if p = q then Some c else fmlookup (dk_files (ps_disk (pw_store w))) p))"
    using write_versioned_effect [of "pw_store w" q c "wj_version job"] assms(1,2) unfolding works_def by blast
  have "run_job (q, job) w = w\<lparr>pw_writes := pw_writes w + 1, pw_store := st'\<rparr>"
    by (simp add: run_job_def execute_job_def assms(3) st(1) Let_def)
  then show ?thesis using st by (simp add: works_def applied_def [abs_def] content_def [abs_def] fun_eq_iff)
qed

lemma run_keeps:
  assumes S: "clash_free S" and ok: "writer_ok S ((q, job) # taken) w"
  shows "writer_ok S taken (run_job (q, job) w)"
    and "p \<in> S \<Longrightarrow> tracks p v c ((q, job) # taken) w \<Longrightarrow> tracks p v c taken (run_job (q, job) w)"
proof -
  have held: "has_job_of ((q, job) # taken) w q job" by (simp add: has_job_of_def)
  then have q: "q \<in> S" "wj_version job < ps_next_version (pw_store w)"
    using ok unfolding writer_ok_def by blast+
  obtain c' where c': "wj_render job = Inr c'" using ok held unfolding writer_ok_def by blast
  have "file_name q \<noteq> None" using S q(1) by (simp add: clash_free_def)
  note run = run_job_effect [OF _ this c', of w]
  have w: "works w" using ok by (simp add: writer_ok_def)
  have jobs: "has_job_of taken (run_job (q, job) w) r j \<longleftrightarrow> has_job_of taken w r j" for r j
    using run [OF w] by (simp add: has_job_of_def)
  have less: "has_job_of taken w r j \<Longrightarrow> has_job_of ((q, job) # taken) w r j" for r j
    by (auto simp: has_job_of_def)
  have "applied (run_job (q, job) w) r < ps_next_version (pw_store w)" for r
    using run [OF w] q(2) ok by (auto simp: writer_ok_def split: if_splits)
  moreover have "has_job_of taken w r j \<Longrightarrow>
      r \<in> S \<and> wj_version j < ps_next_version (pw_store w) \<and> (\<exists>c. wj_render j = Inr c)" for r j
    using ok less unfolding writer_ok_def by blast
  ultimately show "writer_ok S taken (run_job (q, job) w)"
    using ok run [OF w] unfolding writer_ok_def jobs by simp
  assume p: "p \<in> S" and tr: "tracks p v c ((q, job) # taken) w"
  have apart: "p \<noteq> with_suffix q ''.tmp''" using S p q(1) by (auto simp: clash_free_def)
  show "tracks p v c taken (run_job (q, job) w)"
  proof (cases "q = p")
    case False
    have "has_job_of ((q, job) # taken) w p j \<longleftrightarrow> has_job_of taken w p j" for j
      using False by (auto simp: has_job_of_def)
    then show ?thesis
      using tr run [OF w] apart False unfolding tracks_def jobs by (auto split: if_splits)
  next
    case True
    have job: "wj_version job \<le> v" "wj_version job = v \<Longrightarrow> c' = c"
      using tr c' held True unfolding tracks_def by force+
    have v: "v < ps_next_version (pw_store w)" "applied w p \<le> v" "applied w p = v \<Longrightarrow> content w p = Some c"
      using tr by (simp_all add: tracks_def)
    have jobs_v: "has_job_of taken w p j \<Longrightarrow> wj_version j \<le> v \<and> (wj_version j = v \<longrightarrow> wj_render j = Inr c)" for j
      using tr less unfolding tracks_def by blast
    have left: "applied w p = v \<or> wj_version job = v \<or> (\<exists>j. has_job_of taken w p j \<and> wj_version j = v)"
      using tr unfolding tracks_def has_job_of_def by auto
    show ?thesis
    proof (cases "wj_version job \<le> applied w q")
      case older: True
      then have "applied w p = v \<or> (\<exists>j. has_job_of taken w p j \<and> wj_version j = v)"
        using left v(2) True by auto
      then show ?thesis using run [OF w] older v jobs_v unfolding tracks_def jobs by simp
    next
      case False
      then have "wj_version job = v \<or> (\<exists>j. has_job_of taken w p j \<and> wj_version j = v)"
        using left job(1) True by auto
      moreover have "applied (run_job (q, job) w) p = wj_version job" "content (run_job (q, job) w) p = Some c'"
        using run [OF w] False apart True by simp_all
      ultimately show ?thesis using run [OF w] v(1) job jobs_v unfolding tracks_def jobs by simp
    qed
  qed
qed

lemma run_all_keeps:
  assumes "clash_free S"
  shows "writer_ok S jobs w \<Longrightarrow> writer_ok S [] (fold run_job jobs w) \<and>
    (p \<in> S \<longrightarrow> tracks p v c jobs w \<longrightarrow> tracks p v c [] (fold run_job jobs w))"
proof (induction jobs arbitrary: w)
  case (Cons x jobs)
  obtain q job where x: "x = (q, job)" by (cases x)
  show ?case using run_keeps [OF assms, of q job jobs w] Cons x by auto
qed simp

section \<open>The steps of the writer\<close>

text \<open>\<^verbatim>\<open>S\<close> are the paths still written; the order of the pending jobs is any that lists them all.\<close>

inductive writer_step :: "path set \<Rightarrow> persist_writer \<Rightarrow> persist_writer \<Rightarrow> bool" for S where
  Write: "p \<in> S \<Longrightarrow> writer_step S w (snd (write_lazy in_runtime p tag (Inr c) w))"
| Due: "writer_step S w (write_due order now w)"
| All: "writer_step S w (write_all order now w)"
| Ran: "writer_step S w (job_ran w)"
| Close: "(\<And>A. set (order A) = fset A) \<Longrightarrow> writer_step S w (close_writer order w)"
| Ended: "(\<And>A. set (order A) = fset A) \<Longrightarrow> writer_step S w (writer_task_ended order w)"

inductive_cases writer_stepE: "writer_step S w w'"

lemma pending_jobs_set: "(p, job) \<in> set (pending_jobs order pending) \<longleftrightarrow>
    p \<in> set (order (fmdom pending)) \<and> fmlookup pending p = Some job"
  by (force simp: pending_jobs_def List.map_filter_def split: option.splits)

text \<open>Taking pending jobs out of the map loses none.\<close>

lemma same_jobs_keep:
  assumes "\<And>p job. has_job_of taken' w' p job \<longleftrightarrow> has_job_of taken w p job"
    and "pw_store w' = pw_store w"
  shows "writer_ok S taken' w' \<longleftrightarrow> writer_ok S taken w" "tracks p v c taken' w' \<longleftrightarrow> tracks p v c taken w"
  using assms by (simp_all add: writer_ok_def tracks_def works_def applied_def content_def)

lemma take_jobs_same:
  assumes "\<And>p job. (p, job) \<in> set jobs \<Longrightarrow> fmlookup (pw_pending w) p = Some job"
  shows "has_job_of taken (take_jobs now jobs w) p job \<longleftrightarrow> has_job_of taken w p job"
proof -
  have "p \<in> fst ` set jobs \<Longrightarrow> fmlookup (pw_pending w) p = Some job \<Longrightarrow> (p, job) \<in> set jobs"
    using assms by force
  then show ?thesis using assms by (auto simp: has_job_of_def take_jobs_def)
qed

lemma write_pending_keeps:
  assumes S: "clash_free S" and order: "\<And>A. set (order A) = fset A" and ok: "writer_ok S [] w"
  shows "writer_ok S [] (write_pending_now order w) \<and>
    (p \<in> S \<longrightarrow> tracks p v c [] w \<longrightarrow> tracks p v c [] (write_pending_now order w))"
proof -
  let ?jobs = "pending_jobs order (pw_pending w)"
  have jobs: "has_job_of ?jobs (w\<lparr>pw_pending := fmempty\<rparr>) r job \<longleftrightarrow> has_job_of [] w r job" for r job
    by (auto simp: has_job_of_def pending_jobs_set order fmlookup_dom_iff)
  note same = same_jobs_keep [OF jobs, simplified]
  show ?thesis
    unfolding write_pending_now_def
    using run_all_keeps [OF S, of ?jobs "w\<lparr>pw_pending := fmempty\<rparr>" p v c] ok by (simp add: same)
qed

lemma fewer_jobs_keep:
  assumes "\<And>r j. has_job_of taken' w' r j \<Longrightarrow> has_job_of taken w r j" and "pw_store w' = pw_store w"
  shows "writer_ok S taken w \<Longrightarrow> writer_ok S taken' w'"
    and "tracks p v c taken w \<Longrightarrow>
      applied w p = v \<or> (\<forall>j. has_job_of taken w p j \<longrightarrow> wj_version j = v \<longrightarrow> has_job_of taken' w' p j) \<Longrightarrow>
        tracks p v c taken' w'"
proof -
  have same: "works w' = works w" "applied w' = applied w" "content w' = content w"
    using assms(2) by (simp_all add: works_def applied_def [abs_def] content_def [abs_def])
  show "writer_ok S taken w \<Longrightarrow> writer_ok S taken' w'"
    unfolding writer_ok_def same assms(2) using assms(1) by blast
  show "tracks p v c taken w \<Longrightarrow>
      applied w p = v \<or> (\<forall>j. has_job_of taken w p j \<longrightarrow> wj_version j = v \<longrightarrow> has_job_of taken' w' p j) \<Longrightarrow>
        tracks p v c taken' w'"
    unfolding tracks_def same assms(2) using assms(1) by blast
qed

lemma write_lazy_keeps:
  assumes S: "clash_free S" and ok: "writer_ok S [] w" and q: "q \<in> S"
    and w': "w' = snd (write_lazy in_runtime q tag (Inr c') w)"
  shows "writer_ok S [] w' \<and> tracks q (ps_next_version (pw_store w)) c' [] w' \<and>
    (p \<in> S \<longrightarrow> p \<noteq> q \<longrightarrow> tracks p v c [] w \<longrightarrow> tracks p v c [] w')"
proof -
  define n where "n = ps_next_version (pw_store w)"
  define job where "job = \<lparr>wj_render = Inr c', wj_tag = tag, wj_version = n\<rparr>"
  define w1 where "w1 = w\<lparr>pw_store := (pw_store w)\<lparr>ps_next_version := n + 1\<rparr>\<rparr>"
  have jobs: "has_job_of [(q, job)] w1 r j \<longleftrightarrow> has_job_of [] w r j \<or> r = q \<and> j = job" for r j
    by (auto simp: has_job_of_def w1_def)
  have same: "works w1 = works w" "applied w1 = applied w" "content w1 = content w" "ps_next_version (pw_store w1) = n + 1"
    by (simp_all add: w1_def works_def applied_def [abs_def] content_def [abs_def])
  have old: "has_job_of [] w r j \<Longrightarrow> r \<in> S \<and> wj_version j < n \<and> (\<exists>c. wj_render j = Inr c)" and low: "applied w r < n" for r j
    using ok unfolding writer_ok_def n_def by blast+
  have ok1: "writer_ok S [(q, job)] w1"
    using ok old low q unfolding writer_ok_def jobs same by (auto simp: job_def less_Suc_eq)
  have new1: "tracks q n c' [(q, job)] w1"
    using old low [of q] unfolding tracks_def jobs same by (auto simp: job_def dest!: old)
  have other1: "tracks p v c [(q, job)] w1" if "p \<noteq> q" "tracks p v c [] w"
    using that unfolding tracks_def jobs same by (auto simp: n_def)
  define queued where "queued \<longleftrightarrow> \<not> pw_closed w \<and> (pw_running w \<or> in_runtime)"
  have lazy: "write_lazy in_runtime q tag (Inr c') w =
      (if queued then (Inr (), w1\<lparr>pw_running := True, pw_pending := fmupd q job (pw_pending w)\<rparr>)
       else (case execute_job q job (pw_store w1) of
               (outcome, st) \<Rightarrow> (outcome, w\<lparr>pw_pending := fmdrop q (pw_pending w), pw_writes := pw_writes w + 1, pw_store := st\<rparr>)))"
    by (auto simp: write_lazy_def next_version_def Let_def queued_def w1_def job_def n_def)
  show ?thesis
  proof (cases queued)
    case True
    then have w'_eq: "w' = w1\<lparr>pw_running := True, pw_pending := fmupd q job (pw_pending w)\<rparr>"
      by (simp add: w' lazy)
    have fewer: "has_job_of [] w' r j \<Longrightarrow> has_job_of [(q, job)] w1 r j" for r j
      by (auto simp: w'_eq has_job_of_def w1_def split: if_splits)
    have store: "pw_store w' = pw_store w1" by (simp add: w'_eq)
    have keep: "has_job_of [(q, job)] w1 r j \<Longrightarrow> r \<noteq> q \<or> j = job \<Longrightarrow> has_job_of [] w' r j" for r j
      by (auto simp: w'_eq has_job_of_def w1_def)
    have newest: "has_job_of [(q, job)] w1 q j \<Longrightarrow> wj_version j = n \<Longrightarrow> j = job" for j
      using old unfolding jobs by force
    show ?thesis
      using fewer_jobs_keep [OF fewer store] ok1 new1 other1 keep newest unfolding n_def [symmetric] by blast
  next
    case False
    obtain w2 where w2: "w2 = run_job (q, job) w1" by blast
    have ran: "writer_ok S [] w2" "tracks q n c' [] w2" "p \<in> S \<Longrightarrow> p \<noteq> q \<Longrightarrow> tracks p v c [] w \<Longrightarrow> tracks p v c [] w2"
      using run_keeps [OF S ok1] new1 other1 q unfolding w2 by blast+
    have "works w1" using ok1 by (simp add: writer_ok_def)
    moreover have "file_name q \<noteq> None" using S q by (simp add: clash_free_def)
    ultimately have run: "pw_pending w2 = pw_pending w1" "pw_in_flight w2 = pw_in_flight w1" "applied w2 q = n"
      using run_job_effect [of w1 q job c'] low [of q] unfolding w2 by (simp_all add: job_def same)
    have store: "pw_store w' = pw_store w2" and pending: "pw_pending w' = fmdrop q (pw_pending w)"
      "pw_in_flight w' = pw_in_flight w"
      using False by (simp_all add: w' w2 lazy run_job_def w1_def Let_def split: prod.split sum.split)
    have fewer: "has_job_of [] w' r j \<Longrightarrow> has_job_of [] w2 r j" for r j
      by (auto simp: has_job_of_def pending run w1_def split: if_splits)
    have keep: "has_job_of [] w2 r j \<Longrightarrow> r \<noteq> q \<Longrightarrow> has_job_of [] w' r j" for r j
      by (auto simp: has_job_of_def pending run w1_def)
    show ?thesis
      using fewer_jobs_keep [OF fewer store] ran keep run(3) unfolding n_def [symmetric] by blast
  qed
qed

text \<open>Every step keeps the writer in order, and no step but a newer write of the path loses track.\<close>

lemma writer_step_keeps:
  assumes S: "clash_free S" and ok: "writer_ok S [] w" and step: "writer_step T w w'" and T: "T \<subseteq> S"
  shows "writer_ok S [] w' \<and> (p \<in> S - T \<longrightarrow> tracks p v c [] w \<longrightarrow> tracks p v c [] w')"
  using step
proof cases
  case (Write q in_runtime tag c')
  then show ?thesis using write_lazy_keeps [OF S ok _ Write(1), of p v c] T by blast
next
  case (Due order now)
  have same: "has_job_of [] w' r job \<longleftrightarrow> has_job_of [] w r job" for r job
    unfolding Due write_due_def by (rule take_jobs_same) (auto simp: pending_jobs_set)
  have "pw_store w' = pw_store w" by (simp add: Due write_due_def take_jobs_def)
  from same_jobs_keep [OF same this] show ?thesis using ok by blast
next
  case (All order now)
  have same: "has_job_of [] w' r job \<longleftrightarrow> has_job_of [] w r job" for r job
    unfolding All write_all_def by (rule take_jobs_same) (auto simp: pending_jobs_set)
  have "pw_store w' = pw_store w" by (simp add: All write_all_def take_jobs_def)
  from same_jobs_keep [OF same this] show ?thesis using ok by blast
next
  case Ran
  show ?thesis
  proof (cases "pw_in_flight w")
    case (Cons x rest)
    obtain q job where x: "x = (q, job)" by (cases x)
    have same: "has_job_of [(q, job)] (w\<lparr>pw_in_flight := rest\<rparr>) r j \<longleftrightarrow> has_job_of [] w r j" for r j
      by (auto simp: has_job_of_def Cons x)
    note keep = same_jobs_keep [OF same, simplified]
    have "w' = run_job (q, job) (w\<lparr>pw_in_flight := rest\<rparr>)" using Ran Cons x by (simp add: job_ran_def)
    then show ?thesis 
      using run_keeps(1) [OF S, of q job "[]" "w\<lparr>pw_in_flight := rest\<rparr>"]
        run_keeps(2) [OF S, of q job "[]" "w\<lparr>pw_in_flight := rest\<rparr>" p v c] ok T
      by (auto simp: keep)
  qed (use Ran ok in \<open>simp add: job_ran_def\<close>)
next
  case (Close order)
  have same: "has_job_of [] (w\<lparr>pw_closed := True\<rparr>) r j \<longleftrightarrow> has_job_of [] w r j" for r j
    by (simp add: has_job_of_def)
  note keep = same_jobs_keep [OF same, simplified]
  show ?thesis using write_pending_keeps [OF S Close(2), where w = "w\<lparr>pw_closed := True\<rparr>" and p = p and v = v and c = c] ok
    by (simp add: Close(1) close_writer_def keep)
next
  case (Ended order)
  have same: "has_job_of [] (w\<lparr>pw_running := False\<rparr>) r j \<longleftrightarrow> has_job_of [] w r j" for r j
    by (simp add: has_job_of_def)
  note keep = same_jobs_keep [OF same, simplified]
  show ?thesis using write_pending_keeps [OF S Ended(2), where w = "w\<lparr>pw_running := False\<rparr>" and p = p and v = v and c = c] ok
    by (simp add: Ended(1) writer_task_ended_def keep)
qed


definition sample_writer :: persist_writer where
  "sample_writer =
     writer_new 250 \<lparr>ps_disk = \<lparr>dk_files = fmempty, dk_ops = 0, dk_fails = (\<lambda>_. False), dk_short = 0, dk_error = []\<rparr>,
                     ps_applied = fmempty, ps_next_version = 1\<rparr>"

text \<open>A write that is pending is replaced by a newer one, taken, and run.\<close>

definition sample_writes :: persist_writer where
  "sample_writes =
     job_ran (write_all sorted_list_of_fset 0
       (snd (write_lazy True [Normal ''h''] 2 (Inr ''new'')
         (snd (write_lazy True [Normal ''h''] 1 (Inr ''old'') sample_writer)))))"


end
