(* ===== verification/Profiles_Safe.thy ===== *)
theory Profiles_Safe
  imports Keyring Writer_Safe
begin

text \<open>
  What a checked draft guarantees of the profile it becomes, and the file of the connections as
  the implementation of two tables.
\<close>

section \<open>A checked draft\<close>

text \<open>What the form of a protocol allows of one option; \<^verbatim>\<open>None\<close> is an option that is not there.\<close>

definition option_fits :: "option_field \<Rightarrow> string option \<Rightarrow> bool" where
  "option_fits f v =
     (case v of
        None \<Rightarrow> of_kind f = SecretOption \<or> of_required f = False
      | Some text \<Rightarrow>
          text \<noteq> [] \<and>
          (case of_kind f of
             SecretOption \<Rightarrow> False
           | TextOption _ \<Rightarrow> True
           | ChoiceOption choices _ \<Rightarrow> text \<in> set (map co_value choices)
           | ToggleOption _ \<Rightarrow> text = ''true'' \<or> text = ''false''))"

definition secret_keys :: "connection_form \<Rightarrow> string set" where
  "secret_keys form = {of_key f | f. f \<in> set (fm_options form) \<and> of_kind f = SecretOption}"

text \<open>A profile that the form describes: this is the type a draft is checked against.\<close>

definition profile_fits :: "connection_form \<Rightarrow> connection_profile \<Rightarrow> bool" where
  "profile_fits form p \<longleftrightarrow>
     cp_name p \<noteq> [] \<and> (cm_required (fm_host form) \<longrightarrow> cp_host p \<noteq> []) \<and>
     (cm_required (fm_username form) \<longrightarrow> cp_username p \<noteq> []) \<and>
     (\<exists>port. cp_port p = Some port \<and> (port = po_default (fm_port form) \<or> 1 \<le> port \<and> port < 2 ^ 16)) \<and>
     (\<forall>f\<in>set (fm_options form). option_fits f (fmlookup (cp_options p) (of_key f))) \<and>
     set (cp_in_keyring p) \<subseteq> insert PASSWORD_MARKER (secret_keys form)"

lemma and_then_Inr: "and_then r f = Inr v \<longleftrightarrow> (\<exists>u. r = Inr u \<and> f u = Inr v)"
  by (cases r) (simp_all add: and_then_def)

lemma required_Inr: "required value label is_required = Inr u \<longleftrightarrow> (is_required \<longrightarrow> value \<noteq> [])"
  by (simp add: required_def)

lemma parse_u16_bounds: "parse_u16 text = Some n \<Longrightarrow> n < 2 ^ 16"
  by (auto simp: parse_u16_def Let_def split: if_splits)

lemma draft_port_bounds:
  "draft_port d form = Inr port \<Longrightarrow> port = po_default (fm_port form) \<or> 1 \<le> port \<and> port < 2 ^ 16"
  by (auto simp: draft_port_def Let_def dest: parse_u16_bounds split: if_splits option.splits)

text \<open>One field: its option fits, the others stay, and a secret is at most kept.\<close>

lemma take_option_fits:
  assumes "take_option d original f (ik, os) = Inr (ik', os')" and "fmlookup os (of_key f) = None"
  shows "option_fits f (fmlookup os' (of_key f)) \<and>
    (\<forall>k. k \<noteq> of_key f \<longrightarrow> fmlookup os' k = fmlookup os k) \<and>
    (ik' = ik \<or> ik' = ik @ [of_key f] \<and> of_kind f = SecretOption \<and> has_marker original (of_key f))"
proof (cases "of_kind f = SecretOption")
  case True
  then show ?thesis
    using assms by (auto simp: take_option_def Let_def and_then_Inr option_fits_def split: if_splits)
next
  case False
  define typed where "typed = trim (case fmlookup (pd_options d) (of_key f) of Some v \<Rightarrow> v | None \<Rightarrow> [])"
  show ?thesis
  proof (cases "typed = []")
    case True
    then have "\<not> of_required f"
      using assms(1) False by (auto simp: take_option_def Let_def and_then_Inr required_Inr typed_def [symmetric])
    then show ?thesis
      using assms False True
      by (auto simp: take_option_def Let_def and_then_Inr required_Inr typed_def [symmetric] option_fits_def)
  next
    case nonempty: False
    show ?thesis
      using assms False nonempty
      by (cases "of_kind f")
         (auto simp: take_option_def Let_def and_then_Inr required_Inr typed_def [symmetric] option_fits_def split: if_splits)
  qed
qed

lemma take_options_fit:
  assumes "take_options d original fs (ik, os) = Inr (ik', os')" and "distinct (map of_key fs)"
    and "\<And>f. f \<in> set fs \<Longrightarrow> fmlookup os (of_key f) = None"
  shows "(\<forall>f\<in>set fs. option_fits f (fmlookup os' (of_key f))) \<and>
    (\<forall>k. k \<notin> of_key ` set fs \<longrightarrow> fmlookup os' k = fmlookup os k) \<and>
    set ik' \<subseteq> set ik \<union> {of_key f | f. f \<in> set fs \<and> of_kind f = SecretOption \<and> has_marker original (of_key f)}"
  using assms
proof (induction fs arbitrary: ik os)
  case (Cons f fs)
  obtain ik1 os1 where one: "take_option d original f (ik, os) = Inr (ik1, os1)"
      and rest: "take_options d original fs (ik1, os1) = Inr (ik', os')"
    using Cons.prems(1) by (auto simp: and_then_Inr)
  have here: "option_fits f (fmlookup os1 (of_key f))" "\<And>k. k \<noteq> of_key f \<Longrightarrow> fmlookup os1 k = fmlookup os k"
      "ik1 = ik \<or> ik1 = ik @ [of_key f] \<and> of_kind f = SecretOption \<and> has_marker original (of_key f)"
    using take_option_fits [OF one] Cons.prems(3) by auto
  have later: "fmlookup os1 (of_key g) = None" if "g \<in> set fs" for g
  proof -
    have "of_key g \<noteq> of_key f" using that Cons.prems(2) by (metis distinct.simps(2) image_eqI list.simps(9) set_map)
    then show ?thesis using here(2) Cons.prems(3) [of g] that by simp
  qed
  have ih: "\<forall>f\<in>set fs. option_fits f (fmlookup os' (of_key f))"
      "\<forall>k. k \<notin> of_key ` set fs \<longrightarrow> fmlookup os' k = fmlookup os1 k"
      "set ik' \<subseteq> set ik1 \<union> {of_key f | f. f \<in> set fs \<and> of_kind f = SecretOption \<and> has_marker original (of_key f)}"
    using Cons.IH [OF rest] Cons.prems(2) later by simp_all
  have "of_key f \<notin> of_key ` set fs" using Cons.prems(2) by simp
  then have "fmlookup os' (of_key f) = fmlookup os1 (of_key f)" using ih(2) by blast
  then have "option_fits f (fmlookup os' (of_key f))" using here(1) by simp
  moreover have "fmlookup os' k = fmlookup os k" if "k \<notin> of_key ` set (f # fs)" for k
    using that ih(2) here(2) by auto
  moreover have "set ik1 \<subseteq> set ik \<union> {of_key g | g. g \<in> set (f # fs) \<and> of_kind g = SecretOption \<and> has_marker original (of_key g)}"
    using here(3) by auto
  ultimately show ?case using ih(1,3) by auto
qed simp

text \<open>(C24) A draft that passes the check gives a profile of the form: it has a name, and a host and a user
  where the form asks for them; its port is a number of a port or the protocol's own; every option
  has a value its kind allows and every required one is there; no secret is among the options; and the
  markers of secrets in the keyring are those the connection had before.\<close>

theorem validated_draft_fits:
  assumes "validate_draft d form preserve_from = Inr p"
    and "distinct (map of_key (fm_options form))" and "reserved_key_collisions form = []"
  shows "profile_fits form p \<and> cp_protocol p = pd_protocol d \<and>
    set (cp_in_keyring p) \<subseteq> set (case preserve_from of None \<Rightarrow> [] | Some e \<Rightarrow> ce_in_keyring e)"
proof -
  define original where "original = (case preserve_from of
      None \<Rightarrow> None | Some e \<Rightarrow> if ce_protocol e = pd_protocol d then Some e else None)"
  define kept where "kept = (if has_marker original PASSWORD_MARKER \<and> pd_password d = Keep then [PASSWORD_MARKER] else [])"
  define before where "before = (case original of None \<Rightarrow> fmempty
      | Some e \<Rightarrow> fmfilter (\<lambda>key. key \<noteq> REMOTE_PATH \<and> form_option form key = None) (ce_options e))"
  obtain port ik os where port: "draft_port d form = Inr port"
      and taken: "take_options d original (fm_options form) (kept, before) = Inr (ik, os)"
      and names: "trim (pd_name d) \<noteq> []" "cm_required (fm_host form) \<longrightarrow> trim (pd_host d) \<noteq> []"
        "cm_required (fm_username form) \<longrightarrow> trim (pd_username d) \<noteq> []"
      and p: "cp_name p = trim (pd_name d)" "cp_protocol p = pd_protocol d" "cp_host p = trim (pd_host d)"
        "cp_port p = Some port" "cp_username p = trim (pd_username d)" "cp_in_keyring p = ik"
        "cp_options p = (if trim (pd_remote_path d) \<noteq> [] then fmupd REMOTE_PATH (trim (pd_remote_path d)) os else os)"
    using assms(1) unfolding validate_draft_def Let_def original_def [symmetric]
    by (auto simp: and_then_Inr required_Inr kept_def [symmetric] before_def [symmetric])
  have "fmlookup before (of_key f) = None" if f: "f \<in> set (fm_options form)" for f
    using f by (auto simp: before_def form_option_def find_None_iff split: option.split)
  from take_options_fit [OF taken assms(2) this]
  have fits: "\<forall>f\<in>set (fm_options form). option_fits f (fmlookup os (of_key f))"
      and ik: "set ik \<subseteq> set kept \<union> {of_key f | f. f \<in> set (fm_options form) \<and> of_kind f = SecretOption \<and> has_marker original (of_key f)}"
    by simp_all
  have not_path: "of_key f \<noteq> REMOTE_PATH" if "f \<in> set (fm_options form)" for f
    using that assms(3) by (auto simp: reserved_key_collisions_def filter_empty_conv RESERVED_KEYS_def REMOTE_PATH_def)
  have same: "fmlookup (cp_options p) (of_key f) = fmlookup os (of_key f)" if "f \<in> set (fm_options form)" for f
    using not_path [OF that] by (simp add: p(7))
  have "\<forall>f\<in>set (fm_options form). option_fits f (fmlookup (cp_options p) (of_key f))"
    using fits same by simp
  moreover have "set kept \<subseteq> {PASSWORD_MARKER}" by (auto simp: kept_def)
  then have "set (cp_in_keyring p) \<subseteq> insert PASSWORD_MARKER (secret_keys form)"
    using ik by (auto simp: p secret_keys_def)
  ultimately have "profile_fits form p"
    using draft_port_bounds [OF port] names by (auto simp: profile_fits_def p)
  moreover have "set (cp_in_keyring p) \<subseteq> set (case preserve_from of None \<Rightarrow> [] | Some e \<Rightarrow> ce_in_keyring e)"
    using ik by (auto simp: p kept_def original_def has_marker_def split: option.splits if_splits)
  ultimately show ?thesis by (simp add: p)
qed

definition sample_form :: connection_form where
  "sample_form = (standard_form 22)\<lparr>fm_options :=
     [\<lparr>of_key = ''mode'', of_label = ''Mode'', of_required = True,
       of_kind = ChoiceOption [\<lparr>co_value = ''active'', co_label = ''Active''\<rparr>] ''active''\<rparr>,
      \<lparr>of_key = ''token'', of_label = ''Token'', of_required = False, of_kind = SecretOption\<rparr>]\<rparr>"

definition sample_draft :: profile_draft where
  "sample_draft =
     \<lparr>pd_protocol = ''ftp'', pd_name = '' web '', pd_host = ''h'', pd_port = [], pd_username = ''me'',
      pd_password = Keep, pd_remote_path = [], pd_group = [], pd_tags = [],
      pd_options = fmupd ''mode'' ''active'' fmempty, pd_secret_options = fmupd ''token'' (Replace ''t'') fmempty\<rparr>"

definition sample_profile :: connection_profile where
  "sample_profile =
     \<lparr>cp_name = ''web'', cp_protocol = ''ftp'', cp_host = ''h'', cp_port = Some 22, cp_username = ''me'',
      cp_group = None, cp_tags = [], cp_in_keyring = [], cp_options = fmupd ''mode'' ''active'' fmempty\<rparr>"

lemma sample_draft_valid: "validate_draft sample_draft sample_form None = Inr sample_profile"
proof -
  have "trim (pd_name sample_draft) = ''web''" "trim (pd_host sample_draft) = ''h''" "trim (pd_username sample_draft) = ''me''"
    "trim (pd_remote_path sample_draft) = []" "normalize_group (pd_group sample_draft) = None" "parse_tags (pd_tags sample_draft) = []"
    "draft_port sample_draft sample_form = Inr 22" "trim ''active'' = ''active''" "trim ''t'' = ''t''"
    by code_simp+
  then show ?thesis
    by (simp add: validate_draft_def Let_def sample_form_def standard_form_def sample_draft_def sample_profile_def take_option_def
        required_def required_secret_def and_then_def has_marker_def)
qed

lemma validated_draft_fits_witness: "profile_fits sample_form sample_profile"
  using validated_draft_fits [OF sample_draft_valid]
  by (simp add: sample_form_def reserved_key_collisions_def RESERVED_KEYS_def)

section \<open>The file as two tables\<close>

text \<open>
  What the callers of \<^verbatim>\<open>profiles/store\<close> rely on is two tables, the saved connections and the labels
  of hosts of the ssh configuration; the operations of the module, and what each does to them.
\<close>

record tables =
  ta_profiles :: "string \<Rightarrow> connection_profile option"
  ta_hosts :: "string \<Rightarrow> labels option"

datatype store_op =
    SaveProfileOp connection_profile
  | DeleteProfileOp string
  | SaveLabelsOp string labels
  | ProfileMarkersOp string "string list"
  | SshMarkersOp string "string list"
  | MoveLabelsOp string string
  | ForgetLabelsOp string

fun run_store_op :: "config_codec \<Rightarrow> path \<Rightarrow> store_op \<Rightarrow> unit stored" where
  "run_store_op codec p (SaveProfileOp profile) st = save_profile_to codec p profile st"
| "run_store_op codec p (DeleteProfileOp name) st = delete_profile_from codec p name st"
| "run_store_op codec p (SaveLabelsOp name l) st = save_ssh_labels_to codec p name l st"
| "run_store_op codec p (ProfileMarkersOp name markers) st =
     (case set_profile_markers codec p name markers st of (r, st) \<Rightarrow> (map_sum id (\<lambda>_. ()) r, st))"
| "run_store_op codec p (SshMarkersOp alias markers) st = set_ssh_markers codec p alias markers st"
| "run_store_op codec p (MoveLabelsOp from_name to_name) st = move_ssh_labels_in codec p from_name to_name st"
| "run_store_op codec p (ForgetLabelsOp name) st = forget_ssh_labels_in codec p name st"

text \<open>A profile in the table: a password in the options is never kept there.\<close>

definition tabled :: "string \<Rightarrow> connection_profile \<Rightarrow> connection_profile" where
  "tabled name p = p\<lparr>cp_name := name, cp_options := fmdrop PASSWORD_MARKER (cp_options p)\<rparr>"

definition put_host :: "string \<Rightarrow> labels \<Rightarrow> tables \<Rightarrow> tables" where
  "put_host name l t = t\<lparr>ta_hosts := (ta_hosts t)(name := (if labels_empty l then None else Some l))\<rparr>"

fun apply_store_op :: "store_op \<Rightarrow> tables \<Rightarrow> tables" where
  "apply_store_op (SaveProfileOp p) t = t\<lparr>ta_profiles := (ta_profiles t)(cp_name p \<mapsto> tabled (cp_name p) p)\<rparr>"
| "apply_store_op (DeleteProfileOp name) t = t\<lparr>ta_profiles := (ta_profiles t)(name := None)\<rparr>"
| "apply_store_op (SaveLabelsOp name l) t =
     put_host name (l\<lparr>lb_in_keyring := (case ta_hosts t name of Some r \<Rightarrow> lb_in_keyring r | None \<Rightarrow> [])\<rparr>) t"
| "apply_store_op (ProfileMarkersOp name markers) t =
     t\<lparr>ta_profiles := (ta_profiles t)(name := map_option (\<lambda>p. p\<lparr>cp_in_keyring := markers\<rparr>) (ta_profiles t name))\<rparr>"
| "apply_store_op (SshMarkersOp alias markers) t =
     put_host alias ((case ta_hosts t alias of Some r \<Rightarrow> r | None \<Rightarrow> labels_default)\<lparr>lb_in_keyring := markers\<rparr>) t"
| "apply_store_op (MoveLabelsOp from_name to_name) t =
     (case ta_hosts t from_name of
        None \<Rightarrow> t
      | Some l \<Rightarrow> t\<lparr>ta_hosts := (ta_hosts t)(from_name := None, to_name := Some l)\<rparr>)"
| "apply_store_op (ForgetLabelsOp name) t = t\<lparr>ta_hosts := (ta_hosts t)(name := None)\<rparr>"

text \<open>The tables a file stands for, and those of the file on the disk, if it can be read.\<close>

definition tables_of :: "config_file \<Rightarrow> tables" where
  "tables_of f =
     \<lparr>ta_profiles = (\<lambda>name. map_option (tabled name) (fmlookup (cf_connections f) name)),
      ta_hosts = fmlookup (cf_ssh_hosts f)\<rparr>"

definition store_view :: "config_codec \<Rightarrow> path \<Rightarrow> persist \<Rightarrow> tables option" where
  "store_view codec p st =
     (case fmlookup (dk_files (ps_disk st)) p of
        None \<Rightarrow> Some (tables_of config_default)
      | Some text \<Rightarrow>
          if cc_is_utf8 codec text
          then (case cc_parse codec text of Inl _ \<Rightarrow> None | Inr f \<Rightarrow> Some (tables_of f))
          else None)"

text \<open>
  What the TOML library promises: text it has printed can be read, and gives what was printed
  back, without the names, which are the keys of the table and not printed again.
\<close>

definition codec_ok :: "config_codec \<Rightarrow> bool" where
  "codec_ok codec \<longleftrightarrow>
     (\<forall>f text. cc_render codec f = Inr text \<longrightarrow> cc_is_utf8 codec text \<and>
        cc_parse codec text = Inr (f\<lparr>cf_connections := fmmap (\<lambda>p. p\<lparr>cp_name := []\<rparr>) (cf_connections f)\<rparr>))"

lemma tabled_idem [simp]:
  "tabled name (tabled name' p) = tabled name p" "tabled name (profile_of_stored p) = tabled name p"
  "tabled name (p\<lparr>cp_name := n\<rparr>) = tabled name p"
  "tabled name (p\<lparr>cp_in_keyring := ms\<rparr>) = (tabled name p)\<lparr>cp_in_keyring := ms\<rparr>"
  by (simp_all add: tabled_def profile_of_stored_def)

lemma tables_of_renamed:
  "tables_of (f\<lparr>cf_connections := fmmap (\<lambda>p. p\<lparr>cp_name := []\<rparr>) (cf_connections f)\<rparr>) = tables_of f"
  "tables_of (f\<lparr>cf_connections := fmmap profile_of_stored (cf_connections f)\<rparr>) = tables_of f"
  by (auto simp: tables_of_def fun_eq_iff option.map_comp comp_def)

lemma read_text_view:
  "read_text is_utf8 p st = (r, st') \<Longrightarrow> dk_files (ps_disk st') = dk_files (ps_disk st)"
  by (auto simp: read_text_def disk_try_def)

lemma read_config_view:
  assumes "read_config_file codec p st = (r, st')"
  shows "store_view codec p st' = store_view codec p st \<and>
    (case r of Inl _ \<Rightarrow> True | Inr f \<Rightarrow> store_view codec p st = Some (tables_of f))"
proof -
  obtain t st1 where t: "read_text (cc_is_utf8 codec) p st = (t, st1)" by fastforce
  have files: "dk_files (ps_disk st1) = dk_files (ps_disk st)" by (rule read_text_view [OF t])
  then have "store_view codec p st1 = store_view codec p st" by (simp add: store_view_def)
  moreover have "st' = st1" using assms t by (cases t) (auto simp: read_config_file_def)
  moreover have "case r of Inl _ \<Rightarrow> True | Inr f \<Rightarrow> store_view codec p st = Some (tables_of f)"
    using assms t
    by (auto simp: read_config_file_def read_text_def disk_try_def store_view_def and_then_def tables_of_renamed
        split: option.splits if_splits sum.splits)
  ultimately show ?thesis by simp
qed

lemma write_config_view:
  assumes "write_config_file codec p f st = (r, st')" and "codec_ok codec" and "file_name p \<noteq> None"
  shows "store_view codec p st' = (case r of Inl _ \<Rightarrow> store_view codec p st | Inr _ \<Rightarrow> Some (tables_of f))"
proof (cases "cc_render codec f")
  case (Inr content)
  obtain w d where w: "write_file p content (ps_disk st) = (w, d)" by fastforce
  have neq: "with_suffix p ''.tmp'' \<noteq> p"
    using assms(3) unfolding with_suffix_def by (intro push_suffix_neq) simp_all
  have r: "r = w" "dk_files (ps_disk st') = dk_files d"
    using assms(1) Inr w by (auto simp: write_config_file_def write_atomic_def write_locked_def Let_def)
  have "fmlookup (dk_files d) p = (case w of Inl _ \<Rightarrow> fmlookup (dk_files (ps_disk st)) p | Inr _ \<Rightarrow> Some content)"
    using write_file_effect [OF w neq] neq [symmetric] by (cases w) simp_all
  then show ?thesis
    using r Inr assms(2) by (cases w) (simp_all add: store_view_def codec_ok_def tables_of_renamed)
qed (use assms(1) in \<open>auto simp: write_config_file_def\<close>)

lemma change_config_view:
  assumes "change_config_file codec p change st = (r, st')" and "codec_ok codec" and "file_name p \<noteq> None"
    and "store_view codec p st = Some t" and "\<And>f. tables_of f = t \<Longrightarrow> tables_of (change f) = t'"
  shows "store_view codec p st' = Some (case r of Inl _ \<Rightarrow> t | Inr _ \<Rightarrow> t')"
proof -
  obtain r1 st1 where r1: "read_config_file codec p st = (r1, st1)" by fastforce
  show ?thesis
  proof (cases r1)
    case (Inl err)
    then show ?thesis
      using assms(1,4) r1 read_config_view [OF r1] by (auto simp: change_config_file_def)
  next
    case (Inr f)
    then have w: "write_config_file codec p (change f) st1 = (r, st')"
      using assms(1) r1 by (simp add: change_config_file_def)
    have "store_view codec p st1 = Some t" "tables_of f = t"
      using read_config_view [OF r1] assms(4) Inr by simp_all
    then show ?thesis
      using write_config_view [OF w assms(2,3)] assms(5) by (cases r) simp_all
  qed
qed

lemma profile_markers_view:
  assumes "set_profile_markers codec p name markers st = (r, st')" and "codec_ok codec" and "file_name p \<noteq> None"
    and "store_view codec p st = Some t"
  shows "store_view codec p st' =
    Some (case r of Inl _ \<Rightarrow> t | Inr _ \<Rightarrow> apply_store_op (ProfileMarkersOp name markers) t)"
proof -
  obtain r1 st1 where r1: "read_config_file codec p st = (r1, st1)" by fastforce
  show ?thesis
  proof (cases r1)
    case (Inl err)
    then show ?thesis
      using assms(1,4) r1 read_config_view [OF r1] by (auto simp: set_profile_markers_def)
  next
    case (Inr f)
    have view: "store_view codec p st1 = Some t" "tables_of f = t"
      using read_config_view [OF r1] assms(4) Inr by simp_all
    show ?thesis
    proof (cases "fmlookup (cf_connections f) name")
      case None
      then have "apply_store_op (ProfileMarkersOp name markers) t = t"
        by (simp add: view(2) [symmetric] tables_of_def fun_upd_idem)
      then show ?thesis using assms(1) r1 Inr None view(1) by (auto simp: set_profile_markers_def)
    next
      case (Some profile)
      let ?f = "f\<lparr>cf_connections := fmupd name (profile\<lparr>cp_in_keyring := markers\<rparr>) (cf_connections f)\<rparr>"
      obtain r2 where w: "write_config_file codec p ?f st1 = (r2, st')"
          and r: "case r2 of Inl err \<Rightarrow> r = Inl err | Inr _ \<Rightarrow> r = Inr True"
        using assms(1) r1 Inr Some by (auto simp: set_profile_markers_def split: prod.splits sum.splits)
      have "tables_of ?f = apply_store_op (ProfileMarkersOp name markers) t"
        using Some by (simp add: view(2) [symmetric] tables_of_def fun_eq_iff)
      then show ?thesis
        using write_config_view [OF w assms(2,3)] view(1) r by (cases r2) simp_all
    qed
  qed
qed

lemma put_labels_view: "tables_of (put_labels name l f) = put_host name l (tables_of f)"
  by (simp add: tables_of_def put_labels_def put_host_def fun_eq_iff)


text \<open>A library that prints one file, the one with the profile of the example.\<close>

definition sample_file :: config_file where
  "sample_file = \<lparr>cf_connections = fmupd ''web'' sample_profile fmempty, cf_ssh_hosts = fmempty\<rparr>"

definition one_file_codec :: config_codec where
  "one_file_codec =
     \<lparr>cc_is_utf8 = (\<lambda>_. True),
      cc_parse = (\<lambda>_. Inr (sample_file\<lparr>cf_connections := fmmap (\<lambda>p. p\<lparr>cp_name := []\<rparr>) (cf_connections sample_file)\<rparr>)),
      cc_render = (\<lambda>f. if cp_name (the (fmlookup (cf_connections f) ''web'')) = ''web'' \<and> f = sample_file
                       then Inr ''toml'' else Inl ''not printed'')\<rparr>"

definition empty_disk :: persist where
  "empty_disk =
     \<lparr>ps_disk = \<lparr>dk_files = fmempty, dk_ops = 0, dk_fails = (\<lambda>_. False), dk_short = 0, dk_error = []\<rparr>,
      ps_applied = fmempty, ps_next_version = 1\<rparr>"


end
