(* ===== verification/Keyring_Safe.thy ===== *)
theory Keyring_Safe
  imports Profiles_Safe Desk_Profiles
begin

text \<open>
  After a job of changes, each marker that the file will keep stands for a secret the keyring
  holds, whichever calls of the keyring fail or come too late.
\<close>

section \<open>Accounts of a profile\<close>

text \<open>A marker is the key of an option, an identifier of the program, or stands for the password.\<close>

definition marker_ok :: "string \<Rightarrow> bool" where
  "marker_ok m \<longleftrightarrow> CHR '':'' \<notin> set m"

lemma profile_account_inj:
  assumes "marker_ok m" and "marker_ok m'"
  shows "profile_account name m = profile_account name' m' \<longleftrightarrow> name = name' \<and> m = m'"
proof -
  let ?key = "\<lambda>n k. ProfileSecret n (if k = PASSWORD_MARKER then PasswordField else OptionSecret k)"
  have "key_ok (?key name m)" "key_ok (?key name' m')" using assms by (simp_all add: marker_ok_def)
  then show ?thesis unfolding profile_account_def by (subst account_inj) auto
qed

section \<open>The loops of a job\<close>

context keyring
begin

lemma same_secrets_refl [simp]: "same_secrets s s"
  by (simp add: same_secrets_def)

lemma same_secrets_trans: "same_secrets s s' \<Longrightarrow> same_secrets s' s'' \<Longrightarrow> same_secrets s s''"
  by (simp add: same_secrets_def)

definition in_turn :: "'w secrets \<Rightarrow> bool" where
  "in_turn s \<longleftrightarrow> sc_backend s = Some backend \<and> sc_available s"

lemma in_turn_same: "same_secrets s s' \<Longrightarrow> in_turn s \<Longrightarrow> in_turn s'"
  by (simp add: in_turn_def same_secrets_def)

lemma moved_markers:
  assumes "move_markers old name ms (rollback, errors) s w = ((rollback', errors'), s', w')" and "in_turn s"
    and "old \<noteq> name" and "distinct ms" and "list_all marker_ok ms"
    and "\<forall>m\<in>set ms. holds w (profile_account old m) \<noteq> None"
  shows "in_turn s' \<and> set rollback \<subseteq> set rollback' \<and> set rollback' \<subseteq> set rollback \<union> set ms \<and>
    (\<forall>m\<in>set ms. m \<in> set rollback' \<or> holds w' (profile_account name m) = holds w (profile_account old m)) \<and>
    (\<forall>k. (\<forall>m\<in>set ms. k \<noteq> profile_account old m \<and> k \<noteq> profile_account name m) \<longrightarrow> holds w' k = holds w k)"
  using assms
proof (induction ms arbitrary: rollback errors s w)
  case (Cons m ms)
  obtain r s1 w1 where mv: "move_keyring (profile_account old m) (profile_account name m) s w = (r, s1, w1)"
    by (metis prod_cases3)
  have ok: "marker_ok m" "\<And>m'. m' \<in> set ms \<Longrightarrow> marker_ok m'" using Cons.prems(5) by (auto simp: list_all_iff)
  have apart: "profile_account old m \<noteq> profile_account name m" using ok(1) Cons.prems(3) by (simp add: profile_account_inj)
  have law: "same_secrets s s1" "\<And>k. k \<noteq> profile_account old m \<Longrightarrow> k \<noteq> profile_account name m \<Longrightarrow> holds w1 k = holds w k"
      "r = Inr () \<Longrightarrow> holds w1 (profile_account name m) = holds w (profile_account old m)"
    using move_law [OF mv _ apart] Cons.prems(2,6) by (auto simp: in_turn_def)
  have turn: "in_turn s1" using law(1) Cons.prems(2) by (rule in_turn_same)
  define rb where "rb = (case r of Inr _ \<Rightarrow> rollback | Inl _ \<Rightarrow> rollback @ [m])"
  obtain es where rest: "move_markers old name ms (rb, es) s1 w1 = ((rollback', errors'), s', w')"
    using Cons.prems(1) mv by (cases r) (auto simp: rb_def)
  have others: "profile_account old m' \<noteq> profile_account old m" "profile_account old m' \<noteq> profile_account name m"
      "profile_account name m' \<noteq> profile_account old m" "profile_account name m' \<noteq> profile_account name m"
    if "m' \<in> set ms" for m'
    using that ok Cons.prems(3,4) by (auto simp: profile_account_inj)
  have there: "\<forall>m'\<in>set ms. holds w1 (profile_account old m') \<noteq> None"
    using law(2) others Cons.prems(6) by simp
  have "distinct ms" "list_all marker_ok ms" using Cons.prems(4,5) by simp_all
  note IH = Cons.IH [OF rest turn Cons.prems(3) this there]
  note ih = IH [THEN conjunct1] IH [THEN conjunct2, THEN conjunct1] IH [THEN conjunct2, THEN conjunct2, THEN conjunct1]
    IH [THEN conjunct2, THEN conjunct2, THEN conjunct2, THEN conjunct1, THEN bspec]
    IH [THEN conjunct2, THEN conjunct2, THEN conjunct2, THEN conjunct2, THEN spec, THEN mp]
  have "m \<in> set rollback' \<or> holds w' (profile_account name m) = holds w (profile_account old m)"
  proof (cases r)
    case (Inl err)
    then show ?thesis using ih(2) by (auto simp: rb_def)
  next
    case (Inr u)
    have "holds w' (profile_account name m) = holds w1 (profile_account name m)"
    proof (rule ih(5), intro ballI conjI)
      fix m' assume m': "m' \<in> set ms"
      show "profile_account name m \<noteq> profile_account old m'" "profile_account name m \<noteq> profile_account name m'"
        using others(2,4) [OF m'] by simp_all
    qed
    then show ?thesis using law(3) Inr by simp
  qed
  moreover have "m' \<in> set rollback' \<or> holds w' (profile_account name m') = holds w (profile_account old m')" if "m' \<in> set ms" for m'
    using ih(4) [OF that] law(2) others [OF that] by simp
  moreover have "holds w' k = holds w k" if "\<forall>m'\<in>set (m # ms). k \<noteq> profile_account old m' \<and> k \<noteq> profile_account name m'" for k
    using ih(5) [of k] law(2) [of k] that by simp
  moreover have "set rollback \<subseteq> set rollback'" "set rollback' \<subseteq> set rollback \<union> set (m # ms)"
    using ih(2,3) by (cases r; auto simp: rb_def)+
  ultimately show ?case using ih(1) by simp
qed simp

lemma written_markers:
  assumes "write_markers_to name xs (rollback, errors) s w = ((rollback', errors'), s', w')" and "in_turn s"
    and "distinct (map fst xs)" and "list_all marker_ok (map fst xs)"
  shows "in_turn s' \<and> set rollback \<subseteq> set rollback' \<and>
    (\<forall>(m, secret)\<in>set xs. m \<in> set rollback' \<or> holds w' (profile_account name m) = Some secret) \<and>
    (\<forall>k. (\<forall>m\<in>fst ` set xs. k \<noteq> profile_account name m) \<longrightarrow> holds w' k = holds w k)"
  using assms
proof (induction xs arbitrary: rollback errors s w)
  case (Cons x xs)
  obtain m secret where x: "x = (m, secret)" by fastforce
  obtain r s1 w1 where wr: "write_keyring (profile_account name m) secret s w = (r, s1, w1)" by (metis prod_cases3)
  have law: "same_secrets s s1" "\<And>k. k \<noteq> profile_account name m \<Longrightarrow> holds w1 k = holds w k"
      "r = Inr True \<Longrightarrow> holds w1 (profile_account name m) = Some secret"
    using write_law [OF wr] Cons.prems(2) by (auto simp: in_turn_def)
  have turn: "in_turn s1" using law(1) Cons.prems(2) by (rule in_turn_same)
  define rb where "rb = (if r = Inr True then rollback else rollback @ [m])"
  obtain es where rest: "write_markers_to name xs (rb, es) s1 w1 = ((rollback', errors'), s', w')"
    using Cons.prems(1) wr by (cases r) (auto simp: rb_def x split: bool.splits)
  have others: "profile_account name m' \<noteq> profile_account name m" if "m' \<in> fst ` set xs" for m'
  proof -
    have "m' \<noteq> m" "marker_ok m" "marker_ok m'" using that Cons.prems(3,4) by (auto simp: x list_all_iff)
    then show ?thesis by (simp add: profile_account_inj)
  qed
  have ih: "in_turn s'" "set rb \<subseteq> set rollback'"
      "\<forall>(m, secret)\<in>set xs. m \<in> set rollback' \<or> holds w' (profile_account name m) = Some secret"
      "\<And>k. (\<forall>m\<in>fst ` set xs. k \<noteq> profile_account name m) \<Longrightarrow> holds w' k = holds w1 k"
    using Cons.IH [OF rest turn] Cons.prems(3,4) by auto
  have "m \<in> set rollback' \<or> holds w' (profile_account name m) = Some secret"
  proof (cases "r = Inr True")
    case True
    have "holds w' (profile_account name m) = holds w1 (profile_account name m)"
      by (rule ih(4)) (use others in force)
    then show ?thesis using law(3) True by simp
  next
    case False
    then show ?thesis using ih(2) by (simp add: rb_def)
  qed
  moreover have "holds w' k = holds w k" if "\<forall>m'\<in>fst ` set (x # xs). k \<noteq> profile_account name m'" for k
    using ih(4) [of k] law(2) [of k] that by (simp add: x)
  moreover have "set rollback \<subseteq> set rollback'" using ih(2) by (auto simp: rb_def split: if_splits)
  ultimately show ?case using ih(1,3) by (auto simp: x)
qed simp

lemma erased_markers:
  assumes "erase_markers name ms errors s w = (errors', s', w')" and "in_turn s"
  shows "in_turn s' \<and> (\<forall>k. (\<forall>m\<in>set ms. k \<noteq> profile_account name m) \<longrightarrow> holds w' k = holds w k)"
  using assms
proof (induction ms arbitrary: errors s w)
  case (Cons m ms)
  obtain r s1 w1 where er: "erase_keyring (profile_account name m) s w = (r, s1, w1)" by (metis prod_cases3)
  have law: "same_secrets s s1" "\<And>k. k \<noteq> profile_account name m \<Longrightarrow> holds w1 k = holds w k"
    using erase_law [OF er] Cons.prems(2) by (auto simp: in_turn_def)
  obtain es where "erase_markers name ms es s1 w1 = (errors', s', w')"
    using Cons.prems(1) er by (cases r) auto
  from Cons.IH [OF this in_turn_same [OF law(1) Cons.prems(2)]] show ?case
    using law(2) by auto
qed simp

end

section \<open>The whole job\<close>

lemma map_filter_none: "list_all (\<lambda>x. f x \<noteq> None) xs \<Longrightarrow> List.map_filter f xs = map (the \<circ> f) xs"
  by (induction xs) (auto simp: map_filter_simps)

lemma fmap_entries_fst: "map fst (fmap_entries m) = sorted_list_of_fset (fmdom m)"
proof -
  have "list_all (\<lambda>k. map_option (Pair k) (fmlookup m k) \<noteq> None) (sorted_list_of_fset (fmdom m))"
    by (auto simp: list_all_iff fmlookup_dom_iff)
  then have "fmap_entries m = map (\<lambda>k. (k, the (fmlookup m k))) (sorted_list_of_fset (fmdom m))"
    by (auto simp: fmap_entries_def map_filter_none fmlookup_dom_iff)
  then show ?thesis by (simp add: comp_def)
qed

lemma in_fmap_entries: "(k, v) \<in> set (fmap_entries m) \<longleftrightarrow> fmlookup m k = Some v"
  by (auto simp: fmap_entries_def in_map_filter fmlookup_dom_iff)

text \<open>
  \<^verbatim>\<open>remaining\<close> is what the file keeps when the result of the job is handled, if nobody else has
  changed the markers meanwhile.
\<close>

definition remaining :: "secret_changes \<Rightarrow> keyring_done \<Rightarrow> string list" where
  "remaining c done_now = filter (\<lambda>m. m \<notin> set (kd_rollback done_now)) (new_markers c)"

definition changes_ok :: "secret_changes \<Rightarrow> bool" where
  "changes_ok c \<longleftrightarrow> ch_renamed_from c \<noteq> Some (ch_name c) \<and> distinct (ch_saved_before c) \<and>
     list_all marker_ok (ch_saved_before c) \<and> list_all marker_ok (sorted_list_of_fset (fmdom (ch_replaced c))) \<and>
     set (ch_kept c) \<subseteq> set (ch_saved_before c)"

context keyring
begin

lemma job_markers:
  assumes "in_turn s" and "changes_ok c"
    and "\<forall>m\<in>set (ch_saved_before c).
           holds w (profile_account (case ch_renamed_from c of Some old \<Rightarrow> old | None \<Rightarrow> ch_name c) m) \<noteq> None"
    and "apply_changes_job job c (dropped_markers c) s w = (done_now, s', w')"
    and "m \<in> set (remaining c done_now)"
  shows "holds w' (profile_account (ch_name c) m) \<noteq> None \<and>
    (case fmlookup (ch_replaced c) m of None \<Rightarrow> True | Some secret \<Rightarrow> holds w' (profile_account (ch_name c) m) = Some secret)"
proof -
  let ?acc = "profile_account (ch_name c)"
  obtain rb1 es1 s1 w1 where moved: "(case ch_renamed_from c of None \<Rightarrow> (([], []), s, w)
      | Some old \<Rightarrow> move_markers old (ch_name c) (ch_saved_before c) ([], []) s w) = ((rb1, es1), s1, w1)"
    by (metis prod.collapse)
  obtain rb2 es2 s2 w2 where written: "write_markers_to (ch_name c) (fmap_entries (ch_replaced c)) (rb1, es1) s1 w1 = ((rb2, es2), s2, w2)"
    by (metis prod.collapse)
  obtain es3 where erased: "erase_markers (ch_name c) (dropped_markers c) es2 s2 w2 = (es3, s', w')"
      and rollback: "kd_rollback done_now = rb2"
    using assms(4) moved written by (auto simp: apply_changes_job_def split: prod.splits)
  have ok: "distinct (ch_saved_before c)" "list_all marker_ok (ch_saved_before c)"
      "list_all marker_ok (map fst (fmap_entries (ch_replaced c)))" "set (ch_kept c) \<subseteq> set (ch_saved_before c)"
    using assms(2) by (simp_all add: changes_ok_def fmap_entries_fst)
  have first: "in_turn s1 \<and> (\<forall>m\<in>set (ch_saved_before c). m \<in> set rb1 \<or> holds w1 (?acc m) \<noteq> None)"
  proof (cases "ch_renamed_from c")
    case None
    then show ?thesis using moved assms(1,3) by simp
  next
    case (Some old)
    then have "old \<noteq> ch_name c" using assms(2) by (auto simp: changes_ok_def)
    moreover have "\<forall>m\<in>set (ch_saved_before c). holds w (profile_account old m) \<noteq> None" using assms(3) Some by simp
    ultimately show ?thesis
      using moved_markers [of old "ch_name c" "ch_saved_before c" "[]" "[]" s w rb1 es1 s1 w1] moved Some ok(1,2) assms(1)
      by fastforce
  qed
  have second: "in_turn s2 \<and> set rb1 \<subseteq> set rb2 \<and>
      (\<forall>(m, secret)\<in>set (fmap_entries (ch_replaced c)). m \<in> set rb2 \<or> holds w2 (?acc m) = Some secret) \<and>
      (\<forall>k. (\<forall>m\<in>fst ` set (fmap_entries (ch_replaced c)). k \<noteq> ?acc m) \<longrightarrow> holds w2 k = holds w1 k)"
    by (rule written_markers [OF written conjunct1 [OF first] _ ok(3)]) (simp add: fmap_entries_fst)
  have third: "\<And>k. (\<forall>m\<in>set (dropped_markers c). k \<noteq> ?acc m) \<Longrightarrow> holds w' k = holds w2 k"
    using erased_markers [OF erased] second by blast
  have m: "m \<in> set (new_markers c)" "m \<notin> set rb2" using assms(5) by (simp_all add: remaining_def rollback)
  have m_ok: "marker_ok m"
    using m(1) ok assms(2) by (auto simp: new_markers_def changes_ok_def list_all_iff)
  have "?acc m \<noteq> ?acc m'" if "m' \<in> set (dropped_markers c)" for m'
  proof -
    have "marker_ok m'" "m' \<noteq> m"
      using that ok(2) m(1) by (auto simp: dropped_markers_def list_all_iff new_markers_def fmlookup_dom_iff)
    then show ?thesis using m_ok by (simp add: profile_account_inj)
  qed
  then have kept: "holds w' (?acc m) = holds w2 (?acc m)" using third by simp
  show ?thesis
  proof (cases "fmlookup (ch_replaced c) m")
    case (Some secret)
    then have "holds w2 (?acc m) = Some secret" using second m(2) by (auto simp: in_fmap_entries)
    then show ?thesis using Some kept by simp
  next
    case None
    then have kept_m: "m \<in> set (ch_saved_before c)"
      using m(1) ok(4) by (auto simp: new_markers_def fmlookup_dom_iff)
    have "?acc m \<noteq> ?acc m'" if "m' \<in> fst ` set (fmap_entries (ch_replaced c))" for m'
    proof -
      have "m' \<noteq> m" using that None by (auto simp: in_fmap_entries)
      moreover have "marker_ok m'" using that ok(3) by (auto simp: list_all_iff)
      ultimately show ?thesis using m_ok by (simp add: profile_account_inj)
    qed
    then have "holds w2 (?acc m) = holds w1 (?acc m)" using second by simp
    moreover have "m \<notin> set rb1" using second m(2) by auto
    ultimately show ?thesis using first kept_m None kept by auto
  qed
qed

end


text \<open>A rename that keeps the password and replaces a token, on the keyring of the tests.\<close>

definition sample_changes :: secret_changes where
  "sample_changes =
     \<lparr>ch_name = ''b'', ch_renamed_from = Some ''a'', ch_saved_before = [''password'', ''key''], ch_kept = [''password''],
      ch_replaced = fmupd ''token'' ''t2'' fmempty\<rparr>"

definition sample_backend :: test_backend where
  "sample_backend =
     \<lparr>tb_stored = fmap_of_list [(''profile:a'', ''p''), (''option:key:a'', ''k'')], tb_calls = [], tb_fail_reads = False,
      tb_fail_writes = False\<rparr>"

definition sample_job :: "keyring_done \<times> test_backend secrets \<times> test_backend" where
  "sample_job = run_keyring_job (ApplyChanges 1 sample_changes (dropped_markers sample_changes))
     (secrets_new (Some test_backend_ops) (\<lambda>_. 0)) sample_backend"


end
