(* ===== verification/Rust_Text.thy ===== *)
theory Rust_Text
  imports Profiles
begin

text \<open>
  Operations of the standard library on numbers and text that the protocols use.
\<close>

section \<open>Numbers (std)\<close>

text \<open>\<^verbatim>\<open>str::parse\<close> of an unsigned type of that many bits: digits, after one sign that may be there.\<close>

definition parse_uint :: "nat \<Rightarrow> string \<Rightarrow> nat option" where
  "parse_uint bits text =
     (let ds = (case strip_prefix text ''+'' of Some rest \<Rightarrow> rest | None \<Rightarrow> text)
      in if ds \<noteq> [] \<and> list_all is_digit ds \<and> digits_value ds < 2 ^ bits then Some (digits_value ds) else None)"

text \<open>\<^verbatim>\<open>{:0w}\<close>.\<close>

definition pad_nat :: "nat \<Rightarrow> nat \<Rightarrow> string" where
  "pad_nat w n = (let s = show_nat n in replicate (w - length s) (CHR ''0'') @ s)"

definition pad_int :: "nat \<Rightarrow> int \<Rightarrow> string" where
  "pad_int w i = (if i < 0 then CHR ''-'' # pad_nat (w - 1) (nat (- i)) else pad_nat w (nat i))"

text \<open>\<^verbatim>\<open>as i64\<close> of a \<^verbatim>\<open>u64\<close>.\<close>

definition as_i64 :: "nat \<Rightarrow> int" where
  "as_i64 n = (if n < 2 ^ 63 then int n else int n - 2 ^ 64)"

section \<open>Text\<close>

text \<open>\<^verbatim>\<open>rsplit_once\<close> and \<^verbatim>\<open>split_once\<close>.\<close>

definition split_first :: "char \<Rightarrow> string \<Rightarrow> (string \<times> string) option" where
  "split_first d s = (if d \<in> set s then Some (takeWhile (\<lambda>c. c \<noteq> d) s, tl (dropWhile (\<lambda>c. c \<noteq> d) s)) else None)"

definition split_last :: "char \<Rightarrow> string \<Rightarrow> (string \<times> string) option" where
  "split_last d s = map_option (\<lambda>i. (take i s, drop (Suc i) s)) (rfind d s)"

definition trim_end_matches :: "char \<Rightarrow> string \<Rightarrow> string" where
  "trim_end_matches c s = rev (dropWhile (\<lambda>x. x = c) (rev s))"

definition replace_char :: "char \<Rightarrow> string \<Rightarrow> string \<Rightarrow> string" where
  "replace_char c r s = concat (map (\<lambda>x. if x = c then r else [x]) s)"

text \<open>\<^verbatim>\<open>str::lines\<close>: a line ends with a line feed, or with a carriage return and a line feed.\<close>

definition strip_return :: "string \<Rightarrow> string" where
  "strip_return line = (if line \<noteq> [] \<and> last line = CHR 0x0D then butlast line else line)"

definition text_lines :: "string \<Rightarrow> string list" where
  "text_lines s =
     (let pieces = split_on (CHR 0x0A) s
      in map strip_return (butlast pieces) @ (if last pieces = [] then [] else [last pieces]))"

text \<open>\<^verbatim>\<open>split_whitespace\<close>.\<close>

fun split_words :: "string \<Rightarrow> string \<Rightarrow> string list" where
  "split_words [] w = (if w = [] then [] else [w])"
| "split_words (c # s) w =
     (if is_whitespace c then (if w = [] then split_words s [] else w # split_words s []) else split_words s (w @ [c]))"

definition split_whitespace :: "string \<Rightarrow> string list" where
  "split_whitespace s = split_words s []"

text \<open>\<^verbatim>\<open>eq_ignore_ascii_case\<close>.\<close>

definition same_ignoring_case :: "string \<Rightarrow> string \<Rightarrow> bool" where
  "same_ignoring_case s t = (to_lowercase s = to_lowercase t)"

lemma text_lines_single: "CHR 0x0A \<notin> set s \<Longrightarrow> s \<noteq> [] \<Longrightarrow> text_lines s = [s]"
  by (simp add: text_lines_def split_on_none)

end
