(* ===== verification/S3_Wire.thy ===== *)
theory S3_Wire
  imports Rust_Text
begin

text \<open>
  \<^verbatim>\<open>protocols/s3\<close>: the values that go over the wire (\<^verbatim>\<open>xml\<close>, \<^verbatim>\<open>clock\<close>, \<^verbatim>\<open>locate\<close>, \<^verbatim>\<open>settings\<close>,
  \<^verbatim>\<open>errors\<close>, \<^verbatim>\<open>sign\<close>).  The XML reader, the parser of HTTP dates and of IP addresses, and the hash
  functions are libraries: parameters.
\<close>

section \<open>Time (clock)\<close>

definition SECONDS_PER_DAY :: int where
  "SECONDS_PER_DAY = 86400"

text \<open>\<^verbatim>\<open>div_euclid\<close> and \<^verbatim>\<open>rem_euclid\<close> by a positive number are \<^verbatim>\<open>div\<close> and \<^verbatim>\<open>mod\<close>; the other quotients are of numbers that are not negative.\<close>

definition civil_from_days :: "int \<Rightarrow> int \<times> int \<times> int" where
  "civil_from_days days =
     (let shifted = days + 719468;
          era = shifted div 146097;
          day_of_era = shifted mod 146097;
          year_of_era = (day_of_era - day_of_era div 1460 + day_of_era div 36524 - day_of_era div 146096) div 365;
          day_of_year = day_of_era - (365 * year_of_era + year_of_era div 4 - year_of_era div 100);
          month_index = (5 * day_of_year + 2) div 153;
          day = day_of_year - (153 * month_index + 2) div 5 + 1;
          month = (if month_index < 10 then month_index + 3 else month_index - 9);
          year = year_of_era + era * 400 + (if month \<le> 2 then 1 else 0)
      in (year, month, day))"

definition days_from_civil :: "int \<Rightarrow> int \<Rightarrow> int \<Rightarrow> int" where
  "days_from_civil year month day =
     (let year = year - (if month \<le> 2 then 1 else 0);
          era = year div 400;
          year_of_era = year mod 400;
          day_of_year = (153 * (if 2 < month then month - 3 else month + 9) + 2) div 5 + day - 1;
          day_of_era = year_of_era * 365 + year_of_era div 4 - year_of_era div 100 + day_of_year
      in era * 146097 + day_of_era - 719468)"

text \<open>\<^verbatim>\<open>server_date\<close> is the header already parsed, in seconds since 1970.\<close>

definition skew :: "nat \<Rightarrow> nat option \<Rightarrow> int" where
  "skew local_now server_date = (case server_date of None \<Rightarrow> 0 | Some server \<Rightarrow> as_i64 local_now - as_i64 server)"

definition adjust_time :: "nat option \<Rightarrow> int \<Rightarrow> nat option" where
  "adjust_time server_time by_skew = map_option (\<lambda>time. nat (as_i64 time + by_skew)) server_time"

definition amz_date :: "nat \<Rightarrow> string \<times> string" where
  "amz_date unix =
     (let seconds = as_i64 unix;
          (year, month, day) = civil_from_days (seconds div SECONDS_PER_DAY);
          time = seconds mod SECONDS_PER_DAY;
          date = pad_int 4 year @ pad_int 2 month @ pad_int 2 day
      in (date, date @ ''T'' @ pad_int 2 (time div 3600) @ pad_int 2 (time mod 3600 div 60) @ pad_int 2 (time mod 60) @ ''Z''))"

definition number_at :: "string \<Rightarrow> nat \<Rightarrow> nat \<Rightarrow> nat option" where
  "number_at text from_index to_index =
     (if to_index \<le> length text then parse_uint 32 (take (to_index - from_index) (drop from_index text)) else None)"

definition has_byte :: "string \<Rightarrow> nat \<times> char \<Rightarrow> bool" where
  "has_byte text at = (fst at < length text \<and> text ! fst at = snd at)"

definition parse_iso8601 :: "string \<Rightarrow> nat option" where
  "parse_iso8601 raw =
     (let text = trim raw
      in (case (number_at text 0 4, number_at text 5 7, number_at text 8 10, number_at text 11 13, number_at text 14 16,
                number_at text 17 19) of
            (Some year, Some month, Some day, Some hour, Some minute, Some second) \<Rightarrow>
              if \<not> list_all (has_byte text) [(4, CHR ''-''), (7, CHR ''-''), (10, CHR ''T''), (13, CHR '':''), (16, CHR '':'')]
              then None
              else if month < 1 \<or> 12 < month \<or> day < 1 \<or> 31 < day \<or> 23 < hour \<or> 59 < minute \<or> 60 < second then None
              else let days = days_from_civil (int year) (int month) (int day);
                       seconds = days * SECONDS_PER_DAY + int (hour * 3600 + minute * 60 + second)
                   in if seconds < 0 then None else Some (nat seconds)
          | _ \<Rightarrow> None))"

section \<open>Settings\<close>

datatype addressing = PathStyle | VirtualHosted

record s3_settings =
  s3_endpoint :: string
  s3_port :: nat
  s3_secure :: bool
  s3_region :: string
  s3_bucket :: "string option"
  s3_addressing :: string
  s3_access_key :: string
  s3_secret :: "string option"

definition DEFAULT_REGION :: string where
  "DEFAULT_REGION = ''us-east-1''"

definition AWS_SUFFIX :: string where
  "AWS_SUFFIX = ''.amazonaws.com''"

definition filled :: "string option \<Rightarrow> string option" where
  "filled v = (case map_option trim v of None \<Rightarrow> None | Some t \<Rightarrow> if t = [] then None else Some t)"

record pasted_endpoint =
  pe_host :: string
  pe_port :: "nat option"
  pe_secure :: "bool option"

definition pasted_scheme :: "string \<Rightarrow> bool option \<times> string" where
  "pasted_scheme lower =
     (case strip_prefix lower ''https://'' of
        Some rest \<Rightarrow> (Some True, rest)
      | None \<Rightarrow> (case strip_prefix lower ''http://'' of
                   Some rest \<Rightarrow> (Some False, rest)
                 | None \<Rightarrow> (None, lower)))"

definition pasted_authority :: "string \<Rightarrow> string \<times> nat option" where
  "pasted_authority authority =
     (case strip_prefix authority ''['' of
        Some bracketed \<Rightarrow>
          (case split_first (CHR '']'') bracketed of
             Some (host, after) \<Rightarrow>
               (host, case strip_prefix after '':'' of None \<Rightarrow> None | Some port \<Rightarrow> parse_uint 16 port)
           | None \<Rightarrow> (bracketed, None))
      | None \<Rightarrow>
          if length (filter (\<lambda>c. c = CHR '':'') authority) = 1
          then (case split_first (CHR '':'') authority of
                  Some (host, port) \<Rightarrow> (host, parse_uint 16 port)
                | None \<Rightarrow> (authority, None))
          else (authority, None))"

definition pasted :: "string \<Rightarrow> pasted_endpoint" where
  "pasted endpoint =
     (let (secure, rest) = pasted_scheme (to_lowercase (trim endpoint));
          authority = hd (split_on (CHR ''/'') rest);
          authority = (case split_last (CHR 0x40) authority of Some (_, host) \<Rightarrow> host | None \<Rightarrow> authority);
          (host, port) = pasted_authority authority
      in \<lparr>pe_host = host, pe_port = port, pe_secure = secure\<rparr>)"

definition is_lowercase :: "char \<Rightarrow> bool" where
  "is_lowercase c = (let n = (of_char c :: nat) in 97 \<le> n \<and> n \<le> 122)"

definition dns_bucket :: "string \<Rightarrow> bool" where
  "dns_bucket bucket =
     (bucket \<noteq> [] \<and> list_all (\<lambda>c. is_lowercase c \<or> is_digit c \<or> c = CHR ''-'' \<or> c = CHR ''.'') bucket)"

definition s3_settings_of :: "target \<Rightarrow> s3_settings" where
  "s3_settings_of t =
     (let p = pasted (tg_host t)
      in \<lparr>s3_endpoint = pe_host p,
          s3_port = (case pe_port p of Some port \<Rightarrow> port | None \<Rightarrow> tg_port t),
          s3_secure = (case pe_secure p of Some b \<Rightarrow> b | None \<Rightarrow> target_option t ''security'' \<noteq> Some ''http''),
          s3_region = (case filled (target_option t ''region'') of Some r \<Rightarrow> r | None \<Rightarrow> DEFAULT_REGION),
          s3_bucket = filled (target_option t ''bucket''),
          s3_addressing = (case filled (target_option t ''addressing'') of Some a \<Rightarrow> a | None \<Rightarrow> ''auto''),
          s3_access_key = trim (tg_username t),
          s3_secret = (case tg_password t of Some secret \<Rightarrow> if secret = [] then None else Some secret | None \<Rightarrow> None)\<rparr>)"

text \<open>\<^verbatim>\<open>ip_address\<close> is \<^verbatim>\<open>host.parse::<IpAddr>().is_ok()\<close>.\<close>

definition addressing_for :: "(string \<Rightarrow> bool) \<Rightarrow> s3_settings \<Rightarrow> string \<Rightarrow> addressing" where
  "addressing_for ip_address st bucket =
     (let wanted = (if s3_addressing st = ''path'' then PathStyle
                    else if s3_addressing st = ''virtual'' then VirtualHosted
                    else if suffix AWS_SUFFIX (s3_endpoint st) then VirtualHosted
                    else PathStyle);
          hostable = dns_bucket bucket \<and> \<not> (s3_secure st \<and> CHR ''.'' \<in> set bucket) \<and> \<not> ip_address (s3_endpoint st)
      in if wanted = VirtualHosted \<and> hostable then VirtualHosted else PathStyle)"

section \<open>Places (locate)\<close>

datatype s3_location = S3Root | S3Bucket string | S3Object string string

definition location_prefix :: "s3_location \<Rightarrow> string" where
  "location_prefix l = (case l of S3Object _ key \<Rightarrow> key @ ''/'' | _ \<Rightarrow> [])"

definition location_bucket :: "s3_location \<Rightarrow> string option" where
  "location_bucket l = (case l of S3Root \<Rightarrow> None | S3Bucket bucket \<Rightarrow> Some bucket | S3Object bucket _ \<Rightarrow> Some bucket)"

fun push_segment :: "component \<Rightarrow> string list \<Rightarrow> string list" where
  "push_segment (Normal name) segments = segments @ [name]"
| "push_segment ParentDir segments = butlast segments"
| "push_segment _ segments = segments"

definition path_segments :: "path \<Rightarrow> string list" where
  "path_segments p = fold push_segment p []"

definition locate_path :: "path \<Rightarrow> string option \<Rightarrow> s3_location" where
  "locate_path p configured =
     (let segments = path_segments p
      in (case (case configured of
                  Some bucket \<Rightarrow> Some (bucket, segments)
                | None \<Rightarrow> (case segments of [] \<Rightarrow> None | bucket # rest \<Rightarrow> Some (bucket, rest))) of
            None \<Rightarrow> S3Root
          | Some (bucket, rest) \<Rightarrow> if rest = [] then S3Bucket bucket else S3Object bucket (join_with ''/'' rest)))"

text \<open>Percent encoding, byte by byte.\<close>

definition is_unreserved :: "char \<Rightarrow> bool" where
  "is_unreserved c =
     (let n = (of_char c :: nat)
      in 48 \<le> n \<and> n \<le> 57 \<or> 65 \<le> n \<and> n \<le> 90 \<or> 97 \<le> n \<and> n \<le> 122 \<or> c \<in> {CHR ''-'', CHR ''.'', CHR ''_'', CHR ''~''})"

definition hex_digit :: "nat \<Rightarrow> char" where
  "hex_digit n = char_of (if n < 10 then 48 + n else 55 + n)"

definition percent_byte :: "char \<Rightarrow> string" where
  "percent_byte c =
     (if is_unreserved c then [c]
      else let n = (of_char c :: nat) in [CHR ''%'', hex_digit (n div 16), hex_digit (n mod 16)])"

definition percent_encode :: "string \<Rightarrow> string" where
  "percent_encode s = concat (map percent_byte s)"

definition encode_key :: "string \<Rightarrow> string" where
  "encode_key key = join_with ''/'' (map percent_encode (split_on (CHR ''/'') key))"

record endpoint =
  ep_secure :: bool
  ep_host :: string
  ep_port :: nat

definition endpoint_new :: "bool \<Rightarrow> string \<Rightarrow> nat \<Rightarrow> endpoint" where
  "endpoint_new secure host port =
     \<lparr>ep_secure = secure,
      ep_host = (if CHR '':'' \<in> set host \<and> \<not> starts_with host ''['' then ''['' @ host @ '']'' else host), ep_port = port\<rparr>"

definition endpoint_default_port :: "endpoint \<Rightarrow> nat" where
  "endpoint_default_port e = (if ep_secure e then 443 else 80)"

definition endpoint_host :: "endpoint \<Rightarrow> string option \<Rightarrow> addressing \<Rightarrow> string" where
  "endpoint_host e bucket a =
     (let name = (case (bucket, a) of
                    (Some bucket, VirtualHosted) \<Rightarrow> bucket @ ''.'' @ ep_host e
                  | _ \<Rightarrow> ep_host e)
      in if ep_port e = endpoint_default_port e then name else name @ '':'' @ show_nat (ep_port e))"

definition endpoint_path :: "string option \<Rightarrow> string \<Rightarrow> addressing \<Rightarrow> string" where
  "endpoint_path bucket key a =
     (case (bucket, a) of
        (Some bucket, PathStyle) \<Rightarrow>
          if key = [] then ''/'' @ encode_key bucket else ''/'' @ encode_key bucket @ ''/'' @ encode_key key
      | _ \<Rightarrow> ''/'' @ encode_key key)"

definition endpoint_url :: "endpoint \<Rightarrow> string \<Rightarrow> string \<Rightarrow> string \<Rightarrow> string" where
  "endpoint_url e host p query =
     (let scheme = (if ep_secure e then ''https'' else ''http'')
      in if query = [] then scheme @ ''://'' @ host @ p else scheme @ ''://'' @ host @ p @ ''?'' @ query)"

end
