(* ===== verification/S3_Xml.thy ===== *)
theory S3_Xml
  imports S3_Wire Desk_State "HOL-Library.Option_ord"
begin

text \<open>
  \<^verbatim>\<open>protocols/s3\<close>: what a server answers (\<^verbatim>\<open>xml\<close>) and how its refusals are told (\<^verbatim>\<open>errors\<close>).

  The XML reader is a library: a document is here the list of events it reads, up to the end or
  to an error.
\<close>

section \<open>Errors\<close>

definition NO_RESPONSE :: string where
  "NO_RESPONSE = ''the server did not respond in time''"

record s3_error =
  se_status :: nat
  se_code :: string
  se_message :: string
  se_region :: "string option"

definition s3_error_default :: s3_error where
  "s3_error_default = \<lparr>se_status = 0, se_code = [], se_message = [], se_region = None\<rparr>"

text \<open>\<^verbatim>\<open>status_text\<close> is what the HTTP library prints for a status, when it is one.\<close>

definition describe_error :: "(nat \<Rightarrow> string option) \<Rightarrow> s3_error \<Rightarrow> string" where
  "describe_error status_text e =
     (if se_code e = [] then (case status_text (se_status e) of Some t \<Rightarrow> t | None \<Rightarrow> show_nat (se_status e))
      else se_code e @ '': '' @ se_message e)"

definition to_protocol :: "(nat \<Rightarrow> string option) \<Rightarrow> s3_error \<Rightarrow> path \<Rightarrow> protocol_error" where
  "to_protocol status_text e p =
     (let shown = string_of_path p; code = se_code e; status = se_status e
      in if code \<in> {''NoSuchKey'', ''NoSuchBucket'', ''NoSuchUpload''} \<or> code = [] \<and> status = 404
         then protocol_error_new NotFound (shown @ '' not found'')
         else if code = ''AccessDenied'' \<or> code = [] \<and> status = 403
         then protocol_error_new PermissionDenied (shown @ '': permission denied'')
         else if code = ''SlowDown'' \<or> code = [] \<and> status = 503
         then protocol_error_new Other (''the server is busy (SlowDown) '' @ em_dash @ '' try again'')
         else if code = ''EntityTooLarge'' then protocol_error_new Other (shown @ '' is too large for this server'')
         else protocol_error_new Other (describe_error status_text e))"

text \<open>
  Why a request had no response: an error of the HTTP library, with its text and the texts of its
  causes, or the time limit.
\<close>

record request_failure =
  rf_timeout :: bool
  rf_messages :: "string list"

datatype http_failure = RequestFailed request_failure | TimedOut

definition request_error :: "error_kind \<Rightarrow> request_failure \<Rightarrow> protocol_error" where
  "request_error k f =
     protocol_error_new k (if rf_timeout f then NO_RESPONSE else join_with '': '' (rf_messages f))"

definition failure_into_error :: "http_failure \<Rightarrow> error_kind \<Rightarrow> protocol_error" where
  "failure_into_error f k =
     (case f of RequestFailed e \<Rightarrow> request_error k e | TimedOut \<Rightarrow> protocol_error_new k NO_RESPONSE)"

section \<open>Documents\<close>

text \<open>
  \<^verbatim>\<open>XRef\<close> is a reference \<^verbatim>\<open>&name;\<close>, with what the reader makes of it as a character reference:
  an error, the character, or nothing when it is a name.
\<close>

datatype xml_event =
    XStart string
  | XEmpty string
  | XEnd
  | XText string
  | XCData string
  | XRef "string + string option" string
  | XOther
  | XBroken string

datatype xml_node = Node (nd_name: string) (nd_text: string) (nd_children: "xml_node list")

definition empty_document :: xml_node where
  "empty_document = Node [] [] []"

definition xml_child :: "xml_node \<Rightarrow> string \<Rightarrow> xml_node option" where
  "xml_child n name = find (\<lambda>c. nd_name c = name) (nd_children n)"

definition xml_all :: "xml_node \<Rightarrow> string \<Rightarrow> xml_node list" where
  "xml_all n name = filter (\<lambda>c. nd_name c = name) (nd_children n)"

definition text_of :: "xml_node \<Rightarrow> string \<Rightarrow> string option" where
  "text_of n name = map_option nd_text (xml_child n name)"

definition truncated :: "xml_node \<Rightarrow> bool" where
  "truncated n = (case text_of n ''IsTruncated'' of Some t \<Rightarrow> trim t = ''true'' | None \<Rightarrow> False)"

definition invalid :: "string \<Rightarrow> protocol_error" where
  "invalid message = protocol_error_new Other (''invalid S3 response: '' @ message)"

definition entity :: "string \<Rightarrow> string option" where
  "entity name =
     map_of [(''amp'', ''&''), (''lt'', ''<''), (''gt'', ''>''), (''quot'', [CHR 0x22]), (''apos'', [CHR 0x27])] name"

definition local_name :: "string \<Rightarrow> string" where
  "local_name name = last (split_on (CHR '':'') name)"

text \<open>The open elements, the innermost first, the document last.\<close>

fun add_child :: "xml_node \<Rightarrow> xml_node list \<Rightarrow> xml_node list" where
  "add_child c [] = []"
| "add_child c (Node name text kids # outer) = Node name text (kids @ [c]) # outer"

fun add_text :: "string \<Rightarrow> xml_node list \<Rightarrow> xml_node list" where
  "add_text t [] = []"
| "add_text t (Node name text kids # outer) = Node name (text @ t) kids # outer"

definition first_element :: "xml_node list \<Rightarrow> protocol_error + xml_node" where
  "first_element stack =
     (case stack of
        [document] \<Rightarrow> (case nd_children document of
                        [] \<Rightarrow> Inl (invalid ''empty document'')
                      | root # _ \<Rightarrow> Inr root)
      | _ \<Rightarrow> Inl (invalid ''unexpected end of document''))"

fun parse_events :: "xml_event list \<Rightarrow> xml_node list \<Rightarrow> protocol_error + xml_node" where
  "parse_events [] stack = first_element stack"
| "parse_events (XStart name # es) stack = parse_events es (Node (local_name name) [] [] # stack)"
| "parse_events (XEmpty name # es) stack = parse_events es (add_child (Node (local_name name) [] []) stack)"
| "parse_events (XEnd # es) stack =
     (case stack of
        node # parent # outer \<Rightarrow> parse_events es (add_child node (parent # outer))
      | _ \<Rightarrow> Inl (invalid ''unbalanced document''))"
| "parse_events (XText t # es) stack = parse_events es (add_text t stack)"
| "parse_events (XCData t # es) stack = parse_events es (add_text t stack)"
| "parse_events (XRef character name # es) stack =
     (case character of
        Inl message \<Rightarrow> Inl (invalid message)
      | Inr (Some c) \<Rightarrow> parse_events es (add_text c stack)
      | Inr None \<Rightarrow>
          parse_events es (add_text (case entity name of Some c \<Rightarrow> c | None \<Rightarrow> []) stack))"
| "parse_events (XOther # es) stack = parse_events es stack"
| "parse_events (XBroken message # es) stack = Inl (invalid message)"

definition parse_xml :: "xml_event list \<Rightarrow> protocol_error + xml_node" where
  "parse_xml es = parse_events es [empty_document]"

definition parse_root :: "xml_event list \<Rightarrow> string \<Rightarrow> protocol_error + xml_node" where
  "parse_root es expected =
     (case parse_xml es of
        Inl e \<Rightarrow> Inl e
      | Inr n \<Rightarrow>
          if nd_name n = expected then Inr n
          else Inl (invalid (''expected '' @ expected @ '', got '' @ nd_name n)))"

definition xml_number :: "nat \<Rightarrow> xml_node \<Rightarrow> string \<Rightarrow> nat option" where
  "xml_number bits n name = (case text_of n name of None \<Rightarrow> None | Some t \<Rightarrow> parse_uint bits (trim t))"

definition xml_time :: "xml_node \<Rightarrow> string \<Rightarrow> nat option" where
  "xml_time n name = (case text_of n name of None \<Rightarrow> None | Some t \<Rightarrow> parse_iso8601 t)"

definition common_prefixes :: "xml_node \<Rightarrow> string list" where
  "common_prefixes n = List.map_filter (\<lambda>p. text_of p ''Prefix'') (xml_all n ''CommonPrefixes'')"

definition text_or_empty :: "xml_node \<Rightarrow> string \<Rightarrow> string" where
  "text_or_empty n name = (case text_of n name of Some t \<Rightarrow> t | None \<Rightarrow> [])"

section \<open>Answers\<close>

record s3_bucket =
  bk_name :: string
  bk_created :: "nat option"

record s3_object =
  ob_key :: string
  ob_size :: nat
  ob_modified :: "nat option"

record s3_listing =
  ls_objects :: "s3_object list"
  ls_prefixes :: "string list"
  ls_next :: "string option"
  ls_truncated :: bool

definition s3_listing_default :: s3_listing where
  "s3_listing_default = \<lparr>ls_objects = [], ls_prefixes = [], ls_next = None, ls_truncated = False\<rparr>"

datatype s3_cursor = Token string | StartAfter string

definition greatest :: "string list \<Rightarrow> string option" where
  "greatest xs = (case xs of [] \<Rightarrow> None | y # ys \<Rightarrow> Some (fold max ys y))"

definition listing_cursor :: "s3_listing \<Rightarrow> s3_cursor option \<Rightarrow> protocol_error + s3_cursor option" where
  "listing_cursor l previous =
     (if \<not> ls_truncated l then Inr None
      else case (case ls_next l of
                   Some token \<Rightarrow> Some (Token token)
                 | None \<Rightarrow>
                     map_option
                       (\<lambda>key. if key \<in> set (ls_prefixes l) then StartAfter (trim_end_matches (CHR ''/'') key @ ''0'')
                              else StartAfter key)
                       (greatest (map ob_key (ls_objects l) @ ls_prefixes l))) of
             None \<Rightarrow> Inl (invalid ''a truncated listing gave no place to continue'')
           | Some next \<Rightarrow>
               if previous = Some next then Inl (invalid ''the server repeated a listing page'')
               else Inr (Some next))"

record s3_upload =
  up_key :: string
  up_id :: string
  up_initiated :: "nat option"

record s3_uploads =
  us_uploads :: "s3_upload list"
  us_prefixes :: "string list"
  us_next :: "(string \<times> string) option"

record s3_part =
  pt_number :: nat
  pt_size :: nat
  pt_etag :: string
  pt_modified :: "nat option"

record s3_parts =
  ps_parts :: "s3_part list"
  ps_next :: "nat option"

record delete_failure =
  df_key :: string
  df_code :: string

definition xml_buckets :: "xml_event list \<Rightarrow> protocol_error + s3_bucket list" where
  "xml_buckets es =
     map_sum id
       (\<lambda>document. case xml_child document ''Buckets'' of
           None \<Rightarrow> []
         | Some buckets \<Rightarrow>
             List.map_filter
               (\<lambda>b. map_option (\<lambda>name. \<lparr>bk_name = name, bk_created = xml_time b ''CreationDate''\<rparr>) (text_of b ''Name''))
               (xml_all buckets ''Bucket''))
       (parse_root es ''ListAllMyBucketsResult'')"

definition read_object :: "xml_node \<Rightarrow> s3_object option" where
  "read_object n =
     map_option
       (\<lambda>key. \<lparr>ob_key = key, ob_size = (case xml_number 64 n ''Size'' of Some s \<Rightarrow> s | None \<Rightarrow> 0),
               ob_modified = xml_time n ''LastModified''\<rparr>)
       (text_of n ''Key'')"

definition xml_listing :: "xml_event list \<Rightarrow> protocol_error + s3_listing" where
  "xml_listing es =
     map_sum id
       (\<lambda>document.
          \<lparr>ls_objects = List.map_filter read_object (xml_all document ''Contents''),
           ls_prefixes = common_prefixes document,
           ls_next = (if truncated document then text_of document ''NextContinuationToken'' else None),
           ls_truncated = truncated document\<rparr>)
       (parse_root es ''ListBucketResult'')"

definition read_upload :: "xml_node \<Rightarrow> s3_upload option" where
  "read_upload n =
     (case (text_of n ''Key'', text_of n ''UploadId'') of
        (Some key, Some upload_id) \<Rightarrow> Some \<lparr>up_key = key, up_id = upload_id, up_initiated = xml_time n ''Initiated''\<rparr>
      | _ \<Rightarrow> None)"

definition xml_uploads :: "xml_event list \<Rightarrow> protocol_error + s3_uploads" where
  "xml_uploads es =
     map_sum id
       (\<lambda>document.
          \<lparr>us_uploads = List.map_filter read_upload (xml_all document ''Upload''),
           us_prefixes = common_prefixes document,
           us_next =
             (if truncated document
              then Some (text_or_empty document ''NextKeyMarker'', text_or_empty document ''NextUploadIdMarker'')
              else None)\<rparr>)
       (parse_root es ''ListMultipartUploadsResult'')"

definition read_part :: "xml_node \<Rightarrow> s3_part option" where
  "read_part n =
     map_option
       (\<lambda>number. \<lparr>pt_number = number, pt_size = (case xml_number 64 n ''Size'' of Some s \<Rightarrow> s | None \<Rightarrow> 0),
                  pt_etag = text_or_empty n ''ETag'', pt_modified = xml_time n ''LastModified''\<rparr>)
       (xml_number 32 n ''PartNumber'')"

definition highest_number :: "s3_part list \<Rightarrow> nat option" where
  "highest_number ps = (case map pt_number ps of [] \<Rightarrow> None | n # ns \<Rightarrow> Some (fold max ns n))"

definition xml_parts :: "xml_event list \<Rightarrow> protocol_error + s3_parts" where
  "xml_parts es =
     map_sum id
       (\<lambda>document.
          let parts = List.map_filter read_part (xml_all document ''Part'')
          in \<lparr>ps_parts = parts,
              ps_next =
                (if truncated document
                 then (case xml_number 32 document ''NextPartNumberMarker'' of
                         Some n \<Rightarrow> Some n
                       | None \<Rightarrow> highest_number parts)
                 else None)\<rparr>)
       (parse_root es ''ListPartsResult'')"

definition copy_part_etag :: "xml_event list \<Rightarrow> string option" where
  "copy_part_etag es =
     (case parse_xml es of
        Inr n \<Rightarrow> if nd_name n = ''CopyPartResult'' then text_of n ''ETag'' else None
      | Inl _ \<Rightarrow> None)"

definition xml_upload_id :: "xml_event list \<Rightarrow> protocol_error + string" where
  "xml_upload_id es =
     (case parse_root es ''InitiateMultipartUploadResult'' of
        Inl e \<Rightarrow> Inl e
      | Inr n \<Rightarrow> (case text_of n ''UploadId'' of Some i \<Rightarrow> Inr i | None \<Rightarrow> Inl (invalid ''no UploadId'')))"

definition delete_failures :: "xml_event list \<Rightarrow> protocol_error + delete_failure list" where
  "delete_failures es =
     map_sum id
       (\<lambda>document. map (\<lambda>f. \<lparr>df_key = text_or_empty f ''Key'', df_code = text_or_empty f ''Code''\<rparr>)
                      (xml_all document ''Error''))
       (parse_root es ''DeleteResult'')"

definition error_from :: "nat \<Rightarrow> xml_node \<Rightarrow> s3_error" where
  "error_from status n =
     \<lparr>se_status = status, se_code = text_or_empty n ''Code'', se_message = text_or_empty n ''Message'',
      se_region = text_of n ''Region''\<rparr>"

definition xml_error :: "nat \<Rightarrow> xml_event list \<Rightarrow> s3_error" where
  "xml_error status es =
     (case parse_xml es of
        Inr n \<Rightarrow> if nd_name n = ''Error'' then error_from status n else s3_error_default\<lparr>se_status := status\<rparr>
      | Inl _ \<Rightarrow> s3_error_default\<lparr>se_status := status\<rparr>)"

definition completion_error :: "xml_event list \<Rightarrow> s3_error option" where
  "completion_error es =
     (case parse_xml es of
        Inr n \<Rightarrow> if nd_name n = ''Error'' then Some (error_from 200 n) else None
      | Inl _ \<Rightarrow> None)"

section \<open>Bodies\<close>

definition NAMESPACE :: string where
  "NAMESPACE = ''http://s3.amazonaws.com/doc/2006-03-01/''"

definition escape_xml :: "string \<Rightarrow> string" where
  "escape_xml s =
     replace_char (CHR 0x27) ''&apos;''
       (replace_char (CHR 0x22) ''&quot;''
         (replace_char (CHR ''>'') ''&gt;''
           (replace_char (CHR ''<'') ''&lt;'' (replace_char (CHR ''&'') ''&amp;'' s))))"

definition complete_body :: "(nat \<times> string) list \<Rightarrow> string" where
  "complete_body parts =
     ''<CompleteMultipartUpload xmlns='' @ [CHR 0x22] @ NAMESPACE @ [CHR 0x22] @ ''>'' @
     concat (map (\<lambda>(number, etag). ''<Part><PartNumber>'' @ show_nat number @ ''</PartNumber><ETag>'' @ escape_xml etag @
                                   ''</ETag></Part>'') parts) @
     ''</CompleteMultipartUpload>''"

definition delete_body :: "string list \<Rightarrow> string" where
  "delete_body keys =
     ''<Delete xmlns='' @ [CHR 0x22] @ NAMESPACE @ [CHR 0x22] @ ''><Quiet>true</Quiet>'' @
     concat (map (\<lambda>key. ''<Object><Key>'' @ escape_xml key @ ''</Key></Object>'') keys) @ ''</Delete>''"

end
