(* ===== verification/S3_Upload.thy ===== *)
theory S3_Upload
  imports S3_Xml
begin

text \<open>
  \<^verbatim>\<open>protocols/s3\<close>: signatures (\<^verbatim>\<open>sign\<close>), how an interrupted upload is continued (\<^verbatim>\<open>staging\<close>), and
  the writer that sends a file in parts (\<^verbatim>\<open>upload\<close>).
\<close>

section \<open>Signatures (sign)\<close>

text \<open>The hash functions are libraries: \<^verbatim>\<open>sha256_hex\<close> of a body, \<^verbatim>\<open>hmac\<close> of a key and a text, \<^verbatim>\<open>hex\<close>.\<close>

record hashes =
  ha_sha256_hex :: "string \<Rightarrow> string"
  ha_hmac :: "string \<Rightarrow> string \<Rightarrow> string"
  ha_hex :: "string \<Rightarrow> string"
  ha_md5_base64 :: "string \<Rightarrow> string"

definition ALGORITHM :: string where
  "ALGORITHM = ''AWS4-HMAC-SHA256''"

record credentials =
  cr_access_key :: string
  cr_secret :: string

record signable =
  sg_method :: string
  sg_path :: string
  sg_query :: "(string \<times> string) list"
  sg_headers :: "(string \<times> string) list"
  sg_payload_hash :: string

definition payload_hash :: "hashes \<Rightarrow> string \<Rightarrow> string" where
  "payload_hash ha body = ha_sha256_hex ha body"

definition encode_query_value :: "string \<Rightarrow> string" where
  "encode_query_value v = percent_encode v"

text \<open>Pairs of strings are ordered by the first, then by the second.\<close>

definition pair_le :: "string \<times> string \<Rightarrow> string \<times> string \<Rightarrow> bool" where
  "pair_le a b = (fst a < fst b \<or> fst a = fst b \<and> snd a \<le> snd b)"

fun insert_pair :: "string \<times> string \<Rightarrow> (string \<times> string) list \<Rightarrow> (string \<times> string) list" where
  "insert_pair a [] = [a]"
| "insert_pair a (b # bs) = (if pair_le a b then a # b # bs else b # insert_pair a bs)"

definition sort_pairs :: "(string \<times> string) list \<Rightarrow> (string \<times> string) list" where
  "sort_pairs ps = foldr insert_pair ps []"

definition canonical_query :: "(string \<times> string) list \<Rightarrow> string" where
  "canonical_query query =
     join_with ''&''
       (map (\<lambda>(name, v). name @ ''='' @ v)
         (sort_pairs (map (\<lambda>(name, v). (encode_query_value name, encode_query_value v)) query)))"

definition newline :: string where
  "newline = [CHR 0x0A]"

definition canonical_request :: "signable \<Rightarrow> string \<times> string" where
  "canonical_request r =
     (let headers = sort_pairs (map (\<lambda>(name, v). (to_lowercase name, trim v)) (sg_headers r));
          canonical_headers = concat (map (\<lambda>(name, v). name @ '':'' @ v @ newline) headers);
          signed = join_with '';'' (map fst headers)
      in (sg_method r @ newline @ sg_path r @ newline @ canonical_query (sg_query r) @ newline @ canonical_headers @
          newline @ signed @ newline @ sg_payload_hash r, signed))"

definition authorization :: "hashes \<Rightarrow> signable \<Rightarrow> credentials \<Rightarrow> string \<Rightarrow> string \<Rightarrow> string \<Rightarrow> string" where
  "authorization ha r cr region service stamp =
     (let date = take 8 stamp;
          scope = date @ ''/'' @ region @ ''/'' @ service @ ''/aws4_request'';
          (canonical, signed) = canonical_request r;
          to_sign = ALGORITHM @ newline @ stamp @ newline @ scope @ newline @ payload_hash ha canonical;
          key = foldl (ha_hmac ha) (''AWS4'' @ cr_secret cr) [date, region, service, ''aws4_request''];
          signature = ha_hex ha (ha_hmac ha key to_sign)
      in ALGORITHM @ '' Credential='' @ cr_access_key cr @ ''/'' @ scope @ '', SignedHeaders='' @ signed @
         '', Signature='' @ signature)"

section \<open>Parts of an upload\<close>

definition MAX_PARTS :: nat where
  "MAX_PARTS = 10000"

definition PART_SIZE :: nat where
  "PART_SIZE = 16 * 1024 * 1024"

record s3_progress =
  sp_last :: nat
  sp_size :: nat
  sp_modified :: "nat option"

datatype s3_start = Continue string nat | Restart

definition staged_key :: "string \<Rightarrow> string option" where
  "staged_key key =
     (if suffix PART_SUFFIX key
      then let name = take (length key - length PART_SUFFIX) key
           in if name \<noteq> [] \<and> last name \<noteq> CHR ''/'' then Some name else None
      else None)"

text \<open>\<^verbatim>\<open>take_while\<close> of the enumeration: the parts that are where their number says, from one on.\<close>

fun numbered_from :: "nat \<Rightarrow> s3_part list \<Rightarrow> s3_part list" where
  "numbered_from n [] = []"
| "numbered_from n (p # ps) = (if pt_number p = n then p # numbered_from (Suc n) ps else [])"

definition in_order :: "s3_part list \<Rightarrow> s3_part list" where
  "in_order parts = numbered_from 1 (sort_key pt_number parts)"

definition latest :: "nat list \<Rightarrow> nat option" where
  "latest ts = (case ts of [] \<Rightarrow> None | t # rest \<Rightarrow> Some (fold max rest t))"

definition contiguous :: "s3_part list \<Rightarrow> s3_progress" where
  "contiguous parts =
     (let parts = takeWhile (\<lambda>p. pt_size p = PART_SIZE) (in_order parts)
      in \<lparr>sp_last = (if parts = [] then 0 else pt_number (last parts)),
          sp_size = sum_list (map pt_size parts),
          sp_modified = latest (List.map_filter pt_modified parts)\<rparr>)"

definition completed :: "s3_part list \<Rightarrow> (nat \<times> string) list" where
  "completed parts = map (\<lambda>p. (pt_number p, pt_etag p)) (in_order parts)"

text \<open>\<^verbatim>\<open>max_by_key\<close>: the last one of the greatest.\<close>

definition newest_upload :: "s3_upload list \<Rightarrow> string \<Rightarrow> s3_upload option" where
  "newest_upload uploads key =
     (case filter (\<lambda>u. up_key u = key) uploads of
        [] \<Rightarrow> None
      | u # us \<Rightarrow> Some (foldl (\<lambda>best u. if up_initiated best \<le> up_initiated u then u else best) u us))"

definition decide :: "nat \<Rightarrow> (string \<times> s3_progress) option \<Rightarrow> s3_start" where
  "decide offset found =
     (case found of
        Some (i, progress) \<Rightarrow>
          if 0 < offset \<and> sp_size progress = offset then Continue i (sp_last progress + 1) else Restart
      | None \<Rightarrow> Restart)"

text \<open>The ranges of a copy on the server, both ends included.  The source asks for parts of one size only, \<^verbatim>\<open>COPY_PART\<close>; parts of size zero
  have no ranges here.\<close>

function copy_ranges_from :: "nat \<Rightarrow> nat \<Rightarrow> nat \<Rightarrow> (nat \<times> nat) list" where
  "copy_ranges_from start len part =
     (if start < len \<and> 0 < part
      then let finish = min (start + part) len - 1 in (start, finish) # copy_ranges_from (finish + 1) len part
      else [])"
  by pat_completeness auto
termination
  by (relation "measure (\<lambda>(start, len, part). len - start)") (auto simp: min_def)

declare copy_ranges_from.simps [simp del]

definition copy_ranges :: "nat \<Rightarrow> nat \<Rightarrow> (nat \<times> nat) list" where
  "copy_ranges len part = copy_ranges_from 0 len part"

section \<open>The writer (upload)\<close>

text \<open>
  \<^verbatim>\<open>MultipartWriter\<close>.  The part being sent is a future that makes progress only when the writer
  polls it, so it is here what is to be sent; the writer sends it when it next waits for it.  What
  sends a part, and what finishes the upload, are functions the file system gives the writer:
  arguments of the operations.
\<close>

record multipart_writer =
  mw_next :: nat
  mw_fresh :: bool
  mw_sent :: bool
  mw_buffer :: "8 word list"
  mw_pending :: "(nat \<times> 8 word list) option"
  mw_finish :: bool
  mw_too_large :: string

definition multipart_new :: "nat \<Rightarrow> bool \<Rightarrow> string \<Rightarrow> multipart_writer" where
  "multipart_new first_part finish too_large =
     \<lparr>mw_next = first_part, mw_fresh = (first_part = 1), mw_sent = False, mw_buffer = [], mw_pending = None,
      mw_finish = finish, mw_too_large = too_large\<rparr>"

definition start_part :: "multipart_writer \<Rightarrow> (io_error + unit) \<times> multipart_writer" where
  "start_part m =
     (if MAX_PARTS < mw_next m then (Inl (IoOther, mw_too_large m), m)
      else (Inr (), m\<lparr>mw_buffer := [], mw_pending := Some (mw_next m, mw_buffer m), mw_next := mw_next m + 1,
                       mw_sent := True\<rparr>))"

type_synonym 'w send_part = "nat \<Rightarrow> 8 word list \<Rightarrow> ('w, unit) io"

definition poll_pending ::
  "'w send_part \<Rightarrow> multipart_writer \<Rightarrow> 'w \<Rightarrow> (io_error + unit) \<times> multipart_writer \<times> 'w" where
  "poll_pending send m w =
     (case mw_pending m of
        None \<Rightarrow> (Inr (), m, w)
      | Some (number, part) \<Rightarrow>
          (case send number part w of (result, w) \<Rightarrow> (result, m\<lparr>mw_pending := None\<rparr>, w)))"

definition poll_write ::
  "'w send_part \<Rightarrow> 8 word list \<Rightarrow> multipart_writer \<Rightarrow> 'w \<Rightarrow> (io_error + nat) \<times> multipart_writer \<times> 'w" where
  "poll_write send buf m w =
     (case poll_pending send m w of
        (Inl e, m, w) \<Rightarrow> (Inl e, m, w)
      | (Inr _, m, w) \<Rightarrow>
          (let accepted = min (length buf) (PART_SIZE - length (mw_buffer m));
               m = m\<lparr>mw_buffer := mw_buffer m @ take accepted buf\<rparr>
           in if length (mw_buffer m) = PART_SIZE
              then (case start_part m of
                      (Inl e, m) \<Rightarrow> (Inl e, m, w)
                    | (Inr _, m) \<Rightarrow> (Inr accepted, m, w))
              else (Inr accepted, m, w)))"

definition poll_flush ::
  "'w send_part \<Rightarrow> multipart_writer \<Rightarrow> 'w \<Rightarrow> (io_error + unit) \<times> multipart_writer \<times> 'w" where
  "poll_flush send m w = poll_pending send m w"

text \<open>
  The rest of a shutdown, once all parts are sent.  What finishes the upload asks the server for its
  parts page by page, so it may need more than the bound it is given: \<^const>\<open>None\<close>.
\<close>

type_synonym ('w, 'a) bounded_io = "'w \<Rightarrow> ((io_error + 'a) \<times> 'w) option"

definition finish_parts ::
  "('w, unit) bounded_io \<Rightarrow> multipart_writer \<Rightarrow> 'w \<Rightarrow> ((io_error + unit) \<times> multipart_writer \<times> 'w) option" where
  "finish_parts finish m w =
     (if mw_finish m then map_option (\<lambda>(result, w). (result, m\<lparr>mw_finish := False\<rparr>, w)) (finish w)
      else Some (Inr (), m, w))"

definition poll_shutdown ::
  "'w send_part \<Rightarrow> ('w, unit) bounded_io \<Rightarrow> multipart_writer \<Rightarrow> 'w \<Rightarrow> ((io_error + unit) \<times> multipart_writer \<times> 'w) option" where
  "poll_shutdown send finish m w =
     (case poll_pending send m w of
        (Inl e, m, w) \<Rightarrow> Some (Inl e, m, w)
      | (Inr _, m, w) \<Rightarrow>
          if mw_buffer m \<noteq> [] \<or> mw_fresh m \<and> \<not> mw_sent m
          then (case start_part m of
                  (Inl e, m) \<Rightarrow> Some (Inl e, m, w)
                | (Inr _, m) \<Rightarrow>
                    (case poll_pending send m w of
                       (Inl e, m, w) \<Rightarrow> Some (Inl e, m, w)
                     | (Inr _, m, w) \<Rightarrow> finish_parts finish m w))
          else finish_parts finish m w)"

text \<open>
  \<^verbatim>\<open>write_all\<close> of the library over \<^const>\<open>poll_write\<close>: until everything is accepted; a write that
  accepts nothing is an error.
\<close>

function write_all_parts ::
  "'w send_part \<Rightarrow> 8 word list \<Rightarrow> multipart_writer \<Rightarrow> 'w \<Rightarrow> (io_error + unit) \<times> multipart_writer \<times> 'w" where
  "write_all_parts send buf m w =
     (if buf = [] then (Inr (), m, w)
      else case poll_write send buf m w of
             (Inl e, m, w) \<Rightarrow> (Inl e, m, w)
           | (Inr n, m, w) \<Rightarrow>
               if n = 0 then (Inl (IoOther, ''failed to write whole buffer''), m, w)
               else write_all_parts send (drop n buf) m w)"
  by pat_completeness auto
termination
  by (relation "measure (\<lambda>(send, buf, m, w). length buf)") auto

declare write_all_parts.simps [simp del]

end
