(* ===== verification/S3_Client.thy ===== *)
theory S3_Client
  imports S3_Upload
begin

text \<open>
  \<^verbatim>\<open>protocols/s3\<close>, \<^verbatim>\<open>client\<close>: requests, their signature, the clock of the server and the region of a
  bucket.

  The HTTP library, the clock, the hash functions and the readers of XML, dates and addresses are
  parameters (\<open>s3_env\<close>): a request is answered by a response or a failure, in the world of
  type \<open>'u\<close>; the body of a response is a stream of that world.
\<close>

section \<open>Requests and responses\<close>

datatype http_method = GET | HEAD | PUT | POST | DELETE

definition method_text :: "http_method \<Rightarrow> string" where
  "method_text m =
     (case m of GET \<Rightarrow> ''GET'' | HEAD \<Rightarrow> ''HEAD'' | PUT \<Rightarrow> ''PUT'' | POST \<Rightarrow> ''POST'' | DELETE \<Rightarrow> ''DELETE'')"

record http_request =
  hr_method :: http_method
  hr_url :: string
  hr_headers :: "(string \<times> string) list"
  hr_body :: string
  hr_limit :: nat

datatype http_body = Streamed nat | Held string

record http_response =
  rs_status :: nat
  rs_headers :: "(string \<times> string) list"
  rs_body :: http_body

definition response_header :: "http_response \<Rightarrow> string \<Rightarrow> string option" where
  "response_header r name = map_of (rs_headers r) name"

definition is_success :: "nat \<Rightarrow> bool" where
  "is_success status = (200 \<le> status \<and> status < 300)"

definition is_redirection :: "nat \<Rightarrow> bool" where
  "is_redirection status = (300 \<le> status \<and> status < 400)"

record 'u s3_env =
  xe_settings :: s3_settings
  xe_timeout :: nat
  xe_hashes :: hashes
  xe_ip_address :: "string \<Rightarrow> bool"
  xe_status_text :: "nat \<Rightarrow> string option"
  xe_http_date :: "string \<Rightarrow> nat option"
  xe_events :: "string \<Rightarrow> xml_event list"
  xe_now :: "'u \<Rightarrow> nat \<times> 'u"
  xe_request :: "http_request \<Rightarrow> 'u \<Rightarrow> (http_failure + http_response) \<times> 'u"
  xe_body :: "nat \<Rightarrow> 'u \<Rightarrow> (io_error + string) \<times> 'u"
  xe_read :: "nat \<Rightarrow> nat \<Rightarrow> 'u \<Rightarrow> (io_error + 8 word list) \<times> 'u"

section \<open>State\<close>

text \<open>\<^verbatim>\<open>S3Fs::started\<close>: the uploads this connection started, with the parts it sent.\<close>

record started =
  sd_bucket :: string
  sd_key :: string
  sd_id :: string
  sd_parts :: "(nat, string \<times> nat) fmap"

datatype s3_reader = NetBody nat | HeldBody "8 word list"

record s3_writer =
  sw_bucket :: string
  sw_key :: string
  sw_id :: string
  sw_path :: path
  sw_writer :: multipart_writer

text \<open>What the client and the file system over it share, with the open files and the world.\<close>

record 'u s3 =
  sx_region :: string
  sx_bucket_regions :: "(string, string) fmap"
  sx_secret :: string
  sx_skew :: int
  sx_started :: "started list"
  sx_readers :: "(nat, s3_reader) fmap"
  sx_writers :: "(nat, s3_writer) fmap"
  sx_next_handle :: nat
  sx_net :: 'u

definition client_new :: "s3_settings \<Rightarrow> 'u \<Rightarrow> 'u s3" where
  "client_new st u =
     \<lparr>sx_region = s3_region st, sx_bucket_regions = fmempty,
      sx_secret = (case s3_secret st of Some s \<Rightarrow> s | None \<Rightarrow> []), sx_skew = 0, sx_started = [], sx_readers = fmempty,
      sx_writers = fmempty, sx_next_handle = 0, sx_net = u\<rparr>"

definition set_region :: "string \<Rightarrow> 'u s3 \<Rightarrow> 'u s3" where
  "set_region region s = s\<lparr>sx_region := region\<rparr>"

definition set_secret :: "string \<Rightarrow> 'u s3 \<Rightarrow> 'u s3" where
  "set_secret secret s = s\<lparr>sx_secret := secret\<rparr>"

definition region_for :: "string option \<Rightarrow> 'u s3 \<Rightarrow> string" where
  "region_for bucket s =
     (case (case bucket of None \<Rightarrow> None | Some b \<Rightarrow> fmlookup (sx_bucket_regions s) b) of
        Some region \<Rightarrow> region
      | None \<Rightarrow> sx_region s)"

definition client_credentials :: "'u s3_env \<Rightarrow> 'u s3 \<Rightarrow> credentials" where
  "client_credentials x s = \<lparr>cr_access_key = s3_access_key (xe_settings x), cr_secret = sx_secret s\<rparr>"

section \<open>Calls\<close>

record s3_call =
  cl_method :: http_method
  cl_bucket :: "string option"
  cl_key :: string
  cl_query :: "(string \<times> string) list"
  cl_headers :: "(string \<times> string) list"
  cl_body :: string

definition call_new :: "http_method \<Rightarrow> string option \<Rightarrow> string \<Rightarrow> s3_call" where
  "call_new method bucket key =
     \<lparr>cl_method = method, cl_bucket = bucket, cl_key = key, cl_query = [], cl_headers = [], cl_body = []\<rparr>"

definition call_query :: "string \<Rightarrow> string \<Rightarrow> s3_call \<Rightarrow> s3_call" where
  "call_query name v c = c\<lparr>cl_query := cl_query c @ [(name, v)]\<rparr>"

definition call_header :: "string \<Rightarrow> string \<Rightarrow> s3_call \<Rightarrow> s3_call" where
  "call_header name v c = c\<lparr>cl_headers := cl_headers c @ [(to_lowercase name, v)]\<rparr>"

definition call_body :: "string \<Rightarrow> s3_call \<Rightarrow> s3_call" where
  "call_body body c = c\<lparr>cl_body := body\<rparr>"

definition KEEPALIVE_PROBES :: nat where
  "KEEPALIVE_PROBES = 3"

definition RESPONSE_WAIT_FACTOR :: nat where
  "RESPONSE_WAIT_FACTOR = 4"

definition LONG_WAIT_FACTOR :: nat where
  "LONG_WAIT_FACTOR = 20"

definition REGION_HEADER :: string where
  "REGION_HEADER = ''x-amz-bucket-region''"

definition SLOWEST_UPLOAD_BYTES_PER_SECOND :: nat where
  "SLOWEST_UPLOAD_BYTES_PER_SECOND = 16 * 1024"

definition useful_hint :: "string option \<Rightarrow> string \<Rightarrow> string option" where
  "useful_hint hint region =
     (case hint of Some hinted \<Rightarrow> if hinted \<noteq> [] \<and> hinted \<noteq> region then Some hinted else None | None \<Rightarrow> None)"

text \<open>A \<^verbatim>\<open>Duration\<close> is a number of milliseconds.\<close>

definition reply_limit :: "http_method \<Rightarrow> nat \<Rightarrow> nat \<Rightarrow> nat" where
  "reply_limit method body_len timeout =
     (if method = GET \<or> method = HEAD then timeout * RESPONSE_WAIT_FACTOR
      else timeout * LONG_WAIT_FACTOR + body_len div SLOWEST_UPLOAD_BYTES_PER_SECOND * 1000)"

section \<open>Sending\<close>

text \<open>\<^verbatim>\<open>from_utf8_lossy\<close> changes only bytes that are no text.\<close>

definition response_text :: "'u s3_env \<Rightarrow> http_response \<Rightarrow> 'u s3 \<Rightarrow> (io_error + string) \<times> 'u s3" where
  "response_text x r s =
     (case rs_body r of
        Held t \<Rightarrow> (Inr t, s)
      | Streamed h \<Rightarrow> (case xe_body x h (sx_net s) of (result, u) \<Rightarrow> (result, s\<lparr>sx_net := u\<rparr>)))"

definition text_or_default :: "io_error + string \<Rightarrow> string" where
  "text_or_default result = (case result of Inr t \<Rightarrow> t | Inl _ \<Rightarrow> [])"

definition request_of ::
  "'u s3_env \<Rightarrow> s3_call \<Rightarrow> string \<Rightarrow> credentials \<Rightarrow> nat \<Rightarrow> http_request" where
  "request_of x c region cr now =
     (let e = endpoint_new (s3_secure (xe_settings x)) (s3_endpoint (xe_settings x)) (s3_port (xe_settings x));
          a = (case cl_bucket c of
                 None \<Rightarrow> PathStyle
               | Some bucket \<Rightarrow> addressing_for (xe_ip_address x) (xe_settings x) bucket);
          host = endpoint_host e (cl_bucket c) a;
          p = endpoint_path (cl_bucket c) (cl_key c) a;
          url = endpoint_url e host p (canonical_query (cl_query c));
          stamp = snd (amz_date now);
          hash = payload_hash (xe_hashes x) (cl_body c);
          headers = [(''host'', host), (''x-amz-date'', stamp), (''x-amz-content-sha256'', hash)] @ cl_headers c;
          signed = authorization (xe_hashes x)
                     \<lparr>sg_method = method_text (cl_method c), sg_path = p, sg_query = cl_query c, sg_headers = headers,
                      sg_payload_hash = hash\<rparr>
                     cr region ''s3'' stamp
      in \<lparr>hr_method = cl_method c, hr_url = url,
          hr_headers = filter (\<lambda>(name, _). name \<noteq> ''host'') headers @ [(''authorization'', signed)],
          hr_body = cl_body c,
          hr_limit = reply_limit (cl_method c) (length (cl_body c)) (xe_timeout x)\<rparr>)"

definition note_server_date :: "'u s3_env \<Rightarrow> http_response \<Rightarrow> 'u s3 \<Rightarrow> 'u s3" where
  "note_server_date x r s =
     (case response_header r ''date'' of
        None \<Rightarrow> s
      | Some date \<Rightarrow>
          (case xe_now x (sx_net s) of
             (now, u) \<Rightarrow> s\<lparr>sx_net := u, sx_skew := skew now (xe_http_date x date)\<rparr>))"

definition attempt :: "'u s3_env \<Rightarrow> s3_call \<Rightarrow> string \<Rightarrow> 'u s3 \<Rightarrow> (http_failure + http_response) \<times> 'u s3" where
  "attempt x c region s =
     (case xe_now x (sx_net s) of
        (now, u) \<Rightarrow>
          (case xe_request x (request_of x c region (client_credentials x s) now) u of
             (Inl f, u) \<Rightarrow> (Inl f, s\<lparr>sx_net := u\<rparr>)
           | (Inr r, u) \<Rightarrow> (Inr r, note_server_date x r (s\<lparr>sx_net := u\<rparr>))))"

definition region_hint :: "'u s3_env \<Rightarrow> http_response \<Rightarrow> 'u s3 \<Rightarrow> (http_response \<times> string option) \<times> 'u s3" where
  "region_hint x r s =
     (case response_header r REGION_HEADER of
        Some region \<Rightarrow> ((r, Some region), s)
      | None \<Rightarrow>
          (case response_text x r s of
             (result, s) \<Rightarrow>
               (let body = text_or_default result
                in ((r\<lparr>rs_body := Held body\<rparr>, se_region (xml_error (rs_status r) (xe_events x body))), s))))"

text \<open>\<^verbatim>\<open>MOVED_PERMANENTLY | BAD_REQUEST\<close>: what a server answers that has the bucket elsewhere.\<close>

definition wrong_region :: "nat \<Rightarrow> bool" where
  "wrong_region status = (status = 301 \<or> status = 400)"

definition client_send :: "'u s3_env \<Rightarrow> s3_call \<Rightarrow> 'u s3 \<Rightarrow> (http_failure + http_response) \<times> 'u s3" where
  "client_send x c s =
     (let region = region_for (cl_bucket c) s
      in (case attempt x c region s of
            (Inl f, s) \<Rightarrow> (Inl f, s)
          | (Inr r, s) \<Rightarrow>
              (case cl_bucket c of
                 None \<Rightarrow> (Inr r, s)
               | Some bucket \<Rightarrow>
                   if \<not> wrong_region (rs_status r) then (Inr r, s)
                   else (case region_hint x r s of
                           ((r, hint), s) \<Rightarrow>
                             (case useful_hint hint region of
                                None \<Rightarrow> (Inr r, s)
                              | Some hinted \<Rightarrow>
                                  (case attempt x c hinted s of
                                     (Inl f, s) \<Rightarrow> (Inl f, s)
                                   | (Inr retried, s) \<Rightarrow>
                                       (Inr retried,
                                        if \<not> wrong_region (rs_status retried)
                                        then s\<lparr>sx_bucket_regions := fmupd bucket hinted (sx_bucket_regions s)\<rparr>
                                        else s)))))))"

definition client_error :: "'u s3_env \<Rightarrow> http_response \<Rightarrow> 'u s3 \<Rightarrow> s3_error \<times> 'u s3" where
  "client_error x r s =
     (case response_text x r s of
        (result, s) \<Rightarrow>
          (let e = xml_error (rs_status r) (xe_events x (text_or_default result))
           in (e\<lparr>se_region := (case se_region e of Some region \<Rightarrow> Some region | None \<Rightarrow> response_header r REGION_HEADER)\<rparr>,
               s)))"

end
