(* ===== verification/S3_Fs.thy ===== *)
theory S3_Fs
  imports S3_Client
begin

text \<open>
  \<^verbatim>\<open>protocols/s3\<close>, \<^verbatim>\<open>fs\<close>: folders, files, renames, deletions and uploads over a store of objects.

  A listing is asked for page by page, for as long as the server says there is more: every operation
  takes a bound on the pages of one listing and is \<^const>\<open>None\<close> when it is too small.
\<close>

section \<open>Sequencing\<close>

definition bnd_return :: "'a \<Rightarrow> ('w, 'a) bounded" where
  "bnd_return a w = Some (Inr a, w)"

definition bnd_fail :: "protocol_error \<Rightarrow> ('w, 'a) bounded" where
  "bnd_fail e w = Some (Inl e, w)"

definition bnd_sum :: "protocol_error + 'a \<Rightarrow> ('w, 'a) bounded" where
  "bnd_sum r w = Some (r, w)"

definition bnd_update :: "('w \<Rightarrow> 'w) \<Rightarrow> ('w, unit) bounded" where
  "bnd_update f w = Some (Inr (), f w)"

text \<open>The result of an operation, an error or a value, to look at.\<close>

definition bnd_try :: "('w, 'a) bounded \<Rightarrow> ('w, protocol_error + 'a) bounded" where
  "bnd_try m w = map_option (\<lambda>(r, w). (Inr r, w)) (m w)"

fun bnd_each :: "('a \<Rightarrow> ('w, unit) bounded) \<Rightarrow> 'a list \<Rightarrow> ('w, unit) bounded" where
  "bnd_each f [] = bnd_return ()"
| "bnd_each f (a # as) = bnd_bind (f a) (\<lambda>_. bnd_each f as)"

section \<open>Uploads this connection started\<close>

definition DELETE_BATCH :: nat where
  "DELETE_BATCH = 1000"

definition COPY_LIMIT :: nat where
  "COPY_LIMIT = 5 * 1024 * 1024 * 1024"

definition COPY_PART :: nat where
  "COPY_PART = 512 * 1024 * 1024"

definition started_as_upload :: "started \<Rightarrow> s3_upload" where
  "started_as_upload d = \<lparr>up_key = sd_key d, up_id = sd_id d, up_initiated = None\<rparr>"

definition started_parts :: "started \<Rightarrow> s3_part list" where
  "started_parts d =
     map (\<lambda>n. let (etag, len) = the (fmlookup (sd_parts d) n)
              in \<lparr>pt_number = n, pt_size = len, pt_etag = etag, pt_modified = None\<rparr>)
       (sorted_list_of_fset (fmdom (sd_parts d)))"

definition remember_upload :: "string \<Rightarrow> string \<Rightarrow> string \<Rightarrow> 'u s3 \<Rightarrow> 'u s3" where
  "remember_upload bucket key i s =
     s\<lparr>sx_started := filter (\<lambda>d. sd_id d \<noteq> i) (sx_started s) @
                    [\<lparr>sd_bucket = bucket, sd_key = key, sd_id = i, sd_parts = fmempty\<rparr>]\<rparr>"

definition forget_upload :: "string \<Rightarrow> 'u s3 \<Rightarrow> 'u s3" where
  "forget_upload i s = s\<lparr>sx_started := filter (\<lambda>d. sd_id d \<noteq> i) (sx_started s)\<rparr>"

definition started_upload :: "string \<Rightarrow> string \<Rightarrow> 'u s3 \<Rightarrow> started option" where
  "started_upload bucket key s = find (\<lambda>d. sd_bucket d = bucket \<and> sd_key d = key) (rev (sx_started s))"

fun update_started :: "string \<Rightarrow> (started \<Rightarrow> started) \<Rightarrow> started list \<Rightarrow> started list" where
  "update_started i f [] = []"
| "update_started i f (d # ds) = (if sd_id d = i then f d # ds else d # update_started i f ds)"

section \<open>Errors and metadata\<close>

definition other_failure :: "http_failure \<Rightarrow> protocol_error" where
  "other_failure f = failure_into_error f Other"

definition buckets_refused :: protocol_error where
  "buckets_refused = protocol_error_new PermissionDenied ''buckets can't be created or removed here''"

definition already_exists :: "path \<Rightarrow> protocol_error" where
  "already_exists p = protocol_error_new Other (string_of_path p @ '' already exists'')"

definition folder_metadata :: metadata where
  "folder_metadata = \<lparr>m_size = 0, m_modified = None, m_kind = Dir, m_permissions = None\<rparr>"

definition file_metadata :: "nat \<Rightarrow> nat option \<Rightarrow> metadata" where
  "file_metadata len modified = \<lparr>m_size = len, m_modified = modified, m_kind = File, m_permissions = None\<rparr>"

definition panel_path :: "path \<Rightarrow> path" where
  "panel_path p = foldl join_name [RootDir] (path_segments p)"

definition object_of :: "s3_location \<Rightarrow> protocol_error + string \<times> string" where
  "object_of l = (case l of S3Object bucket key \<Rightarrow> Inr (bucket, key) | _ \<Rightarrow> Inl buckets_refused)"

section \<open>Requests\<close>

definition send_raw :: "'u s3_env \<Rightarrow> s3_call \<Rightarrow> ('u s3, http_response) bounded" where
  "send_raw x c s =
     (case client_send x c s of
        (Inl f, s) \<Rightarrow> Some (Inl (other_failure f), s)
      | (Inr r, s) \<Rightarrow> Some (Inr r, s))"

definition checked_response :: "'u s3_env \<Rightarrow> http_response \<Rightarrow> path \<Rightarrow> ('u s3, http_response) bounded" where
  "checked_response x r p s =
     (if is_success (rs_status r) then Some (Inr r, s)
      else case client_error x r s of (e, s) \<Rightarrow> Some (Inl (to_protocol (xe_status_text x) e p), s))"

definition fs_send :: "'u s3_env \<Rightarrow> s3_call \<Rightarrow> path \<Rightarrow> ('u s3, http_response) bounded" where
  "fs_send x c p = bnd_bind (send_raw x c) (\<lambda>r. checked_response x r p)"

definition fs_text :: "'u s3_env \<Rightarrow> http_response \<Rightarrow> ('u s3, string) bounded" where
  "fs_text x r s =
     (case response_text x r s of
        (Inl (k, message), s) \<Rightarrow> Some (Inl (protocol_error_of_io k message), s)
      | (Inr t, s) \<Rightarrow> Some (Inr t, s))"

text \<open>A request whose answer is a document, read by \<open>f\<close>.\<close>

definition fs_document ::
  "'u s3_env \<Rightarrow> s3_call \<Rightarrow> path \<Rightarrow> (xml_event list \<Rightarrow> protocol_error + 'a) \<Rightarrow> ('u s3, 'a) bounded" where
  "fs_document x c p f =
     bnd_bind (fs_send x c p) (\<lambda>r. bnd_bind (fs_text x r) (\<lambda>body. bnd_sum (f (xe_events x body))))"

definition with_delimiter :: "bool \<Rightarrow> s3_call \<Rightarrow> s3_call" where
  "with_delimiter folders c = (if folders then call_query ''delimiter'' ''/'' c else c)"

section \<open>Listings\<close>

fun add_prefixes :: "string list \<Rightarrow> string list \<Rightarrow> string list" where
  "add_prefixes known [] = known"
| "add_prefixes known (p # ps) = add_prefixes (if p \<in> set known then known else known @ [p]) ps"

definition listing_call :: "string \<Rightarrow> string \<Rightarrow> bool \<Rightarrow> s3_cursor option \<Rightarrow> s3_call" where
  "listing_call bucket key_prefix folders cursor =
     (let c = with_delimiter folders
                (call_query ''prefix'' key_prefix (call_query ''list-type'' ''2'' (call_new GET (Some bucket) [])))
      in (case cursor of
            Some (Token token) \<Rightarrow> call_query ''continuation-token'' token c
          | Some (StartAfter key) \<Rightarrow> call_query ''start-after'' key c
          | None \<Rightarrow> c))"

definition add_page :: "s3_listing \<Rightarrow> s3_listing \<Rightarrow> s3_listing" where
  "add_page page all =
     all\<lparr>ls_objects := ls_objects all @ ls_objects page, ls_prefixes := add_prefixes (ls_prefixes all) (ls_prefixes page)\<rparr>"

fun listing_pages ::
  "'u s3_env \<Rightarrow> nat \<Rightarrow> string \<Rightarrow> string \<Rightarrow> bool \<Rightarrow> path \<Rightarrow> s3_listing \<Rightarrow> s3_cursor option \<Rightarrow> ('u s3, s3_listing) bounded" where
  "listing_pages x 0 bucket key_prefix folders p all cursor = (\<lambda>s. None)"
| "listing_pages x (Suc n) bucket key_prefix folders p all cursor =
     bnd_bind (fs_document x (listing_call bucket key_prefix folders cursor) p xml_listing) (\<lambda>page.
     bnd_bind (bnd_sum (listing_cursor page cursor)) (\<lambda>next.
       case next of
         Some c \<Rightarrow> listing_pages x n bucket key_prefix folders p (add_page page all) (Some c)
       | None \<Rightarrow> bnd_return (add_page page all)))"

definition object_listing ::
  "'u s3_env \<Rightarrow> nat \<Rightarrow> string \<Rightarrow> string \<Rightarrow> bool \<Rightarrow> path \<Rightarrow> ('u s3, s3_listing) bounded" where
  "object_listing x n bucket key_prefix folders p =
     listing_pages x n bucket key_prefix folders p s3_listing_default None"

definition uploads_call :: "string \<Rightarrow> string \<Rightarrow> bool \<Rightarrow> (string \<times> string) option \<Rightarrow> s3_call" where
  "uploads_call bucket key_prefix folders markers =
     (let c = with_delimiter folders
                (call_query ''prefix'' key_prefix (call_query ''uploads'' [] (call_new GET (Some bucket) [])))
      in (case markers of
            Some (key, i) \<Rightarrow> call_query ''upload-id-marker'' i (call_query ''key-marker'' key c)
          | None \<Rightarrow> c))"

fun uploads_pages ::
  "'u s3_env \<Rightarrow> nat \<Rightarrow> string \<Rightarrow> string \<Rightarrow> bool \<Rightarrow> path \<Rightarrow> s3_upload list \<Rightarrow> (string \<times> string) option \<Rightarrow>
   ('u s3, s3_upload list) bounded" where
  "uploads_pages x 0 bucket key_prefix folders p all markers = (\<lambda>s. None)"
| "uploads_pages x (Suc n) bucket key_prefix folders p all markers =
     bnd_bind (send_raw x (uploads_call bucket key_prefix folders markers)) (\<lambda>r.
       if rs_status r = 403 \<or> rs_status r = 501 then bnd_return all
       else bnd_bind (checked_response x r p) (\<lambda>r.
            bnd_bind (fs_text x r) (\<lambda>body.
            bnd_bind (bnd_sum (xml_uploads (xe_events x body))) (\<lambda>page.
              case us_next page of
                Some next \<Rightarrow>
                  if next \<noteq> (case markers of Some m \<Rightarrow> m | None \<Rightarrow> ([], []))
                  then uploads_pages x n bucket key_prefix folders p (all @ us_uploads page) (Some next)
                  else bnd_return (all @ us_uploads page)
              | None \<Rightarrow> bnd_return (all @ us_uploads page)))))"

definition open_uploads ::
  "'u s3_env \<Rightarrow> nat \<Rightarrow> string \<Rightarrow> string \<Rightarrow> bool \<Rightarrow> path \<Rightarrow> ('u s3, s3_upload list) bounded" where
  "open_uploads x n bucket key_prefix folders p = uploads_pages x n bucket key_prefix folders p [] None"

definition parts_call :: "string \<Rightarrow> string \<Rightarrow> string \<Rightarrow> nat option \<Rightarrow> s3_call" where
  "parts_call bucket key i marker =
     (let c = call_query ''uploadId'' i (call_new GET (Some bucket) key)
      in (case marker of Some m \<Rightarrow> call_query ''part-number-marker'' (show_nat m) c | None \<Rightarrow> c))"

fun parts_pages ::
  "'u s3_env \<Rightarrow> nat \<Rightarrow> string \<Rightarrow> string \<Rightarrow> string \<Rightarrow> path \<Rightarrow> s3_part list \<Rightarrow> nat option \<Rightarrow> ('u s3, s3_part list) bounded" where
  "parts_pages x 0 bucket key i p all marker = (\<lambda>s. None)"
| "parts_pages x (Suc n) bucket key i p all marker =
     bnd_bind (fs_document x (parts_call bucket key i marker) p xml_parts) (\<lambda>page.
       case ps_next page of
         Some next \<Rightarrow>
           if Some next \<noteq> marker then parts_pages x n bucket key i p (all @ ps_parts page) (Some next)
           else bnd_return (all @ ps_parts page)
       | None \<Rightarrow> bnd_return (all @ ps_parts page))"

definition upload_parts :: "'u s3_env \<Rightarrow> nat \<Rightarrow> string \<Rightarrow> string \<Rightarrow> string \<Rightarrow> path \<Rightarrow> ('u s3, s3_part list) bounded" where
  "upload_parts x n bucket key i p = parts_pages x n bucket key i p [] None"

text \<open>A key that may not list parts: what this connection knows it sent.\<close>

definition known_parts :: "'u s3_env \<Rightarrow> nat \<Rightarrow> string \<Rightarrow> string \<Rightarrow> string \<Rightarrow> path \<Rightarrow> ('u s3, s3_part list) bounded" where
  "known_parts x n bucket key i p s =
     (case upload_parts x n bucket key i p s of
        None \<Rightarrow> None
      | Some (Inl e, s) \<Rightarrow>
          if pe_kind e = PermissionDenied
          then Some (Inr (case find (\<lambda>d. sd_id d = i) (sx_started s) of Some d \<Rightarrow> started_parts d | None \<Rightarrow> []), s)
          else Some (Inl e, s)
      | Some (Inr parts, s) \<Rightarrow> Some (Inr parts, s))"

definition pending_upload ::
  "'u s3_env \<Rightarrow> nat \<Rightarrow> string \<Rightarrow> string \<Rightarrow> path \<Rightarrow> ('u s3, (s3_upload \<times> s3_progress \<times> s3_part list) option) bounded" where
  "pending_upload x n bucket key p =
     bnd_bind (open_uploads x n bucket key False p) (\<lambda>uploads s.
       case (case newest_upload uploads key of
               Some u \<Rightarrow> Some u
             | None \<Rightarrow> map_option started_as_upload (started_upload bucket key s)) of
         None \<Rightarrow> Some (Inr None, s)
       | Some u \<Rightarrow>
           bnd_bind (known_parts x n bucket key (up_id u) p)
             (\<lambda>parts. bnd_return (Some (u, contiguous parts, parts))) s)"

section \<open>Uploads\<close>

definition abort_upload :: "'u s3_env \<Rightarrow> string \<Rightarrow> s3_upload \<Rightarrow> path \<Rightarrow> ('u s3, unit) bounded" where
  "abort_upload x bucket u p =
     bnd_bind (fs_send x (call_query ''uploadId'' (up_id u) (call_new DELETE (Some bucket) (up_key u))) p)
       (\<lambda>_. bnd_update (forget_upload (up_id u)))"

fun add_unknown :: "s3_upload list \<Rightarrow> s3_upload list \<Rightarrow> s3_upload list" where
  "add_unknown known [] = known"
| "add_unknown known (u # us) =
     add_unknown (if up_id u \<in> set (map up_id known) then known else known @ [u]) us"

definition abort_uploads :: "'u s3_env \<Rightarrow> nat \<Rightarrow> string \<Rightarrow> string \<Rightarrow> path \<Rightarrow> ('u s3, unit) bounded" where
  "abort_uploads x n bucket key p =
     bnd_bind (open_uploads x n bucket key False p) (\<lambda>uploads s.
       bnd_each (\<lambda>u. abort_upload x bucket u p)
         (add_unknown (filter (\<lambda>u. up_key u = key) uploads)
           (map started_as_upload (filter (\<lambda>d. sd_bucket d = bucket \<and> sd_key d = key) (sx_started s)))) s)"

definition create_upload :: "'u s3_env \<Rightarrow> string \<Rightarrow> string \<Rightarrow> path \<Rightarrow> ('u s3, string) bounded" where
  "create_upload x bucket key p =
     bnd_bind (fs_document x (call_query ''uploads'' [] (call_new POST (Some bucket) key)) p xml_upload_id) (\<lambda>i.
     bnd_bind (bnd_update (remember_upload bucket key i)) (\<lambda>_. bnd_return i))"

definition complete_with ::
  "'u s3_env \<Rightarrow> string \<Rightarrow> string \<Rightarrow> string \<Rightarrow> (nat \<times> string) list \<Rightarrow> path \<Rightarrow> ('u s3, unit) bounded" where
  "complete_with x bucket key i parts p =
     bnd_bind
       (fs_send x
         (call_body (complete_body parts)
           (call_header ''content-type'' ''application/xml'' (call_query ''uploadId'' i (call_new POST (Some bucket) key)))) p)
       (\<lambda>r. bnd_bind (fs_text x r) (\<lambda>body.
          case completion_error (xe_events x body) of
            Some e \<Rightarrow> bnd_fail (to_protocol (xe_status_text x) e p)
          | None \<Rightarrow> bnd_update (forget_upload i)))"

definition complete_upload :: "'u s3_env \<Rightarrow> nat \<Rightarrow> string \<Rightarrow> string \<Rightarrow> string \<Rightarrow> path \<Rightarrow> ('u s3, unit) bounded" where
  "complete_upload x n bucket key i p =
     bnd_bind (known_parts x n bucket key i p) (\<lambda>parts. complete_with x bucket key i (completed parts) p)"

definition text_of_bytes :: "8 word list \<Rightarrow> string" where
  "text_of_bytes bs = map (\<lambda>b. char_of (unat b)) bs"

definition io_other :: "protocol_error \<Rightarrow> io_error" where
  "io_other e = (IoOther, pe_source e)"

definition note_part :: "string \<Rightarrow> nat \<Rightarrow> string \<Rightarrow> nat \<Rightarrow> 'u s3 \<Rightarrow> 'u s3" where
  "note_part i number etag len s =
     s\<lparr>sx_started := update_started i (\<lambda>d. d\<lparr>sd_parts := fmupd number (etag, len) (sd_parts d)\<rparr>) (sx_started s)\<rparr>"

definition part_sender ::
  "'u s3_env \<Rightarrow> string \<Rightarrow> string \<Rightarrow> string \<Rightarrow> path \<Rightarrow> 'u s3 send_part" where
  "part_sender x bucket key i p number part s =
     (case client_send x
             (call_body (text_of_bytes part)
               (call_query ''uploadId'' i
                 (call_query ''partNumber'' (show_nat number) (call_new PUT (Some bucket) key)))) s of
        (Inl f, s) \<Rightarrow> (Inl (io_other (other_failure f)), s)
      | (Inr r, s) \<Rightarrow>
          if is_success (rs_status r)
          then (Inr (), note_part i number (case response_header r ''etag'' of Some t \<Rightarrow> t | None \<Rightarrow> []) (length part) s)
          else (case client_error x r s of
                  (e, s) \<Rightarrow> (Inl (io_other (to_protocol (xe_status_text x) e p)), s)))"

definition completion :: "'u s3_env \<Rightarrow> nat \<Rightarrow> string \<Rightarrow> string \<Rightarrow> string \<Rightarrow> path \<Rightarrow> ('u s3, unit) bounded_io" where
  "completion x n bucket key i p s =
     map_option (\<lambda>(r, s). (map_sum io_other id r, s)) (complete_upload x n bucket key i p s)"

section \<open>Deletions\<close>

function chunks :: "nat \<Rightarrow> 'a list \<Rightarrow> 'a list list" where
  "chunks n xs = (if xs = [] \<or> n = 0 then [] else take n xs # chunks n (drop n xs))"
  by pat_completeness auto
termination
  by (relation "measure (\<lambda>(n, xs). length xs)") auto

declare chunks.simps [simp del]

definition delete_batch :: "'u s3_env \<Rightarrow> string \<Rightarrow> path \<Rightarrow> string list \<Rightarrow> ('u s3, unit) bounded" where
  "delete_batch x bucket p keys =
     (let body = delete_body keys;
          c = call_body body
                (call_header ''content-type'' ''application/xml''
                  (call_header ''content-md5'' (ha_md5_base64 (xe_hashes x) body)
                    (call_query ''delete'' [] (call_new POST (Some bucket) []))))
      in bnd_bind (send_raw x c) (\<lambda>r.
           if rs_status r = 501
           then bnd_each (\<lambda>key. bnd_bind (fs_send x (call_new DELETE (Some bucket) key) p) (\<lambda>_. bnd_return ())) keys
           else bnd_bind (checked_response x r p) (\<lambda>r.
                bnd_bind (fs_text x r) (\<lambda>body.
                bnd_bind (bnd_sum (delete_failures (xe_events x body))) (\<lambda>failures.
                  case failures of
                    [] \<Rightarrow> bnd_return ()
                  | f # _ \<Rightarrow>
                      bnd_fail (protocol_error_new Other
                        (string_of_path p @ '': could not delete '' @ df_key f @ '' ('' @ df_code f @ '')'')))))))"

definition delete_keys :: "'u s3_env \<Rightarrow> string \<Rightarrow> string list \<Rightarrow> path \<Rightarrow> ('u s3, unit) bounded" where
  "delete_keys x bucket keys p = bnd_each (delete_batch x bucket p) (chunks DELETE_BATCH keys)"

definition abort_under :: "'u s3_env \<Rightarrow> nat \<Rightarrow> string \<Rightarrow> string \<Rightarrow> path \<Rightarrow> ('u s3, unit) bounded" where
  "abort_under x n bucket key_prefix p =
     bnd_bind (open_uploads x n bucket key_prefix False p) (bnd_each (\<lambda>u. abort_upload x bucket u p))"

definition delete_folder :: "'u s3_env \<Rightarrow> nat \<Rightarrow> string \<Rightarrow> string \<Rightarrow> path \<Rightarrow> ('u s3, unit) bounded" where
  "delete_folder x n bucket key_prefix p =
     bnd_bind (object_listing x n bucket key_prefix False p) (\<lambda>l.
     bnd_bind (delete_keys x bucket (map ob_key (ls_objects l)) p) (\<lambda>_.
       abort_under x n bucket key_prefix p))"

end
