(* ===== verification/S3_Files.thy ===== *)
theory S3_Files
  imports S3_Fs
begin

text \<open>
  \<^verbatim>\<open>protocols/s3\<close>, \<^verbatim>\<open>fs\<close>: what a path is, copies on the server, and the operations of the
  \<^verbatim>\<open>FileSystem\<close> contract.
\<close>

section \<open>What a path is\<close>

definition s3_locate :: "'u s3_env \<Rightarrow> path \<Rightarrow> s3_location" where
  "s3_locate x p = locate_path p (s3_bucket (xe_settings x))"

definition head_object :: "'u s3_env \<Rightarrow> string \<Rightarrow> string \<Rightarrow> path \<Rightarrow> ('u s3, metadata option) bounded" where
  "head_object x bucket key p =
     bnd_bind (send_raw x (call_new HEAD (Some bucket) key)) (\<lambda>r.
       if rs_status r = 404 then bnd_return None
       else bnd_bind (checked_response x r p) (\<lambda>r.
         let len = (case response_header r ''content-length'' of
                      Some t \<Rightarrow> (case parse_uint 64 t of Some n \<Rightarrow> n | None \<Rightarrow> 0)
                    | None \<Rightarrow> 0);
             modified = (case response_header r ''last-modified'' of Some t \<Rightarrow> xe_http_date x t | None \<Rightarrow> None)
         in bnd_return (Some (file_metadata len modified))))"

definition is_folder :: "'u s3_env \<Rightarrow> string \<Rightarrow> string \<Rightarrow> path \<Rightarrow> ('u s3, bool) bounded" where
  "is_folder x bucket key p =
     bnd_bind
       (fs_document x
         (call_query ''max-keys'' ''1''
           (call_query ''prefix'' (key @ ''/'') (call_query ''list-type'' ''2'' (call_new GET (Some bucket) []))))
         p xml_listing)
       (\<lambda>page. bnd_return (ls_objects page \<noteq> [] \<or> ls_prefixes page \<noteq> []))"

definition staged_metadata :: "s3_upload \<Rightarrow> s3_progress \<Rightarrow> 'u s3 \<Rightarrow> metadata" where
  "staged_metadata u progress s =
     file_metadata (sp_size progress)
       (adjust_time (case sp_modified progress of Some t \<Rightarrow> Some t | None \<Rightarrow> up_initiated u) (sx_skew s))"

definition find_object :: "'u s3_env \<Rightarrow> string \<Rightarrow> string \<Rightarrow> path \<Rightarrow> ('u s3, metadata option) bounded" where
  "find_object x bucket key p =
     bnd_bind (head_object x bucket key p) (\<lambda>found.
       case found of
         Some m \<Rightarrow> bnd_return (Some m)
       | None \<Rightarrow>
           bnd_bind (is_folder x bucket key p) (\<lambda>f. bnd_return (if f then Some folder_metadata else None)))"

definition find_path :: "'u s3_env \<Rightarrow> nat \<Rightarrow> path \<Rightarrow> ('u s3, metadata option) bounded" where
  "find_path x n p =
     (case s3_locate x p of
        S3Object bucket key \<Rightarrow>
          (case staged_key key of
             None \<Rightarrow> find_object x bucket key p
           | Some staged \<Rightarrow>
               bnd_bind (pending_upload x n bucket staged p) (\<lambda>pending s.
                 case pending of
                   Some (u, progress, _) \<Rightarrow> Some (Inr (Some (staged_metadata u progress s)), s)
                 | None \<Rightarrow> find_object x bucket key p s))
      | _ \<Rightarrow> bnd_return (Some folder_metadata))"

definition s3_stat :: "'u s3_env \<Rightarrow> nat \<Rightarrow> path \<Rightarrow> ('u s3, metadata) bounded" where
  "s3_stat x n p =
     bnd_bind (find_path x n p) (\<lambda>found.
       case found of
         Some m \<Rightarrow> bnd_return m
       | None \<Rightarrow> bnd_fail (protocol_error_new NotFound (string_of_path p @ '' not found'')))"

section \<open>Listing a folder\<close>

definition below :: "string \<Rightarrow> string \<Rightarrow> string" where
  "below key_prefix key = drop (min (length key_prefix) (length key)) key"

definition plain_name :: "string \<Rightarrow> bool" where
  "plain_name name = (name \<noteq> [] \<and> CHR ''/'' \<notin> set name)"

definition item_at :: "path \<Rightarrow> string \<Rightarrow> metadata \<Rightarrow> dir_item" where
  "item_at base name m = \<lparr>d_name = name, d_path = join_name base name, d_metadata = m\<rparr>"

definition bucket_item :: "path \<Rightarrow> s3_bucket \<Rightarrow> dir_item" where
  "bucket_item base b = item_at base (bk_name b) (folder_metadata\<lparr>m_modified := bk_created b\<rparr>)"

definition folder_items :: "path \<Rightarrow> string \<Rightarrow> s3_listing \<Rightarrow> dir_item list" where
  "folder_items base key_prefix l =
     map (\<lambda>name. item_at base name folder_metadata)
       (filter plain_name (map (\<lambda>f. trim_end_matches (CHR ''/'') (below key_prefix f)) (ls_prefixes l)))"

definition file_items :: "path \<Rightarrow> string \<Rightarrow> s3_listing \<Rightarrow> dir_item list" where
  "file_items base key_prefix l =
     map (\<lambda>ob. item_at base (below key_prefix (ob_key ob)) (file_metadata (ob_size ob) (ob_modified ob)))
       (filter (\<lambda>ob. plain_name (below key_prefix (ob_key ob))) (ls_objects l))"

definition staged_name :: "string \<Rightarrow> s3_upload \<Rightarrow> string" where
  "staged_name key_prefix u = below key_prefix (up_key u) @ PART_SUFFIX"

definition staged_item ::
  "'u s3_env \<Rightarrow> nat \<Rightarrow> string \<Rightarrow> string \<Rightarrow> path \<Rightarrow> path \<Rightarrow> s3_upload \<Rightarrow> dir_item list \<Rightarrow> ('u s3, dir_item list) bounded" where
  "staged_item x n bucket key_prefix base dir u items =
     (let name = staged_name key_prefix u
      in if CHR ''/'' \<in> set name \<or> name \<in> set (map d_name items) then bnd_return items
         else bnd_bind (known_parts x n bucket (up_key u) (up_id u) dir) (\<lambda>parts s.
                Some (Inr (items @ [item_at base name (staged_metadata u (contiguous parts) s)]), s)))"

fun staged_items ::
  "'u s3_env \<Rightarrow> nat \<Rightarrow> string \<Rightarrow> string \<Rightarrow> path \<Rightarrow> path \<Rightarrow> s3_upload list \<Rightarrow> s3_upload list \<Rightarrow> string list \<Rightarrow>
   dir_item list \<Rightarrow> ('u s3, dir_item list) bounded" where
  "staged_items x n bucket key_prefix base dir uploads [] seen items = bnd_return items"
| "staged_items x n bucket key_prefix base dir uploads (u # us) seen items =
     (if up_key u \<in> set seen then staged_items x n bucket key_prefix base dir uploads us seen items
      else case newest_upload uploads (up_key u) of
             None \<Rightarrow> staged_items x n bucket key_prefix base dir uploads us (seen @ [up_key u]) items
           | Some newest \<Rightarrow>
               bnd_bind (staged_item x n bucket key_prefix base dir newest items)
                 (staged_items x n bucket key_prefix base dir uploads us (seen @ [up_key u])))"

definition s3_items :: "'u s3_env \<Rightarrow> nat \<Rightarrow> path \<Rightarrow> ('u s3, dir_item list) bounded" where
  "s3_items x n dir =
     (let base = panel_path dir
      in (case s3_locate x dir of
            S3Root \<Rightarrow>
              bnd_bind (fs_document x (call_new GET None []) dir xml_buckets)
                (\<lambda>bs. bnd_return (map (bucket_item base) bs))
          | l \<Rightarrow>
              (let bucket = (case location_bucket l of Some b \<Rightarrow> b | None \<Rightarrow> []);
                   key_prefix = location_prefix l
               in bnd_bind (object_listing x n bucket key_prefix True dir) (\<lambda>listing.
                  bnd_bind (open_uploads x n bucket key_prefix True dir) (\<lambda>uploads.
                    staged_items x n bucket key_prefix base dir uploads uploads []
                      (folder_items base key_prefix listing @ file_items base key_prefix listing))))))"

definition entry_of_item :: "dir_item \<Rightarrow> entry" where
  "entry_of_item i =
     \<lparr>e_name = d_name i, e_path = d_path i, e_is_dir = metadata_is_dir (d_metadata i), e_size = m_size (d_metadata i),
      e_permissions = None\<rparr>"

definition s3_list :: "'u s3_env \<Rightarrow> nat \<Rightarrow> path \<Rightarrow> ('u s3, entry list) bounded" where
  "s3_list x n dir = bnd_bind (s3_items x n dir) (\<lambda>items. bnd_return (map entry_of_item items))"

section \<open>Copies and moves\<close>

definition copy_part_call :: "string \<Rightarrow> string \<Rightarrow> string \<Rightarrow> string \<Rightarrow> nat \<Rightarrow> nat \<times> nat \<Rightarrow> s3_call" where
  "copy_part_call bucket source to_key i number bounds =
     call_header ''x-amz-copy-source-range'' (''bytes='' @ show_nat (fst bounds) @ ''-'' @ show_nat (snd bounds))
       (call_header ''x-amz-copy-source'' source
         (call_query ''uploadId'' i
           (call_query ''partNumber'' (show_nat number) (call_new PUT (Some bucket) to_key))))"

definition copy_one_part ::
  "'u s3_env \<Rightarrow> string \<Rightarrow> string \<Rightarrow> string \<Rightarrow> string \<Rightarrow> path \<Rightarrow> nat \<Rightarrow> nat \<times> nat \<Rightarrow> ('u s3, nat \<times> string) bounded" where
  "copy_one_part x bucket source to_key i p number bounds =
     bnd_bind (fs_send x (copy_part_call bucket source to_key i number bounds) p) (\<lambda>r.
     bnd_bind (fs_text x r) (\<lambda>reply.
       case completion_error (xe_events x reply) of
         Some e \<Rightarrow> bnd_fail (to_protocol (xe_status_text x) e p)
       | None \<Rightarrow>
           (case copy_part_etag (xe_events x reply) of
              Some etag \<Rightarrow> bnd_return (number, etag)
            | None \<Rightarrow>
                bnd_fail (protocol_error_new Other
                  (''the server did not confirm a copied part of '' @ string_of_path p)))))"

fun copy_parts_from ::
  "'u s3_env \<Rightarrow> string \<Rightarrow> string \<Rightarrow> string \<Rightarrow> string \<Rightarrow> path \<Rightarrow> nat \<Rightarrow> (nat \<times> nat) list \<Rightarrow>
   (nat \<times> string) list \<Rightarrow> ('u s3, (nat \<times> string) list) bounded" where
  "copy_parts_from x bucket source to_key i p number [] parts = bnd_return parts"
| "copy_parts_from x bucket source to_key i p number (b # bs) parts =
     bnd_bind (copy_one_part x bucket source to_key i p number b)
       (\<lambda>part. copy_parts_from x bucket source to_key i p (Suc number) bs (parts @ [part]))"

definition copy_parts ::
  "'u s3_env \<Rightarrow> string \<Rightarrow> string \<Rightarrow> string \<Rightarrow> string \<Rightarrow> nat \<Rightarrow> path \<Rightarrow> ('u s3, unit) bounded" where
  "copy_parts x bucket source to_key i len p =
     bnd_bind (copy_parts_from x bucket source to_key i p 1 (copy_ranges len COPY_PART) [])
       (\<lambda>parts. complete_with x bucket to_key i parts p)"

definition copy_whole :: "'u s3_env \<Rightarrow> string \<Rightarrow> string \<Rightarrow> string \<Rightarrow> path \<Rightarrow> ('u s3, unit) bounded" where
  "copy_whole x bucket source to_key p =
     bnd_bind (fs_send x (call_header ''x-amz-copy-source'' source (call_new PUT (Some bucket) to_key)) p) (\<lambda>r.
     bnd_bind (fs_text x r) (\<lambda>reply.
       case completion_error (xe_events x reply) of
         Some e \<Rightarrow> bnd_fail (to_protocol (xe_status_text x) e p)
       | None \<Rightarrow> bnd_return ()))"

definition copy_in_parts ::
  "'u s3_env \<Rightarrow> string \<Rightarrow> string \<Rightarrow> string \<Rightarrow> nat \<Rightarrow> path \<Rightarrow> ('u s3, unit) bounded" where
  "copy_in_parts x bucket source to_key len p =
     bnd_bind (create_upload x bucket to_key p) (\<lambda>i.
     bnd_bind (bnd_try (copy_parts x bucket source to_key i len p)) (\<lambda>result.
       case result of
         Inr _ \<Rightarrow> bnd_return ()
       | Inl e \<Rightarrow>
           bnd_bind (bnd_try (abort_upload x bucket \<lparr>up_key = to_key, up_id = i, up_initiated = None\<rparr> p))
             (\<lambda>_. bnd_fail e)))"

definition copy_object ::
  "'u s3_env \<Rightarrow> string \<Rightarrow> string \<Rightarrow> string \<Rightarrow> nat \<Rightarrow> path \<Rightarrow> ('u s3, unit) bounded" where
  "copy_object x bucket from_key to_key len p =
     (let source = ''/'' @ encode_key bucket @ ''/'' @ encode_key from_key
      in bnd_bind (if len \<le> COPY_LIMIT then copy_whole x bucket source to_key p
                   else copy_in_parts x bucket source to_key len p) (\<lambda>_.
         bnd_bind (head_object x bucket to_key p) (\<lambda>copied.
           if (case copied of Some m \<Rightarrow> m_size m = len | None \<Rightarrow> False) then bnd_return ()
           else bnd_bind (bnd_try (fs_send x (call_new DELETE (Some bucket) to_key) p)) (\<lambda>_.
                  bnd_fail (protocol_error_new Other (''the copy of '' @ string_of_path p @ '' is incomplete''))))))"

definition move_one :: "'u s3_env \<Rightarrow> string \<Rightarrow> string \<Rightarrow> string \<Rightarrow> path \<Rightarrow> s3_object \<Rightarrow> ('u s3, unit) bounded" where
  "move_one x bucket from_key to_key p ob =
     bnd_bind (bnd_try (copy_object x bucket (ob_key ob) (to_key @ drop (length from_key) (ob_key ob)) (ob_size ob) p))
       (\<lambda>result.
          case result of
            Inr _ \<Rightarrow> bnd_return ()
          | Inl e \<Rightarrow>
              bnd_fail (protocol_error_new Other
                (string_of_path p @ '': could not move '' @ ob_key ob @ '' ('' @ pe_source e @ '')'')))"

definition move_folder :: "'u s3_env \<Rightarrow> nat \<Rightarrow> string \<Rightarrow> string \<Rightarrow> string \<Rightarrow> path \<Rightarrow> ('u s3, unit) bounded" where
  "move_folder x n bucket from_key to_key p =
     bnd_bind (object_listing x n bucket (from_key @ ''/'') False p) (\<lambda>l.
     bnd_bind (bnd_each (move_one x bucket from_key to_key p) (ls_objects l)) (\<lambda>_.
     bnd_bind (delete_keys x bucket (map ob_key (ls_objects l)) p) (\<lambda>_.
       abort_under x n bucket (from_key @ ''/'') p)))"

section \<open>Changes\<close>

definition delete_object :: "'u s3_env \<Rightarrow> string \<Rightarrow> string \<Rightarrow> path \<Rightarrow> ('u s3, unit) bounded" where
  "delete_object x bucket key p = bnd_bind (fs_send x (call_new DELETE (Some bucket) key) p) (\<lambda>_. bnd_return ())"

definition s3_create_dir :: "'u s3_env \<Rightarrow> path \<Rightarrow> ('u s3, unit) bounded" where
  "s3_create_dir x p =
     bnd_bind (bnd_sum (object_of (s3_locate x p))) (\<lambda>(bucket, key).
     bnd_bind (fs_send x (call_new PUT (Some bucket) (key @ ''/'')) p) (\<lambda>_. bnd_return ()))"

text \<open>A rename of two keys of one bucket that is not the end of a staged upload.\<close>

definition rename_object ::
  "'u s3_env \<Rightarrow> nat \<Rightarrow> string \<Rightarrow> string \<Rightarrow> string \<Rightarrow> path \<Rightarrow> path \<Rightarrow> ('u s3, unit) bounded" where
  "rename_object x n bucket from_key to_key p q =
     bnd_bind (s3_stat x n p) (\<lambda>m.
     bnd_bind (find_path x n q) (\<lambda>existing.
       if metadata_is_dir m
       then (if existing \<noteq> None then bnd_fail (already_exists q)
             else move_folder x n bucket from_key to_key p)
       else if (case existing of Some m \<Rightarrow> metadata_is_dir m | None \<Rightarrow> False) then bnd_fail (already_exists q)
       else bnd_bind (copy_object x bucket from_key to_key (m_size m) p) (\<lambda>_. delete_object x bucket from_key p)))"

definition s3_rename :: "'u s3_env \<Rightarrow> nat \<Rightarrow> path \<Rightarrow> path \<Rightarrow> ('u s3, unit) bounded" where
  "s3_rename x n p q =
     bnd_bind (bnd_sum (object_of (s3_locate x p))) (\<lambda>(bucket, from_key).
     bnd_bind (bnd_sum (object_of (s3_locate x q))) (\<lambda>(to_bucket, to_key).
       if bucket \<noteq> to_bucket then bnd_fail (protocol_error_new Other ''moving between buckets is not supported'')
       else if from_key = to_key then bnd_return ()
       else if staged_key from_key = Some to_key
       then bnd_bind (pending_upload x n bucket to_key p) (\<lambda>pending.
              case pending of
                Some (u, _, _) \<Rightarrow> complete_upload x n bucket to_key (up_id u) p
              | None \<Rightarrow> rename_object x n bucket from_key to_key p q)
       else rename_object x n bucket from_key to_key p q))"

definition s3_remove_file :: "'u s3_env \<Rightarrow> nat \<Rightarrow> path \<Rightarrow> ('u s3, unit) bounded" where
  "s3_remove_file x n p =
     bnd_bind (bnd_sum (object_of (s3_locate x p))) (\<lambda>(bucket, key).
       case staged_key key of
         None \<Rightarrow> delete_object x bucket key p
       | Some staged \<Rightarrow>
           bnd_bind (pending_upload x n bucket staged p) (\<lambda>pending.
             if pending \<noteq> None then abort_uploads x n bucket staged p else delete_object x bucket key p))"

definition s3_delete :: "'u s3_env \<Rightarrow> nat \<Rightarrow> path \<Rightarrow> ('u s3, unit) bounded" where
  "s3_delete x n p =
     bnd_bind (bnd_sum (object_of (s3_locate x p))) (\<lambda>(bucket, key).
     bnd_bind (s3_stat x n p) (\<lambda>m.
       if metadata_is_dir m then delete_folder x n bucket (key @ ''/'') p else s3_remove_file x n p))"

definition s3_home :: path where
  "s3_home = [RootDir]"

section \<open>Reading\<close>

definition open_reader :: "s3_reader \<Rightarrow> ('u s3, handle) bounded" where
  "open_reader r s =
     Some (Inr (sx_next_handle s),
           s\<lparr>sx_readers := fmupd (sx_next_handle s) r (sx_readers s), sx_next_handle := sx_next_handle s + 1\<rparr>)"

definition read_some :: "'u s3_env \<Rightarrow> s3_reader \<Rightarrow> nat \<Rightarrow> 'u s3 \<Rightarrow> (io_error + 8 word list \<times> s3_reader) \<times> 'u s3" where
  "read_some x r n s =
     (case r of
        HeldBody bs \<Rightarrow> (Inr (take n bs, HeldBody (drop n bs)), s)
      | NetBody h \<Rightarrow>
          (case xe_read x h n (sx_net s) of
             (Inl e, u) \<Rightarrow> (Inl e, s\<lparr>sx_net := u\<rparr>)
           | (Inr bs, u) \<Rightarrow> (Inr (take n bs, NetBody h), s\<lparr>sx_net := u\<rparr>)))"

definition SKIP_BUFFER :: nat where
  "SKIP_BUFFER = 8192"

text \<open>\<^verbatim>\<open>tokio::io::copy\<close> of the next bytes into the sink: up to that many, fewer when the body ends.\<close>

function skip_bytes ::
  "'u s3_env \<Rightarrow> s3_reader \<Rightarrow> nat \<Rightarrow> nat \<Rightarrow> 'u s3 \<Rightarrow> (io_error + nat \<times> s3_reader) \<times> 'u s3" where
  "skip_bytes x r left skipped s =
     (if left = 0 then (Inr (skipped, r), s)
      else case read_some x r (min left SKIP_BUFFER) s of
             (Inl e, s) \<Rightarrow> (Inl e, s)
           | (Inr (bs, r), s) \<Rightarrow>
               if bs = [] then (Inr (skipped, r), s)
               else skip_bytes x r (left - length bs) (skipped + length bs) s)"
  by pat_completeness auto
termination
  by (relation "measure (\<lambda>(x, r, left, skipped, s). left)") auto

declare skip_bytes.simps [simp del]

definition reader_of :: "http_response \<Rightarrow> s3_reader" where
  "reader_of r =
     (case rs_body r of Streamed h \<Rightarrow> NetBody h | Held t \<Rightarrow> HeldBody (map (\<lambda>c. of_char c) t))"

definition skip_to :: "'u s3_env \<Rightarrow> s3_reader \<Rightarrow> nat \<Rightarrow> ('u s3, handle) bounded" where
  "skip_to x r offset s =
     (case skip_bytes x r offset 0 s of
        (Inl (k, message), s) \<Rightarrow> Some (Inl (protocol_error_of_io k message), s)
      | (Inr (skipped, r), s) \<Rightarrow>
          if skipped < offset
          then Some (Inl (protocol_error_new Other ''the server sent fewer bytes than the resume offset''), s)
          else open_reader r s)"

definition s3_open_read :: "'u s3_env \<Rightarrow> path \<Rightarrow> nat \<Rightarrow> ('u s3, handle) bounded" where
  "s3_open_read x p offset =
     bnd_bind (bnd_sum (object_of (s3_locate x p))) (\<lambda>(bucket, key).
       let c = call_new GET (Some bucket) key;
           c = (if 0 < offset then call_header ''range'' (''bytes='' @ show_nat offset @ ''-'') c else c)
       in bnd_bind (send_raw x c) (\<lambda>r.
            if rs_status r = 416 \<and> 0 < offset then open_reader (HeldBody [])
            else bnd_bind (checked_response x r p) (\<lambda>r.
              if rs_status r \<noteq> 206 \<and> 0 < offset then skip_to x (reader_of r) offset
              else open_reader (reader_of r))))"

definition s3_read :: "'u s3_env \<Rightarrow> handle \<Rightarrow> nat \<Rightarrow> 'u s3 \<Rightarrow> (io_error + 8 word list) \<times> 'u s3" where
  "s3_read x h n s =
     (case fmlookup (sx_readers s) h of
        None \<Rightarrow> (Inr [], s)
      | Some r \<Rightarrow>
          (case read_some x r n s of
             (Inl e, s) \<Rightarrow> (Inl e, s)
           | (Inr (bs, r), s) \<Rightarrow> (Inr bs, s\<lparr>sx_readers := fmupd h r (sx_readers s)\<rparr>)))"

section \<open>Writing\<close>

definition open_writer ::
  "string \<Rightarrow> string \<Rightarrow> string \<Rightarrow> path \<Rightarrow> nat \<Rightarrow> bool \<Rightarrow> nat \<Rightarrow> ('u s3, writer) bounded" where
  "open_writer bucket key i p first_part finish offset s =
     (let m = multipart_new first_part finish (string_of_path p @ '' is too large for S3 multipart upload'');
          h = sx_next_handle s
      in Some (Inr \<lparr>w_stream = h, w_offset = offset\<rparr>,
               s\<lparr>sx_writers := fmupd h \<lparr>sw_bucket = bucket, sw_key = key, sw_id = i, sw_path = p, sw_writer = m\<rparr> (sx_writers s),
                 sx_next_handle := h + 1\<rparr>))"

definition s3_open_write :: "'u s3_env \<Rightarrow> nat \<Rightarrow> path \<Rightarrow> nat \<Rightarrow> ('u s3, writer) bounded" where
  "s3_open_write x n p offset =
     bnd_bind (bnd_sum (object_of (s3_locate x p))) (\<lambda>(bucket, key).
       case staged_key key of
         None \<Rightarrow> bnd_bind (create_upload x bucket key p) (\<lambda>i. open_writer bucket key i p 1 True 0)
       | Some staged \<Rightarrow>
           bnd_bind (pending_upload x n bucket staged p) (\<lambda>found.
             case decide offset (map_option (\<lambda>(u, progress, _). (up_id u, progress)) found) of
               Continue i next_part \<Rightarrow> open_writer bucket staged i p next_part False offset
             | Restart \<Rightarrow>
                 bnd_bind (abort_uploads x n bucket staged p) (\<lambda>_.
                 bnd_bind (create_upload x bucket staged p) (\<lambda>i. open_writer bucket staged i p 1 False 0))))"

definition sender_of :: "'u s3_env \<Rightarrow> s3_writer \<Rightarrow> 'u s3 send_part" where
  "sender_of x w = part_sender x (sw_bucket w) (sw_key w) (sw_id w) (sw_path w)"

definition put_writer :: "handle \<Rightarrow> s3_writer \<Rightarrow> multipart_writer \<Rightarrow> 'u s3 \<Rightarrow> 'u s3" where
  "put_writer h w m s = s\<lparr>sx_writers := fmupd h (w\<lparr>sw_writer := m\<rparr>) (sx_writers s)\<rparr>"

definition s3_write_all :: "'u s3_env \<Rightarrow> handle \<Rightarrow> 8 word list \<Rightarrow> 'u s3 \<Rightarrow> (io_error + unit) \<times> 'u s3" where
  "s3_write_all x h bs s =
     (case fmlookup (sx_writers s) h of
        None \<Rightarrow> (Inr (), s)
      | Some w \<Rightarrow>
          (case write_all_parts (sender_of x w) bs (sw_writer w) s of
             (result, m, s) \<Rightarrow> (result, put_writer h w m s)))"

definition s3_flush :: "'u s3_env \<Rightarrow> handle \<Rightarrow> 'u s3 \<Rightarrow> (io_error + unit) \<times> 'u s3" where
  "s3_flush x h s =
     (case fmlookup (sx_writers s) h of
        None \<Rightarrow> (Inr (), s)
      | Some w \<Rightarrow>
          (case poll_flush (sender_of x w) (sw_writer w) s of
             (result, m, s) \<Rightarrow> (result, put_writer h w m s)))"

definition s3_shutdown :: "'u s3_env \<Rightarrow> nat \<Rightarrow> handle \<Rightarrow> 'u s3 \<Rightarrow> ((io_error + unit) \<times> 'u s3) option" where
  "s3_shutdown x n h s =
     (case fmlookup (sx_writers s) h of
        None \<Rightarrow> Some (Inr (), s)
      | Some w \<Rightarrow>
          map_option (\<lambda>(result, m, s). (result, put_writer h w m s))
            (poll_shutdown (sender_of x w) (completion x n (sw_bucket w) (sw_key w) (sw_id w) (sw_path w)) (sw_writer w) s))"

end
