(* ===== verification/Tls.thy ===== *)
theory Tls
  imports Persist Desk_State
begin

text \<open>
  \<^verbatim>\<open>porthmos-tls\<close>: which certificate of a server is accepted, the file of the certificates the user
  has confirmed, and the question about an unknown one.

  The checks of the web PKI, the parser of certificates and the codec of the file (TOML) are
  libraries: parameters.
\<close>

section \<open>Certificates\<close>

record certificate_details =
  cd_fingerprint :: string
  cd_subject :: string
  cd_expires :: string

definition unknown_text :: string where
  "unknown_text = ''unknown''"

text \<open>
  \<^verbatim>\<open>sha256\<close> is the digest in base 64 without padding, \<^verbatim>\<open>parse\<close> the subject of a certificate with
  the day it expires, printed.
\<close>

definition certificate_details_of ::
  "(string \<Rightarrow> string) \<Rightarrow> (string \<Rightarrow> (string \<times> string) option) \<Rightarrow> string \<Rightarrow> certificate_details" where
  "certificate_details_of sha256 parse der =
     (let fingerprint = ''SHA256:'' @ sha256 der
      in (case parse der of
            Some (subject, expires) \<Rightarrow> \<lparr>cd_fingerprint = fingerprint, cd_subject = subject, cd_expires = expires\<rparr>
          | None \<Rightarrow> \<lparr>cd_fingerprint = fingerprint, cd_subject = unknown_text, cd_expires = unknown_text\<rparr>))"

section \<open>The file of confirmed certificates\<close>

record pinned =
  pn_sha256 :: string
  pn_subject :: string
  pn_expires :: string

record pin_codec =
  pc_decode :: "string \<Rightarrow> string + (string, pinned) fmap"
  pc_encode :: "(string, pinned) fmap \<Rightarrow> string + string"

definition store_error :: "path \<Rightarrow> string \<Rightarrow> protocol_error" where
  "store_error p e = protocol_error_new Connect (''invalid '' @ string_of_path p @ '': '' @ e)"

definition load_pins :: "pin_codec \<Rightarrow> path \<Rightarrow> disk \<Rightarrow> (protocol_error + (string, pinned) fmap) \<times> disk" where
  "load_pins codec p d =
     (case disk_try d of (good, d) \<Rightarrow>
        (case fmlookup (dk_files d) p of
           None \<Rightarrow> (Inr fmempty, d)
         | Some contents \<Rightarrow>
             if \<not> good then (Inl (store_error p (dk_error d)), d)
             else (case pc_decode codec contents of
                     Inl e \<Rightarrow> (Inl (store_error p e), d)
                   | Inr pins \<Rightarrow> (Inr pins, d))))"

definition pin_key :: "string \<Rightarrow> nat \<Rightarrow> string" where
  "pin_key host port = host @ '':'' @ show_nat port"

definition lookup_pin ::
  "pin_codec \<Rightarrow> path \<Rightarrow> string \<Rightarrow> nat \<Rightarrow> disk \<Rightarrow> (protocol_error + string option) \<times> disk" where
  "lookup_pin codec p host port d =
     (case load_pins codec p d of
        (Inl e, d) \<Rightarrow> (Inl e, d)
      | (Inr pins, d) \<Rightarrow> (Inr (map_option pn_sha256 (fmlookup pins (pin_key host port))), d))"

text \<open>\<^verbatim>\<open>Path::with_extension\<close>: what follows the last dot of the name, unless the name starts with it.\<close>

definition file_stem :: "string \<Rightarrow> string" where
  "file_stem name = (case rfind (CHR ''.'') name of Some (Suc i) \<Rightarrow> take (Suc i) name | _ \<Rightarrow> name)"

definition with_extension :: "path \<Rightarrow> string \<Rightarrow> path" where
  "with_extension p extension =
     (case file_name p of
        None \<Rightarrow> p
      | Some name \<Rightarrow> with_file_name p (file_stem name @ ''.'' @ extension))"

text \<open>\<^verbatim>\<open>std::fs::write\<close>: the file is emptied, then written.\<close>

definition disk_write :: "path \<Rightarrow> string \<Rightarrow> disk \<Rightarrow> bool \<times> disk" where
  "disk_write p contents d =
     (case disk_try d of (opened, d) \<Rightarrow>
      if \<not> opened then (False, d)
      else (case disk_try d of (written, d) \<Rightarrow>
        (written,
         d\<lparr>dk_files := fmupd p (if written then contents else take (dk_short d) contents) (dk_files d)\<rparr>)))"

definition save_pins :: "pin_codec \<Rightarrow> path \<Rightarrow> (string, pinned) fmap \<Rightarrow> disk \<Rightarrow> (protocol_error + unit) \<times> disk" where
  "save_pins codec p pins d =
     (case pc_encode codec pins of
        Inl e \<Rightarrow> (Inl (store_error p e), d)
      | Inr contents \<Rightarrow>
          (case (case path_parent p of None \<Rightarrow> (True, d) | Some _ \<Rightarrow> disk_try d) of
             (False, d) \<Rightarrow> (Inl (store_error p (dk_error d)), d)
           | (True, d) \<Rightarrow>
               (case disk_write (with_extension p ''toml.tmp'') contents d of
                  (False, d) \<Rightarrow> (Inl (store_error p (dk_error d)), d)
                | (True, d) \<Rightarrow>
                    (case disk_rename (with_extension p ''toml.tmp'') p d of
                       (False, d) \<Rightarrow> (Inl (store_error p (dk_error d)), d)
                     | (True, d) \<Rightarrow> (Inr (), d)))))"

definition remember_pin ::
  "pin_codec \<Rightarrow> path \<Rightarrow> string \<Rightarrow> nat \<Rightarrow> certificate_details \<Rightarrow> disk \<Rightarrow> (protocol_error + unit) \<times> disk" where
  "remember_pin codec p host port details d =
     (case load_pins codec p d of
        (Inl e, d) \<Rightarrow> (Inl e, d)
      | (Inr pins, d) \<Rightarrow>
          save_pins codec p
            (fmupd (pin_key host port)
              \<lparr>pn_sha256 = cd_fingerprint details, pn_subject = cd_subject details, pn_expires = cd_expires details\<rparr> pins)
            d)"

section \<open>Accepting a certificate\<close>

datatype trust_problem = Unknown certificate_details | Changed | Store string

text \<open>
  \<^verbatim>\<open>TrustVerifier::verify_server_cert\<close>: whether the certificate is accepted, and what is put into the
  problem slot when it is not.  \<^verbatim>\<open>system_ok\<close> is the answer of the web PKI.
\<close>

definition verify_server_cert ::
  "pin_codec \<Rightarrow> path \<Rightarrow> string \<Rightarrow> nat \<Rightarrow> bool \<Rightarrow> certificate_details \<Rightarrow> disk \<Rightarrow>
   (trust_problem option \<times> string + unit) \<times> disk" where
  "verify_server_cert codec p host port system_ok presented d =
     (if system_ok then (Inr (), d)
      else case lookup_pin codec p host port d of
             (Inr (Some pin), d) \<Rightarrow>
               if pin = cd_fingerprint presented then (Inr (), d)
               else (Inl (Some Changed, ''certificate changed''), d)
           | (Inr None, d) \<Rightarrow> (Inl (Some (Unknown presented), ''certificate not trusted''), d)
           | (Inl e, d) \<Rightarrow> (Inl (Some (Store (pe_source e)), ''certificate store unreadable''), d))"

section \<open>Asking (trust)\<close>

text \<open>
  \<^verbatim>\<open>ask\<close> is the prompter, \<^verbatim>\<open>run_disk\<close> runs what needs the disk of that world.
\<close>

definition ask_to_trust ::
  "pin_codec \<Rightarrow> path \<Rightarrow> (question \<Rightarrow> 'u \<Rightarrow> answer option \<times> 'u) \<Rightarrow>
   ((disk \<Rightarrow> (protocol_error + unit) \<times> disk) \<Rightarrow> 'u \<Rightarrow> (protocol_error + unit) \<times> 'u) \<Rightarrow>
   trust_problem \<Rightarrow> string \<Rightarrow> string \<Rightarrow> nat \<Rightarrow> 'u \<Rightarrow> (protocol_error + unit) \<times> 'u" where
  "ask_to_trust codec p ask run_disk problem name host port u =
     (case problem of
        Unknown details \<Rightarrow>
          (case ask (TrustCertificate name host port (cd_fingerprint details) (cd_subject details) (cd_expires details)) u of
             (reply, u) \<Rightarrow>
               if reply \<noteq> Some Confirmed then (Inl (protocol_error_new KCancelled ''Connection cancelled''), u)
               else run_disk (remember_pin codec p host port details) u)
      | Changed \<Rightarrow>
          (Inl (protocol_error_new Connect
             (''CERTIFICATE CHANGED for '' @ host @ '':'' @ show_nat port @ '' '' @ em_dash @
              '' refusing to connect (see '' @ string_of_path p @ '')'')), u)
      | Store message \<Rightarrow> (Inl (protocol_error_new Connect message), u))"

section \<open>Laws\<close>

lemma show_nat_no_colon: "CHR '':'' \<notin> set (show_nat n)"
proof (induction n rule: show_nat.induct)
  case (1 n)
  have digit: "char_of (48 + d) \<noteq> CHR '':''" if "d < 10" for d :: nat
  proof
    assume "char_of (48 + d) = CHR '':''"
    then have "of_char (char_of (48 + d)) = (of_char (CHR '':'') :: nat)" by simp
    with that show False by simp
  qed
  show ?case
    using 1 digit [of n] digit [of "n mod 10"] by (cases "n < 10") (auto simp: show_nat.simps [of n])
qed

text \<open>The key of a host and a port is of no other host and port.\<close>

lemma before_first:
  assumes "c \<notin> set t" "c \<notin> set t'" "t @ c # s = t' @ c # s'"
  shows "t = t' \<and> s = s'"
  using assms by (induction t arbitrary: t') (case_tac t', auto)+

lemma pin_key_inject: "pin_key host port = pin_key host' port' \<longleftrightarrow> host = host' \<and> port = port'"
proof
  assume "pin_key host port = pin_key host' port'"
  then have "rev (show_nat port) @ CHR '':'' # rev host = rev (show_nat port') @ CHR '':'' # rev host'"
    by (metis pin_key_def append.assoc append_Cons append_Nil rev_append rev_singleton_conv)
  then have "rev (show_nat port) = rev (show_nat port') \<and> rev host = rev host'"
    by (rule before_first [rotated 2]) (simp_all add: show_nat_no_colon)
  then show "host = host' \<and> port = port'" by simp
qed simp

text \<open>The fingerprint the file has for a host and a port.\<close>

definition pinned_at :: "pin_codec \<Rightarrow> path \<Rightarrow> disk \<Rightarrow> string \<Rightarrow> nat \<Rightarrow> string option" where
  "pinned_at codec p d host port =
     (case fmlookup (dk_files d) p of
        None \<Rightarrow> None
      | Some contents \<Rightarrow>
          (case pc_decode codec contents of
             Inl _ \<Rightarrow> None
           | Inr pins \<Rightarrow> map_option pn_sha256 (fmlookup pins (pin_key host port))))"

lemma load_pins_view:
  assumes "load_pins codec p d = (r, d')"
  shows "dk_files d' = dk_files d \<and>
         (\<forall>pins. r = Inr pins \<longrightarrow>
            (\<forall>host port. pinned_at codec p d host port = map_option pn_sha256 (fmlookup pins (pin_key host port))))"
  using assms by (auto simp: load_pins_def pinned_at_def disk_try_def split: option.splits sum.splits if_splits)

lemma accepted_iff_pinned:
  assumes "verify_server_cert codec p host port False presented d = (Inr (), d')"
  shows "pinned_at codec p d host port = Some (cd_fingerprint presented)"
proof -
  obtain r d1 where l: "load_pins codec p d = (r, d1)" by fastforce
  with assms load_pins_view [OF l] show ?thesis
    by (cases r) (auto simp: verify_server_cert_def lookup_pin_def split: option.splits if_splits)
qed

lemma disk_write_other: "q \<noteq> p \<Longrightarrow> fmlookup (dk_files (snd (disk_write p contents d))) q = fmlookup (dk_files d) q"
  by (simp add: disk_write_def disk_try_def)

lemma disk_write_done:
  "disk_write p contents d = (True, d') \<Longrightarrow> fmlookup (dk_files d') p = Some contents"
  by (auto simp: disk_write_def disk_try_def split: if_splits)

lemma save_pins_file:
  assumes "save_pins codec p pins d = (r, d')" "with_extension p ''toml.tmp'' \<noteq> p"
  shows "fmlookup (dk_files d') p = fmlookup (dk_files d) p \<or>
         (\<exists>contents. pc_encode codec pins = Inr contents \<and> fmlookup (dk_files d') p = Some contents)"
proof (cases "pc_encode codec pins")
  case (Inr contents)
  let ?t = "with_extension p ''toml.tmp''"
  define d1 where "d1 = snd (case path_parent p of None \<Rightarrow> (True, d) | Some _ \<Rightarrow> disk_try d)"
  have d1: "dk_files d1 = dk_files d" by (simp add: d1_def disk_try_def split: option.splits)
  obtain w d2 where w: "disk_write ?t contents d1 = (w, d2)" by fastforce
  have d2: "fmlookup (dk_files d2) p = fmlookup (dk_files d) p"
    using disk_write_other [of p ?t contents d1] w assms(2) d1 by simp
  obtain m d3 where m: "disk_rename ?t p d2 = (m, d3)" by fastforce
  have d3: "fmlookup (dk_files d3) p = fmlookup (dk_files d2) p \<or> w \<longrightarrow> fmlookup (dk_files d3) p = fmlookup (dk_files d2) p
      \<or> fmlookup (dk_files d3) p = Some contents"
    using m disk_write_done [of ?t contents d1 d2] w
    by (auto simp: disk_rename_def disk_try_def split: option.splits if_splits)
  have "dk_files d' = dk_files d \<or> d' = d2 \<or> w \<and> d' = d3"
    using assms(1) w m d1 Inr unfolding save_pins_def d1_def
    by (auto split: option.splits prod.splits bool.splits)
  then show ?thesis using d2 d3 Inr by auto
qed (use assms in \<open>auto simp: save_pins_def\<close>)

text \<open>A world whose disk is its first part.\<close>

definition first_disk ::
  "(disk \<Rightarrow> (protocol_error + unit) \<times> disk) \<Rightarrow> disk \<times> 'v \<Rightarrow> (protocol_error + unit) \<times> disk \<times> 'v" where
  "first_disk f u = (case f (fst u) of (r, d) \<Rightarrow> (r, d, snd u))"

lemma remember_pin_pins:
  assumes codec: "\<forall>pins contents. pc_encode codec pins = Inr contents \<longrightarrow> pc_decode codec contents = Inr pins"
    and run: "remember_pin codec p host port details d = (r, d')"
    and "with_extension p ''toml.tmp'' \<noteq> p"
    and "pinned_at codec p d' host' port' = Some fingerprint"
  shows "pinned_at codec p d host' port' = Some fingerprint \<or>
         host' = host \<and> port' = port \<and> fingerprint = cd_fingerprint details"
proof -
  obtain l d1 where l: "load_pins codec p d = (l, d1)" by fastforce
  note view = load_pins_view [OF l]
  have same: "pinned_at codec p e = pinned_at codec p d" if "fmlookup (dk_files e) p = fmlookup (dk_files d) p" for e
    using that by (simp add: pinned_at_def fun_eq_iff)
  show ?thesis
  proof (cases l)
    case (Inl e)
    then have "d' = d1" using run l by (simp add: remember_pin_def)
    then show ?thesis using view same [of d1] assms(4) by simp
  next
    case (Inr pins)
    let ?pin = "\<lparr>pn_sha256 = cd_fingerprint details, pn_subject = cd_subject details, pn_expires = cd_expires details\<rparr>"
    have "save_pins codec p (fmupd (pin_key host port) ?pin pins) d1 = (r, d')"
      using run l Inr by (simp add: remember_pin_def)
    from save_pins_file [OF this assms(3)] show ?thesis
    proof
      assume "fmlookup (dk_files d') p = fmlookup (dk_files d1) p"
      then show ?thesis using view same [of d'] assms(4) by simp
    next
      assume "\<exists>contents. pc_encode codec (fmupd (pin_key host port) ?pin pins) = Inr contents \<and>
                fmlookup (dk_files d') p = Some contents"
      with codec have "pinned_at codec p d' host' port' =
          map_option pn_sha256 (fmlookup (fmupd (pin_key host port) ?pin pins) (pin_key host' port'))"
        by (auto simp: pinned_at_def)
      then show ?thesis
        using view Inr assms(4) by (auto simp: pin_key_inject split: if_splits)
    qed
  qed
qed

text \<open>(C28) A certificate that the web PKI does not vouch for is accepted only for the host and port, and with the fingerprint, that the file of confirmed certificates has; and the question about a certificate, whatever its outcome and whichever step of the write fails, adds nothing to that file but the certificate that was shown, and only when the user confirmed it.\<close>

theorem certificate_accepted_only_if_confirmed:
  assumes "\<forall>pins contents. pc_encode codec pins = Inr contents \<longrightarrow> pc_decode codec contents = Inr pins"
    and "with_extension p ''toml.tmp'' \<noteq> p"
    and "\<forall>q u. fst (snd (ask q u)) = fst u"
    and run: "ask_to_trust codec p ask first_disk problem name host port (d, v) = (r, d', v')"
    and ok: "verify_server_cert codec p host' port' False presented d' = (Inr (), d'')"
  shows "pinned_at codec p d host' port' = Some (cd_fingerprint presented) \<or>
         (\<exists>details. problem = Unknown details \<and>
            fst (ask (TrustCertificate name host port (cd_fingerprint details) (cd_subject details) (cd_expires details)) (d, v)) =
              Some Confirmed \<and>
            host' = host \<and> port' = port \<and> cd_fingerprint presented = cd_fingerprint details)"
proof -
  have pin: "pinned_at codec p d' host' port' = Some (cd_fingerprint presented)"
    by (rule accepted_iff_pinned [OF ok])
  show ?thesis
  proof (cases problem)
    case (Unknown details)
    obtain reply d1 v1 where q: "ask (TrustCertificate name host port (cd_fingerprint details) (cd_subject details)
        (cd_expires details)) (d, v) = (reply, d1, v1)" by (metis prod_cases3)
    have d1: "d1 = d" using assms(3) q by (metis fst_conv snd_conv)
    show ?thesis
    proof (cases "reply = Some Confirmed")
      case True
      then have "remember_pin codec p host port details d = (r, d')"
        using run q Unknown d1
        by (auto simp: ask_to_trust_def first_disk_def split: prod.splits)
      from remember_pin_pins [OF assms(1) this assms(2) pin] show ?thesis
        using Unknown q True by auto
    next
      case False
      then have "d' = d" using run q Unknown d1 by (simp add: ask_to_trust_def)
      then show ?thesis using pin by simp
    qed
  qed (use run pin in \<open>auto simp: ask_to_trust_def\<close>)
qed

definition sample_details :: certificate_details where
  "sample_details = \<lparr>cd_fingerprint = ''SHA256:f'', cd_subject = ''CN=nas'', cd_expires = ''2030-01-01''\<rparr>"

definition sample_pins :: "(string, pinned) fmap" where
  "sample_pins =
     fmupd (pin_key ''nas'' 443) \<lparr>pn_sha256 = ''SHA256:f'', pn_subject = ''CN=nas'', pn_expires = ''2030-01-01''\<rparr> fmempty"

text \<open>A codec for two files, the one with the sample certificate and no other.\<close>

definition sample_pin_codec :: pin_codec where
  "sample_pin_codec =
     \<lparr>pc_decode = (\<lambda>s. if s = ''x'' then Inr sample_pins else Inl ''broken''),
      pc_encode = (\<lambda>m. if m = sample_pins then Inr ''x'' else Inl ''not printable'')\<rparr>"

definition sample_tls_disk :: disk where
  "sample_tls_disk = \<lparr>dk_files = fmempty, dk_ops = 0, dk_fails = (\<lambda>_. False), dk_short = 0, dk_error = ''disk''\<rparr>"

definition sample_pin_path :: path where
  "sample_pin_path = [RootDir, Normal ''k'']"

lemma sample_extension: "with_extension sample_pin_path ''toml.tmp'' = [RootDir, Normal ''k.toml.tmp'']"
  by (simp add: with_extension_def sample_pin_path_def file_name_def file_stem_def with_file_name_def join_name_def
      path_join_def path_of_string_def is_absolute_def starts_with_def file_sep_def dot_def dot_dot_def)

lemma sample_asked:
  "fst (ask_to_trust sample_pin_codec sample_pin_path (\<lambda>_ u. (Some Confirmed, u)) first_disk (Unknown sample_details)
     ''nas'' ''nas'' 443 (sample_tls_disk, ())) = Inr ()"
  "fmlookup (dk_files (fst (snd (ask_to_trust sample_pin_codec sample_pin_path (\<lambda>_ u. (Some Confirmed, u)) first_disk
     (Unknown sample_details) ''nas'' ''nas'' 443 (sample_tls_disk, ()))))) sample_pin_path = Some ''x''"
  "dk_fails (fst (snd (ask_to_trust sample_pin_codec sample_pin_path (\<lambda>_ u. (Some Confirmed, u)) first_disk
     (Unknown sample_details) ''nas'' ''nas'' 443 (sample_tls_disk, ())))) = (\<lambda>_. False)"
  by (simp_all add: ask_to_trust_def first_disk_def remember_pin_def load_pins_def sample_tls_disk_def disk_try_def
      save_pins_def sample_pin_codec_def sample_pins_def sample_details_def sample_extension disk_write_def
      disk_rename_def path_parent_def sample_pin_path_def)

lemma certificate_accepted_only_if_confirmed_witness:
  "pinned_at sample_pin_codec sample_pin_path sample_tls_disk ''nas'' 443 = Some ''SHA256:f'' \<or>
   (\<exists>details. Unknown sample_details = Unknown details \<and>
      fst (Some Confirmed, (sample_tls_disk, ())) = Some Confirmed \<and> ''nas'' = ''nas'' \<and> (443 :: nat) = 443 \<and>
      cd_fingerprint sample_details = cd_fingerprint details)"
proof -
  let ?ask = "\<lambda>(_ :: question) u. (Some Confirmed, u)"
  obtain r d' v' where run: "ask_to_trust sample_pin_codec sample_pin_path ?ask first_disk (Unknown sample_details)
      ''nas'' ''nas'' 443 (sample_tls_disk, ()) = (r, d', v')" by (metis prod_cases3)
  have files: "fmlookup (dk_files d') sample_pin_path = Some ''x''" "dk_fails d' = (\<lambda>_. False)"
    using sample_asked run by simp_all
  obtain x d'' where ok: "verify_server_cert sample_pin_codec sample_pin_path ''nas'' 443 False sample_details d' = (x, d'')"
    by fastforce
  then have "x = Inr ()"
    by (auto simp: verify_server_cert_def lookup_pin_def load_pins_def disk_try_def files sample_pin_codec_def
        sample_pins_def sample_details_def)
  then show ?thesis
    using certificate_accepted_only_if_confirmed
      [of sample_pin_codec sample_pin_path ?ask "Unknown sample_details" "''nas''" "''nas''" 443 sample_tls_disk "()" r d' v'
        "''nas''" 443 sample_details d''] run ok sample_extension
    by (simp add: sample_pin_codec_def sample_pin_path_def sample_details_def)
qed

end
