(* ===== verification/S3_Connect.thy ===== *)
theory S3_Connect
  imports S3_Files Tls
begin

text \<open>
  \<^verbatim>\<open>protocols/s3\<close>, \<^verbatim>\<open>lib\<close>: the form of the protocol, and how it connects: the secret is asked for
  when there is none or when the server refuses it, the region is corrected once, and an unknown
  certificate is shown to the user.
\<close>

definition S3_DEFAULT_PORT :: nat where
  "S3_DEFAULT_PORT = 443"

definition SECURITY_CHOICES :: "choice list" where
  "SECURITY_CHOICES =
     [\<lparr>co_value = ''https'', co_label = ''HTTPS''\<rparr>, \<lparr>co_value = ''http'', co_label = ''HTTP (unencrypted)''\<rparr>]"

definition ADDRESSING_CHOICES :: "choice list" where
  "ADDRESSING_CHOICES =
     [\<lparr>co_value = ''auto'', co_label = ''Automatic''\<rparr>,
      \<lparr>co_value = ''path'', co_label = ''Path-style (host/bucket)''\<rparr>,
      \<lparr>co_value = ''virtual'', co_label = ''Virtual-hosted (bucket.host)''\<rparr>]"

definition REJECTED_CREDENTIALS :: "string list" where
  "REJECTED_CREDENTIALS = [''InvalidAccessKeyId'', ''SignatureDoesNotMatch'']"

definition s3_connection_form :: connection_form where
  "s3_connection_form =
     (let form = standard_form S3_DEFAULT_PORT
      in form\<lparr>fm_host := (fm_host form)\<lparr>cm_label := ''Endpoint''\<rparr>,
              fm_username := (fm_username form)\<lparr>cm_label := ''Access key ID''\<rparr>,
              fm_password := (fm_password form)\<lparr>cm_label := ''Secret access key''\<rparr>,
              fm_options :=
                [\<lparr>of_key = ''security'', of_label = ''Security'', of_required = False,
                  of_kind = ChoiceOption SECURITY_CHOICES ''https''\<rparr>,
                 \<lparr>of_key = ''region'', of_label = ''Region'', of_required = False, of_kind = TextOption ''us-east-1''\<rparr>,
                 \<lparr>of_key = ''bucket'', of_label = ''Bucket'', of_required = False, of_kind = TextOption []\<rparr>,
                 \<lparr>of_key = ''addressing'', of_label = ''Addressing'', of_required = False,
                  of_kind = ChoiceOption ADDRESSING_CHOICES ''auto''\<rparr>]\<rparr>)"

text \<open>
  What connecting needs beside the client: the prompter, the problem slot that the check of the
  certificate fills during a request (\<^verbatim>\<open>take_problem\<close>), and the disk with the confirmed certificates.
\<close>

record 'u trust_env =
  te_ask :: "question \<Rightarrow> 'u \<Rightarrow> answer option \<times> 'u"
  te_take_problem :: "'u \<Rightarrow> trust_problem option \<times> 'u"
  te_run_disk :: "(disk \<Rightarrow> (protocol_error + unit) \<times> disk) \<Rightarrow> 'u \<Rightarrow> (protocol_error + unit) \<times> 'u"
  te_codec :: pin_codec
  te_known_certificates :: path

definition s3_connect_failed :: "http_failure \<Rightarrow> protocol_error" where
  "s3_connect_failed f = failure_into_error f Connect"

definition connection_cancelled :: protocol_error where
  "connection_cancelled = protocol_error_new KCancelled ''Connection cancelled''"

definition ask_secret :: "'u trust_env \<Rightarrow> string \<Rightarrow> string \<Rightarrow> 'u s3 \<Rightarrow> (protocol_error + unit) \<times> 'u s3" where
  "ask_secret te name username s =
     (case te_ask te (PasswordQuestion username name) (sx_net s) of
        (Some (PasswordAnswer secret), u) \<Rightarrow> (Inr (), set_secret secret (s\<lparr>sx_net := u\<rparr>))
      | (_, u) \<Rightarrow> (Inl connection_cancelled, s\<lparr>sx_net := u\<rparr>))"

definition probe_call :: "s3_settings \<Rightarrow> s3_call" where
  "probe_call st =
     (case s3_bucket st of
        Some bucket \<Rightarrow> call_query ''max-keys'' ''1'' (call_query ''list-type'' ''2'' (call_new GET (Some bucket) []))
      | None \<Rightarrow> call_new GET None [])"

definition s3_probe :: "'u s3_env \<Rightarrow> 'u s3 \<Rightarrow> (http_failure + http_response) \<times> 'u s3" where
  "s3_probe x s = client_send x (probe_call (xe_settings x)) s"

definition take_slot :: "'u s3_env \<Rightarrow> 'u trust_env \<Rightarrow> 'u s3 \<Rightarrow> trust_problem option \<times> 'u s3" where
  "take_slot x te s =
     (if s3_secure (xe_settings x)
      then (case te_take_problem te (sx_net s) of (problem, u) \<Rightarrow> (problem, s\<lparr>sx_net := u\<rparr>))
      else (None, s))"

text \<open>
  Until the server answers: a bound on the certificates it may show is an argument, since each one
  confirmed leads to another try.
\<close>

fun probe_trusted :: "'u s3_env \<Rightarrow> 'u trust_env \<Rightarrow> string \<Rightarrow> nat \<Rightarrow> ('u s3, http_response) bounded" where
  "probe_trusted x te name 0 = (\<lambda>s. None)"
| "probe_trusted x te name (Suc n) = (\<lambda>s.
     case s3_probe x (snd (take_slot x te s)) of
       (Inr r, s) \<Rightarrow> Some (Inr r, s)
     | (Inl f, s) \<Rightarrow>
         (case take_slot x te s of
            (None, s) \<Rightarrow> Some (Inl (s3_connect_failed f), s)
          | (Some problem, s) \<Rightarrow>
              (case ask_to_trust (te_codec te) (te_known_certificates te) (te_ask te) (te_run_disk te) problem name
                      (s3_endpoint (xe_settings x)) (s3_port (xe_settings x)) (sx_net s) of
                 (Inl e, u) \<Rightarrow> Some (Inl e, s\<lparr>sx_net := u\<rparr>)
               | (Inr _, u) \<Rightarrow> probe_trusted x te name n (s\<lparr>sx_net := u\<rparr>))))"

definition probe_failure ::
  "(nat \<Rightarrow> string option) \<Rightarrow> s3_error \<Rightarrow> nat \<Rightarrow> string option \<Rightarrow> s3_settings \<Rightarrow> protocol_error" where
  "probe_failure status_text e status location st =
     protocol_error_new Connect
       (let code = se_code e
        in (case (if code = ''NoSuchBucket'' then s3_bucket st else None) of
              Some bucket \<Rightarrow> ''Bucket '' @ bucket @ '' not found''
            | None \<Rightarrow>
                if code = ''AccessDenied''
                then (case s3_bucket st of
                        None \<Rightarrow> ''This key can't list buckets '' @ em_dash @ '' enter a Bucket name''
                      | Some bucket \<Rightarrow> ''Access to bucket '' @ bucket @ '' is denied'')
                else if code = ''RequestTimeTooSkewed''
                then ''the server's clock differs from this computer's by more than 15 minutes''
                else if code = [] \<and> is_redirection status
                then ''the server redirected to '' @
                     (case location of Some l \<Rightarrow> l | None \<Rightarrow> ''another address'') @ '' '' @ em_dash @
                     '' check Security, Endpoint and Addressing''
                else if code = []
                then s3_endpoint st @ '' is not an S3 endpoint ('' @
                     (case status_text status of Some t \<Rightarrow> t | None \<Rightarrow> show_nat status) @ '')''
                else describe_error status_text e))"

text \<open>What the loop does with an answer of the server: it is connected, it tries again, or it gives up.\<close>

datatype connect_step = Connected | TryAgain bool bool | GivenUp protocol_error

definition region_correction :: "bool \<Rightarrow> nat \<Rightarrow> s3_error \<Rightarrow> string \<Rightarrow> string option" where
  "region_correction region_corrected status e region =
     (if \<not> region_corrected \<and> (is_redirection status \<or> status = 400) \<and> se_region e \<noteq> Some region then se_region e
      else None)"

definition secret_again ::
  "'u s3_env \<Rightarrow> 'u trust_env \<Rightarrow> string \<Rightarrow> bool \<Rightarrow> bool \<Rightarrow> 'u s3 \<Rightarrow> connect_step \<times> 'u s3" where
  "secret_again x te name asked region_corrected s =
     (if asked then (GivenUp (protocol_error_new AuthRejected (''Authentication failed for '' @ name)), s)
      else case ask_secret te name (s3_access_key (xe_settings x)) s of
             (Inl e, s) \<Rightarrow> (GivenUp e, s)
           | (Inr _, s) \<Rightarrow> (TryAgain True region_corrected, s))"

definition connect_refused ::
  "'u s3_env \<Rightarrow> 'u trust_env \<Rightarrow> string \<Rightarrow> bool \<Rightarrow> bool \<Rightarrow> http_response \<Rightarrow> s3_error \<Rightarrow> 'u s3 \<Rightarrow> connect_step \<times> 'u s3" where
  "connect_refused x te name asked region_corrected r e s =
     (case region_correction region_corrected (rs_status r) e (sx_region s) of
        Some region \<Rightarrow> (TryAgain asked True, set_region region s)
      | None \<Rightarrow>
          if rs_status r = 403 \<and> se_code e \<in> set REJECTED_CREDENTIALS
          then secret_again x te name asked region_corrected s
          else (GivenUp (probe_failure (xe_status_text x) e (rs_status r) (response_header r ''location'') (xe_settings x)), s))"

definition connect_response ::
  "'u s3_env \<Rightarrow> 'u trust_env \<Rightarrow> string \<Rightarrow> bool \<Rightarrow> bool \<Rightarrow> http_response \<Rightarrow> 'u s3 \<Rightarrow> connect_step \<times> 'u s3" where
  "connect_response x te name asked region_corrected r s =
     (if is_success (rs_status r) then (Connected, s)
      else case client_error x r s of (e, s) \<Rightarrow> connect_refused x te name asked region_corrected r e s)"

lemma secret_again_progress:
  "secret_again x te name asked corrected s = (TryAgain asked' corrected', s') \<Longrightarrow>
   \<not> asked \<and> asked' \<and> corrected' = corrected"
  by (cases asked; cases "ask_secret te name (s3_access_key (xe_settings x)) s"; cases "fst (ask_secret te name (s3_access_key (xe_settings x)) s)")
     (auto simp: secret_again_def split: unit.splits)

lemma connect_refused_progress:
  assumes "connect_refused x te name asked corrected r e s = (TryAgain asked' corrected', s')"
  shows "asked' = asked \<and> \<not> corrected \<and> corrected' \<or> \<not> asked \<and> asked' \<and> corrected' = corrected"
proof (cases "region_correction corrected (rs_status r) e (sx_region s)")
  case None
  then have "secret_again x te name asked corrected s = (TryAgain asked' corrected', s')"
    using assms by (simp add: connect_refused_def split: if_splits)
  then show ?thesis by (auto dest: secret_again_progress)
next
  case (Some region)
  with assms show ?thesis by (auto simp: connect_refused_def region_correction_def split: if_splits)
qed

lemma connect_response_progress:
  assumes "connect_response x te name asked corrected r s = (TryAgain asked' corrected', s')"
  shows "asked' = asked \<and> \<not> corrected \<and> corrected' \<or> \<not> asked \<and> asked' \<and> corrected' = corrected"
proof -
  obtain e s1 where "client_error x r s = (e, s1)" by fastforce
  with assms show ?thesis
    by (cases "is_success (rs_status r)") (auto simp: connect_response_def dest: connect_refused_progress)
qed

function s3_connect_loop ::
  "'u s3_env \<Rightarrow> 'u trust_env \<Rightarrow> string \<Rightarrow> nat \<Rightarrow> bool \<Rightarrow> bool \<Rightarrow> ('u s3, unit) bounded" where
  "s3_connect_loop x te name n asked region_corrected s =
     (case probe_trusted x te name n s of
        None \<Rightarrow> None
      | Some (Inl e, s) \<Rightarrow> Some (Inl e, s)
      | Some (Inr r, s) \<Rightarrow>
          (case connect_response x te name asked region_corrected r s of
             (Connected, s) \<Rightarrow> Some (Inr (), s)
           | (GivenUp e, s) \<Rightarrow> Some (Inl e, s)
           | (TryAgain asked' corrected', s) \<Rightarrow> s3_connect_loop x te name n asked' corrected' s))"
  by pat_completeness auto
termination
  by (relation "measure (\<lambda>(x, te, name, n, asked, corrected, s). of_bool (\<not> asked) + of_bool (\<not> corrected))")
     (auto dest!: connect_response_progress [OF sym])

declare s3_connect_loop.simps [simp del]

definition s3_connect ::
  "'u s3_env \<Rightarrow> 'u trust_env \<Rightarrow> request_failure option \<Rightarrow> nat \<Rightarrow> target \<Rightarrow> 'u \<Rightarrow>
   ((protocol_error + 'u s3) \<times> 'u) option" where
  "s3_connect x te client_failure n t u =
     (let st = s3_settings_of t; x = x\<lparr>xe_settings := st\<rparr>
      in (case client_failure of
            Some f \<Rightarrow> Some (Inl (s3_connect_failed (RequestFailed f)), u)
          | None \<Rightarrow>
              (case (if s3_secret st = None then ask_secret te (tg_name t) (s3_access_key st) (client_new st u)
                     else (Inr (), client_new st u)) of
                 (Inl e, s) \<Rightarrow> Some (Inl e, sx_net s)
               | (Inr _, s) \<Rightarrow>
                   map_option (\<lambda>(result, s). (map_sum id (\<lambda>_. s) result, sx_net s))
                     (s3_connect_loop x te (tg_name t) n (s3_secret st = None) False s))))"

end
