(* ===== verification/Ssh.thy ===== *)
theory Ssh
  imports Rust_Text Desk_State
begin

text \<open>
  \<^verbatim>\<open>porthmos-ssh\<close>: the user's ssh configuration, the key of a host, how a session authenticates,
  the command line of a terminal, and commands run on the server.

  The SSH library, the agent and the files are parameters (\<open>ssh_env\<close>): each call takes the world and
  leaves it.  The library asks about the key of the server while it connects; the question reaches
  the prompter through a channel with one reply, which is here a call.
\<close>

section \<open>Quoting (quote)\<close>

definition shell_quote :: "string \<Rightarrow> string" where
  "shell_quote v = [CHR 0x27] @ replace_char (CHR 0x27) [CHR 0x27, CHR 0x5C, CHR 0x27, CHR 0x27] v @ [CHR 0x27]"

section \<open>The configuration (ssh_config)\<close>

record ssh_config_host =
  sc_name :: string
  sc_host_name :: "string option"
  sc_user :: "string option"
  sc_port :: "nat option"
  sc_identity_file :: "path option"

datatype applies = Everywhere | ToHosts "string list" | Nowhere

record config_block =
  bl_applies :: applies
  bl_directives :: "(string \<times> string) list"

definition is_pattern :: "string \<Rightarrow> bool" where
  "is_pattern alias_name = list_ex (\<lambda>c. c = CHR ''*'' \<or> c = CHR ''?'' \<or> c = CHR ''!'') alias_name"

text \<open>Patterns in their order: a negated one that matches ends it.\<close>

fun patterns_match :: "string list \<Rightarrow> string \<Rightarrow> bool \<Rightarrow> bool" where
  "patterns_match [] host matched = matched"
| "patterns_match (pattern # patterns) host matched =
     (case strip_prefix pattern ''!'' of
        Some negated \<Rightarrow> if glob_match negated host then False else patterns_match patterns host matched
      | None \<Rightarrow> patterns_match patterns host (matched \<or> glob_match pattern host))"

definition block_matches :: "config_block \<Rightarrow> string \<Rightarrow> bool" where
  "block_matches b host =
     (case bl_applies b of Everywhere \<Rightarrow> True | Nowhere \<Rightarrow> False | ToHosts patterns \<Rightarrow> patterns_match patterns host False)"

definition block_names :: "config_block \<Rightarrow> string \<Rightarrow> bool" where
  "block_names b host =
     (case bl_applies b of
        ToHosts patterns \<Rightarrow> list_ex (\<lambda>p. \<not> is_pattern p \<and> same_ignoring_case p host) patterns
      | _ \<Rightarrow> False)"

definition strip_comment :: "string \<Rightarrow> string" where
  "strip_comment line = takeWhile (\<lambda>c. c \<noteq> CHR ''#'') line"

definition ends_keyword :: "char \<Rightarrow> bool" where
  "ends_keyword c = (c = CHR '' '' \<or> c = CHR 0x09 \<or> c = CHR ''='')"

definition split_directive :: "string \<Rightarrow> (string \<times> string) option" where
  "split_directive line =
     (let line = trim line
      in if list_ex ends_keyword line
         then Some (takeWhile (\<lambda>c. \<not> ends_keyword c) line,
                    trim (dropWhile ends_keyword (dropWhile (\<lambda>c. \<not> ends_keyword c) line)))
         else None)"

definition add_directive :: "string \<Rightarrow> string \<Rightarrow> config_block list \<Rightarrow> config_block list" where
  "add_directive keyword v blocks =
     (if blocks = [] then []
      else butlast blocks @ [(last blocks)\<lparr>bl_directives := bl_directives (last blocks) @ [(keyword, v)]\<rparr>])"

definition add_line :: "string \<Rightarrow> config_block list \<Rightarrow> config_block list" where
  "add_line line blocks =
     (let line = trim (strip_comment line)
      in if line = [] then blocks
         else case split_directive line of
                None \<Rightarrow> blocks
              | Some (keyword, v) \<Rightarrow>
                  (let keyword = to_lowercase keyword
                   in if keyword = ''host''
                      then blocks @ [\<lparr>bl_applies = ToHosts (split_whitespace v), bl_directives = []\<rparr>]
                      else if keyword = ''match'' then blocks @ [\<lparr>bl_applies = Nowhere, bl_directives = []\<rparr>]
                      else add_directive keyword v blocks))"

definition split_into_blocks :: "string \<Rightarrow> config_block list" where
  "split_into_blocks contents =
     fold add_line (text_lines contents) [\<lparr>bl_applies = Everywhere, bl_directives = []\<rparr>]"

fun add_aliases :: "string list \<Rightarrow> string list \<Rightarrow> string list" where
  "add_aliases [] aliases = aliases"
| "add_aliases (pattern # patterns) aliases =
     add_aliases patterns
       (if is_pattern pattern \<or> list_ex (\<lambda>a. same_ignoring_case a pattern) aliases then aliases else aliases @ [pattern])"

definition concrete_aliases :: "config_block list \<Rightarrow> string list" where
  "concrete_aliases blocks =
     fold (\<lambda>b aliases. case bl_applies b of ToHosts patterns \<Rightarrow> add_aliases patterns aliases | _ \<Rightarrow> aliases) blocks []"

fun expand_tokens :: "string \<Rightarrow> string \<Rightarrow> string" where
  "expand_tokens [] host = []"
| "expand_tokens [c] host = [c]"
| "expand_tokens (c # d # v) host =
     (if c \<noteq> CHR ''%'' then c # expand_tokens (d # v) host
      else if d = CHR ''h'' then host @ expand_tokens v host
      else if d = CHR ''%'' then CHR ''%'' # expand_tokens v host
      else CHR ''%'' # d # expand_tokens v host)"

definition expand_home :: "string \<Rightarrow> path option \<Rightarrow> path" where
  "expand_home p home =
     (case (strip_prefix p ''~/'', home) of
        (Some rest, Some home) \<Rightarrow> join_name home rest
      | _ \<Rightarrow> path_of_string p)"

text \<open>The host so far, and the identity file of a block that does not name it.\<close>

definition apply_directive ::
  "path option \<Rightarrow> bool \<Rightarrow> string \<times> string \<Rightarrow> ssh_config_host \<times> path option \<Rightarrow> ssh_config_host \<times> path option" where
  "apply_directive home names_alias d st =
     (let (keyword, v) = d; (host, wildcard) = st
      in if keyword = ''hostname'' \<and> sc_host_name host = None
         then (host\<lparr>sc_host_name := Some (expand_tokens v (sc_name host))\<rparr>, wildcard)
         else if keyword = ''user'' \<and> sc_user host = None then (host\<lparr>sc_user := Some v\<rparr>, wildcard)
         else if keyword = ''port'' \<and> sc_port host = None then (host\<lparr>sc_port := parse_uint 16 v\<rparr>, wildcard)
         else if keyword = ''identityfile'' \<and> names_alias \<and> sc_identity_file host = None
         then (host\<lparr>sc_identity_file := Some (expand_home v home)\<rparr>, wildcard)
         else if keyword = ''identityfile'' \<and> wildcard = None then (host, Some (expand_home v home))
         else st)"

definition apply_block ::
  "path option \<Rightarrow> string \<Rightarrow> config_block \<Rightarrow> ssh_config_host \<times> path option \<Rightarrow> ssh_config_host \<times> path option" where
  "apply_block home name b st = fold (apply_directive home (block_names b name)) (bl_directives b) st"

definition resolve_host :: "string \<Rightarrow> config_block list \<Rightarrow> path option \<Rightarrow> ssh_config_host" where
  "resolve_host name blocks home =
     (let (host, wildcard) =
            fold (apply_block home name) (filter (\<lambda>b. block_matches b name) blocks)
              (\<lparr>sc_name = name, sc_host_name = None, sc_user = None, sc_port = None, sc_identity_file = None\<rparr>, None)
      in host\<lparr>sc_identity_file := (case sc_identity_file host of Some f \<Rightarrow> Some f | None \<Rightarrow> wildcard)\<rparr>)"

definition parse_ssh_config :: "string \<Rightarrow> path option \<Rightarrow> ssh_config_host list" where
  "parse_ssh_config contents home =
     (let blocks = split_into_blocks contents
      in map (\<lambda>name. resolve_host name blocks home) (concrete_aliases blocks))"

text \<open>Reading the file: an error, no file, or its text.\<close>

type_synonym config_files = "path \<Rightarrow> string + string option"

definition load_ssh_config_from :: "config_files \<Rightarrow> path \<Rightarrow> path option \<Rightarrow> string + ssh_config_host list" where
  "load_ssh_config_from files p home =
     (case files p of
        Inl e \<Rightarrow> Inl e
      | Inr None \<Rightarrow> Inr []
      | Inr (Some contents) \<Rightarrow> Inr (parse_ssh_config contents home))"

definition load_ssh_config :: "config_files \<Rightarrow> path option \<Rightarrow> string + ssh_config_host list" where
  "load_ssh_config files home =
     (case home of
        None \<Rightarrow> Inr []
      | Some h \<Rightarrow> load_ssh_config_from files (join_name (join_name h ''.ssh'') ''config'') home)"

section \<open>Discovery and terminals\<close>

definition SSH_DEFAULT_PORT :: nat where
  "SSH_DEFAULT_PORT = 22"

definition FALLBACK_USERNAME :: string where
  "FALLBACK_USERNAME = ''root''"

definition discovered_target :: "ssh_config_host \<Rightarrow> environment \<Rightarrow> target" where
  "discovered_target host env =
     \<lparr>tg_name = sc_name host,
      tg_host = (case sc_host_name host of Some h \<Rightarrow> h | None \<Rightarrow> sc_name host),
      tg_port = (case sc_port host of Some p \<Rightarrow> p | None \<Rightarrow> SSH_DEFAULT_PORT),
      tg_username = (case sc_user host of
                       Some u \<Rightarrow> u
                     | None \<Rightarrow> (case ev_user env of Some u \<Rightarrow> u | None \<Rightarrow> FALLBACK_USERNAME)),
      tg_password = None,
      tg_options = (case sc_identity_file host of
                      Some f \<Rightarrow> fmupd ''identity_file'' (string_of_path f) fmempty
                    | None \<Rightarrow> fmempty)\<rparr>"

definition same_as_configured :: "target \<Rightarrow> target \<Rightarrow> bool" where
  "same_as_configured t configured =
     (tg_host configured = tg_host t \<and> tg_port configured = tg_port t \<and> tg_username configured = tg_username t \<and>
      target_option configured ''identity_file'' = target_option t ''identity_file'')"

definition matches_its_ssh_config_alias :: "config_files \<Rightarrow> target \<Rightarrow> environment \<Rightarrow> bool" where
  "matches_its_ssh_config_alias files t env =
     (case load_ssh_config files (ev_home env) of
        Inl _ \<Rightarrow> False
      | Inr hosts \<Rightarrow>
          list_ex (\<lambda>host. same_as_configured t (discovered_target host env)) (filter (\<lambda>host. sc_name host = tg_name t) hosts))"

definition identity_path :: "string \<Rightarrow> path option \<Rightarrow> path" where
  "identity_path p home =
     (case (strip_prefix p ''~'', home) of
        (Some rest, Some home) \<Rightarrow>
          if rest = [] then home
          else if starts_with rest ''/'' then join_name home (dropWhile (\<lambda>c. c = CHR ''/'') rest)
          else path_of_string p
      | _ \<Rightarrow> path_of_string p)"

definition ssh_discover :: "config_files \<Rightarrow> environment \<Rightarrow> string + target list" where
  "ssh_discover files env = map_sum id (map (\<lambda>host. discovered_target host env)) (load_ssh_config files (ev_home env))"

definition option_args :: "bool \<Rightarrow> string list \<Rightarrow> string list" where
  "option_args wanted args = (if wanted then args else [])"

definition invocation_for :: "target \<Rightarrow> string option \<Rightarrow> path option \<Rightarrow> shell_invocation" where
  "invocation_for t ssh_config_alias sshpass =
     (let (program, first_args, env) =
            (case (tg_password t, sshpass) of
               (Some password, Some sshpass_path) \<Rightarrow>
                 (string_of_path sshpass_path, [''-e'', ''ssh''], [(''SSHPASS'', password)])
             | _ \<Rightarrow> (''ssh'', [], []))
      in \<lparr>sh_program = program,
          sh_args =
            first_args @
            option_args (ssh_config_alias \<noteq> None) [''-o'', ''HostName='' @ tg_host t] @
            [''-p'', show_nat (tg_port t)] @
            option_args (ssh_config_alias \<noteq> None) [''-l'', tg_username t] @
            (case target_option t ''identity_file'' of Some f \<Rightarrow> [''-i'', f] | None \<Rightarrow> []) @
            [case ssh_config_alias of Some name \<Rightarrow> name | None \<Rightarrow> tg_username t @ [CHR 0x40] @ tg_host t],
          sh_env = env\<rparr>)"

text \<open>\<^verbatim>\<open>executable\<close>: the file exists and one of its execute bits is set.\<close>

definition find_sshpass_in :: "(path \<Rightarrow> bool) \<Rightarrow> string \<Rightarrow> path option" where
  "find_sshpass_in executable path_var =
     find executable (map (\<lambda>dir. join_name (path_of_string dir) ''sshpass'') (split_on (CHR '':'') path_var))"

definition ssh_shell_command :: "config_files \<Rightarrow> (path \<Rightarrow> bool) \<Rightarrow> target \<Rightarrow> environment \<Rightarrow> shell_invocation" where
  "ssh_shell_command files executable t env =
     invocation_for t (if matches_its_ssh_config_alias files t env then Some (tg_name t) else None)
       (case ev_path env of Some path_var \<Rightarrow> find_sshpass_in executable path_var | None \<Rightarrow> None)"

end
