(* ===== verification/Scp_Wire.thy ===== *)
theory Scp_Wire
  imports Ssh
begin

text \<open>
  \<^verbatim>\<open>protocols/scp\<close>: the commands it runs (\<^verbatim>\<open>commands\<close>), what it reads of \<^verbatim>\<open>ls\<close> (\<^verbatim>\<open>listing\<close>) and the
  messages of the \<^verbatim>\<open>scp\<close> of the server (\<^verbatim>\<open>wire\<close>).
\<close>

section \<open>Commands\<close>

definition PROBE :: string where
  "PROBE =
     ''printf '' @ [CHR 0x27] @ ''porthmos'' @ [CHR 0x5C] @ ''n%s'' @ [CHR 0x5C] @ ''n'' @ [CHR 0x27] @ '' '' @ [CHR 0x22] @
     ''$HOME'' @ [CHR 0x22] @ ''; if command -v scp >/dev/null 2>&1; then echo scp; fi''"

definition PROBE_MARKER :: string where
  "PROBE_MARKER = ''porthmos''"

definition LISTING_ENVIRONMENT :: string where
  "LISTING_ENVIRONMENT = ''TZ=UTC0 LC_ALL=C QUOTING_STYLE=literal TIME_STYLE=+%s''"

definition quoted_path :: "path \<Rightarrow> string" where
  "quoted_path p = shell_quote (path_to_remote_string p)"

definition with_slash :: "string \<Rightarrow> string" where
  "with_slash text = (if text \<noteq> [] \<and> last text = CHR ''/'' then text else text @ ''/'')"

definition list_command :: "path \<Rightarrow> string" where
  "list_command dir = LISTING_ENVIRONMENT @ '' ls -lanL -- '' @ shell_quote (with_slash (path_to_remote_string dir))"

definition stat_command :: "path \<Rightarrow> string" where
  "stat_command p = LISTING_ENVIRONMENT @ '' ls -ldnL -- '' @ quoted_path p"

definition mkdir_command :: "path \<Rightarrow> string" where
  "mkdir_command p = ''mkdir -- '' @ quoted_path p"

definition touch_command :: "path \<Rightarrow> nat \<Rightarrow> string" where
  "touch_command p seconds =
     ''test -e '' @ quoted_path p @ '' && touch -c -d '' @ [CHR 0x40] @ show_nat seconds @ '' -- '' @ quoted_path p"

definition remove_command :: "path \<Rightarrow> string" where
  "remove_command p = ''rm -- '' @ quoted_path p"

definition remove_tree_command :: "path \<Rightarrow> string" where
  "remove_tree_command p = ''rm -rf -- '' @ quoted_path p"

definition rename_command :: "path \<Rightarrow> path \<Rightarrow> string" where
  "rename_command p q = ''mv -f -- '' @ quoted_path p @ '' '' @ quoted_path q"

definition read_from_command :: "path \<Rightarrow> nat \<Rightarrow> string" where
  "read_from_command p offset =
     (if offset = 0 then ''cat -- '' @ quoted_path p
      else ''tail -c +'' @ show_nat (offset + 1) @ '' -- '' @ quoted_path p)"

definition scp_source_command :: "path \<Rightarrow> string" where
  "scp_source_command p = ''scp -f -- '' @ quoted_path p"

definition scp_sink_command :: "path \<Rightarrow> string" where
  "scp_sink_command p = '': > '' @ quoted_path p @ '' && scp -t -- '' @ quoted_path p"

definition append_command :: "path \<Rightarrow> string" where
  "append_command p = ''cat >> '' @ quoted_path p"

definition create_command :: "path \<Rightarrow> string" where
  "create_command p = ''cat > '' @ quoted_path p"

text \<open>\<^verbatim>\<open>command.split(' ').next()\<close>.\<close>

definition first_word :: "string \<Rightarrow> string" where
  "first_word command = hd (split_on (CHR '' '') command)"

definition command_failure :: "string \<Rightarrow> nat option \<Rightarrow> path \<Rightarrow> string \<Rightarrow> protocol_error" where
  "command_failure stderr status p command =
     (let shown = string_of_path p; hints = list_ex (str_contains stderr)
      in if hints [''No such file or directory'', ''Directory nonexistent'', ''nonexistent directory'']
         then protocol_error_new NotFound (shown @ '' not found'')
         else if hints [''Permission denied'', ''Operation not permitted'', ''Read-only file system'']
         then protocol_error_new PermissionDenied (shown @ '': permission denied'')
         else if str_contains stderr ''File exists'' then protocol_error_new Other (shown @ '' already exists'')
         else (case find (\<lambda>line. line \<noteq> []) (map trim (text_lines stderr)) of
                 Some first \<Rightarrow> protocol_error_new Other first
               | None \<Rightarrow>
                   protocol_error_new Other
                     (command @ '' failed (exit '' @
                      (case status of None \<Rightarrow> ''no status'' | Some code \<Rightarrow> show_nat code) @ '')'')))"

section \<open>Dates of a listing\<close>

definition MONTHS :: "string list" where
  "MONTHS =
     [''Jan'', ''Feb'', ''Mar'', ''Apr'', ''May'', ''Jun'', ''Jul'', ''Aug'', ''Sep'', ''Oct'', ''Nov'', ''Dec'']"

definition DAY_SECONDS :: int where
  "DAY_SECONDS = 86400"

text \<open>Over all integers: the source computes with 64 bits, which is the same for dates of calendars.\<close>

definition days_of_date :: "int \<Rightarrow> int \<Rightarrow> int \<Rightarrow> int" where
  "days_of_date year month day =
     (let year = year - (if month \<le> 2 then 1 else 0);
          era = year div 400;
          year_of_era = year mod 400;
          day_of_year = (153 * (if 2 < month then month - 3 else month + 9) + 2) div 5 + day - 1
      in era * 146097 + year_of_era * 365 + year_of_era div 4 - year_of_era div 100 + day_of_year - 719468)"

lemma new_year: "days_of_date y 1 1 = 365 * (y - 1) + (y - 1) div 4 - (y - 1) div 100 + (y - 1) div 400 - 719162"
proof -
  define e where "e = (y - 1) div 400"
  define r where "r = (y - 1) mod 400"
  have z: "y - 1 = r + 400 * e" by (simp add: e_def r_def)
  have "(y - 1) div 4 = 100 * e + r div 4" "(y - 1) div 100 = 4 * e + r div 100"
    unfolding z using div_mult_self1 [of 4 r "100 * e"] div_mult_self1 [of 100 r "4 * e"] by simp_all
  moreover have "days_of_date y 1 1 = e * 146097 + r * 365 + r div 4 - r div 100 + (153 * 10 + 2) div 5 + 1 - 1 - 719468"
    by (simp add: days_of_date_def Let_def e_def [symmetric] r_def [symmetric])
  moreover have "365 * (y - 1) = 365 * r + 146000 * e" by (subst z) simp
  moreover have "(y - 1) div 400 = e" by (simp add: e_def)
  moreover have "((153 * 10 + 2) div 5 :: int) = 306" by simp
  ultimately show ?thesis by linarith
qed

lemma new_year_grows: "days_of_date y 1 1 + 364 \<le> days_of_date (y + 1) 1 1"
proof -
  have "(y - 1) div 4 \<le> y div 4" "(y - 1) div 400 \<le> y div 400" by (simp_all add: zdiv_mono1)
  moreover have "y div 100 \<le> (y - 1) div 100 + 1"
  proof -
    have "y div 100 \<le> (y - 1 + 100) div 100" by (rule zdiv_mono1) simp_all
    also have "\<dots> = (y - 1) div 100 + 1" by (rule div_add_self2) simp
    finally show ?thesis .
  qed
  ultimately show ?thesis by (simp add: new_year)
qed

text \<open>The two loops of \<^verbatim>\<open>year_of\<close>.\<close>

function year_down :: "int \<Rightarrow> int \<Rightarrow> int" where
  "year_down days year = (if days < days_of_date year 1 1 then year_down days (year - 1) else year)"
  by pat_completeness auto
termination
proof (relation "measure (\<lambda>(days, year). nat (days_of_date year 1 1 - days))")
  fix days year :: int
  assume "days < days_of_date year 1 1"
  then show "((days, year - 1), (days, year)) \<in> measure (\<lambda>(days, year). nat (days_of_date year 1 1 - days))"
    using new_year_grows [of "year - 1"] by simp
qed simp

declare year_down.simps [simp del]

function year_up :: "int \<Rightarrow> int \<Rightarrow> int" where
  "year_up days year = (if days_of_date (year + 1) 1 1 \<le> days then year_up days (year + 1) else year)"
  by pat_completeness auto
termination
proof (relation "measure (\<lambda>(days, year). nat (days + 1 - days_of_date year 1 1))")
  fix days year :: int
  assume "days_of_date (year + 1) 1 1 \<le> days"
  then show "((days, year + 1), (days, year)) \<in> measure (\<lambda>(days, year). nat (days + 1 - days_of_date year 1 1))"
    using new_year_grows [of year] by simp
qed simp

declare year_up.simps [simp del]

definition year_of :: "nat \<Rightarrow> int" where
  "year_of unix =
     (let days = as_i64 unix div DAY_SECONDS
      in year_up days (year_down days (1970 + (if days < 0 then - (- days div 365) else days div 365))))"

definition date_seconds :: "int \<Rightarrow> int \<Rightarrow> int \<Rightarrow> int \<Rightarrow> nat option" where
  "date_seconds year month day minutes =
     (let s = days_of_date year month day * DAY_SECONDS + minutes * 60
      in if 0 \<le> s \<and> s < 2 ^ 63 then Some (nat s) else None)"

text \<open>\<^verbatim>\<open>parse::<i64>\<close>.\<close>

definition parse_i64 :: "string \<Rightarrow> int option" where
  "parse_i64 text =
     (case strip_prefix text ''-'' of
        Some ds \<Rightarrow>
          if ds \<noteq> [] \<and> list_all is_digit ds \<and> digits_value ds \<le> 2 ^ 63 then Some (- int (digits_value ds)) else None
      | None \<Rightarrow> map_option int (parse_uint 63 text))"

fun position :: "string \<Rightarrow> string list \<Rightarrow> nat option" where
  "position name [] = None"
| "position name (n # ns) = (if n = name then Some 0 else map_option Suc (position name ns))"

definition month_number :: "string \<Rightarrow> int option" where
  "month_number month = map_option (\<lambda>i. int i + 1) (position month MONTHS)"

definition month_day :: "string \<Rightarrow> int option" where
  "month_day day =
     (case parse_uint 32 day of Some d \<Rightarrow> if 1 \<le> d \<and> d \<le> 31 then Some (int d) else None | None \<Rightarrow> None)"

definition modified_time :: "string \<Rightarrow> string \<Rightarrow> string \<Rightarrow> nat \<Rightarrow> nat option" where
  "modified_time month day time_or_year now =
     (case (month_number month, month_day day) of
        (Some month, Some day) \<Rightarrow>
          (case split_first (CHR '':'') time_or_year of
             Some (hours, minutes) \<Rightarrow>
               (case (parse_i64 hours, parse_i64 minutes) of
                  (Some h, Some m) \<Rightarrow>
                    (case date_seconds (year_of now) month day (h * 60 + m) of
                       None \<Rightarrow> None
                     | Some this_year \<Rightarrow>
                         if now + nat DAY_SECONDS < this_year then date_seconds (year_of now - 1) month day (h * 60 + m)
                         else Some this_year)
                | _ \<Rightarrow> None)
           | None \<Rightarrow>
               (case parse_i64 time_or_year of Some year \<Rightarrow> date_seconds year month day 0 | None \<Rightarrow> None))
      | _ \<Rightarrow> None)"

definition epoch :: "string \<Rightarrow> nat option" where
  "epoch token =
     (let digits = (case strip_prefix token ''-'' of Some ds \<Rightarrow> ds | None \<Rightarrow> token)
      in if digits = [] \<or> \<not> list_all is_digit digits then None
         else if length digits \<noteq> length token then Some 0
         else parse_uint 64 token)"

section \<open>Lines of a listing\<close>

definition mode_bit :: "nat \<Rightarrow> char \<Rightarrow> nat" where
  "mode_bit i c =
     (if c \<in> {CHR ''r'', CHR ''w'', CHR ''x''} \<or> c \<in> {CHR ''s'', CHR ''t''} \<and> i mod 3 = 2 then 2 ^ (8 - i) else 0)"

definition special_bit :: "string \<Rightarrow> nat \<Rightarrow> nat \<Rightarrow> nat" where
  "special_bit bits i flag = (if bits ! i \<in> {CHR ''s'', CHR ''S'', CHR ''t'', CHR ''T''} then flag else 0)"

text \<open>The bits are distinct, so their union is their sum.\<close>

definition mode_permissions :: "string \<Rightarrow> nat option" where
  "mode_permissions mode =
     (let bits = drop 1 mode
      in if length bits < 9 then None
         else Some (sum_list (map (\<lambda>(i, c). mode_bit i c) (enumerate 0 (take 9 bits))) +
                    special_bit bits 2 2048 + special_bit bits 5 1024 + special_bit bits 8 512))"

text \<open>The words between spaces with the places where they start.\<close>

fun fields_from :: "nat \<Rightarrow> string \<Rightarrow> (nat \<times> string) option \<Rightarrow> (nat \<times> string) list" where
  "fields_from i [] open_word = (case open_word of Some w \<Rightarrow> [w] | None \<Rightarrow> [])"
| "fields_from i (c # s) open_word =
     (if c = CHR '' ''
      then (case open_word of Some w \<Rightarrow> w # fields_from (Suc i) s None | None \<Rightarrow> fields_from (Suc i) s None)
      else fields_from (Suc i) s
             (case open_word of Some (start, w) \<Rightarrow> Some (start, w @ [c]) | None \<Rightarrow> Some (i, [c])))"

definition line_fields :: "string \<Rightarrow> (nat \<times> string) list" where
  "line_fields line = fields_from 0 line None"

definition nth_option :: "'a list \<Rightarrow> nat \<Rightarrow> 'a option" where
  "nth_option xs i = (if i < length xs then Some (xs ! i) else None)"

record listing_line =
  ll_name :: string
  ll_metadata :: metadata

definition date_and_name :: "(nat \<times> string) list \<Rightarrow> nat \<Rightarrow> nat \<Rightarrow> (nat \<times> nat) option" where
  "date_and_name words date_start now =
     (case nth_option words date_start of
        None \<Rightarrow> None
      | Some (at, token) \<Rightarrow>
          (case epoch token of
             Some seconds \<Rightarrow> Some (seconds, at + length token + 1)
           | None \<Rightarrow>
               (case (nth_option words (date_start + 1), nth_option words (date_start + 2)) of
                  (Some (_, day), Some (time_at, time_or_year)) \<Rightarrow>
                    map_option (\<lambda>seconds. (seconds, time_at + length time_or_year + 1))
                      (modified_time token day time_or_year now)
                | _ \<Rightarrow> None)))"

definition line_size :: "bool \<Rightarrow> string \<Rightarrow> nat option" where
  "line_size device word = (if device then Some 0 else parse_uint 64 word)"

definition parse_line :: "string \<Rightarrow> nat \<Rightarrow> listing_line option" where
  "parse_line line now =
     (let words = line_fields line
      in (case words of
            [] \<Rightarrow> None
          | (_, mode) # _ \<Rightarrow>
              if mode = [] \<or> hd mode \<notin> set ''-dlcbps'' then None
              else (case nth_option words 4 of
                      None \<Rightarrow> None
                    | Some (_, word) \<Rightarrow>
                        (let device = word \<noteq> [] \<and> last word = CHR '',''
                         in (case (line_size device word, date_and_name words (if device then 6 else 5) now) of
                               (Some len, Some (mtime, name_start)) \<Rightarrow>
                                 if length line \<le> name_start then None
                                 else Some \<lparr>ll_name = drop name_start line,
                                            ll_metadata = \<lparr>m_size = len, m_modified = Some mtime,
                                              m_kind = (if hd mode = CHR ''d'' then Dir else File),
                                              m_permissions = mode_permissions mode\<rparr>\<rparr>
                             | _ \<Rightarrow> None)))))"

definition parse_listing :: "string \<Rightarrow> nat \<Rightarrow> listing_line list" where
  "parse_listing output now =
     filter (\<lambda>l. ll_name l \<noteq> ''.'' \<and> ll_name l \<noteq> ''..'')
       (List.map_filter (\<lambda>line. parse_line line now)
         (filter (\<lambda>line. \<not> starts_with line ''total '') (text_lines output)))"

section \<open>Messages (wire)\<close>

record scp_header =
  sh_mode :: nat
  sh_size :: nat
  sh_name :: string

datatype scp_reply = ReplyOk | ReplyWarning string | ReplyFatal string

definition invalid_reply :: "string \<Rightarrow> protocol_error" where
  "invalid_reply line = protocol_error_new Other (''unexpected reply from the server's scp: '' @ line)"

text \<open>\<^verbatim>\<open>u32::from_str_radix(_, 8)\<close>.\<close>

definition is_octal :: "char \<Rightarrow> bool" where
  "is_octal c = (let n = (of_char c :: nat) in 48 \<le> n \<and> n \<le> 55)"

definition octal_value :: "string \<Rightarrow> nat" where
  "octal_value ds = foldl (\<lambda>n c. 8 * n + (of_char c - 48)) 0 ds"

definition parse_octal :: "string \<Rightarrow> nat option" where
  "parse_octal text =
     (let ds = (case strip_prefix text ''+'' of Some rest \<Rightarrow> rest | None \<Rightarrow> text)
      in if ds \<noteq> [] \<and> list_all is_octal ds \<and> octal_value ds < 2 ^ 32 then Some (octal_value ds) else None)"

text \<open>\<^verbatim>\<open>is_utf8\<close> is the check of the standard library.\<close>

definition parse_header :: "(string \<Rightarrow> bool) \<Rightarrow> string \<Rightarrow> protocol_error + scp_header" where
  "parse_header is_utf8 line =
     (if \<not> is_utf8 line then Inl (invalid_reply line)
      else case strip_prefix line ''C'' of
             None \<Rightarrow> Inl (invalid_reply line)
           | Some rest \<Rightarrow>
               (case split_first (CHR '' '') rest of
                  None \<Rightarrow> Inl (invalid_reply line)
                | Some (mode, rest) \<Rightarrow>
                    (case split_first (CHR '' '') rest of
                       None \<Rightarrow> Inl (invalid_reply line)
                     | Some (len, name) \<Rightarrow>
                         (case (parse_octal mode, parse_uint 64 len) of
                            (Some m, Some n) \<Rightarrow>
                              if name = [] then Inl (invalid_reply line)
                              else Inr \<lparr>sh_mode = m, sh_size = n, sh_name = name\<rparr>
                          | _ \<Rightarrow> Inl (invalid_reply line)))))"

text \<open>A reply that is not complete yet is \<^const>\<open>None\<close>.\<close>

definition parse_reply :: "string \<Rightarrow> (scp_reply \<times> nat) option" where
  "parse_reply bytes =
     (case bytes of
        [] \<Rightarrow> None
      | c # rest \<Rightarrow>
          if c = CHR 0x00 then Some (ReplyOk, 1)
          else if c = CHR 0x01 \<or> c = CHR 0x02
          then (if CHR 0x0A \<in> set bytes
                then let message = takeWhile (\<lambda>b. b \<noteq> CHR 0x0A) rest
                     in Some (if c = CHR 0x01 then ReplyWarning message else ReplyFatal message, length message + 2)
                else None)
          else Some (ReplyFatal bytes, length bytes))"

definition sink_header :: "nat \<Rightarrow> string \<Rightarrow> string" where
  "sink_header len name =
     ''C0644 '' @ show_nat len @ '' '' @
     map (\<lambda>c. if c = CHR 0x0A \<or> c = CHR ''/'' then CHR '' '' else c) name @ [CHR 0x0A]"

end
