(* ===== verification/Ssh_Session.thy ===== *)
theory Ssh_Session
  imports Ssh
begin

text \<open>
  \<^verbatim>\<open>porthmos-ssh\<close>: which key of a host is trusted (\<^verbatim>\<open>client\<close>), how a session is opened and
  authenticated (\<^verbatim>\<open>connect\<close>), and commands on the server (\<^verbatim>\<open>exec\<close>).
\<close>

section \<open>The world of a session\<close>

record host_key =
  hk_type :: string
  hk_fingerprint :: string
  hk_data :: string

text \<open>What the library makes of the file of known hosts.\<close>

datatype known_check = KeyRecorded | KeyMissing | KeyChangedAt nat | CheckFailed string

datatype server_key = PlainKey host_key | CertificateKey

datatype channel_message =
    ChData string
  | ChExtended string nat
  | ChExitStatus nat
  | ChFailure
  | ChClose
  | ChOther

record 'u ssh_env =
  sv_server_key :: "string \<Rightarrow> nat \<Rightarrow> 'u \<Rightarrow> (string + server_key) \<times> 'u"
  sv_handshake :: "'u \<Rightarrow> (string + unit) \<times> 'u"
  sv_check_known :: "path \<Rightarrow> string \<Rightarrow> nat \<Rightarrow> host_key \<Rightarrow> 'u \<Rightarrow> known_check \<times> 'u"
  sv_read_text :: "path \<Rightarrow> 'u \<Rightarrow> string option \<times> 'u"
  sv_create_dir :: "path \<Rightarrow> 'u \<Rightarrow> (string + unit) \<times> 'u"
  sv_learn :: "path \<Rightarrow> string \<Rightarrow> nat \<Rightarrow> host_key \<Rightarrow> 'u \<Rightarrow> (string + unit) \<times> 'u"
  sv_ask :: "question \<Rightarrow> 'u \<Rightarrow> answer option \<times> 'u"
  sv_agent_keys :: "'u \<Rightarrow> string list option \<times> 'u"
  sv_auth_agent :: "string \<Rightarrow> string \<Rightarrow> 'u \<Rightarrow> (string + bool) \<times> 'u"
  sv_read_key :: "path \<Rightarrow> 'u \<Rightarrow> (string \<times> bool) option \<times> 'u"
  sv_auth_key :: "string \<Rightarrow> string \<Rightarrow> 'u \<Rightarrow> (string + bool) \<times> 'u"
  sv_auth_password :: "string \<Rightarrow> string \<Rightarrow> 'u \<Rightarrow> (string + bool) \<times> 'u"
  sv_run :: "string \<Rightarrow> 'u \<Rightarrow> (string + channel_message list) \<times> 'u"
  sv_home :: "path option"

section \<open>The key of a host (client)\<close>

datatype host_key_status = KnownKey | UnknownKey | ChangedKey nat

text \<open>The library counts the lines that are no comments.\<close>

definition line_number_of :: "string \<Rightarrow> nat \<Rightarrow> nat option" where
  "line_number_of contents uncommented_line =
     (let numbered = filter (\<lambda>(_, line). \<not> starts_with line ''#'') (enumerate 0 (text_lines contents))
      in if 0 < uncommented_line \<and> uncommented_line - 1 < length numbered
         then Some (fst (numbered ! (uncommented_line - 1)) + 1) else None)"

definition line_in_file :: "'u ssh_env \<Rightarrow> path \<Rightarrow> nat \<Rightarrow> 'u \<Rightarrow> nat option \<times> 'u" where
  "line_in_file sv known_hosts n u =
     (case sv_read_text sv known_hosts u of
        (None, u) \<Rightarrow> (None, u)
      | (Some contents, u) \<Rightarrow> (line_number_of contents n, u))"

definition host_key_status ::
  "'u ssh_env \<Rightarrow> path \<Rightarrow> string \<Rightarrow> nat \<Rightarrow> host_key \<Rightarrow> 'u \<Rightarrow> (string + host_key_status) \<times> 'u" where
  "host_key_status sv known_hosts host port key u =
     (case sv_check_known sv known_hosts host port key u of
        (KeyRecorded, u) \<Rightarrow> (Inr KnownKey, u)
      | (KeyMissing, u) \<Rightarrow> (Inr UnknownKey, u)
      | (KeyChangedAt n, u) \<Rightarrow>
          (case line_in_file sv known_hosts n u of
             (Some line, u) \<Rightarrow> (Inr (ChangedKey line), u)
           | (None, u) \<Rightarrow> (Inr (ChangedKey n), u))
      | (CheckFailed e, u) \<Rightarrow> (Inl e, u))"

definition trust_host_key :: "'u ssh_env \<Rightarrow> path \<Rightarrow> string \<Rightarrow> nat \<Rightarrow> host_key \<Rightarrow> 'u \<Rightarrow> (string + unit) \<times> 'u" where
  "trust_host_key sv known_hosts host port key u =
     (case (case path_parent known_hosts of None \<Rightarrow> (Inr (), u) | Some dir \<Rightarrow> sv_create_dir sv dir u) of
        (Inl e, u) \<Rightarrow> (Inl e, u)
      | (Inr _, u) \<Rightarrow> sv_learn sv known_hosts host port key u)"

definition default_known_hosts :: "'u ssh_env \<Rightarrow> path option" where
  "default_known_hosts sv = map_option (\<lambda>home. join_name (join_name home ''.ssh'') ''known_hosts'') (sv_home sv)"

text \<open>\<^verbatim>\<open>HostKeyDeclined\<close> is told apart from the other errors.\<close>

datatype ssh_failure = Declined | SshFailed string

record host_key_check =
  hc_name :: string
  hc_host :: string
  hc_port :: nat
  hc_known_hosts :: "path option"

definition ask_host_key :: "'u ssh_env \<Rightarrow> host_key_check \<Rightarrow> host_key \<Rightarrow> 'u \<Rightarrow> bool \<times> 'u" where
  "ask_host_key sv hc key u =
     (case sv_ask sv (TrustHostKey (hc_name hc) (hc_host hc) (hc_port hc) (hk_type key) (hk_fingerprint key)) u of
        (reply, u) \<Rightarrow> (reply = Some Confirmed, u))"

definition host_and_port :: "host_key_check \<Rightarrow> string" where
  "host_and_port hc = hc_host hc @ '':'' @ show_nat (hc_port hc)"

definition verify_host_key :: "'u ssh_env \<Rightarrow> host_key_check \<Rightarrow> host_key \<Rightarrow> 'u \<Rightarrow> (ssh_failure + bool) \<times> 'u" where
  "verify_host_key sv hc key u =
     (case hc_known_hosts hc of
        None \<Rightarrow>
          (Inl (SshFailed (''can't verify the host key for '' @ host_and_port hc @ '' '' @ em_dash @
             '' no home directory to find ~/.ssh/known_hosts in'')), u)
      | Some known_hosts \<Rightarrow>
          (case host_key_status sv known_hosts (hc_host hc) (hc_port hc) key u of
             (Inl e, u) \<Rightarrow> (Inl (SshFailed e), u)
           | (Inr KnownKey, u) \<Rightarrow> (Inr True, u)
           | (Inr (ChangedKey line), u) \<Rightarrow>
               (Inl (SshFailed (''REMOTE HOST IDENTIFICATION HAS CHANGED for '' @ host_and_port hc @ '' (see '' @
                  string_of_path known_hosts @ '' line '' @ show_nat line @ '') '' @ em_dash @ '' refusing to connect'')), u)
           | (Inr UnknownKey, u) \<Rightarrow>
               (case ask_host_key sv hc key u of
                  (False, u) \<Rightarrow> (Inl Declined, u)
                | (True, u) \<Rightarrow> (Inr True, snd (trust_host_key sv known_hosts (hc_host hc) (hc_port hc) key u)))))"

definition check_server_key :: "'u ssh_env \<Rightarrow> host_key_check \<Rightarrow> server_key \<Rightarrow> 'u \<Rightarrow> (ssh_failure + bool) \<times> 'u" where
  "check_server_key sv hc key u =
     (case key of
        PlainKey k \<Rightarrow> verify_host_key sv hc k u
      | CertificateKey \<Rightarrow>
          (Inl (SshFailed (''the host key for '' @ hc_host hc @
             '' is a certificate, which Porthmos does not yet support'')), u))"

text \<open>The library connects: it learns the key, asks for it to be checked, and goes on when it is accepted.\<close>

definition client_connect :: "'u ssh_env \<Rightarrow> host_key_check \<Rightarrow> 'u \<Rightarrow> (ssh_failure + unit) \<times> 'u" where
  "client_connect sv hc u =
     (case sv_server_key sv (hc_host hc) (hc_port hc) u of
        (Inl e, u) \<Rightarrow> (Inl (SshFailed e), u)
      | (Inr key, u) \<Rightarrow>
          (case check_server_key sv hc key u of
             (Inl f, u) \<Rightarrow> (Inl f, u)
           | (Inr False, u) \<Rightarrow> (Inl (SshFailed ''Unknown server key''), u)
           | (Inr True, u) \<Rightarrow>
               (case sv_handshake sv u of
                  (Inl e, u) \<Rightarrow> (Inl (SshFailed e), u)
                | (Inr _, u) \<Rightarrow> (Inr (), u))))"

section \<open>Authentication\<close>

text \<open>The keys of the agent in their order, an error of one passes on to the next.\<close>

fun try_agent_keys :: "'u ssh_env \<Rightarrow> string \<Rightarrow> string list \<Rightarrow> 'u \<Rightarrow> bool \<times> 'u" where
  "try_agent_keys sv username [] u = (False, u)"
| "try_agent_keys sv username (key # keys) u =
     (case sv_auth_agent sv username key u of
        (Inr True, u) \<Rightarrow> (True, u)
      | (_, u) \<Rightarrow> try_agent_keys sv username keys u)"

definition authenticate_with_agent :: "'u ssh_env \<Rightarrow> string \<Rightarrow> 'u \<Rightarrow> bool \<times> 'u" where
  "authenticate_with_agent sv username u =
     (case sv_agent_keys sv u of
        (None, u) \<Rightarrow> (False, u)
      | (Some keys, u) \<Rightarrow> try_agent_keys sv username keys u)"

definition authenticate_with_key_file :: "'u ssh_env \<Rightarrow> string \<Rightarrow> path \<Rightarrow> 'u \<Rightarrow> (string + bool) \<times> 'u" where
  "authenticate_with_key_file sv username identity_file u =
     (case sv_read_key sv identity_file u of
        (None, u) \<Rightarrow> (Inr False, u)
      | (Some (key, encrypted), u) \<Rightarrow> if encrypted then (Inr False, u) else sv_auth_key sv username key u)"

definition authenticate_password :: "'u ssh_env \<Rightarrow> string \<Rightarrow> string \<Rightarrow> 'u \<Rightarrow> (string + bool) \<times> 'u" where
  "authenticate_password sv username password u = sv_auth_password sv username password u"

text \<open>One method after the other, as long as one neither succeeds nor fails with an error.\<close>

definition or_else ::
  "('u \<Rightarrow> (string + bool) \<times> 'u) \<Rightarrow> ('u \<Rightarrow> (string + bool) \<times> 'u) \<Rightarrow> 'u \<Rightarrow> (string + bool) \<times> 'u" where
  "or_else first second u = (case first u of (Inr False, u) \<Rightarrow> second u | result \<Rightarrow> result)"

definition authenticate_non_interactive ::
  "'u ssh_env \<Rightarrow> string \<Rightarrow> path option \<Rightarrow> string option \<Rightarrow> bool \<Rightarrow> 'u \<Rightarrow> (string + bool) \<times> 'u" where
  "authenticate_non_interactive sv username identity_file password use_agent =
     or_else (\<lambda>u. if use_agent then (case authenticate_with_agent sv username u of (b, u) \<Rightarrow> (Inr b, u)) else (Inr False, u))
       (or_else (\<lambda>u. case identity_file of Some f \<Rightarrow> authenticate_with_key_file sv username f u | None \<Rightarrow> (Inr False, u))
         (\<lambda>u. case password of Some p \<Rightarrow> authenticate_password sv username p u | None \<Rightarrow> (Inr False, u)))"

section \<open>Connecting (connect)\<close>

record connect_options =
  cp_known_hosts :: "path option"
  cp_use_agent :: bool

definition connect_options_default :: connect_options where
  "connect_options_default = \<lparr>cp_known_hosts = None, cp_use_agent = True\<rparr>"

definition connect_error :: "ssh_failure \<Rightarrow> protocol_error" where
  "connect_error f =
     (case f of
        Declined \<Rightarrow> protocol_error_new KCancelled ''Connection cancelled''
      | SshFailed e \<Rightarrow> protocol_error_new Connect e)"

definition ask_ssh_password :: "'u ssh_env \<Rightarrow> target \<Rightarrow> 'u \<Rightarrow> (protocol_error + unit) \<times> 'u" where
  "ask_ssh_password sv t u =
     (case sv_ask sv (PasswordQuestion (tg_username t) (tg_name t)) u of
        (Some (PasswordAnswer password), u) \<Rightarrow>
          (case authenticate_password sv (tg_username t) password u of
             (Inr True, u) \<Rightarrow> (Inr (), u)
           | (Inr False, u) \<Rightarrow>
               (Inl (protocol_error_new AuthRejected (''Authentication failed for '' @ tg_name t)), u)
           | (Inl e, u) \<Rightarrow> (Inl (protocol_error_new Auth e), u))
      | (_, u) \<Rightarrow> (Inl (protocol_error_new KCancelled ''Connection cancelled''), u))"

definition host_key_check_for :: "'u ssh_env \<Rightarrow> target \<Rightarrow> connect_options \<Rightarrow> host_key_check" where
  "host_key_check_for sv t options =
     \<lparr>hc_name = tg_name t, hc_host = tg_host t, hc_port = tg_port t,
      hc_known_hosts = (case cp_known_hosts options of Some p \<Rightarrow> Some p | None \<Rightarrow> default_known_hosts sv)\<rparr>"

definition ssh_connect :: "'u ssh_env \<Rightarrow> target \<Rightarrow> connect_options \<Rightarrow> 'u \<Rightarrow> (protocol_error + unit) \<times> 'u" where
  "ssh_connect sv t options u =
     (case client_connect sv (host_key_check_for sv t options) u of
        (Inl f, u) \<Rightarrow> (Inl (connect_error f), u)
      | (Inr _, u) \<Rightarrow>
          (case authenticate_non_interactive sv (tg_username t)
                  (map_option (\<lambda>p. identity_path p (sv_home sv)) (target_option t ''identity_file''))
                  (tg_password t) (cp_use_agent options) u of
             (Inr True, u) \<Rightarrow> (Inr (), u)
           | (Inl e, u) \<Rightarrow> (Inl (protocol_error_new Auth e), u)
           | (Inr False, u) \<Rightarrow> ask_ssh_password sv t u))"

section \<open>Commands (exec)\<close>

text \<open>
  A command is what the channel brings until it closes; its output is read to the end, so all of it
  is kept.
\<close>

definition STDERR :: nat where
  "STDERR = 1"

record exec_output =
  xo_stdout :: string
  xo_stderr :: string
  xo_status :: "nat option"

definition exec_output_default :: exec_output where
  "exec_output_default = \<lparr>xo_stdout = [], xo_stderr = [], xo_status = None\<rparr>"

fun collect_output :: "channel_message list \<Rightarrow> exec_output \<Rightarrow> exec_output" where
  "collect_output [] out = out"
| "collect_output (m # ms) out =
     (case m of
        ChData data \<Rightarrow> collect_output ms (out\<lparr>xo_stdout := xo_stdout out @ data\<rparr>)
      | ChExtended data ext \<Rightarrow>
          collect_output ms (if ext = STDERR then out\<lparr>xo_stderr := xo_stderr out @ data\<rparr> else out)
      | ChExitStatus status \<Rightarrow> collect_output ms (out\<lparr>xo_status := Some status\<rparr>)
      | ChFailure \<Rightarrow> out
      | ChClose \<Rightarrow> out
      | ChOther \<Rightarrow> collect_output ms out)"

definition ssh_exec :: "'u ssh_env \<Rightarrow> string \<Rightarrow> 'u \<Rightarrow> (protocol_error + exec_output) \<times> 'u" where
  "ssh_exec sv command u =
     (case sv_run sv command u of
        (Inl e, u) \<Rightarrow> (Inl (protocol_error_new Other e), u)
      | (Inr messages, u) \<Rightarrow>
          (let out = collect_output messages exec_output_default
           in if xo_status out = None
              then (Inl (protocol_error_new Other ''the server did not run the command''), u) else (Inr out, u)))"

end
