(* ===== verification/Scp_Fs.thy ===== *)
theory Scp_Fs
  imports Scp_Wire Ssh_Session
begin

text \<open>
  \<^verbatim>\<open>protocols/scp\<close>: the file system over commands (\<^verbatim>\<open>fs\<close>), files as channels (\<^verbatim>\<open>streams\<close>), and how
  the protocol connects (\<^verbatim>\<open>lib\<close>).

  A channel of a command that runs is a number; what the server sends and takes is in the world.
  The permits that keep a session within its channels only make a caller wait and are left out.  The
  task that forwards what is written is taken to keep up with the writer: what the writer has
  accepted has been sent, or has failed, before the next write.
\<close>

section \<open>Errors of streams\<close>

datatype scp_error = ScpTimedOut | ScpRefused protocol_error | ScpText string

definition SCP_NO_RESPONSE :: string where
  "SCP_NO_RESPONSE = ''the server did not respond in time''"

definition SIZE_CHANGED :: string where
  "SIZE_CHANGED = ''the source changed size during the upload''"

definition EARLY_END :: string where
  "EARLY_END = ''the server ended the transfer early''"

definition SEND_PIECE :: nat where
  "SEND_PIECE = 16 * 1024"

definition CHUNK :: nat where
  "CHUNK = 64 * 1024"

text \<open>\<^verbatim>\<open>as_protocol\<close>: the error of the protocol that is inside, or its text.\<close>

definition as_protocol :: "scp_error \<Rightarrow> protocol_error" where
  "as_protocol e =
     (case e of
        ScpTimedOut \<Rightarrow> protocol_error_new Other SCP_NO_RESPONSE
      | ScpRefused p \<Rightarrow> p
      | ScpText t \<Rightarrow> protocol_error_new Other t)"

section \<open>The session\<close>

text \<open>
  \<^verbatim>\<open>within\<close> ends a wait with a timeout: which wait takes too long is the world's, as \<^const>\<open>ScpTimedOut\<close>
  of the operation, or as \<open>cv_in_time\<close> for a whole command.
\<close>

record 'u scp_env = "'u ssh_env" +
  cv_in_time :: "string \<Rightarrow> 'u \<Rightarrow> bool \<times> 'u"
  cv_now :: "'u \<Rightarrow> nat \<times> 'u"
  cv_is_utf8 :: "string \<Rightarrow> bool"
  cv_open :: "string \<Rightarrow> 'u \<Rightarrow> (protocol_error + nat) \<times> 'u"
  cv_send :: "nat \<Rightarrow> string \<Rightarrow> 'u \<Rightarrow> (scp_error + unit) \<times> 'u"
  cv_close :: "nat \<Rightarrow> 'u \<Rightarrow> (scp_error + unit) \<times> 'u"
  cv_read :: "nat \<Rightarrow> nat \<Rightarrow> 'u \<Rightarrow> (scp_error + string) \<times> 'u"
  cv_finish :: "nat \<Rightarrow> 'u \<Rightarrow> (scp_error + exec_output) \<times> 'u"
  cv_has_scp :: bool
  cv_home_dir :: path

type_synonym ('u, 'a) scp_io = "'u \<Rightarrow> (scp_error + 'a) \<times> 'u"

definition sio_bind :: "('u, 'a) scp_io \<Rightarrow> ('a \<Rightarrow> ('u, 'b) scp_io) \<Rightarrow> ('u, 'b) scp_io" where
  "sio_bind m f u = (case m u of (Inl e, u) \<Rightarrow> (Inl e, u) | (Inr a, u) \<Rightarrow> f a u)"

definition sio_return :: "'a \<Rightarrow> ('u, 'a) scp_io" where
  "sio_return a u = (Inr a, u)"

definition sio_fail :: "scp_error \<Rightarrow> ('u, 'a) scp_io" where
  "sio_fail e u = (Inl e, u)"

definition scp_run :: "'u scp_env \<Rightarrow> string \<Rightarrow> ('u, exec_output) effect" where
  "scp_run cv command u =
     (case cv_in_time cv command u of
        (False, u) \<Rightarrow> (Inl (protocol_error_new Other SCP_NO_RESPONSE), u)
      | (True, u) \<Rightarrow> ssh_exec (ssh_env.truncate cv) command u)"

definition run_ok :: "'u scp_env \<Rightarrow> string \<Rightarrow> path \<Rightarrow> ('u, exec_output) effect" where
  "run_ok cv command p =
     eff_bind (scp_run cv command) (\<lambda>out.
       if xo_status out = Some 0 then eff_return out
       else eff_fail (command_failure (xo_stderr out) (xo_status out) p (first_word command)))"

definition run_lines :: "'u scp_env \<Rightarrow> string \<Rightarrow> path \<Rightarrow> ('u, listing_line list) effect" where
  "run_lines cv command p =
     eff_bind (scp_run cv command) (\<lambda>out.
       if xo_status out \<noteq> Some 0 \<and> xo_stdout out = []
       then eff_fail (command_failure (xo_stderr out) (xo_status out) p ''ls'')
       else (\<lambda>u. case cv_now cv u of (now, u) \<Rightarrow> (Inr (parse_listing (xo_stdout out) now), u)))"

section \<open>Commands as operations\<close>

definition scp_read_dir :: "'u scp_env \<Rightarrow> path \<Rightarrow> ('u, dir_item list) effect" where
  "scp_read_dir cv dir =
     eff_bind (run_lines cv (list_command dir) dir) (\<lambda>ls.
       eff_return (map (\<lambda>l. \<lparr>d_name = ll_name l, d_path = join_name dir (ll_name l), d_metadata = ll_metadata l\<rparr>) ls))"

definition scp_entry :: "dir_item \<Rightarrow> entry" where
  "scp_entry i =
     \<lparr>e_name = d_name i, e_path = d_path i, e_is_dir = metadata_is_dir (d_metadata i), e_size = m_size (d_metadata i),
      e_permissions = m_permissions (d_metadata i)\<rparr>"

definition scp_list :: "'u scp_env \<Rightarrow> path \<Rightarrow> ('u, entry list) effect" where
  "scp_list cv dir = eff_bind (scp_read_dir cv dir) (\<lambda>items. eff_return (map scp_entry items))"

definition not_found :: "path \<Rightarrow> protocol_error" where
  "not_found p = protocol_error_new NotFound (string_of_path p @ '' not found'')"

definition scp_stat :: "'u scp_env \<Rightarrow> path \<Rightarrow> ('u, metadata) effect" where
  "scp_stat cv p =
     eff_bind (run_lines cv (stat_command p) p) (\<lambda>ls.
       case ls of l # _ \<Rightarrow> eff_return (ll_metadata l) | [] \<Rightarrow> eff_fail (not_found p))"

definition scp_set_modified :: "'u scp_env \<Rightarrow> path \<Rightarrow> nat \<Rightarrow> ('u, unit) effect" where
  "scp_set_modified cv p seconds =
     eff_bind (scp_run cv (touch_command p seconds)) (\<lambda>out.
       if xo_status out = Some 0 then eff_return ()
       else if xo_status out = Some 1 \<and> xo_stderr out = [] then eff_fail (not_found p)
       else eff_fail (command_failure (xo_stderr out) (xo_status out) p ''touch''))"

definition scp_create_dir :: "'u scp_env \<Rightarrow> path \<Rightarrow> ('u, unit) effect" where
  "scp_create_dir cv p = eff_bind (run_ok cv (mkdir_command p) p) (\<lambda>_. eff_return ())"

definition scp_move :: "'u scp_env \<Rightarrow> path \<Rightarrow> path \<Rightarrow> ('u, unit) effect" where
  "scp_move cv p q u =
     (case run_ok cv (rename_command p q) p u of
        (Inr _, u) \<Rightarrow> (Inr (), u)
      | (Inl e, u) \<Rightarrow>
          if pe_kind e \<noteq> NotFound then (Inl e, u)
          else (case scp_stat cv p u of
                  (Inr _, u) \<Rightarrow> (Inl (not_found q), u)
                | (Inl _, u) \<Rightarrow> (Inl e, u)))"

definition scp_rename :: "'u scp_env \<Rightarrow> path \<Rightarrow> path \<Rightarrow> ('u, unit) effect" where
  "scp_rename cv p q u =
     (case scp_stat cv q u of
        (Inr m, u) \<Rightarrow>
          if metadata_is_dir m then (Inl (protocol_error_new Other (string_of_path q @ '' already exists'')), u)
          else scp_move cv p q u
      | (Inl e, u) \<Rightarrow> if pe_kind e = NotFound then scp_move cv p q u else (Inl e, u))"

definition scp_remove_file :: "'u scp_env \<Rightarrow> path \<Rightarrow> ('u, unit) effect" where
  "scp_remove_file cv p = eff_bind (run_ok cv (remove_command p) p) (\<lambda>_. eff_return ())"

definition scp_delete :: "'u scp_env \<Rightarrow> path \<Rightarrow> ('u, unit) effect" where
  "scp_delete cv p =
     eff_bind (scp_stat cv p) (\<lambda>_. eff_bind (run_ok cv (remove_tree_command p) p) (\<lambda>_. eff_return ()))"

definition TRANSFER_CHANNELS :: nat where
  "TRANSFER_CHANNELS = 6"

definition scp_time_resolution :: nat where
  "scp_time_resolution = 60"

section \<open>Talking to the scp of the server\<close>

definition checked_exit :: "exec_output \<Rightarrow> path \<Rightarrow> string \<Rightarrow> scp_error + unit" where
  "checked_exit out p command =
     (if xo_status out = Some 0 then Inr ()
      else Inl (ScpRefused (command_failure (xo_stderr out) (xo_status out) p command)))"

text \<open>\<^verbatim>\<open>read_u8\<close>: the end of the output, or an error of it, is an early end.\<close>

definition read_byte :: "'u scp_env \<Rightarrow> nat \<Rightarrow> ('u, char) scp_io" where
  "read_byte cv ch u =
     (case cv_read cv ch 1 u of
        (Inr (c # _), u) \<Rightarrow> (Inr c, u)
      | (Inr [], u) \<Rightarrow> (Inl (ScpText EARLY_END), u)
      | (Inl ScpTimedOut, u) \<Rightarrow> (Inl ScpTimedOut, u)
      | (Inl _, u) \<Rightarrow> (Inl (ScpText EARLY_END), u))"

text \<open>A line that may be long: at most \<open>n\<close> bytes, the time limit ends the wait for it.\<close>

fun read_line :: "'u scp_env \<Rightarrow> nat \<Rightarrow> nat \<Rightarrow> string \<Rightarrow> ('u, string) scp_io" where
  "read_line cv ch 0 line = sio_fail ScpTimedOut"
| "read_line cv ch (Suc n) line =
     sio_bind (read_byte cv ch) (\<lambda>c. if c = CHR 0x0A then sio_return line else read_line cv ch n (line @ [c]))"

definition read_reply :: "'u scp_env \<Rightarrow> nat \<Rightarrow> nat \<Rightarrow> path \<Rightarrow> ('u, unit) scp_io" where
  "read_reply cv ch n p =
     sio_bind (read_byte cv ch) (\<lambda>first.
       if first = CHR 0x00 then sio_return ()
       else sio_bind (read_line cv ch n []) (\<lambda>line.
              case parse_reply ([first] @ line @ [CHR 0x0A]) of
                Some (ReplyOk, _) \<Rightarrow> sio_return ()
              | Some (ReplyWarning message, _) \<Rightarrow> sio_fail (ScpRefused (command_failure message None p ''scp''))
              | Some (ReplyFatal message, _) \<Rightarrow> sio_fail (ScpRefused (command_failure message None p ''scp''))
              | None \<Rightarrow> sio_fail (ScpText EARLY_END)))"

definition checked_finish :: "'u scp_env \<Rightarrow> nat \<Rightarrow> path \<Rightarrow> string \<Rightarrow> ('u, unit) scp_io" where
  "checked_finish cv ch p command = sio_bind (cv_finish cv ch) (\<lambda>out u. (checked_exit out p command, u))"

section \<open>Reading a file\<close>

datatype reader_end = SourceEnd path | ExitEnd path string

record channel_reader =
  cr_channel :: "nat option"
  cr_remaining :: "nat option"
  cr_end :: reader_end
  cr_done :: bool

text \<open>What finishes a reader: the last exchange with scp, or the exit of the command.\<close>

definition finish_reader :: "'u scp_env \<Rightarrow> nat \<Rightarrow> reader_end \<Rightarrow> nat \<Rightarrow> ('u, unit) scp_io" where
  "finish_reader cv n e ch =
     (case e of
        SourceEnd p \<Rightarrow>
          sio_bind (read_reply cv ch n p) (\<lambda>_.
          sio_bind (cv_send cv ch [CHR 0x00]) (\<lambda>_.
          sio_bind (cv_close cv ch) (\<lambda>_. checked_finish cv ch p ''scp'')))
      | ExitEnd p command \<Rightarrow> checked_finish cv ch p command)"

definition end_reader :: "'u scp_env \<Rightarrow> nat \<Rightarrow> nat \<Rightarrow> channel_reader \<Rightarrow> 'u \<Rightarrow> (scp_error + string) \<times> channel_reader \<times> 'u" where
  "end_reader cv n ch r u =
     (case finish_reader cv n (cr_end r) ch u of
        (result, u) \<Rightarrow> (map_sum id (\<lambda>_. []) result, r\<lparr>cr_channel := None, cr_done := True\<rparr>, u))"

definition read_channel :: "'u scp_env \<Rightarrow> nat \<Rightarrow> nat \<Rightarrow> channel_reader \<Rightarrow> 'u \<Rightarrow> (scp_error + string) \<times> channel_reader \<times> 'u" where
  "read_channel cv n wanted r u =
     (if cr_done r then (Inr [], r, u)
      else case cr_channel r of
             None \<Rightarrow> (Inr [], r\<lparr>cr_done := True\<rparr>, u)
           | Some ch \<Rightarrow>
               if cr_remaining r = Some 0 then end_reader cv n ch r u
               else (case cv_read cv ch
                            (min (case cr_remaining r of Some left \<Rightarrow> min wanted left | None \<Rightarrow> wanted) CHUNK) u of
                       (Inl e, u) \<Rightarrow> (Inl e, r, u)
                     | (Inr [], u) \<Rightarrow>
                         if cr_remaining r \<noteq> None then (Inl (ScpText EARLY_END), r, u) else end_reader cv n ch r u
                     | (Inr data, u) \<Rightarrow>
                         (Inr data, r\<lparr>cr_remaining := map_option (\<lambda>left. left - length data) (cr_remaining r)\<rparr>, u)))"

text \<open>The header of a file that scp sends: times may come first; a bound on how many.\<close>

fun source_header :: "'u scp_env \<Rightarrow> nat \<Rightarrow> nat \<Rightarrow> nat \<Rightarrow> path \<Rightarrow> ('u, nat) scp_io" where
  "source_header cv ch 0 n p = sio_fail ScpTimedOut"
| "source_header cv ch (Suc k) n p =
     sio_bind (read_line cv ch n []) (\<lambda>line.
       if line \<noteq> [] \<and> hd line = CHR ''T''
       then sio_bind (cv_send cv ch [CHR 0x00]) (\<lambda>_. source_header cv ch k n p)
       else if line \<noteq> [] \<and> hd line \<in> {CHR 0x01, CHR 0x02}
       then sio_fail (ScpRefused (command_failure (tl line) None p ''scp''))
       else case parse_header (cv_is_utf8 cv) line of
              Inl e \<Rightarrow> sio_fail (ScpRefused e)
            | Inr header \<Rightarrow> sio_bind (cv_send cv ch [CHR 0x00]) (\<lambda>_. sio_return (sh_size header)))"

definition scp_lift :: "('u, 'a) scp_io \<Rightarrow> ('u, 'a) effect" where
  "scp_lift m u = (case m u of (result, u) \<Rightarrow> (map_sum as_protocol id result, u))"

definition open_source :: "'u scp_env \<Rightarrow> nat \<Rightarrow> path \<Rightarrow> ('u, channel_reader) effect" where
  "open_source cv n p =
     eff_bind (cv_open cv (scp_source_command p)) (\<lambda>ch.
     eff_bind (scp_lift (sio_bind (cv_send cv ch [CHR 0x00]) (\<lambda>_. source_header cv ch n n p))) (\<lambda>len.
       eff_return \<lparr>cr_channel = Some ch, cr_remaining = Some len, cr_end = SourceEnd p, cr_done = False\<rparr>))"

definition open_command_reader :: "'u scp_env \<Rightarrow> path \<Rightarrow> nat \<Rightarrow> ('u, channel_reader) effect" where
  "open_command_reader cv p offset =
     (let command = read_from_command p offset
      in eff_bind (cv_open cv command) (\<lambda>ch.
         eff_bind (scp_lift (cv_close cv ch)) (\<lambda>_.
           eff_return \<lparr>cr_channel = Some ch, cr_remaining = None, cr_end = ExitEnd p (first_word command), cr_done = False\<rparr>)))"

definition scp_open_read :: "'u scp_env \<Rightarrow> nat \<Rightarrow> path \<Rightarrow> nat \<Rightarrow> ('u, channel_reader) effect" where
  "scp_open_read cv n p offset =
     (if offset = 0 \<and> cv_has_scp cv then open_source cv n p else open_command_reader cv p offset)"

section \<open>Writing a file\<close>

text \<open>
  \<open>cw_failed\<close> is how the forwarding task ended, when it ended before the last byte, and \<open>cw_reported\<close>
  whether a write has returned that already.
\<close>

record channel_writer =
  cw_channel :: nat
  cw_expected :: "nat option"
  cw_path :: path
  cw_command :: string
  cw_written :: nat
  cw_failed :: "scp_error option"
  cw_reported :: bool
  cw_closed :: bool

text \<open>A piece that cannot be sent: the command has ended, and how it ended is the error.\<close>

definition piece_failed :: "'u scp_env \<Rightarrow> channel_writer \<Rightarrow> scp_error \<Rightarrow> 'u \<Rightarrow> scp_error \<times> 'u" where
  "piece_failed cv w e u =
     (if e = ScpTimedOut then (e, u)
      else case checked_finish cv (cw_channel w) (cw_path w) (cw_command w) u of
             (Inl e, u) \<Rightarrow> (e, u)
           | (Inr _, u) \<Rightarrow> (ScpText EARLY_END, u))"

function send_pieces :: "'u scp_env \<Rightarrow> channel_writer \<Rightarrow> string \<Rightarrow> 'u \<Rightarrow> scp_error option \<times> 'u" where
  "send_pieces cv w data u =
     (if data = [] then (None, u)
      else case cv_send cv (cw_channel w) (take SEND_PIECE data) u of
             (Inl e, u) \<Rightarrow> (case piece_failed cv w e u of (e, u) \<Rightarrow> (Some e, u))
           | (Inr _, u) \<Rightarrow> send_pieces cv w (drop SEND_PIECE data) u)"
  by pat_completeness auto
termination
  by (relation "measure (\<lambda>(cv, w, data, u). length data)") (auto simp: SEND_PIECE_def)

declare send_pieces.simps [simp del]

definition write_channel :: "'u scp_env \<Rightarrow> string \<Rightarrow> channel_writer \<Rightarrow> 'u \<Rightarrow> (scp_error + unit) \<times> channel_writer \<times> 'u" where
  "write_channel cv data w u =
     (if (case cw_expected w of Some limit \<Rightarrow> limit < cw_written w + length data | None \<Rightarrow> False)
      then (Inl (ScpText SIZE_CHANGED), w, u)
      else case cw_failed w of
             Some e \<Rightarrow> (Inl (if cw_reported w then ScpText EARLY_END else e), w\<lparr>cw_reported := True\<rparr>, u)
           | None \<Rightarrow>
               if cw_closed w then (Inl (ScpText EARLY_END), w, u)
               else (case send_pieces cv w data u of
                       (failed, u) \<Rightarrow> (Inr (), w\<lparr>cw_written := cw_written w + length data, cw_failed := failed\<rparr>, u)))"

text \<open>The end of \<^verbatim>\<open>pump\<close>, when the writer has closed its pipe.\<close>

definition finish_pump :: "'u scp_env \<Rightarrow> nat \<Rightarrow> channel_writer \<Rightarrow> ('u, unit) scp_io" where
  "finish_pump cv n w =
     (let ch = cw_channel w;
          finish = sio_bind (cv_close cv ch) (\<lambda>_. checked_finish cv ch (cw_path w) (cw_command w))
      in (case cw_expected w of
            None \<Rightarrow> finish
          | Some len \<Rightarrow>
              if cw_written w \<noteq> len
              then (\<lambda>u. (Inl (ScpText SIZE_CHANGED), snd (cv_finish cv ch (snd (cv_close cv ch u)))))
              else sio_bind (cv_send cv ch [CHR 0x00]) (\<lambda>_. sio_bind (read_reply cv ch n (cw_path w)) (\<lambda>_. finish))))"

text \<open>A writer is shut down once.\<close>

definition shutdown_channel :: "'u scp_env \<Rightarrow> nat \<Rightarrow> channel_writer \<Rightarrow> 'u \<Rightarrow> (scp_error + unit) \<times> channel_writer \<times> 'u" where
  "shutdown_channel cv n w u =
     (if cw_closed w then (Inr (), w, u)
      else case cw_failed w of
             Some e \<Rightarrow> (if cw_reported w then Inr () else Inl e, w\<lparr>cw_closed := True\<rparr>, u)
           | None \<Rightarrow> (case finish_pump cv n w u of (result, u) \<Rightarrow> (result, w\<lparr>cw_closed := True\<rparr>, u)))"

definition writer_over :: "nat \<Rightarrow> nat option \<Rightarrow> path \<Rightarrow> string \<Rightarrow> channel_writer" where
  "writer_over ch expected p command =
     \<lparr>cw_channel = ch, cw_expected = expected, cw_path = p, cw_command = command, cw_written = 0, cw_failed = None, cw_reported = False,
      cw_closed = False\<rparr>"

definition greet_sink :: "'u scp_env \<Rightarrow> nat \<Rightarrow> nat \<Rightarrow> path \<Rightarrow> nat \<Rightarrow> ('u, unit) scp_io" where
  "greet_sink cv ch n p len =
     sio_bind (read_reply cv ch n p) (\<lambda>_.
     sio_bind (cv_send cv ch (sink_header len (case file_name p of Some name \<Rightarrow> name | None \<Rightarrow> []))) (\<lambda>_.
       read_reply cv ch n p))"

text \<open>When scp does not start, how the command ended says more than what was read.\<close>

definition sink_refused :: "'u scp_env \<Rightarrow> nat \<Rightarrow> path \<Rightarrow> scp_error \<Rightarrow> ('u, 'a) effect" where
  "sink_refused cv ch p e u =
     (case cv_finish cv ch u of
        (result, u) \<Rightarrow>
          (let out = (case result of Inr out \<Rightarrow> out | Inl _ \<Rightarrow> exec_output_default)
           in (Inl (if xo_status out \<noteq> None \<and> xo_status out \<noteq> Some 0 \<and> xo_stderr out \<noteq> []
                    then command_failure (xo_stderr out) (xo_status out) p ''scp'' else as_protocol e), u)))"

definition open_sink :: "'u scp_env \<Rightarrow> nat \<Rightarrow> path \<Rightarrow> nat \<Rightarrow> ('u, channel_writer \<times> nat) effect" where
  "open_sink cv n p len =
     eff_bind (cv_open cv (scp_sink_command p)) (\<lambda>ch u.
       case greet_sink cv ch n p len u of
         (Inl e, u) \<Rightarrow> sink_refused cv ch p e u
       | (Inr _, u) \<Rightarrow> (Inr (writer_over ch (Some len) p ''scp'', 0), u))"

definition open_command_writer :: "'u scp_env \<Rightarrow> path \<Rightarrow> nat \<Rightarrow> ('u, channel_writer \<times> nat) effect" where
  "open_command_writer cv p offset =
     eff_bind (cv_open cv (if 0 < offset then append_command p else create_command p))
       (\<lambda>ch. eff_return (writer_over ch None p ''cat'', offset))"

definition scp_open_write_sized :: "'u scp_env \<Rightarrow> nat \<Rightarrow> path \<Rightarrow> nat \<Rightarrow> nat \<Rightarrow> ('u, channel_writer \<times> nat) effect" where
  "scp_open_write_sized cv n p offset len =
     (if offset = 0 \<and> cv_has_scp cv then open_sink cv n p len else open_command_writer cv p offset)"

section \<open>Connecting (lib)\<close>

definition no_shell :: protocol_error where
  "no_shell = protocol_error_new SessionStart ''the server does not allow running commands (SCP needs a shell)''"

definition scp_connection_form :: connection_form where
  "scp_connection_form =
     (let form = standard_form SSH_DEFAULT_PORT
      in form\<lparr>fm_options := fm_options form @
                [\<lparr>of_key = ''identity_file'', of_label = ''Identity file'', of_required = False, of_kind = TextOption []\<rparr>]\<rparr>)"

text \<open>The home directory and whether the server has scp, from the answer to the probe.\<close>

definition read_probe :: "exec_output \<Rightarrow> (path \<times> bool) option" where
  "read_probe out =
     (case text_lines (xo_stdout out) of
        marker # rest \<Rightarrow>
          if xo_status out \<noteq> Some 0 \<or> marker \<noteq> PROBE_MARKER then None
          else (let home = (case rest of line # _ \<Rightarrow> trim line | [] \<Rightarrow> [])
                in Some (path_of_string (if starts_with home ''/'' then home else ''/''),
                         list_ex (\<lambda>line. trim line = ''scp'') (tl rest)))
      | [] \<Rightarrow> None)"

definition scp_connect :: "'u scp_env \<Rightarrow> target \<Rightarrow> connect_options \<Rightarrow> ('u, path \<times> bool) effect" where
  "scp_connect cv t options =
     eff_bind (ssh_connect (ssh_env.truncate cv) t options) (\<lambda>_ u.
       case scp_run cv PROBE u of
         (Inl _, u) \<Rightarrow> (Inl no_shell, u)
       | (Inr out, u) \<Rightarrow> (case read_probe out of None \<Rightarrow> (Inl no_shell, u) | Some found \<Rightarrow> (Inr found, u)))"

end
