(* ===== verification/Scp_Safe.thy ===== *)
theory Scp_Safe
  imports Scp_Fs
begin

text \<open>
  What the protocols over SSH promise: a host nobody trusts gets no credentials, a command names
  exactly its files to the shell of the server, and a line of a listing is read as it was printed.
\<close>

section \<open>The key of the host\<close>

text \<open>Whether the key is accepted, and the world in which it is.\<close>

lemma verify_host_key_accepts:
  assumes "verify_host_key sv hc key u = (Inr b, u')"
  shows "b \<and> (\<exists>p st u1. hc_known_hosts hc = Some p \<and>
    host_key_status sv p (hc_host hc) (hc_port hc) key u = (Inr st, u1) \<and>
    (st = KnownKey \<or> st = UnknownKey \<and> fst (ask_host_key sv hc key u1)))"
proof (cases "hc_known_hosts hc")
  case (Some p)
  obtain r u1 where s: "host_key_status sv p (hc_host hc) (hc_port hc) key u = (r, u1)" by fastforce
  obtain b1 u2 where a: "ask_host_key sv hc key u1 = (b1, u2)" by fastforce
  show ?thesis
  proof (cases r)
    case (Inr st)
    with assms s a Some show ?thesis
      by (cases st; cases b1) (auto simp: verify_host_key_def)
  qed (use assms s Some in \<open>auto simp: verify_host_key_def\<close>)
qed (use assms in \<open>auto simp: verify_host_key_def\<close>)

text \<open>A connection that is refused has made no call after the check.\<close>

lemma client_connect_checked:
  assumes "client_connect sv hc u = (Inr x, u')"
  shows "\<exists>key u1 u2. sv_server_key sv (hc_host hc) (hc_port hc) u = (Inr (PlainKey key), u1) \<and>
           verify_host_key sv hc key u1 = (Inr True, u2)"
proof -
  obtain r u1 where k: "sv_server_key sv (hc_host hc) (hc_port hc) u = (r, u1)" by fastforce
  show ?thesis
  proof (cases r)
    case (Inr key)
    obtain c u2 where c: "check_server_key sv hc key u1 = (c, u2)" by fastforce
    with assms k Inr have "c = Inr True"
      by (cases c) (auto simp: client_connect_def split: bool.splits)
    with k Inr c show ?thesis by (cases key) (auto simp: check_server_key_def)
  qed (use assms k in \<open>auto simp: client_connect_def\<close>)
qed

text \<open>(C31) A host nobody trusts gets no credentials.  A session is opened only when the server showed a plain key that the file of known hosts has for this host and port, or that it does not know and the user confirmed when shown its fingerprint.  When the key is another one than the file has, when the user declines, or when there is no such file, connecting fails and nothing has been called after the check: no key, agent or password was used.\<close>

theorem untrusted_host_gets_no_credentials:
  "(case ssh_connect sv t options u of
    (Inr _, _) \<Rightarrow>
        (case (hc_known_hosts (host_key_check_for sv t options), sv_server_key sv (tg_host t) (tg_port t) u) of
           (Some p, (Inr (PlainKey key), u1)) \<Rightarrow>
             (case host_key_status sv p (tg_host t) (tg_port t) key u1 of
                (Inr KnownKey, _) \<Rightarrow> True
              | (Inr UnknownKey, u2) \<Rightarrow>
                  fst (sv_ask sv (TrustHostKey (tg_name t) (tg_host t) (tg_port t) (hk_type key) (hk_fingerprint key)) u2) =
                    Some Confirmed
              | _ \<Rightarrow> False)
         | _ \<Rightarrow> False)
    | (Inl _, u') \<Rightarrow>
        (case client_connect sv (host_key_check_for sv t options) u of (Inl _, u1) \<Rightarrow> u' = u1 | (Inr _, _) \<Rightarrow> True))"
proof -
  define hc where "hc = host_key_check_for sv t options"
  have fields: "hc_host hc = tg_host t" "hc_port hc = tg_port t" "hc_name hc = tg_name t"
    by (simp_all add: hc_def host_key_check_for_def)
  obtain r u1 where c: "client_connect sv hc u = (r, u1)" by fastforce
  show ?thesis
  proof (cases r)
    case (Inl f)
    then show ?thesis using c unfolding hc_def [symmetric] by (simp add: ssh_connect_def hc_def [symmetric])
  next
    case (Inr x)
    obtain key u2 u3 where k: "sv_server_key sv (tg_host t) (tg_port t) u = (Inr (PlainKey key), u2)"
      "verify_host_key sv hc key u2 = (Inr True, u3)"
      using client_connect_checked [OF c [unfolded Inr]] by (auto simp: fields)
    obtain p st u4 where p: "hc_known_hosts hc = Some p"
      "host_key_status sv p (tg_host t) (tg_port t) key u2 = (Inr st, u4)"
      "st = KnownKey \<or> st = UnknownKey \<and> fst (ask_host_key sv hc key u4)"
      using verify_host_key_accepts [OF k(2)] by (auto simp: fields)
    from p(3) have asked: "st = KnownKey \<or> st = UnknownKey \<and>
      fst (sv_ask sv (TrustHostKey (tg_name t) (tg_host t) (tg_port t) (hk_type key) (hk_fingerprint key)) u4) = Some Confirmed"
      by (auto simp: ask_host_key_def fields split: prod.splits)
    then show ?thesis using c Inr k p unfolding hc_def [symmetric] by (auto split: prod.splits sum.splits)
  qed
qed

section \<open>What the shell of the server reads\<close>

text \<open>
  How a POSIX shell splits a command, as far as the commands here need it: words at spaces, a quote
  up to the next one, a backslash before one character, and operators.  A character that would be
  expanded is no plain text: then there is no reading.
\<close>

datatype shell_token = Word string | Operator char

definition end_word :: "string option \<Rightarrow> shell_token list" where
  "end_word w = (case w of None \<Rightarrow> [] | Some t \<Rightarrow> [Word t])"

definition extend_word :: "string option \<Rightarrow> string \<Rightarrow> string option" where
  "extend_word w t = Some ((case w of None \<Rightarrow> [] | Some v \<Rightarrow> v) @ t)"

definition expanded_by_shell :: "char \<Rightarrow> bool" where
  "expanded_by_shell c = (c \<in> set ''$`*?[#~(){};|<!'' \<or> c = CHR 0x22 \<or> c = CHR 0x0A \<or> c = CHR 0x09)"

fun shell_tokens :: "string \<Rightarrow> bool \<Rightarrow> string option \<Rightarrow> shell_token list option" where
  "shell_tokens [] q w = (if q then None else Some (end_word w))"
| "shell_tokens (c # s) q w =
     (if q then (if c = CHR 0x27 then shell_tokens s False w else shell_tokens s True (extend_word w [c]))
      else if c = CHR 0x27 then shell_tokens s True (extend_word w [])
      else if c = CHR 0x5C
      then (case s of [] \<Rightarrow> None | d # s \<Rightarrow> shell_tokens s False (extend_word w [d]))
      else if c = CHR '' '' then map_option ((@) (end_word w)) (shell_tokens s False None)
      else if c = CHR ''>'' \<or> c = CHR ''&''
      then map_option ((@) (end_word w @ [Operator c])) (shell_tokens s False None)
      else if expanded_by_shell c then None
      else shell_tokens s False (extend_word w [c]))"

lemma extend_word_append: "extend_word (extend_word w s) t = extend_word w (s @ t)"
  by (simp add: extend_word_def)

lemma quoted_inside:
  "shell_tokens (replace_char (CHR 0x27) [CHR 0x27, CHR 0x5C, CHR 0x27, CHR 0x27] v @ [CHR 0x27] @ rest) True (extend_word w t) =
   shell_tokens rest False (extend_word w (t @ v))"
proof (induction v arbitrary: t)
  case (Cons c v)
  show ?case
  proof (cases "c = CHR 0x27")
    case True
    have "shell_tokens (replace_char (CHR 0x27) [CHR 0x27, CHR 0x5C, CHR 0x27, CHR 0x27] (c # v) @ [CHR 0x27] @ rest) True (extend_word w t) =
        shell_tokens (replace_char (CHR 0x27) [CHR 0x27, CHR 0x5C, CHR 0x27, CHR 0x27] v @ [CHR 0x27] @ rest) True
          (extend_word (extend_word (extend_word w t) [CHR 0x27]) [])"
      using True by (simp add: replace_char_def)
    then show ?thesis using Cons [of "t @ [CHR 0x27]"] True by (simp add: extend_word_append)
  next
    case False
    then show ?thesis using Cons [of "t @ [c]"] by (simp add: replace_char_def extend_word_append)
  qed
qed (simp add: replace_char_def)

lemma quoted_is_text: "shell_tokens (shell_quote v @ rest) False w = shell_tokens rest False (extend_word w v)"
  using quoted_inside [of v rest w "[]"] by (simp add: shell_quote_def)

lemma quoted_ends [simp]: "shell_tokens (shell_quote v) False w = Some (end_word (extend_word w v))"
  using quoted_is_text [of v "[]" w] by simp

lemma extend_none [simp]: "extend_word None v = Some v" "end_word (Some v) = [Word v]" "end_word None = []"
  by (simp_all add: extend_word_def end_word_def)

lemma digit_is_plain:
  "is_digit c \<Longrightarrow> c \<noteq> CHR 0x27 \<and> c \<noteq> CHR 0x5C \<and> c \<noteq> CHR '' '' \<and> c \<noteq> CHR ''>'' \<and> c \<noteq> CHR ''&'' \<and> \<not> expanded_by_shell c"
  by (auto simp: is_digit_def expanded_by_shell_def)

lemma digits_are_text:
  "list_all is_digit ds \<Longrightarrow> shell_tokens (ds @ rest) False (Some w) = shell_tokens rest False (Some (w @ ds))"
proof (induction ds arbitrary: w)
  case (Cons c ds)
  then show ?case using digit_is_plain [of c] by (simp add: extend_word_def)
qed simp

lemma show_nat_digits: "list_all is_digit (show_nat n)"
proof (induction n rule: show_nat.induct)
  case (1 n)
  have digit: "is_digit (char_of (48 + d))" if "d < 10" for d :: nat
    using that by (simp add: is_digit_def)
  show ?case
    using 1 digit [of n] digit [of "n mod 10"] by (cases "n < 10") (simp_all add: show_nat.simps [of n])
qed

lemma show_nat_is_text:
  "shell_tokens (show_nat n @ rest) False (Some w) = shell_tokens rest False (Some (w @ show_nat n))"
  by (rule digits_are_text) (rule show_nat_digits)


section \<open>Lines of ls\<close>

definition columns :: "nat \<Rightarrow> string" where
  "columns k = replicate (Suc k) (CHR '' '')"

lemma fields_word:
  assumes "CHR '' '' \<notin> set w"
  shows "fields_from i (w @ CHR '' '' # s) (Some (start, v)) = (start, v @ w) # fields_from (i + length w + 1) s None"
  using assms by (induction w arbitrary: i v) auto

lemma fields_first_word:
  assumes "CHR '' '' \<notin> set w" "w \<noteq> []"
  shows "fields_from i (w @ CHR '' '' # s) None = (i, w) # fields_from (i + length w + 1) s None"
  using assms fields_word [of "tl w" "Suc i" s i "[hd w]"] by (cases w) auto

lemma fields_spaces: "fields_from i (replicate k (CHR '' '') @ s) None = fields_from (i + k) s None"
  by (induction k arbitrary: i) auto

lemma fields_column:
  assumes "CHR '' '' \<notin> set w" "w \<noteq> []"
  shows "fields_from i (w @ columns k @ s) None = (i, w) # fields_from (i + length w + Suc k) s None"
  using fields_first_word [OF assms, of i "replicate k (CHR '' '') @ s"] fields_spaces [of "i + length w + 1" k s]
  by (simp add: columns_def)

lemma digits_value_show [simp]: "digits_value (show_nat n) = n"
  using read_show_nat [of n] by (simp add: digits_value_def read_nat_def digit_value_def)

lemma show_nat_nonempty [simp]: "show_nat n \<noteq> []"
  by (subst show_nat.simps) simp

lemma digits_no_prefix: "list_all is_digit ds \<Longrightarrow> \<not> is_digit c \<Longrightarrow> strip_prefix ds [c] = None"
  by (cases ds) (auto simp: strip_prefix_def)

lemma parse_uint_show: "n < 2 ^ bits \<Longrightarrow> parse_uint bits (show_nat n) = Some n"
  by (simp add: parse_uint_def digits_no_prefix show_nat_digits is_digit_def)

lemma show_nat_no_space: "CHR '' '' \<notin> set (show_nat n)"
  using show_nat_digits [of n] digit_is_plain by (auto simp: list_all_iff)

lemma show_nat_no_comma: "last (show_nat n) \<noteq> CHR '',''"
proof -
  have "is_digit (last (show_nat n))" using show_nat_digits [of n] by (simp add: list_all_iff)
  then show ?thesis by (auto simp: is_digit_def)
qed

lemma epoch_show: "n < 2 ^ 64 \<Longrightarrow> epoch (show_nat n) = Some n"
  by (simp add: epoch_def digits_no_prefix show_nat_digits is_digit_def parse_uint_show)



end
