(* ===== verification/Dav_Wire.thy ===== *)
theory Dav_Wire
  imports S3_Client
begin

text \<open>
  \<^verbatim>\<open>protocols/webdav\<close>: the settings of a connection, the addresses of paths (\<^verbatim>\<open>paths\<close>), what a
  server answers to \<^verbatim>\<open>PROPFIND\<close>, how its refusals are told, and which authentication scheme is
  used.

  Libraries are parameters: the XML reader with its namespaces, the decoder of text that is not
  UTF-8, the parser of HTTP dates, base64, and the digest scheme.
\<close>

section \<open>Settings\<close>

record dav_settings =
  dv_host :: string
  dv_port :: nat
  dv_secure :: bool
  dv_username :: string
  dv_password :: "string option"
  dv_root :: string

definition normalize_root :: "string \<Rightarrow> string" where
  "normalize_root root =
     (let segments = filter (\<lambda>s. s \<noteq> []) (map trim (split_on (CHR ''/'') root))
      in if segments = [] then ''/'' else ''/'' @ join_with ''/'' segments @ ''/'')"

definition dav_settings_of :: "target \<Rightarrow> dav_settings" where
  "dav_settings_of t =
     \<lparr>dv_host = trim (tg_host t), dv_port = tg_port t, dv_secure = (target_option t ''security'' \<noteq> Some ''http''),
      dv_username = trim (tg_username t),
      dv_password = (case tg_password t of Some p \<Rightarrow> if p = [] then None else Some p | None \<Rightarrow> None),
      dv_root = normalize_root (case target_option t ''root'' of Some r \<Rightarrow> r | None \<Rightarrow> ''/'')\<rparr>"

definition dav_origin :: "dav_settings \<Rightarrow> string" where
  "dav_origin st =
     (let scheme = (if dv_secure st then ''https'' else ''http'');
          host = (if CHR '':'' \<in> set (dv_host st) \<and> \<not> starts_with (dv_host st) ''['' then ''['' @ dv_host st @ '']''
                  else dv_host st)
      in scheme @ ''://'' @ host @ '':'' @ show_nat (dv_port st))"

section \<open>Addresses (paths)\<close>

text \<open>Percent decoding of the library: an escape of two digits is a byte, anything else stands for itself.\<close>

definition hex_value :: "char \<Rightarrow> nat option" where
  "hex_value c =
     (let n = (of_char c :: nat)
      in if 48 \<le> n \<and> n \<le> 57 then Some (n - 48)
         else if 65 \<le> n \<and> n \<le> 70 then Some (n - 55)
         else if 97 \<le> n \<and> n \<le> 102 then Some (n - 87)
         else None)"

fun percent_decode :: "string \<Rightarrow> string" where
  "percent_decode (c # h # l # rest) =
     (if c = CHR ''%''
      then (case (hex_value h, hex_value l) of
              (Some a, Some b) \<Rightarrow> char_of (16 * a + b) # percent_decode rest
            | _ \<Rightarrow> c # percent_decode (h # l # rest))
      else c # percent_decode (h # l # rest))"
| "percent_decode s = s"

record locator =
  lc_origin :: string
  lc_root :: "string list"

text \<open>\<open>lossy\<close> is \<^verbatim>\<open>decode_utf8_lossy\<close>, which keeps every text as it is.\<close>

definition decoded_segments :: "(string \<Rightarrow> string) \<Rightarrow> string \<Rightarrow> string list" where
  "decoded_segments lossy s =
     map (\<lambda>segment. lossy (percent_decode segment)) (filter (\<lambda>segment. segment \<noteq> []) (split_on (CHR ''/'') s))"

definition locator_new :: "(string \<Rightarrow> string) \<Rightarrow> string \<Rightarrow> string \<Rightarrow> locator" where
  "locator_new lossy origin root = \<lparr>lc_origin = origin, lc_root = decoded_segments lossy root\<rparr>"

definition href :: "locator \<Rightarrow> path \<Rightarrow> bool \<Rightarrow> string" where
  "href l p collection =
     (let address = ''/'' @ join_with ''/'' (map percent_encode (lc_root l @ path_segments p))
      in if collection \<and> last address \<noteq> CHR ''/'' then address @ ''/'' else address)"

definition locator_root :: "locator \<Rightarrow> string" where
  "locator_root l = (if lc_root l = [] then ''/'' else ''/'' @ join_with ''/'' (lc_root l) @ ''/'')"

definition locator_url :: "locator \<Rightarrow> string \<Rightarrow> string" where
  "locator_url l address = lc_origin l @ address"

definition path_of_segments :: "string list \<Rightarrow> path" where
  "path_of_segments segments = foldl join_name [RootDir] segments"

definition dav_normalize :: "path \<Rightarrow> path" where
  "dav_normalize p = path_of_segments (path_segments p)"

fun after_scheme :: "string \<Rightarrow> string option" where
  "after_scheme [] = None"
| "after_scheme (c # cs) = (if starts_with (c # cs) ''://'' then Some (drop 3 (c # cs)) else after_scheme cs)"

definition absolute_part :: "string \<Rightarrow> string" where
  "absolute_part address =
     (case after_scheme address of
        Some rest \<Rightarrow> (let p = dropWhile (\<lambda>c. c \<noteq> CHR ''/'') rest in if p = [] then ''/'' else p)
      | None \<Rightarrow> address)"

fun strip_segments :: "string list \<Rightarrow> string list \<Rightarrow> string list option" where
  "strip_segments [] segments = Some segments"
| "strip_segments (r # root) [] = None"
| "strip_segments (r # root) (s # segments) = (if r = s then strip_segments root segments else None)"

definition path_of_href :: "(string \<Rightarrow> string) \<Rightarrow> locator \<Rightarrow> string \<Rightarrow> path option" where
  "path_of_href lossy l address =
     (let without_query = takeWhile (\<lambda>c. c \<noteq> CHR ''?'' \<and> c \<noteq> CHR 0x23) (absolute_part address)
      in map_option path_of_segments (strip_segments (lc_root l) (decoded_segments lossy without_query)))"

section \<open>Refusals (errors)\<close>

definition redirect_error :: "http_response \<Rightarrow> protocol_error" where
  "redirect_error r =
     protocol_error_new Connect
       (''the server redirected to '' @
        (case response_header r ''location'' of Some l \<Rightarrow> l | None \<Rightarrow> ''another address'') @ '' '' @ em_dash @
        '' check Security and Root path'')"

text \<open>\<open>status_shown\<close> is what the HTTP library prints for a status.\<close>

definition status_error :: "(nat \<Rightarrow> string) \<Rightarrow> http_response \<Rightarrow> path \<Rightarrow> protocol_error" where
  "status_error status_shown r p =
     (let status = rs_status r; shown = string_of_path p
      in if is_redirection status then redirect_error r
         else if status = 401 then protocol_error_new Auth ''authentication expired''
         else if status = 403 then protocol_error_new PermissionDenied (shown @ '': permission denied'')
         else if status = 404 \<or> status = 409 then protocol_error_new NotFound (shown @ '' not found'')
         else if status = 423 then protocol_error_new Other (shown @ '' is locked'')
         else if status = 507 then protocol_error_new Other ''insufficient storage on the server''
         else protocol_error_new Other (status_shown status))"

section \<open>Answers to PROPFIND\<close>

record resource =
  rc_href :: string
  rc_status :: "nat option"
  rc_collection :: bool
  rc_size :: "nat option"
  rc_modified :: "nat option"

definition resource_default :: resource where
  "resource_default = \<lparr>rc_href = [], rc_status = None, rc_collection = False, rc_size = None, rc_modified = None\<rparr>"

definition resource_metadata :: "resource \<Rightarrow> metadata" where
  "resource_metadata r =
     \<lparr>m_size = (case rc_size r of Some n \<Rightarrow> n | None \<Rightarrow> 0), m_modified = rc_modified r,
      m_kind = (if rc_collection r then Dir else File), m_permissions = None\<rparr>"

record found_properties =
  fp_collection :: bool
  fp_size :: "nat option"
  fp_modified :: "nat option"
  fp_status :: "nat option"

definition found_default :: found_properties where
  "found_default = \<lparr>fp_collection = False, fp_size = None, fp_modified = None, fp_status = None\<rparr>"

definition invalid_propfind :: "string \<Rightarrow> protocol_error" where
  "invalid_propfind message = protocol_error_new Other (''invalid PROPFIND response: '' @ message)"

definition status_code :: "string \<Rightarrow> nat option" where
  "status_code line = (case split_whitespace line of _ # code # _ \<Rightarrow> parse_uint 16 code | _ \<Rightarrow> None)"

text \<open>\<open>http_date\<close> is \<^verbatim>\<open>parse_http_date\<close> in seconds since 1970, of a date that is not before it.\<close>

definition modified_seconds :: "(string \<Rightarrow> nat option) \<Rightarrow> string \<Rightarrow> nat option" where
  "modified_seconds http_date t = http_date (trim t)"

text \<open>
  The variables of the loop.  The open elements are the innermost first, each with its name in the
  namespace \<^verbatim>\<open>DAV:\<close>, or empty when it is in another.
\<close>

record multistatus_reader =
  mr_resources :: "resource list"
  mr_open :: "string list"
  mr_text :: string
  mr_current :: resource
  mr_found :: found_properties

definition reader_start :: multistatus_reader where
  "reader_start =
     \<lparr>mr_resources = [], mr_open = [], mr_text = [], mr_current = resource_default, mr_found = found_default\<rparr>"

definition innermost :: "string list \<Rightarrow> string" where
  "innermost opened = (case opened of [] \<Rightarrow> [] | name # _ \<Rightarrow> name)"

definition found_collection :: "multistatus_reader \<Rightarrow> multistatus_reader" where
  "found_collection m = m\<lparr>mr_found := (mr_found m)\<lparr>fp_collection := True\<rparr>\<rparr>"

definition element_start :: "string \<Rightarrow> multistatus_reader \<Rightarrow> multistatus_reader" where
  "element_start name m =
     (let m = (if name = ''response'' then m\<lparr>mr_current := resource_default\<rparr> else m);
          m = (if name = ''propstat'' then m\<lparr>mr_found := found_default\<rparr> else m);
          m = (if name = ''collection'' \<and> innermost (mr_open m) = ''resourcetype'' then found_collection m else m)
      in m\<lparr>mr_open := name # mr_open m, mr_text := []\<rparr>)"

definition apply_found :: "found_properties \<Rightarrow> resource \<Rightarrow> resource" where
  "apply_found f r =
     r\<lparr>rc_collection := (rc_collection r \<or> fp_collection f),
       rc_size := (case rc_size r of Some n \<Rightarrow> Some n | None \<Rightarrow> fp_size f),
       rc_modified := (case rc_modified r of Some t \<Rightarrow> Some t | None \<Rightarrow> fp_modified f)\<rparr>"

definition element_end :: "(string \<Rightarrow> nat option) \<Rightarrow> multistatus_reader \<Rightarrow> multistatus_reader" where
  "element_end http_date m =
     (let name = innermost (mr_open m);
          opened = tl (mr_open m);
          parent = innermost opened;
          text = mr_text m;
          m = m\<lparr>mr_open := opened, mr_text := []\<rparr>
      in if (parent, name) = (''response'', ''href'') then m\<lparr>mr_current := (mr_current m)\<lparr>rc_href := trim text\<rparr>\<rparr>
         else if (parent, name) = (''response'', ''status'')
         then m\<lparr>mr_current := (mr_current m)\<lparr>rc_status := status_code text\<rparr>\<rparr>
         else if (parent, name) = (''propstat'', ''status'')
         then m\<lparr>mr_found := (mr_found m)\<lparr>fp_status := status_code text\<rparr>\<rparr>
         else if (parent, name) = (''prop'', ''getcontentlength'')
         then m\<lparr>mr_found := (mr_found m)\<lparr>fp_size := parse_uint 64 (trim text)\<rparr>\<rparr>
         else if (parent, name) = (''prop'', ''getlastmodified'')
         then m\<lparr>mr_found := (mr_found m)\<lparr>fp_modified := modified_seconds http_date text\<rparr>\<rparr>
         else if (parent, name) = (''response'', ''propstat'') \<and> fp_status (mr_found m) = Some 200
         then m\<lparr>mr_current := apply_found (mr_found m) (mr_current m)\<rparr>
         else if (parent, name) = (''multistatus'', ''response'')
         then m\<lparr>mr_resources := mr_resources m @ [mr_current m], mr_current := resource_default\<rparr>
         else m)"

text \<open>
  An event of the reader comes with whether its name is in the namespace \<^verbatim>\<open>DAV:\<close>; the name is the
  local one.
\<close>

fun multistatus_event ::
  "(string \<Rightarrow> nat option) \<Rightarrow> bool \<times> xml_event \<Rightarrow> multistatus_reader \<Rightarrow> protocol_error + multistatus_reader" where
  "multistatus_event http_date (in_dav, XStart name) m = Inr (element_start (if in_dav then name else []) m)"
| "multistatus_event http_date (in_dav, XEmpty name) m =
     Inr (if in_dav \<and> name = ''collection'' \<and> innermost (mr_open m) = ''resourcetype'' then found_collection m else m)"
| "multistatus_event http_date (_, XEnd) m = Inr (element_end http_date m)"
| "multistatus_event http_date (_, XText t) m = Inr (m\<lparr>mr_text := mr_text m @ t\<rparr>)"
| "multistatus_event http_date (_, XCData t) m = Inr (m\<lparr>mr_text := mr_text m @ t\<rparr>)"
| "multistatus_event http_date (_, XRef character name) m =
     (case character of
        Inl message \<Rightarrow> Inl (invalid_propfind message)
      | Inr (Some c) \<Rightarrow> Inr (m\<lparr>mr_text := mr_text m @ c\<rparr>)
      | Inr None \<Rightarrow> Inr (m\<lparr>mr_text := mr_text m @ (case entity name of Some c \<Rightarrow> c | None \<Rightarrow> [])\<rparr>))"
| "multistatus_event http_date (_, XOther) m = Inr m"
| "multistatus_event http_date (_, XBroken message) m = Inl (invalid_propfind message)"

fun multistatus_loop ::
  "(string \<Rightarrow> nat option) \<Rightarrow> (bool \<times> xml_event) list \<Rightarrow> multistatus_reader \<Rightarrow> protocol_error + resource list" where
  "multistatus_loop http_date [] m =
     (if mr_open m = [] then Inr (mr_resources m) else Inl (invalid_propfind ''unexpected end of document''))"
| "multistatus_loop http_date (e # es) m =
     (case multistatus_event http_date e m of
        Inl err \<Rightarrow> Inl err
      | Inr m \<Rightarrow> multistatus_loop http_date es m)"

definition parse_multistatus ::
  "(string \<Rightarrow> nat option) \<Rightarrow> (bool \<times> xml_event) list \<Rightarrow> protocol_error + resource list" where
  "parse_multistatus http_date es = multistatus_loop http_date es reader_start"

section \<open>Authentication (auth)\<close>

text \<open>The digest scheme is a library; the client reads of a challenge of it what is named here.\<close>

datatype digest_algorithm = MD5 | SHA2_256 | SHA2_512_256

record digest_challenge =
  dg_algorithm :: digest_algorithm
  dg_nonce :: string
  dg_stale :: bool
  dg_count :: nat
  dg_text :: string

datatype auth_challenge = BasicChallenge | DigestChallenge digest_challenge | UnsupportedChallenge string

datatype auth_scheme = BasicScheme | DigestScheme digest_challenge

fun split_items_from :: "string \<Rightarrow> string \<Rightarrow> bool \<Rightarrow> string list" where
  "split_items_from [] item inside = [item]"
| "split_items_from (c # cs) item inside =
     (if c = CHR 0x22 then split_items_from cs (item @ [c]) (\<not> inside)
      else if c = CHR '','' \<and> \<not> inside then item # split_items_from cs [] inside
      else split_items_from cs (item @ [c]) inside)"

definition split_items :: "string \<Rightarrow> string list" where
  "split_items v = filter (\<lambda>item. item \<noteq> []) (map trim (split_items_from v [] False))"

text \<open>\<open>digest\<close> is \<^verbatim>\<open>digest_auth::parse\<close>.\<close>

definition challenge_of :: "(string \<Rightarrow> digest_challenge option) \<Rightarrow> string \<times> string list \<Rightarrow> auth_challenge" where
  "challenge_of digest grouped =
     (case grouped of (scheme, params) \<Rightarrow>
        if to_lowercase scheme = ''basic'' then BasicChallenge
        else if to_lowercase scheme = ''digest''
        then (case digest (join_with '', '' params) of
                Some d \<Rightarrow> DigestChallenge d
              | None \<Rightarrow> UnsupportedChallenge scheme)
        else UnsupportedChallenge scheme)"

fun add_param :: "string \<Rightarrow> (string \<times> string list) list \<Rightarrow> (string \<times> string list) list" where
  "add_param item [] = []"
| "add_param item [(scheme, params)] = [(scheme, params @ [item])]"
| "add_param item (g # gs) = g # add_param item gs"

definition group_item :: "string \<Rightarrow> (string \<times> string list) list \<Rightarrow> (string \<times> string list) list" where
  "group_item item grouped =
     (let (head, rest) = (case split_first (CHR '' '') item of Some halves \<Rightarrow> halves | None \<Rightarrow> (item, []))
      in if CHR ''='' \<in> set head then add_param item grouped
         else grouped @ [(head, if trim rest = [] then [] else [trim rest])])"

definition auth_challenges :: "(string \<Rightarrow> digest_challenge option) \<Rightarrow> string list \<Rightarrow> auth_challenge list" where
  "auth_challenges digest values =
     map (challenge_of digest) (fold group_item (concat (map split_items values)) [])"

fun challenge_rank :: "auth_challenge \<Rightarrow> nat" where
  "challenge_rank (DigestChallenge d) = (if dg_algorithm d \<noteq> MD5 then 3 else 2)"
| "challenge_rank BasicChallenge = 1"
| "challenge_rank (UnsupportedChallenge name) = 0"

text \<open>\<^verbatim>\<open>max_by_key\<close>: the last of the greatest.\<close>

fun strongest_from :: "auth_challenge \<Rightarrow> auth_challenge list \<Rightarrow> auth_challenge" where
  "strongest_from best [] = best"
| "strongest_from best (c # cs) = strongest_from (if challenge_rank best \<le> challenge_rank c then c else best) cs"

fun unsupported_name :: "auth_challenge \<Rightarrow> string option" where
  "unsupported_name (UnsupportedChallenge name) = Some name"
| "unsupported_name _ = None"

definition strongest :: "auth_challenge list \<Rightarrow> string list + auth_scheme" where
  "strongest cs =
     (case filter (\<lambda>c. 0 < challenge_rank c) cs of
        [] \<Rightarrow> Inl (List.map_filter unsupported_name cs)
      | c # rest \<Rightarrow>
          (case strongest_from c rest of
             BasicChallenge \<Rightarrow> Inr BasicScheme
           | DigestChallenge d \<Rightarrow> Inr (DigestScheme d)
           | UnsupportedChallenge _ \<Rightarrow> Inl (List.map_filter unsupported_name cs)))"

record authenticator =
  au_credentials :: "(string \<times> string) option"
  au_scheme :: "auth_scheme option"

definition authenticator_new :: authenticator where
  "authenticator_new = \<lparr>au_credentials = None, au_scheme = None\<rparr>"

definition use_scheme :: "auth_scheme \<Rightarrow> authenticator \<Rightarrow> authenticator" where
  "use_scheme scheme a = a\<lparr>au_scheme := Some scheme\<rparr>"

definition use_credentials :: "string \<Rightarrow> string \<Rightarrow> authenticator \<Rightarrow> authenticator" where
  "use_credentials username password a = a\<lparr>au_credentials := Some (username, password)\<rparr>"

definition awaits_challenge :: "authenticator \<Rightarrow> bool" where
  "awaits_challenge a = (au_credentials a \<noteq> None \<and> au_scheme a = None)"

text \<open>
  \<open>respond\<close> is the library's answer to a digest challenge, for a user, a password, a method and an
  address: it counts its answers in the challenge, and draws a number.
\<close>

record 'u auth_library =
  al_base64 :: "string \<Rightarrow> string"
  al_digest :: "string \<Rightarrow> digest_challenge option"
  al_respond ::
    "digest_challenge \<Rightarrow> string \<times> string \<Rightarrow> string \<Rightarrow> string \<Rightarrow> 'u \<Rightarrow> (string option \<times> digest_challenge) \<times> 'u"

definition auth_header ::
  "'u auth_library \<Rightarrow> string \<Rightarrow> string \<Rightarrow> authenticator \<Rightarrow> 'u \<Rightarrow> (string option \<times> authenticator) \<times> 'u" where
  "auth_header al method uri a u =
     (case (au_credentials a, au_scheme a) of
        (Some (username, password), Some BasicScheme) \<Rightarrow>
          ((Some (''Basic '' @ al_base64 al (username @ '':'' @ password)), a), u)
      | (Some credentials, Some (DigestScheme d)) \<Rightarrow>
          (case al_respond al d credentials uri method u of
             ((answer, d), u) \<Rightarrow> ((answer, a\<lparr>au_scheme := Some (DigestScheme d)\<rparr>), u))
      | _ \<Rightarrow> ((None, a), u))"

fun stale_digest :: "auth_challenge list \<Rightarrow> digest_challenge option" where
  "stale_digest [] = None"
| "stale_digest (DigestChallenge d # cs) = (if dg_stale d then Some d else stale_digest cs)"
| "stale_digest (c # cs) = stale_digest cs"

definition auth_refresh :: "auth_challenge list \<Rightarrow> authenticator \<Rightarrow> bool \<times> authenticator" where
  "auth_refresh cs a =
     (case au_scheme a of
        None \<Rightarrow>
          if au_credentials a = None then (False, a)
          else (case strongest cs of
                  Inl _ \<Rightarrow> (False, a)
                | Inr scheme \<Rightarrow> (True, use_scheme scheme a))
      | Some BasicScheme \<Rightarrow> (False, a)
      | Some (DigestScheme current) \<Rightarrow>
          (case stale_digest cs of
             None \<Rightarrow> (False, a)
           | Some d \<Rightarrow> if dg_nonce current = dg_nonce d then (True, a) else (True, use_scheme (DigestScheme d) a)))"

end
