(* ===== verification/Dav_Fs.thy ===== *)
theory Dav_Fs
  imports Dav_Wire S3_Connect
begin

text \<open>
  \<^verbatim>\<open>protocols/webdav\<close>: the client (\<^verbatim>\<open>client\<close>), the file system over it (\<^verbatim>\<open>fs\<close>) and the two ways a
  file is sent (\<^verbatim>\<open>upload\<close>): in chunks that each update a range, and as one streamed request.

  The streamed request runs beside the writer.  What it has come to is the world's, asked for when
  the writer looks; the note its answer leaves with the authenticator is taken at that moment.
\<close>

section \<open>The client\<close>

record dav_request =
  dq_method :: string
  dq_url :: string
  dq_headers :: "(string \<times> string) list"
  dq_body :: string
  dq_limit :: "nat option"

datatype pipe_step = PipeTook nat | PipeBroken | PipeStalled

text \<open>
  \<open>de_put_open\<close> starts a streamed request; \<open>de_put_pipe\<close> offers it bytes; \<open>de_put_over\<close> is whether
  it has ended; \<open>de_put_wait\<close> waits for its end, and \<open>de_put_reply\<close> ends the body and waits no longer than the
  limit; \<open>de_put_abort\<close> gives it up.
\<close>

record 'u dav_env =
  de_locator :: locator
  de_timeout :: nat
  de_partial_update :: bool
  de_auth :: "'u auth_library"
  de_lossy :: "string \<Rightarrow> string"
  de_status_shown :: "nat \<Rightarrow> string"
  de_http_date :: "string \<Rightarrow> nat option"
  de_events :: "string \<Rightarrow> (bool \<times> xml_event) list"
  de_request :: "dav_request \<Rightarrow> 'u \<Rightarrow> (http_failure + http_response) \<times> 'u"
  de_body :: "nat \<Rightarrow> 'u \<Rightarrow> (io_error + string) \<times> 'u"
  de_read :: "nat \<Rightarrow> nat \<Rightarrow> 'u \<Rightarrow> (io_error + 8 word list) \<times> 'u"
  de_put_open :: "dav_request \<Rightarrow> 'u \<Rightarrow> nat \<times> 'u"
  de_put_pipe :: "nat \<Rightarrow> 8 word list \<Rightarrow> 'u \<Rightarrow> pipe_step \<times> 'u"
  de_put_over :: "nat \<Rightarrow> 'u \<Rightarrow> bool \<times> 'u"
  de_put_wait :: "nat \<Rightarrow> 'u \<Rightarrow> (request_failure + http_response) \<times> 'u"
  de_put_reply :: "nat \<Rightarrow> nat \<Rightarrow> 'u \<Rightarrow> (request_failure + http_response) option \<times> 'u"
  de_put_abort :: "nat \<Rightarrow> 'u \<Rightarrow> 'u"

record patch_upload =
  pc_next :: nat
  pc_chunk :: nat
  pc_buffer :: "8 word list"
  pc_pending :: "(nat \<times> 8 word list) option"

record put_upload =
  pu_request :: nat
  pu_open :: bool
  pu_joined :: bool
  pu_verify :: bool
  pu_written :: nat

datatype dav_writer = PatchWriter path patch_upload | PutWriter path put_upload

datatype dav_reader = BodyReader nat | EmptyReader

record 'u dav =
  dx_auth :: authenticator
  dx_readers :: "(nat, dav_reader) fmap"
  dx_writers :: "(nat, dav_writer) fmap"
  dx_next_handle :: nat
  dx_net :: 'u

definition dav_client_new :: "'u \<Rightarrow> 'u dav" where
  "dav_client_new u =
     \<lparr>dx_auth = authenticator_new, dx_readers = fmempty, dx_writers = fmempty, dx_next_handle = 0, dx_net = u\<rparr>"

definition waits_on_the_server :: "string \<Rightarrow> bool" where
  "waits_on_the_server method = (method \<in> {''PUT'', ''PATCH'', ''MOVE'', ''COPY'', ''DELETE''})"

definition long_wait :: "'u dav_env \<Rightarrow> nat" where
  "long_wait x = de_timeout x * LONG_WAIT_FACTOR"

definition response_challenges :: "'u dav_env \<Rightarrow> http_response \<Rightarrow> auth_challenge list" where
  "response_challenges x r =
     auth_challenges (al_digest (de_auth x)) (map snd (filter (\<lambda>(name, _). name = ''www-authenticate'') (rs_headers r)))"

definition dav_prepare :: "'u dav_env \<Rightarrow> string \<Rightarrow> string \<Rightarrow> 'u dav \<Rightarrow> dav_request \<times> 'u dav" where
  "dav_prepare x method address s =
     (case auth_header (de_auth x) method address (dx_auth s) (dx_net s) of
        ((header, a), u) \<Rightarrow>
          (\<lparr>dq_method = method, dq_url = locator_url (de_locator x) address,
            dq_headers = (case header of Some v \<Rightarrow> [(''authorization'', v)] | None \<Rightarrow> []), dq_body = [], dq_limit = None\<rparr>,
           s\<lparr>dx_auth := a, dx_net := u\<rparr>))"

definition dav_refresh :: "'u dav_env \<Rightarrow> http_response \<Rightarrow> 'u dav \<Rightarrow> bool \<times> 'u dav" where
  "dav_refresh x r s =
     (case auth_refresh (response_challenges x r) (dx_auth s) of (again, a) \<Rightarrow> (again, s\<lparr>dx_auth := a\<rparr>))"

definition dav_answer :: "'u dav_env \<Rightarrow> string \<Rightarrow> dav_request \<Rightarrow> 'u dav \<Rightarrow> (http_failure + http_response) \<times> 'u dav" where
  "dav_answer x method q s =
     (let limit = (if waits_on_the_server method then long_wait x else de_timeout x * RESPONSE_WAIT_FACTOR)
      in (case de_request x (q\<lparr>dq_limit := Some limit\<rparr>) (dx_net s) of (result, u) \<Rightarrow> (result, s\<lparr>dx_net := u\<rparr>)))"

definition dav_attempt ::
  "'u dav_env \<Rightarrow> string \<Rightarrow> string \<Rightarrow> (dav_request \<Rightarrow> dav_request) \<Rightarrow> 'u dav \<Rightarrow> (http_failure + http_response) \<times> 'u dav" where
  "dav_attempt x method address adapt s =
     (case dav_prepare x method address s of (q, s) \<Rightarrow> dav_answer x method (adapt q) s)"

definition dav_send ::
  "'u dav_env \<Rightarrow> string \<Rightarrow> string \<Rightarrow> (dav_request \<Rightarrow> dav_request) \<Rightarrow> 'u dav \<Rightarrow> (http_failure + http_response) \<times> 'u dav" where
  "dav_send x method address adapt s =
     (case dav_attempt x method address adapt s of
        (Inl f, s) \<Rightarrow> (Inl f, s)
      | (Inr r, s) \<Rightarrow>
          if rs_status r = 401
          then (case dav_refresh x r s of
                  (again, s) \<Rightarrow> if again then dav_attempt x method address adapt s else (Inr r, s))
          else (Inr r, s))"

definition with_header :: "string \<Rightarrow> string \<Rightarrow> dav_request \<Rightarrow> dav_request" where
  "with_header name v q = q\<lparr>dq_headers := dq_headers q @ [(name, v)]\<rparr>"

definition with_body :: "string \<Rightarrow> dav_request \<Rightarrow> dav_request" where
  "with_body body q = q\<lparr>dq_body := body\<rparr>"

section \<open>Asking for properties\<close>

definition in_quotes :: "string \<Rightarrow> string" where
  "in_quotes s = [CHR 0x22] @ s @ [CHR 0x22]"

definition PROPFIND_BODY :: string where
  "PROPFIND_BODY =
     ''<?xml version='' @ in_quotes ''1.0'' @ '' encoding='' @ in_quotes ''utf-8'' @ ''?><D:propfind xmlns:D='' @ in_quotes ''DAV:'' @
     ''><D:prop><D:resourcetype/><D:getcontentlength/><D:getlastmodified/></D:prop></D:propfind>''"

definition XML_CONTENT_TYPE :: string where
  "XML_CONTENT_TYPE = ''application/xml; charset=utf-8''"

definition dav_propfind ::
  "'u dav_env \<Rightarrow> path \<Rightarrow> bool \<Rightarrow> string \<Rightarrow> 'u dav \<Rightarrow> (http_failure + http_response) \<times> 'u dav" where
  "dav_propfind x p collection depth =
     dav_send x ''PROPFIND'' (href (de_locator x) p collection)
       (\<lambda>q. with_body PROPFIND_BODY (with_header ''content-type'' XML_CONTENT_TYPE (with_header ''depth'' depth q)))"

text \<open>A failure of a request is an error of the kind \<^verbatim>\<open>Other\<close>.\<close>

definition dav_other :: "('u dav \<Rightarrow> (http_failure + 'a) \<times> 'u dav) \<Rightarrow> ('u dav, 'a) effect" where
  "dav_other m s = (case m s of (Inl f, s) \<Rightarrow> (Inl (failure_into_error f Other), s) | (Inr r, s) \<Rightarrow> (Inr r, s))"

definition whole_body :: "'u dav_env \<Rightarrow> http_response \<Rightarrow> ('u dav, string) effect" where
  "whole_body x r s =
     (case rs_body r of
        Held t \<Rightarrow> (Inr t, s)
      | Streamed h \<Rightarrow>
          (case de_body x h (dx_net s) of
             (Inl (k, message), u) \<Rightarrow> (Inl (protocol_error_of_io k message), s\<lparr>dx_net := u\<rparr>)
           | (Inr t, u) \<Rightarrow> (Inr t, s\<lparr>dx_net := u\<rparr>)))"

definition eff_sum :: "protocol_error + 'a \<Rightarrow> ('w, 'a) effect" where
  "eff_sum r w = (r, w)"

definition multistatus :: "'u dav_env \<Rightarrow> http_response \<Rightarrow> path \<Rightarrow> ('u dav, resource list) effect" where
  "multistatus x r p =
     (if rs_status r \<noteq> 207 then eff_fail (status_error (de_status_shown x) r p)
      else eff_bind (whole_body x r) (\<lambda>body.
           eff_sum (parse_multistatus (de_http_date x) (de_events x (de_lossy x body)))))"

definition stat_resource :: "'u dav_env \<Rightarrow> path \<Rightarrow> ('u dav, resource) effect" where
  "stat_resource x p =
     eff_bind (dav_other (dav_propfind x p False ''0'')) (\<lambda>r.
     eff_bind (if is_redirection (rs_status r) then dav_other (dav_propfind x p True ''0'') else eff_return r) (\<lambda>r.
     eff_bind (multistatus x r p) (\<lambda>resources.
       case resources of
         found # _ \<Rightarrow> eff_return found
       | [] \<Rightarrow> eff_fail (protocol_error_new NotFound (string_of_path p @ '' not found'')))))"

definition expect_success :: "'u dav_env \<Rightarrow> http_response \<Rightarrow> path \<Rightarrow> protocol_error + unit" where
  "expect_success x r p =
     (if is_success (rs_status r) then Inr () else Inl (status_error (de_status_shown x) r p))"

section \<open>Folders and files\<close>

definition located :: "'u dav_env \<Rightarrow> resource list \<Rightarrow> (path \<times> resource) list" where
  "located x resources =
     List.map_filter (\<lambda>r. map_option (\<lambda>p. (p, r)) (path_of_href (de_lossy x) (de_locator x) (rc_href r))) resources"

definition dav_item :: "path \<times> resource \<Rightarrow> dir_item option" where
  "dav_item pr =
     (case pr of (p, r) \<Rightarrow>
        map_option (\<lambda>name. \<lparr>d_name = name, d_path = p, d_metadata = resource_metadata r\<rparr>) (file_name p))"

definition dav_read_dir :: "'u dav_env \<Rightarrow> path \<Rightarrow> ('u dav, dir_item list) effect" where
  "dav_read_dir x folder =
     (let dir = dav_normalize folder
      in eff_bind (dav_other (dav_propfind x dir True ''1'')) (\<lambda>r.
         eff_bind (multistatus x r dir) (\<lambda>resources.
           let places = located x resources
           in if places = []
              then eff_fail (protocol_error_new Other
                     (''the server answered with paths outside Root path '' @ locator_root (de_locator x)))
              else eff_return (List.map_filter dav_item (filter (\<lambda>(p, _). p \<noteq> dir) places)))))"

definition dav_entry :: "dir_item \<Rightarrow> entry" where
  "dav_entry i =
     \<lparr>e_name = d_name i, e_path = d_path i, e_is_dir = metadata_is_dir (d_metadata i), e_size = m_size (d_metadata i),
      e_permissions = m_permissions (d_metadata i)\<rparr>"

definition dav_list :: "'u dav_env \<Rightarrow> path \<Rightarrow> ('u dav, entry list) effect" where
  "dav_list x dir = eff_bind (dav_read_dir x dir) (\<lambda>items. eff_return (map dav_entry items))"

definition dav_stat :: "'u dav_env \<Rightarrow> path \<Rightarrow> ('u dav, metadata) effect" where
  "dav_stat x p = eff_bind (stat_resource x p) (\<lambda>r. eff_return (resource_metadata r))"

definition exists_error :: "path \<Rightarrow> protocol_error" where
  "exists_error p = protocol_error_new Other (string_of_path p @ '' already exists'')"

definition dav_create_dir :: "'u dav_env \<Rightarrow> path \<Rightarrow> ('u dav, unit) effect" where
  "dav_create_dir x p =
     eff_bind (dav_other (dav_send x ''MKCOL'' (href (de_locator x) p True) id)) (\<lambda>r.
       if rs_status r = 405 then eff_fail (exists_error p) else eff_sum (expect_success x r p))"

definition move_to :: "'u dav_env \<Rightarrow> path \<Rightarrow> path \<Rightarrow> bool \<Rightarrow> bool \<Rightarrow> ('u dav, http_response) effect" where
  "move_to x source target collection overwrite =
     (let destination = locator_url (de_locator x) (href (de_locator x) target collection)
      in dav_other (dav_send x ''MOVE'' (href (de_locator x) source collection)
           (\<lambda>q. with_header ''overwrite'' (if overwrite then ''T'' else ''F'') (with_header ''destination'' destination q))))"

definition failed_member :: "resource \<Rightarrow> bool" where
  "failed_member r = (case rc_status r of Some status \<Rightarrow> \<not> (200 \<le> status \<and> status < 300) | None \<Rightarrow> False)"

definition completed_action :: "'u dav_env \<Rightarrow> http_response \<Rightarrow> path \<Rightarrow> string \<Rightarrow> ('u dav, unit) effect" where
  "completed_action x r p action =
     (if rs_status r \<noteq> 207 then eff_sum (expect_success x r p)
      else eff_bind (multistatus x r p) (\<lambda>resources.
        case find failed_member resources of
          None \<Rightarrow> eff_return ()
        | Some failed \<Rightarrow>
            let shown = (case path_of_href (de_lossy x) (de_locator x) (rc_href failed) of
                           Some q \<Rightarrow> string_of_path q
                         | None \<Rightarrow> rc_href failed);
                status = (case rc_status failed of Some n \<Rightarrow> n | None \<Rightarrow> 0)
            in eff_fail (protocol_error_new Other
                 (string_of_path p @ '': could not '' @ action @ '' '' @ shown @ '' ('' @ show_nat status @ '')''))))"

definition dav_rename :: "'u dav_env \<Rightarrow> path \<Rightarrow> path \<Rightarrow> ('u dav, unit) effect" where
  "dav_rename x source target =
     eff_bind (stat_resource x source) (\<lambda>found.
     let collection = rc_collection found
     in eff_bind (move_to x source target collection False) (\<lambda>r.
        if rs_status r \<noteq> 412 then completed_action x r source ''move''
        else eff_bind
               (if collection then eff_return True
                else eff_bind (stat_resource x target) (\<lambda>present. eff_return (rc_collection present)))
               (\<lambda>in_the_way.
                  if in_the_way then eff_fail (exists_error target)
                  else eff_bind (move_to x source target collection True) (\<lambda>r. completed_action x r source ''move''))))"

definition dav_remove_file :: "'u dav_env \<Rightarrow> path \<Rightarrow> ('u dav, unit) effect" where
  "dav_remove_file x p =
     eff_bind (dav_other (dav_send x ''DELETE'' (href (de_locator x) p False) id)) (\<lambda>r. completed_action x r p ''delete'')"

definition dav_delete :: "'u dav_env \<Rightarrow> path \<Rightarrow> ('u dav, unit) effect" where
  "dav_delete x p =
     eff_bind (stat_resource x p) (\<lambda>found.
     eff_bind (dav_other (dav_send x ''DELETE'' (href (de_locator x) p (rc_collection found)) id)) (\<lambda>r.
       completed_action x r p ''delete''))"

definition dav_home :: path where
  "dav_home = [RootDir]"

section \<open>Reading\<close>

definition open_body :: "dav_reader \<Rightarrow> ('u dav, handle) effect" where
  "open_body r s =
     (Inr (dx_next_handle s),
      s\<lparr>dx_readers := fmupd (dx_next_handle s) r (dx_readers s), dx_next_handle := dx_next_handle s + 1\<rparr>)"

definition dav_read_some :: "'u dav_env \<Rightarrow> dav_reader \<Rightarrow> nat \<Rightarrow> 'u dav \<Rightarrow> (io_error + 8 word list) \<times> 'u dav" where
  "dav_read_some x r n s =
     (case r of
        EmptyReader \<Rightarrow> (Inr [], s)
      | BodyReader h \<Rightarrow>
          (case de_read x h n (dx_net s) of
             (Inl e, u) \<Rightarrow> (Inl e, s\<lparr>dx_net := u\<rparr>)
           | (Inr bs, u) \<Rightarrow> (Inr (take n bs), s\<lparr>dx_net := u\<rparr>)))"

text \<open>\<^verbatim>\<open>tokio::io::copy\<close> of the next bytes into the sink: up to that many, fewer when the body ends.\<close>

function dav_skip :: "'u dav_env \<Rightarrow> dav_reader \<Rightarrow> nat \<Rightarrow> nat \<Rightarrow> 'u dav \<Rightarrow> (io_error + nat) \<times> 'u dav" where
  "dav_skip x r left skipped s =
     (if left = 0 then (Inr skipped, s)
      else case dav_read_some x r (min left SKIP_BUFFER) s of
             (Inl e, s) \<Rightarrow> (Inl e, s)
           | (Inr bs, s) \<Rightarrow>
               if bs = [] then (Inr skipped, s)
               else dav_skip x r (left - length bs) (skipped + length bs) s)"
  by pat_completeness auto
termination
  by (relation "measure (\<lambda>(x, r, left, skipped, s). left)") auto

declare dav_skip.simps [simp del]

definition body_of :: "http_response \<Rightarrow> dav_reader" where
  "body_of r = (case rs_body r of Streamed h \<Rightarrow> BodyReader h | Held _ \<Rightarrow> EmptyReader)"

definition dav_skip_to :: "'u dav_env \<Rightarrow> dav_reader \<Rightarrow> nat \<Rightarrow> ('u dav, handle) effect" where
  "dav_skip_to x r offset s =
     (case dav_skip x r offset 0 s of
        (Inl (k, message), s) \<Rightarrow> (Inl (protocol_error_of_io k message), s)
      | (Inr skipped, s) \<Rightarrow>
          if skipped < offset
          then (Inl (protocol_error_new Other ''the server sent fewer bytes than the resume offset''), s)
          else open_body r s)"

definition range_header :: "nat \<Rightarrow> dav_request \<Rightarrow> dav_request" where
  "range_header offset q =
     (if 0 < offset then with_header ''range'' (''bytes='' @ show_nat offset @ ''-'') q else q)"

definition dav_open_read :: "'u dav_env \<Rightarrow> path \<Rightarrow> nat \<Rightarrow> ('u dav, handle) effect" where
  "dav_open_read x p offset =
     eff_bind (dav_other (dav_send x ''GET'' (href (de_locator x) p False) (range_header offset))) (\<lambda>r.
       if rs_status r = 416 \<and> 0 < offset then open_body EmptyReader
       else eff_bind (eff_sum (expect_success x r p)) (\<lambda>_.
         if rs_status r \<noteq> 206 \<and> 0 < offset then dav_skip_to x (body_of r) offset
         else open_body (body_of r)))"

definition dav_read :: "'u dav_env \<Rightarrow> handle \<Rightarrow> nat \<Rightarrow> 'u dav \<Rightarrow> (io_error + 8 word list) \<times> 'u dav" where
  "dav_read x h n s =
     (case fmlookup (dx_readers s) h of None \<Rightarrow> (Inr [], s) | Some r \<Rightarrow> dav_read_some x r n s)"

end
