(* ===== verification/Dav_Upload.thy ===== *)
theory Dav_Upload
  imports Dav_Fs
begin

text \<open>
  \<^verbatim>\<open>protocols/webdav\<close>: how a file is sent (\<^verbatim>\<open>upload\<close>, \<^verbatim>\<open>open_write\<close> of \<^verbatim>\<open>fs\<close>) and how the protocol
  connects (\<^verbatim>\<open>lib\<close>).
\<close>

section \<open>Chunks that update a range\<close>

definition PATCH_CHUNK :: nat where
  "PATCH_CHUNK = 4 * 1024 * 1024"

definition SABRE_PARTIAL_UPDATE :: string where
  "SABRE_PARTIAL_UPDATE = ''application/x-sabredav-partialupdate''"

definition patch_new :: "nat \<Rightarrow> nat \<Rightarrow> patch_upload" where
  "patch_new start chunk = \<lparr>pc_next = start, pc_chunk = chunk, pc_buffer = [], pc_pending = None\<rparr>"

text \<open>
  The chunk being sent is a future that makes progress only when the writer polls it: here it is what
  is to be sent, and it is sent when the writer next waits for it.
\<close>

definition start_chunk :: "patch_upload \<Rightarrow> patch_upload" where
  "start_chunk w =
     w\<lparr>pc_buffer := [], pc_next := pc_next w + length (pc_buffer w), pc_pending := Some (pc_next w, pc_buffer w)\<rparr>"

definition poll_chunk :: "'w send_part \<Rightarrow> patch_upload \<Rightarrow> 'w \<Rightarrow> (io_error + unit) \<times> patch_upload \<times> 'w" where
  "poll_chunk send w s =
     (case pc_pending w of
        None \<Rightarrow> (Inr (), w, s)
      | Some (start, data) \<Rightarrow> (case send start data s of (result, s) \<Rightarrow> (result, w\<lparr>pc_pending := None\<rparr>, s)))"

definition patch_write ::
  "'w send_part \<Rightarrow> 8 word list \<Rightarrow> patch_upload \<Rightarrow> 'w \<Rightarrow> (io_error + nat) \<times> patch_upload \<times> 'w" where
  "patch_write send buf w s =
     (case poll_chunk send w s of
        (Inl e, w, s) \<Rightarrow> (Inl e, w, s)
      | (Inr _, w, s) \<Rightarrow>
          (let accepted = min (length buf) (pc_chunk w - length (pc_buffer w));
               w = w\<lparr>pc_buffer := pc_buffer w @ take accepted buf\<rparr>
           in (Inr accepted, if length (pc_buffer w) = pc_chunk w then start_chunk w else w, s)))"

definition patch_flush :: "'w send_part \<Rightarrow> patch_upload \<Rightarrow> 'w \<Rightarrow> (io_error + unit) \<times> patch_upload \<times> 'w" where
  "patch_flush send w s = poll_chunk send w s"

definition patch_shutdown :: "'w send_part \<Rightarrow> patch_upload \<Rightarrow> 'w \<Rightarrow> (io_error + unit) \<times> patch_upload \<times> 'w" where
  "patch_shutdown send w s =
     (case poll_chunk send w s of
        (Inl e, w, s) \<Rightarrow> (Inl e, w, s)
      | (Inr _, w, s) \<Rightarrow> if pc_buffer w \<noteq> [] then poll_chunk send (start_chunk w) s else (Inr (), w, s))"

text \<open>\<^verbatim>\<open>write_all\<close> of the library.\<close>

function patch_write_all ::
  "'w send_part \<Rightarrow> 8 word list \<Rightarrow> patch_upload \<Rightarrow> 'w \<Rightarrow> (io_error + unit) \<times> patch_upload \<times> 'w" where
  "patch_write_all send buf w s =
     (if buf = [] then (Inr (), w, s)
      else case patch_write send buf w s of
             (Inl e, w, s) \<Rightarrow> (Inl e, w, s)
           | (Inr n, w, s) \<Rightarrow>
               if n = 0 then (Inl (IoOther, ''failed to write whole buffer''), w, s)
               else patch_write_all send (drop n buf) w s)"
  by pat_completeness auto
termination
  by (relation "measure (\<lambda>(send, buf, w, s). length buf)") auto

declare patch_write_all.simps [simp del]

text \<open>The range of a chunk, both ends included.\<close>

definition update_range :: "nat \<Rightarrow> nat \<Rightarrow> string" where
  "update_range start len = ''bytes='' @ show_nat start @ ''-'' @ show_nat (start + len - 1)"

definition patch_sender :: "'u dav_env \<Rightarrow> path \<Rightarrow> 'u dav send_part" where
  "patch_sender x p start data s =
     (case dav_send x ''PATCH'' (href (de_locator x) p False)
             (\<lambda>q. with_body (text_of_bytes data)
                    (with_header ''x-update-range'' (update_range start (length data))
                      (with_header ''content-type'' SABRE_PARTIAL_UPDATE q))) s of
        (Inl f, s) \<Rightarrow> (Inl (io_other (failure_into_error f Other)), s)
      | (Inr r, s) \<Rightarrow> (map_sum io_other id (expect_success x r p), s))"

section \<open>One streamed request\<close>

definition upload_closed :: io_error where
  "upload_closed = (IoOther, ''the upload is closed'')"

definition upload_timed_out :: io_error where
  "upload_timed_out = (IoOther, NO_RESPONSE)"

definition put_new :: "nat \<Rightarrow> put_upload" where
  "put_new request = \<lparr>pu_request = request, pu_open = True, pu_joined = False, pu_verify = True, pu_written = 0\<rparr>"

text \<open>What the task makes of the end of the request.\<close>

definition finish_put ::
  "'u dav_env \<Rightarrow> path \<Rightarrow> request_failure + http_response \<Rightarrow> 'u dav \<Rightarrow> (io_error + unit) \<times> 'u dav" where
  "finish_put x p result s =
     (case result of
        Inl f \<Rightarrow> (Inl (io_other (request_error Other f)), s)
      | Inr r \<Rightarrow> (map_sum io_other id (expect_success x r p),
                  if rs_status r = 401 then snd (dav_refresh x r s) else s))"

definition put_failure :: "'u dav_env \<Rightarrow> path \<Rightarrow> put_upload \<Rightarrow> 'u dav \<Rightarrow> io_error \<times> put_upload \<times> 'u dav" where
  "put_failure x p w s =
     (if pu_joined w then (upload_closed, w, s)
      else case de_put_wait x (pu_request w) (dx_net s) of
             (result, u) \<Rightarrow>
               (case finish_put x p result (s\<lparr>dx_net := u\<rparr>) of
                  (Inr _, s) \<Rightarrow> ((IoOther, ''the server ended the upload early''), w\<lparr>pu_joined := True\<rparr>, s)
                | (Inl e, s) \<Rightarrow> (e, w\<lparr>pu_joined := True\<rparr>, s)))"

definition put_failed ::
  "'u dav_env \<Rightarrow> path \<Rightarrow> put_upload \<Rightarrow> 'u dav \<Rightarrow> (io_error + 'a) \<times> put_upload \<times> 'u dav" where
  "put_failed x p w s = (case put_failure x p w s of (e, w, s) \<Rightarrow> (Inl e, w, s))"

definition put_pipe ::
  "'u dav_env \<Rightarrow> path \<Rightarrow> 8 word list \<Rightarrow> put_upload \<Rightarrow> 'u dav \<Rightarrow> (io_error + nat) \<times> put_upload \<times> 'u dav" where
  "put_pipe x p buf w s =
     (if \<not> pu_open w then (Inl upload_closed, w, s)
      else case de_put_pipe x (pu_request w) buf (dx_net s) of
             (PipeTook n, u) \<Rightarrow> (Inr n, w\<lparr>pu_written := pu_written w + n\<rparr>, s\<lparr>dx_net := u\<rparr>)
           | (PipeBroken, u) \<Rightarrow> put_failed x p w (s\<lparr>dx_net := u\<rparr>)
           | (PipeStalled, u) \<Rightarrow> (Inl upload_timed_out, w, s\<lparr>dx_net := u\<rparr>))"

definition put_write ::
  "'u dav_env \<Rightarrow> path \<Rightarrow> 8 word list \<Rightarrow> put_upload \<Rightarrow> 'u dav \<Rightarrow> (io_error + nat) \<times> put_upload \<times> 'u dav" where
  "put_write x p buf w s =
     (if pu_joined w then put_pipe x p buf w s
      else case de_put_over x (pu_request w) (dx_net s) of
             (True, u) \<Rightarrow> put_failed x p w (s\<lparr>dx_net := u\<rparr>)
           | (False, u) \<Rightarrow> put_pipe x p buf w (s\<lparr>dx_net := u\<rparr>))"

function put_write_all ::
  "'u dav_env \<Rightarrow> path \<Rightarrow> 8 word list \<Rightarrow> put_upload \<Rightarrow> 'u dav \<Rightarrow> (io_error + unit) \<times> put_upload \<times> 'u dav" where
  "put_write_all x p buf w s =
     (if buf = [] then (Inr (), w, s)
      else case put_write x p buf w s of
             (Inl e, w, s) \<Rightarrow> (Inl e, w, s)
           | (Inr n, w, s) \<Rightarrow>
               if n = 0 then (Inl (IoOther, ''failed to write whole buffer''), w, s)
               else put_write_all x p (drop n buf) w s)"
  by pat_completeness auto
termination
  by (relation "measure (\<lambda>(x, p, buf, w, s). length buf)") auto

declare put_write_all.simps [simp del]

text \<open>The server is asked how much it has, once the request is answered.\<close>

definition verify_stored :: "'u dav_env \<Rightarrow> path \<Rightarrow> nat \<Rightarrow> 'u dav \<Rightarrow> (io_error + unit) \<times> 'u dav" where
  "verify_stored x p written s =
     (case stat_resource x p s of
        (Inl e, s) \<Rightarrow> (Inl (io_other e), s)
      | (Inr r, s) \<Rightarrow>
          (case rc_size r of
             Some stored \<Rightarrow>
               if stored \<noteq> written
               then (Inl (IoOther, ''the server stored '' @ show_nat stored @ '' of '' @ show_nat written @ '' bytes''), s)
               else (Inr (), s)
           | None \<Rightarrow> (Inr (), s)))"

definition put_joined :: "'u dav_env \<Rightarrow> path \<Rightarrow> put_upload \<Rightarrow> 'u dav \<Rightarrow> (io_error + unit) \<times> 'u dav" where
  "put_joined x p w s =
     (if pu_joined w then (Inr (), s)
      else case de_put_reply x (pu_request w) (long_wait x) (dx_net s) of
             (None, u) \<Rightarrow> (Inl upload_timed_out, s\<lparr>dx_net := de_put_abort x (pu_request w) u\<rparr>)
           | (Some result, u) \<Rightarrow> finish_put x p result (s\<lparr>dx_net := u\<rparr>))"

text \<open>A shutdown is asked for once.\<close>

definition put_shutdown :: "'u dav_env \<Rightarrow> path \<Rightarrow> put_upload \<Rightarrow> 'u dav \<Rightarrow> (io_error + unit) \<times> put_upload \<times> 'u dav" where
  "put_shutdown x p w s =
     (let closed = w\<lparr>pu_open := False, pu_joined := True, pu_verify := False\<rparr>
      in (case put_joined x p w s of
            (Inl e, s) \<Rightarrow> (Inl e, closed, s)
          | (Inr _, s) \<Rightarrow>
              (case (if pu_verify w then verify_stored x p (pu_written w) s else (Inr (), s)) of
                 (result, s) \<Rightarrow> (result, closed, s))))"

section \<open>Writers\<close>

definition keep_writer :: "dav_writer \<Rightarrow> nat \<Rightarrow> ('u dav, writer) effect" where
  "keep_writer w offset s =
     (Inr \<lparr>w_stream = dx_next_handle s, w_offset = offset\<rparr>,
      s\<lparr>dx_writers := fmupd (dx_next_handle s) w (dx_writers s), dx_next_handle := dx_next_handle s + 1\<rparr>)"

definition dav_open_write :: "'u dav_env \<Rightarrow> path \<Rightarrow> nat \<Rightarrow> ('u dav, writer) effect" where
  "dav_open_write x p offset s =
     (if 0 < offset \<and> de_partial_update x
      then keep_writer (PatchWriter p (patch_new offset PATCH_CHUNK)) offset s
      else let address = href (de_locator x) p False
           in eff_bind
                (if awaits_challenge (dx_auth s) then dav_other (dav_send x ''PUT'' address (with_body []))
                 else eff_return \<lparr>rs_status = 0, rs_headers = [], rs_body = Held []\<rparr>)
                (\<lambda>_ s. case dav_prepare x ''PUT'' address s of
                         (q, s) \<Rightarrow>
                           (case de_put_open x q (dx_net s) of
                              (request, u) \<Rightarrow> keep_writer (PutWriter p (put_new request)) 0 (s\<lparr>dx_net := u\<rparr>)))
                s)"

definition set_writer :: "handle \<Rightarrow> dav_writer \<Rightarrow> 'u dav \<Rightarrow> 'u dav" where
  "set_writer h w s = s\<lparr>dx_writers := fmupd h w (dx_writers s)\<rparr>"

definition dav_write_all :: "'u dav_env \<Rightarrow> handle \<Rightarrow> 8 word list \<Rightarrow> 'u dav \<Rightarrow> (io_error + unit) \<times> 'u dav" where
  "dav_write_all x h buf s =
     (case fmlookup (dx_writers s) h of
        None \<Rightarrow> (Inr (), s)
      | Some (PatchWriter p w) \<Rightarrow>
          (case patch_write_all (patch_sender x p) buf w s of (r, w, s) \<Rightarrow> (r, set_writer h (PatchWriter p w) s))
      | Some (PutWriter p w) \<Rightarrow>
          (case put_write_all x p buf w s of (r, w, s) \<Rightarrow> (r, set_writer h (PutWriter p w) s)))"

definition dav_flush :: "'u dav_env \<Rightarrow> handle \<Rightarrow> 'u dav \<Rightarrow> (io_error + unit) \<times> 'u dav" where
  "dav_flush x h s =
     (case fmlookup (dx_writers s) h of
        Some (PatchWriter p w) \<Rightarrow>
          (case patch_flush (patch_sender x p) w s of (r, w, s) \<Rightarrow> (r, set_writer h (PatchWriter p w) s))
      | _ \<Rightarrow> (Inr (), s))"

definition dav_shutdown :: "'u dav_env \<Rightarrow> handle \<Rightarrow> 'u dav \<Rightarrow> (io_error + unit) \<times> 'u dav" where
  "dav_shutdown x h s =
     (case fmlookup (dx_writers s) h of
        None \<Rightarrow> (Inr (), s)
      | Some (PatchWriter p w) \<Rightarrow>
          (case patch_shutdown (patch_sender x p) w s of (r, w, s) \<Rightarrow> (r, set_writer h (PatchWriter p w) s))
      | Some (PutWriter p w) \<Rightarrow>
          (case put_shutdown x p w s of (r, w, s) \<Rightarrow> (r, set_writer h (PutWriter p w) s)))"

text \<open>A writer that is dropped gives its request up.\<close>

definition drop_writer :: "'u dav_env \<Rightarrow> handle \<Rightarrow> 'u dav \<Rightarrow> 'u dav" where
  "drop_writer x h s =
     (let s' = s\<lparr>dx_writers := fmdrop h (dx_writers s)\<rparr>
      in (case fmlookup (dx_writers s) h of
            Some (PutWriter p w) \<Rightarrow> s'\<lparr>dx_net := de_put_abort x (pu_request w) (dx_net s')\<rparr>
          | _ \<Rightarrow> s'))"

section \<open>Connecting\<close>

definition DAV_DEFAULT_PORT :: nat where
  "DAV_DEFAULT_PORT = 443"

definition dav_connection_form :: connection_form where
  "dav_connection_form =
     (let form = standard_form DAV_DEFAULT_PORT
      in form\<lparr>fm_username := (fm_username form)\<lparr>cm_required := False\<rparr>,
              fm_options :=
                [\<lparr>of_key = ''security'', of_label = ''Security'', of_required = False,
                  of_kind = ChoiceOption SECURITY_CHOICES ''https''\<rparr>,
                 \<lparr>of_key = ''root'', of_label = ''Root path'', of_required = False, of_kind = TextOption ''/''\<rparr>]\<rparr>)"

definition dav_connect_failed :: "http_failure \<Rightarrow> protocol_error" where
  "dav_connect_failed f = failure_into_error f Connect"

definition dav_probe :: "'u dav_env \<Rightarrow> 'u dav \<Rightarrow> (http_failure + http_response) \<times> 'u dav" where
  "dav_probe x = dav_propfind x [RootDir] True ''0''"

definition dav_take_slot :: "dav_settings \<Rightarrow> 'u trust_env \<Rightarrow> 'u dav \<Rightarrow> trust_problem option \<times> 'u dav" where
  "dav_take_slot st te s =
     (if dv_secure st then (case te_take_problem te (dx_net s) of (problem, u) \<Rightarrow> (problem, s\<lparr>dx_net := u\<rparr>))
      else (None, s))"

text \<open>Each certificate that is confirmed leads to another try: the bound is on the tries.\<close>

fun dav_probe_trusted ::
  "'u dav_env \<Rightarrow> 'u trust_env \<Rightarrow> dav_settings \<Rightarrow> string \<Rightarrow> nat \<Rightarrow> ('u dav, http_response) bounded" where
  "dav_probe_trusted x te st name 0 = (\<lambda>s. None)"
| "dav_probe_trusted x te st name (Suc n) = (\<lambda>s.
     case dav_probe x (snd (dav_take_slot st te s)) of
       (Inr r, s) \<Rightarrow> Some (Inr r, s)
     | (Inl f, s) \<Rightarrow>
         (case dav_take_slot st te s of
            (None, s) \<Rightarrow> Some (Inl (dav_connect_failed f), s)
          | (Some problem, s) \<Rightarrow>
              (case ask_to_trust (te_codec te) (te_known_certificates te) (te_ask te) (te_run_disk te) problem name
                      (dv_host st) (dv_port st) (dx_net s) of
                 (Inl e, u) \<Rightarrow> Some (Inl e, s\<lparr>dx_net := u\<rparr>)
               | (Inr _, u) \<Rightarrow> dav_probe_trusted x te st name n (s\<lparr>dx_net := u\<rparr>))))"

definition dav_authenticate ::
  "'u dav_env \<Rightarrow> 'u trust_env \<Rightarrow> dav_settings \<Rightarrow> string \<Rightarrow> http_response \<Rightarrow> ('u dav, http_response) effect" where
  "dav_authenticate x te st name r s =
     (if rs_status r \<noteq> 401 then (Inr r, s)
      else case strongest (response_challenges x r) of
             Inl names \<Rightarrow>
               (Inl (protocol_error_new Auth
                  (''the server requires an unsupported authentication scheme: '' @ join_with '', '' names)), s)
           | Inr scheme \<Rightarrow>
               if dv_username st = [] then (Inl (protocol_error_new AuthRejected ''the server requires a username''), s)
               else (let s = s\<lparr>dx_auth := use_scheme scheme (dx_auth s)\<rparr>
                     in (case te_ask te (PasswordQuestion (dv_username st) name) (dx_net s) of
                           (Some (PasswordAnswer password), u) \<Rightarrow>
                             (case dav_probe x (s\<lparr>dx_auth := use_credentials (dv_username st) password (dx_auth s), dx_net := u\<rparr>) of
                                (Inl f, s) \<Rightarrow> (Inl (dav_connect_failed f), s)
                              | (Inr r, s) \<Rightarrow>
                                  if rs_status r = 401
                                  then (Inl (protocol_error_new AuthRejected (''Authentication failed for '' @ name)), s)
                                  else (Inr r, s))
                         | (_, u) \<Rightarrow> (Inl connection_cancelled, s\<lparr>dx_net := u\<rparr>))))"

definition check_probe :: "(nat \<Rightarrow> string) \<Rightarrow> dav_settings \<Rightarrow> http_response \<Rightarrow> protocol_error + unit" where
  "check_probe status_shown st r =
     (let status = rs_status r
      in if status = 207 then Inr ()
         else if is_redirection status then Inl (redirect_error r)
         else if status = 404 then Inl (protocol_error_new Connect (''Root path '' @ dv_root st @ '' not found''))
         else Inl (protocol_error_new Connect
                (dv_host st @ '' is not a WebDAV server (PROPFIND returned '' @ status_shown status @ '')'')))"

definition supports_partial_update :: "'u dav_env \<Rightarrow> 'u dav \<Rightarrow> bool \<times> 'u dav" where
  "supports_partial_update x s =
     (case dav_send x ''OPTIONS'' (href (de_locator x) [RootDir] True) id s of
        (Inl _, s) \<Rightarrow> (False, s)
      | (Inr r, s) \<Rightarrow>
          (list_ex (\<lambda>(name, v). name = ''dav'' \<and> str_contains (to_lowercase v) ''sabredav-partialupdate'') (rs_headers r), s))"

text \<open>What a connection that is made comes to: its environment, and its state.\<close>

definition dav_connect ::
  "'u dav_env \<Rightarrow> 'u trust_env \<Rightarrow> request_failure option \<Rightarrow> nat \<Rightarrow> target \<Rightarrow> 'u \<Rightarrow>
   ((protocol_error + 'u dav_env \<times> 'u dav) \<times> 'u) option" where
  "dav_connect x te client_failure n t u =
     (let st = dav_settings_of t;
          x = x\<lparr>de_locator := locator_new (de_lossy x) (dav_origin st) (dv_root st)\<rparr>;
          s = dav_client_new u;
          s = (case dv_password st of
                 Some saved \<Rightarrow>
                   if dv_username st \<noteq> [] then s\<lparr>dx_auth := use_credentials (dv_username st) saved (dx_auth s)\<rparr> else s
               | None \<Rightarrow> s)
      in (case client_failure of
            Some f \<Rightarrow> Some (Inl (dav_connect_failed (RequestFailed f)), u)
          | None \<Rightarrow>
              (case dav_probe_trusted x te st (tg_name t) n s of
                 None \<Rightarrow> None
               | Some (Inl e, s) \<Rightarrow> Some (Inl e, dx_net s)
               | Some (Inr first, s) \<Rightarrow>
                   (case dav_authenticate x te st (tg_name t) first s of
                      (Inl e, s) \<Rightarrow> Some (Inl e, dx_net s)
                    | (Inr answered, s) \<Rightarrow>
                        (case check_probe (de_status_shown x) st answered of
                           Inl e \<Rightarrow> Some (Inl e, dx_net s)
                         | Inr _ \<Rightarrow>
                             (case supports_partial_update x s of
                                (partial, s) \<Rightarrow> Some (Inr (x\<lparr>de_partial_update := partial\<rparr>, s), dx_net s)))))))"

section \<open>The contract\<close>

definition dav_file_system :: "'u dav_env \<Rightarrow> 'u dav file_system" where
  "dav_file_system x =
     \<lparr>fs_read_dir = dav_read_dir x, fs_stat = dav_stat x, fs_create_dir = dav_create_dir x, fs_rename = dav_rename x,
      fs_remove_file = dav_remove_file x, fs_open_read = dav_open_read x,
      fs_open_write_sized = default_open_write_sized (dav_open_write x), fs_set_modified = default_set_modified,
      fs_read = (\<lambda>h n. io_effect (dav_read x h n)), fs_write_all = (\<lambda>h bs. io_effect (dav_write_all x h bs)),
      fs_flush = (\<lambda>h. io_effect (dav_flush x h)), fs_shutdown = (\<lambda>h. io_effect (dav_shutdown x h)),
      fs_transfer_limit = default_transfer_limit, fs_resume_backoff = default_resume_backoff,
      fs_can_set_modified = default_can_set_modified, fs_time_resolution = default_time_resolution\<rparr>"

end
