(* ===== verification/Plan_Safe.thy ===== *)
theory Plan_Safe
  imports Plan
begin

text \<open>
  Where a copy writes: when the folders of the source list plain names only, every planned file is
  below the folder the copy goes to.  What a source has to promise is a locale; a protocol
  discharges it for its listing.
\<close>

section \<open>Plain names\<close>

definition plain_items :: "dir_item list \<Rightarrow> bool" where
  "plain_items items \<longleftrightarrow> list_all (\<lambda>i. wf_name (d_name i)) items"

text \<open>A path of one or more plain names, below a folder.\<close>

definition below_folder :: "path \<Rightarrow> path \<Rightarrow> bool" where
  "below_folder dir p \<longleftrightarrow> (\<exists>names. names \<noteq> [] \<and> list_all wf_name names \<and> p = dir @ map Normal names)"

definition plain_tree :: "discovered_tree \<Rightarrow> bool" where
  "plain_tree t \<longleftrightarrow> list_all (\<lambda>(p, _). below_folder [] p) (dt_files t) \<and> list_all (below_folder []) (dt_directories t)"

lemma join_below:
  assumes "list_all wf_name names" "wf_name n"
  shows "join_name (map Normal names) n = map Normal (names @ [n])" "below_folder [] (join_name (map Normal names) n)"
  using assms by (auto simp: join_wf_name below_folder_def intro!: exI [of _ "names @ [n]"])

lemma path_join_below: "below_folder [] p \<Longrightarrow> below_folder dir (path_join dir p)"
  by (auto simp: below_folder_def path_join_def is_absolute_def neq_Nil_conv intro: exI [of _ "y # ys" for y ys])

lemma below_below: "wf_name n \<Longrightarrow> below_folder (join_name dir n) p \<Longrightarrow> below_folder dir p"
  by (auto simp: below_folder_def join_wf_name intro: exI [of _ "n # names" for names])

lemma join_name_below: "wf_name n \<Longrightarrow> below_folder dir (join_name dir n)"
  by (auto simp: below_folder_def join_wf_name intro: exI [of _ "[n]"])

section \<open>What is done later to the planned files\<close>

lemma mark_conflicts_destinations: "map pf_destination (mark_conflicts listings files) = map pf_destination files"
  by (simp add: mark_conflicts_def mark_conflict_def split: option.splits prod.splits)

lemma stat_sources_destinations:
  "stat_sources fs files w = (Inr files', w') \<Longrightarrow> map pf_destination files' = map pf_destination files"
proof (induction files arbitrary: files' w w')
  case (Cons f files)
  then show ?case
    by (auto simp: eff_bind_def eff_return_def eff_ok_def split: prod.splits sum.splits if_splits)
qed (simp add: eff_return_def)

section \<open>The walk\<close>

locale plain_source =
  fixes source :: "'w file_system"
  assumes plain_listing: "fs_read_dir source p w = (Inr items, w') \<Longrightarrow> plain_items items"
begin

lemma walk_plain:
  shows "discover_tree_into depth fs root recursive cancel relative tree w = Some (Inr (outcome, tree'), w') \<Longrightarrow>
      fs = source \<Longrightarrow> relative = map Normal names \<Longrightarrow> list_all wf_name names \<Longrightarrow> plain_tree tree \<Longrightarrow> plain_tree tree'"
    and "discover_items depth fs root recursive cancel relative items tree w = Some (Inr (outcome, tree'), w') \<Longrightarrow>
      fs = source \<Longrightarrow> relative = map Normal names \<Longrightarrow> list_all wf_name names \<Longrightarrow> plain_items items \<Longrightarrow> plain_tree tree \<Longrightarrow>
      plain_tree tree'"
proof (induction depth fs root recursive cancel relative tree w
    and depth fs root recursive cancel relative items tree w
    arbitrary: names outcome tree' w' and names outcome tree' w'
    rule: discover_tree_into_discover_items.induct)
  case (2 depth fs root recursive cancel relative tree w)
  obtain r w1 where r: "fs_read_dir fs (path_join root relative) w = (r, w1)" by fastforce
  with 2(2) obtain items where i: "r = Inr items" by (cases r) auto
  have "plain_items items" using r 2(3) by (auto simp: i intro: plain_listing)
  moreover have "discover_items depth fs root recursive cancel relative items tree w1 = Some (Inr (outcome, tree'), w')"
    using 2(2) by (simp add: r i)
  ultimately show ?case using 2(1) [OF r [symmetric] i _ 2(3-5)] 2(6) by blast
next
  case (4 depth fs root recursive cancel relative item items tree w)
  obtain stop w1 where c: "cancel w = (stop, w1)" by fastforce
  define rel where "rel = join_name relative (d_name item)"
  have item: "wf_name (d_name item)" and items: "plain_items items" using 4(10) by (simp_all add: plain_items_def)
  have rel: "rel = map Normal (names @ [d_name item])" "below_folder [] rel" "list_all wf_name (names @ [d_name item])"
    using join_below [OF 4(9) item] 4(8,9) item by (simp_all add: rel_def)
  have tree: "plain_tree (add_symlink rel tree)" "plain_tree (add_directory rel tree)" "plain_tree (add_file rel (d_metadata item) tree)"
    using 4(11) rel(2) by (simp_all add: plain_tree_def add_symlink_def add_directory_def add_file_def)
  note run = 4(6)
  show ?case
  proof (cases stop)
    case True
    then show ?thesis using run 4(11) by (simp add: c)
  next
    case False
    have c: "cancel w = (False, w1)" using c False by simp
    show ?thesis
    proof (cases "m_kind (d_metadata item)")
      case Symlink
      with run have "discover_items depth fs root recursive cancel relative items (add_symlink rel tree) w1 = Some (Inr (outcome, tree'), w')"
        by (simp add: c rel_def)
      then show ?thesis by (rule 4(5) [OF c [symmetric] refl rel_def Symlink _ 4(7-9) items tree(1)])
    next
      case File
      with run have "discover_items depth fs root recursive cancel relative items (add_file rel (d_metadata item) tree) w1 = Some (Inr (outcome, tree'), w')"
        by (simp add: c rel_def)
      then show ?thesis by (rule 4(1) [OF c [symmetric] refl rel_def File _ 4(7-9) items tree(3)])
    next
      case Dir
      show ?thesis
      proof (cases recursive)
        case True
        obtain out2 tree2 w2 where inner: "discover_tree_into depth fs root recursive cancel rel (add_directory rel tree) w1 = Some (Inr (out2, tree2), w2)"
          using run Dir True by (auto simp: c rel_def Let_def split: option.splits sum.splits prod.splits)
        then have plain2: "plain_tree tree2" by (rule 4(2) [OF c [symmetric] refl rel_def Dir True _ 4(7) rel(1,3) tree(2)])
        show ?thesis
        proof (cases out2)
          case WalkCompleted
          then have rest: "discover_items depth fs root recursive cancel relative items tree2 w2 = Some (Inr (outcome, tree'), w')"
            using run Dir True inner by (simp add: c rel_def)
          show ?thesis
            by (rule 4(3) [OF c [symmetric] refl rel_def Dir True inner refl refl refl WalkCompleted rest 4(7-9) items plain2])
        next
          case WalkCancelled
          then show ?thesis using run Dir True inner plain2 by (simp add: c rel_def)
        qed
      next
        case False
        with run Dir have "discover_items depth fs root recursive cancel relative items (add_directory rel tree) w1 = Some (Inr (outcome, tree'), w')"
          by (simp add: c rel_def)
        then show ?thesis by (rule 4(4) [OF c [symmetric] refl rel_def Dir False _ 4(7-9) items tree(2)])
      qed
    qed
  qed
qed simp_all

lemma discover_plain:
  assumes "discover_tree depth source root cancel w = Some (Inr (Some tree), w')"
  shows "plain_tree tree"
proof -
  obtain outcome where "discover_tree_into depth source root True cancel [] empty_tree w = Some (Inr (outcome, tree), w')"
    using assms
    by (auto simp: discover_tree_def discover_def bnd_bind_def bounded_of_def eff_return_def
        split: option.splits sum.splits prod.splits walk.splits)
  then show ?thesis
    by (rule walk_plain(1) [where names = "[]"]) (simp_all add: plain_tree_def empty_tree_def)
qed

lemma planned_tree_below:
  assumes "plain_tree tree" "wf_name (e_name e)"
  shows "list_all (\<lambda>f. below_folder dir (pf_destination f)) (planned_files_for_tree e (join_name dir (e_name e)) tree)"
proof -
  have "below_folder dir (path_join (join_name dir (e_name e)) p)" if "(p, len, t) \<in> set (dt_files tree)" for p len t
  proof -
    have "below_folder [] p" using assms(1) that by (auto simp: plain_tree_def list_all_iff)
    from below_below [OF assms(2) path_join_below [OF this]] show ?thesis .
  qed
  then show ?thesis by (auto simp: planned_files_for_tree_def list_all_iff)
qed

lemma plan_entries_below:
  assumes "plan_entries depth source destination dir cancel entries (files, skipped, created) w =
      Some (Inr (Some (files', skipped', created')), w')"
    and "list_all (\<lambda>e. wf_name (e_name e)) entries" and "list_all (\<lambda>f. below_folder dir (pf_destination f)) files"
  shows "list_all (\<lambda>f. below_folder dir (pf_destination f)) files'"
  using assms
proof (induction entries arbitrary: files skipped created w)
  case (Cons e entries)
  have e: "wf_name (e_name e)" and es: "list_all (\<lambda>e. wf_name (e_name e)) entries" using Cons(3) by simp_all
  obtain stop w1 where c: "cancel w = (stop, w1)" by fastforce
  have "\<not> stop" using Cons(2) by (auto simp: bnd_bind_def bounded_of_def eff_flag_def eff_return_def c)
  then have c: "cancel w = (False, w1)" using c by simp
  show ?case
  proof (cases "e_is_dir e")
    case False
    have "below_folder dir (pf_destination (planned_file_for_loose_entry e dir))"
      by (simp add: planned_file_for_loose_entry_def join_name_below [OF e])
    moreover have "plan_entries depth source destination dir cancel entries
        (files @ [planned_file_for_loose_entry e dir], skipped, created) w1 = Some (Inr (Some (files', skipped', created')), w')"
      using Cons(2) False by (simp add: bnd_bind_def bounded_of_def eff_flag_def c)
    ultimately show ?thesis using Cons(1) [OF _ es] Cons(4) by simp
  next
    case True
    let ?root = "join_name dir (e_name e)"
    obtain tree w2 created2 w3 where walk: "discover_tree depth source (e_path e) cancel w1 = Some (Inr (Some tree), w2)"
      and rest: "plan_entries depth source destination dir cancel entries
        (files @ planned_files_for_tree e ?root tree, skipped + dt_skipped_symlinks tree, created2) w3 =
          Some (Inr (Some (files', skipped', created')), w')"
      using Cons(2) True
      by (auto simp: bnd_bind_def bounded_of_def eff_flag_def eff_return_def c Let_def split: option.splits sum.splits prod.splits)
    from planned_tree_below [OF discover_plain [OF walk] e] show ?thesis
      using Cons(1) [OF rest es] Cons(4) by simp
  qed
qed (simp add: bounded_of_def eff_return_def)

lemma plan_copy_below:
  assumes "plan_copy depth source destination entries dir cancel w = Some (Inr (PlanReady plan), w')"
    and "list_all (\<lambda>e. wf_name (e_name e)) entries"
  shows "list_all (\<lambda>f. below_folder dir (pf_destination f)) (dp_files plan)"
proof -
  obtain files skipped created w1 listings w2 files2 where
    walk: "plan_entries depth source destination dir cancel entries ([], 0, {||}) w = Some (Inr (Some (files, skipped, created)), w1)"
    and stats: "stat_sources source (mark_conflicts listings files) w2 = (Inr files2, w')" and plan: "dp_files plan = files2"
    using assms(1)
    by (auto simp: plan_copy_def bnd_bind_def bounded_of_def eff_bind_def eff_return_def split: option.splits sum.splits prod.splits)
  have "list_all (\<lambda>f. below_folder dir (pf_destination f)) files"
    by (rule plan_entries_below [OF walk assms(2)]) simp
  then have "list_all (below_folder dir) (map pf_destination files)" by (simp add: list_all_iff)
  also have "map pf_destination files = map pf_destination files2"
    using stat_sources_destinations [OF stats] mark_conflicts_destinations by simp
  finally show ?thesis by (simp add: plan list_all_iff)
qed

end

end
