(* ===== verification/Dav_Safe.thy ===== *)
theory Dav_Safe
  imports Dav_Upload S3_Safe Plan_Safe
begin

text \<open>
  What the WebDAV protocol promises: the address of a path leads back to the path, a listing has
  plain names only, the scheme chosen is the strongest offered, and an upload sends the file and
  nothing else.
\<close>

section \<open>Addresses\<close>

lemma hex_value_digit: "n < 16 \<Longrightarrow> hex_value (hex_digit n) = Some n"
  by (auto simp: hex_value_def hex_digit_def)

lemma percent_decode_plain: "c \<noteq> CHR ''%'' \<Longrightarrow> percent_decode (c # s) = c # percent_decode s"
  by (cases s rule: percent_decode.cases) auto

lemma percent_decode_byte: "percent_decode (percent_byte c @ s) = c # percent_decode s"
proof (cases "is_unreserved c")
  case True
  then have "c \<noteq> CHR ''%''" using not_unreserved by auto
  then show ?thesis using True by (simp add: percent_byte_def percent_decode_plain)
next
  case False
  let ?n = "of_char c :: nat"
  have "16 * (?n div 16) + ?n mod 16 = ?n" by simp
  then have "char_of (16 * (?n div 16) + ?n mod 16) = c" by simp
  then show ?thesis
    using False by (simp add: percent_byte_def Let_def hex_value_digit high_half)
qed

lemma percent_decode_encode [simp]: "percent_decode (percent_encode s) = s"
proof (induction s)
  case (Cons c s)
  have "percent_encode (c # s) = percent_byte c @ percent_encode s" by (simp add: percent_encode_def)
  then show ?case using Cons by (simp add: percent_decode_byte)
qed (simp add: percent_encode_def)

lemma hex_digit_unreserved: "n < 16 \<Longrightarrow> is_unreserved (hex_digit n)"
  by (auto simp: is_unreserved_def hex_digit_def Let_def)

lemma encoded_characters: "c \<in> set (percent_encode s) \<Longrightarrow> is_unreserved c \<or> c = CHR ''%''"
  by (auto simp: percent_encode_def percent_byte_def Let_def hex_digit_unreserved high_half split: if_splits)

lemma percent_encode_empty: "percent_encode s = [] \<longleftrightarrow> s = []"
  by (cases s) (auto simp: percent_encode_def)

lemma join_characters: "c \<in> set (join_with sep ws) \<Longrightarrow> c \<in> set sep \<or> (\<exists>w \<in> set ws. c \<in> set w)"
  by (induction sep ws rule: join_with.induct) auto

lemma split_on_snoc: "split_on d (s @ [d]) = split_on d s @ [[]]"
  by (induction d s rule: split_on.induct) (auto split: list.splits)

lemma after_scheme_none: "CHR '':'' \<notin> set s \<Longrightarrow> after_scheme s = None"
  by (induction s rule: after_scheme.induct) (auto simp: starts_with_def)

lemma strip_segments_append [simp]: "strip_segments root (root @ rest) = Some rest"
  by (induction root) auto

lemma decoded_href:
  assumes "\<forall>segment \<in> set (lc_root l @ path_segments p). segment \<noteq> [] \<and> lossy segment = segment"
  shows "decoded_segments lossy (href l p collection) = lc_root l @ path_segments p"
proof -
  let ?segs = "lc_root l @ path_segments p"
  let ?address = "''/'' @ join_with ''/'' (map percent_encode ?segs)"
  have pieces: "filter (\<lambda>s. s \<noteq> []) (split_on (CHR ''/'') ?address) = map percent_encode ?segs"
  proof (cases "?segs = []")
    case False
    then have "split_on (CHR ''/'') (join_with ''/'' (map percent_encode ?segs)) = map percent_encode ?segs"
      by (intro split_on_join) (auto simp: percent_encode_no_slash)
    moreover have "filter (\<lambda>s. s \<noteq> []) (map percent_encode ?segs) = map percent_encode ?segs"
      using assms by (auto simp: percent_encode_empty intro!: filter_True)
    ultimately show ?thesis by simp
  qed simp
  have "filter (\<lambda>s. s \<noteq> []) (split_on (CHR ''/'') (href l p collection)) =
        filter (\<lambda>s. s \<noteq> []) (split_on (CHR ''/'') ?address)"
    by (simp add: href_def Let_def split_on_snoc del: append_Cons) (simp add: split_on_snoc)
  then show ?thesis
    unfolding decoded_segments_def pieces using assms by (auto intro!: map_idI)
qed

lemma href_characters:
  "c \<in> set (href l p collection) \<Longrightarrow> is_unreserved c \<or> c = CHR ''%'' \<or> c = CHR ''/''"
  by (auto simp: href_def Let_def dest!: join_characters dest: encoded_characters split: if_splits)

text \<open>(C34) The address a request is made for leads back to its path: what the server repeats of an address that the client asked for is read as the path it was asked for, with its dots resolved, for a file and for a collection, under any root path; the names are any bytes that are text, slashes of the encoding, question marks and percent signs included.\<close>

theorem href_read_back:
  assumes "\<forall>segment \<in> set (lc_root l @ path_segments p). segment \<noteq> [] \<and> lossy segment = segment"
  shows "path_of_href lossy l (href l p collection) = Some (dav_normalize p)"
proof -
  have absent: "c \<notin> set (href l p collection)" if "\<not> is_unreserved c" "c \<noteq> CHR ''%''" "c \<noteq> CHR ''/''" for c
    using href_characters that by blast
  have "CHR '':'' \<notin> set (href l p collection)" by (rule absent) (simp_all add: is_unreserved_def)
  then have "absolute_part (href l p collection) = href l p collection"
    by (simp add: absolute_part_def after_scheme_none)
  moreover have "CHR ''?'' \<notin> set (href l p collection)" "CHR 0x23 \<notin> set (href l p collection)"
    by (rule absent; simp add: is_unreserved_def)+
  then have "takeWhile (\<lambda>c. c \<noteq> CHR ''?'' \<and> c \<noteq> CHR 0x23) (href l p collection) = href l p collection"
    by (auto simp: takeWhile_eq_all_conv)
  ultimately show ?thesis
    unfolding path_of_href_def Let_def by (simp only:) (simp add: decoded_href [OF assms] dav_normalize_def)
qed

lemma href_read_back_witness:
  "path_of_href id \<lparr>lc_origin = ''https://h:443'', lc_root = [''a b'']\<rparr>
     (href \<lparr>lc_origin = ''https://h:443'', lc_root = [''a b'']\<rparr> [RootDir, Normal ''x'', ParentDir, Normal ''50%?''] True) =
   Some [RootDir, Normal ''50%?'']"
  using href_read_back [of "\<lparr>lc_origin = ''https://h:443'', lc_root = [''a b'']\<rparr>"
      "[RootDir, Normal ''x'', ParentDir, Normal ''50%?'']" id True]
  by (simp add: path_segments_def dav_normalize_def path_of_segments_def join_name_def path_of_string_def
      path_join_def is_absolute_def starts_with_def dot_def dot_dot_def file_sep_def)

section \<open>Names\<close>

lemma path_of_string_names: "Normal n \<in> set (path_of_string s) \<Longrightarrow> wf_name n"
  by (auto simp: path_of_string_def Let_def wf_name_def split: if_splits dest: split_on_pieces)

lemma path_of_segments_names: "Normal n \<in> set (path_of_segments segments) \<Longrightarrow> wf_name n"
proof (induction segments rule: rev_induct)
  case (snoc s segments)
  let ?base = "path_of_segments segments"
  have "set (path_join ?base q) \<subseteq> set ?base \<union> set q" for q
    by (auto simp: path_join_def split: list.splits component.splits)
  moreover have "path_of_segments (segments @ [s]) = path_join ?base (path_of_string s)"
    by (simp add: path_of_segments_def join_name_def)
  ultimately show ?case using snoc path_of_string_names by auto
qed (simp add: path_of_segments_def)

text \<open>Every name a WebDAV folder lists is the name of something in a folder: it is not empty, is neither dot nor dot-dot and has no separator, whatever addresses the server answers with, so what is copied out of the folder is written below the folder it is copied to; and the folder is not listed in itself.\<close>

lemma listed_names_are_plain:
  assumes "dav_read_dir x dir s = (Inr items, s')"
  shows "\<forall>i \<in> set items. wf_name (d_name i) \<and> d_path i \<noteq> dav_normalize dir"
proof
  fix i assume i: "i \<in> set items"
  obtain resources where "items = List.map_filter dav_item (filter (\<lambda>(p, _). p \<noteq> dav_normalize dir) (located x resources))"
    using assms by (auto simp: dav_read_dir_def eff_bind_def eff_fail_def eff_return_def Let_def split: prod.splits sum.splits if_splits)
  with i obtain p r where "(p, r) \<in> set (located x resources)" "p \<noteq> dav_normalize dir" "dav_item (p, r) = Some i"
    by (auto simp: in_map_filter)
  moreover from this(1) obtain segments where "p = path_of_segments segments"
    by (auto simp: located_def in_map_filter path_of_href_def Let_def)
  moreover from \<open>dav_item (p, r) = Some i\<close> have "file_name p = Some (d_name i)" "d_path i = p"
    by (auto simp: dav_item_def)
  then have "Normal (d_name i) \<in> set p"
    using file_name_SomeD by (metis in_set_conv_decomp)
  ultimately show "wf_name (d_name i) \<and> d_path i \<noteq> dav_normalize dir"
    using path_of_segments_names [of "d_name i" segments] \<open>d_path i = p\<close> by simp
qed

section \<open>Schemes\<close>

fun scheme_challenge :: "auth_scheme \<Rightarrow> auth_challenge" where
  "scheme_challenge BasicScheme = BasicChallenge"
| "scheme_challenge (DigestScheme d) = DigestChallenge d"

lemma strongest_from_greatest:
  "strongest_from best cs \<in> set (best # cs) \<and> (\<forall>c \<in> set (best # cs). challenge_rank c \<le> challenge_rank (strongest_from best cs))"
proof (induction best cs rule: strongest_from.induct)
  case (2 best c cs)
  then show ?case by (cases "challenge_rank best \<le> challenge_rank c") auto
qed simp

text \<open>The scheme used is one the server offered, and none it offered is stronger: a server that offers a digest is never answered with the password itself, and one that offers nothing known is not answered.\<close>

lemma strongest_is_strongest:
  "case strongest cs of
     Inr scheme \<Rightarrow> scheme_challenge scheme \<in> set cs \<and>
       (\<forall>c \<in> set cs. challenge_rank c \<le> challenge_rank (scheme_challenge scheme))
   | Inl names \<Rightarrow> map UnsupportedChallenge names = cs"
proof (cases "filter (\<lambda>c. 0 < challenge_rank c) cs")
  case Nil
  then have "\<forall>c \<in> set cs. \<exists>name. c = UnsupportedChallenge name"
    by (metis (no_types, lifting) challenge_rank.cases challenge_rank.simps(1,2) filter_empty_conv zero_less_numeral zero_less_one)
  then have "map UnsupportedChallenge (List.map_filter unsupported_name cs) = cs"
    by (induction cs) (auto simp: List.map_filter_simps)
  then show ?thesis using Nil by (simp add: strongest_def)
next
  case (Cons c rest)
  define best where "best = strongest_from c rest"
  have best: "best \<in> set (filter (\<lambda>c. 0 < challenge_rank c) cs)"
    "\<forall>d \<in> set (filter (\<lambda>c. 0 < challenge_rank c) cs). challenge_rank d \<le> challenge_rank best"
    unfolding Cons best_def using strongest_from_greatest [of c rest] by blast+
  then have "best \<in> set cs" "0 < challenge_rank best" by auto
  moreover have "challenge_rank d \<le> challenge_rank best" if "d \<in> set cs" for d
    using best that by (cases "0 < challenge_rank d") auto
  moreover have "strongest cs =
      (case best of
         BasicChallenge \<Rightarrow> Inr BasicScheme
       | DigestChallenge d \<Rightarrow> Inr (DigestScheme d)
       | UnsupportedChallenge _ \<Rightarrow> Inl (List.map_filter unsupported_name cs))"
    by (simp add: strongest_def Cons best_def)
  ultimately show ?thesis by - (cases best, simp_all)
qed

section \<open>Uploads in chunks\<close>

text \<open>The chunks a writer has sent and is sending.\<close>

definition chunk_log :: "('w \<Rightarrow> (nat \<times> 8 word list) list) \<Rightarrow> patch_upload \<Rightarrow> 'w \<Rightarrow> (nat \<times> 8 word list) list" where
  "chunk_log sent m w = sent w @ (case pc_pending m of None \<Rightarrow> [] | Some chunk \<Rightarrow> [chunk])"

text \<open>Chunks that are not empty and each begin where the one before ends.\<close>

fun adjacent :: "nat \<Rightarrow> (nat \<times> 8 word list) list \<Rightarrow> bool" where
  "adjacent n [] \<longleftrightarrow> True"
| "adjacent n ((start, data) # rest) \<longleftrightarrow> start = n \<and> data \<noteq> [] \<and> adjacent (n + length data) rest"

lemma adjacent_append:
  "adjacent n (xs @ ys) \<longleftrightarrow> adjacent n xs \<and> adjacent (n + length (concat (map snd xs))) ys"
  by (induction n xs rule: adjacent.induct) (auto simp: add.assoc)

definition chunking :: "nat \<Rightarrow> ('w \<Rightarrow> (nat \<times> 8 word list) list) \<Rightarrow> 8 word list \<Rightarrow> patch_upload \<Rightarrow> 'w \<Rightarrow> bool" where
  "chunking start sent accepted m w \<longleftrightarrow>
     adjacent start (chunk_log sent m w) \<and> concat (map snd (chunk_log sent m w)) @ pc_buffer m = accepted \<and>
     pc_next m = start + length (concat (map snd (chunk_log sent m w))) \<and> length (pc_buffer m) < pc_chunk m"

lemma poll_chunk_done:
  assumes "sends sent send" "poll_chunk send m w = (Inr (), m', w')"
  shows "m' = m\<lparr>pc_pending := None\<rparr> \<and> sent w' = chunk_log sent m w"
  using assms by (auto simp: poll_chunk_def sends_def chunk_log_def split: option.splits prod.splits)

lemma start_chunk_chunking:
  assumes "chunk_log sent m w = log" "pc_pending m = None" "adjacent start log" "pc_buffer m \<noteq> []"
    and "pc_next m = start + length (concat (map snd log))"
  shows "chunk_log sent (start_chunk m) w = log @ [(pc_next m, pc_buffer m)] \<and>
         adjacent start (log @ [(pc_next m, pc_buffer m)]) \<and> pc_buffer (start_chunk m) = [] \<and>
         pc_next (start_chunk m) = start + length (concat (map snd (log @ [(pc_next m, pc_buffer m)]))) \<and>
         pc_chunk (start_chunk m) = pc_chunk m"
  using assms by (auto simp: start_chunk_def chunk_log_def adjacent_append)

lemma patch_write_chunking:
  assumes "sends sent send" "chunking start sent accepted m w" "patch_write send buf m w = (Inr n, m', w')"
  shows "n \<le> length buf \<and> chunking start sent (accepted @ take n buf) m' w'"
proof -
  obtain p m1 w1 where p: "poll_chunk send m w = (p, m1, w1)" by (metis prod_cases3)
  with assms(3) have "p = Inr ()" by (cases p) (auto simp: patch_write_def)
  note p = p [unfolded this]
  note fin = poll_chunk_done [OF assms(1) p]
  define k where "k = min (length buf) (pc_chunk m1 - length (pc_buffer m1))"
  define m2 where "m2 = m1\<lparr>pc_buffer := pc_buffer m1 @ take k buf\<rparr>"
  have r: "n = k" "w' = w1" "m' = (if length (pc_buffer m2) = pc_chunk m1 then start_chunk m2 else m2)"
    using assms(3) by (auto simp: patch_write_def p k_def m2_def Let_def)
  have log: "chunk_log sent m2 w1 = chunk_log sent m w" "pc_pending m2 = None" "pc_next m2 = pc_next m"
    "pc_chunk m1 = pc_chunk m" "pc_chunk m2 = pc_chunk m" "pc_buffer m2 = pc_buffer m @ take k buf"
    using fin by (simp_all add: m2_def chunk_log_def)
  have ok: "adjacent start (chunk_log sent m w)" "concat (map snd (chunk_log sent m w)) @ pc_buffer m = accepted"
    "pc_next m = start + length (concat (map snd (chunk_log sent m w)))" "length (pc_buffer m) < pc_chunk m"
    using assms(2) by (simp_all add: chunking_def)
  have len: "length (pc_buffer m2) \<le> pc_chunk m" using ok(4) fin by (auto simp: log(6) k_def)
  show ?thesis
  proof (cases "length (pc_buffer m2) = pc_chunk m")
    case True
    then have "pc_buffer m2 \<noteq> []" using ok(4) by auto
    from start_chunk_chunking [OF log(1,2) ok(1) this] ok log True r show ?thesis
      by (auto simp: chunking_def k_def)
  next
    case False
    then show ?thesis using ok log len r by (auto simp: chunking_def k_def)
  qed
qed

lemma patch_write_all_chunking:
  assumes "sends sent send" "chunking start sent accepted m w" "patch_write_all send buf m w = (Inr (), m', w')"
  shows "chunking start sent (accepted @ buf) m' w'"
  using assms
proof (induction send buf m w arbitrary: accepted rule: patch_write_all.induct)
  case (1 send buf m w)
  show ?case
  proof (cases "buf = []")
    case False
    obtain r m1 w1 where p: "patch_write send buf m w = (r, m1, w1)" by (metis prod_cases3)
    then obtain n where r: "r = Inr n" "n \<noteq> 0" "patch_write_all send (drop n buf) m1 w1 = (Inr (), m', w')"
      using 1(4) False by (cases r) (auto simp: patch_write_all.simps [of send buf] split: if_splits)
    note p = p [unfolded r(1)]
    have "chunking start sent (accepted @ take n buf) m1 w1"
      using patch_write_chunking [OF 1(2,3) p] by simp
    from 1(1) [OF False p [symmetric] refl refl r(2) 1(2) this r(3)] show ?thesis by simp
  qed (use 1(3,4) in \<open>simp add: patch_write_all.simps\<close>)
qed

text \<open>The writes of a caller, one after the other, until one fails.\<close>

fun patch_each ::
  "'w send_part \<Rightarrow> 8 word list list \<Rightarrow> patch_upload \<Rightarrow> 'w \<Rightarrow> (io_error + unit) \<times> patch_upload \<times> 'w" where
  "patch_each send [] m w = (Inr (), m, w)"
| "patch_each send (buf # bufs) m w =
     (case patch_write_all send buf m w of
        (Inl e, m, w) \<Rightarrow> (Inl e, m, w)
      | (Inr _, m, w) \<Rightarrow> patch_each send bufs m w)"

lemma patch_each_chunking:
  assumes "sends sent send" "chunking start sent accepted m w" "patch_each send bufs m w = (Inr (), m', w')"
  shows "chunking start sent (accepted @ concat bufs) m' w'"
  using assms
proof (induction send bufs m w arbitrary: accepted rule: patch_each.induct)
  case (2 send buf bufs m w)
  obtain r m1 w1 where p: "patch_write_all send buf m w = (r, m1, w1)" by (metis prod_cases3)
  with 2(4) have r: "r = Inr ()" "patch_each send bufs m1 w1 = (Inr (), m', w')" by (cases r; simp)+
  note p = p [unfolded r(1)]
  from 2(1) [OF p [symmetric] refl refl 2(2) patch_write_all_chunking [OF 2(2,3) p] r(2)] show ?case by simp
qed simp

text \<open>(C35) Chunks that update ranges of a file leave no gap and lose nothing: when every write and the shutdown succeeded, the first chunk begins at the offset the upload resumes at, each of the others where the one before ends, none is empty, and their bytes in order are the bytes written.\<close>

theorem chunks_are_the_file:
  assumes "sends sent send" and "sent w = []" and "0 < chunk"
    and "patch_each send bufs (patch_new start chunk) w = (Inr (), m, w1)"
    and "patch_shutdown send m w1 = (Inr (), m', w2)"
  shows "concat (map snd (sent w2)) = concat bufs \<and> adjacent start (sent w2)"
proof -
  have "chunking start sent [] (patch_new start chunk) w"
    using assms(2,3) by (simp add: chunking_def patch_new_def chunk_log_def)
  from patch_each_chunking [OF assms(1) this assms(4)]
  have ok: "adjacent start (chunk_log sent m w1)" "concat (map snd (chunk_log sent m w1)) @ pc_buffer m = concat bufs"
    "pc_next m = start + length (concat (map snd (chunk_log sent m w1)))"
    by (simp_all add: chunking_def)
  obtain p m1 w3 where p: "poll_chunk send m w1 = (p, m1, w3)" by (metis prod_cases3)
  with assms(5) have "p = Inr ()" by (cases p) (auto simp: patch_shutdown_def)
  note p = p [unfolded this]
  note fin = poll_chunk_done [OF assms(1) p]
  show ?thesis
  proof (cases "pc_buffer m1 = []")
    case True
    then show ?thesis using assms(5) p ok fin by (auto simp: patch_shutdown_def)
  next
    case False
    then have last: "poll_chunk send (start_chunk m1) w3 = (Inr (), m', w2)"
      using assms(5) by (simp add: patch_shutdown_def p)
    have "chunk_log sent m1 w3 = chunk_log sent m w1" using fin by (simp add: chunk_log_def)
    from start_chunk_chunking [OF this _ ok(1) False] ok fin poll_chunk_done [OF assms(1) last]
    show ?thesis by (auto simp: adjacent_append)
  qed
qed

lemma chunks_are_the_file_witness:
  "adjacent 7 [(7 :: nat, [1, 2 :: 8 word]), (9, [3])] \<and> concat (map snd [(7 :: nat, [1, 2 :: 8 word]), (9, [3])]) = [1, 2, 3]"
proof -
  let ?send = "\<lambda>n part w. (Inr () :: io_error + unit, w @ [(n, part)])"
  have first: "patch_write_all ?send [1, 2, 3] (patch_new 7 2) [] =
      (Inr (), \<lparr>pc_next = 9, pc_chunk = 2, pc_buffer = [3], pc_pending = None\<rparr>, [(7, [1, 2])])"
    by (simp add: patch_write_all.simps [of ?send "[1, 2, 3]"] patch_write_all.simps [of ?send "[3]"]
        patch_write_all.simps [of ?send "[]"] patch_write_def poll_chunk_def patch_new_def start_chunk_def)
  have last: "patch_shutdown ?send \<lparr>pc_next = 9, pc_chunk = 2, pc_buffer = [3], pc_pending = None\<rparr> [(7, [1, 2])] =
      (Inr (), \<lparr>pc_next = 10, pc_chunk = 2, pc_buffer = [], pc_pending = None\<rparr>, [(7, [1, 2]), (9, [3])])"
    by (simp add: patch_shutdown_def poll_chunk_def start_chunk_def)
  show ?thesis
    using chunks_are_the_file [of id ?send "[]" 2 "[[1, 2, 3]]" 7, OF _ _ _ _ last] first by (auto simp: sends_def)
qed

section \<open>Uploads as one request\<close>

text \<open>A pipe takes no more than it is offered.\<close>

definition honest_pipe :: "'u dav_env \<Rightarrow> bool" where
  "honest_pipe x \<longleftrightarrow> (\<forall>h buf u n u'. de_put_pipe x h buf u = (PipeTook n, u') \<longrightarrow> n \<le> length buf)"

lemma put_write_took:
  assumes "honest_pipe x" "put_write x p buf w s = (Inr n, w', s')"
  shows "n \<le> length buf \<and> w' = w\<lparr>pu_written := pu_written w + n\<rparr>"
proof -
  have "put_pipe x p buf w t = (Inr n, w', s') \<Longrightarrow> ?thesis" for t
    using assms(1) unfolding honest_pipe_def
    by (simp add: put_pipe_def put_failed_def split: if_splits prod.splits pipe_step.splits) blast
  then show ?thesis
    using assms(2) by (auto simp: put_write_def put_failed_def split: if_splits prod.splits bool.splits)
qed

lemma put_write_all_took:
  assumes "honest_pipe x" "put_write_all x p buf w s = (Inr (), w', s')"
  shows "w' = w\<lparr>pu_written := pu_written w + length buf\<rparr>"
  using assms
proof (induction x p buf w s rule: put_write_all.induct)
  case (1 x p buf w s)
  show ?case
  proof (cases "buf = []")
    case False
    obtain r w1 s1 where p: "put_write x p buf w s = (r, w1, s1)" by (metis prod_cases3)
    then obtain n where r: "r = Inr n" "n \<noteq> 0" "put_write_all x p (drop n buf) w1 s1 = (Inr (), w', s')"
      using 1(3) False by (cases r) (auto simp: put_write_all.simps [of x p buf] split: if_splits)
    note p = p [unfolded r(1)]
    from 1(1) [OF False p [symmetric] refl refl r(2) 1(2) r(3)] put_write_took [OF 1(2) p]
    show ?thesis by simp
  qed (use 1(3) in \<open>simp add: put_write_all.simps\<close>)
qed

fun put_each ::
  "'u dav_env \<Rightarrow> path \<Rightarrow> 8 word list list \<Rightarrow> put_upload \<Rightarrow> 'u dav \<Rightarrow> (io_error + unit) \<times> put_upload \<times> 'u dav" where
  "put_each x p [] w s = (Inr (), w, s)"
| "put_each x p (buf # bufs) w s =
     (case put_write_all x p buf w s of
        (Inl e, w, s) \<Rightarrow> (Inl e, w, s)
      | (Inr _, w, s) \<Rightarrow> put_each x p bufs w s)"

lemma put_each_took:
  assumes "honest_pipe x" "put_each x p bufs w s = (Inr (), w', s')"
  shows "w' = w\<lparr>pu_written := pu_written w + length (concat bufs)\<rparr>"
  using assms
proof (induction x p bufs w s rule: put_each.induct)
  case (2 x p buf bufs w s)
  obtain r w1 s1 where p: "put_write_all x p buf w s = (r, w1, s1)" by (metis prod_cases3)
  with 2(3) have r: "r = Inr ()" "put_each x p bufs w1 s1 = (Inr (), w', s')" by (cases r; simp)+
  note p = p [unfolded r(1)]
  from 2(1) [OF p [symmetric] refl refl 2(2) r(2)] put_write_all_took [OF 2(2) p] show ?case by simp
qed simp

lemma finish_put_accepted:
  assumes "finish_put x p result s = (Inr (), s')"
  shows "\<exists>response. result = Inr response \<and> is_success (rs_status response)"
  using assms by (cases result) (auto simp: finish_put_def expect_success_def split: if_splits)


text \<open>A server that takes everything and answers every request with the properties of a file of three bytes.\<close>

definition sample_dav_env :: "unit dav_env" where
  "sample_dav_env =
     \<lparr>de_locator = \<lparr>lc_origin = ''http://h:80'', lc_root = []\<rparr>, de_timeout = 30, de_partial_update = False,
      de_auth = \<lparr>al_base64 = id, al_digest = (\<lambda>_. None), al_respond = (\<lambda>d _ _ _ u. ((None, d), u))\<rparr>, de_lossy = id,
      de_status_shown = show_nat, de_http_date = (\<lambda>_. None),
      de_events = (\<lambda>_. [(True, XStart ''multistatus''), (True, XStart ''response''), (True, XStart ''propstat''),
        (True, XStart ''prop''), (True, XStart ''getcontentlength''), (True, XText ''3''), (True, XEnd), (True, XEnd),
        (True, XStart ''status''), (True, XText ''HTTP/1.1 200 OK''), (True, XEnd), (True, XEnd), (True, XEnd), (True, XEnd)]),
      de_request = (\<lambda>_ u. (Inr \<lparr>rs_status = 207, rs_headers = [], rs_body = Held []\<rparr>, u)),
      de_body = (\<lambda>_ u. (Inr [], u)), de_read = (\<lambda>_ _ u. (Inr [], u)),
      de_put_open = (\<lambda>_ u. (0, u)), de_put_pipe = (\<lambda>_ buf u. (PipeTook (length buf), u)), de_put_over = (\<lambda>_ u. (False, u)),
      de_put_wait = (\<lambda>_ u. (Inr \<lparr>rs_status = 201, rs_headers = [], rs_body = Held []\<rparr>, u)),
      de_put_reply = (\<lambda>_ _ u. (Some (Inr \<lparr>rs_status = 201, rs_headers = [], rs_body = Held []\<rparr>), u)),
      de_put_abort = (\<lambda>_ u. u)\<rparr>"

lemma sample_status_code: "status_code ''HTTP/1.1 200 OK'' = Some 200"
  by (simp add: status_code_def split_whitespace_def is_whitespace_def parse_uint_def digits_value_def digit_value_def is_digit_def strip_prefix_def Let_def)

lemma sample_dav_stat:
  "stat_resource sample_dav_env [RootDir, Normal ''f''] (dav_client_new ()) =
   (Inr (resource_default\<lparr>rc_size := Some 3\<rparr>), dav_client_new ())"
proof -
  have "parse_multistatus (de_http_date sample_dav_env) (de_events sample_dav_env t) = Inr [resource_default\<lparr>rc_size := Some 3\<rparr>]" for t
    by (simp add: sample_dav_env_def parse_multistatus_def reader_start_def element_start_def element_end_def innermost_def Let_def
        sample_status_code apply_found_def found_default_def resource_default_def parse_uint_def digits_value_def digit_value_def is_digit_def strip_prefix_def
        trim_def trim_start_def trim_end_def is_whitespace_def)
  then show ?thesis
    by (simp add: stat_resource_def eff_bind_def dav_other_def dav_propfind_def dav_send_def dav_attempt_def dav_prepare_def
        auth_header_def dav_answer_def multistatus_def whole_body_def eff_return_def eff_sum_def is_redirection_def
        dav_client_new_def authenticator_new_def sample_dav_env_def Let_def)
qed


section \<open>Copies\<close>

text \<open>The listing of WebDAV is a source with plain names.\<close>

interpretation dav: plain_source "dav_file_system x" for x :: "'u dav_env"
  by unfold_locales (auto simp: dav_file_system_def plain_items_def list_all_iff dest: listed_names_are_plain)

lemma dav_list_plain:
  assumes "dav_list x folder s = (Inr listed, s')"
  shows "list_all (\<lambda>e. wf_name (e_name e)) listed"
proof -
  obtain items where "dav_read_dir x folder s = (Inr items, s')" "listed = map dav_entry items"
    using assms by (auto simp: dav_list_def eff_bind_def eff_return_def split: prod.splits sum.splits)
  then show ?thesis using listed_names_are_plain by (fastforce simp: list_all_iff dav_entry_def)
qed

text \<open>(C37) A copy out of a WebDAV folder writes below the folder it goes to and nowhere else: whatever the server answers to the listings on the way, the destination of every planned file is that folder followed by one or more plain names, none of them a dot, a dot-dot or a path.\<close>

theorem webdav_copies_stay_below:
  assumes "dav_list x folder s = (Inr listed, s')" and "set entries \<subseteq> set listed"
    and "plan_copy depth (dav_file_system x) destination entries dir cancel w = Some (Inr (PlanReady plan), w')"
  shows "list_all (\<lambda>f. \<exists>names. names \<noteq> [] \<and> list_all wf_name names \<and> pf_destination f = dir @ map Normal names) (dp_files plan)"
proof -
  have "list_all (\<lambda>e. wf_name (e_name e)) entries"
    using dav_list_plain [OF assms(1)] assms(2) by (auto simp: list_all_iff)
  from dav.plan_copy_below [OF assms(3) this] show ?thesis by (simp add: below_folder_def)
qed

text \<open>A server that lists one file in every folder.\<close>

definition listing_dav_env :: "unit dav_env" where
  "listing_dav_env = sample_dav_env\<lparr>de_events :=
     (\<lambda>_. [(True, XStart ''multistatus''), (True, XStart ''response''), (True, XStart ''href''), (True, XText ''/a''), (True, XEnd),
           (True, XEnd), (True, XEnd)])\<rparr>"

lemma listing_dav_list:
  "dav_list listing_dav_env [RootDir] (dav_client_new ()) =
   (Inr [\<lparr>e_name = ''a'', e_path = [RootDir, Normal ''a''], e_is_dir = False, e_size = 0, e_permissions = None\<rparr>], dav_client_new ())"
proof -
  let ?x = listing_dav_env
  have "parse_multistatus (de_http_date ?x) (de_events ?x t) = Inr [resource_default\<lparr>rc_href := ''/a''\<rparr>]" for t
    by (simp add: listing_dav_env_def sample_dav_env_def parse_multistatus_def reader_start_def element_start_def element_end_def
        innermost_def Let_def resource_default_def trim_def trim_start_def trim_end_def is_whitespace_def)
  moreover have "path_of_href id \<lparr>lc_origin = ''http://h:80'', lc_root = []\<rparr> ''/a'' = Some [RootDir, Normal ''a'']"
    by (simp add: path_of_href_def absolute_part_def starts_with_def decoded_segments_def path_of_segments_def
        join_name_def path_of_string_def path_join_def is_absolute_def dot_def dot_dot_def file_sep_def Let_def)
  ultimately show ?thesis
    by (simp add: dav_list_def dav_read_dir_def eff_bind_def dav_other_def dav_propfind_def dav_send_def dav_attempt_def dav_prepare_def
        auth_header_def dav_answer_def multistatus_def whole_body_def eff_return_def eff_sum_def located_def dav_item_def dav_entry_def
        dav_client_new_def authenticator_new_def listing_dav_env_def sample_dav_env_def Let_def List.map_filter_simps dav_normalize_def
        path_segments_def path_of_segments_def file_name_def resource_default_def resource_metadata_def metadata_is_dir_def)
qed

definition empty_destination :: "unit dav file_system" where
  "empty_destination = (dav_file_system sample_dav_env)\<lparr>fs_read_dir := (\<lambda>_ s. (Inr [], s))\<rparr>"

lemma webdav_copies_stay_below_witness:
  "\<exists>plan. plan_copy 1 (dav_file_system listing_dav_env) empty_destination
       [\<lparr>e_name = ''a'', e_path = [RootDir, Normal ''a''], e_is_dir = False, e_size = 0, e_permissions = None\<rparr>]
       [RootDir, Normal ''d''] (\<lambda>s. (False, s)) (dav_client_new ()) = Some (Inr (PlanReady plan), dav_client_new ()) \<and>
     list_all (\<lambda>f. \<exists>names. names \<noteq> [] \<and> list_all wf_name names \<and> pf_destination f = [RootDir, Normal ''d''] @ map Normal names)
       (dp_files plan) \<and> dp_files plan \<noteq> []"
proof -
  let ?e = "\<lparr>e_name = ''a'', e_path = [RootDir, Normal ''a''], e_is_dir = False, e_size = 0, e_permissions = None\<rparr>"
  have a: "join_name [RootDir, Normal ''d''] ''a'' = [RootDir, Normal ''d'', Normal ''a'']"
    by (simp add: join_wf_name wf_name_def dot_def dot_dot_def file_sep_def)
  obtain plan where run: "plan_copy 1 (dav_file_system listing_dav_env) empty_destination [?e] [RootDir, Normal ''d'']
      (\<lambda>s. (False, s)) (dav_client_new ()) = Some (Inr (PlanReady plan), dav_client_new ())" and files: "dp_files plan \<noteq> []"
    by (simp add: plan_copy_def bnd_bind_def bounded_of_def eff_flag_def eff_return_def eff_bind_def planned_file_for_loose_entry_def a
        parents_needing_listing_def names_by_parent_def destination_parent_and_name_def path_parent_def file_name_def
        List.map_filter_simps empty_destination_def list_destination_def eff_ok_def mark_conflicts_def mark_conflict_def is_conflict_def)
  then show ?thesis
    using webdav_copies_stay_below [OF listing_dav_list _ run] by auto
qed

end
