(* ===== verification/Ftp_Listing.thy ===== *)
theory Ftp_Listing
  imports Scp_Wire
begin

text \<open>
  \<^verbatim>\<open>protocols/ftp\<close>: the settings of a connection, the errors of replies, and the three forms of a
  listing (\<^verbatim>\<open>MLSD\<close> facts, the lines of a Unix \<^verbatim>\<open>ls\<close>, the lines of a Windows server).

  A signed number is an integer: the source does not check the arithmetic of dates either, so
  what follows is what it does when nothing overflows 64 bits.
\<close>

section \<open>Settings\<close>

datatype ftp_security = Plain | Explicit | Implicit

record ftp_settings =
  ft_host :: string
  ft_port :: nat
  ft_username :: string
  ft_password :: "string option"
  ft_security :: ftp_security
  ft_passive :: bool

definition ANONYMOUS :: string where
  "ANONYMOUS = ''anonymous''"

definition ANONYMOUS_PASSWORD :: string where
  "ANONYMOUS_PASSWORD = ''anonymous@''"

definition ftp_settings_of :: "target \<Rightarrow> ftp_settings" where
  "ftp_settings_of t =
     (let anonymous = (trim (tg_username t) = [])
      in \<lparr>ft_host = tg_host t, ft_port = tg_port t,
          ft_username = (if anonymous then ANONYMOUS else tg_username t),
          ft_password =
            (case tg_password t of
               Some password \<Rightarrow> Some password
             | None \<Rightarrow> if anonymous then Some ANONYMOUS_PASSWORD else None),
          ft_security =
            (if target_option t ''security'' = Some ''plain'' then Plain
             else if target_option t ''security'' = Some ''implicit'' then Implicit
             else Explicit),
          ft_passive = (target_option t ''passive'' \<noteq> Some ''false'')\<rparr>)"

definition is_anonymous :: "ftp_settings \<Rightarrow> bool" where
  "is_anonymous st = (ft_username st = ANONYMOUS)"

section \<open>Replies (errors)\<close>

definition SESSION_REUSE :: string where
  "SESSION_REUSE = ''the server requires TLS session reuse on data connections''"

definition is_missing :: "string \<Rightarrow> bool" where
  "is_missing text = list_ex (str_contains text) [''no such'', ''not found'', ''doesn't exist'', ''does not exist'']"

definition reply_error :: "nat \<Rightarrow> string \<Rightarrow> protocol_error" where
  "reply_error code text =
     (let text = trim text;
          lower = to_lowercase text;
          kind = (if code = 550 \<and> is_missing lower then NotFound
                  else if code = 553 then PermissionDenied
                  else if code = 550 \<and> (str_contains lower ''permission'' \<or> str_contains lower ''denied'') then PermissionDenied
                  else Other)
      in if code = 522 \<and> str_contains lower ''reuse''
         then protocol_error_new kind (show_nat code @ '' '' @ text @ '' ('' @ SESSION_REUSE @ '')'')
         else protocol_error_new kind (show_nat code @ '' '' @ text))"

text \<open>What the FTP library fails with; \<open>text_of_failure\<close> is what it prints for a failure.\<close>

datatype ftp_failure =
    UnexpectedReply nat string
  | ConnectionFailed string
  | SecureFailed string
  | BadResponse
  | OtherFtp string

definition ftp_error :: "(ftp_failure \<Rightarrow> string) \<Rightarrow> ftp_failure \<Rightarrow> protocol_error" where
  "ftp_error text_of_failure e =
     (case e of
        UnexpectedReply code body \<Rightarrow> reply_error code body
      | other \<Rightarrow> protocol_error_new Other (text_of_failure other))"

section \<open>Dates\<close>

definition FTP_MONTHS :: "string list" where
  "FTP_MONTHS =
     [''jan'', ''feb'', ''mar'', ''apr'', ''may'', ''jun'', ''jul'', ''aug'', ''sep'', ''oct'', ''nov'', ''dec'']"

definition ftp_days_from_civil :: "int \<Rightarrow> int \<Rightarrow> int \<Rightarrow> int" where
  "ftp_days_from_civil year month day =
     (let year = (if month \<le> 2 then year - 1 else year);
          era = year div 400;
          year_of_era = year - era * 400;
          month_index = (month + 9) mod 12;
          day_of_year = (153 * month_index + 2) div 5 + day - 1;
          day_of_era = year_of_era * 365 + year_of_era div 4 - year_of_era div 100 + day_of_year
      in era * 146097 + day_of_era - 719468)"

definition unix_seconds :: "int \<Rightarrow> int \<Rightarrow> int \<Rightarrow> int \<Rightarrow> int \<Rightarrow> int \<Rightarrow> nat option" where
  "unix_seconds year month day hour minute second =
     (if 1 \<le> month \<and> month \<le> 12 \<and> 1 \<le> day \<and> day \<le> 31 \<and> 0 \<le> hour \<and> hour < 24 \<and> 0 \<le> minute \<and> minute < 60 \<and>
         0 \<le> second \<and> second \<le> 60
      then let seconds = ftp_days_from_civil year month day * 86400 + hour * 3600 + minute * 60 + second
           in if 0 \<le> seconds then Some (nat seconds) else None
      else None)"

definition civil_year_from_days :: "int \<Rightarrow> int" where
  "civil_year_from_days days =
     (let shifted = days + 719468;
          era = shifted div 146097;
          day_of_era = shifted - era * 146097;
          year_of_era = (day_of_era - day_of_era div 1460 + day_of_era div 36524 - day_of_era div 146096) div 365;
          day_of_year = day_of_era - (365 * year_of_era + year_of_era div 4 - year_of_era div 100);
          month_index = (5 * day_of_year + 2) div 153
      in year_of_era + era * 400 + (if 10 \<le> month_index then 1 else 0))"

definition ftp_year_of :: "nat \<Rightarrow> int" where
  "ftp_year_of seconds = civil_year_from_days (as_i64 (seconds div 86400))"

definition FTP_DAY :: nat where
  "FTP_DAY = 86400"

definition date_digits :: "string \<Rightarrow> nat \<Rightarrow> nat \<Rightarrow> int option" where
  "date_digits text from_index to_index =
     (if to_index \<le> length text then parse_i64 (take (to_index - from_index) (drop from_index text)) else None)"

definition parse_modify :: "string \<Rightarrow> nat option" where
  "parse_modify v =
     (let stamp = hd (split_on (CHR ''.'') v)
      in if length stamp \<noteq> 14 then None
         else (case (date_digits stamp 0 4, date_digits stamp 4 6, date_digits stamp 6 8, date_digits stamp 8 10,
                     date_digits stamp 10 12, date_digits stamp 12 14) of
                 (Some year, Some month, Some day, Some hour, Some minute, Some second) \<Rightarrow>
                   unix_seconds year month day hour minute second
               | _ \<Rightarrow> None))"

section \<open>Facts (MLSD, MLST)\<close>

record listed_item =
  li_name :: string
  li_metadata :: metadata
  li_link_target :: "string option"

definition fact_kind :: "string \<Rightarrow> file_kind" where
  "fact_kind v =
     (if v \<in> {''cdir'', ''pdir'', ''dir''} then Dir
      else if v = ''file'' then File
      else if str_contains v ''symlink'' \<or> str_contains v ''slink'' then Symlink
      else File)"

definition fact_size :: "string \<Rightarrow> nat" where
  "fact_size v = (case parse_uint 64 v of Some n \<Rightarrow> n | None \<Rightarrow> 0)"

definition add_fact :: "bool \<Rightarrow> string \<Rightarrow> string \<Rightarrow> metadata \<Rightarrow> metadata option" where
  "add_fact skip_directory_markers key v m =
     (if key = ''type''
      then let v = to_lowercase v
           in if v \<in> {''cdir'', ''pdir''} \<and> skip_directory_markers then None else Some (m\<lparr>m_kind := fact_kind v\<rparr>)
      else if key = ''size'' \<or> key = ''sizd'' then Some (m\<lparr>m_size := fact_size v\<rparr>)
      else if key = ''modify'' then Some (m\<lparr>m_modified := parse_modify v\<rparr>)
      else if key = ''unix.mode''
      then Some (m\<lparr>m_permissions := parse_octal (dropWhile (\<lambda>c. c = CHR ''0'') v)\<rparr>)
      else Some m)"

fun add_facts :: "bool \<Rightarrow> string list \<Rightarrow> metadata \<Rightarrow> metadata option" where
  "add_facts skip [] m = Some m"
| "add_facts skip (f # facts) m =
     (case split_first (CHR ''='') f of
        None \<Rightarrow> None
      | Some (key, v) \<Rightarrow>
          (case add_fact skip (to_lowercase (trim key)) v m of
             None \<Rightarrow> None
           | Some m \<Rightarrow> add_facts skip facts m))"

definition metadata_from_facts :: "string \<Rightarrow> bool \<Rightarrow> metadata option" where
  "metadata_from_facts facts skip_directory_markers =
     add_facts skip_directory_markers (filter (\<lambda>f. f \<noteq> []) (split_on (CHR '';'') facts))
       \<lparr>m_size = 0, m_modified = None, m_kind = File, m_permissions = None\<rparr>"

definition parse_mlsd_line :: "string \<Rightarrow> listed_item option" where
  "parse_mlsd_line line =
     (case split_first (CHR '' '') line of
        None \<Rightarrow> None
      | Some (facts, name) \<Rightarrow>
          if name = [] \<or> name = ''.'' \<or> name = ''..'' then None
          else map_option (\<lambda>m. \<lparr>li_name = name, li_metadata = m, li_link_target = None\<rparr>) (metadata_from_facts facts True))"

definition parse_mlst_facts :: "string \<Rightarrow> metadata option" where
  "parse_mlst_facts line =
     (let line = trim_start line
      in metadata_from_facts (case split_first (CHR '' '') line of Some (facts, _) \<Rightarrow> facts | None \<Rightarrow> line) False)"

section \<open>Lines of ls\<close>

definition UNIX_LEADING_FIELDS :: nat where
  "UNIX_LEADING_FIELDS = 8"

definition permissions_from_mode :: "string \<Rightarrow> nat option" where
  "permissions_from_mode mode =
     (if length mode < 10 then None
      else Some (fold (\<lambda>bit acc. 2 * acc + (if bit \<noteq> CHR ''-'' then 1 else 0)) (take 9 (drop 1 mode)) 0))"

definition ftp_month_number :: "string \<Rightarrow> int option" where
  "ftp_month_number name = map_option (\<lambda>i. int i + 1) (position (to_lowercase name) FTP_MONTHS)"

text \<open>Where the whitespace after a number of words begins.\<close>

fun token_end_from :: "string \<Rightarrow> nat \<Rightarrow> nat \<Rightarrow> bool \<Rightarrow> nat \<Rightarrow> nat option" where
  "token_end_from [] i seen in_token n = None"
| "token_end_from (c # cs) i seen in_token n =
     (if is_whitespace c
      then if in_token
           then if seen + 1 = n then Some i else token_end_from cs (i + 1) (seen + 1) False n
           else token_end_from cs (i + 1) seen False n
      else token_end_from cs (i + 1) seen True n)"

definition token_end :: "string \<Rightarrow> nat \<Rightarrow> nat option" where
  "token_end line n = token_end_from line 0 0 False n"

definition unix_kind :: "string \<Rightarrow> file_kind option" where
  "unix_kind mode =
     (case mode of
        [] \<Rightarrow> None
      | c # _ \<Rightarrow> if c = CHR ''d'' then Some Dir else if c = CHR ''l'' then Some Symlink
                 else if c = CHR ''-'' then Some File else None)"

definition month_index_of :: "string list \<Rightarrow> nat option" where
  "month_index_of flds =
     find (\<lambda>i. ftp_month_number (flds ! i) \<noteq> None \<and> parse_uint 64 (flds ! (i - 1)) \<noteq> None) [3..<length flds - 2]"

fun split_arrow :: "string \<Rightarrow> (string \<times> string) option" where
  "split_arrow [] = None"
| "split_arrow (c # cs) =
     (if starts_with (c # cs) '' -> '' then Some ([], drop 4 (c # cs))
      else map_option (\<lambda>(before, after). (c # before, after)) (split_arrow cs))"

definition unix_name :: "file_kind \<Rightarrow> string \<Rightarrow> string \<times> string option" where
  "unix_name kind raw =
     (case (kind, split_arrow raw) of
        (Symlink, Some (name, target)) \<Rightarrow> (name, Some target)
      | _ \<Rightarrow> (raw, None))"

text \<open>The outer option is the line, the inner one the date.\<close>

definition unix_modified :: "int \<Rightarrow> int \<Rightarrow> string \<Rightarrow> nat \<Rightarrow> nat option option" where
  "unix_modified month day time_or_year now =
     (case split_first (CHR '':'') time_or_year of
        Some (hour, minute) \<Rightarrow>
          (case (parse_i64 hour, parse_i64 minute) of
             (Some hour, Some minute) \<Rightarrow>
               Some (case unix_seconds (ftp_year_of now) month day hour minute 0 of
                       Some stamp \<Rightarrow>
                         if now + FTP_DAY < stamp then unix_seconds (ftp_year_of now - 1) month day hour minute 0
                         else Some stamp
                     | None \<Rightarrow> None)
           | _ \<Rightarrow> None)
      | None \<Rightarrow> map_option (\<lambda>year. unix_seconds year month day 0 0 0) (parse_i64 time_or_year))"

definition unix_item ::
  "string \<Rightarrow> file_kind \<Rightarrow> string list \<Rightarrow> nat \<Rightarrow> string \<Rightarrow> nat \<Rightarrow> listed_item option" where
  "unix_item line kind flds month_at raw_name now =
     (let (name, link_target) = unix_name kind raw_name
      in if name = [] \<or> name = ''.'' \<or> name = ''..'' then None
         else (case (ftp_month_number (flds ! month_at), parse_i64 (flds ! (month_at + 1))) of
                 (Some month, Some day) \<Rightarrow>
                   map_option
                     (\<lambda>modified. \<lparr>li_name = name,
                        li_metadata = \<lparr>m_size = fact_size (flds ! (month_at - 1)), m_modified = modified, m_kind = kind,
                                       m_permissions = permissions_from_mode (hd flds)\<rparr>,
                        li_link_target = link_target\<rparr>)
                     (unix_modified month day (flds ! (month_at + 2)) now)
               | _ \<Rightarrow> None))"

definition parse_unix :: "string \<Rightarrow> nat \<Rightarrow> listed_item option" where
  "parse_unix line now =
     (let flds = take UNIX_LEADING_FIELDS (split_whitespace line)
      in if flds = [] then None
         else (case (unix_kind (hd flds), month_index_of flds) of
                 (Some kind, Some month_at) \<Rightarrow>
                   (case token_end line (month_at + 3) of
                      None \<Rightarrow> None
                    | Some i \<Rightarrow> unix_item line kind flds month_at (drop (i + 1) line) now)
               | _ \<Rightarrow> None))"

section \<open>Lines of a Windows server\<close>

definition ascii_upper :: "char \<Rightarrow> char" where
  "ascii_upper c = (let n = (of_char c :: nat) in if 97 \<le> n \<and> n \<le> 122 then char_of (n - 32) else c)"

definition windows_year :: "int \<Rightarrow> int" where
  "windows_year year = (if year < 100 then if year < 70 then 2000 + year else 1900 + year else year)"

definition clock_and_meridiem :: "string \<Rightarrow> string \<times> string" where
  "clock_and_meridiem time =
     (let upper = map ascii_upper time
      in if suffix ''AM'' upper \<or> suffix ''PM'' upper
         then (take (length upper - 2) upper, drop (length upper - 2) upper)
         else (upper, []))"

definition windows_hour :: "string \<Rightarrow> int \<Rightarrow> int" where
  "windows_hour meridiem hour =
     (if meridiem = ''AM'' \<and> hour = 12 then 0
      else if meridiem = ''PM'' \<and> hour = 12 then 12
      else if meridiem = ''PM'' then hour + 12
      else hour)"

text \<open>The outer option is the line, the inner one the date.\<close>

definition windows_modified :: "string \<Rightarrow> string \<Rightarrow> nat option option" where
  "windows_modified date time =
     (case split_on (CHR ''-'') date of
        month # day # year # _ \<Rightarrow>
          (let (clock, meridiem) = clock_and_meridiem time
           in (case split_first (CHR '':'') clock of
                 None \<Rightarrow> None
               | Some (hour, minute) \<Rightarrow>
                   (case (parse_i64 year, parse_i64 hour, parse_i64 month, parse_i64 day, parse_i64 minute) of
                      (Some year, Some hour, Some month, Some day, Some minute) \<Rightarrow>
                        Some (unix_seconds (windows_year year) month day (windows_hour meridiem hour) minute 0)
                    | _ \<Rightarrow> None)))
      | _ \<Rightarrow> None)"

definition windows_size :: "string \<Rightarrow> (file_kind \<times> nat) option" where
  "windows_size word = (if word = ''<DIR>'' then Some (Dir, 0) else map_option (Pair File) (parse_uint 64 word))"

definition parse_windows :: "string \<Rightarrow> listed_item option" where
  "parse_windows line =
     (case take 3 (split_whitespace line) of
        [date, time, size_or_dir] \<Rightarrow>
          (case (windows_modified date time, token_end line 3, windows_size size_or_dir) of
             (Some modified, Some i, Some (kind, len)) \<Rightarrow>
               (let name = trim_start (drop i line)
                in if name = [] then None
                   else Some \<lparr>li_name = name,
                              li_metadata = \<lparr>m_size = len, m_modified = modified, m_kind = kind, m_permissions = None\<rparr>,
                              li_link_target = None\<rparr>)
           | _ \<Rightarrow> None)
      | _ \<Rightarrow> None)"

definition is_windows_date :: "string \<Rightarrow> bool" where
  "is_windows_date token =
     (let parts = split_on (CHR ''-'') token
      in length parts = 3 \<and> list_all (\<lambda>part. part \<noteq> [] \<and> list_all is_digit part) parts)"

definition parse_list_line :: "string \<Rightarrow> nat \<Rightarrow> listed_item option" where
  "parse_list_line line now =
     (case split_whitespace line of
        [] \<Rightarrow> None
      | first # _ \<Rightarrow> if is_windows_date first then parse_windows line else parse_unix line now)"

end
