(* ===== verification/Ftp_Pool.thy ===== *)
theory Ftp_Pool
  imports Ftp_Listing S3_Connect
begin

text \<open>
  \<^verbatim>\<open>protocols/ftp\<close>: how a control connection is opened and logged in (\<^verbatim>\<open>session\<close>), and the pool: one
  main connection for commands, replaced and the command repeated when it is lost, and idle
  connections for transfers (\<^verbatim>\<open>pool\<close>).

  The FTP library is a parameter (\<open>ftp_env\<close>): its calls on a connection, which is a number, in the
  world.  A call that takes longer than its limit ends with \<^verbatim>\<open>timed_out\<close>: which calls do is the
  world's, so \<^verbatim>\<open>within\<close> is part of the call.
\<close>

section \<open>Addresses\<close>

datatype ip_address = IpV4 nat nat nat nat | IpV6 "nat list"

text \<open>The tests of the standard library; an IPv6 address is its eight groups of 16 bits.\<close>

fun uses_nat_workaround :: "ip_address \<Rightarrow> bool" where
  "uses_nat_workaround (IpV4 a b c d) =
     (\<not> (a = 10 \<or> a = 172 \<and> b div 16 = 1 \<or> a = 192 \<and> b = 168 \<or> a = 127 \<or> a = 169 \<and> b = 254))"
| "uses_nat_workaround (IpV6 groups) =
     (\<not> (groups = [0, 0, 0, 0, 0, 0, 0, 1] \<or> hd groups div 512 = 126 \<or> hd groups div 64 = 1018))"

section \<open>The library\<close>

datatype ftp_command =
    Noop | Pwd | Cwd string | MakeDir string | RemoveFile string | RemoveDir string | RenameTo string string | Mlst string

datatype line_step = LineRead string | LineEof | LineFailed string | LineTimedOut

datatype data_step = DataBytes "8 word list" | DataEof | DataFailed "io_error_kind \<times> string"

text \<open>
  \<open>fv_lines\<close> is what reading the lines of a data stream gives, up to its end or to a failure.
  \<open>fv_in_time\<close> is whether a login stays within its limit.
\<close>

record 'u ftp_env =
  fv_settings :: ftp_settings
  fv_failure_text :: "ftp_failure \<Rightarrow> string"
  fv_take_problem :: "'u \<Rightarrow> trust_problem option \<times> 'u"
  fv_dial :: "'u \<Rightarrow> (ftp_failure + nat) \<times> 'u"
  fv_secure :: "nat \<Rightarrow> 'u \<Rightarrow> (ftp_failure + nat) \<times> 'u"
  fv_dial_secure :: "'u \<Rightarrow> (ftp_failure + nat) \<times> 'u"
  fv_in_time :: "'u \<Rightarrow> bool \<times> 'u"
  fv_login :: "nat \<Rightarrow> string \<Rightarrow> string \<Rightarrow> 'u \<Rightarrow> (ftp_failure + unit) \<times> 'u"
  fv_binary :: "nat \<Rightarrow> 'u \<Rightarrow> (ftp_failure + unit) \<times> 'u"
  fv_utf8 :: "nat \<Rightarrow> 'u \<Rightarrow> (ftp_failure + unit) \<times> 'u"
  fv_set_mode :: "nat \<Rightarrow> bool \<Rightarrow> 'u \<Rightarrow> 'u"
  fv_nat_workaround :: "nat \<Rightarrow> 'u \<Rightarrow> 'u"
  fv_lookup :: "string \<Rightarrow> nat \<Rightarrow> 'u \<Rightarrow> ip_address list option \<times> 'u"
  fv_command :: "nat \<Rightarrow> ftp_command \<Rightarrow> 'u \<Rightarrow> (ftp_failure + string) \<times> 'u"
  fv_custom :: "nat \<Rightarrow> string \<Rightarrow> nat list \<Rightarrow> 'u \<Rightarrow> (ftp_failure + nat \<times> string) \<times> 'u"
  fv_size :: "nat \<Rightarrow> string \<Rightarrow> 'u \<Rightarrow> (ftp_failure + nat) \<times> 'u"
  fv_mdtm :: "nat \<Rightarrow> string \<Rightarrow> 'u \<Rightarrow> (ftp_failure + int) \<times> 'u"
  fv_data :: "nat \<Rightarrow> string \<Rightarrow> 'u \<Rightarrow> (ftp_failure + nat) \<times> 'u"
  fv_lines :: "nat \<Rightarrow> 'u \<Rightarrow> line_step list \<times> 'u"
  fv_rest :: "nat \<Rightarrow> nat \<Rightarrow> 'u \<Rightarrow> (ftp_failure + unit) \<times> 'u"
  fv_retr :: "nat \<Rightarrow> string \<Rightarrow> 'u \<Rightarrow> (ftp_failure + nat) \<times> 'u"
  fv_stor :: "nat \<Rightarrow> string \<Rightarrow> 'u \<Rightarrow> (ftp_failure + nat) \<times> 'u"
  fv_appe :: "nat \<Rightarrow> string \<Rightarrow> 'u \<Rightarrow> (ftp_failure + nat) \<times> 'u"
  fv_finish :: "nat \<Rightarrow> 'u \<Rightarrow> (ftp_failure + unit) \<times> 'u"
  fv_read :: "nat \<Rightarrow> nat \<Rightarrow> 'u \<Rightarrow> data_step \<times> 'u"
  fv_write :: "nat \<Rightarrow> 8 word list \<Rightarrow> 'u \<Rightarrow> (io_error + nat) \<times> 'u"
  fv_flush :: "nat \<Rightarrow> 'u \<Rightarrow> (io_error + unit) \<times> 'u"
  fv_now :: "'u \<Rightarrow> nat \<times> 'u"

definition ftp_timed_out :: ftp_failure where
  "ftp_timed_out = ConnectionFailed ''timed out waiting for the server''"

definition is_connection_lost :: "ftp_failure \<Rightarrow> bool" where
  "is_connection_lost e =
     (case e of
        ConnectionFailed _ \<Rightarrow> True
      | BadResponse \<Rightarrow> True
      | SecureFailed _ \<Rightarrow> True
      | UnexpectedReply code _ \<Rightarrow> code = 421 \<or> code = 221
      | OtherFtp _ \<Rightarrow> False)"

definition is_not_implemented :: "ftp_failure \<Rightarrow> bool" where
  "is_not_implemented e = (case e of UnexpectedReply code _ \<Rightarrow> code \<in> {500, 502, 504} | _ \<Rightarrow> False)"

definition ftp_failed :: "'u ftp_env \<Rightarrow> ftp_failure \<Rightarrow> protocol_error" where
  "ftp_failed fv e = ftp_error (fv_failure_text fv) e"

section \<open>Opening a connection (session)\<close>

datatype ftp_login = Accepted | Rejected string

datatype ftp_open_error = OpenTrust trust_problem | OpenOther protocol_error

definition IMPLICIT_PORT_HINT :: string where
  "IMPLICIT_PORT_HINT = '' '' @ em_dash @ '' implicit TLS usually uses port 990''"

definition with_port_hint :: "protocol_error \<Rightarrow> ftp_security \<Rightarrow> nat \<Rightarrow> protocol_error" where
  "with_port_hint e security port =
     (if security = Implicit \<and> port = 21 then protocol_error_new (pe_kind e) (pe_source e @ IMPLICIT_PORT_HINT) else e)"

definition ftp_dial :: "'u ftp_env \<Rightarrow> 'u \<Rightarrow> (ftp_failure + nat) \<times> 'u" where
  "ftp_dial fv u =
     (case ft_security (fv_settings fv) of
        Plain \<Rightarrow> fv_dial fv u
      | Explicit \<Rightarrow> (case fv_dial fv u of (Inl e, u) \<Rightarrow> (Inl e, u) | (Inr c, u) \<Rightarrow> fv_secure fv c u)
      | Implicit \<Rightarrow> fv_dial_secure fv u)"

definition ftp_open :: "'u ftp_env \<Rightarrow> 'u \<Rightarrow> (ftp_open_error + nat) \<times> 'u" where
  "ftp_open fv u =
     (case fv_take_problem fv u of
        (_, u) \<Rightarrow>
          (case ftp_dial fv u of
             (Inr c, u) \<Rightarrow> (Inr c, u)
           | (Inl e, u) \<Rightarrow>
               (case fv_take_problem fv u of
                  (Some problem, u) \<Rightarrow> (Inl (OpenTrust problem), u)
                | (None, u) \<Rightarrow>
                    (Inl (OpenOther (with_port_hint (protocol_error_new Connect (fv_failure_text fv e))
                                       (ft_security (fv_settings fv)) (ft_port (fv_settings fv)))), u))))"

definition ftp_login_with :: "'u ftp_env \<Rightarrow> nat \<Rightarrow> string \<Rightarrow> string \<Rightarrow> ('u, ftp_login) effect" where
  "ftp_login_with fv c username password u =
     (case fv_login fv c username password u of
        (Inr _, u) \<Rightarrow> (Inr Accepted, u)
      | (Inl (UnexpectedReply code body), u) \<Rightarrow>
          if code = 530 then (Inr (Rejected (trim body)), u) else (Inl (ftp_failed fv (UnexpectedReply code body)), u)
      | (Inl e, u) \<Rightarrow> (Inl (ftp_failed fv e), u))"

definition peer_address :: "'u ftp_env \<Rightarrow> 'u \<Rightarrow> ip_address option \<times> 'u" where
  "peer_address fv u =
     (case fv_lookup fv (ft_host (fv_settings fv)) (ft_port (fv_settings fv)) u of
        (Some (a # _), u) \<Rightarrow> (Some a, u)
      | (_, u) \<Rightarrow> (None, u))"

definition ftp_prepare :: "'u ftp_env \<Rightarrow> nat \<Rightarrow> ('u, unit) effect" where
  "ftp_prepare fv c u =
     (case fv_binary fv c u of
        (Inl e, u) \<Rightarrow> (Inl (ftp_failed fv e), u)
      | (Inr _, u) \<Rightarrow>
          (let passive = ft_passive (fv_settings fv);
               u = fv_set_mode fv c passive (snd (fv_utf8 fv c u))
           in if passive
              then (case peer_address fv u of
                      (Some a, u) \<Rightarrow> (Inr (), if uses_nat_workaround a then fv_nat_workaround fv c u else u)
                    | (None, u) \<Rightarrow> (Inr (), u))
              else (Inr (), u)))"

text \<open>\<^verbatim>\<open>bounded\<close>.\<close>

definition ftp_bounded :: "'u ftp_env \<Rightarrow> ('u, 'a) effect \<Rightarrow> ('u, 'a) effect" where
  "ftp_bounded fv m u =
     (case fv_in_time fv u of
        (True, u) \<Rightarrow> m u
      | (False, u) \<Rightarrow> (Inl (protocol_error_new Connect ''timed out logging in''), u))"

definition open_logged_in :: "'u ftp_env \<Rightarrow> string \<Rightarrow> ('u, nat) effect" where
  "open_logged_in fv password u =
     (case ftp_open fv u of
        (Inl (OpenTrust _), u) \<Rightarrow> (Inl (protocol_error_new Connect ''the server certificate is not trusted''), u)
      | (Inl (OpenOther e), u) \<Rightarrow> (Inl e, u)
      | (Inr c, u) \<Rightarrow>
          eff_bind
            (ftp_bounded fv
              (eff_bind (ftp_login_with fv c (ft_username (fv_settings fv)) password) (\<lambda>answer.
                 case answer of
                   Rejected reply \<Rightarrow> eff_fail (protocol_error_new AuthRejected (''the server rejected the login: '' @ reply))
                 | Accepted \<Rightarrow> ftp_prepare fv c)))
            (\<lambda>_. eff_return c) u)"

section \<open>The pool\<close>

datatype ftp_stream = Streaming nat nat | StreamDone

text \<open>The idle connections are a stack: its last one is taken first.\<close>

record 'u ftp =
  fx_password :: string
  fx_main :: nat
  fx_idle :: "nat list"
  fx_mlst_missing :: bool
  fx_out_of_step :: bool
  fx_readers :: "(nat, ftp_stream) fmap"
  fx_writers :: "(nat, ftp_stream) fmap"
  fx_next_handle :: nat
  fx_net :: 'u

definition ftp_pool_new :: "string \<Rightarrow> nat \<Rightarrow> 'u \<Rightarrow> 'u ftp" where
  "ftp_pool_new password main u =
     \<lparr>fx_password = password, fx_main = main, fx_idle = [], fx_mlst_missing = False, fx_out_of_step = False,
      fx_readers = fmempty, fx_writers = fmempty, fx_next_handle = 0, fx_net = u\<rparr>"

definition supports_mlst :: "'u ftp \<Rightarrow> bool" where
  "supports_mlst s = (\<not> fx_mlst_missing s)"

definition mark_mlst_missing :: "'u ftp \<Rightarrow> 'u ftp" where
  "mark_mlst_missing s = s\<lparr>fx_mlst_missing := True\<rparr>"

definition ftp_reopen :: "'u ftp_env \<Rightarrow> ('u ftp, unit) effect" where
  "ftp_reopen fv s =
     (case open_logged_in fv (fx_password s) (fx_net s) of
        (Inl e, u) \<Rightarrow> (Inl e, s\<lparr>fx_net := u\<rparr>)
      | (Inr c, u) \<Rightarrow> (Inr (), s\<lparr>fx_main := c, fx_net := u\<rparr>))"

type_synonym ('u, 'a) ftp_op = "nat \<Rightarrow> 'u \<Rightarrow> (ftp_failure + 'a) \<times> 'u"

definition on_main :: "('u, 'a) ftp_op \<Rightarrow> 'u ftp \<Rightarrow> (ftp_failure + 'a) \<times> 'u ftp" where
  "on_main op s = (case op (fx_main s) (fx_net s) of (r, u) \<Rightarrow> (r, s\<lparr>fx_net := u\<rparr>))"

record 'a attempted =
  at_result :: "ftp_failure + 'a"
  at_replayed :: bool

definition ftp_in_step :: "'u ftp_env \<Rightarrow> ('u ftp, unit) effect" where
  "ftp_in_step fv s =
     (if fx_out_of_step s
      then (case ftp_reopen fv s of
              (Inl e, s) \<Rightarrow> (Inl e, s)
            | (Inr _, s) \<Rightarrow> (Inr (), s\<lparr>fx_out_of_step := False\<rparr>))
      else (Inr (), s))"

definition ftp_replay :: "'u ftp_env \<Rightarrow> ('u, 'a) ftp_op \<Rightarrow> ('u ftp, 'a attempted) effect" where
  "ftp_replay fv op s =
     (case ftp_reopen fv s of
        (Inl e, s) \<Rightarrow> (Inl e, s)
      | (Inr _, s) \<Rightarrow> (case on_main op s of (r, s) \<Rightarrow> (Inr \<lparr>at_result = r, at_replayed = True\<rparr>, s)))"

definition ftp_attempt :: "'u ftp_env \<Rightarrow> ('u, 'a) ftp_op \<Rightarrow> ('u ftp, 'a attempted) effect" where
  "ftp_attempt fv op s =
     (case ftp_in_step fv s of
        (Inl e, s) \<Rightarrow> (Inl e, s)
      | (Inr _, s) \<Rightarrow>
          (case on_main op s of
             (Inr a, s) \<Rightarrow> (Inr \<lparr>at_result = Inr a, at_replayed = False\<rparr>, s)
           | (Inl e, s) \<Rightarrow>
               if e = BadResponse
               then (case on_main (\<lambda>c. fv_command fv c Noop) s of
                       (Inr _, s) \<Rightarrow> (Inr \<lparr>at_result = Inl BadResponse, at_replayed = False\<rparr>, s)
                     | (Inl _, s) \<Rightarrow> ftp_replay fv op s)
               else if is_connection_lost e then ftp_replay fv op s
               else (Inr \<lparr>at_result = Inl e, at_replayed = False\<rparr>, s)))"

definition ask_once :: "('u, 'a) ftp_op \<Rightarrow> 'u ftp \<Rightarrow> 'a option \<times> 'u ftp" where
  "ask_once op s =
     (case on_main op s of
        (Inr a, s) \<Rightarrow> (Some a, s)
      | (Inl e, s) \<Rightarrow> (None, if is_connection_lost e then s\<lparr>fx_out_of_step := True\<rparr> else s))"

definition run_raw :: "'u ftp_env \<Rightarrow> ('u, 'a) ftp_op \<Rightarrow> ('u ftp, ftp_failure + 'a) effect" where
  "run_raw fv op = eff_bind (ftp_attempt fv op) (\<lambda>a. eff_return (at_result a))"

definition eff_reply :: "'u ftp_env \<Rightarrow> ftp_failure + 'a \<Rightarrow> ('w, 'a) effect" where
  "eff_reply fv r = (case r of Inl e \<Rightarrow> eff_fail (ftp_failed fv e) | Inr a \<Rightarrow> eff_return a)"

definition ftp_run :: "'u ftp_env \<Rightarrow> ('u, 'a) ftp_op \<Rightarrow> ('u ftp, 'a) effect" where
  "ftp_run fv op = eff_bind (run_raw fv op) (eff_reply fv)"

text \<open>The idle connections, the last one first, until one answers.\<close>

fun borrow_from :: "'u ftp_env \<Rightarrow> nat list \<Rightarrow> ('u ftp, nat) effect" where
  "borrow_from fv [] s =
     (case open_logged_in fv (fx_password s) (fx_net s) of (r, u) \<Rightarrow> (r, s\<lparr>fx_idle := [], fx_net := u\<rparr>))"
| "borrow_from fv (c # idle) s =
     (case fv_command fv c Noop (fx_net s) of
        (Inr _, u) \<Rightarrow> (Inr c, s\<lparr>fx_idle := rev idle, fx_net := u\<rparr>)
      | (Inl _, u) \<Rightarrow> borrow_from fv idle (s\<lparr>fx_net := u\<rparr>))"

definition ftp_borrow :: "'u ftp_env \<Rightarrow> ('u ftp, nat) effect" where
  "ftp_borrow fv s = borrow_from fv (rev (fx_idle s)) s"

definition give_back :: "nat \<Rightarrow> 'u ftp \<Rightarrow> 'u ftp" where
  "give_back c s = s\<lparr>fx_idle := fx_idle s @ [c]\<rparr>"

end
