(* ===== verification/Ftp_Fs.thy ===== *)
theory Ftp_Fs
  imports Ftp_Pool
begin

text \<open>
  \<^verbatim>\<open>protocols/ftp\<close>: the operations of the file system (\<^verbatim>\<open>fs\<close>), files as data connections
  (\<^verbatim>\<open>streams\<close>), and how the protocol connects (\<^verbatim>\<open>lib\<close>).

  A tree that is deleted is walked as the server reports it: the walk is bounded by a depth.
\<close>

section \<open>Small parts\<close>

definition LAST_MFMT_YEAR :: int where
  "LAST_MFMT_YEAR = 9999"

text \<open>The calendar of \<^verbatim>\<open>chrono\<close> is the proleptic Gregorian one.\<close>

definition mfmt_stamp :: "nat \<Rightarrow> protocol_error + string" where
  "mfmt_stamp seconds =
     (let (year, month, day) = civil_from_days (int seconds div 86400);
          time = int seconds mod 86400
      in if seconds < 2 ^ 63 \<and> year \<le> LAST_MFMT_YEAR
         then Inr (pad_int 4 year @ pad_int 2 month @ pad_int 2 day @
                   pad_int 2 (time div 3600) @ pad_int 2 (time mod 3600 div 60) @ pad_int 2 (time mod 60))
         else Inl (protocol_error_new Other
                (''a modification time of '' @ show_nat seconds @ '' seconds is beyond year 9999, which FTP can't express'')))"

definition lists_mfmt :: "string \<Rightarrow> bool" where
  "lists_mfmt reply =
     list_ex (\<lambda>line. case split_whitespace line of [] \<Rightarrow> False | feature # _ \<Rightarrow> same_ignoring_case feature ''MFMT'')
       (text_lines reply)"

definition whole_reply :: "ftp_failure + nat \<times> string \<Rightarrow> ftp_failure + nat \<times> string" where
  "whole_reply r = (case r of Inl (UnexpectedReply code body) \<Rightarrow> Inr (code, body) | _ \<Rightarrow> r)"

definition advertises_mfmt :: "'u ftp_env \<Rightarrow> 'u ftp \<Rightarrow> bool \<times> 'u ftp" where
  "advertises_mfmt fv s =
     (case ask_once (\<lambda>c u. case fv_custom fv c ''FEAT'' [] u of (r, u) \<Rightarrow> (whole_reply r, u)) s of
        (Some (code, body), s) \<Rightarrow> (code = 211 \<and> lists_mfmt body, s)
      | (None, s) \<Rightarrow> (False, s))"

definition ftp_not_found :: "string \<Rightarrow> protocol_error" where
  "ftp_not_found p = protocol_error_new NotFound (''No such file or directory: '' @ p)"

definition is_unavailable :: "ftp_failure \<Rightarrow> bool" where
  "is_unavailable e = (case e of UnexpectedReply code _ \<Rightarrow> code = 550 | _ \<Rightarrow> False)"

datatype simple_command = SimpleMakeDir | SimpleRemoveFile | SimpleRemoveDir

definition command_of :: "simple_command \<Rightarrow> string \<Rightarrow> ftp_command" where
  "command_of command p =
     (case command of
        SimpleMakeDir \<Rightarrow> MakeDir p | SimpleRemoveFile \<Rightarrow> RemoveFile p | SimpleRemoveDir \<Rightarrow> RemoveDir p)"

section \<open>Listings\<close>

definition trim_newlines :: "string \<Rightarrow> string" where
  "trim_newlines line = rev (dropWhile (\<lambda>c. c = CHR 0x0D \<or> c = CHR 0x0A) (rev line))"

fun collect_lines :: "line_step list \<Rightarrow> string list \<Rightarrow> ftp_failure + string list" where
  "collect_lines [] lines = Inr lines"
| "collect_lines (LineTimedOut # steps) lines = Inl ftp_timed_out"
| "collect_lines (LineEof # steps) lines = Inr lines"
| "collect_lines (LineFailed e # steps) lines = Inl (ConnectionFailed e)"
| "collect_lines (LineRead line # steps) lines =
     collect_lines steps (if trim_newlines line = [] then lines else lines @ [trim_newlines line])"

definition fetch_lines :: "'u ftp_env \<Rightarrow> string \<Rightarrow> ('u, string list) ftp_op" where
  "fetch_lines fv command c u =
     (case fv_data fv c command u of
        (Inl e, u) \<Rightarrow> (Inl e, u)
      | (Inr stream, u) \<Rightarrow>
          (case fv_lines fv stream u of
             (steps, u) \<Rightarrow>
               (case collect_lines steps [] of
                  Inl e \<Rightarrow> (Inl e, u)
                | Inr lines \<Rightarrow>
                    (case fv_finish fv stream u of
                       (Inl e, u) \<Rightarrow> (Inl e, u)
                     | (Inr _, u) \<Rightarrow> (Inr lines, u)))))"

definition already_done :: "simple_command \<Rightarrow> bool \<Rightarrow> bool" where
  "already_done command exists_now = (if command = SimpleMakeDir then exists_now else \<not> exists_now)"

definition eff_modify :: "('w \<Rightarrow> 'w) \<Rightarrow> ('w, unit) effect" where
  "eff_modify f w = (Inr (), f w)"

definition ftp_mlsd :: "'u ftp_env \<Rightarrow> string \<Rightarrow> ('u ftp, listed_item list option) effect" where
  "ftp_mlsd fv p =
     eff_bind (run_raw fv (fetch_lines fv (''MLSD '' @ p))) (\<lambda>r.
       case r of
         Inr lines \<Rightarrow> eff_return (Some (List.map_filter parse_mlsd_line lines))
       | Inl e \<Rightarrow>
           if is_not_implemented e then eff_bind (eff_modify mark_mlst_missing) (\<lambda>_. eff_return None)
           else eff_fail (ftp_failed fv e))"

definition ftp_list_lines :: "'u ftp_env \<Rightarrow> string \<Rightarrow> ('u ftp, listed_item list) effect" where
  "ftp_list_lines fv p s =
     (case fv_now fv (fx_net s) of
        (now, u) \<Rightarrow>
          eff_bind (ftp_run fv (fetch_lines fv (''LIST '' @ p)))
            (\<lambda>lines. eff_return (List.map_filter (\<lambda>line. parse_list_line line now) lines)) (s\<lparr>fx_net := u\<rparr>))"

definition ftp_items :: "'u ftp_env \<Rightarrow> path \<Rightarrow> ('u ftp, listed_item list) effect" where
  "ftp_items fv dir s =
     (let p = path_to_remote_string dir
      in eff_bind (if supports_mlst s then ftp_mlsd fv p else eff_return None) (\<lambda>found.
           case found of
             Some items \<Rightarrow> eff_return items
           | None \<Rightarrow> ftp_list_lines fv p) s)"

section \<open>What a path is\<close>

definition enter_and_return :: "'u ftp_env \<Rightarrow> string \<Rightarrow> ('u, bool) ftp_op" where
  "enter_and_return fv p c u =
     (case fv_command fv c Pwd u of
        (Inl e, u) \<Rightarrow> (Inl e, u)
      | (Inr previous, u) \<Rightarrow>
          (case fv_command fv c (Cwd p) u of
             (Inl _, u) \<Rightarrow> (Inr False, u)
           | (Inr _, u) \<Rightarrow>
               (case fv_command fv c (Cwd previous) u of
                  (Inl e, u) \<Rightarrow> (Inl e, u)
                | (Inr _, u) \<Rightarrow> (Inr True, u))))"

definition is_directory :: "'u ftp_env \<Rightarrow> string \<Rightarrow> ('u ftp, bool) effect" where
  "is_directory fv p = ftp_run fv (enter_and_return fv p)"

definition ftp_mlst :: "'u ftp_env \<Rightarrow> string \<Rightarrow> ('u ftp, metadata option) effect" where
  "ftp_mlst fv p =
     eff_bind (run_raw fv (\<lambda>c. fv_command fv c (Mlst p))) (\<lambda>r.
       case r of
         Inr line \<Rightarrow>
           (case parse_mlst_facts line of Some m \<Rightarrow> eff_return (Some m) | None \<Rightarrow> eff_fail (ftp_not_found p))
       | Inl e \<Rightarrow>
           if is_not_implemented e then eff_bind (eff_modify mark_mlst_missing) (\<lambda>_. eff_return None)
           else if is_unavailable e then eff_fail (ftp_not_found p)
           else eff_fail (ftp_failed fv e))"

definition sum_option :: "'a + 'b \<Rightarrow> 'b option" where
  "sum_option r = (case r of Inl _ \<Rightarrow> None | Inr b \<Rightarrow> Some b)"

definition stat_by_size :: "'u ftp_env \<Rightarrow> string \<Rightarrow> ('u ftp, metadata) effect" where
  "stat_by_size fv p =
     eff_bind (run_raw fv (\<lambda>c. fv_size fv c p)) (\<lambda>found.
       case found of
         Inr len \<Rightarrow>
           eff_bind (run_raw fv (\<lambda>c. fv_mdtm fv c p)) (\<lambda>time.
             eff_return
               \<lparr>m_size = len,
                m_modified = (case sum_option time of Some t \<Rightarrow> if 0 \<le> t then Some (nat t) else None | None \<Rightarrow> None),
                m_kind = File, m_permissions = None\<rparr>)
       | Inl _ \<Rightarrow>
           eff_bind (is_directory fv p) (\<lambda>is_dir.
             if is_dir then eff_return \<lparr>m_size = 0, m_modified = None, m_kind = Dir, m_permissions = None\<rparr>
             else eff_fail (ftp_not_found p)))"

definition stat_remote :: "'u ftp_env \<Rightarrow> string \<Rightarrow> ('u ftp, metadata) effect" where
  "stat_remote fv p s =
     eff_bind (if supports_mlst s then ftp_mlst fv p else eff_return None) (\<lambda>found.
       case found of
         Some m \<Rightarrow> eff_return m
       | None \<Rightarrow> stat_by_size fv p) s"

definition ftp_exists :: "'u ftp_env \<Rightarrow> string \<Rightarrow> ('u ftp, bool) effect" where
  "ftp_exists fv p s =
     (case stat_remote fv p s of
        (Inr _, s) \<Rightarrow> (Inr True, s)
      | (Inl e, s) \<Rightarrow> if pe_kind e = NotFound then (Inr False, s) else (Inl e, s))"

section \<open>Changes\<close>

definition simple_raw :: "'u ftp_env \<Rightarrow> string \<Rightarrow> simple_command \<Rightarrow> ('u ftp, ftp_failure + unit) effect" where
  "simple_raw fv p command =
     eff_bind (ftp_attempt fv (\<lambda>c. fv_command fv c (command_of command p))) (\<lambda>a.
       case at_result a of
         Inr _ \<Rightarrow> eff_return (Inr ())
       | Inl e \<Rightarrow>
           if at_replayed a \<and> is_unavailable e
           then eff_bind (ftp_exists fv p) (\<lambda>now.
                  eff_return (if already_done command now then Inr () else Inl e))
           else eff_return (Inl e))"

definition simple :: "'u ftp_env \<Rightarrow> string \<Rightarrow> simple_command \<Rightarrow> ('u ftp, unit) effect" where
  "simple fv p command = eff_bind (simple_raw fv p command) (eff_reply fv)"

definition rename_raw :: "'u ftp_env \<Rightarrow> string \<Rightarrow> string \<Rightarrow> ('u ftp, ftp_failure + unit) effect" where
  "rename_raw fv source target =
     eff_bind (ftp_attempt fv (\<lambda>c. fv_command fv c (RenameTo source target))) (\<lambda>a.
       case at_result a of
         Inr _ \<Rightarrow> eff_return (Inr ())
       | Inl e \<Rightarrow>
           if \<not> at_replayed a then eff_return (Inl e)
           else eff_bind (ftp_exists fv source) (\<lambda>left.
                  if left then eff_return (Inl e)
                  else eff_bind (ftp_exists fv target) (\<lambda>there. eff_return (if there then Inr () else Inl e))))"

definition listed_path :: "string \<Rightarrow> listed_item \<Rightarrow> string" where
  "listed_path parent i = join_remote parent (li_name i)"

definition ftp_dir_item :: "string \<Rightarrow> listed_item \<Rightarrow> dir_item" where
  "ftp_dir_item parent i =
     \<lparr>d_name = li_name i, d_path = path_of_string (listed_path parent i), d_metadata = li_metadata i\<rparr>"

definition ftp_read_dir :: "'u ftp_env \<Rightarrow> path \<Rightarrow> ('u ftp, dir_item list) effect" where
  "ftp_read_dir fv dir =
     eff_bind (ftp_items fv dir) (\<lambda>items. eff_return (map (ftp_dir_item (path_to_remote_string dir)) items))"

fun remove_path :: "'u ftp_env \<Rightarrow> nat \<Rightarrow> string \<Rightarrow> ('u ftp, unit) bounded"
  and delete_tree :: "'u ftp_env \<Rightarrow> nat \<Rightarrow> string \<Rightarrow> ('u ftp, unit) bounded"
  and delete_children :: "'u ftp_env \<Rightarrow> nat \<Rightarrow> dir_item list \<Rightarrow> ('u ftp, unit) bounded" where
  "remove_path fv n p =
     bnd_bind (bounded_of (simple_raw fv p SimpleRemoveFile)) (\<lambda>r.
       case r of
         Inr _ \<Rightarrow> bnd_return ()
       | Inl refused \<Rightarrow>
           if is_connection_lost refused then bnd_fail (ftp_failed fv refused)
           else bnd_bind (bounded_of (is_directory fv p)) (\<lambda>is_dir.
                  if \<not> is_dir then bnd_fail (ftp_failed fv refused) else delete_tree fv n p))"
| "delete_tree fv 0 p = (\<lambda>s. None)"
| "delete_tree fv (Suc n) p =
     bnd_bind (bounded_of (ftp_read_dir fv (path_of_string p))) (\<lambda>children.
     bnd_bind (delete_children fv n children) (\<lambda>_.
       bounded_of (simple fv p SimpleRemoveDir)))"
| "delete_children fv n [] = bnd_return ()"
| "delete_children fv n (child # children) =
     bnd_bind
       (if m_kind (d_metadata child) = File
        then bounded_of (simple fv (path_to_remote_string (d_path child)) SimpleRemoveFile)
        else remove_path fv n (path_to_remote_string (d_path child)))
       (\<lambda>_. delete_children fv n children)"

section \<open>The contract\<close>

fun ftp_entries :: "'u ftp_env \<Rightarrow> string \<Rightarrow> listed_item list \<Rightarrow> ('u ftp, entry list) effect" where
  "ftp_entries fv parent [] = eff_return []"
| "ftp_entries fv parent (i # is) =
     eff_bind
       (case m_kind (li_metadata i) of
          Dir \<Rightarrow> eff_return True
        | Symlink \<Rightarrow> is_directory fv (listed_path parent i)
        | File \<Rightarrow> eff_return False)
       (\<lambda>is_dir. eff_bind (ftp_entries fv parent is) (\<lambda>es.
          eff_return
            (\<lparr>e_name = li_name i, e_path = path_of_string (listed_path parent i), e_is_dir = is_dir,
              e_size = m_size (li_metadata i), e_permissions = m_permissions (li_metadata i)\<rparr> # es)))"

definition ftp_list :: "'u ftp_env \<Rightarrow> path \<Rightarrow> ('u ftp, entry list) effect" where
  "ftp_list fv dir = eff_bind (ftp_items fv dir) (ftp_entries fv (path_to_remote_string dir))"

definition ftp_stat :: "'u ftp_env \<Rightarrow> path \<Rightarrow> ('u ftp, metadata) effect" where
  "ftp_stat fv p = stat_remote fv (path_to_remote_string p)"

definition ftp_create_dir :: "'u ftp_env \<Rightarrow> path \<Rightarrow> ('u ftp, unit) effect" where
  "ftp_create_dir fv p = simple fv (path_to_remote_string p) SimpleMakeDir"

text \<open>The rename once the target is moved out of the way; what is done at last may fail unnoticed.\<close>

definition rename_over :: "'u ftp_env \<Rightarrow> string \<Rightarrow> string \<Rightarrow> string \<Rightarrow> ('u ftp, unit) effect" where
  "rename_over fv source target backup =
     eff_bind (rename_raw fv source target) (\<lambda>r.
       case r of
         Inr _ \<Rightarrow> eff_bind (eff_ok (simple fv backup SimpleRemoveFile)) (\<lambda>_. eff_return ())
       | Inl e \<Rightarrow> eff_bind (eff_ok (rename_raw fv backup target)) (\<lambda>_. eff_fail (ftp_failed fv e)))"

definition ftp_rename :: "'u ftp_env \<Rightarrow> path \<Rightarrow> path \<Rightarrow> ('u ftp, unit) effect" where
  "ftp_rename fv p q =
     (let source = path_to_remote_string p; target = path_to_remote_string q; backup = target @ ''.bak''
      in eff_bind (rename_raw fv source target) (\<lambda>r.
           case r of
             Inr _ \<Rightarrow> eff_return ()
           | Inl refused \<Rightarrow>
               eff_bind (ftp_exists fv source) (\<lambda>from_there.
               eff_bind (if from_there then ftp_exists fv target else eff_return False) (\<lambda>to_there.
               eff_bind (if from_there \<and> to_there then ftp_exists fv backup else eff_return True) (\<lambda>backup_there.
                 if \<not> from_there \<or> \<not> to_there \<or> backup_there then eff_fail (ftp_failed fv refused)
                 else eff_bind (eff_bind (rename_raw fv target backup) (eff_reply fv)) (\<lambda>_.
                        rename_over fv source target backup))))))"

definition ftp_remove_file :: "'u ftp_env \<Rightarrow> path \<Rightarrow> ('u ftp, unit) effect" where
  "ftp_remove_file fv p = simple fv (path_to_remote_string p) SimpleRemoveFile"

definition ftp_delete :: "'u ftp_env \<Rightarrow> nat \<Rightarrow> path \<Rightarrow> ('u ftp, unit) bounded" where
  "ftp_delete fv n p = remove_path fv n (path_to_remote_string p)"

definition ftp_set_modified :: "'u ftp_env \<Rightarrow> bool \<Rightarrow> path \<Rightarrow> nat \<Rightarrow> ('u ftp, unit) effect" where
  "ftp_set_modified fv mfmt p seconds =
     (if \<not> mfmt
      then eff_fail (protocol_error_new Unsupported ''this server doesn't support setting modification times (MFMT)'')
      else (case mfmt_stamp seconds of
              Inl e \<Rightarrow> eff_fail e
            | Inr stamp \<Rightarrow>
                eff_bind (ftp_run fv (\<lambda>c. fv_custom fv c (''MFMT '' @ stamp @ '' '' @ path_to_remote_string p) [213]))
                  (\<lambda>_. eff_return ())))"

definition ftp_time_resolution :: nat where
  "ftp_time_resolution = 60"

section \<open>Files as data connections (streams)\<close>

datatype write_start = RestartStore | Append | Store

definition start_offset :: "write_start \<Rightarrow> nat \<Rightarrow> nat" where
  "start_offset start requested = (if start = Store then 0 else requested)"

definition first_write_start :: "nat \<Rightarrow> write_start" where
  "first_write_start offset = (if offset = 0 then Store else RestartStore)"

fun write_fallback :: "write_start \<Rightarrow> write_start option" where
  "write_fallback RestartStore = Some Append"
| "write_fallback Append = Some Store"
| "write_fallback Store = None"

text \<open>The end of a stream is answered on its connection, which goes back to the pool.\<close>

definition finish_stream :: "'u ftp_env \<Rightarrow> ftp_stream \<Rightarrow> 'u ftp \<Rightarrow> (io_error + unit) \<times> 'u ftp" where
  "finish_stream fv st s =
     (case st of
        StreamDone \<Rightarrow> (Inr (), s)
      | Streaming stream c \<Rightarrow>
          (case fv_finish fv stream (fx_net s) of
             (Inr _, u) \<Rightarrow> (Inr (), give_back c (s\<lparr>fx_net := u\<rparr>))
           | (Inl e, u) \<Rightarrow> (Inl (IoOther, pe_source (ftp_failed fv e)), s\<lparr>fx_net := u\<rparr>)))"

definition ftp_keep_reader :: "ftp_stream \<Rightarrow> ('u ftp, handle) effect" where
  "ftp_keep_reader st s =
     (Inr (fx_next_handle s),
      s\<lparr>fx_readers := fmupd (fx_next_handle s) st (fx_readers s), fx_next_handle := fx_next_handle s + 1\<rparr>)"

definition ftp_keep_writer :: "ftp_stream \<Rightarrow> nat \<Rightarrow> ('u ftp, writer) effect" where
  "ftp_keep_writer st offset s =
     (Inr \<lparr>w_stream = fx_next_handle s, w_offset = offset\<rparr>,
      s\<lparr>fx_writers := fmupd (fx_next_handle s) st (fx_writers s), fx_next_handle := fx_next_handle s + 1\<rparr>)"

definition on_net :: "('u \<Rightarrow> (ftp_failure + 'a) \<times> 'u) \<Rightarrow> 'u ftp \<Rightarrow> (ftp_failure + 'a) \<times> 'u ftp" where
  "on_net m s = (case m (fx_net s) of (r, u) \<Rightarrow> (r, s\<lparr>fx_net := u\<rparr>))"

definition ftp_net :: "'u ftp_env \<Rightarrow> ('u \<Rightarrow> (ftp_failure + 'a) \<times> 'u) \<Rightarrow> ('u ftp, 'a) effect" where
  "ftp_net fv m s = (case on_net m s of (r, s) \<Rightarrow> (map_sum (ftp_failed fv) id r, s))"

definition ftp_open_read :: "'u ftp_env \<Rightarrow> path \<Rightarrow> nat \<Rightarrow> ('u ftp, handle) effect" where
  "ftp_open_read fv p offset =
     eff_bind (ftp_borrow fv) (\<lambda>c.
     eff_bind (if 0 < offset then ftp_net fv (fv_rest fv c offset) else eff_return ()) (\<lambda>_.
     eff_bind (ftp_net fv (fv_retr fv c (path_to_remote_string p))) (\<lambda>stream.
       ftp_keep_reader (Streaming stream c))))"

definition start_writing :: "'u ftp_env \<Rightarrow> nat \<Rightarrow> string \<Rightarrow> nat \<Rightarrow> write_start \<Rightarrow> 'u \<Rightarrow> (ftp_failure + nat) \<times> 'u" where
  "start_writing fv c p offset start u =
     (case start of
        Store \<Rightarrow> fv_stor fv c p u
      | Append \<Rightarrow> fv_appe fv c p u
      | RestartStore \<Rightarrow>
          (case fv_rest fv c offset u of (Inl e, u) \<Rightarrow> (Inl e, u) | (Inr _, u) \<Rightarrow> fv_stor fv c p u))"

function open_writing :: "'u ftp_env \<Rightarrow> nat \<Rightarrow> string \<Rightarrow> nat \<Rightarrow> write_start \<Rightarrow> ('u ftp, writer) effect" where
  "open_writing fv c p offset start s =
     (case on_net (start_writing fv c p offset start) s of
        (Inr stream, s) \<Rightarrow> ftp_keep_writer (Streaming stream c) (start_offset start offset) s
      | (Inl e, s) \<Rightarrow>
          if is_connection_lost e then (Inl (ftp_failed fv e), s)
          else (case write_fallback start of
                  Some next \<Rightarrow> open_writing fv c p offset next s
                | None \<Rightarrow> (Inl (ftp_failed fv e), s)))"
  by pat_completeness auto
termination
  by (relation "measure (\<lambda>(fv, c, p, offset, start, s). case start of RestartStore \<Rightarrow> 2 | Append \<Rightarrow> 1 | Store \<Rightarrow> 0)")
     (auto elim: write_fallback.elims)

declare open_writing.simps [simp del]

definition ftp_open_write :: "'u ftp_env \<Rightarrow> path \<Rightarrow> nat \<Rightarrow> ('u ftp, writer) effect" where
  "ftp_open_write fv p offset =
     eff_bind (ftp_borrow fv) (\<lambda>c. open_writing fv c (path_to_remote_string p) offset (first_write_start offset))"

definition ftp_read :: "'u ftp_env \<Rightarrow> handle \<Rightarrow> nat \<Rightarrow> 'u ftp \<Rightarrow> (io_error + 8 word list) \<times> 'u ftp" where
  "ftp_read fv h n s =
     (let ended = (\<lambda>st s. case finish_stream fv st s of
                            (r, s) \<Rightarrow> (map_sum id (\<lambda>_. []) r, s\<lparr>fx_readers := fmupd h StreamDone (fx_readers s)\<rparr>))
      in (case fmlookup (fx_readers s) h of
            None \<Rightarrow> (Inr [], s)
          | Some StreamDone \<Rightarrow> (Inr [], s)
          | Some (Streaming stream c) \<Rightarrow>
              (case fv_read fv stream n (fx_net s) of
                 (DataFailed e, u) \<Rightarrow> (Inl e, s\<lparr>fx_net := u\<rparr>)
               | (DataEof, u) \<Rightarrow> ended (Streaming stream c) (s\<lparr>fx_net := u\<rparr>)
               | (DataBytes bs, u) \<Rightarrow>
                   if bs \<noteq> [] \<or> n = 0 then (Inr (take n bs), s\<lparr>fx_net := u\<rparr>)
                   else ended (Streaming stream c) (s\<lparr>fx_net := u\<rparr>))))"

definition finished_error :: io_error where
  "finished_error = (IoOther, ''the upload is already finished'')"

definition ftp_write_some :: "'u ftp_env \<Rightarrow> handle \<Rightarrow> 8 word list \<Rightarrow> 'u ftp \<Rightarrow> (io_error + nat) \<times> 'u ftp" where
  "ftp_write_some fv h buf s =
     (case fmlookup (fx_writers s) h of
        Some (Streaming stream c) \<Rightarrow>
          (case fv_write fv stream buf (fx_net s) of (r, u) \<Rightarrow> (r, s\<lparr>fx_net := u\<rparr>))
      | _ \<Rightarrow> (Inl finished_error, s))"

function ftp_write_all :: "'u ftp_env \<Rightarrow> handle \<Rightarrow> 8 word list \<Rightarrow> 'u ftp \<Rightarrow> (io_error + unit) \<times> 'u ftp" where
  "ftp_write_all fv h buf s =
     (if buf = [] then (Inr (), s)
      else case ftp_write_some fv h buf s of
             (Inl e, s) \<Rightarrow> (Inl e, s)
           | (Inr n, s) \<Rightarrow>
               if n = 0 then (Inl (IoOther, ''failed to write whole buffer''), s) else ftp_write_all fv h (drop n buf) s)"
  by pat_completeness auto
termination
  by (relation "measure (\<lambda>(fv, h, buf, s). length buf)") auto

declare ftp_write_all.simps [simp del]

definition ftp_flush :: "'u ftp_env \<Rightarrow> handle \<Rightarrow> 'u ftp \<Rightarrow> (io_error + unit) \<times> 'u ftp" where
  "ftp_flush fv h s =
     (case fmlookup (fx_writers s) h of
        Some (Streaming stream c) \<Rightarrow> (case fv_flush fv stream (fx_net s) of (r, u) \<Rightarrow> (r, s\<lparr>fx_net := u\<rparr>))
      | _ \<Rightarrow> (Inr (), s))"

definition ftp_shutdown :: "'u ftp_env \<Rightarrow> handle \<Rightarrow> 'u ftp \<Rightarrow> (io_error + unit) \<times> 'u ftp" where
  "ftp_shutdown fv h s =
     (case fmlookup (fx_writers s) h of
        None \<Rightarrow> (Inr (), s)
      | Some st \<Rightarrow>
          (case finish_stream fv st s of (r, s) \<Rightarrow> (r, s\<lparr>fx_writers := fmupd h StreamDone (fx_writers s)\<rparr>)))"

section \<open>Connecting (lib)\<close>

definition FTP_DEFAULT_PORT :: nat where
  "FTP_DEFAULT_PORT = 21"

definition FTP_SECURITY_CHOICES :: "choice list" where
  "FTP_SECURITY_CHOICES =
     [\<lparr>co_value = ''plain'', co_label = ''Plain FTP (unencrypted)''\<rparr>,
      \<lparr>co_value = ''explicit'', co_label = ''Explicit TLS (FTPS)''\<rparr>,
      \<lparr>co_value = ''implicit'', co_label = ''Implicit TLS (FTPS)''\<rparr>]"

definition ftp_connection_form :: connection_form where
  "ftp_connection_form =
     (let form = standard_form FTP_DEFAULT_PORT
      in form\<lparr>fm_username := (fm_username form)\<lparr>cm_required := False\<rparr>,
              fm_options :=
                [\<lparr>of_key = ''security'', of_label = ''Security'', of_required = False,
                  of_kind = ChoiceOption FTP_SECURITY_CHOICES ''explicit''\<rparr>,
                 \<lparr>of_key = ''passive'', of_label = ''Passive mode'', of_required = False, of_kind = ToggleOption True\<rparr>]\<rparr>)"

text \<open>Each certificate that is confirmed leads to another try: the bound is on the tries.\<close>

fun open_trusted :: "'u ftp_env \<Rightarrow> 'u trust_env \<Rightarrow> string \<Rightarrow> nat \<Rightarrow> ('u, nat) bounded" where
  "open_trusted fv te name 0 = (\<lambda>u. None)"
| "open_trusted fv te name (Suc n) = (\<lambda>u.
     case ftp_open fv u of
       (Inr c, u) \<Rightarrow> Some (Inr c, u)
     | (Inl (OpenOther e), u) \<Rightarrow> Some (Inl e, u)
     | (Inl (OpenTrust problem), u) \<Rightarrow>
         (case ask_to_trust (te_codec te) (te_known_certificates te) (te_ask te) (te_run_disk te) problem name
                 (ft_host (fv_settings fv)) (ft_port (fv_settings fv)) u of
            (Inl e, u) \<Rightarrow> Some (Inl e, u)
          | (Inr _, u) \<Rightarrow> open_trusted fv te name n u))"

definition requires_encryption :: "string \<Rightarrow> bool" where
  "requires_encryption reply =
     list_ex (str_contains (to_lowercase reply)) [''encrypt'', ''tls'', ''ssl'', ''secure'']"

definition ftp_rejected :: "string \<Rightarrow> protocol_error" where
  "ftp_rejected name = protocol_error_new AuthRejected (''Authentication failed for '' @ name)"

definition ask_and_login :: "'u ftp_env \<Rightarrow> 'u trust_env \<Rightarrow> string \<Rightarrow> nat \<Rightarrow> ('u, string) effect" where
  "ask_and_login fv te name c u =
     (let username = ft_username (fv_settings fv)
      in (case te_ask te (PasswordQuestion username name) u of
            (Some (PasswordAnswer password), u) \<Rightarrow>
              eff_bind (ftp_bounded fv (ftp_login_with fv c username password)) (\<lambda>answer.
                case answer of
                  Accepted \<Rightarrow> eff_return password
                | Rejected reply \<Rightarrow>
                    if requires_encryption reply then eff_fail (protocol_error_new Auth reply)
                    else eff_fail (ftp_rejected name)) u
          | (_, u) \<Rightarrow> (Inl connection_cancelled, u)))"

definition ftp_authenticate :: "'u ftp_env \<Rightarrow> 'u trust_env \<Rightarrow> string \<Rightarrow> nat \<Rightarrow> ('u, string) effect" where
  "ftp_authenticate fv te name c =
     (case ft_password (fv_settings fv) of
        None \<Rightarrow> ask_and_login fv te name c
      | Some saved \<Rightarrow>
          eff_bind (ftp_bounded fv (ftp_login_with fv c (ft_username (fv_settings fv)) saved)) (\<lambda>answer.
            case answer of
              Accepted \<Rightarrow> eff_return saved
            | Rejected reply \<Rightarrow>
                if requires_encryption reply then eff_fail (protocol_error_new Auth reply)
                else if is_anonymous (fv_settings fv) then eff_fail (ftp_rejected name)
                else ask_and_login fv te name c))"

text \<open>\<^verbatim>\<open>FtpFs::new\<close>: where the session starts, and whether the server sets times.\<close>

definition ftp_fs_new :: "'u ftp_env \<Rightarrow> ('u ftp, path \<times> bool) effect" where
  "ftp_fs_new fv =
     eff_bind (ftp_run fv (\<lambda>c. fv_command fv c Pwd)) (\<lambda>home s.
       case advertises_mfmt fv s of (mfmt, s) \<Rightarrow> (Inr (path_of_string home, mfmt), s))"

definition ftp_connect ::
  "'u ftp_env \<Rightarrow> 'u trust_env \<Rightarrow> nat \<Rightarrow> target \<Rightarrow> 'u \<Rightarrow> ((protocol_error + (path \<times> bool) \<times> 'u ftp) \<times> 'u) option" where
  "ftp_connect fv te n t u =
     (let fv = fv\<lparr>fv_settings := ftp_settings_of t\<rparr>
      in (case open_trusted fv te (tg_name t) n u of
            None \<Rightarrow> None
          | Some (Inl e, u) \<Rightarrow> Some (Inl e, u)
          | Some (Inr c, u) \<Rightarrow>
              (case ftp_authenticate fv te (tg_name t) c u of
                 (Inl e, u) \<Rightarrow> Some (Inl e, u)
               | (Inr password, u) \<Rightarrow>
                   (case ftp_bounded fv (ftp_prepare fv c) u of
                      (Inl e, u) \<Rightarrow> Some (Inl e, u)
                    | (Inr _, u) \<Rightarrow>
                        (case ftp_fs_new fv (ftp_pool_new password c u) of
                           (Inl e, s) \<Rightarrow> Some (Inl e, fx_net s)
                         | (Inr made, s) \<Rightarrow> Some (Inr (made, s), fx_net s))))))"

end
