(* ===== verification/Ftp_Safe.thy ===== *)
theory Ftp_Safe
  imports Ftp_Fs Plan_Safe S3_Safe
begin

text \<open>
  What the FTP protocol promises: its dates are those of the other protocols, and a resumed upload
  continues the file.  And what it does not: the names of its listings are not checked, so a copy
  can leave the folder it goes to.
\<close>

section \<open>Dates\<close>

definition days_before_march :: "int \<Rightarrow> int" where
  "days_before_march y = 365 * y + y div 4 - y div 100 + y div 400 - 719468"

lemma era_days:
  "(y div 400) * 146097 + ((y mod 400) * 365 + (y mod 400) div 4 - (y mod 400) div 100 + n) - 719468 = days_before_march y + n"
proof -
  define e r where "e = y div 400" and "r = y mod 400"
  have y: "y = r + 400 * e" by (simp add: e_def r_def)
  have "y div 4 = 100 * e + r div 4" "y div 100 = 4 * e + r div 100"
    unfolding y using div_mult_self1 [of 4 r "100 * e"] div_mult_self1 [of 100 r "4 * e"] by simp_all
  moreover have "365 * y = 365 * r + 146000 * e" by (subst y) simp
  ultimately show ?thesis
    unfolding days_before_march_def e_def [symmetric] r_def [symmetric] by linarith
qed

lemma year_minus_era: "(y :: int) - y div 400 * 400 = y mod 400"
  by (simp add: minus_div_mult_eq_mod)

definition day_of_march_year :: "int \<Rightarrow> int \<Rightarrow> int" where
  "day_of_march_year month day = (153 * (if 2 < month then month - 3 else month + 9) + 2) div 5 + day - 1"

lemma s3_days: "days_from_civil year month day = days_before_march (year - (if month \<le> 2 then 1 else 0)) + day_of_march_year month day"
  unfolding days_from_civil_def Let_def
  using era_days [of "year - (if month \<le> 2 then 1 else 0)" "day_of_march_year month day"]
  by (simp add: day_of_march_year_def)

lemma scp_days: "days_of_date year month day = days_from_civil year month day"
  unfolding s3_days unfolding days_of_date_def Let_def
  using era_days [of "year - (if month \<le> 2 then 1 else 0)" "day_of_march_year month day"]
  by (simp add: day_of_march_year_def algebra_simps)

lemma ftp_days:
  assumes "1 \<le> month" "month \<le> 12"
  shows "ftp_days_from_civil year month day = days_from_civil year month day"
proof -
  have "month \<in> {1, 2, 3, 4, 5, 6, 7, 8, 9, 10, 11, 12}" using assms by simp presburger
  then have index: "(month + 9) mod 12 = (if 2 < month then month - 3 else month + 9)" by auto
  define y where "y = (if month \<le> 2 then year - 1 else year)"
  have "ftp_days_from_civil year month day =
      (y div 400) * 146097 + ((y mod 400) * 365 + (y mod 400) div 4 - (y mod 400) div 100 + day_of_march_year month day) - 719468"
    unfolding ftp_days_from_civil_def Let_def y_def [symmetric] year_minus_era index day_of_march_year_def by (rule refl)
  moreover have "year - (if month \<le> 2 then 1 else 0) = y" by (simp add: y_def)
  ultimately show ?thesis by (simp only: era_days s3_days)
qed

lemma div_step:
  assumes "0 < (n :: int)"
  shows "(y - 1) div n = y div n - (if n dvd y then 1 else 0)"
proof -
  define q r where "q = y div n" and "r = y mod n"
  have y: "y - 1 = r - 1 + q * n" by (simp add: q_def r_def)
  have "(y - 1) div n = q + (r - 1) div n" unfolding y using assms by simp
  moreover have "(r - 1) div n = (if r = 0 then -1 else 0)"
  proof (cases "r = 0")
    case False
    then have "0 \<le> r - 1" "r - 1 < n"
      using assms pos_mod_bound [of n y] pos_mod_sign [of n y] unfolding r_def by linarith+
    then show ?thesis using False by (simp add: div_pos_pos_trivial)
  qed (use assms in \<open>simp add: div_eq_minus1\<close>)
  ultimately show ?thesis by (simp add: q_def r_def dvd_eq_mod_eq_0)
qed

lemma year_length:
  "days_before_march (y - 1) + 365 \<le> days_before_march y" "days_before_march y \<le> days_before_march (y - 1) + 366"
proof -
  have "(100 :: int) dvd y \<Longrightarrow> 4 dvd y" "(400 :: int) dvd y \<Longrightarrow> 100 dvd y" by (erule dvd_trans [rotated]; simp)+
  then show "days_before_march (y - 1) + 365 \<le> days_before_march y" "days_before_march y \<le> days_before_march (y - 1) + 366"
    unfolding days_before_march_def by (auto simp: div_step)
qed

text \<open>A date lies within its year.\<close>

lemma date_in_year:
  assumes "1 \<le> month" "month \<le> 12" "1 \<le> day" "day \<le> 31"
  shows "days_of_date year 1 1 \<le> days_from_civil year month day" "days_from_civil year month day < days_of_date (year + 1) 1 1"
proof -
  note step = year_length [of year]
  have first: "days_of_date y 1 1 = days_before_march (y - 1) + 306" for y
    by (simp add: scp_days s3_days day_of_march_year_def)
  have months: "month \<in> {1, 2, 3, 4, 5, 6, 7, 8, 9, 10, 11, 12}" using assms(1,2) by simp presburger
  have early: "306 \<le> day_of_march_year month day \<and> day_of_march_year month day \<le> 367" if "month \<le> 2"
    using months that assms(3,4) by (auto simp: day_of_march_year_def)
  have late: "0 \<le> day_of_march_year month day \<and> day_of_march_year month day \<le> 305" if "\<not> month \<le> 2"
    using months that assms(3,4) by (auto simp: day_of_march_year_def)
  show "days_of_date year 1 1 \<le> days_from_civil year month day" "days_from_civil year month day < days_of_date (year + 1) 1 1"
    using step early late by (auto simp: first s3_days split: if_splits)
qed

lemma year_of_day:
  "case civil_from_days d of (year, month, day) \<Rightarrow> days_of_date year 1 1 \<le> d \<and> d < days_of_date (year + 1) 1 1"
  using civil_days_back [of d] date_in_year by (fastforce split: prod.splits)

lemma new_years_grow: "y \<le> z \<Longrightarrow> days_of_date y 1 1 \<le> days_of_date z 1 1"
proof (induction z rule: int_ge_induct)
  case (step z)
  then show ?case using new_year_grows [of z] by simp
qed simp

lemma year_of_day_unique:
  assumes "days_of_date y 1 1 \<le> d" "d < days_of_date (y + 1) 1 1" "days_of_date z 1 1 \<le> d" "d < days_of_date (z + 1) 1 1"
  shows "y = z"
  using assms new_years_grow [of "y + 1" z] new_years_grow [of "z + 1" y] by linarith

lemma year_down_below: "days_of_date (year_down d y) 1 1 \<le> d"
proof (induction d y rule: year_down.induct)
  case (1 d y)
  then show ?case by (subst year_down.simps) simp
qed

lemma year_up_between:
  assumes "days_of_date y 1 1 \<le> d"
  shows "days_of_date (year_up d y) 1 1 \<le> d \<and> d < days_of_date (year_up d y + 1) 1 1"
  using assms
proof (induction d y rule: year_up.induct)
  case (1 d y)
  then show ?case by (subst (1 2) year_up.simps) simp
qed

lemma civil_year: "civil_year_from_days d = fst (civil_from_days d)"
proof -
  define era where "era = (d + 719468) div 146097"
  define doe where "doe = (d + 719468) mod 146097"
  define yoe where "yoe = (doe - doe div 1460 + doe div 36524 - doe div 146096) div 365"
  define doy where "doy = doe - (365 * yoe + yoe div 4 - yoe div 100)"
  define m where "m = (5 * doy + 2) div 153"
  have doe: "d + 719468 - era * 146097 = doe" by (simp add: era_def doe_def minus_div_mult_eq_mod)
  have "0 \<le> doe" "doe < 146097" by (simp_all add: doe_def)
  note y = year_of_era [OF this, folded yoe_def, folded doy_def]
  have m: "0 \<le> m" "m \<le> 11" using month_of_day [of doy, folded m_def] y by simp_all
  have "civil_year_from_days d = yoe + era * 400 + (if 10 \<le> m then 1 else 0)"
    unfolding civil_year_from_days_def Let_def era_def [symmetric] doe
    unfolding yoe_def [symmetric] unfolding doy_def [symmetric] unfolding m_def [symmetric] by (rule refl)
  moreover have "fst (civil_from_days d) = yoe + era * 400 + (if (if m < 10 then m + 3 else m - 9) \<le> 2 then 1 else 0)"
    unfolding civil_from_days_def Let_def era_def [symmetric] doe_def [symmetric]
    unfolding yoe_def [symmetric] unfolding doy_def [symmetric] unfolding m_def [symmetric] by (rule fst_conv)
  ultimately show ?thesis using m by auto
qed

text \<open>(C40) The three calendars of the program are one: for every date with a month from 1 to 12 the S3 clock, the FTP listings and the SCP listings count the same day, and for every time below 2 to the 63 the years the FTP and the SCP listings take for the current one, by a closed form and by two loops, are the year of the S3 clock.\<close>

theorem calendars_agree:
  assumes "1 \<le> month" "month \<le> 12" and "unix < 2 ^ 63"
  shows "ftp_days_from_civil year month day = days_from_civil year month day \<and>
         days_of_date year month day = days_from_civil year month day \<and>
         ftp_year_of unix = fst (civil_from_days (int unix div 86400)) \<and>
         year_of unix = fst (civil_from_days (int unix div 86400))"
proof -
  let ?d = "int unix div 86400"
  have whole: "as_i64 unix = int unix" "as_i64 (unix div 86400) = ?d"
    using assms(3) by (simp_all add: as_i64_def zdiv_int)
  have "days_of_date (year_of unix) 1 1 \<le> ?d \<and> ?d < days_of_date (year_of unix + 1) 1 1"
    unfolding year_of_def Let_def whole DAY_SECONDS_def by (intro year_up_between year_down_below)
  moreover have "days_of_date (fst (civil_from_days ?d)) 1 1 \<le> ?d \<and> ?d < days_of_date (fst (civil_from_days ?d) + 1) 1 1"
    using year_of_day [of ?d] by (simp split: prod.splits)
  ultimately have "year_of unix = fst (civil_from_days ?d)" using year_of_day_unique by blast
  then show ?thesis using ftp_days [OF assms(1,2)] scp_days by (simp add: ftp_year_of_def whole civil_year)
qed

lemma calendars_agree_witness:
  "ftp_days_from_civil 2024 2 29 = days_from_civil 2024 2 29 \<and> days_of_date 2024 2 29 = days_from_civil 2024 2 29 \<and>
   ftp_year_of 1709164800 = fst (civil_from_days (int 1709164800 div 86400)) \<and>
   year_of 1709164800 = fst (civil_from_days (int 1709164800 div 86400))"
  by (rule calendars_agree) simp_all

section \<open>Names of a listing\<close>

text \<open>A name that is a path is taken as it is: joined to a folder it replaces the folder.\<close>

lemma join_absolute: "starts_with name ''/'' \<Longrightarrow> join_name p name = path_of_string name"
  by (simp add: join_name_def path_join_def path_of_string_def is_absolute_def file_sep_def Let_def)

lemma mlsd_line_name:
  assumes "starts_with name ''/''"
  shows "parse_mlsd_line (''type=file; '' @ name) =
    Some \<lparr>li_name = name, li_metadata = \<lparr>m_size = 0, m_modified = None, m_kind = File, m_permissions = None\<rparr>, li_link_target = None\<rparr>"
proof -
  have "metadata_from_facts ''type=file;'' True = Some \<lparr>m_size = 0, m_modified = None, m_kind = File, m_permissions = None\<rparr>"
    by (simp add: metadata_from_facts_def split_first_def add_fact_def fact_kind_def to_lowercase_def ascii_lower_def
        trim_def trim_start_def trim_end_def is_whitespace_def)
  moreover have "split_first (CHR '' '') (''type=file; '' @ name) = Some (''type=file;'', name)"
    by (simp add: split_first_def)
  moreover have "name \<noteq> []" "name \<noteq> ''.''" "name \<noteq> ''..''" using assms by (auto simp: starts_with_def)
  ultimately show ?thesis by (simp add: parse_mlsd_line_def)
qed

text \<open>(C39) The names an FTP server lists are not checked, and a copy follows them: a line of a listing whose name is an absolute path is listed as a file of that name, and planned for that path itself, whatever folder the copy goes to and wherever in the copied tree the line stands; the same name chosen alone is planned for the path itself too.\<close>

theorem listed_name_leaves_destination:
  assumes "starts_with name ''/''"
  shows "\<exists>item. parse_mlsd_line (''type=file; '' @ name) = Some item \<and>
    map pf_destination (planned_files_for_tree e dest_root
      (add_file (join_name relative (d_name (ftp_dir_item parent item))) (d_metadata (ftp_dir_item parent item)) empty_tree)) =
      [path_of_string name] \<and>
    pf_destination (planned_file_for_loose_entry
      \<lparr>e_name = li_name item, e_path = path_of_string (listed_path parent item), e_is_dir = False, e_size = 0, e_permissions = None\<rparr>
      dest_root) = path_of_string name"
proof -
  have absolute: "path_join dest_root (path_of_string name) = path_of_string name"
    using assms by (simp add: path_join_def path_of_string_def is_absolute_def file_sep_def Let_def)
  show ?thesis
    using mlsd_line_name [OF assms] absolute join_absolute [OF assms]
    by (simp add: planned_files_for_tree_def add_file_def empty_tree_def ftp_dir_item_def planned_file_for_loose_entry_def)
qed

lemma listed_name_leaves_destination_witness:
  "\<exists>item. parse_mlsd_line (''type=file; '' @ ''/etc/passwd'') = Some item \<and>
    map pf_destination (planned_files_for_tree
      \<lparr>e_name = ''pub'', e_path = [RootDir, Normal ''pub''], e_is_dir = True, e_size = 0, e_permissions = None\<rparr> [RootDir, Normal ''d'']
      (add_file (join_name [] (d_name (ftp_dir_item ''/pub'' item))) (d_metadata (ftp_dir_item ''/pub'' item)) empty_tree)) =
      [path_of_string ''/etc/passwd''] \<and>
    pf_destination (planned_file_for_loose_entry
      \<lparr>e_name = li_name item, e_path = path_of_string (listed_path ''/pub'' item), e_is_dir = False, e_size = 0, e_permissions = None\<rparr>
      [RootDir, Normal ''d'']) = path_of_string ''/etc/passwd''"
  by (rule listed_name_leaves_destination) (simp add: starts_with_def)

section \<open>Resumed uploads\<close>

text \<open>What \<^const>\<open>open_writing\<close> found: the way of starting that the server took.\<close>

lemma open_writing_started:
  assumes "open_writing fv c p offset start s = (Inr w, s')"
  shows "\<exists>way u stream u'. start_writing fv c p offset way u = (Inr stream, u') \<and> w_offset w = start_offset way offset \<and>
    fmlookup (fx_writers s') (w_stream w) = Some (Streaming stream c) \<and> (start = Store \<longrightarrow> way = Store)"
  using assms
proof (induction fv c p offset start s rule: open_writing.induct)
  case (1 fv c p offset start s)
  obtain r s1 where r: "on_net (start_writing fv c p offset start) s = (r, s1)" by fastforce
  show ?case
  proof (cases r)
    case (Inr stream)
    then obtain u' where "start_writing fv c p offset start (fx_net s) = (Inr stream, u')"
      using r by (auto simp: on_net_def split: prod.splits)
    moreover have "w_offset w = start_offset start offset" "fmlookup (fx_writers s') (w_stream w) = Some (Streaming stream c)"
      using 1(2) r Inr by (auto simp: open_writing.simps ftp_keep_writer_def)
    ultimately show ?thesis by blast
  next
    case (Inl e)
    then obtain "next" where lost: "\<not> is_connection_lost e" and fall: "write_fallback start = Some next"
      and rest: "open_writing fv c p offset next s1 = (Inr w, s')"
      using 1(2) r by (auto simp: open_writing.simps [of fv c p offset start] split: if_splits option.splits)
    have "start \<noteq> Store" using fall by auto
    then show ?thesis using 1(1) [OF r [symmetric] Inl lost fall rest] by blast
  qed
qed

text \<open>An upload over FTP tells where it continues: when a file is opened for writing at an offset, the server has accepted to continue there or to append, and the writer continues at the offset, or the file was begun anew and the writer begins at zero; a file opened from the start is never appended to.\<close>

theorem upload_offset_is_true:
  assumes "ftp_open_write fv p offset s = (Inr w, s')"
  shows "\<exists>c way u stream u'.
    start_writing fv c (path_to_remote_string p) offset way u = (Inr stream, u') \<and>
    fmlookup (fx_writers s') (w_stream w) = Some (Streaming stream c) \<and>
    w_offset w = (if way = Store then 0 else offset) \<and> (offset = 0 \<longrightarrow> way = Store)"
proof -
  obtain c s1 where "open_writing fv c (path_to_remote_string p) offset (first_write_start offset) s1 = (Inr w, s')"
    using assms by (auto simp: ftp_open_write_def eff_bind_def split: prod.splits sum.splits)
  from open_writing_started [OF this] obtain way u stream u' where
    "start_writing fv c (path_to_remote_string p) offset way u = (Inr stream, u')" "w_offset w = start_offset way offset"
    "fmlookup (fx_writers s') (w_stream w) = Some (Streaming stream c)" "first_write_start offset = Store \<longrightarrow> way = Store"
    by blast
  moreover from this have "w_offset w = (if way = Store then 0 else offset) \<and> (offset = 0 \<longrightarrow> way = Store)"
    by (simp add: start_offset_def first_write_start_def)
  ultimately show ?thesis by blast
qed

text \<open>A server that refuses to continue a file, and begins it anew.\<close>

definition sample_ftp_env :: "unit ftp_env" where
  "sample_ftp_env =
     \<lparr>fv_settings = \<lparr>ft_host = ''h'', ft_port = 21, ft_username = ''u'', ft_password = None, ft_security = Plain, ft_passive = True\<rparr>,
      fv_failure_text = (\<lambda>_. []), fv_take_problem = (\<lambda>u. (None, u)), fv_dial = (\<lambda>u. (Inr 1, u)), fv_secure = (\<lambda>c u. (Inr c, u)),
      fv_dial_secure = (\<lambda>u. (Inr 1, u)), fv_in_time = (\<lambda>u. (True, u)), fv_login = (\<lambda>_ _ _ u. (Inr (), u)),
      fv_binary = (\<lambda>_ u. (Inr (), u)), fv_utf8 = (\<lambda>_ u. (Inr (), u)), fv_set_mode = (\<lambda>_ _ u. u), fv_nat_workaround = (\<lambda>_ u. u),
      fv_lookup = (\<lambda>_ _ u. (None, u)), fv_command = (\<lambda>_ _ u. (Inr [], u)), fv_custom = (\<lambda>_ _ _ u. (Inr (200, []), u)),
      fv_size = (\<lambda>_ _ u. (Inr 0, u)), fv_mdtm = (\<lambda>_ _ u. (Inr 0, u)), fv_data = (\<lambda>_ _ u. (Inr 0, u)), fv_lines = (\<lambda>_ u. ([], u)),
      fv_rest = (\<lambda>_ _ u. (Inl (UnexpectedReply 502 []), u)), fv_retr = (\<lambda>_ _ u. (Inr 5, u)), fv_stor = (\<lambda>_ _ u. (Inr 6, u)),
      fv_appe = (\<lambda>_ _ u. (Inl (UnexpectedReply 502 []), u)), fv_finish = (\<lambda>_ u. (Inr (), u)), fv_read = (\<lambda>_ _ u. (DataEof, u)),
      fv_write = (\<lambda>_ bs u. (Inr (length bs), u)), fv_flush = (\<lambda>_ u. (Inr (), u)), fv_now = (\<lambda>u. (0, u))\<rparr>"

lemma upload_offset_is_true_witness:
  "\<exists>w s'. ftp_open_write sample_ftp_env [RootDir, Normal ''f''] 9 (ftp_pool_new ''p'' 0 ()) = (Inr w, s') \<and> w_offset w = 0 \<and>
     (\<exists>c way u stream u'.
        start_writing sample_ftp_env c (path_to_remote_string [RootDir, Normal ''f'']) 9 way u = (Inr stream, u') \<and>
        fmlookup (fx_writers s') (w_stream w) = Some (Streaming stream c) \<and> w_offset w = (if way = Store then 0 else 9))"
proof -
  obtain w s' where run: "ftp_open_write sample_ftp_env [RootDir, Normal ''f''] 9 (ftp_pool_new ''p'' 0 ()) = (Inr w, s')"
    and zero: "w_offset w = 0"
    by (simp add: ftp_open_write_def eff_bind_def ftp_borrow_def ftp_pool_new_def open_logged_in_def ftp_open_def ftp_dial_def
        ftp_bounded_def ftp_login_with_def ftp_prepare_def peer_address_def eff_return_def first_write_start_def
        open_writing.simps start_writing_def on_net_def is_connection_lost_def ftp_keep_writer_def start_offset_def sample_ftp_env_def Let_def)
  from upload_offset_is_true [OF run] run zero show ?thesis by blast
qed

end
