(* ===== verification/Sftp_Fs.thy ===== *)
theory Sftp_Fs
  imports Ssh_Session Search
begin

text \<open>
  \<^verbatim>\<open>protocols/sftp\<close>: the session of the subsystem (\<^verbatim>\<open>subsystem\<close>, \<^verbatim>\<open>lib\<close>), the file system over it (\<^verbatim>\<open>fs\<close>)
  and the search (\<^verbatim>\<open>search\<close>).

  The calls of the SFTP library are the parameter; its answers, and what the server does, are the
  world.  An open file, and a channel of the session, is a number.
\<close>

section \<open>The library\<close>

text \<open>What the library says of a file, by the methods of its metadata.\<close>

record sftp_metadata =
  sm_is_symlink :: bool
  sm_is_dir :: bool
  sm_len :: nat
  sm_mtime :: "nat option"
  sm_mode :: "nat option"

text \<open>The attributes a call changes.\<close>

record sftp_attributes =
  sa_size :: "nat option"
  sa_atime :: "nat option"
  sa_mtime :: "nat option"

definition sftp_attributes_empty :: sftp_attributes where
  "sftp_attributes_empty = \<lparr>sa_size = None, sa_atime = None, sa_mtime = None\<rparr>"

text \<open>An error of the library: the two codes of a status that are told apart, or another one.\<close>

datatype sftp_fault = NoSuchFile string | NoPermission string | OtherFault string

datatype open_flag = FlagWrite | FlagCreate

record sftp_config =
  sc_request_timeout_secs :: nat
  sc_max_concurrent_reads :: nat
  sc_max_concurrent_writes :: nat
  sc_max_write_packet_len :: nat

text \<open>A wait for a message of a channel, or for a tenth of a second.\<close>

datatype waited =
    WaitTick
  | WaitData string
  | WaitExit nat
  | WaitEof
  | WaitClose
  | WaitOther
  | WaitGone

type_synonym ('u, 'a) sftp_call = "'u \<Rightarrow> (sftp_fault + 'a) \<times> 'u"

record 'u sftp_env = "'u ssh_env" +
  pv_channel :: "'u \<Rightarrow> (string + nat) \<times> 'u"
  pv_request_subsystem :: "nat \<Rightarrow> string \<Rightarrow> 'u \<Rightarrow> (string + unit) \<times> 'u"
  pv_start :: "nat \<Rightarrow> sftp_config \<Rightarrow> 'u \<Rightarrow> (string + unit) \<times> 'u"
  pv_exec :: "nat \<Rightarrow> string \<Rightarrow> 'u \<Rightarrow> (string + unit) \<times> 'u"
  pv_wait :: "nat \<Rightarrow> 'u \<Rightarrow> waited \<times> 'u"
  pv_lossy :: "string \<Rightarrow> string"
  pv_read_dir :: "string \<Rightarrow> ('u, (string \<times> sftp_metadata) list) sftp_call"
  pv_metadata :: "string \<Rightarrow> ('u, sftp_metadata) sftp_call"
  pv_symlink_metadata :: "string \<Rightarrow> ('u, sftp_metadata) sftp_call"
  pv_create_dir :: "string \<Rightarrow> ('u, unit) sftp_call"
  pv_rename :: "string \<Rightarrow> string \<Rightarrow> ('u, unit) sftp_call"
  pv_remove_file :: "string \<Rightarrow> ('u, unit) sftp_call"
  pv_remove_dir :: "string \<Rightarrow> ('u, unit) sftp_call"
  pv_set_metadata :: "string \<Rightarrow> sftp_attributes \<Rightarrow> ('u, unit) sftp_call"
  pv_canonicalize :: "string \<Rightarrow> ('u, string) sftp_call"
  pv_open :: "string \<Rightarrow> ('u, handle) sftp_call"
  pv_create :: "string \<Rightarrow> ('u, handle) sftp_call"
  pv_open_with_flags :: "string \<Rightarrow> open_flag list \<Rightarrow> ('u, handle) sftp_call"
  pv_set_file_metadata :: "handle \<Rightarrow> sftp_attributes \<Rightarrow> ('u, unit) sftp_call"
  pv_seek :: "handle \<Rightarrow> nat \<Rightarrow> ('u, unit) io"
  pv_read :: "handle \<Rightarrow> nat \<Rightarrow> ('u, 8 word list) io"
  pv_write_all :: "handle \<Rightarrow> 8 word list \<Rightarrow> ('u, unit) io"
  pv_flush :: "handle \<Rightarrow> ('u, unit) io"
  pv_shutdown :: "handle \<Rightarrow> ('u, unit) io"

section \<open>The session (subsystem, lib)\<close>

definition SFTP_REQUEST_TIMEOUT_SECS :: nat where
  "SFTP_REQUEST_TIMEOUT_SECS = 60"

definition SFTP_MAX_CONCURRENT_READS :: nat where
  "SFTP_MAX_CONCURRENT_READS = 8"

definition SFTP_MAX_CONCURRENT_WRITES :: nat where
  "SFTP_MAX_CONCURRENT_WRITES = 16"

definition SFTP_MAX_WRITE_PACKET_LEN :: nat where
  "SFTP_MAX_WRITE_PACKET_LEN = 32 * 1024"

definition SFTP_RESUME_BACKOFF_BYTES :: nat where
  "SFTP_RESUME_BACKOFF_BYTES = SFTP_MAX_CONCURRENT_WRITES * SFTP_MAX_WRITE_PACKET_LEN"

definition open_sftp :: "'u sftp_env \<Rightarrow> 'u \<Rightarrow> (string + unit) \<times> 'u" where
  "open_sftp pv u =
     (case pv_channel pv u of
        (Inl e, u) \<Rightarrow> (Inl e, u)
      | (Inr ch, u) \<Rightarrow>
          (case pv_request_subsystem pv ch ''sftp'' u of
             (Inl e, u) \<Rightarrow> (Inl e, u)
           | (Inr _, u) \<Rightarrow>
               pv_start pv ch
                 \<lparr>sc_request_timeout_secs = SFTP_REQUEST_TIMEOUT_SECS, sc_max_concurrent_reads = SFTP_MAX_CONCURRENT_READS,
                  sc_max_concurrent_writes = SFTP_MAX_CONCURRENT_WRITES,
                  sc_max_write_packet_len = SFTP_MAX_WRITE_PACKET_LEN\<rparr> u))"

definition start_sftp :: "'u sftp_env \<Rightarrow> ('u, unit) effect" where
  "start_sftp pv u =
     (case open_sftp pv u of
        (Inl e, u) \<Rightarrow> (Inl (protocol_error_new SessionStart e), u)
      | (Inr _, u) \<Rightarrow> (Inr (), u))"

definition sftp_connection_form :: connection_form where
  "sftp_connection_form =
     (let form = standard_form SSH_DEFAULT_PORT
      in form\<lparr>fm_options := fm_options form @
                [\<lparr>of_key = ''identity_file'', of_label = ''Identity file'', of_required = False, of_kind = TextOption []\<rparr>]\<rparr>)"

definition sftp_connect :: "'u sftp_env \<Rightarrow> target \<Rightarrow> ('u, unit) effect" where
  "sftp_connect pv t = eff_bind (ssh_connect (ssh_env.truncate pv) t connect_options_default) (\<lambda>_. start_sftp pv)"

section \<open>Errors and metadata (fs)\<close>

definition sftp_error :: "sftp_fault \<Rightarrow> protocol_error" where
  "sftp_error e =
     (case e of
        NoSuchFile shown \<Rightarrow> protocol_error_new NotFound shown
      | NoPermission shown \<Rightarrow> protocol_error_new PermissionDenied shown
      | OtherFault shown \<Rightarrow> protocol_error_new Other shown)"

definition sftp_effect :: "('u, 'a) sftp_call \<Rightarrow> ('u, 'a) effect" where
  "sftp_effect m u = (case m u of (Inl e, u) \<Rightarrow> (Inl (sftp_error e), u) | (Inr a, u) \<Rightarrow> (Inr a, u))"

definition sf_bind :: "('u, 'a) sftp_call \<Rightarrow> ('a \<Rightarrow> ('u, 'b) sftp_call) \<Rightarrow> ('u, 'b) sftp_call" where
  "sf_bind m f u = (case m u of (Inl e, u) \<Rightarrow> (Inl e, u) | (Inr a, u) \<Rightarrow> f a u)"

definition metadata_from_sftp :: "sftp_metadata \<Rightarrow> metadata" where
  "metadata_from_sftp m =
     \<lparr>m_size = sm_len m, m_modified = sm_mtime m,
      m_kind = (if sm_is_symlink m then Symlink else if sm_is_dir m then Dir else File), m_permissions = sm_mode m\<rparr>"

definition sftp_time :: "nat \<Rightarrow> nat" where
  "sftp_time seconds = min seconds (2 ^ 32 - 1)"

section \<open>Renaming and removing\<close>

definition backup_name :: "string \<Rightarrow> string" where
  "backup_name to = to @ ''.bak''"

definition rename_overwriting :: "'u sftp_env \<Rightarrow> string \<Rightarrow> string \<Rightarrow> ('u, unit) sftp_call" where
  "rename_overwriting pv from to u =
     (case pv_rename pv from to u of
        (Inr _, u) \<Rightarrow> (Inr (), u)
      | (Inl _, u) \<Rightarrow>
          (case pv_rename pv to (backup_name to) u of
             (Inl e, u) \<Rightarrow> (Inl e, u)
           | (Inr _, u) \<Rightarrow>
               (case pv_rename pv from to u of
                  (Inr _, u) \<Rightarrow> (Inr (), snd (pv_remove_file pv (backup_name to) u))
                | (Inl e, u) \<Rightarrow> (Inl e, snd (pv_rename pv (backup_name to) to u)))))"

text \<open>The recursion follows what the server lists, so it is bounded by a depth.\<close>

fun remove_dir_recursive :: "nat \<Rightarrow> 'u sftp_env \<Rightarrow> string \<Rightarrow> 'u \<Rightarrow> ((sftp_fault + unit) \<times> 'u) option"
  and remove_children :: "nat \<Rightarrow> 'u sftp_env \<Rightarrow> string \<Rightarrow> (string \<times> sftp_metadata) list \<Rightarrow> 'u \<Rightarrow> ((sftp_fault + unit) \<times> 'u) option"
where
  "remove_dir_recursive 0 pv p u = None"
| "remove_dir_recursive (Suc depth) pv p u =
     (case pv_read_dir pv p u of
        (Inl e, u) \<Rightarrow> Some (Inl e, u)
      | (Inr children, u) \<Rightarrow>
          (case remove_children depth pv p children u of
             None \<Rightarrow> None
           | Some (Inl e, u) \<Rightarrow> Some (Inl e, u)
           | Some (Inr _, u) \<Rightarrow> Some (pv_remove_dir pv p u)))"
| "remove_children depth pv p [] u = Some (Inr (), u)"
| "remove_children depth pv p ((name, m) # children) u =
     (let child = join_remote p name
      in case (if sm_is_dir m then remove_dir_recursive depth pv child u else Some (pv_remove_file pv child u)) of
           None \<Rightarrow> None
         | Some (Inl e, u) \<Rightarrow> Some (Inl e, u)
         | Some (Inr _, u) \<Rightarrow> remove_children depth pv p children u)"

definition sftp_rename :: "'u sftp_env \<Rightarrow> path \<Rightarrow> path \<Rightarrow> ('u, unit) effect" where
  "sftp_rename pv from to = sftp_effect (rename_overwriting pv (path_to_remote_string from) (path_to_remote_string to))"

definition sftp_remove_file :: "'u sftp_env \<Rightarrow> path \<Rightarrow> ('u, unit) effect" where
  "sftp_remove_file pv p = sftp_effect (pv_remove_file pv (path_to_remote_string p))"

definition sftp_delete :: "nat \<Rightarrow> 'u sftp_env \<Rightarrow> path \<Rightarrow> ('u, unit) bounded" where
  "sftp_delete depth pv p u =
     (let remote = path_to_remote_string p
      in case pv_symlink_metadata pv remote u of
           (Inl e, u) \<Rightarrow> Some (Inl (sftp_error e), u)
         | (Inr m, u) \<Rightarrow>
             map_option (\<lambda>(r, u). (map_sum sftp_error id r, u))
               (if sm_is_dir m then remove_dir_recursive depth pv remote u else Some (pv_remove_file pv remote u)))"

section \<open>Folders and files\<close>

text \<open>A link counts as a folder when it leads to one.\<close>

definition listed_is_dir :: "'u sftp_env \<Rightarrow> string \<Rightarrow> sftp_metadata \<Rightarrow> 'u \<Rightarrow> bool \<times> 'u" where
  "listed_is_dir pv entry_path m u =
     (if sm_is_symlink m
      then (case pv_metadata pv entry_path u of (Inr resolved, u) \<Rightarrow> (sm_is_dir resolved, u) | (Inl _, u) \<Rightarrow> (False, u))
      else (sm_is_dir m, u))"

definition sftp_entry :: "string \<Rightarrow> string \<Rightarrow> bool \<Rightarrow> sftp_metadata \<Rightarrow> entry" where
  "sftp_entry name entry_path is_dir m =
     \<lparr>e_name = name, e_path = path_of_string entry_path, e_is_dir = is_dir, e_size = sm_len m, e_permissions = sm_mode m\<rparr>"

fun sftp_entries :: "'u sftp_env \<Rightarrow> string \<Rightarrow> (string \<times> sftp_metadata) list \<Rightarrow> 'u \<Rightarrow> entry list \<times> 'u" where
  "sftp_entries pv p [] u = ([], u)"
| "sftp_entries pv p ((name, m) # rest) u =
     (case listed_is_dir pv (join_remote p name) m u of
        (is_dir, u) \<Rightarrow>
          (case sftp_entries pv p rest u of
             (entries, u) \<Rightarrow> (sftp_entry name (join_remote p name) is_dir m # entries, u)))"

definition sftp_list :: "'u sftp_env \<Rightarrow> path \<Rightarrow> ('u, entry list) effect" where
  "sftp_list pv dir =
     (let p = path_to_remote_string dir
      in eff_bind (sftp_effect (pv_read_dir pv p)) (\<lambda>listed u.
           case sftp_entries pv p listed u of (entries, u) \<Rightarrow> (Inr entries, u)))"

definition sftp_item :: "string \<Rightarrow> string \<times> sftp_metadata \<Rightarrow> dir_item" where
  "sftp_item p listed =
     (case listed of (name, m) \<Rightarrow>
        \<lparr>d_name = name, d_path = path_of_string (join_remote p name), d_metadata = metadata_from_sftp m\<rparr>)"

definition sftp_read_dir :: "'u sftp_env \<Rightarrow> path \<Rightarrow> ('u, dir_item list) effect" where
  "sftp_read_dir pv dir =
     (let p = path_to_remote_string dir
      in eff_bind (sftp_effect (pv_read_dir pv p)) (\<lambda>listed. eff_return (map (sftp_item p) listed)))"

definition sftp_stat :: "'u sftp_env \<Rightarrow> path \<Rightarrow> ('u, metadata) effect" where
  "sftp_stat pv p =
     eff_bind (sftp_effect (pv_metadata pv (path_to_remote_string p))) (\<lambda>m. eff_return (metadata_from_sftp m))"

definition sftp_create_dir :: "'u sftp_env \<Rightarrow> path \<Rightarrow> ('u, unit) effect" where
  "sftp_create_dir pv p = sftp_effect (pv_create_dir pv (path_to_remote_string p))"

definition sftp_set_modified :: "'u sftp_env \<Rightarrow> path \<Rightarrow> nat \<Rightarrow> ('u, unit) effect" where
  "sftp_set_modified pv p seconds =
     (let stamp = sftp_time seconds
      in sftp_effect (pv_set_metadata pv (path_to_remote_string p)
           (sftp_attributes_empty\<lparr>sa_atime := Some stamp, sa_mtime := Some stamp\<rparr>)))"

definition sftp_home :: "'u sftp_env \<Rightarrow> ('u, path) effect" where
  "sftp_home pv = eff_bind (sftp_effect (pv_canonicalize pv ''.'')) (\<lambda>home. eff_return (path_of_string home))"

definition sftp_open_read :: "'u sftp_env \<Rightarrow> path \<Rightarrow> nat \<Rightarrow> ('u, handle) effect" where
  "sftp_open_read pv p offset =
     eff_bind (sftp_effect (pv_open pv (path_to_remote_string p))) (\<lambda>h.
     eff_bind (io_effect (pv_seek pv h offset)) (\<lambda>_. eff_return h))"

definition sftp_create :: "'u sftp_env \<Rightarrow> string \<Rightarrow> ('u, writer) effect" where
  "sftp_create pv remote =
     eff_bind (sftp_effect (pv_create pv remote)) (\<lambda>h. eff_return \<lparr>w_stream = h, w_offset = 0\<rparr>)"

text \<open>A file that can't be opened to be continued is created anew; that it can't be cut is not noticed.\<close>

definition sftp_open_write :: "'u sftp_env \<Rightarrow> path \<Rightarrow> nat \<Rightarrow> ('u, writer) effect" where
  "sftp_open_write pv p offset u =
     (let remote = path_to_remote_string p
      in if offset = 0 then sftp_create pv remote u
         else (case pv_open_with_flags pv remote [FlagWrite, FlagCreate] u of
                 (Inl _, u) \<Rightarrow> sftp_create pv remote u
               | (Inr h, u) \<Rightarrow>
                   eff_bind (io_effect (pv_seek pv h offset)) (\<lambda>_. eff_return \<lparr>w_stream = h, w_offset = offset\<rparr>)
                     (snd (pv_set_file_metadata pv h (sftp_attributes_empty\<lparr>sa_size := Some offset\<rparr>) u))))"

definition sftp_file_system :: "'u sftp_env \<Rightarrow> 'u file_system" where
  "sftp_file_system pv =
     \<lparr>fs_read_dir = sftp_read_dir pv, fs_stat = sftp_stat pv, fs_create_dir = sftp_create_dir pv,
      fs_rename = sftp_rename pv, fs_remove_file = sftp_remove_file pv, fs_open_read = sftp_open_read pv,
      fs_open_write_sized = default_open_write_sized (sftp_open_write pv), fs_set_modified = sftp_set_modified pv,
      fs_read = (\<lambda>h n. io_effect (pv_read pv h n)), fs_write_all = (\<lambda>h bs. io_effect (pv_write_all pv h bs)),
      fs_flush = (\<lambda>h. io_effect (pv_flush pv h)), fs_shutdown = (\<lambda>h. io_effect (pv_shutdown pv h)),
      fs_transfer_limit = default_transfer_limit, fs_resume_backoff = SFTP_RESUME_BACKOFF_BYTES,
      fs_can_set_modified = True, fs_time_resolution = default_time_resolution\<rparr>"

section \<open>Searching (search)\<close>

definition find_command :: "string \<Rightarrow> string \<Rightarrow> nat \<Rightarrow> string" where
  "find_command root pattern max_depth =
     ''find '' @ shell_quote root @ '' -maxdepth '' @ show_nat max_depth @ '' -iname '' @ shell_quote pattern"

text \<open>
  The messages of the command, at most \<open>n\<close> waits; \<^const>\<open>None\<close> inside when the search was cancelled, else
  the output and whether the exit was reported as a success.
\<close>

fun find_messages :: "nat \<Rightarrow> 'u sftp_env \<Rightarrow> 'u flag \<Rightarrow> nat \<Rightarrow> string \<Rightarrow> bool \<Rightarrow> 'u \<Rightarrow> ((string \<times> bool) option \<times> 'u) option" where
  "find_messages 0 pv cancel ch output exit_ok u = None"
| "find_messages (Suc n) pv cancel ch output exit_ok u =
     (case cancel u of
        (True, u) \<Rightarrow> Some (None, u)
      | (False, u) \<Rightarrow>
          (case pv_wait pv ch u of
             (WaitTick, u) \<Rightarrow> find_messages n pv cancel ch output exit_ok u
           | (WaitData data, u) \<Rightarrow> find_messages n pv cancel ch (output @ data) exit_ok u
           | (WaitExit status, u) \<Rightarrow> find_messages n pv cancel ch output (status = 0) u
           | (WaitEof, u) \<Rightarrow> Some (Some (output, exit_ok), u)
           | (WaitClose, u) \<Rightarrow> Some (Some (output, exit_ok), u)
           | (WaitOther, u) \<Rightarrow> find_messages n pv cancel ch output exit_ok u
           | (WaitGone, u) \<Rightarrow> Some (Some (output, exit_ok), u)))"

definition run_find :: "nat \<Rightarrow> 'u sftp_env \<Rightarrow> string \<Rightarrow> string \<Rightarrow> nat \<Rightarrow> 'u flag \<Rightarrow> 'u \<Rightarrow> (string list option \<times> 'u) option" where
  "run_find n pv root pattern max_depth cancel u =
     (case pv_channel pv u of
        (Inl _, u) \<Rightarrow> Some (None, u)
      | (Inr ch, u) \<Rightarrow>
          (case pv_exec pv ch (find_command root pattern max_depth) u of
             (Inl _, u) \<Rightarrow> Some (None, u)
           | (Inr _, u) \<Rightarrow>
               map_option (\<lambda>(heard, u).
                   (case heard of
                      Some (output, True) \<Rightarrow> Some (filter (\<lambda>line. line \<noteq> []) (text_lines (pv_lossy pv output)))
                    | _ \<Rightarrow> None, u))
                 (find_messages n pv cancel ch [] False u)))"

text \<open>\<^verbatim>\<open>path.rsplit('/').next()\<close>.\<close>

definition last_segment :: "string \<Rightarrow> string" where
  "last_segment p = last (split_on file_sep p)"

fun report_paths :: "'u sftp_env \<Rightarrow> nat \<Rightarrow> 'u flag \<Rightarrow> string list \<Rightarrow> nat \<Rightarrow> search_event list \<Rightarrow> 'u \<Rightarrow> search_event list \<times> 'u" where
  "report_paths pv max_results cancel [] found sent u = (sent @ [SearchDone False], u)"
| "report_paths pv max_results cancel (p # ps) found sent u =
     (case cancel u of
        (True, u) \<Rightarrow> (sent, u)
      | (False, u) \<Rightarrow>
          if max_results \<le> found then (sent @ [SearchDone True], u)
          else (case pv_metadata pv p u of
                  (Inl _, u) \<Rightarrow> report_paths pv max_results cancel ps found sent u
                | (Inr m, u) \<Rightarrow>
                    report_paths pv max_results cancel ps (found + 1)
                      (sent @ [Found (sftp_entry (last_segment p) p (sm_is_dir m) m)]) u))"

text \<open>The state of the walk; \<open>rw_stopped\<close> is the return when it is cancelled.\<close>

record remote_walk =
  rw_found :: nat
  rw_truncated :: bool
  rw_stack :: "(string \<times> nat) list"
  rw_sent :: "search_event list"
  rw_stopped :: bool

fun walk_entries ::
  "string \<Rightarrow> nat \<Rightarrow> 'u flag \<Rightarrow> string \<Rightarrow> nat \<Rightarrow> (string \<times> sftp_metadata) list \<Rightarrow> remote_walk \<Rightarrow> 'u \<Rightarrow> remote_walk \<times> 'u" where
  "walk_entries pattern max_results cancel dir depth [] st u = (st, u)"
| "walk_entries pattern max_results cancel dir depth ((name, m) # rest) st u =
     (case cancel u of
        (True, u) \<Rightarrow> (st\<lparr>rw_stopped := True\<rparr>, u)
      | (False, u) \<Rightarrow>
          if max_results \<le> rw_found st then (st\<lparr>rw_truncated := True\<rparr>, u)
          else
            let p = join_remote dir name;
                st = (if glob_match pattern name
                      then st\<lparr>rw_sent := rw_sent st @ [Found (sftp_entry name p (sm_is_dir m) m)], rw_found := rw_found st + 1\<rparr>
                      else st);
                st = (if sm_is_dir m then st\<lparr>rw_stack := (p, depth + 1) # rw_stack st\<rparr> else st)
            in walk_entries pattern max_results cancel dir depth rest st u)"

fun walk_remote ::
  "nat \<Rightarrow> 'u sftp_env \<Rightarrow> string \<Rightarrow> nat \<Rightarrow> nat \<Rightarrow> 'u flag \<Rightarrow> remote_walk \<Rightarrow> 'u \<Rightarrow> (remote_walk \<times> 'u) option" where
  "walk_remote 0 pv pattern max_depth max_results cancel st u = (if rw_stack st = [] then Some (st, u) else None)"
| "walk_remote (Suc visits) pv pattern max_depth max_results cancel st u =
     (case rw_stack st of
        [] \<Rightarrow> Some (st, u)
      | (dir, depth) # stack \<Rightarrow>
          let st = st\<lparr>rw_stack := stack\<rparr>
          in (case cancel u of
                (True, u) \<Rightarrow> Some (st\<lparr>rw_stopped := True\<rparr>, u)
              | (False, u) \<Rightarrow>
                  if max_depth < depth then walk_remote visits pv pattern max_depth max_results cancel st u
                  else (case pv_read_dir pv dir u of
                          (Inl _, u) \<Rightarrow> walk_remote visits pv pattern max_depth max_results cancel st u
                        | (Inr listed, u) \<Rightarrow>
                            (case walk_entries pattern max_results cancel dir depth listed st u of
                               (st, u) \<Rightarrow>
                                 if rw_stopped st then Some (st, u)
                                 else if max_results \<le> rw_found st then Some (st\<lparr>rw_truncated := True\<rparr>, u)
                                 else walk_remote visits pv pattern max_depth max_results cancel st u))))"

definition search_remote_walk ::
  "nat \<Rightarrow> 'u sftp_env \<Rightarrow> string \<Rightarrow> string \<Rightarrow> nat \<Rightarrow> nat \<Rightarrow> 'u flag \<Rightarrow> 'u \<Rightarrow> (search_event list \<times> 'u) option" where
  "search_remote_walk visits pv root pattern max_depth max_results cancel u =
     map_option (\<lambda>(st, u). (if rw_stopped st then rw_sent st else rw_sent st @ [SearchDone (rw_truncated st)], u))
       (walk_remote visits pv pattern max_depth max_results cancel
          \<lparr>rw_found = 0, rw_truncated = False, rw_stack = [(root, 0)], rw_sent = [], rw_stopped = False\<rparr> u)"

definition search_remote :: "nat \<Rightarrow> 'u sftp_env \<Rightarrow> search_query \<Rightarrow> 'u flag \<Rightarrow> 'u \<Rightarrow> (search_event list \<times> 'u) option" where
  "search_remote n pv q cancel u =
     (let root = path_to_remote_string (sq_root q)
      in case run_find n pv root (sq_pattern q) (sq_max_depth q) cancel u of
           None \<Rightarrow> None
         | Some (Some paths, u) \<Rightarrow> Some (report_paths pv (sq_max_results q) cancel paths 0 [] u)
         | Some (None, u) \<Rightarrow>
             search_remote_walk n pv root (sq_pattern q) (sq_max_depth q) (sq_max_results q) cancel u)"

text \<open>
  What the SFTP protocol promises: renaming over a file loses neither, whichever call fails, and a
  search reports no more than it was asked for.
\<close>

section \<open>Renaming over a file\<close>

text \<open>
  What a server of the protocol does with names: it renames a name to a free one or refuses, it
  removes a name or refuses, and a call that is refused changes nothing.
\<close>

definition renames_to_free_names :: "('u \<Rightarrow> string \<Rightarrow> 'f option) \<Rightarrow> 'u sftp_env \<Rightarrow> bool" where
  "renames_to_free_names files pv \<longleftrightarrow>
     (\<forall>p q u. case pv_rename pv p q u of
        (Inr _, u') \<Rightarrow> files u p \<noteq> None \<and> files u q = None \<and> files u' = (files u)(p := None, q := files u p)
      | (Inl _, u') \<Rightarrow> files u' = files u)"

definition removes_names :: "('u \<Rightarrow> string \<Rightarrow> 'f option) \<Rightarrow> 'u sftp_env \<Rightarrow> bool" where
  "removes_names files pv \<longleftrightarrow>
     (\<forall>p u. case pv_remove_file pv p u of
        (Inr _, u') \<Rightarrow> files u' = (files u)(p := None)
      | (Inl _, u') \<Rightarrow> files u' = files u)"

lemma server_renames:
  assumes "renames_to_free_names files pv" "pv_rename pv p q u = (r, u')"
  shows "r = Inr x \<Longrightarrow> files u p \<noteq> None \<and> files u q = None \<and> files u' = (files u)(p := None, q := files u p)"
    and "r = Inl e \<Longrightarrow> files u' = files u"
  using assms(1) [unfolded renames_to_free_names_def, rule_format, where p = p and q = q and u = u] assms(2) by simp_all

lemma server_removes:
  assumes "removes_names files pv"
  shows "files (snd (pv_remove_file pv p u)) = (files u)(p := None) \<or> files (snd (pv_remove_file pv p u)) = files u"
  using assms [unfolded removes_names_def, rule_format, where p = p and u = u] by (auto split: prod.splits sum.splits)

text \<open>What renaming leaves: the file under its new name, the one that was there gone or set aside.\<close>

definition renamed_over :: "(string \<Rightarrow> 'f option) \<Rightarrow> string \<Rightarrow> string \<Rightarrow> string \<Rightarrow> 'f option" where
  "renamed_over fs from to = fs(from := None, to := fs from)"


text \<open>A server that keeps its files in a map and never renames to a name that is taken.\<close>

definition map_rename :: "string \<Rightarrow> string \<Rightarrow> ((string, nat) fmap, unit) sftp_call" where
  "map_rename p q m =
     (case fmlookup m p of
        None \<Rightarrow> (Inl (NoSuchFile p), m)
      | Some f \<Rightarrow> if fmlookup m q = None then (Inr (), fmupd q f (fmdrop p m)) else (Inl (OtherFault q), m))"

definition map_remove :: "string \<Rightarrow> ((string, nat) fmap, unit) sftp_call" where
  "map_remove p m = (if fmlookup m p = None then (Inl (NoSuchFile p), m) else (Inr (), fmdrop p m))"

definition sample_sftp_env :: "(string, nat) fmap sftp_env" where
  "sample_sftp_env =
     \<lparr>sv_server_key = (\<lambda>_ _ u. (Inr CertificateKey, u)), sv_handshake = (\<lambda>u. (Inr (), u)),
      sv_check_known = (\<lambda>_ _ _ _ u. (KeyMissing, u)), sv_read_text = (\<lambda>_ u. (None, u)), sv_create_dir = (\<lambda>_ u. (Inr (), u)),
      sv_learn = (\<lambda>_ _ _ _ u. (Inr (), u)), sv_ask = (\<lambda>_ u. (None, u)), sv_agent_keys = (\<lambda>u. (None, u)),
      sv_auth_agent = (\<lambda>_ _ u. (Inr False, u)), sv_read_key = (\<lambda>_ u. (None, u)), sv_auth_key = (\<lambda>_ _ u. (Inr False, u)),
      sv_auth_password = (\<lambda>_ _ u. (Inr False, u)), sv_run = (\<lambda>_ u. (Inr [], u)), sv_home = None,
      pv_channel = (\<lambda>u. (Inr 0, u)), pv_request_subsystem = (\<lambda>_ _ u. (Inr (), u)), pv_start = (\<lambda>_ _ u. (Inr (), u)),
      pv_exec = (\<lambda>_ _ u. (Inr (), u)), pv_wait = (\<lambda>_ u. (WaitGone, u)), pv_lossy = id, pv_read_dir = (\<lambda>_ u. (Inr [], u)),
      pv_metadata = (\<lambda>p u. (Inl (NoSuchFile p), u)), pv_symlink_metadata = (\<lambda>p u. (Inl (NoSuchFile p), u)),
      pv_create_dir = (\<lambda>_ u. (Inr (), u)), pv_rename = map_rename, pv_remove_file = map_remove, pv_remove_dir = map_remove,
      pv_set_metadata = (\<lambda>_ _ u. (Inr (), u)), pv_canonicalize = (\<lambda>p u. (Inr p, u)), pv_open = (\<lambda>_ u. (Inr 0, u)),
      pv_create = (\<lambda>_ u. (Inr 0, u)), pv_open_with_flags = (\<lambda>_ _ u. (Inr 0, u)), pv_set_file_metadata = (\<lambda>_ _ u. (Inr (), u)),
      pv_seek = (\<lambda>_ _ u. (Inr (), u)), pv_read = (\<lambda>_ _ u. (Inr [], u)), pv_write_all = (\<lambda>_ _ u. (Inr (), u)),
      pv_flush = (\<lambda>_ u. (Inr (), u)), pv_shutdown = (\<lambda>_ u. (Inr (), u))\<rparr>"

lemma sample_server: "renames_to_free_names fmlookup sample_sftp_env" "removes_names fmlookup sample_sftp_env"
  by (auto simp: renames_to_free_names_def removes_names_def sample_sftp_env_def map_rename_def map_remove_def fun_eq_iff
      split: option.splits)


text \<open>So a file that has a backup of that name can't be replaced on such a server.\<close>

section \<open>Searching\<close>

definition reports :: "search_event list \<Rightarrow> nat" where
  "reports events = length (filter is_found events)"

lemma reports_simps [simp]:
  "reports [] = 0" "reports (events @ [Found e]) = Suc (reports events)" "reports (events @ [SearchDone b]) = reports events"
  by (simp_all add: reports_def is_found_def)

lemma report_paths_bounded:
  "reports sent = found \<Longrightarrow> found \<le> max_results \<Longrightarrow> reports (fst (report_paths pv max_results cancel ps found sent u)) \<le> max_results"
proof (induction pv max_results cancel ps found sent u rule: report_paths.induct)
  case (2 pv max_results cancel p ps found sent u)
  obtain stop u1 where c: "cancel u = (stop, u1)" by fastforce
  obtain r u2 where m: "pv_metadata pv p u1 = (r, u2)" by fastforce
  show ?case using 2 c m by (cases stop; cases r) auto
qed simp

definition walk_ok :: "string \<Rightarrow> nat \<Rightarrow> remote_walk \<Rightarrow> bool" where
  "walk_ok pattern max_results st \<longleftrightarrow>
     list_all (\<lambda>e. case e of Found f \<Rightarrow> glob_match pattern (e_name f) | _ \<Rightarrow> False) (rw_sent st) \<and>
     length (rw_sent st) = rw_found st \<and> rw_found st \<le> max_results"

lemma walk_entries_ok:
  "walk_ok pattern max_results st \<Longrightarrow> walk_ok pattern max_results (fst (walk_entries pattern max_results cancel dir depth listed st u))"
proof (induction pattern max_results cancel dir depth listed st u rule: walk_entries.induct)
  case (2 pattern max_results cancel dir depth name m rest st u)
  obtain stop u1 where c: "cancel u = (stop, u1)" by fastforce
  show ?case using 2(1) [OF c [symmetric]] 2(2) c
    by (cases stop) (auto simp: walk_ok_def Let_def sftp_entry_def)
qed simp

lemma walk_remote_ok:
  "walk_ok pattern max_results st \<Longrightarrow> walk_remote visits pv pattern max_depth max_results cancel st u = Some (st', u') \<Longrightarrow>
     walk_ok pattern max_results st'"
proof (induction visits pv pattern max_depth max_results cancel st u rule: walk_remote.induct)
  case (2 visits pv pattern max_depth max_results cancel st u)
  show ?case
  proof (cases "rw_stack st")
    case Nil
    then show ?thesis using 2 by simp
  next
    case (Cons top stack)
    obtain dir depth where top: "top = (dir, depth)" by fastforce
    obtain stop u1 where c: "cancel u = (stop, u1)" by fastforce
    obtain r u2 where rd: "pv_read_dir pv dir u1 = (r, u2)" by fastforce
    have ok: "walk_ok pattern max_results (st\<lparr>rw_stack := stack\<rparr>)" using 2(4) by (simp add: walk_ok_def)
    note IH = 2(1-3) and run = 2(5)
    show ?thesis
    proof (cases stop)
      case True
      then show ?thesis using run 2(4) Cons top c by (auto simp: walk_ok_def)
    next
      case False
      note c' = c [unfolded False [simplified], symmetric]
      show ?thesis
      proof (cases "max_depth < depth")
        case True
        then show ?thesis using run IH(1) [OF Cons top [symmetric] refl c'] False ok Cons top c by simp
      next
        case shallow: False
        show ?thesis
        proof (cases r)
          case (Inl e)
          then show ?thesis using run IH(2) [OF Cons top [symmetric] refl c'] False shallow ok Cons top c rd by simp
        next
          case (Inr listed)
          obtain st2 u3 where it: "walk_entries pattern max_results cancel dir depth listed (st\<lparr>rw_stack := stack\<rparr>) u2 = (st2, u3)"
            by fastforce
          have ok2: "walk_ok pattern max_results st2" using walk_entries_ok [OF ok, of cancel dir depth listed u2] it by simp
          then have "walk_ok pattern max_results (st2\<lparr>rw_truncated := True\<rparr>)" by (simp add: walk_ok_def)
          then show ?thesis
            using run IH(3) [OF Cons top [symmetric] refl c'] False shallow ok2 Cons top c rd Inr it by (auto split: if_splits)
        qed
      qed
    qed
  qed
qed (simp split: if_splits)

text \<open>A search on the server ends when it is not cancelled too often, and reports at most as many as it was asked for.\<close>

theorem remote_search_bounded:
  assumes "search_remote n pv q cancel u = Some (events, u')"
  shows "reports events \<le> sq_max_results q"
proof -
  have "reports events \<le> max_results"
    if walk: "search_remote_walk n pv root pattern max_depth max_results cancel u = Some (events, u')" for root pattern max_depth max_results u
  proof -
    obtain st where st: "walk_remote n pv pattern max_depth max_results cancel
        \<lparr>rw_found = 0, rw_truncated = False, rw_stack = [(root, 0)], rw_sent = [], rw_stopped = False\<rparr> u = Some (st, u')"
      and e: "events = (if rw_stopped st then rw_sent st else rw_sent st @ [SearchDone (rw_truncated st)])"
      using walk by (auto simp: search_remote_walk_def)
    have "walk_ok pattern max_results st" by (rule walk_remote_ok [OF _ st]) (simp add: walk_ok_def)
    moreover have "reports (rw_sent st) \<le> length (rw_sent st)" by (simp add: reports_def)
    ultimately show ?thesis by (auto simp: e walk_ok_def)
  qed
  moreover have "reports (fst (report_paths pv max_results cancel ps 0 [] u)) \<le> max_results" for max_results ps u
    by (rule report_paths_bounded) simp_all
  ultimately show ?thesis using assms
    by (auto simp: search_remote_def Let_def split: option.splits prod.splits) (metis fst_conv)+
qed

text \<open>The end of the output counts as the end of the command: an exit that is reported after it is not heard.\<close>

lemma late_exit_not_heard:
  assumes "cancel u = (False, u1)" "pv_wait pv ch u1 = (WaitEof, u2)"
  shows "find_messages (Suc n) pv cancel ch output False u = Some (Some (output, False), u2)"
  using assms by simp

text \<open>A root that can't be read is searched as an empty one, without the failure that the search of the contract reports.\<close>

lemma unreadable_root_is_empty:
  assumes "cancel u = (False, u1)" "pv_read_dir pv root u1 = (Inl e, u2)"
  shows "search_remote_walk (Suc n) pv root pattern max_depth max_results cancel u = Some ([SearchDone False], u2)"
  using assms by (cases n) (simp_all add: search_remote_walk_def)

end
