(* ===== verification/Local_Fs.thy ===== *)
theory Local_Fs
  imports Vfs
begin

text \<open>
  \<^verbatim>\<open>porthmos-lfs\<close>: the file system of the machine.  The calls of the standard library are the
  parameter: what the operating system answers and does is the world.  A folder is read as a list
  of what its iterator gives, errors among the names; an open file is a number.
\<close>

section \<open>The machine\<close>

text \<open>What the system says of a file; the time in whole seconds since 1970, before it negative.\<close>

record os_metadata =
  om_is_symlink :: bool
  om_is_dir :: bool
  om_len :: nat
  om_modified :: "int option"
  om_mode :: nat

record 'u os_env =
  os_lossy :: "string \<Rightarrow> string"
  os_read_dir :: "path \<Rightarrow> ('u, (io_error + string) list) io"
  os_metadata :: "path \<Rightarrow> ('u, os_metadata) io"
  os_symlink_metadata :: "path \<Rightarrow> ('u, os_metadata) io"
  os_create_dir :: "path \<Rightarrow> ('u, unit) io"
  os_rename :: "path \<Rightarrow> path \<Rightarrow> ('u, unit) io"
  os_remove_file :: "path \<Rightarrow> ('u, unit) io"
  os_remove_dir_all :: "path \<Rightarrow> ('u, unit) io"
  os_open :: "path \<Rightarrow> ('u, handle) io"
  os_open_or_create :: "path \<Rightarrow> ('u, handle) io"
  os_set_len :: "handle \<Rightarrow> nat \<Rightarrow> ('u, unit) io"
  os_seek :: "handle \<Rightarrow> nat \<Rightarrow> ('u, unit) io"
  os_set_modified :: "handle \<Rightarrow> nat \<Rightarrow> ('u, unit) io"
  os_read :: "handle \<Rightarrow> nat \<Rightarrow> ('u, 8 word list) io"
  os_write_all :: "handle \<Rightarrow> 8 word list \<Rightarrow> ('u, unit) io"
  os_flush :: "handle \<Rightarrow> ('u, unit) io"
  os_shutdown :: "handle \<Rightarrow> ('u, unit) io"

section \<open>Metadata\<close>

definition metadata_from :: "os_metadata \<Rightarrow> metadata" where
  "metadata_from m =
     \<lparr>m_size = om_len m,
      m_modified = (case om_modified m of Some t \<Rightarrow> if 0 \<le> t then Some (nat t) else None | None \<Rightarrow> None),
      m_kind = (if om_is_symlink m then Symlink else if om_is_dir m then Dir else File),
      m_permissions = Some (om_mode m)\<rparr>"

text \<open>A file of a folder: \<^verbatim>\<open>dir_entry.path()\<close> has the name as it is, what is shown may differ.\<close>

definition entry_path :: "path \<Rightarrow> string \<Rightarrow> path" where
  "entry_path dir name = path_join dir [Normal name]"

section \<open>Folders\<close>

fun each_entry :: "(string \<Rightarrow> ('u, 'a) io) \<Rightarrow> (io_error + string) list \<Rightarrow> ('u, 'a list) io" where
  "each_entry f [] = io_return []"
| "each_entry f (Inl e # _) = io_fail e"
| "each_entry f (Inr name # rest) = io_bind (f name) (\<lambda>a. io_bind (each_entry f rest) (\<lambda>as. io_return (a # as)))"

definition local_item :: "'u os_env \<Rightarrow> path \<Rightarrow> string \<Rightarrow> ('u, dir_item) io" where
  "local_item os dir name =
     io_bind (os_symlink_metadata os (entry_path dir name)) (\<lambda>m.
       io_return \<lparr>d_name = os_lossy os name, d_path = entry_path dir name, d_metadata = metadata_from m\<rparr>)"

definition local_read_dir :: "'u os_env \<Rightarrow> path \<Rightarrow> ('u, dir_item list) effect" where
  "local_read_dir os dir = io_effect (io_bind (os_read_dir os dir) (each_entry (local_item os dir)))"

text \<open>\<^verbatim>\<open>dir_entry.metadata()\<close> does not follow a link either.\<close>

definition local_entry :: "'u os_env \<Rightarrow> path \<Rightarrow> string \<Rightarrow> ('u, entry) io" where
  "local_entry os dir name =
     io_bind (os_symlink_metadata os (entry_path dir name)) (\<lambda>m.
       io_return \<lparr>e_name = os_lossy os name, e_path = entry_path dir name, e_is_dir = om_is_dir m, e_size = om_len m,
         e_permissions = Some (om_mode m)\<rparr>)"

definition local_list :: "'u os_env \<Rightarrow> path \<Rightarrow> ('u, entry list) effect" where
  "local_list os dir = io_effect (io_bind (os_read_dir os dir) (each_entry (local_entry os dir)))"

section \<open>Files\<close>

definition local_stat :: "'u os_env \<Rightarrow> path \<Rightarrow> ('u, metadata) effect" where
  "local_stat os p = io_effect (io_bind (os_metadata os p) (\<lambda>m. io_return (metadata_from m)))"

definition local_create_dir :: "'u os_env \<Rightarrow> path \<Rightarrow> ('u, unit) effect" where
  "local_create_dir os p = io_effect (os_create_dir os p)"

definition local_rename :: "'u os_env \<Rightarrow> path \<Rightarrow> path \<Rightarrow> ('u, unit) effect" where
  "local_rename os p q = io_effect (os_rename os p q)"

definition local_remove_file :: "'u os_env \<Rightarrow> path \<Rightarrow> ('u, unit) effect" where
  "local_remove_file os p = io_effect (os_remove_file os p)"

definition local_delete :: "'u os_env \<Rightarrow> path \<Rightarrow> ('u, unit) effect" where
  "local_delete os p =
     io_effect (io_bind (os_symlink_metadata os p) (\<lambda>m.
       if om_is_dir m then os_remove_dir_all os p else os_remove_file os p))"

definition local_home :: "path \<Rightarrow> ('u, path) effect" where
  "local_home home = eff_return home"

text \<open>\<^verbatim>\<open>UNIX_EPOCH.checked_add\<close>: the seconds of a time are signed 64 bits.\<close>

definition local_set_modified :: "'u os_env \<Rightarrow> path \<Rightarrow> nat \<Rightarrow> ('u, unit) effect" where
  "local_set_modified os p seconds =
     io_effect
       (if 2 ^ 63 \<le> seconds
        then io_fail (IoOther, ''the modification time '' @ show_nat seconds @ '' is out of range'')
        else io_bind (os_open os p) (\<lambda>h. os_set_modified os h seconds))"

definition local_open_read :: "'u os_env \<Rightarrow> path \<Rightarrow> nat \<Rightarrow> ('u, handle) effect" where
  "local_open_read os p offset =
     io_effect (io_bind (os_open os p) (\<lambda>h. io_bind (os_seek os h offset) (\<lambda>_. io_return h)))"

text \<open>A file that is written at an offset is cut there, or filled up to it.\<close>

definition local_open_write :: "'u os_env \<Rightarrow> path \<Rightarrow> nat \<Rightarrow> ('u, writer) effect" where
  "local_open_write os p offset =
     io_effect
       (io_bind (os_open_or_create os p) (\<lambda>h.
        io_bind (os_set_len os h offset) (\<lambda>_.
        io_bind (os_seek os h offset) (\<lambda>_. io_return \<lparr>w_stream = h, w_offset = offset\<rparr>))))"

section \<open>The contract\<close>

definition local_file_system :: "'u os_env \<Rightarrow> 'u file_system" where
  "local_file_system os =
     \<lparr>fs_read_dir = local_read_dir os, fs_stat = local_stat os, fs_create_dir = local_create_dir os,
      fs_rename = local_rename os, fs_remove_file = local_remove_file os, fs_open_read = local_open_read os,
      fs_open_write_sized = default_open_write_sized (local_open_write os), fs_set_modified = local_set_modified os,
      fs_read = (\<lambda>h n. io_effect (os_read os h n)), fs_write_all = (\<lambda>h bs. io_effect (os_write_all os h bs)),
      fs_flush = (\<lambda>h. io_effect (os_flush os h)), fs_shutdown = (\<lambda>h. io_effect (os_shutdown os h)),
      fs_transfer_limit = default_transfer_limit, fs_resume_backoff = default_resume_backoff,
      fs_can_set_modified = True, fs_time_resolution = default_time_resolution\<rparr>"

end
