(* ===== verification/Tui_Input.thy ===== *)
theory Tui_Input
  imports Rust_Text
begin

text \<open>
  \<^verbatim>\<open>porthmos-tui/input\<close>: keys, the actions they stand for, and how the bindings are read from the
  configuration.  The text of the user interface is a list of characters.
\<close>

section \<open>Keys (crossterm)\<close>

text \<open>The keys and modifiers of the terminal library that are told apart; the others by what prints them.\<close>

datatype key_code =
    KeyChar char
  | KeyF nat
  | KeyEnter
  | KeyEsc
  | KeyTab
  | KeyBackTab
  | KeyUp
  | KeyDown
  | KeyLeft
  | KeyRight
  | KeyHome
  | KeyEnd
  | KeyBackspace
  | KeyDelete
  | KeyOther string

record key_modifiers =
  km_control :: bool
  km_alt :: bool
  km_shift :: bool
  km_others :: nat

definition no_modifiers :: key_modifiers where
  "no_modifiers = \<lparr>km_control = False, km_alt = False, km_shift = False, km_others = 0\<rparr>"

definition control_modifier :: key_modifiers where
  "control_modifier = no_modifiers\<lparr>km_control := True\<rparr>"

record key_spec =
  ks_code :: key_code
  ks_modifiers :: key_modifiers

section \<open>Actions\<close>

datatype action =
    ActQuit | ActSwitchPanel | ActUp | ActDown | ActOpen | ActToggleSelect | ActRename | ActMkdir | ActDelete
  | ActRefresh | ActCopy | ActEdit | ActCancelTransfer | ActOpenConnections | ActAddConnection
  | ActDeleteConnection | ActOpenTerminal | ActToggleHidden | ActCycleSort | ActBookmarkHere | ActOpenBookmarks
  | ActOpenSearch | ActFilter | ActOpenTransfers | ActOpenHistory | ActOpenSync | ActCycleSession | ActHelp
  | ActBack | ActNoop

definition ALL_ACTIONS :: "action list" where
  "ALL_ACTIONS =
     [ActQuit, ActSwitchPanel, ActUp, ActDown, ActOpen, ActToggleSelect, ActRename, ActMkdir, ActDelete,
      ActRefresh, ActCopy, ActEdit, ActCancelTransfer, ActOpenConnections, ActAddConnection, ActDeleteConnection,
      ActOpenTerminal, ActToggleHidden, ActCycleSort, ActBookmarkHere, ActOpenBookmarks, ActOpenSearch, ActFilter,
      ActOpenTransfers, ActOpenHistory, ActOpenSync, ActCycleSession, ActHelp, ActBack]"

fun action_name :: "action \<Rightarrow> string" where
  "action_name ActQuit = ''quit''"
| "action_name ActSwitchPanel = ''switch_panel''"
| "action_name ActUp = ''up''"
| "action_name ActDown = ''down''"
| "action_name ActOpen = ''open''"
| "action_name ActToggleSelect = ''toggle_select''"
| "action_name ActRename = ''rename''"
| "action_name ActMkdir = ''mkdir''"
| "action_name ActDelete = ''delete''"
| "action_name ActRefresh = ''refresh''"
| "action_name ActCopy = ''copy''"
| "action_name ActEdit = ''edit''"
| "action_name ActCancelTransfer = ''cancel_transfer''"
| "action_name ActOpenConnections = ''open_connections''"
| "action_name ActAddConnection = ''add_connection''"
| "action_name ActDeleteConnection = ''delete_connection''"
| "action_name ActOpenTerminal = ''open_terminal''"
| "action_name ActToggleHidden = ''toggle_hidden''"
| "action_name ActCycleSort = ''cycle_sort''"
| "action_name ActBookmarkHere = ''bookmark_here''"
| "action_name ActOpenBookmarks = ''open_bookmarks''"
| "action_name ActOpenSearch = ''open_search''"
| "action_name ActFilter = ''filter''"
| "action_name ActOpenTransfers = ''open_transfers''"
| "action_name ActOpenHistory = ''open_history''"
| "action_name ActOpenSync = ''open_sync''"
| "action_name ActCycleSession = ''cycle_session''"
| "action_name ActHelp = ''help''"
| "action_name ActBack = ''back''"
| "action_name ActNoop = ''noop''"

text \<open>The match lists the names of all actions but \<^verbatim>\<open>noop\<close>.\<close>

definition action_from_name :: "string \<Rightarrow> action option" where
  "action_from_name name = find (\<lambda>a. action_name a = name) ALL_ACTIONS"

section \<open>Reading a key\<close>

function strip_modifiers :: "key_modifiers \<Rightarrow> string \<Rightarrow> key_modifiers \<times> string" where
  "strip_modifiers ms remainder =
     (case strip_prefix remainder ''ctrl+'' of
        Some rest \<Rightarrow> strip_modifiers (ms\<lparr>km_control := True\<rparr>) rest
      | None \<Rightarrow>
          (case strip_prefix remainder ''alt+'' of
             Some rest \<Rightarrow> strip_modifiers (ms\<lparr>km_alt := True\<rparr>) rest
           | None \<Rightarrow>
               (case strip_prefix remainder ''shift+'' of
                  Some rest \<Rightarrow> strip_modifiers (ms\<lparr>km_shift := True\<rparr>) rest
                | None \<Rightarrow> (ms, remainder))))"
  by pat_completeness auto
termination
  by (relation "measure (\<lambda>(_, remainder). length remainder)") (auto simp: strip_prefix_def prefix_def split: if_splits)

declare strip_modifiers.simps [simp del]

definition named_keys :: "(string \<times> key_code) list" where
  "named_keys =
     [(''tab'', KeyTab), (''enter'', KeyEnter), (''esc'', KeyEsc), (''escape'', KeyEsc), (''space'', KeyChar CHR '' ''),
      (''up'', KeyUp), (''down'', KeyDown), (''left'', KeyLeft), (''right'', KeyRight), (''home'', KeyHome),
      (''end'', KeyEnd), (''backspace'', KeyBackspace), (''delete'', KeyDelete), (''del'', KeyDelete)]"

definition function_key :: "string \<Rightarrow> key_code option" where
  "function_key s =
     (case strip_prefix s ''f'' of
        None \<Rightarrow> None
      | Some digits \<Rightarrow>
          (case parse_uint 8 digits of
             Some n \<Rightarrow> if 1 \<le> n \<and> n \<le> 12 then Some (KeyF n) else None
           | None \<Rightarrow> None))"

definition parse_key_code :: "string \<Rightarrow> string + key_code" where
  "parse_key_code s =
     (case function_key s of
        Some code \<Rightarrow> Inr code
      | None \<Rightarrow>
          (case map_of named_keys s of
             Some code \<Rightarrow> Inr code
           | None \<Rightarrow>
               (case s of
                  [c] \<Rightarrow> Inr (KeyChar c)
                | _ \<Rightarrow> Inl (''unrecognized key '' @ [CHR 0x22] @ s @ [CHR 0x22]))))"

definition parse_key_spec :: "string \<Rightarrow> string + key_spec" where
  "parse_key_spec s =
     (case strip_modifiers no_modifiers (to_lowercase s) of
        (ms, remainder) \<Rightarrow> map_sum id (\<lambda>code. \<lparr>ks_code = code, ks_modifiers = ms\<rparr>) (parse_key_code remainder))"

section \<open>Showing a key\<close>

definition ascii_upper_char :: "char \<Rightarrow> char" where
  "ascii_upper_char c = (let n = (of_char c :: nat) in if 97 \<le> n \<and> n \<le> 122 then char_of (n - 32) else c)"

fun key_name :: "key_code \<Rightarrow> string" where
  "key_name (KeyF n) = ''F'' @ show_nat n"
| "key_name KeyTab = ''Tab''"
| "key_name KeyEnter = ''Enter''"
| "key_name KeyEsc = ''Esc''"
| "key_name (KeyChar c) = (if c = CHR '' '' then ''Space'' else [ascii_upper_char c])"
| "key_name KeyUp = ''Up''"
| "key_name KeyDown = ''Down''"
| "key_name KeyLeft = ''Left''"
| "key_name KeyRight = ''Right''"
| "key_name KeyHome = ''Home''"
| "key_name KeyEnd = ''End''"
| "key_name KeyBackspace = ''Backspace''"
| "key_name KeyDelete = ''Delete''"
| "key_name KeyBackTab = ''BackTab''"
| "key_name (KeyOther shown) = shown"

definition format_key_spec :: "key_spec \<Rightarrow> string" where
  "format_key_spec spec =
     (let ms = ks_modifiers spec
      in join_with ''+''
           ((if km_control ms then [''Ctrl''] else []) @ (if km_alt ms then [''Alt''] else []) @
            (if km_shift ms then [''Shift''] else []) @ [key_name (ks_code spec)]))"

section \<open>Bindings\<close>

type_synonym key_bindings = "(action, key_spec) fmap"

definition DEFAULT_KEYS :: "(action \<times> key_code \<times> key_modifiers) list" where
  "DEFAULT_KEYS =
     [(ActQuit, KeyF 10, no_modifiers), (ActSwitchPanel, KeyTab, no_modifiers), (ActUp, KeyUp, no_modifiers),
      (ActDown, KeyDown, no_modifiers), (ActOpen, KeyEnter, no_modifiers), (ActToggleSelect, KeyChar CHR '' '', no_modifiers),
      (ActRename, KeyF 2, no_modifiers), (ActEdit, KeyF 3, no_modifiers), (ActOpenTerminal, KeyF 4, no_modifiers),
      (ActCopy, KeyF 5, no_modifiers), (ActMkdir, KeyF 7, no_modifiers), (ActDelete, KeyF 8, no_modifiers),
      (ActOpenConnections, KeyF 9, no_modifiers), (ActAddConnection, KeyF 6, no_modifiers),
      (ActDeleteConnection, KeyDelete, no_modifiers), (ActBack, KeyEsc, no_modifiers),
      (ActRefresh, KeyChar CHR ''r'', control_modifier), (ActCancelTransfer, KeyChar CHR ''c'', control_modifier),
      (ActToggleHidden, KeyChar CHR ''h'', control_modifier), (ActCycleSort, KeyChar CHR ''s'', control_modifier),
      (ActBookmarkHere, KeyChar CHR ''d'', control_modifier), (ActOpenBookmarks, KeyChar CHR ''b'', control_modifier),
      (ActOpenSearch, KeyChar CHR ''f'', control_modifier), (ActFilter, KeyChar CHR ''/'', no_modifiers),
      (ActOpenTransfers, KeyChar CHR ''t'', control_modifier), (ActOpenHistory, KeyChar CHR ''y'', control_modifier),
      (ActOpenSync, KeyChar CHR ''u'', control_modifier), (ActCycleSession, KeyChar CHR ''n'', control_modifier),
      (ActHelp, KeyF 1, no_modifiers)]"

definition bind_key :: "action \<times> key_code \<times> key_modifiers \<Rightarrow> key_bindings \<Rightarrow> key_bindings" where
  "bind_key b m = (case b of (a, code, ms) \<Rightarrow> fmupd a \<lparr>ks_code = code, ks_modifiers = ms\<rparr> m)"

definition default_bindings :: key_bindings where
  "default_bindings = fold bind_key DEFAULT_KEYS fmempty"

text \<open>The map is searched in no particular order; the theorems show that at most one action is found.\<close>

definition conflicting_action :: "action \<Rightarrow> key_spec \<Rightarrow> key_bindings \<Rightarrow> action option" where
  "conflicting_action a spec m = find (\<lambda>b. b \<noteq> a \<and> fmlookup m b = Some spec) ALL_ACTIONS"

definition in_quotes_of :: "string \<Rightarrow> string" where
  "in_quotes_of s = [CHR 0x22] @ s @ [CHR 0x22]"

definition rebind :: "action \<Rightarrow> key_spec \<Rightarrow> key_bindings \<Rightarrow> key_bindings" where
  "rebind a spec m =
     fmupd a spec (fmfilter (\<lambda>b. b = a \<or> fmlookup m b \<noteq> Some spec) m)"

definition override_key :: "string \<times> string \<Rightarrow> key_bindings \<times> string list \<Rightarrow> key_bindings \<times> string list" where
  "override_key entry st =
     (case (entry, st) of
        ((name, key), (m, warnings)) \<Rightarrow>
          (case action_from_name name of
             None \<Rightarrow> (m, warnings @ [''unknown key binding action '' @ in_quotes_of name])
           | Some a \<Rightarrow>
               (case parse_key_spec key of
                  Inl e \<Rightarrow> (m, warnings @ [''invalid key '' @ in_quotes_of key @ '' for '' @ in_quotes_of name @ '': '' @ e])
                | Inr spec \<Rightarrow>
                    (rebind a spec m,
                     warnings @
                     (case conflicting_action a spec m of
                        None \<Rightarrow> []
                      | Some b \<Rightarrow>
                          [''key '' @ in_quotes_of key @ '' is already bound to '' @ in_quotes_of (action_name b) @
                           ''; '' @ in_quotes_of name @ '' now overrides it'']))))) "

text \<open>The overrides in the order in which the map of the configuration gives them.\<close>

definition bindings_from_overrides :: "(string \<times> string) list \<Rightarrow> key_bindings \<times> string list" where
  "bindings_from_overrides overrides = fold override_key overrides (default_bindings, [])"

text \<open>What the table of the front end holds under \<^verbatim>\<open>keys\<close>: nothing, no table of texts, or one.\<close>

definition bindings_from_frontend :: "(string + (string \<times> string) list) option \<Rightarrow> key_bindings \<times> string list" where
  "bindings_from_frontend keys =
     (case keys of
        None \<Rightarrow> (default_bindings, [])
      | Some (Inr overrides) \<Rightarrow> bindings_from_overrides overrides
      | Some (Inl e) \<Rightarrow> (default_bindings, [''failed to parse config.toml: '' @ e]))"

definition map_key :: "key_bindings \<Rightarrow> key_spec \<Rightarrow> action" where
  "map_key m spec = (case find (\<lambda>a. fmlookup m a = Some spec) ALL_ACTIONS of Some a \<Rightarrow> a | None \<Rightarrow> ActNoop)"

definition key_for :: "key_bindings \<Rightarrow> action \<Rightarrow> key_spec option" where
  "key_for m a = fmlookup m a"

section \<open>A key stands for one action\<close>

definition one_key_each :: "key_bindings \<Rightarrow> bool" where
  "one_key_each m \<longleftrightarrow>
     fmlookup m ActNoop = None \<and> (\<forall>a b spec. fmlookup m a = Some spec \<longrightarrow> fmlookup m b = Some spec \<longrightarrow> a = b)"

lemma all_actions: "a \<noteq> ActNoop \<Longrightarrow> a \<in> set ALL_ACTIONS"
  by (cases a) (simp_all add: ALL_ACTIONS_def)

lemma no_noop: "ActNoop \<notin> set ALL_ACTIONS"
  by (simp add: ALL_ACTIONS_def)

lemma find_member: "find P xs = Some x \<Longrightarrow> P x \<and> x \<in> set xs"
  by (auto simp: find_Some_iff)

lemma action_from_name_real: "action_from_name name = Some a \<Longrightarrow> a \<noteq> ActNoop"
  using no_noop by (auto simp: action_from_name_def dest!: find_member)

lemma rebind_one_key: "one_key_each m \<Longrightarrow> a \<noteq> ActNoop \<Longrightarrow> one_key_each (rebind a spec m)"
  by (auto simp: one_key_each_def rebind_def split: if_splits)

lemma override_one_key: "one_key_each (fst st) \<Longrightarrow> one_key_each (fst (override_key entry st))"
  by (cases entry; cases st)
     (auto simp: override_key_def split: option.splits sum.splits intro: rebind_one_key dest: action_from_name_real)

lemma bind_one_key:
  assumes "distinct (map snd bs)" "distinct (map fst bs)" "ActNoop \<notin> fst ` set bs"
  shows "one_key_each (fold bind_key bs fmempty)"
proof -
  have lookup: "fmlookup (fold bind_key bs m) a =
      (case map_of (rev bs) a of Some (code, ms) \<Rightarrow> Some \<lparr>ks_code = code, ks_modifiers = ms\<rparr> | None \<Rightarrow> fmlookup m a)" for m a
    by (induction bs arbitrary: m) (auto simp: bind_key_def map_add_def split: option.splits)
  have found: "map_of (rev bs) a = Some k \<Longrightarrow> (a, k) \<in> set bs" for a k by (auto dest: map_of_SomeD)
  have "a = b" if "(a, k) \<in> set bs" "(b, k) \<in> set bs" for a b k
    using inj_onD [of snd "set bs" "(a, k)" "(b, k)"] assms(1) that by (simp add: distinct_map)
  then show ?thesis
    using assms(3) unfolding one_key_each_def
    by (auto simp: lookup split: option.splits dest!: found intro: rev_image_eqI)
qed

lemma default_one_key: "one_key_each default_bindings"
  unfolding default_bindings_def
  by (rule bind_one_key) (simp_all add: DEFAULT_KEYS_def control_modifier_def no_modifiers_def)

lemma overrides_one_key: "one_key_each (fst (bindings_from_overrides overrides))"
proof -
  have "one_key_each (fst st) \<Longrightarrow> one_key_each (fst (fold override_key overrides st))" for st
  proof (induction overrides arbitrary: st)
    case (Cons entry rest)
    show ?case using Cons.IH [OF override_one_key [OF Cons.prems]] by simp
  qed simp
  then show ?thesis using default_one_key by (simp add: bindings_from_overrides_def)
qed

lemma map_key_iff:
  assumes "one_key_each m" "a \<noteq> ActNoop"
  shows "map_key m spec = a \<longleftrightarrow> fmlookup m a = Some spec"
proof (cases "find (\<lambda>a. fmlookup m a = Some spec) ALL_ACTIONS")
  case None
  then have "fmlookup m a \<noteq> Some spec" using all_actions [OF assms(2)] unfolding find_None_iff by blast
  moreover have "map_key m spec = ActNoop" by (simp add: map_key_def None)
  ultimately show ?thesis using assms(2) by simp
next
  case (Some b)
  then have "fmlookup m b = Some spec" using find_member [OF Some] by blast
  moreover have "map_key m spec = b" by (simp add: map_key_def Some)
  ultimately show ?thesis using assms(1) unfolding one_key_each_def by blast
qed

text \<open>(C21) A key stands for at most one action, whatever the configuration says: an action is the meaning of a key exactly when it is bound to it, in whichever order the map of bindings is searched; two actions never share a key; and the key that an override names last belongs to its action.\<close>

theorem one_action_per_key:
  assumes "fst (bindings_from_frontend keys) = m"
  shows "(a \<noteq> ActNoop \<longrightarrow> (map_key m spec = a \<longleftrightarrow> key_for m a = Some spec)) \<and>
    (key_for m a = Some spec \<and> key_for m b = Some spec \<longrightarrow> a = b) \<and>
    (keys = Some (Inr (overrides @ [(name, text)])) \<and> action_from_name name = Some a \<and> parse_key_spec text = Inr spec \<longrightarrow>
      map_key m spec = a)"
proof -
  have one: "one_key_each m"
    using assms default_one_key overrides_one_key
    by (auto simp: bindings_from_frontend_def split: option.splits sum.splits)
  have "fmlookup m a = Some spec" "a \<noteq> ActNoop"
    if "keys = Some (Inr (overrides @ [(name, text)]))" "action_from_name name = Some a" "parse_key_spec text = Inr spec"
    using that assms action_from_name_real
    by (auto simp: bindings_from_frontend_def bindings_from_overrides_def override_key_def rebind_def split: prod.splits)
  then show ?thesis using one map_key_iff [OF one] by (auto simp: key_for_def one_key_each_def)
qed

lemma one_action_per_key_witness:
  "map_key (fst (bindings_from_frontend (Some (Inr ([] @ [(''copy'', ''F8'')]))))) \<lparr>ks_code = KeyF 8, ks_modifiers = no_modifiers\<rparr> = ActCopy"
proof -
  have "parse_key_spec ''F8'' = Inr \<lparr>ks_code = KeyF 8, ks_modifiers = no_modifiers\<rparr>" by code_simp
  moreover have "action_from_name ''copy'' = Some ActCopy" by code_simp
  ultimately show ?thesis
    using one_action_per_key [OF refl, where keys = "Some (Inr ([] @ [(''copy'', ''F8'')]))" and overrides = "[]"] by blast
qed

section \<open>Reading what is shown\<close>

text \<open>The keys a configuration can name: no capital letters, function keys from one to twelve.\<close>

definition nameable :: "key_spec \<Rightarrow> bool" where
  "nameable spec \<longleftrightarrow>
     km_others (ks_modifiers spec) = 0 \<and>
     (case ks_code spec of
        KeyChar c \<Rightarrow> ascii_lower c = c
      | KeyF n \<Rightarrow> 1 \<le> n \<and> n \<le> 12
      | KeyBackTab \<Rightarrow> False
      | KeyOther _ \<Rightarrow> False
      | _ \<Rightarrow> True)"

lemma strip_prefix_none: "\<not> prefix p s \<Longrightarrow> strip_prefix s p = None"
  by (simp add: strip_prefix_def)

lemma strip_each:
  "strip_modifiers ms (''ctrl+'' @ r) = strip_modifiers (ms\<lparr>km_control := True\<rparr>) r"
  "strip_modifiers ms (''alt+'' @ r) = strip_modifiers (ms\<lparr>km_alt := True\<rparr>) r"
  "strip_modifiers ms (''shift+'' @ r) = strip_modifiers (ms\<lparr>km_shift := True\<rparr>) r"
  by (subst strip_modifiers.simps, simp add: strip_prefix_def)+

lemma strip_stops:
  "\<not> prefix ''ctrl+'' r \<Longrightarrow> \<not> prefix ''alt+'' r \<Longrightarrow> \<not> prefix ''shift+'' r \<Longrightarrow> strip_modifiers ms r = (ms, r)"
  by (subst strip_modifiers.simps) (simp add: strip_prefix_none)

lemma upper_lower: "ascii_lower c = c \<Longrightarrow> ascii_lower (ascii_upper_char c) = c"
proof -
  assume low: "ascii_lower c = c"
  show ?thesis
  proof (cases "97 \<le> (of_char c :: nat) \<and> of_char c \<le> (122 :: nat)")
    case True
    define n where "n = (of_char c :: nat) - 32"
    have n: "65 \<le> n" "n \<le> 90" "of_char c = n + 32" using True unfolding n_def by linarith+
    then have "n mod 256 = n" "c = char_of (n + 32)" by (simp_all flip: n(3))
    then show ?thesis using n by (simp add: ascii_lower_def ascii_upper_char_def Let_def)
  next
    case False
    then show ?thesis using low by (auto simp: ascii_upper_char_def Let_def)
  qed
qed

lemma lower_append: "to_lowercase (s @ t) = to_lowercase s @ to_lowercase t"
  by (simp add: to_lowercase_def)

lemma function_keys: "1 \<le> n \<Longrightarrow> n \<le> 12 \<Longrightarrow> parse_key_code (''f'' @ show_nat n) = Inr (KeyF n) \<and>
    to_lowercase (''F'' @ show_nat n) = ''f'' @ show_nat n"
proof -
  assume "1 \<le> n" "n \<le> 12"
  then have "n \<in> set [1, 2, 3, 4, 5, 6, 7, 8, 9, 10, 11, 12]" by simp presburger
  moreover have "list_all (\<lambda>n. parse_key_code (''f'' @ show_nat n) = Inr (KeyF n) \<and>
      to_lowercase (''F'' @ show_nat n) = ''f'' @ show_nat n) [1, 2, 3, 4, 5, 6, 7, 8, 9, 10, 11, 12]"
    by code_simp
  ultimately show ?thesis unfolding list_all_iff by blast
qed

lemma single_character:
  assumes "c \<noteq> CHR '' ''"
  shows "parse_key_code [c] = Inr (KeyChar c)"
proof -
  have "function_key [c] = None"
    by (simp add: function_key_def strip_prefix_def parse_uint_def split: option.split)
  then show ?thesis by (simp add: parse_key_code_def named_keys_def)
qed

lemma key_name_read:
  assumes "nameable spec"
  shows "parse_key_code (to_lowercase (key_name (ks_code spec))) = Inr (ks_code spec)"
    and "\<not> prefix ''ctrl+'' (to_lowercase (key_name (ks_code spec)))"
    and "\<not> prefix ''alt+'' (to_lowercase (key_name (ks_code spec)))"
    and "\<not> prefix ''shift+'' (to_lowercase (key_name (ks_code spec)))"
proof -
  have named: "parse_key_code (to_lowercase (key_name k)) = Inr k \<and> \<not> prefix ''ctrl+'' (to_lowercase (key_name k)) \<and>
      \<not> prefix ''alt+'' (to_lowercase (key_name k)) \<and> \<not> prefix ''shift+'' (to_lowercase (key_name k))"
    if "k \<in> set [KeyEnter, KeyEsc, KeyTab, KeyUp, KeyDown, KeyLeft, KeyRight, KeyHome, KeyEnd, KeyBackspace, KeyDelete,
          KeyChar CHR '' '']" for k
  proof -
    have "list_all (\<lambda>k. parse_key_code (to_lowercase (key_name k)) = Inr k \<and> \<not> prefix ''ctrl+'' (to_lowercase (key_name k)) \<and>
        \<not> prefix ''alt+'' (to_lowercase (key_name k)) \<and> \<not> prefix ''shift+'' (to_lowercase (key_name k)))
      [KeyEnter, KeyEsc, KeyTab, KeyUp, KeyDown, KeyLeft, KeyRight, KeyHome, KeyEnd, KeyBackspace, KeyDelete, KeyChar CHR '' '']"
      by code_simp
    then show ?thesis using that unfolding list_all_iff by blast
  qed
  have "parse_key_code (to_lowercase (key_name (ks_code spec))) = Inr (ks_code spec) \<and>
      \<not> prefix ''ctrl+'' (to_lowercase (key_name (ks_code spec))) \<and> \<not> prefix ''alt+'' (to_lowercase (key_name (ks_code spec))) \<and>
      \<not> prefix ''shift+'' (to_lowercase (key_name (ks_code spec)))"
  proof (cases "ks_code spec")
    case (KeyChar c)
    then have low: "ascii_lower (ascii_upper_char c) = c" using assms by (simp add: nameable_def upper_lower)
    show ?thesis
    proof (cases "c = CHR '' ''")
      case True
      then show ?thesis using named [of "KeyChar CHR '' ''"] KeyChar by simp
    next
      case False
      then have "to_lowercase (key_name (ks_code spec)) = [c]" using low KeyChar by (simp add: to_lowercase_def)
      then show ?thesis using single_character [OF False] KeyChar by simp
    qed
  next
    case (KeyF n)
    then have "1 \<le> n" "n \<le> 12" using assms by (simp_all add: nameable_def)
    then show ?thesis using function_keys [of n] KeyF by simp
  qed (rule named; use assms in \<open>simp add: nameable_def\<close>)+
  then show "parse_key_code (to_lowercase (key_name (ks_code spec))) = Inr (ks_code spec)"
    "\<not> prefix ''ctrl+'' (to_lowercase (key_name (ks_code spec)))"
    "\<not> prefix ''alt+'' (to_lowercase (key_name (ks_code spec)))"
    "\<not> prefix ''shift+'' (to_lowercase (key_name (ks_code spec)))" by blast+
qed

theorem shown_key_read_back:
  assumes "nameable spec"
  shows "parse_key_spec (format_key_spec spec) = Inr spec"
proof -
  obtain code c a s others where spec: "spec = \<lparr>ks_code = code, ks_modifiers = \<lparr>km_control = c, km_alt = a, km_shift = s, km_others = others\<rparr>\<rparr>"
    by (cases spec; cases "ks_modifiers spec") simp
  have others: "others = 0" using assms by (simp add: nameable_def spec)
  let ?name = "to_lowercase (key_name code)"
  have "to_lowercase (format_key_spec spec) =
      (if c then ''ctrl+'' else []) @ (if a then ''alt+'' else []) @ (if s then ''shift+'' else []) @ ?name"
  proof -
    have "ascii_lower CHR ''C'' = CHR ''c''" "ascii_lower CHR ''t'' = CHR ''t''" "ascii_lower CHR ''r'' = CHR ''r''"
      "ascii_lower CHR ''l'' = CHR ''l''" "ascii_lower CHR ''A'' = CHR ''a''" "ascii_lower CHR ''S'' = CHR ''s''"
      "ascii_lower CHR ''h'' = CHR ''h''" "ascii_lower CHR ''i'' = CHR ''i''" "ascii_lower CHR ''f'' = CHR ''f''"
      "ascii_lower CHR ''+'' = CHR ''+''"
      by code_simp+
    then show ?thesis by (simp add: format_key_spec_def spec to_lowercase_def)
  qed
  moreover note stops = strip_stops [OF key_name_read(2-4) [OF assms], unfolded spec key_spec.simps]
  moreover have "parse_key_code ?name = Inr code" using key_name_read(1) [OF assms] by (simp add: spec)
  ultimately show ?thesis
    unfolding parse_key_spec_def
    by (cases c; cases a; cases s)
       (simp_all add: strip_each [simplified] stops spec others no_modifiers_def)
qed

text \<open>A capital letter is never bound, and a terminal reports a letter with shift as a capital one.\<close>

lemma parse_lower:
  assumes "parse_key_spec text = Inr spec" "ks_code spec = KeyChar c"
  shows "ascii_lower c = c"
proof -
  have low: "ascii_lower (ascii_lower x) = ascii_lower x" for x
  proof (cases "65 \<le> (of_char x :: nat) \<and> of_char x \<le> (90 :: nat)")
    case True
    then have "of_char x + 32 < (256 :: nat)" by linarith
    then have "(of_char (char_of (of_char x + 32 :: nat)) :: nat) = of_char x + 32" by simp
    then show ?thesis using True by (simp add: ascii_lower_def Let_def)
  qed (auto simp: ascii_lower_def Let_def)
  obtain ms r where r: "strip_modifiers no_modifiers (to_lowercase text) = (ms, r)" by fastforce
  have kept: "set (snd (strip_modifiers ms r)) \<subseteq> set r" for ms r
  proof (induction ms r rule: strip_modifiers.induct)
    case (1 ms r)
    have rest: "strip_prefix r p = Some x \<Longrightarrow> set x \<subseteq> set r" for p x
      by (auto simp: strip_prefix_def split: if_splits dest: in_set_dropD)
    show ?case
      by (subst strip_modifiers.simps) (use 1 rest in \<open>fastforce split: option.splits\<close>)
  qed
  have "parse_key_code r = Inr (KeyChar c)" using assms r by (cases "parse_key_code r") (auto simp: parse_key_spec_def)
  then have "c = CHR '' '' \<or> r = [c]"
    by (auto simp: parse_key_code_def function_key_def named_keys_def split: option.splits if_splits list.splits)
  then show ?thesis
  proof
    assume "r = [c]"
    then have "c \<in> set (to_lowercase text)" using kept [of no_modifiers "to_lowercase text"] r by simp
    then show ?thesis using low by (auto simp: to_lowercase_def)
  qed (simp add: ascii_lower_def)
qed

end
