(* ===== verification/Tui_Dialog.thy ===== *)
theory Tui_Dialog
  imports Tui_Input Conflicts Profiles
begin

text \<open>
  \<^verbatim>\<open>porthmos-tui/widgets/dialog\<close>: the dialogs as state machines over keys.  What is drawn is left out,
  apart from the text a field shows.
\<close>

section \<open>Editing a line\<close>

text \<open>
  \<^verbatim>\<open>String::insert\<close> and \<^verbatim>\<open>String::remove\<close> at the byte of a character: removing behind the end would panic,
  and the cursor is shown below never to be there.
\<close>

definition insert_char_at :: "nat \<Rightarrow> char \<Rightarrow> string \<Rightarrow> string" where
  "insert_char_at index c s = take index s @ [c] @ drop index s"

definition remove_char_at :: "nat \<Rightarrow> string \<Rightarrow> string" where
  "remove_char_at index s = take index s @ drop (Suc index) s"

text \<open>The keys that edit: the text and its cursor.  The other keys leave both.\<close>

fun edit_line :: "key_code \<Rightarrow> string \<times> nat \<Rightarrow> string \<times> nat" where
  "edit_line KeyLeft (s, i) = (s, i - 1)"
| "edit_line KeyRight (s, i) = (s, min (i + 1) (length s))"
| "edit_line KeyHome (s, i) = (s, 0)"
| "edit_line KeyEnd (s, i) = (s, length s)"
| "edit_line KeyBackspace (s, i) = (if 0 < i then (remove_char_at (i - 1) s, i - 1) else (s, i))"
| "edit_line KeyDelete (s, i) = (if i < length s then remove_char_at i s else s, i)"
| "edit_line (KeyChar c) (s, i) = (insert_char_at i c s, i + 1)"
| "edit_line _ (s, i) = (s, i)"

section \<open>A line of text (text_input)\<close>

record text_input =
  ti_title :: string
  ti_text :: string
  ti_cursor :: nat

datatype text_input_outcome = InputPending | InputSubmitted string | InputCancelled

definition text_input_new :: "string \<Rightarrow> string \<Rightarrow> text_input" where
  "text_input_new title initial = \<lparr>ti_title = title, ti_text = initial, ti_cursor = length initial\<rparr>"

definition text_input_key :: "key_spec \<Rightarrow> text_input \<Rightarrow> text_input_outcome \<times> text_input" where
  "text_input_key key d =
     (case ks_code key of
        KeyEnter \<Rightarrow> (InputSubmitted (ti_text d), d)
      | KeyEsc \<Rightarrow> (InputCancelled, d)
      | code \<Rightarrow>
          (case edit_line code (ti_text d, ti_cursor d) of
             (s, i) \<Rightarrow> (InputPending, d\<lparr>ti_text := s, ti_cursor := i\<rparr>)))"

section \<open>Forms\<close>

definition KEPT_SECRET :: string where
  "KEPT_SECRET = CHR 0x00 # ''kept''"

datatype field_kind =
    TextField
  | MaskedField
  | SavedSecretField
  | ChoiceField "(string \<times> string) list" nat

record form_field =
  ff_key :: string
  ff_label :: string
  ff_text :: string
  ff_cursor :: nat
  ff_kind :: field_kind

definition text_field :: "string \<Rightarrow> string \<Rightarrow> string \<Rightarrow> form_field" where
  "text_field key label initial =
     \<lparr>ff_key = key, ff_label = label, ff_text = initial, ff_cursor = length initial, ff_kind = TextField\<rparr>"

definition masked_field :: "string \<Rightarrow> string \<Rightarrow> string \<Rightarrow> form_field" where
  "masked_field key label initial = text_field key label initial\<lparr>ff_kind := MaskedField\<rparr>"

definition saved_secret_field :: "string \<Rightarrow> string \<Rightarrow> form_field" where
  "saved_secret_field key label = text_field key label []\<lparr>ff_kind := SavedSecretField\<rparr>"

fun index_where :: "('a \<Rightarrow> bool) \<Rightarrow> 'a list \<Rightarrow> nat option" where
  "index_where P [] = None"
| "index_where P (x # xs) = (if P x then Some 0 else map_option Suc (index_where P xs))"

definition choice_field :: "string \<Rightarrow> string \<Rightarrow> (string \<times> string) list \<Rightarrow> string \<Rightarrow> form_field" where
  "choice_field key label choices selected =
     \<lparr>ff_key = key, ff_label = label, ff_text = [], ff_cursor = 0,
      ff_kind = ChoiceField choices (case index_where (\<lambda>c. fst c = selected) choices of Some i \<Rightarrow> i | None \<Rightarrow> 0)\<rparr>"

definition submitted_value :: "form_field \<Rightarrow> string" where
  "submitted_value f =
     (case ff_kind f of
        ChoiceField choices selected \<Rightarrow> if selected < length choices then fst (choices ! selected) else []
      | SavedSecretField \<Rightarrow> KEPT_SECRET
      | _ \<Rightarrow> ff_text f)"

definition is_choice :: "form_field \<Rightarrow> bool" where
  "is_choice f = (case ff_kind f of ChoiceField _ _ \<Rightarrow> True | _ \<Rightarrow> False)"

definition shift_choice :: "bool \<Rightarrow> form_field \<Rightarrow> bool \<times> form_field" where
  "shift_choice forward f =
     (case ff_kind f of
        ChoiceField choices selected \<Rightarrow>
          if length choices < 2 then (False, f)
          else (True, f\<lparr>ff_kind := ChoiceField choices
                 (if forward then (selected + 1) mod length choices
                  else (selected + length choices - 1) mod length choices)\<rparr>)
      | _ \<Rightarrow> (False, f))"

record form_dialog =
  fd_title :: string
  fd_fields :: "form_field list"
  fd_focused :: nat
  fd_error :: "string option"
  fd_hint :: "string option"
  fd_saved_secrets :: "(string \<times> string list) option"
  fd_remembered :: "(string, string) fmap"
  fd_prefilled :: "(string, string) fmap"

datatype form_outcome =
    FormPending
  | FormDone "(string \<times> string) list"
  | ChoiceMoved string
  | FormLeft

definition form_new :: "string \<Rightarrow> form_field list \<Rightarrow> form_dialog" where
  "form_new title fs =
     \<lparr>fd_title = title, fd_fields = fs, fd_focused = 0, fd_error = None, fd_hint = None, fd_saved_secrets = None,
      fd_remembered = fmempty, fd_prefilled = fmempty\<rparr>"

definition form_value :: "string \<Rightarrow> form_dialog \<Rightarrow> string option" where
  "form_value key d = map_option submitted_value (find (\<lambda>f. ff_key f = key) (fd_fields d))"

definition focused_field :: "form_dialog \<Rightarrow> form_field" where
  "focused_field d = fd_fields d ! fd_focused d"

definition set_focused :: "form_field \<Rightarrow> form_dialog \<Rightarrow> form_dialog" where
  "set_focused f d = d\<lparr>fd_fields := (fd_fields d)[fd_focused d := f]\<rparr>"

text \<open>A key that starts to replace a saved secret.\<close>

definition replace_saved :: "key_code \<Rightarrow> form_field \<Rightarrow> form_field option" where
  "replace_saved code f =
     (if ff_kind f \<noteq> SavedSecretField then None
      else (case code of
              KeyChar c \<Rightarrow> Some (f\<lparr>ff_kind := MaskedField, ff_text := [c], ff_cursor := 1\<rparr>)
            | KeyBackspace \<Rightarrow> Some (f\<lparr>ff_kind := MaskedField, ff_text := [], ff_cursor := 0\<rparr>)
            | KeyDelete \<Rightarrow> Some (f\<lparr>ff_kind := MaskedField, ff_text := [], ff_cursor := 0\<rparr>)
            | _ \<Rightarrow> None))"

definition edit_field :: "key_code \<Rightarrow> form_field \<Rightarrow> form_field" where
  "edit_field code f = (case edit_line code (ff_text f, ff_cursor f) of (s, i) \<Rightarrow> f\<lparr>ff_text := s, ff_cursor := i\<rparr>)"

definition form_key :: "key_spec \<Rightarrow> form_dialog \<Rightarrow> form_outcome \<times> form_dialog" where
  "form_key key d =
     (let f = focused_field d; code = ks_code key; count = length (fd_fields d)
      in case replace_saved code f of
           Some f \<Rightarrow> (FormPending, set_focused f d)
         | None \<Rightarrow>
             (case code of
                KeyEsc \<Rightarrow> (FormLeft, d)
              | KeyEnter \<Rightarrow> (FormDone (map (\<lambda>f. (ff_key f, submitted_value f)) (fd_fields d)), d)
              | KeyTab \<Rightarrow> (FormPending, d\<lparr>fd_focused := (fd_focused d + 1) mod count\<rparr>)
              | KeyBackTab \<Rightarrow> (FormPending, d\<lparr>fd_focused := (fd_focused d + count - 1) mod count\<rparr>)
              | _ \<Rightarrow>
                  if is_choice f
                  then if code = KeyLeft \<or> code = KeyRight
                       then (case shift_choice (code = KeyRight) f of
                               (True, f) \<Rightarrow> (ChoiceMoved (ff_key f), set_focused f d)
                             | (False, _) \<Rightarrow> (FormPending, d))
                       else (FormPending, d)
                  else (FormPending, set_focused (edit_field code f) d)))"

text \<open>What a field shows; a triangle on each side of a choice, eight dots for a secret.\<close>

definition SAVED_SECRET_DISPLAY :: string where
  "SAVED_SECRET_DISPLAY = concat (replicate 8 [CHR 0xE2, CHR 0x80, CHR 0xA2]) @ ''  (saved)''"

definition displayed_value :: "form_field \<Rightarrow> string" where
  "displayed_value f =
     (case ff_kind f of
        TextField \<Rightarrow> ff_text f
      | MaskedField \<Rightarrow> replicate (length (ff_text f)) (CHR ''*'')
      | SavedSecretField \<Rightarrow> SAVED_SECRET_DISPLAY
      | ChoiceField choices selected \<Rightarrow>
          [CHR 0xE2, CHR 0x97, CHR 0x80] @ '' '' @ (if selected < length choices then snd (choices ! selected) else []) @ '' '' @
          [CHR 0xE2, CHR 0x96, CHR 0xB6])"

section \<open>Confirming (confirm)\<close>

datatype confirm_focus = FocusYes | FocusNo

record confirm_dialog =
  cd_message :: string
  cd_focus :: confirm_focus

datatype confirm_outcome = ConfirmPending | ConfirmedIt | ConfirmLeft

definition confirm_new :: "string \<Rightarrow> confirm_dialog" where
  "confirm_new message = \<lparr>cd_message = message, cd_focus = FocusNo\<rparr>"

definition confirm_key :: "key_spec \<Rightarrow> confirm_dialog \<Rightarrow> confirm_outcome \<times> confirm_dialog" where
  "confirm_key key d =
     (case ks_code key of
        KeyChar c \<Rightarrow>
          (if c \<in> {CHR ''y'', CHR ''Y''} then ConfirmedIt else if c \<in> {CHR ''n'', CHR ''N''} then ConfirmLeft else ConfirmPending, d)
      | KeyEsc \<Rightarrow> (ConfirmLeft, d)
      | KeyEnter \<Rightarrow> (case cd_focus d of FocusYes \<Rightarrow> ConfirmedIt | FocusNo \<Rightarrow> ConfirmLeft, d)
      | code \<Rightarrow>
          if code \<in> {KeyTab, KeyLeft, KeyRight}
          then (ConfirmPending, d\<lparr>cd_focus := (case cd_focus d of FocusYes \<Rightarrow> FocusNo | FocusNo \<Rightarrow> FocusYes)\<rparr>)
          else (ConfirmPending, d))"

section \<open>Lists (list)\<close>

record list_dialog =
  ld_title :: string
  ld_items :: "string list"
  ld_cursor :: nat
  ld_removable :: bool

datatype list_outcome = ListPending | ListSelected nat | ListRemoved nat | ListLeft

definition list_new :: "string \<Rightarrow> string list \<Rightarrow> list_dialog" where
  "list_new title items = \<lparr>ld_title = title, ld_items = items, ld_cursor = 0, ld_removable = False\<rparr>"

definition list_key :: "key_spec \<Rightarrow> list_dialog \<Rightarrow> list_outcome \<times> list_dialog" where
  "list_key key d =
     (case ks_code key of
        KeyUp \<Rightarrow> (ListPending, d\<lparr>ld_cursor := ld_cursor d - 1\<rparr>)
      | KeyDown \<Rightarrow>
          (ListPending, if ld_cursor d + 1 < length (ld_items d) then d\<lparr>ld_cursor := ld_cursor d + 1\<rparr> else d)
      | KeyEnter \<Rightarrow> (if ld_items d \<noteq> [] then ListSelected (ld_cursor d) else ListPending, d)
      | KeyF n \<Rightarrow> (if n = 8 \<and> ld_removable d \<and> ld_items d \<noteq> [] then ListRemoved (ld_cursor d) else ListPending, d)
      | KeyEsc \<Rightarrow> (ListLeft, d)
      | _ \<Rightarrow> (ListPending, d))"

section \<open>Conflicts (conflict)\<close>

record conflict_dialog =
  xd_file_name :: string
  xd_existing :: "existing_file option"
  xd_partial :: "existing_file option"
  xd_new_size :: nat
  xd_new_modified :: "nat option"
  xd_index :: nat
  xd_total :: nat
  xd_apply_to_rest :: bool
  xd_now :: nat

datatype conflict_outcome = ConflictPending | ConflictResolved "resolution option" bool

definition existing_is_dir :: "conflict_dialog \<Rightarrow> bool" where
  "existing_is_dir d = (case xd_existing d of Some e \<Rightarrow> ef_is_dir e | None \<Rightarrow> False)"

definition offers_resume :: "conflict_dialog \<Rightarrow> bool" where
  "offers_resume d \<longleftrightarrow> xd_partial d \<noteq> None \<and> \<not> existing_is_dir d"

definition remaining_after_this :: "conflict_dialog \<Rightarrow> nat" where
  "remaining_after_this d = xd_total d - (xd_index d + 1)"

definition conflict_key :: "key_spec \<Rightarrow> conflict_dialog \<Rightarrow> conflict_outcome \<times> conflict_dialog" where
  "conflict_key key d =
     (let answer = (\<lambda>r. (ConflictResolved (Some r) (xd_apply_to_rest d), d));
          shortcut = km_control (ks_modifiers key) \<or> km_alt (ks_modifiers key)
      in case ks_code key of
           KeyEsc \<Rightarrow> (ConflictResolved None False, d)
         | KeyChar c \<Rightarrow>
             (let c = ascii_lower c
              in if c = CHR ''c'' then (ConflictResolved None False, d)
                 else if shortcut then (ConflictPending, d)
                 else if c = CHR ''u'' \<and> offers_resume d then answer Resume
                 else if c = CHR ''o'' \<and> \<not> existing_is_dir d then answer Overwrite
                 else if c = CHR ''s'' then answer Skip
                 else if c = CHR ''r'' \<and> xd_existing d \<noteq> None then answer Rename
                 else if c = CHR ''a'' \<and> 0 < remaining_after_this d
                 then (ConflictPending, d\<lparr>xd_apply_to_rest := \<not> xd_apply_to_rest d\<rparr>)
                 else (ConflictPending, d))
         | _ \<Rightarrow> (ConflictPending, d))"

section \<open>Messages (message)\<close>

record message_dialog =
  md_title :: string
  md_message :: string

definition message_closes :: "key_spec \<Rightarrow> bool" where
  "message_closes key \<longleftrightarrow> ks_code key = KeyEnter \<or> ks_code key = KeyEsc"

section \<open>Any dialog\<close>

datatype dialog =
    ConfirmBox confirm_dialog
  | InputBox text_input
  | ListBox list_dialog
  | FormBox form_dialog
  | ConflictBox conflict_dialog
  | MessageBox message_dialog

datatype dialog_outcome =
    DialogPending
  | DialogConfirmed
  | DialogCancelled
  | DialogSubmitted string
  | DialogSelected nat
  | DialogRemoved nat
  | DialogFormSubmitted "(string \<times> string) list"
  | DialogChoiceChanged string
  | DialogResolved "resolution option" bool

definition dialog_key :: "key_spec \<Rightarrow> dialog \<Rightarrow> dialog_outcome \<times> dialog" where
  "dialog_key key dialog =
     (case dialog of
        ConfirmBox d \<Rightarrow>
          (case confirm_key key d of
             (outcome, d) \<Rightarrow>
               (case outcome of ConfirmPending \<Rightarrow> DialogPending | ConfirmedIt \<Rightarrow> DialogConfirmed | ConfirmLeft \<Rightarrow> DialogCancelled,
                ConfirmBox d))
      | InputBox d \<Rightarrow>
          (case text_input_key key d of
             (outcome, d) \<Rightarrow>
               (case outcome of InputPending \<Rightarrow> DialogPending | InputSubmitted s \<Rightarrow> DialogSubmitted s | InputCancelled \<Rightarrow> DialogCancelled,
                InputBox d))
      | ListBox d \<Rightarrow>
          (case list_key key d of
             (outcome, d) \<Rightarrow>
               (case outcome of
                  ListPending \<Rightarrow> DialogPending
                | ListSelected i \<Rightarrow> DialogSelected i
                | ListRemoved i \<Rightarrow> DialogRemoved i
                | ListLeft \<Rightarrow> DialogCancelled, ListBox d))
      | FormBox d \<Rightarrow>
          (case form_key key d of
             (outcome, d) \<Rightarrow>
               (case outcome of
                  FormPending \<Rightarrow> DialogPending
                | FormDone values \<Rightarrow> DialogFormSubmitted values
                | ChoiceMoved key \<Rightarrow> DialogChoiceChanged key
                | FormLeft \<Rightarrow> DialogCancelled, FormBox d))
      | ConflictBox d \<Rightarrow>
          (case conflict_key key d of
             (outcome, d) \<Rightarrow>
               (case outcome of ConflictPending \<Rightarrow> DialogPending | ConflictResolved r rest \<Rightarrow> DialogResolved r rest, ConflictBox d))
      | MessageBox d \<Rightarrow> (if message_closes key then DialogCancelled else DialogPending, MessageBox d))"

text \<open>
  \<^verbatim>\<open>porthmos-tui/app/connections/form\<close>: the form of a connection, what it keeps when the protocol
  changes, and the draft it submits.
\<close>

section \<open>Fields\<close>

record protocol_info =
  pi_id :: string
  pi_display_name :: string
  pi_form :: connection_form

definition UNAVAILABLE_PORT :: nat where
  "UNAVAILABLE_PORT = 22"

definition COMMON_KEYS :: "string list" where
  "COMMON_KEYS =
     [''protocol'', ''name'', ''group'', ''tags'', ''host'', ''port'', ''username'', ''password'', ''remote_path'']"

record common_values =
  co_name :: string
  co_group :: string
  co_tags :: string
  co_host :: string
  co_port :: string
  co_username :: string
  co_password :: string
  co_saved_password :: bool
  co_remote_path :: string

definition find_protocol_info :: "protocol_info list \<Rightarrow> string \<Rightarrow> protocol_info option" where
  "find_protocol_info protocols wanted_id = find (\<lambda>p. pi_id p = wanted_id) protocols"

definition protocol_choices :: "protocol_info list \<Rightarrow> string option \<Rightarrow> (string \<times> string) list" where
  "protocol_choices protocols unavailable =
     map (\<lambda>p. (pi_id p, pi_display_name p)) protocols @
     (case unavailable of
        Some wanted_id \<Rightarrow>
          if find_protocol_info protocols wanted_id = None then [(wanted_id, wanted_id @ '' (not available)'')] else []
      | None \<Rightarrow> [])"

definition form_for :: "protocol_info list \<Rightarrow> string \<Rightarrow> connection_form" where
  "form_for protocols wanted_id =
     (case find_protocol_info protocols wanted_id of Some p \<Rightarrow> pi_form p | None \<Rightarrow> standard_form UNAVAILABLE_PORT)"

definition TOGGLE_CHOICES :: "(string \<times> string) list" where
  "TOGGLE_CHOICES = [(''true'', ''Yes''), (''false'', ''No'')]"

definition option_form_field :: "option_field \<Rightarrow> string option \<Rightarrow> string list \<Rightarrow> form_field" where
  "option_form_field f saved saved_secrets =
     (case of_kind f of
        SecretOption \<Rightarrow>
          if of_key f \<in> set saved_secrets then saved_secret_field (of_key f) (of_label f)
          else masked_field (of_key f) (of_label f)
                 (case saved of Some v \<Rightarrow> if v = KEPT_SECRET then [] else v | None \<Rightarrow> [])
      | TextOption preset \<Rightarrow> text_field (of_key f) (of_label f) (case saved of Some v \<Rightarrow> v | None \<Rightarrow> preset)
      | ChoiceOption choices preset \<Rightarrow>
          (let pairs = map (\<lambda>c. (co_value c, co_label c)) choices;
               wanted = (case saved of Some v \<Rightarrow> if v \<in> fst ` set pairs then v else preset | None \<Rightarrow> preset)
           in choice_field (of_key f) (of_label f) pairs wanted)
      | ToggleOption preset \<Rightarrow>
          (let fallback = (if preset then ''true'' else ''false'');
               wanted = (case saved of Some v \<Rightarrow> if v = ''true'' \<or> v = ''false'' then v else fallback | None \<Rightarrow> fallback)
           in choice_field (of_key f) (of_label f) TOGGLE_CHOICES wanted))"

definition form_fields ::
  "protocol_info list \<Rightarrow> string \<Rightarrow> string option \<Rightarrow> common_values \<Rightarrow> (string, string) fmap \<Rightarrow> string list \<Rightarrow> form_field list"
where
  "form_fields protocols protocol unavailable common saved_options saved_secrets =
     (let form = form_for protocols protocol
      in [choice_field ''protocol'' ''Protocol'' (protocol_choices protocols unavailable) protocol,
          text_field ''name'' ''Name'' (co_name common),
          text_field ''group'' ''Group'' (co_group common),
          text_field ''tags'' ''Tags'' (co_tags common),
          text_field ''host'' (cm_label (fm_host form)) (co_host common),
          text_field ''port'' (po_label (fm_port form)) (co_port common),
          text_field ''username'' (cm_label (fm_username form)) (co_username common),
          if co_saved_password common then saved_secret_field ''password'' (cm_label (fm_password form))
          else masked_field ''password'' (cm_label (fm_password form)) (co_password common),
          text_field ''remote_path'' ''Remote folder'' (co_remote_path common)] @
         map (\<lambda>f. option_form_field f (fmlookup saved_options (of_key f)) saved_secrets) (fm_options form))"

definition secret_option_keys :: "protocol_info list \<Rightarrow> string \<Rightarrow> string list" where
  "secret_option_keys protocols protocol =
     map of_key (filter (\<lambda>f. of_kind f = SecretOption) (fm_options (form_for protocols protocol)))"

definition plain_options :: "protocol_info list \<Rightarrow> connection_entry \<Rightarrow> (string, string) fmap" where
  "plain_options protocols e =
     fmfilter (\<lambda>key. key \<notin> set (secret_option_keys protocols (ce_protocol e))) (ce_options e)"

section \<open>Building the form\<close>

definition text_of :: "string option \<Rightarrow> string" where
  "text_of t = (case t of Some s \<Rightarrow> s | None \<Rightarrow> [])"

definition common_of_entry :: "connection_entry \<Rightarrow> common_values" where
  "common_of_entry e =
     \<lparr>co_name = ce_name e, co_group = text_of (ce_group e), co_tags = join_with '', '' (ce_tags e), co_host = ce_host e,
      co_port = show_nat (ce_port e), co_username = ce_username e, co_password = [],
      co_saved_password = ce_saved_password e, co_remote_path = text_of (fmlookup (ce_options e) ''remote_path'')\<rparr>"

definition common_of_protocol :: "protocol_info \<Rightarrow> common_values" where
  "common_of_protocol p =
     \<lparr>co_name = [], co_group = [], co_tags = [], co_host = [], co_port = show_nat (po_default (fm_port (pi_form p))),
      co_username = [], co_password = [], co_saved_password = False, co_remote_path = []\<rparr>"

definition build_edit_form :: "string \<Rightarrow> protocol_info list \<Rightarrow> connection_entry \<Rightarrow> form_dialog" where
  "build_edit_form title protocols e =
     (let options = plain_options protocols e;
          d = form_new title
                (form_fields protocols (ce_protocol e) (Some (ce_protocol e)) (common_of_entry e) options (ce_in_keyring e));
          registered = map_option (\<lambda>p. po_default (fm_port (pi_form p))) (find_protocol_info protocols (ce_protocol e))
      in d\<lparr>fd_remembered := options, fd_saved_secrets := Some (ce_protocol e, ce_in_keyring e),
           fd_prefilled := (if registered = Some (ce_port e) then fmupd ''port'' (show_nat (ce_port e)) fmempty else fmempty)\<rparr>)"

definition build_add_form :: "string \<Rightarrow> protocol_info list \<Rightarrow> form_dialog option" where
  "build_add_form title protocols =
     (case protocols of
        [] \<Rightarrow> None
      | first # _ \<Rightarrow>
          (let d = form_new title (form_fields protocols (pi_id first) None (common_of_protocol first) fmempty [])
           in Some (case form_value ''port'' d of
                      Some port \<Rightarrow> d\<lparr>fd_prefilled := fmupd ''port'' port (fd_prefilled d)\<rparr>
                    | None \<Rightarrow> d)))"

definition build_form :: "string \<Rightarrow> protocol_info list \<Rightarrow> connection_entry option \<Rightarrow> form_dialog option" where
  "build_form title protocols existing =
     (case existing of Some e \<Rightarrow> Some (build_edit_form title protocols e) | None \<Rightarrow> build_add_form title protocols)"

definition build_labels :: "connection_entry \<Rightarrow> form_dialog" where
  "build_labels e =
     form_new (''Labels for '' @ ce_name e)
       ([text_field ''group'' ''Group'' (text_of (ce_group e)), text_field ''tags'' ''Tags'' (join_with '', '' (ce_tags e))] @
        (if ce_saved_password e
         then [choice_field ''saved_password'' ''Saved password'' [(''keep'', ''Keep''), (''forget'', ''Forget'')] ''keep''] else []))"

section \<open>Another protocol\<close>

definition unavailable_choice :: "form_dialog \<Rightarrow> protocol_info list \<Rightarrow> string option" where
  "unavailable_choice d protocols =
     (case fd_fields d of
        f # _ \<Rightarrow>
          (case ff_kind f of
             ChoiceField choices _ \<Rightarrow> find (\<lambda>c. find_protocol_info protocols c = None) (map fst choices)
           | _ \<Rightarrow> None)
      | [] \<Rightarrow> None)"

definition remember_field :: "form_field \<Rightarrow> (string, string) fmap \<Rightarrow> (string, string) fmap" where
  "remember_field f remembered =
     (let v = submitted_value f
      in if v = KEPT_SECRET then fmdrop (ff_key f) remembered else fmupd (ff_key f) v remembered)"

definition rebuild_for_protocol :: "protocol_info list \<Rightarrow> form_dialog \<Rightarrow> form_dialog" where
  "rebuild_for_protocol protocols d =
     (case form_value ''protocol'' d of
        None \<Rightarrow> d
      | Some protocol \<Rightarrow>
          (let form_of = (\<lambda>key. text_of (form_value key d));
               typed_port = form_of ''port'';
               port_untouched =
                 (trim typed_port = [] \<or> fmlookup (fd_prefilled d) ''port'' = Some (trim typed_port));
               typed_password = (let v = form_of ''password'' in if v = KEPT_SECRET then [] else v);
               restored = (case fd_saved_secrets d of
                             Some (saved_protocol, markers) \<Rightarrow> if saved_protocol = protocol then markers else []
                           | None \<Rightarrow> []);
               common =
                 \<lparr>co_name = form_of ''name'', co_group = form_of ''group'', co_tags = form_of ''tags'',
                  co_host = form_of ''host'',
                  co_port = (if port_untouched then show_nat (po_default (fm_port (form_for protocols protocol))) else typed_port),
                  co_username = form_of ''username'', co_password = typed_password,
                  co_saved_password = (typed_password = [] \<and> ''password'' \<in> set restored),
                  co_remote_path = form_of ''remote_path''\<rparr>;
               unavailable = unavailable_choice d protocols;
               remembered = fold remember_field (filter (\<lambda>f. ff_key f \<notin> set COMMON_KEYS) (fd_fields d)) (fd_remembered d);
               untouched = filter (\<lambda>key. fmlookup remembered key = None \<or> fmlookup remembered key = Some []) restored
           in d\<lparr>fd_remembered := remembered,
                fd_prefilled := (if port_untouched then fmupd ''port'' (co_port common) (fd_prefilled d)
                                 else fmdrop ''port'' (fd_prefilled d)),
                fd_fields := form_fields protocols protocol unavailable common remembered untouched,
                fd_focused := 0, fd_error := None\<rparr>))"

section \<open>The draft\<close>

definition secret_edit_of :: "string \<Rightarrow> secret_edit" where
  "secret_edit_of v = (if v = KEPT_SECRET then Keep else if v = [] then Clear else Replace v)"

definition draft_default :: profile_draft where
  "draft_default =
     \<lparr>pd_protocol = [], pd_name = [], pd_host = [], pd_port = [], pd_username = [], pd_password = Keep, pd_remote_path = [],
      pd_group = [], pd_tags = [], pd_options = fmempty, pd_secret_options = fmempty\<rparr>"

definition add_to_draft :: "string list \<Rightarrow> string \<times> string \<Rightarrow> profile_draft \<Rightarrow> profile_draft" where
  "add_to_draft secret_keys kv d =
     (case kv of
        (key, v) \<Rightarrow>
          if key \<in> set secret_keys then d\<lparr>pd_secret_options := fmupd key (secret_edit_of v) (pd_secret_options d)\<rparr>
          else if key = ''protocol'' then d\<lparr>pd_protocol := v\<rparr>
          else if key = ''name'' then d\<lparr>pd_name := v\<rparr>
          else if key = ''group'' then d\<lparr>pd_group := v\<rparr>
          else if key = ''tags'' then d\<lparr>pd_tags := v\<rparr>
          else if key = ''host'' then d\<lparr>pd_host := v\<rparr>
          else if key = ''port'' then d\<lparr>pd_port := v\<rparr>
          else if key = ''username'' then d\<lparr>pd_username := v\<rparr>
          else if key = ''password'' then d\<lparr>pd_password := secret_edit_of v\<rparr>
          else if key = ''remote_path'' then d\<lparr>pd_remote_path := v\<rparr>
          else d\<lparr>pd_options := fmupd key v (pd_options d)\<rparr>)"

definition form_draft :: "(string \<times> string) list \<Rightarrow> string list \<Rightarrow> profile_draft" where
  "form_draft values secret_keys = fold (add_to_draft secret_keys) values draft_default"

section \<open>The form of a connection\<close>

lemma same_plain_options:
  assumes "\<forall>key. key \<notin> set (Tui_Dialog.secret_option_keys ps (ce_protocol e)) \<longrightarrow> fmlookup o' key = fmlookup (ce_options e) key"
  shows "plain_options ps (e\<lparr>ce_options := o'\<rparr>) = plain_options ps e"
  using assms by (intro fmap_ext) (simp add: plain_options_def)

text \<open>The form that edits a saved connection does not depend on its secrets: it is the same for two entries that differ in the values of secret options only, however they are named and whatever is shown of the form.\<close>

theorem edit_form_hides_secrets:
  assumes "\<forall>key. key \<notin> set (Tui_Dialog.secret_option_keys ps (ce_protocol e)) \<longrightarrow> fmlookup o' key = fmlookup (ce_options e) key"
    and "''remote_path'' \<notin> set (Tui_Dialog.secret_option_keys ps (ce_protocol e))"
  shows "build_form title ps (Some (e\<lparr>ce_options := o'\<rparr>)) = build_form title ps (Some e)"
proof -
  have "common_of_entry (e\<lparr>ce_options := o'\<rparr>) = common_of_entry e"
    using assms by (simp add: common_of_entry_def)
  then show ?thesis
    using same_plain_options [OF assms(1)] by (auto simp: build_form_def build_edit_form_def Let_def)
qed

lemma index_where_found: "x \<in> set xs \<Longrightarrow> P x \<Longrightarrow> \<exists>i. index_where P xs = Some i \<and> i < length xs \<and> P (xs ! i)"
  by (induction xs) auto

lemma submitted_fields [simp]:
  "submitted_value (text_field k l v) = v" "submitted_value (masked_field k l v) = v"
  "submitted_value (saved_secret_field k l) = KEPT_SECRET"
  "ff_key (text_field k l v) = k" "ff_key (masked_field k l v) = k" "ff_key (saved_secret_field k l) = k"
  "ff_key (choice_field k l cs s) = k"
  by (simp_all add: submitted_value_def text_field_def masked_field_def saved_secret_field_def choice_field_def)

lemma submitted_choice: "s \<in> fst ` set cs \<Longrightarrow> submitted_value (choice_field k l cs s) = s"
proof -
  assume "s \<in> fst ` set cs"
  then obtain c where "c \<in> set cs" "fst c = s" by auto
  then obtain i where "index_where (\<lambda>c. fst c = s) cs = Some i" "i < length cs" "fst (cs ! i) = s"
    using index_where_found [of c cs "\<lambda>c. fst c = s"] by auto
  then show ?thesis by (simp add: submitted_value_def choice_field_def)
qed

lemma key_of_option [simp]: "ff_key (option_form_field f saved secrets) = of_key f"
  by (simp add: option_form_field_def Let_def split: option_kind.split)

lemma add_option:
  "k \<notin> set COMMON_KEYS \<Longrightarrow>
   add_to_draft sk (k, v) d =
     (if k \<in> set sk then d\<lparr>pd_secret_options := fmupd k (secret_edit_of v) (pd_secret_options d)\<rparr>
      else d\<lparr>pd_options := fmupd k v (pd_options d)\<rparr>)"
  by (simp add: add_to_draft_def COMMON_KEYS_def)

lemma draft_options:
  assumes "distinct (map fst kvs)" "\<forall>k \<in> fst ` set kvs. k \<notin> set COMMON_KEYS" "(k, v) \<in> set kvs"
  shows "(k \<notin> set sk \<longrightarrow> fmlookup (pd_options (fold (add_to_draft sk) kvs d)) k = Some v) \<and>
         (k \<in> set sk \<longrightarrow> fmlookup (pd_secret_options (fold (add_to_draft sk) kvs d)) k = Some (secret_edit_of v))"
  using assms
proof (induction kvs rule: rev_induct)
  case (snoc x kvs)
  obtain a b where x: "x = (a, b)" by (cases x)
  have "a \<notin> set COMMON_KEYS" using snoc.prems(2) x by simp
  note step = add_option [OF this]
  show ?case
  proof (cases "(k, v) \<in> set kvs")
    case True
    then have "a \<noteq> k" using snoc.prems(1) x by (force simp: image_iff)
    then show ?thesis using snoc.IH snoc.prems True x by (simp add: step)
  next
    case False
    then show ?thesis using snoc.prems(3) x by (simp add: step)
  qed
qed simp

lemma draft_others:
  assumes "\<forall>k \<in> fst ` set kvs. k \<notin> set COMMON_KEYS"
  shows "pd_protocol (fold (add_to_draft sk) kvs d) = pd_protocol d \<and> pd_name (fold (add_to_draft sk) kvs d) = pd_name d \<and>
    pd_host (fold (add_to_draft sk) kvs d) = pd_host d \<and> pd_port (fold (add_to_draft sk) kvs d) = pd_port d \<and>
    pd_username (fold (add_to_draft sk) kvs d) = pd_username d \<and> pd_password (fold (add_to_draft sk) kvs d) = pd_password d \<and>
    pd_remote_path (fold (add_to_draft sk) kvs d) = pd_remote_path d \<and> pd_group (fold (add_to_draft sk) kvs d) = pd_group d \<and>
    pd_tags (fold (add_to_draft sk) kvs d) = pd_tags d"
  using assms
proof (induction kvs arbitrary: d)
  case (Cons x kvs)
  then show ?case by (cases x) (simp add: add_option)
qed simp

lemma draft_common:
  assumes "\<forall>k \<in> set COMMON_KEYS. k \<notin> set sk"
  shows "form_draft ([(''protocol'', v1), (''name'', v2), (''group'', v3), (''tags'', v4), (''host'', v5), (''port'', v6),
      (''username'', v7), (''password'', v8), (''remote_path'', v9)] @ kvs) sk =
    fold (add_to_draft sk) kvs
      (draft_default\<lparr>pd_protocol := v1, pd_name := v2, pd_group := v3, pd_tags := v4, pd_host := v5, pd_port := v6,
         pd_username := v7, pd_password := secret_edit_of v8, pd_remote_path := v9\<rparr>)"
proof -
  have sk: "''protocol'' \<notin> set sk" "''name'' \<notin> set sk" "''group'' \<notin> set sk" "''tags'' \<notin> set sk" "''host'' \<notin> set sk"
    "''port'' \<notin> set sk" "''username'' \<notin> set sk" "''password'' \<notin> set sk" "''remote_path'' \<notin> set sk"
    using assms by (simp_all add: COMMON_KEYS_def)
  have step: "add_to_draft sk (''protocol'', v1) d = d\<lparr>pd_protocol := v1\<rparr>" "add_to_draft sk (''name'', v2) d = d\<lparr>pd_name := v2\<rparr>"
    "add_to_draft sk (''group'', v3) d = d\<lparr>pd_group := v3\<rparr>" "add_to_draft sk (''tags'', v4) d = d\<lparr>pd_tags := v4\<rparr>"
    "add_to_draft sk (''host'', v5) d = d\<lparr>pd_host := v5\<rparr>" "add_to_draft sk (''port'', v6) d = d\<lparr>pd_port := v6\<rparr>"
    "add_to_draft sk (''username'', v7) d = d\<lparr>pd_username := v7\<rparr>"
    "add_to_draft sk (''password'', v8) d = d\<lparr>pd_password := secret_edit_of v8\<rparr>"
    "add_to_draft sk (''remote_path'', v9) d = d\<lparr>pd_remote_path := v9\<rparr>" for d
    using sk by (simp_all add: add_to_draft_def)
  show ?thesis unfolding form_draft_def by (simp only: fold_append o_apply fold_simps step append_Cons append_Nil)
qed

lemma kept_is_kept: "secret_edit_of KEPT_SECRET = Keep" "secret_edit_of [] = Clear"
  by (simp_all add: secret_edit_of_def KEPT_SECRET_def)

definition untouched_draft :: "protocol_info list \<Rightarrow> connection_entry \<Rightarrow> profile_draft" where
  "untouched_draft ps e =
     form_draft (map (\<lambda>f. (ff_key f, submitted_value f)) (fd_fields (build_edit_form [] ps e)))
       (Tui_Dialog.secret_option_keys ps (ce_protocol e))"

lemma protocol_offered: "p \<in> fst ` set (protocol_choices ps (Some p))"
proof (cases "find_protocol_info ps p")
  case (Some x)
  then have "x \<in> set ps \<and> pi_id x = p" using find_member [of "\<lambda>p'. pi_id p' = p" ps x] by (simp add: find_protocol_info_def)
  then have "p \<in> fst ` set (map (\<lambda>p. (pi_id p, pi_display_name p)) ps)" by (auto simp: image_image)
  then show ?thesis by (simp add: protocol_choices_def image_Un)
qed (simp add: protocol_choices_def)

text \<open>(C@) Opening the form of a saved connection and submitting it untouched changes nothing: the draft has the name, the host, the port, the user, the labels and the folder of the entry, keeps the password and the secret options that are saved and clears those that are not, keeps every text option, and keeps a choice or a toggle that is one of those offered.\<close>

theorem untouched_form_keeps_entry:
  assumes keys: "distinct (map of_key (fm_options (form_for ps (ce_protocol e))))"
      "set (map of_key (fm_options (form_for ps (ce_protocol e)))) \<inter> set COMMON_KEYS = {}"
  shows "pd_protocol (untouched_draft ps e) = ce_protocol e \<and> pd_name (untouched_draft ps e) = ce_name e \<and>
    pd_host (untouched_draft ps e) = ce_host e \<and> pd_port (untouched_draft ps e) = show_nat (ce_port e) \<and>
    pd_username (untouched_draft ps e) = ce_username e \<and>
    pd_password (untouched_draft ps e) = (if ce_saved_password e then Keep else Clear) \<and>
    pd_remote_path (untouched_draft ps e) = text_of (fmlookup (ce_options e) ''remote_path'') \<and>
    pd_group (untouched_draft ps e) = text_of (ce_group e) \<and> pd_tags (untouched_draft ps e) = join_with '', '' (ce_tags e) \<and>
    (\<forall>f \<in> set (fm_options (form_for ps (ce_protocol e))).
       (of_kind f = SecretOption \<longrightarrow>
          fmlookup (pd_secret_options (untouched_draft ps e)) (of_key f) =
            Some (if of_key f \<in> set (ce_in_keyring e) then Keep else Clear)) \<and>
       (\<forall>preset. of_kind f = TextOption preset \<longrightarrow>
          fmlookup (pd_options (untouched_draft ps e)) (of_key f) =
            Some (case fmlookup (ce_options e) (of_key f) of Some v \<Rightarrow> v | None \<Rightarrow> preset)) \<and>
       (\<forall>cs preset v. of_kind f = ChoiceOption cs preset \<and> fmlookup (ce_options e) (of_key f) = Some v \<and> v \<in> co_value ` set cs \<longrightarrow>
          fmlookup (pd_options (untouched_draft ps e)) (of_key f) = Some v) \<and>
       (\<forall>preset v. of_kind f = ToggleOption preset \<and> fmlookup (ce_options e) (of_key f) = Some v \<and> v \<in> {''true'', ''false''} \<longrightarrow>
          fmlookup (pd_options (untouched_draft ps e)) (of_key f) = Some v))"
proof -
  let ?fs = "fm_options (form_for ps (ce_protocol e))" and ?sk = "Tui_Dialog.secret_option_keys ps (ce_protocol e)"
  let ?field = "\<lambda>f. option_form_field f (fmlookup (plain_options ps e) (of_key f)) (ce_in_keyring e)"
  let ?kvs = "map (\<lambda>f. (of_key f, submitted_value (?field f))) ?fs"
  let ?start = "draft_default\<lparr>pd_protocol := ce_protocol e, pd_name := ce_name e, pd_group := text_of (ce_group e),
      pd_tags := join_with '', '' (ce_tags e), pd_host := ce_host e, pd_port := show_nat (ce_port e), pd_username := ce_username e,
      pd_password := (if ce_saved_password e then Keep else Clear), pd_remote_path := text_of (fmlookup (ce_options e) ''remote_path'')\<rparr>"
  have sk: "k \<notin> set ?sk" if "k \<in> set COMMON_KEYS" for k using keys(2) that by (auto simp: secret_option_keys_def)
  have fields: "map (\<lambda>f. (ff_key f, submitted_value f)) (fd_fields (build_edit_form [] ps e)) =
      [(''protocol'', ce_protocol e), (''name'', ce_name e), (''group'', text_of (ce_group e)), (''tags'', join_with '', '' (ce_tags e)),
       (''host'', ce_host e), (''port'', show_nat (ce_port e)), (''username'', ce_username e),
       (''password'', if ce_saved_password e then KEPT_SECRET else []),
       (''remote_path'', text_of (fmlookup (ce_options e) ''remote_path''))] @ ?kvs"
    by (simp add: build_edit_form_def form_new_def form_fields_def common_of_entry_def submitted_choice protocol_offered Let_def)
  have password: "secret_edit_of (if ce_saved_password e then KEPT_SECRET else []) = (if ce_saved_password e then Keep else Clear)"
    by (simp add: kept_is_kept)
  have draft: "untouched_draft ps e = fold (add_to_draft ?sk) ?kvs ?start"
    unfolding untouched_draft_def fields using sk draft_common [of ?sk] password by simp
  have outside: "\<forall>k \<in> fst ` set ?kvs. k \<notin> set COMMON_KEYS" using keys(2) by auto
  have "distinct (map fst ?kvs)" using keys(1) by (simp add: comp_def)
  note options = draft_options [OF this outside, of _ _ ?sk ?start, folded draft]
  have secret: "of_key f \<in> set ?sk \<longleftrightarrow> of_kind f = SecretOption" if "f \<in> set ?fs" for f
    using that keys(1) by (auto simp: secret_option_keys_def distinct_map inj_on_def)
  have plain: "fmlookup (plain_options ps e) (of_key f) = (if of_kind f = SecretOption then None else fmlookup (ce_options e) (of_key f))"
    if "f \<in> set ?fs" for f using secret [OF that] by (simp add: plain_options_def)
  have each: "(of_key f, submitted_value (?field f)) \<in> set ?kvs" if "f \<in> set ?fs" for f using that by simp
  show ?thesis
  proof (intro conjI ballI)
    fix f assume f: "f \<in> set ?fs"
    note opt = options [OF each [OF f]]
    show "of_kind f = SecretOption \<longrightarrow> fmlookup (pd_secret_options (untouched_draft ps e)) (of_key f) =
        Some (if of_key f \<in> set (ce_in_keyring e) then Keep else Clear)"
      using opt secret [OF f] plain [OF f] by (auto simp: option_form_field_def kept_is_kept)
    show "\<forall>preset. of_kind f = TextOption preset \<longrightarrow> fmlookup (pd_options (untouched_draft ps e)) (of_key f) =
        Some (case fmlookup (ce_options e) (of_key f) of Some v \<Rightarrow> v | None \<Rightarrow> preset)"
      using opt secret [OF f] plain [OF f] by (auto simp: option_form_field_def)
    show "\<forall>cs preset v. of_kind f = ChoiceOption cs preset \<and> fmlookup (ce_options e) (of_key f) = Some v \<and> v \<in> co_value ` set cs \<longrightarrow>
        fmlookup (pd_options (untouched_draft ps e)) (of_key f) = Some v"
      using opt secret [OF f] plain [OF f] by (auto simp: option_form_field_def Let_def submitted_choice image_image)
    show "\<forall>preset v. of_kind f = ToggleOption preset \<and> fmlookup (ce_options e) (of_key f) = Some v \<and> v \<in> {''true'', ''false''} \<longrightarrow>
        fmlookup (pd_options (untouched_draft ps e)) (of_key f) = Some v"
      using opt secret [OF f] plain [OF f] by (auto simp: option_form_field_def Let_def submitted_choice TOGGLE_CHOICES_def)
  qed (use draft_others [OF outside, of ?sk ?start] in \<open>simp_all add: draft\<close>)
qed

definition sample_protocol_info :: protocol_info where
  "sample_protocol_info =
     \<lparr>pi_id = ''s3'', pi_display_name = ''S3'',
      pi_form = standard_form 443\<lparr>fm_options :=
        [\<lparr>of_key = ''region'', of_label = ''Region'', of_required = False, of_kind = TextOption ''us''\<rparr>,
         \<lparr>of_key = ''token'', of_label = ''Token'', of_required = False, of_kind = SecretOption\<rparr>]\<rparr>\<rparr>"

definition sample_saved :: connection_entry where
  "sample_saved =
     \<lparr>ce_name = ''x'', ce_protocol = ''s3'', ce_host = ''h'', ce_port = 443, ce_username = ''u'', ce_password = None,
      ce_options = fmupd ''region'' ''eu'' fmempty, ce_group = None, ce_tags = [''a'', ''b''], ce_saved_password = True,
      ce_in_keyring = [''token''], ce_source = FromProfile\<rparr>"

lemma untouched_form_keeps_entry_witness:
  "pd_password (untouched_draft [sample_protocol_info] sample_saved) = Keep \<and>
   fmlookup (pd_options (untouched_draft [sample_protocol_info] sample_saved)) ''region'' = Some ''eu'' \<and>
   fmlookup (pd_secret_options (untouched_draft [sample_protocol_info] sample_saved)) ''token'' = Some Keep"
proof -
  have "fm_options (form_for [sample_protocol_info] (ce_protocol sample_saved)) =
      [\<lparr>of_key = ''region'', of_label = ''Region'', of_required = False, of_kind = TextOption ''us''\<rparr>,
       \<lparr>of_key = ''token'', of_label = ''Token'', of_required = False, of_kind = SecretOption\<rparr>]"
    by (simp add: form_for_def find_protocol_info_def sample_protocol_info_def sample_saved_def)
  then show ?thesis
    using untouched_form_keeps_entry [of "[sample_protocol_info]" sample_saved]
    by (simp add: COMMON_KEYS_def) (simp add: sample_saved_def)
qed

end
