(* ===== verification/Listing.thy ===== *)
theory Listing
  imports Config Search "HOL-Library.Multiset"
begin

text \<open>
  \<^verbatim>\<open>listing\<close>, \<^verbatim>\<open>listing/sort\<close> and \<^verbatim>\<open>connections_tree\<close>: the rows of a panel, filtered and sorted, and
  the tree of the saved connections.
\<close>

section \<open>Sorting (std)\<close>

text \<open>\<^verbatim>\<open>std::cmp::Ordering\<close>, and \<^verbatim>\<open>sort_by\<close>, which is stable.\<close>

datatype ordering = OrdLess | OrdEqual | OrdGreater

definition compare_values :: "'a :: linorder \<Rightarrow> 'a \<Rightarrow> ordering" where
  "compare_values a b = (if a < b then OrdLess else if a = b then OrdEqual else OrdGreater)"

fun reverse_ordering :: "ordering \<Rightarrow> ordering" where
  "reverse_ordering OrdLess = OrdGreater"
| "reverse_ordering OrdEqual = OrdEqual"
| "reverse_ordering OrdGreater = OrdLess"

definition then_ordering :: "ordering \<Rightarrow> ordering \<Rightarrow> ordering" where
  "then_ordering first second = (if first = OrdEqual then second else first)"

fun insert_by :: "('a \<Rightarrow> 'a \<Rightarrow> ordering) \<Rightarrow> 'a \<Rightarrow> 'a list \<Rightarrow> 'a list" where
  "insert_by cmp x [] = [x]"
| "insert_by cmp x (y # ys) = (if cmp x y = OrdGreater then y # insert_by cmp x ys else x # y # ys)"

definition sort_by :: "('a \<Rightarrow> 'a \<Rightarrow> ordering) \<Rightarrow> 'a list \<Rightarrow> 'a list" where
  "sort_by cmp xs = foldr (insert_by cmp) xs []"

lemma sort_by_mset [simp]: "mset (sort_by cmp xs) = mset xs"
proof -
  have "mset (insert_by cmp x ys) = add_mset x (mset ys)" for x ys
    by (induction ys) auto
  then show ?thesis unfolding sort_by_def by (induction xs) auto
qed

lemma sort_by_set [simp]: "set (sort_by cmp xs) = set xs"
  using sort_by_mset [of cmp xs] mset_eq_setD by blast

text \<open>
  A comparison is fair when it compares a key in a linear order, so that its results fit
  together.
\<close>

definition fair :: "('a \<Rightarrow> 'a \<Rightarrow> ordering) \<Rightarrow> bool" where
  "fair cmp \<longleftrightarrow>
     (\<forall>a b. cmp b a = reverse_ordering (cmp a b)) \<and>
     (\<forall>a b c. cmp a b \<noteq> OrdGreater \<longrightarrow> cmp b c \<noteq> OrdGreater \<longrightarrow> cmp a c \<noteq> OrdGreater) \<and>
     (\<forall>a b c. cmp a b = OrdEqual \<longrightarrow> cmp a c = cmp b c)"

lemma fair_values: "fair (\<lambda>a b. compare_values (key a) (key b))"
  by (auto simp: fair_def compare_values_def)

lemma fair_reverse: "fair cmp \<Longrightarrow> fair (\<lambda>a b. reverse_ordering (cmp a b))"
  unfolding fair_def
  by (intro conjI allI impI; elim conjE)
     (metis reverse_ordering.simps ordering.exhaust)+

lemma fair_then:
  assumes f: "fair f" and g: "fair g"
  shows "fair (\<lambda>a b. then_ordering (f a b) (g a b))"
proof -
  note F = f [unfolded fair_def, THEN conjunct1, rule_format] f [unfolded fair_def, THEN conjunct2, THEN conjunct1, rule_format]
    f [unfolded fair_def, THEN conjunct2, THEN conjunct2, rule_format]
  note G = g [unfolded fair_def, THEN conjunct1, rule_format] g [unfolded fair_def, THEN conjunct2, THEN conjunct1, rule_format]
    g [unfolded fair_def, THEN conjunct2, THEN conjunct2, rule_format]
  show ?thesis
    unfolding fair_def
  proof (intro conjI allI impI)
    show "then_ordering (f b a) (g b a) = reverse_ordering (then_ordering (f a b) (g a b))" for a b
      using F(1) [where a = a and b = b] G(1) [where a = a and b = b] by (cases "f a b") (auto simp: then_ordering_def)
  next
    fix a b c
    assume ab: "then_ordering (f a b) (g a b) \<noteq> OrdGreater" and bc: "then_ordering (f b c) (g b c) \<noteq> OrdGreater"
    then have "f a b \<noteq> OrdGreater" "f b c \<noteq> OrdGreater" by (auto simp: then_ordering_def split: if_splits)
    then have "f a c \<noteq> OrdGreater" using F(2) by blast
    moreover have "g a c \<noteq> OrdGreater" if "f a c = OrdEqual"
    proof -
      have "f c b = f a b" using F(3) [where a = a and b = c and c = b] that by simp
      then have bc_flip: "f b c = reverse_ordering (f a b)" using F(1) [where a = c and b = b] by simp
      then have "f a b = OrdEqual" using \<open>f a b \<noteq> OrdGreater\<close> \<open>f b c \<noteq> OrdGreater\<close> by (cases "f a b") auto
      then have "f b c = OrdEqual" using bc_flip by simp
      then show ?thesis using ab bc \<open>f a b = OrdEqual\<close> G(2) by (auto simp: then_ordering_def)
    qed
    ultimately show "then_ordering (f a c) (g a c) \<noteq> OrdGreater" by (simp add: then_ordering_def)
  next
    fix a b c assume "then_ordering (f a b) (g a b) = OrdEqual"
    then have "f a b = OrdEqual" "g a b = OrdEqual" by (auto simp: then_ordering_def split: if_splits)
    then show "then_ordering (f a c) (g a c) = then_ordering (f b c) (g b c)" using F(3) G(3) by metis
  qed
qed

lemma insert_by_sorted:
  assumes "fair cmp" and "sorted_wrt (\<lambda>a b. cmp a b \<noteq> OrdGreater) ys"
  shows "sorted_wrt (\<lambda>a b. cmp a b \<noteq> OrdGreater) (insert_by cmp x ys)"
proof -
  have members: "set (insert_by cmp x zs) = insert x (set zs)" for zs
    by (induction zs) auto
  have flip: "cmp a b = OrdGreater \<Longrightarrow> cmp b a \<noteq> OrdGreater" for a b
    using assms(1) unfolding fair_def by (metis ordering.distinct(5) reverse_ordering.simps(3) ordering.distinct(3))
  have trans: "cmp a b \<noteq> OrdGreater \<Longrightarrow> cmp b c \<noteq> OrdGreater \<Longrightarrow> cmp a c \<noteq> OrdGreater" for a b c
    using assms(1) unfolding fair_def by blast
  show ?thesis
    using assms(2)
  proof (induction ys)
    case (Cons y ys)
    then show ?case using flip [of x y] trans [of x y] by (auto simp: members)
  qed simp
qed

lemma sort_by_sorted: "fair cmp \<Longrightarrow> sorted_wrt (\<lambda>a b. cmp a b \<noteq> OrdGreater) (sort_by cmp xs)"
  unfolding sort_by_def by (induction xs) (auto intro: insert_by_sorted)

section \<open>The order of a panel (listing/sort)\<close>

fun cycled_spec :: "sort_spec \<Rightarrow> sort_spec" where
  "cycled_spec s =
     (case (ss_key s, ss_order s) of
        (SortName, Ascending) \<Rightarrow> \<lparr>ss_key = SortName, ss_order = Descending\<rparr>
      | (SortName, Descending) \<Rightarrow> \<lparr>ss_key = SortSize, ss_order = Ascending\<rparr>
      | (SortSize, Ascending) \<Rightarrow> \<lparr>ss_key = SortSize, ss_order = Descending\<rparr>
      | (SortSize, Descending) \<Rightarrow> \<lparr>ss_key = SortName, ss_order = Ascending\<rparr>)"

definition compare_names :: "entry \<Rightarrow> entry \<Rightarrow> ordering" where
  "compare_names a b = compare_values (to_lowercase (e_name a)) (to_lowercase (e_name b))"

definition compare_by :: "sort_spec \<Rightarrow> entry \<Rightarrow> entry \<Rightarrow> ordering" where
  "compare_by spec a b =
     (let primary = (case ss_key spec of
                       SortName \<Rightarrow> compare_names a b
                     | SortSize \<Rightarrow> compare_values (e_size a) (e_size b));
          primary = (case ss_order spec of Ascending \<Rightarrow> primary | Descending \<Rightarrow> reverse_ordering primary)
      in then_ordering primary (compare_names a b))"

definition compare_entries :: "sort_spec \<Rightarrow> entry \<Rightarrow> entry \<Rightarrow> ordering" where
  "compare_entries spec a b = then_ordering (compare_values (e_is_dir b) (e_is_dir a)) (compare_by spec a b)"

definition sort_entries :: "sort_spec \<Rightarrow> entry list \<Rightarrow> entry list" where
  "sort_entries spec entries = sort_by (compare_entries spec) entries"

section \<open>Listings\<close>

datatype row = ParentRow | EntryRow entry

record listing =
  ln_path :: path
  ln_entries :: "entry list"
  ln_rows :: "row list"
  ln_sort :: sort_spec
  ln_show_hidden :: bool
  ln_filter :: "string option"
  ln_shown :: nat

definition name_matches :: "string \<Rightarrow> string \<Rightarrow> string \<Rightarrow> bool" where
  "name_matches pattern lowered name =
     (if CHR ''*'' \<in> set pattern \<or> CHR ''?'' \<in> set pattern then glob_match pattern name
      else str_contains (to_lowercase name) lowered)"

definition shown_entries :: "listing \<Rightarrow> entry list" where
  "shown_entries l = filter (\<lambda>e. ln_show_hidden l \<or> \<not> starts_with (e_name e) ''.'') (ln_entries l)"

definition passes_filter :: "string option \<Rightarrow> entry \<Rightarrow> bool" where
  "passes_filter f e = (case f of None \<Rightarrow> True | Some text \<Rightarrow> name_matches text (to_lowercase text) (e_name e))"

definition recompute_rows :: "listing \<Rightarrow> listing" where
  "recompute_rows l =
     (let shown = shown_entries l;
          visible = sort_entries (ln_sort l) (filter (passes_filter (ln_filter l)) shown)
      in l\<lparr>ln_shown := length shown,
           ln_rows := (if path_parent (ln_path l) \<noteq> None then [ParentRow] else []) @ map EntryRow visible\<rparr>)"

definition listing_new :: "path \<Rightarrow> entry list \<Rightarrow> sort_spec \<Rightarrow> bool \<Rightarrow> listing" where
  "listing_new p entries spec show_hidden =
     recompute_rows
       \<lparr>ln_path = p, ln_entries = entries, ln_rows = [], ln_sort = spec, ln_show_hidden = show_hidden,
        ln_filter = None, ln_shown = 0\<rparr>"

definition replace_listing :: "path \<Rightarrow> entry list \<Rightarrow> listing \<Rightarrow> listing" where
  "replace_listing p entries l =
     (let l = (if p \<noteq> ln_path l then l\<lparr>ln_filter := None\<rparr> else l)
      in recompute_rows (l\<lparr>ln_path := p, ln_entries := entries\<rparr>))"

definition toggle_hidden :: "listing \<Rightarrow> listing" where
  "toggle_hidden l = recompute_rows (l\<lparr>ln_show_hidden := \<not> ln_show_hidden l\<rparr>)"

definition cycle_sort :: "listing \<Rightarrow> listing" where
  "cycle_sort l = recompute_rows (l\<lparr>ln_sort := cycled_spec (ln_sort l)\<rparr>)"

definition set_sort_spec :: "sort_spec \<Rightarrow> listing \<Rightarrow> listing" where
  "set_sort_spec spec l = recompute_rows (l\<lparr>ln_sort := spec\<rparr>)"

definition set_show_hidden :: "bool \<Rightarrow> listing \<Rightarrow> listing" where
  "set_show_hidden show_hidden l = recompute_rows (l\<lparr>ln_show_hidden := show_hidden\<rparr>)"

definition set_filter :: "string option \<Rightarrow> listing \<Rightarrow> listing" where
  "set_filter f l = recompute_rows (l\<lparr>ln_filter := (case f of Some text \<Rightarrow> if text = [] then None else Some text
                                                            | None \<Rightarrow> None)\<rparr>)"

fun row_is_entry :: "row \<Rightarrow> bool" where
  "row_is_entry (EntryRow _) = True"
| "row_is_entry ParentRow = False"

definition listing_match_count :: "listing \<Rightarrow> nat \<times> nat" where
  "listing_match_count l = (length (filter row_is_entry (ln_rows l)), ln_shown l)"

section \<open>The rows are right\<close>

lemma fair_entries: "fair (compare_entries spec)"
proof -
  have names: "fair compare_names"
    using fair_values [of "\<lambda>e. to_lowercase (e_name e)"] by (simp add: compare_names_def [abs_def])
  have by_key: "fair (compare_by spec)"
    using fair_then [OF names names] fair_then [OF fair_reverse [OF names] names]
      fair_then [OF fair_values [of e_size] names] fair_then [OF fair_reverse [OF fair_values [of e_size]] names]
    by (cases "ss_key spec"; cases "ss_order spec") (simp_all add: compare_by_def [abs_def] Let_def)
  have "fair (\<lambda>a b. compare_values (e_is_dir b) (e_is_dir a))"
    by (auto simp: fair_def compare_values_def)
  then show ?thesis using fair_then [OF _ by_key] by (simp add: compare_entries_def [abs_def])
qed

fun rows_up_to_date :: "listing \<Rightarrow> bool" where
  "rows_up_to_date l = (recompute_rows l = l)"

lemma recompute_idem [simp]: "recompute_rows (recompute_rows l) = recompute_rows l"
  by (simp add: recompute_rows_def Let_def shown_entries_def)

lemma listing_operations_up_to_date:
  "rows_up_to_date (listing_new p es spec b)" "rows_up_to_date (replace_listing p es l)"
  "rows_up_to_date (toggle_hidden l)" "rows_up_to_date (cycle_sort l)" "rows_up_to_date (set_sort_spec spec l)"
  "rows_up_to_date (set_show_hidden b l)" "rows_up_to_date (set_filter f l)"
  by (simp_all add: listing_new_def replace_listing_def toggle_hidden_def cycle_sort_def set_sort_spec_def
      set_show_hidden_def set_filter_def Let_def)

lemma cycled_four: "cycled_spec (cycled_spec (cycled_spec (cycled_spec s))) = s"
  by (cases "ss_key s"; cases "ss_order s") simp_all

section \<open>The tree of connections (connections_tree)\<close>

datatype tree_row =
    GroupRow string string nat nat bool
  | ConnectionRow nat nat

text \<open>A node with its groups in the order of their keys, its connections, and how many are below it.\<close>

datatype node = Node kids "nat list" nat
  and kids = NoKids | Kid "string \<times> string" node kids

definition empty_node :: node where
  "empty_node = Node NoKids [] 0"

definition strip_hashes :: "string \<Rightarrow> string" where
  "strip_hashes s = dropWhile (\<lambda>c. c = CHR ''#'') s"

definition tree_matches :: "connection_entry \<Rightarrow> string \<Rightarrow> bool" where
  "tree_matches e filter_text =
     (let f = trim filter_text
      in case strip_prefix f ''#'' of
           Some tag \<Rightarrow>
             (let tag = trim tag
              in tag = [] \<or> list_ex (\<lambda>kept. to_lowercase kept = to_lowercase tag) (ce_tags e))
         | None \<Rightarrow>
             (let needle = to_lowercase f
              in str_contains (to_lowercase (ce_name e)) needle \<or> str_contains (to_lowercase (ce_host e)) needle \<or>
                 (case ce_group e of None \<Rightarrow> False | Some g \<Rightarrow> str_contains (to_lowercase g) needle) \<or>
                 list_ex (\<lambda>tag. str_contains (to_lowercase tag) needle) (ce_tags e)))"

definition active_filter :: "string option \<Rightarrow> string option" where
  "active_filter f =
     (case f of None \<Rightarrow> None | Some text \<Rightarrow> if trim (strip_hashes (trim text)) = [] then None else Some text)"

definition wanted :: "string option \<Rightarrow> connection_entry \<Rightarrow> bool" where
  "wanted f e = (case f of None \<Rightarrow> True | Some text \<Rightarrow> tree_matches e text)"

definition tree_match_count :: "connection_entry list \<Rightarrow> string option \<Rightarrow> nat" where
  "tree_match_count entries f = length (filter (wanted f) entries)"

text \<open>\<^verbatim>\<open>groups.entry(key).or_default()\<close>, and a change of what it gives.\<close>

fun update_kid :: "string \<times> string \<Rightarrow> (node \<Rightarrow> node) \<Rightarrow> kids \<Rightarrow> kids" where
  "update_kid key f NoKids = Kid key (f empty_node) NoKids"
| "update_kid key f (Kid k n rest) =
     (if key = k then Kid k (f n) rest
      else if fst key < fst k \<or> fst key = fst k \<and> snd key < snd k then Kid key (f empty_node) (Kid k n rest)
      else Kid k n (update_kid key f rest))"

fun add_connection :: "string list \<Rightarrow> nat \<Rightarrow> node \<Rightarrow> node" where
  "add_connection [] index (Node kids connections below) = Node kids (connections @ [index]) (below + 1)"
| "add_connection (segment # segments) index (Node kids connections below) =
     Node (update_kid (to_lowercase segment, segment) (add_connection segments index) kids) connections (below + 1)"

definition group_segments :: "connection_entry \<Rightarrow> string list" where
  "group_segments e = (case ce_group e of None \<Rightarrow> [] | Some g \<Rightarrow> split_on (CHR ''/'') g)"

fun node_count :: "node \<Rightarrow> nat" where
  "node_count (Node _ _ below) = below"

fun node_rows :: "string \<Rightarrow> nat \<Rightarrow> string fset \<Rightarrow> bool \<Rightarrow> node \<Rightarrow> tree_row list"
  and kid_rows :: "string \<Rightarrow> nat \<Rightarrow> string fset \<Rightarrow> bool \<Rightarrow> kids \<Rightarrow> tree_row list" where
  "node_rows pre depth expanded open_all (Node kids connections below) =
     kid_rows pre depth expanded open_all kids @ map (\<lambda>index. ConnectionRow index depth) connections"
| "kid_rows pre depth expanded open_all NoKids = []"
| "kid_rows pre depth expanded open_all (Kid key child rest) =
     (let name = snd key;
          path = (if pre = [] then name else pre @ ''/'' @ name);
          is_open = open_all \<or> path |\<in>| expanded
      in [GroupRow path name depth (node_count child) is_open] @
         (if is_open then node_rows path (depth + 1) expanded open_all child else []) @
         kid_rows pre depth expanded open_all rest)"

definition build_node :: "string option \<Rightarrow> connection_entry list \<Rightarrow> node" where
  "build_node f entries =
     fold (\<lambda>(index, e) root. if wanted f e then add_connection (group_segments e) index root else root)
       (List.enumerate 0 entries) empty_node"

definition connection_rows :: "connection_entry list \<Rightarrow> string fset \<Rightarrow> string option \<Rightarrow> tree_row list" where
  "connection_rows entries expanded f =
     (let f = active_filter f in node_rows [] 0 expanded (f \<noteq> None) (build_node f entries))"

subsection \<open>Each connection has its row\<close>

fun node_members :: "node \<Rightarrow> nat multiset" and kid_members :: "kids \<Rightarrow> nat multiset" where
  "node_members (Node kids connections below) = kid_members kids + mset connections"
| "kid_members NoKids = {#}"
| "kid_members (Kid key child rest) = node_members child + kid_members rest"

text \<open>The counters say how many connections are below.\<close>

fun counted :: "node \<Rightarrow> bool" and kids_counted :: "kids \<Rightarrow> bool" where
  "counted (Node kids connections below) \<longleftrightarrow>
     kids_counted kids \<and> below = size (kid_members kids) + length connections"
| "kids_counted NoKids = True"
| "kids_counted (Kid key child rest) \<longleftrightarrow> counted child \<and> kids_counted rest"

lemma empty_node_members [simp]: "node_members empty_node = {#}" "counted empty_node"
  by (simp_all add: empty_node_def)

lemma update_kid_members:
  assumes "\<And>n. node_members (f n) = add_mset i (node_members n)"
  shows "kid_members (update_kid key f kids) = add_mset i (kid_members kids)"
  using assms by (induction key f kids rule: update_kid.induct) auto

lemma update_kid_counted:
  assumes "\<And>n. counted n \<Longrightarrow> counted (f n)" and "kids_counted kids"
  shows "kids_counted (update_kid key f kids)"
  using assms by (induction key f kids rule: update_kid.induct) auto

lemma add_connection_members: "node_members (add_connection segments i n) = add_mset i (node_members n)"
proof (induction segments arbitrary: n)
  case (Cons segment segments)
  then show ?case by (cases n) (simp add: update_kid_members)
qed (case_tac n, simp)

lemma add_connection_counted: "counted n \<Longrightarrow> counted (add_connection segments i n)"
proof (induction segments arbitrary: n)
  case Nil
  then show ?case by (cases n) simp
next
  case (Cons segment segments)
  then show ?case
    by (cases n) (simp add: update_kid_counted update_kid_members add_connection_members)
qed

lemma build_node_members:
  "node_members (build_node f entries) = mset (map fst (filter (\<lambda>(i, e). wanted f e) (List.enumerate 0 entries))) \<and>
   counted (build_node f entries)"
proof -
  have "node_members (fold (\<lambda>(index, e) root. if wanted f e then add_connection (group_segments e) index root else root) xs n) =
      node_members n + mset (map fst (filter (\<lambda>(i, e). wanted f e) xs)) \<and>
    (counted n \<longrightarrow> counted (fold (\<lambda>(index, e) root. if wanted f e then add_connection (group_segments e) index root else root) xs n))"
    for xs and n
  proof (induction xs arbitrary: n)
    case (Cons x xs)
    then show ?case by (cases x) (simp add: add_connection_members add_connection_counted)
  qed simp
  then show ?thesis by (simp add: build_node_def)
qed

definition row_index :: "tree_row \<Rightarrow> nat option" where
  "row_index r = (case r of ConnectionRow i _ \<Rightarrow> Some i | GroupRow _ _ _ _ _ \<Rightarrow> None)"

lemma row_index_map: "List.map_filter row_index (map (\<lambda>i. ConnectionRow i depth) is) = is"
  by (induction "is") (simp_all add: map_filter_simps row_index_def)

lemma map_filter_append: "List.map_filter f (xs @ ys) = List.map_filter f xs @ List.map_filter f ys"
  by (induction xs) (simp_all add: map_filter_simps split: option.splits)

lemma rows_all_open:
  "mset (List.map_filter row_index (node_rows pre depth expanded True n)) = node_members n"
  "mset (List.map_filter row_index (kid_rows pre depth expanded True ks)) = kid_members ks"
proof (induction n and ks arbitrary: pre depth and pre depth)
  case (Node ks connections below)
  then show ?case by (simp add: map_filter_append row_index_map)
qed (simp_all add: map_filter_simps map_filter_append row_index_def Let_def)

section \<open>Properties\<close>


text \<open>While a filter is active every group is open, and the tree then has exactly one row for
  each connection that the filter wants, and none for the others: their number is the one
  shown beside the filter.
\<close>

theorem tree_lists_each_once:
  assumes "active_filter f = Some text"
  shows "mset (List.map_filter row_index (connection_rows entries expanded f)) =
           mset (filter (\<lambda>i. tree_matches (entries ! i) text) [0..<length entries]) \<and>
         length (List.map_filter row_index (connection_rows entries expanded f)) = tree_match_count entries (Some text)"
proof -
  have places: "map fst (filter (\<lambda>(i, e). wanted g e) (List.enumerate n xs)) =
      filter (\<lambda>i. wanted g (xs ! (i - n))) [n..<n + length xs]" for g n and xs :: "connection_entry list"
  proof (induction xs arbitrary: n)
    case (Cons x xs)
    have "filter (\<lambda>i. wanted g (xs ! (i - Suc n))) [Suc n..<Suc n + length xs] =
          filter (\<lambda>i. wanted g ((x # xs) ! (i - n))) [Suc n..<Suc n + length xs]"
      by (rule filter_cong) (auto simp: nth_Cons' Suc_diff_Suc)
    then show ?case using Cons [of "Suc n"] by (simp add: upt_conv_Cons del: upt_Suc)
  qed simp
  have count: "length (filter (\<lambda>(i, e). P e) (List.enumerate n xs)) = length (filter P xs)" for P n and xs :: "connection_entry list"
    by (induction xs arbitrary: n) simp_all
  have rows: "mset (List.map_filter row_index (connection_rows entries expanded f)) =
      mset (map fst (filter (\<lambda>(i, e). wanted (Some text) e) (List.enumerate 0 entries)))"
    using build_node_members [of "Some text" entries] by (simp add: connection_rows_def assms rows_all_open)
  have "length (List.map_filter row_index (connection_rows entries expanded f)) =
      length (filter (wanted (Some text)) entries)"
    using arg_cong [OF rows, of size] count [of "wanted (Some text)" 0 entries] by (metis length_map size_mset)
  moreover have "mset (List.map_filter row_index (connection_rows entries expanded f)) =
      mset (filter (\<lambda>i. tree_matches (entries ! i) text) [0..<length entries])"
    unfolding rows places by (simp add: wanted_def)
  ultimately show ?thesis by (simp add: tree_match_count_def)
qed

definition sample_entry :: "string \<Rightarrow> string option \<Rightarrow> connection_entry" where
  "sample_entry name kept_in =
     \<lparr>ce_name = name, ce_protocol = ''ssh'', ce_host = ''host'', ce_port = 22, ce_username = ''me'', ce_password = None,
      ce_options = fmempty, ce_group = kept_in, ce_tags = [], ce_saved_password = False, ce_in_keyring = [],
      ce_source = FromProfile\<rparr>"

lemma tree_lists_each_once_witness:
  "mset (List.map_filter row_index
     (connection_rows [sample_entry ''web'' (Some ''Work''), sample_entry ''db'' None, sample_entry ''web2'' (Some ''Work/Old'')] {||} (Some ''web''))) = {#0, 2#}"
proof -
  have active: "active_filter (Some ''web'') = Some ''web''" by code_simp
  have found: "tree_matches (sample_entry ''web'' (Some ''Work'')) ''web''" "tree_matches (sample_entry ''web2'' (Some ''Work/Old'')) ''web''"
    "\<not> tree_matches (sample_entry ''db'' None) ''web''"
    by code_simp+
  show ?thesis
    using tree_lists_each_once [OF active,
        of "[sample_entry ''web'' (Some ''Work''), sample_entry ''db'' None, sample_entry ''web2'' (Some ''Work/Old'')]" "{||}"]
    by (simp add: found upt_rec nth_Cons' del: upt.simps)
qed

end
