(* ===== verification/Tui_Views.thy ===== *)
theory Tui_Views
  imports Tui_Dialog Listing History Sync Engine_State
begin

text \<open>
  \<^verbatim>\<open>porthmos-tui/widgets\<close> and \<^verbatim>\<open>sessions\<close>: what the views remember, their cursors, selections and filters,
  without what is drawn.  The trait \<^verbatim>\<open>FilterLine\<close>, which every filtered view implements, is a locale.
\<close>

section \<open>Cursors and filters (filter_line)\<close>

text \<open>\<^verbatim>\<open>(cursor + delta).clamp(0, last)\<close> over the rows; without rows the cursor stays.\<close>

definition moved_cursor :: "nat \<Rightarrow> int \<Rightarrow> nat \<Rightarrow> nat" where
  "moved_cursor rows delta cursor =
     (if rows = 0 then cursor else nat (max 0 (min (int cursor + delta) (int rows - 1))))"

text \<open>\<^verbatim>\<open>text.filter(|text| !text.is_empty())\<close>.\<close>

definition kept_filter :: "string option \<Rightarrow> string option" where
  "kept_filter f = (case f of Some text \<Rightarrow> if text = [] then None else Some text | None \<Rightarrow> None)"

definition filter_or_empty :: "string option \<Rightarrow> string" where
  "filter_or_empty f = (case f of Some text \<Rightarrow> text | None \<Rightarrow> [])"

section \<open>Panels (panel_view)\<close>

datatype active_panel = LocalPanel | RemotePanel

fun toggle_panel :: "active_panel \<Rightarrow> active_panel" where
  "toggle_panel LocalPanel = RemotePanel"
| "toggle_panel RemotePanel = LocalPanel"

datatype anchor = ParentAnchor | EntryAnchor path

record panel_view =
  pv_listing :: listing
  pv_cursor :: nat
  pv_selected :: "path fset"
  pv_editing :: bool
  pv_anchor :: "(anchor \<times> nat) option"

definition panel_rows :: "panel_view \<Rightarrow> row list" where
  "panel_rows v = ln_rows (pv_listing v)"

definition panel_path :: "panel_view \<Rightarrow> path" where
  "panel_path v = ln_path (pv_listing v)"

definition row_at_cursor :: "panel_view \<Rightarrow> row option" where
  "row_at_cursor v = (if pv_cursor v < length (panel_rows v) then Some (panel_rows v ! pv_cursor v) else None)"

definition clamp_cursor :: "panel_view \<Rightarrow> panel_view" where
  "clamp_cursor v =
     (let rows = length (panel_rows v)
      in if rows = 0 then v\<lparr>pv_cursor := 0\<rparr> else if rows \<le> pv_cursor v then v\<lparr>pv_cursor := rows - 1\<rparr> else v)"

definition panel_new :: "path \<Rightarrow> sort_spec \<Rightarrow> bool \<Rightarrow> panel_view" where
  "panel_new p spec show_hidden =
     \<lparr>pv_listing = listing_new p [] spec show_hidden, pv_cursor = 0, pv_selected = {||}, pv_editing = False, pv_anchor = None\<rparr>"

definition panel_replace :: "path \<Rightarrow> entry list \<Rightarrow> panel_view \<Rightarrow> panel_view" where
  "panel_replace p entries v =
     (let v = (if p \<noteq> panel_path v then v\<lparr>pv_editing := False\<rparr> else v)
      in clamp_cursor (v\<lparr>pv_listing := replace_listing p entries (pv_listing v), pv_anchor := None, pv_selected := {||}\<rparr>))"

definition panel_from_listing :: "path \<Rightarrow> entry list \<Rightarrow> panel_view" where
  "panel_from_listing p entries = panel_replace p entries (panel_new [] sort_spec_default False)"

definition panel_toggle_hidden :: "panel_view \<Rightarrow> panel_view" where
  "panel_toggle_hidden v = clamp_cursor (v\<lparr>pv_listing := toggle_hidden (pv_listing v)\<rparr>)"

definition panel_cycle_sort :: "panel_view \<Rightarrow> panel_view" where
  "panel_cycle_sort v = clamp_cursor (v\<lparr>pv_listing := cycle_sort (pv_listing v)\<rparr>)"

definition anchor_of_row :: "row \<Rightarrow> anchor" where
  "anchor_of_row r = (case r of ParentRow \<Rightarrow> ParentAnchor | EntryRow e \<Rightarrow> EntryAnchor (e_path e))"

definition anchor_at_cursor :: "panel_view \<Rightarrow> anchor option" where
  "anchor_at_cursor v = map_option anchor_of_row (row_at_cursor v)"

definition anchor_position :: "panel_view \<Rightarrow> anchor \<Rightarrow> nat option" where
  "anchor_position v a = index_where (\<lambda>r. anchor_of_row r = a) (panel_rows v)"

definition panel_apply_filter :: "string option \<Rightarrow> panel_view \<Rightarrow> panel_view" where
  "panel_apply_filter text v =
     (let anchor = (case pv_anchor v of
                      Some (a, placed) \<Rightarrow> if placed = pv_cursor v then Some a else anchor_at_cursor v
                    | None \<Rightarrow> anchor_at_cursor v);
          v = v\<lparr>pv_listing := set_filter text (pv_listing v)\<rparr>;
          kept = (case anchor of
                    Some a \<Rightarrow>
                      if ln_filter (pv_listing v) = None \<or> a \<noteq> ParentAnchor then anchor_position v a else None
                  | None \<Rightarrow> None);
          first_match = index_where (\<lambda>r. r \<noteq> ParentRow) (panel_rows v);
          cursor = (case kept of Some i \<Rightarrow> i | None \<Rightarrow> (case first_match of Some i \<Rightarrow> i | None \<Rightarrow> 0))
      in v\<lparr>pv_cursor := cursor, pv_anchor := map_option (\<lambda>a. (a, cursor)) anchor\<rparr>)"

definition visible_selected :: "panel_view \<Rightarrow> entry list" where
  "visible_selected v =
     List.map_filter (\<lambda>r. case r of EntryRow e \<Rightarrow> if e_path e |\<in>| pv_selected v then Some e else None | ParentRow \<Rightarrow> None) (panel_rows v)"

definition path_for_open :: "panel_view \<Rightarrow> path option" where
  "path_for_open v =
     (case row_at_cursor v of
        Some ParentRow \<Rightarrow> path_parent (panel_path v)
      | Some (EntryRow e) \<Rightarrow> if e_is_dir e then Some (e_path e) else None
      | None \<Rightarrow> None)"

definition toggle_selection :: "panel_view \<Rightarrow> panel_view" where
  "toggle_selection v =
     (case row_at_cursor v of
        Some (EntryRow e) \<Rightarrow>
          v\<lparr>pv_selected := (if e_path e |\<in>| pv_selected v then pv_selected v |-| {|e_path e|} else finsert (e_path e) (pv_selected v))\<rparr>
      | _ \<Rightarrow> v)"

definition current_entry :: "panel_view \<Rightarrow> entry option" where
  "current_entry v = (case row_at_cursor v of Some (EntryRow e) \<Rightarrow> Some e | _ \<Rightarrow> None)"

definition current_entry_name :: "panel_view \<Rightarrow> string option" where
  "current_entry_name v = map_option e_name (current_entry v)"

definition on_parent_row :: "panel_view \<Rightarrow> bool" where
  "on_parent_row v \<longleftrightarrow> row_at_cursor v = Some ParentRow"

definition target_entries :: "panel_view \<Rightarrow> entry list" where
  "target_entries v =
     (if visible_selected v \<noteq> [] then visible_selected v
      else case row_at_cursor v of Some (EntryRow e) \<Rightarrow> [e] | _ \<Rightarrow> [])"

definition panel_targets :: "panel_view \<Rightarrow> path list" where
  "panel_targets v = map e_path (target_entries v)"

definition panel_filter :: "panel_view \<Rightarrow> string option" where
  "panel_filter v = ln_filter (pv_listing v)"

definition panel_start_filter :: "panel_view \<Rightarrow> panel_view" where
  "panel_start_filter v = v\<lparr>pv_editing := True\<rparr>"

definition panel_finish_filter :: "panel_view \<Rightarrow> panel_view" where
  "panel_finish_filter v = v\<lparr>pv_editing := False\<rparr>"

definition panel_type_filter :: "char \<Rightarrow> panel_view \<Rightarrow> panel_view" where
  "panel_type_filter c v = panel_apply_filter (Some (filter_or_empty (panel_filter v) @ [c])) v"

definition panel_erase_filter :: "panel_view \<Rightarrow> panel_view" where
  "panel_erase_filter v = panel_apply_filter (Some (butlast (filter_or_empty (panel_filter v)))) v"

definition panel_clear_filter :: "panel_view \<Rightarrow> panel_view" where
  "panel_clear_filter v = (panel_apply_filter None (v\<lparr>pv_editing := False\<rparr>))\<lparr>pv_anchor := None\<rparr>"

definition panel_move_cursor :: "int \<Rightarrow> panel_view \<Rightarrow> panel_view" where
  "panel_move_cursor delta v = v\<lparr>pv_cursor := moved_cursor (length (panel_rows v)) delta (pv_cursor v)\<rparr>"

section \<open>Sessions\<close>

record tui_session =
  us_id :: nat
  us_name :: string
  us_shell_available :: bool
  us_panel :: panel_view
  us_preserves_times :: bool
  us_listed :: bool

record sessions =
  uz_items :: "tui_session list"
  uz_active :: "nat option"

definition sessions_new :: sessions where
  "sessions_new = \<lparr>uz_items = [], uz_active = None\<rparr>"

definition active_session :: "sessions \<Rightarrow> tui_session option" where
  "active_session z =
     (case uz_active z of Some i \<Rightarrow> if i < length (uz_items z) then Some (uz_items z ! i) else None | None \<Rightarrow> None)"

definition active_id :: "sessions \<Rightarrow> nat option" where
  "active_id z = map_option us_id (active_session z)"

definition session_by_id :: "nat \<Rightarrow> sessions \<Rightarrow> tui_session option" where
  "session_by_id sid z = find (\<lambda>s. us_id s = sid) (uz_items z)"

definition session_by_name :: "string \<Rightarrow> sessions \<Rightarrow> tui_session option" where
  "session_by_name name z = find (\<lambda>s. us_name s = name) (uz_items z)"

text \<open>\<^verbatim>\<open>by_id_mut\<close>, the first session with that number, and \<^verbatim>\<open>active_mut\<close>.\<close>

definition change_session :: "nat \<Rightarrow> (tui_session \<Rightarrow> tui_session) \<Rightarrow> sessions \<Rightarrow> sessions" where
  "change_session sid f z =
     (case index_where (\<lambda>s. us_id s = sid) (uz_items z) of
        Some i \<Rightarrow> z\<lparr>uz_items := (uz_items z)[i := f (uz_items z ! i)]\<rparr>
      | None \<Rightarrow> z)"

definition change_active :: "(tui_session \<Rightarrow> tui_session) \<Rightarrow> sessions \<Rightarrow> sessions" where
  "change_active f z =
     (case uz_active z of
        Some i \<Rightarrow> if i < length (uz_items z) then z\<lparr>uz_items := (uz_items z)[i := f (uz_items z ! i)]\<rparr> else z
      | None \<Rightarrow> z)"

definition insert_session :: "nat \<Rightarrow> string \<Rightarrow> bool \<Rightarrow> panel_view \<Rightarrow> sessions \<Rightarrow> sessions" where
  "insert_session sid name shell_available panel z =
     (let items = uz_items z @ [\<lparr>us_id = sid, us_name = name, us_shell_available = shell_available, us_panel = panel,
                                  us_preserves_times = False, us_listed = False\<rparr>]
      in z\<lparr>uz_items := items, uz_active := Some (length items - 1)\<rparr>)"

definition set_preserves_times :: "nat \<Rightarrow> bool \<Rightarrow> sessions \<Rightarrow> sessions" where
  "set_preserves_times sid preserves = change_session sid (\<lambda>s. s\<lparr>us_preserves_times := preserves\<rparr>)"

definition remove_session :: "nat \<Rightarrow> sessions \<Rightarrow> sessions" where
  "remove_session sid z =
     (case index_where (\<lambda>s. us_id s = sid) (uz_items z) of
        None \<Rightarrow> z
      | Some index \<Rightarrow>
          (let items = take index (uz_items z) @ drop (Suc index) (uz_items z)
           in z\<lparr>uz_items := items,
                uz_active := (case uz_active z of
                                Some active \<Rightarrow>
                                  if active = index then (if items = [] then None else Some (min active (length items - 1)))
                                  else if index < active then Some (active - 1) else Some active
                              | None \<Rightarrow> None)\<rparr>))"

definition cycle_sessions :: "sessions \<Rightarrow> sessions" where
  "cycle_sessions z =
     (if length (uz_items z) < 2 then z
      else z\<lparr>uz_active := Some (((case uz_active z of Some i \<Rightarrow> i | None \<Rightarrow> 0) + 1) mod length (uz_items z))\<rparr>)"

definition activate_session :: "nat \<Rightarrow> sessions \<Rightarrow> bool \<times> sessions" where
  "activate_session sid z =
     (case index_where (\<lambda>s. us_id s = sid) (uz_items z) of
        Some index \<Rightarrow> (True, z\<lparr>uz_active := Some index\<rparr>)
      | None \<Rightarrow> (False, z))"

section \<open>Connections (connections_view)\<close>

datatype row_key = GroupKey string | ConnectionKey string connection_source

datatype selection = GroupSelected string | ConnectionSelected connection_entry

record connections_view =
  cv_entries :: "connection_entry list"
  cv_expanded :: "string fset"
  cv_filter :: "string option"
  cv_editing :: bool
  cv_rows :: "tree_row list"
  cv_cursor :: nat

definition connections_new :: connections_view where
  "connections_new =
     \<lparr>cv_entries = [], cv_expanded = {||}, cv_filter = None, cv_editing = False, cv_rows = [], cv_cursor = 0\<rparr>"

definition row_key_of :: "connections_view \<Rightarrow> tree_row \<Rightarrow> row_key" where
  "row_key_of v r =
     (case r of
        GroupRow p _ _ _ _ \<Rightarrow> GroupKey p
      | ConnectionRow i _ \<Rightarrow> ConnectionKey (ce_name (cv_entries v ! i)) (ce_source (cv_entries v ! i)))"

definition key_at_cursor :: "connections_view \<Rightarrow> row_key option" where
  "key_at_cursor v = (if cv_cursor v < length (cv_rows v) then Some (row_key_of v (cv_rows v ! cv_cursor v)) else None)"

definition rebuild_rows :: "row_key option \<Rightarrow> connections_view \<Rightarrow> connections_view" where
  "rebuild_rows keep v =
     (let v = v\<lparr>cv_rows := connection_rows (cv_entries v) (cv_expanded v) (cv_filter v)\<rparr>
      in v\<lparr>cv_cursor := (case (case keep of Some key \<Rightarrow> index_where (\<lambda>r. row_key_of v r = key) (cv_rows v) | None \<Rightarrow> None) of
             Some i \<Rightarrow> i
           | None \<Rightarrow> min (cv_cursor v) (length (cv_rows v) - 1))\<rparr>)"

definition replace_entries :: "connection_entry list \<Rightarrow> connections_view \<Rightarrow> connections_view" where
  "replace_entries entries v = rebuild_rows (key_at_cursor v) (v\<lparr>cv_entries := entries\<rparr>)"

definition selected_row :: "connections_view \<Rightarrow> selection option" where
  "selected_row v =
     (if cv_cursor v < length (cv_rows v)
      then Some (case cv_rows v ! cv_cursor v of
                   GroupRow p _ _ _ _ \<Rightarrow> GroupSelected p
                 | ConnectionRow i _ \<Rightarrow> ConnectionSelected (cv_entries v ! i))
      else None)"

definition selected_entry :: "connections_view \<Rightarrow> connection_entry option" where
  "selected_entry v = (case selected_row v of Some (ConnectionSelected e) \<Rightarrow> Some e | _ \<Rightarrow> None)"

definition connections_filtering :: "connections_view \<Rightarrow> bool" where
  "connections_filtering v \<longleftrightarrow> active_filter (cv_filter v) \<noteq> None"

definition toggle_group :: "connections_view \<Rightarrow> connections_view" where
  "toggle_group v =
     (if connections_filtering v then v
      else case selected_row v of
             Some (GroupSelected p) \<Rightarrow>
               rebuild_rows (Some (GroupKey p))
                 (v\<lparr>cv_expanded := (if p |\<in>| cv_expanded v then cv_expanded v |-| {|p|} else finsert p (cv_expanded v))\<rparr>)
           | _ \<Rightarrow> v)"

definition expand_group :: "connections_view \<Rightarrow> connections_view" where
  "expand_group v =
     (if connections_filtering v then v
      else case selected_row v of
             Some (GroupSelected p) \<Rightarrow> rebuild_rows (Some (GroupKey p)) (v\<lparr>cv_expanded := finsert p (cv_expanded v)\<rparr>)
           | _ \<Rightarrow> v)"

definition collapse_or_parent :: "connections_view \<Rightarrow> connections_view" where
  "collapse_or_parent v =
     (if \<not> cv_cursor v < length (cv_rows v) then v
      else case cv_rows v ! cv_cursor v of
             GroupRow p _ _ _ is_expanded \<Rightarrow>
               if is_expanded \<and> \<not> connections_filtering v
               then rebuild_rows (Some (GroupKey p)) (v\<lparr>cv_expanded := cv_expanded v |-| {|p|}\<rparr>)
               else (case split_last (CHR ''/'') p of
                       Some (parent, _) \<Rightarrow> rebuild_rows (Some (GroupKey parent)) v
                     | None \<Rightarrow> v)
           | ConnectionRow i _ \<Rightarrow>
               (case ce_group (cv_entries v ! i) of
                  Some parent \<Rightarrow> rebuild_rows (Some (GroupKey parent)) v
                | None \<Rightarrow> v))"

text \<open>The groups above a connection, from the outermost in.\<close>

fun groups_from :: "string \<Rightarrow> string list \<Rightarrow> string list" where
  "groups_from p [] = []"
| "groups_from p (segment # segments) =
     (let p = (if p = [] then segment else p @ ''/'' @ segment) in p # groups_from p segments)"

definition group_and_above :: "string \<Rightarrow> string list" where
  "group_and_above g = groups_from [] (split_on (CHR ''/'') g)"

definition reveal_connection :: "string \<Rightarrow> connections_view \<Rightarrow> connections_view" where
  "reveal_connection name v =
     (case find (\<lambda>e. ce_name e = name \<and> \<not> is_orphan_labels (ce_source e)) (cv_entries v) of
        None \<Rightarrow> v
      | Some e \<Rightarrow>
          rebuild_rows (Some (ConnectionKey name (ce_source e)))
            (v\<lparr>cv_expanded := (case ce_group e of Some g \<Rightarrow> fold finsert (group_and_above g) (cv_expanded v) | None \<Rightarrow> cv_expanded v)\<rparr>))"

definition connections_set_filter :: "string option \<Rightarrow> connections_view \<Rightarrow> connections_view" where
  "connections_set_filter text v = rebuild_rows (key_at_cursor v) (v\<lparr>cv_filter := kept_filter text\<rparr>)"

definition connections_start_filter :: "connections_view \<Rightarrow> connections_view" where
  "connections_start_filter v = v\<lparr>cv_editing := True\<rparr>"

definition connections_finish_filter :: "connections_view \<Rightarrow> connections_view" where
  "connections_finish_filter v = v\<lparr>cv_editing := False\<rparr>"

definition connections_type_filter :: "char \<Rightarrow> connections_view \<Rightarrow> connections_view" where
  "connections_type_filter c v = connections_set_filter (Some (filter_or_empty (cv_filter v) @ [c])) v"

definition connections_erase_filter :: "connections_view \<Rightarrow> connections_view" where
  "connections_erase_filter v = connections_set_filter (Some (butlast (filter_or_empty (cv_filter v)))) v"

definition connections_clear_filter :: "connections_view \<Rightarrow> connections_view" where
  "connections_clear_filter v = connections_set_filter None (v\<lparr>cv_editing := False\<rparr>)"

definition connections_move_cursor :: "int \<Rightarrow> connections_view \<Rightarrow> connections_view" where
  "connections_move_cursor delta v = v\<lparr>cv_cursor := moved_cursor (length (cv_rows v)) delta (cv_cursor v)\<rparr>"

text \<open>
  \<^verbatim>\<open>porthmos-tui/widgets\<close>: the history, the search, the preview of a synchronization and the notices.
  Then the trait \<^verbatim>\<open>FilterLine\<close> as a locale, interpreted on the four views that implement it.
\<close>

section \<open>History (history_view)\<close>

record history_view =
  hv_entries :: "history_entry list"
  hv_visible :: "nat list"
  hv_filter :: "string option"
  hv_editing :: bool
  hv_cursor :: nat

definition history_view_new :: history_view where
  "history_view_new = \<lparr>hv_entries = [], hv_visible = [], hv_filter = None, hv_editing = False, hv_cursor = 0\<rparr>"

definition history_rows :: "history_view \<Rightarrow> history_entry list" where
  "history_rows v = map (\<lambda>i. hv_entries v ! i) (hv_visible v)"

definition history_selected :: "history_view \<Rightarrow> history_entry option" where
  "history_selected v = (if hv_cursor v < length (hv_visible v) then Some (hv_entries v ! (hv_visible v ! hv_cursor v)) else None)"

definition history_refilter :: "history_view \<Rightarrow> history_view" where
  "history_refilter v =
     (let visible = filter (\<lambda>i. case hv_filter v of None \<Rightarrow> True | Some text \<Rightarrow> history_matches (hv_entries v ! i) text)
                      [0 ..< length (hv_entries v)]
      in v\<lparr>hv_visible := visible, hv_cursor := min (hv_cursor v) (length visible - 1)\<rparr>)"

definition history_replace :: "history_entry list \<Rightarrow> history_view \<Rightarrow> history_view" where
  "history_replace entries v =
     (let anchor = history_selected v;
          v = history_refilter (v\<lparr>hv_entries := entries\<rparr>)
      in case (case anchor of Some a \<Rightarrow> index_where (\<lambda>e. e = a) (history_rows v) | None \<Rightarrow> None) of
           Some i \<Rightarrow> v\<lparr>hv_cursor := i\<rparr>
         | None \<Rightarrow> v)"

definition history_go_to_top :: "history_view \<Rightarrow> history_view" where
  "history_go_to_top v = v\<lparr>hv_cursor := 0\<rparr>"

definition history_set_filter :: "string option \<Rightarrow> history_view \<Rightarrow> history_view" where
  "history_set_filter text v = history_refilter (v\<lparr>hv_filter := kept_filter text\<rparr>)"

definition history_start_filter :: "history_view \<Rightarrow> history_view" where
  "history_start_filter v = v\<lparr>hv_editing := True\<rparr>"

definition history_finish_filter :: "history_view \<Rightarrow> history_view" where
  "history_finish_filter v = v\<lparr>hv_editing := False\<rparr>"

definition history_type_filter :: "char \<Rightarrow> history_view \<Rightarrow> history_view" where
  "history_type_filter c v = history_set_filter (Some (filter_or_empty (hv_filter v) @ [c])) v"

definition history_erase_filter :: "history_view \<Rightarrow> history_view" where
  "history_erase_filter v = history_set_filter (Some (butlast (filter_or_empty (hv_filter v)))) v"

definition history_clear_filter :: "history_view \<Rightarrow> history_view" where
  "history_clear_filter v = history_set_filter None (v\<lparr>hv_editing := False\<rparr>)"

definition history_move_cursor :: "int \<Rightarrow> history_view \<Rightarrow> history_view" where
  "history_move_cursor delta v = v\<lparr>hv_cursor := moved_cursor (length (hv_visible v)) delta (hv_cursor v)\<rparr>"

section \<open>Searching (search_view)\<close>

record search_view =
  sw_pattern :: string
  sw_cursor :: nat
  sw_results :: "entry list"
  sw_selected :: nat
  sw_truncated :: bool

datatype search_outcome = SearchPending | PatternChanged | OpenResult | CancelSearching

definition search_view_new :: search_view where
  "search_view_new = \<lparr>sw_pattern = [], sw_cursor = 0, sw_results = [], sw_selected = 0, sw_truncated = False\<rparr>"

definition search_view_key :: "key_spec \<Rightarrow> search_view \<Rightarrow> search_outcome \<times> search_view" where
  "search_view_key key v =
     (let edited = (case edit_line (ks_code key) (sw_pattern v, sw_cursor v) of (s, i) \<Rightarrow> v\<lparr>sw_pattern := s, sw_cursor := i\<rparr>)
      in case ks_code key of
           KeyEsc \<Rightarrow> (CancelSearching, v)
         | KeyEnter \<Rightarrow> (OpenResult, v)
         | KeyUp \<Rightarrow> (SearchPending, v\<lparr>sw_selected := sw_selected v - 1\<rparr>)
         | KeyDown \<Rightarrow> (SearchPending, if sw_selected v + 1 < length (sw_results v) then v\<lparr>sw_selected := sw_selected v + 1\<rparr> else v)
         | KeyBackspace \<Rightarrow> if 0 < sw_cursor v then (PatternChanged, edited) else (SearchPending, v)
         | KeyDelete \<Rightarrow> if sw_cursor v < length (sw_pattern v) then (PatternChanged, edited) else (SearchPending, v)
         | KeyChar _ \<Rightarrow> if km_control (ks_modifiers key) then (SearchPending, v) else (PatternChanged, edited)
         | _ \<Rightarrow> (SearchPending, edited))"

definition search_view_start :: "search_view \<Rightarrow> search_view" where
  "search_view_start v = v\<lparr>sw_results := [], sw_selected := 0, sw_truncated := False\<rparr>"

definition push_result :: "entry \<Rightarrow> search_view \<Rightarrow> search_view" where
  "push_result e v = v\<lparr>sw_results := sw_results v @ [e]\<rparr>"

definition finish_search :: "bool \<Rightarrow> search_view \<Rightarrow> search_view" where
  "finish_search truncated v = v\<lparr>sw_truncated := truncated\<rparr>"

definition selected_result :: "search_view \<Rightarrow> entry option" where
  "selected_result v = (if sw_selected v < length (sw_results v) then Some (sw_results v ! sw_selected v) else None)"

section \<open>The preview of a synchronization (sync_view)\<close>

record sync_view =
  yv_plan :: "sync_plan option"
  yv_ticked :: "bool list"
  yv_actions :: "sync_action list"
  yv_visible :: "nat list"
  yv_filter :: "string option"
  yv_editing :: bool
  yv_cursor :: nat

record sync_summary =
  ys_ticked :: nat
  ys_uploads :: nat
  ys_upload_bytes :: nat
  ys_downloads :: nat
  ys_download_bytes :: nat
  ys_skipped :: nat

fun reason_text :: "sync_reason \<Rightarrow> string" where
  "reason_text OnlyLocal = ''new locally''"
| "reason_text OnlyRemote = ''new on remote''"
| "reason_text LocalNewer = ''local is newer''"
| "reason_text RemoteNewer = ''remote is newer''"
| "reason_text TargetNewer = ''target is newer''"
| "reason_text SameTimeDifferentSize = ''same time, other size''"
| "reason_text SizeDiffers = ''size differs''"
| "reason_text SizeDiffersTimeUnknown = ''size differs, no time''"
| "reason_text KindMismatch = ''file vs folder''"

definition sync_matches :: "sync_item \<Rightarrow> string \<Rightarrow> bool" where
  "sync_matches item filter_text =
     (let f = trim filter_text; p = string_of_path (sy_path item); reason = reason_text (sy_reason item)
      in f = [] \<or>
         (if CHR ''*'' \<in> set f \<or> CHR ''?'' \<in> set f then glob_match f p \<or> glob_match f reason
          else (let needle = to_lowercase f
                in str_contains (to_lowercase p) needle \<or> starts_with reason needle \<or> str_contains reason ('' '' @ needle))))"

definition sync_view_new :: sync_view where
  "sync_view_new =
     \<lparr>yv_plan = None, yv_ticked = [], yv_actions = [], yv_visible = [], yv_filter = None, yv_editing = False, yv_cursor = 0\<rparr>"

definition plan_items :: "sync_view \<Rightarrow> sync_item list" where
  "plan_items v = (case yv_plan v of Some plan \<Rightarrow> sp_items plan | None \<Rightarrow> [])"

definition sync_refilter :: "nat option \<Rightarrow> sync_view \<Rightarrow> sync_view" where
  "sync_refilter keep v =
     (let visible = filter (\<lambda>i. case yv_filter v of None \<Rightarrow> True | Some text \<Rightarrow> sync_matches (plan_items v ! i) text)
                      [0 ..< length (plan_items v)];
          kept = (case keep of Some index \<Rightarrow> index_where (\<lambda>i. i = index) visible | None \<Rightarrow> None)
      in v\<lparr>yv_visible := visible,
           yv_cursor := (case kept of Some i \<Rightarrow> i | None \<Rightarrow> min (yv_cursor v) (length visible - 1))\<rparr>)"

definition sync_load :: "sync_plan \<Rightarrow> sync_view \<Rightarrow> sync_view" where
  "sync_load plan v =
     sync_refilter None
       (v\<lparr>yv_ticked := map sy_ticked (sp_items plan), yv_actions := map sy_action (sp_items plan), yv_plan := Some plan,
          yv_filter := None, yv_editing := False, yv_cursor := 0\<rparr>)"

definition sync_id_of :: "sync_view \<Rightarrow> nat option" where
  "sync_id_of v = map_option sp_sync_id (yv_plan v)"

definition sync_current :: "sync_view \<Rightarrow> nat option" where
  "sync_current v = (if yv_cursor v < length (yv_visible v) then Some (yv_visible v ! yv_cursor v) else None)"

definition flip_at :: "nat \<Rightarrow> sync_view \<Rightarrow> sync_view" where
  "flip_at index v =
     (case yv_plan v of
        None \<Rightarrow> v
      | Some plan \<Rightarrow>
          (let item = sp_items plan ! index
           in if \<not> sy_flippable item then v
              else (let chosen = action_after item (yv_actions v ! index) (so_direction (sp_options plan))
                    in v\<lparr>yv_actions := (yv_actions v)[index := chosen], yv_ticked := (yv_ticked v)[index := (chosen \<noteq> SSkip)]\<rparr>)))"

definition sync_toggle :: "sync_view \<Rightarrow> sync_view" where
  "sync_toggle v =
     (case sync_current v of
        None \<Rightarrow> v
      | Some index \<Rightarrow>
          if yv_ticked v ! index then v\<lparr>yv_ticked := (yv_ticked v)[index := False]\<rparr>
          else if yv_actions v ! index \<noteq> SSkip then v\<lparr>yv_ticked := (yv_ticked v)[index := True]\<rparr>
          else flip_at index v)"

definition sync_flip :: "sync_view \<Rightarrow> sync_view" where
  "sync_flip v = (case sync_current v of None \<Rightarrow> v | Some index \<Rightarrow> flip_at index v)"

definition tick_default :: "sync_plan \<Rightarrow> nat \<Rightarrow> sync_view \<Rightarrow> sync_view" where
  "tick_default plan index v =
     (let default_action = sy_action (sp_items plan ! index)
      in if default_action = SSkip then v
         else v\<lparr>yv_actions := (yv_actions v)[index := default_action], yv_ticked := (yv_ticked v)[index := True]\<rparr>)"

definition tick_all :: "sync_view \<Rightarrow> sync_view" where
  "tick_all v = (case yv_plan v of None \<Rightarrow> v | Some plan \<Rightarrow> fold (tick_default plan) (yv_visible v) v)"

definition untick_all :: "sync_view \<Rightarrow> sync_view" where
  "untick_all v = v\<lparr>yv_ticked := fold (\<lambda>index ticked. ticked[index := False]) (yv_visible v) (yv_ticked v)\<rparr>"

definition is_chosen :: "sync_view \<Rightarrow> nat \<Rightarrow> bool" where
  "is_chosen v index \<longleftrightarrow> yv_ticked v ! index \<and> yv_actions v ! index \<noteq> SSkip"

definition visible_choices :: "sync_view \<Rightarrow> (nat \<times> sync_action) list" where
  "visible_choices v =
     (case yv_plan v of
        None \<Rightarrow> []
      | Some plan \<Rightarrow>
          map (\<lambda>index. (sy_id (sp_items plan ! index), yv_actions v ! index)) (filter (is_chosen v) (yv_visible v)))"

definition side_size :: "sync_facts option \<Rightarrow> nat" where
  "side_size facts = (case facts of Some f \<Rightarrow> sf_size f | None \<Rightarrow> 0)"

definition count_item :: "sync_view \<Rightarrow> nat \<times> sync_item \<Rightarrow> sync_summary \<Rightarrow> sync_summary" where
  "count_item v indexed s =
     (case indexed of
        (index, item) \<Rightarrow>
          if \<not> is_chosen v index then s\<lparr>ys_skipped := ys_skipped s + 1\<rparr>
          else (let s = s\<lparr>ys_ticked := ys_ticked s + 1\<rparr>
                in case yv_actions v ! index of
                     SUpload \<Rightarrow> s\<lparr>ys_uploads := ys_uploads s + 1, ys_upload_bytes := ys_upload_bytes s + side_size (sy_local item)\<rparr>
                   | SDownload \<Rightarrow>
                       s\<lparr>ys_downloads := ys_downloads s + 1, ys_download_bytes := ys_download_bytes s + side_size (sy_remote item)\<rparr>
                   | SSkip \<Rightarrow> s))"

definition summary_default :: sync_summary where
  "summary_default =
     \<lparr>ys_ticked = 0, ys_uploads = 0, ys_upload_bytes = 0, ys_downloads = 0, ys_download_bytes = 0, ys_skipped = 0\<rparr>"

definition sync_summary_of :: "sync_view \<Rightarrow> sync_summary" where
  "sync_summary_of v = fold (count_item v) (List.enumerate 0 (plan_items v)) summary_default"

definition sync_set_filter :: "string option \<Rightarrow> sync_view \<Rightarrow> sync_view" where
  "sync_set_filter text v = (let keep = sync_current v in sync_refilter keep (v\<lparr>yv_filter := kept_filter text\<rparr>))"

definition sync_start_filter :: "sync_view \<Rightarrow> sync_view" where
  "sync_start_filter v = v\<lparr>yv_editing := True\<rparr>"

definition sync_finish_filter :: "sync_view \<Rightarrow> sync_view" where
  "sync_finish_filter v = v\<lparr>yv_editing := False\<rparr>"

definition sync_type_filter :: "char \<Rightarrow> sync_view \<Rightarrow> sync_view" where
  "sync_type_filter c v = sync_set_filter (Some (filter_or_empty (yv_filter v) @ [c])) v"

definition sync_erase_filter :: "sync_view \<Rightarrow> sync_view" where
  "sync_erase_filter v = sync_set_filter (Some (butlast (filter_or_empty (yv_filter v)))) v"

definition sync_clear_filter :: "sync_view \<Rightarrow> sync_view" where
  "sync_clear_filter v = sync_set_filter None (v\<lparr>yv_editing := False\<rparr>)"

definition sync_move_cursor :: "int \<Rightarrow> sync_view \<Rightarrow> sync_view" where
  "sync_move_cursor delta v = v\<lparr>yv_cursor := moved_cursor (length (yv_visible v)) delta (yv_cursor v)\<rparr>"

section \<open>Notices (notifications)\<close>

text \<open>Moments are natural numbers, in seconds.\<close>

record notification =
  nt_severity :: severity
  nt_message :: string
  nt_expires_at :: "nat option"

fun ttl_for :: "severity \<Rightarrow> nat option" where
  "ttl_for SevInfo = Some 4"
| "ttl_for SevWarning = Some 8"
| "ttl_for SevError = None"

definition push_notice :: "nat \<Rightarrow> severity \<Rightarrow> string \<Rightarrow> notification list \<Rightarrow> notification list" where
  "push_notice now severity message queue =
     queue @ [\<lparr>nt_severity = severity, nt_message = message, nt_expires_at = map_option (\<lambda>ttl. now + ttl) (ttl_for severity)\<rparr>]"

definition expire_notices :: "nat \<Rightarrow> notification list \<Rightarrow> notification list" where
  "expire_notices now queue = dropWhile (\<lambda>n. case nt_expires_at n of Some t \<Rightarrow> t \<le> now | None \<Rightarrow> False) queue"

definition next_wake :: "notification list \<Rightarrow> nat option" where
  "next_wake queue = (case queue of n # _ \<Rightarrow> nt_expires_at n | [] \<Rightarrow> None)"

text \<open>
  The trait \<^verbatim>\<open>FilterLine\<close> as a locale: what typing, erasing and clearing do to the filter, and that the
  cursor stays on a row.  It is interpreted on the four views that implement the trait.
\<close>

section \<open>The interface\<close>

datatype filter_op = StartFilter | FinishFilter | TypeFilter char | EraseFilter | ClearFilter | MoveCursor int

definition on_a_row :: "nat \<Rightarrow> nat \<Rightarrow> bool" where
  "on_a_row rows cursor \<longleftrightarrow> cursor < rows \<or> cursor = 0"

locale filtered_view =
  fixes rows :: "'v \<Rightarrow> nat" and cursor :: "'v \<Rightarrow> nat" and filter_of :: "'v \<Rightarrow> string option" and editing :: "'v \<Rightarrow> bool"
    and run :: "filter_op \<Rightarrow> 'v \<Rightarrow> 'v"
  assumes start: "editing (run StartFilter v)" "filter_of (run StartFilter v) = filter_of v"
    and finish: "\<not> editing (run FinishFilter v)" "filter_of (run FinishFilter v) = filter_of v"
    and type_text: "filter_of (run (TypeFilter c) v) = Some (filter_or_empty (filter_of v) @ [c])"
    and erase_text: "filter_of (run EraseFilter v) = kept_filter (Some (butlast (filter_or_empty (filter_of v))))"
    and clear_text: "filter_of (run ClearFilter v) = None" "\<not> editing (run ClearFilter v)"
    and move_text: "filter_of (run (MoveCursor delta) v) = filter_of v"
    and typing_edits: "editing (run (TypeFilter c) v) = editing v" "editing (run EraseFilter v) = editing v"
    and row_kept: "on_a_row (rows v) (cursor v) \<Longrightarrow> on_a_row (rows (run op v)) (cursor (run op v))"
begin

lemma cursor_on_a_row: "on_a_row (rows v) (cursor v) \<Longrightarrow> on_a_row (rows (fold run ops v)) (cursor (fold run ops v))"
proof (induction ops arbitrary: v)
  case (Cons op ops)
  show ?case using Cons.IH [OF row_kept [OF Cons.prems]] by simp
qed simp

lemma typed_filter: "typed \<noteq> [] \<Longrightarrow> filter_of (fold run (map TypeFilter typed) v) = Some (filter_or_empty (filter_of v) @ typed)"
proof (induction typed rule: rev_induct)
  case (snoc c typed)
  then show ?case by (cases "typed = []") (simp_all add: type_text filter_or_empty_def)
qed simp

lemma erased_filter:
  "filter_of (fold run (replicate n EraseFilter) v) =
     (if n = 0 then filter_of v else kept_filter (Some (take (length (filter_or_empty (filter_of v)) - n) (filter_or_empty (filter_of v)))))"
proof (induction n)
  case (Suc n)
  have replicate: "replicate (Suc n) EraseFilter = replicate n EraseFilter @ [EraseFilter]"
    by (simp add: replicate_append_same)
  show ?case
    by (simp only: replicate fold_append o_apply fold_simps id_apply erase_text Suc)
       (auto simp: kept_filter_def filter_or_empty_def butlast_conv_take min_def)
qed simp

text \<open>What is typed and erased again leaves the filter as it was, an empty one as none.\<close>

lemma type_then_erase:
  assumes "typed \<noteq> []"
  shows "filter_of (fold run (map TypeFilter typed @ replicate (length typed) EraseFilter) v) = kept_filter (Some (filter_or_empty (filter_of v)))"
proof -
  have "filter_of (fold run (replicate (length typed) EraseFilter) (fold run (map TypeFilter typed) v)) =
      kept_filter (Some (filter_or_empty (filter_of v)))"
    unfolding erased_filter typed_filter [OF assms] using assms by (simp add: filter_or_empty_def)
  then show ?thesis by (simp only: fold_append o_apply)
qed

end

section \<open>The four views\<close>

fun panel_filter_op :: "filter_op \<Rightarrow> panel_view \<Rightarrow> panel_view" where
  "panel_filter_op StartFilter = panel_start_filter"
| "panel_filter_op FinishFilter = panel_finish_filter"
| "panel_filter_op (TypeFilter c) = panel_type_filter c"
| "panel_filter_op EraseFilter = panel_erase_filter"
| "panel_filter_op ClearFilter = panel_clear_filter"
| "panel_filter_op (MoveCursor delta) = panel_move_cursor delta"

fun connections_filter_op :: "filter_op \<Rightarrow> connections_view \<Rightarrow> connections_view" where
  "connections_filter_op StartFilter = connections_start_filter"
| "connections_filter_op FinishFilter = connections_finish_filter"
| "connections_filter_op (TypeFilter c) = connections_type_filter c"
| "connections_filter_op EraseFilter = connections_erase_filter"
| "connections_filter_op ClearFilter = connections_clear_filter"
| "connections_filter_op (MoveCursor delta) = connections_move_cursor delta"

fun history_filter_op :: "filter_op \<Rightarrow> history_view \<Rightarrow> history_view" where
  "history_filter_op StartFilter = history_start_filter"
| "history_filter_op FinishFilter = history_finish_filter"
| "history_filter_op (TypeFilter c) = history_type_filter c"
| "history_filter_op EraseFilter = history_erase_filter"
| "history_filter_op ClearFilter = history_clear_filter"
| "history_filter_op (MoveCursor delta) = history_move_cursor delta"

fun sync_filter_op :: "filter_op \<Rightarrow> sync_view \<Rightarrow> sync_view" where
  "sync_filter_op StartFilter = sync_start_filter"
| "sync_filter_op FinishFilter = sync_finish_filter"
| "sync_filter_op (TypeFilter c) = sync_type_filter c"
| "sync_filter_op EraseFilter = sync_erase_filter"
| "sync_filter_op ClearFilter = sync_clear_filter"
| "sync_filter_op (MoveCursor delta) = sync_move_cursor delta"

lemma moved_on_a_row: "on_a_row rows cursor \<Longrightarrow> on_a_row rows (moved_cursor rows delta cursor)"
  by (auto simp: on_a_row_def moved_cursor_def)

lemma clamped_on_a_row: "on_a_row rows (min cursor (rows - 1))"
  by (auto simp: on_a_row_def)

lemma index_where_less: "index_where P xs = Some i \<Longrightarrow> i < length xs \<and> P (xs ! i)"
  by (induction xs arbitrary: i) (auto split: if_splits)

lemma kept_snoc [simp]: "kept_filter (Some (s @ [c])) = Some (s @ [c])" "kept_filter None = None"
  by (simp_all add: kept_filter_def)

lemma set_filter_kept: "ln_filter (set_filter f l) = kept_filter f"
  by (simp add: set_filter_def recompute_rows_def Let_def kept_filter_def split: option.split)

lemma panel_apply:
  "panel_filter (panel_apply_filter text v) = kept_filter text" "pv_editing (panel_apply_filter text v) = pv_editing v"
  "on_a_row (length (panel_rows (panel_apply_filter text v))) (pv_cursor (panel_apply_filter text v))"
proof -
  show "panel_filter (panel_apply_filter text v) = kept_filter text" "pv_editing (panel_apply_filter text v) = pv_editing v"
    by (simp_all add: panel_apply_filter_def panel_filter_def Let_def set_filter_kept)
  show "on_a_row (length (panel_rows (panel_apply_filter text v))) (pv_cursor (panel_apply_filter text v))"
    by (auto simp: panel_apply_filter_def panel_rows_def anchor_position_def on_a_row_def Let_def
        split: option.split dest!: index_where_less)
qed

interpretation panels: filtered_view "\<lambda>v. length (panel_rows v)" pv_cursor panel_filter pv_editing panel_filter_op
proof
  fix v :: panel_view and op
  have same: "panel_filter (v\<lparr>pv_cursor := c\<rparr>) = panel_filter v" "panel_rows (v\<lparr>pv_cursor := c\<rparr>) = panel_rows v"
    "panel_filter (v\<lparr>pv_anchor := a\<rparr>) = panel_filter v" "panel_rows (v\<lparr>pv_anchor := a\<rparr>) = panel_rows v"
    "panel_filter (v\<lparr>pv_editing := e\<rparr>) = panel_filter v" "panel_rows (v\<lparr>pv_editing := e\<rparr>) = panel_rows v" for v c a e
    by (simp_all add: panel_filter_def panel_rows_def)
  show "on_a_row (length (panel_rows (panel_filter_op op v))) (pv_cursor (panel_filter_op op v))"
    if "on_a_row (length (panel_rows v)) (pv_cursor v)"
    using that by (cases op)
      (simp_all add: panel_start_filter_def panel_finish_filter_def panel_type_filter_def panel_erase_filter_def
        panel_clear_filter_def panel_move_cursor_def same panel_apply moved_on_a_row)
qed (simp_all add: panel_start_filter_def panel_finish_filter_def panel_type_filter_def panel_erase_filter_def
    panel_clear_filter_def panel_move_cursor_def panel_apply panel_filter_def panel_apply(1) [unfolded panel_filter_def])

lemma rebuild_fields:
  "cv_filter (rebuild_rows key v) = cv_filter v" "cv_editing (rebuild_rows key v) = cv_editing v"
  "on_a_row (length (cv_rows (rebuild_rows key v))) (cv_cursor (rebuild_rows key v))"
  by (auto simp: rebuild_rows_def Let_def on_a_row_def split: option.split dest!: index_where_less)

interpretation connections: filtered_view "\<lambda>v. length (cv_rows v)" cv_cursor cv_filter cv_editing connections_filter_op
proof
  fix v :: connections_view and op
  show "on_a_row (length (cv_rows (connections_filter_op op v))) (cv_cursor (connections_filter_op op v))"
    if "on_a_row (length (cv_rows v)) (cv_cursor v)"
    using that by (cases op)
      (simp_all add: connections_start_filter_def connections_finish_filter_def connections_type_filter_def
        connections_erase_filter_def connections_clear_filter_def connections_move_cursor_def connections_set_filter_def
        rebuild_fields moved_on_a_row)
qed (simp_all add: connections_start_filter_def connections_finish_filter_def connections_type_filter_def
    connections_erase_filter_def connections_clear_filter_def connections_move_cursor_def connections_set_filter_def rebuild_fields)

lemma history_refilter_fields:
  "hv_filter (history_refilter v) = hv_filter v" "hv_editing (history_refilter v) = hv_editing v"
  "on_a_row (length (hv_visible (history_refilter v))) (hv_cursor (history_refilter v))"
  using clamped_on_a_row by (simp_all add: history_refilter_def Let_def)

interpretation histories: filtered_view "\<lambda>v. length (hv_visible v)" hv_cursor hv_filter hv_editing history_filter_op
proof
  fix v :: history_view and op
  show "on_a_row (length (hv_visible (history_filter_op op v))) (hv_cursor (history_filter_op op v))"
    if "on_a_row (length (hv_visible v)) (hv_cursor v)"
    using that by (cases op)
      (simp_all add: history_start_filter_def history_finish_filter_def history_type_filter_def history_erase_filter_def
        history_clear_filter_def history_move_cursor_def history_set_filter_def history_refilter_fields moved_on_a_row)
qed (simp_all add: history_start_filter_def history_finish_filter_def history_type_filter_def history_erase_filter_def
    history_clear_filter_def history_move_cursor_def history_set_filter_def history_refilter_fields)

lemma sync_refilter_fields:
  "yv_filter (sync_refilter keep v) = yv_filter v" "yv_editing (sync_refilter keep v) = yv_editing v"
  "on_a_row (length (yv_visible (sync_refilter keep v))) (yv_cursor (sync_refilter keep v))"
  by (auto simp: sync_refilter_def Let_def on_a_row_def split: option.split dest!: index_where_less)

interpretation syncs: filtered_view "\<lambda>v. length (yv_visible v)" yv_cursor yv_filter yv_editing sync_filter_op
proof
  fix v :: sync_view and op
  show "on_a_row (length (yv_visible (sync_filter_op op v))) (yv_cursor (sync_filter_op op v))"
    if "on_a_row (length (yv_visible v)) (yv_cursor v)"
    using that by (cases op)
      (simp_all add: sync_start_filter_def sync_finish_filter_def sync_type_filter_def sync_erase_filter_def
        sync_clear_filter_def sync_move_cursor_def sync_set_filter_def Let_def sync_refilter_fields moved_on_a_row)
qed (simp_all add: sync_start_filter_def sync_finish_filter_def sync_type_filter_def sync_erase_filter_def
    sync_clear_filter_def sync_move_cursor_def sync_set_filter_def Let_def sync_refilter_fields)

end
