(* ===== verification/Tui_App.thy ===== *)
theory Tui_App
  imports Tui_Views Tui_Dialog Desk Engine
begin

text \<open>
  \<^verbatim>\<open>porthmos-tui/app\<close>: what the user interface remembers, what it sends to the core, and the small
  steps its handlers share.
\<close>

section \<open>The state\<close>

text \<open>
  The protocols of the build, and what the libraries print: a moment in local time, a size, the
  status of a process.
\<close>

record tui_env =
  ui_protocols :: "protocol_info list"
  ui_time_text :: "nat \<Rightarrow> string"
  ui_size_text :: "nat \<Rightarrow> string"
  ui_status_text :: "int option \<Rightarrow> string"

datatype pending_action =
    PendMkdir
  | PendRename
  | PendDelete
  | PendAddBookmark
  | PendPassword nat
  | PendTrustHostKey nat
  | PendTrustCertificate nat
  | PendAddConnection
  | PendEditConnection connection_entry
  | PendDeleteConnection string
  | PendEditSshLabels string
  | PendFixMissingHost string
  | PendMoveLabels string "string list"
  | PendResolveConflict
  | PendClearHistory
  | PendEditUpload nat
  | PendEditConflict nat
  | PendQuitWhileSaving
  | PendStartSync nat

datatype reveal = AwaitingSave string | ReadyToReveal string

datatype screen = FilesScreen | ConnectionsScreen | SearchScreen | TransfersScreen | HistoryScreen | SyncScreen

datatype connection_status = StatusDisconnected | StatusConnecting string | StatusFailed string

record search_session =
  ss_view :: search_view
  ss_location :: location

record conflict_prompt =
  cp_batch_id :: nat
  cp_files :: "conflict_info list"
  cp_answers :: "resolution option list"

record edit_prompt =
  ep_edit_id :: nat
  ep_name :: string
  ep_kind :: edit_question_kind

text \<open>The commands, which the model splits between the desk and the engine of transfers.\<close>

datatype sent_command = ToDesk desk_command | ToEngine command

text \<open>\<^verbatim>\<open>ap_now\<close> and \<^verbatim>\<open>ap_unix_now\<close> are the clocks, read when a step starts; \<^verbatim>\<open>ap_sent\<close> is what went to the core.\<close>

record app =
  ap_env :: tui_env
  ap_should_quit :: bool
  ap_screen :: screen
  ap_active_panel :: active_panel
  ap_local :: panel_view
  ap_sessions :: sessions
  ap_dialog :: "dialog option"
  ap_help_visible :: bool
  ap_pending :: "pending_action option"
  ap_notifications :: "notification list"
  ap_connections :: connections_view
  ap_reveal :: "reveal option"
  ap_announced :: "string fset"
  ap_keyring_available :: bool
  ap_keyring_waiting :: bool
  ap_save_choice :: bool
  ap_transfers_cursor :: nat
  ap_reselect_row :: "row_kind option"
  ap_connection_status :: connection_status
  ap_search :: "search_session option"
  ap_transfers :: transfer_snapshot
  ap_history :: history_view
  ap_sync_view :: sync_view
  ap_edit_questions :: "edit_prompt list"
  ap_open_edit_question :: "edit_prompt option"
  ap_edits_busy :: bool
  ap_conflict_prompts :: "conflict_prompt list"
  ap_key_bindings :: key_bindings
  ap_bookmarks :: "bookmark list"
  ap_now :: nat
  ap_unix_now :: nat
  ap_sent :: "sent_command list"

definition tell_desk :: "desk_command \<Rightarrow> app \<Rightarrow> app" where
  "tell_desk c a = a\<lparr>ap_sent := ap_sent a @ [ToDesk c]\<rparr>"

definition tell_engine :: "command \<Rightarrow> app \<Rightarrow> app" where
  "tell_engine c a = a\<lparr>ap_sent := ap_sent a @ [ToEngine c]\<rparr>"

definition notify :: "severity \<Rightarrow> string \<Rightarrow> app \<Rightarrow> app" where
  "notify severity message a = a\<lparr>ap_notifications := push_notice (ap_now a) severity message (ap_notifications a)\<rparr>"

definition app_error :: "string \<Rightarrow> app \<Rightarrow> app" where
  "app_error message = notify SevError message"

definition app_warn :: "string \<Rightarrow> app \<Rightarrow> app" where
  "app_warn message = notify SevWarning message"

text \<open>A dialog and what its answer is for are set together.\<close>

definition open_dialog :: "dialog \<Rightarrow> pending_action \<Rightarrow> app \<Rightarrow> app" where
  "open_dialog d p a = a\<lparr>ap_dialog := Some d, ap_pending := Some p\<rparr>"

definition close_dialog :: "app \<Rightarrow> app" where
  "close_dialog a = a\<lparr>ap_dialog := None, ap_pending := None\<rparr>"

definition snapshot_default :: transfer_snapshot where
  "snapshot_default =
     \<lparr>ts_rows = [], ts_active = [], ts_batches = fmempty, ts_queued = 0, ts_scanning = [], ts_awaiting_answers = 0\<rparr>"

definition app_new :: "tui_env \<Rightarrow> path \<Rightarrow> panel_settings \<Rightarrow> key_bindings \<Rightarrow> app" where
  "app_new env local_path panel keys =
     tell_desk (CmdList LocalSide (Some local_path))
       \<lparr>ap_env = env, ap_should_quit = False, ap_screen = FilesScreen, ap_active_panel = LocalPanel,
        ap_local = panel_new local_path (ps_sort panel) (ps_show_hidden panel), ap_sessions = sessions_new,
        ap_dialog = None, ap_help_visible = False, ap_pending = None, ap_notifications = [],
        ap_connections = connections_new, ap_reveal = None, ap_announced = {||}, ap_keyring_available = True,
        ap_keyring_waiting = False, ap_save_choice = False, ap_transfers_cursor = 0, ap_reselect_row = None,
        ap_connection_status = StatusDisconnected, ap_search = None, ap_transfers = snapshot_default, ap_history = history_view_new,
        ap_sync_view = sync_view_new, ap_edit_questions = [], ap_open_edit_question = None, ap_edits_busy = False,
        ap_conflict_prompts = [], ap_key_bindings = keys, ap_bookmarks = [], ap_now = 0, ap_unix_now = 0, ap_sent = []\<rparr>"

section \<open>The panel of a location\<close>

definition active_location :: "app \<Rightarrow> location option" where
  "active_location a =
     (case ap_active_panel a of
        LocalPanel \<Rightarrow> Some LocalSide
      | RemotePanel \<Rightarrow> map_option SessionSide (active_id (ap_sessions a)))"

definition panel_at :: "location \<Rightarrow> app \<Rightarrow> panel_view option" where
  "panel_at l a =
     (case l of
        LocalSide \<Rightarrow> Some (ap_local a)
      | SessionSide sid \<Rightarrow> map_option us_panel (session_by_id sid (ap_sessions a)))"

definition active_panel_view :: "app \<Rightarrow> panel_view option" where
  "active_panel_view a =
     (case ap_active_panel a of
        LocalPanel \<Rightarrow> Some (ap_local a)
      | RemotePanel \<Rightarrow> map_option us_panel (active_session (ap_sessions a)))"

definition on_session_panel :: "(panel_view \<Rightarrow> panel_view) \<Rightarrow> tui_session \<Rightarrow> tui_session" where
  "on_session_panel f s = s\<lparr>us_panel := f (us_panel s)\<rparr>"

definition change_active_panel :: "(panel_view \<Rightarrow> panel_view) \<Rightarrow> app \<Rightarrow> app" where
  "change_active_panel f a =
     (case ap_active_panel a of
        LocalPanel \<Rightarrow> a\<lparr>ap_local := f (ap_local a)\<rparr>
      | RemotePanel \<Rightarrow> a\<lparr>ap_sessions := change_active (on_session_panel f) (ap_sessions a)\<rparr>)"

definition relist :: "location \<Rightarrow> app \<Rightarrow> app" where
  "relist l a =
     (case panel_at l a of
        Some panel \<Rightarrow> tell_desk (CmdList l (Some (panel_path panel))) a
      | None \<Rightarrow> a)"

definition apply_listing :: "location \<Rightarrow> path \<Rightarrow> entry list \<Rightarrow> app \<Rightarrow> app" where
  "apply_listing l p entries a =
     (case l of
        LocalSide \<Rightarrow>
          (let panel = (if p \<noteq> panel_path (ap_local a) then (ap_local a)\<lparr>pv_cursor := 0\<rparr> else ap_local a)
           in a\<lparr>ap_local := panel_replace p entries panel\<rparr>)
      | SessionSide sid \<Rightarrow>
          a\<lparr>ap_sessions :=
              change_session sid (\<lambda>s. (on_session_panel (panel_replace p entries) s)\<lparr>us_listed := True\<rparr>) (ap_sessions a)\<rparr>)"

section \<open>Text (history_view, edit)\<close>

text \<open>
  \<^verbatim>\<open>printable\<close> on the bytes of the text: control characters, the C1 controls among them, and the
  characters that change the direction of writing, in their UTF-8 form.
\<close>

fun printable :: "string \<Rightarrow> string" where
  "printable [] = []"
| "printable (a # rest) =
     (if of_char a < (32 :: nat) \<or> of_char a = (127 :: nat) then CHR ''?'' # printable rest
      else case rest of
             [] \<Rightarrow> [a]
           | b # after_b \<Rightarrow>
               if a = CHR 0xC2 \<and> of_char b < (160 :: nat) \<or> a = CHR 0xD8 \<and> b = CHR 0x9C
               then CHR ''?'' # printable after_b
               else case after_b of
                      [] \<Rightarrow> a # printable rest
                    | c # after_c \<Rightarrow>
                        if a = CHR 0xE2 \<and>
                           (b = CHR 0x80 \<and> (c \<in> {CHR 0x8E, CHR 0x8F, CHR 0xAA, CHR 0xAB, CHR 0xAC, CHR 0xAD, CHR 0xAE}) \<or>
                            b = CHR 0x81 \<and> (c \<in> {CHR 0xA6, CHR 0xA7, CHR 0xA8, CHR 0xA9}))
                        then CHR ''?'' # printable after_c
                        else a # printable rest)"

definition text_dash :: string where
  "text_dash = [CHR 0xE2, CHR 0x80, CHR 0x94]"

definition text_ellipsis :: string where
  "text_ellipsis = [CHR 0xE2, CHR 0x80, CHR 0xA6]"

definition text_arrow :: string where
  "text_arrow = [CHR 0xE2, CHR 0x86, CHR 0x92]"

definition text_warning_sign :: string where
  "text_warning_sign = [CHR 0xE2, CHR 0x9A, CHR 0xA0]"

text \<open>
  \<^verbatim>\<open>porthmos-tui/app\<close>: what every key and every event of the core does to the user interface, and
  its loop.
\<close>

section \<open>Conflicts (conflicts)\<close>

definition first_unanswered :: "conflict_prompt \<Rightarrow> nat option" where
  "first_unanswered p = index_where (\<lambda>r. r = None) (cp_answers p)"

definition conflict_box :: "nat \<Rightarrow> conflict_prompt \<Rightarrow> nat \<Rightarrow> conflict_dialog" where
  "conflict_box now p index =
     (let file = cp_files p ! index
      in \<lparr>xd_file_name = ci_display_name file, xd_existing = ci_existing file, xd_partial = ci_partial file,
          xd_new_size = ci_new_size file, xd_new_modified = ci_new_modified file, xd_index = index,
          xd_total = length (cp_files p), xd_apply_to_rest = False, xd_now = now\<rparr>)"

definition open_next_conflict_prompt :: "app \<Rightarrow> app" where
  "open_next_conflict_prompt a =
     (if ap_dialog a \<noteq> None \<or> ap_screen a = SearchScreen then a
      else case ap_conflict_prompts a of
             [] \<Rightarrow> a
           | p # _ \<Rightarrow>
               (case first_unanswered p of
                  None \<Rightarrow> a
                | Some index \<Rightarrow>
                    if index < length (cp_files p)
                    then open_dialog (ConflictBox (conflict_box (ap_unix_now a) p index)) PendResolveConflict a
                    else a))"

definition queue_conflict_prompt :: "nat \<Rightarrow> conflict_info list \<Rightarrow> app \<Rightarrow> app" where
  "queue_conflict_prompt batch_id files a =
     open_next_conflict_prompt
       (a\<lparr>ap_conflict_prompts :=
            ap_conflict_prompts a @
            [\<lparr>cp_batch_id = batch_id, cp_files = files, cp_answers = replicate (length files) None\<rparr>]\<rparr>)"

text \<open>What an answer says of the files after the one asked about.\<close>

definition answer_rest :: "resolution \<Rightarrow> conflict_prompt \<Rightarrow> nat \<Rightarrow> resolution option list" where
  "answer_rest r p current =
     map (\<lambda>index.
            if current < index \<and> cp_answers p ! index = None \<and>
               fits_the_rest ci_existing ci_partial r (cp_files p ! current) (cp_files p ! index)
            then Some r else cp_answers p ! index)
       [0 ..< length (cp_answers p)]"

definition answer_prompt :: "resolution \<Rightarrow> bool \<Rightarrow> nat \<Rightarrow> conflict_prompt \<Rightarrow> conflict_prompt" where
  "answer_prompt r apply_to_rest current p =
     (let p = p\<lparr>cp_answers := (cp_answers p)[current := Some r]\<rparr>
      in if apply_to_rest then p\<lparr>cp_answers := answer_rest r p current\<rparr> else p)"

definition answer_conflict :: "resolution option \<Rightarrow> bool \<Rightarrow> app \<Rightarrow> app" where
  "answer_conflict resolution apply_to_rest a =
     (case ap_conflict_prompts a of
        [] \<Rightarrow> a
      | p # rest \<Rightarrow>
          (let popped = a\<lparr>ap_conflict_prompts := rest\<rparr>
           in case resolution of
                None \<Rightarrow> open_next_conflict_prompt (tell_engine (ResolveConflicts (cp_batch_id p) None) popped)
              | Some r \<Rightarrow>
                  (case first_unanswered p of
                     None \<Rightarrow> popped
                   | Some current \<Rightarrow>
                       (let p = answer_prompt r apply_to_rest current p
                        in open_next_conflict_prompt
                             (if None \<notin> set (cp_answers p)
                              then tell_engine (ResolveConflicts (cp_batch_id p) (Some (map the (cp_answers p)))) popped
                              else popped\<lparr>ap_conflict_prompts := p # rest\<rparr>)))))"

definition drop_conflict_prompts :: "nat list \<Rightarrow> app \<Rightarrow> app" where
  "drop_conflict_prompts batch_ids a =
     (let showing_dropped_prompt =
            (ap_pending a = Some PendResolveConflict \<and>
             (case ap_conflict_prompts a of p # _ \<Rightarrow> cp_batch_id p \<in> set batch_ids | [] \<Rightarrow> False));
          a = a\<lparr>ap_conflict_prompts := filter (\<lambda>p. cp_batch_id p \<notin> set batch_ids) (ap_conflict_prompts a)\<rparr>
      in open_next_conflict_prompt (if showing_dropped_prompt then close_dialog a else a))"

section \<open>Edits (edit)\<close>

definition about_edit :: "pending_action option \<Rightarrow> bool" where
  "about_edit p = (case p of Some (PendEditUpload _) \<Rightarrow> True | Some (PendEditConflict _) \<Rightarrow> True | _ \<Rightarrow> False)"

definition open_edit_prompt :: "edit_prompt \<Rightarrow> app \<Rightarrow> app" where
  "open_edit_prompt p a =
     (let a = (case ep_kind p of
                 AskUpload \<Rightarrow>
                   open_dialog (ConfirmBox (confirm_new (''Upload your changes to '' @ ep_name p @ ''?'')))
                     (PendEditUpload (ep_edit_id p)) a
               | AskConflict \<Rightarrow>
                   open_dialog
                     (ListBox ((list_new (ep_name p @ '' changed on the server while you were editing'')
                                 [''Overwrite'', ''Keep mine as a copy'', ''Cancel''])\<lparr>ld_cursor := 1\<rparr>))
                     (PendEditConflict (ep_edit_id p)) a)
      in a\<lparr>ap_open_edit_question := Some p\<rparr>)"

definition open_next_edit_question :: "app \<Rightarrow> app" where
  "open_next_edit_question a =
     (if ap_dialog a \<noteq> None then a
      else case ap_edit_questions a of
             [] \<Rightarrow> a
           | p # rest \<Rightarrow> open_edit_prompt p (a\<lparr>ap_edit_questions := rest\<rparr>))"

definition ask_edit_question :: "nat \<Rightarrow> string \<Rightarrow> edit_question_kind \<Rightarrow> app \<Rightarrow> app" where
  "ask_edit_question edit_id name kind a =
     open_next_edit_question
       (a\<lparr>ap_edit_questions := ap_edit_questions a @ [\<lparr>ep_edit_id = edit_id, ep_name = printable name, ep_kind = kind\<rparr>]\<rparr>)"

definition requeue_open_edit_question :: "app \<Rightarrow> app" where
  "requeue_open_edit_question a =
     (case ap_open_edit_question a of
        None \<Rightarrow> a
      | Some p \<Rightarrow>
          (let a = a\<lparr>ap_open_edit_question := None\<rparr>
           in if ap_dialog a \<noteq> None \<and> about_edit (ap_pending a)
              then a\<lparr>ap_edit_questions := p # ap_edit_questions a\<rparr> else a))"

definition after_dialog_key :: "app \<Rightarrow> app" where
  "after_dialog_key a =
     open_next_edit_question (if about_edit (ap_pending a) then a else a\<lparr>ap_open_edit_question := None\<rparr>)"

definition request_quit :: "app \<Rightarrow> app" where
  "request_quit a =
     (if \<not> ap_edits_busy a then a\<lparr>ap_should_quit := True\<rparr>
      else open_dialog
             (ConfirmBox (confirm_new
                (''An edit is still being saved to the server. Quit anyway? The remote file may be left '' @
                 ''incomplete; your copy stays in the state folder.'')))
             PendQuitWhileSaving a)"

definition answer_edit_conflict :: "nat \<Rightarrow> nat \<Rightarrow> app \<Rightarrow> app" where
  "answer_edit_conflict edit_id index =
     tell_engine (ResolveEdit edit_id (if index = 0 then ChooseUpload else if index = 1 then ChooseKeepCopy else ChooseCancel))"

definition start_edit :: "app \<Rightarrow> app" where
  "start_edit a =
     (if ap_screen a \<noteq> FilesScreen then a
      else case active_location a of
             None \<Rightarrow> notify SevWarning ''Connect to a remote server first'' a
           | Some l \<Rightarrow>
               (case panel_at l a of
                  None \<Rightarrow> a
                | Some panel \<Rightarrow>
                    (case current_entry panel of
                       Some e \<Rightarrow>
                         if e_is_dir e then notify SevWarning ''Can't edit a folder'' a
                         else tell_engine (EditFile l (e_path e)) a
                     | None \<Rightarrow> if on_parent_row panel then notify SevWarning ''Can't edit a folder'' a else a)))"

text \<open>How the process of an editor or of \<^verbatim>\<open>ssh\<close> ended; a signal leaves no code.\<close>

datatype process_end = ProcessEnded "int option" | ProcessNotStarted string | ProcessTaskFailed string

definition editor_process :: "editor_command \<Rightarrow> path \<Rightarrow> string \<times> string list" where
  "editor_process editor file = (ed_program editor, ed_args editor @ [string_of_path file])"

definition editor_exit_of :: "process_end \<Rightarrow> editor_exit" where
  "editor_exit_of result =
     (case result of
        ProcessEnded (Some code) \<Rightarrow> if code = 0 then ExitSuccess else ExitStatus code
      | ProcessEnded None \<Rightarrow> ExitStatus (-1)
      | ProcessNotStarted e \<Rightarrow> LaunchFailed e
      | ProcessTaskFailed e \<Rightarrow> LaunchFailed e)"

text \<open>The terminal is given back first and taken again after; either may fail, which ends the program.\<close>

definition launch_editor :: "string option \<Rightarrow> process_end \<Rightarrow> string option \<Rightarrow> nat \<Rightarrow> app \<Rightarrow> string option \<times> app" where
  "launch_editor given_back result taken edit_id a =
     (case given_back of
        Some e \<Rightarrow> (Some e, tell_engine (FinishEdit edit_id (LaunchFailed e)) a)
      | None \<Rightarrow> (taken, tell_engine (FinishEdit edit_id (editor_exit_of result)) a))"

section \<open>Bookmarks (bookmarks)\<close>

definition active_panel_path :: "app \<Rightarrow> path" where
  "active_panel_path a =
     (case active_location a of
        Some l \<Rightarrow> (case panel_at l a of Some panel \<Rightarrow> panel_path panel | None \<Rightarrow> [])
      | None \<Rightarrow> [])"

definition open_bookmark_add_dialog :: "app \<Rightarrow> app" where
  "open_bookmark_add_dialog a =
     (if ap_screen a \<noteq> FilesScreen then a
      else open_dialog
             (InputBox (text_input_new ''Bookmark name''
                (case file_name (active_panel_path a) of Some name \<Rightarrow> name | None \<Rightarrow> ''bookmark'')))
             PendAddBookmark a)"

definition add_bookmark_here :: "string \<Rightarrow> app \<Rightarrow> app" where
  "add_bookmark_here label a =
     (case active_location a of
        None \<Rightarrow> notify SevWarning ''Connect to a remote server first'' a
      | Some l \<Rightarrow> tell_desk (CmdAddBookmark label l (active_panel_path a)) a)"

definition bookmark_line :: "bookmark \<Rightarrow> string" where
  "bookmark_line b =
     bm_label b @ '' '' @ text_dash @ '' '' @ string_of_path (bm_path b) @
     (case bm_host b of Some host \<Rightarrow> '' ['' @ host @ '']'' | None \<Rightarrow> [])"

text \<open>This dialog is opened without an action.\<close>

definition open_bookmarks_dialog :: "app \<Rightarrow> app" where
  "open_bookmarks_dialog a =
     (if ap_screen a \<noteq> FilesScreen then a
      else a\<lparr>ap_dialog := Some (ListBox ((list_new ''Bookmarks'' (map bookmark_line (ap_bookmarks a)))\<lparr>ld_removable := True\<rparr>))\<rparr>)"

definition navigate_to_bookmark :: "nat \<Rightarrow> app \<Rightarrow> app" where
  "navigate_to_bookmark index a =
     (if index < length (ap_bookmarks a)
      then (let b = ap_bookmarks a ! index
            in case bm_host b of
                 None \<Rightarrow> tell_desk (CmdList LocalSide (Some (bm_path b))) (a\<lparr>ap_active_panel := LocalPanel\<rparr>)
               | Some host \<Rightarrow>
                   (case session_by_name host (ap_sessions a) of
                      None \<Rightarrow> notify SevWarning (''Connect to '' @ host @ '' first'') a
                    | Some s \<Rightarrow>
                        tell_desk (CmdList (SessionSide (us_id s)) (Some (bm_path b)))
                          (a\<lparr>ap_sessions := snd (activate_session (us_id s) (ap_sessions a)), ap_active_panel := RemotePanel\<rparr>)))
      else a)"

section \<open>The panels (dialogs, transfers)\<close>

definition open_mkdir_dialog :: "app \<Rightarrow> app" where
  "open_mkdir_dialog a =
     (if ap_screen a \<noteq> FilesScreen \<or> ap_active_panel a = RemotePanel \<and> active_session (ap_sessions a) = None then a
      else open_dialog (InputBox (text_input_new ''New directory name'' [])) PendMkdir a)"

definition located_panel :: "app \<Rightarrow> (location \<times> panel_view) option" where
  "located_panel a =
     (case active_location a of
        Some l \<Rightarrow> map_option (Pair l) (panel_at l a)
      | None \<Rightarrow> None)"

definition open_rename_dialog :: "app \<Rightarrow> app" where
  "open_rename_dialog a =
     (if ap_screen a \<noteq> FilesScreen then a
      else case located_panel a of
             None \<Rightarrow> a
           | Some (_, panel) \<Rightarrow>
               (case current_entry_name panel of
                  None \<Rightarrow> a
                | Some name \<Rightarrow> open_dialog (InputBox (text_input_new ''Rename to'' name)) PendRename a))"

definition delete_question :: "path list \<Rightarrow> string" where
  "delete_question targets =
     (case targets of
        [p] \<Rightarrow> ''Delete '' @ in_quotes_of (case file_name p of Some name \<Rightarrow> name | None \<Rightarrow> ''?'') @ ''?''
      | _ \<Rightarrow> ''Delete '' @ show_nat (length targets) @ '' selected items?'')"

definition open_delete_dialog :: "app \<Rightarrow> app" where
  "open_delete_dialog a =
     (if ap_screen a \<noteq> FilesScreen then a
      else case located_panel a of
             None \<Rightarrow> a
           | Some (_, panel) \<Rightarrow>
               (if panel_targets panel = [] then a
                else open_dialog (ConfirmBox (confirm_new (delete_question (panel_targets panel)))) PendDelete a))"

definition create_directory :: "string \<Rightarrow> app \<Rightarrow> app" where
  "create_directory name a =
     (case located_panel a of
        None \<Rightarrow> a
      | Some (l, panel) \<Rightarrow> tell_desk (CmdCreateDir l (join_name (panel_path panel) name)) a)"

definition rename_current :: "string \<Rightarrow> app \<Rightarrow> app" where
  "rename_current new_name a =
     (case located_panel a of
        None \<Rightarrow> a
      | Some (l, panel) \<Rightarrow>
          (case current_entry_name panel of
             None \<Rightarrow> a
           | Some name \<Rightarrow>
               tell_desk (CmdRename l (join_name (panel_path panel) name) (join_name (panel_path panel) new_name)) a))"

definition delete_targets :: "app \<Rightarrow> app" where
  "delete_targets a =
     (case located_panel a of
        None \<Rightarrow> a
      | Some (l, panel) \<Rightarrow> tell_desk (CmdDelete l (panel_targets panel)) a)"

definition copy_to_remote :: "app \<Rightarrow> app" where
  "copy_to_remote a =
     (case active_session (ap_sessions a) of
        None \<Rightarrow> notify SevWarning ''Connect to a remote server first'' a
      | Some s \<Rightarrow>
          (if target_entries (ap_local a) = [] then a
           else tell_engine (Copy LocalSide (target_entries (ap_local a)) (SessionSide (us_id s)) (panel_path (us_panel s))) a))"

definition copy_to_local :: "app \<Rightarrow> app" where
  "copy_to_local a =
     (case active_session (ap_sessions a) of
        None \<Rightarrow> a
      | Some s \<Rightarrow>
          (if target_entries (us_panel s) = [] then a
           else tell_engine (Copy (SessionSide (us_id s)) (target_entries (us_panel s)) LocalSide (panel_path (ap_local a))) a))"

definition start_copy :: "app \<Rightarrow> app" where
  "start_copy a =
     (if ap_screen a \<noteq> FilesScreen then a
      else case ap_active_panel a of LocalPanel \<Rightarrow> copy_to_remote a | RemotePanel \<Rightarrow> copy_to_local a)"

text \<open>\<^verbatim>\<open>apply_panel_action\<close>, whose other actions change the panel only.\<close>

definition send_panel_list :: "path option \<Rightarrow> app \<Rightarrow> app" where
  "send_panel_list p a =
     (case (active_location a, p) of
        (Some l, Some p) \<Rightarrow> tell_desk (CmdList l (Some p)) a
      | _ \<Rightarrow> a)"

definition apply_panel_action :: "action \<Rightarrow> app \<Rightarrow> app" where
  "apply_panel_action act a =
     (case active_panel_view a of
        None \<Rightarrow> a
      | Some panel \<Rightarrow>
          (case act of
             ActUp \<Rightarrow> change_active_panel (panel_move_cursor (-1)) a
           | ActDown \<Rightarrow> change_active_panel (panel_move_cursor 1) a
           | ActToggleSelect \<Rightarrow> change_active_panel toggle_selection a
           | ActToggleHidden \<Rightarrow> change_active_panel panel_toggle_hidden a
           | ActCycleSort \<Rightarrow> change_active_panel panel_cycle_sort a
           | ActOpen \<Rightarrow> send_panel_list (path_for_open panel) a
           | ActRefresh \<Rightarrow> send_panel_list (Some (panel_path panel)) a
           | _ \<Rightarrow> a))"

section \<open>Connections (connections)\<close>

definition NO_KEYRING_HINT :: string where
  "NO_KEYRING_HINT = ''Passwords are not saved: no system keyring. They are kept until Porthmos quits.''"

definition keyring_hint :: "app \<Rightarrow> string option" where
  "keyring_hint a = (if ap_keyring_available a then None else Some NO_KEYRING_HINT)"

definition request_shell :: "app \<Rightarrow> app" where
  "request_shell a =
     (case active_session (ap_sessions a) of
        None \<Rightarrow> notify SevWarning ''Connect to a server first'' a
      | Some s \<Rightarrow>
          (if \<not> us_shell_available s then notify SevWarning ''This connection doesn't support a terminal session'' a
           else tell_desk (CmdPrepareShell (us_id s)) a))"

definition launch_shell :: "string option \<Rightarrow> process_end \<Rightarrow> string option \<Rightarrow> app \<Rightarrow> string option \<times> app" where
  "launch_shell given_back result taken a =
     (case given_back of
        Some e \<Rightarrow> (Some e, a)
      | None \<Rightarrow>
          (case taken of
             Some e \<Rightarrow> (Some e, a)
           | None \<Rightarrow>
               (None,
                case result of
                  ProcessEnded code \<Rightarrow>
                    if code = Some 0 then a
                    else app_error (''ssh exited with status '' @ ui_status_text (ap_env a) code) a
                | ProcessNotStarted e \<Rightarrow> app_error (''Failed to launch ssh: '' @ e) a
                | ProcessTaskFailed e \<Rightarrow> app_error (''ssh task failed: '' @ e) a)))"

definition open_connections_screen :: "app \<Rightarrow> app" where
  "open_connections_screen a = tell_desk CmdListProfiles (a\<lparr>ap_screen := ConnectionsScreen\<rparr>)"

definition open_add_connection_dialog :: "app \<Rightarrow> app" where
  "open_add_connection_dialog a =
     (if ap_screen a \<noteq> ConnectionsScreen then a
      else case build_form ''Add connection'' (ui_protocols (ap_env a)) None of
             None \<Rightarrow> notify SevWarning ''No protocols are available in this build'' a
           | Some d \<Rightarrow> open_dialog (FormBox (d\<lparr>fd_hint := keyring_hint a\<rparr>)) PendAddConnection a)"

definition form_choice_changed :: "string \<Rightarrow> app \<Rightarrow> app" where
  "form_choice_changed key a =
     (if key \<noteq> ''protocol'' then a
      else case ap_dialog a of
             Some (FormBox d) \<Rightarrow> a\<lparr>ap_dialog := Some (FormBox (rebuild_for_protocol (ui_protocols (ap_env a)) d))\<rparr>
           | _ \<Rightarrow> a)"

definition submit_connection_form :: "(string \<times> string) list \<Rightarrow> string option \<Rightarrow> app \<Rightarrow> app" where
  "submit_connection_form values original a =
     (let protocol = text_of (map_of values ''protocol'')
      in tell_desk
           (CmdSaveProfile original (form_draft values (Tui_Dialog.secret_option_keys (ui_protocols (ap_env a)) protocol)))
           (a\<lparr>ap_reveal := map_option (\<lambda>name. AwaitingSave (trim name)) (map_of values ''name'')\<rparr>))"

definition open_edit_connection_dialog :: "app \<Rightarrow> app" where
  "open_edit_connection_dialog a =
     (if ap_screen a \<noteq> ConnectionsScreen then a
      else case selected_entry (ap_connections a) of
             None \<Rightarrow> a
           | Some e \<Rightarrow>
               (if is_orphan_labels (ce_source e) then a
                else if ce_source e = FromSshConfig then open_dialog (FormBox (build_labels e)) (PendEditSshLabels (ce_name e)) a
                else case build_form ''Edit connection'' (ui_protocols (ap_env a)) (Some e) of
                       None \<Rightarrow> a
                     | Some d \<Rightarrow> open_dialog (FormBox (d\<lparr>fd_hint := keyring_hint a\<rparr>)) (PendEditConnection e) a))"

definition open_delete_connection_dialog :: "app \<Rightarrow> app" where
  "open_delete_connection_dialog a =
     (if ap_screen a \<noteq> ConnectionsScreen then a
      else case selected_entry (ap_connections a) of
             None \<Rightarrow> a
           | Some e \<Rightarrow>
               (if is_orphan_labels (ce_source e) then a
                else if ce_source e = FromSshConfig
                then notify SevInfo ''This connection is defined in ~/.ssh/config and can't be deleted here'' a
                else open_dialog (ConfirmBox (confirm_new (''Delete connection '' @ in_quotes_of (ce_name e) @ ''?'')))
                       (PendDeleteConnection (ce_name e)) a))"

definition submit_ssh_labels :: "string \<Rightarrow> (string \<times> string) list \<Rightarrow> app \<Rightarrow> app" where
  "submit_ssh_labels name values a =
     (let of_key = (\<lambda>wanted. text_of (map_of values wanted));
          a = tell_desk (CmdSaveSshLabels name (of_key ''group'') (of_key ''tags'')) (a\<lparr>ap_reveal := Some (AwaitingSave name)\<rparr>)
      in if of_key ''saved_password'' = ''forget'' then tell_desk (CmdForgetSshPassword name) a else a)"

definition open_password_prompt :: "nat \<Rightarrow> string \<Rightarrow> string \<Rightarrow> app \<Rightarrow> app" where
  "open_password_prompt request_id username name a =
     (let password = masked_field ''password'' ''Password'' [];
          save = choice_field ''save'' ''Save in keyring'' [(''true'', ''Yes''), (''false'', ''No'')]
                   (if ap_save_choice a then ''true'' else ''false'')
      in open_dialog
           (FormBox (form_new (''Password for '' @ username @ ''@'' @ name)
              (if ap_keyring_available a then [password, save] else [password])))
           (PendPassword request_id) a)"

definition submit_password :: "nat \<Rightarrow> (string \<times> string) list \<Rightarrow> app \<Rightarrow> app" where
  "submit_password request_id values a =
     (let save = (map_of values ''save'' = Some ''true'');
          a = (if map_of values ''save'' \<noteq> None \<and> save \<noteq> ap_save_choice a
               then tell_desk (CmdRememberSaveChoice save) (a\<lparr>ap_save_choice := save\<rparr>) else a)
      in close_dialog
           (tell_desk (CmdAnswer request_id (Some (PasswordAnswer (text_of (map_of values ''password'')))) save) a))"

definition set_form_error :: "string \<Rightarrow> app \<Rightarrow> app" where
  "set_form_error message a =
     (case ap_dialog a of
        Some (FormBox d) \<Rightarrow> a\<lparr>ap_dialog := Some (FormBox (d\<lparr>fd_error := Some message\<rparr>))\<rparr>
      | _ \<Rightarrow> a)"

definition connect_to_selected :: "app \<Rightarrow> app" where
  "connect_to_selected a =
     (case selected_entry (ap_connections a) of
        None \<Rightarrow> a
      | Some e \<Rightarrow>
          (case session_by_name (ce_name e) (ap_sessions a) of
             Some s \<Rightarrow> a\<lparr>ap_sessions := snd (activate_session (us_id s) (ap_sessions a))\<rparr>
           | None \<Rightarrow> tell_desk (CmdConnect (ce_name e)) a))"

definition disconnect_selected :: "app \<Rightarrow> app" where
  "disconnect_selected a =
     (case selected_entry (ap_connections a) of
        None \<Rightarrow> a
      | Some e \<Rightarrow>
          (if is_orphan_labels (ce_source e) then a
           else case session_by_name (ce_name e) (ap_sessions a) of
                  None \<Rightarrow> a
                | Some s \<Rightarrow> tell_desk (CmdDisconnect (us_id s)) a))"

definition apply_connected :: "nat \<Rightarrow> string \<Rightarrow> bool \<Rightarrow> app \<Rightarrow> app" where
  "apply_connected sid name shell_available a =
     (let a = a\<lparr>ap_connection_status := StatusDisconnected\<rparr>
      in case activate_session sid (ap_sessions a) of
           (True, z) \<Rightarrow> a\<lparr>ap_sessions := z\<rparr>
         | (False, z) \<Rightarrow>
             a\<lparr>ap_sessions := insert_session sid name shell_available (panel_from_listing [RootDir] []) z\<rparr>)"

section \<open>Labels without a host (connections/missing)\<close>

definition unannounced :: "connection_entry list \<Rightarrow> connection_source \<Rightarrow> string fset \<Rightarrow> string list" where
  "unannounced entries source announced =
     sort (map ce_name (filter (\<lambda>e. ce_source e = source \<and> ce_name e |\<notin>| announced) entries))"

definition missing_hosts_text :: "string list \<Rightarrow> string list \<Rightarrow> string" where
  "missing_hosts_text missing shadowed =
     join_with '' ''
       ((if missing = [] then []
         else [''These labelled hosts are no longer in ~/.ssh/config: '' @ join_with '', '' missing @ ''.'']) @
        (if shadowed = [] then []
         else [''These labelled hosts are hidden by a saved connection of the same name: '' @ join_with '', '' shadowed @ ''.'']) @
        [''They are marked '' @ text_warning_sign @ '' in the connection list.''])"

definition announce_missing_hosts :: "app \<Rightarrow> app" where
  "announce_missing_hosts a =
     (if ap_dialog a \<noteq> None then a
      else (let entries = cv_entries (ap_connections a);
                missing = unannounced entries MissingSshHost (ap_announced a);
                shadowed = unannounced entries ShadowedSshHost (ap_announced a)
            in if missing = [] \<and> shadowed = [] then a
               else a\<lparr>ap_announced := ap_announced a |\<union>| fset_of_list (missing @ shadowed),
                      ap_dialog := Some (MessageBox
                        \<lparr>md_title = ''Labelled ssh hosts'', md_message = missing_hosts_text missing shadowed\<rparr>)\<rparr>))"

definition open_missing_host_dialog :: "app \<Rightarrow> app" where
  "open_missing_host_dialog a =
     (case selected_entry (ap_connections a) of
        None \<Rightarrow> a
      | Some e \<Rightarrow>
          open_dialog
            (ListBox (list_new
               (ce_name e @
                (if ce_source e = ShadowedSshHost then '' is hidden by a saved connection'' else '' is no longer in ~/.ssh/config''))
               [''Move labels to'' @ text_ellipsis, ''Forget labels'', ''Cancel'']))
            (PendFixMissingHost (ce_name e)) a)"

definition unlabelled_hosts :: "app \<Rightarrow> string list" where
  "unlabelled_hosts a =
     map ce_name
       (filter (\<lambda>e. ce_source e = FromSshConfig \<and> ce_group e = None \<and> ce_tags e = []) (cv_entries (ap_connections a)))"

definition apply_missing_host_choice :: "string \<Rightarrow> nat \<Rightarrow> app \<Rightarrow> app" where
  "apply_missing_host_choice name index a =
     (let a = a\<lparr>ap_dialog := None\<rparr>
      in if index = 0
         then (let candidates = unlabelled_hosts a
               in if candidates = [] then notify SevWarning ''No unlabelled ssh hosts to move the labels to'' a
                  else open_dialog (ListBox (list_new (''Move the labels of '' @ name @ '' to'') candidates))
                         (PendMoveLabels name candidates) a)
         else if index = 1 then tell_desk (CmdForgetSshLabels name) a else a)"

definition move_labels_to :: "string \<Rightarrow> string list \<Rightarrow> nat \<Rightarrow> app \<Rightarrow> app" where
  "move_labels_to from_name candidates index a =
     (let a = a\<lparr>ap_dialog := None\<rparr>
      in if index < length candidates then tell_desk (CmdMoveSshLabels from_name (candidates ! index)) a else a)"

section \<open>The history (history)\<close>

definition DETAIL_NAMES :: nat where
  "DETAIL_NAMES = 10"

definition details_title :: "history_entry \<Rightarrow> string" where
  "details_title e = ''Transfer: '' @ printable (he_label e)"

definition details_result :: "history_entry \<Rightarrow> string" where
  "details_result e =
     (case he_result e of
        HPartlyFailed failed \<Rightarrow> ''partly failed ('' @ show_nat failed @ '' failed)''
      | other \<Rightarrow> result_text other)"

definition failed_lines :: "history_entry \<Rightarrow> string list" where
  "failed_lines e =
     (if he_failed_files e = [] then []
      else (let shown = min (length (he_failed_files e)) DETAIL_NAMES;
                hidden = max (he_failed_count e) (length (he_failed_files e)) - shown
            in [''Failed files:''] @ map (\<lambda>name. ''- '' @ printable name) (take DETAIL_NAMES (he_failed_files e)) @
               (if 0 < hidden then [''and '' @ show_nat hidden @ '' more'' @ text_ellipsis] else [])))"

definition details_text :: "tui_env \<Rightarrow> history_entry \<Rightarrow> string" where
  "details_text env e =
     (let failed = (case he_result e of HFailed \<Rightarrow> True | HPartlyFailed _ \<Rightarrow> True | _ \<Rightarrow> False)
      in join_with [CHR 0x0A]
           ([''Finished:   '' @ ui_time_text env (he_finished_at e),
             ''Connection: '' @ printable (he_connection e) @ '' ('' @
               (case he_direction e of Upload \<Rightarrow> ''Upload'' | Download \<Rightarrow> ''Download'') @ '')'',
             ''Result:     '' @ details_result e @ '', '' @ show_nat (he_files_done e) @ '' of '' @ show_nat (he_files_total e) @
               '' files, '' @ ui_size_text env (he_bytes e)] @
            (if he_local_path e = [] then [] else [''Local:      '' @ printable (he_local_path e)]) @
            (if he_remote_path e = [] then [] else [''Remote:     '' @ printable (he_remote_path e)]) @
            failed_lines e @
            (if failed \<or> he_failed_files e \<noteq> [] then [''The reasons are in porthmos.log.''] else [])))"

definition open_history_screen :: "app \<Rightarrow> app" where
  "open_history_screen a =
     tell_engine ListHistory (a\<lparr>ap_screen := HistoryScreen, ap_history := history_go_to_top (ap_history a)\<rparr>)"

definition open_history_details :: "app \<Rightarrow> app" where
  "open_history_details a =
     (case history_selected (ap_history a) of
        None \<Rightarrow> a
      | Some e \<Rightarrow>
          a\<lparr>ap_dialog := Some (MessageBox \<lparr>md_title = details_title e, md_message = details_text (ap_env a) e\<rparr>)\<rparr>)"

definition apply_history_action :: "action \<Rightarrow> app \<Rightarrow> app" where
  "apply_history_action act a =
     (case act of
        ActUp \<Rightarrow> a\<lparr>ap_history := history_move_cursor (-1) (ap_history a)\<rparr>
      | ActDown \<Rightarrow> a\<lparr>ap_history := history_move_cursor 1 (ap_history a)\<rparr>
      | ActOpen \<Rightarrow> open_history_details a
      | _ \<Rightarrow> a)"

definition open_clear_history_dialog :: "app \<Rightarrow> app" where
  "open_clear_history_dialog a =
     (if hv_entries (ap_history a) = [] then a
      else open_dialog (ConfirmBox (confirm_new ''Clear the whole transfer history?'')) PendClearHistory a)"

section \<open>The filter of the screen (filter)\<close>

definition active_filter_line :: "app \<Rightarrow> (string option \<times> bool) option" where
  "active_filter_line a =
     (case ap_screen a of
        FilesScreen \<Rightarrow> map_option (\<lambda>panel. (panel_filter panel, pv_editing panel)) (active_panel_view a)
      | ConnectionsScreen \<Rightarrow> Some (cv_filter (ap_connections a), cv_editing (ap_connections a))
      | HistoryScreen \<Rightarrow> Some (hv_filter (ap_history a), hv_editing (ap_history a))
      | SyncScreen \<Rightarrow> Some (yv_filter (ap_sync_view a), yv_editing (ap_sync_view a))
      | _ \<Rightarrow> None)"

definition on_filter_line :: "filter_op \<Rightarrow> app \<Rightarrow> app" where
  "on_filter_line op a =
     (case ap_screen a of
        FilesScreen \<Rightarrow> change_active_panel (panel_filter_op op) a
      | ConnectionsScreen \<Rightarrow> a\<lparr>ap_connections := connections_filter_op op (ap_connections a)\<rparr>
      | HistoryScreen \<Rightarrow> a\<lparr>ap_history := history_filter_op op (ap_history a)\<rparr>
      | SyncScreen \<Rightarrow> a\<lparr>ap_sync_view := sync_filter_op op (ap_sync_view a)\<rparr>
      | _ \<Rightarrow> a)"

definition editing_filter :: "app \<Rightarrow> bool" where
  "editing_filter a = (case active_filter_line a of Some (_, editing) \<Rightarrow> editing | None \<Rightarrow> False)"

definition start_filter :: "app \<Rightarrow> app" where
  "start_filter a = on_filter_line StartFilter a"

definition clear_active_filter :: "app \<Rightarrow> bool \<times> app" where
  "clear_active_filter a =
     (case active_filter_line a of
        Some (f, editing) \<Rightarrow> if f \<noteq> None \<or> editing then (True, on_filter_line ClearFilter a) else (False, a)
      | None \<Rightarrow> (False, a))"

section \<open>Searching (search)\<close>

definition open_search_screen :: "app \<Rightarrow> app" where
  "open_search_screen a =
     (if ap_screen a \<noteq> FilesScreen then a
      else case active_location a of
             None \<Rightarrow> notify SevWarning ''Connect to a remote server first'' a
           | Some l \<Rightarrow> a\<lparr>ap_search := Some \<lparr>ss_view = search_view_new, ss_location = l\<rparr>, ap_screen := SearchScreen\<rparr>)"

definition leave_search :: "app \<Rightarrow> app" where
  "leave_search a =
     open_next_conflict_prompt (tell_desk CmdCancelSearch (a\<lparr>ap_search := None, ap_screen := FilesScreen\<rparr>))"

definition restart_search :: "search_session \<Rightarrow> app \<Rightarrow> app" where
  "restart_search s a =
     (let view = search_view_start (ss_view s);
          a = a\<lparr>ap_search := Some (s\<lparr>ss_view := view\<rparr>)\<rparr>
      in if sw_pattern view = [] then tell_desk CmdCancelSearch a
         else (let root = (case panel_at (ss_location s) a of Some panel \<Rightarrow> panel_path panel | None \<Rightarrow> [])
               in tell_desk (CmdSearch (ss_location s) root (''*'' @ sw_pattern view @ ''*'')) a))"

definition open_selected_search_result :: "search_session \<Rightarrow> app \<Rightarrow> app" where
  "open_selected_search_result s a =
     (case selected_result (ss_view s) of
        None \<Rightarrow> a
      | Some e \<Rightarrow>
          (let parent = (case path_parent (e_path e) of Some p \<Rightarrow> p | None \<Rightarrow> e_path e);
               a = leave_search a;
               a = (case ss_location s of
                      LocalSide \<Rightarrow> a\<lparr>ap_active_panel := LocalPanel\<rparr>
                    | SessionSide sid \<Rightarrow>
                        a\<lparr>ap_sessions := snd (activate_session sid (ap_sessions a)), ap_active_panel := RemotePanel\<rparr>)
           in tell_desk (CmdList (ss_location s) (Some parent)) a))"

definition apply_search_key :: "key_spec \<Rightarrow> app \<Rightarrow> app" where
  "apply_search_key key a =
     (if ks_code key = KeyChar CHR ''c'' \<and> km_control (ks_modifiers key)
      then (if ap_search a \<noteq> None then tell_desk CmdCancelSearch a else a)
      else case ap_search a of
             None \<Rightarrow> a
           | Some s \<Rightarrow>
               (case search_view_key key (ss_view s) of
                  (outcome, view) \<Rightarrow>
                    (let s = s\<lparr>ss_view := view\<rparr>; a = a\<lparr>ap_search := Some s\<rparr>
                     in case outcome of
                          CancelSearching \<Rightarrow> leave_search a
                        | PatternChanged \<Rightarrow> restart_search s a
                        | OpenResult \<Rightarrow> open_selected_search_result s a
                        | SearchPending \<Rightarrow> a)))"

section \<open>Synchronizing (sync)\<close>

definition sync_directions :: "bool \<Rightarrow> (string \<times> string) list" where
  "sync_directions preserves_times =
     [(''local_to_remote'', ''Local '' @ text_arrow @ '' Remote''), (''remote_to_local'', ''Remote '' @ text_arrow @ '' Local'')] @
     (if preserves_times then [(''both'', ''Both (the newer file wins)'')] else [])"

definition sync_form :: "tui_session \<Rightarrow> form_dialog" where
  "sync_form s =
     (let form = form_new (''Synchronize with '' @ us_name s)
                   [choice_field ''direction'' ''Direction'' (sync_directions (us_preserves_times s)) ''local_to_remote'',
                    choice_field ''by'' ''Compare by'' [(''time'', ''Modification time''), (''size'', ''Size'')] ''time'',
                    choice_field ''subfolders'' ''Subfolders'' [(''yes'', ''Included''), (''no'', ''Not included'')] ''yes'']
      in if us_preserves_times s then form
         else form\<lparr>fd_hint := Some ''Both isn't offered: this connection can't keep modification times''\<rparr>)"

definition open_sync :: "app \<Rightarrow> app" where
  "open_sync a =
     (if ap_screen a \<noteq> FilesScreen then a
      else if yv_plan (ap_sync_view a) \<noteq> None then a\<lparr>ap_screen := SyncScreen\<rparr>
      else case active_session (ap_sessions a) of
             None \<Rightarrow> notify SevWarning ''Connect to a remote server first'' a
           | Some s \<Rightarrow>
               (if \<not> us_listed s then notify SevWarning ''Wait for the remote folder to finish loading'' a
                else open_dialog (FormBox (sync_form s)) (PendStartSync (us_id s)) a))"

definition unknown_choice :: "string \<Rightarrow> string \<Rightarrow> string" where
  "unknown_choice what given = ''Unknown '' @ what @ '' '' @ in_quotes_of given"

definition parse_sync_options :: "(string \<times> string) list \<Rightarrow> string + sync_options" where
  "parse_sync_options values =
     (let given = (\<lambda>key. text_of (map_of values key));
          direction = map_of [(''local_to_remote'', LocalToRemote), (''remote_to_local'', RemoteToLocal), (''both'', Both)]
                        (given ''direction'');
          compared = map_of [(''time'', ByTime), (''size'', BySize)] (given ''by'');
          subfolders = map_of [(''yes'', True), (''no'', False)] (given ''subfolders'')
      in case direction of
           None \<Rightarrow> Inl (unknown_choice ''direction'' (given ''direction''))
         | Some direction \<Rightarrow>
             (case compared of
                None \<Rightarrow> Inl (unknown_choice ''comparison'' (given ''by''))
              | Some compared \<Rightarrow>
                  (case subfolders of
                     None \<Rightarrow> Inl (unknown_choice ''subfolders option'' (given ''subfolders''))
                   | Some subfolders \<Rightarrow>
                       (let options = \<lparr>so_direction = direction, so_by = compared, so_subfolders = subfolders\<rparr>
                        in case validate_options options of None \<Rightarrow> Inr options | Some e \<Rightarrow> Inl e))))"

definition submit_sync_options :: "nat \<Rightarrow> (string \<times> string) list \<Rightarrow> app \<Rightarrow> app" where
  "submit_sync_options sid values a =
     (case parse_sync_options values of
        Inl message \<Rightarrow> set_form_error message a
      | Inr options \<Rightarrow>
          (case session_by_id sid (ap_sessions a) of
             None \<Rightarrow> notify SevWarning ''That connection is no longer available'' (close_dialog a)
           | Some s \<Rightarrow>
               tell_engine (StartSync sid (panel_path (ap_local a)) (panel_path (us_panel s)) options) (close_dialog a)))"

text \<open>\<^verbatim>\<open>SyncView::clear\<close> puts the default in its place.\<close>

definition apply_sync_plan :: "sync_plan \<Rightarrow> app \<Rightarrow> app" where
  "apply_sync_plan plan a =
     (case sync_id_of (ap_sync_view a) of
        Some open_id \<Rightarrow>
          (if open_id = sp_sync_id plan then a
           else notify SevWarning ''A sync preview is already open; the new one was dropped''
                  (tell_engine (CancelSync (sp_sync_id plan)) a))
      | None \<Rightarrow>
          (let a = a\<lparr>ap_sync_view := sync_load plan (ap_sync_view a)\<rparr>
           in if ap_screen a = FilesScreen \<and> ap_dialog a = None \<and> \<not> ap_help_visible a \<and> \<not> editing_filter a
              then a\<lparr>ap_screen := SyncScreen\<rparr>
              else notify SevInfo
                     (''Sync preview ready '' @ text_dash @ '' open it with the sync key (Ctrl+U by default)'') a))"

definition withdraw_sync :: "nat list \<Rightarrow> app \<Rightarrow> app" where
  "withdraw_sync sync_ids a =
     (case sync_id_of (ap_sync_view a) of
        None \<Rightarrow> a
      | Some open_id \<Rightarrow>
          (if open_id \<notin> set sync_ids then a
           else notify SevInfo ''The sync plan was cancelled''
                  (a\<lparr>ap_sync_view := sync_view_new,
                     ap_screen := (if ap_screen a = SyncScreen then FilesScreen else ap_screen a)\<rparr>)))"

definition run_sync_plan :: "app \<Rightarrow> app" where
  "run_sync_plan a =
     (case sync_id_of (ap_sync_view a) of
        None \<Rightarrow> a
      | Some sync_id \<Rightarrow>
          (let choices = visible_choices (ap_sync_view a)
           in if choices = []
              then notify SevWarning
                     (if yv_filter (ap_sync_view a) \<noteq> None then ''Nothing is ticked in the rows shown'' else ''Nothing is ticked'') a
              else (tell_engine (RunSync sync_id choices) a)\<lparr>ap_sync_view := sync_view_new, ap_screen := FilesScreen\<rparr>))"

definition leave_sync_screen :: "app \<Rightarrow> app" where
  "leave_sync_screen a =
     (case sync_id_of (ap_sync_view a) of Some sync_id \<Rightarrow> tell_engine (CancelSync sync_id) a | None \<Rightarrow> a)
       \<lparr>ap_sync_view := sync_view_new, ap_screen := FilesScreen\<rparr>"

definition apply_sync_action :: "action \<Rightarrow> app \<Rightarrow> app" where
  "apply_sync_action act a =
     (case act of
        ActUp \<Rightarrow> a\<lparr>ap_sync_view := sync_move_cursor (-1) (ap_sync_view a)\<rparr>
      | ActDown \<Rightarrow> a\<lparr>ap_sync_view := sync_move_cursor 1 (ap_sync_view a)\<rparr>
      | ActToggleSelect \<Rightarrow> a\<lparr>ap_sync_view := sync_toggle (ap_sync_view a)\<rparr>
      | ActOpen \<Rightarrow> run_sync_plan a
      | _ \<Rightarrow> a)"

definition apply_sync_key :: "key_code \<Rightarrow> app \<Rightarrow> app" where
  "apply_sync_key code a =
     (if code = KeyChar CHR ''a'' then a\<lparr>ap_sync_view := tick_all (ap_sync_view a)\<rparr>
      else if code = KeyChar CHR ''n'' then a\<lparr>ap_sync_view := untick_all (ap_sync_view a)\<rparr>
      else if code = KeyChar CHR ''f'' then a\<lparr>ap_sync_view := sync_flip (ap_sync_view a)\<rparr>
      else a)"

section \<open>The list of transfers (transfer_queue)\<close>

definition transfer_rows :: "app \<Rightarrow> queue_row list" where
  "transfer_rows a = ts_rows (ap_transfers a)"

definition clamped_transfers_cursor :: "app \<Rightarrow> nat" where
  "clamped_transfers_cursor a = min (ap_transfers_cursor a) (length (transfer_rows a) - 1)"

definition selected_row_kind :: "app \<Rightarrow> row_kind option" where
  "selected_row_kind a =
     (if clamped_transfers_cursor a < length (transfer_rows a)
      then Some (qr_kind (transfer_rows a ! clamped_transfers_cursor a)) else None)"

definition open_transfers_screen :: "app \<Rightarrow> app" where
  "open_transfers_screen a = a\<lparr>ap_screen := TransfersScreen, ap_transfers_cursor := 0\<rparr>"

definition apply_transfer_snapshot :: "transfer_snapshot \<Rightarrow> app \<Rightarrow> app" where
  "apply_transfer_snapshot snapshot a =
     (let a = a\<lparr>ap_transfers := snapshot\<rparr>
      in case ap_reselect_row a of
           None \<Rightarrow> a
         | Some kind \<Rightarrow>
             a\<lparr>ap_reselect_row := None,
               ap_transfers_cursor :=
                 (case index_where (\<lambda>row. qr_kind row = kind) (transfer_rows a) of
                    Some i \<Rightarrow> i
                  | None \<Rightarrow> clamped_transfers_cursor a)\<rparr>)"

definition apply_transfers_action :: "action \<Rightarrow> app \<Rightarrow> app" where
  "apply_transfers_action act a =
     (case act of
        ActUp \<Rightarrow> a\<lparr>ap_transfers_cursor := clamped_transfers_cursor a - 1\<rparr>
      | ActDown \<Rightarrow> a\<lparr>ap_transfers_cursor := min (clamped_transfers_cursor a + 1) (length (transfer_rows a) - 1)\<rparr>
      | ActOpen \<Rightarrow> (case selected_row_kind a of Some kind \<Rightarrow> tell_engine (RetryRow kind) a | None \<Rightarrow> a)
      | ActRefresh \<Rightarrow>
          if transfer_rows a = [] then a
          else tell_engine ClearFinished (a\<lparr>ap_reselect_row := selected_row_kind a\<rparr>)
      | _ \<Rightarrow> a)"

definition cancel_selected_row :: "app \<Rightarrow> app" where
  "cancel_selected_row a = (case selected_row_kind a of Some kind \<Rightarrow> tell_engine (CancelRow kind) a | None \<Rightarrow> a)"

section \<open>Answers of dialogs (dialogs)\<close>

definition dialog_cancelled :: "app \<Rightarrow> app" where
  "dialog_cancelled a =
     (let closed = (close_dialog a)\<lparr>ap_reveal := None\<rparr>;
          refuse = (\<lambda>request_id. (tell_desk (CmdAnswer request_id None False) closed)
                                    \<lparr>ap_connection_status := StatusDisconnected\<rparr>)
      in case ap_pending a of
           Some (PendPassword request_id) \<Rightarrow> refuse request_id
         | Some (PendTrustHostKey request_id) \<Rightarrow> refuse request_id
         | Some (PendTrustCertificate request_id) \<Rightarrow> refuse request_id
         | Some (PendEditUpload edit_id) \<Rightarrow> tell_engine (ResolveEdit edit_id ChooseCancel) closed
         | Some (PendEditConflict edit_id) \<Rightarrow> tell_engine (ResolveEdit edit_id ChooseCancel) closed
         | _ \<Rightarrow> closed)"

definition dialog_confirmed :: "app \<Rightarrow> app" where
  "dialog_confirmed a =
     (let closed = close_dialog a
      in case ap_pending a of
           Some PendDelete \<Rightarrow> delete_targets closed
         | Some (PendDeleteConnection name) \<Rightarrow> tell_desk (CmdDeleteProfile name) closed
         | Some PendClearHistory \<Rightarrow> tell_engine ClearHistory closed
         | Some PendQuitWhileSaving \<Rightarrow> closed\<lparr>ap_should_quit := True\<rparr>
         | Some (PendEditUpload edit_id) \<Rightarrow> tell_engine (ResolveEdit edit_id ChooseUpload) closed
         | Some (PendTrustHostKey request_id) \<Rightarrow> tell_desk (CmdAnswer request_id (Some Confirmed) False) closed
         | Some (PendTrustCertificate request_id) \<Rightarrow> tell_desk (CmdAnswer request_id (Some Confirmed) False) closed
         | _ \<Rightarrow> closed)"

definition dialog_submitted :: "string \<Rightarrow> app \<Rightarrow> app" where
  "dialog_submitted given a =
     (let closed = close_dialog a
      in case ap_pending a of
           Some PendMkdir \<Rightarrow> create_directory given closed
         | Some PendRename \<Rightarrow> rename_current given closed
         | Some PendAddBookmark \<Rightarrow> add_bookmark_here given closed
         | _ \<Rightarrow> closed)"

text \<open>A choice without an action of a list is one of a bookmark; what was pending stays.\<close>

definition dialog_selected :: "nat \<Rightarrow> app \<Rightarrow> app" where
  "dialog_selected index a =
     (case ap_pending a of
        Some (PendFixMissingHost name) \<Rightarrow> apply_missing_host_choice name index (close_dialog a)
      | Some (PendEditConflict edit_id) \<Rightarrow> answer_edit_conflict edit_id index (close_dialog a)
      | Some (PendMoveLabels from_name candidates) \<Rightarrow> move_labels_to from_name candidates index (close_dialog a)
      | _ \<Rightarrow> navigate_to_bookmark index (a\<lparr>ap_dialog := None\<rparr>))"

definition remove_list_item :: "nat \<Rightarrow> list_dialog \<Rightarrow> list_dialog" where
  "remove_list_item index d =
     (let items = take index (ld_items d) @ drop (Suc index) (ld_items d)
      in d\<lparr>ld_items := items, ld_cursor := (if length items \<le> ld_cursor d then length items - 1 else ld_cursor d)\<rparr>)"

definition dialog_removed :: "nat \<Rightarrow> app \<Rightarrow> app" where
  "dialog_removed index a =
     (let a = tell_desk (CmdRemoveBookmark index) a
      in case ap_dialog a of
           Some (ListBox d) \<Rightarrow> a\<lparr>ap_dialog := Some (ListBox (remove_list_item index d))\<rparr>
         | _ \<Rightarrow> a)"

definition form_submitted :: "(string \<times> string) list \<Rightarrow> app \<Rightarrow> app" where
  "form_submitted values a =
     (case ap_pending a of
        Some PendAddConnection \<Rightarrow> submit_connection_form values None a
      | Some (PendEditConnection original) \<Rightarrow> submit_connection_form values (Some (ce_name original)) a
      | Some (PendEditSshLabels name) \<Rightarrow> submit_ssh_labels name values a
      | Some (PendPassword request_id) \<Rightarrow> submit_password request_id values a
      | Some (PendStartSync sid) \<Rightarrow> submit_sync_options sid values a
      | _ \<Rightarrow> a\<lparr>ap_dialog := None\<rparr>)"

definition dialog_answer :: "dialog_outcome \<Rightarrow> app \<Rightarrow> app" where
  "dialog_answer outcome a =
     (case outcome of
        DialogPending \<Rightarrow> a
      | DialogCancelled \<Rightarrow> dialog_cancelled a
      | DialogConfirmed \<Rightarrow> dialog_confirmed a
      | DialogSubmitted given \<Rightarrow> dialog_submitted given a
      | DialogSelected index \<Rightarrow> dialog_selected index a
      | DialogRemoved index \<Rightarrow> dialog_removed index a
      | DialogFormSubmitted values \<Rightarrow> form_submitted values a
      | DialogChoiceChanged key \<Rightarrow> form_choice_changed key a
      | DialogResolved resolution apply_to_rest \<Rightarrow> answer_conflict resolution apply_to_rest (close_dialog a))"

definition apply_dialog_key :: "key_spec \<Rightarrow> app \<Rightarrow> app" where
  "apply_dialog_key key a =
     (case ap_dialog a of
        None \<Rightarrow> a
      | Some d \<Rightarrow>
          (case dialog_key key d of
             (outcome, d) \<Rightarrow>
               announce_missing_hosts (open_next_conflict_prompt (dialog_answer outcome (a\<lparr>ap_dialog := Some d\<rparr>)))))"

section \<open>Actions (actions)\<close>

definition handle_back :: "app \<Rightarrow> app" where
  "handle_back a =
     (case clear_active_filter a of
        (True, cleared) \<Rightarrow> cleared
      | (False, _) \<Rightarrow>
          (let showing_error = (case ap_notifications a of n # _ \<Rightarrow> nt_severity n = SevError | [] \<Rightarrow> False)
           in if showing_error then a\<lparr>ap_notifications := tl (ap_notifications a)\<rparr>
              else if ap_screen a = SyncScreen then leave_sync_screen a
              else a\<lparr>ap_screen := FilesScreen\<rparr>))"

definition apply_connections_action :: "action \<Rightarrow> app \<Rightarrow> app" where
  "apply_connections_action act a =
     (case act of
        ActUp \<Rightarrow> a\<lparr>ap_connections := connections_move_cursor (-1) (ap_connections a)\<rparr>
      | ActDown \<Rightarrow> a\<lparr>ap_connections := connections_move_cursor 1 (ap_connections a)\<rparr>
      | ActOpen \<Rightarrow>
          (case selected_row (ap_connections a) of
             Some (GroupSelected _) \<Rightarrow> a\<lparr>ap_connections := toggle_group (ap_connections a)\<rparr>
           | Some (ConnectionSelected e) \<Rightarrow>
               if is_orphan_labels (ce_source e) then open_missing_host_dialog a else connect_to_selected a
           | None \<Rightarrow> a)
      | ActRefresh \<Rightarrow> open_connections_screen a
      | _ \<Rightarrow> a)"

definition apply_screen_action :: "action \<Rightarrow> app \<Rightarrow> app" where
  "apply_screen_action act a =
     (case ap_screen a of
        FilesScreen \<Rightarrow> apply_panel_action act a
      | ConnectionsScreen \<Rightarrow> apply_connections_action act a
      | SearchScreen \<Rightarrow> a
      | TransfersScreen \<Rightarrow> apply_transfers_action act a
      | HistoryScreen \<Rightarrow> apply_history_action act a
      | SyncScreen \<Rightarrow> apply_sync_action act a)"

definition apply_action :: "action \<Rightarrow> app \<Rightarrow> app" where
  "apply_action act a =
     (case act of
        ActQuit \<Rightarrow> request_quit a
      | ActSwitchPanel \<Rightarrow> a\<lparr>ap_active_panel := toggle_panel (ap_active_panel a)\<rparr>
      | ActMkdir \<Rightarrow> open_mkdir_dialog a
      | ActRename \<Rightarrow> if ap_screen a = ConnectionsScreen then open_edit_connection_dialog a else open_rename_dialog a
      | ActDelete \<Rightarrow>
          (case ap_screen a of
             ConnectionsScreen \<Rightarrow> disconnect_selected a
           | TransfersScreen \<Rightarrow> cancel_selected_row a
           | HistoryScreen \<Rightarrow> open_clear_history_dialog a
           | _ \<Rightarrow> open_delete_dialog a)
      | ActCopy \<Rightarrow> start_copy a
      | ActEdit \<Rightarrow> start_edit a
      | ActCancelTransfer \<Rightarrow> tell_engine CancelAllTransfers a
      | ActOpenConnections \<Rightarrow> open_connections_screen a
      | ActAddConnection \<Rightarrow> open_add_connection_dialog a
      | ActDeleteConnection \<Rightarrow> open_delete_connection_dialog a
      | ActBookmarkHere \<Rightarrow> open_bookmark_add_dialog a
      | ActOpenBookmarks \<Rightarrow> open_bookmarks_dialog a
      | ActOpenSearch \<Rightarrow> open_search_screen a
      | ActFilter \<Rightarrow> start_filter a
      | ActOpenTransfers \<Rightarrow> open_transfers_screen a
      | ActOpenHistory \<Rightarrow> open_history_screen a
      | ActOpenSync \<Rightarrow> open_sync a
      | ActCycleSession \<Rightarrow>
          if ap_screen a = FilesScreen then a\<lparr>ap_sessions := cycle_sessions (ap_sessions a)\<rparr> else a
      | ActHelp \<Rightarrow> a\<lparr>ap_help_visible := True\<rparr>
      | ActBack \<Rightarrow> handle_back a
      | ActOpenTerminal \<Rightarrow> request_shell a
      | ActNoop \<Rightarrow> a
      | _ \<Rightarrow> apply_screen_action act a)"

definition apply_filter_key :: "key_spec \<Rightarrow> app \<Rightarrow> app" where
  "apply_filter_key key a =
     (if active_filter_line a = None then a
      else (let other = apply_action (map_key (ap_key_bindings a) key) (on_filter_line FinishFilter a);
                ms = ks_modifiers key
            in case ks_code key of
                 KeyChar c \<Rightarrow> if km_control ms \<or> km_alt ms then other else on_filter_line (TypeFilter c) a
               | KeyBackspace \<Rightarrow> on_filter_line EraseFilter a
               | KeyEnter \<Rightarrow> on_filter_line FinishFilter a
               | KeyEsc \<Rightarrow> on_filter_line ClearFilter a
               | KeyUp \<Rightarrow> on_filter_line (MoveCursor (-1)) a
               | KeyDown \<Rightarrow> on_filter_line (MoveCursor 1) a
               | _ \<Rightarrow> other))"

definition apply_key :: "key_spec \<Rightarrow> app \<Rightarrow> app" where
  "apply_key key a =
     (if ap_help_visible a then a\<lparr>ap_help_visible := False\<rparr>
      else if ap_dialog a \<noteq> None then after_dialog_key (apply_dialog_key key a)
      else if ap_screen a = SearchScreen then apply_search_key key a
      else if editing_filter a then apply_filter_key key a
      else (let act = map_key (ap_key_bindings a) key; plain = (ks_modifiers key = no_modifiers)
            in if act = ActNoop \<and> ap_screen a = ConnectionsScreen \<and> plain
               then (case ks_code key of
                       KeyRight \<Rightarrow> a\<lparr>ap_connections := expand_group (ap_connections a)\<rparr>
                     | KeyLeft \<Rightarrow> a\<lparr>ap_connections := collapse_or_parent (ap_connections a)\<rparr>
                     | _ \<Rightarrow> a)
               else if act = ActNoop \<and> ap_screen a = SyncScreen \<and> plain then apply_sync_key (ks_code key) a
               else apply_action act a))"

section \<open>Events of the core\<close>

definition ask_question :: "nat \<Rightarrow> question \<Rightarrow> app \<Rightarrow> app" where
  "ask_question request_id q a =
     (let a = requeue_open_edit_question a
      in case q of
           PasswordQuestion username name \<Rightarrow> open_password_prompt request_id username name a
         | TrustHostKey name host port key_type fingerprint \<Rightarrow>
             open_dialog
               (ConfirmBox (confirm_new
                  (name @ '' ('' @ host @ '':'' @ show_nat port @ '') is not a known host.'' @ [CHR 0x0A] @
                   key_type @ '' '' @ fingerprint @ [CHR 0x0A] @
                   ''Trust this key and add it to ~/.ssh/known_hosts?'')))
               (PendTrustHostKey request_id) a
         | TrustCertificate name host port fingerprint subject expires \<Rightarrow>
             open_dialog
               (ConfirmBox (confirm_new
                  (name @ '' ('' @ host @ '':'' @ show_nat port @ '') presented a certificate that isn't trusted.'' @ [CHR 0x0A] @
                   ''Subject: '' @ subject @ ''   Expires: '' @ expires @ [CHR 0x0A] @
                   fingerprint @ [CHR 0x0A] @
                   ''Trust it and remember it?'')))
               (PendTrustCertificate request_id) a)"

definition profiles_listed :: "connection_entry list \<Rightarrow> app \<Rightarrow> app" where
  "profiles_listed entries a =
     (let a = a\<lparr>ap_connections := replace_entries entries (ap_connections a)\<rparr>
      in announce_missing_hosts
           (case ap_reveal a of
              Some (ReadyToReveal name) \<Rightarrow>
                a\<lparr>ap_reveal := None, ap_connections := reveal_connection name (ap_connections a)\<rparr>
            | _ \<Rightarrow> a))"

definition profile_saved :: "app \<Rightarrow> app" where
  "profile_saved a =
     (close_dialog a)
       \<lparr>ap_reveal := (case ap_reveal a of Some (AwaitingSave name) \<Rightarrow> Some (ReadyToReveal name) | _ \<Rightarrow> None)\<rparr>"

definition search_reported :: "search_event \<Rightarrow> app \<Rightarrow> app" where
  "search_reported ev a =
     (case ap_search a of
        None \<Rightarrow> a
      | Some s \<Rightarrow>
          (case ev of
             Found e \<Rightarrow> a\<lparr>ap_search := Some (s\<lparr>ss_view := push_result e (ss_view s)\<rparr>)\<rparr>
           | SearchDone truncated \<Rightarrow> a\<lparr>ap_search := Some (s\<lparr>ss_view := finish_search truncated (ss_view s)\<rparr>)\<rparr>
           | SearchFailed message \<Rightarrow>
               notify SevError message (a\<lparr>ap_search := Some (s\<lparr>ss_view := finish_search False (ss_view s)\<rparr>)\<rparr>)))"

text \<open>An event of the engine of transfers; one that readies an editor is taken by the loop.\<close>

definition apply_engine_event :: "event \<Rightarrow> app \<Rightarrow> app" where
  "apply_engine_event ev a =
     (case ev of
        Notice severity message \<Rightarrow> notify severity message a
      | Connected sid name shell_available \<Rightarrow> apply_connected sid name shell_available a
      | SessionCapabilities sid preserves \<Rightarrow> a\<lparr>ap_sessions := set_preserves_times sid preserves (ap_sessions a)\<rparr>
      | Disconnected sid _ \<Rightarrow> a\<lparr>ap_sessions := remove_session sid (ap_sessions a)\<rparr>
      | LocationChanged l \<Rightarrow> relist l a
      | TransfersChanged snapshot \<Rightarrow> apply_transfer_snapshot snapshot a
      | ConflictsFound batch_id files \<Rightarrow> queue_conflict_prompt batch_id files a
      | ConflictsWithdrawn batch_ids \<Rightarrow> drop_conflict_prompts batch_ids a
      | HistoryShown entries \<Rightarrow> a\<lparr>ap_history := history_replace entries (ap_history a)\<rparr>
      | EditReady _ _ _ \<Rightarrow> a
      | EditQuestion edit_id name kind \<Rightarrow> ask_edit_question edit_id name kind a
      | EditsBusy busy \<Rightarrow> a\<lparr>ap_edits_busy := busy\<rparr>
      | SyncPlanReady plan \<Rightarrow> apply_sync_plan plan a
      | SyncWithdrawn sync_ids \<Rightarrow> withdraw_sync sync_ids a)"

definition apply_core_event :: "desk_event \<Rightarrow> app \<Rightarrow> app" where
  "apply_core_event ev a =
     (case ev of
        Said e \<Rightarrow> apply_engine_event e a
      | Connecting name \<Rightarrow> a\<lparr>ap_connection_status := StatusConnecting name\<rparr>
      | ConnectFailed _ message \<Rightarrow> notify SevError message (a\<lparr>ap_connection_status := StatusFailed message\<rparr>)
      | QuestionAsked request_id q \<Rightarrow> ask_question request_id q a
      | ShellReady _ _ \<Rightarrow> a
      | Listed l p entries \<Rightarrow> apply_listing l p entries a
      | ProfilesListed entries \<Rightarrow> profiles_listed entries a
      | ProfileSaved \<Rightarrow> profile_saved a
      | ProfileRejected message \<Rightarrow> set_form_error message a
      | BookmarksShown bookmarks \<Rightarrow> a\<lparr>ap_bookmarks := bookmarks\<rparr>
      | SearchShown e \<Rightarrow> search_reported e a
      | KeyringStatus available \<Rightarrow> a\<lparr>ap_keyring_available := available\<rparr>
      | KeyringWaiting waiting \<Rightarrow> a\<lparr>ap_keyring_waiting := waiting\<rparr>
      | SaveChoice save \<Rightarrow> a\<lparr>ap_save_choice := save\<rparr>)"

section \<open>The loop\<close>

text \<open>
  What the loop waits for: a key, an event with what becomes of a process it starts (giving the
  terminal back, the end of the process, taking the terminal again), and the moment a notice
  expires.  Each comes with the two clocks.  Drawing, and reading the terminal, may end the
  program with an error, too.
\<close>

datatype happening =
    KeyPressed key_spec
  | CoreSaid desk_event "string option" process_end "string option"
  | NoticeDue
  | TerminalFailed string

definition app_step :: "happening \<Rightarrow> app \<Rightarrow> string option \<times> app" where
  "app_step h a =
     (case h of
        KeyPressed key \<Rightarrow> (None, apply_key key a)
      | CoreSaid ev given_back result taken \<Rightarrow>
          (case ev of
             ShellReady _ _ \<Rightarrow> launch_shell given_back result taken a
           | Said e \<Rightarrow>
               (case e of
                  EditReady edit_id _ _ \<Rightarrow> launch_editor given_back result taken edit_id a
                | _ \<Rightarrow> (None, apply_core_event ev a))
           | _ \<Rightarrow> (None, apply_core_event ev a))
      | NoticeDue \<Rightarrow> (None, a\<lparr>ap_notifications := expire_notices (ap_now a) (ap_notifications a)\<rparr>)
      | TerminalFailed e \<Rightarrow> (Some e, a))"

definition at_clocks :: "nat \<times> nat \<Rightarrow> app \<Rightarrow> app" where
  "at_clocks clocks a = a\<lparr>ap_now := fst clocks, ap_unix_now := snd clocks\<rparr>"

fun app_run :: "((nat \<times> nat) \<times> happening) list \<Rightarrow> app \<Rightarrow> string option \<times> app" where
  "app_run [] a = (None, a)"
| "app_run ((clocks, h) # later) a =
     (if ap_should_quit a then (None, a)
      else case app_step h (at_clocks clocks a) of
             (Some e, a) \<Rightarrow> (Some e, a)
           | (None, a) \<Rightarrow> app_run later a)"

end
