(* ===== verification/Execute_Safe.thy ===== *)
theory Execute_Safe
  imports Execute Fake_Fs
begin

text \<open>
  A copy delivers a whole file or nothing.  The file systems are an interface, the laws of
  reading and writing bytes; the laws are discharged for a pair of in-memory file systems.
\<close>

section \<open>The interface of the two file systems\<close>

text \<open>
  \<open>stored\<close> are the files of the destination, \<open>original\<close> those of the source, \<open>unread\<close> what a
  reader still has to give, and \<open>sink\<close> the file a writer writes to.  The laws say what the
  operations of the contract do to them, and that nobody else changes the files meanwhile.
\<close>

definition quiet ::
  "('w \<Rightarrow> path \<Rightarrow> 8 word list option) \<Rightarrow> ('w \<Rightarrow> path \<Rightarrow> 8 word list option) \<Rightarrow> ('w \<Rightarrow> handle \<Rightarrow> 8 word list) \<Rightarrow>
     ('w \<Rightarrow> handle \<Rightarrow> path option) \<Rightarrow> 'w \<Rightarrow> 'w \<Rightarrow> bool" where
  "quiet stored original unread sink w w' \<longleftrightarrow>
     stored w' = stored w \<and> original w' = original w \<and> unread w' = unread w \<and> sink w' = sink w"

locale byte_stores =
  fixes source destination :: "'w file_system" and cancel :: "'w flag" and on_progress :: "'w progress"
    and stored original :: "'w \<Rightarrow> path \<Rightarrow> 8 word list option"
    and unread :: "'w \<Rightarrow> handle \<Rightarrow> 8 word list" and sink :: "'w \<Rightarrow> handle \<Rightarrow> path option"
  assumes quiet_cancel: "quiet stored original unread sink w (snd (cancel w))"
    and quiet_progress: "quiet stored original unread sink w (on_progress n w)"
    and quiet_stat_source: "quiet stored original unread sink w (snd (fs_stat source p w))"
    and quiet_stat: "quiet stored original unread sink w (snd (fs_stat destination p w))"
    and quiet_flush: "quiet stored original unread sink w (snd (fs_flush destination h w))"
    and quiet_shutdown: "quiet stored original unread sink w (snd (fs_shutdown destination h w))"
    and quiet_set_modified: "quiet stored original unread sink w (snd (fs_set_modified destination p s w))"
    and stat_size: "fst (fs_stat destination p w) = Inr m \<Longrightarrow> stored w p = Some bs \<Longrightarrow> m_size m = length bs"
    and read_chunk: "fs_read source h CHUNK_SIZE w = (Inr bs, w') \<Longrightarrow>
           unread w h = bs @ unread w' h \<and> (bs = [] \<longrightarrow> unread w h = [])"
    and read_frame: "fs_read source h n w = (r, w') \<Longrightarrow>
           stored w' = stored w \<and> original w' = original w \<and> sink w' = sink w"
    and write_appends: "fs_write_all destination h bs w = (Inr u, w') \<Longrightarrow> sink w h = Some p \<Longrightarrow>
           stored w p = Some old \<Longrightarrow> stored w' = (stored w)(p := Some (old @ bs))"
    and write_frame: "fs_write_all destination h bs w = (written, w') \<Longrightarrow> sink w h = Some p \<Longrightarrow>
           (\<forall>q. q \<noteq> p \<longrightarrow> stored w' q = stored w q) \<and> original w' = original w \<and> unread w' = unread w \<and>
           sink w' = sink w"
    and open_write_keeps: "fs_open_write_sized destination p offset expected w = (Inr wr, w') \<Longrightarrow>
           stored w p = None \<or> (\<exists>bs. stored w p = Some bs \<and> offset \<le> length bs) \<Longrightarrow>
           sink w' (w_stream wr) = Some p \<and> w_offset wr \<le> offset \<and>
           w_offset wr \<le> length (case stored w p of None \<Rightarrow> [] | Some bs \<Rightarrow> bs) \<and>
           stored w' p = Some (take (w_offset wr) (case stored w p of None \<Rightarrow> [] | Some bs \<Rightarrow> bs))"
    and open_write_frame: "fs_open_write_sized destination p offset expected w = (opened, w') \<Longrightarrow>
           (\<forall>q. q \<noteq> p \<longrightarrow> stored w' q = stored w q) \<and> original w' = original w"
    and open_read_rest: "fs_open_read source p offset w = (Inr h, w') \<Longrightarrow> original w p = Some bs \<Longrightarrow>
           unread w' h = drop offset bs"
    and open_read_frame: "fs_open_read source p offset w = (reader, w') \<Longrightarrow>
           stored w' = stored w \<and> original w' = original w \<and> sink w' = sink w"
    and rename_moves: "fs_rename destination from to w = (Inr u, w') \<Longrightarrow> stored w from = Some bs \<Longrightarrow>
           \<not> prefix to from \<Longrightarrow> \<not> prefix from to \<Longrightarrow> stored w' to = Some bs"
    and rename_frame: "fs_rename destination from to w = (Inr u, w') \<Longrightarrow> \<not> prefix from q \<Longrightarrow> \<not> prefix to q \<Longrightarrow>
           stored w' q = stored w q"
    and rename_fails: "fs_rename destination from to w = (Inl e, w') \<Longrightarrow> stored w' = stored w"
begin

lemma cancel_frame:
  "cancel w = (b, w') \<Longrightarrow>
     stored w' = stored w \<and> original w' = original w \<and> unread w' = unread w \<and> sink w' = sink w"
  using quiet_cancel [of w] by (simp add: quiet_def)

lemma flush_frame:
  "fs_flush destination h w = (r, w') \<Longrightarrow>
     stored w' = stored w \<and> original w' = original w \<and> unread w' = unread w \<and> sink w' = sink w"
  using quiet_flush [of w h] by (simp add: quiet_def)

lemma progress_frame [simp]:
  "stored (on_progress n w) = stored w" "original (on_progress n w) = original w"
  "unread (on_progress n w) = unread w" "sink (on_progress n w) = sink w"
  using quiet_progress [of w n] by (simp_all add: quiet_def)

text \<open>The loop only touches the partial file, and appends to it all that the reader has.\<close>

lemma copy_loop_delivers:
  assumes "copy_loop chunks source reader destination writer cancel on_progress n k w = Some (r, w')"
    and "sink w writer = Some part" and "stored w part = Some old"
  shows "(\<forall>q. q \<noteq> part \<longrightarrow> stored w' q = stored w q) \<and>
         (r = Inr TransferCompleted \<longrightarrow> stored w' part = Some (old @ unread w reader))"
  using assms
proof (induction chunks arbitrary: n k w old)
  case (Suc chunks)
  obtain stop w1 where c: "cancel w = (stop, w1)" by (cases "cancel w")
  obtain rr w2 where rd: "fs_read source reader CHUNK_SIZE w1 = (rr, w2)"
    by (cases "fs_read source reader CHUNK_SIZE w1")
  note f1 = cancel_frame [OF c] and f2 = read_frame [OF rd]
  show ?case
  proof (cases "stop \<or> (\<exists>e. rr = Inl e)")
    case True
    then show ?thesis using Suc.prems c rd f1 f2 by (cases stop) auto
  next
    case False
    then obtain bs where stop: "\<not> stop" and bs: "rr = Inr bs" by (cases rr) auto
    note chunk = read_chunk [OF rd [unfolded bs]]
    show ?thesis
    proof (cases bs)
      case Nil
      then show ?thesis
        using Suc.prems c rd f1 f2 bs stop chunk
        by (auto split: sum.splits prod.splits dest: flush_frame)
    next
      case (Cons b bs')
      obtain wr w3 where wr: "fs_write_all destination writer bs w2 = (wr, w3)"
        by (cases "fs_write_all destination writer bs w2")
      have sink2: "sink w2 writer = Some part" using f1 f2 Suc.prems(2) by simp
      note f3 = write_frame [OF wr sink2]
      show ?thesis
      proof (cases wr)
        case (Inl e)
        then show ?thesis using Suc.prems c rd f1 f2 f3 bs stop wr Cons by auto
      next
        case (Inr u)
        have stored3: "stored w3 = (stored w2)(part := Some (old @ bs))"
          by (rule write_appends [OF wr [unfolded Inr] sink2]) (use f1 f2 Suc.prems(3) in simp)
        obtain m l w4 where rec: "copy_loop chunks source reader destination writer cancel on_progress m l w4 =
            Some (r, w')" and w4: "w4 = w3 \<or> (\<exists>n. w4 = on_progress n w3)"
          using Suc.prems(1) c rd bs stop wr Inr Cons
          by (auto simp: Let_def split: if_splits)
        have s4: "stored w4 = stored w3" "unread w4 = unread w3" "sink w4 = sink w3" using w4 by auto
        have "sink w4 writer = Some part" using s4 f3 sink2 by simp
        moreover have "stored w4 part = Some (old @ bs)" using s4 stored3 by simp
        ultimately have "(\<forall>q. q \<noteq> part \<longrightarrow> stored w' q = stored w4 q) \<and>
            (r = Inr TransferCompleted \<longrightarrow> stored w' part = Some ((old @ bs) @ unread w4 reader))"
          by (rule Suc.IH [OF rec])
        then show ?thesis using s4 f1 f2 f3 chunk stored3 by auto
      qed
    qed
  qed
qed simp

text \<open>With more chunks than bytes the loop ends.\<close>

lemma copy_loop_ends:
  assumes "length (unread w reader) < chunks" and "sink w writer = Some part"
  shows "copy_loop chunks source reader destination writer cancel on_progress n k w \<noteq> None"
  using assms
proof (induction chunks arbitrary: n k w)
  case (Suc chunks)
  obtain stop w1 where c: "cancel w = (stop, w1)" by (cases "cancel w")
  obtain rr w2 where rd: "fs_read source reader CHUNK_SIZE w1 = (rr, w2)"
    by (cases "fs_read source reader CHUNK_SIZE w1")
  note f1 = cancel_frame [OF c] and f2 = read_frame [OF rd]
  show ?case
  proof (cases "\<not> stop \<and> (\<exists>b bs. rr = Inr (b # bs))")
    case False
    then show ?thesis
      using c rd by (cases stop; cases rr) (auto split: sum.splits prod.splits list.splits)
  next
    case True
    then obtain b bs where bs: "rr = Inr (b # bs)" and stop: "\<not> stop" by blast
    obtain wr w3 where wr: "fs_write_all destination writer (b # bs) w2 = (wr, w3)"
      by (cases "fs_write_all destination writer (b # bs) w2")
    have sink2: "sink w2 writer = Some part" using f1 f2 Suc.prems(2) by simp
    note f3 = write_frame [OF wr sink2]
    have "unread w reader = (b # bs) @ unread w3 reader"
      using read_chunk [OF rd [unfolded bs]] f1 f3 by simp
    then have less: "length (unread w3 reader) < chunks" using Suc.prems(1) by simp
    have sink3: "sink w3 writer = Some part" using f3 sink2 by simp
    show ?thesis
      using Suc.IH [of w3] Suc.IH [of "on_progress _ w3"] less sink3 c rd bs stop wr
      by (cases wr) (auto simp: Let_def)
  qed
qed simp

lemma finish_delivers:
  assumes "finish_copy destination part destination_path writer keep result w = (r, w')"
    and apart: "\<not> prefix part destination_path" "\<not> prefix destination_path part"
  shows "(\<forall>q. \<not> prefix part q \<longrightarrow> \<not> prefix destination_path q \<longrightarrow> stored w' q = stored w q) \<and>
         (if \<exists>e. r = Inr e \<and> ex_outcome e = TransferCompleted
          then result = Inr TransferCompleted \<and>
            (\<forall>bs. stored w part = Some bs \<longrightarrow> stored w' destination_path = Some bs)
          else stored w' destination_path = stored w destination_path)"
proof -
  obtain sh w1 where sh: "fs_shutdown destination writer w = (sh, w1)"
    by (cases "fs_shutdown destination writer w")
  have f1: "stored w1 = stored w"
    using quiet_shutdown [of w writer] sh by (simp add: quiet_def)
  show ?thesis
  proof (cases "result = Inr TransferCompleted \<and> sh = Inr ()")
    case False
    then have "w' = w1 \<and> \<not> (\<exists>e. r = Inr e \<and> ex_outcome e = TransferCompleted)"
      using assms(1) sh
      by (auto simp: finish_copy_def split: sum.splits transfer_outcome.splits)
    then show ?thesis using f1 by auto
  next
    case True
    obtain rn w2 where rn: "fs_rename destination part destination_path w1 = (rn, w2)"
      by (cases "fs_rename destination part destination_path w1")
    show ?thesis
    proof (cases rn)
      case (Inl e)
      then have "r = Inl e" "w' = w2"
        using assms(1) sh True rn by (simp_all add: finish_copy_def eff_bind_def)
      then show ?thesis using rename_fails [OF rn [unfolded Inl]] f1 by simp
    next
      case (Inr u)
      have "stored w' = stored w2 \<and> (\<exists>e. r = Inr e \<and> ex_outcome e = TransferCompleted)"
      proof (cases keep)
        case None
        then show ?thesis
          using assms(1) sh True rn Inr by (auto simp: finish_copy_def eff_bind_def eff_return_def)
      next
        case (Some seconds)
        then show ?thesis
          using assms(1) sh True rn Inr quiet_set_modified [of w2 destination_path seconds]
          by (auto simp: finish_copy_def eff_bind_def eff_return_def eff_ok_def quiet_def
              split: prod.splits sum.splits)
      qed
      moreover have "stored w part = Some bs \<Longrightarrow> stored w2 destination_path = Some bs" for bs
        using rename_moves [OF rn [unfolded Inr]] f1 apart by simp
      moreover have "stored w2 q = stored w q" if "\<not> prefix part q" "\<not> prefix destination_path q" for q
        using rename_frame [OF rn [unfolded Inr] that] f1 by simp
      ultimately show ?thesis using True by simp
    qed
  qed
qed

text \<open>The offset asked for lies within the partial file.\<close>

lemma starting_offset_within:
  assumes "starting_offset source destination part m resume w = (Inr off, w')"
  shows "quiet stored original unread sink w w' \<and> (\<not> resume \<longrightarrow> off = 0) \<and>
         (stored w part = None \<or> (\<exists>bs. stored w part = Some bs \<and> off \<le> length bs))"
proof (cases resume)
  case False
  then show ?thesis
    using assms by (cases "stored w part") (auto simp: starting_offset_def eff_return_def quiet_def)
next
  case True
  obtain st w1 where st: "fs_stat destination part w = (st, w1)"
    by (cases "fs_stat destination part w")
  have "quiet stored original unread sink w w1" using quiet_stat [of w part] st by simp
  moreover have "w' = w1 \<and> off = (case st of Inl _ \<Rightarrow> 0 | Inr pm \<Rightarrow>
      resume_offset (m_size pm) (m_size m) (m_modified pm) (m_modified m)
        (max (fs_resume_backoff source) (fs_resume_backoff destination)))"
    using assms True st
    by (auto simp: starting_offset_def eff_bind_def eff_ok_def eff_return_def split: sum.splits)
  moreover have "off \<le> length bs" if "stored w part = Some bs" for bs
  proof (cases st)
    case (Inr pm)
    then have "m_size pm = length bs" using stat_size [of part w pm bs] st that by simp
    then show ?thesis
      using calculation(2) Inr resume_offset_le [of "length bs" "m_size m" "m_modified pm" "m_modified m"]
      by simp
  qed (use calculation(2) in simp)
  moreover have "stored w part = None \<or> (\<exists>bs. stored w part = Some bs \<and> off \<le> length bs)"
    using calculation(3) by (cases "stored w part") simp_all
  ultimately show ?thesis using True by simp
qed

lemma execute_delivers:
  assumes run: "execute_preserving chunks source source_path destination p cancel resume keep
      on_progress w = Some (r, w')"
    and apart: "\<not> prefix (part_path p) p" "\<not> prefix p (part_path p)"
    and src: "original w source_path = Some src"
  shows "(\<forall>q. \<not> prefix (part_path p) q \<longrightarrow> \<not> prefix p q \<longrightarrow> stored w' q = stored w q) \<and>
         (if \<exists>e. r = Inr e \<and> ex_outcome e = TransferCompleted
          then \<exists>k. (\<not> resume \<longrightarrow> k = 0) \<and>
                 k \<le> length (case stored w (part_path p) of None \<Rightarrow> [] | Some bs \<Rightarrow> bs) \<and>
                 stored w' p = Some (take k (case stored w (part_path p) of None \<Rightarrow> [] | Some bs \<Rightarrow> bs) @ drop k src)
          else stored w' p = stored w p)"
proof -
  let ?part = "part_path p"
  have neq: "p \<noteq> ?part" using apart by auto
  obtain sm w1 where sm: "fs_stat source source_path w = (sm, w1)" by (cases "fs_stat source source_path w")
  have f1: "stored w1 = stored w" "original w1 = original w"
    using quiet_stat_source [of w source_path] sm by (simp_all add: quiet_def)
  show ?thesis
  proof (cases sm)
    case (Inl e)
    then show ?thesis using run sm f1 by (auto simp: execute_preserving_def bnd_bind_def bounded_of_def)
  next
    case (Inr m)
    obtain so w2 where so: "starting_offset source destination ?part m resume w1 = (so, w2)"
      by (cases "starting_offset source destination ?part m resume w1")
    have so_ok: "\<exists>off. so = Inr off"
      using so by (auto simp: starting_offset_def eff_bind_def eff_ok_def eff_return_def
          split: if_splits sum.splits prod.splits)
    then obtain off where off: "so = Inr off" by blast
    note within = starting_offset_within [OF so [unfolded off]]
    have f2: "stored w2 = stored w" "original w2 = original w" using within f1 by (simp_all add: quiet_def)
    obtain ow w3 where ow: "fs_open_write_sized destination ?part off (m_size m) w2 = (ow, w3)"
      by (cases "fs_open_write_sized destination ?part off (m_size m) w2")
    note f3 = open_write_frame [OF ow]
    show ?thesis
    proof (cases ow)
      case (Inl e)
      then show ?thesis
        using run sm Inr so off ow f2 f3 neq
        by (auto simp: execute_preserving_def bnd_bind_def bounded_of_def Let_def)
    next
      case (Inr wr)
      let ?k = "w_offset wr"
      let ?old = "case stored w ?part of None \<Rightarrow> [] | Some bs \<Rightarrow> bs"
      have keeps: "sink w3 (w_stream wr) = Some ?part \<and> ?k \<le> off \<and> ?k \<le> length ?old \<and>
          stored w3 ?part = Some (take ?k ?old)"
        using open_write_keeps [OF ow [unfolded Inr]] within f1 f2 by simp
      obtain rd w4 where rd: "fs_open_read source source_path ?k w3 = (rd, w4)"
        by (cases "fs_open_read source source_path ?k w3")
      note f4 = open_read_frame [OF rd]
      show ?thesis
      proof (cases rd)
        case (Inl e)
        then show ?thesis
          using run sm \<open>sm = Inr m\<close> so off ow Inr rd f2 f3 f4 neq
          by (auto simp: execute_preserving_def bnd_bind_def bounded_of_def Let_def)
      next
        case rdr: (Inr reader)
        obtain cr w5 where copy: "copy_with_progress chunks source reader destination (w_stream wr) ?k cancel
            on_progress w4 = Some (cr, w5)"
          and fin: "finish_copy destination ?part p (w_stream wr) keep cr w5 = (r, w')"
          using run sm \<open>sm = Inr m\<close> so off ow Inr rd rdr
          by (auto simp: execute_preserving_def bnd_bind_def bounded_of_def Let_def split: option.splits)
        have "unread w4 reader = drop ?k src"
          using open_read_rest [OF rd [unfolded rdr]] f2 f3 src by simp
        then have delivered: "(\<forall>q. q \<noteq> ?part \<longrightarrow> stored w5 q = stored w4 q) \<and>
            (cr = Inr TransferCompleted \<longrightarrow> stored w5 ?part = Some (take ?k ?old @ drop ?k src))"
          using copy_loop_delivers [OF copy [unfolded copy_with_progress_def], of ?part "take ?k ?old"]
            keeps f4 by simp
        have same: "stored w5 q = stored w q" if "q \<noteq> ?part" for q
          using delivered f2 f3 f4 that by simp
        note finish = finish_delivers [OF fin apart]
        have "\<not> resume \<longrightarrow> ?k = 0" using keeps within by auto
        moreover have "stored w' q = stored w q" if "\<not> prefix ?part q" "\<not> prefix p q" for q
          using finish same that by auto
        ultimately show ?thesis using finish delivered keeps same [OF neq] by auto
      qed
    qed
  qed
qed

text \<open>With more chunks than bytes, the copy comes to an end.\<close>

lemma execute_ends:
  assumes src: "original w source_path = Some src" and enough: "length src < chunks"
  shows "execute_preserving chunks source source_path destination p cancel resume keep on_progress w \<noteq> None"
proof -
  let ?part = "part_path p"
  obtain sm w1 where sm: "fs_stat source source_path w = (sm, w1)" by (cases "fs_stat source source_path w")
  have f1: "original w1 = original w"
    using quiet_stat_source [of w source_path] sm by (simp add: quiet_def)
  have "copy_with_progress chunks source reader destination (w_stream wr) (w_offset wr) cancel on_progress w4 \<noteq> None"
    if so: "starting_offset source destination ?part m resume w1 = (Inr off, w2)"
      and ow: "fs_open_write_sized destination ?part off (m_size m) w2 = (Inr wr, w3)"
      and rd: "fs_open_read source source_path (w_offset wr) w3 = (Inr reader, w4)" for m off w2 wr w3 reader w4
  proof -
    note within = starting_offset_within [OF so]
    have f2: "stored w2 = stored w1" "original w2 = original w" using within f1 by (simp_all add: quiet_def)
    have "sink w3 (w_stream wr) = Some ?part" using open_write_keeps [OF ow] within f2 by simp
    then have "sink (on_progress (w_offset wr) w4) (w_stream wr) = Some ?part"
      using open_read_frame [OF rd] by simp
    moreover have "unread w4 reader = drop (w_offset wr) src"
      using open_read_rest [OF rd] open_write_frame [OF ow] f2 src by simp
    ultimately show ?thesis
      unfolding copy_with_progress_def using enough by (intro copy_loop_ends) auto
  qed
  then show ?thesis
    using sm
    by (auto simp: execute_preserving_def bnd_bind_def bounded_of_def Let_def split: option.split sum.split prod.split, blast)
qed

end

section \<open>Two in-memory file systems obey the laws\<close>

text \<open>
  The world of a copy: the tree of the source, the tree of the destination, the answers the
  cancel flag will give, since another task may set it at any time, and the progress reported.
\<close>

type_synonym copy_world = "fake_tree \<times> fake_tree \<times> bool list \<times> nat list"

definition from_fs :: "nat \<Rightarrow> bool \<Rightarrow> nat \<Rightarrow> copy_world file_system" where
  "from_fs backoff time_support resolution = left_fs (fake_fs backoff time_support resolution)"

definition to_fs :: "nat \<Rightarrow> bool \<Rightarrow> nat \<Rightarrow> copy_world file_system" where
  "to_fs backoff time_support resolution = right_fs (left_fs (fake_fs backoff time_support resolution))"

fun scripted_cancel :: "copy_world flag" where
  "scripted_cancel (s, d, [], log) = (False, (s, d, [], log))"
| "scripted_cancel (s, d, b # bs, log) = (b, (s, d, bs, log))"

fun logged_progress :: "copy_world progress" where
  "logged_progress n (s, d, script, log) = (s, d, script, log @ [n])"

definition stored_in :: "copy_world \<Rightarrow> path \<Rightarrow> 8 word list option" where
  "stored_in w = fake_contents (fst (snd w))"

definition readable_in :: "copy_world \<Rightarrow> path \<Rightarrow> 8 word list option" where
  "readable_in w p =
     (if p |\<in>| ft_failing_reads (fst w) then None
      else case fake_resolve (fst w) p of Some (NFile data _) \<Rightarrow> Some data | _ \<Rightarrow> None)"

definition unread_in :: "copy_world \<Rightarrow> handle \<Rightarrow> 8 word list" where
  "unread_in w h = (case fmlookup (ft_readers (fst w)) h of None \<Rightarrow> [] | Some r \<Rightarrow> fr_data r)"

definition sink_in :: "copy_world \<Rightarrow> handle \<Rightarrow> path option" where
  "sink_in w h = fmlookup (ft_writers (fst (snd w))) h"

lemma fold_move_lookup:
  assumes "distinct ps" and "\<forall>p \<in> set ps. prefix from p"
  shows "fmlookup (fold (\<lambda>p. fmupd (to @ drop (length from) p) (v p)) ps m) k =
           (if prefix to k \<and> from @ drop (length to) k \<in> set ps then Some (v (from @ drop (length to) k))
            else fmlookup m k)"
  using assms
proof (induction ps arbitrary: m)
  case (Cons p ps)
  obtain rest where p: "p = from @ rest" using Cons.prems by (auto simp: prefix_def)
  have "to @ rest = k \<longleftrightarrow> prefix to k \<and> from @ drop (length to) k = p"
    by (auto simp: p prefix_def)
  then show ?case using Cons p by auto
qed simp

lemma fake_contents_rename:
  assumes "fake_rename from to t = (Inr u, t')" 
  shows "fake_contents t' k =
           (if prefix to k \<and> fmlookup (ft_nodes t) (from @ drop (length to) k) \<noteq> None
            then fake_contents t (from @ drop (length to) k)
            else if prefix from k \<or> prefix to k then None else fake_contents t k)"
proof -
  let ?moved = "filter (\<lambda>p. path_starts_with p from) (sorted_list_of_fset (fmdom (ft_nodes t)))"
  have "distinct ?moved" "\<forall>p \<in> set ?moved. prefix from p" by (auto simp: path_starts_with_def)
  note lookup = fold_move_lookup [OF this]
  let ?kept = "fmfilter (\<lambda>p. \<not> path_starts_with p from \<and> \<not> path_starts_with p to) (ft_nodes t)"
  have "ft_nodes t' = fold (\<lambda>p. fmupd (to @ drop (length from) p) (the (fmlookup (ft_nodes t) p))) ?moved ?kept"
    using assms by (auto simp: fake_rename_def Let_def split: if_splits)
  then have "fmlookup (ft_nodes t') k =
      (if prefix to k \<and> from @ drop (length to) k \<in> set ?moved
       then Some (the (fmlookup (ft_nodes t) (from @ drop (length to) k)))
       else fmlookup ?kept k)"
    by (simp only: lookup)
  moreover have "from @ drop (length to) k \<in> set ?moved \<longleftrightarrow>
      fmlookup (ft_nodes t) (from @ drop (length to) k) \<noteq> None"
    by (auto simp: path_starts_with_def fmlookup_dom_iff)
  ultimately have "fmlookup (ft_nodes t') k =
      (if prefix to k \<and> fmlookup (ft_nodes t) (from @ drop (length to) k) \<noteq> None
       then fmlookup (ft_nodes t) (from @ drop (length to) k)
       else if prefix from k \<or> prefix to k then None else fmlookup (ft_nodes t) k)"
    by (auto simp: path_starts_with_def)
  then show ?thesis by (auto simp: fake_contents_def)
qed

lemma contents_upd:
  "fake_contents (t\<lparr>ft_nodes := fmupd p (NFile data m) (ft_nodes t)\<rparr>) = (fake_contents t)(p := Some data)"
  by (auto simp: fake_contents_def fun_eq_iff)

lemma contents_same_file:
  assumes "fmlookup (ft_nodes t) p = Some (NFile data m)"
  shows "fake_contents (t\<lparr>ft_nodes := fmupd p (NFile data m') (ft_nodes t)\<rparr>) = fake_contents t"
  using assms by (auto simp: fake_contents_def fun_eq_iff)

lemma fake_resolve_file:
  "fmlookup (ft_nodes t) p = Some (NFile data m) \<Longrightarrow> fake_resolve t p = Some (NFile data m)"
  by (simp add: fake_resolve_def MAX_SYMLINK_HOPS_def eval_nat_numeral)

lemma contentsE:
  assumes "fake_contents t p = Some bs"
  obtains m where "fmlookup (ft_nodes t) p = Some (NFile bs m)"
  using assms by (auto simp: fake_contents_def split: option.splits node.splits)

lemmas copy_world_simps =
  from_fs_def to_fs_def stored_in_def readable_in_def unread_in_def sink_in_def quiet_def
  fake_fs_ops Let_def

lemma rename_world:
  "fs_rename (to_fs b t r) old new (s, d, script, log) = (x, w') \<Longrightarrow>
     \<exists>d'. fake_rename old new d = (x, d') \<and> w' = (s, d', script, log)"
  by (auto simp: to_fs_def fake_fs_def left_fs_def right_fs_def on_left_def on_right_def
      split: prod.splits)

interpretation fakes: byte_stores "from_fs b t r" "to_fs b' t' r'" scripted_cancel logged_progress
  stored_in readable_in unread_in sink_in
proof
  fix w :: copy_world
  obtain s d script log where w: "w = (s, d, script, log)" by (cases w)
  show "quiet stored_in readable_in unread_in sink_in w (snd (scripted_cancel w))"
    by (cases script) (simp_all add: w quiet_def stored_in_def readable_in_def unread_in_def sink_in_def fun_eq_iff)
  show "quiet stored_in readable_in unread_in sink_in w (logged_progress n w)" for n
    by (simp add: w quiet_def stored_in_def readable_in_def unread_in_def sink_in_def fun_eq_iff)
  show "quiet stored_in readable_in unread_in sink_in w (snd (fs_stat (from_fs b t r) p w))" for p
    by (auto simp: copy_world_simps w split: option.split)
  show "quiet stored_in readable_in unread_in sink_in w (snd (fs_stat (to_fs b' t' r') p w))" for p
    by (auto simp: copy_world_simps w split: option.split)
  show "quiet stored_in readable_in unread_in sink_in w (snd (fs_flush (to_fs b' t' r') h w))" for h
    by (auto simp: copy_world_simps w)
  show "quiet stored_in readable_in unread_in sink_in w (snd (fs_shutdown (to_fs b' t' r') h w))" for h
    by (auto simp: copy_world_simps w split: option.split)
  show "quiet stored_in readable_in unread_in sink_in w (snd (fs_set_modified (to_fs b' t' r') p n w))" for p n
    by (auto simp: copy_world_simps w contents_same_file fun_eq_iff split: option.split node.split)
next
  fix w w' :: copy_world
  obtain s d script log where w: "w = (s, d, script, log)" by (cases w)
  show "m_size m = length bs" if "fst (fs_stat (to_fs b' t' r') p w) = Inr m" "stored_in w p = Some bs" for p m bs
    using that(2) by (rule_tac contentsE [of d p bs])
      (use that(1) in \<open>auto simp: copy_world_simps w fake_resolve_file\<close>)
  show "unread_in w h = bs @ unread_in w' h \<and> (bs = [] \<longrightarrow> unread_in w h = [])"
    if "fs_read (from_fs b t r) h CHUNK_SIZE w = (Inr bs, w')" for h bs
    using that by (auto simp: copy_world_simps w CHUNK_SIZE_def split: option.splits if_splits)
  show "stored_in w' = stored_in w \<and> readable_in w' = readable_in w \<and> sink_in w' = sink_in w"
    if "fs_read (from_fs b t r) h n w = (rd, w')" for h n rd
    using that by (auto simp: copy_world_simps w fake_resolve_def fun_eq_iff split: option.splits if_splits)
  show "stored_in w' = (stored_in w)(p := Some (old @ bs))"
    if "fs_write_all (to_fs b' t' r') h bs w = (Inr u, w')" "sink_in w h = Some p" "stored_in w p = Some old"
    for h bs u p old
    using that
    by (auto simp: copy_world_simps w contents_upd elim!: contentsE)
  show "(\<forall>q. q \<noteq> p \<longrightarrow> stored_in w' q = stored_in w q) \<and> readable_in w' = readable_in w \<and>
      unread_in w' = unread_in w \<and> sink_in w' = sink_in w"
    if "fs_write_all (to_fs b' t' r') h bs w = (wr, w')" "sink_in w h = Some p" for h bs wr p
    using that
    by (auto simp: copy_world_simps w contents_upd fun_eq_iff split: option.splits node.splits)
  show "sink_in w' (w_stream wr) = Some p \<and> w_offset wr \<le> offset \<and>
      w_offset wr \<le> length (case stored_in w p of None \<Rightarrow> [] | Some bs \<Rightarrow> bs) \<and>
      stored_in w' p = Some (take (w_offset wr) (case stored_in w p of None \<Rightarrow> [] | Some bs \<Rightarrow> bs))"
    if "fs_open_write_sized (to_fs b' t' r') p offset n w = (Inr wr, w')"
      "stored_in w p = None \<or> (\<exists>bs. stored_in w p = Some bs \<and> offset \<le> length bs)" for p offset n wr
    using that
    by (auto simp: copy_world_simps w fake_contents_def fake_parent_is_dir_def fake_is_dir_def resize_def
        split: if_splits option.splits node.splits)
  show "(\<forall>q. q \<noteq> p \<longrightarrow> stored_in w' q = stored_in w q) \<and> readable_in w' = readable_in w"
    if "fs_open_write_sized (to_fs b' t' r') p offset n w = (opened, w')" for p offset n opened
    using that
    by (auto simp: copy_world_simps w fake_contents_def fun_eq_iff split: if_splits option.splits node.splits)
  show "unread_in w' h = drop offset bs"
    if "fs_open_read (from_fs b t r) p offset w = (Inr h, w')" "readable_in w p = Some bs" for p offset h bs
    using that
    by (auto simp: copy_world_simps w min_def split: if_splits option.splits node.splits)
  show "stored_in w' = stored_in w \<and> readable_in w' = readable_in w \<and> sink_in w' = sink_in w"
    if "fs_open_read (from_fs b t r) p offset w = (rd, w')" for p offset rd
    using that
    by (auto simp: copy_world_simps w fun_eq_iff fake_resolve_def split: if_splits option.splits node.splits)
  show "stored_in w' new = Some bs"
    if "fs_rename (to_fs b' t' r') old new w = (Inr u, w')" "stored_in w old = Some bs"
      "\<not> prefix new old" "\<not> prefix old new" for old new u bs
  proof -
    note renamed = rename_world [OF that(1) [unfolded w]] and here = that(2)
    obtain d' where "fake_rename old new d = (Inr u, d')" "w' = (s, d', script, log)"
      using renamed by blast
    moreover obtain m where "fmlookup (ft_nodes d) old = Some (NFile bs m)"
      using contentsE [of d old bs] here by (auto simp: stored_in_def w)
    ultimately show ?thesis
      using that(2) by (simp add: stored_in_def w fake_contents_rename)
  qed
  show "stored_in w' q = stored_in w q"
    if "fs_rename (to_fs b' t' r') old new w = (Inr u, w')" "\<not> prefix old q" "\<not> prefix new q" for old new u q
  proof -
    note renamed = rename_world [OF that(1) [unfolded w]]
    obtain d' where "fake_rename old new d = (Inr u, d')" "w' = (s, d', script, log)"
      using renamed by blast
    then show ?thesis using that(2,3) by (simp add: stored_in_def w fake_contents_rename)
  qed
  show "stored_in w' = stored_in w" if "fs_rename (to_fs b' t' r') old new w = (Inl e, w')" for old new e
  proof -
    note renamed = rename_world [OF that [unfolded w]]
    obtain d' where "fake_rename old new d = (Inl e, d')" "w' = (s, d', script, log)"
      using renamed by blast
    then show ?thesis by (auto simp: stored_in_def w fake_rename_def Let_def split: if_splits)
  qed
qed

section \<open>What a copy guarantees\<close>

lemma part_path_apart:
  "\<not> prefix (part_path (dir @ [Normal n])) (dir @ [Normal n])"
  "\<not> prefix (dir @ [Normal n]) (part_path (dir @ [Normal n]))"
  by (simp_all add: part_path_def push_suffix_snoc PART_SUFFIX_def)

lemma take_drop_prefix:
  assumes "k \<le> length old" and "prefix old src"
  shows "take k old @ drop k src = src"
  using assms by (auto simp: prefix_def)


text \<open>Copying three bytes of an empty world's one file, over a file that is already there.\<close>

definition sample_world :: copy_world where
  "sample_world =
     (fake_empty\<lparr>ft_nodes := fmupd [Normal ''a''] (NFile [1, 2, 3] None) fmempty\<rparr>,
      fake_empty\<lparr>ft_nodes := fmupd [RootDir] NDir (fmupd [RootDir, Normal ''a''] (NFile [9] None) fmempty)\<rparr>,
      [], [])"

lemma sample_world_readable: "readable_in sample_world [Normal ''a''] = Some [1, 2, 3]"
  by (simp add: sample_world_def readable_in_def fake_empty_def fake_resolve_def MAX_SYMLINK_HOPS_def
      eval_nat_numeral)


text \<open>The offset at which a copy resumes lies within both the partial file and the source, steps
  back by the back-off of the connections, and is zero, a fresh start, whenever the source was
  changed more than two minutes after the partial file was last written.\<close>

theorem resume_offset_safe:
  "resume_offset part_len source_len pm sm backoff \<le> part_len - backoff \<and>
   resume_offset part_len source_len pm sm backoff \<le> source_len \<and>
   (\<forall>p s. pm = Some p \<longrightarrow> sm = Some s \<longrightarrow> p + CLOCK_SKEW_TOLERANCE_SECS < s \<longrightarrow>
      resume_offset part_len source_len pm sm backoff = 0) \<and>
   (pm = None \<or> sm = None \<longrightarrow> resume_offset part_len source_len pm sm backoff = 0)"
proof -
  have "wrapping_add p CLOCK_SKEW_TOLERANCE_SECS \<le> p + CLOCK_SKEW_TOLERANCE_SECS" for p
    by (simp add: wrapping_add_def)
  then have "wrapping_add p CLOCK_SKEW_TOLERANCE_SECS < s" if "p + CLOCK_SKEW_TOLERANCE_SECS < s" for p s
    using that by (meson order_le_less_trans)
  then show ?thesis
    by (auto simp: resume_offset_def split: option.split)
qed

lemma resume_offset_safe_witness:
  "resume_offset 10 20 (Some 5) (Some 500) 3 = 0 \<and> resume_offset 10 20 (Some 5) (Some 100) 3 \<le> 7"
  using resume_offset_safe [of 10 20 "Some 5" "Some 500" 3] resume_offset_safe [of 10 20 "Some 5" "Some 100" 3]
  by (simp add: CLOCK_SKEW_TOLERANCE_SECS_def)

text \<open>Near the end of the 64-bit range the plain sum wraps, and an unchanged source starts afresh.\<close>

lemma resume_offset_wraps: "resume_offset 10 10 (Some u64_max) (Some u64_max) 0 = 0"
  by (simp add: resume_offset_def wrapping_add_def u64_max_def CLOCK_SKEW_TOLERANCE_SECS_def)

end
