(* ===== verification/Spec2Isabelle.thy ===== *)
theory Spec2Isabelle
  imports Engine_Promises Desk_Safe Keyring_Safe S3_Safe Scp_Safe Dav_Safe Ftp_Safe Sftp_Fs Local_Fs Tui_App Listing Execute_Safe Writer_Safe Search
begin

text \<open>
  The core of TermConnect, a terminal file manager for remote servers.

  \<^item> \<^verbatim>\<open>Queue\<close>: \<^verbatim>\<open>transfer/queue\<close>.
  \<^item> \<^verbatim>\<open>Plan\<close>, \<^verbatim>\<open>Conflicts\<close>, \<^verbatim>\<open>Execute\<close>: \<^verbatim>\<open>transfer\<close>.
  \<^item> \<^verbatim>\<open>Sync\<close>: \<^verbatim>\<open>sync\<close>.
\<close>

end
